(* ===== verification/Prelude.thy ===== *)
theory Prelude
  imports Main "HOL-Library.AList" "HOL-Library.Word" "HOL-Library.Multiset"
    "HOL-Library.Monad_Syntax" "HOL-Library.Char_ord"
begin

text \<open>
  What the components share: the C integer types, the result codes of the
  Pepper API (\<^verbatim>\<open>3rdparty/ppapi/c/pp_errors.h\<close>), the container that stands for a
  GLib hash table, and generic lemmas on lists, association lists and options.

  Conventions of the whole development. A signed C integer is an \<open>int\<close>, an unsigned
  one is a word of its width where its wrap-around can be observed. A function that
  may fail to return (it spins for ever on a mutex, or its behaviour is undefined:
  a NULL or dangling pointer is dereferenced, a handle is used at the wrong type)
  yields an \<open>option\<close>, and \<open>None\<close> is exactly that outcome; error codes are ordinary
  values inside \<open>Some\<close>. State is passed explicitly.
\<close>

section \<open>Machine types\<close>

type_synonym u8 = "8 word"
type_synonym u16 = "16 word"
type_synonym u32 = "32 word"
type_synonym u64 = "64 word"

type_synonym PP_Resource = int
type_synonym PP_Instance = int
type_synonym ptr = nat \<comment> \<open>an address the code only copies and compares; 0 is NULL\<close>

abbreviation (input) INT_MAX :: int where "INT_MAX \<equiv> 2147483647"

section \<open>Result codes\<close>

abbreviation (input) PP_OK :: int where "PP_OK \<equiv> 0"
abbreviation (input) PP_OK_COMPLETIONPENDING :: int where "PP_OK_COMPLETIONPENDING \<equiv> -1"
abbreviation (input) PP_ERROR_FAILED :: int where "PP_ERROR_FAILED \<equiv> -2"
abbreviation (input) PP_ERROR_ABORTED :: int where "PP_ERROR_ABORTED \<equiv> -3"
abbreviation (input) PP_ERROR_BADARGUMENT :: int where "PP_ERROR_BADARGUMENT \<equiv> -4"
abbreviation (input) PP_ERROR_BADRESOURCE :: int where "PP_ERROR_BADRESOURCE \<equiv> -5"
abbreviation (input) PP_ERROR_NOACCESS :: int where "PP_ERROR_NOACCESS \<equiv> -7"
abbreviation (input) PP_ERROR_NOMEMORY :: int where "PP_ERROR_NOMEMORY \<equiv> -8"
abbreviation (input) PP_ERROR_INPROGRESS :: int where "PP_ERROR_INPROGRESS \<equiv> -11"
abbreviation (input) PP_ERROR_FILENOTFOUND :: int where "PP_ERROR_FILENOTFOUND \<equiv> -20"
abbreviation (input) PP_ERROR_WRONG_THREAD :: int where "PP_ERROR_WRONG_THREAD \<equiv> -52"
abbreviation (input) PP_ERROR_CONNECTION_CLOSED :: int where "PP_ERROR_CONNECTION_CLOSED \<equiv> -100"
abbreviation (input) PP_ERROR_CONNECTION_RESET :: int where "PP_ERROR_CONNECTION_RESET \<equiv> -101"
abbreviation (input) PP_ERROR_CONNECTION_REFUSED :: int where "PP_ERROR_CONNECTION_REFUSED \<equiv> -102"
abbreviation (input) PP_ERROR_CONNECTION_TIMEDOUT :: int where "PP_ERROR_CONNECTION_TIMEDOUT \<equiv> -105"
abbreviation (input) PP_ERROR_ADDRESS_UNREACHABLE :: int where "PP_ERROR_ADDRESS_UNREACHABLE \<equiv> -107"
abbreviation (input) PP_ERROR_ADDRESS_IN_USE :: int where "PP_ERROR_ADDRESS_IN_USE \<equiv> -108"
abbreviation (input) PP_ERROR_NAME_NOT_RESOLVED :: int where "PP_ERROR_NAME_NOT_RESOLVED \<equiv> -110"

section \<open>Hash tables\<close>

text \<open>
  A \<^verbatim>\<open>GHashTable\<close> is an association list with at most one pair for a key. The three
  operations below are those of GLib the code calls: \<^verbatim>\<open>g_hash_table_lookup\<close> (NULL is
  \<open>None\<close>), \<^verbatim>\<open>g_hash_table_insert\<close> or \<^verbatim>\<open>_replace\<close>, and \<^verbatim>\<open>g_hash_table_remove\<close>.
\<close>

type_synonym ('k, 'v) hash_table = "('k \<times> 'v) list"

definition ht_lookup :: "('k, 'v) hash_table \<Rightarrow> 'k \<Rightarrow> 'v option" where
  "ht_lookup t k = map_of t k"

definition ht_insert :: "'k \<Rightarrow> 'v \<Rightarrow> ('k, 'v) hash_table \<Rightarrow> ('k, 'v) hash_table" where
  "ht_insert k v t = AList.update k v t"

definition ht_remove :: "'k \<Rightarrow> ('k, 'v) hash_table \<Rightarrow> ('k, 'v) hash_table" where
  "ht_remove k t = AList.delete k t"

definition ht_ok :: "('k, 'v) hash_table \<Rightarrow> bool" where
  "ht_ok t \<longleftrightarrow> distinct (map fst t)"

lemma ht_lookup_Nil [simp]: "ht_lookup [] k = None"
  by (simp add: ht_lookup_def)

lemma ht_lookup_Cons [simp]:
  "ht_lookup ((k, v) # t) k' = (if k = k' then Some v else ht_lookup t k')"
  by (simp add: ht_lookup_def)

lemma ht_lookup_insert [simp]:
  "ht_lookup (ht_insert k v t) k' = (if k = k' then Some v else ht_lookup t k')"
  by (simp add: ht_lookup_def ht_insert_def update_conv)

lemma ht_lookup_remove [simp]:
  "ht_lookup (ht_remove k t) k' = (if k = k' then None else ht_lookup t k')"
  by (simp add: ht_lookup_def ht_remove_def delete_conv)

lemma ht_ok_Nil [simp]: "ht_ok []"
  by (simp add: ht_ok_def)

lemma ht_ok_insert [simp]: "ht_ok t \<Longrightarrow> ht_ok (ht_insert k v t)"
  by (simp add: ht_ok_def ht_insert_def distinct_update)

lemma ht_ok_remove [simp]: "ht_ok t \<Longrightarrow> ht_ok (ht_remove k t)"
  by (simp add: ht_ok_def ht_remove_def distinct_delete)

lemma ht_insert_Nil [simp]: "ht_insert k v [] = [(k, v)]"
  by (simp add: ht_insert_def)

lemma ht_insert_Cons [simp]:
  "ht_insert k v (p # t) = (if fst p = k then (k, v) # t else p # ht_insert k v t)"
  by (cases p) (simp add: ht_insert_def)

lemma ht_remove_Nil [simp]: "ht_remove k [] = []"
  by (simp add: ht_remove_def)

lemma ht_remove_Cons [simp]:
  "ht_remove k (p # t) = (if fst p = k then ht_remove k t else p # ht_remove k t)"
  by (cases p) (simp add: ht_remove_def)

lemma ht_remove_absent: "ht_lookup t k = None \<Longrightarrow> ht_remove k t = t"
  by (induction t) (auto split: if_splits)

lemma length_ht_remove_le: "length (ht_remove k t) \<le> length t"
  by (induction t) auto

lemma length_ht_remove_less:
  "ht_lookup t k = Some v \<Longrightarrow> length (ht_remove k t) < length t"
proof (induction t)
  case (Cons p t)
  then show ?case
    using length_ht_remove_le [of k t] by (cases p) (auto split: if_splits)
qed simp

lemma ht_insert_absent: "ht_lookup t k = None \<Longrightarrow> ht_insert k v t = t @ [(k, v)]"
  by (induction t) (auto split: if_splits)

lemma ht_insert_same: "ht_lookup t k = Some v \<Longrightarrow> ht_insert k v t = t"
  by (induction t) (auto split: if_splits)

lemma ht_insert_twice [simp]: "ht_insert k v (ht_insert k u t) = ht_insert k v t"
  by (induction t) auto

lemma length_ht_insert_present:
  "ht_lookup t k = Some u \<Longrightarrow> length (ht_insert k v t) = length t"
  by (induction t) (auto split: if_splits)

lemma ht_remove_insert [simp]: "ht_remove k (ht_insert k v t) = ht_remove k t"
  by (induction t) auto

lemma ht_insert_commute:
  "\<lbrakk>k \<noteq> k'; ht_lookup t k \<noteq> None\<rbrakk> \<Longrightarrow>
    ht_insert k v (ht_insert k' v' t) = ht_insert k' v' (ht_insert k v t)"
  by (induction t) auto

lemma ht_lookup_ht_ok:
  "ht_ok t \<Longrightarrow> ht_lookup t k = Some v \<longleftrightarrow> (k, v) \<in> set t"
  by (simp add: ht_ok_def ht_lookup_def map_of_eq_Some_iff)

text \<open>The documented contract of the table, as the interface its clients use.\<close>

locale g_hash_table =
  fixes empty :: 't
    and lookup :: "'t \<Rightarrow> 'k \<Rightarrow> 'v option"
    and insert :: "'k \<Rightarrow> 'v \<Rightarrow> 't \<Rightarrow> 't"
    and remove :: "'k \<Rightarrow> 't \<Rightarrow> 't"
    and ok :: "'t \<Rightarrow> bool"
  assumes lookup_empty: "lookup empty k = None"
    and lookup_insert: "lookup (insert k v t) k' = (if k = k' then Some v else lookup t k')"
    and lookup_remove: "lookup (remove k t) k' = (if k = k' then None else lookup t k')"
    and ok_empty: "ok empty"
    and ok_insert: "ok t \<Longrightarrow> ok (insert k v t)"
    and ok_remove: "ok t \<Longrightarrow> ok (remove k t)"
begin

text \<open>A batch of insertions (the tables the constructors fill): the last one for a key wins.\<close>

definition insert_all :: "('k \<times> 'v) list \<Rightarrow> 't \<Rightarrow> 't" where
  "insert_all kvs t = fold (\<lambda>(k, v). insert k v) kvs t"

lemma insert_all_simps [simp]:
  "insert_all [] t = t"
  "insert_all (p # ps) t = insert_all ps (insert (fst p) (snd p) t)"
  by (simp_all add: insert_all_def split: prod.splits)

lemma ok_insert_all: "ok t \<Longrightarrow> ok (insert_all kvs t)"
  by (induction kvs arbitrary: t) (auto intro: ok_insert)

lemma lookup_insert_all:
  "lookup (insert_all kvs t) k =
     (case map_of (rev kvs) k of Some v \<Rightarrow> Some v | None \<Rightarrow> lookup t k)"
  by (induction kvs arbitrary: t)
    (auto simp: lookup_insert map_add_def split: option.splits)

end

interpretation ht: g_hash_table "[]" ht_lookup ht_insert ht_remove ht_ok
  by unfold_locales simp_all

section \<open>Words and characters\<close>

lemma unat_u32_less [simp]: "unat (x :: u32) < 4294967296"
  using unsigned_less [of x, where 'a = nat] by simp

definition isspace :: "char \<Rightarrow> bool" where
  "isspace c \<longleftrightarrow> c = CHR '' '' \<or> (9 \<le> (of_char c :: nat) \<and> (of_char c :: nat) \<le> 13)"

definition isdigit :: "char \<Rightarrow> bool" where
  "isdigit c \<longleftrightarrow> 48 \<le> (of_char c :: nat) \<and> (of_char c :: nat) \<le> 57"

definition isupper :: "char \<Rightarrow> bool" where
  "isupper c \<longleftrightarrow> 65 \<le> (of_char c :: nat) \<and> (of_char c :: nat) \<le> 90"

definition islower :: "char \<Rightarrow> bool" where
  "islower c \<longleftrightarrow> 97 \<le> (of_char c :: nat) \<and> (of_char c :: nat) \<le> 122"

definition to_lower :: "char \<Rightarrow> char" where
  "to_lower c = (if isupper c then char_of (of_char c + 32 :: nat) else c)"

lemma ascii_case:
  "isupper c \<Longrightarrow> islower (to_lower c)" "islower c \<Longrightarrow> to_lower c = c"
  "isdigit c \<Longrightarrow> to_lower c = c" "\<not> isupper c \<Longrightarrow> to_lower c = c"
  by (auto simp: to_lower_def isupper_def islower_def isdigit_def)

lemma case_disjoint:
  "isdigit c \<Longrightarrow> \<not> isupper c \<and> \<not> islower c" "isupper c \<Longrightarrow> \<not> islower c"
  by (auto simp: isupper_def islower_def isdigit_def)

lemma to_lower_idem [simp]: "to_lower (to_lower c) = to_lower c"
  by (cases "isupper c") (simp_all add: ascii_case)

definition NUL :: char where
  "NUL = CHR 0x00"

text \<open>The bytes a C function sees of a buffer it reads as a string.\<close>

definition c_str :: "char list \<Rightarrow> char list" where
  "c_str s = takeWhile (\<lambda>c. c \<noteq> NUL) s"

lemma c_str_append_NUL [simp]: "NUL \<notin> set s \<Longrightarrow> c_str (s @ NUL # t) = s"
  unfolding c_str_def by (induction s) auto

lemma NUL_notin_c_str [simp]: "NUL \<notin> set (c_str s)"
  using set_takeWhileD [of NUL "\<lambda>c. c \<noteq> NUL" s] by (auto simp: c_str_def)

end
