(* ===== verification/Refcount.thy ===== *)
theory Refcount
  imports Prelude
begin

text \<open>
  Reference counting in general. Two tables of the program are reference counted, the
  resources of \<^verbatim>\<open>pp_resource.c\<close> and the variables of \<^verbatim>\<open>ppb_var.c\<close>; in both, the
  destruction of an entry releases the entries it holds, which may destroy these in
  turn. This theory states that discipline once, on a table whose entries have a count
  and a list of the keys they hold, and proves what both tables rest on: counts that
  agree with the references that exist keep agreeing, so that nothing held is ever
  freed and nothing unheld stays.
\<close>

section \<open>The discipline\<close>

text \<open>One reference more.\<close>

definition rc_add ::
  "('e \<Rightarrow> int) \<Rightarrow> (int \<Rightarrow> 'e \<Rightarrow> 'e) \<Rightarrow> 'k \<Rightarrow> ('k, 'e) hash_table \<Rightarrow> ('k, 'e) hash_table" where
  "rc_add rc set_rc k t =
     (case ht_lookup t k of
        None \<Rightarrow> t
      | Some e \<Rightarrow> ht_insert k (set_rc (rc e + 1) e) t)"

text \<open>
  Give up the references of a work list. An entry whose count drops to zero leaves the
  table, and the keys it held are given up next, before the rest of the list.
\<close>

function rc_release ::
  "('e \<Rightarrow> int) \<Rightarrow> (int \<Rightarrow> 'e \<Rightarrow> 'e) \<Rightarrow> ('e \<Rightarrow> 'k list) \<Rightarrow> 'k list \<Rightarrow>
   ('k, 'e) hash_table \<Rightarrow> ('k, 'e) hash_table" where
  "rc_release rc set_rc kids [] t = t"
| "rc_release rc set_rc kids (k # ks) t =
     (case ht_lookup t k of
        None \<Rightarrow> rc_release rc set_rc kids ks t
      | Some e \<Rightarrow>
          if rc e - 1 \<le> 0 then rc_release rc set_rc kids (kids e @ ks) (ht_remove k t)
          else rc_release rc set_rc kids ks (ht_insert k (set_rc (rc e - 1) e) t))"
  by pat_completeness auto
termination
  by (relation "measures [\<lambda>(rc, set_rc, kids, ks, t). length t, \<lambda>(rc, set_rc, kids, ks, t). length ks]")
    (auto simp: length_ht_remove_less length_ht_insert_present)

text \<open>The order its recursion follows: the table shrinks, or the work list does.\<close>

lemma worklist_induct [case_names step]:
  fixes P :: "'k list \<Rightarrow> ('k, 'e) hash_table \<Rightarrow> bool"
  assumes "\<And>ks t. (\<And>ks' t'. length t' < length t \<Longrightarrow> P ks' t') \<Longrightarrow>
    (\<And>ks' t'. length t' = length t \<Longrightarrow> length ks' < length ks \<Longrightarrow> P ks' t') \<Longrightarrow> P ks t"
  shows "P ks t"
proof (induction "(ks, t)" arbitrary: ks t
    rule: wf_induct_rule [OF wf_measures [of "[\<lambda>(ks, t). length t, \<lambda>(ks, t). length ks]"]])
  case (1 ks t)
  show ?case by (rule assms) (auto intro: 1)
qed

section \<open>Balance\<close>

text \<open>
  \<open>held\<close> collects every reference that entries of the table hold; \<open>ext\<close> are the
  references held from outside. The table is balanced when every count is the number of
  references to its entry, at least one, and no reference points nowhere.
\<close>

fun held :: "('e \<Rightarrow> 'j list) \<Rightarrow> ('k, 'e) hash_table \<Rightarrow> 'j multiset" where
  "held kids [] = {#}"
| "held kids ((k, e) # t) = mset (kids e) + held kids t"

definition rc_at :: "('e \<Rightarrow> int) \<Rightarrow> ('k, 'e) hash_table \<Rightarrow> 'k \<Rightarrow> int" where
  "rc_at rc t k = (case ht_lookup t k of None \<Rightarrow> 0 | Some e \<Rightarrow> rc e)"

definition balanced ::
  "('e \<Rightarrow> int) \<Rightarrow> ('e \<Rightarrow> 'k list) \<Rightarrow> 'k multiset \<Rightarrow> ('k, 'e) hash_table \<Rightarrow> bool" where
  "balanced rc kids ext t \<longleftrightarrow> ht_ok t \<and>
     (\<forall>k. rc_at rc t k = int (count (ext + held kids t) k)) \<and>
     (\<forall>k e. ht_lookup t k = Some e \<longrightarrow> 0 < rc e)"

lemma rc_at_insert [simp]: "rc_at rc (ht_insert k e t) k' = (if k = k' then rc e else rc_at rc t k')"
  by (simp add: rc_at_def)

lemma rc_at_remove [simp]: "rc_at rc (ht_remove k t) k' = (if k = k' then 0 else rc_at rc t k')"
  by (simp add: rc_at_def)

lemma balancedI:
  "\<lbrakk>ht_ok t; \<And>k. rc_at rc t k = int (count (ext + held kids t) k);
    \<And>k e. ht_lookup t k = Some e \<Longrightarrow> 0 < rc e\<rbrakk> \<Longrightarrow> balanced rc kids ext t"
  by (simp add: balanced_def)

lemma balancedD_ok: "balanced rc kids ext t \<Longrightarrow> ht_ok t"
  by (simp add: balanced_def)

lemma balancedD_pos: "balanced rc kids ext t \<Longrightarrow> ht_lookup t k = Some e \<Longrightarrow> 0 < rc e"
  by (auto simp: balanced_def)

lemma balancedD_rc_at:
  "balanced rc kids ext t \<Longrightarrow> rc_at rc t k = int (count (ext + held kids t) k)"
  by (auto simp: balanced_def)

lemma balancedD_Some:
  "balanced rc kids ext t \<Longrightarrow> ht_lookup t k = Some e \<Longrightarrow>
    rc e = int (count (ext + held kids t) k)"
  using balancedD_rc_at [of rc kids ext t k] by (simp add: rc_at_def)

lemma balancedD_None:
  "balanced rc kids ext t \<Longrightarrow> ht_lookup t k = None \<Longrightarrow> count (ext + held kids t) k = 0"
  using balancedD_rc_at [of rc kids ext t k] by (simp add: rc_at_def)

text \<open>Whoever holds a reference finds the entry.\<close>

lemma balanced_live:
  assumes "balanced rc kids ext t" "k \<in># ext + held kids t"
  obtains e where "ht_lookup t k = Some e" "0 < rc e"
  using assms(2) balancedD_None [OF assms(1)] balancedD_pos [OF assms(1)]
  by (metis not_in_iff option.exhaust)

lemma held_insert_same:
  "ht_lookup t k = Some e \<Longrightarrow> kids e' = kids e \<Longrightarrow> held kids (ht_insert k e' t) = held kids t"
  by (induction t) (auto split: if_splits)

lemma held_insert_new:
  "ht_lookup t k = None \<Longrightarrow> held kids (ht_insert k e t) = held kids t + mset (kids e)"
  by (induction t) (auto split: if_splits)

lemma held_insert_update:
  "ht_lookup t k = Some e \<Longrightarrow> ht_ok t \<Longrightarrow>
    held kids (ht_insert k e' t) + mset (kids e) = held kids t + mset (kids e')"
  by (induction t) (auto simp: ht_ok_def split: if_splits)

lemma held_remove:
  "ht_lookup t k = Some e \<Longrightarrow> ht_ok t \<Longrightarrow>
    held kids t = held kids (ht_remove k t) + mset (kids e)"
proof (induction t)
  case (Cons p t)
  obtain k' e' where p: "p = (k', e')" by (cases p)
  show ?case
  proof (cases "k' = k")
    case True
    with Cons.prems(2) p have "ht_lookup t k = None"
      by (auto simp: ht_ok_def ht_lookup_def map_of_eq_None_iff)
    with True Cons.prems p show ?thesis by (simp add: ht_remove_absent)
  next
    case False
    with Cons p show ?thesis by (auto simp: ht_ok_def)
  qed
qed simp

lemma held_memI: "ht_lookup t k = Some e \<Longrightarrow> j \<in> set (kids e) \<Longrightarrow> j \<in># held kids t"
  by (induction t) (auto split: if_splits)

section \<open>The laws, once for both tables\<close>

locale refcounted =
  fixes rc :: "'e \<Rightarrow> int"
    and set_rc :: "int \<Rightarrow> 'e \<Rightarrow> 'e"
    and kids :: "'e \<Rightarrow> 'k list"
  assumes rc_set_rc [simp]: "rc (set_rc n e) = n"
    and set_rc_set_rc [simp]: "set_rc n (set_rc m e) = set_rc n e"
    and set_rc_rc [simp]: "set_rc (rc e) e = e"
    and kids_set_rc [simp]: "kids (set_rc n e) = kids e"
begin

lemma balanced_empty: "balanced rc kids {#} []"
  by (simp add: balanced_def rc_at_def)

lemma balanced_new:
  assumes b: "balanced rc kids ext t" and new: "ht_lookup t k = None"
    and e: "rc e = 1" "kids e = []"
  shows "balanced rc kids (add_mset k ext) (ht_insert k e t)"
proof (rule balancedI)
  show "ht_ok (ht_insert k e t)"
    using b by (simp add: balancedD_ok)
  show "0 < rc e'" if "ht_lookup (ht_insert k e t) k' = Some e'" for k' e'
    using that e balancedD_pos [OF b] by (auto split: if_splits)
  have "held kids (ht_insert k e t) = held kids t"
    using new e by (simp add: held_insert_new)
  then show "rc_at rc (ht_insert k e t) k' =
      int (count (add_mset k ext + held kids (ht_insert k e t)) k')" for k'
    using balancedD_rc_at [OF b, of k'] balancedD_None [OF b new] e by auto
qed

text \<open>An entry whose count and held keys are replaced.\<close>

lemma balanced_update:
  assumes b: "balanced rc kids ext t" and k: "ht_lookup t k = Some e" and pos: "0 < rc e'"
    and step: "\<And>k'. int (count (ext' + mset (kids e')) k') =
      int (count (ext + mset (kids e)) k') + (if k' = k then rc e' - rc e else 0)"
  shows "balanced rc kids ext' (ht_insert k e' t)"
proof (rule balancedI)
  show "ht_ok (ht_insert k e' t)"
    using b by (simp add: balancedD_ok)
  show "0 < rc d" if "ht_lookup (ht_insert k e' t) k' = Some d" for k' d
    using that pos balancedD_pos [OF b] by (auto split: if_splits)
  fix k'
  have "count (held kids (ht_insert k e' t)) k' + count (mset (kids e)) k' =
      count (held kids t) k' + count (mset (kids e')) k'"
    using held_insert_update [OF k balancedD_ok [OF b], of kids e'] by (metis count_union)
  then show "rc_at rc (ht_insert k e' t) k' =
      int (count (ext' + held kids (ht_insert k e' t)) k')"
    using step [of k'] balancedD_rc_at [OF b, of k'] balancedD_Some [OF b k]
    by (auto split: if_splits)
qed

lemma balanced_add:
  assumes "balanced rc kids ext t" and k: "ht_lookup t k = Some e"
  shows "balanced rc kids (add_mset k ext) (rc_add rc set_rc k t)"
  unfolding rc_add_def using k balancedD_pos [OF assms]
  by (auto intro: balanced_update [OF assms])

text \<open>Replacing an entry: the references it gains are taken over from outside, the ones it
  drops become outside references again.\<close>

lemma balanced_replace:
  assumes "balanced rc kids (ext + mset (kids e')) t" and "ht_lookup t k = Some e"
    and "rc e' = rc e"
  shows "balanced rc kids (ext + mset (kids e)) (ht_insert k e' t)"
  using assms(3) balancedD_pos [OF assms(1,2)]
  by (auto intro: balanced_update [OF assms(1,2)])

lemma balanced_drop_last:
  assumes b: "balanced rc kids (add_mset k ext) t" and k: "ht_lookup t k = Some e"
    and last: "rc e - 1 \<le> 0"
  shows "balanced rc kids (ext + mset (kids e)) (ht_remove k t)"
proof (rule balancedI)
  show "ht_ok (ht_remove k t)"
    using b by (simp add: balancedD_ok)
  show "0 < rc d" if "ht_lookup (ht_remove k t) k' = Some d" for k' d
    using that balancedD_pos [OF b] by (auto split: if_splits)
  have one: "rc e = 1"
    using balancedD_pos [OF b k] last by simp
  fix k'
  have "count (held kids t) k' = count (held kids (ht_remove k t)) k' + count (mset (kids e)) k'"
    using held_remove [OF k balancedD_ok [OF b], of kids] by simp
  then show "rc_at rc (ht_remove k t) k' =
      int (count (ext + mset (kids e) + held kids (ht_remove k t)) k')"
    using balancedD_rc_at [OF b, of k'] balancedD_Some [OF b k] one
    by (auto split: if_splits)
qed

lemma balanced_drop:
  assumes "balanced rc kids (add_mset k ext) t" and "ht_lookup t k = Some e"
    and "\<not> rc e - 1 \<le> 0"
  shows "balanced rc kids ext (ht_insert k (set_rc (rc e - 1) e) t)"
  using assms(3) by (auto intro: balanced_update [OF assms(1,2)])

text \<open>
  The main law. Giving up the references of \<open>ks\<close>, which somebody outside holds, leaves a
  table that is balanced for the references that remain.
\<close>

lemma balanced_release:
  "balanced rc kids (ext + mset ks) t \<Longrightarrow> balanced rc kids ext (rc_release rc set_rc kids ks t)"
proof (induction ks t rule: worklist_induct)
  case (step ks t)
  show ?case
  proof (cases ks)
    case Nil
    with step.prems show ?thesis by simp
  next
    case (Cons k ks')
    then have b: "balanced rc kids (add_mset k (ext + mset ks')) t"
      using step.prems by simp
    then obtain e where e: "ht_lookup t k = Some e"
      by (rule balanced_live [where k = k]) auto
    show ?thesis
    proof (cases "rc e - 1 \<le> 0")
      case True
      from balanced_drop_last [OF b e True]
      have "balanced rc kids (ext + mset (kids e @ ks')) (ht_remove k t)"
        by (simp add: ac_simps)
      with step.IH(1) [of "ht_remove k t" "kids e @ ks'"] Cons e True show ?thesis
        by (simp add: length_ht_remove_less)
    next
      case False
      from balanced_drop [OF b e False] step.IH(2) [of "ht_insert k (set_rc (rc e - 1) e) t" ks']
        Cons e False
      show ?thesis by (simp add: length_ht_insert_present)
    qed
  qed
qed

text \<open>So an entry that somebody still refers to survives.\<close>

lemma release_keeps_live:
  assumes "balanced rc kids (ext + mset ks) t" and "k \<in># ext"
  shows "ht_lookup (rc_release rc set_rc kids ks t) k \<noteq> None"
proof -
  have "k \<in># ext + held kids (rc_release rc set_rc kids ks t)"
    using assms(2) by simp
  with balanced_release [OF assms(1)] show ?thesis
    by (metis balanced_live option.distinct(1))
qed

text \<open>Only counts change: an entry that survives is the old one but for its count.\<close>

lemma release_survivor:
  "ht_lookup (rc_release rc set_rc kids ks t) k = Some e' \<Longrightarrow>
    \<exists>e. ht_lookup t k = Some e \<and> e' = set_rc (rc e') e"
proof (induction ks t arbitrary: e' rule: worklist_induct)
  case (step ks t)
  show ?case
  proof (cases ks)
    case Nil
    with step.prems show ?thesis by simp
  next
    case (Cons j ks')
    show ?thesis
    proof (cases "ht_lookup t j")
      case None
      with Cons step.prems step.IH(2) [of t ks'] show ?thesis by simp
    next
      case (Some d)
      show ?thesis
      proof (cases "rc d - 1 \<le> 0")
        case True
        then show ?thesis
          using Some Cons step.prems step.IH(1) [of "ht_remove j t" "kids d @ ks'" e']
          by (auto simp: length_ht_remove_less split: if_splits)
      next
        case False
        then have "\<exists>e. ht_lookup (ht_insert j (set_rc (rc d - 1) d) t) k = Some e \<and> e' = set_rc (rc e') e"
          using Some Cons step.prems step.IH(2) [of "ht_insert j (set_rc (rc d - 1) d) t" ks' e']
          by (simp add: length_ht_insert_present)
        with Some show ?thesis by (auto split: if_splits)
      qed
    qed
  qed
qed

text \<open>And when nobody outside holds anything and no entry holds another, the table is empty.\<close>

lemma release_all_frees:
  assumes "balanced rc kids (mset ks) t"
    and "held kids (rc_release rc set_rc kids ks t) = {#}"
  shows "rc_release rc set_rc kids ks t = []"
proof (rule ccontr)
  let ?t = "rc_release rc set_rc kids ks t"
  have b: "balanced rc kids {#} ?t"
    using balanced_release [of "{#}" ks t] assms(1) by simp
  assume "?t \<noteq> []"
  then obtain k e t' where "?t = (k, e) # t'"
    by (metis list.exhaust surj_pair)
  then have "ht_lookup ?t k = Some e" by simp
  with b assms(2) show False
    using balancedD_Some [OF b] balancedD_pos [OF b] by fastforce
qed

text \<open>A reference taken and given back leaves the table as it was.\<close>

lemma release_add:
  assumes "ht_lookup t k = Some e" and "0 < rc e"
  shows "rc_release rc set_rc kids [k] (rc_add rc set_rc k t) = t"
  using assms by (simp add: rc_add_def ht_insert_same)

end

end
