(* ===== verification/Data_Model.thy ===== *)
theory Data_Model
  imports Refcount
begin

text \<open>
  The data of the program: the Pepper variables (\<^verbatim>\<open>struct PP_Var\<close>, \<^verbatim>\<open>struct var_s\<close>), the
  structures that live in the resource table (\<^verbatim>\<open>COMMON_STRUCTURE_FIELDS\<close> and what each
  resource type adds to them), the plugin instance, and the record of the program's
  global variables. A structure of the C code is a record with the same fields in the
  same order, less the fields no modelled operation reads or writes. Floating point
  numbers are only stored and handed out, so they are the bit patterns.
\<close>

type_synonym float_bits = u32
type_synonym double_bits = u64
type_synonym PP_TimeTicks = double_bits

section \<open>Variables\<close>

datatype PP_Var =
    VUndefined | VNull | VBool bool | VInt32 int | VDouble double_bits
  | VString u32 | VObject u32 | VArray u32 | VDictionary u32 | VArrayBuffer u32 | VResource u32

datatype obj_class = Class_n2p_proxy | Class_other ptr

text \<open>
  \<^verbatim>\<open>struct var_s\<close>: the count and, of its five groups of fields, the one that the variable's
  type uses. \<open>VB_Str len data\<close> holds the length and the bytes (with the terminator),
  \<open>VB_Abuf len data map_addr\<close> the array buffer with the mapped copy, if mapped.
\<close>

datatype var_body =
    VB_Str u32 "char list"
  | VB_Obj obj_class ptr
  | VB_Abuf u32 "char list" "char list option"
  | VB_Dict "(string, PP_Var) hash_table"
  | VB_Array "PP_Var list"

record var_s =
  vs_var :: PP_Var
  vs_ref_count :: int
  vs_body :: var_body

section \<open>Resource types\<close>

datatype pp_resource_type_e =
    PP_RESOURCE_UNKNOWN | PP_RESOURCE_URL_LOADER | PP_RESOURCE_URL_REQUEST_INFO
  | PP_RESOURCE_URL_RESPONSE_INFO | PP_RESOURCE_VIEW | PP_RESOURCE_GRAPHICS3D
  | PP_RESOURCE_IMAGE_DATA | PP_RESOURCE_GRAPHICS2D | PP_RESOURCE_NETWORK_MONITOR
  | PP_RESOURCE_BROWSER_FONT | PP_RESOURCE_AUDIO_CONFIG | PP_RESOURCE_AUDIO
  | PP_RESOURCE_INPUT_EVENT | PP_RESOURCE_FLASH_FONT_FILE | PP_RESOURCE_PRINTING
  | PP_RESOURCE_VIDEO_CAPTURE | PP_RESOURCE_AUDIO_INPUT | PP_RESOURCE_FLASH_MENU
  | PP_RESOURCE_FLASH_MESSAGE_LOOP | PP_RESOURCE_TCP_SOCKET | PP_RESOURCE_FILE_REF
  | PP_RESOURCE_FILE_IO | PP_RESOURCE_MESSAGE_LOOP | PP_RESOURCE_FLASH_DRM
  | PP_RESOURCE_VIDEO_DECODER | PP_RESOURCE_BUFFER | PP_RESOURCE_FILE_CHOOSER
  | PP_RESOURCE_UDP_SOCKET | PP_RESOURCE_X509_CERTIFICATE | PP_RESOURCE_FONT
  | PP_RESOURCE_DEVICE_REF | PP_RESOURCE_HOST_RESOLVER | PP_RESOURCE_NET_ADDRESS

section \<open>The structures of the resources\<close>

record PP_CompletionCallback =
  ccb_func :: ptr
  ccb_user_data :: ptr
  ccb_flags :: int

record timespec =
  tv_sec :: int
  tv_nsec :: int

record message_loop_task_s =
  mt_when :: timespec
  mt_terminate :: bool
  mt_depth :: int
  mt_ccb :: PP_CompletionCallback
  mt_result_to_pass :: int
  mt_should_destroy_ml :: bool

record pp_message_loop_s =
  ml_async_q :: "message_loop_task_s list" \<comment> \<open>front first\<close>
  ml_int_q :: "message_loop_task_s list" \<comment> \<open>the tree, in key order\<close>
  ml_running :: bool
  ml_teardown :: bool
  ml_depth :: int

record pp_audio_config_s =
  ac_sample_rate :: int
  ac_sample_frame_count :: u32

record pp_buffer_s =
  bf_data :: "char list"
  bf_len :: u32

record PP_Point =
  pt_x :: int
  pt_y :: int

record PP_FloatPoint =
  fp_x :: float_bits
  fp_y :: float_bits

record PP_Rect =
  rc_point :: PP_Point
  rc_width :: int
  rc_height :: int

record PP_NetAddress_Private =
  na_size :: u32
  na_data :: "u8 list" \<comment> \<open>128 bytes\<close>

record pp_input_event_s =
  ie_event_class :: u32
  ie_type :: int
  ie_time_stamp :: PP_TimeTicks
  ie_modifiers :: u32
  ie_mouse_button :: int
  ie_mouse_position :: PP_Point
  ie_click_count :: int
  ie_mouse_movement :: PP_Point
  ie_wheel_delta :: PP_FloatPoint
  ie_wheel_ticks :: PP_FloatPoint
  ie_scroll_by_page :: bool
  ie_key_code :: u32
  ie_code :: PP_Var
  ie_text :: PP_Var
  ie_segment_number :: u32
  ie_segment_offsets :: "u32 list option" \<comment> \<open>\<open>None\<close> is NULL\<close>
  ie_target_segment :: int
  ie_selection_start :: u32
  ie_selection_end :: u32

datatype pp_request_method_e = PP_METHOD_UNKNOWN | PP_METHOD_GET | PP_METHOD_POST

record post_data_item_s =
  pdi_data :: "char list"
  pdi_len :: u64
  pdi_file_ref :: PP_Resource
  pdi_start_offset :: int
  pdi_number_of_bytes :: int
  pdi_expected_last_modified_time :: double_bits

record pp_url_request_info_s =
  ri_method :: pp_request_method_e
  ri_url :: "string option"
  ri_headers :: "string option"
  ri_is_immediate_javascript :: bool
  ri_stream_to_file :: bool
  ri_follow_redirects :: bool
  ri_record_download_progress :: bool
  ri_record_upload_progress :: bool
  ri_custom_referrer_url :: "string option"
  ri_allow_cross_origin_requests :: bool
  ri_allow_credentials :: bool
  ri_custom_content_transfer_encoding :: "string option"
  ri_prefetch_buffer_upper_threshold :: int
  ri_prefetch_buffer_lower_threshold :: int
  ri_custom_user_agent :: "string option"
  ri_post_data :: "post_data_item_s list option"

datatype file_ref_type_e = PP_FILE_REF_TYPE_NAME | PP_FILE_REF_TYPE_FD

record pp_file_ref_s =
  fr_fd :: int
  fr_path :: "string option"
  fr_type :: file_ref_type_e

text \<open>
  A surface of cairo lies over the bytes that stand beside it in the structure; of its own it has
  the width, height and stride it was made with. \<open>None\<close> is a NULL pointer.
\<close>

record cairo_surface =
  sf_width :: int
  sf_height :: int
  sf_stride :: int

record pp_image_data_s =
  id_width :: int
  id_height :: int
  id_stride :: int
  id_data :: "char list"
  id_format :: int
  id_cairo_surf :: "cairo_surface option"

record url_loader_read_task_s =
  rt_url_loader :: PP_Resource
  rt_buffer :: ptr
  rt_bytes_to_read :: int
  rt_ccb :: PP_CompletionCallback
  rt_ccb_ml :: PP_Resource

record pp_url_loader_s =
  ul_status_line :: "string option"
  ul_headers :: "string option"
  ul_http_code :: int
  ul_fd :: int
  ul_read_pos :: u64
  ul_method :: pp_request_method_e
  ul_url :: "string option"
  ul_redirect_url :: "string option"
  ul_finished_loading :: bool
  ul_response_size :: int
  ul_stream_to_file :: bool
  ul_stream_to_file_ccb :: PP_CompletionCallback
  ul_stream_to_file_ccb_ml :: PP_Resource
  ul_request_headers :: "string option"
  ul_follow_redirects :: bool
  ul_record_download_progress :: bool
  ul_record_upload_progress :: bool
  ul_custom_referrer_url :: "string option"
  ul_allow_cross_origin_requests :: bool
  ul_allow_credentials :: bool
  ul_custom_content_transfer_encoding :: "string option"
  ul_custom_user_agent :: "string option"
  ul_target :: "string option"
  ul_post_data :: "post_data_item_s list option"
  ul_read_tasks :: "url_loader_read_task_s list"
  ul_np_stream :: ptr
  ul_ccb :: PP_CompletionCallback
  ul_ccb_ml :: PP_Resource

record pp_file_io_s =
  fio_fd :: int

record pp_device_ref_s =
  dr_name :: PP_Var
  dr_longname :: PP_Var
  dr_type :: int

record pp_flash_message_loop_s =
  fml_running :: bool
  fml_message_loop :: PP_Resource
  fml_depth :: int

record pp_tcp_socket_s =
  ts_sock :: int
  ts_is_connected :: bool
  ts_destroyed :: bool
  ts_seen_eof :: bool

record pp_udp_socket_s =
  us_sock :: int
  us_bound :: bool
  us_seen_eof :: bool
  us_destroyed :: bool
  us_addr :: PP_NetAddress_Private
  us_addr_from :: PP_NetAddress_Private

record pp_host_resolver_s =
  hr_host :: "string option"
  hr_addrs :: "PP_NetAddress_Private list"
  hr_addr_count :: u32

datatype g2d_paint_task_type_e = Gpt_paint_id | Gpt_replace_contents

record g2d_paint_task_s =
  gpt_type :: g2d_paint_task_type_e
  gpt_image_data :: PP_Resource
  gpt_ofs :: PP_Point
  gpt_src :: "PP_Rect option" \<comment> \<open>set when \<^verbatim>\<open>src_is_set\<close>\<close>

record pp_graphics2d_s =
  g2_is_always_opaque :: bool
  g2_width :: int
  g2_height :: int
  g2_stride :: int
  g2_scale :: double_bits
  g2_external_scale :: double_bits
  g2_scaled_width :: int
  g2_scaled_height :: int
  g2_scaled_stride :: int
  g2_data :: "char list option"
  g2_second_buffer :: "char list option"
  g2_cairo_surf :: "cairo_surface option"
  g2_task_list :: "g2d_paint_task_s list"

text \<open>
  What is kept of a texture that is mapped, and a context. Of the X server's two pixmaps and pictures
  the first is drawn into, the second holds the copy that is shown.
\<close>

record tex_sub_mapping_param_s =
  tm_level :: int
  tm_xoffset :: int
  tm_yoffset :: int
  tm_width :: int
  tm_height :: int
  tm_format :: u32
  tm_type :: u32
  tm_access :: u32

record pp_graphics3d_s =
  g3_glc :: ptr
  g3_fb_config :: ptr
  g3_depth :: int
  g3_glx_pixmap :: ptr
  g3_pixmap :: "ptr \<times> ptr"
  g3_xr_pict :: "ptr \<times> ptr"
  g3_xr_pictfmt :: ptr
  g3_width :: int
  g3_height :: int
  g3_sub_maps :: "(ptr, tex_sub_mapping_param_s) hash_table option"

record pp_video_capture_s =
  vc_fd :: int
  vc_width :: u32
  vc_height :: u32
  vc_fps :: u32
  vc_buffer_size :: nat
  vc_buffer_count :: u32
  vc_buffers :: "PP_Resource list option"
  vc_buffer_is_free :: "bool list option"
  vc_thread_started :: bool
  vc_terminate_thread :: bool
  vc_message_loop :: PP_Resource

record pp_audio_s =
  au_sample_rate :: u32
  au_sample_frame_count :: u32
  au_callback_1_0 :: ptr
  au_callback_1_1 :: ptr
  au_user_data :: ptr
  au_stream :: ptr
  au_is_playing :: bool

record pp_flash_menu_s =
  fm_menu :: ptr

datatype hwdec_api_e = HWDEC_NONE | HWDEC_VAAPI | HWDEC_VDPAU

text \<open>A picture buffer of the decoder; \<open>None\<close> for a number is memory not written yet.\<close>

record decoder_buffer_s =
  db_id :: int
  db_width :: u32
  db_height :: u32
  db_texture_id :: u32
  db_used :: bool
  db_pixmap :: ptr
  db_glx_pixmap :: ptr
  db_target :: "u32 option"
  db_queue :: "u32 option"

text \<open>The two surface tables have 18 and 16 entries; the flags of both are the same 18.\<close>

record pp_video_decoder_s =
  vd_orig_graphics3d :: PP_Resource
  vd_graphics3d :: PP_Resource
  vd_codec_id :: int
  vd_avparser :: ptr
  vd_avctx :: ptr
  vd_avframe :: ptr
  vd_last_consumed_bitstream_buffer_id :: int
  vd_buffer_count :: nat
  vd_buffers :: "decoder_buffer_s list option"
  vd_va_config_id :: u32
  vd_va_context_id :: u32
  vd_vdp_decoder :: u32
  vd_surfaces :: "u32 list"
  vd_vdp_video_surfaces :: "u32 list"
  vd_surface_used :: "bool list"
  vd_vdp_video_mixer :: u32
  vd_vdp_output_surface :: u32
  vd_initialized :: bool
  vd_buffers_were_requested :: bool
  vd_failed_state :: bool
  vd_hwdec_api :: hwdec_api_e

record pp_audio_input_s =
  ai_sample_rate :: u32
  ai_sample_frame_count :: u32
  ai_cb_0_3 :: ptr
  ai_cb_0_4 :: ptr
  ai_cb_user_data :: ptr
  ai_stream :: ptr

text \<open>\<open>xc_cert\<close> is the certificate OpenSSL made, 0 for none.\<close>

record pp_x509_certificate_s =
  xc_cert :: ptr
  xc_raw_data :: "char list option"
  xc_raw_data_length :: u32

record pp_file_chooser_s =
  fc_mode :: int
  fc_accept_types :: PP_Var

record pp_flash_font_file_s =
  fff_font :: ptr
  fff_ft_face :: ptr
  fff_charset :: int

record fpp_font =
  ff_font :: ptr
  ff_font_desc :: ptr
  ff_measure_layout :: ptr
  ff_letter_spacing :: int
  ff_word_spacing :: int
  ff_family :: int

text \<open>
  The structure behind a resource, told apart by its type. \<open>PL_other\<close> stands for the types
  whose own fields no theory here models: it keeps only what their destructors give back,
  the resources and variables they release and the descriptors they close.
\<close>

datatype payload =
    PL_message_loop pp_message_loop_s
  | PL_audio_config pp_audio_config_s
  | PL_buffer pp_buffer_s
  | PL_view PP_Rect
  | PL_net_address PP_NetAddress_Private
  | PL_input_event pp_input_event_s
  | PL_url_request_info pp_url_request_info_s
  | PL_file_ref pp_file_ref_s
  | PL_image_data pp_image_data_s
  | PL_url_loader pp_url_loader_s
  | PL_url_response_info PP_Resource
  | PL_file_io pp_file_io_s
  | PL_device_ref pp_device_ref_s
  | PL_flash_message_loop pp_flash_message_loop_s
  | PL_tcp_socket pp_tcp_socket_s
  | PL_udp_socket pp_udp_socket_s
  | PL_host_resolver pp_host_resolver_s
  | PL_graphics2d pp_graphics2d_s
  | PL_graphics3d pp_graphics3d_s
  | PL_video_capture pp_video_capture_s
  | PL_audio pp_audio_s
  | PL_flash_menu pp_flash_menu_s
  | PL_video_decoder pp_video_decoder_s
  | PL_audio_input pp_audio_input_s
  | PL_x509_certificate pp_x509_certificate_s
  | PL_file_chooser pp_file_chooser_s
  | PL_flash_font_file pp_flash_font_file_s
  | PL_browser_font fpp_font
  | PL_font fpp_font
  | PL_other "PP_Resource list" "PP_Var list" "int list"

record pp_resource_s =
  r_resource_type :: pp_resource_type_e
  r_ref_cnt :: int
  r_instance :: "PP_Instance option" \<comment> \<open>the instance pointed to, \<open>None\<close> for NULL\<close>
  r_self_id :: PP_Resource
  r_locked :: bool
  r_payload :: payload

section \<open>All bits zero\<close>

text \<open>\<^verbatim>\<open>g_slice_alloc0\<close> hands out zeroed memory: what each structure then says.\<close>

definition zero_point :: PP_Point where
  "zero_point = \<lparr>pt_x = 0, pt_y = 0\<rparr>"

definition zero_float_point :: PP_FloatPoint where
  "zero_float_point = \<lparr>fp_x = 0, fp_y = 0\<rparr>"

definition zero_rect :: PP_Rect where
  "zero_rect = \<lparr>rc_point = zero_point, rc_width = 0, rc_height = 0\<rparr>"

definition zero_net_address :: PP_NetAddress_Private where
  "zero_net_address = \<lparr>na_size = 0, na_data = replicate 128 0\<rparr>"

definition zero_input_event :: pp_input_event_s where
  "zero_input_event =
     \<lparr>ie_event_class = 0, ie_type = 0, ie_time_stamp = 0, ie_modifiers = 0, ie_mouse_button = 0,
      ie_mouse_position = zero_point, ie_click_count = 0, ie_mouse_movement = zero_point,
      ie_wheel_delta = zero_float_point, ie_wheel_ticks = zero_float_point,
      ie_scroll_by_page = False, ie_key_code = 0, ie_code = VUndefined, ie_text = VUndefined,
      ie_segment_number = 0, ie_segment_offsets = None, ie_target_segment = 0,
      ie_selection_start = 0, ie_selection_end = 0\<rparr>"

definition zero_url_request_info :: pp_url_request_info_s where
  "zero_url_request_info =
     \<lparr>ri_method = PP_METHOD_UNKNOWN, ri_url = None, ri_headers = None,
      ri_is_immediate_javascript = False, ri_stream_to_file = False, ri_follow_redirects = False,
      ri_record_download_progress = False, ri_record_upload_progress = False,
      ri_custom_referrer_url = None, ri_allow_cross_origin_requests = False,
      ri_allow_credentials = False, ri_custom_content_transfer_encoding = None,
      ri_prefetch_buffer_upper_threshold = 0, ri_prefetch_buffer_lower_threshold = 0,
      ri_custom_user_agent = None, ri_post_data = None\<rparr>"

definition zero_ccb :: PP_CompletionCallback where
  "zero_ccb = \<lparr>ccb_func = 0, ccb_user_data = 0, ccb_flags = 0\<rparr>"

definition zero_url_loader :: pp_url_loader_s where
  "zero_url_loader =
     \<lparr>ul_status_line = None, ul_headers = None, ul_http_code = 0, ul_fd = 0, ul_read_pos = 0,
      ul_method = PP_METHOD_UNKNOWN, ul_url = None, ul_redirect_url = None,
      ul_finished_loading = False, ul_response_size = 0, ul_stream_to_file = False,
      ul_stream_to_file_ccb = zero_ccb, ul_stream_to_file_ccb_ml = 0, ul_request_headers = None,
      ul_follow_redirects = False, ul_record_download_progress = False,
      ul_record_upload_progress = False, ul_custom_referrer_url = None,
      ul_allow_cross_origin_requests = False, ul_allow_credentials = False,
      ul_custom_content_transfer_encoding = None, ul_custom_user_agent = None, ul_target = None,
      ul_post_data = None, ul_read_tasks = [], ul_np_stream = 0, ul_ccb = zero_ccb, ul_ccb_ml = 0\<rparr>"

definition zero_font :: fpp_font where
  "zero_font = \<lparr>ff_font = 0, ff_font_desc = 0, ff_measure_layout = 0, ff_letter_spacing = 0, ff_word_spacing = 0, ff_family = 0\<rparr>"

fun zero_payload :: "pp_resource_type_e \<Rightarrow> payload" where
  "zero_payload PP_RESOURCE_MESSAGE_LOOP =
     PL_message_loop \<lparr>ml_async_q = [], ml_int_q = [], ml_running = False, ml_teardown = False,
       ml_depth = 0\<rparr>"
| "zero_payload PP_RESOURCE_AUDIO_CONFIG =
     PL_audio_config \<lparr>ac_sample_rate = 0, ac_sample_frame_count = 0\<rparr>"
| "zero_payload PP_RESOURCE_BUFFER = PL_buffer \<lparr>bf_data = [], bf_len = 0\<rparr>"
| "zero_payload PP_RESOURCE_VIEW = PL_view zero_rect"
| "zero_payload PP_RESOURCE_NET_ADDRESS = PL_net_address zero_net_address"
| "zero_payload PP_RESOURCE_INPUT_EVENT = PL_input_event zero_input_event"
| "zero_payload PP_RESOURCE_URL_REQUEST_INFO = PL_url_request_info zero_url_request_info"
| "zero_payload PP_RESOURCE_FILE_REF =
     PL_file_ref \<lparr>fr_fd = 0, fr_path = None, fr_type = PP_FILE_REF_TYPE_NAME\<rparr>"
| "zero_payload PP_RESOURCE_IMAGE_DATA =
     PL_image_data \<lparr>id_width = 0, id_height = 0, id_stride = 0, id_data = [], id_format = 0,
       id_cairo_surf = None\<rparr>"
| "zero_payload PP_RESOURCE_URL_LOADER = PL_url_loader zero_url_loader"
| "zero_payload PP_RESOURCE_URL_RESPONSE_INFO = PL_url_response_info 0"
| "zero_payload PP_RESOURCE_FILE_IO = PL_file_io \<lparr>fio_fd = 0\<rparr>"
| "zero_payload PP_RESOURCE_DEVICE_REF =
     PL_device_ref \<lparr>dr_name = VUndefined, dr_longname = VUndefined, dr_type = 0\<rparr>"
| "zero_payload PP_RESOURCE_FLASH_MESSAGE_LOOP =
     PL_flash_message_loop \<lparr>fml_running = False, fml_message_loop = 0, fml_depth = 0\<rparr>"
| "zero_payload PP_RESOURCE_TCP_SOCKET = PL_tcp_socket \<lparr>ts_sock = 0, ts_is_connected = False,
     ts_destroyed = False, ts_seen_eof = False\<rparr>"
| "zero_payload PP_RESOURCE_UDP_SOCKET = PL_udp_socket \<lparr>us_sock = 0, us_bound = False,
     us_seen_eof = False, us_destroyed = False, us_addr = zero_net_address, us_addr_from = zero_net_address\<rparr>"
| "zero_payload PP_RESOURCE_HOST_RESOLVER =
     PL_host_resolver \<lparr>hr_host = None, hr_addrs = [], hr_addr_count = 0\<rparr>"
| "zero_payload PP_RESOURCE_GRAPHICS2D =
     PL_graphics2d \<lparr>g2_is_always_opaque = False, g2_width = 0, g2_height = 0, g2_stride = 0, g2_scale = 0,
       g2_external_scale = 0, g2_scaled_width = 0, g2_scaled_height = 0, g2_scaled_stride = 0, g2_data = None,
       g2_second_buffer = None, g2_cairo_surf = None, g2_task_list = []\<rparr>"
| "zero_payload PP_RESOURCE_GRAPHICS3D =
     PL_graphics3d \<lparr>g3_glc = 0, g3_fb_config = 0, g3_depth = 0, g3_glx_pixmap = 0, g3_pixmap = (0, 0), g3_xr_pict = (0, 0),
       g3_xr_pictfmt = 0, g3_width = 0, g3_height = 0, g3_sub_maps = None\<rparr>"
| "zero_payload PP_RESOURCE_VIDEO_CAPTURE =
     PL_video_capture \<lparr>vc_fd = 0, vc_width = 0, vc_height = 0, vc_fps = 0, vc_buffer_size = 0, vc_buffer_count = 0,
       vc_buffers = None, vc_buffer_is_free = None, vc_thread_started = False, vc_terminate_thread = False, vc_message_loop = 0\<rparr>"
| "zero_payload PP_RESOURCE_AUDIO =
     PL_audio \<lparr>au_sample_rate = 0, au_sample_frame_count = 0, au_callback_1_0 = 0, au_callback_1_1 = 0, au_user_data = 0,
       au_stream = 0, au_is_playing = False\<rparr>"
| "zero_payload PP_RESOURCE_FLASH_MENU = PL_flash_menu \<lparr>fm_menu = 0\<rparr>"
| "zero_payload PP_RESOURCE_VIDEO_DECODER =
     PL_video_decoder \<lparr>vd_orig_graphics3d = 0, vd_graphics3d = 0, vd_codec_id = 0, vd_avparser = 0, vd_avctx = 0, vd_avframe = 0,
       vd_last_consumed_bitstream_buffer_id = 0, vd_buffer_count = 0, vd_buffers = None, vd_va_config_id = 0, vd_va_context_id = 0,
       vd_vdp_decoder = 0, vd_surfaces = replicate 18 0, vd_vdp_video_surfaces = replicate 16 0, vd_surface_used = replicate 18 False,
       vd_vdp_video_mixer = 0, vd_vdp_output_surface = 0, vd_initialized = False, vd_buffers_were_requested = False,
       vd_failed_state = False, vd_hwdec_api = HWDEC_NONE\<rparr>"
| "zero_payload PP_RESOURCE_AUDIO_INPUT =
     PL_audio_input \<lparr>ai_sample_rate = 0, ai_sample_frame_count = 0, ai_cb_0_3 = 0, ai_cb_0_4 = 0, ai_cb_user_data = 0, ai_stream = 0\<rparr>"
| "zero_payload PP_RESOURCE_X509_CERTIFICATE =
     PL_x509_certificate \<lparr>xc_cert = 0, xc_raw_data = None, xc_raw_data_length = 0\<rparr>"
| "zero_payload PP_RESOURCE_FILE_CHOOSER = PL_file_chooser \<lparr>fc_mode = 0, fc_accept_types = VUndefined\<rparr>"
| "zero_payload PP_RESOURCE_FLASH_FONT_FILE = PL_flash_font_file \<lparr>fff_font = 0, fff_ft_face = 0, fff_charset = 0\<rparr>"
| "zero_payload PP_RESOURCE_BROWSER_FONT = PL_browser_font zero_font"
| "zero_payload PP_RESOURCE_FONT = PL_font zero_font"
| "zero_payload _ = PL_other [] [] []"

text \<open>The type a structure may sit under.\<close>

fun payload_fits :: "pp_resource_type_e \<Rightarrow> payload \<Rightarrow> bool" where
  "payload_fits t (PL_message_loop _) = (t = PP_RESOURCE_MESSAGE_LOOP)"
| "payload_fits t (PL_audio_config _) = (t = PP_RESOURCE_AUDIO_CONFIG)"
| "payload_fits t (PL_buffer _) = (t = PP_RESOURCE_BUFFER)"
| "payload_fits t (PL_view _) = (t = PP_RESOURCE_VIEW)"
| "payload_fits t (PL_net_address _) = (t = PP_RESOURCE_NET_ADDRESS)"
| "payload_fits t (PL_input_event _) = (t = PP_RESOURCE_INPUT_EVENT)"
| "payload_fits t (PL_url_request_info _) = (t = PP_RESOURCE_URL_REQUEST_INFO)"
| "payload_fits t (PL_file_ref _) = (t = PP_RESOURCE_FILE_REF)"
| "payload_fits t (PL_image_data _) = (t = PP_RESOURCE_IMAGE_DATA)"
| "payload_fits t (PL_url_loader _) = (t = PP_RESOURCE_URL_LOADER)"
| "payload_fits t (PL_url_response_info _) = (t = PP_RESOURCE_URL_RESPONSE_INFO)"
| "payload_fits t (PL_file_io _) = (t = PP_RESOURCE_FILE_IO)"
| "payload_fits t (PL_device_ref _) = (t = PP_RESOURCE_DEVICE_REF)"
| "payload_fits t (PL_flash_message_loop _) = (t = PP_RESOURCE_FLASH_MESSAGE_LOOP)"
| "payload_fits t (PL_tcp_socket _) = (t = PP_RESOURCE_TCP_SOCKET)"
| "payload_fits t (PL_udp_socket _) = (t = PP_RESOURCE_UDP_SOCKET)"
| "payload_fits t (PL_host_resolver _) = (t = PP_RESOURCE_HOST_RESOLVER)"
| "payload_fits t (PL_graphics2d _) = (t = PP_RESOURCE_GRAPHICS2D)"
| "payload_fits t (PL_graphics3d _) = (t = PP_RESOURCE_GRAPHICS3D)"
| "payload_fits t (PL_video_capture _) = (t = PP_RESOURCE_VIDEO_CAPTURE)"
| "payload_fits t (PL_audio _) = (t = PP_RESOURCE_AUDIO)"
| "payload_fits t (PL_flash_menu _) = (t = PP_RESOURCE_FLASH_MENU)"
| "payload_fits t (PL_video_decoder _) = (t = PP_RESOURCE_VIDEO_DECODER)"
| "payload_fits t (PL_audio_input _) = (t = PP_RESOURCE_AUDIO_INPUT)"
| "payload_fits t (PL_x509_certificate _) = (t = PP_RESOURCE_X509_CERTIFICATE)"
| "payload_fits t (PL_file_chooser _) = (t = PP_RESOURCE_FILE_CHOOSER)"
| "payload_fits t (PL_flash_font_file _) = (t = PP_RESOURCE_FLASH_FONT_FILE)"
| "payload_fits t (PL_browser_font _) = (t = PP_RESOURCE_BROWSER_FONT)"
| "payload_fits t (PL_font _) = (t = PP_RESOURCE_FONT)"
| "payload_fits t (PL_other _ _ _) = (zero_payload t = PL_other [] [] [])"

lemma payload_fits_zero [simp]: "payload_fits t (zero_payload t)"
  by (cases t) simp_all

section \<open>Instances and the program's global state\<close>

text \<open>The input methods an instance has; it uses one of them or none.\<close>

datatype im_context_e = Im_context_multi | Im_context_simple

record pp_instance_s =
  pi_id :: PP_Instance
  pi_npp :: ptr
  pi_event_mask :: u32
  pi_filtered_event_mask :: u32
  pi_instance_url :: PP_Var
  pi_document_url :: PP_Var
  pi_document_base_url :: PP_Var
  pi_content_url_loader :: PP_Resource
  pi_content_url_loader_used :: bool
  pi_ppp_instance_1_1 :: bool \<comment> \<open>whether the plugin has the interface, with its functions\<close>
  pi_ppp_input_event :: bool
  pi_ppp_instance_private :: bool
  pi_ppp_text_input_dev :: bool
  pi_scriptable_pp_obj :: PP_Var
  pi_np_window_obj :: ptr
  pi_np_plugin_element_obj :: ptr
  pi_wnd :: ptr
  pi_browser_wnd :: ptr
  pi_fs_wnd :: ptr
  pi_is_fullframe :: bool
  pi_is_fullscreen :: bool
  pi_is_transparent :: bool
  pi_windowed_mode :: bool
  pi_use_xembed :: bool
  pi_incognito_mode :: bool
  pi_instance_loaded :: bool
  pi_audio_source_count :: int
  pi_is_muted :: bool
  pi_prev_cursor :: ptr
  pi_have_prev_cursor :: bool
  pi_ignore_focus_events_cnt :: u32
  pi_last_button_release_timestamp :: u64
  pi_cursor_inside_instance :: bool
  pi_x :: int
  pi_y :: int
  pi_width :: u32
  pi_height :: u32
  pi_offset_x :: int
  pi_offset_y :: int
  pi_clip_left :: int
  pi_clip_top :: int
  pi_clip_right :: int
  pi_clip_bottom :: int
  pi_fs_width :: u32
  pi_fs_height :: u32
  pi_arguments :: "(string \<times> string) list option" \<comment> \<open>\<^verbatim>\<open>argc\<close>, \<^verbatim>\<open>argn\<close> and \<^verbatim>\<open>argv\<close>\<close>
  pi_graphics :: PP_Resource
  pi_graphics_ccb :: PP_CompletionCallback
  pi_graphics_ccb_ml :: PP_Resource
  pi_graphics_in_progress :: bool
  pi_textinput_type :: int
  pi_im_context :: "im_context_e option"

text \<open>A new instance: memory that is all zero.\<close>

definition zero_instance :: pp_instance_s where
  "zero_instance = \<lparr>pi_id = 0, pi_npp = 0, pi_event_mask = 0, pi_filtered_event_mask = 0,
     pi_instance_url = VUndefined, pi_document_url = VUndefined, pi_document_base_url = VUndefined,
     pi_content_url_loader = 0, pi_content_url_loader_used = False, pi_ppp_instance_1_1 = False,
     pi_ppp_input_event = False, pi_ppp_instance_private = False, pi_ppp_text_input_dev = False, pi_scriptable_pp_obj = VUndefined,
     pi_np_window_obj = 0, pi_np_plugin_element_obj = 0, pi_wnd = 0, pi_browser_wnd = 0, pi_fs_wnd = 0,
     pi_is_fullframe = False, pi_is_fullscreen = False, pi_is_transparent = False,
     pi_windowed_mode = False, pi_use_xembed = False, pi_incognito_mode = False, pi_instance_loaded = False,
     pi_audio_source_count = 0, pi_is_muted = False, pi_prev_cursor = 0, pi_have_prev_cursor = False, pi_ignore_focus_events_cnt = 0,
     pi_last_button_release_timestamp = 0, pi_cursor_inside_instance = False, pi_x = 0, pi_y = 0,
     pi_width = 0, pi_height = 0, pi_offset_x = 0, pi_offset_y = 0, pi_clip_left = 0, pi_clip_top = 0, pi_clip_right = 0, pi_clip_bottom = 0,
     pi_fs_width = 0, pi_fs_height = 0, pi_arguments = None,
     pi_graphics = 0, pi_graphics_ccb = zero_ccb, pi_graphics_ccb_ml = 0, pi_graphics_in_progress = False,
     pi_textinput_type = 0, pi_im_context = None\<rparr>"

text \<open>
  The static variables of \<^verbatim>\<open>ppb_var.c\<close>; \<open>np_released\<close> records, latest first, the browser
  objects that were handed back through \<^verbatim>\<open>n2p_proxy_class.Deallocate\<close>, and \<open>np_retained\<close>
  those for which \<^verbatim>\<open>npn.retainobject\<close> was called.
\<close>

record var_state =
  var_ht :: "(u32, var_s) hash_table"
  var_id :: u32
  np_released :: "ptr list"
  np_retained :: "ptr list"

text \<open>
  What \<^verbatim>\<open>async_network.c\<close> keeps of a request: \<^verbatim>\<open>struct async_network_task_s\<close>. The pointer
  \<^verbatim>\<open>addr_from\<close> points into the structure of a socket or of an address resource. \<open>at_event\<close> is
  the event the task is registered with, the descriptor it waits for and the function it calls.
\<close>

datatype async_network_task_type_e =
    ASYNC_NETWORK_TCP_CONNECT | ASYNC_NETWORK_TCP_CONNECT_WITH_NETADDRESS | ASYNC_NETWORK_TCP_READ
  | ASYNC_NETWORK_TCP_WRITE | ASYNC_NETWORK_UDP_RECV | ASYNC_NETWORK_UDP_SEND | ASYNC_NETWORK_DISCONNECT
  | ASYNC_NETWORK_HOST_RESOLVE

datatype addr_pointer = To_null | To_udp_socket PP_Resource | To_net_address PP_Resource

datatype event_callback =
    Handle_tcp_connect_stage4 | Handle_tcp_read_stage2 | Handle_tcp_write_stage2
  | Handle_disconnect_stage2 | Handle_udp_recv_stage2 | Handle_udp_send_stage2

record async_network_task_s =
  at_type :: async_network_task_type_e
  at_callback :: PP_CompletionCallback
  at_callback_ml :: PP_Resource
  at_resource :: PP_Resource
  at_host :: "string option"
  at_port :: u16
  at_netaddr :: PP_NetAddress_Private
  at_addr_from :: addr_pointer
  at_addr_from_resource :: PP_Resource
  at_buffer :: ptr
  at_bufsize :: int
  at_sock :: int
  at_event :: "(int \<times> event_callback) option"
  at_addr :: "u8 list"
  at_addr_ptr :: u32
  at_addr_type :: int
  at_addr_count :: u32

definition zero_task :: async_network_task_s where
  "zero_task = \<lparr>at_type = ASYNC_NETWORK_TCP_CONNECT, at_callback = zero_ccb, at_callback_ml = 0,
     at_resource = 0, at_host = None, at_port = 0, at_netaddr = zero_net_address, at_addr_from = To_null,
     at_addr_from_resource = 0, at_buffer = 0, at_bufsize = 0, at_sock = 0, at_event = None, at_addr = [],
     at_addr_ptr = 0, at_addr_type = 0, at_addr_count = 0\<rparr>"

text \<open>
  Those of \<^verbatim>\<open>pp_resource.c\<close>; \<open>closed_fds\<close> records the file descriptors that have been closed.
  Then those of \<^verbatim>\<open>async_network.c\<close>, which destructors reach: the allocated tasks by address, the
  addresses in \<^verbatim>\<open>tasks_ht\<close> in the order of the table, and the next address the allocator hands out
  (no code compares the address of a freed task, so they need not be used again).
\<close>

record res_state = var_state +
  res_tbl :: "(PP_Resource, pp_resource_s) hash_table"
  res_tbl_next :: int
  destructors_ht :: "pp_resource_type_e list"
  closed_fds :: "int list"
  net_tasks :: "(ptr, async_network_task_s) hash_table"
  tasks_ht :: "ptr list"
  next_task :: ptr

text \<open>
  Those of \<^verbatim>\<open>tables.c\<close> and \<^verbatim>\<open>ppb_message_loop.c\<close>, with the two thread-local values of the
  thread that runs (\<^verbatim>\<open>thread_local.h\<close>).
\<close>

record world = res_state +
  pp_to_np_ht :: "(PP_Instance, pp_instance_s) hash_table"
  npobj_to_npp_ht :: "(ptr, ptr) hash_table"
  next_instance_id :: int
  main_thread_message_loop :: PP_Resource
  browser_thread_message_loop :: PP_Resource
  this_thread_message_loop :: PP_Resource
  thread_is_not_suitable_for_message_loop :: bool

end
