(* ===== verification/Var.thy ===== *)
theory Var
  imports Data_Model
begin

text \<open>
  \<^verbatim>\<open>ppb_var.c\<close>: the table of reference counted variables. Every operation of the file
  that touches the table is here; the mutex around each access makes it atomic, so an
  operation is one function on the state. Variables nest (arrays and dictionaries hold
  variables), and releasing a container releases what it holds: \<open>release_vars\<close> is that
  recursion with its stack made explicit.
\<close>

section \<open>Handles and identifiers\<close>

fun reference_countable :: "PP_Var \<Rightarrow> bool" where
  "reference_countable (VString _) = True"
| "reference_countable (VObject _) = True"
| "reference_countable (VArray _) = True"
| "reference_countable (VDictionary _) = True"
| "reference_countable (VArrayBuffer _) = True"
| "reference_countable _ = False"

fun as_id :: "PP_Var \<Rightarrow> u32" where
  "as_id (VString i) = i"
| "as_id (VObject i) = i"
| "as_id (VArray i) = i"
| "as_id (VDictionary i) = i"
| "as_id (VArrayBuffer i) = i"
| "as_id (VResource i) = i"
| "as_id _ = 0"

text \<open>Count up, wrapping at 32 bits, to the next identifier nobody uses.\<close>

partial_function (option) get_new_var_id :: "(u32, var_s) hash_table \<Rightarrow> u32 \<Rightarrow> u32 option" where
  "get_new_var_id t i =
     (let i = i + 1 in
      if ht_lookup t i \<noteq> None then get_new_var_id t i else Some i)"

definition get_var_s :: "PP_Var \<Rightarrow> 'a var_state_scheme \<Rightarrow> var_s option" where
  "get_var_s v w = ht_lookup (var_ht w) (as_id v)"

text \<open>What every constructor ends with: a fresh identifier, and the entry put in the table.\<close>

definition var_register ::
  "(u32 \<Rightarrow> PP_Var) \<Rightarrow> var_body \<Rightarrow> 'a var_state_scheme \<Rightarrow> (PP_Var \<times> 'a var_state_scheme) option" where
  "var_register mk body w = do {
     i \<leftarrow> get_new_var_id (var_ht w) (var_id w);
     let var = mk i;
     Some (var, w\<lparr>var_id := i,
       var_ht := ht_insert i \<lparr>vs_var = var, vs_ref_count = 1, vs_body = body\<rparr> (var_ht w)\<rparr>)
   }"

section \<open>Reference counts\<close>

definition ppb_var_add_ref :: "PP_Var \<Rightarrow> 'a var_state_scheme \<Rightarrow> 'a var_state_scheme" where
  "ppb_var_add_ref var w =
     (if \<not> reference_countable var then w
      else case get_var_s var w of
             None \<Rightarrow> w
           | Some v \<Rightarrow> w\<lparr>var_ht := ht_insert (as_id var)
               (v\<lparr>vs_ref_count := vs_ref_count v + 1\<rparr>) (var_ht w)\<rparr>)"

definition ppb_var_add_ref2 :: "PP_Var \<Rightarrow> 'a var_state_scheme \<Rightarrow> PP_Var \<times> 'a var_state_scheme" where
  "ppb_var_add_ref2 var w = (var, ppb_var_add_ref var w)"

definition ppb_var_get_ref_count :: "PP_Var \<Rightarrow> 'a var_state_scheme \<Rightarrow> int" where
  "ppb_var_get_ref_count var w =
     (if \<not> reference_countable var then 0
      else case get_var_s var w of None \<Rightarrow> 0 | Some v \<Rightarrow> vs_ref_count v)"

text \<open>
  The switch over the handle's type that tears an entry down, once the table has let go of
  it: the handles it still has to release, and the state after. A handle whose type is not
  that of its entry makes the code read fields nobody set (\<open>None\<close>).
\<close>

fun var_destroy ::
  "PP_Var \<Rightarrow> var_body \<Rightarrow> 'a var_state_scheme \<Rightarrow> (PP_Var list \<times> 'a var_state_scheme) option" where
  "var_destroy (VString _) (VB_Str _ _) w = Some ([], w)"
| "var_destroy (VObject _) (VB_Obj cls data) w =
     Some ([], if cls = Class_n2p_proxy then w\<lparr>np_released := data # np_released w\<rparr> else w)"
| "var_destroy (VArrayBuffer _) (VB_Abuf _ _ _) w = Some ([], w)"
| "var_destroy (VDictionary _) (VB_Dict d) w = Some (map snd d, w)"
| "var_destroy (VArray _) (VB_Array xs) w = Some (xs, w)"
| "var_destroy _ _ w = None"

lemma var_destroy_var_ht: "var_destroy v b w = Some (vs, w') \<Longrightarrow> var_ht w' = var_ht w"
  by (induction v b w rule: var_destroy.induct) auto

function release_vars :: "PP_Var list \<Rightarrow> 'a var_state_scheme \<Rightarrow> 'a var_state_scheme option" where
  "release_vars [] w = Some w"
| "release_vars (var # vars) w =
     (if \<not> reference_countable var then release_vars vars w
      else case get_var_s var w of
             None \<Rightarrow> release_vars vars w
           | Some v \<Rightarrow>
               if vs_ref_count v - 1 \<le> 0 then
                 (case var_destroy var (vs_body v) (w\<lparr>var_ht := ht_remove (as_id var) (var_ht w)\<rparr>) of
                    None \<Rightarrow> None
                  | Some (inner, w') \<Rightarrow> release_vars (inner @ vars) w')
               else release_vars vars (w\<lparr>var_ht := ht_insert (as_id var)
                      (v\<lparr>vs_ref_count := vs_ref_count v - 1\<rparr>) (var_ht w)\<rparr>))"
  by pat_completeness auto
termination
  by (relation "measures [\<lambda>(vs, w). length (var_ht w), \<lambda>(vs, w). length vs]")
    (auto simp: get_var_s_def length_ht_insert_present dest!: var_destroy_var_ht
      intro: length_ht_remove_less)

definition ppb_var_release :: "PP_Var \<Rightarrow> 'a var_state_scheme \<Rightarrow> 'a var_state_scheme option" where
  "ppb_var_release var w = release_vars [var] w"

section \<open>Strings\<close>

text \<open>
  \<open>data\<close> is \<open>None\<close> for a NULL pointer, else the bytes at the address. A length of
  \<open>2\<^sup>3\<^sup>2 - 1\<close> makes \<^verbatim>\<open>len + 1\<close> wrap to 0, and \<^verbatim>\<open>memcpy\<close> then writes past the block; so does
  it read past a \<open>data\<close> shorter than \<open>len\<close>.
\<close>

definition ppb_var_var_from_utf8 ::
  "char list option \<Rightarrow> u32 \<Rightarrow> 'a var_state_scheme \<Rightarrow> (PP_Var \<times> 'a var_state_scheme) option" where
  "ppb_var_var_from_utf8 data len w =
     (if len + 1 = 0 then None
      else case data of
             None \<Rightarrow> var_register VString (VB_Str len (replicate (unat len) NUL @ [NUL])) w
           | Some d \<Rightarrow>
               if length d < unat len then None
               else var_register VString (VB_Str len (take (unat len) d @ [NUL])) w)"

text \<open>\<^verbatim>\<open>strlen\<close> returns a \<^verbatim>\<open>size_t\<close>, cut to 32 bits by the call.\<close>

definition ppb_var_var_from_utf8_z ::
  "char list option \<Rightarrow> 'a var_state_scheme \<Rightarrow> (PP_Var \<times> 'a var_state_scheme) option" where
  "ppb_var_var_from_utf8_z data w =
     (case data of
        None \<Rightarrow> ppb_var_var_from_utf8 None 0 w
      | Some d \<Rightarrow> ppb_var_var_from_utf8 (Some (c_str d @ [NUL])) (word_of_nat (length (c_str d))) w)"

definition ppb_var_var_to_utf8 :: "PP_Var \<Rightarrow> 'a var_state_scheme \<Rightarrow> (char list \<times> u32) option" where
  "ppb_var_var_to_utf8 var w =
     (case var of
        VString _ \<Rightarrow>
          (case get_var_s var w of
             Some v \<Rightarrow> (case vs_body v of VB_Str len d \<Rightarrow> Some (d, len) | _ \<Rightarrow> None)
           | None \<Rightarrow> Some ([NUL], 0))
      | _ \<Rightarrow> Some ([NUL], 0))"

text \<open>The same read as a C string, up to the first terminator.\<close>

definition var_text :: "PP_Var \<Rightarrow> 'a var_state_scheme \<Rightarrow> string option" where
  "var_text v w = map_option (\<lambda>(d, len). c_str d) (ppb_var_var_to_utf8 v w)"

section \<open>Objects\<close>

definition ppb_var_create_object ::
  "obj_class \<Rightarrow> ptr \<Rightarrow> 'a var_state_scheme \<Rightarrow> (PP_Var \<times> 'a var_state_scheme) option" where
  "ppb_var_create_object cls data w = var_register VObject (VB_Obj cls data) w"

text \<open>The answer, and what is written through \<^verbatim>\<open>object_data\<close> when it is not NULL.\<close>

definition ppb_var_is_instance_of ::
  "PP_Var \<Rightarrow> obj_class \<Rightarrow> 'a var_state_scheme \<Rightarrow> (bool \<times> ptr option) option" where
  "ppb_var_is_instance_of var cls w =
     (case var of
        VObject _ \<Rightarrow>
          (case get_var_s var w of
             Some v \<Rightarrow>
               (case vs_body v of
                  VB_Obj c d \<Rightarrow> Some (if c = cls then (True, Some d) else (False, None))
                | _ \<Rightarrow> None)
           | None \<Rightarrow> None)
      | _ \<Rightarrow> Some (False, None))"

section \<open>Array buffers\<close>

definition ppb_var_array_buffer_create ::
  "u32 \<Rightarrow> 'a var_state_scheme \<Rightarrow> (PP_Var \<times> 'a var_state_scheme) option" where
  "ppb_var_array_buffer_create size_in_bytes w =
     var_register VArrayBuffer (VB_Abuf size_in_bytes (replicate (unat size_in_bytes) NUL) None) w"

definition ppb_var_array_buffer_byte_length ::
  "PP_Var \<Rightarrow> 'a var_state_scheme \<Rightarrow> u32 option option" where
  "ppb_var_array_buffer_byte_length var w =
     (case var of
        VArrayBuffer _ \<Rightarrow>
          (case get_var_s var w of
             None \<Rightarrow> Some None
           | Some v \<Rightarrow> (case vs_body v of VB_Abuf len _ _ \<Rightarrow> Some (Some len) | _ \<Rightarrow> None))
      | _ \<Rightarrow> Some None)"

text \<open>Mapping hands out a copy of the bytes; the copy stays mapped until it is unmapped.\<close>

definition ppb_var_array_buffer_map ::
  "PP_Var \<Rightarrow> 'a var_state_scheme \<Rightarrow> (char list option \<times> 'a var_state_scheme) option" where
  "ppb_var_array_buffer_map var w =
     (case var of
        VArrayBuffer _ \<Rightarrow>
          (case get_var_s var w of
             None \<Rightarrow> Some (None, w)
           | Some v \<Rightarrow>
               (case vs_body v of
                  VB_Abuf len d (Some m) \<Rightarrow> Some (Some m, w)
                | VB_Abuf len d None \<Rightarrow>
                    Some (Some d, w\<lparr>var_ht := ht_insert (as_id var)
                      (v\<lparr>vs_body := VB_Abuf len d (Some d)\<rparr>) (var_ht w)\<rparr>)
                | _ \<Rightarrow> None))
      | _ \<Rightarrow> Some (None, w))"

text \<open>A write of the plugin through the pointer it got from the map.\<close>

definition mapped_write :: "PP_Var \<Rightarrow> nat \<Rightarrow> char \<Rightarrow> 'a var_state_scheme \<Rightarrow> 'a var_state_scheme" where
  "mapped_write var i c w =
     (case get_var_s var w of
        Some v \<Rightarrow>
          (case vs_body v of
             VB_Abuf len d (Some m) \<Rightarrow>
               w\<lparr>var_ht := ht_insert (as_id var) (v\<lparr>vs_body := VB_Abuf len d (Some (m[i := c]))\<rparr>) (var_ht w)\<rparr>
           | _ \<Rightarrow> w)
      | None \<Rightarrow> w)"

definition ppb_var_array_buffer_unmap ::
  "PP_Var \<Rightarrow> 'a var_state_scheme \<Rightarrow> 'a var_state_scheme option" where
  "ppb_var_array_buffer_unmap var w =
     (case var of
        VArrayBuffer _ \<Rightarrow>
          (case get_var_s var w of
             None \<Rightarrow> Some w
           | Some v \<Rightarrow>
               (case vs_body v of
                  VB_Abuf len d None \<Rightarrow> Some w
                | VB_Abuf len d (Some m) \<Rightarrow>
                    Some (w\<lparr>var_ht := ht_insert (as_id var)
                      (v\<lparr>vs_body := VB_Abuf len m None\<rparr>) (var_ht w)\<rparr>)
                | _ \<Rightarrow> None))
      | _ \<Rightarrow> Some w)"

section \<open>Arrays\<close>

definition ppb_var_array_create :: "'a var_state_scheme \<Rightarrow> (PP_Var \<times> 'a var_state_scheme) option" where
  "ppb_var_array_create w = var_register VArray (VB_Array []) w"

definition ppb_var_array_get ::
  "PP_Var \<Rightarrow> u32 \<Rightarrow> 'a var_state_scheme \<Rightarrow> (PP_Var \<times> 'a var_state_scheme) option" where
  "ppb_var_array_get array index w =
     (case array of
        VArray _ \<Rightarrow>
          (case get_var_s array w of
             None \<Rightarrow> None
           | Some v \<Rightarrow>
               (case vs_body v of
                  VB_Array xs \<Rightarrow>
                    if length xs \<le> unat index then Some (VUndefined, w)
                    else Some (ppb_var_add_ref2 (xs ! unat index) w)
                | _ \<Rightarrow> None))
      | _ \<Rightarrow> Some (VUndefined, w))"

text \<open>
  \<^verbatim>\<open>g_array_set_size\<close> grows the array with zeroed elements. For the index \<open>2\<^sup>3\<^sup>2 - 1\<close> the new
  size wraps to 0 and the copy goes out of bounds. The element that is overwritten is not
  released.
\<close>

definition ppb_var_array_set ::
  "PP_Var \<Rightarrow> u32 \<Rightarrow> PP_Var \<Rightarrow> 'a var_state_scheme \<Rightarrow> (bool \<times> 'a var_state_scheme) option" where
  "ppb_var_array_set array index value w =
     (case array of
        VArray _ \<Rightarrow>
          (case get_var_s array w of
             None \<Rightarrow> None
           | Some v \<Rightarrow>
               (case vs_body v of
                  VB_Array xs \<Rightarrow>
                    if length xs \<le> unat index \<and> index + 1 = 0 then None
                    else
                      let xs1 = (if length xs \<le> unat index
                                 then xs @ replicate (unat index + 1 - length xs) VUndefined else xs);
                          w1 = w\<lparr>var_ht := ht_insert (as_id array)
                                 (v\<lparr>vs_body := VB_Array (xs1[unat index := value])\<rparr>) (var_ht w)\<rparr>
                      in Some (True, ppb_var_add_ref value w1)
                | _ \<Rightarrow> None))
      | _ \<Rightarrow> Some (False, w))"

definition ppb_var_array_get_length :: "PP_Var \<Rightarrow> 'a var_state_scheme \<Rightarrow> u32 option" where
  "ppb_var_array_get_length array w =
     (case array of
        VArray _ \<Rightarrow>
          (case get_var_s array w of
             None \<Rightarrow> None
           | Some v \<Rightarrow> (case vs_body v of VB_Array xs \<Rightarrow> Some (word_of_nat (length xs)) | _ \<Rightarrow> None))
      | _ \<Rightarrow> Some 0)"

text \<open>Not implemented in the code: changes nothing, says so.\<close>

definition ppb_var_array_set_length :: "PP_Var \<Rightarrow> u32 \<Rightarrow> bool" where
  "ppb_var_array_set_length array len = False"

section \<open>Dictionaries\<close>

definition ppb_var_dictionary_create ::
  "'a var_state_scheme \<Rightarrow> (PP_Var \<times> 'a var_state_scheme) option" where
  "ppb_var_dictionary_create w = var_register VDictionary (VB_Dict []) w"

definition ppb_var_dictionary_get ::
  "PP_Var \<Rightarrow> PP_Var \<Rightarrow> 'a var_state_scheme \<Rightarrow> (PP_Var \<times> 'a var_state_scheme) option" where
  "ppb_var_dictionary_get dict key w =
     (case (dict, key) of
        (VDictionary _, VString _) \<Rightarrow> do {
          d \<leftarrow> get_var_s dict w;
          (s_key, _) \<leftarrow> ppb_var_var_to_utf8 key w;
          (case vs_body d of
             VB_Dict tbl \<Rightarrow>
               (case ht_lookup tbl (c_str s_key) of
                  None \<Rightarrow> Some (VUndefined, w)
                | Some val \<Rightarrow> Some (ppb_var_add_ref2 val w))
           | _ \<Rightarrow> None)
        }
      | _ \<Rightarrow> Some (VUndefined, w))"

text \<open>
  \<^verbatim>\<open>g_hash_table_replace\<close> stores the new pair and hands the value it replaces to the
  destroy function, which releases it; the reference to the new value is taken last.
\<close>

definition ppb_var_dictionary_set ::
  "PP_Var \<Rightarrow> PP_Var \<Rightarrow> PP_Var \<Rightarrow> 'a var_state_scheme \<Rightarrow> (bool \<times> 'a var_state_scheme) option" where
  "ppb_var_dictionary_set dict key value w =
     (case (dict, key) of
        (VDictionary _, VString _) \<Rightarrow> do {
          d \<leftarrow> get_var_s dict w;
          (s_key, _) \<leftarrow> ppb_var_var_to_utf8 key w;
          (case vs_body d of
             VB_Dict tbl \<Rightarrow> do {
               let w1 = w\<lparr>var_ht := ht_insert (as_id dict)
                          (d\<lparr>vs_body := VB_Dict (ht_insert (c_str s_key) value tbl)\<rparr>) (var_ht w)\<rparr>;
               w2 \<leftarrow> (case ht_lookup tbl (c_str s_key) of
                        None \<Rightarrow> Some w1
                      | Some old \<Rightarrow> ppb_var_release old w1);
               Some (True, ppb_var_add_ref value w2)
             }
           | _ \<Rightarrow> None)
        }
      | _ \<Rightarrow> Some (False, w))"

text \<open>Not implemented in the code.\<close>

definition ppb_var_dictionary_delete :: "PP_Var \<Rightarrow> PP_Var \<Rightarrow> 'a var_state_scheme \<Rightarrow> 'a var_state_scheme" where
  "ppb_var_dictionary_delete dict key w = w"

definition ppb_var_dictionary_has_key :: "PP_Var \<Rightarrow> PP_Var \<Rightarrow> bool" where
  "ppb_var_dictionary_has_key dict key = False"

text \<open>The loop over the dictionary's keys, in the order the table is traversed.\<close>

fun get_keys_loop ::
  "string list \<Rightarrow> u32 \<Rightarrow> PP_Var \<Rightarrow> 'a var_state_scheme \<Rightarrow> 'a var_state_scheme option" where
  "get_keys_loop [] idx keys w = Some w"
| "get_keys_loop (s # ss) idx keys w = do {
     (key, w) \<leftarrow> ppb_var_var_from_utf8_z (Some (s @ [NUL])) w;
     (_, w) \<leftarrow> ppb_var_array_set keys idx key w;
     w \<leftarrow> ppb_var_release key w;
     get_keys_loop ss (idx + 1) keys w
   }"

definition ppb_var_dictionary_get_keys ::
  "PP_Var \<Rightarrow> 'a var_state_scheme \<Rightarrow> (PP_Var \<times> 'a var_state_scheme) option" where
  "ppb_var_dictionary_get_keys dict w =
     (case dict of
        VDictionary _ \<Rightarrow> do {
          (keys, w) \<leftarrow> ppb_var_array_create w;
          d \<leftarrow> get_var_s dict w;
          (case vs_body d of
             VB_Dict tbl \<Rightarrow> do { w \<leftarrow> get_keys_loop (map fst tbl) 0 keys w; Some (keys, w) }
           | _ \<Rightarrow> None)
        }
      | _ \<Rightarrow> Some (VUndefined, w))"

section \<open>Resources in variables\<close>

text \<open>Both conversions are stubs of the code.\<close>

definition ppb_var_var_to_resource :: "PP_Var \<Rightarrow> PP_Resource" where
  "ppb_var_var_to_resource var = 0"

definition ppb_var_var_from_resource :: "PP_Resource \<Rightarrow> PP_Var" where
  "ppb_var_var_from_resource r = VUndefined"

section \<open>Scripting: calls into an object's class\<close>

text \<open>
  \<^verbatim>\<open>struct PPP_Class_Deprecated\<close>: the functions are code of the plugin or of the browser
  proxy, so they are parameters; a NULL entry is \<open>None\<close>. The exception they may store
  travels inside their result.
\<close>

record 'w PPP_Class_Deprecated =
  HasProperty :: "(ptr \<Rightarrow> PP_Var \<Rightarrow> 'w \<Rightarrow> bool \<times> 'w) option"
  HasMethod :: "(ptr \<Rightarrow> PP_Var \<Rightarrow> 'w \<Rightarrow> bool \<times> 'w) option"
  GetProperty :: "(ptr \<Rightarrow> PP_Var \<Rightarrow> 'w \<Rightarrow> PP_Var \<times> 'w) option"
  GetAllPropertyNames :: "(ptr \<Rightarrow> 'w \<Rightarrow> PP_Var list \<times> 'w) option"
  SetProperty :: "(ptr \<Rightarrow> PP_Var \<Rightarrow> PP_Var \<Rightarrow> 'w \<Rightarrow> 'w) option"
  RemoveProperty :: "(ptr \<Rightarrow> PP_Var \<Rightarrow> 'w \<Rightarrow> 'w) option"
  Call :: "(ptr \<Rightarrow> PP_Var \<Rightarrow> PP_Var list \<Rightarrow> 'w \<Rightarrow> PP_Var \<times> 'w) option"
  Construct :: "(ptr \<Rightarrow> PP_Var list \<Rightarrow> 'w \<Rightarrow> PP_Var \<times> 'w) option"

text \<open>The class and data of an object: \<open>None\<close> when the handle is dangling or no object's.\<close>

definition object_of :: "PP_Var \<Rightarrow> 'a var_state_scheme \<Rightarrow> (obj_class \<times> ptr) option" where
  "object_of var w = do {
     v \<leftarrow> get_var_s var w;
     (case vs_body v of VB_Obj c d \<Rightarrow> Some (c, d) | _ \<Rightarrow> None)
   }"

definition ppb_var_has_property ::
  "(obj_class \<Rightarrow> 'a var_state_scheme PPP_Class_Deprecated) \<Rightarrow> PP_Var \<Rightarrow> PP_Var \<Rightarrow>
   'a var_state_scheme \<Rightarrow> (bool \<times> 'a var_state_scheme) option" where
  "ppb_var_has_property classes object name w =
     (case (object, name) of
        (VObject _, VString _) \<Rightarrow> do {
          (c, d) \<leftarrow> object_of object w;
          (case HasProperty (classes c) of Some f \<Rightarrow> Some (f d name w) | None \<Rightarrow> Some (False, w))
        }
      | _ \<Rightarrow> Some (False, w))"

definition ppb_var_has_method ::
  "(obj_class \<Rightarrow> 'a var_state_scheme PPP_Class_Deprecated) \<Rightarrow> PP_Var \<Rightarrow> PP_Var \<Rightarrow>
   'a var_state_scheme \<Rightarrow> (bool \<times> 'a var_state_scheme) option" where
  "ppb_var_has_method classes object name w =
     (case (object, name) of
        (VObject _, VString _) \<Rightarrow> do {
          (c, d) \<leftarrow> object_of object w;
          (case HasMethod (classes c) of Some f \<Rightarrow> Some (f d name w) | None \<Rightarrow> Some (False, w))
        }
      | _ \<Rightarrow> Some (False, w))"

definition ppb_var_get_property ::
  "(obj_class \<Rightarrow> 'a var_state_scheme PPP_Class_Deprecated) \<Rightarrow> PP_Var \<Rightarrow> PP_Var \<Rightarrow>
   'a var_state_scheme \<Rightarrow> (PP_Var \<times> 'a var_state_scheme) option" where
  "ppb_var_get_property classes object name w =
     (case (object, name) of
        (VObject _, VString _) \<Rightarrow> do {
          (c, d) \<leftarrow> object_of object w;
          (case GetProperty (classes c) of Some f \<Rightarrow> Some (f d name w) | None \<Rightarrow> Some (VUndefined, w))
        }
      | _ \<Rightarrow> Some (VUndefined, w))"

definition ppb_var_get_all_property_names ::
  "(obj_class \<Rightarrow> 'a var_state_scheme PPP_Class_Deprecated) \<Rightarrow> PP_Var \<Rightarrow>
   'a var_state_scheme \<Rightarrow> (PP_Var list option \<times> 'a var_state_scheme) option" where
  "ppb_var_get_all_property_names classes object w =
     (case object of
        VObject _ \<Rightarrow> do {
          (c, d) \<leftarrow> object_of object w;
          (case GetAllPropertyNames (classes c) of
             Some f \<Rightarrow> (case f d w of (names, w) \<Rightarrow> Some (Some names, w))
           | None \<Rightarrow> Some (None, w))
        }
      | _ \<Rightarrow> Some (None, w))"

definition ppb_var_set_property ::
  "(obj_class \<Rightarrow> 'a var_state_scheme PPP_Class_Deprecated) \<Rightarrow> PP_Var \<Rightarrow> PP_Var \<Rightarrow> PP_Var \<Rightarrow>
   'a var_state_scheme \<Rightarrow> 'a var_state_scheme option" where
  "ppb_var_set_property classes object name value w =
     (case (object, name) of
        (VObject _, VString _) \<Rightarrow> do {
          (c, d) \<leftarrow> object_of object w;
          (case SetProperty (classes c) of Some f \<Rightarrow> Some (f d name value w) | None \<Rightarrow> Some w)
        }
      | _ \<Rightarrow> Some w)"

definition ppb_var_remove_property ::
  "(obj_class \<Rightarrow> 'a var_state_scheme PPP_Class_Deprecated) \<Rightarrow> PP_Var \<Rightarrow> PP_Var \<Rightarrow>
   'a var_state_scheme \<Rightarrow> 'a var_state_scheme option" where
  "ppb_var_remove_property classes object name w =
     (case (object, name) of
        (VObject _, VString _) \<Rightarrow> do {
          (c, d) \<leftarrow> object_of object w;
          (case RemoveProperty (classes c) of Some f \<Rightarrow> Some (f d name w) | None \<Rightarrow> Some w)
        }
      | _ \<Rightarrow> Some w)"

definition ppb_var_call ::
  "(obj_class \<Rightarrow> 'a var_state_scheme PPP_Class_Deprecated) \<Rightarrow> PP_Var \<Rightarrow> PP_Var \<Rightarrow> PP_Var list \<Rightarrow>
   'a var_state_scheme \<Rightarrow> (PP_Var \<times> 'a var_state_scheme) option" where
  "ppb_var_call classes object method_name argv w =
     (case (object, method_name) of
        (VObject _, VString _) \<Rightarrow> do {
          (c, d) \<leftarrow> object_of object w;
          (case Call (classes c) of Some f \<Rightarrow> Some (f d method_name argv w) | None \<Rightarrow> Some (VUndefined, w))
        }
      | _ \<Rightarrow> Some (VUndefined, w))"

definition ppb_var_construct ::
  "(obj_class \<Rightarrow> 'a var_state_scheme PPP_Class_Deprecated) \<Rightarrow> PP_Var \<Rightarrow> PP_Var list \<Rightarrow>
   'a var_state_scheme \<Rightarrow> (PP_Var \<times> 'a var_state_scheme) option" where
  "ppb_var_construct classes object argv w =
     (case object of
        VObject _ \<Rightarrow> do {
          (c, d) \<leftarrow> object_of object w;
          (case Construct (classes c) of Some f \<Rightarrow> Some (f d argv w) | None \<Rightarrow> Some (VUndefined, w))
        }
      | _ \<Rightarrow> Some (VUndefined, w))"

section \<open>Conversion to and from the browser's variants\<close>

datatype NPVariant =
    NPVoid | NPNull | NPBool bool | NPInt32 int | NPDouble double_bits
  | NPString "char list" u32 | NPObject ptr

text \<open>
  \<open>created\<close> is what \<^verbatim>\<open>npn.createobject\<close> returns on the browser thread (0 when it fails or no
  instance is alive); on success the new proxy keeps a reference to the variable, which the
  second component of the result names.
\<close>

definition pp_var_to_np_variant ::
  "ptr \<Rightarrow> PP_Var \<Rightarrow> 'a var_state_scheme \<Rightarrow> (NPVariant \<times> PP_Var option \<times> 'a var_state_scheme) option" where
  "pp_var_to_np_variant created var w =
     (case var of
        VNull \<Rightarrow> Some (NPNull, None, w)
      | VBool b \<Rightarrow> Some (NPBool b, None, w)
      | VInt32 i \<Rightarrow> Some (NPInt32 i, None, w)
      | VDouble d \<Rightarrow> Some (NPDouble d, None, w)
      | VString _ \<Rightarrow> do {
          (s1, len) \<leftarrow> ppb_var_var_to_utf8 var w;
          Some (NPString (take (unat (len + 1)) s1) len, None, w)
        }
      | VObject _ \<Rightarrow> do {
          (c, d) \<leftarrow> object_of var w;
          (if c = Class_n2p_proxy then Some (NPObject d, None, w\<lparr>np_retained := d # np_retained w\<rparr>)
           else if created \<noteq> 0 then Some (NPObject created, Some var, ppb_var_add_ref var w)
           else Some (NPVoid, None, w))
        }
      | _ \<Rightarrow> Some (NPVoid, None, w))"

text \<open>\<open>ppobj\<close> tells which browser objects are proxies the function above made, and for what.\<close>

definition np_variant_to_pp_var ::
  "(ptr \<Rightarrow> PP_Var option) \<Rightarrow> NPVariant \<Rightarrow> 'a var_state_scheme \<Rightarrow> (PP_Var \<times> 'a var_state_scheme) option" where
  "np_variant_to_pp_var ppobj v w =
     (case v of
        NPVoid \<Rightarrow> Some (VUndefined, w)
      | NPNull \<Rightarrow> Some (VNull, w)
      | NPBool b \<Rightarrow> Some (VBool b, w)
      | NPInt32 i \<Rightarrow> Some (VInt32 i, w)
      | NPDouble d \<Rightarrow> Some (VDouble d, w)
      | NPString s len \<Rightarrow> ppb_var_var_from_utf8 (Some s) len w
      | NPObject p \<Rightarrow>
          (case ppobj p of
             Some var \<Rightarrow> Some (ppb_var_add_ref2 var w)
           | None \<Rightarrow> ppb_var_create_object Class_n2p_proxy p w))"

end
