(* ===== verification/Var_Laws.thy ===== *)
theory Var_Laws
  imports Var
begin

text \<open>
  What holds of the variable table: fresh identifiers exist and are found, every
  operation keeps the counts equal to the references that exist and the entries of the
  type their handle says, strings and array buffers give back what was put in, and the
  one place where the code loses a reference.
\<close>

section \<open>Fresh identifiers\<close>

lemma get_new_var_id_fresh:
  assumes "get_new_var_id t i = Some j"
  shows "ht_lookup t j = None"
proof (rule get_new_var_id.raw_induct [where P = "\<lambda>t i j. ht_lookup t j = None", OF _ assms])
  fix f t i j
  assume "\<And>t i j. f t i = Some j \<Longrightarrow> ht_lookup t j = None"
    and "(let i = i + 1 in if ht_lookup t i \<noteq> None then f t i else Some i) = Some j"
  then show "ht_lookup t j = None"
    by (metis not_Some_eq option.inject)
qed

lemma get_new_var_id_first:
  "\<lbrakk>0 < k; ht_lookup t (i + of_nat k) = None;
    \<forall>m. 0 < m \<and> m < k \<longrightarrow> ht_lookup t (i + of_nat m) \<noteq> None\<rbrakk> \<Longrightarrow>
    get_new_var_id t i = Some (i + of_nat k)"
proof (induction k arbitrary: i)
  case 0
  then show ?case by simp
next
  case (Suc k)
  show ?case
  proof (cases "k = 0")
    case True
    with Suc.prems(2) have "ht_lookup t (i + 1) = None" by simp
    then show ?thesis using True by (subst get_new_var_id.simps) (simp add: Let_def)
  next
    case False
    then have "ht_lookup t (i + 1) \<noteq> None"
      using Suc.prems(3) [rule_format, of 1] by simp
    then have "get_new_var_id t i = get_new_var_id t (i + 1)"
      by (subst get_new_var_id.simps) (simp add: Let_def)
    also have "\<dots> = Some (i + 1 + of_nat k)"
    proof (rule Suc.IH)
      show "\<forall>m. 0 < m \<and> m < k \<longrightarrow> ht_lookup t (i + 1 + of_nat m) \<noteq> None"
      proof (intro allI impI)
        fix m assume "0 < m \<and> m < k"
        then have "ht_lookup t (i + of_nat (Suc m)) \<noteq> None"
          using Suc.prems(3) [rule_format, of "Suc m"] by simp
        then show "ht_lookup t (i + 1 + of_nat m) \<noteq> None" by (simp add: ac_simps)
      qed
    qed (use False Suc.prems(2) in \<open>simp_all add: ac_simps\<close>)
    finally show ?thesis by (simp add: ac_simps)
  qed
qed

lemma inj_on_word_offset:
  "n < 2 ^ 32 \<Longrightarrow> inj_on (\<lambda>k. (i :: u32) + of_nat k) {1..n + 1}"
proof (rule inj_onI)
  fix x y assume n: "n < (2::nat) ^ 32" and xy: "x \<in> {1..n + 1}" "y \<in> {1..n + 1}"
    and eq: "i + of_nat x = i + of_nat y"
  from xy obtain x' y' where x': "x = Suc x'" "x' < 2 ^ 32" and y': "y = Suc y'" "y' < 2 ^ 32"
    using n by (cases x; cases y) auto
  from eq have "(of_nat x' :: u32) = of_nat y'" by (simp add: x' y')
  then have "unat (of_nat x' :: u32) = unat (of_nat y' :: u32)" by simp
  then show "x = y" using x' y' by (simp add: unat_of_nat)
qed

text \<open>A table that does not use up all identifiers always has one to give.\<close>

lemma get_new_var_id_total:
  assumes "length t < 2 ^ 32"
  shows "\<exists>j. get_new_var_id t i = Some j"
proof -
  let ?f = "\<lambda>k. i + of_nat k"
  have "\<exists>k\<in>{1..length t + 1}. ht_lookup t (?f k) = None"
  proof (rule ccontr)
    assume "\<not> ?thesis"
    then have sub: "?f ` {1..length t + 1} \<subseteq> fst ` set t"
      by (auto simp: ht_lookup_def map_of_eq_None_iff)
    have "length t + 1 = card (?f ` {1..length t + 1})"
      using card_image [OF inj_on_word_offset [OF assms, of i]] by simp
    also have "\<dots> \<le> card (fst ` set t)"
      using sub by (intro card_mono) simp_all
    also have "\<dots> \<le> length t"
      by (metis card_length length_map set_map)
    finally show False by simp
  qed
  then have ex: "\<exists>k. 0 < k \<and> ht_lookup t (?f k) = None"
    by (meson atLeastAtMost_iff less_le_trans zero_less_one)
  define k where "k = (LEAST k. 0 < k \<and> ht_lookup t (?f k) = None)"
  have "0 < k \<and> ht_lookup t (?f k) = None"
    unfolding k_def using ex by (rule LeastI_ex)
  moreover have "\<forall>m. 0 < m \<and> m < k \<longrightarrow> ht_lookup t (?f m) \<noteq> None"
    unfolding k_def by (auto dest: not_less_Least)
  ultimately have "get_new_var_id t i = Some (?f k)"
    by (intro get_new_var_id_first) simp_all
  then show ?thesis by blast
qed

section \<open>The table as a reference counted one\<close>

fun body_vars :: "var_body \<Rightarrow> PP_Var list" where
  "body_vars (VB_Dict d) = map snd d"
| "body_vars (VB_Array xs) = xs"
| "body_vars _ = []"

definition counted_ids :: "PP_Var list \<Rightarrow> u32 list" where
  "counted_ids vs = map as_id (filter reference_countable vs)"

definition var_kids :: "var_s \<Rightarrow> u32 list" where
  "var_kids s = counted_ids (body_vars (vs_body s))"

definition var_set_rc :: "int \<Rightarrow> var_s \<Rightarrow> var_s" where
  "var_set_rc n s = s\<lparr>vs_ref_count := n\<rparr>"

interpretation vr: refcounted vs_ref_count var_set_rc var_kids
  by unfold_locales (simp_all add: var_set_rc_def var_kids_def)

lemma counted_ids_simps [simp]:
  "counted_ids [] = []"
  "counted_ids (v # vs) = (if reference_countable v then as_id v # counted_ids vs else counted_ids vs)"
  "counted_ids (us @ vs) = counted_ids us @ counted_ids vs"
  by (simp_all add: counted_ids_def)

lemma counted_ids_replicate [simp]: "counted_ids (replicate n VUndefined) = []"
  by (simp add: counted_ids_def)

lemma var_set_rc_sel [simp]:
  "vs_var (var_set_rc n s) = vs_var s" "vs_body (var_set_rc n s) = vs_body s"
  by (simp_all add: var_set_rc_def)

text \<open>A handle agrees with its entry, if it has one.\<close>

definition handle_ok :: "(u32, var_s) hash_table \<Rightarrow> PP_Var \<Rightarrow> bool" where
  "handle_ok t v \<longleftrightarrow> (reference_countable v \<longrightarrow> (\<forall>s. ht_lookup t (as_id v) = Some s \<longrightarrow> vs_var s = v))"

fun body_matches :: "PP_Var \<Rightarrow> var_body \<Rightarrow> bool" where
  "body_matches (VString _) (VB_Str len d) = (length d = unat len + 1)"
| "body_matches (VObject _) (VB_Obj _ _) = True"
| "body_matches (VArrayBuffer _) (VB_Abuf len d m) =
     (length d = unat len \<and> (\<forall>d'. m = Some d' \<longrightarrow> length d' = unat len))"
| "body_matches (VDictionary _) (VB_Dict d) = ht_ok d"
| "body_matches (VArray _) (VB_Array xs) = (length xs < 2 ^ 32)"
| "body_matches _ _ = False"

definition entry_ok :: "(u32, var_s) hash_table \<Rightarrow> u32 \<Rightarrow> var_s \<Rightarrow> bool" where
  "entry_ok t i s \<longleftrightarrow> as_id (vs_var s) = i \<and> body_matches (vs_var s) (vs_body s) \<and>
     (\<forall>v\<in>set (body_vars (vs_body s)). handle_ok t v)"

definition entries_ok :: "(u32, var_s) hash_table \<Rightarrow> bool" where
  "entries_ok t \<longleftrightarrow> (\<forall>i s. ht_lookup t i = Some s \<longrightarrow> entry_ok t i s)"

text \<open>
  The invariant. \<open>ext\<close> are the references held outside the table: by the plugin, the
  browser proxies and the other components.
\<close>

definition var_inv :: "u32 multiset \<Rightarrow> 'a var_state_scheme \<Rightarrow> bool" where
  "var_inv ext w \<longleftrightarrow> balanced vs_ref_count var_kids ext (var_ht w) \<and> entries_ok (var_ht w)"

lemma body_matches_countable: "body_matches v b \<Longrightarrow> reference_countable v"
  by (cases v) simp_all

lemma handle_ok_remove [simp]: "handle_ok t v \<Longrightarrow> handle_ok (ht_remove i t) v"
  by (simp add: handle_ok_def)

lemma handle_ok_update:
  "handle_ok t v \<Longrightarrow> ht_lookup t i = Some s \<Longrightarrow> vs_var s' = vs_var s \<Longrightarrow> handle_ok (ht_insert i s' t) v"
  by (auto simp: handle_ok_def)

lemma entries_ok_remove [simp]: "entries_ok t \<Longrightarrow> entries_ok (ht_remove i t)"
  by (auto simp: entries_ok_def entry_ok_def)

lemma entries_ok_update:
  assumes "entries_ok t" "ht_lookup t i = Some s" "vs_var s' = vs_var s"
    and "body_matches (vs_var s) (vs_body s')"
    and "\<forall>v\<in>set (body_vars (vs_body s')). handle_ok t v"
  shows "entries_ok (ht_insert i s' t)"
  using assms unfolding entries_ok_def entry_ok_def
  by (auto intro: handle_ok_update)

lemma entries_ok_recount:
  "entries_ok t \<Longrightarrow> ht_lookup t i = Some s \<Longrightarrow> entries_ok (ht_insert i (var_set_rc n s) t)"
  by (rule entries_ok_update) (auto simp: entries_ok_def entry_ok_def)

lemma get_var_s_entry:
  "entries_ok (var_ht w) \<Longrightarrow> handle_ok (var_ht w) v \<Longrightarrow> reference_countable v \<Longrightarrow>
    get_var_s v w = Some s \<Longrightarrow> vs_var s = v \<and> body_matches v (vs_body s)"
  by (auto simp: get_var_s_def handle_ok_def entries_ok_def entry_ok_def)

section \<open>Releasing\<close>

lemma var_destroy_ok:
  "body_matches v b \<Longrightarrow> \<exists>w'. var_destroy v b w = Some (body_vars b, w') \<and> var_ht w' = var_ht w \<and>
     var_id w' = var_id w \<and> np_retained w' = np_retained w \<and> var_state.more w' = var_state.more w"
  by (cases v; cases b) auto

text \<open>
  On a well formed table the release of the code is the release of the abstract discipline:
  it never touches freed memory or a field of the wrong type, and what it leaves in the
  table is what \<open>rc_release\<close> leaves.
\<close>

lemma release_vars_refines:
  "entries_ok (var_ht w) \<Longrightarrow> \<forall>v\<in>set vs. handle_ok (var_ht w) v \<Longrightarrow>
   \<exists>w'. release_vars vs w = Some w' \<and>
     var_ht w' = rc_release vs_ref_count var_set_rc var_kids (counted_ids vs) (var_ht w) \<and>
     entries_ok (var_ht w') \<and> var_id w' = var_id w \<and> np_retained w' = np_retained w \<and>
     var_state.more w' = var_state.more w"
proof (induction vs w rule: release_vars.induct)
  case (1 w)
  then show ?case by simp
next
  case (2 v vs w)
  show ?case
  proof (cases "reference_countable v")
    case False
    with 2 show ?thesis by simp
  next
    case rc: True
    show ?thesis
    proof (cases "get_var_s v w")
      case None
      with 2 rc show ?thesis by (simp add: get_var_s_def)
    next
      case (Some s)
      then have look: "ht_lookup (var_ht w) (as_id v) = Some s"
        by (simp add: get_var_s_def)
      have match: "body_matches v (vs_body s)"
        using get_var_s_entry [OF 2(5) _ rc Some] 2(6) by simp
      show ?thesis
      proof (cases "vs_ref_count s - 1 \<le> 0")
        case True
        let ?w = "w\<lparr>var_ht := ht_remove (as_id v) (var_ht w)\<rparr>"
        obtain w1 where w1: "var_destroy v (vs_body s) ?w = Some (body_vars (vs_body s), w1)"
          "var_ht w1 = var_ht ?w" "var_id w1 = var_id w" "np_retained w1 = np_retained w"
          "var_state.more w1 = var_state.more w"
          using var_destroy_ok [OF match, of ?w] by auto
        have kids: "\<forall>u\<in>set (body_vars (vs_body s) @ vs). handle_ok (var_ht w1) u"
          using 2(5,6) look w1(2) by (auto simp: entries_ok_def entry_ok_def)
        from 2(3) [OF _ Some True w1(1)] rc 2(5) w1(2) kids
        obtain w' where "release_vars (body_vars (vs_body s) @ vs) w1 = Some w'"
          "var_ht w' = rc_release vs_ref_count var_set_rc var_kids
             (counted_ids (body_vars (vs_body s) @ vs)) (var_ht w1)"
          "entries_ok (var_ht w')" "var_id w' = var_id w1" "np_retained w' = np_retained w1"
          "var_state.more w' = var_state.more w1"
          by auto
        with rc Some True w1 look show ?thesis
          by (simp add: var_kids_def [of s])
      next
        case False
        let ?w = "w\<lparr>var_ht := ht_insert (as_id v) (var_set_rc (vs_ref_count s - 1) s) (var_ht w)\<rparr>"
        have "entries_ok (var_ht ?w)"
          using 2(5) look by (simp add: entries_ok_recount)
        moreover have "\<forall>u\<in>set vs. handle_ok (var_ht ?w) u"
          using 2(6) look by (auto intro: handle_ok_update)
        ultimately show ?thesis
          using 2(4) [OF _ Some False] rc Some False look
          by (simp add: var_set_rc_def)
      qed
    qed
  qed
qed

text \<open>The references one handle stands for, and a handle that may be used.\<close>

definition ref_of :: "PP_Var \<Rightarrow> u32 multiset" where
  "ref_of v = mset (counted_ids [v])"

definition valid_var :: "(u32, var_s) hash_table \<Rightarrow> PP_Var \<Rightarrow> bool" where
  "valid_var t v \<longleftrightarrow> (reference_countable v \<longrightarrow> (\<exists>s. ht_lookup t (as_id v) = Some s \<and> vs_var s = v))"

lemma ref_of_simps [simp]:
  "reference_countable v \<Longrightarrow> ref_of v = {#as_id v#}"
  "\<not> reference_countable v \<Longrightarrow> ref_of v = {#}"
  by (simp_all add: ref_of_def)

lemma valid_var_handle_ok: "valid_var t v \<Longrightarrow> handle_ok t v"
  by (auto simp: valid_var_def handle_ok_def)

lemma valid_var_uncounted [simp]: "\<not> reference_countable v \<Longrightarrow> valid_var t v"
  by (simp add: valid_var_def)

lemma var_invD: "var_inv ext w \<Longrightarrow> balanced vs_ref_count var_kids ext (var_ht w)"
  "var_inv ext w \<Longrightarrow> entries_ok (var_ht w)"
  by (simp_all add: var_inv_def)

text \<open>What is held from outside, or by an entry, is there.\<close>

lemma held_var_valid:
  assumes "var_inv ext w" "ref_of v \<subseteq># ext" "handle_ok (var_ht w) v"
  shows "valid_var (var_ht w) v"
  unfolding valid_var_def
proof
  assume rc: "reference_countable v"
  with assms(2) have "as_id v \<in># ext" by simp
  then have "as_id v \<in># ext + held var_kids (var_ht w)" by simp
  with assms(1) obtain s where "ht_lookup (var_ht w) (as_id v) = Some s"
    unfolding var_inv_def by (metis balanced_live)
  with assms(3) rc show "\<exists>s. ht_lookup (var_ht w) (as_id v) = Some s \<and> vs_var s = v"
    by (auto simp: handle_ok_def)
qed

lemma inner_var_valid:
  assumes "var_inv ext w" "ht_lookup (var_ht w) i = Some s" "v \<in> set (body_vars (vs_body s))"
  shows "valid_var (var_ht w) v"
  unfolding valid_var_def
proof
  assume rc: "reference_countable v"
  then have "as_id v \<in> set (var_kids s)"
    using assms(3) by (auto simp: var_kids_def counted_ids_def)
  then have "as_id v \<in># ext + held var_kids (var_ht w)"
    using held_memI [OF assms(2), of "as_id v" var_kids] by simp
  with assms(1) obtain e where "ht_lookup (var_ht w) (as_id v) = Some e"
    unfolding var_inv_def by (metis balanced_live)
  moreover have "handle_ok (var_ht w) v"
    using assms by (auto simp: var_inv_def entries_ok_def entry_ok_def)
  ultimately show "\<exists>e. ht_lookup (var_ht w) (as_id v) = Some e \<and> vs_var e = v"
    using rc by (auto simp: handle_ok_def)
qed

lemma release_vars_inv:
  assumes "var_inv (ext + mset (counted_ids vs)) w" and "\<forall>v\<in>set vs. handle_ok (var_ht w) v"
  shows "\<exists>w'. release_vars vs w = Some w' \<and> var_inv ext w' \<and>
    var_ht w' = rc_release vs_ref_count var_set_rc var_kids (counted_ids vs) (var_ht w) \<and>
    var_id w' = var_id w \<and> np_retained w' = np_retained w \<and> var_state.more w' = var_state.more w"
  using release_vars_refines [OF var_invD(2) [OF assms(1)] assms(2)]
    vr.balanced_release [OF var_invD(1) [OF assms(1)]]
  by (auto simp: var_inv_def)

lemma ppb_var_release_inv:
  assumes "var_inv (ext + ref_of v) w" and "handle_ok (var_ht w) v"
  shows "\<exists>w'. ppb_var_release v w = Some w' \<and> var_inv ext w' \<and>
    var_ht w' = rc_release vs_ref_count var_set_rc var_kids (counted_ids [v]) (var_ht w) \<and>
    var_id w' = var_id w \<and> np_retained w' = np_retained w \<and> var_state.more w' = var_state.more w"
  using release_vars_inv [of ext "[v]" w] assms by (simp add: ppb_var_release_def ref_of_def)

section \<open>Creating\<close>

lemma entries_ok_new:
  assumes inv: "var_inv ext w" and new: "ht_lookup (var_ht w) i = None"
    and s: "as_id (vs_var s) = i" "body_matches (vs_var s) (vs_body s)" "body_vars (vs_body s) = []"
  shows "entries_ok (ht_insert i s (var_ht w))"
  unfolding entries_ok_def
proof (intro allI impI)
  fix j e assume j: "ht_lookup (ht_insert i s (var_ht w)) j = Some e"
  show "entry_ok (ht_insert i s (var_ht w)) j e"
  proof (cases "j = i")
    case True
    with j s show ?thesis by (simp add: entry_ok_def)
  next
    case False
    with j have look: "ht_lookup (var_ht w) j = Some e" by simp
    have "handle_ok (ht_insert i s (var_ht w)) v" if "v \<in> set (body_vars (vs_body e))" for v
      using inner_var_valid [OF inv look that] new by (auto simp: valid_var_def handle_ok_def)
    with look inv show ?thesis by (auto simp: var_inv_def entries_ok_def entry_ok_def)
  qed
qed

lemma var_register_inv:
  assumes inv: "var_inv ext w" and room: "length (var_ht w) < 2 ^ 32"
    and mk: "\<And>i. as_id (mk i) = i" "\<And>i. body_matches (mk i) body" and plain: "body_vars body = []"
  shows "\<exists>i w'. var_register mk body w = Some (mk i, w') \<and> ht_lookup (var_ht w) i = None \<and>
    var_ht w' = ht_insert i \<lparr>vs_var = mk i, vs_ref_count = 1, vs_body = body\<rparr> (var_ht w) \<and>
    var_inv (add_mset i ext) w' \<and> np_released w' = np_released w \<and> np_retained w' = np_retained w \<and>
    var_state.more w' = var_state.more w"
proof -
  let ?s = "\<lambda>i. \<lparr>vs_var = mk i, vs_ref_count = 1, vs_body = body\<rparr>"
  obtain i where i: "get_new_var_id (var_ht w) (var_id w) = Some i"
    using get_new_var_id_total [OF room] by blast
  then have new: "ht_lookup (var_ht w) i = None" by (rule get_new_var_id_fresh)
  have "balanced vs_ref_count var_kids (add_mset i ext) (ht_insert i (?s i) (var_ht w))"
    using var_invD(1) [OF inv] new plain by (intro vr.balanced_new) (simp_all add: var_kids_def)
  moreover have "entries_ok (ht_insert i (?s i) (var_ht w))"
    using mk plain by (intro entries_ok_new [OF inv new]) simp_all
  ultimately show ?thesis
    using i new by (intro exI [of _ i]) (simp add: var_register_def var_inv_def Let_def)
qed

section \<open>Taking references\<close>

lemma ppb_var_add_ref_inv:
  assumes inv: "var_inv ext w" and v: "valid_var (var_ht w) v"
  shows "var_inv (ext + ref_of v) (ppb_var_add_ref v w)"
proof (cases "reference_countable v")
  case True
  with v obtain s where s: "ht_lookup (var_ht w) (as_id v) = Some s" "vs_var s = v"
    by (auto simp: valid_var_def)
  have "balanced vs_ref_count var_kids (add_mset (as_id v) ext)
      (rc_add vs_ref_count var_set_rc (as_id v) (var_ht w))"
    using var_invD(1) [OF inv] s(1) by (rule vr.balanced_add)
  moreover have "var_ht (ppb_var_add_ref v w) = rc_add vs_ref_count var_set_rc (as_id v) (var_ht w)"
    using True s by (simp add: ppb_var_add_ref_def get_var_s_def rc_add_def var_set_rc_def)
  moreover have "entries_ok (rc_add vs_ref_count var_set_rc (as_id v) (var_ht w))"
    using var_invD(2) [OF inv] s(1) by (simp add: rc_add_def entries_ok_recount)
  ultimately show ?thesis
    using True by (simp add: var_inv_def)
next
  case False
  with inv show ?thesis by (simp add: ppb_var_add_ref_def)
qed

lemma ppb_var_add_ref_frame [simp]:
  "var_id (ppb_var_add_ref v w) = var_id w" "np_released (ppb_var_add_ref v w) = np_released w"
  "np_retained (ppb_var_add_ref v w) = np_retained w"
  "var_state.more (ppb_var_add_ref v w) = var_state.more w"
  by (simp_all add: ppb_var_add_ref_def split: option.splits)

lemma ppb_var_add_ref_body:
  "map_option vs_body (ht_lookup (var_ht (ppb_var_add_ref v w)) i) = map_option vs_body (ht_lookup (var_ht w) i)"
  "map_option vs_var (ht_lookup (var_ht (ppb_var_add_ref v w)) i) = map_option vs_var (ht_lookup (var_ht w) i)"
  by (simp_all add: ppb_var_add_ref_def get_var_s_def split: option.splits)

lemma valid_var_cong:
  assumes "\<And>i. map_option vs_var (ht_lookup t i) = map_option vs_var (ht_lookup t' i)"
  shows "valid_var t v = valid_var t' v"
  using assms [of "as_id v"] unfolding valid_var_def
  by (cases "ht_lookup t (as_id v)"; cases "ht_lookup t' (as_id v)") auto

lemma valid_var_add_ref [simp]: "valid_var (var_ht (ppb_var_add_ref u w)) v = valid_var (var_ht w) v"
  by (rule valid_var_cong) (rule ppb_var_add_ref_body(2))


lemma ppb_var_get_ref_count_eq:
  "reference_countable v \<Longrightarrow> ppb_var_get_ref_count v w = rc_at vs_ref_count (var_ht w) (as_id v)"
  by (simp add: ppb_var_get_ref_count_def rc_at_def get_var_s_def split: option.splits)

section \<open>Changing the contents of a container\<close>

definition set_body :: "u32 \<Rightarrow> var_body \<Rightarrow> 'a var_state_scheme \<Rightarrow> 'a var_state_scheme" where
  "set_body i b w =
     (case ht_lookup (var_ht w) i of
        None \<Rightarrow> w
      | Some s \<Rightarrow> w\<lparr>var_ht := ht_insert i (s\<lparr>vs_body := b\<rparr>) (var_ht w)\<rparr>)"

lemma set_body_Some:
  "ht_lookup (var_ht w) i = Some s \<Longrightarrow>
    w\<lparr>var_ht := ht_insert i (s\<lparr>vs_body := b\<rparr>) (var_ht w)\<rparr> = set_body i b w"
  by (simp add: set_body_def)

lemma set_body_frame [simp]:
  "var_id (set_body i b w) = var_id w" "np_released (set_body i b w) = np_released w"
  "np_retained (set_body i b w) = np_retained w" "var_state.more (set_body i b w) = var_state.more w"
  by (simp_all add: set_body_def split: option.splits)

lemma set_body_lookup [simp]:
  "ht_lookup (var_ht (set_body i b w)) j =
     (if i = j then map_option (\<lambda>s. s\<lparr>vs_body := b\<rparr>) (ht_lookup (var_ht w) j) else ht_lookup (var_ht w) j)"
  by (auto simp: set_body_def split: option.splits)

lemma valid_var_set_body [simp]: "valid_var (var_ht (set_body i b w)) v = valid_var (var_ht w) v"
  by (rule valid_var_cong) (simp add: option.map_comp comp_def)

lemma vs_update_commute:
  "s\<lparr>vs_body := b, vs_ref_count := n\<rparr> = s\<lparr>vs_ref_count := n, vs_body := b\<rparr>"
  by (cases s) simp

text \<open>Storing a variable before or after counting the reference is the same.\<close>

lemma add_ref_set_body: "ppb_var_add_ref v (set_body i b w) = set_body i b (ppb_var_add_ref v w)"
  by (auto simp: ppb_var_add_ref_def get_var_s_def set_body_def ht_insert_commute vs_update_commute
    split: option.splits)

lemma set_body_inv:
  assumes inv: "var_inv ext w" and look: "ht_lookup (var_ht w) i = Some s"
    and match: "body_matches (vs_var s) b" and ok: "\<forall>v\<in>set (body_vars b). handle_ok (var_ht w) v"
    and refs: "ext' + mset (counted_ids (body_vars b)) = ext + mset (var_kids s)"
  shows "var_inv ext' (set_body i b w)"
  unfolding var_inv_def
proof
  let ?s = "s\<lparr>vs_body := b\<rparr>"
  have "balanced vs_ref_count var_kids ext' (ht_insert i ?s (var_ht w))"
    using balancedD_pos [OF var_invD(1) [OF inv] look] refs
    by (intro vr.balanced_update [OF var_invD(1) [OF inv] look]) (simp_all add: var_kids_def)
  then show "balanced vs_ref_count var_kids ext' (var_ht (set_body i b w))"
    using look by (simp add: set_body_def)
  have "entries_ok (ht_insert i ?s (var_ht w))"
    using match ok by (intro entries_ok_update [OF var_invD(2) [OF inv] look]) simp_all
  then show "entries_ok (var_ht (set_body i b w))"
    using look by (simp add: set_body_def)
qed

lemma valid_body:
  assumes "var_inv ext w" "valid_var (var_ht w) v" "reference_countable v"
  obtains s where "ht_lookup (var_ht w) (as_id v) = Some s" "vs_var s = v" "body_matches v (vs_body s)"
  using assms by (auto simp: valid_var_def var_inv_def entries_ok_def entry_ok_def)

lemma valid_array:
  assumes "var_inv ext w" "valid_var (var_ht w) (VArray i)"
  obtains s xs where "ht_lookup (var_ht w) i = Some s" "vs_var s = VArray i"
    "vs_body s = VB_Array xs" "length xs < 2 ^ 32"
proof -
  obtain s where s: "ht_lookup (var_ht w) i = Some s" "vs_var s = VArray i"
    "body_matches (VArray i) (vs_body s)"
    using valid_body [OF assms] by auto
  then show thesis using that by (cases "vs_body s") auto
qed

lemma valid_dict:
  assumes "var_inv ext w" "valid_var (var_ht w) (VDictionary i)"
  obtains s d where "ht_lookup (var_ht w) i = Some s" "vs_var s = VDictionary i"
    "vs_body s = VB_Dict d" "ht_ok d"
proof -
  obtain s where s: "ht_lookup (var_ht w) i = Some s" "vs_var s = VDictionary i"
    "body_matches (VDictionary i) (vs_body s)"
    using valid_body [OF assms] by auto
  then show thesis using that by (cases "vs_body s") auto
qed

lemma valid_string:
  assumes "var_inv ext w" "valid_var (var_ht w) (VString i)"
  obtains s len d where "ht_lookup (var_ht w) i = Some s" "vs_var s = VString i"
    "vs_body s = VB_Str len d" "length d = unat len + 1"
proof -
  obtain s where s: "ht_lookup (var_ht w) i = Some s" "vs_var s = VString i"
    "body_matches (VString i) (vs_body s)"
    using valid_body [OF assms] by auto
  then show thesis using that by (cases "vs_body s") auto
qed

lemma counted_ids_update:
  "i < length xs \<Longrightarrow> mset (counted_ids (xs[i := v])) + ref_of (xs ! i) = mset (counted_ids xs) + ref_of v"
proof -
  assume i: "i < length xs"
  then have "counted_ids xs = counted_ids (take i xs) @ counted_ids [xs ! i] @ counted_ids (drop (Suc i) xs)"
    by (metis append_Cons append_Nil counted_ids_simps(3) id_take_nth_drop)
  moreover have "counted_ids (xs[i := v]) = counted_ids (take i xs) @ counted_ids [v] @ counted_ids (drop (Suc i) xs)"
    using i by (metis append_Cons append_Nil counted_ids_simps(3) upd_conv_take_nth_drop)
  ultimately show ?thesis by (simp add: ref_of_def ac_simps)
qed

lemma counted_ids_dict:
  "ht_ok d \<Longrightarrow> mset (counted_ids (map snd (ht_insert k v d))) +
     (case ht_lookup d k of None \<Rightarrow> {#} | Some old \<Rightarrow> ref_of old) =
   mset (counted_ids (map snd d)) + ref_of v"
  by (induction d) (auto simp: ref_of_def ht_ok_def ac_simps)

text \<open>What an array shows at an index, and a dictionary at a key.\<close>

definition array_elems :: "PP_Var \<Rightarrow> 'a var_state_scheme \<Rightarrow> PP_Var list" where
  "array_elems v w = (case get_var_s v w of
     Some s \<Rightarrow> (case vs_body s of VB_Array xs \<Rightarrow> xs | _ \<Rightarrow> []) | None \<Rightarrow> [])"

definition array_at :: "PP_Var \<Rightarrow> nat \<Rightarrow> 'a var_state_scheme \<Rightarrow> PP_Var" where
  "array_at v n w = (if n < length (array_elems v w) then array_elems v w ! n else VUndefined)"

definition dict_map :: "PP_Var \<Rightarrow> 'a var_state_scheme \<Rightarrow> string \<Rightarrow> PP_Var option" where
  "dict_map v w = (case get_var_s v w of
     Some s \<Rightarrow> (case vs_body s of VB_Dict d \<Rightarrow> ht_lookup d | _ \<Rightarrow> (\<lambda>_. None)) | None \<Rightarrow> (\<lambda>_. None))"

definition string_of :: "PP_Var \<Rightarrow> 'a var_state_scheme \<Rightarrow> string" where
  "string_of v w = (case ppb_var_var_to_utf8 v w of Some (d, len) \<Rightarrow> c_str d | None \<Rightarrow> [])"

lemma views_add_ref [simp]:
  "array_elems v (ppb_var_add_ref u w) = array_elems v w"
  "dict_map v (ppb_var_add_ref u w) = dict_map v w"
  "ppb_var_var_to_utf8 v (ppb_var_add_ref u w) = ppb_var_var_to_utf8 v w"
  "string_of v (ppb_var_add_ref u w) = string_of v w"
  using ppb_var_add_ref_body(1) [of u w "as_id v"]
  by (auto simp: array_elems_def dict_map_def string_of_def ppb_var_var_to_utf8_def get_var_s_def
    split: option.splits PP_Var.splits)

lemma array_at_add_ref [simp]: "array_at v n (ppb_var_add_ref u w) = array_at v n w"
  by (simp add: array_at_def)

lemma valid_array_elems:
  assumes "var_inv ext w" "valid_var (var_ht w) (VArray i)"
  obtains s where "ht_lookup (var_ht w) i = Some s" "vs_var s = VArray i"
    "vs_body s = VB_Array (array_elems (VArray i) w)"
proof -
  from assms obtain s xs where "ht_lookup (var_ht w) i = Some s" "vs_var s = VArray i"
    "vs_body s = VB_Array xs" by (rule valid_array)
  then show thesis by (intro that) (simp_all add: array_elems_def get_var_s_def)
qed

lemma ppb_var_array_get_eq:
  assumes "var_inv ext w" "valid_var (var_ht w) (VArray i)"
  shows "ppb_var_array_get (VArray i) index w =
    Some (array_at (VArray i) (unat index) w, ppb_var_add_ref (array_at (VArray i) (unat index) w) w)"
proof -
  from assms obtain s xs where "ht_lookup (var_ht w) i = Some s" "vs_body s = VB_Array xs"
    by (rule valid_array)
  then show ?thesis
    by (simp add: ppb_var_array_get_def get_var_s_def array_at_def array_elems_def
        ppb_var_add_ref2_def ppb_var_add_ref_def [of VUndefined])
qed

text \<open>
  Storing into an array. The reference of the element that was there is not given back:
  it is the reason the outside is charged with \<open>ref_of\<close> of that element afterwards.
\<close>

lemma ppb_var_array_set_law:
  assumes inv: "var_inv ext w" and arr: "valid_var (var_ht w) (VArray i)"
    and val: "valid_var (var_ht w) value" and room: "unat index < 2 ^ 32 - 1"
  shows "\<exists>w'. ppb_var_array_set (VArray i) index value w = Some (True, w') \<and>
    var_inv (ext + ref_of (array_at (VArray i) (unat index) w)) w' \<and>
    (\<forall>n. array_at (VArray i) n w' = (if n = unat index then value else array_at (VArray i) n w)) \<and>
    length (array_elems (VArray i) w') = max (length (array_elems (VArray i) w)) (unat index + 1)"
proof -
  from inv arr obtain s xs where s: "ht_lookup (var_ht w) i = Some s" "vs_var s = VArray i"
    "vs_body s = VB_Array xs" "length xs < 2 ^ 32" by (rule valid_array)
  define n where "n = unat index"
  have n: "n < 2 ^ 32 - 1" using room by (simp add: n_def)
  have nz: "index + 1 \<noteq> 0"
  proof
    assume "index + 1 = 0"
    then have "index = - 1" by (simp add: eq_neg_iff_add_eq_0)
    with room show False by (simp add: unsigned_minus_1_eq_mask mask_eq_exp_minus_1)
  qed
  define ys where "ys = (if length xs \<le> n then xs @ replicate (n + 1 - length xs) VUndefined else xs)"
  have ys: "n < length ys" "length ys = max (length xs) (n + 1)"
    "counted_ids ys = counted_ids xs" "set ys \<subseteq> insert VUndefined (set xs)"
    by (auto simp: ys_def)
  have elems: "array_elems (VArray i) w = xs"
    using s by (simp add: array_elems_def get_var_s_def)
  have at: "array_at (VArray i) k w = (if k < length ys then ys ! k else VUndefined)" for k
    by (auto simp: array_at_def elems ys_def nth_append)
  define w1 where "w1 = ppb_var_add_ref value w"
  have inv1: "var_inv (ext + ref_of value) w1"
    unfolding w1_def using inv val by (rule ppb_var_add_ref_inv)
  have "valid_var (var_ht w1) (VArray i)" "array_elems (VArray i) w1 = xs"
    using arr elems by (simp_all add: w1_def)
  then obtain s1 where s1: "ht_lookup (var_ht w1) i = Some s1" "vs_var s1 = VArray i" "vs_body s1 = VB_Array xs"
    using valid_array_elems [OF inv1] by metis
  have hok: "\<forall>v\<in>set (ys[n := value]). handle_ok (var_ht w1) v"
  proof
    fix v assume "v \<in> set (ys[n := value])"
    then have "v = value \<or> v = VUndefined \<or> v \<in> set xs"
      using ys(4) set_update_subset_insert [of ys n "value"] by blast
    moreover have "handle_ok (var_ht w1) v" if "v \<in> set xs"
      using inner_var_valid [OF inv1 s1(1)] that s1(3) by (simp add: valid_var_handle_ok)
    ultimately show "handle_ok (var_ht w1) v"
      using val valid_var_handle_ok [of "var_ht w1" "value"] by (auto simp: w1_def handle_ok_def)
  qed
  have "var_inv (ext + ref_of (ys ! n)) (set_body i (VB_Array (ys[n := value])) w1)"
  proof (rule set_body_inv [OF inv1 s1(1)])
    show "body_matches (vs_var s1) (VB_Array (ys[n := value]))"
      using s1 ys(2) n s(4) by simp
    show "ext + ref_of (ys ! n) + mset (counted_ids (body_vars (VB_Array (ys[n := value])))) =
        ext + ref_of value + mset (var_kids s1)"
      using counted_ids_update [OF ys(1), of "value"] ys(3) s1(3) by (simp add: var_kids_def ac_simps)
  qed (use hok in simp)
  moreover have "ppb_var_array_set (VArray i) index value w =
      Some (True, set_body i (VB_Array (ys[n := value])) w1)"
    using s nz unfolding w1_def add_ref_set_body [symmetric]
    by (simp add: ppb_var_array_set_def get_var_s_def Let_def n_def ys_def set_body_def)
  moreover have "array_elems (VArray i) (set_body i (VB_Array (ys[n := value])) w1) = ys[n := value]"
    using s1 by (simp add: array_elems_def get_var_s_def)
  ultimately show ?thesis
    using ys(1,2) elems at by (auto simp: array_at_def n_def)
qed


text \<open>Nothing new in the table, and only the entry at \<open>i\<close> has other contents.\<close>

definition table_kept :: "u32 \<Rightarrow> 'a var_state_scheme \<Rightarrow> 'a var_state_scheme \<Rightarrow> bool" where
  "table_kept i w w' \<longleftrightarrow> (\<forall>j.
     map_option vs_var (ht_lookup (var_ht w') j) \<in> {None, map_option vs_var (ht_lookup (var_ht w) j)} \<and>
     (j \<noteq> i \<longrightarrow>
      map_option vs_body (ht_lookup (var_ht w') j) \<in> {None, map_option vs_body (ht_lookup (var_ht w) j)}))"

lemma table_kept_add_ref [simp]: "table_kept i w (ppb_var_add_ref v w') = table_kept i w w'"
  by (simp only: table_kept_def ppb_var_add_ref_body)

lemma table_kept_valid:
  assumes "table_kept i w w'" "var_inv ext w'" "ref_of v \<subseteq># ext" "valid_var (var_ht w) v"
  shows "valid_var (var_ht w') v"
proof (rule held_var_valid [OF assms(2,3)])
  show "handle_ok (var_ht w') v"
    unfolding handle_ok_def
  proof (intro impI allI)
    fix e' assume "reference_countable v" and e': "ht_lookup (var_ht w') (as_id v) = Some e'"
    with assms(4) obtain e where "ht_lookup (var_ht w) (as_id v) = Some e" "vs_var e = v"
      by (auto simp: valid_var_def)
    with e' assms(1) [unfolded table_kept_def, rule_format, of "as_id v"] show "vs_var e' = v"
      by simp
  qed
qed

lemma table_kept_string:
  assumes "table_kept i w w'" "var_inv ext w'" "valid_var (var_ht w) (VString k)"
    and "k \<in># ext" "k \<noteq> i"
  shows "string_of (VString k) w' = string_of (VString k) w"
proof -
  have "valid_var (var_ht w') (VString k)"
    using assms(4) by (intro table_kept_valid [OF assms(1,2) _ assms(3)]) simp
  then obtain e' where e': "ht_lookup (var_ht w') k = Some e'" by (auto simp: valid_var_def)
  moreover from assms(3) obtain e where e: "ht_lookup (var_ht w) k = Some e"
    by (auto simp: valid_var_def)
  ultimately have "vs_body e' = vs_body e"
    using assms(1) [unfolded table_kept_def, rule_format, of k] assms(5) by simp
  with e e' show ?thesis by (simp add: string_of_def ppb_var_var_to_utf8_def get_var_s_def)
qed

text \<open>
  Storing into a dictionary: the reference the caller holds to the value is doubled, and
  the one to the value it replaces is given back, so the balance is as before.
\<close>

lemma ppb_var_dictionary_set_law:
  assumes inv: "var_inv (ext + ref_of value) w" and held: "i \<in># ext"
    and dict: "valid_var (var_ht w) (VDictionary i)" and key: "valid_var (var_ht w) (VString k)"
    and val: "valid_var (var_ht w) value"
  shows "\<exists>w'. ppb_var_dictionary_set (VDictionary i) (VString k) value w = Some (True, w') \<and>
    var_inv (ext + ref_of value) w' \<and>
    dict_map (VDictionary i) w' = (dict_map (VDictionary i) w)(string_of (VString k) w \<mapsto> value) \<and>
    table_kept i w w'"
proof -
  from inv dict obtain s d where s: "ht_lookup (var_ht w) i = Some s" "vs_var s = VDictionary i"
    "vs_body s = VB_Dict d" "ht_ok d" by (rule valid_dict)
  from inv key obtain ks len kd where ks: "ht_lookup (var_ht w) k = Some ks" "vs_var ks = VString k"
    "vs_body ks = VB_Str len kd" by (rule valid_string)
  define c where "c = c_str kd"
  have c: "string_of (VString k) w = c"
    using ks by (simp add: string_of_def ppb_var_var_to_utf8_def get_var_s_def c_def)
  have dm: "dict_map (VDictionary i) w = ht_lookup d"
    using s by (simp add: dict_map_def get_var_s_def)
  define old where "old = (case ht_lookup d c of None \<Rightarrow> [] | Some v \<Rightarrow> [v])"
  define w1 where "w1 = set_body i (VB_Dict (ht_insert c value d)) w"
  have inv1: "var_inv (ext + mset (counted_ids old)) w1"
    unfolding w1_def
  proof (rule set_body_inv [OF inv s(1)])
    show "body_matches (vs_var s) (VB_Dict (ht_insert c value d))"
      using s by simp
    have "v = value \<or> v \<in> set (map snd d)" if "v \<in> set (map snd (ht_insert c value d))" for v
      using that by (induction d) (auto split: if_splits)
    then show "\<forall>v\<in>set (body_vars (VB_Dict (ht_insert c value d))). handle_ok (var_ht w) v"
      using val inner_var_valid [OF inv s(1)] s(3) by (auto intro: valid_var_handle_ok)
    show "ext + mset (counted_ids old) + mset (counted_ids (body_vars (VB_Dict (ht_insert c value d)))) =
        ext + ref_of value + mset (var_kids s)"
      using counted_ids_dict [OF s(4), of c "value"] s(3)
      by (auto simp: var_kids_def old_def ref_of_def ac_simps split: option.splits)
  qed
  have "\<forall>v\<in>set old. valid_var (var_ht w) v"
    using inner_var_valid [OF inv s(1)] s(3) ht_lookup_ht_ok [OF s(4), of c]
    by (force simp: old_def split: option.splits)
  then have hok: "\<forall>v\<in>set old. handle_ok (var_ht w1) v"
    by (auto simp: w1_def intro: valid_var_handle_ok)
  from release_vars_inv [OF inv1 hok] obtain w2 where w2: "release_vars old w1 = Some w2"
    "var_inv ext w2" "var_ht w2 = rc_release vs_ref_count var_set_rc var_kids (counted_ids old) (var_ht w1)"
    by auto
  have "i \<in># ext + held var_kids (var_ht w2)" using held by simp
  then obtain s2 where s2: "ht_lookup (var_ht w2) i = Some s2"
    by (rule balanced_live [OF var_invD(1) [OF w2(2)]])
  then obtain s1 where s1: "ht_lookup (var_ht w1) i = Some s1" "s2 = var_set_rc (vs_ref_count s2) s1"
    using vr.release_survivor w2(3) by metis
  from s1(1) s(1) have "vs_body s1 = VB_Dict (ht_insert c value d)"
    by (auto simp: w1_def)
  then have body2: "vs_body s2 = VB_Dict (ht_insert c value d)"
    using s1(2) var_set_rc_sel(2) by metis
  have "value \<in> set (body_vars (vs_body s2))"
    unfolding body2 by (induction d) auto
  then have "valid_var (var_ht w2) value"
    by (rule inner_var_valid [OF w2(2) s2])
  with w2(2) have "var_inv (ext + ref_of value) (ppb_var_add_ref value w2)"
    by (rule ppb_var_add_ref_inv)
  moreover have "dict_map (VDictionary i) (ppb_var_add_ref value w2) = (ht_lookup d)(c \<mapsto> value)"
    using s2 body2 by (simp add: dict_map_def [of _ w2] get_var_s_def fun_eq_iff)
  moreover have "ppb_var_dictionary_set (VDictionary i) (VString k) value w = Some (True, ppb_var_add_ref value w2)"
  proof -
    have w1: "w\<lparr>var_ht := ht_insert i (s\<lparr>vs_body := VB_Dict (ht_insert c value d)\<rparr>) (var_ht w)\<rparr> = w1"
      using s(1) by (simp add: w1_def set_body_Some)
    have "(case ht_lookup d c of None \<Rightarrow> Some w1 | Some x \<Rightarrow> ppb_var_release x w1) = Some w2"
      using w2(1) by (cases "ht_lookup d c") (simp_all add: old_def ppb_var_release_def del: release_vars.simps(2))
    with s ks w1 show ?thesis
      by (simp add: ppb_var_dictionary_set_def ppb_var_var_to_utf8_def get_var_s_def c_def [symmetric])
  qed
  moreover have "table_kept i w w2"
    unfolding table_kept_def
  proof
    fix j
    show "map_option vs_var (ht_lookup (var_ht w2) j) \<in> {None, map_option vs_var (ht_lookup (var_ht w) j)} \<and>
      (j \<noteq> i \<longrightarrow> map_option vs_body (ht_lookup (var_ht w2) j) \<in> {None, map_option vs_body (ht_lookup (var_ht w) j)})"
    proof (cases "ht_lookup (var_ht w2) j")
      case (Some e')
      with w2(3) vr.release_survivor obtain e1 where
        e1: "ht_lookup (var_ht w1) j = Some e1" "e' = var_set_rc (vs_ref_count e') e1" by metis
      have "vs_var e' = vs_var e1" "vs_body e' = vs_body e1"
        using e1(2) var_set_rc_sel by metis+
      moreover have "map_option vs_var (ht_lookup (var_ht w) j) = Some (vs_var e1)"
        "j \<noteq> i \<longrightarrow> map_option vs_body (ht_lookup (var_ht w) j) = Some (vs_body e1)"
        using e1(1) by (auto simp: w1_def split: if_splits)
      ultimately show ?thesis using Some by (metis insertI1 insertI2 option.simps(9) singletonI)
    qed simp
  qed
  ultimately show ?thesis using c dm by auto
qed

lemma ppb_var_dictionary_get_eq:
  assumes "var_inv ext w" "valid_var (var_ht w) (VDictionary i)" "valid_var (var_ht w) (VString k)"
  shows "ppb_var_dictionary_get (VDictionary i) (VString k) w =
    (case dict_map (VDictionary i) w (string_of (VString k) w) of
       None \<Rightarrow> Some (VUndefined, w) | Some v \<Rightarrow> Some (v, ppb_var_add_ref v w))"
proof -
  from assms(1,2) obtain s d where "ht_lookup (var_ht w) i = Some s" "vs_body s = VB_Dict d"
    by (rule valid_dict)
  moreover from assms(1,3) obtain t len kd where "ht_lookup (var_ht w) k = Some t" "vs_body t = VB_Str len kd"
    by (rule valid_string)
  ultimately show ?thesis
    by (simp add: ppb_var_dictionary_get_def ppb_var_var_to_utf8_def get_var_s_def dict_map_def
        string_of_def ppb_var_add_ref2_def split: option.splits)
qed

section \<open>Strings and array buffers\<close>

lemma ppb_var_var_from_utf8_law:
  assumes inv: "var_inv ext w" and room: "length (var_ht w) < 2 ^ 32"
    and len: "len + 1 \<noteq> 0" "unat len \<le> length d"
  shows "\<exists>i w'. ppb_var_var_from_utf8 (Some d) len w = Some (VString i, w') \<and>
    ht_lookup (var_ht w) i = None \<and> var_inv (add_mset i ext) w' \<and>
    ppb_var_var_to_utf8 (VString i) w' = Some (take (unat len) d @ [NUL], len)"
proof -
  let ?b = "VB_Str len (take (unat len) d @ [NUL])"
  obtain i w' where "var_register VString ?b w = Some (VString i, w')" "ht_lookup (var_ht w) i = None"
    "var_ht w' = ht_insert i \<lparr>vs_var = VString i, vs_ref_count = 1, vs_body = ?b\<rparr> (var_ht w)"
    "var_inv (add_mset i ext) w'"
    using var_register_inv [OF inv room, of VString ?b] len by auto
  then show ?thesis
    using len by (simp add: ppb_var_var_from_utf8_def ppb_var_var_to_utf8_def get_var_s_def)
qed

text \<open>The bytes of an array buffer, and of its mapping.\<close>

definition abuf_data :: "PP_Var \<Rightarrow> 'a var_state_scheme \<Rightarrow> char list" where
  "abuf_data v w = (case get_var_s v w of
     Some s \<Rightarrow> (case vs_body s of VB_Abuf _ d _ \<Rightarrow> d | _ \<Rightarrow> []) | None \<Rightarrow> [])"

definition abuf_mapped :: "PP_Var \<Rightarrow> 'a var_state_scheme \<Rightarrow> bool" where
  "abuf_mapped v w = (case get_var_s v w of
     Some s \<Rightarrow> (case vs_body s of VB_Abuf _ _ m \<Rightarrow> m \<noteq> None | _ \<Rightarrow> False) | None \<Rightarrow> False)"

lemma valid_abuf:
  assumes "var_inv ext w" "valid_var (var_ht w) (VArrayBuffer i)"
  obtains s len d m where "ht_lookup (var_ht w) i = Some s" "vs_var s = VArrayBuffer i"
    "vs_body s = VB_Abuf len d m" "length d = unat len" "\<forall>d'. m = Some d' \<longrightarrow> length d' = unat len"
proof -
  obtain s where s: "ht_lookup (var_ht w) i = Some s" "vs_var s = VArrayBuffer i"
    "body_matches (VArrayBuffer i) (vs_body s)"
    using valid_body [OF assms] by auto
  then show thesis using that by (cases "vs_body s") auto
qed

text \<open>Map, write through the mapping, unmap: the buffer has the written bytes.\<close>

definition map_write_unmap ::
  "PP_Var \<Rightarrow> nat \<Rightarrow> char \<Rightarrow> 'a var_state_scheme \<Rightarrow> (char list option \<times> 'a var_state_scheme) option" where
  "map_write_unmap v n c w = do {
     (p, w) \<leftarrow> ppb_var_array_buffer_map v w;
     w \<leftarrow> ppb_var_array_buffer_unmap v (mapped_write v n c w);
     Some (p, w)
   }"

lemma map_write_unmap_law:
  assumes inv: "var_inv ext w" and v: "valid_var (var_ht w) (VArrayBuffer i)"
    and "\<not> abuf_mapped (VArrayBuffer i) w"
  shows "\<exists>w'. map_write_unmap (VArrayBuffer i) n c w = Some (Some (abuf_data (VArrayBuffer i) w), w') \<and>
    var_inv ext w' \<and> abuf_data (VArrayBuffer i) w' = (abuf_data (VArrayBuffer i) w)[n := c] \<and>
    \<not> abuf_mapped (VArrayBuffer i) w' \<and>
    (\<forall>j. j \<noteq> i \<longrightarrow> ht_lookup (var_ht w') j = ht_lookup (var_ht w) j)"
proof -
  from inv v obtain s len d m where s: "ht_lookup (var_ht w) i = Some s" "vs_var s = VArrayBuffer i"
    "vs_body s = VB_Abuf len d m" "length d = unat len" by (rule valid_abuf)
  with assms(3) have m: "m = None" by (simp add: abuf_mapped_def get_var_s_def)
  let ?w = "set_body i (VB_Abuf len (d[n := c]) None) w"
  have "map_write_unmap (VArrayBuffer i) n c w = Some (Some d, ?w)"
    using s m by (simp add: map_write_unmap_def ppb_var_array_buffer_map_def mapped_write_def
        ppb_var_array_buffer_unmap_def get_var_s_def set_body_def)
  moreover have "var_inv ext ?w"
    using s by (intro set_body_inv [OF inv s(1)]) (simp_all add: var_kids_def)
  ultimately show ?thesis
    using s m by (simp add: abuf_data_def abuf_mapped_def get_var_s_def)
qed

end
