(* ===== verification/Var_Correct.thy ===== *)
theory Var_Correct
  imports Var_Laws
begin

text \<open>
  The properties of the variable table, over the lemmas of \<^verbatim>\<open>Var_Laws\<close>. \<open>var_inv ext w\<close> says
  that the counts of the table are exactly the references that exist, \<open>ext\<close> of them
  outside the table, and that every handle inside an entry has the type of what it names.
  \<open>sample\<close> is the table the witnesses evaluate on: one entry of every kind, a string that
  the array and the dictionary share.
\<close>

section \<open>A table to evaluate on\<close>

definition sample :: var_state where
  "sample = \<lparr>var_ht =
     [(1, \<lparr>vs_var = VString 1, vs_ref_count = 3, vs_body = VB_Str 1 [CHR ''k'', NUL]\<rparr>),
      (2, \<lparr>vs_var = VArray 2, vs_ref_count = 1, vs_body = VB_Array [VString 1]\<rparr>),
      (3, \<lparr>vs_var = VDictionary 3, vs_ref_count = 1, vs_body = VB_Dict [(''k'', VString 1)]\<rparr>),
      (4, \<lparr>vs_var = VArrayBuffer 4, vs_ref_count = 1, vs_body = VB_Abuf 2 [NUL, NUL] None\<rparr>),
      (5, \<lparr>vs_var = VObject 5, vs_ref_count = 1, vs_body = VB_Obj Class_n2p_proxy 77\<rparr>)],
     var_id = 5, np_released = [], np_retained = []\<rparr>"

lemma sample_inv: "var_inv {#1, 2, 3, 4, 5#} sample"
  unfolding var_inv_def
proof
  show "balanced vs_ref_count var_kids {#1, 2, 3, 4, 5#} (var_ht sample)"
    by (rule balancedI) (auto simp: sample_def var_kids_def rc_at_def ht_ok_def split: if_splits)
  show "entries_ok (var_ht sample)"
    by (auto simp: sample_def entries_ok_def entry_ok_def handle_ok_def ht_ok_def split: if_splits)
qed

lemma sample_valid:
  "valid_var (var_ht sample) (VString 1)" "valid_var (var_ht sample) (VArray 2)"
  "valid_var (var_ht sample) (VDictionary 3)" "valid_var (var_ht sample) (VArrayBuffer 4)"
  "valid_var (var_ht sample) (VObject 5)"
  by (simp_all add: sample_def valid_var_def)

section \<open>Reference counts\<close>

text \<open>C2: Releasing a reference the caller holds always returns, leaves the counts exact for
  the references that remain (nested containers included), and every entry anyone still
  refers to stays in the table with its contents.\<close>

theorem var_release_sound:
  assumes "var_inv (ext + ref_of v) w" and "valid_var (var_ht w) v"
  shows "\<exists>w'. ppb_var_release v w = Some w' \<and> var_inv ext w' \<and>
    (\<forall>i s. i \<in># ext \<longrightarrow> ht_lookup (var_ht w) i = Some s \<longrightarrow>
       (\<exists>n. ht_lookup (var_ht w') i = Some (s\<lparr>vs_ref_count := n\<rparr>) \<and> 0 < n))"
proof -
  from ppb_var_release_inv [OF assms(1) valid_var_handle_ok [OF assms(2)]]
  obtain w' where w': "ppb_var_release v w = Some w'" "var_inv ext w'"
    "var_ht w' = rc_release vs_ref_count var_set_rc var_kids (counted_ids [v]) (var_ht w)"
    by auto
  have "\<exists>n. ht_lookup (var_ht w') i = Some (s\<lparr>vs_ref_count := n\<rparr>) \<and> 0 < n"
    if i: "i \<in># ext" and s: "ht_lookup (var_ht w) i = Some s" for i s
  proof -
    from i have "i \<in># ext + held var_kids (var_ht w')" by simp
    then obtain e where e: "ht_lookup (var_ht w') i = Some e" "0 < vs_ref_count e"
      by (rule balanced_live [OF var_invD(1) [OF w'(2)]])
    moreover have "e = s\<lparr>vs_ref_count := vs_ref_count e\<rparr>"
      using vr.release_survivor e(1) s w'(3) by (metis option.inject var_set_rc_def)
    ultimately show ?thesis by metis
  qed
  with w' show ?thesis by blast
qed

theorem var_release_sound_witness:
  "\<exists>w'. ppb_var_release (VArray 2) sample = Some w' \<and> var_inv {#1, 3, 4, 5#} w' \<and>
    (\<forall>i s. i \<in># {#1, 3, 4, 5#} \<longrightarrow> ht_lookup (var_ht sample) i = Some s \<longrightarrow>
       (\<exists>n. ht_lookup (var_ht w') i = Some (s\<lparr>vs_ref_count := n\<rparr>) \<and> 0 < n))"
  using sample_inv sample_valid
  by (intro var_release_sound) (simp_all add: add_mset_commute)

text \<open>A reference taken and given back leaves the whole state as it was.\<close>

theorem var_add_ref_release:
  assumes "var_inv ext w" and "valid_var (var_ht w) v"
  shows "ppb_var_release v (ppb_var_add_ref v w) = Some w"
proof (cases "reference_countable v")
  case True
  with assms(2) obtain s where s: "ht_lookup (var_ht w) (as_id v) = Some s"
    by (auto simp: valid_var_def)
  with assms(1) have "0 < vs_ref_count s" by (auto dest: var_invD balancedD_pos)
  with True s show ?thesis
    by (simp add: ppb_var_release_def ppb_var_add_ref_def get_var_s_def ht_insert_same)
next
  case False
  then show ?thesis by (simp add: ppb_var_release_def ppb_var_add_ref_def)
qed

theorem var_add_ref_release_witness:
  "ppb_var_release (VString 1) (ppb_var_add_ref (VString 1) sample) = Some sample"
  using sample_inv sample_valid by (intro var_add_ref_release)

text \<open>When the last reference to a proxy object goes, the browser's object is handed back,
  once; before that, the release only counts.\<close>

theorem var_object_released_once:
  assumes "get_var_s (VObject i) w = Some s" and "vs_body s = VB_Obj Class_n2p_proxy p"
  shows "ppb_var_release (VObject i) w =
    Some (if vs_ref_count s \<le> 1
          then w\<lparr>var_ht := ht_remove i (var_ht w), np_released := p # np_released w\<rparr>
          else w\<lparr>var_ht := ht_insert i (s\<lparr>vs_ref_count := vs_ref_count s - 1\<rparr>) (var_ht w)\<rparr>)"
  using assms by (simp add: ppb_var_release_def)

theorem var_object_released_once_witness:
  "map_option np_released (ppb_var_release (VObject 5) sample) = Some [77]"
  using var_object_released_once [of 5 sample "\<lparr>vs_var = VObject 5, vs_ref_count = 1, vs_body = VB_Obj Class_n2p_proxy 77\<rparr>" 77]
  by (simp add: get_var_s_def sample_def)

section \<open>Strings\<close>

text \<open>A string made from bytes gets an identifier no other variable has, is counted
  once, and reads back as the same bytes and length, with a terminator; the counts stay
  exact. Only the length \<open>2\<^sup>3\<^sup>2 - 1\<close>, whose block would have size 0, is excluded.\<close>

theorem var_string_roundtrip:
  assumes "var_inv ext w" and "length (var_ht w) < 2 ^ 32"
    and "len + 1 \<noteq> 0" and "unat len \<le> length d"
  shows "\<exists>i w'. ppb_var_var_from_utf8 (Some d) len w = Some (VString i, w') \<and>
    ht_lookup (var_ht w) i = None \<and> var_inv (add_mset i ext) w' \<and>
    ppb_var_var_to_utf8 (VString i) w' = Some (take (unat len) d @ [NUL], len)"
  using assms by (rule ppb_var_var_from_utf8_law)

theorem var_string_roundtrip_witness:
  "\<exists>i w'. ppb_var_var_from_utf8 (Some ''abc'') 2 sample = Some (VString i, w') \<and>
    ht_lookup (var_ht sample) i = None \<and> var_inv (add_mset i {#1, 2, 3, 4, 5#}) w' \<and>
    ppb_var_var_to_utf8 (VString i) w' = Some (take (unat (2::u32)) ''abc'' @ [NUL], 2)"
  by (rule var_string_roundtrip [OF sample_inv]) (simp_all add: sample_def)

section \<open>Containers\<close>

text \<open>C30: Storing into an array always succeeds below the last index, changes what the
  array shows at that index only, and grows the array to cover it. The reference of the
  element that was there is not given back: the counts stay exact only if the outside is
  charged with it, so a caller that stores twice loses a reference for ever.\<close>

theorem var_array_set_correct:
  assumes "var_inv ext w" and "valid_var (var_ht w) (VArray i)"
    and "valid_var (var_ht w) value" and "unat index < 2 ^ 32 - 1"
  shows "\<exists>w'. ppb_var_array_set (VArray i) index value w = Some (True, w') \<and>
    var_inv (ext + ref_of (array_at (VArray i) (unat index) w)) w' \<and>
    (\<forall>n. array_at (VArray i) n w' = (if n = unat index then value else array_at (VArray i) n w)) \<and>
    length (array_elems (VArray i) w') = max (length (array_elems (VArray i) w)) (unat index + 1)"
  using assms by (rule ppb_var_array_set_law)

theorem var_array_set_correct_witness:
  "\<exists>w'. ppb_var_array_set (VArray 2) 3 (VObject 5) sample = Some (True, w') \<and>
    var_inv ({#1, 2, 3, 4, 5#} + ref_of (array_at (VArray 2) (unat (3::u32)) sample)) w' \<and>
    (\<forall>n. array_at (VArray 2) n w' = (if n = unat (3::u32) then VObject 5 else array_at (VArray 2) n sample)) \<and>
    length (array_elems (VArray 2) w') = max (length (array_elems (VArray 2) sample)) (unat (3::u32) + 1)"
  by (rule var_array_set_correct [OF sample_inv]) (simp_all add: sample_valid)

definition overwrite_run :: "var_state \<Rightarrow> var_state option" where
  "overwrite_run w = do {
     (arr, w) \<leftarrow> ppb_var_array_create w;
     (a, w) \<leftarrow> ppb_var_var_from_utf8_z (Some [CHR ''a'', NUL]) w;
     (b, w) \<leftarrow> ppb_var_var_from_utf8_z (Some [CHR ''b'', NUL]) w;
     (_, w) \<leftarrow> ppb_var_array_set arr 0 a w;
     (_, w) \<leftarrow> ppb_var_array_set arr 0 b w;
     w \<leftarrow> ppb_var_release a w;
     w \<leftarrow> ppb_var_release b w;
     ppb_var_release arr w
   }"

lemma get_new_var_id_next: "ht_lookup t (i + 1) = None \<Longrightarrow> get_new_var_id t i = Some (i + 1)"
  using get_new_var_id_first [of 1 t i] by simp

text \<open>That loss on a concrete run: two strings stored at the same index of a new array,
  then every reference of the caller released, leave the first string in the table.\<close>

theorem var_array_overwrite_leaks:
  "map_option var_ht (overwrite_run \<lparr>var_ht = [], var_id = 0, np_released = [], np_retained = []\<rparr>) =
     Some [(2, \<lparr>vs_var = VString 2, vs_ref_count = 1, vs_body = VB_Str 1 [CHR ''a'', NUL]\<rparr>)]"
  by (simp add: overwrite_run_def ppb_var_array_create_def ppb_var_var_from_utf8_z_def
    ppb_var_var_from_utf8_def var_register_def get_new_var_id_next ppb_var_array_set_def get_var_s_def
    ppb_var_add_ref_def ppb_var_release_def c_str_def NUL_def Let_def)

text \<open>C29: Storing into a dictionary the caller holds replaces the value of that key only,
  gives the replaced value's reference back and takes one to the new value, so the counts
  are exact for the same outside references; a get of the key then returns the value.\<close>

theorem var_dictionary_set_get:
  assumes "var_inv (ext + ref_of value) w" and "i \<in># ext" and "k \<in># ext"
    and "valid_var (var_ht w) (VDictionary i)" and "valid_var (var_ht w) (VString k)"
    and "valid_var (var_ht w) value"
  shows "\<exists>w'. ppb_var_dictionary_set (VDictionary i) (VString k) value w = Some (True, w') \<and>
    var_inv (ext + ref_of value) w' \<and>
    dict_map (VDictionary i) w' = (dict_map (VDictionary i) w)(string_of (VString k) w \<mapsto> value) \<and>
    ppb_var_dictionary_get (VDictionary i) (VString k) w' = Some (value, ppb_var_add_ref value w')"
proof -
  from ppb_var_dictionary_set_law [OF assms(1,2,4,5,6)] obtain w' where
    w': "ppb_var_dictionary_set (VDictionary i) (VString k) value w = Some (True, w')"
    "var_inv (ext + ref_of value) w'"
    "dict_map (VDictionary i) w' = (dict_map (VDictionary i) w)(string_of (VString k) w \<mapsto> value)"
    "table_kept i w w'" by blast
  have "valid_var (var_ht w') (VDictionary i)" "valid_var (var_ht w') (VString k)"
    using table_kept_valid [OF w'(4,2)] assms(2-5) by simp_all
  moreover have "string_of (VString k) w' = string_of (VString k) w"
    using table_kept_string [OF w'(4,2) assms(5)] assms(3-5) by (cases "k = i") (auto simp: valid_var_def)
  ultimately have "ppb_var_dictionary_get (VDictionary i) (VString k) w' = Some (value, ppb_var_add_ref value w')"
    using ppb_var_dictionary_get_eq [OF w'(2)] w'(3) by simp
  with w'(1-3) show ?thesis by blast
qed

theorem var_dictionary_set_get_witness:
  "\<exists>w'. ppb_var_dictionary_set (VDictionary 3) (VString 1) (VArray 2) sample = Some (True, w') \<and>
    var_inv ({#1, 3, 4, 5#} + ref_of (VArray 2)) w' \<and>
    dict_map (VDictionary 3) w' = (dict_map (VDictionary 3) sample)(string_of (VString 1) sample \<mapsto> VArray 2) \<and>
    ppb_var_dictionary_get (VDictionary 3) (VString 1) w' = Some (VArray 2, ppb_var_add_ref (VArray 2) w')"
  by (rule var_dictionary_set_get)
    (use sample_inv in \<open>simp_all add: sample_valid add_mset_commute\<close>)

text \<open>Mapping an array buffer, writing a byte through the mapping and unmapping it
  changes that byte of the buffer and nothing else in the table.\<close>

theorem var_array_buffer_map_unmap:
  assumes "var_inv ext w" and "valid_var (var_ht w) (VArrayBuffer i)"
    and "\<not> abuf_mapped (VArrayBuffer i) w"
  shows "\<exists>w'. map_write_unmap (VArrayBuffer i) n c w = Some (Some (abuf_data (VArrayBuffer i) w), w') \<and>
    var_inv ext w' \<and> abuf_data (VArrayBuffer i) w' = (abuf_data (VArrayBuffer i) w)[n := c] \<and>
    \<not> abuf_mapped (VArrayBuffer i) w' \<and>
    (\<forall>j. j \<noteq> i \<longrightarrow> ht_lookup (var_ht w') j = ht_lookup (var_ht w) j)"
  using assms by (rule map_write_unmap_law)

theorem var_array_buffer_map_unmap_witness:
  "\<exists>w'. map_write_unmap (VArrayBuffer 4) 1 CHR ''x'' sample = Some (Some (abuf_data (VArrayBuffer 4) sample), w') \<and>
    var_inv {#1, 2, 3, 4, 5#} w' \<and>
    abuf_data (VArrayBuffer 4) w' = (abuf_data (VArrayBuffer 4) sample)[1 := CHR ''x''] \<and>
    \<not> abuf_mapped (VArrayBuffer 4) w' \<and>
    (\<forall>j. j \<noteq> 4 \<longrightarrow> ht_lookup (var_ht w') j = ht_lookup (var_ht sample) j)"
  by (rule var_array_buffer_map_unmap [OF sample_inv])
    (simp_all add: sample_valid, simp add: abuf_mapped_def get_var_s_def sample_def)

end
