(* ===== verification/Resource.thy ===== *)
theory Resource
  imports Var_Laws
begin

text \<open>
  \<^verbatim>\<open>pp_resource.c\<close>: the table of reference counted resources, the structures every Pepper
  interface hands out handles to. A structure is used between \<^verbatim>\<open>pp_resource_acquire\<close>,
  which locks it, and \<^verbatim>\<open>pp_resource_release\<close>. Every function holds the mutex of the table
  while it looks at it, so each is one step on the state; what several threads do to each
  other between these steps is the subject of \<^verbatim>\<open>Resource_Threads\<close>.
\<close>

section \<open>Destructors\<close>

text \<open>
  What the destructor of each resource type gives back: \<^verbatim>\<open>ppb_*_destroy\<close>. The destructors
  differ in nothing else that the rest of the program sees.
\<close>

definition post_data_kids :: "post_data_item_s list option \<Rightarrow> PP_Resource list" where
  "post_data_kids pd = (case pd of None \<Rightarrow> [] | Some items \<Rightarrow>
     filter (\<lambda>r. r \<noteq> 0) (map pdi_file_ref items))"

fun payload_kids :: "payload \<Rightarrow> PP_Resource list" where
  "payload_kids (PL_url_request_info ri) = post_data_kids (ri_post_data ri)"
| "payload_kids (PL_url_loader ul) = post_data_kids (ul_post_data ul)"
| "payload_kids (PL_url_response_info r) = [r]"
| "payload_kids (PL_video_capture vc) = (case vc_buffers vc of None \<Rightarrow> []
    | Some buffers \<Rightarrow> take (unat (vc_buffer_count vc)) buffers)"
| "payload_kids (PL_video_decoder vd) = filter (\<lambda>r. r \<noteq> 0) [vd_orig_graphics3d vd, vd_graphics3d vd]"
| "payload_kids (PL_other rs _ _) = rs"
| "payload_kids _ = []"

fun payload_vars :: "payload \<Rightarrow> PP_Var list" where
  "payload_vars (PL_input_event ie) = [ie_code ie, ie_text ie]"
| "payload_vars (PL_device_ref dr) = [dr_name dr, dr_longname dr]"
| "payload_vars (PL_file_chooser fc) = [fc_accept_types fc]"
| "payload_vars (PL_other _ vs _) = vs"
| "payload_vars _ = []"

fun payload_fds :: "payload \<Rightarrow> int list" where
  "payload_fds (PL_file_ref fr) = (if fr_type fr = PP_FILE_REF_TYPE_FD then [fr_fd fr] else [])"
| "payload_fds (PL_url_loader ul) = (if 0 \<le> ul_fd ul then [ul_fd ul] else [])"
| "payload_fds (PL_file_io fio) = (if 0 \<le> fio_fd fio then [fio_fd fio] else [])"
| "payload_fds (PL_video_capture vc) = (if vc_fd vc \<noteq> - 1 then [vc_fd vc] else [])"
| "payload_fds (PL_other _ _ fds) = fds"
| "payload_fds _ = []"

text \<open>
  The socket of a structure that was not disconnected before. Its destructor does not close it: it
  asks the network thread to, through a task of its own.
\<close>

fun payload_socket :: "payload \<Rightarrow> int option" where
  "payload_socket (PL_tcp_socket ts) = (if ts_destroyed ts then None else Some (ts_sock ts))"
| "payload_socket (PL_udp_socket us) = (if us_destroyed us then None else Some (us_sock us))"
| "payload_socket _ = None"

section \<open>Network tasks\<close>

definition async_network_task_create :: "'a res_state_scheme \<Rightarrow> ptr \<times> 'a res_state_scheme" where
  "async_network_task_create w =
     (next_task w, w\<lparr>net_tasks := ht_insert (next_task w) zero_task (net_tasks w), next_task := next_task w + 1\<rparr>)"

text \<open>The fields of a task, written through its pointer.\<close>

definition task_write :: "ptr \<Rightarrow> async_network_task_s \<Rightarrow> 'a res_state_scheme \<Rightarrow> 'a res_state_scheme" where
  "task_write p task w = w\<lparr>net_tasks := ht_insert p task (net_tasks w)\<rparr>"

text \<open>\<^verbatim>\<open>g_hash_table_replace\<close> leaves a key where it is, if it is there.\<close>

definition add_event_mapping :: "ptr \<Rightarrow> int \<Rightarrow> event_callback \<Rightarrow> 'a res_state_scheme \<Rightarrow> 'a res_state_scheme" where
  "add_event_mapping p sock cb w =
     (case ht_lookup (net_tasks w) p of
        None \<Rightarrow> w
      | Some task \<Rightarrow> (task_write p (task\<lparr>at_event := Some (sock, cb)\<rparr>) w)
          \<lparr>tasks_ht := (if p \<in> set (tasks_ht w) then tasks_ht w else tasks_ht w @ [p])\<rparr>)"

text \<open>The event of a disconnection is a timer that is due at once: it waits for no descriptor.\<close>

definition handle_disconnect_stage1 :: "ptr \<Rightarrow> 'a res_state_scheme \<Rightarrow> 'a res_state_scheme" where
  "handle_disconnect_stage1 p w = add_event_mapping p (-1) Handle_disconnect_stage2 w"

definition disconnect_task :: "PP_Resource \<Rightarrow> int \<Rightarrow> async_network_task_s" where
  "disconnect_task self_id sock =
     zero_task\<lparr>at_type := ASYNC_NETWORK_DISCONNECT, at_resource := self_id, at_sock := sock\<rparr>"

definition push_disconnect :: "PP_Resource \<Rightarrow> int \<Rightarrow> 'a res_state_scheme \<Rightarrow> 'a res_state_scheme" where
  "push_disconnect self_id sock w =
     (let (p, w) = async_network_task_create w
      in handle_disconnect_stage1 p (task_write p (disconnect_task self_id sock) w))"

text \<open>What a destructor does apart from the references it gives up.\<close>

definition close_payload :: "PP_Resource \<Rightarrow> payload \<Rightarrow> 'a res_state_scheme \<Rightarrow> 'a res_state_scheme" where
  "close_payload self_id pl w =
     (let w = w\<lparr>closed_fds := rev (payload_fds pl) @ closed_fds w\<rparr>
      in case payload_socket pl of None \<Rightarrow> w | Some sock \<Rightarrow> push_disconnect self_id sock w)"

text \<open>Only the tasks, the descriptors and the table of tasks differ.\<close>

definition same_but_net :: "'a res_state_scheme \<Rightarrow> 'a res_state_scheme \<Rightarrow> bool" where
  "same_but_net w' w \<longleftrightarrow>
     (\<exists>fds ts t n. w' = w\<lparr>closed_fds := fds, net_tasks := ts, tasks_ht := t, next_task := n\<rparr>)"

lemma same_but_net_refl [simp]: "same_but_net w w"
  unfolding same_but_net_def by (metis (no_types) res_state.surjective res_state.update_convs(4-7))

lemma same_but_net_trans [trans]: "same_but_net w2 w1 \<Longrightarrow> same_but_net w1 w \<Longrightarrow> same_but_net w2 w"
  unfolding same_but_net_def by fastforce

lemma same_but_net_update [simp]:
  "same_but_net (w\<lparr>closed_fds := fds\<rparr>) w" "same_but_net (w\<lparr>net_tasks := ts\<rparr>) w"
  "same_but_net (w\<lparr>tasks_ht := t\<rparr>) w" "same_but_net (w\<lparr>next_task := n\<rparr>) w"
  unfolding same_but_net_def by (cases w; auto)+

lemma same_but_net_add_event: "same_but_net (add_event_mapping p sock cb w) w"
  by (cases w) (auto simp: add_event_mapping_def task_write_def same_but_net_def split: option.split)

lemma same_but_net_push_disconnect: "same_but_net (push_disconnect r sock w) w"
  unfolding push_disconnect_def async_network_task_create_def Let_def prod.case handle_disconnect_stage1_def
  by (rule same_but_net_trans [OF same_but_net_add_event])
    (cases w; auto simp: task_write_def same_but_net_def)

lemma close_payload_same: "same_but_net (close_payload r pl w) w"
  using same_but_net_trans [OF same_but_net_push_disconnect same_but_net_update(1)]
  by (auto simp: close_payload_def Let_def split: option.split)

lemma same_but_netD:
  assumes "same_but_net w' w"
  shows "res_tbl w' = res_tbl w" "res_tbl_next w' = res_tbl_next w" "destructors_ht w' = destructors_ht w"
    "var_ht w' = var_ht w" "var_id w' = var_id w" "np_released w' = np_released w" "np_retained w' = np_retained w"
    "res_state.more w' = res_state.more w"
  using assms by (auto simp: same_but_net_def)

lemmas close_payload_frame [simp] = same_but_netD [OF close_payload_same]

section \<open>The operations\<close>

text \<open>The next identifier is a signed \<^verbatim>\<open>int\<close>; its overflow is undefined.\<close>

definition pp_resource_allocate ::
  "pp_resource_type_e \<Rightarrow> PP_Instance option \<Rightarrow> 'a res_state_scheme \<Rightarrow> (PP_Resource \<times> 'a res_state_scheme) option" where
  "pp_resource_allocate type instance w =
     (if INT_MAX \<le> res_tbl_next w then None
      else
        let self_id = res_tbl_next w;
            res = \<lparr>r_resource_type = type, r_ref_cnt = 1, r_instance = instance, r_self_id = self_id,
              r_locked = False, r_payload = zero_payload type\<rparr>
        in Some (self_id, w\<lparr>res_tbl_next := self_id + 1, res_tbl := ht_insert self_id res (res_tbl w)\<rparr>))"

definition pp_resource_expunge :: "PP_Resource \<Rightarrow> 'a res_state_scheme \<Rightarrow> 'a res_state_scheme" where
  "pp_resource_expunge resource w =
     (case ht_lookup (res_tbl w) resource of
        Some ptr \<Rightarrow> w\<lparr>res_tbl := ht_remove resource (res_tbl w)\<rparr>
      | None \<Rightarrow> w)"

text \<open>
  One turn of the loop of \<^verbatim>\<open>pp_resource_acquire\<close>: there is no such resource, or it is
  locked, or it is ours. The function itself repeats the turn until it is not busy; while
  no other thread runs it then repeats for ever.
\<close>

datatype attempt = Att_bad | Att_busy | Att_got pp_resource_s

definition acquire_attempt ::
  "PP_Resource \<Rightarrow> pp_resource_type_e \<Rightarrow> 'a res_state_scheme \<Rightarrow> attempt \<times> 'a res_state_scheme" where
  "acquire_attempt resource type w =
     (case ht_lookup (res_tbl w) resource of
        None \<Rightarrow> (Att_bad, w)
      | Some gr \<Rightarrow>
          if r_resource_type gr \<noteq> type then (Att_bad, w)
          else if r_locked gr then (Att_busy, w)
          else let gr' = gr\<lparr>r_locked := True, r_ref_cnt := r_ref_cnt gr + 1\<rparr>
               in (Att_got gr', w\<lparr>res_tbl := ht_insert resource gr' (res_tbl w)\<rparr>))"

definition pp_resource_acquire ::
  "PP_Resource \<Rightarrow> pp_resource_type_e \<Rightarrow> 'a res_state_scheme \<Rightarrow>
   (pp_resource_s option \<times> 'a res_state_scheme) option" where
  "pp_resource_acquire resource type w =
     (case acquire_attempt resource type w of
        (Att_bad, w') \<Rightarrow> Some (None, w')
      | (Att_got gr, w') \<Rightarrow> Some (Some gr, w')
      | (Att_busy, _) \<Rightarrow> None)"

definition pp_resource_get_type :: "PP_Resource \<Rightarrow> 'a res_state_scheme \<Rightarrow> pp_resource_type_e" where
  "pp_resource_get_type resource w =
     (case ht_lookup (res_tbl w) resource of
        None \<Rightarrow> PP_RESOURCE_UNKNOWN
      | Some ptr \<Rightarrow> r_resource_type ptr)"

definition pp_resource_ref :: "PP_Resource \<Rightarrow> 'a res_state_scheme \<Rightarrow> PP_Resource \<times> 'a res_state_scheme" where
  "pp_resource_ref resource w =
     (case ht_lookup (res_tbl w) resource of
        None \<Rightarrow> (resource, w)
      | Some ptr \<Rightarrow> (resource, w\<lparr>res_tbl := ht_insert resource
          (ptr\<lparr>r_ref_cnt := r_ref_cnt ptr + 1\<rparr>) (res_tbl w)\<rparr>))"

text \<open>
  The destructor runs after the table has let go of the resource; the resources it
  releases are worked off before the rest of the list.
\<close>

lemma res_state_of_more:
  assumes "var_state.more w' = var_state.more w"
  shows "res_tbl w' = res_tbl w" "res_tbl_next w' = res_tbl_next w"
    "destructors_ht w' = destructors_ht w" "closed_fds w' = closed_fds w"
    "net_tasks w' = net_tasks w" "tasks_ht w' = tasks_ht w" "next_task w' = next_task w"
    "res_state.more w' = res_state.more w"
  using assms by (cases w; cases w'; simp)+

lemma var_destroy_more:
  "var_destroy v b w = Some (vs, w') \<Longrightarrow> var_state.more w' = var_state.more w"
  by (induction v b w rule: var_destroy.induct) auto

lemma release_vars_more:
  "release_vars vs w = Some w' \<Longrightarrow> var_state.more w' = var_state.more w"
proof (induction vs w rule: release_vars.induct)
  case (2 v vs w)
  then show ?case
    by (auto split: if_splits option.splits) (drule var_destroy_more, simp)
qed simp

function unref_all :: "PP_Resource list \<Rightarrow> 'a res_state_scheme \<Rightarrow> 'a res_state_scheme option" where
  "unref_all [] w = Some w"
| "unref_all (resource # rs) w =
     (case ht_lookup (res_tbl w) resource of
        None \<Rightarrow> unref_all rs w
      | Some ptr \<Rightarrow>
          if r_ref_cnt ptr - 1 \<le> 0 then
            let w1 = w\<lparr>res_tbl := ht_remove resource (res_tbl w)\<rparr>
            in if r_resource_type ptr \<in> set (destructors_ht w) then
                 (case release_vars (payload_vars (r_payload ptr)) w1 of
                    None \<Rightarrow> None
                  | Some w2 \<Rightarrow> unref_all (payload_kids (r_payload ptr) @ rs)
                      (close_payload resource (r_payload ptr) w2))
               else unref_all rs w1
          else unref_all rs (w\<lparr>res_tbl := ht_insert resource
                 (ptr\<lparr>r_ref_cnt := r_ref_cnt ptr - 1\<rparr>) (res_tbl w)\<rparr>))"
  by pat_completeness auto
termination
  by (relation "measures [\<lambda>(rs, w). length (res_tbl w), \<lambda>(rs, w). length rs]")
    (auto simp: length_ht_insert_present length_ht_remove_less
      dest!: release_vars_more res_state_of_more(1))

definition pp_resource_unref :: "PP_Resource \<Rightarrow> 'a res_state_scheme \<Rightarrow> 'a res_state_scheme option" where
  "pp_resource_unref resource w = unref_all [resource] w"

definition pp_resource_unlock :: "PP_Resource \<Rightarrow> 'a res_state_scheme \<Rightarrow> 'a res_state_scheme" where
  "pp_resource_unlock resource w =
     (case ht_lookup (res_tbl w) resource of
        None \<Rightarrow> w
      | Some gr \<Rightarrow> w\<lparr>res_tbl := ht_insert resource (gr\<lparr>r_locked := False\<rparr>) (res_tbl w)\<rparr>)"

definition pp_resource_release :: "PP_Resource \<Rightarrow> 'a res_state_scheme \<Rightarrow> 'a res_state_scheme option" where
  "pp_resource_release resource w = pp_resource_unref resource (pp_resource_unlock resource w)"

definition register_resource :: "pp_resource_type_e \<Rightarrow> 'a res_state_scheme \<Rightarrow> 'a res_state_scheme" where
  "register_resource type w =
     w\<lparr>destructors_ht := List.insert type (destructors_ht w)\<rparr>"

section \<open>Using a resource\<close>

text \<open>
  The structure written through the pointer that \<^verbatim>\<open>pp_resource_acquire\<close> returned, and the
  frame every operation of an interface has: acquire, fail if that fails, use, release.
\<close>

definition res_write :: "PP_Resource \<Rightarrow> payload \<Rightarrow> 'a res_state_scheme \<Rightarrow> 'a res_state_scheme" where
  "res_write resource pl w =
     (case ht_lookup (res_tbl w) resource of
        None \<Rightarrow> w
      | Some gr \<Rightarrow> w\<lparr>res_tbl := ht_insert resource (gr\<lparr>r_payload := pl\<rparr>) (res_tbl w)\<rparr>)"

definition with_resource ::
  "PP_Resource \<Rightarrow> pp_resource_type_e \<Rightarrow> 'b \<Rightarrow>
   (pp_resource_s \<Rightarrow> 'a res_state_scheme \<Rightarrow> ('b \<times> 'a res_state_scheme) option) \<Rightarrow>
   'a res_state_scheme \<Rightarrow> ('b \<times> 'a res_state_scheme) option" where
  "with_resource resource type bad body w = do {
     (p, w) \<leftarrow> pp_resource_acquire resource type w;
     (case p of
        None \<Rightarrow> Some (bad, w)
      | Some gr \<Rightarrow> do {
          (x, w) \<leftarrow> body gr w;
          w \<leftarrow> pp_resource_release resource w;
          Some (x, w)
        })
   }"


text \<open>
  Two common shapes of that frame: read fields of the structure, and change fields of it.
  Fields of another type's structure cannot be read (\<open>None\<close>).
\<close>

definition res_read ::
  "PP_Resource \<Rightarrow> pp_resource_type_e \<Rightarrow> 'b \<Rightarrow> (payload \<Rightarrow> 'b option) \<Rightarrow>
   'a res_state_scheme \<Rightarrow> ('b \<times> 'a res_state_scheme) option" where
  "res_read resource type bad f =
     with_resource resource type bad
       (\<lambda>gr w. case f (r_payload gr) of None \<Rightarrow> None | Some x \<Rightarrow> Some (x, w))"

definition res_update ::
  "PP_Resource \<Rightarrow> pp_resource_type_e \<Rightarrow> 'b \<Rightarrow> (payload \<Rightarrow> ('b \<times> payload) option) \<Rightarrow>
   'a res_state_scheme \<Rightarrow> ('b \<times> 'a res_state_scheme) option" where
  "res_update resource type bad f =
     with_resource resource type bad
       (\<lambda>gr w. case f (r_payload gr) of None \<Rightarrow> None | Some (x, pl) \<Rightarrow> Some (x, res_write resource pl w))"

end
