(* ===== verification/Resource_Laws.thy ===== *)
theory Resource_Laws
  imports Resource
begin

text \<open>
  What holds of the resource table. It is a second instance of the reference counting
  discipline of \<^verbatim>\<open>Refcount\<close>, and its entries hold variables of the first: the invariant of
  the whole state counts both.
\<close>

section \<open>The invariant\<close>

definition res_set_rc :: "int \<Rightarrow> pp_resource_s \<Rightarrow> pp_resource_s" where
  "res_set_rc n e = e\<lparr>r_ref_cnt := n\<rparr>"

definition res_kids :: "pp_resource_s \<Rightarrow> PP_Resource list" where
  "res_kids e = filter (\<lambda>r. r \<noteq> 0) (payload_kids (r_payload e))"

definition res_vars :: "pp_resource_s \<Rightarrow> u32 list" where
  "res_vars e = counted_ids (payload_vars (r_payload e))"

interpretation rr: refcounted r_ref_cnt res_set_rc res_kids
  by unfold_locales (simp_all add: res_set_rc_def res_kids_def)

definition res_entry_ok :: "'a res_state_scheme \<Rightarrow> PP_Resource \<Rightarrow> pp_resource_s \<Rightarrow> bool" where
  "res_entry_ok w r e \<longleftrightarrow> r_self_id e = r \<and> 0 < r \<and> r < res_tbl_next w \<and>
     r_resource_type e \<in> set (destructors_ht w) \<and>
     payload_fits (r_resource_type e) (r_payload e) \<and>
     (\<forall>v\<in>set (payload_vars (r_payload e)). handle_ok (var_ht w) v)"

definition res_entries_ok :: "'a res_state_scheme \<Rightarrow> bool" where
  "res_entries_ok w \<longleftrightarrow> (\<forall>r e. ht_lookup (res_tbl w) r = Some e \<longrightarrow> res_entry_ok w r e)"

text \<open>
  \<open>extR\<close> and \<open>extV\<close> are the references to resources and to variables that are held outside
  both tables.
\<close>

definition world_inv ::
  "PP_Resource multiset \<Rightarrow> u32 multiset \<Rightarrow> 'a res_state_scheme \<Rightarrow> bool" where
  "world_inv extR extV w \<longleftrightarrow> balanced r_ref_cnt res_kids extR (res_tbl w) \<and>
     var_inv (extV + held res_vars (res_tbl w)) w \<and> res_entries_ok w"

lemma res_set_rc_sel [simp]:
  "r_resource_type (res_set_rc n e) = r_resource_type e" "r_self_id (res_set_rc n e) = r_self_id e"
  "r_payload (res_set_rc n e) = r_payload e" "r_locked (res_set_rc n e) = r_locked e"
  "r_instance (res_set_rc n e) = r_instance e" "res_vars (res_set_rc n e) = res_vars e"
  "r_ref_cnt (res_set_rc n e) = n"
  by (simp_all add: res_set_rc_def res_vars_def)

lemma world_invD:
  "world_inv extR extV w \<Longrightarrow> balanced r_ref_cnt res_kids extR (res_tbl w)"
  "world_inv extR extV w \<Longrightarrow> var_inv (extV + held res_vars (res_tbl w)) w"
  "world_inv extR extV w \<Longrightarrow> res_entries_ok w"
  by (simp_all add: world_inv_def)

lemma world_inv_entry:
  "world_inv extR extV w \<Longrightarrow> ht_lookup (res_tbl w) r = Some e \<Longrightarrow> res_entry_ok w r e"
  by (simp add: world_inv_def res_entries_ok_def)

lemma world_inv_live:
  assumes "world_inv extR extV w" "r \<in># extR"
  obtains e where "ht_lookup (res_tbl w) r = Some e" "0 < r_ref_cnt e"
  using balanced_live [OF world_invD(1) [OF assms(1)], of r] assms(2) by auto

lemma handle_ok_release:
  "handle_ok t v \<Longrightarrow> handle_ok (rc_release vs_ref_count var_set_rc var_kids ks t) v"
  using vr.release_survivor [of ks t] var_set_rc_sel(1) unfolding handle_ok_def by metis

lemma rc_release_absent:
  "ht_lookup t k = None \<Longrightarrow> rc_release rc set_rc kids (k # ks) t = rc_release rc set_rc kids ks t"
  by simp

text \<open>Another count for an entry, its lock, or nothing else than them.\<close>

lemma res_entries_ok_recount:
  assumes "res_entries_ok w" "ht_lookup (res_tbl w) r = Some e"
  shows "res_entries_ok (w\<lparr>res_tbl := ht_insert r (res_set_rc n e) (res_tbl w)\<rparr>)"
  using assms by (auto simp: res_entries_ok_def res_entry_ok_def)

section \<open>Giving references up\<close>

lemma unref_step_count:
  assumes inv: "world_inv (extR + mset (filter (\<lambda>r. r \<noteq> 0) (r # rs))) extV w"
    and look: "ht_lookup (res_tbl w) r = Some e" and rc: "\<not> r_ref_cnt e - 1 \<le> 0"
  shows "world_inv (extR + mset (filter (\<lambda>r. r \<noteq> 0) rs)) extV
    (w\<lparr>res_tbl := ht_insert r (res_set_rc (r_ref_cnt e - 1) e) (res_tbl w)\<rparr>)"
proof -
  have "r \<noteq> 0" using world_inv_entry [OF inv look] by (simp add: res_entry_ok_def)
  then have b: "balanced r_ref_cnt res_kids (add_mset r (extR + mset (filter (\<lambda>r. r \<noteq> 0) rs))) (res_tbl w)"
    using world_invD(1) [OF inv] by simp
  have "held res_vars (ht_insert r (res_set_rc (r_ref_cnt e - 1) e) (res_tbl w)) = held res_vars (res_tbl w)"
    using look by (rule held_insert_same) simp
  then show ?thesis
    using rr.balanced_drop [OF b look rc] world_invD(2,3) [OF inv]
      res_entries_ok_recount [OF world_invD(3) [OF inv] look]
    by (simp add: world_inv_def var_inv_def)
qed

lemma unref_step_destroy:
  assumes inv: "world_inv (extR + mset (filter (\<lambda>r. r \<noteq> 0) (r # rs))) extV w"
    and look: "ht_lookup (res_tbl w) r = Some e" and rc: "r_ref_cnt e - 1 \<le> 0"
  shows "\<exists>w2. release_vars (payload_vars (r_payload e)) (w\<lparr>res_tbl := ht_remove r (res_tbl w)\<rparr>) = Some w2 \<and>
    res_tbl w2 = ht_remove r (res_tbl w) \<and> res_tbl_next w2 = res_tbl_next w \<and>
    destructors_ht w2 = destructors_ht w \<and> closed_fds w2 = closed_fds w \<and>
    res_state.more w2 = res_state.more w \<and>
    world_inv (extR + mset (filter (\<lambda>r. r \<noteq> 0) (payload_kids (r_payload e) @ rs))) extV w2"
proof -
  let ?t = "ht_remove r (res_tbl w)"
  let ?w1 = "w\<lparr>res_tbl := ?t\<rparr>"
  have ok: "res_entry_ok w r e" by (rule world_inv_entry [OF inv look])
  then have "r \<noteq> 0" by (simp add: res_entry_ok_def)
  then have b: "balanced r_ref_cnt res_kids (add_mset r (extR + mset (filter (\<lambda>r. r \<noteq> 0) rs))) (res_tbl w)"
    using world_invD(1) [OF inv] by simp
  have "var_inv (extV + held res_vars ?t + mset (counted_ids (payload_vars (r_payload e)))) ?w1"
    using world_invD(2) [OF inv] held_remove [OF look balancedD_ok [OF b], of res_vars]
    by (simp add: var_inv_def res_vars_def ac_simps)
  moreover have "\<forall>v\<in>set (payload_vars (r_payload e)). handle_ok (var_ht ?w1) v"
    using ok by (simp add: res_entry_ok_def)
  ultimately obtain w2 where w2: "release_vars (payload_vars (r_payload e)) ?w1 = Some w2"
    "var_inv (extV + held res_vars ?t) w2"
    "var_ht w2 = rc_release vs_ref_count var_set_rc var_kids
       (counted_ids (payload_vars (r_payload e))) (var_ht ?w1)"
    "var_state.more w2 = var_state.more ?w1"
    using release_vars_inv [of "extV + held res_vars ?t" "payload_vars (r_payload e)" ?w1] by auto
  note same = res_state_of_more [OF w2(4)]
  have "res_entries_ok w2"
    using world_invD(3) [OF inv] same w2(3)
    by (auto simp: res_entries_ok_def res_entry_ok_def intro: handle_ok_release)
  moreover have "balanced r_ref_cnt res_kids
      (extR + mset (filter (\<lambda>r. r \<noteq> 0) (payload_kids (r_payload e) @ rs))) (res_tbl w2)"
    using rr.balanced_drop_last [OF b look rc] same by (simp add: res_kids_def ac_simps)
  ultimately show ?thesis
    using w2(1,2) same by (auto simp: world_inv_def)
qed

lemma world_inv_same_but_net: "same_but_net w' w \<Longrightarrow> world_inv extR extV w' = world_inv extR extV w"
  using same_but_netD [of w' w] by (simp add: world_inv_def var_inv_def res_entries_ok_def res_entry_ok_def)

lemma world_inv_close_payload [simp]: "world_inv extR extV (close_payload r pl w) = world_inv extR extV w"
  by (rule world_inv_same_but_net [OF close_payload_same])

lemma world_inv_closed_fds [simp]: "world_inv extR extV (w\<lparr>closed_fds := fds\<rparr>) = world_inv extR extV w"
  by (rule world_inv_same_but_net) simp

text \<open>
  On a consistent state the release of references always comes to its end: no destructor
  reads freed memory, and what is left is what the abstract discipline leaves.
\<close>

lemma unref_all_inv:
  "world_inv (extR + mset (filter (\<lambda>r. r \<noteq> 0) rs)) extV w \<Longrightarrow>
   \<exists>w'. unref_all rs w = Some w' \<and> world_inv extR extV w' \<and>
     res_tbl w' = rc_release r_ref_cnt res_set_rc res_kids (filter (\<lambda>r. r \<noteq> 0) rs) (res_tbl w) \<and>
     res_tbl_next w' = res_tbl_next w \<and> destructors_ht w' = destructors_ht w \<and>
     res_state.more w' = res_state.more w"
proof (induction rs w rule: unref_all.induct)
  case (1 w)
  then show ?case by simp
next
  case (2 r rs w)
  let ?f = "filter (\<lambda>r. r \<noteq> 0)"
  show ?case
  proof (cases "ht_lookup (res_tbl w) r")
    case None
    have "r = 0"
    proof (rule ccontr)
      assume "r \<noteq> 0"
      then have "r \<in># extR + mset (?f (r # rs))" by simp
      with None show False using world_inv_live [OF 2(5), of r] by auto
    qed
    with None 2(1) [OF None] 2(5) show ?thesis by simp
  next
    case (Some e)
    then have nz: "r \<noteq> 0" using world_inv_entry [OF 2(5)] by (force simp: res_entry_ok_def)
    show ?thesis
    proof (cases "r_ref_cnt e - 1 \<le> 0")
      case True
      have des: "r_resource_type e \<in> set (destructors_ht w)"
        using world_inv_entry [OF 2(5) Some] by (simp add: res_entry_ok_def)
      from unref_step_destroy [OF 2(5) Some True] obtain w2 where
        w2: "release_vars (payload_vars (r_payload e)) (w\<lparr>res_tbl := ht_remove r (res_tbl w)\<rparr>) = Some w2"
        "res_tbl w2 = ht_remove r (res_tbl w)" "res_tbl_next w2 = res_tbl_next w"
        "destructors_ht w2 = destructors_ht w" "res_state.more w2 = res_state.more w"
        "world_inv (extR + mset (?f (payload_kids (r_payload e) @ rs))) extV w2" by blast
      let ?w3 = "close_payload r (r_payload e) w2"
      have "world_inv (extR + mset (?f (payload_kids (r_payload e) @ rs))) extV ?w3"
        using w2(6) by simp
      from 2(2) [OF Some True refl des w2(1) this]
      show ?thesis using Some True des w2 nz
        by (simp add: res_kids_def [of e] Let_def)
    next
      case False
      from unref_step_count [OF 2(5) Some False] 2(4) [OF Some False] Some False nz
      show ?thesis by (simp add: res_set_rc_def)
    qed
  qed
qed

lemma pp_resource_unref_inv:
  assumes "world_inv (add_mset r extR) extV w" "r \<noteq> 0"
  shows "\<exists>w'. pp_resource_unref r w = Some w' \<and> world_inv extR extV w' \<and>
     res_tbl w' = rc_release r_ref_cnt res_set_rc res_kids [r] (res_tbl w) \<and>
     res_tbl_next w' = res_tbl_next w \<and> destructors_ht w' = destructors_ht w \<and>
     res_state.more w' = res_state.more w"
  using unref_all_inv [of extR "[r]" extV w] assms
  by (simp add: pp_resource_unref_def del: unref_all.simps(2) rc_release.simps(2))

section \<open>Taking references\<close>

lemma zero_payload_empty [simp]:
  "filter (\<lambda>r. r \<noteq> 0) (payload_kids (zero_payload t)) = []"
  "counted_ids (payload_vars (zero_payload t)) = []"
  "v \<in> set (payload_vars (zero_payload t)) \<Longrightarrow> v = VUndefined"
  by (cases t; simp add: zero_input_event_def zero_url_request_info_def zero_url_loader_def post_data_kids_def)+

lemma pp_resource_allocate_inv:
  assumes inv: "world_inv extR extV w" and room: "0 < res_tbl_next w" "res_tbl_next w < INT_MAX"
    and type: "type \<in> set (destructors_ht w)"
  shows "\<exists>w'. pp_resource_allocate type instance w = Some (res_tbl_next w, w') \<and>
    ht_lookup (res_tbl w) (res_tbl_next w) = None \<and> world_inv (add_mset (res_tbl_next w) extR) extV w' \<and>
    res_tbl_next w' = res_tbl_next w + 1 \<and> destructors_ht w' = destructors_ht w \<and>
    var_ht w' = var_ht w \<and> res_state.more w' = res_state.more w \<and>
    res_tbl w' = ht_insert (res_tbl_next w) \<lparr>r_resource_type = type, r_ref_cnt = 1, r_instance = instance,
      r_self_id = res_tbl_next w, r_locked = False, r_payload = zero_payload type\<rparr> (res_tbl w)"
proof -
  let ?i = "res_tbl_next w"
  let ?e = "\<lparr>r_resource_type = type, r_ref_cnt = 1, r_instance = instance, r_self_id = ?i,
    r_locked = False, r_payload = zero_payload type\<rparr>"
  let ?w = "w\<lparr>res_tbl_next := ?i + 1, res_tbl := ht_insert ?i ?e (res_tbl w)\<rparr>"
  have new: "ht_lookup (res_tbl w) ?i = None"
    using world_inv_entry [OF inv, of ?i] by (cases "ht_lookup (res_tbl w) ?i") (auto simp: res_entry_ok_def)
  have "balanced r_ref_cnt res_kids (add_mset ?i extR) (res_tbl ?w)"
    using rr.balanced_new [OF world_invD(1) [OF inv] new, of ?e] by (simp add: res_kids_def)
  moreover have "var_inv (extV + held res_vars (res_tbl ?w)) ?w"
    using world_invD(2) [OF inv] new by (simp add: held_insert_new res_vars_def var_inv_def)
  moreover have "res_entries_ok ?w"
    using world_invD(3) [OF inv] type room
    by (fastforce simp: res_entries_ok_def res_entry_ok_def handle_ok_def dest: zero_payload_empty(3))
  ultimately have "world_inv (add_mset ?i extR) extV ?w" by (simp add: world_inv_def)
  then show ?thesis using new room by (simp add: pp_resource_allocate_def Let_def)
qed

lemma world_inv_add:
  assumes inv: "world_inv extR extV w" and look: "ht_lookup (res_tbl w) r = Some e"
  shows "world_inv (add_mset r extR) extV
    (w\<lparr>res_tbl := ht_insert r (res_set_rc (r_ref_cnt e + 1) e) (res_tbl w)\<rparr>)"
proof -
  have "balanced r_ref_cnt res_kids (add_mset r extR) (ht_insert r (res_set_rc (r_ref_cnt e + 1) e) (res_tbl w))"
    using rr.balanced_add [OF world_invD(1) [OF inv] look] look by (simp add: rc_add_def)
  moreover have "held res_vars (ht_insert r (res_set_rc (r_ref_cnt e + 1) e) (res_tbl w)) = held res_vars (res_tbl w)"
    using look by (rule held_insert_same) simp
  ultimately show ?thesis
    using world_invD(2,3) [OF inv] res_entries_ok_recount [OF world_invD(3) [OF inv] look]
    by (simp add: world_inv_def var_inv_def)
qed

lemma pp_resource_ref_inv:
  assumes "world_inv extR extV w" and "ht_lookup (res_tbl w) r = Some e"
  shows "world_inv (add_mset r extR) extV (snd (pp_resource_ref r w))"
  using world_inv_add [OF assms] assms(2) by (simp add: pp_resource_ref_def res_set_rc_def)

section \<open>Acquire and release\<close>

definition available :: "PP_Resource \<Rightarrow> pp_resource_type_e \<Rightarrow> 'a res_state_scheme \<Rightarrow> pp_resource_s \<Rightarrow> bool" where
  "available r type w e \<longleftrightarrow> ht_lookup (res_tbl w) r = Some e \<and> r_resource_type e = type \<and>
     \<not> r_locked e \<and> 0 < r_ref_cnt e"

lemma acquire_available:
  "available r type w e \<Longrightarrow> pp_resource_acquire r type w =
    Some (Some (e\<lparr>r_locked := True, r_ref_cnt := r_ref_cnt e + 1\<rparr>),
      w\<lparr>res_tbl := ht_insert r (e\<lparr>r_locked := True, r_ref_cnt := r_ref_cnt e + 1\<rparr>) (res_tbl w)\<rparr>)"
  by (simp add: available_def pp_resource_acquire_def acquire_attempt_def Let_def)

lemma acquire_bad:
  "pp_resource_get_type r w \<noteq> type \<or> ht_lookup (res_tbl w) r = None \<Longrightarrow>
    pp_resource_acquire r type w = Some (None, w)"
  by (auto simp: pp_resource_acquire_def acquire_attempt_def pp_resource_get_type_def split: option.splits)

lemma release_counted:
  "ht_lookup (res_tbl w) r = Some e \<Longrightarrow> 1 < r_ref_cnt e \<Longrightarrow> pp_resource_release r w =
    Some (w\<lparr>res_tbl := ht_insert r (e\<lparr>r_locked := False, r_ref_cnt := r_ref_cnt e - 1\<rparr>) (res_tbl w)\<rparr>)"
  by (simp add: pp_resource_release_def pp_resource_unref_def pp_resource_unlock_def)

lemma r_unlock_same [simp]: "\<not> r_locked e \<Longrightarrow> e\<lparr>r_locked := False\<rparr> = e"
  by (cases e) simp

lemma r_relock: "\<not> r_locked e \<Longrightarrow> e\<lparr>r_locked := False, r_ref_cnt := r_ref_cnt e\<rparr> = e"
  by (cases e) simp

lemma with_resource_bad:
  "pp_resource_get_type r w \<noteq> type \<or> ht_lookup (res_tbl w) r = None \<Longrightarrow>
    with_resource r type bad body w = Some (bad, w)"
  by (simp add: with_resource_def acquire_bad)

lemma res_read_bad:
  "pp_resource_get_type r w \<noteq> type \<or> ht_lookup (res_tbl w) r = None \<Longrightarrow>
    res_read r type bad f w = Some (bad, w)"
  by (simp add: res_read_def with_resource_bad)

lemma res_update_bad:
  "pp_resource_get_type r w \<noteq> type \<or> ht_lookup (res_tbl w) r = None \<Longrightarrow>
    res_update r type bad f w = Some (bad, w)"
  by (simp add: res_update_def with_resource_bad)

lemma res_read_available:
  assumes "available r type w e"
  shows "res_read r type bad f w = map_option (\<lambda>x. (x, w)) (f (r_payload e))"
  using assms
  by (cases "f (r_payload e)")
    (simp_all add: res_read_def with_resource_def acquire_available, simp add: available_def release_counted
      r_relock ht_insert_same)

lemma res_update_available:
  assumes "available r type w e"
  shows "res_update r type bad f w =
    map_option (\<lambda>(x, pl). (x, w\<lparr>res_tbl := ht_insert r (e\<lparr>r_payload := pl\<rparr>) (res_tbl w)\<rparr>)) (f (r_payload e))"
proof (cases "f (r_payload e)")
  case None
  with assms show ?thesis by (simp add: res_update_def with_resource_def acquire_available)
next
  case (Some p)
  obtain x pl where p: "p = (x, pl)" by (cases p)
  have "ht_lookup (res_tbl w) r = Some e" "0 < r_ref_cnt e" "\<not> r_locked e"
    using assms by (simp_all add: available_def)
  then show ?thesis
    using Some p
    by (simp add: res_update_def with_resource_def acquire_available [OF assms] res_write_def release_counted)
qed

lemma world_inv_write:
  assumes inv: "world_inv extR extV w" and look: "ht_lookup (res_tbl w) r = Some e"
    and fits: "payload_fits (r_resource_type e) pl"
    and same: "payload_kids pl = payload_kids (r_payload e)" "payload_vars pl = payload_vars (r_payload e)"
  shows "world_inv extR extV (w\<lparr>res_tbl := ht_insert r (e\<lparr>r_payload := pl\<rparr>) (res_tbl w)\<rparr>)"
proof -
  let ?e = "e\<lparr>r_payload := pl\<rparr>"
  have "balanced r_ref_cnt res_kids extR (ht_insert r ?e (res_tbl w))"
    using balancedD_pos [OF world_invD(1) [OF inv] look] same
    by (intro rr.balanced_update [OF world_invD(1) [OF inv] look]) (simp_all add: res_kids_def)
  moreover have "held res_vars (ht_insert r ?e (res_tbl w)) = held res_vars (res_tbl w)"
    using look same by (intro held_insert_same) (simp_all add: res_vars_def)
  ultimately show ?thesis
    using world_invD(2,3) [OF inv] fits same look
    by (auto simp: world_inv_def var_inv_def res_entries_ok_def res_entry_ok_def)
qed

text \<open>Only the lock of an entry changes.\<close>

lemma world_inv_lock:
  assumes "world_inv extR extV w" and "ht_lookup (res_tbl w) r = Some e"
  shows "world_inv extR extV (w\<lparr>res_tbl := ht_insert r (e\<lparr>r_locked := b\<rparr>) (res_tbl w)\<rparr>)"
proof -
  let ?e = "e\<lparr>r_locked := b\<rparr>"
  have "balanced r_ref_cnt res_kids extR (ht_insert r ?e (res_tbl w))"
    using balancedD_pos [OF world_invD(1) [OF assms(1)] assms(2)]
    by (intro rr.balanced_update [OF world_invD(1) [OF assms(1)] assms(2)]) (simp_all add: res_kids_def)
  moreover have "held res_vars (ht_insert r ?e (res_tbl w)) = held res_vars (res_tbl w)"
    using assms(2) by (intro held_insert_same) (simp_all add: res_vars_def)
  ultimately show ?thesis
    using world_invD(2,3) [OF assms(1)] assms(2)
    by (auto simp: world_inv_def var_inv_def res_entries_ok_def res_entry_ok_def)
qed

text \<open>
  A structure whose references change: those it gains come from outside, those it loses are
  held outside afterwards.
\<close>

lemma world_inv_replace:
  assumes inv: "world_inv extR extV w" and look: "ht_lookup (res_tbl w) r = Some e"
    and fits: "payload_fits (r_resource_type e) pl"
    and R: "extR' + mset (filter (\<lambda>r. r \<noteq> 0) (payload_kids pl)) = extR + mset (res_kids e)"
    and V: "extV' + mset (counted_ids (payload_vars pl)) = extV + mset (res_vars e)"
    and ok: "\<forall>v\<in>set (payload_vars pl). handle_ok (var_ht w) v"
  shows "world_inv extR' extV' (w\<lparr>res_tbl := ht_insert r (e\<lparr>r_payload := pl\<rparr>) (res_tbl w)\<rparr>)"
proof -
  let ?e = "e\<lparr>r_payload := pl\<rparr>"
  have kids: "mset (res_kids ?e) = mset (filter (\<lambda>r. r \<noteq> 0) (payload_kids pl))"
    and vars: "mset (res_vars ?e) = mset (counted_ids (payload_vars pl))"
    by (simp_all add: res_kids_def res_vars_def)
  have "balanced r_ref_cnt res_kids extR' (ht_insert r ?e (res_tbl w))"
    using balancedD_pos [OF world_invD(1) [OF inv] look]
    by (intro rr.balanced_update [OF world_invD(1) [OF inv] look]) (simp_all only: kids R, simp_all)
  moreover have "extV' + held res_vars (ht_insert r ?e (res_tbl w)) = extV + held res_vars (res_tbl w)"
  proof -
    have "held res_vars (ht_insert r ?e (res_tbl w)) + mset (res_vars e) =
        held res_vars (res_tbl w) + mset (res_vars ?e)"
      by (rule held_insert_update [OF look balancedD_ok [OF world_invD(1) [OF inv]]])
    then have "extV' + held res_vars (ht_insert r ?e (res_tbl w)) + mset (res_vars e) =
        (extV' + mset (res_vars ?e)) + held res_vars (res_tbl w)"
      by (simp add: ac_simps)
    also have "\<dots> = extV + held res_vars (res_tbl w) + mset (res_vars e)"
      using V by (simp add: vars ac_simps)
    finally show ?thesis by simp
  qed
  ultimately show ?thesis
    using world_invD(2,3) [OF inv] fits ok look
    by (auto simp: world_inv_def var_inv_def res_entries_ok_def res_entry_ok_def)
qed

section \<open>A body between acquire and release\<close>

abbreviation acquired :: "pp_resource_s \<Rightarrow> pp_resource_s" where
  "acquired e \<equiv> e\<lparr>r_locked := True, r_ref_cnt := r_ref_cnt e + 1\<rparr>"

lemma acquired_inv:
  assumes "world_inv extR extV w" and "available r type w e"
  shows "world_inv (add_mset r extR) extV (w\<lparr>res_tbl := ht_insert r (acquired e) (res_tbl w)\<rparr>)"
proof -
  have e: "ht_lookup (res_tbl w) r = Some e" using assms(2) by (simp add: available_def)
  have eq: "acquired e = (res_set_rc (r_ref_cnt e + 1) e)\<lparr>r_locked := True\<rparr>"
    by (cases e) (simp add: res_set_rc_def)
  show ?thesis
    unfolding eq
    using world_inv_lock [OF world_inv_add [OF assms(1) e], of r "res_set_rc (r_ref_cnt e + 1) e" True]
    by simp
qed

lemma release_inv:
  assumes inv: "world_inv (add_mset r extR) extV w" and look: "ht_lookup (res_tbl w) r = Some e"
  shows "\<exists>w'. pp_resource_release r w = Some w' \<and> world_inv extR extV w' \<and>
    res_state.more w' = res_state.more w"
proof -
  have "r \<noteq> 0" using world_inv_entry [OF inv look] by (simp add: res_entry_ok_def)
  moreover have "world_inv (add_mset r extR) extV (pp_resource_unlock r w)"
    using world_inv_lock [OF inv look] look by (simp add: pp_resource_unlock_def)
  ultimately obtain w' where "pp_resource_unref r (pp_resource_unlock r w) = Some w'" "world_inv extR extV w'"
    "res_state.more w' = res_state.more (pp_resource_unlock r w)"
    using pp_resource_unref_inv by blast
  then show ?thesis using look by (simp add: pp_resource_release_def pp_resource_unlock_def)
qed

lemma with_resource_rule:
  assumes inv: "world_inv extR extV w" and av: "available r type w e"
    and body: "body (acquired e) (w\<lparr>res_tbl := ht_insert r (acquired e) (res_tbl w)\<rparr>) = Some (x, w2)"
    and keep: "world_inv (add_mset r extR') extV' w2"
  shows "\<exists>w3. with_resource r type bad body w = Some (x, w3) \<and> pp_resource_release r w2 = Some w3 \<and>
    world_inv extR' extV' w3 \<and> res_state.more w3 = res_state.more w2"
proof -
  obtain e2 where "ht_lookup (res_tbl w2) r = Some e2"
    using world_inv_live [OF keep, of r] by auto
  from release_inv [OF keep this] obtain w3 where
    "pp_resource_release r w2 = Some w3" "world_inv extR' extV' w3"
    "res_state.more w3 = res_state.more w2" by blast
  then show ?thesis using body by (simp add: with_resource_def acquire_available [OF av])
qed

end
