(* ===== verification/Resource_Threads.thy ===== *)
theory Resource_Threads
  imports Resource_Laws
begin

text \<open>
  Several threads on the resource table. The critical sections of \<^verbatim>\<open>pp_resource.c\<close> are the
  steps, one for each time the mutex of the table is held; \<^verbatim>\<open>pp_resource_release\<close> is two of
  them, and another thread may come in between. \<open>owned\<close> are the references each thread has
  to give back, \<open>holding\<close> the resources each has acquired and not unlocked.
\<close>

record sys =
  shared :: res_state
  owned :: "(nat \<times> PP_Resource) multiset"
  holding :: "(nat \<times> PP_Resource) multiset"

inductive step :: "nat \<Rightarrow> sys \<Rightarrow> sys \<Rightarrow> bool" for t where
  allocate: "\<lbrakk>pp_resource_allocate type inst (shared s) = Some (r, w');
     type \<in> set (destructors_ht (shared s))\<rbrakk> \<Longrightarrow>
     step t s (s\<lparr>shared := w', owned := add_mset (t, r) (owned s)\<rparr>)"
| take_ref: "ht_lookup (res_tbl (shared s)) r \<noteq> None \<Longrightarrow>
     step t s (s\<lparr>shared := snd (pp_resource_ref r (shared s)), owned := add_mset (t, r) (owned s)\<rparr>)"
| attempt_fails: "\<lbrakk>acquire_attempt r type (shared s) = (a, w'); a = Att_bad \<or> a = Att_busy\<rbrakk> \<Longrightarrow>
     step t s (s\<lparr>shared := w'\<rparr>)"
| attempt_got: "acquire_attempt r type (shared s) = (Att_got gr, w') \<Longrightarrow>
     step t s (s\<lparr>shared := w', holding := add_mset (t, r) (holding s)\<rparr>)"
| write_field: "\<lbrakk>(t, r) \<in># holding s; ht_lookup (res_tbl (shared s)) r = Some gr;
     payload_fits (r_resource_type gr) pl; payload_kids pl = payload_kids (r_payload gr);
     payload_vars pl = payload_vars (r_payload gr)\<rbrakk> \<Longrightarrow>
     step t s (s\<lparr>shared := res_write r pl (shared s)\<rparr>)"
| unlock: "(t, r) \<in># holding s \<Longrightarrow>
     step t s (s\<lparr>shared := pp_resource_unlock r (shared s), holding := holding s - {#(t, r)#},
       owned := add_mset (t, r) (owned s)\<rparr>)"
| drop_ref: "\<lbrakk>(t, r) \<in># owned s; pp_resource_unref r (shared s) = Some w'\<rbrakk> \<Longrightarrow>
     step t s (s\<lparr>shared := w', owned := owned s - {#(t, r)#}\<rparr>)"

inductive_cases stepE: "step t s s'"

definition init_sys :: "pp_resource_type_e list \<Rightarrow> sys" where
  "init_sys types = \<lparr>shared = \<lparr>var_ht = [], var_id = 1, np_released = [], np_retained = [], res_tbl = [],
     res_tbl_next = 1, destructors_ht = types, closed_fds = [], net_tasks = [], tasks_ht = [], next_task = 1\<rparr>, owned = {#}, holding = {#}\<rparr>"

inductive reachable :: "pp_resource_type_e list \<Rightarrow> sys \<Rightarrow> bool" for types where
  start: "reachable types (init_sys types)"
| more: "reachable types s \<Longrightarrow> step t s s' \<Longrightarrow> reachable types s'"

section \<open>The invariant\<close>

definition ids :: "(nat \<times> PP_Resource) multiset \<Rightarrow> PP_Resource multiset" where
  "ids m = image_mset snd m"

lemma ids_simps [simp]:
  "ids {#} = {#}" "ids (add_mset x m) = add_mset (snd x) (ids m)" "ids (m + n) = ids m + ids n"
  by (simp_all add: ids_def)

lemma ids_remove [simp]: "(t, r) \<in># m \<Longrightarrow> ids (m - {#(t, r)#}) = ids m - {#r#}"
  by (simp add: ids_def image_mset_Diff)

lemma ids_memI: "(t, r) \<in># m \<Longrightarrow> r \<in># ids m"
  by (force simp: ids_def)

definition locks_ok :: "sys \<Rightarrow> bool" where
  "locks_ok s \<longleftrightarrow> (\<forall>r. count (ids (holding s)) r \<le> 1) \<and>
     (\<forall>r e. ht_lookup (res_tbl (shared s)) r = Some e \<longrightarrow> r_locked e = (r \<in># ids (holding s)))"

definition sys_inv :: "sys \<Rightarrow> bool" where
  "sys_inv s \<longleftrightarrow> world_inv (ids (owned s + holding s)) {#} (shared s) \<and> locks_ok s \<and>
     0 < res_tbl_next (shared s)"

lemma sys_invI:
  "\<lbrakk>world_inv (ids (owned s + holding s)) {#} (shared s); locks_ok s; 0 < res_tbl_next (shared s)\<rbrakk> \<Longrightarrow> sys_inv s"
  by (simp add: sys_inv_def)

lemma sys_invD:
  "sys_inv s \<Longrightarrow> world_inv (ids (owned s) + ids (holding s)) {#} (shared s)"
  "sys_inv s \<Longrightarrow> locks_ok s" "sys_inv s \<Longrightarrow> 0 < res_tbl_next (shared s)"
  by (simp_all add: sys_inv_def)

lemma held_live:
  assumes "sys_inv s" "(t, r) \<in># owned s + holding s"
  obtains e where "ht_lookup (res_tbl (shared s)) r = Some e" "0 < r_ref_cnt e"
  using world_inv_live [OF sys_invD(1) [OF assms(1)], of r] assms(2) by (auto dest: ids_memI)

lemma locks_okD:
  "locks_ok s \<Longrightarrow> count (ids (holding s)) r \<le> 1"
  "locks_ok s \<Longrightarrow> ht_lookup (res_tbl (shared s)) r = Some e \<Longrightarrow> r_locked e = (r \<in># ids (holding s))"
  by (simp_all add: locks_ok_def)

lemma init_inv: "sys_inv (init_sys types)"
  by (simp add: init_sys_def sys_inv_def locks_ok_def world_inv_def var_inv_def rr.balanced_empty
    vr.balanced_empty entries_ok_def res_entries_ok_def)

section \<open>Preservation, one step at a time\<close>

lemma allocate_inv:
  assumes inv: "sys_inv s" and alloc: "pp_resource_allocate type inst (shared s) = Some (r, w')"
    and type: "type \<in> set (destructors_ht (shared s))"
  shows "sys_inv (s\<lparr>shared := w', owned := add_mset (t, r) (owned s)\<rparr>)"
proof -
  have room: "res_tbl_next (shared s) < INT_MAX" and r: "r = res_tbl_next (shared s)"
    using alloc by (auto simp: pp_resource_allocate_def Let_def split: if_splits)
  from pp_resource_allocate_inv [OF sys_invD(1,3) [OF inv] room type, of inst] alloc r
  have new: "ht_lookup (res_tbl (shared s)) r = None"
    "world_inv (add_mset r (ids (owned s) + ids (holding s))) {#} w'" "res_tbl_next w' = r + 1"
    "res_tbl w' = ht_insert r \<lparr>r_resource_type = type, r_ref_cnt = 1, r_instance = inst,
      r_self_id = r, r_locked = False, r_payload = zero_payload type\<rparr> (res_tbl (shared s))"
    by auto
  have "r \<notin># ids (holding s)"
    using world_inv_live [OF sys_invD(1) [OF inv], of r] new(1) by auto
  with new sys_invD [OF inv] r show ?thesis
    by (auto simp: sys_inv_def locks_ok_def)
qed

lemma take_ref_inv:
  assumes inv: "sys_inv s" and live: "ht_lookup (res_tbl (shared s)) r \<noteq> None"
  shows "sys_inv (s\<lparr>shared := snd (pp_resource_ref r (shared s)), owned := add_mset (t, r) (owned s)\<rparr>)"
proof -
  obtain e where e: "ht_lookup (res_tbl (shared s)) r = Some e" using live by blast
  show ?thesis
    using pp_resource_ref_inv [OF sys_invD(1) [OF inv] e] sys_invD(2,3) [OF inv] e
    by (auto simp: sys_inv_def locks_ok_def pp_resource_ref_def)
qed

lemma attempt_got_inv:
  assumes inv: "sys_inv s" and got: "acquire_attempt r type (shared s) = (Att_got gr, w')"
  shows "sys_inv (s\<lparr>shared := w', holding := add_mset (t, r) (holding s)\<rparr>)"
proof -
  let ?w = "shared s"
  from got obtain e where e: "ht_lookup (res_tbl ?w) r = Some e" "\<not> r_locked e"
    "w' = ?w\<lparr>res_tbl := ht_insert r (e\<lparr>r_locked := True, r_ref_cnt := r_ref_cnt e + 1\<rparr>) (res_tbl ?w)\<rparr>"
    by (auto simp: acquire_attempt_def Let_def split: option.splits if_splits)
  then have free: "r \<notin># ids (holding s)"
    using locks_okD(2) [OF sys_invD(2) [OF inv]] by auto
  let ?e = "res_set_rc (r_ref_cnt e + 1) e"
  let ?w1 = "?w\<lparr>res_tbl := ht_insert r ?e (res_tbl ?w)\<rparr>"
  have "world_inv (add_mset r (ids (owned s) + ids (holding s))) {#} ?w1"
    using sys_invD(1) [OF inv] e(1) by (rule world_inv_add)
  then have "world_inv (add_mset r (ids (owned s) + ids (holding s))) {#}
      (?w1\<lparr>res_tbl := ht_insert r (?e\<lparr>r_locked := True\<rparr>) (res_tbl ?w1)\<rparr>)"
    by (rule world_inv_lock) simp
  also have "?w1\<lparr>res_tbl := ht_insert r (?e\<lparr>r_locked := True\<rparr>) (res_tbl ?w1)\<rparr> = w'"
    using e(3) by (cases e) (simp add: res_set_rc_def)
  finally show ?thesis
    using sys_invD(2,3) [OF inv] e free
    by (auto simp: sys_inv_def locks_ok_def not_in_iff)
qed

lemma write_field_inv:
  assumes inv: "sys_inv s" and e: "ht_lookup (res_tbl (shared s)) r = Some e"
    and pl: "payload_fits (r_resource_type e) pl" "payload_kids pl = payload_kids (r_payload e)"
      "payload_vars pl = payload_vars (r_payload e)"
  shows "sys_inv (s\<lparr>shared := res_write r pl (shared s)\<rparr>)"
  using world_inv_write [OF sys_invD(1) [OF inv] e pl] sys_invD(2,3) [OF inv] e
  by (auto simp: sys_inv_def locks_ok_def res_write_def)

lemma unlock_inv:
  assumes inv: "sys_inv s" and hold: "(t, r) \<in># holding s"
  shows "sys_inv (s\<lparr>shared := pp_resource_unlock r (shared s), holding := holding s - {#(t, r)#},
    owned := add_mset (t, r) (owned s)\<rparr>)"
proof -
  obtain e where e: "ht_lookup (res_tbl (shared s)) r = Some e"
    using held_live [OF inv, of t r] hold by auto
  have mem: "r \<in># ids (holding s)" using hold by (rule ids_memI)
  then have "ids (owned s) + ids (holding s) = add_mset r (ids (owned s)) + (ids (holding s) - {#r#})"
    by simp
  moreover have "r \<notin># ids (holding s) - {#r#}"
    using locks_okD(1) [OF sys_invD(2) [OF inv], of r] by (simp add: in_diff_count)
  ultimately show ?thesis
    using world_inv_lock [OF sys_invD(1) [OF inv] e, of False] sys_invD(2,3) [OF inv] e hold
    by (auto simp: sys_inv_def locks_ok_def pp_resource_unlock_def in_diff_count le_diff_conv
      split: if_splits)
qed

lemma drop_ref_inv:
  assumes inv: "sys_inv s" and own: "(t, r) \<in># owned s"
  shows "\<exists>w'. pp_resource_unref r (shared s) = Some w' \<and>
    sys_inv (s\<lparr>shared := w', owned := owned s - {#(t, r)#}\<rparr>) \<and>
    (\<forall>k e'. ht_lookup (res_tbl w') k = Some e' \<longrightarrow>
       (\<exists>e. ht_lookup (res_tbl (shared s)) k = Some e \<and> e' = res_set_rc (r_ref_cnt e') e))"
proof -
  let ?ext = "ids (owned s - {#(t, r)#}) + ids (holding s)"
  obtain e where "ht_lookup (res_tbl (shared s)) r = Some e"
    using held_live [OF inv, of t r] own by auto
  then have nz: "r \<noteq> 0"
    using world_inv_entry [OF sys_invD(1) [OF inv]] by (force simp: res_entry_ok_def)
  have "add_mset r ?ext = ids (owned s) + ids (holding s)"
    using own ids_memI [OF own] by simp
  with sys_invD(1) [OF inv] have "world_inv (add_mset r ?ext) {#} (shared s)"
    by metis
  from pp_resource_unref_inv [OF this nz] obtain w' where
    w': "pp_resource_unref r (shared s) = Some w'" "world_inv ?ext {#} w'"
    "res_tbl w' = rc_release r_ref_cnt res_set_rc res_kids [r] (res_tbl (shared s))"
    "res_tbl_next w' = res_tbl_next (shared s)" by auto
  have surv: "\<exists>e. ht_lookup (res_tbl (shared s)) k = Some e \<and> e' = res_set_rc (r_ref_cnt e') e"
    if "ht_lookup (res_tbl w') k = Some e'" for k e'
    using that w'(3) rr.release_survivor by metis
  have "locks_ok (s\<lparr>shared := w', owned := owned s - {#(t, r)#}\<rparr>)"
    unfolding locks_ok_def
  proof (intro conjI allI impI)
    fix k e' assume "ht_lookup (res_tbl (shared (s\<lparr>shared := w', owned := owned s - {#(t, r)#}\<rparr>))) k = Some e'"
    then obtain e0 where "ht_lookup (res_tbl (shared s)) k = Some e0" "e' = res_set_rc (r_ref_cnt e') e0"
      using surv by auto
    then show "r_locked e' = (k \<in># ids (holding (s\<lparr>shared := w', owned := owned s - {#(t, r)#}\<rparr>)))"
      using locks_okD(2) [OF sys_invD(2) [OF inv]] res_set_rc_sel(4) by (metis select_convs(3) surjective update_convs(1,2))
  qed (use locks_okD(1) [OF sys_invD(2) [OF inv]] in simp)
  moreover have "world_inv (ids (owned s - {#(t, r)#} + holding s)) {#} w'"
    using w'(2) by (simp only: ids_simps)
  ultimately have "sys_inv (s\<lparr>shared := w', owned := owned s - {#(t, r)#}\<rparr>)"
    using w'(4) sys_invD(3) [OF inv] by (intro sys_invI) simp_all
  then show ?thesis using w'(1) surv by blast
qed

lemma step_inv: "step t s s' \<Longrightarrow> sys_inv s \<Longrightarrow> sys_inv s'"
proof (induction rule: step.induct)
  case (attempt_fails r type s a w')
  then have "w' = shared s"
    by (auto simp: acquire_attempt_def Let_def split: option.splits if_splits)
  with attempt_fails show ?case by simp
next
  case (drop_ref r s w')
  with drop_ref_inv [of s t r] show ?case by auto
qed (auto intro: allocate_inv take_ref_inv attempt_got_inv write_field_inv unlock_inv)

lemma reachable_inv: "reachable types s \<Longrightarrow> sys_inv s"
  by (induction rule: reachable.induct) (auto intro: init_inv step_inv)

end
