(* ===== verification/Resource_Correct.thy ===== *)
theory Resource_Correct
  imports Resource_Threads
begin

text \<open>
  The properties of the resource table, for one thread on the consistent states of
  \<^verbatim>\<open>Resource_Laws\<close> and for many on the reachable states of \<^verbatim>\<open>Resource_Threads\<close>.
  \<open>rsample\<close> is the state the witnesses evaluate on: a loader, a response that refers to it,
  and a key event that holds a string variable.
\<close>

section \<open>A state to evaluate on\<close>

definition key_event :: pp_input_event_s where
  "key_event = zero_input_event\<lparr>ie_type := 6, ie_code := VString 1\<rparr>"

definition rsample :: res_state where
  "rsample = \<lparr>var_ht = [(1, \<lparr>vs_var = VString 1, vs_ref_count = 1, vs_body = VB_Str 1 [CHR ''k'', NUL]\<rparr>)],
     var_id = 1, np_released = [], np_retained = [],
     res_tbl =
      [(1, \<lparr>r_resource_type = PP_RESOURCE_URL_LOADER, r_ref_cnt = 2, r_instance = Some 1, r_self_id = 1,
         r_locked = False, r_payload = PL_url_loader (zero_url_loader\<lparr>ul_fd := 9\<rparr>)\<rparr>),
       (2, \<lparr>r_resource_type = PP_RESOURCE_URL_RESPONSE_INFO, r_ref_cnt = 1, r_instance = Some 1,
         r_self_id = 2, r_locked = False, r_payload = PL_url_response_info 1\<rparr>),
       (3, \<lparr>r_resource_type = PP_RESOURCE_INPUT_EVENT, r_ref_cnt = 1, r_instance = Some 1,
         r_self_id = 3, r_locked = False, r_payload = PL_input_event key_event\<rparr>)],
     res_tbl_next = 4,
     destructors_ht = [PP_RESOURCE_URL_LOADER, PP_RESOURCE_URL_RESPONSE_INFO, PP_RESOURCE_INPUT_EVENT],
     closed_fds = [], net_tasks = [], tasks_ht = [], next_task = 1\<rparr>"

lemma rsample_inv: "world_inv {#1, 2, 3#} {#} rsample"
  unfolding world_inv_def
proof (intro conjI)
  show "balanced r_ref_cnt res_kids {#1, 2, 3#} (res_tbl rsample)"
    by (rule balancedI) (auto simp: rsample_def res_kids_def rc_at_def ht_ok_def zero_url_loader_def
      post_data_kids_def split: if_splits)
  have "balanced vs_ref_count var_kids {#1#} (var_ht rsample)"
    by (rule balancedI) (auto simp: rsample_def var_kids_def rc_at_def ht_ok_def split: if_splits)
  moreover have "entries_ok (var_ht rsample)"
    by (auto simp: rsample_def entries_ok_def entry_ok_def handle_ok_def split: if_splits)
  ultimately show "var_inv ({#} + held res_vars (res_tbl rsample)) rsample"
    by (simp add: var_inv_def) (simp add: rsample_def res_vars_def key_event_def zero_input_event_def)
  show "res_entries_ok rsample"
    by (auto simp: res_entries_ok_def res_entry_ok_def rsample_def key_event_def zero_input_event_def
      handle_ok_def split: if_splits)
qed

section \<open>One thread\<close>

text \<open>C1: Giving back a reference to a resource always returns and leaves both tables
  consistent: the counts of resources and of variables are exact for the references that
  remain, whatever chain of destructors ran, and every resource still referred to from
  outside stays in the table unchanged but for its count.\<close>

theorem resource_unref_sound:
  assumes "world_inv (add_mset r extR) extV w" and "r \<noteq> 0"
  shows "\<exists>w'. pp_resource_unref r w = Some w' \<and> world_inv extR extV w' \<and>
    (\<forall>k e. k \<in># extR \<longrightarrow> ht_lookup (res_tbl w) k = Some e \<longrightarrow>
       (\<exists>n. ht_lookup (res_tbl w') k = Some (e\<lparr>r_ref_cnt := n\<rparr>) \<and> 0 < n))"
proof -
  from pp_resource_unref_inv [OF assms] obtain w' where w': "pp_resource_unref r w = Some w'"
    "world_inv extR extV w'"
    "res_tbl w' = rc_release r_ref_cnt res_set_rc res_kids [r] (res_tbl w)" by auto
  have "\<exists>n. ht_lookup (res_tbl w') k = Some (e\<lparr>r_ref_cnt := n\<rparr>) \<and> 0 < n"
    if k: "k \<in># extR" and e: "ht_lookup (res_tbl w) k = Some e" for k e
  proof -
    from world_inv_live [OF w'(2) k] obtain e' where
      e': "ht_lookup (res_tbl w') k = Some e'" "0 < r_ref_cnt e'" by auto
    moreover have "e' = e\<lparr>r_ref_cnt := r_ref_cnt e'\<rparr>"
      using rr.release_survivor e'(1) e w'(3) by (metis option.inject res_set_rc_def)
    ultimately show ?thesis by metis
  qed
  with w' show ?thesis by blast
qed

theorem resource_unref_sound_witness:
  "\<exists>w'. pp_resource_unref 3 rsample = Some w' \<and> world_inv {#1, 2#} {#} w' \<and>
    (\<forall>k e. k \<in># {#1, 2#} \<longrightarrow> ht_lookup (res_tbl rsample) k = Some e \<longrightarrow>
       (\<exists>n. ht_lookup (res_tbl w') k = Some (e\<lparr>r_ref_cnt := n\<rparr>) \<and> 0 < n))"
  using rsample_inv by (intro resource_unref_sound) (simp_all add: add_mset_commute)

text \<open>A chain of destructors on a concrete state: the last reference to the response frees
  it and gives up its loader, whose file descriptor is closed when the plugin's own
  reference is gone; the event's release frees the string it held.\<close>

theorem resource_destructor_chain:
  "map_option (\<lambda>w. (map fst (res_tbl w), closed_fds w, var_ht w)) (unref_all [1, 3, 2] rsample) =
     Some ([], [9], [])"
  by (simp add: rsample_def key_event_def zero_input_event_def zero_url_loader_def post_data_kids_def
    get_var_s_def Let_def close_payload_def)

text \<open>Acquiring an unlocked resource under its own type and releasing it again leaves the
  state as it was; under another type the acquisition fails and changes nothing; and a
  second acquisition before the release never returns.\<close>

theorem resource_acquire_release:
  assumes "ht_lookup (res_tbl w) r = Some e" and "\<not> r_locked e" and "0 < r_ref_cnt e"
  shows "(\<exists>gr w'. pp_resource_acquire r (r_resource_type e) w = Some (Some gr, w') \<and>
      r_payload gr = r_payload e \<and> pp_resource_release r w' = Some w \<and>
      pp_resource_acquire r (r_resource_type e) w' = None) \<and>
    (\<forall>type. type \<noteq> r_resource_type e \<longrightarrow> pp_resource_acquire r type w = Some (None, w))"
proof -
  have av: "available r (r_resource_type e) w e" using assms by (simp add: available_def)
  let ?gr = "e\<lparr>r_locked := True, r_ref_cnt := r_ref_cnt e + 1\<rparr>"
  let ?w = "w\<lparr>res_tbl := ht_insert r ?gr (res_tbl w)\<rparr>"
  have "pp_resource_release r ?w = Some w"
    using assms by (simp add: release_counted ht_insert_same)
  moreover have "pp_resource_acquire r (r_resource_type e) ?w = None"
    by (simp add: pp_resource_acquire_def acquire_attempt_def)
  ultimately have "\<exists>gr w'. pp_resource_acquire r (r_resource_type e) w = Some (Some gr, w') \<and>
      r_payload gr = r_payload e \<and> pp_resource_release r w' = Some w \<and>
      pp_resource_acquire r (r_resource_type e) w' = None"
    using acquire_available [OF av] by (intro exI [of _ ?gr] exI [of _ ?w]) simp
  then show ?thesis
    using assms by (simp add: acquire_bad pp_resource_get_type_def)
qed

theorem resource_acquire_release_witness:
  "pp_resource_acquire 2 PP_RESOURCE_VIEW rsample = Some (None, rsample) \<and>
   (\<exists>gr w'. pp_resource_acquire 2 PP_RESOURCE_URL_RESPONSE_INFO rsample = Some (Some gr, w') \<and>
      pp_resource_release 2 w' = Some rsample)"
proof -
  let ?e = "\<lparr>r_resource_type = PP_RESOURCE_URL_RESPONSE_INFO, r_ref_cnt = 1, r_instance = Some 1,
    r_self_id = 2, r_locked = False, r_payload = PL_url_response_info 1\<rparr>"
  have e: "ht_lookup (res_tbl rsample) 2 = Some ?e" "\<not> r_locked ?e" "0 < r_ref_cnt ?e"
    by (simp_all add: rsample_def)
  show ?thesis
    using resource_acquire_release [OF e] by auto
qed

text \<open>An allocated resource has an identifier no resource had before, one reference, the
  requested type, no lock and zeroed fields, and the tables stay consistent.\<close>

theorem resource_allocate_fresh:
  assumes "world_inv extR extV w" and "0 < res_tbl_next w" and "res_tbl_next w < 2147483647"
    and "type \<in> set (destructors_ht w)"
  shows "\<exists>r w'. pp_resource_allocate type inst w = Some (r, w') \<and> ht_lookup (res_tbl w) r = None \<and>
    world_inv (add_mset r extR) extV w' \<and> available r type w' \<lparr>r_resource_type = type, r_ref_cnt = 1,
      r_instance = inst, r_self_id = r, r_locked = False, r_payload = zero_payload type\<rparr>"
  using pp_resource_allocate_inv [OF assms, of inst] by (force simp: available_def)

theorem resource_allocate_fresh_witness:
  "\<exists>r w'. pp_resource_allocate PP_RESOURCE_INPUT_EVENT (Some 1) rsample = Some (r, w') \<and>
    ht_lookup (res_tbl rsample) r = None \<and> world_inv (add_mset r {#1, 2, 3#}) {#} w' \<and>
    available r PP_RESOURCE_INPUT_EVENT w' \<lparr>r_resource_type = PP_RESOURCE_INPUT_EVENT, r_ref_cnt = 1,
      r_instance = Some 1, r_self_id = r, r_locked = False, r_payload = zero_payload PP_RESOURCE_INPUT_EVENT\<rparr>"
  by (rule resource_allocate_fresh [OF rsample_inv]) (simp_all add: rsample_def)

section \<open>Several threads\<close>

text \<open>A run in which thread 7 has allocated a buffer and acquired it.\<close>

definition buffer_entry :: "int \<Rightarrow> bool \<Rightarrow> pp_resource_s" where
  "buffer_entry n b = \<lparr>r_resource_type = PP_RESOURCE_BUFFER, r_ref_cnt = n, r_instance = None,
     r_self_id = 1, r_locked = b, r_payload = zero_payload PP_RESOURCE_BUFFER\<rparr>"

definition buffer_sys :: sys where
  "buffer_sys = \<lparr>shared = (shared (init_sys [PP_RESOURCE_BUFFER]))\<lparr>res_tbl_next := 2,
     res_tbl := [(1, buffer_entry 2 True)]\<rparr>, owned = {#(7, 1)#}, holding = {#(7, 1)#}\<rparr>"

lemma buffer_sys_reachable: "reachable [PP_RESOURCE_BUFFER] buffer_sys"
proof -
  let ?i = "init_sys [PP_RESOURCE_BUFFER]"
  let ?w = "(shared ?i)\<lparr>res_tbl_next := 2, res_tbl := [(1, buffer_entry 1 False)]\<rparr>"
  let ?s = "?i\<lparr>shared := ?w, owned := add_mset (7, 1) (owned ?i)\<rparr>"
  have "step 7 ?i ?s"
    by (rule step.allocate) (simp_all add: pp_resource_allocate_def init_sys_def buffer_entry_def)
  moreover have "step 7 ?s buffer_sys"
  proof -
    have "acquire_attempt 1 PP_RESOURCE_BUFFER (shared ?s) = (Att_got (buffer_entry 2 True), shared buffer_sys)"
      by (simp add: acquire_attempt_def buffer_sys_def buffer_entry_def Let_def)
    from step.attempt_got [OF this, of 7] show ?thesis
      by (simp add: buffer_sys_def init_sys_def)
  qed
  ultimately show ?thesis by (meson reachable.intros)
qed

lemma holding_unique:
  assumes "locks_ok s" "(t, r) \<in># holding s" "(t', r) \<in># holding s"
  shows "t = t'"
proof (rule ccontr)
  assume "t \<noteq> t'"
  then have "(t', r) \<in># holding s - {#(t, r)#}" using assms(3) by (simp add: in_diff_count)
  then have "r \<in># ids (holding s - {#(t, r)#})" by (rule ids_memI)
  then have "2 \<le> count (ids (holding s)) r"
    using assms(2) ids_memI [OF assms(2)] by (simp add: in_diff_count)
  with locks_okD(1) [OF assms(1), of r] show False by simp
qed





text \<open>A thread can always give back a reference it owns: the step is enabled in every
  reachable state, whatever the other threads do in between.\<close>

theorem threads_release_enabled:
  assumes "reachable types s" and "(t, r) \<in># owned s"
  shows "\<exists>s'. step t s s' \<and> owned s' = owned s - {#(t, r)#} \<and> holding s' = holding s"
proof -
  from drop_ref_inv [OF reachable_inv [OF assms(1)] assms(2)] obtain w' where
    "pp_resource_unref r (shared s) = Some w'" by blast
  from step.drop_ref [OF assms(2) this] show ?thesis by fastforce
qed

theorem threads_release_enabled_witness:
  "\<exists>s'. step 7 buffer_sys s' \<and> owned s' = owned buffer_sys - {#(7, 1)#} \<and> holding s' = holding buffer_sys"
  by (rule threads_release_enabled [OF buffer_sys_reachable]) (simp add: buffer_sys_def)

end
