(* ===== verification/Tables.thy ===== *)
theory Tables
  imports Resource_Laws
begin

text \<open>
  The maps of \<^verbatim>\<open>tables.c\<close>: plugin instances by identifier, and the browser instance each
  scriptable object belongs to. Each access holds the mutex of the file.
\<close>

definition tables_get_pp_instance :: "PP_Instance \<Rightarrow> 'a world_scheme \<Rightarrow> pp_instance_s option" where
  "tables_get_pp_instance instance w = ht_lookup (pp_to_np_ht w) instance"

definition tables_add_pp_instance ::
  "PP_Instance \<Rightarrow> pp_instance_s \<Rightarrow> 'a world_scheme \<Rightarrow> 'a world_scheme" where
  "tables_add_pp_instance instance pp_i w =
     w\<lparr>pp_to_np_ht := ht_insert instance pp_i (pp_to_np_ht w)\<rparr>"

definition tables_remove_pp_instance :: "PP_Instance \<Rightarrow> 'a world_scheme \<Rightarrow> 'a world_scheme" where
  "tables_remove_pp_instance instance w = w\<lparr>pp_to_np_ht := ht_remove instance (pp_to_np_ht w)\<rparr>"

text \<open>The loop over the table keeps the last instance that has a browser side.\<close>

definition tables_get_some_pp_instance :: "'a world_scheme \<Rightarrow> pp_instance_s option" where
  "tables_get_some_pp_instance w =
     fold (\<lambda>(_, pp_i) result. if pi_npp pp_i \<noteq> 0 then Some pp_i else result) (pp_to_np_ht w) None"

definition tables_add_npobj_npp_mapping :: "ptr \<Rightarrow> ptr \<Rightarrow> 'a world_scheme \<Rightarrow> 'a world_scheme" where
  "tables_add_npobj_npp_mapping npobj npp w =
     w\<lparr>npobj_to_npp_ht := ht_insert npobj npp (npobj_to_npp_ht w)\<rparr>"

definition tables_get_npobj_npp_mapping :: "ptr \<Rightarrow> 'a world_scheme \<Rightarrow> ptr option" where
  "tables_get_npobj_npp_mapping npobj w = ht_lookup (npobj_to_npp_ht w) npobj"

definition tables_remove_npobj_npp_mapping :: "ptr \<Rightarrow> 'a world_scheme \<Rightarrow> 'a world_scheme" where
  "tables_remove_npobj_npp_mapping npobj w = w\<lparr>npobj_to_npp_ht := ht_remove npobj (npobj_to_npp_ht w)\<rparr>"

text \<open>The counter is a signed 32-bit integer; its overflow is undefined.\<close>

definition tables_generate_new_pp_instance_id :: "'a world_scheme \<Rightarrow> (PP_Instance \<times> 'a world_scheme) option" where
  "tables_generate_new_pp_instance_id w =
     (if INT_MAX \<le> next_instance_id w then None
      else Some (next_instance_id w, w\<lparr>next_instance_id := next_instance_id w + 1\<rparr>))"

lemma fold_last_Some:
  "fold (\<lambda>(_, p) result. if P p then Some p else result) t acc = Some q \<Longrightarrow>
    acc = Some q \<or> (\<exists>k. (k, q) \<in> set t \<and> P q)"
proof (induction t arbitrary: acc)
  case (Cons x t)
  obtain k p where x: "x = (k, p)" by (cases x)
  with Cons have "(if P p then Some p else acc) = Some q \<or> (\<exists>k. (k, q) \<in> set t \<and> P q)"
    by simp
  then show ?case using x by (auto split: if_splits)
qed simp

lemma fold_last_None:
  "fold (\<lambda>(_, p) result. if P p then Some p else result) t acc = None \<Longrightarrow>
    acc = None \<and> (\<forall>(k, p)\<in>set t. \<not> P p)"
proof (induction t arbitrary: acc)
  case (Cons x t)
  obtain k p where x: "x = (k, p)" by (cases x)
  with Cons have "(if P p then Some p else acc) = None \<and> (\<forall>(k, p)\<in>set t. \<not> P p)"
    by simp
  then show ?case using x by (auto split: if_splits)
qed simp

lemma tables_get_some_pp_instance_Some:
  "tables_get_some_pp_instance w = Some p \<Longrightarrow> pi_npp p \<noteq> 0 \<and> (\<exists>k. (k, p) \<in> set (pp_to_np_ht w))"
  unfolding tables_get_some_pp_instance_def
  using fold_last_Some [of "\<lambda>p. pi_npp p \<noteq> 0" "pp_to_np_ht w" None p] by auto

lemma tables_get_some_pp_instance_None:
  "tables_get_some_pp_instance w = None \<longleftrightarrow> (\<forall>(k, p)\<in>set (pp_to_np_ht w). pi_npp p = 0)"
proof
  assume "tables_get_some_pp_instance w = None"
  then show "\<forall>(k, p)\<in>set (pp_to_np_ht w). pi_npp p = 0"
    unfolding tables_get_some_pp_instance_def
    using fold_last_None [of "\<lambda>p. pi_npp p \<noteq> 0" "pp_to_np_ht w" None] by auto
next
  assume all: "\<forall>(k, p)\<in>set (pp_to_np_ht w). pi_npp p = 0"
  show "tables_get_some_pp_instance w = None"
  proof (rule ccontr)
    assume "tables_get_some_pp_instance w \<noteq> None"
    then obtain p where "tables_get_some_pp_instance w = Some p" by blast
    with all show False by (blast dest: tables_get_some_pp_instance_Some)
  qed
qed

lemma table_frames [simp]:
  "world_inv extR extV (w\<lparr>pp_to_np_ht := x\<rparr>) = world_inv extR extV w"
  "world_inv extR extV (w\<lparr>npobj_to_npp_ht := y\<rparr>) = world_inv extR extV w"
  "world_inv extR extV (w\<lparr>next_instance_id := z\<rparr>) = world_inv extR extV w"
  by (simp_all add: world_inv_def var_inv_def res_entries_ok_def res_entry_ok_def)

text \<open>
  What every \<^verbatim>\<open>ppb_*_create\<close> begins and ends with: look the instance up, allocate, fill the
  fields of the new structure, release it.
\<close>

definition create_resource ::
  "PP_Instance \<Rightarrow> pp_resource_type_e \<Rightarrow> payload \<Rightarrow> 'a world_scheme \<Rightarrow> (PP_Resource \<times> 'a world_scheme) option" where
  "create_resource instance type pl w =
     (case tables_get_pp_instance instance w of
        None \<Rightarrow> Some (0, w)
      | Some pp_i \<Rightarrow> do {
          (r, w) \<leftarrow> pp_resource_allocate type (Some (pi_id pp_i)) w;
          with_resource r type 0 (\<lambda>_ w. Some (r, res_write r pl w)) w
        })"

lemma with_resource_write:
  "available r type w e \<Longrightarrow>
    with_resource r type bad (\<lambda>_ w. Some (x, res_write r pl w)) w =
      Some (x, w\<lparr>res_tbl := ht_insert r (e\<lparr>r_payload := pl\<rparr>) (res_tbl w)\<rparr>)"
  using res_update_available [of r type w e bad "\<lambda>_. Some (x, pl)"]
  by (simp add: res_update_def)

text \<open>The contract of such a constructor.\<close>

lemma create_resource_ok:
  assumes inv: "world_inv extR extV w" and room: "0 < res_tbl_next w" "res_tbl_next w < INT_MAX"
    and type: "type \<in> set (destructors_ht w)" and inst: "tables_get_pp_instance i w = Some pp_i"
    and fits: "payload_fits type pl"
    and plain: "filter (\<lambda>r. r \<noteq> 0) (payload_kids pl) = []" "payload_vars pl = payload_vars (zero_payload type)"
  shows "\<exists>r w'. create_resource i type pl w = Some (r, w') \<and> ht_lookup (res_tbl w) r = None \<and>
    0 < r \<and> world_inv (add_mset r extR) extV w' \<and>
    available r type w' \<lparr>r_resource_type = type, r_ref_cnt = 1, r_instance = Some (pi_id pp_i),
      r_self_id = r, r_locked = False, r_payload = pl\<rparr> \<and>
    (\<forall>k. k \<noteq> r \<longrightarrow> ht_lookup (res_tbl w') k = ht_lookup (res_tbl w) k) \<and>
    var_ht w' = var_ht w \<and> res_state.more w' = res_state.more w"
proof -
  let ?r = "res_tbl_next w"
  let ?e = "\<lambda>pl. \<lparr>r_resource_type = type, r_ref_cnt = 1, r_instance = Some (pi_id pp_i),
      r_self_id = ?r, r_locked = False, r_payload = pl\<rparr>"
  from pp_resource_allocate_inv [OF inv room type, of "Some (pi_id pp_i)"] obtain w1 where
    w1: "pp_resource_allocate type (Some (pi_id pp_i)) w = Some (?r, w1)"
    "ht_lookup (res_tbl w) ?r = None" "world_inv (add_mset ?r extR) extV w1"
    "var_ht w1 = var_ht w" "res_state.more w1 = res_state.more w"
    "res_tbl w1 = ht_insert ?r (?e (zero_payload type)) (res_tbl w)" by auto
  let ?w2 = "w1\<lparr>res_tbl := ht_insert ?r (?e pl) (res_tbl w1)\<rparr>"
  have look: "ht_lookup (res_tbl w1) ?r = Some (?e (zero_payload type))" using w1(6) by simp
  then have av: "available ?r type w1 (?e (zero_payload type))" by (simp add: available_def)
  have "create_resource i type pl w = Some (?r, ?w2)"
    using w1(1) inst with_resource_write [OF av, of 0 ?r pl] by (simp add: create_resource_def)
  moreover have "world_inv (add_mset ?r extR) extV ?w2"
  proof -
    have "balanced r_ref_cnt res_kids (add_mset ?r extR) (ht_insert ?r (?e pl) (res_tbl w1))"
      using plain by (intro rr.balanced_update [OF world_invD(1) [OF w1(3)] look]) (simp_all add: res_kids_def)
    moreover have "held res_vars (ht_insert ?r (?e pl) (res_tbl w1)) = held res_vars (res_tbl w1)"
      using plain by (intro held_insert_same [OF look]) (simp add: res_vars_def)
    ultimately show ?thesis
      using world_invD(2,3) [OF w1(3)] world_inv_entry [OF w1(3) look] fits plain(2)
      by (auto simp: world_inv_def var_inv_def res_entries_ok_def res_entry_ok_def)
  qed
  ultimately show ?thesis
    using w1 room by (auto simp: available_def)
qed

lemma create_resource_bad_instance:
  "tables_get_pp_instance i w = None \<Longrightarrow> create_resource i type pl w = Some (0, w)"
  by (simp add: create_resource_def)

lemma create_resource_id:
  "create_resource i type pl w = Some (r, w') \<Longrightarrow> r = 0 \<or> r = res_tbl_next w"
  by (auto simp: create_resource_def pp_resource_allocate_def with_resource_def Let_def
    split: option.splits if_splits Option.bind_splits)

section \<open>The initial state\<close>

text \<open>
  What the constructor functions of the shared library leave: empty tables, with the resource
  types registered so far.
\<close>

definition constructors :: "pp_resource_type_e list \<Rightarrow> world" where
  "constructors types = \<lparr>var_ht = [], var_id = 1, np_released = [], np_retained = [],
     res_tbl = [], res_tbl_next = 1, destructors_ht = types, closed_fds = [], net_tasks = [], tasks_ht = [], next_task = 1,
     pp_to_np_ht = [], npobj_to_npp_ht = [], next_instance_id = 10,
     main_thread_message_loop = 0, browser_thread_message_loop = 0, this_thread_message_loop = 0,
     thread_is_not_suitable_for_message_loop = False\<rparr>"

lemma constructors_inv: "world_inv {#} {#} (constructors types)"
proof -
  have "balanced r_ref_cnt res_kids {#} []" "balanced vs_ref_count var_kids {#} []"
    by (rule balancedI; simp add: ht_ok_def rc_at_def)+
  then show ?thesis
    by (simp add: constructors_def world_inv_def var_inv_def entries_ok_def res_entries_ok_def)
qed

text \<open>The same with one instance, to evaluate on.\<close>

definition sample_instance :: pp_instance_s where
  "sample_instance = zero_instance\<lparr>pi_id := 10, pi_npp := 99, pi_ppp_instance_1_1 := True,
     pi_ppp_input_event := True, pi_instance_loaded := True\<rparr>"

lemma sample_instance_sel [simp]:
  "pi_id sample_instance = 10" "pi_npp sample_instance = 99" "pi_graphics sample_instance = 0"
  "pi_ppp_instance_1_1 sample_instance" "pi_ppp_input_event sample_instance"
  by (simp_all add: sample_instance_def zero_instance_def)

definition started :: "pp_resource_type_e list \<Rightarrow> world" where
  "started types = tables_add_pp_instance 10 sample_instance (constructors types)"

lemma started_inv: "world_inv {#} {#} (started types)"
  by (simp add: started_def tables_add_pp_instance_def constructors_inv)

lemma started_sel [simp]:
  "res_tbl_next (started types) = 1" "destructors_ht (started types) = types" "res_tbl (started types) = []"
  "tables_get_pp_instance 10 (started types) = Some sample_instance" "var_ht (started types) = []"
  by (simp_all add: started_def constructors_def tables_add_pp_instance_def tables_get_pp_instance_def)

end
