(* ===== verification/Message_Loop.thy ===== *)
theory Message_Loop
  imports Tables "HOL-Library.Signed_Division"
begin

text \<open>
  \<^verbatim>\<open>ppb_message_loop.c\<close> and the scheduling half of \<^verbatim>\<open>ppb_core.c\<close>. Tasks are posted to
  \<open>ml_async_q\<close> by any thread and moved by the running thread, one at a time, into the tree
  \<open>ml_int_q\<close> that is ordered by due time. A loop may be run from inside one of its own
  callbacks; tasks carry the nesting depth they are meant for.

  What comes from outside is a parameter: the clock, the callbacks, and what other threads
  do while the loop waits. One turn of the loop consumes one \<open>tick\<close>, the clock reading of
  that turn and the change the other threads made to the state before the queue was popped;
  a run for which the ticks do not suffice is \<open>Still\<close> running.
\<close>

section \<open>The ordered queue\<close>

definition task_tree_compare_func :: "message_loop_task_s \<Rightarrow> message_loop_task_s \<Rightarrow> int" where
  "task_tree_compare_func task_a task_b =
     (if tv_sec (mt_when task_a) < tv_sec (mt_when task_b) then -1
      else if tv_sec (mt_when task_a) > tv_sec (mt_when task_b) then 1
      else if tv_nsec (mt_when task_a) < tv_nsec (mt_when task_b) then -1
      else if tv_nsec (mt_when task_a) > tv_nsec (mt_when task_b) then 1
      else 0)"

text \<open>
  \<^verbatim>\<open>g_tree_insert\<close> keeps the key that is already in the tree when the comparison finds an
  equal one; the tree's traversal is in key order.
\<close>

fun g_tree_insert :: "message_loop_task_s \<Rightarrow> message_loop_task_s list \<Rightarrow> message_loop_task_s list" where
  "g_tree_insert t [] = [t]"
| "g_tree_insert t (u # us) =
     (if task_tree_compare_func t u < 0 then t # u # us
      else if task_tree_compare_func t u = 0 then u # us
      else u # g_tree_insert t us)"

definition g_tree_remove :: "message_loop_task_s \<Rightarrow> message_loop_task_s list \<Rightarrow> message_loop_task_s list" where
  "g_tree_remove t q = filter (\<lambda>u. task_tree_compare_func t u \<noteq> 0) q"

definition task_tree_traverse_func :: "int \<Rightarrow> message_loop_task_s \<Rightarrow> bool" where
  "task_tree_traverse_func current_depth task \<longleftrightarrow> mt_depth task = 0 \<or> current_depth \<le> mt_depth task"

definition find_first_task_with_appropriate_depth ::
  "message_loop_task_s list \<Rightarrow> int \<Rightarrow> message_loop_task_s option" where
  "find_first_task_with_appropriate_depth q current_depth =
     List.find (task_tree_traverse_func current_depth) q"

section \<open>Loops and threads\<close>

definition ppb_message_loop_create :: "PP_Instance \<Rightarrow> 'a world_scheme \<Rightarrow> (PP_Resource \<times> 'a world_scheme) option" where
  "ppb_message_loop_create instance w =
     create_resource instance PP_RESOURCE_MESSAGE_LOOP
       (PL_message_loop \<lparr>ml_async_q = [], ml_int_q = [], ml_running = False, ml_teardown = False,
          ml_depth = 0\<rparr>) w"

definition ppb_message_loop_get_for_main_thread :: "'a world_scheme \<Rightarrow> PP_Resource" where
  "ppb_message_loop_get_for_main_thread w = main_thread_message_loop w"

definition ppb_message_loop_proclaim_this_thread_main :: "'a world_scheme \<Rightarrow> int \<times> 'a world_scheme" where
  "ppb_message_loop_proclaim_this_thread_main w =
     (if this_thread_message_loop w = 0 then (PP_ERROR_WRONG_THREAD, w)
      else (PP_OK, w\<lparr>main_thread_message_loop := this_thread_message_loop w\<rparr>))"

definition ppb_message_loop_get_for_browser_thread :: "'a world_scheme \<Rightarrow> PP_Resource" where
  "ppb_message_loop_get_for_browser_thread w = browser_thread_message_loop w"

definition ppb_message_loop_proclaim_this_thread_browser :: "'a world_scheme \<Rightarrow> int \<times> 'a world_scheme" where
  "ppb_message_loop_proclaim_this_thread_browser w =
     (if this_thread_message_loop w = 0 then (PP_ERROR_WRONG_THREAD, w)
      else (PP_OK, w\<lparr>browser_thread_message_loop := this_thread_message_loop w\<rparr>))"

definition ppb_message_loop_get_current :: "'a world_scheme \<Rightarrow> PP_Resource" where
  "ppb_message_loop_get_current w = this_thread_message_loop w"

fun the_loop :: "payload \<Rightarrow> pp_message_loop_s option" where
  "the_loop (PL_message_loop ml) = Some ml"
| "the_loop _ = None"

definition ppb_message_loop_get_depth :: "PP_Resource \<Rightarrow> 'a world_scheme \<Rightarrow> (int \<times> 'a world_scheme) option" where
  "ppb_message_loop_get_depth message_loop w =
     res_read message_loop PP_RESOURCE_MESSAGE_LOOP 0 (map_option ml_depth \<circ> the_loop) w"

definition ppb_message_loop_mark_thread_unsuitable :: "'a world_scheme \<Rightarrow> 'a world_scheme" where
  "ppb_message_loop_mark_thread_unsuitable w = w\<lparr>thread_is_not_suitable_for_message_loop := True\<rparr>"

definition ppb_message_loop_attach_to_current_thread ::
  "PP_Resource \<Rightarrow> 'a world_scheme \<Rightarrow> int \<times> 'a world_scheme" where
  "ppb_message_loop_attach_to_current_thread message_loop w =
     (if pp_resource_get_type message_loop w \<noteq> PP_RESOURCE_MESSAGE_LOOP then (PP_ERROR_BADRESOURCE, w)
      else if thread_is_not_suitable_for_message_loop w then (PP_ERROR_WRONG_THREAD, w)
      else if this_thread_message_loop w \<noteq> 0 then (PP_ERROR_INPROGRESS, w)
      else (PP_OK, w\<lparr>this_thread_message_loop := message_loop\<rparr>))"

section \<open>Posting\<close>

text \<open>The loop that carries whole seconds out of the nanoseconds.\<close>

function carry_seconds :: "timespec \<Rightarrow> timespec" where
  "carry_seconds t =
     (if 1000 * 1000 * 1000 \<le> tv_nsec t
      then carry_seconds (t\<lparr>tv_sec := tv_sec t + 1, tv_nsec := tv_nsec t - 1000 * 1000 * 1000\<rparr>)
      else t)"
  by pat_completeness auto
termination
  by (relation "measure (\<lambda>t. nat (tv_nsec t))") auto

declare carry_seconds.simps [simp del]

text \<open>The absolute time a task is due: C's division rounds towards zero.\<close>

definition due_time :: "timespec \<Rightarrow> int \<Rightarrow> timespec" where
  "due_time now delay_ms =
     carry_seconds \<lparr>tv_sec = tv_sec now + delay_ms sdiv 1000,
       tv_nsec = tv_nsec now + (delay_ms smod 1000) * 1000 * 1000\<rparr>"

text \<open>\<^verbatim>\<open>g_async_queue_push\<close> on the loop's queue, while the loop is acquired.\<close>

definition push_task :: "message_loop_task_s \<Rightarrow> pp_message_loop_s \<Rightarrow> payload" where
  "push_task task ml = PL_message_loop (ml\<lparr>ml_async_q := ml_async_q ml @ [task]\<rparr>)"

definition ppb_message_loop_post_work_with_result ::
  "timespec \<Rightarrow> PP_Resource \<Rightarrow> PP_CompletionCallback \<Rightarrow> int \<Rightarrow> int \<Rightarrow> int \<Rightarrow> 'a world_scheme \<Rightarrow>
   (int \<times> 'a world_scheme) option" where
  "ppb_message_loop_post_work_with_result now message_loop callback delay_ms result_to_pass depth w =
     (if ccb_func callback = 0 then Some (PP_ERROR_BADARGUMENT, w)
      else res_update message_loop PP_RESOURCE_MESSAGE_LOOP PP_ERROR_BADRESOURCE
        (\<lambda>p. case the_loop p of
           None \<Rightarrow> None
         | Some ml \<Rightarrow>
             if message_loop \<noteq> ppb_message_loop_get_for_browser_thread w \<and> ml_running ml \<and> ml_teardown ml
             then Some (PP_ERROR_FAILED, p)
             else Some (PP_OK, push_task
               \<lparr>mt_when = due_time now delay_ms, mt_terminate = False, mt_depth = depth,
                mt_ccb = callback, mt_result_to_pass = result_to_pass, mt_should_destroy_ml = False\<rparr> ml)) w)"

definition ppb_message_loop_post_work ::
  "timespec \<Rightarrow> PP_Resource \<Rightarrow> PP_CompletionCallback \<Rightarrow> int \<Rightarrow> 'a world_scheme \<Rightarrow> (int \<times> 'a world_scheme) option" where
  "ppb_message_loop_post_work now message_loop callback delay_ms w =
     ppb_message_loop_post_work_with_result now message_loop callback delay_ms PP_OK 0 w"

definition ppb_message_loop_post_quit_depth ::
  "timespec \<Rightarrow> PP_Resource \<Rightarrow> bool \<Rightarrow> int \<Rightarrow> 'a world_scheme \<Rightarrow> (int \<times> 'a world_scheme) option" where
  "ppb_message_loop_post_quit_depth now message_loop should_destroy depth w =
     res_update message_loop PP_RESOURCE_MESSAGE_LOOP PP_ERROR_BADRESOURCE
       (\<lambda>p. case the_loop p of
          None \<Rightarrow> None
        | Some ml \<Rightarrow> Some (PP_OK, push_task
            \<lparr>mt_when = now, mt_terminate = True, mt_depth = depth,
             mt_ccb = zero_ccb, mt_result_to_pass = PP_OK, mt_should_destroy_ml = should_destroy\<rparr> ml)) w"

definition ppb_message_loop_post_quit ::
  "timespec \<Rightarrow> PP_Resource \<Rightarrow> bool \<Rightarrow> 'a world_scheme \<Rightarrow> (int \<times> 'a world_scheme) option" where
  "ppb_message_loop_post_quit now message_loop should_destroy w = do {
     (depth, w) \<leftarrow> ppb_message_loop_get_depth message_loop w;
     ppb_message_loop_post_quit_depth now message_loop should_destroy depth w
   }"

section \<open>Running\<close>

record ml_flags =
  ML_NESTED :: bool
  ML_INCREASE_DEPTH :: bool
  ML_EXIT_ON_EMPTY :: bool

record 'w tick =
  tk_now :: timespec
  tk_others :: "'w \<Rightarrow> 'w"

record run_locals =
  lc_teardown :: bool
  lc_destroy_ml :: bool

type_synonym 'w callbacks = "PP_CompletionCallback \<Rightarrow> int \<Rightarrow> 'w \<Rightarrow> 'w option"

datatype 'w turn = Again run_locals 'w | Break run_locals 'w

datatype 'w loop_result = Still run_locals 'w | Finished run_locals 'w

text \<open>
  The queues are reached through pointers kept from the start, without the lock; the
  reference the loop took keeps the resource alive, so they are those of the table's entry.
\<close>

definition loop_of :: "PP_Resource \<Rightarrow> 'a world_scheme \<Rightarrow> pp_message_loop_s option" where
  "loop_of message_loop w = do {
     gr \<leftarrow> ht_lookup (res_tbl w) message_loop;
     the_loop (r_payload gr)
   }"

definition set_loop :: "PP_Resource \<Rightarrow> pp_message_loop_s \<Rightarrow> 'a world_scheme \<Rightarrow> 'a world_scheme" where
  "set_loop message_loop ml w = res_write message_loop (PL_message_loop ml) w"

definition task_timeout :: "message_loop_task_s \<Rightarrow> timespec \<Rightarrow> int" where
  "task_timeout task now =
     (tv_sec (mt_when task) - tv_sec now) * 1000 * 1000 + (tv_nsec (mt_when task) - tv_nsec now) sdiv 1000"

text \<open>Waiting for the other threads, then moving one task to the tree.\<close>

definition wait_for_task ::
  "PP_Resource \<Rightarrow> 'a world_scheme tick \<Rightarrow> run_locals \<Rightarrow> 'a world_scheme \<Rightarrow> 'a world_scheme turn option" where
  "wait_for_task message_loop tk l w = do {
     let w = tk_others tk w;
     ml \<leftarrow> loop_of message_loop w;
     Some (Again l (case ml_async_q ml of
       [] \<Rightarrow> w
     | task # q \<Rightarrow> set_loop message_loop
         (ml\<lparr>ml_async_q := q, ml_int_q := g_tree_insert task (ml_int_q ml)\<rparr>) w))
   }"

text \<open>The outermost loop has got its quit request.\<close>

definition enter_teardown ::
  "PP_Resource \<Rightarrow> message_loop_task_s \<Rightarrow> run_locals \<Rightarrow> 'a world_scheme \<Rightarrow> 'a world_scheme turn option" where
  "enter_teardown message_loop task l w = do {
     (got, w) \<leftarrow> res_update message_loop PP_RESOURCE_MESSAGE_LOOP False
       (\<lambda>p. case the_loop p of
          None \<Rightarrow> None
        | Some ml \<Rightarrow> Some (True, PL_message_loop (ml\<lparr>ml_teardown := True\<rparr>))) w;
     Some (Again (if got then \<lparr>lc_teardown = True, lc_destroy_ml = mt_should_destroy_ml task\<rparr> else l) w)
   }"

definition loop_turn ::
  "'a world_scheme callbacks \<Rightarrow> PP_Resource \<Rightarrow> ml_flags \<Rightarrow> int \<Rightarrow> 'a world_scheme tick \<Rightarrow> run_locals \<Rightarrow>
   'a world_scheme \<Rightarrow> 'a world_scheme turn option" where
  "loop_turn cb message_loop flags depth tk l w = do {
     ml \<leftarrow> loop_of message_loop w;
     (case find_first_task_with_appropriate_depth (ml_int_q ml) depth of
        Some task \<Rightarrow>
          if task_timeout task (tk_now tk) \<le> 0 then
            let w = set_loop message_loop (ml\<lparr>ml_int_q := g_tree_remove task (ml_int_q ml)\<rparr>) w in
            if mt_terminate task then
              if depth > 1 \<or> \<not> ML_INCREASE_DEPTH flags then Some (Break l w)
              else enter_teardown message_loop task l w
            else if ccb_func (mt_ccb task) \<noteq> 0 then do {
              w \<leftarrow> cb (mt_ccb task) (mt_result_to_pass task) w;
              Some (Again l w)
            }
            else Some (Again l w)
          else wait_for_task message_loop tk l w
      | None \<Rightarrow>
          if lc_teardown l then Some (Break l w)
          else if ML_EXIT_ON_EMPTY flags then Some (Break l w)
          else wait_for_task message_loop tk l w)
   }"

fun loop_turns ::
  "'a world_scheme callbacks \<Rightarrow> PP_Resource \<Rightarrow> ml_flags \<Rightarrow> int \<Rightarrow> 'a world_scheme tick list \<Rightarrow> run_locals \<Rightarrow>
   'a world_scheme \<Rightarrow> 'a world_scheme loop_result option" where
  "loop_turns cb message_loop flags depth [] l w = Some (Still l w)"
| "loop_turns cb message_loop flags depth (tk # tks) l w =
     (case loop_turn cb message_loop flags depth tk l w of
        None \<Rightarrow> None
      | Some (Again l w) \<Rightarrow> loop_turns cb message_loop flags depth tks l w
      | Some (Break l w) \<Rightarrow> Some (Finished l w))"

text \<open>All that was posted before the loop was entered goes to the tree.\<close>

definition pump :: "pp_message_loop_s \<Rightarrow> pp_message_loop_s" where
  "pump ml = ml\<lparr>ml_async_q := [], ml_int_q := fold g_tree_insert (ml_async_q ml) (ml_int_q ml)\<rparr>"

text \<open>Leaving: the saved state is put back and the references are given up.\<close>

definition leave_loop ::
  "PP_Resource \<Rightarrow> ml_flags \<Rightarrow> bool \<Rightarrow> bool \<Rightarrow> run_locals \<Rightarrow> 'a world_scheme \<Rightarrow> (int \<times> 'a world_scheme) option" where
  "leave_loop message_loop flags saved_running saved_teardown l w = do {
     (_, w) \<leftarrow> res_update message_loop PP_RESOURCE_MESSAGE_LOOP ()
       (\<lambda>p. case the_loop p of
          None \<Rightarrow> None
        | Some ml \<Rightarrow>
            let ml = (if ML_INCREASE_DEPTH flags then ml\<lparr>ml_depth := ml_depth ml - 1\<rparr> else ml);
                ml = ml\<lparr>ml_running := False\<rparr>;
                ml = (if ML_NESTED flags then ml\<lparr>ml_running := saved_running, ml_teardown := saved_teardown\<rparr>
                      else ml)
            in Some ((), PL_message_loop ml)) w;
     w \<leftarrow> pp_resource_unref message_loop w;
     w \<leftarrow> (if lc_destroy_ml l then pp_resource_unref message_loop w else Some w);
     Some (PP_OK, w)
   }"

text \<open>
  The whole function. The result is the code returned, or \<open>Still\<close> with the state the ticks
  led to.
\<close>

datatype 'w run_result = Returned int 'w | Running 'w

definition ppb_message_loop_run_int ::
  "'a world_scheme callbacks \<Rightarrow> 'a world_scheme tick list \<Rightarrow> PP_Resource \<Rightarrow> ml_flags \<Rightarrow> 'a world_scheme \<Rightarrow>
   'a world_scheme run_result option" where
  "ppb_message_loop_run_int cb tks message_loop flags w =
     (if this_thread_message_loop w \<noteq> message_loop then Some (Returned PP_ERROR_WRONG_THREAD w)
      else do {
        (p, w) \<leftarrow> pp_resource_acquire message_loop PP_RESOURCE_MESSAGE_LOOP w;
        (case p of
           None \<Rightarrow> Some (Returned PP_ERROR_BADRESOURCE w)
         | Some gr \<Rightarrow> do {
             ml \<leftarrow> the_loop (r_payload gr);
             (if \<not> ML_NESTED flags \<and> ml_running ml then do {
                w \<leftarrow> pp_resource_release message_loop w;
                Some (Returned PP_ERROR_INPROGRESS w)
              }
              else do {
                let ml' = ml\<lparr>ml_running := True, ml_teardown := False,
                            ml_depth := (if ML_INCREASE_DEPTH flags then ml_depth ml + 1 else ml_depth ml)\<rparr>;
                let w = set_loop message_loop ml' w;
                let w = snd (pp_resource_ref message_loop w);
                w \<leftarrow> pp_resource_release message_loop w;
                ml1 \<leftarrow> loop_of message_loop w;
                let w = (if ML_EXIT_ON_EMPTY flags then set_loop message_loop (pump ml1) w else w);
                x \<leftarrow> loop_turns cb message_loop flags (ml_depth ml') tks
                       \<lparr>lc_teardown = False, lc_destroy_ml = False\<rparr> w;
                (case x of
                   Still _ w \<Rightarrow> Some (Running w)
                 | Finished l w \<Rightarrow> do {
                     (r, w) \<leftarrow> leave_loop message_loop flags (ml_running ml) (ml_teardown ml) l w;
                     Some (Returned r w)
                   })
              })
           })
      })"

definition ppb_message_loop_run ::
  "'a world_scheme callbacks \<Rightarrow> 'a world_scheme tick list \<Rightarrow> PP_Resource \<Rightarrow> 'a world_scheme \<Rightarrow>
   'a world_scheme run_result option" where
  "ppb_message_loop_run cb tks message_loop w =
     ppb_message_loop_run_int cb tks message_loop
       \<lparr>ML_NESTED = False, ML_INCREASE_DEPTH = True, ML_EXIT_ON_EMPTY = False\<rparr> w"

definition ppb_message_loop_run_nested ::
  "'a world_scheme callbacks \<Rightarrow> 'a world_scheme tick list \<Rightarrow> PP_Resource \<Rightarrow> 'a world_scheme \<Rightarrow>
   'a world_scheme run_result option" where
  "ppb_message_loop_run_nested cb tks message_loop w =
     ppb_message_loop_run_int cb tks message_loop
       \<lparr>ML_NESTED = True, ML_INCREASE_DEPTH = True, ML_EXIT_ON_EMPTY = False\<rparr> w"

section \<open>Core\<close>

definition ppb_core_add_ref_resource :: "PP_Resource \<Rightarrow> 'a world_scheme \<Rightarrow> 'a world_scheme" where
  "ppb_core_add_ref_resource resource w = snd (pp_resource_ref resource w)"

definition ppb_core_release_resource :: "PP_Resource \<Rightarrow> 'a world_scheme \<Rightarrow> 'a world_scheme option" where
  "ppb_core_release_resource resource w = pp_resource_unref resource w"

text \<open>A callback goes to the main thread at the depth its loop is at.\<close>

definition ppb_core_trampoline_to_main_thread ::
  "timespec \<Rightarrow> PP_CompletionCallback \<Rightarrow> int \<Rightarrow> 'a world_scheme \<Rightarrow> 'a world_scheme option" where
  "ppb_core_trampoline_to_main_thread now callback result w = do {
     let main_message_loop = ppb_message_loop_get_for_main_thread w;
     (depth, w) \<leftarrow> ppb_message_loop_get_depth main_message_loop w;
     (_, w) \<leftarrow> ppb_message_loop_post_work_with_result now main_message_loop callback 0 result depth w;
     Some w
   }"

text \<open>The delay the caller asks for is posted as given, always for depth 1.\<close>

definition ppb_core_call_on_main_thread2 ::
  "timespec \<Rightarrow> int \<Rightarrow> PP_CompletionCallback \<Rightarrow> int \<Rightarrow> 'a world_scheme \<Rightarrow> 'a world_scheme option" where
  "ppb_core_call_on_main_thread2 now delay_in_milliseconds callback result w = do {
     let main_message_loop = ppb_message_loop_get_for_main_thread w;
     (_, w) \<leftarrow> ppb_message_loop_post_work_with_result now main_message_loop callback
                delay_in_milliseconds result 1 w;
     Some w
   }"

definition ppb_core_call_on_main_thread ::
  "timespec \<Rightarrow> int \<Rightarrow> PP_CompletionCallback \<Rightarrow> int \<Rightarrow> 'a world_scheme \<Rightarrow> 'a world_scheme option" where
  "ppb_core_call_on_main_thread now delay_in_milliseconds callback result w =
     ppb_core_call_on_main_thread2 now delay_in_milliseconds callback result w"

text \<open>
  \<open>task\<close> is the address of the allocated task and \<open>comt\<close> that of the function that runs it.
  The result names the browser instance on whose thread the loop is asked to be run, if any.
\<close>

definition ppb_core_call_on_browser_thread ::
  "ptr \<Rightarrow> timespec \<Rightarrow> PP_Instance \<Rightarrow> ptr \<Rightarrow> 'a world_scheme \<Rightarrow> (ptr option \<times> 'a world_scheme) option" where
  "ppb_core_call_on_browser_thread comt now instance task w = do {
     let m_loop = ppb_message_loop_get_for_browser_thread w;
     (_, w) \<leftarrow> ppb_message_loop_post_work_with_result now m_loop
                \<lparr>ccb_func = comt, ccb_user_data = task, ccb_flags = 0\<rparr> 0 PP_OK 0 w;
     Some (case (if instance \<noteq> 0 then tables_get_pp_instance instance w else tables_get_some_pp_instance w) of
             None \<Rightarrow> (None, w)
           | Some pp_i \<Rightarrow> (if pi_npp pp_i \<noteq> 0 then Some (pi_npp pp_i) else None, w))
   }"

text \<open>What is run on that thread: a nested loop that ends when its queue is empty.\<close>

definition activate_browser_thread_ml_ptac ::
  "'a world_scheme callbacks \<Rightarrow> 'a world_scheme tick list \<Rightarrow> 'a world_scheme \<Rightarrow>
   'a world_scheme run_result option" where
  "activate_browser_thread_ml_ptac cb tks w =
     ppb_message_loop_run_int cb tks (ppb_message_loop_get_for_browser_thread w)
       \<lparr>ML_NESTED = True, ML_INCREASE_DEPTH = True, ML_EXIT_ON_EMPTY = True\<rparr> w"

definition ppb_core_is_main_thread :: "'a world_scheme \<Rightarrow> bool" where
  "ppb_core_is_main_thread w \<longleftrightarrow>
     ppb_message_loop_get_current w = ppb_message_loop_get_for_main_thread w"

end
