(* ===== verification/Message_Loop_Laws.thy ===== *)
theory Message_Loop_Laws
  imports Message_Loop
begin

text \<open>
  The tree keeps one task for a due time and yields the earliest suitable one; posting
  computes a normalised due time; a run that may end when its queue is empty calls back
  what is due, in order, and leaves the loop as it found it.
\<close>

section \<open>The ordered queue\<close>

definition before :: "message_loop_task_s \<Rightarrow> message_loop_task_s \<Rightarrow> bool" where
  "before a b \<longleftrightarrow> task_tree_compare_func a b < 0"

definition task_key :: "message_loop_task_s \<Rightarrow> int \<times> int" where
  "task_key t = (tv_sec (mt_when t), tv_nsec (mt_when t))"

lemma compare_key:
  "task_tree_compare_func a b = 0 \<longleftrightarrow> task_key a = task_key b"
  "before a b \<longleftrightarrow> fst (task_key a) < fst (task_key b) \<or>
     fst (task_key a) = fst (task_key b) \<and> snd (task_key a) < snd (task_key b)"
  by (auto simp: task_tree_compare_func_def task_key_def before_def)

lemma before_trans: "before a b \<Longrightarrow> before b c \<Longrightarrow> before a c"
  by (auto simp: compare_key)

lemma before_total: "before a b \<or> task_key a = task_key b \<or> before b a"
  by (auto simp: compare_key prod_eq_iff)

lemma before_irrefl [simp]: "\<not> before a a"
  by (simp add: compare_key)

definition sorted_q :: "message_loop_task_s list \<Rightarrow> bool" where
  "sorted_q q \<longleftrightarrow> sorted_wrt before q"

lemma sorted_q_simps [simp]:
  "sorted_q []" "sorted_q (t # q) \<longleftrightarrow> (\<forall>u\<in>set q. before t u) \<and> sorted_q q"
  by (simp_all add: sorted_q_def)

lemma set_g_tree_insert:
  "set (g_tree_insert t q) = (if \<exists>u\<in>set q. task_key u = task_key t then set q else insert t (set q))"
  if "sorted_q q"
  using that
proof (induction q)
  case (Cons u q)
  have no: "\<not> (\<exists>v\<in>set (u # q). task_key v = task_key t)" if "before t u"
  proof
    assume "\<exists>v\<in>set (u # q). task_key v = task_key t"
    then obtain v where v: "v \<in> set (u # q)" "task_key v = task_key t" by blast
    have "before t v" using that Cons.prems v(1) before_trans by auto
    with v(2) show False by (simp add: compare_key)
  qed
  show ?case
  proof (cases "before t u")
    case True
    with no show ?thesis by (auto simp: before_def)
  next
    case False
    with Cons show ?thesis
      using before_total [of t u] by (auto simp: before_def compare_key)
  qed
qed simp

lemma sorted_g_tree_insert: "sorted_q q \<Longrightarrow> sorted_q (g_tree_insert t q)"
proof (induction q)
  case (Cons u q)
  show ?case
  proof (cases "before t u")
    case True
    with Cons.prems before_trans show ?thesis by (auto simp: before_def)
  next
    case False
    then have "task_key u = task_key t \<or> before u t" using before_total [of t u] by auto
    with False Cons show ?thesis
      by (auto simp: before_def [symmetric] set_g_tree_insert compare_key(1) split: if_splits)
  qed
qed simp

lemma sorted_pump: "sorted_q q \<Longrightarrow> sorted_q (fold g_tree_insert ts q)"
  by (induction ts arbitrary: q) (auto intro: sorted_g_tree_insert)

lemma g_tree_remove_first: "sorted_q (t # q) \<Longrightarrow> g_tree_remove t (t # q) = q"
  by (auto simp: g_tree_remove_def compare_key intro!: filter_True)

lemma find_first_earliest:
  assumes "sorted_q q" and "find_first_task_with_appropriate_depth q depth = Some t"
  shows "t \<in> set q \<and> task_tree_traverse_func depth t \<and>
    (\<forall>u\<in>set q. task_tree_traverse_func depth u \<longrightarrow> u = t \<or> before t u)"
  using assms
  by (induction q) (auto simp: find_first_task_with_appropriate_depth_def split: if_splits)

lemma find_first_None:
  "find_first_task_with_appropriate_depth q depth = None \<longleftrightarrow>
    (\<forall>u\<in>set q. \<not> task_tree_traverse_func depth u)"
  by (auto simp: find_first_task_with_appropriate_depth_def find_None_iff)

section \<open>Due times\<close>

definition nanoseconds :: "timespec \<Rightarrow> int" where
  "nanoseconds t = tv_sec t * 1000000000 + tv_nsec t"

lemma carry_seconds_spec:
  "0 \<le> tv_nsec t \<Longrightarrow> 0 \<le> tv_nsec (carry_seconds t) \<and> tv_nsec (carry_seconds t) < 1000000000 \<and>
    nanoseconds (carry_seconds t) = nanoseconds t"
proof (induction t rule: carry_seconds.induct)
  case (1 t)
  show ?case
  proof (cases "1000 * 1000 * 1000 \<le> tv_nsec t")
    case True
    with 1 have "0 \<le> tv_nsec (t\<lparr>tv_sec := tv_sec t + 1, tv_nsec := tv_nsec t - 1000 * 1000 * 1000\<rparr>)"
      by simp
    from 1(1) [OF True this] True show ?thesis
      by (subst (1 2 3) carry_seconds.simps) (simp add: nanoseconds_def)
  next
    case False
    with 1 show ?thesis by (subst (1 2 3) carry_seconds.simps) simp
  qed
qed

lemma due_time_spec:
  assumes "0 \<le> delay_ms" "0 \<le> tv_nsec now"
  shows "0 \<le> tv_nsec (due_time now delay_ms) \<and> tv_nsec (due_time now delay_ms) < 1000000000 \<and>
    nanoseconds (due_time now delay_ms) = nanoseconds now + delay_ms * 1000000"
proof -
  have "delay_ms sdiv 1000 = delay_ms div 1000" "delay_ms smod 1000 = delay_ms mod 1000"
    using assms(1) by (simp_all add: signed_divide_int_def signed_modulo_int_def sgn_if minus_div_mult_eq_mod)
  moreover have "delay_ms div 1000 * 1000000000 + 1000000 * (delay_ms mod 1000) = delay_ms * 1000000"
    using div_mult_mod_eq [of delay_ms 1000] by linarith
  ultimately show ?thesis
    using carry_seconds_spec [of "\<lparr>tv_sec = tv_sec now + delay_ms sdiv 1000,
        tv_nsec = tv_nsec now + (delay_ms smod 1000) * 1000 * 1000\<rparr>"] assms
    by (simp add: due_time_def nanoseconds_def)
qed

section \<open>One entry of the table at a time\<close>

definition put_res :: "PP_Resource \<Rightarrow> pp_resource_s \<Rightarrow> 'a res_state_scheme \<Rightarrow> 'a res_state_scheme" where
  "put_res r e w = w\<lparr>res_tbl := ht_insert r e (res_tbl w)\<rparr>"

lemma put_res_look [simp]: "ht_lookup (res_tbl (put_res r e w)) k = (if r = k then Some e else ht_lookup (res_tbl w) k)"
  by (simp add: put_res_def)

lemma put_res_put_res [simp]: "put_res r e (put_res r e' w) = put_res r e w"
  by (simp add: put_res_def)

lemma put_res_same: "ht_lookup (res_tbl w) r = Some e \<Longrightarrow> put_res r e w = w"
  by (simp add: put_res_def ht_insert_same)

lemma put_res_frame [simp]:
  "this_thread_message_loop (put_res r e w) = this_thread_message_loop w"
  "main_thread_message_loop (put_res r e w) = main_thread_message_loop w"
  "browser_thread_message_loop (put_res r e w) = browser_thread_message_loop w"
  "pp_to_np_ht (put_res r e w) = pp_to_np_ht w" "world.more (put_res r e w) = world.more w"
  by (simp_all add: put_res_def)

lemma put_res_acquire [simp]:
  "r_resource_type e = type \<Longrightarrow> \<not> r_locked e \<Longrightarrow> pp_resource_acquire r type (put_res r e w) =
    Some (Some (e\<lparr>r_locked := True, r_ref_cnt := r_ref_cnt e + 1\<rparr>),
      put_res r (e\<lparr>r_locked := True, r_ref_cnt := r_ref_cnt e + 1\<rparr>) w)"
  by (simp add: pp_resource_acquire_def acquire_attempt_def Let_def put_res_def)

lemma put_res_ref [simp]:
  "pp_resource_ref r (put_res r e w) = (r, put_res r (e\<lparr>r_ref_cnt := r_ref_cnt e + 1\<rparr>) w)"
  by (simp add: pp_resource_ref_def put_res_def)

lemma put_res_unref [simp]:
  "1 < r_ref_cnt e \<Longrightarrow> pp_resource_unref r (put_res r e w) = Some (put_res r (e\<lparr>r_ref_cnt := r_ref_cnt e - 1\<rparr>) w)"
  by (simp add: pp_resource_unref_def put_res_def)

lemma put_res_release [simp]:
  "1 < r_ref_cnt e \<Longrightarrow> pp_resource_release r (put_res r e w) =
    Some (put_res r (e\<lparr>r_locked := False, r_ref_cnt := r_ref_cnt e - 1\<rparr>) w)"
  by (simp add: release_counted) (simp add: put_res_def)

lemma put_res_write [simp]: "res_write r pl (put_res r e w) = put_res r (e\<lparr>r_payload := pl\<rparr>) w"
  by (simp add: res_write_def put_res_def)

lemma put_res_loop [simp]:
  "loop_of r (put_res r e w) = the_loop (r_payload e)"
  "set_loop r ml (put_res r e w) = put_res r (e\<lparr>r_payload := PL_message_loop ml\<rparr>) w"
  by (simp_all add: loop_of_def set_loop_def)

lemma put_res_update [simp]:
  assumes "r_resource_type e = type" "\<not> r_locked e" "0 < r_ref_cnt e"
  shows "res_update r type bad f (put_res r e w) =
    map_option (\<lambda>(x, pl). (x, put_res r (e\<lparr>r_payload := pl\<rparr>) w)) (f (r_payload e))"
proof -
  have "available r type (put_res r e w) e" using assms by (simp add: available_def)
  from res_update_available [OF this] show ?thesis by (simp add: put_res_def)
qed

lemma put_res_more [simp]:
  "world.more_update g (put_res r e w) = put_res r e (world.more_update g w)"
  by (simp add: put_res_def)

lemma more_update_frame [simp]:
  "this_thread_message_loop (world.more_update g w) = this_thread_message_loop w"
  "res_tbl (world.more_update g w) = res_tbl w"
  "world.more_update g (world.more_update h w) = world.more_update (\<lambda>x. g (h x)) w"
  by (cases w; simp)+

section \<open>Running until the queue is empty\<close>

text \<open>
  Callbacks whose effects are outside the modelled state: any function of the task on the
  rest of the state.
\<close>

definition outside :: "(PP_CompletionCallback \<Rightarrow> int \<Rightarrow> 'a \<Rightarrow> 'a) \<Rightarrow> 'a world_scheme callbacks" where
  "outside f c x w = Some (world.more_update (f c x) w)"

definition calls :: "(PP_CompletionCallback \<Rightarrow> int \<Rightarrow> 'a \<Rightarrow> 'a) \<Rightarrow> message_loop_task_s list \<Rightarrow> 'a \<Rightarrow> 'a" where
  "calls f ts a = fold (\<lambda>t. f (mt_ccb t) (mt_result_to_pass t)) ts a"

lemma calls_simps [simp]:
  "calls f [] = (\<lambda>a. a)" "calls f (t # ts) = (\<lambda>a. calls f ts (f (mt_ccb t) (mt_result_to_pass t) a))"
  by (simp_all add: calls_def fun_eq_iff)

definition ordinary :: "int \<Rightarrow> message_loop_task_s \<Rightarrow> bool" where
  "ordinary depth t \<longleftrightarrow> \<not> mt_terminate t \<and> ccb_func (mt_ccb t) \<noteq> 0 \<and> task_tree_traverse_func depth t"

definition all_due :: "'w tick list \<Rightarrow> message_loop_task_s list \<Rightarrow> bool" where
  "all_due tks q \<longleftrightarrow> (\<forall>tk\<in>set tks. \<forall>t\<in>set q. task_timeout t (tk_now tk) \<le> 0)"

lemma more_update_id [simp]: "world.more_update (\<lambda>a. a) w = w"
  by (cases w) simp

lemma loop_turns_drain:
  assumes "sorted_q q" and "\<forall>t\<in>set q. ordinary depth t" and "all_due tks q"
    and "length q < length tks" and "ML_EXIT_ON_EMPTY flags"
  shows "loop_turns (outside f) r flags depth tks l
      (put_res r (e\<lparr>r_payload := PL_message_loop (ml\<lparr>ml_int_q := q\<rparr>)\<rparr>) w) =
    Some (Finished l (put_res r (e\<lparr>r_payload := PL_message_loop (ml\<lparr>ml_int_q := []\<rparr>)\<rparr>)
      (world.more_update (calls f q) w)))"
  using assms(1-4)
proof (induction q arbitrary: tks w)
  case Nil
  then obtain tk tks' where "tks = tk # tks'" by (cases tks) auto
  then show ?case
    using assms(5) by (simp add: loop_turn_def find_first_task_with_appropriate_depth_def)
next
  case (Cons t q)
  then obtain tk tks' where tks: "tks = tk # tks'" by (cases tks) auto
  let ?s = "\<lambda>q. put_res r (e\<lparr>r_payload := PL_message_loop (ml\<lparr>ml_int_q := q\<rparr>)\<rparr>)"
  let ?g = "f (mt_ccb t) (mt_result_to_pass t)"
  have "find_first_task_with_appropriate_depth (t # q) depth = Some t"
    using Cons.prems(2) by (simp add: find_first_task_with_appropriate_depth_def ordinary_def)
  moreover have "task_timeout t (tk_now tk) \<le> 0" "\<not> mt_terminate t" "ccb_func (mt_ccb t) \<noteq> 0"
    using Cons.prems(2,3) tks by (simp_all add: all_due_def ordinary_def)
  ultimately have "loop_turn (outside f) r flags depth tk l (?s (t # q) w) =
      Some (Again l (?s q (world.more_update ?g w)))"
    using g_tree_remove_first [OF Cons.prems(1)]
    by (simp add: loop_turn_def outside_def Let_def)
  moreover have "loop_turns (outside f) r flags depth tks' l (?s q (world.more_update ?g w)) =
      Some (Finished l (?s [] (world.more_update (calls f q) (world.more_update ?g w))))"
    using Cons.prems tks by (intro Cons.IH) (simp_all add: all_due_def)
  ultimately show ?case using tks by simp
qed

text \<open>What the run leaves of the loop's own fields.\<close>

definition drained :: "ml_flags \<Rightarrow> pp_message_loop_s \<Rightarrow> pp_message_loop_s" where
  "drained flags ml = ml\<lparr>ml_async_q := [], ml_int_q := [],
     ml_running := (ML_NESTED flags \<and> ml_running ml), ml_teardown := (ML_NESTED flags \<and> ml_teardown ml)\<rparr>"

lemma run_int_drain:
  assumes av: "available r PP_RESOURCE_MESSAGE_LOOP w e" and pl: "r_payload e = PL_message_loop ml"
    and thread: "this_thread_message_loop w = r"
    and flags: "ML_EXIT_ON_EMPTY flags" "ML_NESTED flags \<or> \<not> ml_running ml"
    and q: "q = fold g_tree_insert (ml_async_q ml) (ml_int_q ml)" "sorted_q (ml_int_q ml)"
    and ord: "\<forall>t\<in>set q. ordinary (ml_depth ml + (if ML_INCREASE_DEPTH flags then 1 else 0)) t"
    and due: "all_due tks q" "length q < length tks"
  shows "ppb_message_loop_run_int (outside f) tks r flags w =
    Some (Returned PP_OK (put_res r (e\<lparr>r_payload := PL_message_loop (drained flags ml)\<rparr>)
      (world.more_update (calls f q) w)))"
proof -
  have w: "w = put_res r e w"
    using av by (simp add: put_res_same available_def)
  have e: "r_resource_type e = PP_RESOURCE_MESSAGE_LOOP" "\<not> r_locked e" "0 < r_ref_cnt e"
    using av by (simp_all add: available_def)
  let ?d = "ml_depth ml + (if ML_INCREASE_DEPTH flags then 1 else 0)"
  let ?ml = "ml\<lparr>ml_running := True, ml_teardown := False, ml_depth := ?d\<rparr>"
  let ?e = "e\<lparr>r_ref_cnt := 1 + r_ref_cnt e\<rparr>"
  let ?s = "\<lambda>q w. put_res r (?e\<lparr>r_payload := PL_message_loop ((?ml\<lparr>ml_async_q := []\<rparr>)\<lparr>ml_int_q := q\<rparr>)\<rparr>) w"
  have turns: "loop_turns (outside f) r flags ?d tks l (?s q w) =
      Some (Finished l (?s [] (world.more_update (calls f q) w)))" for l
    using q sorted_pump ord due flags(1) by (intro loop_turns_drain) simp_all
  have leave: "leave_loop r flags (ml_running ml) (ml_teardown ml) \<lparr>lc_teardown = False, lc_destroy_ml = False\<rparr>
      (?s [] w') = Some (PP_OK, put_res r (e\<lparr>r_payload := PL_message_loop (drained flags ml)\<rparr>) w')" for w'
    using e by (cases ml) (simp add: leave_loop_def drained_def Let_def)
  have pump: "pump ?ml = ?ml\<lparr>ml_async_q := [], ml_int_q := q\<rparr>"
    using q(1) by (simp add: pump_def)
  have not_inner: "(\<not> ML_NESTED flags \<and> ml_running ml) = False"
    using flags(2) by auto
  have depth: "(if ML_INCREASE_DEPTH flags then ml_depth ml + 1 else ml_depth ml) = ?d" by simp
  have "ppb_message_loop_run_int (outside f) tks r flags (put_res r e w) =
      do { x \<leftarrow> loop_turns (outside f) r flags ?d tks \<lparr>lc_teardown = False, lc_destroy_ml = False\<rparr> (?s q w);
        (case x of
           Still _ w \<Rightarrow> Some (Running w)
         | Finished l w \<Rightarrow> do {
             (x, w) \<leftarrow> leave_loop r flags (ml_running ml) (ml_teardown ml) l w;
             Some (Returned x w)
           }) }"
    using e
    by (simp add: ppb_message_loop_run_int_def Let_def pl thread flags(1) not_inner depth pump
      del: if_split cong: if_cong)
  then show ?thesis
    by (simp only: turns leave w [symmetric] Option.bind.bind_lunit loop_result.case prod.case)
qed

end
