(* ===== verification/Message_Loop_Correct.thy ===== *)
theory Message_Loop_Correct
  imports Message_Loop_Laws
begin

text \<open>
  The properties of the message loops. Callbacks are functions on the part of the state the
  program does not own (\<open>outside f\<close>); \<open>loop_world\<close> is the state the witnesses evaluate on, one
  loop attached to the running thread, with a log of the callbacks.
\<close>

section \<open>A state to evaluate on\<close>

definition loop_entry :: "pp_message_loop_s \<Rightarrow> pp_resource_s" where
  "loop_entry ml = \<lparr>r_resource_type = PP_RESOURCE_MESSAGE_LOOP, r_ref_cnt = 1, r_instance = Some 10,
     r_self_id = 1, r_locked = False, r_payload = PL_message_loop ml\<rparr>"

definition loop_world :: "pp_message_loop_s \<Rightarrow> ptr list world_scheme" where
  "loop_world ml = \<lparr>var_ht = [], var_id = 1, np_released = [], np_retained = [],
     res_tbl = [(1, loop_entry ml)], res_tbl_next = 2, destructors_ht = [PP_RESOURCE_MESSAGE_LOOP],
     closed_fds = [], net_tasks = [], tasks_ht = [], next_task = 1,
     pp_to_np_ht = [(10, sample_instance)],
     npobj_to_npp_ht = [], next_instance_id = 11, main_thread_message_loop = 0,
     browser_thread_message_loop = 1, this_thread_message_loop = 1,
     thread_is_not_suitable_for_message_loop = False, \<dots> = []\<rparr>"

definition log_call :: "PP_CompletionCallback \<Rightarrow> int \<Rightarrow> ptr list \<Rightarrow> ptr list" where
  "log_call c x log = log @ [ccb_func c]"

definition a_task :: "ptr \<Rightarrow> int \<Rightarrow> message_loop_task_s" where
  "a_task f sec = \<lparr>mt_when = \<lparr>tv_sec = sec, tv_nsec = 0\<rparr>, mt_terminate = False, mt_depth = 0,
     mt_ccb = \<lparr>ccb_func = f, ccb_user_data = 0, ccb_flags = 0\<rparr>, mt_result_to_pass = 0,
     mt_should_destroy_ml = False\<rparr>"

definition idle_loop :: pp_message_loop_s where
  "idle_loop = \<lparr>ml_async_q = [], ml_int_q = [], ml_running = False, ml_teardown = False, ml_depth = 0\<rparr>"

definition nested_empty :: ml_flags where
  "nested_empty = \<lparr>ML_NESTED = True, ML_INCREASE_DEPTH = True, ML_EXIT_ON_EMPTY = True\<rparr>"

definition ticks_at :: "int \<Rightarrow> nat \<Rightarrow> ptr list world_scheme tick list" where
  "ticks_at sec n = replicate n \<lparr>tk_now = \<lparr>tv_sec = sec, tv_nsec = 0\<rparr>, tk_others = (\<lambda>w. w)\<rparr>"

lemma loop_world_available:
  "available 1 PP_RESOURCE_MESSAGE_LOOP (loop_world ml) (loop_entry ml)"
  by (simp add: available_def loop_world_def loop_entry_def)

lemma loop_world_sel [simp]:
  "this_thread_message_loop (loop_world ml) = 1" "browser_thread_message_loop (loop_world ml) = 1"
  "r_payload (loop_entry ml) = PL_message_loop ml"
  by (simp_all add: loop_world_def loop_entry_def)

lemma due_when:
  assumes "nanoseconds (mt_when t) \<le> nanoseconds now"
  shows "task_timeout t now \<le> 0"
proof -
  define s where "s = tv_sec (mt_when t) - tv_sec now"
  define n where "n = tv_nsec (mt_when t) - tv_nsec now"
  have le: "s * 1000000000 + n \<le> 0"
    using assms by (simp add: nanoseconds_def s_def n_def algebra_simps)
  have "s * 1000000 + n sdiv 1000 \<le> 0"
  proof (cases "0 \<le> n")
    case True
    then have "n sdiv 1000 = n div 1000" by (simp add: signed_divide_int_def sgn_if)
    with le show ?thesis by linarith
  next
    case False
    then have "n sdiv 1000 = - ((- n) div 1000)" by (simp add: signed_divide_int_def sgn_if)
    with le show ?thesis by linarith
  qed
  then show ?thesis by (simp add: task_timeout_def s_def n_def)
qed

section \<open>Running\<close>



text \<open>Two tasks that are due at the same nanosecond: the tree keeps one of them, and the
  other one's callback is never called.\<close>

theorem loop_loses_simultaneous_task:
  "ppb_message_loop_run_int (outside log_call) (ticks_at 5 2) 1 nested_empty
     (loop_world (idle_loop\<lparr>ml_async_q := [a_task 7 3, a_task 8 3]\<rparr>)) =
   Some (Returned 0 ((loop_world idle_loop)\<lparr>world.more := [7]\<rparr>))"
proof -
  let ?ml = "idle_loop\<lparr>ml_async_q := [a_task 7 3, a_task 8 3]\<rparr>"
  have "ppb_message_loop_run_int (outside log_call) (ticks_at 5 2) 1 nested_empty (loop_world ?ml) =
      Some (Returned 0 (put_res 1 ((loop_entry ?ml)\<lparr>r_payload := PL_message_loop (drained nested_empty ?ml)\<rparr>)
        (world.more_update (calls log_call [a_task 7 3]) (loop_world ?ml))))"
    by (rule run_int_drain [OF loop_world_available])
      (auto simp: nested_empty_def idle_loop_def a_task_def task_tree_compare_func_def ordinary_def
        task_tree_traverse_func_def ticks_at_def task_timeout_def all_due_def)
  then show ?thesis
    by (simp add: put_res_def loop_world_def loop_entry_def drained_def nested_empty_def idle_loop_def
      log_call_def a_task_def)
qed

text \<open>Of the tasks in the tree the loop takes the earliest one that may run at its depth
  (tasks for depth 0 may always, others only at their depth or further out), and it finds
  none only if none may.\<close>

theorem loop_takes_earliest_suitable:
  assumes "sorted_q q"
  shows "(case find_first_task_with_appropriate_depth q depth of
      Some t \<Rightarrow> t \<in> set q \<and> (mt_depth t = 0 \<or> depth \<le> mt_depth t) \<and>
        (\<forall>u\<in>set q. mt_depth u = 0 \<or> depth \<le> mt_depth u \<longrightarrow> u = t \<or> before t u)
    | None \<Rightarrow> \<forall>u\<in>set q. mt_depth u \<noteq> 0 \<and> mt_depth u < depth)"
  using find_first_earliest [OF assms] find_first_None [of q depth]
  by (fastforce simp: task_tree_traverse_func_def split: option.splits)

theorem loop_takes_earliest_suitable_witness:
  "case find_first_task_with_appropriate_depth [(a_task 7 3)\<lparr>mt_depth := 1\<rparr>, a_task 8 4] 2 of
      Some t \<Rightarrow> t \<in> set [(a_task 7 3)\<lparr>mt_depth := 1\<rparr>, a_task 8 4] \<and> (mt_depth t = 0 \<or> 2 \<le> mt_depth t) \<and>
        (\<forall>u\<in>set [(a_task 7 3)\<lparr>mt_depth := 1\<rparr>, a_task 8 4].
           mt_depth u = 0 \<or> 2 \<le> mt_depth u \<longrightarrow> u = t \<or> before t u)
    | None \<Rightarrow> \<forall>u\<in>set [(a_task 7 3)\<lparr>mt_depth := 1\<rparr>, a_task 8 4]. mt_depth u \<noteq> 0 \<and> mt_depth u < 2"
  by (rule loop_takes_earliest_suitable) (simp add: compare_key task_key_def a_task_def)



section \<open>Posting\<close>

text \<open>Posting work puts the task at the end of the loop's queue, with the depth, callback and
  result asked for, due exactly the delay after the clock and with its nanoseconds in range;
  it is refused, without effect, when the loop is running and in teardown, unless the loop
  is the browser thread's.\<close>

theorem loop_post_work:
  assumes "available r PP_RESOURCE_MESSAGE_LOOP w e" and "r_payload e = PL_message_loop ml"
    and "ccb_func callback \<noteq> 0" and "0 \<le> delay_ms" and "0 \<le> tv_nsec now"
  shows "\<exists>due. ppb_message_loop_post_work_with_result now r callback delay_ms res depth w =
      (if r \<noteq> browser_thread_message_loop w \<and> ml_running ml \<and> ml_teardown ml
       then Some (- 2, w)
       else Some (0, put_res r (e\<lparr>r_payload := PL_message_loop (ml\<lparr>ml_async_q := ml_async_q ml @
         [\<lparr>mt_when = due, mt_terminate = False, mt_depth = depth, mt_ccb = callback,
           mt_result_to_pass = res, mt_should_destroy_ml = False\<rparr>]\<rparr>)\<rparr>) w)) \<and>
    nanoseconds due = nanoseconds now + delay_ms * 1000000 \<and> 0 \<le> tv_nsec due \<and> tv_nsec due < 1000000000"
proof -
  have "e\<lparr>r_payload := PL_message_loop ml\<rparr> = e"
    using assms(2) by (cases e) simp
  then have "w\<lparr>res_tbl := ht_insert r (e\<lparr>r_payload := PL_message_loop ml\<rparr>) (res_tbl w)\<rparr> = w"
    using assms(1) by (simp only: available_def ht_insert_same) simp
  then show ?thesis
    using assms(2,3) due_time_spec [OF assms(4,5)]
    by (intro exI [of _ "due_time now delay_ms"])
      (simp add: ppb_message_loop_post_work_with_result_def res_update_available [OF assms(1)]
        push_task_def put_res_def ppb_message_loop_get_for_browser_thread_def)
qed

theorem loop_post_work_witness:
  "\<exists>due. ppb_message_loop_post_work_with_result \<lparr>tv_sec = 3, tv_nsec = 900000000\<rparr> 1 (mt_ccb (a_task 7 0)) 1200 5 0
      (loop_world idle_loop) =
      (if 1 \<noteq> browser_thread_message_loop (loop_world idle_loop) \<and> ml_running idle_loop \<and> ml_teardown idle_loop
       then Some (- 2, loop_world idle_loop)
       else Some (0, put_res 1 ((loop_entry idle_loop)\<lparr>r_payload := PL_message_loop (idle_loop\<lparr>ml_async_q := ml_async_q idle_loop @
         [\<lparr>mt_when = due, mt_terminate = False, mt_depth = 0, mt_ccb = mt_ccb (a_task 7 0),
           mt_result_to_pass = 5, mt_should_destroy_ml = False\<rparr>]\<rparr>)\<rparr>) (loop_world idle_loop))) \<and>
    nanoseconds due = nanoseconds \<lparr>tv_sec = 3, tv_nsec = 900000000\<rparr> + 1200 * 1000000 \<and>
    0 \<le> tv_nsec due \<and> tv_nsec due < 1000000000"
  by (rule loop_post_work [OF loop_world_available]) (simp_all add: a_task_def)

text \<open>C28: A function handed to the browser thread is run there: the call queues it on that
  thread's loop even in teardown, asks a live instance to wake the thread up, and the
  nested run that follows calls it once and ends.\<close>

theorem browser_thread_call_runs:
  assumes "browser_thread_message_loop w = r" and "this_thread_message_loop w = r"
    and "available r PP_RESOURCE_MESSAGE_LOOP w e" and "r_payload e = PL_message_loop ml"
    and "ml_async_q ml = []" and "ml_int_q ml = []"
    and "comt \<noteq> 0" and "0 \<le> tv_nsec now" and "tables_get_pp_instance i w = Some pp_i" and "i \<noteq> 0"
    and "pi_npp pp_i \<noteq> 0"
    and "length tks = 2" and "\<forall>tk\<in>set tks. nanoseconds now \<le> nanoseconds (tk_now tk)"
  shows "\<exists>w1 w2. ppb_core_call_on_browser_thread comt now i task w = Some (Some (pi_npp pp_i), w1) \<and>
    activate_browser_thread_ml_ptac (outside f) tks w1 = Some (Returned 0 w2) \<and>
    w2 = world.more_update (f \<lparr>ccb_func = comt, ccb_user_data = task, ccb_flags = 0\<rparr> 0) w"
proof -
  let ?t = "\<lparr>mt_when = due_time now 0, mt_terminate = False, mt_depth = 0,
    mt_ccb = \<lparr>ccb_func = comt, ccb_user_data = task, ccb_flags = 0\<rparr>, mt_result_to_pass = 0,
    mt_should_destroy_ml = False\<rparr>"
  let ?ml = "ml\<lparr>ml_async_q := [?t]\<rparr>"
  let ?e = "e\<lparr>r_payload := PL_message_loop ?ml\<rparr>"
  let ?w1 = "put_res r ?e w"
  let ?flags = "\<lparr>ML_NESTED = True, ML_INCREASE_DEPTH = True, ML_EXIT_ON_EMPTY = True\<rparr>"
  have post: "ppb_core_call_on_browser_thread comt now i task w = Some (Some (pi_npp pp_i), ?w1)"
    using assms
    by (simp add: ppb_core_call_on_browser_thread_def ppb_message_loop_get_for_browser_thread_def
      ppb_message_loop_post_work_with_result_def res_update_available push_task_def put_res_def
      tables_get_pp_instance_def)
  have "nanoseconds (due_time now 0) = nanoseconds now"
    using due_time_spec [of 0 now] assms(8) by simp
  then have due: "all_due tks [?t]"
    using assms(13) by (auto simp: all_due_def intro!: due_when)
  have "available r PP_RESOURCE_MESSAGE_LOOP ?w1 ?e"
    using assms(3) by (simp add: available_def)
  then have "ppb_message_loop_run_int (outside f) tks r ?flags ?w1 =
      Some (Returned 0 (put_res r (?e\<lparr>r_payload := PL_message_loop (drained ?flags ?ml)\<rparr>)
        (world.more_update (calls f [?t]) ?w1)))"
    using assms due by (intro run_int_drain) (auto simp: ordinary_def task_tree_traverse_func_def)
  moreover have "drained ?flags ?ml = ml"
    using assms(5,6) by (cases ml) (simp add: drained_def)
  moreover have "e\<lparr>r_payload := PL_message_loop ml\<rparr> = e"
    using assms(4) by (cases e) simp
  ultimately have "activate_browser_thread_ml_ptac (outside f) tks ?w1 =
      Some (Returned 0 (put_res r e (world.more_update (calls f [?t]) w)))"
    using assms(1) by (simp add: activate_browser_thread_ml_ptac_def ppb_message_loop_get_for_browser_thread_def)
  moreover have "put_res r e (world.more_update (calls f [?t]) w) = world.more_update (calls f [?t]) w"
    using assms(3) by (intro put_res_same) (simp add: available_def)
  ultimately show ?thesis using post by simp
qed

theorem browser_thread_call_runs_witness:
  "\<exists>w1 w2. ppb_core_call_on_browser_thread 55 \<lparr>tv_sec = 4, tv_nsec = 0\<rparr> 10 66 (loop_world idle_loop) =
      Some (Some 99, w1) \<and>
    activate_browser_thread_ml_ptac (outside log_call) (ticks_at 5 2) w1 = Some (Returned 0 w2) \<and>
    world.more w2 = [55]"
proof -
  let ?p = "sample_instance"
  have "\<exists>w1 w2. ppb_core_call_on_browser_thread 55 \<lparr>tv_sec = 4, tv_nsec = 0\<rparr> 10 66 (loop_world idle_loop) =
      Some (Some (pi_npp ?p), w1) \<and>
    activate_browser_thread_ml_ptac (outside log_call) (ticks_at 5 2) w1 = Some (Returned 0 w2) \<and>
    w2 = world.more_update (log_call \<lparr>ccb_func = 55, ccb_user_data = 66, ccb_flags = 0\<rparr> 0) (loop_world idle_loop)"
    by (rule browser_thread_call_runs [where r = 1 and e = "loop_entry idle_loop" and ml = idle_loop])
      (use loop_world_available in \<open>simp_all add: idle_loop_def ticks_at_def nanoseconds_def
         tables_get_pp_instance_def loop_world_def\<close>)
  then show ?thesis
    by (fastforce simp: log_call_def loop_world_def)
qed

end
