(* ===== verification/Encoding_Alias.thy ===== *)
theory Encoding_Alias
  imports Prelude
begin

text \<open>
  \<^verbatim>\<open>encoding_alias.c\<close>: the canonical name of a character encoding. Names are compared after
  stripping them to lower case letters and digits, without leading zeros of a number; the
  table of aliases is that of \<^verbatim>\<open>encoding_alias_list.inc.c\<close>. A C string is the list of its
  characters before the terminator.
\<close>

section \<open>Stripping\<close>

datatype char_type = UIGNORE | ZERO | NONZ | Letter char

definition char_types :: "char \<Rightarrow> char_type" where
  "char_types c =
     (if c = CHR ''0'' then ZERO
      else if isdigit c then NONZ
      else if isupper c \<or> islower c then Letter (to_lower c)
      else UIGNORE)"

text \<open>The type of the character the pointer is at; that of the terminator is \<open>UIGNORE\<close>.\<close>

definition next_type :: "string \<Rightarrow> char_type" where
  "next_type name = (case name of [] \<Rightarrow> UIGNORE | c # _ \<Rightarrow> char_types c)"

fun strip_loop :: "bool \<Rightarrow> string \<Rightarrow> string" where
  "strip_loop after_digit [] = []"
| "strip_loop after_digit (c # name) =
     (case char_types c of
        UIGNORE \<Rightarrow> strip_loop False name
      | ZERO \<Rightarrow>
          if \<not> after_digit \<and> (next_type name = ZERO \<or> next_type name = NONZ) then strip_loop after_digit name
          else c # strip_loop after_digit name
      | NONZ \<Rightarrow> c # strip_loop True name
      | Letter l \<Rightarrow> l # strip_loop False name)"

definition strip_enc_name :: "string \<Rightarrow> string" where
  "strip_enc_name name = strip_loop False name"

section \<open>The table\<close>

definition encs :: "(string \<times> string) list" where
  "encs = [
    (''UTF-8'', ''UTF-8''), (''UTF-8'', ''unicode-1-1-utf-8''), (''UTF-8'', ''utf-8''),
    (''UTF-8'', ''utf8''), (''IBM866'', ''IBM866''), (''IBM866'', ''866''),
    (''IBM866'', ''cp866''), (''IBM866'', ''csibm866''), (''IBM866'', ''ibm866''),
    (''ISO-8859-2'', ''ISO-8859-2''), (''ISO-8859-2'', ''csisolatin2''),
    (''ISO-8859-2'', ''iso-8859-2''), (''ISO-8859-2'', ''iso-ir-101''),
    (''ISO-8859-2'', ''iso8859-2''), (''ISO-8859-2'', ''iso88592''),
    (''ISO-8859-2'', ''iso_8859-2''), (''ISO-8859-2'', ''iso_8859-2:1987''),
    (''ISO-8859-2'', ''l2''), (''ISO-8859-2'', ''latin2''), (''ISO-8859-3'', ''ISO-8859-3''),
    (''ISO-8859-3'', ''csisolatin3''), (''ISO-8859-3'', ''iso-8859-3''),
    (''ISO-8859-3'', ''iso-ir-109''), (''ISO-8859-3'', ''iso8859-3''),
    (''ISO-8859-3'', ''iso88593''), (''ISO-8859-3'', ''iso_8859-3''),
    (''ISO-8859-3'', ''iso_8859-3:1988''), (''ISO-8859-3'', ''l3''), (''ISO-8859-3'', ''latin3''),
    (''ISO-8859-4'', ''ISO-8859-4''), (''ISO-8859-4'', ''csisolatin4''),
    (''ISO-8859-4'', ''iso-8859-4''), (''ISO-8859-4'', ''iso-ir-110''),
    (''ISO-8859-4'', ''iso8859-4''), (''ISO-8859-4'', ''iso88594''),
    (''ISO-8859-4'', ''iso_8859-4''), (''ISO-8859-4'', ''iso_8859-4:1988''),
    (''ISO-8859-4'', ''l4''), (''ISO-8859-4'', ''latin4''), (''ISO-8859-5'', ''ISO-8859-5''),
    (''ISO-8859-5'', ''csisolatincyrillic''), (''ISO-8859-5'', ''cyrillic''),
    (''ISO-8859-5'', ''iso-8859-5''), (''ISO-8859-5'', ''iso-ir-144''),
    (''ISO-8859-5'', ''iso8859-5''), (''ISO-8859-5'', ''iso88595''),
    (''ISO-8859-5'', ''iso_8859-5''), (''ISO-8859-5'', ''iso_8859-5:1988''),
    (''ISO-8859-6'', ''ISO-8859-6''), (''ISO-8859-6'', ''arabic''),
    (''ISO-8859-6'', ''asmo-708''), (''ISO-8859-6'', ''csiso88596e''),
    (''ISO-8859-6'', ''csiso88596i''), (''ISO-8859-6'', ''csisolatinarabic''),
    (''ISO-8859-6'', ''ecma-114''), (''ISO-8859-6'', ''iso-8859-6''),
    (''ISO-8859-6'', ''iso-8859-6-e''), (''ISO-8859-6'', ''iso-8859-6-i''),
    (''ISO-8859-6'', ''iso-ir-127''), (''ISO-8859-6'', ''iso8859-6''),
    (''ISO-8859-6'', ''iso88596''), (''ISO-8859-6'', ''iso_8859-6''),
    (''ISO-8859-6'', ''iso_8859-6:1987''), (''ISO-8859-7'', ''ISO-8859-7''),
    (''ISO-8859-7'', ''csisolatingreek''), (''ISO-8859-7'', ''ecma-118''),
    (''ISO-8859-7'', ''elot_928''), (''ISO-8859-7'', ''greek''), (''ISO-8859-7'', ''greek8''),
    (''ISO-8859-7'', ''iso-8859-7''), (''ISO-8859-7'', ''iso-ir-126''),
    (''ISO-8859-7'', ''iso8859-7''), (''ISO-8859-7'', ''iso88597''),
    (''ISO-8859-7'', ''iso_8859-7''), (''ISO-8859-7'', ''iso_8859-7:1987''),
    (''ISO-8859-7'', ''sun_eu_greek''), (''ISO-8859-8'', ''ISO-8859-8''),
    (''ISO-8859-8'', ''csiso88598e''), (''ISO-8859-8'', ''csisolatinhebrew''),
    (''ISO-8859-8'', ''hebrew''), (''ISO-8859-8'', ''iso-8859-8''),
    (''ISO-8859-8'', ''iso-8859-8-e''), (''ISO-8859-8'', ''iso-ir-138''),
    (''ISO-8859-8'', ''iso8859-8''), (''ISO-8859-8'', ''iso88598''),
    (''ISO-8859-8'', ''iso_8859-8''), (''ISO-8859-8'', ''iso_8859-8:1988''),
    (''ISO-8859-8'', ''visual''), (''ISO-8859-8-I'', ''ISO-8859-8-I''),
    (''ISO-8859-8-I'', ''csiso88598i''), (''ISO-8859-8-I'', ''iso-8859-8-i''),
    (''ISO-8859-8-I'', ''logical''), (''ISO-8859-10'', ''ISO-8859-10''),
    (''ISO-8859-10'', ''csisolatin6''), (''ISO-8859-10'', ''iso-8859-10''),
    (''ISO-8859-10'', ''iso-ir-157''), (''ISO-8859-10'', ''iso8859-10''),
    (''ISO-8859-10'', ''iso885910''), (''ISO-8859-10'', ''l6''), (''ISO-8859-10'', ''latin6''),
    (''ISO-8859-13'', ''ISO-8859-13''), (''ISO-8859-13'', ''iso-8859-13''),
    (''ISO-8859-13'', ''iso8859-13''), (''ISO-8859-13'', ''iso885913''),
    (''ISO-8859-14'', ''ISO-8859-14''), (''ISO-8859-14'', ''iso-8859-14''),
    (''ISO-8859-14'', ''iso8859-14''), (''ISO-8859-14'', ''iso885914''),
    (''ISO-8859-15'', ''ISO-8859-15''), (''ISO-8859-15'', ''csisolatin9''),
    (''ISO-8859-15'', ''iso-8859-15''), (''ISO-8859-15'', ''iso8859-15''),
    (''ISO-8859-15'', ''iso885915''), (''ISO-8859-15'', ''iso_8859-15''),
    (''ISO-8859-15'', ''l9''), (''ISO-8859-16'', ''ISO-8859-16''),
    (''ISO-8859-16'', ''iso-8859-16''), (''KOI8-R'', ''KOI8-R''), (''KOI8-R'', ''cskoi8r''),
    (''KOI8-R'', ''koi''), (''KOI8-R'', ''koi8''), (''KOI8-R'', ''koi8-r''),
    (''KOI8-R'', ''koi8_r''), (''KOI8-U'', ''KOI8-U''), (''KOI8-U'', ''koi8-ru''),
    (''KOI8-U'', ''koi8-u''), (''macintosh'', ''macintosh''), (''macintosh'', ''csmacintosh''),
    (''macintosh'', ''mac''), (''macintosh'', ''macintosh''), (''macintosh'', ''x-mac-roman''),
    (''windows-874'', ''windows-874''), (''windows-874'', ''dos-874''),
    (''windows-874'', ''iso-8859-11''), (''windows-874'', ''iso8859-11''),
    (''windows-874'', ''iso885911''), (''windows-874'', ''tis-620''),
    (''windows-874'', ''windows-874''), (''windows-1250'', ''windows-1250''),
    (''windows-1250'', ''cp1250''), (''windows-1250'', ''windows-1250''),
    (''windows-1250'', ''x-cp1250''), (''windows-1251'', ''windows-1251''),
    (''windows-1251'', ''cp1251''), (''windows-1251'', ''windows-1251''),
    (''windows-1251'', ''x-cp1251''), (''windows-1252'', ''windows-1252''),
    (''windows-1252'', ''ansi_x3.4-1968''), (''windows-1252'', ''ascii''),
    (''windows-1252'', ''cp1252''), (''windows-1252'', ''cp819''),
    (''windows-1252'', ''csisolatin1''), (''windows-1252'', ''ibm819''),
    (''windows-1252'', ''iso-8859-1''), (''windows-1252'', ''iso-ir-100''),
    (''windows-1252'', ''iso8859-1''), (''windows-1252'', ''iso88591''),
    (''windows-1252'', ''iso_8859-1''), (''windows-1252'', ''iso_8859-1:1987''),
    (''windows-1252'', ''l1''), (''windows-1252'', ''latin1''), (''windows-1252'', ''us-ascii''),
    (''windows-1252'', ''windows-1252''), (''windows-1252'', ''x-cp1252''),
    (''windows-1253'', ''windows-1253''), (''windows-1253'', ''cp1253''),
    (''windows-1253'', ''windows-1253''), (''windows-1253'', ''x-cp1253''),
    (''windows-1254'', ''windows-1254''), (''windows-1254'', ''cp1254''),
    (''windows-1254'', ''csisolatin5''), (''windows-1254'', ''iso-8859-9''),
    (''windows-1254'', ''iso-ir-148''), (''windows-1254'', ''iso8859-9''),
    (''windows-1254'', ''iso88599''), (''windows-1254'', ''iso_8859-9''),
    (''windows-1254'', ''iso_8859-9:1989''), (''windows-1254'', ''l5''),
    (''windows-1254'', ''latin5''), (''windows-1254'', ''windows-1254''),
    (''windows-1254'', ''x-cp1254''), (''windows-1255'', ''windows-1255''),
    (''windows-1255'', ''cp1255''), (''windows-1255'', ''windows-1255''),
    (''windows-1255'', ''x-cp1255''), (''windows-1256'', ''windows-1256''),
    (''windows-1256'', ''cp1256''), (''windows-1256'', ''windows-1256''),
    (''windows-1256'', ''x-cp1256''), (''windows-1257'', ''windows-1257''),
    (''windows-1257'', ''cp1257''), (''windows-1257'', ''windows-1257''),
    (''windows-1257'', ''x-cp1257''), (''windows-1258'', ''windows-1258''),
    (''windows-1258'', ''cp1258''), (''windows-1258'', ''windows-1258''),
    (''windows-1258'', ''x-cp1258''), (''x-mac-cyrillic'', ''x-mac-cyrillic''),
    (''x-mac-cyrillic'', ''x-mac-cyrillic''), (''x-mac-cyrillic'', ''x-mac-ukrainian''),
    (''GBK'', ''GBK''), (''GBK'', ''chinese''), (''GBK'', ''csgb2312''),
    (''GBK'', ''csiso58gb231280''), (''GBK'', ''gb2312''), (''GBK'', ''gb_2312''),
    (''GBK'', ''gb_2312-80''), (''GBK'', ''gbk''), (''GBK'', ''iso-ir-58''), (''GBK'', ''x-gbk''),
    (''gb18030'', ''gb18030''), (''gb18030'', ''gb18030''), (''Big5'', ''Big5''),
    (''Big5'', ''big5''), (''Big5'', ''big5-hkscs''), (''Big5'', ''cn-big5''),
    (''Big5'', ''csbig5''), (''Big5'', ''x-x-big5''), (''EUC-JP'', ''EUC-JP''),
    (''EUC-JP'', ''cseucpkdfmtjapanese''), (''EUC-JP'', ''euc-jp''), (''EUC-JP'', ''x-euc-jp''),
    (''ISO-2022-JP'', ''ISO-2022-JP''), (''ISO-2022-JP'', ''csiso2022jp''),
    (''ISO-2022-JP'', ''iso-2022-jp''), (''Shift_JIS'', ''Shift_JIS''),
    (''Shift_JIS'', ''csshiftjis''), (''Shift_JIS'', ''ms932''), (''Shift_JIS'', ''ms_kanji''),
    (''Shift_JIS'', ''shift-jis''), (''Shift_JIS'', ''shift_jis''), (''Shift_JIS'', ''sjis''),
    (''Shift_JIS'', ''windows-31j''), (''Shift_JIS'', ''x-sjis''), (''EUC-KR'', ''EUC-KR''),
    (''EUC-KR'', ''cseuckr''), (''EUC-KR'', ''csksc56011987''), (''EUC-KR'', ''euc-kr''),
    (''EUC-KR'', ''iso-ir-149''), (''EUC-KR'', ''korean''), (''EUC-KR'', ''ks_c_5601-1987''),
    (''EUC-KR'', ''ks_c_5601-1989''), (''EUC-KR'', ''ksc5601''), (''EUC-KR'', ''ksc_5601''),
    (''EUC-KR'', ''windows-949''), (''replacement'', ''replacement''),
    (''replacement'', ''csiso2022kr''), (''replacement'', ''hz-gb-2312''),
    (''replacement'', ''iso-2022-cn''), (''replacement'', ''iso-2022-cn-ext''),
    (''replacement'', ''iso-2022-kr''), (''UTF-16BE'', ''UTF-16BE''),
    (''UTF-16BE'', ''utf-16be''), (''UTF-16LE'', ''UTF-16LE''), (''UTF-16LE'', ''utf-16''),
    (''UTF-16LE'', ''utf-16le''), (''x-user-defined'', ''x-user-defined''),
    (''x-user-defined'', ''x-user-defined'')]"

text \<open>\<^verbatim>\<open>constructor_encoding_alias\<close>, from the stripped alias to the canonical name.\<close>

definition ce_ht :: "(string, string) hash_table" where
  "ce_ht = fold (\<lambda>(dst, src). ht_insert (strip_enc_name src) dst) encs []"

definition encoding_alias_get_canonical_name :: "string \<Rightarrow> string" where
  "encoding_alias_get_canonical_name name =
     (case ht_lookup ce_ht (strip_enc_name name) of None \<Rightarrow> name | Some dst \<Rightarrow> dst)"

section \<open>Lemmas\<close>

lemma to_lower_zero: "to_lower c = CHR ''0'' \<longleftrightarrow> c = CHR ''0''"
  using case_disjoint(1) [of "CHR ''0''"] ascii_case(1) [of c]
  by (cases "isupper c") (auto simp: ascii_case(4) isdigit_def)

lemma char_types_to_lower [simp]: "char_types (to_lower c) = char_types c"
proof (cases "isupper c")
  case True
  then show ?thesis
    using ascii_case(1) [OF True] case_disjoint [of "to_lower c"] case_disjoint [of c] to_lower_zero [of c]
    by (auto simp: char_types_def ascii_case)
qed (simp add: ascii_case(4))

lemma next_type_to_lower [simp]: "next_type (map to_lower s) = next_type s"
  by (cases s) (simp_all add: next_type_def)

lemma strip_loop_case:
  "strip_loop ad (map to_lower s) = strip_loop ad s"
proof (induction ad s rule: strip_loop.induct)
  case (2 ad c name)
  have digit: "to_lower c = c" if "char_types c = ZERO \<or> char_types c = NONZ"
    using that by (auto simp: char_types_def to_lower_zero ascii_case split: if_splits)
  show ?case
    using 2 digit by (cases "char_types c") auto
qed simp

text \<open>The output alphabet.\<close>

lemma strip_loop_chars: "c \<in> set (strip_loop ad s) \<Longrightarrow> isdigit c \<or> islower c"
proof (induction ad s rule: strip_loop.induct)
  case (2 ad a name)
  have "char_types a = Letter l \<Longrightarrow> islower l" for l
    by (auto simp: char_types_def ascii_case split: if_splits)
  moreover have "char_types a = ZERO \<or> char_types a = NONZ \<Longrightarrow> isdigit a"
    by (auto simp: char_types_def isdigit_def split: if_splits)
  ultimately show ?case
    using 2 by (cases "char_types a") (auto split: if_splits)
qed simp

section \<open>Properties\<close>

text \<open>The case of letters never matters: a name and its lower case form strip to the same
  lower case letters and digits, and so resolve to the same canonical name, when the table
  knows them at all.\<close>

theorem encoding_alias_ignores_case:
  "strip_enc_name (map to_lower name) = strip_enc_name name \<and>
    list_all (\<lambda>c. isdigit c \<or> islower c) (strip_enc_name name) \<and>
    encoding_alias_get_canonical_name (map to_lower name) =
      (case ht_lookup ce_ht (strip_enc_name name) of
         None \<Rightarrow> map to_lower name | Some dst \<Rightarrow> encoding_alias_get_canonical_name name)"
  by (auto simp: strip_enc_name_def strip_loop_case encoding_alias_get_canonical_name_def
    list_all_iff dest: strip_loop_chars split: option.splits)

end
