(* ===== verification/Paths.thy ===== *)
theory Paths
  imports Prelude
begin

text \<open>
  The two routines that resolve \<open>.\<close> and \<open>..\<close> in a path in one pass over its characters:
  \<^verbatim>\<open>to_abs_path\<close> of \<^verbatim>\<open>ppb_flash_file.c\<close>, which keeps the file names of the plugin below its data
  directory, and \<^verbatim>\<open>remove_dot_segments\<close> of \<^verbatim>\<open>uri_parser.c\<close>. The passes are the same but for
  the characters that separate segments; both write behind the position they read, so the
  result is a function of the characters read. The specification works on whole segments
  and a stack of them; the passes are proved to compute it.
\<close>

section \<open>The pass\<close>

text \<open>The result so far is kept reversed: \<^verbatim>\<open>dst\<close> is one past its head.\<close>

record scan =
  sc_out :: "char list" \<comment> \<open>reversed\<close>
  sc_dot_cnt :: nat
  sc_after_slash :: bool

abbreviation (input) slash :: char where "slash \<equiv> CHR ''/''"
abbreviation (input) backslash :: char where "backslash \<equiv> CHR 0x5C"

text \<open>Back to the preceding slash, and over it.\<close>

definition drop_segment :: "char list \<Rightarrow> char list" where
  "drop_segment out = tl (dropWhile (\<lambda>c. c \<noteq> slash) out)"

definition drop_segments :: "nat \<Rightarrow> char list \<Rightarrow> char list" where
  "drop_segments dot_cnt out =
     (if dot_cnt = 1 \<or> dot_cnt = 2 then (drop_segment ^^ dot_cnt) out else out)"

definition scan_char :: "(char \<Rightarrow> bool) \<Rightarrow> char \<Rightarrow> scan \<Rightarrow> scan" where
  "scan_char separator c s =
     (if separator c then
        \<lparr>sc_out = slash # drop_segments (sc_dot_cnt s) (sc_out s), sc_dot_cnt = 0, sc_after_slash = True\<rparr>
      else if c = CHR ''.'' then
        \<lparr>sc_out = c # sc_out s, sc_dot_cnt = (if sc_after_slash s then sc_dot_cnt s + 1 else sc_dot_cnt s),
         sc_after_slash = sc_after_slash s\<rparr>
      else \<lparr>sc_out = c # sc_out s, sc_dot_cnt = 0, sc_after_slash = False\<rparr>)"

definition scan_end :: "scan \<Rightarrow> char list" where
  "scan_end s =
     rev (if sc_after_slash s \<and> (sc_dot_cnt s = 1 \<or> sc_dot_cnt s = 2)
          then slash # drop_segments (sc_dot_cnt s) (sc_out s) else sc_out s)"

definition scan_start :: scan where
  "scan_start = \<lparr>sc_out = [], sc_dot_cnt = 0, sc_after_slash = True\<rparr>"

definition scan_path :: "(char \<Rightarrow> bool) \<Rightarrow> string \<Rightarrow> string" where
  "scan_path separator s = scan_end (fold (scan_char separator) s scan_start)"

definition to_abs_path :: "string \<Rightarrow> string \<Rightarrow> string" where
  "to_abs_path root s = root @ scan_path (\<lambda>c. c = backslash \<or> c = slash) (slash # s)"

definition remove_dot_segments :: "string \<Rightarrow> string" where
  "remove_dot_segments s = scan_path (\<lambda>c. c = slash) s"

section \<open>The specification\<close>

text \<open>The text between separators, in order; there is always a last segment.\<close>

fun split_at :: "(char \<Rightarrow> bool) \<Rightarrow> string \<Rightarrow> string list" where
  "split_at separator [] = [[]]"
| "split_at separator (c # cs) =
     (if separator c then [] # split_at separator cs
      else (c # hd (split_at separator cs)) # tl (split_at separator cs))"

text \<open>
  What a segment does to the segments before it. Going up from the first one, and a dot at
  the very start, leave the root: a single empty segment.
\<close>

definition resolve :: "string \<Rightarrow> string list \<Rightarrow> string list" where
  "resolve seg stack =
     (if seg = ''.'' then (if stack = [] then [[]] else stack)
      else if seg = ''..'' then (if butlast stack = [] then [[]] else butlast stack)
      else stack @ [seg])"

definition with_slashes :: "string list \<Rightarrow> string" where
  "with_slashes segs = concat (map (\<lambda>seg. seg @ [slash]) segs)"

definition resolve_path :: "string list \<Rightarrow> string" where
  "resolve_path segs =
     (let stack = fold resolve (butlast segs) []; final = last segs in
      if final = ''.'' \<or> final = ''..'' then with_slashes (resolve final stack)
      else with_slashes stack @ final)"

section \<open>The pass computes the specification\<close>

lemma split_at_not_Nil [simp]: "split_at sep s \<noteq> []"
  by (induction s) auto

lemma with_slashes_simps [simp]:
  "with_slashes [] = []" "with_slashes (a # as) = a @ slash # with_slashes as"
  "with_slashes (as @ bs) = with_slashes as @ with_slashes bs"
  by (simp_all add: with_slashes_def)

lemma drop_segment_simps [simp]:
  "slash \<notin> set cur \<Longrightarrow> drop_segment (rev cur @ slash # out) = out"
  "slash \<notin> set cur \<Longrightarrow> drop_segment (rev cur) = []"
proof -
  assume cur: "slash \<notin> set cur"
  have "dropWhile (\<lambda>c. c \<noteq> slash) (rev cur @ slash # out) = slash # out"
    using cur by (subst dropWhile_append2) auto
  then show "drop_segment (rev cur @ slash # out) = out" by (simp add: drop_segment_def)
next
  assume cur: "slash \<notin> set cur"
  have "dropWhile (\<lambda>c. c \<noteq> slash) (rev cur) = []"
    unfolding dropWhile_eq_Nil_conv using cur by auto
  then show "drop_segment (rev cur) = []" unfolding drop_segment_def by (simp only: list.sel(2))
qed

lemma drop_segment_with_slashes:
  "slash \<notin> set cur \<Longrightarrow> drop_segment (rev (with_slashes stack @ cur)) =
     (if stack = [] then [] else rev (with_slashes (butlast stack) @ last stack))"
proof (cases stack rule: rev_cases)
  case Nil
  assume "slash \<notin> set cur"
  then have "drop_segment (rev cur) = []" by (rule drop_segment_simps)
  with Nil show ?thesis by simp
next
  case (snoc st x)
  assume "slash \<notin> set cur"
  then have "drop_segment (rev cur @ slash # rev (with_slashes st @ x)) = rev (with_slashes st @ x)"
    by (rule drop_segment_simps)
  with snoc show ?thesis by simp
qed

text \<open>What the scanner's state stands for: finished segments, and the characters of one more.\<close>

definition stands_for :: "string list \<Rightarrow> string \<Rightarrow> scan \<Rightarrow> bool" where
  "stands_for stack cur s \<longleftrightarrow> sc_out s = rev (with_slashes stack @ cur) \<and>
     sc_after_slash s = (set cur \<subseteq> {CHR ''.''}) \<and>
     sc_dot_cnt s = (if set cur \<subseteq> {CHR ''.''} then length cur else 0) \<and>
     slash \<notin> set cur \<and> (\<forall>seg\<in>set stack. slash \<notin> set seg)"

lemma dots:
  "set cur \<subseteq> {CHR ''.''} \<Longrightarrow> length cur = 1 \<longleftrightarrow> cur = ''.''"
  "set cur \<subseteq> {CHR ''.''} \<Longrightarrow> length cur = 2 \<longleftrightarrow> cur = ''..''"
  by (auto simp: length_Suc_conv numeral_2_eq_2)

lemma resolve_no_slash:
  "\<lbrakk>slash \<notin> set cur; \<forall>seg\<in>set stack. slash \<notin> set seg\<rbrakk> \<Longrightarrow> \<forall>seg\<in>set (resolve cur stack). slash \<notin> set seg"
  by (auto simp: resolve_def dest: in_set_butlastD)

text \<open>A separator finishes the segment.\<close>

lemma drop_segments_resolve:
  assumes "stands_for stack cur s"
  shows "slash # drop_segments (sc_dot_cnt s) (sc_out s) = rev (with_slashes (resolve cur stack))"
proof -
  have up: "slash # (if st = [] then [] else rev (with_slashes (butlast st) @ last st)) =
      rev (with_slashes (if st = [] then [[]] else st))" for st
    by (cases st rule: rev_cases) simp_all
  consider (one) "cur = ''.''" | (two) "cur = ''..''" | (other) "cur \<noteq> ''.''" "cur \<noteq> ''..''" by blast
  then show ?thesis
  proof cases
    case one
    with assms show ?thesis
      using drop_segment_with_slashes [of cur stack] up [of stack]
      by (simp add: stands_for_def drop_segments_def resolve_def)
  next
    case two
    then have first: "drop_segment (rev (with_slashes stack @ cur)) =
        (if stack = [] then [] else rev (with_slashes (butlast stack) @ last stack))"
      by (intro drop_segment_with_slashes) simp
    have "slash # drop_segment (drop_segment (rev (with_slashes stack @ cur))) =
        rev (with_slashes (if butlast stack = [] then [[]] else butlast stack))"
    proof (cases "stack = []")
      case True
      with first show ?thesis by (simp add: drop_segment_def)
    next
      case False
      then have "slash \<notin> set (last stack)" using assms by (simp add: stands_for_def)
      then have "drop_segment (rev (with_slashes (butlast stack) @ last stack)) =
          (if butlast stack = [] then [] else rev (with_slashes (butlast (butlast stack)) @ last (butlast stack)))"
        by (rule drop_segment_with_slashes)
      with first False up [of "butlast stack"] show ?thesis by (simp only: if_False)
    qed
    with two assms show ?thesis
      by (simp add: stands_for_def drop_segments_def resolve_def numeral_2_eq_2)
  next
    case other
    with assms have "\<not> (sc_dot_cnt s = 1 \<or> sc_dot_cnt s = 2)"
      using dots [of cur] by (auto simp: stands_for_def)
    with other assms show ?thesis by (simp add: stands_for_def drop_segments_def resolve_def)
  qed
qed

lemma scan_char_separator:
  "stands_for stack cur s \<Longrightarrow> separator c \<Longrightarrow> stands_for (resolve cur stack) [] (scan_char separator c s)"
  using drop_segments_resolve [of stack cur s] resolve_no_slash [of cur stack]
  by (simp add: scan_char_def stands_for_def)

lemma scan_char_other:
  "stands_for stack cur s \<Longrightarrow> \<not> separator c \<Longrightarrow> c \<noteq> slash \<Longrightarrow>
    stands_for stack (cur @ [c]) (scan_char separator c s)"
  by (auto simp: scan_char_def stands_for_def)

lemma scan_end_resolve:
  assumes "stands_for stack cur s"
  shows "scan_end s = (if cur = ''.'' \<or> cur = ''..'' then with_slashes (resolve cur stack)
    else with_slashes stack @ cur)"
proof (cases "cur = ''.'' \<or> cur = ''..''")
  case True
  then have "sc_after_slash s \<and> (sc_dot_cnt s = 1 \<or> sc_dot_cnt s = 2)"
    using assms by (auto simp: stands_for_def)
  then have "scan_end s = rev (slash # drop_segments (sc_dot_cnt s) (sc_out s))"
    unfolding scan_end_def by (simp only: if_True simp_thms)
  with True show ?thesis
    by (simp only: drop_segments_resolve [OF assms] if_True rev_rev_ident)
next
  case False
  with assms dots [of cur] have "\<not> (sc_after_slash s \<and> (sc_dot_cnt s = 1 \<or> sc_dot_cnt s = 2))"
    by (auto simp: stands_for_def)
  with assms False show ?thesis by (auto simp: scan_end_def stands_for_def)
qed

lemma fold_scan:
  assumes "separator slash" and "stands_for stack cur st"
  shows "scan_end (fold (scan_char separator) s st) =
    (let segs = (cur @ hd (split_at separator s)) # tl (split_at separator s);
         stack' = fold resolve (butlast segs) stack; final = last segs in
     if final = ''.'' \<or> final = ''..'' then with_slashes (resolve final stack')
     else with_slashes stack' @ final)"
  using assms(2)
proof (induction s arbitrary: stack cur st)
  case Nil
  then show ?case by (simp add: scan_end_resolve Let_def)
next
  case (Cons c s)
  show ?case
  proof (cases "separator c")
    case True
    from Cons.IH [OF scan_char_separator [of stack cur st separator c]] Cons.prems True
    show ?thesis by (simp add: Let_def)
  next
    case False
    with assms(1) have "c \<noteq> slash" by auto
    with Cons.IH [OF scan_char_other [of stack cur st separator c]] Cons.prems False
    show ?thesis by (simp add: Let_def)
  qed
qed

lemma scan_path_spec:
  "separator slash \<Longrightarrow> scan_path separator s = resolve_path (split_at separator s)"
  using fold_scan [of separator "[]" "[]" scan_start s]
  by (simp add: scan_path_def stands_for_def scan_start_def resolve_path_def Let_def)

section \<open>What is left has no dot segments\<close>

lemma set_split_at: "seg \<in> set (split_at separator s) \<Longrightarrow> c \<in> set seg \<Longrightarrow> c \<in> set s \<and> \<not> separator c"
proof (induction s arbitrary: seg)
  case (Cons a s)
  obtain b bs where split: "split_at separator s = b # bs"
    by (cases "split_at separator s") auto
  show ?case
  proof (cases "separator a")
    case True
    with Cons show ?thesis by auto
  next
    case False
    with Cons.prems(1) split consider "seg = a # b" | "seg \<in> set bs" by auto
    then show ?thesis
    proof cases
      case 1
      with Cons.prems(2) False Cons.IH [of b] split show ?thesis by auto
    next
      case 2
      with Cons.prems(2) Cons.IH [of seg] split show ?thesis by auto
    qed
  qed
qed simp

lemma split_at_with_slashes:
  "\<lbrakk>\<forall>seg\<in>set segs. slash \<notin> set seg; slash \<notin> set final\<rbrakk> \<Longrightarrow>
    split_at (\<lambda>c. c = slash) (with_slashes segs @ final) = segs @ [final]"
proof (induction segs)
  case Nil
  have "slash \<notin> set t \<Longrightarrow> split_at (\<lambda>c. c = slash) t = [t]" for t
    by (induction t) auto
  with Nil show ?case by simp
next
  case (Cons a segs)
  have "slash \<notin> set t \<Longrightarrow> split_at (\<lambda>c. c = slash) (t @ slash # u) = t # split_at (\<lambda>c. c = slash) u" for t u
    by (induction t) auto
  with Cons show ?case by simp
qed

definition plain :: "string \<Rightarrow> bool" where
  "plain seg \<longleftrightarrow> seg \<noteq> ''.'' \<and> seg \<noteq> ''..''"

lemma resolve_plain: "\<forall>seg\<in>set stack. plain seg \<Longrightarrow> \<forall>seg\<in>set (resolve cur stack). plain seg"
  by (auto simp: resolve_def plain_def dest: in_set_butlastD)

lemma fold_resolve_plain: "\<forall>seg\<in>set stack. plain seg \<Longrightarrow> \<forall>seg\<in>set (fold resolve segs stack). plain seg"
proof (induction segs arbitrary: stack)
  case (Cons a segs)
  from Cons.IH [OF resolve_plain [OF Cons.prems]] show ?case by simp
qed simp

lemma fold_resolve_set:
  "\<forall>seg\<in>set segs. P seg \<Longrightarrow> \<forall>seg\<in>set stack. P seg \<Longrightarrow> P [] \<Longrightarrow> \<forall>seg\<in>set (fold resolve segs stack). P seg"
proof (induction segs arbitrary: stack)
  case (Cons a segs)
  have "\<forall>seg\<in>set (resolve a stack). P seg"
    using Cons.prems by (auto simp: resolve_def dest: in_set_butlastD)
  with Cons show ?case by simp
qed simp

lemma resolve_rooted: "stack \<noteq> [] \<Longrightarrow> hd stack = [] \<Longrightarrow> resolve seg stack \<noteq> [] \<and> hd (resolve seg stack) = []"
  by (cases stack; cases "tl stack") (auto simp: resolve_def)

lemma fold_resolve_rooted:
  "stack \<noteq> [] \<Longrightarrow> hd stack = [] \<Longrightarrow> fold resolve segs stack \<noteq> [] \<and> hd (fold resolve segs stack) = []"
proof (induction segs arbitrary: stack)
  case (Cons a segs)
  from Cons.IH [of "resolve a stack"] resolve_rooted [OF Cons.prems, of a] show ?case by simp
qed simp

lemma resolve_path_form:
  obtains stack final where "resolve_path segs = with_slashes stack @ final"
    "\<forall>seg\<in>set (stack @ [final]). plain seg"
    "\<And>P. \<forall>seg\<in>set segs. P seg \<Longrightarrow> segs \<noteq> [] \<Longrightarrow> P [] \<Longrightarrow> \<forall>seg\<in>set (stack @ [final]). P seg"
    "hd segs = [] \<Longrightarrow> 2 \<le> length segs \<Longrightarrow> stack \<noteq> [] \<and> hd stack = []"
proof -
  let ?st = "fold resolve (butlast segs) []"
  have pl: "\<forall>seg\<in>set ?st. plain seg" by (rule fold_resolve_plain) simp
  have P: "\<forall>seg\<in>set ?st. P seg" if "\<forall>seg\<in>set segs. P seg" "P []" for P
    using that by (intro fold_resolve_set) (auto dest: in_set_butlastD)
  have root: "?st \<noteq> [] \<and> hd ?st = []" if h: "hd segs = []" and n: "2 \<le> length segs"
  proof -
    obtain b bs where "segs = [] # b # bs"
      using h n by (cases segs; cases "tl segs") auto
    then show ?thesis using fold_resolve_rooted [of "[[]]"] by (simp add: resolve_def)
  qed
  show thesis
  proof (cases "last segs = ''.'' \<or> last segs = ''..''")
    case True
    show thesis
    proof (rule that [of "resolve (last segs) ?st" "[]"])
      show "\<forall>seg\<in>set (resolve (last segs) ?st @ [[]]). P seg"
        if "\<forall>seg\<in>set segs. P seg" "segs \<noteq> []" "P []" for P
        using P [OF that(1,3)] that True by (auto simp: resolve_def dest: in_set_butlastD)
      show "resolve_path segs = with_slashes (resolve (last segs) ?st) @ []"
        using True by (simp only: resolve_path_def Let_def if_True append_Nil2)
      show "\<forall>seg\<in>set (resolve (last segs) ?st @ [[]]). plain seg"
        using resolve_plain [OF pl, of "last segs"] by (simp add: plain_def)
      show "resolve (last segs) ?st \<noteq> [] \<and> hd (resolve (last segs) ?st) = []"
        if "hd segs = []" "2 \<le> length segs"
        using root [OF that] resolve_rooted by blast
    qed
  next
    case False
    show thesis
    proof (rule that [of ?st "last segs"])
      show "\<forall>seg\<in>set (?st @ [last segs]). P seg" if "\<forall>seg\<in>set segs. P seg" "segs \<noteq> []" "P []" for P
        using P [OF that(1,3)] that by simp
      show "resolve_path segs = with_slashes ?st @ last segs"
        using False by (simp only: resolve_path_def Let_def if_False)
      show "\<forall>seg\<in>set (?st @ [last segs]). plain seg"
        using pl False by (simp add: plain_def)
    qed (rule root)
  qed
qed

text \<open>The result of the scan, cut at its slashes again, has no dot segment.\<close>

lemma scan_path_plain:
  assumes "separator slash"
  shows "\<forall>seg\<in>set (split_at (\<lambda>c. c = slash) (scan_path separator s)). plain seg"
proof -
  obtain stack final where f: "resolve_path (split_at separator s) = with_slashes stack @ final"
    "\<forall>seg\<in>set (stack @ [final]). plain seg"
    "\<And>P. \<forall>seg\<in>set (split_at separator s). P seg \<Longrightarrow> split_at separator s \<noteq> [] \<Longrightarrow> P [] \<Longrightarrow>
       \<forall>seg\<in>set (stack @ [final]). P seg"
    "hd (split_at separator s) = [] \<Longrightarrow> 2 \<le> length (split_at separator s) \<Longrightarrow> stack \<noteq> [] \<and> hd stack = []"
    by (rule resolve_path_form [of "split_at separator s"]) (rule that)
  have "\<forall>seg\<in>set (stack @ [final]). slash \<notin> set seg"
    using assms by (intro f(3)) (auto dest: set_split_at)
  then have "split_at (\<lambda>c. c = slash) (with_slashes stack @ final) = stack @ [final]"
    by (intro split_at_with_slashes) auto
  with f(1,2) show ?thesis using scan_path_spec [of separator, OF assms] by simp
qed

lemma scan_path_rooted:
  assumes "separator slash"
  obtains p where "scan_path separator (slash # s) = slash # p"
    "\<And>c. separator c \<Longrightarrow> c \<in> set p \<Longrightarrow> c = slash"
proof -
  let ?segs = "split_at separator (slash # s)"
  have segs: "?segs = [] # split_at separator s" using assms by simp
  obtain stack final where f: "resolve_path ?segs = with_slashes stack @ final"
    "\<forall>seg\<in>set (stack @ [final]). plain seg"
    "\<And>P. \<forall>seg\<in>set ?segs. P seg \<Longrightarrow> ?segs \<noteq> [] \<Longrightarrow> P [] \<Longrightarrow> \<forall>seg\<in>set (stack @ [final]). P seg"
    "hd ?segs = [] \<Longrightarrow> 2 \<le> length ?segs \<Longrightarrow> stack \<noteq> [] \<and> hd stack = []"
    by (rule resolve_path_form [of ?segs]) (rule that)
  have "2 \<le> length ?segs"
    unfolding segs by (cases "split_at separator s") auto
  with f(4) segs have "stack \<noteq> []" "hd stack = []" by simp_all
  then obtain st where st: "stack = [] # st" by (cases stack) auto
  have "c = slash" if "separator c" "c \<in> set (with_slashes stack @ final)" for c
  proof -
    have "\<forall>seg\<in>set (stack @ [final]). c \<notin> set seg"
      using that(1) by (intro f(3)) (auto dest: set_split_at simp del: split_at.simps)
    with that(2) show ?thesis by (auto simp: with_slashes_def split: if_splits)
  qed
  then show thesis
    using that [of "with_slashes st @ final"] f(1) st scan_path_spec [of separator, OF assms, of "slash # s"]
    by (auto simp: with_slashes_def simp del: split_at.simps)
qed

section \<open>Properties\<close>

text \<open>Whatever name a plugin passes, the path it is resolved to is the data directory
  followed by a slash, and no later segment of it is a dot or two dots; backslashes count as
  slashes. So no file operation on it leaves the data directory by way of its name.\<close>

theorem to_abs_path_stays_below_root:
  "\<exists>p. to_abs_path root s = root @ slash # p \<and> backslash \<notin> set p \<and>
    list_all (\<lambda>seg. seg \<noteq> ''.'' \<and> seg \<noteq> ''..'') (split_at (\<lambda>c. c = slash) (slash # p))"
proof -
  let ?sep = "\<lambda>c. c = backslash \<or> c = slash"
  obtain p where p: "scan_path ?sep (slash # s) = slash # p" "\<And>c. ?sep c \<Longrightarrow> c \<in> set p \<Longrightarrow> c = slash"
    by (rule scan_path_rooted [of ?sep s]) (simp, metis)
  have "backslash \<notin> set p" using p(2) [of backslash] by auto
  moreover have "\<forall>seg\<in>set (split_at (\<lambda>c. c = slash) (slash # p)). plain seg"
    using scan_path_plain [of ?sep "slash # s"] p(1) by simp
  ultimately show ?thesis
    using p(1) by (intro exI [of _ p]) (simp add: to_abs_path_def plain_def list_all_iff)
qed

text \<open>C31: The one-pass removal of dot segments is the segment-wise specification: a dot
  segment is dropped, two dots drop the segment before, never past the root, and at the end
  either leaves a trailing slash.\<close>

theorem remove_dot_segments_refines:
  "remove_dot_segments s = resolve_path (split_at (\<lambda>c. c = slash) s)"
  unfolding remove_dot_segments_def by (rule scan_path_spec) simp

end
