(* ===== verification/Header_Parser.thy ===== *)
theory Header_Parser
  imports Paths
begin

text \<open>
  \<^verbatim>\<open>header_parser.c\<close>: the status line and the header fields of an HTTP response. A C string
  is the list of its characters before the terminator. \<^verbatim>\<open>strtok_r\<close> and \<^verbatim>\<open>sscanf\<close> are those of
  the C standard.
\<close>

section \<open>The library functions\<close>

definition is_crlf :: "char \<Rightarrow> bool" where
  "is_crlf c \<longleftrightarrow> c = CHR 0x0D \<or> c = CHR 0x0A"

text \<open>All tokens \<^verbatim>\<open>strtok_r\<close> hands out: maximal runs of characters that are no delimiter.\<close>

definition strtok_all :: "string \<Rightarrow> string list" where
  "strtok_all s = filter (\<lambda>t. t \<noteq> []) (split_at is_crlf s)"

definition digits_val :: "string \<Rightarrow> int" where
  "digits_val ds = foldl (\<lambda>n d. n * 10 + (int (of_char d) - 48)) 0 ds"

text \<open>
  \<^verbatim>\<open>%<width>d\<close>: white space, a sign that counts for the width, then at least one digit.
\<close>

definition scan_digits :: "nat \<Rightarrow> string \<Rightarrow> (int \<times> string) option" where
  "scan_digits width s =
     (let ds = takeWhile isdigit (take width s) in
      if ds = [] then None else Some (digits_val ds, drop (length ds) s))"

definition scan_d :: "nat \<Rightarrow> string \<Rightarrow> (int \<times> string) option" where
  "scan_d width s =
     (case dropWhile isspace s of
        [] \<Rightarrow> None
      | c # cs \<Rightarrow>
          if c = CHR ''-'' then map_option (\<lambda>(n, r). (- n, r)) (scan_digits (width - 1) cs)
          else if c = CHR ''+'' then scan_digits (width - 1) cs
          else scan_digits width (c # cs))"

fun scan_literal :: "string \<Rightarrow> string \<Rightarrow> string option" where
  "scan_literal [] s = Some s"
| "scan_literal (l # ls) (c # cs) = (if l = c then scan_literal ls cs else None)"
| "scan_literal (l # ls) [] = None"

text \<open>\<^verbatim>\<open>sscanf(part, "HTTP/%6d.%6d %6d", ...)\<close>: the code, if all three conversions succeed.\<close>

definition scan_status :: "string \<Rightarrow> int option" where
  "scan_status part = do {
     s \<leftarrow> scan_literal ''HTTP/'' part;
     (major, s) \<leftarrow> scan_d 6 s;
     s \<leftarrow> scan_literal ''.'' s;
     (minor, s) \<leftarrow> scan_d 6 s;
     (code, s) \<leftarrow> scan_d 6 (dropWhile isspace s);
     Some code
   }"

definition strcasecmp_eq :: "string \<Rightarrow> string \<Rightarrow> bool" where
  "strcasecmp_eq a b \<longleftrightarrow> map to_lower a = map to_lower b"

section \<open>The parser\<close>

record parsed_headers_s =
  ph_cnt :: nat
  ph_name :: "string list"
  ph_value :: "string list"
  ph_status_line :: "string option"
  ph_http_code :: u32

definition header_name :: "string \<Rightarrow> string" where
  "header_name part = takeWhile (\<lambda>c. c \<noteq> CHR '':'') part"

definition header_value :: "string \<Rightarrow> string" where
  "header_value part =
     (if CHR '':'' \<in> set part then dropWhile isspace (tl (dropWhile (\<lambda>c. c \<noteq> CHR '':'') part)) else [])"

definition hp_parse_headers :: "string option \<Rightarrow> parsed_headers_s" where
  "hp_parse_headers headers =
     (case headers of
        None \<Rightarrow> \<lparr>ph_cnt = 0, ph_name = [], ph_value = [], ph_status_line = None, ph_http_code = 0\<rparr>
      | Some s \<Rightarrow>
          let parts = strtok_all s;
              hdrs = (case parts of [] \<Rightarrow> [] | _ # ps \<Rightarrow> ps)
          in \<lparr>ph_cnt = length hdrs,
              ph_name = map header_name hdrs,
              ph_value = map header_value hdrs,
              ph_status_line = (case parts of [] \<Rightarrow> None | part # _ \<Rightarrow> Some part),
              ph_http_code = (case parts of
                 [] \<Rightarrow> 200
               | part # _ \<Rightarrow> (case scan_status part of None \<Rightarrow> 200 | Some code \<Rightarrow> word_of_int code))\<rparr>)"

text \<open>The loop over the names: the value of the first that matches.\<close>

fun find_header :: "string list \<Rightarrow> string list \<Rightarrow> string \<Rightarrow> string option" where
  "find_header (n # ns) (v # vs) name = (if strcasecmp_eq n name then Some v else find_header ns vs name)"
| "find_header _ _ name = None"

definition hp_get_header_value :: "parsed_headers_s \<Rightarrow> string \<Rightarrow> string option" where
  "hp_get_header_value ph name = find_header (ph_name ph) (ph_value ph) name"

definition hp_header_exists :: "parsed_headers_s \<Rightarrow> string \<Rightarrow> bool" where
  "hp_header_exists ph name \<longleftrightarrow> list_ex (\<lambda>n. strcasecmp_eq n name) (ph_name ph)"

section \<open>Lemmas\<close>

abbreviation (input) CRLF :: string where "CRLF \<equiv> [CHR 0x0D, CHR 0x0A]"

definition header_line :: "string \<times> string \<Rightarrow> string" where
  "header_line nv = fst nv @ '': '' @ snd nv"

definition render_response :: "string \<Rightarrow> (string \<times> string) list \<Rightarrow> string" where
  "render_response status hdrs = concat (map (\<lambda>l. l @ CRLF) (status # map header_line hdrs))"

text \<open>What a field must be like to survive: HTTP's own rules.\<close>

definition field_ok :: "string \<times> string \<Rightarrow> bool" where
  "field_ok nv \<longleftrightarrow> CHR '':'' \<notin> set (fst nv) \<and> (\<forall>c\<in>set (fst nv) \<union> set (snd nv). \<not> is_crlf c) \<and>
     (snd nv \<noteq> [] \<longrightarrow> \<not> isspace (hd (snd nv)))"

lemma split_at_no: "(\<forall>c\<in>set l. \<not> sep c) \<Longrightarrow> sep d \<Longrightarrow> split_at sep (l @ d # r) = l # split_at sep r"
  by (induction l) auto

lemma strtok_line:
  "l \<noteq> [] \<Longrightarrow> (\<forall>c\<in>set l. \<not> is_crlf c) \<Longrightarrow> strtok_all (l @ CRLF @ r) = l # strtok_all r"
  by (simp add: strtok_all_def split_at_no is_crlf_def)

lemma strtok_lines:
  "(\<forall>l\<in>set ls. l \<noteq> [] \<and> (\<forall>c\<in>set l. \<not> is_crlf c)) \<Longrightarrow> strtok_all (concat (map (\<lambda>l. l @ CRLF) ls)) = ls"
proof (induction ls)
  case (Cons l ls)
  then show ?case using strtok_line [of l "concat (map (\<lambda>l. l @ CRLF) ls)"] by simp
qed (simp add: strtok_all_def)

lemma header_line_parts:
  assumes "field_ok nv"
  shows "header_name (header_line nv) = fst nv" "header_value (header_line nv) = snd nv"
    "header_line nv \<noteq> []" "\<forall>c\<in>set (header_line nv). \<not> is_crlf c"
proof -
  have no: "\<And>c. c \<in> set (fst nv) \<Longrightarrow> c \<noteq> CHR '':''"
    using assms by (auto simp: field_ok_def)
  show "header_name (header_line nv) = fst nv"
    using no by (simp add: header_name_def header_line_def takeWhile_append2)
  have "dropWhile isspace (snd nv) = snd nv"
    using assms by (cases "snd nv") (auto simp: field_ok_def)
  then show "header_value (header_line nv) = snd nv"
    using no by (simp add: header_value_def header_line_def dropWhile_append2 isspace_def)
qed (use assms in \<open>auto simp: field_ok_def header_line_def is_crlf_def\<close>)

lemma find_header_exists:
  "length ns = length vs \<Longrightarrow> find_header ns vs name \<noteq> None \<longleftrightarrow> list_ex (\<lambda>n. strcasecmp_eq n name) ns"
  by (induction ns vs rule: list_induct2) auto

lemma find_header_case:
  "find_header ns vs (map to_lower name) = find_header ns vs name"
  by (induction ns vs name rule: find_header.induct) (auto simp: strcasecmp_eq_def)

section \<open>Properties\<close>

text \<open>C32: A response written out line by line is parsed back: the status line, and every
  field's name and value in order.\<close>

theorem headers_roundtrip:
  assumes "status \<noteq> []" and "\<forall>c\<in>set status. \<not> is_crlf c" and "\<forall>nv\<in>set hdrs. field_ok nv"
  shows "(let ph = hp_parse_headers (Some (render_response status hdrs)) in
    ph_status_line ph = Some status \<and> ph_name ph = map fst hdrs \<and> ph_value ph = map snd hdrs \<and>
    ph_cnt ph = length hdrs)"
proof -
  have "strtok_all (render_response status hdrs) = status # map header_line hdrs"
    unfolding render_response_def using assms
    by (intro strtok_lines) (auto simp: header_line_parts)
  then show ?thesis
    using assms(3) by (auto simp: hp_parse_headers_def Let_def header_line_parts)
qed

theorem headers_roundtrip_witness:
  "let ph = hp_parse_headers (Some (render_response ''HTTP/1.1 200 OK'' [(''Etag'', ''a:b''), (''Server'', [])])) in
    ph_status_line ph = Some ''HTTP/1.1 200 OK'' \<and> ph_name ph = map fst [(''Etag'', ''a:b''), (''Server'', [])] \<and>
    ph_value ph = map snd [(''Etag'', ''a:b''), (''Server'', [])] \<and>
    ph_cnt ph = length [(''Etag'', ''a:b''), (''Server'', [])]"
  by (rule headers_roundtrip) (simp_all add: is_crlf_def field_ok_def isspace_def)

text \<open>A header is looked up regardless of the case of its name, a lookup finds a value
  exactly when the header exists, and names and values stay in step, whatever was parsed.\<close>

theorem headers_lookup:
  "(let ph = hp_parse_headers headers in
     length (ph_name ph) = length (ph_value ph) \<and> length (ph_name ph) = ph_cnt ph \<and>
     hp_get_header_value ph (map to_lower name) = hp_get_header_value ph name \<and>
     (hp_get_header_value ph name \<noteq> None) = hp_header_exists ph name)"
proof -
  have len: "length (ph_name (hp_parse_headers headers)) = length (ph_value (hp_parse_headers headers)) \<and>
      length (ph_name (hp_parse_headers headers)) = ph_cnt (hp_parse_headers headers)"
    by (simp add: hp_parse_headers_def Let_def split: option.splits list.splits)
  then show ?thesis
    using find_header_exists [of "ph_name (hp_parse_headers headers)" "ph_value (hp_parse_headers headers)" name]
    by (simp add: Let_def hp_get_header_value_def hp_header_exists_def find_header_case del: not_None_eq)
qed

end
