(* ===== verification/Config_Parser.thy ===== *)
theory Config_Parser
  imports Header_Parser Data_Model
begin

text \<open>
  \<^verbatim>\<open>config_parser.c\<close>: the configuration file sets variables of the program, each known by a
  name and a type. The automaton that splits the file into names and values is generated by
  Ragel from \<^verbatim>\<open>config_parser_fsm.rl.c\<close> and is a parameter here, the function \<open>params\<close> from a
  text to the name and value pairs its action \<^verbatim>\<open>param_val_end\<close> is called with, in order; so is
  \<^verbatim>\<open>atof\<close>, whose result is only stored. Memory is a map from addresses to values.
\<close>

section \<open>Data\<close>

datatype cfg_type = CFG_TYPE_INT | CFG_TYPE_FLOAT | CFG_TYPE_STRING | CFG_TYPE_other int

datatype cfg_value = CV_int int | CV_float double_bits | CV_string "string option"

type_synonym memory = "ptr \<Rightarrow> cfg_value option"

record cfg_opt =
  co_name :: string
  co_type :: cfg_type
  co_ptr :: ptr

record cfg_s =
  entries_ht :: "(string, cfg_type \<times> ptr) hash_table"
  error_func :: bool \<comment> \<open>a callback is set\<close>

datatype cfg_error = Unknown_parameter string string | Unknown_type cfg_type string string

record cfg_state =
  cs_memory :: memory
  cs_reports :: "cfg_error list" \<comment> \<open>what the callback was told, latest first\<close>

section \<open>The operations\<close>

definition cfg_init :: "cfg_opt list \<Rightarrow> cfg_s" where
  "cfg_init opts =
     \<lparr>entries_ht = fold (\<lambda>e. ht_insert (co_name e) (co_type e, co_ptr e)) opts [], error_func = False\<rparr>"

definition cfg_set_error_func :: "bool \<Rightarrow> cfg_s \<Rightarrow> cfg_s" where
  "cfg_set_error_func func cfg = cfg\<lparr>error_func := func\<rparr>"

text \<open>\<^verbatim>\<open>atoi\<close>: white space, a sign, digits as far as they go; out of range is undefined.\<close>

definition atoi :: "string \<Rightarrow> int option" where
  "atoi s =
     (let t = dropWhile isspace s;
          (neg, t) = (case t of c # cs \<Rightarrow> if c = CHR ''-'' then (True, cs) else if c = CHR ''+'' then (False, cs)
                                        else (False, t) | [] \<Rightarrow> (False, []));
          n = digits_val (takeWhile isdigit t);
          v = (if neg then - n else n)
      in if - 2147483648 \<le> v \<and> v \<le> 2147483647 then Some v else None)"

definition report :: "cfg_s \<Rightarrow> cfg_error \<Rightarrow> cfg_state \<Rightarrow> cfg_state" where
  "report cfg e st = (if error_func cfg then st\<lparr>cs_reports := e # cs_reports st\<rparr> else st)"

definition handle_param ::
  "(string \<Rightarrow> double_bits) \<Rightarrow> cfg_s \<Rightarrow> string \<Rightarrow> string \<Rightarrow> cfg_state \<Rightarrow> cfg_state option" where
  "handle_param atof cfg name value st =
     (case ht_lookup (entries_ht cfg) name of
        None \<Rightarrow> Some (report cfg (Unknown_parameter name value) st)
      | Some (type, ptr) \<Rightarrow>
          (case type of
             CFG_TYPE_INT \<Rightarrow>
               map_option (\<lambda>n. st\<lparr>cs_memory := (cs_memory st)(ptr \<mapsto> CV_int n)\<rparr>) (atoi value)
           | CFG_TYPE_FLOAT \<Rightarrow>
               Some (st\<lparr>cs_memory := (cs_memory st)(ptr \<mapsto> CV_float (atof value))\<rparr>)
           | CFG_TYPE_STRING \<Rightarrow>
               Some (st\<lparr>cs_memory := (cs_memory st)(ptr \<mapsto> CV_string (Some value))\<rparr>)
           | CFG_TYPE_other n \<Rightarrow> Some (report cfg (Unknown_type (CFG_TYPE_other n) name value) st)))"

fun handle_params ::
  "(string \<Rightarrow> double_bits) \<Rightarrow> cfg_s \<Rightarrow> (string \<times> string) list \<Rightarrow> cfg_state \<Rightarrow> cfg_state option" where
  "handle_params atof cfg [] st = Some st"
| "handle_params atof cfg ((name, value) # ps) st =
     (case handle_param atof cfg name value st of
        None \<Rightarrow> None
      | Some st \<Rightarrow> handle_params atof cfg ps st)"

definition cfg_parse_string ::
  "(string \<Rightarrow> (string \<times> string) list) \<Rightarrow> (string \<Rightarrow> double_bits) \<Rightarrow> cfg_s \<Rightarrow> string \<Rightarrow> cfg_state \<Rightarrow>
   cfg_state option" where
  "cfg_parse_string params atof cfg s st = handle_params atof cfg (params s) st"

datatype cfg_result = CFG_SUCCESS | CFG_FAILURE

text \<open>\<open>contents\<close> is what \<^verbatim>\<open>g_file_get_contents\<close> reads from the file, if it can.\<close>

definition cfg_parse ::
  "(string \<Rightarrow> (string \<times> string) list) \<Rightarrow> (string \<Rightarrow> double_bits) \<Rightarrow> cfg_s \<Rightarrow> string option \<Rightarrow> cfg_state \<Rightarrow>
   (cfg_result \<times> cfg_state) option" where
  "cfg_parse params atof cfg contents st =
     (case contents of
        None \<Rightarrow> Some (CFG_FAILURE, st)
      | Some s \<Rightarrow> map_option (\<lambda>st. (CFG_SUCCESS, st)) (cfg_parse_string params atof cfg s st))"

section \<open>Lemmas\<close>

lemma entries_cfg_init:
  "ht_lookup (entries_ht (cfg_init opts)) n =
     map_of (rev (map (\<lambda>e. (co_name e, (co_type e, co_ptr e))) opts)) n"
proof -
  have "fold (\<lambda>e. ht_insert (co_name e) (co_type e, co_ptr e)) opts t =
      ht.insert_all (map (\<lambda>e. (co_name e, (co_type e, co_ptr e))) opts) t" for t :: "(string, cfg_type \<times> ptr) hash_table"
    by (induction opts arbitrary: t) auto
  then show ?thesis by (simp add: cfg_init_def ht.lookup_insert_all split: option.splits)
qed

text \<open>The text assigned last to a variable: the last parameter whose entry points there.\<close>

definition assigned :: "cfg_s \<Rightarrow> (string \<times> string) list \<Rightarrow> ptr \<Rightarrow> (cfg_type \<times> string) option" where
  "assigned cfg ps p =
     map_of (rev (concat (map (\<lambda>(n, v). case ht_lookup (entries_ht cfg) n of
        Some (CFG_TYPE_other _, _) \<Rightarrow> [] | Some (t, q) \<Rightarrow> [(q, (t, v))] | None \<Rightarrow> []) ps))) p"

fun decode :: "(string \<Rightarrow> double_bits) \<Rightarrow> cfg_type \<times> string \<Rightarrow> cfg_value option" where
  "decode atof (CFG_TYPE_INT, v) = map_option CV_int (atoi v)"
| "decode atof (CFG_TYPE_FLOAT, v) = Some (CV_float (atof v))"
| "decode atof (CFG_TYPE_STRING, v) = Some (CV_string (Some v))"
| "decode atof (CFG_TYPE_other _, v) = None"

lemma assigned_Cons:
  "assigned cfg ((n, v) # ps) p =
     (case assigned cfg ps p of
        Some x \<Rightarrow> Some x
      | None \<Rightarrow> (case ht_lookup (entries_ht cfg) n of
          Some (CFG_TYPE_other _, _) \<Rightarrow> None
        | Some (t, q) \<Rightarrow> if q = p then Some (t, v) else None
        | None \<Rightarrow> None))"
  by (auto simp: assigned_def map_add_def split: option.splits cfg_type.splits prod.splits)

lemma handle_param_memory:
  assumes "handle_param atof cfg n v st = Some st'"
  shows "cs_memory st' p =
    (case ht_lookup (entries_ht cfg) n of
       Some (CFG_TYPE_other _, _) \<Rightarrow> cs_memory st p
     | Some (t, q) \<Rightarrow> if q = p then decode atof (t, v) else cs_memory st p
     | None \<Rightarrow> cs_memory st p)"
  using assms
  by (auto simp: handle_param_def report_def split: option.splits cfg_type.splits if_splits)

lemma handle_params_memory:
  "handle_params atof cfg ps st = Some st' \<Longrightarrow>
    cs_memory st' p = (case assigned cfg ps p of Some tv \<Rightarrow> decode atof tv | None \<Rightarrow> cs_memory st p)"
proof (induction ps arbitrary: st)
  case (Cons nv ps)
  obtain n v where nv: "nv = (n, v)" by (cases nv)
  with Cons.prems obtain st1 where st1: "handle_param atof cfg n v st = Some st1"
    "handle_params atof cfg ps st1 = Some st'" by (auto split: option.splits)
  from Cons.IH [OF st1(2)] handle_param_memory [OF st1(1), of p]
  show ?case
    by (auto simp: nv assigned_Cons split: option.splits cfg_type.splits prod.splits)
qed (simp add: assigned_def)

lemma handle_params_returns:
  "(\<forall>(n, v)\<in>set ps. \<forall>q. ht_lookup (entries_ht cfg) n = Some (CFG_TYPE_INT, q) \<longrightarrow> atoi v \<noteq> None) \<Longrightarrow>
    \<exists>st'. handle_params atof cfg ps st = Some st'"
proof (induction ps arbitrary: st)
  case (Cons nv ps)
  obtain n v where nv: "nv = (n, v)" by (cases nv)
  with Cons.prems have "\<exists>st1. handle_param atof cfg n v st = Some st1"
    by (auto simp: handle_param_def split: option.splits cfg_type.splits)
  then obtain st1 where "handle_param atof cfg n v st = Some st1" by blast
  with Cons nv show ?case by simp
qed simp

section \<open>Properties\<close>

text \<open>Reading a configuration text always comes to an end when its integers are in range,
  and leaves in every variable the value of the last parameter that names it, decoded by
  the variable's type; a variable no parameter names keeps its value.\<close>

theorem config_sets_last_value:
  assumes "\<forall>(n, v)\<in>set (params s). \<forall>q. ht_lookup (entries_ht cfg) n = Some (CFG_TYPE_INT, q) \<longrightarrow> atoi v \<noteq> None"
  shows "\<exists>st'. cfg_parse params atof cfg (Some s) st = Some (CFG_SUCCESS, st') \<and>
    (\<forall>p. cs_memory st' p =
      (case assigned cfg (params s) p of Some tv \<Rightarrow> decode atof tv | None \<Rightarrow> cs_memory st p))"
proof -
  obtain st' where "handle_params atof cfg (params s) st = Some st'"
    using handle_params_returns [OF assms] by blast
  then show ?thesis
    by (simp add: cfg_parse_def cfg_parse_string_def handle_params_memory)
qed

theorem config_sets_last_value_witness:
  "\<exists>st'. cfg_parse (\<lambda>_. [(''depth'', ''3''), (''name'', ''x''), (''depth'', '' 24'')]) (\<lambda>_. 0)
      (cfg_init [\<lparr>co_name = ''depth'', co_type = CFG_TYPE_INT, co_ptr = 100\<rparr>]) (Some ''text'')
      \<lparr>cs_memory = (\<lambda>_. None), cs_reports = []\<rparr> = Some (CFG_SUCCESS, st') \<and>
    cs_memory st' 100 = Some (CV_int 24)"
proof -
  let ?params = "\<lambda>_::string. [(''depth'', ''3''), (''name'', ''x''), (''depth'', '' 24'')]"
  let ?cfg = "cfg_init [\<lparr>co_name = ''depth'', co_type = CFG_TYPE_INT, co_ptr = 100\<rparr>]"
  have ok: "\<forall>(n, v)\<in>set (?params ''text''). \<forall>q. ht_lookup (entries_ht ?cfg) n = Some (CFG_TYPE_INT, q) \<longrightarrow> atoi v \<noteq> None"
    by (simp add: entries_cfg_init atoi_def isspace_def isdigit_def digits_val_def)
  have "assigned ?cfg (?params ''text'') 100 = Some (CFG_TYPE_INT, '' 24'')"
    by (simp add: assigned_def entries_cfg_init)
  moreover have "atoi '' 24'' = Some 24"
    by (simp add: atoi_def isspace_def isdigit_def digits_val_def)
  ultimately show ?thesis
    using config_sets_last_value [where params = ?params and s = "''text''", OF ok,
        of "\<lambda>_. 0" "\<lparr>cs_memory = (\<lambda>_. None), cs_reports = []\<rparr>"]
    by fastforce
qed

end
