(* ===== verification/Print_Numbers.thy ===== *)
theory Print_Numbers
  imports Header_Parser
begin

text \<open>
  The conversions \<^verbatim>\<open>%u\<close>, \<^verbatim>\<open>%x\<close> and \<^verbatim>\<open>%d\<close> of \<^verbatim>\<open>printf\<close>, and that reading the digits back gives
  the number.
\<close>

text \<open>\<^verbatim>\<open>%u\<close> and \<^verbatim>\<open>%x\<close>.\<close>

definition digit_char :: "nat \<Rightarrow> char" where
  "digit_char d = (if d < 10 then char_of (48 + d) else char_of (87 + d))"

fun print_nat :: "nat \<Rightarrow> nat \<Rightarrow> string" where
  "print_nat base n =
     (if n < base \<or> base < 2 then [digit_char n]
      else print_nat base (n div base) @ [digit_char (n mod base)])"

declare print_nat.simps [simp del]

definition print_u :: "nat \<Rightarrow> string" where "print_u n = print_nat 10 n"
definition print_x :: "nat \<Rightarrow> string" where "print_x n = print_nat 16 n"

definition print_d :: "int \<Rightarrow> string" where
  "print_d i = (if i < 0 then CHR ''-'' # print_u (nat (- i)) else print_u (nat i))"

section \<open>Printed numbers\<close>

lemma digit_char_digit: "k < 10 \<Longrightarrow> isdigit (digit_char k)"
  by (simp add: digit_char_def isdigit_def)

lemma print_nat_digits:
  "2 \<le> base \<Longrightarrow> base \<le> 10 \<Longrightarrow> \<forall>c\<in>set (print_nat base n). isdigit c"
proof (induction base n rule: print_nat.induct)
  case (1 base n)
  have d: "isdigit (digit_char k)" if "k < base" for k
    using that 1(3) by (intro digit_char_digit) simp
  show ?case
    using 1 d [of n] d [of "n mod base"] by (subst print_nat.simps) auto
qed

lemma digits_val_snoc: "digits_val (ds @ [c]) = digits_val ds * 10 + (int (of_char c) - 48)"
  by (simp add: digits_val_def)

lemma digits_val_print_u: "digits_val (print_u n) = int n"
proof -
  have "digits_val (print_nat 10 n) = int n" for n
  proof (induction n rule: less_induct)
    case (less n)
    have d: "int (of_char (digit_char k)) - 48 = int k" if "k < 10" for k
      using that by (simp add: digit_char_def)
    show ?case
    proof (cases "n < 10")
      case True
      then show ?thesis using d [of n] by (subst print_nat.simps) (simp add: digits_val_def)
    next
      case False
      then have "print_nat 10 n = print_nat 10 (n div 10) @ [digit_char (n mod 10)]"
        by (subst print_nat.simps) simp
      then show ?thesis
        using less [of "n div 10"] False d [of "n mod 10"]
        by (simp only: digits_val_snoc) presburger
    qed
  qed
  then show ?thesis by (simp add: print_u_def)
qed

end
