(* ===== verification/Net_Address.thy ===== *)
theory Net_Address
  imports Print_Numbers Tables
begin

text \<open>
  \<^verbatim>\<open>ppb_net_address.c\<close>: network addresses as the bytes of the socket address they are copied
  from and to. The size of the structure tells the family: 16 bytes of \<^verbatim>\<open>struct sockaddr_in\<close>
  (family, port, address, padding) or 28 of \<^verbatim>\<open>struct sockaddr_in6\<close> (family, port, flow label,
  address, scope), in 128 bytes of room. Ports and scopes are stored in network order.
\<close>

section \<open>Bytes\<close>

definition bytes_at :: "nat \<Rightarrow> nat \<Rightarrow> u8 list \<Rightarrow> u8 list" where
  "bytes_at off n d = take n (drop off d)"

text \<open>\<^verbatim>\<open>memcpy\<close> of \<open>src\<close> to an offset.\<close>

definition put_bytes :: "nat \<Rightarrow> u8 list \<Rightarrow> u8 list \<Rightarrow> u8 list" where
  "put_bytes off src d = take off d @ src @ drop (off + length src) d"

definition ntohs :: "u8 list \<Rightarrow> u16" where
  "ntohs bs = word_of_nat (unat (bs ! 0) * 256 + unat (bs ! 1))"

definition htons :: "u16 \<Rightarrow> u8 list" where
  "htons p = [ucast (drop_bit 8 p), ucast p]"

definition ntohl :: "u8 list \<Rightarrow> u32" where
  "ntohl bs = word_of_nat (((unat (bs ! 0) * 256 + unat (bs ! 1)) * 256 + unat (bs ! 2)) * 256 + unat (bs ! 3))"

definition htonl :: "u32 \<Rightarrow> u8 list" where
  "htonl p = [ucast (drop_bit 24 p), ucast (drop_bit 16 p), ucast (drop_bit 8 p), ucast p]"

abbreviation (input) SOCKADDR_IN :: u32 where "SOCKADDR_IN \<equiv> 16"
abbreviation (input) SOCKADDR_IN6 :: u32 where "SOCKADDR_IN6 \<equiv> 28"

section \<open>Plain addresses\<close>

text \<open>\<^verbatim>\<open>memcmp\<close> of more than the room there is reads past the structure.\<close>

definition ppb_net_address_private_are_equal ::
  "PP_NetAddress_Private \<Rightarrow> PP_NetAddress_Private \<Rightarrow> bool option" where
  "ppb_net_address_private_are_equal addr1 addr2 =
     (if na_size addr1 \<noteq> na_size addr2 then Some False
      else if 128 < unat (na_size addr1) then None
      else Some (take (unat (na_size addr1)) (na_data addr1) = take (unat (na_size addr1)) (na_data addr2)))"

definition ppb_net_address_private_are_hosts_equal ::
  "PP_NetAddress_Private \<Rightarrow> PP_NetAddress_Private \<Rightarrow> bool" where
  "ppb_net_address_private_are_hosts_equal addr1 addr2 =
     (if na_size addr1 \<noteq> na_size addr2 then False
      else if na_size addr1 = SOCKADDR_IN then bytes_at 4 4 (na_data addr1) = bytes_at 4 4 (na_data addr2)
      else if na_size addr1 = SOCKADDR_IN6 then bytes_at 8 16 (na_data addr1) = bytes_at 8 16 (na_data addr2)
      else False)"

fun join_with :: "char \<Rightarrow> string list \<Rightarrow> string" where
  "join_with c [] = []"
| "join_with c [s] = s"
| "join_with c (s # t # ss) = s @ c # join_with c (t # ss)"

fun groups16 :: "u8 list \<Rightarrow> u16 list" where
  "groups16 (a # b # r) = ntohs [a, b] # groups16 r"
| "groups16 _ = []"

definition describe_text :: "PP_NetAddress_Private \<Rightarrow> bool \<Rightarrow> string option" where
  "describe_text addr include_port =
     (if na_size addr = SOCKADDR_IN then
        let ip = join_with CHR ''.'' (map (print_u \<circ> unat) (bytes_at 4 4 (na_data addr)));
            port = print_u (unat (ntohs (bytes_at 2 2 (na_data addr))))
        in Some (if include_port then ip @ '':'' @ port else ip)
      else if na_size addr = SOCKADDR_IN6 then
        let ip = join_with CHR '':'' (map (print_x \<circ> unat) (groups16 (bytes_at 8 16 (na_data addr))));
            port = print_u (unat (ntohs (bytes_at 2 2 (na_data addr))))
        in Some (if include_port then ''['' @ ip @ '']:'' @ port else ip)
      else None)"

definition ppb_net_address_private_describe ::
  "PP_NetAddress_Private \<Rightarrow> bool \<Rightarrow> 'a var_state_scheme \<Rightarrow> (PP_Var \<times> 'a var_state_scheme) option" where
  "ppb_net_address_private_describe addr include_port w =
     (case describe_text addr include_port of
        None \<Rightarrow> Some (VUndefined, w)
      | Some s \<Rightarrow> ppb_var_var_from_utf8_z (Some (s @ [NUL])) w)"

definition ppb_net_address_private_replace_port ::
  "PP_NetAddress_Private \<Rightarrow> u16 \<Rightarrow> bool \<times> PP_NetAddress_Private" where
  "ppb_net_address_private_replace_port src_addr port =
     (if na_size src_addr = SOCKADDR_IN \<or> na_size src_addr = SOCKADDR_IN6
      then (True, src_addr\<lparr>na_data := put_bytes 2 (htons port) (na_data src_addr)\<rparr>)
      else (False, src_addr))"

definition ppb_net_address_private_get_any_address ::
  "bool \<Rightarrow> PP_NetAddress_Private \<Rightarrow> PP_NetAddress_Private" where
  "ppb_net_address_private_get_any_address is_ipv6 addr =
     (if is_ipv6 then \<lparr>na_size = SOCKADDR_IN6, na_data = put_bytes 0 (replicate 28 0) (na_data addr)\<rparr>
      else \<lparr>na_size = SOCKADDR_IN, na_data = put_bytes 0 (replicate 16 0) (na_data addr)\<rparr>)"

datatype family = FAMILY_UNSPECIFIED | FAMILY_IPV4 | FAMILY_IPV6

definition ppb_net_address_private_get_family :: "PP_NetAddress_Private \<Rightarrow> family" where
  "ppb_net_address_private_get_family addr =
     (if na_size addr = SOCKADDR_IN then FAMILY_IPV4
      else if na_size addr = SOCKADDR_IN6 then FAMILY_IPV6 else FAMILY_UNSPECIFIED)"

definition ppb_net_address_private_get_port :: "PP_NetAddress_Private \<Rightarrow> u16" where
  "ppb_net_address_private_get_port addr =
     (if na_size addr = SOCKADDR_IN \<or> na_size addr = SOCKADDR_IN6 then ntohs (bytes_at 2 2 (na_data addr)) else 0)"

text \<open>What is copied to the caller's buffer, if it is large enough.\<close>

definition ppb_net_address_private_get_address :: "PP_NetAddress_Private \<Rightarrow> u16 \<Rightarrow> u8 list option" where
  "ppb_net_address_private_get_address addr address_size =
     (if na_size addr = SOCKADDR_IN then
        (if 4 \<le> address_size then Some (bytes_at 4 4 (na_data addr)) else None)
      else if na_size addr = SOCKADDR_IN6 then
        (if 16 \<le> address_size then Some (bytes_at 8 16 (na_data addr)) else None)
      else None)"

definition ppb_net_address_private_get_scope_id :: "PP_NetAddress_Private \<Rightarrow> u32" where
  "ppb_net_address_private_get_scope_id addr =
     (if na_size addr = SOCKADDR_IN6 then ntohl (bytes_at 24 4 (na_data addr)) else 0)"

text \<open>The family field stays 0, as the initialisers of the code leave it.\<close>

definition ppb_net_address_private_create_from_ipv4_address :: "u8 list \<Rightarrow> u16 \<Rightarrow> PP_NetAddress_Private" where
  "ppb_net_address_private_create_from_ipv4_address ip port =
     \<lparr>na_size = SOCKADDR_IN, na_data = put_bytes 0 ([0, 0] @ htons port @ ip @ replicate 8 0) (replicate 128 0)\<rparr>"

definition ppb_net_address_private_create_from_ipv6_address ::
  "u8 list \<Rightarrow> u32 \<Rightarrow> u16 \<Rightarrow> PP_NetAddress_Private" where
  "ppb_net_address_private_create_from_ipv6_address ip scope_id port =
     \<lparr>na_size = SOCKADDR_IN6,
      na_data = put_bytes 0 ([0, 0] @ htons port @ [0, 0, 0, 0] @ ip @ htonl scope_id) (replicate 128 0)\<rparr>"

section \<open>Address resources\<close>

text \<open>\<^verbatim>\<open>PP_NetAddress_IPv4\<close> and \<^verbatim>\<open>PP_NetAddress_IPv6\<close>: the port field as it lies in memory.\<close>

record PP_NetAddress_IP =
  ip_port :: "u8 list"
  ip_addr :: "u8 list"

definition ppb_net_address_create_from_ipv4_address ::
  "PP_Instance \<Rightarrow> PP_NetAddress_IP option \<Rightarrow> 'a world_scheme \<Rightarrow> (PP_Resource \<times> 'a world_scheme) option" where
  "ppb_net_address_create_from_ipv4_address instance ipv4_addr w =
     (case ipv4_addr of
        None \<Rightarrow> Some (0, w)
      | Some a \<Rightarrow> create_resource instance PP_RESOURCE_NET_ADDRESS
          (PL_net_address (ppb_net_address_private_create_from_ipv4_address (ip_addr a) (ntohs (ip_port a)))) w)"

definition ppb_net_address_create_from_ipv6_address ::
  "PP_Instance \<Rightarrow> PP_NetAddress_IP option \<Rightarrow> 'a world_scheme \<Rightarrow> (PP_Resource \<times> 'a world_scheme) option" where
  "ppb_net_address_create_from_ipv6_address instance ipv6_addr w =
     (case ipv6_addr of
        None \<Rightarrow> Some (0, w)
      | Some a \<Rightarrow> create_resource instance PP_RESOURCE_NET_ADDRESS
          (PL_net_address (ppb_net_address_private_create_from_ipv6_address (ip_addr a) 0 (ntohs (ip_port a)))) w)"

definition ppb_net_address_is_net_address :: "PP_Resource \<Rightarrow> 'a res_state_scheme \<Rightarrow> bool" where
  "ppb_net_address_is_net_address resource w \<longleftrightarrow> pp_resource_get_type resource w = PP_RESOURCE_NET_ADDRESS"

fun the_addr :: "payload \<Rightarrow> PP_NetAddress_Private option" where
  "the_addr (PL_net_address a) = Some a"
| "the_addr _ = None"

definition ppb_net_address_get_family ::
  "PP_Resource \<Rightarrow> 'a res_state_scheme \<Rightarrow> (family \<times> 'a res_state_scheme) option" where
  "ppb_net_address_get_family addr w =
     res_read addr PP_RESOURCE_NET_ADDRESS FAMILY_UNSPECIFIED
       (\<lambda>p. case the_addr p of
          None \<Rightarrow> None
        | Some a \<Rightarrow> Some (if na_size a = SOCKADDR_IN then FAMILY_IPV4
            else if na_size a = SOCKADDR_IN6 then FAMILY_IPV6 else FAMILY_UNSPECIFIED)) w"

definition ppb_net_address_describe_as_string ::
  "PP_Resource \<Rightarrow> bool \<Rightarrow> 'a res_state_scheme \<Rightarrow> (PP_Var \<times> 'a res_state_scheme) option" where
  "ppb_net_address_describe_as_string addr include_port w =
     with_resource addr PP_RESOURCE_NET_ADDRESS VUndefined
       (\<lambda>gr w. case the_addr (r_payload gr) of
          None \<Rightarrow> None
        | Some a \<Rightarrow> ppb_net_address_private_describe a include_port w) w"

text \<open>\<open>None\<close> inside the result: the answer is no and nothing is written.\<close>

definition ppb_net_address_describe_as_ipv4_address ::
  "PP_Resource \<Rightarrow> bool \<Rightarrow> 'a res_state_scheme \<Rightarrow> (PP_NetAddress_IP option \<times> 'a res_state_scheme) option" where
  "ppb_net_address_describe_as_ipv4_address addr out w =
     (if \<not> out then Some (None, w)
      else res_read addr PP_RESOURCE_NET_ADDRESS None
        (\<lambda>p. case the_addr p of
           None \<Rightarrow> None
         | Some a \<Rightarrow> Some (if na_size a \<noteq> SOCKADDR_IN then None
             else Some \<lparr>ip_port = bytes_at 2 2 (na_data a), ip_addr = bytes_at 4 4 (na_data a)\<rparr>)) w)"

definition ppb_net_address_describe_as_ipv6_address ::
  "PP_Resource \<Rightarrow> bool \<Rightarrow> 'a res_state_scheme \<Rightarrow> (PP_NetAddress_IP option \<times> 'a res_state_scheme) option" where
  "ppb_net_address_describe_as_ipv6_address addr out w =
     (if \<not> out then Some (None, w)
      else res_read addr PP_RESOURCE_NET_ADDRESS None
        (\<lambda>p. case the_addr p of
           None \<Rightarrow> None
         | Some a \<Rightarrow> Some (if na_size a \<noteq> SOCKADDR_IN6 then None
             else Some \<lparr>ip_port = bytes_at 2 2 (na_data a), ip_addr = bytes_at 8 16 (na_data a)\<rparr>)) w)"

section \<open>Lemmas\<close>

lemma word_of_nat_unat_eq: "word_of_nat (unat w) = w"
  by simp

lemma unat_byte:
  "unat (ucast (drop_bit k w) :: u8) = unat (w :: 'a::len word) div 2 ^ k mod 256"
proof -
  have "unat (ucast (drop_bit k w) :: u8) = take_bit 8 (unat (drop_bit k w))"
    by (simp only: unsigned_ucast_eq) simp
  also have "unat (drop_bit k w) = drop_bit k (unat w)"
    by (rule unat_drop_bit_eq)
  finally show ?thesis by (simp add: take_bit_eq_mod drop_bit_eq_div)
qed

lemma unat_low_byte: "unat (ucast w :: u8) = unat (w :: 'a::len word) mod 256"
  using unat_byte [of 0 w] by simp

lemma ntohs_htons [simp]: "ntohs (htons p) = p"
proof -
  have "unat p div 2 ^ 8 mod 256 * 256 + unat p mod 256 = unat p"
    using unsigned_less [of p, where 'a = nat] by simp
  then show ?thesis
    by (simp only: ntohs_def htons_def nth_Cons_0 nth_Cons_Suc One_nat_def unat_low_byte
      unat_drop_bit_eq drop_bit_eq_div [where 'a = nat] word_of_nat_unat_eq)
qed

lemma htons_ntohs: "length bs = 2 \<Longrightarrow> htons (ntohs bs) = bs"
proof -
  assume "length bs = 2"
  then obtain a b where bs: "bs = [a, b]" by (auto simp: length_Suc_conv numeral_2_eq_2)
  have a: "unat a < 256" and b: "unat b < 256"
    using unsigned_less [of a, where 'a = nat] unsigned_less [of b, where 'a = nat] by simp_all
  have n: "unat (ntohs bs) = unat a * 256 + unat b"
    unfolding ntohs_def bs nth_Cons_0 nth_Cons_Suc One_nat_def unsigned_of_nat of_nat_id
    by (rule take_bit_nat_eq_self) (use a b in simp)
  have "unat (ucast (drop_bit 8 (ntohs bs)) :: u8) = unat a"
    unfolding unat_byte n using a b by simp
  moreover have "unat (ucast (ntohs bs) :: u8) = unat b"
    unfolding unat_low_byte n using a b by simp
  ultimately show ?thesis by (simp only: htons_def bs word_unat_eq_iff list.inject simp_thms)
qed

lemma bytes_value:
  assumes "x < 2 ^ 32"
  shows "((x div 2 ^ 24 mod 256 * 256 + x div 2 ^ 16 mod 256) * 256 + x div 2 ^ 8 mod 256) * 256
      + x mod 256 = (x :: nat)"
proof -
  define y1 where "y1 = x div 256"
  define y2 where "y2 = y1 div 256"
  define y3 where "y3 = y2 div 256"
  have "x div 2 ^ 24 = y3" "x div 2 ^ 16 = y2" "x div 2 ^ 8 = y1"
    by (simp_all add: y1_def y2_def y3_def flip: div_mult2_eq)
  moreover have "y3 < 256" using assms by (simp add: y1_def y2_def y3_def flip: div_mult2_eq) 
  moreover have "x = y1 * 256 + x mod 256" "y1 = y2 * 256 + y1 mod 256" "y2 = y3 * 256 + y2 mod 256"
    by (simp_all add: y1_def y2_def y3_def)
  ultimately show ?thesis by simp
qed

lemma ntohl_at:
  "ntohl [a, b, c, d] = word_of_nat (((unat a * 256 + unat b) * 256 + unat c) * 256 + unat d)"
  by (simp add: ntohl_def)

lemma ntohl_htonl [simp]: "ntohl (htonl p) = p"
proof -
  have "unat p < 2 ^ 32" using unsigned_less [of p, where 'a = nat] by simp
  from bytes_value [OF this] show ?thesis
    by (simp only: ntohl_at htonl_def unat_low_byte unat_drop_bit_eq
      drop_bit_eq_div [where 'a = nat] word_of_nat_unat_eq)
qed

lemma length_htons [simp]: "length (htons p) = 2" "length (htonl q) = 4"
  by (simp_all add: htons_def htonl_def)

lemma put_bytes_at:
  "off + length src \<le> length d \<Longrightarrow> bytes_at off (length src) (put_bytes off src d) = src"
  by (simp add: bytes_at_def put_bytes_def)

lemma put_bytes_other:
  "\<lbrakk>off + length src \<le> length d; o' + n \<le> off \<or> off + length src \<le> o'\<rbrakk> \<Longrightarrow>
    bytes_at o' n (put_bytes off src d) = bytes_at o' n d"
  by (auto simp: bytes_at_def put_bytes_def min_def drop_take)

lemma length_put_bytes [simp]: "off + length src \<le> length d \<Longrightarrow> length (put_bytes off src d) = length d"
  by (simp add: put_bytes_def)

lemma bytes_at_skip: "length a = k \<Longrightarrow> bytes_at (k + off) n (a @ b) = bytes_at off n b"
  by (simp add: bytes_at_def)

lemma bytes_at_here: "length a = n \<Longrightarrow> bytes_at 0 n (a @ b) = a"
  by (simp add: bytes_at_def)

text \<open>The fields of a fresh address.\<close>

lemma ipv4_layout:
  "length ip = 4 \<Longrightarrow> na_data (ppb_net_address_private_create_from_ipv4_address ip port) =
    [0, 0] @ htons port @ ip @ replicate 8 0 @ replicate 112 0"
  by (simp add: ppb_net_address_private_create_from_ipv4_address_def put_bytes_def drop_replicate)

lemma ipv4_fields:
  assumes "length ip = 4"
  shows "bytes_at 2 2 (na_data (ppb_net_address_private_create_from_ipv4_address ip port)) = htons port"
    "bytes_at 4 4 (na_data (ppb_net_address_private_create_from_ipv4_address ip port)) = ip"
    "length (na_data (ppb_net_address_private_create_from_ipv4_address ip port)) = 128"
proof -
  note skip = bytes_at_skip [of "[0, 0]" 2] bytes_at_skip [of "htons port" 2]
  show "bytes_at 2 2 (na_data (ppb_net_address_private_create_from_ipv4_address ip port)) = htons port"
    unfolding ipv4_layout [OF assms] using skip(1) [of 0 2] by (simp add: bytes_at_here)
  show "bytes_at 4 4 (na_data (ppb_net_address_private_create_from_ipv4_address ip port)) = ip"
    unfolding ipv4_layout [OF assms] using skip(1) [of 2 4] skip(2) [of 0 4] assms
    by (simp add: bytes_at_here)
  show "length (na_data (ppb_net_address_private_create_from_ipv4_address ip port)) = 128"
    unfolding ipv4_layout [OF assms] using assms by simp
qed

lemma ipv6_layout:
  "length ip = 16 \<Longrightarrow> na_data (ppb_net_address_private_create_from_ipv6_address ip sc port) =
    [0, 0] @ htons port @ [0, 0, 0, 0] @ ip @ htonl sc @ replicate 100 0"
  by (simp add: ppb_net_address_private_create_from_ipv6_address_def put_bytes_def drop_replicate)

lemma ipv6_fields:
  assumes "length ip = 16"
  shows "bytes_at 2 2 (na_data (ppb_net_address_private_create_from_ipv6_address ip sc port)) = htons port"
    "bytes_at 8 16 (na_data (ppb_net_address_private_create_from_ipv6_address ip sc port)) = ip"
    "bytes_at 24 4 (na_data (ppb_net_address_private_create_from_ipv6_address ip sc port)) = htonl sc"
    "length (na_data (ppb_net_address_private_create_from_ipv6_address ip sc port)) = 128"
proof -
  note skip = bytes_at_skip [of "[0, 0]" 2] bytes_at_skip [of "htons port" 2]
    bytes_at_skip [of "[0, 0, 0, 0]" 4] bytes_at_skip [of ip 16]
  show "bytes_at 2 2 (na_data (ppb_net_address_private_create_from_ipv6_address ip sc port)) = htons port"
    unfolding ipv6_layout [OF assms] using skip(1) [of 0 2] by (simp add: bytes_at_here)
  show "bytes_at 8 16 (na_data (ppb_net_address_private_create_from_ipv6_address ip sc port)) = ip"
    unfolding ipv6_layout [OF assms] using skip(1) [of 6 16] skip(2) [of 4 16] skip(3) [of 0 16] assms
    by (simp add: bytes_at_here)
  show "bytes_at 24 4 (na_data (ppb_net_address_private_create_from_ipv6_address ip sc port)) = htonl sc"
    unfolding ipv6_layout [OF assms]
    using skip(1) [of 22 4] skip(2) [of 20 4] skip(3) [of 16 4] skip(4) [of 0 4] assms
    by (simp add: bytes_at_here)
  show "length (na_data (ppb_net_address_private_create_from_ipv6_address ip sc port)) = 128"
    unfolding ipv6_layout [OF assms] using assms by simp
qed

subsection \<open>The text of an address\<close>

lemma split_join:
  assumes "ss \<noteq> []" and "\<forall>s\<in>set ss. \<forall>c\<in>set s. \<not> sep c" and "sep d"
  shows "split_at sep (join_with d ss) = ss"
  using assms
proof (induction d ss rule: join_with.induct)
  case (2 c s)
  then have "\<forall>c\<in>set s. \<not> sep c" by simp
  then show ?case by (induction s) simp_all
next
  case (3 c s t ss)
  then show ?case using split_at_no [of s sep c "join_with c (t # ss)"] by simp
qed simp

lemma describe_ipv4_numbers:
  assumes "length ip = 4"
  shows "map digits_val (split_at (\<lambda>c. c = CHR ''.'') (join_with CHR ''.'' (map (print_u \<circ> unat) ip))) =
    map uint (ip :: u8 list)"
proof -
  have "\<not> isdigit CHR ''.''" by (simp add: isdigit_def)
  then have "c \<noteq> CHR ''.''" if "c \<in> set (print_u n)" for c n
    using that print_nat_digits [of 10 n] by (auto simp: print_u_def)
  then have "split_at (\<lambda>c. c = CHR ''.'') (join_with CHR ''.'' (map (print_u \<circ> unat) ip)) =
      map (print_u \<circ> unat) ip"
    using assms by (intro split_join) auto
  then show ?thesis by (simp add: digits_val_print_u)
qed

section \<open>Properties\<close>

text \<open>An address made of a host and a port says so: its family, its port, its host (when the
  buffer has room) and its scope are those it was made of, in both families.\<close>

theorem net_address_fields:
  assumes "length ip4 = 4" and "length ip6 = 16"
  shows "(let a = ppb_net_address_private_create_from_ipv4_address ip4 port;
              b = ppb_net_address_private_create_from_ipv6_address ip6 scope port in
     ppb_net_address_private_get_family a = FAMILY_IPV4 \<and> ppb_net_address_private_get_port a = port \<and>
     ppb_net_address_private_get_address a n = (if 4 \<le> n then Some ip4 else None) \<and>
     ppb_net_address_private_get_scope_id a = 0 \<and>
     ppb_net_address_private_get_family b = FAMILY_IPV6 \<and> ppb_net_address_private_get_port b = port \<and>
     ppb_net_address_private_get_address b n = (if 16 \<le> n then Some ip6 else None) \<and>
     ppb_net_address_private_get_scope_id b = scope)"
proof -
  have size: "na_size (ppb_net_address_private_create_from_ipv4_address ip4 port) = SOCKADDR_IN"
    "na_size (ppb_net_address_private_create_from_ipv6_address ip6 scope port) = SOCKADDR_IN6"
    by (simp_all add: ppb_net_address_private_create_from_ipv4_address_def
      ppb_net_address_private_create_from_ipv6_address_def)
  show ?thesis
    unfolding Let_def ppb_net_address_private_get_family_def ppb_net_address_private_get_port_def
      ppb_net_address_private_get_address_def ppb_net_address_private_get_scope_id_def size
      ipv4_fields [OF assms(1)] ipv6_fields [OF assms(2)]
    by simp
qed

theorem net_address_fields_witness:
  "(let a = ppb_net_address_private_create_from_ipv4_address [127, 0, 0, 1] 443;
        b = ppb_net_address_private_create_from_ipv6_address [0,0,0,0,0,0,0,0,0,0,0,0,0,0,0,1] 7 443 in
     ppb_net_address_private_get_family a = FAMILY_IPV4 \<and> ppb_net_address_private_get_port a = 443 \<and>
     ppb_net_address_private_get_address a 4 = (if 4 \<le> (4 :: u16) then Some [127, 0, 0, 1] else None) \<and>
     ppb_net_address_private_get_scope_id a = 0 \<and>
     ppb_net_address_private_get_family b = FAMILY_IPV6 \<and> ppb_net_address_private_get_port b = 443 \<and>
     ppb_net_address_private_get_address b 4 =
       (if 16 \<le> (4 :: u16) then Some [0,0,0,0,0,0,0,0,0,0,0,0,0,0,0,1] else None) \<and>
     ppb_net_address_private_get_scope_id b = 7)"
  by (rule net_address_fields) simp_all

text \<open>Replacing the port succeeds exactly for an address of a known family, sets the port
  and keeps the size, the host and the scope; otherwise the copy is unchanged.\<close>

theorem net_address_replace_port:
  assumes "length (na_data a) = 128"
  shows "(let (ok, b) = ppb_net_address_private_replace_port a port in
     ok = (ppb_net_address_private_get_family a \<noteq> FAMILY_UNSPECIFIED) \<and>
     ppb_net_address_private_get_port b = (if ok then port else 0) \<and>
     ppb_net_address_private_are_hosts_equal a b = ok \<and>
     ppb_net_address_private_get_family b = ppb_net_address_private_get_family a \<and>
     ppb_net_address_private_get_address b n = ppb_net_address_private_get_address a n \<and>
     ppb_net_address_private_get_scope_id b = ppb_net_address_private_get_scope_id a \<and>
     (ok \<or> b = a))"
proof -
  let ?d = "put_bytes 2 (htons port) (na_data a)"
  have at: "bytes_at 2 2 ?d = htons port"
    using put_bytes_at [of 2 "htons port" "na_data a"] assms by simp
  have other: "bytes_at 4 4 ?d = bytes_at 4 4 (na_data a)" "bytes_at 8 16 ?d = bytes_at 8 16 (na_data a)"
    "bytes_at 24 4 ?d = bytes_at 24 4 (na_data a)"
    using assms by (simp_all add: put_bytes_other)
  show ?thesis
    unfolding Let_def ppb_net_address_private_replace_port_def ppb_net_address_private_get_family_def
      ppb_net_address_private_get_port_def ppb_net_address_private_get_address_def
      ppb_net_address_private_get_scope_id_def ppb_net_address_private_are_hosts_equal_def
    by (simp add: at other)
qed

theorem net_address_replace_port_witness:
  "(let a = \<lparr>na_size = SOCKADDR_IN, na_data = replicate 128 9\<rparr>;
        (ok, b) = ppb_net_address_private_replace_port a 80 in
     ok = (ppb_net_address_private_get_family a \<noteq> FAMILY_UNSPECIFIED) \<and>
     ppb_net_address_private_get_port b = (if ok then 80 else 0) \<and>
     ppb_net_address_private_are_hosts_equal a b = ok \<and>
     ppb_net_address_private_get_family b = ppb_net_address_private_get_family a \<and>
     ppb_net_address_private_get_address b 4 = ppb_net_address_private_get_address a 4 \<and>
     ppb_net_address_private_get_scope_id b = ppb_net_address_private_get_scope_id a \<and>
     (ok \<or> b = a))"
  unfolding Let_def [of "\<lparr>na_size = SOCKADDR_IN, na_data = replicate 128 9\<rparr>"]
  by (rule net_address_replace_port) simp

text \<open>The text of an IPv4 address names its host: the numbers between the dots are the four
  bytes, and with a port the same text is followed by a colon and the port's digits. An address of
  neither family has no text.\<close>

theorem net_address_describe_ipv4:
  assumes "length (na_data a) = 128" and "na_size a = SOCKADDR_IN"
  shows "\<exists>ip port. describe_text a False = Some ip \<and> describe_text a True = Some (ip @ '':'' @ port) \<and>
    Some (map digits_val (split_at (\<lambda>c. c = CHR ''.'') ip)) =
      map_option (map uint) (ppb_net_address_private_get_address a 4) \<and>
    digits_val port = uint (ppb_net_address_private_get_port a) \<and>
    describe_text (a\<lparr>na_size := 0\<rparr>) b = None"
proof -
  have "length (bytes_at 4 4 (na_data a)) = 4" using assms(1) by (simp add: bytes_at_def)
  then show ?thesis
    using assms(2) describe_ipv4_numbers [of "bytes_at 4 4 (na_data a)"]
    by (simp add: describe_text_def Let_def ppb_net_address_private_get_address_def
      ppb_net_address_private_get_port_def digits_val_print_u)
qed

theorem net_address_describe_ipv4_witness:
  "\<exists>ip port. describe_text \<lparr>na_size = SOCKADDR_IN, na_data = replicate 128 9\<rparr> False = Some ip \<and>
    describe_text \<lparr>na_size = SOCKADDR_IN, na_data = replicate 128 9\<rparr> True = Some (ip @ '':'' @ port) \<and>
    Some (map digits_val (split_at (\<lambda>c. c = CHR ''.'') ip)) = map_option (map uint)
      (ppb_net_address_private_get_address \<lparr>na_size = SOCKADDR_IN, na_data = replicate 128 9\<rparr> 4) \<and>
    digits_val port = uint (ppb_net_address_private_get_port \<lparr>na_size = SOCKADDR_IN, na_data = replicate 128 9\<rparr>) \<and>
    describe_text (\<lparr>na_size = SOCKADDR_IN, na_data = replicate 128 9\<rparr>\<lparr>na_size := 0\<rparr>) True = None"
  by (rule net_address_describe_ipv4) simp_all

text \<open>An address resource made of a host and a port describes itself as exactly that host
  and port, keeps the tables consistent, and is not an address of the other family.\<close>

theorem net_address_resource_roundtrip:
  assumes inv: "world_inv extR extV w" and room: "0 < res_tbl_next w" "res_tbl_next w < INT_MAX"
    and type: "PP_RESOURCE_NET_ADDRESS \<in> set (destructors_ht w)"
    and inst: "tables_get_pp_instance i w = Some pp_i"
    and len: "length (ip_addr ip) = 4" "length (ip_port ip) = 2"
  shows "\<exists>r w'. ppb_net_address_create_from_ipv4_address i (Some ip) w = Some (r, w') \<and>
    ht_lookup (res_tbl w) r = None \<and> world_inv (add_mset r extR) extV w' \<and>
    ppb_net_address_is_net_address r w' \<and>
    ppb_net_address_get_family r w' = Some (FAMILY_IPV4, w') \<and>
    ppb_net_address_describe_as_ipv4_address r True w' = Some (Some ip, w') \<and>
    ppb_net_address_describe_as_ipv6_address r True w' = Some (None, w')"
proof -
  let ?a = "ppb_net_address_private_create_from_ipv4_address (ip_addr ip) (ntohs (ip_port ip))"
  from create_resource_ok [OF inv room type inst, of "PL_net_address ?a"] obtain r w' where
    cr: "create_resource i PP_RESOURCE_NET_ADDRESS (PL_net_address ?a) w = Some (r, w')"
    "ht_lookup (res_tbl w) r = None" "world_inv (add_mset r extR) extV w'"
    "available r PP_RESOURCE_NET_ADDRESS w' \<lparr>r_resource_type = PP_RESOURCE_NET_ADDRESS, r_ref_cnt = 1,
      r_instance = Some (pi_id pp_i), r_self_id = r, r_locked = False, r_payload = PL_net_address ?a\<rparr>"
    by auto
  have size: "na_size ?a = SOCKADDR_IN"
    by (simp add: ppb_net_address_private_create_from_ipv4_address_def)
  have "\<lparr>ip_port = bytes_at 2 2 (na_data ?a), ip_addr = bytes_at 4 4 (na_data ?a)\<rparr> = ip"
    using ipv4_fields [OF len(1)] htons_ntohs [OF len(2)] by simp
  then show ?thesis
    using cr by (intro exI [of _ r] exI [of _ w'])
      (simp add: ppb_net_address_create_from_ipv4_address_def ppb_net_address_is_net_address_def
        ppb_net_address_get_family_def ppb_net_address_describe_as_ipv4_address_def
        ppb_net_address_describe_as_ipv6_address_def pp_resource_get_type_def
        res_read_available [OF cr(4)] size, simp add: available_def)
qed

theorem net_address_resource_roundtrip_witness:
  "\<exists>r w'. ppb_net_address_create_from_ipv4_address 10 (Some \<lparr>ip_port = [1, 187], ip_addr = [127, 0, 0, 1]\<rparr>)
      (started [PP_RESOURCE_NET_ADDRESS]) = Some (r, w') \<and>
    ht_lookup (res_tbl (started [PP_RESOURCE_NET_ADDRESS])) r = None \<and> world_inv (add_mset r {#}) {#} w' \<and>
    ppb_net_address_is_net_address r w' \<and>
    ppb_net_address_get_family r w' = Some (FAMILY_IPV4, w') \<and>
    ppb_net_address_describe_as_ipv4_address r True w' =
      Some (Some \<lparr>ip_port = [1, 187], ip_addr = [127, 0, 0, 1]\<rparr>, w') \<and>
    ppb_net_address_describe_as_ipv6_address r True w' = Some (None, w')"
  by (rule net_address_resource_roundtrip [OF started_inv]) simp_all

end
