(* ===== verification/Flash_File.thy ===== *)
theory Flash_File
  imports Paths Tables
begin

unbundle bit_operations_syntax

text \<open>
  \<^verbatim>\<open>ppb_flash_file.c\<close> and \<^verbatim>\<open>ppb_file_ref.c\<close>: files of the plugin. The operating system is a
  parameter, the record \<open>os\<close> of the calls the code makes, on a state \<open>'o\<close> of its own. A call
  answers a value and leaves \<^verbatim>\<open>errno\<close> in the second component.
\<close>

section \<open>The operating system\<close>

datatype errno = E_OK | ENOENT | EACCES | EEXIST | E_other int

record stat_s =
  st_size :: int
  st_is_reg :: bool
  st_is_dir :: bool
  st_ctim :: timespec
  st_atim :: timespec
  st_mtim :: timespec

record 'o os =
  os_open :: "string \<Rightarrow> u32 \<Rightarrow> 'o \<Rightarrow> int \<times> errno \<times> 'o"
  os_stat :: "string \<Rightarrow> 'o \<Rightarrow> stat_s option \<times> errno"
  os_fstat :: "int \<Rightarrow> 'o \<Rightarrow> stat_s option \<times> errno"
  os_lstat :: "string \<Rightarrow> 'o \<Rightarrow> stat_s option \<times> errno"
  os_mkdir :: "string \<Rightarrow> 'o \<Rightarrow> int \<times> errno \<times> 'o"
  os_rename :: "string \<Rightarrow> string \<Rightarrow> 'o \<Rightarrow> int \<times> errno \<times> 'o"
  os_unlink :: "string \<Rightarrow> 'o \<Rightarrow> int \<times> errno \<times> 'o"
  os_scandir :: "string \<Rightarrow> 'o \<Rightarrow> string list option"
  os_read :: "int \<Rightarrow> nat \<Rightarrow> 'o \<Rightarrow> string option \<times> 'o" \<comment> \<open>\<open>None\<close>: -1\<close>
  os_write :: "int \<Rightarrow> string \<Rightarrow> 'o \<Rightarrow> int \<times> 'o"
  os_lseek :: "int \<Rightarrow> u64 \<Rightarrow> 'o \<Rightarrow> bool \<times> 'o"
  os_close :: "int \<Rightarrow> 'o \<Rightarrow> 'o"
  os_mkstemp :: "string \<Rightarrow> 'o \<Rightarrow> int \<times> string \<times> 'o"

abbreviation (input) O_RDONLY :: u32 where "O_RDONLY \<equiv> 0"
abbreviation (input) O_WRONLY :: u32 where "O_WRONLY \<equiv> 1"
abbreviation (input) O_RDWR :: u32 where "O_RDWR \<equiv> 2"
abbreviation (input) O_CREAT :: u32 where "O_CREAT \<equiv> 64"
abbreviation (input) O_EXCL :: u32 where "O_EXCL \<equiv> 128"
abbreviation (input) O_TRUNC :: u32 where "O_TRUNC \<equiv> 512"
abbreviation (input) O_APPEND :: u32 where "O_APPEND \<equiv> 1024"

abbreviation (input) PP_FILEOPENFLAG_READ :: u32 where "PP_FILEOPENFLAG_READ \<equiv> 1"
abbreviation (input) PP_FILEOPENFLAG_WRITE :: u32 where "PP_FILEOPENFLAG_WRITE \<equiv> 2"
abbreviation (input) PP_FILEOPENFLAG_CREATE :: u32 where "PP_FILEOPENFLAG_CREATE \<equiv> 4"
abbreviation (input) PP_FILEOPENFLAG_TRUNCATE :: u32 where "PP_FILEOPENFLAG_TRUNCATE \<equiv> 8"
abbreviation (input) PP_FILEOPENFLAG_EXCLUSIVE :: u32 where "PP_FILEOPENFLAG_EXCLUSIVE \<equiv> 16"
abbreviation (input) PP_FILEOPENFLAG_APPEND :: u32 where "PP_FILEOPENFLAG_APPEND \<equiv> 32"

definition errno_code :: "errno \<Rightarrow> int" where
  "errno_code e = (case e of ENOENT \<Rightarrow> PP_ERROR_FILENOTFOUND | EACCES \<Rightarrow> PP_ERROR_NOACCESS | _ \<Rightarrow> PP_ERROR_FAILED)"

section \<open>Opening\<close>

definition pp_mode_to_open_mode :: "u32 \<Rightarrow> u32" where
  "pp_mode_to_open_mode mode =
     (let has = (\<lambda>f. mode AND f \<noteq> 0);
          ret = 0;
          ret = (if has PP_FILEOPENFLAG_READ \<and> \<not> has PP_FILEOPENFLAG_WRITE then O_RDONLY else ret);
          ret = (if \<not> has PP_FILEOPENFLAG_READ \<and> has PP_FILEOPENFLAG_WRITE then O_WRONLY else ret);
          ret = (if has PP_FILEOPENFLAG_READ \<and> has PP_FILEOPENFLAG_WRITE then O_RDWR else ret);
          ret = (if has PP_FILEOPENFLAG_CREATE then ret OR O_CREAT else ret);
          ret = (if has PP_FILEOPENFLAG_TRUNCATE then ret OR O_TRUNC else ret);
          ret = (if has PP_FILEOPENFLAG_EXCLUSIVE then ret OR O_EXCL else ret)
      in if has PP_FILEOPENFLAG_APPEND then ret OR O_APPEND else ret)"

text \<open>A descriptor is only taken for good when it is greater than 0.\<close>

definition open_result :: "int \<Rightarrow> errno \<Rightarrow> int" where
  "open_result fd e = (if 0 < fd then PP_OK else errno_code e)"

section \<open>File references\<close>

fun the_file_ref :: "payload \<Rightarrow> pp_file_ref_s option" where
  "the_file_ref (PL_file_ref fr) = Some fr"
| "the_file_ref _ = None"

definition ppb_file_ref_create_unrestricted ::
  "string option \<Rightarrow> 'a res_state_scheme \<Rightarrow> (PP_Resource \<times> 'a res_state_scheme) option" where
  "ppb_file_ref_create_unrestricted path w = do {
     (r, w) \<leftarrow> pp_resource_allocate PP_RESOURCE_FILE_REF None w;
     with_resource r PP_RESOURCE_FILE_REF 0
       (\<lambda>gr w. case the_file_ref (r_payload gr) of
          None \<Rightarrow> None
        | Some fr \<Rightarrow> Some (r, res_write r
            (PL_file_ref (fr\<lparr>fr_type := PP_FILE_REF_TYPE_NAME, fr_path := path\<rparr>)) w)) w
   }"

definition ppb_file_ref_is_file_ref :: "PP_Resource \<Rightarrow> 'a res_state_scheme \<Rightarrow> bool" where
  "ppb_file_ref_is_file_ref resource w \<longleftrightarrow> pp_resource_get_type resource w = PP_RESOURCE_FILE_REF"

text \<open>\<^verbatim>\<open>basename\<close> of POSIX: trailing slashes are cut, then everything up to the last one.\<close>

definition posix_basename :: "string \<Rightarrow> string" where
  "posix_basename p =
     (if p = [] then ''.''
      else let t = rev (dropWhile (\<lambda>c. c = slash) (rev p)) in
           if t = [] then ''/'' else rev (takeWhile (\<lambda>c. c \<noteq> slash) (rev t)))"

definition ppb_file_ref_get_name ::
  "PP_Resource \<Rightarrow> 'a res_state_scheme \<Rightarrow> (PP_Var \<times> 'a res_state_scheme) option" where
  "ppb_file_ref_get_name file_ref w =
     with_resource file_ref PP_RESOURCE_FILE_REF VUndefined
       (\<lambda>gr w. case the_file_ref (r_payload gr) of
          None \<Rightarrow> None
        | Some fr \<Rightarrow>
            let path = (case fr_path fr of None \<Rightarrow> [] | Some p \<Rightarrow> p)
            in ppb_var_var_from_utf8_z (Some (posix_basename path @ [NUL])) w) w"

definition ppb_file_ref_get_path ::
  "PP_Resource \<Rightarrow> 'a res_state_scheme \<Rightarrow> (PP_Var \<times> 'a res_state_scheme) option" where
  "ppb_file_ref_get_path file_ref w =
     with_resource file_ref PP_RESOURCE_FILE_REF VUndefined
       (\<lambda>gr w. case the_file_ref (r_payload gr) of
          None \<Rightarrow> None
        | Some fr \<Rightarrow> ppb_var_var_from_utf8_z (map_option (\<lambda>p. p @ [NUL]) (fr_path fr)) w) w"

text \<open>The code, and what is written to \<^verbatim>\<open>*file\<close> if anything.\<close>

definition ppb_flash_file_file_ref_open_file ::
  "'o os \<Rightarrow> PP_Resource \<Rightarrow> u32 \<Rightarrow> 'a res_state_scheme \<Rightarrow> 'o \<Rightarrow>
   (int \<times> int option \<times> 'a res_state_scheme \<times> 'o) option" where
  "ppb_flash_file_file_ref_open_file os file_ref_id mode w s = do {
     ((code, file, s'), w) \<leftarrow> with_resource file_ref_id PP_RESOURCE_FILE_REF (PP_ERROR_BADRESOURCE, None, s)
       (\<lambda>gr w. case the_file_ref (r_payload gr) of
          None \<Rightarrow> None
        | Some fr \<Rightarrow>
            (case fr_path fr of
               None \<Rightarrow> Some ((PP_ERROR_FAILED, None, s), w)
             | Some path \<Rightarrow>
                 (case os_open os path (pp_mode_to_open_mode mode) s of
                    (fd, e, s') \<Rightarrow> Some ((open_result fd e, Some fd, s'), w)))) w;
     Some (code, file, w, s')
   }"

section \<open>File information\<close>

datatype file_type = PP_FILETYPE_REGULAR | PP_FILETYPE_DIRECTORY | PP_FILETYPE_OTHER

datatype system_type = PP_FILESYSTEMTYPE_EXTERNAL | PP_FILESYSTEMTYPE_ISOLATED

text \<open>Times are kept as the seconds and nanoseconds they are computed from.\<close>

record PP_FileInfo =
  fi_size :: int
  fi_type :: file_type
  fi_system_type :: system_type
  fi_creation_time :: timespec
  fi_last_access_time :: timespec
  fi_last_modified_time :: timespec

definition fill_info :: "system_type \<Rightarrow> stat_s \<Rightarrow> PP_FileInfo" where
  "fill_info sys sb =
     \<lparr>fi_size = st_size sb,
      fi_type = (if st_is_reg sb then PP_FILETYPE_REGULAR
                 else if st_is_dir sb then PP_FILETYPE_DIRECTORY else PP_FILETYPE_OTHER),
      fi_system_type = sys, fi_creation_time = st_ctim sb, fi_last_access_time = st_atim sb,
      fi_last_modified_time = st_mtim sb\<rparr>"

definition ppb_flash_file_file_ref_query_file ::
  "'o os \<Rightarrow> PP_Resource \<Rightarrow> bool \<Rightarrow> 'a res_state_scheme \<Rightarrow> 'o \<Rightarrow>
   ((int \<times> PP_FileInfo option) \<times> 'a res_state_scheme) option" where
  "ppb_flash_file_file_ref_query_file os file_ref_id info w s =
     (if \<not> info then Some ((PP_ERROR_BADARGUMENT, None), w)
      else with_resource file_ref_id PP_RESOURCE_FILE_REF (PP_ERROR_BADRESOURCE, None)
        (\<lambda>gr w. do {
           fr \<leftarrow> the_file_ref (r_payload gr);
           (sb, e) \<leftarrow> (if fr_type fr = PP_FILE_REF_TYPE_NAME
                     then map_option (\<lambda>p. os_stat os p s) (fr_path fr)
                     else Some (os_fstat os (fr_fd fr) s));
           Some (case sb of
               None \<Rightarrow> ((errno_code e, None), w)
             | Some sb \<Rightarrow> ((PP_OK, Some (fill_info PP_FILESYSTEMTYPE_EXTERNAL sb)), w))
         }) w)"

section \<open>Module local files\<close>

text \<open>The directories above a path, outermost first: the text before each slash.\<close>

fun prefixes_at_slash :: "string \<Rightarrow> string \<Rightarrow> string list" where
  "prefixes_at_slash before [] = []"
| "prefixes_at_slash before (c # cs) =
     (if c = slash then before # prefixes_at_slash (before @ [c]) cs
      else prefixes_at_slash (before @ [c]) cs)"

fun mkdir_all :: "'o os \<Rightarrow> string list \<Rightarrow> 'o \<Rightarrow> 'o" where
  "mkdir_all os [] s = s"
| "mkdir_all os (p # ps) s = mkdir_all os ps (snd (snd (os_mkdir os p s)))"

definition parent_dir :: "string \<Rightarrow> string option" where
  "parent_dir p = (if slash \<in> set p then Some (rev (tl (dropWhile (\<lambda>c. c \<noteq> slash) (rev p)))) else None)"

definition create_subdirectories_recursively :: "'o os \<Rightarrow> string \<Rightarrow> 'o \<Rightarrow> 'o" where
  "create_subdirectories_recursively os p s =
     (case parent_dir p of
        None \<Rightarrow> s
      | Some path \<Rightarrow>
          (case os_lstat os path s of
             (Some sb, _) \<Rightarrow>
               if st_is_dir sb then s else mkdir_all os (prefixes_at_slash [] path @ [path]) s
           | (None, _) \<Rightarrow> mkdir_all os (prefixes_at_slash [] path @ [path]) s))"

definition ppb_flash_file_modulelocal_open_file ::
  "'o os \<Rightarrow> string \<Rightarrow> string \<Rightarrow> u32 \<Rightarrow> 'o \<Rightarrow> int \<times> int \<times> 'o" where
  "ppb_flash_file_modulelocal_open_file os data_dir path mode s =
     (let abs_path = to_abs_path data_dir path;
          xmode = pp_mode_to_open_mode mode;
          s = (if xmode AND O_CREAT \<noteq> 0 then create_subdirectories_recursively os abs_path s else s)
      in case os_open os abs_path xmode s of (fd, e, s) \<Rightarrow> (open_result fd e, fd, s))"

definition ppb_flash_file_modulelocal_rename_file ::
  "'o os \<Rightarrow> string \<Rightarrow> string \<Rightarrow> string \<Rightarrow> 'o \<Rightarrow> int \<times> 'o" where
  "ppb_flash_file_modulelocal_rename_file os data_dir path_from path_to s =
     (case os_rename os (to_abs_path data_dir path_from) (to_abs_path data_dir path_to) s of
        (ret, e, s) \<Rightarrow> (if ret < 0 then PP_ERROR_FAILED else PP_OK, s))"

text \<open>Deleting a directory with its contents is not implemented: the flag is ignored.\<close>

definition ppb_flash_file_modulelocal_delete_file_or_dir ::
  "'o os \<Rightarrow> string \<Rightarrow> string \<Rightarrow> bool \<Rightarrow> 'o \<Rightarrow> int \<times> 'o" where
  "ppb_flash_file_modulelocal_delete_file_or_dir os data_dir path recursive s =
     (case os_unlink os (to_abs_path data_dir path) s of
        (ret, e, s) \<Rightarrow> (if ret < 0 then PP_ERROR_FAILED else PP_OK, s))"

definition ppb_flash_file_modulelocal_create_dir ::
  "'o os \<Rightarrow> string \<Rightarrow> string \<Rightarrow> 'o \<Rightarrow> int \<times> 'o" where
  "ppb_flash_file_modulelocal_create_dir os data_dir path s =
     (let abs_path = to_abs_path data_dir path;
          s = create_subdirectories_recursively os abs_path s
      in case os_mkdir os abs_path s of
           (ret, e, s) \<Rightarrow>
             (if ret < 0
              then (case e of EACCES \<Rightarrow> PP_ERROR_NOACCESS | EEXIST \<Rightarrow> PP_OK | _ \<Rightarrow> PP_ERROR_FAILED)
              else PP_OK, s))"

definition whole_seconds :: "timespec \<Rightarrow> timespec" where
  "whole_seconds t = t\<lparr>tv_nsec := 0\<rparr>"

definition ppb_flash_file_modulelocal_query_file ::
  "'o os \<Rightarrow> string \<Rightarrow> string \<Rightarrow> bool \<Rightarrow> 'o \<Rightarrow> int \<times> PP_FileInfo option" where
  "ppb_flash_file_modulelocal_query_file os data_dir path info s =
     (if \<not> info then (PP_ERROR_FAILED, None)
      else case os_lstat os (to_abs_path data_dir path) s of
             (None, e) \<Rightarrow> (errno_code e, None)
           | (Some sb, _) \<Rightarrow> (PP_OK, Some (fill_info PP_FILESYSTEMTYPE_ISOLATED
               (sb\<lparr>st_ctim := whole_seconds (st_ctim sb), st_atim := whole_seconds (st_atim sb),
                  st_mtim := whole_seconds (st_mtim sb)\<rparr>))))"

text \<open>The directory's entries that can be examined, each with whether it is a directory.\<close>

definition ppb_flash_file_modulelocal_get_dir_contents ::
  "'o os \<Rightarrow> string \<Rightarrow> string \<Rightarrow> 'o \<Rightarrow> int \<times> (string \<times> bool) list option" where
  "ppb_flash_file_modulelocal_get_dir_contents os data_dir path s =
     (let abs_path = to_abs_path data_dir path in
      case os_scandir os abs_path s of
        None \<Rightarrow> (PP_ERROR_FAILED, None)
      | Some namelist \<Rightarrow>
          (PP_OK, Some (concat (map (\<lambda>name. case os_lstat os (abs_path @ slash # name) s of
             (Some sb, _) \<Rightarrow> [(name, st_is_dir sb)] | (None, _) \<Rightarrow> []) namelist))))"

section \<open>Lemmas\<close>

lemma prefixes_below:
  "p \<in> set (prefixes_at_slash before cs) \<Longrightarrow> \<exists>t u. cs = t @ slash # u \<and> p = before @ t"
proof (induction before cs rule: prefixes_at_slash.induct)
  case (2 before c cs)
  show ?case
  proof (cases "c = slash \<and> p = before")
    case True
    then show ?thesis by (intro exI [of _ "[]"] exI [of _ cs]) simp
  next
    case False
    with 2 obtain t u where "cs = t @ slash # u" "p = (before @ [c]) @ t"
      by (auto split: if_splits)
    then show ?thesis by (intro exI [of _ "c # t"] exI [of _ u]) simp
  qed
qed simp

lemma parent_dir_eq:
  "slash \<notin> set l \<Longrightarrow> parent_dir (d @ slash # l) = Some d"
proof -
  assume l: "slash \<notin> set l"
  have "dropWhile (\<lambda>c. c \<noteq> slash) (rev l @ slash # rev d) = slash # rev d"
    using l by (subst dropWhile_append2) auto
  then show ?thesis by (simp add: parent_dir_def)
qed

lemma parent_dir_prefix:
  assumes "parent_dir q = Some d"
  shows "\<exists>l. q = d @ slash # l"
proof -
  have "slash \<in> set q" using assms by (simp add: parent_dir_def split: if_splits)
  then obtain d' l where "q = d' @ slash # l" "slash \<notin> set l"
    by (metis split_list_last)
  with parent_dir_eq [of l d'] assms show ?thesis by auto
qed

lemma create_subdirectories_below:
  "\<exists>ds. (create_subdirectories_recursively os q s = s \<or>
         create_subdirectories_recursively os q s = mkdir_all os ds s) \<and>
    (\<forall>d\<in>set ds. \<exists>u. q = d @ slash # u)"
proof (cases "parent_dir q")
  case None
  then show ?thesis by (intro exI [of _ "[]"]) (simp add: create_subdirectories_recursively_def)
next
  case (Some d)
  from parent_dir_prefix [OF Some] obtain l where q: "q = d @ slash # l" by blast
  have "\<exists>u. q = x @ slash # u" if x: "x \<in> set (prefixes_at_slash [] d @ [d])" for x
  proof (cases "x = d")
    case False
    with x obtain t u where "d = t @ slash # u" "x = t"
      using prefixes_below [of x "[]" d] by auto
    with q show ?thesis by simp
  qed (use q in blast)
  with Some show ?thesis
    by (intro exI [of _ "prefixes_at_slash [] d @ [d]"])
      (auto simp: create_subdirectories_recursively_def split: prod.splits option.splits)
qed

section \<open>Properties\<close>


text \<open>The open flags of the system are those the plugin asked for: one access mode (read
  only also when neither reading nor writing was asked for), and each of create, truncate,
  exclusive and append exactly when its flag is set, whatever other bits there are.\<close>

theorem open_mode_correct:
  "(let has = (\<lambda>f. mode AND f \<noteq> 0); x = pp_mode_to_open_mode mode in
     x AND 3 = (if has 2 then (if has 1 then O_RDWR else O_WRONLY) else O_RDONLY) \<and>
     (x AND O_CREAT \<noteq> 0) = has 4 \<and> (x AND O_TRUNC \<noteq> 0) = has 8 \<and>
     (x AND O_EXCL \<noteq> 0) = has 16 \<and> (x AND O_APPEND \<noteq> 0) = has 32)"
  unfolding pp_mode_to_open_mode_def Let_def
  by (cases "mode AND 1 = 0"; cases "mode AND 2 = 0"; cases "mode AND 4 = 0"; cases "mode AND 8 = 0";
      cases "mode AND 16 = 0"; cases "mode AND 32 = 0"; simp)

end
