(* ===== verification/Url_Request.thy ===== *)
theory Url_Request
  imports Flash_File Message_Loop
begin

text \<open>
  \<^verbatim>\<open>ppb_url_request_info.c\<close>: what a plugin asks a loader to fetch, and the list of data and
  file slices it posts. A slice of a file holds a reference to the file's resource. The
  system's files are the parameter \<open>os\<close> of \<^verbatim>\<open>Flash_File\<close>; \<open>seconds\<close> turns a time stamp into
  the floating point number the plugin compares it by.
\<close>

section \<open>Requests\<close>

fun the_request :: "payload \<Rightarrow> pp_url_request_info_s option" where
  "the_request (PL_url_request_info ri) = Some ri"
| "the_request _ = None"

definition post_data_new :: "post_data_item_s list" where
  "post_data_new = []"

definition ppb_url_request_info_create :: "PP_Instance \<Rightarrow> 'a world_scheme \<Rightarrow> (PP_Resource \<times> 'a world_scheme) option" where
  "ppb_url_request_info_create instance w =
     create_resource instance PP_RESOURCE_URL_REQUEST_INFO
       (PL_url_request_info (zero_url_request_info
          \<lparr>ri_method := PP_METHOD_UNKNOWN, ri_url := None, ri_headers := None, ri_stream_to_file := False,
           ri_follow_redirects := True, ri_record_download_progress := False,
           ri_record_upload_progress := False, ri_custom_referrer_url := None,
           ri_allow_cross_origin_requests := False, ri_allow_credentials := False,
           ri_custom_content_transfer_encoding := None, ri_prefetch_buffer_upper_threshold := - 1,
           ri_prefetch_buffer_lower_threshold := - 1, ri_custom_user_agent := None,
           ri_post_data := Some post_data_new\<rparr>)) w"

definition ppb_url_request_info_is_url_request_info :: "PP_Resource \<Rightarrow> 'a res_state_scheme \<Rightarrow> bool" where
  "ppb_url_request_info_is_url_request_info resource w \<longleftrightarrow>
     pp_resource_get_type resource w = PP_RESOURCE_URL_REQUEST_INFO"

definition ltrim :: "string \<Rightarrow> string" where
  "ltrim s = dropWhile isspace s"

datatype PP_URLRequestProperty =
    PP_URLREQUESTPROPERTY_URL | PP_URLREQUESTPROPERTY_METHOD | PP_URLREQUESTPROPERTY_HEADERS
  | PP_URLREQUESTPROPERTY_STREAMTOFILE | PP_URLREQUESTPROPERTY_FOLLOWREDIRECTS
  | PP_URLREQUESTPROPERTY_RECORDDOWNLOADPROGRESS | PP_URLREQUESTPROPERTY_RECORDUPLOADPROGRESS
  | PP_URLREQUESTPROPERTY_CUSTOMREFERRERURL | PP_URLREQUESTPROPERTY_ALLOWCROSSORIGINREQUESTS
  | PP_URLREQUESTPROPERTY_ALLOWCREDENTIALS | PP_URLREQUESTPROPERTY_CUSTOMCONTENTTRANSFERENCODING
  | PP_URLREQUESTPROPERTY_PREFETCHBUFFERUPPERTHRESHOLD | PP_URLREQUESTPROPERTY_PREFETCHBUFFERLOWERTHRESHOLD
  | PP_URLREQUESTPROPERTY_CUSTOMUSERAGENT | PP_URLREQUESTPROPERTY_OTHER int

text \<open>
  The field a property sets, from a value of the type the property wants; \<open>None\<close> when the
  property is unknown or the value has another type. The text of a string value is \<open>str\<close>.
\<close>

fun bool_value :: "PP_Var \<Rightarrow> bool option" where
  "bool_value (VBool b) = Some b"
| "bool_value _ = None"

fun int_value :: "PP_Var \<Rightarrow> int option" where
  "int_value (VInt32 i) = Some i"
| "int_value _ = None"

fun is_string :: "PP_Var \<Rightarrow> bool" where
  "is_string (VString _) = True"
| "is_string _ = False"

definition method_of :: "string \<Rightarrow> pp_request_method_e" where
  "method_of tmp =
     (if tmp = ''GET'' then PP_METHOD_GET else if tmp = ''POST'' then PP_METHOD_POST else PP_METHOD_UNKNOWN)"

definition is_javascript :: "string \<Rightarrow> bool" where
  "is_javascript url \<longleftrightarrow> map to_lower (take 11 url) = ''javascript:''"

fun set_property ::
  "PP_URLRequestProperty \<Rightarrow> PP_Var \<Rightarrow> string \<Rightarrow> pp_url_request_info_s \<Rightarrow> pp_url_request_info_s option" where
  "set_property PP_URLREQUESTPROPERTY_URL v str ri =
     (if is_string v then Some (ri\<lparr>ri_url := Some (ltrim str),
        ri_is_immediate_javascript := is_javascript (ltrim str)\<rparr>) else None)"
| "set_property PP_URLREQUESTPROPERTY_METHOD v str ri =
     (if is_string v then Some (ri\<lparr>ri_method := method_of str\<rparr>) else None)"
| "set_property PP_URLREQUESTPROPERTY_HEADERS v str ri =
     (if is_string v then Some (ri\<lparr>ri_headers := Some str\<rparr>) else None)"
| "set_property PP_URLREQUESTPROPERTY_STREAMTOFILE v str ri =
     map_option (\<lambda>b. ri\<lparr>ri_stream_to_file := b\<rparr>) (bool_value v)"
| "set_property PP_URLREQUESTPROPERTY_FOLLOWREDIRECTS v str ri =
     map_option (\<lambda>b. ri\<lparr>ri_follow_redirects := b\<rparr>) (bool_value v)"
| "set_property PP_URLREQUESTPROPERTY_RECORDDOWNLOADPROGRESS v str ri =
     map_option (\<lambda>b. ri\<lparr>ri_record_download_progress := b\<rparr>) (bool_value v)"
| "set_property PP_URLREQUESTPROPERTY_RECORDUPLOADPROGRESS v str ri =
     map_option (\<lambda>b. ri\<lparr>ri_record_upload_progress := b\<rparr>) (bool_value v)"
| "set_property PP_URLREQUESTPROPERTY_CUSTOMREFERRERURL v str ri =
     (if is_string v then Some (ri\<lparr>ri_custom_referrer_url := Some str\<rparr>) else None)"
| "set_property PP_URLREQUESTPROPERTY_ALLOWCROSSORIGINREQUESTS v str ri =
     map_option (\<lambda>b. ri\<lparr>ri_allow_cross_origin_requests := b\<rparr>) (bool_value v)"
| "set_property PP_URLREQUESTPROPERTY_ALLOWCREDENTIALS v str ri =
     map_option (\<lambda>b. ri\<lparr>ri_allow_credentials := b\<rparr>) (bool_value v)"
| "set_property PP_URLREQUESTPROPERTY_CUSTOMCONTENTTRANSFERENCODING v str ri =
     (if is_string v then Some (ri\<lparr>ri_custom_content_transfer_encoding := Some str\<rparr>) else None)"
| "set_property PP_URLREQUESTPROPERTY_PREFETCHBUFFERUPPERTHRESHOLD v str ri =
     map_option (\<lambda>i. ri\<lparr>ri_prefetch_buffer_upper_threshold := i\<rparr>) (int_value v)"
| "set_property PP_URLREQUESTPROPERTY_PREFETCHBUFFERLOWERTHRESHOLD v str ri =
     map_option (\<lambda>i. ri\<lparr>ri_prefetch_buffer_lower_threshold := i\<rparr>) (int_value v)"
| "set_property PP_URLREQUESTPROPERTY_CUSTOMUSERAGENT v str ri =
     (if is_string v then Some (ri\<lparr>ri_custom_user_agent := Some str\<rparr>) else None)"
| "set_property (PP_URLREQUESTPROPERTY_OTHER _) v str ri = None"

definition ppb_url_request_info_set_property ::
  "PP_Resource \<Rightarrow> PP_URLRequestProperty \<Rightarrow> PP_Var \<Rightarrow> 'a res_state_scheme \<Rightarrow> (bool \<times> 'a res_state_scheme) option" where
  "ppb_url_request_info_set_property request property v w =
     with_resource request PP_RESOURCE_URL_REQUEST_INFO False
       (\<lambda>gr w. do {
          ri \<leftarrow> the_request (r_payload gr);
          str \<leftarrow> var_text v w;
          Some (case set_property property v str ri of
              None \<Rightarrow> (False, w)
            | Some ri' \<Rightarrow> (True, res_write request (PL_url_request_info ri') w))
        }) w"

section \<open>What is posted\<close>

text \<open>\<^verbatim>\<open>g_memdup\<close>: no copy of a NULL pointer, nor of no bytes.\<close>

definition g_memdup :: "char list option \<Rightarrow> nat \<Rightarrow> char list option" where
  "g_memdup mem byte_size =
     (case mem of None \<Rightarrow> None | Some d \<Rightarrow> if byte_size = 0 then None else Some (take byte_size d))"

definition data_item :: "char list \<Rightarrow> u64 \<Rightarrow> post_data_item_s" where
  "data_item d len = \<lparr>pdi_data = d, pdi_len = len, pdi_file_ref = 0, pdi_start_offset = 0,
     pdi_number_of_bytes = 0, pdi_expected_last_modified_time = 0\<rparr>"

definition file_item :: "PP_Resource \<Rightarrow> int \<Rightarrow> int \<Rightarrow> double_bits \<Rightarrow> post_data_item_s" where
  "file_item file_ref start_offset number_of_bytes time = \<lparr>pdi_data = [], pdi_len = 0,
     pdi_file_ref = file_ref, pdi_start_offset = start_offset, pdi_number_of_bytes = number_of_bytes,
     pdi_expected_last_modified_time = time\<rparr>"

text \<open>Appending to no array at all, which no constructed request has, is undefined.\<close>

definition ppb_url_request_info_append_data_to_body ::
  "PP_Resource \<Rightarrow> char list option \<Rightarrow> u32 \<Rightarrow> 'a res_state_scheme \<Rightarrow> (bool \<times> 'a res_state_scheme) option" where
  "ppb_url_request_info_append_data_to_body request data len w =
     with_resource request PP_RESOURCE_URL_REQUEST_INFO False
       (\<lambda>gr w. do {
          ri \<leftarrow> the_request (r_payload gr);
          (case g_memdup data (unat len) of
             None \<Rightarrow> Some (False, w)
           | Some d \<Rightarrow> do {
               items \<leftarrow> ri_post_data ri;
               Some (True, res_write request (PL_url_request_info
                 (ri\<lparr>ri_post_data := Some (items @ [data_item d (ucast len)])\<rparr>)) w)
             })
        }) w"

definition ppb_url_request_info_append_file_to_body ::
  "PP_Resource \<Rightarrow> PP_Resource \<Rightarrow> int \<Rightarrow> int \<Rightarrow> double_bits \<Rightarrow> 'a world_scheme \<Rightarrow> (bool \<times> 'a world_scheme) option" where
  "ppb_url_request_info_append_file_to_body request file_ref start_offset number_of_bytes time w =
     with_resource request PP_RESOURCE_URL_REQUEST_INFO False
       (\<lambda>gr w. do {
          ri \<leftarrow> the_request (r_payload gr);
          items \<leftarrow> ri_post_data ri;
          let w = ppb_core_add_ref_resource file_ref w;
          Some (True, res_write request (PL_url_request_info
            (ri\<lparr>ri_post_data := Some (items @ [file_item file_ref start_offset number_of_bytes time])\<rparr>)) w)
        }) w"

text \<open>The copy of an item, the state after it; an item that cannot be copied is left out.\<close>

fun duplicate_items ::
  "post_data_item_s list \<Rightarrow> 'a world_scheme \<Rightarrow> post_data_item_s list \<times> 'a world_scheme" where
  "duplicate_items [] w = ([], w)"
| "duplicate_items (pdi # pdis) w =
     (if pdi_file_ref pdi \<noteq> 0 then
        (case duplicate_items pdis (ppb_core_add_ref_resource (pdi_file_ref pdi) w) of
           (copies, w') \<Rightarrow> (pdi # copies, w'))
      else
        (case g_memdup (Some (pdi_data pdi)) (unat (ucast (pdi_len pdi) :: u32)) of
           None \<Rightarrow> duplicate_items pdis w
         | Some d \<Rightarrow> (case duplicate_items pdis w of
             (copies, w') \<Rightarrow> (pdi\<lparr>pdi_data := d\<rparr> # copies, w'))))"

definition post_data_duplicate ::
  "post_data_item_s list option \<Rightarrow> 'a world_scheme \<Rightarrow> post_data_item_s list option \<times> 'a world_scheme" where
  "post_data_duplicate post_data w =
     (case post_data of
        None \<Rightarrow> (None, w)
      | Some items \<Rightarrow> (case duplicate_items items w of (copies, w') \<Rightarrow> (Some copies, w')))"

definition post_data_free :: "post_data_item_s list option \<Rightarrow> 'a world_scheme \<Rightarrow> 'a world_scheme option" where
  "post_data_free post_data w =
     unref_all (case post_data of None \<Rightarrow> []
       | Some items \<Rightarrow> map pdi_file_ref (filter (\<lambda>pdi. pdi_file_ref pdi \<noteq> 0) items)) w"

text \<open>Equality of two doubles, from their bits.\<close>

definition is_nan :: "double_bits \<Rightarrow> bool" where
  "is_nan d \<longleftrightarrow> take_bit 63 d > 0x7FF0000000000000"

definition double_eq :: "double_bits \<Rightarrow> double_bits \<Rightarrow> bool" where
  "double_eq a b \<longleftrightarrow> (a = b \<and> \<not> is_nan a) \<or> (take_bit 63 a = 0 \<and> take_bit 63 b = 0)"

abbreviation (input) NO_LENGTH :: u64 where "NO_LENGTH \<equiv> - 1"

definition post_data_get_item_length ::
  "(timespec \<Rightarrow> double_bits) \<Rightarrow> 'o os \<Rightarrow> post_data_item_s \<Rightarrow> 'a res_state_scheme \<Rightarrow> 'o \<Rightarrow>
   (u64 \<times> 'a res_state_scheme) option" where
  "post_data_get_item_length seconds os pdi w s =
     (if pdi_file_ref pdi \<noteq> 0 then do {
        let start_offset = max (pdi_start_offset pdi) 0;
        ((ret, finfo), w) \<leftarrow> ppb_flash_file_file_ref_query_file os (pdi_file_ref pdi) True w s;
        Some (case finfo of
            None \<Rightarrow> (NO_LENGTH, w)
          | Some finfo \<Rightarrow>
              (if ret \<noteq> PP_OK then (NO_LENGTH, w)
               else if \<not> double_eq (pdi_expected_last_modified_time pdi) 0 \<and>
                 \<not> double_eq (seconds (fi_last_modified_time finfo)) (pdi_expected_last_modified_time pdi)
               then (NO_LENGTH, w)
               else if 0 \<le> pdi_number_of_bytes pdi then (word_of_int (pdi_number_of_bytes pdi), w)
               else if fi_size finfo \<le> start_offset then (0, w)
               else (word_of_int (fi_size finfo - start_offset), w)))
      }
      else Some (pdi_len pdi, w))"

fun total_length ::
  "(timespec \<Rightarrow> double_bits) \<Rightarrow> 'o os \<Rightarrow> post_data_item_s list \<Rightarrow> u64 \<Rightarrow> 'a res_state_scheme \<Rightarrow> 'o \<Rightarrow>
   (u64 \<times> 'a res_state_scheme) option" where
  "total_length seconds os [] total_len w s = Some (total_len, w)"
| "total_length seconds os (pdi # pdis) total_len w s = do {
     (item_len, w) \<leftarrow> post_data_get_item_length seconds os pdi w s;
     (if item_len = NO_LENGTH then Some (NO_LENGTH, w)
      else total_length seconds os pdis (total_len + item_len) w s)
   }"

definition post_data_get_all_item_length ::
  "(timespec \<Rightarrow> double_bits) \<Rightarrow> 'o os \<Rightarrow> post_data_item_s list \<Rightarrow> 'a res_state_scheme \<Rightarrow> 'o \<Rightarrow>
   (u64 \<times> 'a res_state_scheme) option" where
  "post_data_get_all_item_length seconds os post_data w s = total_length seconds os post_data 0 w s"

text \<open>
  The loop that copies a file: it ends when enough was read or at the first error. At the
  end of the file \<^verbatim>\<open>read\<close> answers no bytes, and the loop never ends (\<open>None\<close>).
\<close>

abbreviation (input) COPY_BUF :: nat where "COPY_BUF \<equiv> 131072"

partial_function (option) copy_file ::
  "'o os \<Rightarrow> int \<Rightarrow> nat \<Rightarrow> char list \<Rightarrow> 'o \<Rightarrow> (char list \<times> 'o) option" where
  [code]: "copy_file os fd to_write acc s =
     (if to_write = 0 then Some (acc, s)
      else case os_read os fd (min to_write COPY_BUF) s of
             (None, s') \<Rightarrow> Some (acc, s')
           | (Some buf, s') \<Rightarrow> copy_file os fd (to_write - length buf) (acc @ buf) s')"

text \<open>An item appended to the text. The file is read from its start.\<close>

definition post_data_write_to_gstring ::
  "(timespec \<Rightarrow> double_bits) \<Rightarrow> 'o os \<Rightarrow> post_data_item_s \<Rightarrow> char list \<Rightarrow> 'a res_state_scheme \<Rightarrow> 'o \<Rightarrow>
   (char list \<times> 'a res_state_scheme \<times> 'o) option" where
  "post_data_write_to_gstring seconds os pdi txt w s =
     (if pdi_file_ref pdi \<noteq> 0 then do {
        (ret, file, w, s) \<leftarrow> ppb_flash_file_file_ref_open_file os (pdi_file_ref pdi) PP_FILEOPENFLAG_READ w s;
        let fd = (case file of None \<Rightarrow> - 1 | Some fd \<Rightarrow> fd);
        (if ret \<noteq> PP_OK then Some (txt, w, if 0 \<le> fd then os_close os fd s else s)
         else do {
           (to_write, w) \<leftarrow> post_data_get_item_length seconds os pdi w s;
           (txt, s) \<leftarrow> copy_file os fd (unat to_write) txt s;
           Some (txt, w, if 0 \<le> fd then os_close os fd s else s)
         })
      }
      else Some (txt @ take (unat (pdi_len pdi)) (pdi_data pdi), w, s))"

section \<open>References taken for a list of items\<close>

text \<open>A table in which every count is raised by the number of new references to it.\<close>

definition bump :: "PP_Resource multiset \<Rightarrow> (PP_Resource, pp_resource_s) hash_table \<Rightarrow>
    (PP_Resource, pp_resource_s) hash_table" where
  "bump m t = map (\<lambda>(k, e). (k, res_set_rc (r_ref_cnt e + int (count m k)) e)) t"

lemma bump_empty [simp]: "bump {#} t = t"
  by (induction t) (auto simp: bump_def res_set_rc_def)

lemma bump_bump: "bump m (bump n t) = bump (m + n) t"
  by (induction t) (auto simp: bump_def res_set_rc_def)

lemma fst_bump [simp]: "map fst (bump m t) = map fst t"
  by (induction t) (auto simp: bump_def)

lemma ht_ok_bump [simp]: "ht_ok (bump m t) = ht_ok t"
  by (simp add: ht_ok_def)

lemma lookup_bump: "ht_lookup (bump m t) k =
    map_option (\<lambda>e. res_set_rc (r_ref_cnt e + int (count m k)) e) (ht_lookup t k)"
  by (induction t) (auto simp: bump_def)

lemma bump_absent: "k \<notin> fst ` set t \<Longrightarrow> bump (add_mset k m) t = bump m t"
  by (induction t) (auto simp: bump_def)

lemma bump_insert:
  "ht_ok t \<Longrightarrow> ht_lookup t k = Some e \<Longrightarrow>
    ht_insert k (res_set_rc (r_ref_cnt e + int (count m k)) e) (bump (add_mset k m) t) = bump m t"
proof (induction t)
  case (Cons p t)
  then show ?case
    using bump_absent [of k t m] by (cases p) (auto simp: bump_def ht_ok_def split: if_splits)
qed simp

lemma ref_bump:
  assumes "ht_ok (res_tbl w)"
  shows "snd (pp_resource_ref r w) = w\<lparr>res_tbl := bump {#r#} (res_tbl w)\<rparr>"
proof (cases "ht_lookup (res_tbl w) r")
  case None
  then have "r \<notin> fst ` set (res_tbl w)" by (simp add: ht_lookup_def map_of_eq_None_iff)
  then show ?thesis using None by (simp add: pp_resource_ref_def bump_absent)
next
  case (Some e)
  have "ht_insert r (res_set_rc (r_ref_cnt e + 1) e) (res_tbl w) = bump {#r#} (res_tbl w)"
  proof -
    let ?e = "res_set_rc (r_ref_cnt e + 1) e"
    have "ht_insert r ?e t = bump {#r#} t" if "ht_ok t" "ht_lookup t r = Some e" for t
      using that
    proof (induction t)
      case (Cons p t)
      then show ?case
        using bump_absent [of r t "{#}"] by (cases p) (auto simp: bump_def ht_ok_def res_set_rc_def
          split: if_splits)
    qed simp
    then show ?thesis using assms Some by blast
  qed
  then show ?thesis using Some by (simp add: pp_resource_ref_def res_set_rc_def)
qed

lemma recount: "(res_set_rc m e)\<lparr>r_ref_cnt := n\<rparr> = res_set_rc n e"
  by (simp add: res_set_rc_def)

lemma unref_bump:
  assumes "ht_ok (res_tbl w)" and "\<forall>k e. ht_lookup (res_tbl w) k = Some e \<longrightarrow> 0 < r_ref_cnt e"
  shows "unref_all rs (w\<lparr>res_tbl := bump (mset rs) (res_tbl w)\<rparr>) = Some w"
proof (induction rs)
  case (Cons r rs)
  let ?t = "bump (mset (r # rs)) (res_tbl w)"
  show ?case
  proof (cases "ht_lookup (res_tbl w) r")
    case None
    then have "r \<notin> fst ` set (res_tbl w)" by (simp add: ht_lookup_def map_of_eq_None_iff)
    then show ?thesis using None Cons by (simp add: lookup_bump bump_absent)
  next
    case (Some e)
    let ?n = "r_ref_cnt e + int (count (mset rs) r)"
    have look: "ht_lookup ?t r = Some (res_set_rc (?n + 1) e)"
      using Some by (simp add: lookup_bump add.assoc)
    have "0 < r_ref_cnt e" using assms(2) Some by blast
    then have "0 < ?n" by simp
    then have "\<not> r_ref_cnt (res_set_rc (?n + 1) e) - 1 \<le> 0" by simp
    then have "unref_all (r # rs) (w\<lparr>res_tbl := ?t\<rparr>) =
        unref_all rs (w\<lparr>res_tbl := ht_insert r (res_set_rc ?n e) ?t\<rparr>)"
      using look by (simp add: recount)
    also have "ht_insert r (res_set_rc ?n e) ?t = bump (mset rs) (res_tbl w)"
      using bump_insert [OF assms(1) Some, of "mset rs"] by simp
    finally show ?thesis using Cons by simp
  qed
qed simp

definition file_refs :: "post_data_item_s list \<Rightarrow> PP_Resource list" where
  "file_refs items = filter (\<lambda>r. r \<noteq> 0) (map pdi_file_ref items)"

lemma file_refs_simps [simp]:
  "file_refs [] = []"
  "file_refs (pdi # pdis) = (if pdi_file_ref pdi \<noteq> 0 then [pdi_file_ref pdi] else []) @ file_refs pdis"
  "file_refs (xs @ ys) = file_refs xs @ file_refs ys"
  by (simp_all add: file_refs_def)

lemma post_data_kids_refs [simp]: "post_data_kids (Some items) = file_refs items"
  by (simp add: post_data_kids_def file_refs_def)

lemma post_data_free_refs: "post_data_free (Some items) w = unref_all (file_refs items) w"
proof -
  have "map pdi_file_ref (filter (\<lambda>pdi. pdi_file_ref pdi \<noteq> 0) items) = file_refs items"
    by (induction items) simp_all
  then show ?thesis by (simp add: post_data_free_def)
qed

text \<open>An item as the append functions make it: a file, or data of its stated length.\<close>

definition item_ok :: "post_data_item_s \<Rightarrow> bool" where
  "item_ok pdi \<longleftrightarrow> pdi_file_ref pdi \<noteq> 0 \<or>
     (pdi_data pdi \<noteq> [] \<and> unat (pdi_len pdi) = length (pdi_data pdi) \<and> length (pdi_data pdi) < 2 ^ 32)"

lemma duplicate_items_bump:
  "ht_ok (res_tbl w) \<Longrightarrow> \<exists>copies. duplicate_items items w =
      (copies, w\<lparr>res_tbl := bump (mset (file_refs items)) (res_tbl w)\<rparr>) \<and>
    file_refs copies = file_refs items \<and> (list_all item_ok items \<longrightarrow> copies = items)"
proof (induction items w rule: duplicate_items.induct)
  case (2 pdi pdis w)
  show ?case
  proof (cases "pdi_file_ref pdi \<noteq> 0")
    case True
    let ?w = "ppb_core_add_ref_resource (pdi_file_ref pdi) w"
    have w: "?w = w\<lparr>res_tbl := bump {#pdi_file_ref pdi#} (res_tbl w)\<rparr>"
      using ref_bump [OF 2(4)] by (simp add: ppb_core_add_ref_resource_def)
    then have "ht_ok (res_tbl ?w)" using 2(4) by simp
    from 2(1) [OF True this] w True show ?thesis by (auto simp: bump_bump)
  next
    case False
    show ?thesis
    proof (cases "g_memdup (Some (pdi_data pdi)) (unat (ucast (pdi_len pdi) :: u32))")
      case None
      have "\<not> item_ok pdi"
      proof
        assume "item_ok pdi"
        then have "unat (ucast (pdi_len pdi) :: u32) = length (pdi_data pdi)" "pdi_data pdi \<noteq> []"
          using False by (simp_all add: item_ok_def unsigned_ucast_eq take_bit_nat_eq_self)
        then show False using None by (simp add: g_memdup_def)
      qed
      with 2(2) [of] None False 2(4) show ?thesis by auto
    next
      case (Some d)
      have same: "item_ok pdi \<Longrightarrow> pdi\<lparr>pdi_data := d\<rparr> = pdi"
      proof -
        assume "item_ok pdi"
        then have "unat (ucast (pdi_len pdi) :: u32) = length (pdi_data pdi)"
          using False by (simp add: item_ok_def unsigned_ucast_eq take_bit_nat_eq_self)
        then have "d = pdi_data pdi" using Some by (simp add: g_memdup_def split: if_splits)
        then show ?thesis by simp
      qed
      with 2(3) [of d] Some False 2(4) show ?thesis by auto
    qed
  qed
qed simp

lemma bump_inv:
  assumes "world_inv extR extV w" and "\<forall>r\<in>set rs. ht_lookup (res_tbl w) r \<noteq> None"
  shows "world_inv (extR + mset rs) extV (w\<lparr>res_tbl := bump (mset rs) (res_tbl w)\<rparr>)"
  using assms(2)
proof (induction rs)
  case (Cons r rs)
  let ?w = "w\<lparr>res_tbl := bump (mset rs) (res_tbl w)\<rparr>"
  have "ht_lookup (res_tbl w) r \<noteq> None" using Cons.prems by simp
  then obtain e where e: "ht_lookup (res_tbl w) r = Some e" by blast
  have "world_inv (extR + mset rs) extV ?w" using Cons by simp
  from pp_resource_ref_inv [OF this, of r] e
  have "world_inv (add_mset r (extR + mset rs)) extV (snd (pp_resource_ref r ?w))"
    by (simp add: lookup_bump)
  moreover have "ht_ok (res_tbl ?w)" using world_invD(1) [OF assms(1)] by (simp add: balancedD_ok)
  ultimately show ?case by (simp add: ref_bump bump_bump)
qed (use assms(1) in simp)

section \<open>The copy of a file\<close>

lemma copy_file_done: "copy_file os fd 0 acc s = Some (acc, s)"
  by (subst copy_file.simps) simp

lemma copy_file_step:
  "0 < n \<Longrightarrow> os_read os fd (min n COPY_BUF) s = (Some buf, s') \<Longrightarrow>
    copy_file os fd n acc s = copy_file os fd (n - length buf) (acc @ buf) s'"
  by (subst copy_file.simps) simp

text \<open>A read that hands out between one byte and as many as were asked for.\<close>

definition reads_on :: "'o os \<Rightarrow> int \<Rightarrow> bool" where
  "reads_on os fd \<longleftrightarrow> (\<forall>n s. 0 < n \<longrightarrow> (\<exists>buf s'. os_read os fd n s = (Some buf, s') \<and>
     buf \<noteq> [] \<and> length buf \<le> n))"

lemma copy_file_returns:
  assumes "reads_on os fd"
  shows "\<exists>bs s'. copy_file os fd n acc s = Some (acc @ bs, s') \<and> length bs = n"
proof (induction n arbitrary: acc s rule: less_induct)
  case (less n)
  show ?case
  proof (cases "n = 0")
    case False
    then have "0 < min n COPY_BUF" by simp
    with assms obtain buf s' where r: "os_read os fd (min n COPY_BUF) s = (Some buf, s')" "buf \<noteq> []"
      "length buf \<le> min n COPY_BUF" unfolding reads_on_def by blast
    then have "n - length buf < n" using False by simp
    from less [OF this, of "acc @ buf" s'] obtain bs s'' where
      "copy_file os fd (n - length buf) (acc @ buf) s' = Some ((acc @ buf) @ bs, s'')"
      "length bs = n - length buf" by blast
    then show ?thesis using r False by (simp add: copy_file_step)
  qed (simp add: copy_file_done)
qed

lemma copy_file_stuck:
  assumes "\<forall>n. os_read os fd n s = (Some [], s)"
  shows "0 < n \<Longrightarrow> copy_file os fd n acc s = None"
proof -
  have "os' = os \<longrightarrow> fd' = fd \<longrightarrow> s' = s \<longrightarrow> n = 0" if "copy_file os' fd' n acc s' = Some y"
    for os' fd' n acc s' y
  proof (rule copy_file.raw_induct [where P = "\<lambda>os' fd' n acc s' y. os' = os \<longrightarrow> fd' = fd \<longrightarrow> s' = s \<longrightarrow> n = 0",
      rotated])
    show "copy_file os' fd' n acc s' = Some y" by (rule that)
  next
    fix copy os' fd' n acc s' y
    assume IH: "\<And>os' fd' n acc s' y. copy os' fd' n acc s' = Some y \<Longrightarrow>
        os' = os \<longrightarrow> fd' = fd \<longrightarrow> s' = s \<longrightarrow> n = 0"
      and body: "(if n = 0 then Some (acc, s')
        else case os_read os' fd' (min n COPY_BUF) s' of (None, s2) \<Rightarrow> Some (acc, s2)
           | (Some buf, s2) \<Rightarrow> copy os' fd' (n - length buf) (acc @ buf) s2) = Some y"
    show "os' = os \<longrightarrow> fd' = fd \<longrightarrow> s' = s \<longrightarrow> n = 0"
      using body assms IH [of os fd n acc s y] by (auto split: if_splits)
  qed
  then show "0 < n \<Longrightarrow> copy_file os fd n acc s = None"
    by (metis less_irrefl option.exhaust)
qed

section \<open>Properties\<close>

text \<open>Copying what a request posts takes one reference to every file in it and no other, and
  giving the copy up restores the whole state; when the items are as the append functions make
  them the copy is equal to the original.\<close>

theorem post_data_duplicate_free:
  assumes inv: "world_inv extR extV w" and live: "\<forall>r\<in>set (file_refs items). ht_lookup (res_tbl w) r \<noteq> None"
    and ok: "list_all item_ok items"
  shows "\<exists>w'. post_data_duplicate (Some items) w = (Some items, w') \<and>
    world_inv (extR + mset (file_refs items)) extV w' \<and> post_data_free (Some items) w' = Some w"
proof -
  have tbl: "ht_ok (res_tbl w)" "\<forall>k e. ht_lookup (res_tbl w) k = Some e \<longrightarrow> 0 < r_ref_cnt e"
    using world_invD(1) [OF inv] by (auto intro: balancedD_ok balancedD_pos)
  let ?w = "w\<lparr>res_tbl := bump (mset (file_refs items)) (res_tbl w)\<rparr>"
  from duplicate_items_bump [OF tbl(1), of items] ok
  have "post_data_duplicate (Some items) w = (Some items, ?w)"
    by (auto simp: post_data_duplicate_def)
  then show ?thesis
    using bump_inv [OF inv live] unref_bump [OF tbl, of "file_refs items"]
    by (simp add: post_data_free_refs)
qed

definition file_world :: world where
  "file_world = (started [PP_RESOURCE_FILE_REF, PP_RESOURCE_URL_REQUEST_INFO])\<lparr>res_tbl_next := 2, res_tbl :=
     [(1, \<lparr>r_resource_type = PP_RESOURCE_FILE_REF, r_ref_cnt = 1, r_instance = Some 10, r_self_id = 1,
         r_locked = False, r_payload = zero_payload PP_RESOURCE_FILE_REF\<rparr>)]\<rparr>"

lemma file_world_inv: "world_inv {#1#} {#} file_world"
proof -
  from pp_resource_allocate_inv [OF started_inv, of "[PP_RESOURCE_FILE_REF, PP_RESOURCE_URL_REQUEST_INFO]" PP_RESOURCE_FILE_REF "Some 10"]
  obtain w' where "pp_resource_allocate PP_RESOURCE_FILE_REF (Some 10)
      (started [PP_RESOURCE_FILE_REF, PP_RESOURCE_URL_REQUEST_INFO]) = Some (1, w')" "world_inv {#1#} {#} w'"
    by auto
  moreover from this(1) have "w' = file_world"
    by (simp add: pp_resource_allocate_def file_world_def Let_def)
  ultimately show ?thesis by simp
qed

theorem post_data_duplicate_free_witness:
  "\<exists>w'. post_data_duplicate (Some [data_item ''abc'' 3, file_item 1 0 5 0]) file_world =
      (Some [data_item ''abc'' 3, file_item 1 0 5 0], w') \<and>
    post_data_free (Some [data_item ''abc'' 3, file_item 1 0 5 0]) w' = Some file_world"
proof -
  have "\<forall>r\<in>set (file_refs [data_item ''abc'' 3, file_item 1 0 5 0]). ht_lookup (res_tbl file_world) r \<noteq> None"
    by (simp add: data_item_def file_item_def file_world_def)
  moreover have "list_all item_ok [data_item ''abc'' 3, file_item 1 0 5 0]"
    by (simp add: item_ok_def data_item_def file_item_def)
  ultimately show ?thesis
    using post_data_duplicate_free [OF file_world_inv, of "[data_item ''abc'' 3, file_item 1 0 5 0]"] by blast
qed


text \<open>A file that goes on for ever, and one that is at its end.\<close>

definition endless_os :: "unit os" where
  "endless_os = \<lparr>os_open = \<lambda>_ _ s. (3, E_OK, s), os_stat = \<lambda>_ _. (None, ENOENT), os_fstat = \<lambda>_ _. (None, ENOENT),
     os_lstat = \<lambda>_ _. (None, ENOENT), os_mkdir = \<lambda>_ s. (0, E_OK, s), os_rename = \<lambda>_ _ s. (0, E_OK, s),
     os_unlink = \<lambda>_ s. (0, E_OK, s), os_scandir = \<lambda>_ _. None,
     os_read = \<lambda>fd n s. (Some (if fd = 3 then replicate (min n 10) (CHR ''x'') else []), s),
     os_write = \<lambda>_ bs s. (int (length bs), s), os_lseek = \<lambda>_ _ s. (True, s), os_close = \<lambda>_ s. s,
     os_mkstemp = \<lambda>t s. (3, t, s)\<rparr>"


text \<open>C37: At the end of the file the copy never returns: a file that is shorter than the slice
  asked for hangs the caller.\<close>

theorem post_data_short_file_hangs:
  assumes "\<forall>n. os_read os fd n s = (Some [], s)" and "0 < n"
  shows "copy_file os fd n acc s = None"
  using assms by (rule copy_file_stuck)

theorem post_data_short_file_hangs_witness: "copy_file endless_os 4 25 ''head'' () = None"
  by (rule post_data_short_file_hangs) (simp_all add: endless_os_def)

subsection \<open>Properties of a request\<close>

datatype field = FText "string option" | FBool bool | FInt int | FMethod pp_request_method_e

fun request_field :: "PP_URLRequestProperty \<Rightarrow> pp_url_request_info_s \<Rightarrow> field option" where
  "request_field PP_URLREQUESTPROPERTY_URL ri = Some (FText (ri_url ri))"
| "request_field PP_URLREQUESTPROPERTY_METHOD ri = Some (FMethod (ri_method ri))"
| "request_field PP_URLREQUESTPROPERTY_HEADERS ri = Some (FText (ri_headers ri))"
| "request_field PP_URLREQUESTPROPERTY_STREAMTOFILE ri = Some (FBool (ri_stream_to_file ri))"
| "request_field PP_URLREQUESTPROPERTY_FOLLOWREDIRECTS ri = Some (FBool (ri_follow_redirects ri))"
| "request_field PP_URLREQUESTPROPERTY_RECORDDOWNLOADPROGRESS ri = Some (FBool (ri_record_download_progress ri))"
| "request_field PP_URLREQUESTPROPERTY_RECORDUPLOADPROGRESS ri = Some (FBool (ri_record_upload_progress ri))"
| "request_field PP_URLREQUESTPROPERTY_CUSTOMREFERRERURL ri = Some (FText (ri_custom_referrer_url ri))"
| "request_field PP_URLREQUESTPROPERTY_ALLOWCROSSORIGINREQUESTS ri = Some (FBool (ri_allow_cross_origin_requests ri))"
| "request_field PP_URLREQUESTPROPERTY_ALLOWCREDENTIALS ri = Some (FBool (ri_allow_credentials ri))"
| "request_field PP_URLREQUESTPROPERTY_CUSTOMCONTENTTRANSFERENCODING ri =
     Some (FText (ri_custom_content_transfer_encoding ri))"
| "request_field PP_URLREQUESTPROPERTY_PREFETCHBUFFERUPPERTHRESHOLD ri =
     Some (FInt (ri_prefetch_buffer_upper_threshold ri))"
| "request_field PP_URLREQUESTPROPERTY_PREFETCHBUFFERLOWERTHRESHOLD ri =
     Some (FInt (ri_prefetch_buffer_lower_threshold ri))"
| "request_field PP_URLREQUESTPROPERTY_CUSTOMUSERAGENT ri = Some (FText (ri_custom_user_agent ri))"
| "request_field (PP_URLREQUESTPROPERTY_OTHER _) ri = None"

text \<open>
  What a field should hold after it was set from a value, by the kind of the field: a value of
  another type is no value for it.
\<close>

fun value_for :: "PP_URLRequestProperty \<Rightarrow> field \<Rightarrow> PP_Var \<Rightarrow> string \<Rightarrow> field option" where
  "value_for property (FText _) v str =
     (if is_string v then Some (FText (Some (if property = PP_URLREQUESTPROPERTY_URL then ltrim str else str))) else None)"
| "value_for property (FMethod _) v str = (if is_string v then Some (FMethod (method_of str)) else None)"
| "value_for property (FBool _) v str = map_option FBool (bool_value v)"
| "value_for property (FInt _) v str = map_option FInt (int_value v)"

lemma set_property_Some:
  "set_property property v str ri = Some ri' \<Longrightarrow>
    (\<exists>x. Option.bind (request_field property ri) (\<lambda>f. value_for property f v str) = Some x \<and>
      request_field property ri' = Some x) \<and> ri_post_data ri' = ri_post_data ri"
  by (cases property) (auto split: if_splits)

lemma set_property_other:
  "set_property property v str ri = Some ri' \<Longrightarrow> q \<noteq> property \<Longrightarrow> request_field q ri' = request_field q ri"
  by (cases property; clarsimp split: if_splits; cases q; simp)

lemma set_property_None:
  "set_property property v str ri = None \<Longrightarrow>
    Option.bind (request_field property ri) (\<lambda>f. value_for property f v str) = None"
  by (cases property) (auto split: if_splits)

lemma var_text_frame [simp]: "var_text v (w\<lparr>res_tbl := t\<rparr>) = var_text v w"
  by (cases v) (simp_all add: var_text_def ppb_var_var_to_utf8_def get_var_s_def)

text \<open>C40: A request takes a property exactly when it knows it and the value has the property's type;
  it then holds the value, every other property and the posted data are as before, and the counts of
  the whole state stay exact. Otherwise nothing changes.\<close>

theorem request_set_property:
  assumes inv: "world_inv extR extV w" and av: "available r PP_RESOURCE_URL_REQUEST_INFO w e"
    and ri: "r_payload e = PL_url_request_info ri" and str: "var_text v w = Some str"
  shows "\<exists>ok w' ri'. ppb_url_request_info_set_property r property v w = Some (ok, w') \<and>
    world_inv extR extV w' \<and> available r PP_RESOURCE_URL_REQUEST_INFO w' (e\<lparr>r_payload := PL_url_request_info ri'\<rparr>) \<and>
    (case Option.bind (request_field property ri) (\<lambda>f. value_for property f v str) of
       None \<Rightarrow> \<not> ok \<and> w' = w
     | Some x \<Rightarrow> ok \<and> request_field property ri' = Some x) \<and>
    (\<forall>q. q = property \<or> request_field q ri' = request_field q ri) \<and> ri_post_data ri' = ri_post_data ri"
proof -
  have e: "ht_lookup (res_tbl w) r = Some e" "r_resource_type e = PP_RESOURCE_URL_REQUEST_INFO"
    using av by (simp_all add: available_def)
  have set: "ppb_url_request_info_set_property r property v w =
      Some (case set_property property v str ri of
        None \<Rightarrow> (False, w)
      | Some ri' \<Rightarrow> (True, w\<lparr>res_tbl := ht_insert r (e\<lparr>r_payload := PL_url_request_info ri'\<rparr>) (res_tbl w)\<rparr>))"
    using av e(1) str
    by (cases "set_property property v str ri")
      (simp_all add: ppb_url_request_info_set_property_def with_resource_def acquire_available [OF av] ri
        release_counted res_write_def available_def, simp add: ht_insert_same r_relock ri [symmetric])
  show ?thesis
  proof (cases "set_property property v str ri")
    case None
    have "available r PP_RESOURCE_URL_REQUEST_INFO w (e\<lparr>r_payload := PL_url_request_info ri\<rparr>)"
      using av ri by (cases e) simp
    with None show ?thesis
      using set inv set_property_None [OF None] by (intro exI [of _ False] exI [of _ w] exI [of _ ri]) simp
  next
    case (Some ri')
    let ?w = "w\<lparr>res_tbl := ht_insert r (e\<lparr>r_payload := PL_url_request_info ri'\<rparr>) (res_tbl w)\<rparr>"
    note f = set_property_Some [OF Some]
    obtain x where x: "Option.bind (request_field property ri) (\<lambda>f. value_for property f v str) = Some x"
      "request_field property ri' = Some x" using f by blast
    have "world_inv extR extV ?w"
      using f ri e by (intro world_inv_write [OF inv e(1)]) simp_all
    moreover have "available r PP_RESOURCE_URL_REQUEST_INFO ?w (e\<lparr>r_payload := PL_url_request_info ri'\<rparr>)"
      using av by (simp add: available_def)
    ultimately show ?thesis
      using set Some f x set_property_other [OF Some] by (intro exI [of _ True] exI [of _ ?w] exI [of _ ri']) auto
  qed
qed

definition request_world :: world where
  "request_world = (case ppb_url_request_info_create 10 (started [PP_RESOURCE_URL_REQUEST_INFO]) of
     Some (r, w) \<Rightarrow> w | None \<Rightarrow> started [])"

lemma request_world_facts:
  "\<exists>e ri. world_inv {#1#} {#} request_world \<and> available 1 PP_RESOURCE_URL_REQUEST_INFO request_world e \<and>
    r_payload e = PL_url_request_info ri"
proof -
  let ?types = "[PP_RESOURCE_URL_REQUEST_INFO]"
  let ?pl = "PL_url_request_info (zero_url_request_info
          \<lparr>ri_method := PP_METHOD_UNKNOWN, ri_url := None, ri_headers := None, ri_stream_to_file := False,
           ri_follow_redirects := True, ri_record_download_progress := False,
           ri_record_upload_progress := False, ri_custom_referrer_url := None,
           ri_allow_cross_origin_requests := False, ri_allow_credentials := False,
           ri_custom_content_transfer_encoding := None, ri_prefetch_buffer_upper_threshold := - 1,
           ri_prefetch_buffer_lower_threshold := - 1, ri_custom_user_agent := None,
           ri_post_data := Some post_data_new\<rparr>)"
  from create_resource_ok [OF started_inv, of ?types PP_RESOURCE_URL_REQUEST_INFO 10 sample_instance ?pl]
  obtain r w' where w': "create_resource 10 PP_RESOURCE_URL_REQUEST_INFO ?pl (started ?types) = Some (r, w')"
    "world_inv (add_mset r {#}) {#} w'"
    "available r PP_RESOURCE_URL_REQUEST_INFO w' \<lparr>r_resource_type = PP_RESOURCE_URL_REQUEST_INFO, r_ref_cnt = 1,
       r_instance = Some (pi_id sample_instance), r_self_id = r, r_locked = False, r_payload = ?pl\<rparr>" "0 < r"
    by (auto simp: post_data_new_def)
  have "r = 1" using create_resource_id [OF w'(1)] w'(4) by simp
  moreover have "request_world = w'" using w'(1) by (simp add: request_world_def ppb_url_request_info_create_def)
  ultimately show ?thesis using w'(2,3) by (intro exI [of _ "_::pp_resource_s"] exI conjI) auto
qed

theorem request_set_property_witness:
  "\<exists>w'. ppb_url_request_info_set_property 1 PP_URLREQUESTPROPERTY_STREAMTOFILE (VBool True) request_world = Some (True, w') \<and>
    world_inv {#1#} {#} w' \<and>
    ppb_url_request_info_set_property 1 PP_URLREQUESTPROPERTY_STREAMTOFILE (VInt32 1) request_world = Some (False, request_world)"
proof -
  obtain e ri where f: "world_inv {#1#} {#} request_world" "available 1 PP_RESOURCE_URL_REQUEST_INFO request_world e"
    "r_payload e = PL_url_request_info ri" using request_world_facts by blast
  have "var_text (VBool True) request_world = Some []" "var_text (VInt32 1) request_world = Some []"
    by (simp_all add: var_text_def ppb_var_var_to_utf8_def c_str_def)
  from request_set_property [OF f this(1), of PP_URLREQUESTPROPERTY_STREAMTOFILE]
    request_set_property [OF f this(2), of PP_URLREQUESTPROPERTY_STREAMTOFILE]
  show ?thesis by auto
qed

end
