(* ===== verification/Uri.thy ===== *)
theory Uri
  imports Paths Tables
begin

text \<open>
  \<^verbatim>\<open>uri_parser.c\<close> and \<^verbatim>\<open>ppb_url_util.c\<close>: resolving a reference against a base, as RFC 3986
  section 5.2 has it. The automaton behind \<^verbatim>\<open>uri_parser_parse_uri\<close> is generated by Ragel and
  is the parameter \<open>parse\<close>: a function from a text to its components. A component is a range
  of positions; reading one that is not within its text is undefined (\<open>None\<close>).
\<close>

section \<open>Components\<close>

record PP_URLComponent_Dev =
  uc_begin :: int
  uc_len :: int

record PP_URLComponents_Dev =
  uc_scheme :: PP_URLComponent_Dev
  uc_username :: PP_URLComponent_Dev
  uc_password :: PP_URLComponent_Dev
  uc_host :: PP_URLComponent_Dev
  uc_port :: PP_URLComponent_Dev
  uc_path :: PP_URLComponent_Dev
  uc_query :: PP_URLComponent_Dev
  uc_ref :: PP_URLComponent_Dev

definition absent :: PP_URLComponent_Dev where
  "absent = \<lparr>uc_begin = 0, uc_len = -1\<rparr>"

definition set_url_component :: "int \<Rightarrow> int \<Rightarrow> PP_URLComponent_Dev" where
  "set_url_component b e = \<lparr>uc_begin = b, uc_len = e - b\<rparr>"

definition reset_url_components :: PP_URLComponents_Dev where
  "reset_url_components = \<lparr>uc_scheme = absent, uc_username = absent, uc_password = absent,
     uc_host = absent, uc_port = absent, uc_path = absent, uc_query = absent, uc_ref = absent\<rparr>"

definition urlcomponent_is_empty :: "PP_URLComponent_Dev \<Rightarrow> bool" where
  "urlcomponent_is_empty c \<longleftrightarrow> uc_begin c = 0 \<and> uc_len c = -1"

definition urlcomponent_is_not_empty :: "PP_URLComponent_Dev \<Rightarrow> bool" where
  "urlcomponent_is_not_empty c \<longleftrightarrow> \<not> urlcomponent_is_empty c"

definition authority_is_not_empty :: "PP_URLComponents_Dev \<Rightarrow> bool" where
  "authority_is_not_empty c \<longleftrightarrow>
     urlcomponent_is_not_empty (uc_username c) \<or> urlcomponent_is_not_empty (uc_password c) \<or>
     urlcomponent_is_not_empty (uc_host c) \<or> urlcomponent_is_not_empty (uc_port c)"

definition extract_component :: "string \<Rightarrow> PP_URLComponent_Dev \<Rightarrow> string option" where
  "extract_component s c =
     (let len = (if 0 \<le> uc_len c then uc_len c else 0) in
      if 0 \<le> uc_begin c \<and> uc_begin c + len \<le> int (length s)
      then Some (take (nat len) (drop (nat (uc_begin c)) s)) else None)"

text \<open>From the first present part of the authority to the end of the last.\<close>

definition authority_begin :: "PP_URLComponents_Dev \<Rightarrow> int" where
  "authority_begin c =
     (let b = 0;
          b = (if 0 \<le> uc_len (uc_port c) then uc_begin (uc_port c) else b);
          b = (if 0 \<le> uc_len (uc_host c) then uc_begin (uc_host c) else b);
          b = (if 0 \<le> uc_len (uc_password c) then uc_begin (uc_password c) else b)
      in if 0 \<le> uc_len (uc_username c) then uc_begin (uc_username c) else b)"

definition component_end :: "PP_URLComponent_Dev \<Rightarrow> int" where
  "component_end c = uc_begin c + uc_len c"

definition authority_end :: "PP_URLComponents_Dev \<Rightarrow> int" where
  "authority_end c =
     (let e = -1;
          e = (if 0 \<le> uc_len (uc_username c) then component_end (uc_username c) else e);
          e = (if 0 \<le> uc_len (uc_password c) then component_end (uc_password c) else e);
          e = (if 0 \<le> uc_len (uc_host c) then component_end (uc_host c) else e)
      in if 0 \<le> uc_len (uc_port c) then component_end (uc_port c) else e)"

definition extract_authority :: "string \<Rightarrow> PP_URLComponents_Dev \<Rightarrow> string option" where
  "extract_authority s c =
     extract_component s \<lparr>uc_begin = authority_begin c, uc_len = authority_end c - authority_begin c\<rparr>"

section \<open>Merging\<close>

text \<open>The base path up to its last slash.\<close>

definition base_dir :: "string \<Rightarrow> string" where
  "base_dir p = rev (dropWhile (\<lambda>c. c \<noteq> slash) (rev p))"

definition merge_path ::
  "string \<Rightarrow> PP_URLComponents_Dev \<Rightarrow> string \<Rightarrow> PP_URLComponents_Dev \<Rightarrow> string option" where
  "merge_path base_uri base_c rel_uri rel_c = do {
     rel_path \<leftarrow> extract_component rel_uri (uc_path rel_c);
     (if 0 < uc_len (uc_host base_c) \<and> uc_len (uc_path base_c) \<le> 0 then Some (slash # rel_path)
      else do {
        base_path \<leftarrow> extract_component base_uri (uc_path base_c);
        Some (base_dir base_path @ rel_path)
      })
   }"

definition is_file_scheme :: "string \<Rightarrow> PP_URLComponents_Dev \<Rightarrow> bool" where
  "is_file_scheme s c \<longleftrightarrow> uc_len (uc_scheme c) = 4 \<and> extract_component s (uc_scheme c) = Some ''file''"

text \<open>Scheme, authority, path and query of the result.\<close>

definition resolve_parts ::
  "string \<Rightarrow> PP_URLComponents_Dev \<Rightarrow> string \<Rightarrow> PP_URLComponents_Dev \<Rightarrow>
   (string \<times> string \<times> string \<times> string) option" where
  "resolve_parts base_uri base_c rel_uri rel_c =
     (if urlcomponent_is_not_empty (uc_scheme rel_c) then do {
        scheme \<leftarrow> extract_component rel_uri (uc_scheme rel_c);
        authority \<leftarrow> extract_authority rel_uri rel_c;
        path \<leftarrow> extract_component rel_uri (uc_path rel_c);
        query \<leftarrow> extract_component rel_uri (uc_query rel_c);
        Some (scheme, authority, remove_dot_segments path, query)
      }
      else do {
        (authority, path, query) \<leftarrow>
          (if authority_is_not_empty rel_c then do {
             authority \<leftarrow> extract_authority rel_uri rel_c;
             path \<leftarrow> extract_component rel_uri (uc_path rel_c);
             query \<leftarrow> extract_component rel_uri (uc_query rel_c);
             Some (authority, remove_dot_segments path, query)
           }
           else do {
             (path, query) \<leftarrow>
               (if uc_len (uc_path rel_c) \<le> 0 then do {
                  path \<leftarrow> extract_component base_uri (uc_path base_c);
                  query \<leftarrow> (if urlcomponent_is_not_empty (uc_query rel_c)
                           then extract_component rel_uri (uc_query rel_c)
                           else extract_component base_uri (uc_query base_c));
                  Some (path, query)
                }
                else do {
                  rel_path \<leftarrow> extract_component rel_uri (uc_path rel_c);
                  path \<leftarrow> (if hd rel_path = slash then Some rel_path
                          else merge_path base_uri base_c rel_uri rel_c);
                  query \<leftarrow> extract_component rel_uri (uc_query rel_c);
                  Some (remove_dot_segments path, query)
                });
             authority \<leftarrow> extract_authority base_uri base_c;
             Some (authority, path, query)
           });
        scheme \<leftarrow> extract_component base_uri (uc_scheme base_c);
        Some (scheme, authority, path, query)
      })"

definition print_uri :: "bool \<Rightarrow> string \<times> string \<times> string \<times> string \<Rightarrow> string \<Rightarrow> string" where
  "print_uri scheme_is_file parts fragment =
     (case parts of (scheme, authority, path, query) \<Rightarrow>
        scheme @ (if scheme \<noteq> [] then '':'' else []) @
        (if authority \<noteq> [] \<or> scheme_is_file then ''//'' else []) @ authority @ path @
        (if query \<noteq> [] then ''?'' else []) @ query @
        (if fragment \<noteq> [] then ''#'' else []) @ fragment)"

definition uri_parser_merge_uris ::
  "(string \<Rightarrow> PP_URLComponents_Dev) \<Rightarrow> string \<Rightarrow> string \<Rightarrow> string option" where
  "uri_parser_merge_uris parse base_uri rel_uri = do {
     let base_c = parse base_uri;
     let scheme_is_file = is_file_scheme base_uri base_c;
     let rel_uri = (if scheme_is_file then dropWhile (\<lambda>c. c = slash) rel_uri else rel_uri);
     let rel_c = parse rel_uri;
     parts \<leftarrow> resolve_parts base_uri base_c rel_uri rel_c;
     fragment \<leftarrow> extract_component rel_uri (uc_ref rel_c);
     Some (print_uri scheme_is_file parts fragment)
   }"

section \<open>The interface\<close>

text \<open>
  The second component of a result is what is written through \<^verbatim>\<open>components\<close>; the caller may
  pass NULL (\<open>want\<close> false).
\<close>

definition ppb_url_util_canonicalize ::
  "(string \<Rightarrow> PP_URLComponents_Dev) \<Rightarrow> PP_Var \<Rightarrow> bool \<Rightarrow> 'a var_state_scheme \<Rightarrow>
   (PP_Var \<times> PP_URLComponents_Dev option) option" where
  "ppb_url_util_canonicalize parse url want w =
     (if want then do { s \<leftarrow> var_text url w; Some (url, Some (parse s)) } else Some (url, None))"

definition ppb_url_util_resolve_relative_to_url ::
  "(string \<Rightarrow> PP_URLComponents_Dev) \<Rightarrow> PP_Var \<Rightarrow> PP_Var \<Rightarrow> bool \<Rightarrow> 'a var_state_scheme \<Rightarrow>
   (PP_Var \<times> PP_URLComponents_Dev option \<times> 'a var_state_scheme) option" where
  "ppb_url_util_resolve_relative_to_url parse base_url relative_string want w = do {
     s_base_url \<leftarrow> var_text base_url w;
     s_relative_string \<leftarrow> var_text relative_string w;
     res \<leftarrow> uri_parser_merge_uris parse s_base_url s_relative_string;
     (var, w) \<leftarrow> ppb_var_var_from_utf8_z (Some (res @ [NUL])) w;
     Some (var, if want then Some (parse res) else None, w)
   }"

definition ppb_url_util_resolve_relative_to_document ::
  "(string \<Rightarrow> PP_URLComponents_Dev) \<Rightarrow> PP_Instance \<Rightarrow> PP_Var \<Rightarrow> bool \<Rightarrow> 'a world_scheme \<Rightarrow>
   (PP_Var \<times> PP_URLComponents_Dev option \<times> 'a world_scheme) option" where
  "ppb_url_util_resolve_relative_to_document parse instance relative_string want w =
     (case tables_get_pp_instance instance w of
        None \<Rightarrow> Some (VUndefined, None, w)
      | Some pp_i \<Rightarrow>
          ppb_url_util_resolve_relative_to_url parse (pi_document_base_url pp_i) relative_string want w)"

text \<open>The three security questions are always answered yes.\<close>

definition ppb_url_util_is_same_security_origin :: "PP_Var \<Rightarrow> PP_Var \<Rightarrow> bool" where
  "ppb_url_util_is_same_security_origin url_a url_b = True"

definition ppb_url_util_document_can_request :: "PP_Instance \<Rightarrow> PP_Var \<Rightarrow> bool" where
  "ppb_url_util_document_can_request instance url = True"

definition ppb_url_util_document_can_access_document :: "PP_Instance \<Rightarrow> PP_Instance \<Rightarrow> bool" where
  "ppb_url_util_document_can_access_document active target = True"

text \<open>The document's URL is handed out without a reference, the instance's with one.\<close>

definition ppb_url_util_get_document_url ::
  "(string \<Rightarrow> PP_URLComponents_Dev) \<Rightarrow> PP_Instance \<Rightarrow> bool \<Rightarrow> 'a world_scheme \<Rightarrow>
   (PP_Var \<times> PP_URLComponents_Dev option \<times> 'a world_scheme) option" where
  "ppb_url_util_get_document_url parse instance want w =
     (case tables_get_pp_instance instance w of
        None \<Rightarrow> Some (VUndefined, None, w)
      | Some pp_i \<Rightarrow>
          (if want then do {
             s \<leftarrow> var_text (pi_document_url pp_i) w;
             Some (pi_document_url pp_i, Some (parse s), w)
           }
           else Some (pi_document_url pp_i, None, w)))"

definition ppb_url_util_get_plugin_instance_url ::
  "(string \<Rightarrow> PP_URLComponents_Dev) \<Rightarrow> PP_Instance \<Rightarrow> bool \<Rightarrow> 'a world_scheme \<Rightarrow>
   (PP_Var \<times> PP_URLComponents_Dev option \<times> 'a world_scheme) option" where
  "ppb_url_util_get_plugin_instance_url parse instance want w =
     (case tables_get_pp_instance instance w of
        None \<Rightarrow> Some (VUndefined, None, w)
      | Some pp_i \<Rightarrow>
          let var = pi_instance_url pp_i; w = ppb_var_add_ref var w in
          (if want then do { s \<leftarrow> var_text var w; Some (var, Some (parse s), w) }
           else Some (var, None, w)))"

definition ppb_url_util_get_plugin_referrer_url ::
  "(string \<Rightarrow> PP_URLComponents_Dev) \<Rightarrow> bool \<Rightarrow> 'a var_state_scheme \<Rightarrow>
   (PP_Var \<times> PP_URLComponents_Dev option \<times> 'a var_state_scheme) option" where
  "ppb_url_util_get_plugin_referrer_url parse want w = do {
     (var, w) \<leftarrow> ppb_var_var_from_utf8_z (Some [NUL]) w;
     Some (var, if want then Some (parse []) else None, w)
   }"

section \<open>Lemmas\<close>

definition within :: "string \<Rightarrow> PP_URLComponent_Dev \<Rightarrow> bool" where
  "within s c \<longleftrightarrow> 0 \<le> uc_begin c \<and> uc_begin c + (if 0 \<le> uc_len c then uc_len c else 0) \<le> int (length s)"

text \<open>
  What the interface's documentation promises of the parse of a text: every component is a
  range of the text or absent (begin 0, length -1).
\<close>

definition parsed_ok :: "string \<Rightarrow> PP_URLComponents_Dev \<Rightarrow> bool" where
  "parsed_ok s c \<longleftrightarrow> list_all (\<lambda>x. within s x \<and> (uc_len x < 0 \<longrightarrow> x = absent))
     [uc_scheme c, uc_username c, uc_password c, uc_host c, uc_port c, uc_path c, uc_query c, uc_ref c]"

lemma extract_component_within: "within s c \<Longrightarrow> extract_component s c =
    Some (take (nat (uc_len c)) (drop (nat (uc_begin c)) s))"
  by (auto simp: extract_component_def within_def Let_def)

lemma parsed_okD:
  "parsed_ok s c \<Longrightarrow> within s (uc_scheme c)" "parsed_ok s c \<Longrightarrow> within s (uc_path c)"
  "parsed_ok s c \<Longrightarrow> within s (uc_query c)" "parsed_ok s c \<Longrightarrow> within s (uc_ref c)"
  "parsed_ok s c \<Longrightarrow> within s (uc_host c)"
  by (simp_all add: parsed_ok_def)

lemma extract_authority_ok:
  assumes "parsed_ok s c"
  shows "\<exists>a. extract_authority s c = Some a"
proof -
  have "0 \<le> authority_begin c \<and> authority_begin c \<le> int (length s) \<and> authority_end c \<le> int (length s)"
    using assms unfolding parsed_ok_def within_def authority_begin_def authority_end_def component_end_def Let_def
    by (auto split: if_splits)
  then show ?thesis
    by (simp add: extract_authority_def extract_component_def Let_def)
qed

lemma merge_path_ok:
  assumes "parsed_ok s c" "parsed_ok t d"
  shows "\<exists>p. merge_path s c t d = Some p"
  by (simp add: merge_path_def extract_component_within [OF parsed_okD(2) [OF assms(1)]]
    extract_component_within [OF parsed_okD(2) [OF assms(2)]])

lemma resolve_parts_ok:
  assumes "parsed_ok s c" "parsed_ok t d"
  shows "\<exists>x. resolve_parts s c t d = Some x"
proof -
  obtain a where a: "extract_authority s c = Some a" using extract_authority_ok [OF assms(1)] by blast
  obtain b where b: "extract_authority t d = Some b" using extract_authority_ok [OF assms(2)] by blast
  obtain p where p: "merge_path s c t d = Some p" using merge_path_ok [OF assms] by blast
  note ex = parsed_okD(1-4) [OF assms(1), THEN extract_component_within]
    parsed_okD(1-4) [OF assms(2), THEN extract_component_within]
  show ?thesis
    unfolding resolve_parts_def by (simp add: a b p ex)
qed

section \<open>Properties\<close>

text \<open>On any two texts whose parse is as documented, resolving a reference is defined: it
  never reads outside either text, whatever parts the two have.\<close>

theorem merge_uris_defined:
  assumes "\<forall>s. parsed_ok s (parse s)"
  shows "\<exists>res. uri_parser_merge_uris parse base rel = Some res"
proof -
  let ?rel = "if is_file_scheme base (parse base) then dropWhile (\<lambda>c. c = slash) rel else rel"
  have "\<exists>x. resolve_parts base (parse base) ?rel (parse ?rel) = Some x"
    using assms by (intro resolve_parts_ok) auto
  moreover have "\<exists>f. extract_component ?rel (uc_ref (parse ?rel)) = Some f"
    using assms extract_component_within parsed_okD(4) by blast
  ultimately show ?thesis
    by (auto simp: uri_parser_merge_uris_def Let_def)
qed

theorem merge_uris_defined_witness:
  "\<exists>res. uri_parser_merge_uris (\<lambda>s. reset_url_components\<lparr>uc_path := set_url_component 0 (int (length s))\<rparr>)
    ''a/b'' ''../c'' = Some res"
  by (rule merge_uris_defined)
    (simp add: parsed_ok_def reset_url_components_def set_url_component_def within_def absent_def)

text \<open>A reference that has only a relative path, against a base that is no local file: the
  result has the base's scheme and authority, and its path is the base path up to its last
  slash followed by the reference, with the dot segments resolved as the specification of
  \<open>remove_dot_segments\<close> has it; a base with a host and no path counts as having the path
  of the root.\<close>

theorem merge_uris_relative_path:
  assumes "parsed_ok base (parse base)" and "parsed_ok rel (parse rel)"
    and "\<not> is_file_scheme base (parse base)"
    and "uc_scheme (parse rel) = absent" and "\<not> authority_is_not_empty (parse rel)"
    and "extract_component rel (uc_path (parse rel)) = Some p" and "p \<noteq> []" and "hd p \<noteq> slash"
    and "extract_component base (uc_path (parse base)) = Some bp"
    and "extract_component base (uc_scheme (parse base)) = Some scheme"
    and "extract_authority base (parse base) = Some authority"
    and "extract_component rel (uc_query (parse rel)) = Some q"
    and "extract_component rel (uc_ref (parse rel)) = Some f"
  shows "uri_parser_merge_uris parse base rel = Some (print_uri False (scheme, authority,
    resolve_path (split_at (\<lambda>c. c = slash)
      (if 0 < uc_len (uc_host (parse base)) \<and> bp = [] then slash # p else base_dir bp @ p)), q) f)"
proof -
  have len: "0 < uc_len (uc_path (parse rel))"
    using assms(6,7) by (auto simp: extract_component_def Let_def split: if_splits)
  have bp: "uc_len (uc_path (parse base)) \<le> 0 \<longleftrightarrow> bp = []"
    using assms(9) by (auto simp: extract_component_def Let_def split: if_splits)
  have "merge_path base (parse base) rel (parse rel) =
      Some (if 0 < uc_len (uc_host (parse base)) \<and> bp = [] then slash # p else base_dir bp @ p)"
    using assms(6,9) bp by (simp add: merge_path_def)
  then show ?thesis
    using assms len
    by (simp add: uri_parser_merge_uris_def Let_def resolve_parts_def urlcomponent_is_not_empty_def
      urlcomponent_is_empty_def absent_def remove_dot_segments_def scan_path_spec)
qed

definition sample_parse :: "string \<Rightarrow> PP_URLComponents_Dev" where
  "sample_parse s =
     (if s = ''http://a/b/c?q'' then reset_url_components\<lparr>uc_scheme := set_url_component 0 4,
        uc_host := set_url_component 7 8, uc_path := set_url_component 8 12,
        uc_query := set_url_component 13 14\<rparr>
      else reset_url_components\<lparr>uc_path := set_url_component 0 (int (length s))\<rparr>)"

theorem merge_uris_relative_path_witness:
  "uri_parser_merge_uris sample_parse ''http://a/b/c?q'' ''../g'' = Some ''http://a/g''"
proof -
  note [simp] = sample_parse_def reset_url_components_def set_url_component_def absent_def
    extract_component_def
  have "uri_parser_merge_uris sample_parse ''http://a/b/c?q'' ''../g'' = Some (print_uri False
    (''http'', ''a'', resolve_path (split_at (\<lambda>c. c = slash)
      (if 0 < uc_len (uc_host (sample_parse ''http://a/b/c?q'')) \<and> ''/b/c'' = [] then slash # ''../g''
       else base_dir ''/b/c'' @ ''../g'')), []) [])"
    by (rule merge_uris_relative_path)
      (simp_all add: parsed_ok_def within_def is_file_scheme_def authority_is_not_empty_def
        urlcomponent_is_not_empty_def urlcomponent_is_empty_def extract_authority_def authority_begin_def
        authority_end_def component_end_def)
  then show ?thesis
    by (simp add: print_uri_def base_dir_def resolve_path_def resolve_def with_slashes_def)
qed

end
