(* ===== verification/Url_Loader.thy ===== *)
theory Url_Loader
  imports Url_Request Uri Print_Numbers
begin

text \<open>
  \<^verbatim>\<open>ppb_url_loader.c\<close> and \<^verbatim>\<open>ppb_url_response_info.c\<close>: a loader takes a request over, hands it to
  the browser on the browser's thread, and keeps the response in a temporary file that the
  plugin reads. Opening is two functions here, what runs before the nested message loop and
  what runs after it; \<^verbatim>\<open>url_loader_open_ptac\<close> is what the browser's thread runs meanwhile. The
  browser's functions are the parameter \<open>npn\<close> on a state \<open>'n\<close>, its streams a table by address.
\<close>

section \<open>The browser\<close>

type_synonym NPError = int

abbreviation (input) NPERR_NO_ERROR :: NPError where "NPERR_NO_ERROR \<equiv> 0"
abbreviation (input) NPERR_INVALID_INSTANCE_ERROR :: NPError where "NPERR_INVALID_INSTANCE_ERROR \<equiv> 2"

record 'n npn =
  np_posturl :: "ptr \<Rightarrow> string option \<Rightarrow> string \<Rightarrow> char list \<Rightarrow> 'n \<Rightarrow> NPError \<times> 'n"
  np_posturlnotify :: "ptr \<Rightarrow> string option \<Rightarrow> char list \<Rightarrow> PP_Resource \<Rightarrow> 'n \<Rightarrow> NPError \<times> 'n"
  np_geturl :: "ptr \<Rightarrow> string option \<Rightarrow> string \<Rightarrow> 'n \<Rightarrow> NPError \<times> 'n"
  np_geturlnotify :: "ptr \<Rightarrow> string option \<Rightarrow> PP_Resource \<Rightarrow> 'n \<Rightarrow> NPError \<times> 'n"
  np_urlredirectresponse :: "ptr \<Rightarrow> PP_Resource \<Rightarrow> bool \<Rightarrow> 'n \<Rightarrow> 'n"

record NPStream =
  st_pdata :: PP_Resource
  st_url :: "string option"
  st_end :: u32
  st_notifyData :: PP_Resource
  st_headers :: "string option"

type_synonym streams = "(ptr, NPStream) hash_table"

section \<open>Creation\<close>

fun the_loader :: "payload \<Rightarrow> pp_url_loader_s option" where
  "the_loader (PL_url_loader ul) = Some ul"
| "the_loader _ = None"

definition ppb_url_loader_create :: "PP_Instance \<Rightarrow> 'a world_scheme \<Rightarrow> (PP_Resource \<times> 'a world_scheme) option" where
  "ppb_url_loader_create instance w =
     create_resource instance PP_RESOURCE_URL_LOADER
       (PL_url_loader (zero_url_loader\<lparr>ul_response_size := - 1, ul_method := PP_METHOD_GET, ul_fd := - 1\<rparr>)) w"

definition ppb_url_loader_is_url_loader :: "PP_Resource \<Rightarrow> 'a res_state_scheme \<Rightarrow> bool" where
  "ppb_url_loader_is_url_loader resource w \<longleftrightarrow> pp_resource_get_type resource w = PP_RESOURCE_URL_LOADER"

section \<open>What the browser's thread runs\<close>

record url_loader_open_param_s =
  op_url :: "string option"
  op_loader :: PP_Resource
  op_instance_id :: PP_Instance
  op_method :: pp_request_method_e
  op_request_headers :: "string option"
  op_custom_referrer_url :: "string option"
  op_custom_content_transfer_encoding :: "string option"
  op_custom_user_agent :: "string option"
  op_target :: "string option"
  op_post_data :: "post_data_item_s list option"
  op_m_loop :: PP_Resource
  op_depth :: int
  op_retval :: int

definition header_text :: "string \<Rightarrow> string option \<Rightarrow> string" where
  "header_text name v = (case v of None \<Rightarrow> [] | Some s \<Rightarrow> name @ s @ CRLF)"

definition request_header_text :: "url_loader_open_param_s \<Rightarrow> string" where
  "request_header_text p =
     header_text [] (op_request_headers p) @
     header_text ''Referer: '' (op_custom_referrer_url p) @
     header_text ''Content-Transfer-Encoding: '' (op_custom_content_transfer_encoding p) @
     header_text ''User-Agent: '' (op_custom_user_agent p)"

fun write_items ::
  "(timespec \<Rightarrow> double_bits) \<Rightarrow> 'o os \<Rightarrow> post_data_item_s list \<Rightarrow> char list \<Rightarrow> 'a res_state_scheme \<Rightarrow> 'o \<Rightarrow>
   (char list \<times> 'a res_state_scheme \<times> 'o) option" where
  "write_items seconds os [] buf w s = Some (buf, w, s)"
| "write_items seconds os (pdi # pdis) buf w s = do {
     (buf, w, s) \<leftarrow> post_data_write_to_gstring seconds os pdi buf w s;
     write_items seconds os pdis buf w s
   }"

text \<open>
  The text of a POST request: the headers, the length of the data if there is any, an empty
  line if anything came before it, the data. \<open>None\<close> as the text: an item has no length, and
  nothing is sent.
\<close>

definition post_text ::
  "(timespec \<Rightarrow> double_bits) \<Rightarrow> 'o os \<Rightarrow> url_loader_open_param_s \<Rightarrow> 'a res_state_scheme \<Rightarrow> 'o \<Rightarrow>
   (char list option \<times> 'a res_state_scheme \<times> 'o) option" where
  "post_text seconds os p w s =
     (let buf = request_header_text p in
      case op_post_data p of
        None \<Rightarrow> Some (Some (if buf \<noteq> [] then buf @ CRLF else buf), w, s)
      | Some items \<Rightarrow> do {
          (post_len, w) \<leftarrow> post_data_get_all_item_length seconds os items w s;
          (if post_len = NO_LENGTH then Some (None, w, s)
           else do {
             let buf = (if 0 < post_len then buf @ ''Content-Length: '' @ print_u (unat post_len) @ CRLF else buf);
             let buf = (if buf \<noteq> [] then buf @ CRLF else buf);
             (buf, w, s) \<leftarrow> write_items seconds os items buf w s;
             Some (Some buf, w, s)
           })
        })"

text \<open>
  The result keeps the value \<open>op_retval\<close> had, which nothing initialised, when an item of the
  posted data has no length.
\<close>

definition url_loader_open_ptac ::
  "(timespec \<Rightarrow> double_bits) \<Rightarrow> 'o os \<Rightarrow> 'n npn \<Rightarrow> timespec \<Rightarrow> url_loader_open_param_s \<Rightarrow>
   'a world_scheme \<Rightarrow> 'o \<Rightarrow> 'n \<Rightarrow> (int \<times> 'a world_scheme \<times> 'o \<times> 'n) option" where
  "url_loader_open_ptac seconds os npn now p w s n = do {
     (retval, w, s, n) \<leftarrow>
       (case tables_get_pp_instance (op_instance_id p) w of
          None \<Rightarrow> Some (NPERR_INVALID_INSTANCE_ERROR, w, s, n)
        | Some pp_i \<Rightarrow>
            if op_method p = PP_METHOD_POST then do {
              (buf, w, s) \<leftarrow> post_text seconds os p w s;
              Some (case buf of
                  None \<Rightarrow> (op_retval p, w, s, n)
                | Some buf \<Rightarrow>
                    (case (case op_target p of
                        Some t \<Rightarrow> np_posturl npn (pi_npp pp_i) (op_url p) t buf n
                      | None \<Rightarrow> np_posturlnotify npn (pi_npp pp_i) (op_url p) buf (op_loader p) n) of
                       (retval, n) \<Rightarrow> (retval, w, s, n)))
            }
            else
              (case (case op_target p of
                  Some t \<Rightarrow> np_geturl npn (pi_npp pp_i) (op_url p) t n
                | None \<Rightarrow> np_geturlnotify npn (pi_npp pp_i) (op_url p) (op_loader p) n) of
                 (retval, n) \<Rightarrow> Some (retval, w, s, n)));
     w \<leftarrow> ppb_core_release_resource (op_loader p) w;
     (_, w) \<leftarrow> ppb_message_loop_post_quit_depth now (op_m_loop p) False (op_depth p) w;
     Some (retval, w, s, n)
   }"

section \<open>Opening\<close>

definition open_temporary_file :: "'o os \<Rightarrow> 'o \<Rightarrow> int \<times> 'o" where
  "open_temporary_file os s =
     (case os_mkstemp os ''/tmp/FreshStreamXXXXXX'' s of
        (fd, tmpfname, s) \<Rightarrow> (fd, snd (snd (os_unlink os tmpfname s))))"

definition trim_nl :: "string \<Rightarrow> string" where
  "trim_nl s = rev (dropWhile is_crlf (rev s))"

definition the_full_url ::
  "(string \<Rightarrow> PP_URLComponents_Dev) \<Rightarrow> PP_Instance \<Rightarrow> pp_url_request_info_s \<Rightarrow> 'a world_scheme \<Rightarrow>
   (PP_Var \<times> 'a world_scheme) option" where
  "the_full_url parse instance ri w =
     (let url = map_option (\<lambda>s. s @ [NUL]) (ri_url ri) in
      if ri_is_immediate_javascript ri then ppb_var_var_from_utf8_z url w
      else do {
        (rel_url, w) \<leftarrow> ppb_var_var_from_utf8_z url w;
        (full_url, _, w) \<leftarrow> ppb_url_util_resolve_relative_to_document parse instance rel_url False w;
        w \<leftarrow> ppb_var_release rel_url w;
        Some (full_url, w)
      })"

text \<open>The fields a loader takes over from a request.\<close>

definition take_over ::
  "string \<Rightarrow> string option \<Rightarrow> pp_url_request_info_s \<Rightarrow> post_data_item_s list option \<Rightarrow> int \<Rightarrow>
   PP_CompletionCallback \<Rightarrow> PP_Resource \<Rightarrow> pp_url_loader_s \<Rightarrow> pp_url_loader_s" where
  "take_over url target ri post_data fd callback ml ul = ul
     \<lparr>ul_url := Some url, ul_method := ri_method ri, ul_read_pos := 0,
      ul_request_headers := map_option trim_nl (ri_headers ri),
      ul_follow_redirects := ri_follow_redirects ri, ul_stream_to_file := ri_stream_to_file ri,
      ul_record_download_progress := ri_record_download_progress ri,
      ul_record_upload_progress := ri_record_upload_progress ri,
      ul_custom_referrer_url := map_option trim_nl (ri_custom_referrer_url ri),
      ul_allow_cross_origin_requests := ri_allow_cross_origin_requests ri,
      ul_allow_credentials := ri_allow_credentials ri,
      ul_custom_content_transfer_encoding := map_option trim_nl (ri_custom_content_transfer_encoding ri),
      ul_custom_user_agent := map_option trim_nl (ri_custom_user_agent ri), ul_target := target,
      ul_post_data := post_data, ul_fd := fd, ul_ccb := callback, ul_ccb_ml := ml\<rparr>"

definition open_param ::
  "PP_Resource \<Rightarrow> PP_Instance \<Rightarrow> PP_Resource \<Rightarrow> int \<Rightarrow> int \<Rightarrow> pp_url_loader_s \<Rightarrow> url_loader_open_param_s" where
  "open_param loader instance ml depth garbage ul =
     \<lparr>op_url = ul_url ul, op_loader = loader, op_instance_id = instance, op_method = ul_method ul,
      op_request_headers = ul_request_headers ul, op_custom_referrer_url = ul_custom_referrer_url ul,
      op_custom_content_transfer_encoding = ul_custom_content_transfer_encoding ul,
      op_custom_user_agent = ul_custom_user_agent ul, op_target = ul_target ul,
      op_post_data = ul_post_data ul, op_m_loop = ml, op_depth = depth, op_retval = garbage\<rparr>"

text \<open>
  Up to the nested loop. Either the code to return at once, or what the browser's thread is
  to do. \<open>comt\<close> and \<open>mem\<close> are the addresses of \<^verbatim>\<open>url_loader_open_comt\<close> and of the
  allocated parameters, \<open>garbage\<close> what lies there; \<open>quirk\<close> is the configuration's
  \<^verbatim>\<open>connect_first_loader_to_unrequested_stream\<close>.
\<close>

definition claim_first_loader ::
  "bool \<Rightarrow> PP_Instance \<Rightarrow> PP_Resource \<Rightarrow> 'a world_scheme \<Rightarrow> (bool \<times> 'a world_scheme) option" where
  "claim_first_loader quirk instance loader w =
     (if \<not> quirk then Some (False, w)
      else do {
        pp_i \<leftarrow> tables_get_pp_instance instance w;
        Some (if pi_content_url_loader pp_i = 0
          then (True, tables_add_pp_instance instance (pp_i\<lparr>pi_content_url_loader := loader\<rparr>) w)
          else (False, w))
      })"

definition ppb_url_loader_open_target_begin ::
  "(string \<Rightarrow> PP_URLComponents_Dev) \<Rightarrow> bool \<Rightarrow> 'o os \<Rightarrow> ptr \<Rightarrow> ptr \<Rightarrow> int \<Rightarrow> timespec \<Rightarrow> PP_Resource \<Rightarrow>
   PP_Resource \<Rightarrow> PP_CompletionCallback \<Rightarrow> string option \<Rightarrow> 'a world_scheme \<Rightarrow> 'o \<Rightarrow>
   ((int + url_loader_open_param_s) \<times> 'a world_scheme \<times> 'o) option" where
  "ppb_url_loader_open_target_begin parse quirk os comt mem garbage now loader request_info callback target w s = do {
     (ul, w) \<leftarrow> pp_resource_acquire loader PP_RESOURCE_URL_LOADER w;
     (case ul of
        None \<Rightarrow> Some (Inl PP_ERROR_BADRESOURCE, w, s)
      | Some gr \<Rightarrow> do {
          (ri, w) \<leftarrow> pp_resource_acquire request_info PP_RESOURCE_URL_REQUEST_INFO w;
          (case ri of
             None \<Rightarrow> do { w \<leftarrow> pp_resource_release loader w; Some (Inl PP_ERROR_BADRESOURCE, w, s) }
           | Some gr2 \<Rightarrow> do {
               ul \<leftarrow> the_loader (r_payload gr);
               ri \<leftarrow> the_request (r_payload gr2);
               instance \<leftarrow> r_instance gr;
               (full_url, w) \<leftarrow> the_full_url parse instance ri w;
               url \<leftarrow> var_text full_url w;
               w \<leftarrow> post_data_free (ul_post_data ul) w;
               let (post_data, w) = post_data_duplicate (ri_post_data ri) w;
               let (fd, s) = open_temporary_file os s;
               let ml = ppb_message_loop_get_current w;
               let ul = take_over url target ri post_data fd callback ml ul;
               let w = res_write loader (PL_url_loader ul) w;
               w \<leftarrow> ppb_var_release full_url w;
               w \<leftarrow> pp_resource_release request_info w;
               (claimed, w) \<leftarrow> claim_first_loader quirk instance loader w;
               (if claimed then do {
                  w \<leftarrow> pp_resource_release loader w;
                  Some (Inl PP_OK_COMPLETIONPENDING, w, s)
                }
                else do {
                  (d, w) \<leftarrow> ppb_message_loop_get_depth ml w;
                  let p = open_param loader instance ml (d + 1) garbage ul;
                  let w = ppb_core_add_ref_resource loader w;
                  w \<leftarrow> pp_resource_release loader w;
                  (_, w) \<leftarrow> ppb_message_loop_post_work_with_result now ml
                    \<lparr>ccb_func = comt, ccb_user_data = mem, ccb_flags = 0\<rparr> 0 PP_OK (op_depth p) w;
                  Some (Inr p, w, s)
                })
             })
        })
   }"

text \<open>\<^verbatim>\<open>ppb_url_loader_open\<close> is opening with no target; what follows the loop is the same.\<close>

definition ppb_url_loader_open_begin ::
  "(string \<Rightarrow> PP_URLComponents_Dev) \<Rightarrow> bool \<Rightarrow> 'o os \<Rightarrow> ptr \<Rightarrow> ptr \<Rightarrow> int \<Rightarrow> timespec \<Rightarrow> PP_Resource \<Rightarrow>
   PP_Resource \<Rightarrow> PP_CompletionCallback \<Rightarrow> 'a world_scheme \<Rightarrow> 'o \<Rightarrow>
   ((int + url_loader_open_param_s) \<times> 'a world_scheme \<times> 'o) option" where
  "ppb_url_loader_open_begin parse quirk os comt mem garbage now loader request_info callback w s =
     ppb_url_loader_open_target_begin parse quirk os comt mem garbage now loader request_info callback None w s"

text \<open>
  After the nested loop: a caller without a callback waits, looking at the loader every ten
  milliseconds; \<open>others\<close> is what the other threads do in these. \<open>None\<close> inside the result:
  the loader is still loading when the list ends.
\<close>

fun wait_finished_loading ::
  "('a res_state_scheme \<Rightarrow> 'a res_state_scheme) list \<Rightarrow> PP_Resource \<Rightarrow> 'a res_state_scheme \<Rightarrow>
   (unit option \<times> 'a res_state_scheme) option" where
  "wait_finished_loading others loader w = do {
     (don, w) \<leftarrow> res_read loader PP_RESOURCE_URL_LOADER True (map_option ul_finished_loading \<circ> the_loader) w;
     (if don then Some (Some (), w)
      else case others of
        [] \<Rightarrow> Some (None, w)
      | f # fs \<Rightarrow> wait_finished_loading fs loader (f w))
   }"

definition ppb_url_loader_open_target_end ::
  "('a res_state_scheme \<Rightarrow> 'a res_state_scheme) list \<Rightarrow> PP_Resource \<Rightarrow> PP_CompletionCallback \<Rightarrow> int \<Rightarrow>
   'a res_state_scheme \<Rightarrow> (int option \<times> 'a res_state_scheme) option" where
  "ppb_url_loader_open_target_end others loader callback retval w =
     (if retval \<noteq> NPERR_NO_ERROR then Some (Some PP_ERROR_FAILED, w)
      else if ccb_func callback = 0 then do {
        (don, w) \<leftarrow> wait_finished_loading others loader w;
        Some (map_option (\<lambda>_. PP_OK) don, w)
      }
      else Some (Some PP_OK_COMPLETIONPENDING, w))"

section \<open>Following a redirect\<close>

text \<open>The stream that brought the redirect no longer belongs to the loader.\<close>

definition forget_stream :: "ptr \<Rightarrow> streams \<Rightarrow> streams" where
  "forget_stream stream str =
     (case ht_lookup str stream of
        None \<Rightarrow> str
      | Some st \<Rightarrow> ht_insert stream (st\<lparr>st_pdata := 0\<rparr>) str)"

definition ppb_url_loader_follow_redirect_begin ::
  "'o os \<Rightarrow> ptr \<Rightarrow> ptr \<Rightarrow> int \<Rightarrow> timespec \<Rightarrow> PP_Resource \<Rightarrow> PP_CompletionCallback \<Rightarrow> 'a world_scheme \<Rightarrow> 'o \<Rightarrow>
   streams \<Rightarrow> ((int + url_loader_open_param_s) \<times> 'a world_scheme \<times> 'o \<times> streams) option" where
  "ppb_url_loader_follow_redirect_begin os comt mem garbage now loader callback w s str = do {
     (ul, w) \<leftarrow> pp_resource_acquire loader PP_RESOURCE_URL_LOADER w;
     (case ul of
        None \<Rightarrow> Some (Inl PP_ERROR_BADRESOURCE, w, s, str)
      | Some gr \<Rightarrow> do {
          ul \<leftarrow> the_loader (r_payload gr);
          w \<leftarrow> post_data_free (ul_post_data ul) w;
          let s = (if 0 \<le> ul_fd ul then os_close os (ul_fd ul) s else s);
          let str = (if ul_np_stream ul \<noteq> 0 then forget_stream (ul_np_stream ul) str else str);
          let (fd, s) = open_temporary_file os s;
          let ml = ppb_message_loop_get_current w;
          let ul = ul\<lparr>ul_url := ul_redirect_url ul, ul_redirect_url := None, ul_status_line := None,
            ul_headers := None, ul_request_headers := None, ul_post_data := None, ul_fd := fd,
            ul_np_stream := 0, ul_read_pos := 0, ul_method := PP_METHOD_GET, ul_ccb := callback,
            ul_ccb_ml := ml\<rparr>;
          let w = res_write loader (PL_url_loader ul) w;
          instance \<leftarrow> r_instance gr;
          (d, w) \<leftarrow> ppb_message_loop_get_depth ml w;
          let p = (open_param loader instance ml (d + 1) garbage ul)\<lparr>op_target := None, op_post_data := None\<rparr>;
          let w = ppb_core_add_ref_resource loader w;
          w \<leftarrow> pp_resource_release loader w;
          (_, w) \<leftarrow> ppb_message_loop_post_work_with_result now ml
            \<lparr>ccb_func = comt, ccb_user_data = mem, ccb_flags = 0\<rparr> 0 PP_OK (op_depth p) w;
          Some (Inr p, w, s, str)
        })
   }"

definition ppb_url_loader_follow_redirect_end ::
  "('a res_state_scheme \<Rightarrow> 'a res_state_scheme) list \<Rightarrow> PP_Resource \<Rightarrow> PP_CompletionCallback \<Rightarrow> int \<Rightarrow>
   'a res_state_scheme \<Rightarrow> (int option \<times> 'a res_state_scheme) option" where
  "ppb_url_loader_follow_redirect_end others loader callback retval w =
     (if retval \<noteq> NPERR_NO_ERROR then Some (Some PP_ERROR_FAILED, w)
      else if ccb_func callback = 0 then do {
        (don, w) \<leftarrow> wait_finished_loading others loader w;
        Some (map_option (\<lambda>_. PP_OK) don, w)
      }
      else Some (Some PP_OK_COMPLETIONPENDING, w))"

section \<open>Reading the response\<close>

definition ppb_url_loader_get_upload_progress :: "PP_Resource \<Rightarrow> bool" where
  "ppb_url_loader_get_upload_progress loader = False"

text \<open>The answer, and what is written to the two counters (bytes received, bytes to be received).\<close>

definition ppb_url_loader_get_download_progress ::
  "'o os \<Rightarrow> PP_Resource \<Rightarrow> 'a res_state_scheme \<Rightarrow> 'o \<Rightarrow>
   ((bool \<times> (int \<times> int) option) \<times> 'a res_state_scheme) option" where
  "ppb_url_loader_get_download_progress os loader w s =
     res_read loader PP_RESOURCE_URL_LOADER (False, None)
       (\<lambda>p. map_option (\<lambda>ul.
          if 0 \<le> ul_fd ul then
            (case os_fstat os (ul_fd ul) s of
               (None, _) \<Rightarrow> (False, Some (- 1, ul_response_size ul))
             | (Some sb, _) \<Rightarrow> (True, Some (st_size sb, ul_response_size ul)))
          else (True, Some (0, ul_response_size ul))) (the_loader p)) w"

definition ppb_url_loader_get_response_info ::
  "PP_Resource \<Rightarrow> 'a res_state_scheme \<Rightarrow> (PP_Resource \<times> 'a res_state_scheme) option" where
  "ppb_url_loader_get_response_info loader w =
     with_resource loader PP_RESOURCE_URL_LOADER 0
       (\<lambda>gr w. do {
          (response_info, w) \<leftarrow> pp_resource_allocate PP_RESOURCE_URL_RESPONSE_INFO (r_instance gr) w;
          with_resource response_info PP_RESOURCE_URL_RESPONSE_INFO 0
            (\<lambda>_ w. let w = snd (pp_resource_ref loader w)
               in Some (response_info, res_write response_info (PL_url_response_info loader) w)) w
        }) w"

text \<open>\<^verbatim>\<open>lseek\<close> to the reading position, then \<^verbatim>\<open>read\<close>; the size is a \<^verbatim>\<open>size_t\<close>.\<close>

definition read_at ::
  "'o os \<Rightarrow> pp_url_loader_s \<Rightarrow> int \<Rightarrow> 'o \<Rightarrow> char list option \<times> 'o" where
  "read_at os ul bytes_to_read s =
     (case os_lseek os (ul_fd ul) (ul_read_pos ul) s of
        (False, s) \<Rightarrow> (None, s)
      | (True, s) \<Rightarrow> os_read os (ul_fd ul) (unat (word_of_int bytes_to_read :: u64)) s)"

definition advance :: "char list \<Rightarrow> pp_url_loader_s \<Rightarrow> pp_url_loader_s" where
  "advance bs ul = ul\<lparr>ul_read_pos := ul_read_pos ul + word_of_nat (length bs)\<rparr>"

definition read_task ::
  "PP_Resource \<Rightarrow> ptr \<Rightarrow> int \<Rightarrow> PP_CompletionCallback \<Rightarrow> PP_Resource \<Rightarrow> url_loader_read_task_s" where
  "read_task loader buffer bytes_to_read callback ml = \<lparr>rt_url_loader = loader, rt_buffer = buffer,
     rt_bytes_to_read = bytes_to_read, rt_ccb = callback, rt_ccb_ml = ml\<rparr>"

text \<open>The code, and the bytes that are in the buffer when the function returns, if it read any.\<close>

definition callback_optional :: "PP_CompletionCallback \<Rightarrow> bool" where
  "callback_optional callback \<longleftrightarrow> odd (ccb_flags callback)"

definition ppb_url_loader_read_response_body ::
  "'o os \<Rightarrow> timespec \<Rightarrow> PP_Resource \<Rightarrow> ptr \<Rightarrow> int \<Rightarrow> PP_CompletionCallback \<Rightarrow> 'a world_scheme \<Rightarrow> 'o \<Rightarrow>
   (int \<times> char list option \<times> 'a world_scheme \<times> 'o) option" where
  "ppb_url_loader_read_response_body os now loader buffer bytes_to_read callback w s = do {
     (ul, w) \<leftarrow> pp_resource_acquire loader PP_RESOURCE_URL_LOADER w;
     (case ul of
        None \<Rightarrow> Some (PP_ERROR_BADRESOURCE, None, w, s)
      | Some gr \<Rightarrow> do {
          ul \<leftarrow> the_loader (r_payload gr);
          (if ul_fd ul = - 1 then do {
             w \<leftarrow> pp_resource_release loader w;
             Some (PP_ERROR_FAILED, None, w, s)
           }
           else do {
             let (r, s) = (if ul_read_tasks ul \<noteq> [] then (Some [], s) else read_at os ul bytes_to_read s);
             let ul = (case r of None \<Rightarrow> ul | Some bs \<Rightarrow> advance bs ul);
             (if ul_read_tasks ul \<noteq> [] \<or> r = Some [] \<and> \<not> ul_finished_loading ul then do {
                let rt = read_task loader buffer bytes_to_read callback (ppb_message_loop_get_current w);
                w \<leftarrow> pp_resource_release loader (res_write loader
                  (PL_url_loader (ul\<lparr>ul_read_tasks := ul_read_tasks ul @ [rt]\<rparr>)) w);
                Some (PP_OK_COMPLETIONPENDING, r, w, s)
              }
              else do {
                let read_bytes = (case r of None \<Rightarrow> PP_ERROR_FAILED | Some bs \<Rightarrow> int (length bs));
                w \<leftarrow> pp_resource_release loader (res_write loader (PL_url_loader ul) w);
                (if callback_optional callback then Some (read_bytes, r, w, s)
                 else do {
                   (_, w) \<leftarrow> ppb_message_loop_post_work_with_result now (ppb_message_loop_get_current w)
                              callback 0 read_bytes 0 w;
                   Some (PP_OK_COMPLETIONPENDING, r, w, s)
                 })
              })
           })
        })
   }"

definition ppb_url_loader_finish_streaming_to_file ::
  "PP_Resource \<Rightarrow> PP_CompletionCallback \<Rightarrow> 'a world_scheme \<Rightarrow> (int \<times> 'a world_scheme) option" where
  "ppb_url_loader_finish_streaming_to_file loader callback w =
     res_update loader PP_RESOURCE_URL_LOADER PP_ERROR_BADRESOURCE
       (\<lambda>p. map_option (\<lambda>ul.
          if \<not> ul_stream_to_file ul then (PP_ERROR_FAILED, p)
          else (PP_OK_COMPLETIONPENDING, PL_url_loader (ul\<lparr>ul_stream_to_file_ccb := callback,
            ul_stream_to_file_ccb_ml := ppb_message_loop_get_current w\<rparr>))) (the_loader p)) w"

definition ppb_url_loader_close ::
  "'o os \<Rightarrow> PP_Resource \<Rightarrow> 'a res_state_scheme \<Rightarrow> 'o \<Rightarrow> ('a res_state_scheme \<times> 'o) option" where
  "ppb_url_loader_close os loader w s = do {
     (s, w) \<leftarrow> with_resource loader PP_RESOURCE_URL_LOADER s
       (\<lambda>gr w. do {
          ul \<leftarrow> the_loader (r_payload gr);
          let s = (if 0 \<le> ul_fd ul then os_close os (ul_fd ul) s else s);
          let ul = (if 0 \<le> ul_fd ul then ul\<lparr>ul_fd := - 1\<rparr> else ul);
          Some (s, res_write loader (PL_url_loader (ul\<lparr>ul_headers := None, ul_url := None\<rparr>)) w)
        }) w;
     Some (w, s)
   }"

section \<open>Response information\<close>

definition ppb_url_response_info_is_url_response_info :: "PP_Resource \<Rightarrow> 'a res_state_scheme \<Rightarrow> bool" where
  "ppb_url_response_info_is_url_response_info resource w \<longleftrightarrow>
     pp_resource_get_type resource w = PP_RESOURCE_URL_RESPONSE_INFO"

fun the_response_loader :: "payload \<Rightarrow> PP_Resource option" where
  "the_response_loader (PL_url_response_info r) = Some r"
| "the_response_loader _ = None"

text \<open>
  The loader a response points to, read without its lock; the response holds a reference, so
  the pointer is valid while the table is consistent.
\<close>

definition pointed_loader :: "payload \<Rightarrow> 'a res_state_scheme \<Rightarrow> pp_url_loader_s option" where
  "pointed_loader p w = do {
     r \<leftarrow> the_response_loader p;
     e \<leftarrow> ht_lookup (res_tbl w) r;
     the_loader (r_payload e)
   }"

datatype PP_URLResponseProperty =
    PP_URLRESPONSEPROPERTY_URL | PP_URLRESPONSEPROPERTY_REDIRECTURL | PP_URLRESPONSEPROPERTY_REDIRECTMETHOD
  | PP_URLRESPONSEPROPERTY_STATUSCODE | PP_URLRESPONSEPROPERTY_STATUSLINE | PP_URLRESPONSEPROPERTY_HEADERS
  | PP_URLRESPONSEPROPERTY_OTHER int

fun response_text :: "PP_URLResponseProperty \<Rightarrow> pp_url_loader_s \<Rightarrow> string option option" where
  "response_text PP_URLRESPONSEPROPERTY_URL ul = Some (ul_url ul)"
| "response_text PP_URLRESPONSEPROPERTY_REDIRECTURL ul = Some (ul_redirect_url ul)"
| "response_text PP_URLRESPONSEPROPERTY_REDIRECTMETHOD ul = Some (Some ''GET'')"
| "response_text PP_URLRESPONSEPROPERTY_STATUSLINE ul = Some (ul_status_line ul)"
| "response_text PP_URLRESPONSEPROPERTY_HEADERS ul = Some (ul_headers ul)"
| "response_text _ ul = None"

definition ppb_url_response_info_get_property ::
  "PP_Resource \<Rightarrow> PP_URLResponseProperty \<Rightarrow> 'a res_state_scheme \<Rightarrow> (PP_Var \<times> 'a res_state_scheme) option" where
  "ppb_url_response_info_get_property response property w =
     with_resource response PP_RESOURCE_URL_RESPONSE_INFO VUndefined
       (\<lambda>gr w. do {
          ul \<leftarrow> pointed_loader (r_payload gr) w;
          (case response_text property ul of
             Some t \<Rightarrow> ppb_var_var_from_utf8_z (map_option (\<lambda>s. s @ [NUL]) t) w
           | None \<Rightarrow> Some (if property = PP_URLRESPONSEPROPERTY_STATUSCODE then VInt32 (ul_http_code ul)
                else VUndefined, w))
        }) w"

text \<open>\<open>dup\<close> is the system call, on the state of the system.\<close>

definition ppb_url_response_info_get_body_as_file_ref ::
  "(int \<Rightarrow> 'o \<Rightarrow> int \<times> 'o) \<Rightarrow> PP_Resource \<Rightarrow> 'a res_state_scheme \<Rightarrow> 'o \<Rightarrow>
   ((PP_Resource \<times> 'o) \<times> 'a res_state_scheme) option" where
  "ppb_url_response_info_get_body_as_file_ref dup response w s =
     with_resource response PP_RESOURCE_URL_RESPONSE_INFO (0, s)
       (\<lambda>gr w. do {
          ul \<leftarrow> pointed_loader (r_payload gr) w;
          (file_ref, w) \<leftarrow> pp_resource_allocate PP_RESOURCE_FILE_REF (r_instance gr) w;
          with_resource file_ref PP_RESOURCE_FILE_REF (0, s)
            (\<lambda>gr2 w. do {
               fr \<leftarrow> the_file_ref (r_payload gr2);
               let (fd, s) = dup (ul_fd ul) s;
               Some ((file_ref, s), res_write file_ref
                 (PL_file_ref (fr\<lparr>fr_fd := fd, fr_type := PP_FILE_REF_TYPE_FD\<rparr>)) w)
             }) w
        }) w"

end
