(* ===== verification/Url_Stream.thy ===== *)
theory Url_Stream
  imports Url_Loader
begin

text \<open>
  The functions of \<^verbatim>\<open>np_functions.c\<close> the browser calls about its streams: they fill the loader
  the stream belongs to, and serve the reads that wait for data. A read that waits is a task
  in the loader's list; its callback is posted to the loop the read was asked for on, wrapped
  (\<open>wrap\<close> is the address of \<^verbatim>\<open>url_read_task_wrapper_comt\<close> with the task).
\<close>

section \<open>A new stream\<close>

definition joined_headers :: "parsed_headers_s \<Rightarrow> string" where
  "joined_headers ph =
     concat (map (\<lambda>(k, n, v). (if k \<noteq> 0 then [CHR 0x0A] else []) @ n @ '': '' @ v)
       (zip [0..<ph_cnt ph] (zip (ph_name ph) (ph_value ph))))"

definition is_redirect :: "parsed_headers_s \<Rightarrow> pp_url_loader_s \<Rightarrow> bool" where
  "is_redirect ph ul \<longleftrightarrow> 300 \<le> ph_http_code ph \<and> ph_http_code ph \<le> 307 \<and> ul_redirect_url ul \<noteq> None"

definition rewrite_instance_url ::
  "PP_Instance \<Rightarrow> string option \<Rightarrow> 'a world_scheme \<Rightarrow> 'a world_scheme option" where
  "rewrite_instance_url instance url w = do {
     pp_i \<leftarrow> tables_get_pp_instance instance w;
     w \<leftarrow> ppb_var_release (pi_instance_url pp_i) w;
     (v, w) \<leftarrow> ppb_var_var_from_utf8_z (map_option (\<lambda>s. s @ [NUL]) url) w;
     Some (tables_add_pp_instance instance (pp_i\<lparr>pi_instance_url := v\<rparr>) w)
   }"

text \<open>
  Up to the place where the loader's callback is posted, or where a redirect is followed,
  which runs a nested loop first. The result: what the browser's thread is to do for the
  redirect, if there is one, the callback and its loop (no function: none).
\<close>

definition NPP_NewStream_begin ::
  "bool \<Rightarrow> 'o os \<Rightarrow> ptr \<Rightarrow> ptr \<Rightarrow> ptr \<Rightarrow> int \<Rightarrow> timespec \<Rightarrow> PP_Instance \<Rightarrow> ptr \<Rightarrow> 'a world_scheme \<Rightarrow> 'o \<Rightarrow> streams \<Rightarrow>
   ((int + url_loader_open_param_s) option \<times> PP_CompletionCallback \<times> PP_Resource \<times>
      'a world_scheme \<times> 'o \<times> streams) option" where
  "NPP_NewStream_begin plugin_missing os do_nothing comt mem garbage now instance stream w s str =
     (if plugin_missing then Some (None, zero_ccb, 0, w, s, str)
      else do {
        st \<leftarrow> ht_lookup str stream;
        pp_i \<leftarrow> tables_get_pp_instance instance w;
        let rewrite_url_in_loader = (st_notifyData st = 0 \<and> pi_content_url_loader pp_i \<noteq> 0 \<and>
              \<not> pi_content_url_loader_used pp_i);
        let loader = (if rewrite_url_in_loader then pi_content_url_loader pp_i else st_notifyData st);
        let w = (if rewrite_url_in_loader
              then tables_add_pp_instance instance (pp_i\<lparr>pi_content_url_loader_used := True\<rparr>) w else w);
        let str = ht_insert stream (st\<lparr>st_pdata := loader\<rparr>) str;
        (if loader = 0 then Some (None, zero_ccb, 0, w, s, str)
         else do {
           (ul, w) \<leftarrow> pp_resource_acquire loader PP_RESOURCE_URL_LOADER w;
           (case ul of
              None \<Rightarrow> Some (None, zero_ccb, 0, w, s, str)
            | Some gr \<Rightarrow> do {
                ul \<leftarrow> the_loader (r_payload gr);
                let ph = hp_parse_headers (st_headers st);
                let ccb = ul_ccb ul;
                let ccb_ml = ul_ccb_ml ul;
                let ul = ul\<lparr>ul_ccb := zero_ccb, ul_np_stream := stream,
                  ul_url := (if rewrite_url_in_loader then st_url st else ul_url ul)\<rparr>;
                w \<leftarrow> (if rewrite_url_in_loader then rewrite_instance_url instance (ul_url ul) w else Some w);
                (if is_redirect ph ul \<and> ul_follow_redirects ul then do {
                   w \<leftarrow> pp_resource_release loader (res_write loader (PL_url_loader ul) w);
                   (r, w, s, str) \<leftarrow> ppb_url_loader_follow_redirect_begin os comt mem garbage now loader
                     \<lparr>ccb_func = do_nothing, ccb_user_data = 0, ccb_flags = 0\<rparr> w s str;
                   Some (Some r, ccb, ccb_ml, w, s, str)
                 }
                 else do {
                   let ul = ul\<lparr>ul_headers := Some (joined_headers ph), ul_http_code := sint (ph_http_code ph),
                     ul_response_size := (if 0 < st_end st then uint (st_end st) else - 1),
                     ul_status_line := ph_status_line ph\<rparr>;
                   w \<leftarrow> pp_resource_release loader (res_write loader (PL_url_loader ul) w);
                   Some (None, ccb, ccb_ml, w, s, str)
                 })
              })
         })
      })"

definition NPP_NewStream_end ::
  "timespec \<Rightarrow> PP_CompletionCallback \<Rightarrow> PP_Resource \<Rightarrow> 'a world_scheme \<Rightarrow> 'a world_scheme option" where
  "NPP_NewStream_end now ccb ccb_ml w =
     (if ccb_func ccb \<noteq> 0
      then map_option snd (ppb_message_loop_post_work_with_result now ccb_ml ccb 0 PP_OK 0 w)
      else Some w)"

section \<open>Data\<close>

definition NPP_WriteReady :: int where "NPP_WriteReady = 1048576"

text \<open>
  The answer, and the read task that was served with the bytes it got. The result of
  \<^verbatim>\<open>write\<close> is not looked at.
\<close>

definition NPP_Write ::
  "bool \<Rightarrow> 'o os \<Rightarrow> (url_loader_read_task_s \<Rightarrow> PP_CompletionCallback) \<Rightarrow> timespec \<Rightarrow> NPStream \<Rightarrow> int \<Rightarrow> int \<Rightarrow> char list \<Rightarrow>
   'a world_scheme \<Rightarrow> 'o \<Rightarrow> (int \<times> (url_loader_read_task_s \<times> char list) option \<times> 'a world_scheme \<times> 'o) option" where
  "NPP_Write plugin_missing os wrap now st offset len buffer w s =
     (if plugin_missing \<or> st_pdata st = 0 then Some (len, None, w, s)
      else do {
        let loader = st_pdata st;
        (ul, w) \<leftarrow> pp_resource_acquire loader PP_RESOURCE_URL_LOADER w;
        (case ul of
           None \<Rightarrow> Some (- 1, None, w, s)
         | Some gr \<Rightarrow> do {
             ul \<leftarrow> the_loader (r_payload gr);
             (if ul_fd ul = - 1 \<or> len \<le> 0 then do {
                w \<leftarrow> pp_resource_release loader w;
                Some (len, None, w, s)
              }
              else case os_lseek os (ul_fd ul) (word_of_int offset) s of
                (False, s) \<Rightarrow> do {
                  w \<leftarrow> pp_resource_release loader w;
                  Some (- 1, None, w, s)
                }
              | (True, s) \<Rightarrow>
                  let (_, s) = os_write os (ul_fd ul) (take (nat len) buffer) s in
                  (case ul_read_tasks ul of
                     [] \<Rightarrow> do {
                       w \<leftarrow> pp_resource_release loader w;
                       Some (len, None, w, s)
                     }
                   | rt # rts \<Rightarrow>
                       (case read_at os ul (rt_bytes_to_read rt) s of
                          (Some (b # bs), s) \<Rightarrow> do {
                            w \<leftarrow> pp_resource_release loader (res_write loader
                              (PL_url_loader ((advance (b # bs) ul)\<lparr>ul_read_tasks := rts\<rparr>)) w);
                            (_, w) \<leftarrow> ppb_message_loop_post_work_with_result now (rt_ccb_ml rt) (wrap rt) 0
                              (int (length (b # bs))) 0 w;
                            Some (len, Some (rt, b # bs), w, s)
                          }
                        | (_, s) \<Rightarrow> do {
                            w \<leftarrow> pp_resource_release loader
                              (res_write loader (PL_url_loader (ul\<lparr>ul_read_tasks := rt # rts\<rparr>)) w);
                            Some (len, None, w, s)
                          })))
           })
      })"

text \<open>What the wrapper calls, and with what: nothing when the loader is gone.\<close>

definition url_read_task_wrapper_comt ::
  "url_loader_read_task_s \<Rightarrow> int \<Rightarrow> 'a res_state_scheme \<Rightarrow> (PP_CompletionCallback \<times> int) option" where
  "url_read_task_wrapper_comt rt result w =
     (if pp_resource_get_type (rt_url_loader rt) w \<noteq> PP_RESOURCE_URL_LOADER then None
      else Some (rt_ccb rt, result))"

section \<open>The end of a stream\<close>

text \<open>
  The loop that serves the reads still waiting: one turn for each, with the loader locked, and
  the callback posted with the lock given up; \<open>others\<close> is what other threads do then. The
  served tasks are collected, latest first. The loader is locked at the end, if it still is
  there; the last component tells its fields.
\<close>

datatype 'r drain = Drained 'r | Draining 'r

fun drain_tasks ::
  "'o os \<Rightarrow> (url_loader_read_task_s \<Rightarrow> PP_CompletionCallback) \<Rightarrow> timespec \<Rightarrow> PP_Resource \<Rightarrow>
   ('a world_scheme \<Rightarrow> 'a world_scheme) list \<Rightarrow> (url_loader_read_task_s \<times> char list option) list \<Rightarrow>
   pp_url_loader_s option \<Rightarrow> 'a world_scheme \<Rightarrow> 'o \<Rightarrow>
   ((url_loader_read_task_s \<times> char list option) list \<times> pp_url_loader_s option \<times> 'a world_scheme \<times> 'o) drain option" where
  "drain_tasks os wrap now loader others served ul w s =
     (case ul of
        None \<Rightarrow> Some (Drained (served, None, w, s))
      | Some u \<Rightarrow>
          (case ul_read_tasks u of
             [] \<Rightarrow> Some (Drained (served, Some u, w, s))
           | rt # rts \<Rightarrow>
               (case others of
                  [] \<Rightarrow> Some (Draining (served, Some u, w, s))
                | f # fs \<Rightarrow>
                    (case read_at os u (rt_bytes_to_read rt) s of
                       (r, s) \<Rightarrow> do {
                         let u = (case r of None \<Rightarrow> u | Some bs \<Rightarrow> advance bs u)\<lparr>ul_read_tasks := rts\<rparr>;
                         w \<leftarrow> pp_resource_release loader (res_write loader (PL_url_loader u) w);
                         (_, w) \<leftarrow> ppb_message_loop_post_work_with_result now (rt_ccb_ml rt) (wrap rt) 0
                           (case r of None \<Rightarrow> PP_ERROR_FAILED | Some bs \<Rightarrow> int (length bs)) 0 w;
                         (gr, w) \<leftarrow> pp_resource_acquire loader PP_RESOURCE_URL_LOADER (f w);
                         ul \<leftarrow> (case gr of None \<Rightarrow> Some None | Some gr \<Rightarrow> map_option Some (the_loader (r_payload gr)));
                         drain_tasks os wrap now loader fs ((rt, r) # served) ul w s
                       }))))"

definition NPP_DestroyStream ::
  "bool \<Rightarrow> 'o os \<Rightarrow> (url_loader_read_task_s \<Rightarrow> PP_CompletionCallback) \<Rightarrow> timespec \<Rightarrow>
   ('a world_scheme \<Rightarrow> 'a world_scheme) list \<Rightarrow> NPStream \<Rightarrow> 'a world_scheme \<Rightarrow> 'o \<Rightarrow>
   ((url_loader_read_task_s \<times> char list option) list \<times> 'a world_scheme \<times> 'o) drain option" where
  "NPP_DestroyStream plugin_missing os wrap now others st w s =
     (if plugin_missing \<or> st_pdata st = 0 then Some (Drained ([], w, s))
      else do {
        let loader = st_pdata st;
        (ul, w) \<leftarrow> pp_resource_acquire loader PP_RESOURCE_URL_LOADER w;
        (case ul of
           None \<Rightarrow> Some (Drained ([], w, s))
         | Some gr \<Rightarrow> do {
             ul \<leftarrow> the_loader (r_payload gr);
             let ul = ul\<lparr>ul_np_stream := 0\<rparr>;
             (if ul_redirect_url ul \<noteq> None then do {
                w \<leftarrow> pp_resource_release loader (res_write loader (PL_url_loader ul) w);
                Some (Drained ([], w, s))
              }
              else do {
                let ul = ul\<lparr>ul_finished_loading := True\<rparr>;
                r \<leftarrow> drain_tasks os wrap now loader others [] (Some ul) (res_write loader (PL_url_loader ul) w) s;
                (case r of
                   Draining (served, _, w, s) \<Rightarrow> Some (Draining (served, w, s))
                 | Drained (served, u, w, s) \<Rightarrow> do {
                     w \<leftarrow> pp_resource_release loader w;
                     (case u of
                        Some u \<Rightarrow>
                          (if ul_stream_to_file u then do {
                             (_, w) \<leftarrow> ppb_message_loop_post_work_with_result now (ul_stream_to_file_ccb_ml u)
                               (ul_stream_to_file_ccb u) 0 PP_OK 0 w;
                             Some (Drained (served, w, s))
                           }
                           else Some (Drained (served, w, s)))
                      | None \<Rightarrow> Some (Drained (served, w, s)))
                   })
              })
           })
      })"

section \<open>Notifications\<close>

abbreviation (input) NPRES_NETWORK_ERR :: int where "NPRES_NETWORK_ERR \<equiv> 1"

definition NPP_URLNotify ::
  "timespec \<Rightarrow> int \<Rightarrow> PP_Resource \<Rightarrow> 'a world_scheme \<Rightarrow> 'a world_scheme option" where
  "NPP_URLNotify now reason notifyData w =
     (if reason \<noteq> NPRES_NETWORK_ERR \<or> notifyData = 0 then Some w
      else do {
        (r, w) \<leftarrow> res_update notifyData PP_RESOURCE_URL_LOADER None
          (\<lambda>p. map_option (\<lambda>ul. (Some (ul_ccb ul, ul_ccb_ml ul), PL_url_loader (ul\<lparr>ul_ccb := zero_ccb\<rparr>)))
            (the_loader p)) w;
        (case r of
           None \<Rightarrow> Some w
         | Some (ccb, ccb_ml) \<Rightarrow>
             (if ccb_func ccb \<noteq> 0
              then map_option snd (ppb_message_loop_post_work_with_result now ccb_ml ccb 0 PP_ERROR_FAILED 0 w)
              else Some w))
      })"

definition NPP_URLRedirectNotify ::
  "'n npn \<Rightarrow> ptr \<Rightarrow> string \<Rightarrow> PP_Resource \<Rightarrow> 'a res_state_scheme \<Rightarrow> 'n \<Rightarrow> ('a res_state_scheme \<times> 'n) option" where
  "NPP_URLRedirectNotify npn npp url notifyData w n = do {
     (_, w) \<leftarrow> (if notifyData = 0 then Some ((), w)
       else res_update notifyData PP_RESOURCE_URL_LOADER ()
         (\<lambda>p. map_option (\<lambda>ul. ((), PL_url_loader (ul\<lparr>ul_redirect_url := Some url\<rparr>))) (the_loader p)) w);
     Some (w, np_urlredirectresponse npn npp notifyData False n)
   }"

end
