(* ===== verification/World_Laws.thy ===== *)
theory World_Laws
  imports Tables
begin

text \<open>
  Operations on variables seen from the whole state: they leave the resource table alone, and
  the structures in it go on pointing to variables they hold.
\<close>

lemma add_ref_res [simp]:
  "res_tbl (ppb_var_add_ref v w) = res_tbl w" "res_tbl_next (ppb_var_add_ref v w) = res_tbl_next w"
  "destructors_ht (ppb_var_add_ref v w) = destructors_ht w" "closed_fds (ppb_var_add_ref v w) = closed_fds w"
  "res_state.more (ppb_var_add_ref v w) = res_state.more w"
  using res_state_of_more [OF ppb_var_add_ref_frame(4) [of v w]] by simp_all

lemma world_of_more:
  assumes "res_state.more w' = res_state.more w"
  shows "pp_to_np_ht w' = pp_to_np_ht w" "tables_get_pp_instance i w' = tables_get_pp_instance i w"
    "this_thread_message_loop w' = this_thread_message_loop w"
    "main_thread_message_loop w' = main_thread_message_loop w"
    "browser_thread_message_loop w' = browser_thread_message_loop w"
  using assms by (cases w; cases w'; simp add: tables_get_pp_instance_def)+

lemma res_write_frame [simp]:
  "var_ht (res_write r pl w) = var_ht w" "var_id (res_write r pl w) = var_id w"
  "res_tbl_next (res_write r pl w) = res_tbl_next w" "destructors_ht (res_write r pl w) = destructors_ht w"
  "res_state.more (res_write r pl w) = res_state.more w"
  by (simp_all add: res_write_def split: option.splits)

lemma handle_ok_cong:
  assumes "\<And>i. map_option vs_var (ht_lookup t i) = map_option vs_var (ht_lookup t' i)"
  shows "handle_ok t v = handle_ok t' v"
  using assms [of "as_id v"] unfolding handle_ok_def
  by (cases "ht_lookup t (as_id v)"; cases "ht_lookup t' (as_id v)") auto

lemma handle_ok_add_ref [simp]: "handle_ok (var_ht (ppb_var_add_ref u w)) v = handle_ok (var_ht w) v"
  by (rule handle_ok_cong) (rule ppb_var_add_ref_body(2))

lemma world_inv_add_var:
  assumes "world_inv extR extV w" and "valid_var (var_ht w) v"
  shows "world_inv extR (extV + ref_of v) (ppb_var_add_ref v w)"
  using assms ppb_var_add_ref_inv [OF world_invD(2) [OF assms(1)] assms(2)]
  by (simp add: world_inv_def res_entries_ok_def res_entry_ok_def ac_simps)

lemma var_ht_add_ref_cong: "var_ht w = var_ht w' \<Longrightarrow> var_ht (ppb_var_add_ref v w) = var_ht (ppb_var_add_ref v w')"
  by (simp add: ppb_var_add_ref_def get_var_s_def split: option.splits)

lemma world_inv_release_var:
  assumes inv: "world_inv extR (extV + ref_of v) w" and v: "handle_ok (var_ht w) v"
  shows "\<exists>w'. ppb_var_release v w = Some w' \<and> world_inv extR extV w' \<and>
    var_state.more w' = var_state.more w \<and>
    var_ht w' = rc_release vs_ref_count var_set_rc var_kids (counted_ids [v]) (var_ht w)"
proof -
  have "var_inv (extV + held res_vars (res_tbl w) + ref_of v) w"
    using world_invD(2) [OF inv] by (simp add: ac_simps)
  from ppb_var_release_inv [OF this v] obtain w' where w': "ppb_var_release v w = Some w'"
    "var_inv (extV + held res_vars (res_tbl w)) w'"
    "var_ht w' = rc_release vs_ref_count var_set_rc var_kids (counted_ids [v]) (var_ht w)"
    "var_state.more w' = var_state.more w" by blast
  note same = res_state_of_more [OF w'(4)]
  have "handle_ok (var_ht w') u" if "handle_ok (var_ht w) u" for u
    unfolding w'(3) using that by (rule handle_ok_release)
  then have "res_entries_ok w'"
    using world_invD(3) [OF inv] same by (simp add: res_entries_ok_def res_entry_ok_def)
  then show ?thesis using w' same world_invD(1) [OF inv] by (auto simp: world_inv_def)
qed

text \<open>A structure's variables are there, so a new variable gets another identifier.\<close>

lemma payload_var_valid:
  assumes "world_inv extR extV w" and "ht_lookup (res_tbl w) r = Some e" and "v \<in> set (payload_vars (r_payload e))"
  shows "valid_var (var_ht w) v"
proof (cases "reference_countable v")
  case True
  then have "as_id v \<in> set (res_vars e)" using assms(3) by (force simp: res_vars_def counted_ids_def)
  then have "as_id v \<in># extV + held res_vars (res_tbl w)"
    using held_memI [OF assms(2), of "as_id v" res_vars] by simp
  then have "ref_of v \<subseteq># extV + held res_vars (res_tbl w)" using True by simp
  moreover have "handle_ok (var_ht w) v" using world_inv_entry [OF assms(1,2)] assms(3) by (simp add: res_entry_ok_def)
  ultimately show ?thesis using held_var_valid [OF world_invD(2) [OF assms(1)]] by blast
qed simp

lemma world_inv_register:
  assumes inv: "world_inv extR extV w" and room: "length (var_ht w) < 2 ^ 32"
    and mk: "\<And>i. as_id (mk i) = i" "\<And>i. body_matches (mk i) body" and plain: "body_vars body = []"
  shows "\<exists>i w'. var_register mk body w = Some (mk i, w') \<and> ht_lookup (var_ht w) i = None \<and>
    var_ht w' = ht_insert i \<lparr>vs_var = mk i, vs_ref_count = 1, vs_body = body\<rparr> (var_ht w) \<and>
    world_inv extR (add_mset i extV) w' \<and> var_state.more w' = var_state.more w"
proof -
  from var_register_inv [OF world_invD(2) [OF inv] room, of mk body] mk plain obtain i w' where
    w': "var_register mk body w = Some (mk i, w')" "ht_lookup (var_ht w) i = None"
    "var_ht w' = ht_insert i \<lparr>vs_var = mk i, vs_ref_count = 1, vs_body = body\<rparr> (var_ht w)"
    "var_inv (add_mset i (extV + held res_vars (res_tbl w))) w'" "var_state.more w' = var_state.more w" by auto
  note same = res_state_of_more [OF w'(5)]
  have "handle_ok (var_ht w') v" if "ht_lookup (res_tbl w) r = Some e" "v \<in> set (payload_vars (r_payload e))" for r e v
    using payload_var_valid [OF inv that] w'(2,3) by (auto simp: handle_ok_def valid_var_def)
  then have "res_entries_ok w'"
    using world_invD(3) [OF inv] same by (simp add: res_entries_ok_def res_entry_ok_def)
  then show ?thesis using w' same world_invD(1) [OF inv] by (auto simp: world_inv_def)
qed

lemma world_inv_from_utf8:
  assumes "world_inv extR extV w" "length (var_ht w) < 2 ^ 32" and "len + 1 \<noteq> 0" "unat len \<le> length d"
  shows "\<exists>i w'. ppb_var_var_from_utf8 (Some d) len w = Some (VString i, w') \<and> ht_lookup (var_ht w) i = None \<and>
    valid_var (var_ht w') (VString i) \<and> world_inv extR (add_mset i extV) w' \<and>
    var_state.more w' = var_state.more w \<and>
    ppb_var_var_to_utf8 (VString i) w' = Some (take (unat len) d @ [NUL], len)"
proof -
  let ?b = "VB_Str len (take (unat len) d @ [NUL])"
  obtain i w' where "var_register VString ?b w = Some (VString i, w')" "ht_lookup (var_ht w) i = None"
    "var_ht w' = ht_insert i \<lparr>vs_var = VString i, vs_ref_count = 1, vs_body = ?b\<rparr> (var_ht w)"
    "world_inv extR (add_mset i extV) w'" "var_state.more w' = var_state.more w"
    using world_inv_register [OF assms(1,2), of VString ?b] assms(4) by auto
  then show ?thesis
    using assms(3,4) by (simp add: ppb_var_var_from_utf8_def ppb_var_var_to_utf8_def get_var_s_def valid_var_def)
qed

end
