(* ===== verification/Posting.thy ===== *)
theory Posting
  imports Message_Loop_Laws World_Laws
begin

text \<open>
  How other components see the posting of a callback: it needs the loop alone, changes nothing but
  the queue of the loop, and keeps the counts of the whole state.
\<close>

section \<open>Posting to a loop beside a locked resource\<close>

text \<open>Every resource but \<open>r\<close> can be acquired.\<close>

definition calm :: "PP_Resource \<Rightarrow> 'a res_state_scheme \<Rightarrow> bool" where
  "calm r w \<longleftrightarrow> (\<forall>k e. k \<noteq> r \<longrightarrow> ht_lookup (res_tbl w) k = Some e \<longrightarrow>
     \<not> r_locked e \<and> 0 < r_ref_cnt e \<and> payload_fits (r_resource_type e) (r_payload e))"

lemma calm_available:
  "calm r w \<Longrightarrow> k \<noteq> r \<Longrightarrow> ht_lookup (res_tbl w) k = Some e \<Longrightarrow> available k (r_resource_type e) w e"
  by (auto simp: calm_def available_def)

lemma calm_put [simp]: "calm r (w\<lparr>res_tbl := ht_insert r e (res_tbl w)\<rparr>) = calm r w"
  by (simp add: calm_def)

lemma fits_loop: "payload_fits PP_RESOURCE_MESSAGE_LOOP pl \<Longrightarrow> \<exists>ml. pl = PL_message_loop ml"
  by (cases pl) simp_all

text \<open>The queue a task is put on, and whether the loop takes tasks.\<close>

definition queue_of :: "PP_Resource \<Rightarrow> 'a world_scheme \<Rightarrow> message_loop_task_s list option" where
  "queue_of m w = map_option ml_async_q (loop_of m w)"

definition takes_tasks :: "PP_Resource \<Rightarrow> 'a world_scheme \<Rightarrow> bool" where
  "takes_tasks m w \<longleftrightarrow> (\<exists>e ml. ht_lookup (res_tbl w) m = Some e \<and>
     r_resource_type e = PP_RESOURCE_MESSAGE_LOOP \<and> r_payload e = PL_message_loop ml \<and>
     (m = browser_thread_message_loop w \<or> \<not> (ml_running ml \<and> ml_teardown ml)))"

definition posted :: "timespec \<Rightarrow> PP_CompletionCallback \<Rightarrow> int \<Rightarrow> message_loop_task_s" where
  "posted now ccb result = \<lparr>mt_when = due_time now 0, mt_terminate = False, mt_depth = 0, mt_ccb = ccb,
     mt_result_to_pass = result, mt_should_destroy_ml = False\<rparr>"

lemma post_calm:
  assumes "calm r w" "m \<noteq> r" "takes_tasks m w" "queue_of m w = Some q" "ccb_func ccb \<noteq> 0"
  shows "\<exists>w'. ppb_message_loop_post_work_with_result now m ccb 0 result 0 w = Some (PP_OK, w') \<and>
    calm r w' \<and> takes_tasks m w' \<and> queue_of m w' = Some (q @ [posted now ccb result]) \<and>
    (\<forall>k. k \<noteq> m \<longrightarrow> ht_lookup (res_tbl w') k = ht_lookup (res_tbl w) k)"
proof -
  obtain e ml where e: "ht_lookup (res_tbl w) m = Some e" "r_resource_type e = PP_RESOURCE_MESSAGE_LOOP"
    "r_payload e = PL_message_loop ml" "m = browser_thread_message_loop w \<or> \<not> (ml_running ml \<and> ml_teardown ml)"
    using assms(3) unfolding takes_tasks_def by blast
  have q: "q = ml_async_q ml" using assms(4) e by (simp add: queue_of_def loop_of_def)
  have av: "available m PP_RESOURCE_MESSAGE_LOOP w e"
    using calm_available [OF assms(1,2) e(1)] e(2) by simp
  let ?w = "w\<lparr>res_tbl := ht_insert m (e\<lparr>r_payload := push_task (posted now ccb result) ml\<rparr>) (res_tbl w)\<rparr>"
  have "ppb_message_loop_post_work_with_result now m ccb 0 result 0 w = Some (PP_OK, ?w)"
    using assms(5) e(3,4)
    by (auto simp: ppb_message_loop_post_work_with_result_def res_update_available [OF av]
      ppb_message_loop_get_for_browser_thread_def posted_def)
  moreover have "calm r ?w"
    using assms(1,2) e by (auto simp: calm_def push_task_def)
  moreover have "takes_tasks m ?w" "queue_of m ?w = Some (q @ [posted now ccb result])"
    using e q by (auto simp: takes_tasks_def queue_of_def loop_of_def push_task_def)
  ultimately show ?thesis by auto
qed

section \<open>Posting in a consistent state\<close>

text \<open>Nothing is locked but, perhaps, \<open>r\<close>, which is not a loop.\<close>

definition quiet :: "PP_Resource \<Rightarrow> 'a res_state_scheme \<Rightarrow> bool" where
  "quiet r w \<longleftrightarrow> (\<forall>e. ht_lookup (res_tbl w) r = Some e \<longrightarrow> r_resource_type e \<noteq> PP_RESOURCE_MESSAGE_LOOP) \<and>
     (\<forall>k e. k \<noteq> r \<longrightarrow> ht_lookup (res_tbl w) k = Some e \<longrightarrow> \<not> r_locked e)"

lemma quiet_unlocked: "quiet r w \<Longrightarrow> k \<noteq> r \<Longrightarrow> ht_lookup (res_tbl w) k = Some e \<Longrightarrow> \<not> r_locked e"
  by (auto simp: quiet_def)

lemma world_inv_count: "world_inv extR extV w \<Longrightarrow> ht_lookup (res_tbl w) k = Some e \<Longrightarrow> 0 < r_ref_cnt e"
  by (rule balancedD_pos [OF world_invD(1)])

lemma world_inv_available:
  assumes "world_inv extR extV w" "ht_lookup (res_tbl w) k = Some e" "\<not> r_locked e"
  shows "available k (r_resource_type e) w e" "payload_fits (r_resource_type e) (r_payload e)"
  using world_inv_count [OF assms(1,2)] world_inv_entry [OF assms(1,2)] assms(2,3)
  by (simp_all add: available_def res_entry_ok_def)

text \<open>The effect of posting: at most one loop got one task more.\<close>

definition loops_only :: "'a res_state_scheme \<Rightarrow> 'a res_state_scheme \<Rightarrow> bool" where
  "loops_only w' w \<longleftrightarrow> w' = w \<or> (\<exists>m e ml t. ht_lookup (res_tbl w) m = Some e \<and>
     r_resource_type e = PP_RESOURCE_MESSAGE_LOOP \<and> r_payload e = PL_message_loop ml \<and>
     w' = put_res m (e\<lparr>r_payload := push_task t ml\<rparr>) w)"

lemma loops_only_refl [simp]: "loops_only w w"
  by (simp add: loops_only_def)

lemma loops_only_inv: "loops_only w' w \<Longrightarrow> world_inv extR extV w \<Longrightarrow> world_inv extR extV w'"
  by (auto simp: loops_only_def put_res_def push_task_def intro!: world_inv_write)

lemma loops_only_frame:
  assumes "loops_only w' w"
  shows "net_tasks w' = net_tasks w" "tasks_ht w' = tasks_ht w" "next_task w' = next_task w"
    "closed_fds w' = closed_fds w" "res_state.more w' = res_state.more w" "var_ht w' = var_ht w"
    "\<And>k e. ht_lookup (res_tbl w) k = Some e \<Longrightarrow> r_resource_type e \<noteq> PP_RESOURCE_MESSAGE_LOOP \<Longrightarrow>
       ht_lookup (res_tbl w') k = Some e"
    "\<And>k. map_option r_resource_type (ht_lookup (res_tbl w') k) = map_option r_resource_type (ht_lookup (res_tbl w) k)"
  using assms by (auto simp: loops_only_def put_res_def)

lemma loops_only_quiet: "loops_only w' w \<Longrightarrow> quiet r w \<Longrightarrow> quiet r w'"
  unfolding loops_only_def
proof (elim disjE exE conjE)
  fix m e ml t
  assume q: "quiet r w" and e: "ht_lookup (res_tbl w) m = Some e" "r_resource_type e = PP_RESOURCE_MESSAGE_LOOP"
    and w': "w' = put_res m (e\<lparr>r_payload := push_task t ml\<rparr>) w"
  then have "m \<noteq> r" by (auto simp: quiet_def)
  from quiet_unlocked [OF q this e(1)] have "\<not> r_locked e" .
  then show "quiet r w'" using q \<open>m \<noteq> r\<close> by (auto simp: quiet_def w')
qed simp

lemma post_loops_only:
  assumes inv: "world_inv extR extV w" and q: "quiet r w"
  shows "\<exists>x w'. ppb_message_loop_post_work_with_result now m ccb delay result depth w = Some (x, w') \<and> loops_only w' w"
proof (cases "\<exists>e. ht_lookup (res_tbl w) m = Some e \<and> r_resource_type e = PP_RESOURCE_MESSAGE_LOOP")
  case False
  then have "pp_resource_get_type m w \<noteq> PP_RESOURCE_MESSAGE_LOOP \<or> ht_lookup (res_tbl w) m = None"
    by (auto simp: pp_resource_get_type_def split: option.splits)
  then show ?thesis
    by (auto simp: ppb_message_loop_post_work_with_result_def res_update_bad)
next
  case True
  then obtain e where e: "ht_lookup (res_tbl w) m = Some e" "r_resource_type e = PP_RESOURCE_MESSAGE_LOOP" by blast
  with q have "\<not> r_locked e" by (auto simp: quiet_def split: if_splits)
  from world_inv_available [OF inv e(1) this] e(2) obtain ml where
    av: "available m PP_RESOURCE_MESSAGE_LOOP w e" "r_payload e = PL_message_loop ml"
    using fits_loop by auto
  have "loops_only (w\<lparr>res_tbl := ht_insert m (e\<lparr>r_payload := r_payload e\<rparr>) (res_tbl w)\<rparr>) w"
    using e(1) by (simp add: loops_only_def ht_insert_same)
  then show ?thesis
    using e av(2)
    by (auto simp: ppb_message_loop_post_work_with_result_def res_update_available [OF av(1)] loops_only_def put_res_def)
qed

end
