(* ===== verification/Url_Correct.thy ===== *)
theory Url_Correct
  imports Url_Stream Posting
begin

text \<open>
  The life of a response: what the browser writes is what the plugin reads, in order and
  once, whether a read finds the data there, waits for it, or is still waiting when the
  stream ends.
\<close>

section \<open>A file\<close>

text \<open>
  What POSIX says of a descriptor of a regular file that nobody else uses: \<open>contents\<close> are its
  bytes and \<open>pos\<close> its offset. Writing past the end fills the gap with zeroes.
\<close>

definition overwrite :: "nat \<Rightarrow> char list \<Rightarrow> char list \<Rightarrow> char list" where
  "overwrite p bs c = take p (c @ replicate (p - length c) NUL) @ bs @ drop (p + length bs) c"

definition posix_file :: "'o os \<Rightarrow> int \<Rightarrow> ('o \<Rightarrow> char list) \<Rightarrow> ('o \<Rightarrow> nat) \<Rightarrow> bool" where
  "posix_file os fd contents pos \<longleftrightarrow>
     (\<forall>p s. \<exists>s'. os_lseek os fd p s = (True, s') \<and> contents s' = contents s \<and> pos s' = unat p) \<and>
     (\<forall>n s. \<exists>s'. os_read os fd n s = (Some (take n (drop (pos s) (contents s))), s') \<and>
        contents s' = contents s) \<and>
     (\<forall>bs s. contents (snd (os_write os fd bs s)) = overwrite (pos s) bs (contents s))"

text \<open>Such a file exists: a state that is the bytes and the offset.\<close>

definition mem_os :: "(char list \<times> nat) os" where
  "mem_os = \<lparr>os_open = \<lambda>_ _ s. (3, E_OK, s), os_stat = \<lambda>_ _. (None, ENOENT), os_fstat = \<lambda>_ _. (None, ENOENT),
     os_lstat = \<lambda>_ _. (None, ENOENT), os_mkdir = \<lambda>_ s. (0, E_OK, s), os_rename = \<lambda>_ _ s. (0, E_OK, s),
     os_unlink = \<lambda>_ s. (0, E_OK, s), os_scandir = \<lambda>_ _. None,
     os_read = \<lambda>_ n (c, p). (Some (take n (drop p c)), (c, p + length (take n (drop p c)))),
     os_write = \<lambda>_ bs (c, p). (int (length bs), (overwrite p bs c, p + length bs)),
     os_lseek = \<lambda>_ p (c, _). (True, (c, unat p)), os_close = \<lambda>_ s. s,
     os_mkstemp = \<lambda>t s. (3, t, s)\<rparr>"

lemma mem_os_posix: "posix_file mem_os fd fst snd"
  by (auto simp: posix_file_def mem_os_def)

definition bytes_at :: "nat \<Rightarrow> int \<Rightarrow> char list \<Rightarrow> char list" where
  "bytes_at p n c = take (nat n) (drop p c)"

lemma read_at_bytes:
  assumes "posix_file os (ul_fd ul) contents pos" and "0 \<le> n" "n < 2 ^ 31"
  shows "\<exists>s'. read_at os ul n s = (Some (bytes_at (unat (ul_read_pos ul)) n (contents s)), s') \<and>
    contents s' = contents s"
proof -
  obtain s1 where s1: "os_lseek os (ul_fd ul) (ul_read_pos ul) s = (True, s1)"
    "contents s1 = contents s" "pos s1 = unat (ul_read_pos ul)"
    using assms(1) unfolding posix_file_def by blast
  have n: "unat (word_of_int n :: u64) = nat n"
    using assms(2,3) by (simp add: unsigned_of_int take_bit_int_eq_self)
  obtain s2 where "os_read os (ul_fd ul) (nat n) s1 = (Some (take (nat n) (drop (pos s1) (contents s1))), s2)"
    "contents s2 = contents s1" using assms(1) unfolding posix_file_def by blast
  with s1 n show ?thesis by (simp add: read_at_def bytes_at_def)
qed

lemma length_bytes_at: "0 \<le> n \<Longrightarrow> n < 2 ^ 31 \<Longrightarrow> length (bytes_at p n c) < 2 ^ 31"
  by (simp add: bytes_at_def min_def) linarith

section \<open>The loader between acquire and release\<close>

definition loader_entry :: "bool \<Rightarrow> int \<Rightarrow> pp_url_loader_s \<Rightarrow> pp_resource_s \<Rightarrow> bool" where
  "loader_entry locked n ul e \<longleftrightarrow> r_resource_type e = PP_RESOURCE_URL_LOADER \<and> r_locked e = locked \<and>
     n < r_ref_cnt e \<and> r_payload e = PL_url_loader ul"

text \<open>The loader is held by the code that runs, or is free to be acquired.\<close>

definition held_loader :: "PP_Resource \<Rightarrow> pp_url_loader_s \<Rightarrow> 'a res_state_scheme \<Rightarrow> bool" where
  "held_loader r ul w \<longleftrightarrow> (\<exists>e. ht_lookup (res_tbl w) r = Some e \<and> loader_entry True 1 ul e)"

definition free_loader :: "PP_Resource \<Rightarrow> pp_url_loader_s \<Rightarrow> 'a res_state_scheme \<Rightarrow> bool" where
  "free_loader r ul w \<longleftrightarrow> (\<exists>e. ht_lookup (res_tbl w) r = Some e \<and> loader_entry False 0 ul e)"

lemma release_held:
  assumes "held_loader r ul w"
  shows "\<exists>e. pp_resource_release r (res_write r (PL_url_loader ul') w) = Some (put_res r e w) \<and>
    loader_entry False 0 ul' e"
proof -
  obtain e where e: "ht_lookup (res_tbl w) r = Some e" "loader_entry True 1 ul e"
    using assms by (auto simp: held_loader_def)
  then have w: "put_res r e w = w" by (simp add: put_res_same)
  let ?e = "e\<lparr>r_payload := PL_url_loader ul'\<rparr>"
  have "1 < r_ref_cnt ?e" using e(2) by (simp add: loader_entry_def)
  from put_res_release [OF this, of r w] have
    "pp_resource_release r (res_write r (PL_url_loader ul') (put_res r e w)) =
      Some (put_res r (?e\<lparr>r_locked := False, r_ref_cnt := r_ref_cnt e - 1\<rparr>) w)" by simp
  then show ?thesis using e(2) w by (intro exI conjI) (auto simp: loader_entry_def)
qed

lemma acquire_free:
  assumes "free_loader r ul w"
  shows "\<exists>e. pp_resource_acquire r PP_RESOURCE_URL_LOADER w = Some (Some e, put_res r e w) \<and>
    r_payload e = PL_url_loader ul \<and> loader_entry True 1 ul e"
proof -
  obtain e where e: "ht_lookup (res_tbl w) r = Some e" "loader_entry False 0 ul e"
    using assms by (auto simp: free_loader_def)
  then have w: "put_res r e w = w" by (simp add: put_res_same)
  have "r_resource_type e = PP_RESOURCE_URL_LOADER" "\<not> r_locked e" using e(2) by (auto simp: loader_entry_def)
  from put_res_acquire [OF this, of r w] w e(2) show ?thesis by (auto simp: loader_entry_def)
qed

lemma put_res_loader [simp]:
  "held_loader r ul (put_res r e w) = loader_entry True 1 ul e"
  "free_loader r ul (put_res r e w) = loader_entry False 0 ul e"
  by (simp_all add: held_loader_def free_loader_def)

lemma put_res_calm [simp]:
  "calm r (put_res r e w) = calm r w"
  "m \<noteq> r \<Longrightarrow> takes_tasks m (put_res r e w) = takes_tasks m w"
  "m \<noteq> r \<Longrightarrow> queue_of m (put_res r e w) = queue_of m w"
  by (auto simp: calm_def takes_tasks_def queue_of_def loop_of_def put_res_def)

lemma other_loader:
  "\<forall>k. k \<noteq> m \<longrightarrow> ht_lookup (res_tbl w') k = ht_lookup (res_tbl w) k \<Longrightarrow> r \<noteq> m \<Longrightarrow>
    free_loader r ul w' = free_loader r ul w"
  by (simp add: free_loader_def)

section \<open>Serving the reads that wait\<close>

fun served_reads :: "nat \<Rightarrow> url_loader_read_task_s list \<Rightarrow> char list \<Rightarrow> (url_loader_read_task_s \<times> char list) list" where
  "served_reads p [] c = []"
| "served_reads p (rt # rts) c =
     (let b = bytes_at p (rt_bytes_to_read rt) c in (rt, b) # served_reads (p + length b) rts c)"

lemma fst_served_reads [simp]: "map fst (served_reads p rts c) = rts"
  by (induction rts arbitrary: p) (simp_all add: Let_def)

lemma take_drop_append: "take m (drop p c) @ take n (drop (p + length (take m (drop p c))) c) = take (m + n) (drop p c)"
proof (cases "p + m \<le> length c")
  case True
  then show ?thesis by (simp add: take_add add.commute)
next
  case False
  then show ?thesis by simp
qed

lemma served_reads_bytes:
  "\<forall>rt\<in>set rts. 0 \<le> rt_bytes_to_read rt \<Longrightarrow>
    concat (map snd (served_reads p rts c)) = bytes_at p (sum_list (map rt_bytes_to_read rts)) c"
proof (induction rts arbitrary: p)
  case (Cons rt rts)
  let ?n = "rt_bytes_to_read rt"
  have nn: "0 \<le> sum_list (map rt_bytes_to_read rts)" using Cons.prems by (intro sum_list_nonneg) auto
  have "concat (map snd (served_reads p (rt # rts) c)) =
      bytes_at p ?n c @ bytes_at (p + length (bytes_at p ?n c)) (sum_list (map rt_bytes_to_read rts)) c"
    using Cons by (simp add: Let_def)
  also have "\<dots> = bytes_at p (?n + sum_list (map rt_bytes_to_read rts)) c"
    using take_drop_append [of "nat ?n" p c] Cons.prems nn by (simp add: bytes_at_def nat_add_distrib)
  finally show ?case by simp
qed (simp add: bytes_at_def)

definition posted_reads ::
  "timespec \<Rightarrow> (url_loader_read_task_s \<Rightarrow> PP_CompletionCallback) \<Rightarrow>
   (url_loader_read_task_s \<times> char list) list \<Rightarrow> message_loop_task_s list" where
  "posted_reads now wrap served = map (\<lambda>(rt, b). posted now (wrap rt) (int (length b))) served"

text \<open>A read the plugin asked for on loop \<open>m\<close>.\<close>

definition read_on :: "PP_Resource \<Rightarrow> url_loader_read_task_s \<Rightarrow> bool" where
  "read_on m rt \<longleftrightarrow> 0 \<le> rt_bytes_to_read rt \<and> rt_bytes_to_read rt < 2 ^ 31 \<and> rt_ccb_ml rt = m"

lemma advance_pos:
  assumes "length c < 2 ^ 64"
  shows "unat (ul_read_pos (advance (bytes_at (unat (ul_read_pos ul)) n c) ul)) =
    unat (ul_read_pos ul) + length (bytes_at (unat (ul_read_pos ul)) n c)"
proof (cases "bytes_at (unat (ul_read_pos ul)) n c = []")
  case False
  then have "unat (ul_read_pos ul) + length (bytes_at (unat (ul_read_pos ul)) n c) \<le> length c"
    by (auto simp: bytes_at_def)
  then have "unat (ul_read_pos ul) + length (bytes_at (unat (ul_read_pos ul)) n c) < 2 ^ 64"
    using assms by linarith
  then show ?thesis
    by (simp add: advance_def unat_add_lem [THEN iffD1] unat_of_nat take_bit_nat_eq_self unat_word_ariths)
qed (simp add: advance_def)

lemma drain_turn:
  assumes fd: "posix_file os (ul_fd u) contents pos" and task: "ul_read_tasks u = rt # rts" "read_on m rt"
    and held: "held_loader r u w" and calm: "calm r w" "m \<noteq> r" "takes_tasks m w" "queue_of m w = Some q"
    and wrap: "ccb_func (wrap rt) \<noteq> 0"
    and b: "b = bytes_at (unat (ul_read_pos u)) (rt_bytes_to_read rt) (contents s)"
  shows "\<exists>w' s'. held_loader r ((advance b u)\<lparr>ul_read_tasks := rts\<rparr>) w' \<and> calm r w' \<and> takes_tasks m w' \<and>
    queue_of m w' = Some (q @ [posted now (wrap rt) (int (length b))]) \<and> contents s' = contents s \<and>
    drain_tasks os wrap now r ((\<lambda>w. w) # fs) served (Some u) w s =
      drain_tasks os wrap now r fs ((rt, Some b) # served) (Some ((advance b u)\<lparr>ul_read_tasks := rts\<rparr>)) w' s'"
proof -
  have rt: "0 \<le> rt_bytes_to_read rt" "rt_bytes_to_read rt < 2 ^ 31" "rt_ccb_ml rt = m"
    using task(2) by (simp_all add: read_on_def)
  let ?u = "(advance b u)\<lparr>ul_read_tasks := rts\<rparr>"
  from read_at_bytes [OF fd rt(1,2)] b obtain s1 where
    s1: "read_at os u (rt_bytes_to_read rt) s = (Some b, s1)" "contents s1 = contents s" by metis
  from release_held [OF held] obtain e1 where
    e1: "pp_resource_release r (res_write r (PL_url_loader ?u) w) = Some (put_res r e1 w)"
    "loader_entry False 0 ?u e1" by blast
  have "calm r (put_res r e1 w)" "takes_tasks m (put_res r e1 w)" "queue_of m (put_res r e1 w) = Some q"
    using calm by simp_all
  from post_calm [OF this(1) calm(2) this(2,3) wrap] obtain w2 where
    w2: "ppb_message_loop_post_work_with_result now m (wrap rt) 0 (int (length b)) 0 (put_res r e1 w) = Some (PP_OK, w2)"
    "calm r w2" "takes_tasks m w2" "queue_of m w2 = Some (q @ [posted now (wrap rt) (int (length b))])"
    "\<forall>k. k \<noteq> m \<longrightarrow> ht_lookup (res_tbl w2) k = ht_lookup (res_tbl (put_res r e1 w)) k" by blast
  have "free_loader r ?u w2" using other_loader [OF w2(5)] calm(2) e1(2) by simp
  from acquire_free [OF this] obtain e3 where
    e3: "pp_resource_acquire r PP_RESOURCE_URL_LOADER w2 = Some (Some e3, put_res r e3 w2)"
    "r_payload e3 = PL_url_loader ?u" "loader_entry True 1 ?u e3" by blast
  have "drain_tasks os wrap now r ((\<lambda>w. w) # fs) served (Some u) w s =
      drain_tasks os wrap now r fs ((rt, Some b) # served) (Some ?u) (put_res r e3 w2) s1"
    using task(1) s1(1) e1(1) w2(1) e3(1,2) rt(3) by (simp add: Let_def)
  then show ?thesis using e3(3) w2(2-4) calm(2) s1(2) by (intro exI conjI) simp_all
qed

lemma drain_serves_all:
  assumes wrap: "\<forall>rt. ccb_func (wrap rt) \<noteq> 0" and mr: "m \<noteq> r"
  shows "ul_read_tasks u = rts \<Longrightarrow> \<forall>rt\<in>set rts. read_on m rt \<Longrightarrow> length rts \<le> length others \<Longrightarrow>
    others = replicate n (\<lambda>w. w) \<Longrightarrow> posix_file os (ul_fd u) contents pos \<Longrightarrow> length (contents s) < 2 ^ 64 \<Longrightarrow>
    held_loader r u w \<Longrightarrow> calm r w \<Longrightarrow> takes_tasks m w \<Longrightarrow> queue_of m w = Some q \<Longrightarrow>
    reads = served_reads (unat (ul_read_pos u)) rts (contents s) \<Longrightarrow>
    \<exists>u' w' s'. drain_tasks os wrap now r others served (Some u) w s =
        Some (Drained (rev (map (\<lambda>(rt, b). (rt, Some b)) reads) @ served, Some u', w', s')) \<and>
      u' = u\<lparr>ul_read_tasks := [], ul_read_pos := ul_read_pos u'\<rparr> \<and>
      held_loader r u' w' \<and> calm r w' \<and> takes_tasks m w' \<and>
      queue_of m w' = Some (q @ posted_reads now wrap reads) \<and> contents s' = contents s"
proof (induction rts arbitrary: u w s q reads served others n)
  case Nil
  then show ?case by (auto simp: posted_reads_def)
next
  case (Cons rt rts)
  let ?c = "contents s"
  let ?p = "unat (ul_read_pos u)"
  let ?b = "bytes_at ?p (rt_bytes_to_read rt) ?c"
  let ?u = "(advance ?b u)\<lparr>ul_read_tasks := rts\<rparr>"
  obtain n' where n': "others = (\<lambda>w. w) # replicate n' (\<lambda>w. w)"
    using Cons.prems(3,4) by (cases n) auto
  have rt: "read_on m rt" using Cons.prems(2) by simp
  from drain_turn [where fs = "replicate n' (\<lambda>w. w)" and now = now and served = served and wrap = wrap,
      OF Cons.prems(5,1) rt Cons.prems(7,8) mr Cons.prems(9,10) _ refl [of ?b]] wrap
  obtain w' s' where t: "held_loader r ?u w'" "calm r w'" "takes_tasks m w'"
    "queue_of m w' = Some (q @ [posted now (wrap rt) (int (length ?b))])" "contents s' = contents s"
    "drain_tasks os wrap now r others served (Some u) w s =
      drain_tasks os wrap now r (replicate n' (\<lambda>w. w)) ((rt, Some ?b) # served) (Some ?u) w' s'"
    using n' by blast
  have pos: "unat (ul_read_pos ?u) = ?p + length ?b"
    using advance_pos [OF Cons.prems(6), of u "rt_bytes_to_read rt"] by simp
  have fd: "posix_file os (ul_fd ?u) contents pos" using Cons.prems(5) by (simp add: advance_def)
  let ?reads = "served_reads (unat (ul_read_pos ?u)) rts (contents s')"
  have "\<exists>u' w'' s''. drain_tasks os wrap now r (replicate n' (\<lambda>w. w)) ((rt, Some ?b) # served) (Some ?u) w' s' =
        Some (Drained (rev (map (\<lambda>(rt, b). (rt, Some b)) ?reads) @ (rt, Some ?b) # served, Some u', w'', s'')) \<and>
      u' = ?u\<lparr>ul_read_tasks := [], ul_read_pos := ul_read_pos u'\<rparr> \<and>
      held_loader r u' w'' \<and> calm r w'' \<and> takes_tasks m w'' \<and>
      queue_of m w'' = Some ((q @ [posted now (wrap rt) (int (length ?b))]) @ posted_reads now wrap ?reads) \<and>
      contents s'' = contents s'"
    by (rule Cons.IH [OF _ _ _ refl fd _ t(1-4) refl]) (use Cons.prems(2,3,6) n' t(5) in simp_all)
  then obtain u' w'' s'' where r: "drain_tasks os wrap now r (replicate n' (\<lambda>w. w)) ((rt, Some ?b) # served) (Some ?u) w' s' =
        Some (Drained (rev (map (\<lambda>(rt, b). (rt, Some b)) ?reads) @ (rt, Some ?b) # served, Some u', w'', s''))"
    "u' = ?u\<lparr>ul_read_tasks := [], ul_read_pos := ul_read_pos u'\<rparr>"
    "held_loader r u' w''" "calm r w''" "takes_tasks m w''"
    "queue_of m w'' = Some ((q @ [posted now (wrap rt) (int (length ?b))]) @ posted_reads now wrap ?reads)"
    "contents s'' = contents s'" by blast
  have reads: "reads = (rt, ?b) # served_reads (unat (ul_read_pos ?u)) rts (contents s')"
    using Cons.prems(11) pos t(5) by (simp add: Let_def)
  have "u' = u\<lparr>ul_read_tasks := [], ul_read_pos := ul_read_pos u'\<rparr>"
    using r(2) by (cases u) (simp add: advance_def)
  then show ?case
    using t(5,6) r(1,3-) reads by (intro exI [of _ u'] exI [of _ w''] exI [of _ s'']) (simp add: posted_reads_def)
qed

section \<open>A state to evaluate on\<close>

text \<open>A loop (1), a loader (2) with reads that wait, on a started program.\<close>

definition sample_loader :: "url_loader_read_task_s list \<Rightarrow> pp_url_loader_s" where
  "sample_loader rts = zero_url_loader\<lparr>ul_fd := 3, ul_read_tasks := rts,
     ul_ccb := \<lparr>ccb_func = 70, ccb_user_data = 0, ccb_flags = 0\<rparr>, ul_ccb_ml := 1\<rparr>"

definition stream_world :: "url_loader_read_task_s list \<Rightarrow> world" where
  "stream_world rts = (started [PP_RESOURCE_MESSAGE_LOOP, PP_RESOURCE_URL_LOADER])\<lparr>res_tbl_next := 3, res_tbl :=
     [(1, \<lparr>r_resource_type = PP_RESOURCE_MESSAGE_LOOP, r_ref_cnt = 1, r_instance = Some 10, r_self_id = 1,
         r_locked = False, r_payload = zero_payload PP_RESOURCE_MESSAGE_LOOP\<rparr>),
      (2, \<lparr>r_resource_type = PP_RESOURCE_URL_LOADER, r_ref_cnt = 1, r_instance = Some 10, r_self_id = 2,
         r_locked = False, r_payload = PL_url_loader (sample_loader rts)\<rparr>)]\<rparr>"

lemma stream_world_facts:
  "free_loader 2 (sample_loader rts) (stream_world rts)" "calm 2 (stream_world rts)"
  "takes_tasks 1 (stream_world rts)" "queue_of 1 (stream_world rts) = Some []"
  by (auto simp: stream_world_def free_loader_def loader_entry_def calm_def takes_tasks_def queue_of_def loop_of_def)

definition sample_read :: "ptr \<Rightarrow> int \<Rightarrow> url_loader_read_task_s" where
  "sample_read buffer n = \<lparr>rt_url_loader = 2, rt_buffer = buffer, rt_bytes_to_read = n,
     rt_ccb = \<lparr>ccb_func = 50, ccb_user_data = buffer, ccb_flags = 0\<rparr>, rt_ccb_ml = 1\<rparr>"

definition sample_wrap :: "url_loader_read_task_s \<Rightarrow> PP_CompletionCallback" where
  "sample_wrap rt = \<lparr>ccb_func = 60, ccb_user_data = rt_buffer rt, ccb_flags = 0\<rparr>"

definition sample_stream :: NPStream where
  "sample_stream = \<lparr>st_pdata = 2, st_url = None, st_end = 0, st_notifyData = 2, st_headers = None\<rparr>"

definition finished_world :: world where
  "finished_world =
     res_write 2 (PL_url_loader ((sample_loader [])\<lparr>ul_finished_loading := True\<rparr>)) (stream_world [])"

section \<open>Properties\<close>

lemma loader_is_no_loop: "free_loader r ul w \<Longrightarrow> takes_tasks m w \<Longrightarrow> m \<noteq> r"
  by (auto simp: free_loader_def loader_entry_def takes_tasks_def)

lemma res_write_held: "held_loader r ul w \<Longrightarrow> res_write r (PL_url_loader ul) w = w"
  by (auto simp: held_loader_def loader_entry_def res_write_def ht_insert_same)

lemma res_write_put:
  "ht_lookup (res_tbl w) r = Some e \<Longrightarrow> res_write r pl w = put_res r (e\<lparr>r_payload := pl\<rparr>) w"
  by (simp add: res_write_def put_res_def)

text \<open>C5: When a stream ends every read that still waits is served, in the order the reads were made:
  their buffers get consecutive bytes of the response from the reading position on, and the
  callback of each is posted once, with the number of bytes it got.\<close>

theorem stream_end_serves_reads:
  assumes free: "free_loader r ul w" and ul: "ul_redirect_url ul = None" "\<not> ul_stream_to_file ul"
    and fd: "posix_file os (ul_fd ul) contents pos" and len: "length (contents s) < 2 ^ 64"
    and reads: "\<forall>rt\<in>set (ul_read_tasks ul). read_on m rt" "length (ul_read_tasks ul) \<le> n"
    and m: "calm r w" "takes_tasks m w" "queue_of m w = Some q"
    and wrap: "\<forall>rt. ccb_func (wrap rt) \<noteq> 0" and st: "st_pdata st = r" "r \<noteq> 0"
  shows "\<exists>reads w' s' ul'. NPP_DestroyStream False os wrap now (replicate n (\<lambda>w. w)) st w s =
      Some (Drained (rev (map (\<lambda>(rt, b). (rt, Some b)) reads), w', s')) \<and>
    map fst reads = ul_read_tasks ul \<and>
    concat (map snd reads) =
      bytes_at (unat (ul_read_pos ul)) (sum_list (map rt_bytes_to_read (ul_read_tasks ul))) (contents s) \<and>
    queue_of m w' = Some (q @ posted_reads now wrap reads) \<and>
    free_loader r ul' w' \<and> ul_read_tasks ul' = [] \<and> ul_finished_loading ul'"
proof -
  have mr: "m \<noteq> r" by (rule loader_is_no_loop [OF free m(2)])
  from acquire_free [OF free] obtain e where
    e: "pp_resource_acquire r PP_RESOURCE_URL_LOADER w = Some (Some e, put_res r e w)"
    "r_payload e = PL_url_loader ul" "loader_entry True 1 ul e" by blast
  let ?u = "ul\<lparr>ul_np_stream := 0, ul_finished_loading := True\<rparr>"
  let ?w = "put_res r (e\<lparr>r_payload := PL_url_loader ?u\<rparr>) w"
  have held: "held_loader r ?u ?w" using e(3) by (simp add: loader_entry_def)
  have calm: "calm r ?w" "takes_tasks m ?w" "queue_of m ?w = Some q" using m mr by simp_all
  let ?reads = "served_reads (unat (ul_read_pos ul)) (ul_read_tasks ul) (contents s)"
  from drain_serves_all [OF wrap mr, of ?u "ul_read_tasks ul" "replicate n (\<lambda>w. w)" n os contents pos s ?w q ?reads now "[]"]
    reads fd len held calm
  obtain u' w' s' where d: "drain_tasks os wrap now r (replicate n (\<lambda>w. w)) [] (Some ?u) ?w s =
      Some (Drained (rev (map (\<lambda>(rt, b). (rt, Some b)) ?reads), Some u', w', s'))"
    "u' = ?u\<lparr>ul_read_tasks := [], ul_read_pos := ul_read_pos u'\<rparr>" "held_loader r u' w'"
    "queue_of m w' = Some (q @ posted_reads now wrap ?reads)" by auto
  from release_held [OF d(3), of u'] obtain e' where
    e': "pp_resource_release r w' = Some (put_res r e' w')" "loader_entry False 0 u' e'"
    by (auto simp: res_write_held [OF d(3)])
  have u': "\<not> ul_stream_to_file u'" "ul_read_tasks u' = []" "ul_finished_loading u'"
    using d(2) ul(2) by (cases u'; simp)+
  let ?w' = "put_res r e' w'"
  have "NPP_DestroyStream False os wrap now (replicate n (\<lambda>w. w)) st w s =
      Some (Drained (rev (map (\<lambda>(rt, b). (rt, Some b)) ?reads), ?w', s'))"
    using e(1,2) ul(1) st d(1) e'(1) u'(1) by (simp add: NPP_DestroyStream_def del: drain_tasks.simps)
  moreover have "concat (map snd ?reads) =
      bytes_at (unat (ul_read_pos ul)) (sum_list (map rt_bytes_to_read (ul_read_tasks ul))) (contents s)"
    using reads(1) by (intro served_reads_bytes) (simp add: read_on_def)
  moreover have "queue_of m ?w' = Some (q @ posted_reads now wrap ?reads)" "free_loader r u' ?w'"
    using d(4) e'(2) mr by simp_all
  ultimately show ?thesis using u'(2,3) fst_served_reads by blast
qed

theorem stream_end_serves_reads_witness:
  "\<exists>reads w' s'. NPP_DestroyStream False mem_os sample_wrap \<lparr>tv_sec = 5, tv_nsec = 0\<rparr> (replicate 2 (\<lambda>w. w))
      sample_stream (stream_world [sample_read 100 2, sample_read 200 9]) (''hello'', 0) =
      Some (Drained (rev (map (\<lambda>(rt, b). (rt, Some b)) reads), w', s')) \<and>
    map fst reads = [sample_read 100 2, sample_read 200 9] \<and> concat (map snd reads) = ''hello''"
proof -
  have "\<forall>rt\<in>set (ul_read_tasks (sample_loader [sample_read 100 2, sample_read 200 9])). read_on 1 rt"
    by (simp add: sample_loader_def sample_read_def read_on_def)
  from stream_end_serves_reads [where s = "(''hello'', 0)" and n = 2 and st = sample_stream and wrap = sample_wrap
      and now = "\<lparr>tv_sec = 5, tv_nsec = 0\<rparr>", OF stream_world_facts(1) _ _ mem_os_posix _ this _ stream_world_facts(2-4)]
  show ?thesis
    by (fastforce simp: sample_loader_def zero_url_loader_def sample_wrap_def sample_stream_def sample_read_def
      bytes_at_def)
qed

section \<open>Reading and writing\<close>

lemma overwrite_end [simp]: "overwrite (length c) bs c = c @ bs"
  by (simp add: overwrite_def)

lemma advance_sel [simp]:
  "ul_read_tasks (advance b ul) = ul_read_tasks ul" "ul_fd (advance b ul) = ul_fd ul"
  "ul_finished_loading (advance b ul) = ul_finished_loading ul" "ul_stream_to_file (advance b ul) = ul_stream_to_file ul"
  by (simp_all add: advance_def)

text \<open>One write, with nobody waiting and with a read waiting.\<close>

lemma write_to_file:
  assumes "posix_file os fd contents pos"
  shows "\<exists>s1 x s2. os_lseek os fd p s = (True, s1) \<and> os_write os fd bs s1 = (x, s2) \<and>
    contents s2 = overwrite (unat p) bs (contents s)"
proof -
  obtain s1 where s1: "os_lseek os fd p s = (True, s1)" "contents s1 = contents s" "pos s1 = unat p"
    using assms unfolding posix_file_def by blast
  have "contents (snd (os_write os fd bs s1)) = overwrite (pos s1) bs (contents s1)"
    using assms by (simp add: posix_file_def)
  with s1 show ?thesis by (metis prod.collapse)
qed

lemma NPP_Write_stored:
  assumes free: "free_loader r ul w" and ul: "ul_fd ul \<noteq> - 1" "ul_read_tasks ul = []"
    and fd: "posix_file os (ul_fd ul) contents pos" and off: "0 \<le> offset" "offset < 2 ^ 31"
    and st: "st_pdata st = r" "r \<noteq> 0"
  shows "\<exists>w' s'. NPP_Write False os wrap now st offset (int (length bs)) bs w s =
      Some (int (length bs), None, w', s') \<and> free_loader r ul w' \<and>
    contents s' = (if bs = [] then contents s else overwrite (nat offset) bs (contents s))"
proof -
  from acquire_free [OF free] obtain e where
    e: "pp_resource_acquire r PP_RESOURCE_URL_LOADER w = Some (Some e, put_res r e w)"
    "r_payload e = PL_url_loader ul" "loader_entry True 1 ul e" by blast
  have held: "held_loader r ul (put_res r e w)" using e(3) by simp
  from release_held [OF held, of ul, unfolded res_write_held [OF held]] obtain e' where
    e': "pp_resource_release r (put_res r e w) = Some (put_res r e' (put_res r e w))" "loader_entry False 0 ul e'"
    by blast
  have o: "unat (word_of_int offset :: u64) = nat offset"
    using off by (simp add: unsigned_of_int take_bit_int_eq_self)
  from write_to_file [OF fd, of "word_of_int offset" s bs] obtain s1 x s2 where
    "os_lseek os (ul_fd ul) (word_of_int offset) s = (True, s1)" "os_write os (ul_fd ul) bs s1 = (x, s2)"
    "contents s2 = overwrite (nat offset) bs (contents s)" unfolding o by blast
  then show ?thesis using e e' ul st by (auto simp: NPP_Write_def)
qed

text \<open>The browser's writes of one response, each at the place the last one ended.\<close>

fun deliver ::
  "'o os \<Rightarrow> (url_loader_read_task_s \<Rightarrow> PP_CompletionCallback) \<Rightarrow> timespec \<Rightarrow> NPStream \<Rightarrow> int \<Rightarrow> char list list \<Rightarrow>
   'a world_scheme \<Rightarrow> 'o \<Rightarrow> ('a world_scheme \<times> 'o) option" where
  "deliver os wrap now st offset [] w s = Some (w, s)"
| "deliver os wrap now st offset (bs # chunks) w s = do {
     (_, _, w, s) \<leftarrow> NPP_Write False os wrap now st offset (int (length bs)) bs w s;
     deliver os wrap now st (offset + int (length bs)) chunks w s
   }"

lemma deliver_stores:
  assumes "ul_fd ul \<noteq> - 1" "ul_read_tasks ul = []" "posix_file os (ul_fd ul) contents pos"
    and "st_pdata st = r" "r \<noteq> 0"
  shows "free_loader r ul w \<Longrightarrow> int (length (contents s)) + int (length (concat chunks)) < 2 ^ 31 \<Longrightarrow>
    \<exists>w' s'. deliver os wrap now st (int (length (contents s))) chunks w s = Some (w', s') \<and>
      free_loader r ul w' \<and> contents s' = contents s @ concat chunks"
proof (induction chunks arbitrary: w s)
  case (Cons bs chunks)
  from NPP_Write_stored [OF Cons.prems(1) assms(1-3) _ _ assms(4,5), of "int (length (contents s))" wrap now bs s] Cons.prems(2)
  obtain w' s' where w': "NPP_Write False os wrap now st (int (length (contents s))) (int (length bs)) bs w s =
      Some (int (length bs), None, w', s')" "free_loader r ul w'" "contents s' = contents s @ bs"
    by (auto split: if_splits)
  from Cons.IH [OF w'(2), of s'] w'(3) Cons.prems(2) obtain w'' s'' where
    "deliver os wrap now st (int (length (contents s'))) chunks w' s' = Some (w'', s'')" "free_loader r ul w''"
    "contents s'' = contents s' @ concat chunks" by auto
  then show ?case using w'(1,3) by (auto simp: add.commute)
qed simp

lemma read_response_now:
  assumes free: "free_loader r ul w" and ul: "ul_fd ul \<noteq> - 1" "ul_read_tasks ul = []"
    and fd: "posix_file os (ul_fd ul) contents pos" and n: "0 \<le> n" "n < 2 ^ 31"
    and b: "b = bytes_at (unat (ul_read_pos ul)) n (contents s)" "b \<noteq> [] \<or> ul_finished_loading ul"
    and cb: "callback_optional callback"
  shows "\<exists>w' s'. ppb_url_loader_read_response_body os now r buffer n callback w s =
      Some (int (length b), Some b, w', s') \<and> free_loader r (advance b ul) w' \<and> contents s' = contents s"
proof -
  from acquire_free [OF free] obtain e where
    e: "pp_resource_acquire r PP_RESOURCE_URL_LOADER w = Some (Some e, put_res r e w)"
    "r_payload e = PL_url_loader ul" "loader_entry True 1 ul e" by blast
  have held: "held_loader r ul (put_res r e w)" using e(3) by simp
  from release_held [OF held, of "advance b ul"] obtain e' where
    e': "pp_resource_release r (res_write r (PL_url_loader (advance b ul)) (put_res r e w)) =
      Some (put_res r e' (put_res r e w))" "loader_entry False 0 (advance b ul) e'" by blast
  from read_at_bytes [OF fd n] b(1) obtain s1 where
    s1: "read_at os ul n s = (Some b, s1)" "contents s1 = contents s" by metis
  have "(b = [] \<and> \<not> ul_finished_loading ul) = False" using b(2) by auto
  then have "ppb_url_loader_read_response_body os now r buffer n callback w s =
      Some (int (length b), Some b, put_res r e' (put_res r e w), s1)"
    using e(1,2) e'(1) ul s1 cb by (auto simp: ppb_url_loader_read_response_body_def Let_def simp del: put_res_put_res put_res_write)
  then show ?thesis using e'(2) s1(2) by auto
qed





text \<open>
  A read that finds no data waits while the stream goes on; the next write that brings data
  serves it, and only it.
\<close>

lemma read_response_waits:
  assumes free: "free_loader r ul w" and ul: "ul_fd ul \<noteq> - 1" "ul_read_tasks ul = []" "\<not> ul_finished_loading ul"
    and fd: "posix_file os (ul_fd ul) contents pos" "length (contents s) \<le> unat (ul_read_pos ul)"
    and n: "0 \<le> n" "n < 2 ^ 31"
  shows "\<exists>e s'. ppb_url_loader_read_response_body os now r buffer n callback w s =
      Some (PP_OK_COMPLETIONPENDING, Some [], put_res r e w, s') \<and> contents s' = contents s \<and>
    loader_entry False 0
      (ul\<lparr>ul_read_tasks := [read_task r buffer n callback (ppb_message_loop_get_current w)]\<rparr>) e"
proof -
  let ?ul = "ul\<lparr>ul_read_tasks := [read_task r buffer n callback (ppb_message_loop_get_current w)]\<rparr>"
  from acquire_free [OF free] obtain e where
    e: "pp_resource_acquire r PP_RESOURCE_URL_LOADER w = Some (Some e, put_res r e w)"
    "r_payload e = PL_url_loader ul" "loader_entry True 1 ul e" by blast
  have held: "held_loader r ul (put_res r e w)" using e(3) by simp
  from release_held [OF held, of ?ul] obtain e' where
    e': "pp_resource_release r (res_write r (PL_url_loader ?ul) (put_res r e w)) =
      Some (put_res r e' (put_res r e w))" "loader_entry False 0 ?ul e'" by blast
  have "bytes_at (unat (ul_read_pos ul)) n (contents s) = []" using fd(2) by (simp add: bytes_at_def)
  with read_at_bytes [OF fd(1) n, of s] obtain s1 where
    s1: "read_at os ul n s = (Some [], s1)" "contents s1 = contents s" by metis
  have "ppb_url_loader_read_response_body os now r buffer n callback w s =
      Some (PP_OK_COMPLETIONPENDING, Some [], put_res r e' (put_res r e w), s1)"
    using e(1,2) e'(1) ul s1
    by (simp add: ppb_url_loader_read_response_body_def Let_def advance_def ppb_message_loop_get_current_def
      del: put_res_put_res put_res_write)
  then show ?thesis using e'(2) s1(2) by auto
qed

text \<open>Data that arrives while reads wait is written at its place in the file and serves the first
  of them: it gets the bytes at the reading position, its callback is posted once with their number,
  and the other reads go on waiting.\<close>

theorem write_serves_waiting_read:
  assumes free: "free_loader r ul w" and ul: "ul_fd ul \<noteq> - 1" "ul_read_tasks ul = rt # rts" and rt: "read_on m rt"
    and fd: "posix_file os (ul_fd ul) contents pos" and off: "0 \<le> offset" "offset < 2 ^ 31"
    and st: "st_pdata st = r" "r \<noteq> 0" and bs: "bs \<noteq> []"
    and m: "calm r w" "takes_tasks m w" "queue_of m w = Some q" and wrap: "ccb_func (wrap rt) \<noteq> 0"
    and b: "b = bytes_at (unat (ul_read_pos ul)) (rt_bytes_to_read rt) (overwrite (nat offset) bs (contents s))"
      "b \<noteq> []"
  shows "\<exists>w' s'. NPP_Write False os wrap now st offset (int (length bs)) bs w s =
      Some (int (length bs), Some (rt, b), w', s') \<and>
    free_loader r ((advance b ul)\<lparr>ul_read_tasks := rts\<rparr>) w' \<and>
    queue_of m w' = Some (q @ [posted now (wrap rt) (int (length b))]) \<and>
    contents s' = overwrite (nat offset) bs (contents s)"
proof -
  have mr: "m \<noteq> r" by (rule loader_is_no_loop [OF free m(2)])
  from acquire_free [OF free] obtain e where
    e: "pp_resource_acquire r PP_RESOURCE_URL_LOADER w = Some (Some e, put_res r e w)"
    "r_payload e = PL_url_loader ul" "loader_entry True 1 ul e" by blast
  have held: "held_loader r ul (put_res r e w)" using e(3) by simp
  let ?ul = "(advance b ul)\<lparr>ul_read_tasks := rts\<rparr>"
  from release_held [OF held, of ?ul] obtain e' where
    e': "pp_resource_release r (res_write r (PL_url_loader ?ul) (put_res r e w)) = Some (put_res r e' w)"
    "loader_entry False 0 ?ul e'" by (metis put_res_put_res)
  have o: "unat (word_of_int offset :: u64) = nat offset"
    using off by (simp add: unsigned_of_int take_bit_int_eq_self)
  from write_to_file [OF fd, of "word_of_int offset" s bs] obtain s1 x s2 where
    s2: "os_lseek os (ul_fd ul) (word_of_int offset) s = (True, s1)" "os_write os (ul_fd ul) bs s1 = (x, s2)"
    "contents s2 = overwrite (nat offset) bs (contents s)" unfolding o by blast
  have bytes: "0 \<le> rt_bytes_to_read rt" "rt_bytes_to_read rt < 2 ^ 31" "rt_ccb_ml rt = m"
    using rt by (simp_all add: read_on_def)
  from read_at_bytes [OF fd bytes(1,2), of s2] b(1) s2(3) obtain s3 where
    s3: "read_at os ul (rt_bytes_to_read rt) s2 = (Some b, s3)" "contents s3 = contents s2" by metis
  have "calm r (put_res r e' w)" "takes_tasks m (put_res r e' w)" "queue_of m (put_res r e' w) = Some q"
    using m mr by simp_all
  from post_calm [OF this(1) mr this(2,3) wrap] obtain w2 where
    w2: "ppb_message_loop_post_work_with_result now m (wrap rt) 0 (int (length b)) 0 (put_res r e' w) = Some (PP_OK, w2)"
    "queue_of m w2 = Some (q @ [posted now (wrap rt) (int (length b))])"
    "\<forall>k. k \<noteq> m \<longrightarrow> ht_lookup (res_tbl w2) k = ht_lookup (res_tbl (put_res r e' w)) k" by blast
  obtain b0 b' where b0: "b = b0 # b'" using b(2) by (cases b) auto
  have "NPP_Write False os wrap now st offset (int (length bs)) bs w s =
      Some (int (length bs), Some (rt, b), w2, s3)"
    using e(1,2) e'(1) ul st s2(1,2) s3(1) w2(1) bytes(3) bs unfolding b0
    by (simp add: NPP_Write_def del: put_res_write put_res_release)
  then show ?thesis using w2(2) other_loader [OF w2(3)] mr e'(2) s3(2) s2(3) by simp
qed

theorem write_serves_waiting_read_witness:
  "\<exists>w' s'. NPP_Write False mem_os sample_wrap \<lparr>tv_sec = 5, tv_nsec = 0\<rparr> sample_stream 0 5 ''hello''
      (stream_world [sample_read 100 2, sample_read 200 9]) ([], 0) = Some (5, Some (sample_read 100 2, ''he''), w', s') \<and>
    queue_of 1 w' = Some [posted \<lparr>tv_sec = 5, tv_nsec = 0\<rparr> (sample_wrap (sample_read 100 2)) 2]"
proof -
  have "read_on 1 (sample_read 100 2)" by (simp add: sample_read_def read_on_def)
  from write_serves_waiting_read [where s = "([], 0)" and st = sample_stream and wrap = sample_wrap and bs = "''hello''"
      and offset = 0 and b = "''he''" and now = "\<lparr>tv_sec = 5, tv_nsec = 0\<rparr>" and rts = "[sample_read 200 9]",
      OF stream_world_facts(1) _ _ this mem_os_posix _ _ _ _ _ stream_world_facts(2-4)]
  show ?thesis
    by (fastforce simp: sample_loader_def zero_url_loader_def sample_wrap_def sample_stream_def sample_read_def
      bytes_at_def overwrite_def)
qed

text \<open>A network error reaches the plugin once: the callback of the opening is posted with the
  failure and taken from the loader, so that a second notification changes nothing.\<close>

theorem url_notify_once:
  assumes free: "free_loader r ul w" "r \<noteq> 0" and m: "calm r w" "takes_tasks m w" "queue_of m w = Some q"
    and ul: "ccb_func (ul_ccb ul) \<noteq> 0" "ul_ccb_ml ul = m"
  shows "\<exists>w'. NPP_URLNotify now NPRES_NETWORK_ERR r w = Some w' \<and>
    queue_of m w' = Some (q @ [posted now (ul_ccb ul) PP_ERROR_FAILED]) \<and>
    free_loader r (ul\<lparr>ul_ccb := zero_ccb\<rparr>) w' \<and> NPP_URLNotify later NPRES_NETWORK_ERR r w' = Some w'"
proof -
  have mr: "m \<noteq> r" by (rule loader_is_no_loop [OF free(1) m(2)])
  have upd: "res_update r PP_RESOURCE_URL_LOADER None
      (\<lambda>p. map_option (\<lambda>ul. (Some (ul_ccb ul, ul_ccb_ml ul), PL_url_loader (ul\<lparr>ul_ccb := zero_ccb\<rparr>))) (the_loader p)) v =
    Some (Some (ul_ccb u, ul_ccb_ml u), put_res r (e\<lparr>r_payload := PL_url_loader (u\<lparr>ul_ccb := zero_ccb\<rparr>)\<rparr>) v)"
    if "ht_lookup (res_tbl v) r = Some e" "loader_entry False 0 u e" for v :: "'a world_scheme" and u e
  proof -
    have av: "available r PP_RESOURCE_URL_LOADER v e" using that by (simp add: available_def loader_entry_def)
    show ?thesis using that by (simp add: res_update_available [OF av] loader_entry_def put_res_def)
  qed
  obtain e where e: "ht_lookup (res_tbl w) r = Some e" "loader_entry False 0 ul e"
    using free(1) by (auto simp: free_loader_def)
  let ?ul = "ul\<lparr>ul_ccb := zero_ccb\<rparr>"
  let ?w = "put_res r (e\<lparr>r_payload := PL_url_loader ?ul\<rparr>) w"
  have "calm r ?w" "takes_tasks m ?w" "queue_of m ?w = Some q" using m mr by simp_all
  from post_calm [OF this(1) mr this(2,3) ul(1)] obtain w2 where
    w2: "ppb_message_loop_post_work_with_result now m (ul_ccb ul) 0 PP_ERROR_FAILED 0 ?w = Some (PP_OK, w2)"
    "queue_of m w2 = Some (q @ [posted now (ul_ccb ul) PP_ERROR_FAILED])"
    "\<forall>k. k \<noteq> m \<longrightarrow> ht_lookup (res_tbl w2) k = ht_lookup (res_tbl ?w) k" by blast
  have first: "NPP_URLNotify now NPRES_NETWORK_ERR r w = Some w2"
    using upd [OF e] w2(1) ul free(2) by (simp add: NPP_URLNotify_def)
  have fr: "free_loader r ?ul w2" using other_loader [OF w2(3)] mr e(2) by (simp add: loader_entry_def)
  then obtain e2 where e2: "ht_lookup (res_tbl w2) r = Some e2" "loader_entry False 0 ?ul e2"
    by (auto simp: free_loader_def)
  have "put_res r (e2\<lparr>r_payload := PL_url_loader (?ul\<lparr>ul_ccb := zero_ccb\<rparr>)\<rparr>) w2 = w2"
    using e2 by (cases e2) (simp add: put_res_same loader_entry_def)
  then have "NPP_URLNotify later NPRES_NETWORK_ERR r w2 = Some w2"
    using upd [OF e2] free(2) by (simp add: NPP_URLNotify_def zero_ccb_def)
  with first w2(2) fr show ?thesis by blast
qed

theorem url_notify_once_witness:
  "\<exists>w'. NPP_URLNotify \<lparr>tv_sec = 5, tv_nsec = 0\<rparr> NPRES_NETWORK_ERR 2 (stream_world []) = Some w' \<and>
    queue_of 1 w' = Some [posted \<lparr>tv_sec = 5, tv_nsec = 0\<rparr> \<lparr>ccb_func = 70, ccb_user_data = 0, ccb_flags = 0\<rparr> PP_ERROR_FAILED] \<and>
    NPP_URLNotify \<lparr>tv_sec = 6, tv_nsec = 0\<rparr> NPRES_NETWORK_ERR 2 w' = Some w'"
  using url_notify_once [OF stream_world_facts(1) _ stream_world_facts(2-4), of "[]" "\<lparr>tv_sec = 5, tv_nsec = 0\<rparr>"
      "\<lparr>tv_sec = 6, tv_nsec = 0\<rparr>"]
  by (fastforce simp: sample_loader_def zero_url_loader_def)

end
