(* ===== verification/Url_Open_Correct.thy ===== *)
theory Url_Open_Correct
  imports Url_Stream Posting
begin

text \<open>
  What the browser's thread does with a request that was opened: the text it posts, the one
  call it makes, the reference it gives back; and that response information keeps its loader.
\<close>

section \<open>The text of a request\<close>

definition body_of :: "post_data_item_s list \<Rightarrow> char list" where
  "body_of items = concat (map pdi_data items)"

text \<open>Items that are data, as the append function makes them.\<close>

definition is_data :: "post_data_item_s \<Rightarrow> bool" where
  "is_data pdi \<longleftrightarrow> pdi_file_ref pdi = 0 \<and> unat (pdi_len pdi) = length (pdi_data pdi)"

lemma is_data_item: "length d < 2 ^ 32 \<Longrightarrow> is_data (data_item d (word_of_nat (length d)))"
  by (simp add: is_data_def data_item_def unat_of_nat take_bit_nat_eq_self)

lemma unat_no_length: "unat NO_LENGTH = 2 ^ 64 - 1"
  by (simp add: unsigned_minus_1_eq_mask mask_eq_exp_minus_1)

lemma total_length_data:
  "list_all is_data items \<Longrightarrow> unat acc + length (body_of items) < 2 ^ 64 - 1 \<Longrightarrow>
    total_length seconds os items acc w s = Some (acc + word_of_nat (length (body_of items)), w)"
proof (induction items arbitrary: acc)
  case (Cons pdi items)
  have d: "pdi_file_ref pdi = 0" "unat (pdi_len pdi) = length (pdi_data pdi)" using Cons.prems(1)
    by (simp_all add: is_data_def)
  have bound: "unat acc + length (pdi_data pdi) + length (body_of items) < 2 ^ 64 - 1"
    using Cons.prems(2) by (simp add: body_of_def)
  have some: "pdi_len pdi \<noteq> NO_LENGTH"
  proof
    assume "pdi_len pdi = NO_LENGTH"
    then have "unat (pdi_len pdi) = 2 ^ 64 - 1" by (simp add: unat_no_length)
    with d(2) bound show False by simp
  qed
  have "unat (acc + pdi_len pdi) = unat acc + length (pdi_data pdi)"
    using d(2) bound by (subst unat_add_lem [THEN iffD1]) auto
  then have "total_length seconds os items (acc + pdi_len pdi) w s =
      Some (acc + pdi_len pdi + word_of_nat (length (body_of items)), w)"
    using Cons.prems(1) bound by (intro Cons.IH) auto
  moreover have "pdi_len pdi = word_of_nat (length (pdi_data pdi))" by (simp flip: d(2))
  ultimately show ?case using d(1) some by (simp add: post_data_get_item_length_def body_of_def add.assoc)
qed (simp add: body_of_def)

lemma write_items_data:
  "list_all is_data items \<Longrightarrow> write_items seconds os items buf w s = Some (buf @ body_of items, w, s)"
  by (induction items arbitrary: buf) (simp_all add: is_data_def post_data_write_to_gstring_def body_of_def)

text \<open>C35: The text of a POST request with data ends with exactly the data, after an empty line, and
  the Content-Length header before it names the number of its bytes: the sum of the lengths does not
  wrap around, nor is it taken for the error value, as long as it is below the largest 64-bit number.\<close>

theorem post_text_content_length:
  assumes "op_post_data p = Some items" and "list_all is_data items" and "body_of items \<noteq> []"
    and "length (body_of items) < 2 ^ 64 - 1"
  shows "post_text seconds os p w s =
      Some (Some (request_header_text p @ ''Content-Length: '' @ print_u (length (body_of items)) @ CRLF @ CRLF @
        body_of items), w, s) \<and>
    digits_val (print_u (length (body_of items))) = int (length (body_of items))"
proof -
  let ?n = "length (body_of items)"
  have len: "post_data_get_all_item_length seconds os items w s = Some (word_of_nat ?n, w)"
    using total_length_data [OF assms(2), of 0 seconds os w s] assms(4)
    by (simp add: post_data_get_all_item_length_def)
  have n: "unat (word_of_nat ?n :: u64) = ?n" using assms(4) by (simp add: unat_of_nat take_bit_nat_eq_self)
  have some: "(word_of_nat ?n :: u64) \<noteq> NO_LENGTH"
  proof
    assume "(word_of_nat ?n :: u64) = NO_LENGTH"
    then have "?n = 2 ^ 64 - 1" using n by (simp add: unat_no_length)
    with assms(4) show False by simp
  qed
  have "0 < (word_of_nat ?n :: u64)" using n assms(3) by (metis length_0_conv unat_0 word_gt_0)
  then show ?thesis
    using len some n assms(1) by (simp add: post_text_def Let_def write_items_data [OF assms(2)] digits_val_print_u)
qed

definition sample_param :: "pp_request_method_e \<Rightarrow> post_data_item_s list \<Rightarrow> url_loader_open_param_s" where
  "sample_param method items = \<lparr>op_url = Some ''http://a/'', op_loader = 2, op_instance_id = 10, op_method = method,
     op_request_headers = Some ''X: y'', op_custom_referrer_url = None, op_custom_content_transfer_encoding = None,
     op_custom_user_agent = None, op_target = None, op_post_data = Some items, op_m_loop = 1, op_depth = 3,
     op_retval = 0\<rparr>"

theorem post_text_content_length_witness:
  "post_text (\<lambda>_. 0) endless_os (sample_param PP_METHOD_POST [data_item ''ab'' 2, data_item ''cde'' 3])
      (started []) () =
    Some (Some (request_header_text (sample_param PP_METHOD_POST [data_item ''ab'' 2, data_item ''cde'' 3]) @
      ''Content-Length: '' @ print_u 5 @ CRLF @ CRLF @ ''abcde''), started [], ()) \<and> digits_val (print_u 5) = 5"
proof -
  let ?items = "[data_item ''ab'' 2, data_item ''cde'' 3]"
  have b: "body_of ?items = ''abcde''" by (simp add: body_of_def data_item_def)
  have "op_post_data (sample_param PP_METHOD_POST ?items) = Some ?items" by (simp add: sample_param_def)
  moreover have "list_all is_data ?items" by (simp add: is_data_def data_item_def)
  ultimately have "post_text (\<lambda>_. 0) endless_os (sample_param PP_METHOD_POST ?items) (started []) () =
      Some (Some (request_header_text (sample_param PP_METHOD_POST ?items) @ ''Content-Length: '' @
        print_u (length (body_of ?items)) @ CRLF @ CRLF @ body_of ?items), started [], ()) \<and>
    digits_val (print_u (length (body_of ?items))) = int (length (body_of ?items))"
    by (rule post_text_content_length) (simp_all add: b)
  moreover have n: "length (body_of ?items) = 5" by (simp add: b)
  ultimately show ?thesis unfolding n b by (simp only: of_nat_numeral)
qed

section \<open>Handing over to the browser\<close>

definition quit_task :: "timespec \<Rightarrow> int \<Rightarrow> message_loop_task_s" where
  "quit_task now depth = \<lparr>mt_when = now, mt_terminate = True, mt_depth = depth, mt_ccb = zero_ccb,
     mt_result_to_pass = PP_OK, mt_should_destroy_ml = False\<rparr>"

text \<open>The one call the browser should get for an opened request.\<close>

definition browser_call ::
  "'n npn \<Rightarrow> ptr \<Rightarrow> url_loader_open_param_s \<Rightarrow> char list \<Rightarrow> 'n \<Rightarrow> NPError \<times> 'n" where
  "browser_call npn npp p body n =
     (if op_method p = PP_METHOD_POST
      then (case op_target p of
          Some t \<Rightarrow> np_posturl npn npp (op_url p) t body n
        | None \<Rightarrow> np_posturlnotify npn npp (op_url p) body (op_loader p) n)
      else (case op_target p of
          Some t \<Rightarrow> np_geturl npn npp (op_url p) t n
        | None \<Rightarrow> np_geturlnotify npn npp (op_url p) (op_loader p) n))"


text \<open>A loop (1) and a loader (2) to which the opening has added its reference.\<close>

definition open_world :: world where
  "open_world = (started [PP_RESOURCE_MESSAGE_LOOP, PP_RESOURCE_URL_LOADER])\<lparr>res_tbl_next := 3, res_tbl :=
     [(1, \<lparr>r_resource_type = PP_RESOURCE_MESSAGE_LOOP, r_ref_cnt = 1, r_instance = Some 10, r_self_id = 1,
         r_locked = False, r_payload = zero_payload PP_RESOURCE_MESSAGE_LOOP\<rparr>),
      (2, \<lparr>r_resource_type = PP_RESOURCE_URL_LOADER, r_ref_cnt = 2, r_instance = Some 10, r_self_id = 2,
         r_locked = False, r_payload = zero_payload PP_RESOURCE_URL_LOADER\<rparr>)]\<rparr>"

lemma open_world_inv: "world_inv {#2, 2, 1#} {#} open_world"
proof -
  let ?w = "started [PP_RESOURCE_MESSAGE_LOOP, PP_RESOURCE_URL_LOADER]"
  from pp_resource_allocate_inv [OF started_inv, of "[PP_RESOURCE_MESSAGE_LOOP, PP_RESOURCE_URL_LOADER]"
      PP_RESOURCE_MESSAGE_LOOP "Some 10"] obtain w1 where
    w1: "pp_resource_allocate PP_RESOURCE_MESSAGE_LOOP (Some 10) ?w = Some (1, w1)" "world_inv {#1#} {#} w1"
    by auto
  then have w1': "w1 = ?w\<lparr>res_tbl_next := 2, res_tbl :=
     [(1, \<lparr>r_resource_type = PP_RESOURCE_MESSAGE_LOOP, r_ref_cnt = 1, r_instance = Some 10, r_self_id = 1,
         r_locked = False, r_payload = zero_payload PP_RESOURCE_MESSAGE_LOOP\<rparr>)]\<rparr>"
    by (simp add: pp_resource_allocate_def Let_def)
  from pp_resource_allocate_inv [OF w1(2), of PP_RESOURCE_URL_LOADER "Some 10"] w1' obtain w2 where
    w2: "pp_resource_allocate PP_RESOURCE_URL_LOADER (Some 10) w1 = Some (2, w2)" "world_inv {#2, 1#} {#} w2"
    by auto
  then have w2': "w2 = ?w\<lparr>res_tbl_next := 3, res_tbl := res_tbl w1 @ [(2, \<lparr>r_resource_type = PP_RESOURCE_URL_LOADER,
      r_ref_cnt = 1, r_instance = Some 10, r_self_id = 2, r_locked = False,
      r_payload = zero_payload PP_RESOURCE_URL_LOADER\<rparr>)]\<rparr>"
    using w1' by (simp add: pp_resource_allocate_def Let_def)
  have "snd (pp_resource_ref 2 w2) = open_world"
    using w2' w1' by (simp add: pp_resource_ref_def open_world_def)
  with pp_resource_ref_inv [OF w2(2), of 2] w2' w1' show ?thesis by simp
qed

definition quiet_npn :: "string list npn" where
  "quiet_npn = \<lparr>np_posturl = \<lambda>_ _ t _ n. (0, ''post'' # n), np_posturlnotify = \<lambda>_ _ _ _ n. (0, ''postnotify'' # n),
     np_geturl = \<lambda>_ _ t n. (0, ''get'' # n), np_geturlnotify = \<lambda>_ _ _ n. (0, ''getnotify'' # n),
     np_urlredirectresponse = \<lambda>_ _ _ n. n\<rparr>"


section \<open>Response information\<close>

text \<open>C39: Response information holds a reference on its loader: the loader cannot go while the plugin
  has the information, and the counts of the whole state stay exact.\<close>

theorem response_info_holds_loader:
  assumes inv: "world_inv extR extV w" and av: "available r PP_RESOURCE_URL_LOADER w e"
    and room: "0 < res_tbl_next w" "res_tbl_next w < INT_MAX"
    and type: "PP_RESOURCE_URL_RESPONSE_INFO \<in> set (destructors_ht w)"
  shows "\<exists>i w' ei e'. ppb_url_loader_get_response_info r w = Some (i, w') \<and> world_inv (add_mset i extR) extV w' \<and>
    ht_lookup (res_tbl w) i = None \<and> ht_lookup (res_tbl w') i = Some ei \<and> res_kids ei = [r] \<and>
    pointed_loader (r_payload ei) w' = the_loader (r_payload e) \<and>
    ht_lookup (res_tbl w') r = Some e' \<and> r_ref_cnt e' = r_ref_cnt e + 1"
proof -
  let ?w1 = "w\<lparr>res_tbl := ht_insert r (acquired e) (res_tbl w)\<rparr>"
  have look: "ht_lookup (res_tbl w) r = Some e" using av by (simp add: available_def)
  have r: "r \<noteq> 0" "r < res_tbl_next w" using world_inv_entry [OF inv look] by (simp_all add: res_entry_ok_def)
  have inv1: "world_inv (add_mset r extR) extV ?w1" by (rule acquired_inv [OF inv av])
  let ?i = "res_tbl_next w"
  let ?t = PP_RESOURCE_URL_RESPONSE_INFO
  from pp_resource_allocate_inv [OF inv1, of ?t "r_instance e"] room type obtain w2 where
    w2: "pp_resource_allocate ?t (r_instance e) ?w1 = Some (?i, w2)" "ht_lookup (res_tbl ?w1) ?i = None"
    "world_inv (add_mset ?i (add_mset r extR)) extV w2"
    "res_tbl w2 = ht_insert ?i \<lparr>r_resource_type = ?t, r_ref_cnt = 1, r_instance = r_instance e,
      r_self_id = ?i, r_locked = False, r_payload = zero_payload ?t\<rparr> (res_tbl ?w1)" by auto
  have ne: "?i \<noteq> r" using r(2) by simp
  let ?e0 = "\<lparr>r_resource_type = ?t, r_ref_cnt = 1, r_instance = r_instance e,
      r_self_id = ?i, r_locked = False, r_payload = zero_payload ?t\<rparr>"
  have av2: "available ?i ?t w2 ?e0" using w2(4) by (simp add: available_def)
  let ?w3 = "w2\<lparr>res_tbl := ht_insert ?i (acquired ?e0) (res_tbl w2)\<rparr>"
  have inv3: "world_inv (add_mset ?i (add_mset ?i (add_mset r extR))) extV ?w3" by (rule acquired_inv [OF w2(3) av2])
  have look3: "ht_lookup (res_tbl ?w3) r = Some (acquired e)" using w2(4) ne by simp
  let ?w4 = "snd (pp_resource_ref r ?w3)"
  have inv4: "world_inv (add_mset r (add_mset ?i (add_mset ?i (add_mset r extR)))) extV ?w4"
    by (rule pp_resource_ref_inv [OF inv3 look3])
  have look4: "ht_lookup (res_tbl ?w4) ?i = Some (acquired ?e0)"
    "ht_lookup (res_tbl ?w4) r = Some ((acquired e)\<lparr>r_ref_cnt := r_ref_cnt e + 2\<rparr>)"
    using look3 ne by (simp_all add: pp_resource_ref_def)
  let ?e5 = "(acquired ?e0)\<lparr>r_payload := PL_url_response_info r\<rparr>"
  let ?w5 = "res_write ?i (PL_url_response_info r) ?w4"
  have w5: "?w5 = ?w4\<lparr>res_tbl := ht_insert ?i ?e5 (res_tbl ?w4)\<rparr>" using look4(1) by (simp add: res_write_def)
  have "world_inv (add_mset ?i (add_mset ?i (add_mset r extR))) extV ?w5"
    unfolding w5 using r(1)
    by (intro world_inv_replace [OF inv4 look4(1)]) (simp_all add: res_kids_def res_vars_def)
  then obtain w6 where w6: "pp_resource_release ?i ?w5 = Some w6" "world_inv (add_mset r (add_mset ?i extR)) extV w6"
    using release_inv [of ?i "add_mset r (add_mset ?i extR)" extV ?w5 ?e5] w5 by (auto simp: add_mset_commute)
  have l5: "ht_lookup (res_tbl ?w5) ?i = Some ?e5" "1 < r_ref_cnt ?e5" using w5 by simp_all
  have l6: "ht_lookup (res_tbl w6) ?i = Some (?e5\<lparr>r_locked := False, r_ref_cnt := 1\<rparr>)"
    "ht_lookup (res_tbl w6) r = Some ((acquired e)\<lparr>r_ref_cnt := r_ref_cnt e + 2\<rparr>)"
    using release_counted [OF l5] w6(1) w5 look4(2) ne by auto
  obtain w7 where w7: "pp_resource_release r w6 = Some w7" "world_inv (add_mset ?i extR) extV w7"
    using release_inv [OF w6(2) l6(2)] by blast
  have "1 < r_ref_cnt ((acquired e)\<lparr>r_ref_cnt := r_ref_cnt e + 2\<rparr>)" using av by (simp add: available_def)
  from release_counted [OF l6(2) this] w7(1) l6 ne have
    l7: "ht_lookup (res_tbl w7) ?i = Some (?e5\<lparr>r_locked := False, r_ref_cnt := 1\<rparr>)"
    "ht_lookup (res_tbl w7) r = Some ((acquired e)\<lparr>r_locked := False, r_ref_cnt := r_ref_cnt e + 1\<rparr>)" by auto
  have "ppb_url_loader_get_response_info r w = Some (?i, w7)"
    using w2(1) w6(1) w7(1)
    by (simp add: ppb_url_loader_get_response_info_def with_resource_def acquire_available [OF av]
      acquire_available [OF av2] Let_def)
  moreover have "res_kids (?e5\<lparr>r_locked := False, r_ref_cnt := 1\<rparr>) = [r]" using r(1) by (simp add: res_kids_def)
  moreover have "ht_lookup (res_tbl w) ?i = None" using w2(2) ne by simp
  ultimately show ?thesis using w7(2) l7 by (intro exI conjI) (assumption | simp add: pointed_loader_def)+
qed

definition info_world :: world where
  "info_world = (case ppb_url_loader_create 10 (started [PP_RESOURCE_URL_LOADER, PP_RESOURCE_URL_RESPONSE_INFO]) of
     Some (r, w) \<Rightarrow> w | None \<Rightarrow> started [])"

theorem response_info_holds_loader_witness:
  "\<exists>i w'. ppb_url_loader_get_response_info 1 info_world = Some (i, w') \<and> world_inv {#i, 1#} {#} w' \<and> i \<noteq> 1"
proof -
  let ?types = "[PP_RESOURCE_URL_LOADER, PP_RESOURCE_URL_RESPONSE_INFO]"
  let ?pl = "PL_url_loader (zero_url_loader\<lparr>ul_response_size := - 1, ul_method := PP_METHOD_GET, ul_fd := - 1\<rparr>)"
  have "\<exists>r w'. create_resource 10 PP_RESOURCE_URL_LOADER ?pl (started ?types) = Some (r, w') \<and>
    ht_lookup (res_tbl (started ?types)) r = None \<and> 0 < r \<and> world_inv (add_mset r {#}) {#} w' \<and>
    available r PP_RESOURCE_URL_LOADER w' \<lparr>r_resource_type = PP_RESOURCE_URL_LOADER, r_ref_cnt = 1,
      r_instance = Some (pi_id sample_instance), r_self_id = r, r_locked = False, r_payload = ?pl\<rparr> \<and>
    (\<forall>k. k \<noteq> r \<longrightarrow> ht_lookup (res_tbl w') k = ht_lookup (res_tbl (started ?types)) k) \<and>
    var_ht w' = var_ht (started ?types) \<and> res_state.more w' = res_state.more (started ?types)"
    by (rule create_resource_ok [OF started_inv]) (simp_all add: zero_url_loader_def post_data_kids_def)
  then obtain r w where w: "create_resource 10 PP_RESOURCE_URL_LOADER ?pl (started ?types) = Some (r, w)" "0 < r"
    "world_inv (add_mset r {#}) {#} w"
    "available r PP_RESOURCE_URL_LOADER w \<lparr>r_resource_type = PP_RESOURCE_URL_LOADER, r_ref_cnt = 1,
      r_instance = Some (pi_id sample_instance), r_self_id = r, r_locked = False, r_payload = ?pl\<rparr>" by blast
  have r: "r = 1" using create_resource_id [OF w(1)] w(2) by simp
  have iw: "info_world = w" using w(1) by (simp add: info_world_def ppb_url_loader_create_def)
  have "0 < res_tbl_next w" "res_tbl_next w < INT_MAX" "PP_RESOURCE_URL_RESPONSE_INFO \<in> set (destructors_ht w)"
    using w(1) by (auto simp: create_resource_def pp_resource_allocate_def with_resource_def pp_resource_acquire_def
      acquire_attempt_def res_write_def pp_resource_release_def pp_resource_unlock_def pp_resource_unref_def Let_def)
  from response_info_holds_loader [OF w(3,4) this] w(4) show ?thesis
    unfolding iw r by (auto simp: available_def)
qed

end
