(* ===== verification/Input_Event.thy ===== *)
theory Input_Event
  imports World_Laws
begin

unbundle bit_operations_syntax

text \<open>
  \<^verbatim>\<open>ppb_input_event.c\<close>: input events and the classes of them an instance asks for. An event is
  one structure for all classes; the getters of one class answer only for events of it. An
  event holds a reference on its two variables. Touch events are stubs in the code.
\<close>

section \<open>Constants\<close>

abbreviation (input) PP_INPUTEVENT_CLASS_MOUSE :: u32 where "PP_INPUTEVENT_CLASS_MOUSE \<equiv> 1"
abbreviation (input) PP_INPUTEVENT_CLASS_KEYBOARD :: u32 where "PP_INPUTEVENT_CLASS_KEYBOARD \<equiv> 2"
abbreviation (input) PP_INPUTEVENT_CLASS_WHEEL :: u32 where "PP_INPUTEVENT_CLASS_WHEEL \<equiv> 4"
abbreviation (input) PP_INPUTEVENT_CLASS_IME :: u32 where "PP_INPUTEVENT_CLASS_IME \<equiv> 16"

abbreviation (input) PP_INPUTEVENT_TYPE_UNDEFINED :: int where "PP_INPUTEVENT_TYPE_UNDEFINED \<equiv> - 1"
abbreviation (input) PP_INPUTEVENT_TYPE_WHEEL :: int where "PP_INPUTEVENT_TYPE_WHEEL \<equiv> 5"
abbreviation (input) PP_INPUTEVENT_TYPE_IME_COMPOSITION_START :: int where "PP_INPUTEVENT_TYPE_IME_COMPOSITION_START \<equiv> 11"
abbreviation (input) PP_INPUTEVENT_TYPE_IME_COMPOSITION_UPDATE :: int where "PP_INPUTEVENT_TYPE_IME_COMPOSITION_UPDATE \<equiv> 12"
abbreviation (input) PP_INPUTEVENT_TYPE_IME_COMPOSITION_END :: int where "PP_INPUTEVENT_TYPE_IME_COMPOSITION_END \<equiv> 13"
abbreviation (input) PP_INPUTEVENT_TYPE_IME_TEXT :: int where "PP_INPUTEVENT_TYPE_IME_TEXT \<equiv> 14"
abbreviation (input) PP_INPUTEVENT_MOUSEBUTTON_NONE :: int where "PP_INPUTEVENT_MOUSEBUTTON_NONE \<equiv> - 1"

text \<open>The bits of the double -1.0.\<close>

abbreviation (input) DOUBLE_MINUS_ONE :: double_bits where "DOUBLE_MINUS_ONE \<equiv> 0xBFF0000000000000"

section \<open>What an instance asks for\<close>

definition ppb_input_event_request_input_events ::
  "PP_Instance \<Rightarrow> u32 \<Rightarrow> 'a world_scheme \<Rightarrow> int \<times> 'a world_scheme" where
  "ppb_input_event_request_input_events instance event_classes w =
     (case tables_get_pp_instance instance w of
        None \<Rightarrow> (PP_ERROR_BADARGUMENT, w)
      | Some pp_i \<Rightarrow> (PP_OK, tables_add_pp_instance instance
          (pp_i\<lparr>pi_event_mask := pi_event_mask pp_i OR event_classes\<rparr>) w))"

definition ppb_input_event_request_filtering_input_events ::
  "PP_Instance \<Rightarrow> u32 \<Rightarrow> 'a world_scheme \<Rightarrow> int \<times> 'a world_scheme" where
  "ppb_input_event_request_filtering_input_events instance event_classes w =
     (case tables_get_pp_instance instance w of
        None \<Rightarrow> (PP_ERROR_BADARGUMENT, w)
      | Some pp_i \<Rightarrow> (PP_OK, tables_add_pp_instance instance
          (pp_i\<lparr>pi_filtered_event_mask := pi_filtered_event_mask pp_i OR event_classes\<rparr>) w))"

definition ppb_input_event_clear_input_event_request ::
  "PP_Instance \<Rightarrow> u32 \<Rightarrow> 'a world_scheme \<Rightarrow> 'a world_scheme" where
  "ppb_input_event_clear_input_event_request instance event_classes w =
     (case tables_get_pp_instance instance w of
        None \<Rightarrow> w
      | Some pp_i \<Rightarrow> tables_add_pp_instance instance
          (pp_i\<lparr>pi_event_mask := pi_event_mask pp_i AND NOT event_classes,
            pi_filtered_event_mask := pi_filtered_event_mask pp_i AND NOT event_classes\<rparr>) w)"

section \<open>Events\<close>

fun the_event :: "payload \<Rightarrow> pp_input_event_s option" where
  "the_event (PL_input_event ie) = Some ie"
| "the_event _ = None"

definition ppb_input_event_is_input_event :: "PP_Resource \<Rightarrow> 'a res_state_scheme \<Rightarrow> bool" where
  "ppb_input_event_is_input_event resource w \<longleftrightarrow> pp_resource_get_type resource w = PP_RESOURCE_INPUT_EVENT"

definition event_field ::
  "'b \<Rightarrow> (pp_input_event_s \<Rightarrow> 'b) \<Rightarrow> PP_Resource \<Rightarrow> 'a res_state_scheme \<Rightarrow> ('b \<times> 'a res_state_scheme) option" where
  "event_field bad f event w = res_read event PP_RESOURCE_INPUT_EVENT bad (map_option f \<circ> the_event) w"

text \<open>The same for the getters of one class.\<close>

definition class_field ::
  "u32 \<Rightarrow> 'b \<Rightarrow> (pp_input_event_s \<Rightarrow> 'b) \<Rightarrow> PP_Resource \<Rightarrow> 'a res_state_scheme \<Rightarrow> ('b \<times> 'a res_state_scheme) option" where
  "class_field cls bad f event w =
     event_field bad (\<lambda>ie. if ie_event_class ie \<noteq> cls then bad else f ie) event w"

definition ppb_input_event_get_type ::
  "PP_Resource \<Rightarrow> 'a res_state_scheme \<Rightarrow> (int \<times> 'a res_state_scheme) option" where
  "ppb_input_event_get_type event w = event_field PP_INPUTEVENT_TYPE_UNDEFINED ie_type event w"

definition ppb_input_event_get_time_stamp ::
  "PP_Resource \<Rightarrow> 'a res_state_scheme \<Rightarrow> (PP_TimeTicks \<times> 'a res_state_scheme) option" where
  "ppb_input_event_get_time_stamp event w = event_field DOUBLE_MINUS_ONE ie_time_stamp event w"

definition ppb_input_event_get_modifiers ::
  "PP_Resource \<Rightarrow> 'a res_state_scheme \<Rightarrow> (u32 \<times> 'a res_state_scheme) option" where
  "ppb_input_event_get_modifiers event w = event_field 0 ie_modifiers event w"

subsection \<open>Mouse\<close>

text \<open>A point that is not given (NULL) is the origin.\<close>

definition point_or_zero :: "PP_Point option \<Rightarrow> PP_Point" where
  "point_or_zero p = (case p of None \<Rightarrow> zero_point | Some p \<Rightarrow> p)"

definition ppb_mouse_input_event_create ::
  "PP_Instance \<Rightarrow> int \<Rightarrow> PP_TimeTicks \<Rightarrow> u32 \<Rightarrow> int \<Rightarrow> PP_Point option \<Rightarrow> int \<Rightarrow> PP_Point option \<Rightarrow>
   'a world_scheme \<Rightarrow> (PP_Resource \<times> 'a world_scheme) option" where
  "ppb_mouse_input_event_create instance type time_stamp modifiers mouse_button mouse_position click_count
       mouse_movement w =
     create_resource instance PP_RESOURCE_INPUT_EVENT (PL_input_event (zero_input_event
       \<lparr>ie_event_class := PP_INPUTEVENT_CLASS_MOUSE, ie_type := type, ie_time_stamp := time_stamp,
        ie_modifiers := modifiers, ie_mouse_button := mouse_button,
        ie_mouse_position := point_or_zero mouse_position, ie_click_count := click_count,
        ie_mouse_movement := point_or_zero mouse_movement\<rparr>)) w"

definition ppb_mouse_input_event_is_mouse_input_event ::
  "PP_Resource \<Rightarrow> 'a res_state_scheme \<Rightarrow> (bool \<times> 'a res_state_scheme) option" where
  "ppb_mouse_input_event_is_mouse_input_event resource w =
     event_field False (\<lambda>ie. ie_event_class ie = PP_INPUTEVENT_CLASS_MOUSE) resource w"

definition ppb_mouse_input_event_get_button ::
  "PP_Resource \<Rightarrow> 'a res_state_scheme \<Rightarrow> (int \<times> 'a res_state_scheme) option" where
  "ppb_mouse_input_event_get_button mouse_event w =
     class_field PP_INPUTEVENT_CLASS_MOUSE PP_INPUTEVENT_MOUSEBUTTON_NONE ie_mouse_button mouse_event w"

definition ppb_mouse_input_event_get_position ::
  "PP_Resource \<Rightarrow> 'a res_state_scheme \<Rightarrow> (PP_Point \<times> 'a res_state_scheme) option" where
  "ppb_mouse_input_event_get_position mouse_event w =
     class_field PP_INPUTEVENT_CLASS_MOUSE zero_point ie_mouse_position mouse_event w"

definition ppb_mouse_input_event_get_click_count ::
  "PP_Resource \<Rightarrow> 'a res_state_scheme \<Rightarrow> (int \<times> 'a res_state_scheme) option" where
  "ppb_mouse_input_event_get_click_count mouse_event w =
     class_field PP_INPUTEVENT_CLASS_MOUSE 0 ie_click_count mouse_event w"

definition ppb_mouse_input_event_get_movement ::
  "PP_Resource \<Rightarrow> 'a res_state_scheme \<Rightarrow> (PP_Point \<times> 'a res_state_scheme) option" where
  "ppb_mouse_input_event_get_movement mouse_event w =
     class_field PP_INPUTEVENT_CLASS_MOUSE zero_point ie_mouse_movement mouse_event w"

subsection \<open>Wheel\<close>

definition float_point_or_zero :: "PP_FloatPoint option \<Rightarrow> PP_FloatPoint" where
  "float_point_or_zero p = (case p of None \<Rightarrow> zero_float_point | Some p \<Rightarrow> p)"

definition ppb_wheel_input_event_create ::
  "PP_Instance \<Rightarrow> PP_TimeTicks \<Rightarrow> u32 \<Rightarrow> PP_FloatPoint option \<Rightarrow> PP_FloatPoint option \<Rightarrow> bool \<Rightarrow>
   'a world_scheme \<Rightarrow> (PP_Resource \<times> 'a world_scheme) option" where
  "ppb_wheel_input_event_create instance time_stamp modifiers wheel_delta wheel_ticks scroll_by_page w =
     create_resource instance PP_RESOURCE_INPUT_EVENT (PL_input_event (zero_input_event
       \<lparr>ie_event_class := PP_INPUTEVENT_CLASS_WHEEL, ie_type := PP_INPUTEVENT_TYPE_WHEEL,
        ie_time_stamp := time_stamp, ie_modifiers := modifiers,
        ie_wheel_delta := float_point_or_zero wheel_delta, ie_wheel_ticks := float_point_or_zero wheel_ticks,
        ie_scroll_by_page := scroll_by_page\<rparr>)) w"

definition ppb_wheel_input_event_is_wheel_input_event ::
  "PP_Resource \<Rightarrow> 'a res_state_scheme \<Rightarrow> (bool \<times> 'a res_state_scheme) option" where
  "ppb_wheel_input_event_is_wheel_input_event resource w =
     event_field False (\<lambda>ie. ie_event_class ie = PP_INPUTEVENT_CLASS_WHEEL) resource w"

definition ppb_wheel_input_event_get_delta ::
  "PP_Resource \<Rightarrow> 'a res_state_scheme \<Rightarrow> (PP_FloatPoint \<times> 'a res_state_scheme) option" where
  "ppb_wheel_input_event_get_delta wheel_event w =
     class_field PP_INPUTEVENT_CLASS_WHEEL zero_float_point ie_wheel_delta wheel_event w"

definition ppb_wheel_input_event_get_ticks ::
  "PP_Resource \<Rightarrow> 'a res_state_scheme \<Rightarrow> (PP_FloatPoint \<times> 'a res_state_scheme) option" where
  "ppb_wheel_input_event_get_ticks wheel_event w =
     class_field PP_INPUTEVENT_CLASS_WHEEL zero_float_point ie_wheel_ticks wheel_event w"

definition ppb_wheel_input_event_get_scroll_by_page ::
  "PP_Resource \<Rightarrow> 'a res_state_scheme \<Rightarrow> (bool \<times> 'a res_state_scheme) option" where
  "ppb_wheel_input_event_get_scroll_by_page wheel_event w =
     class_field PP_INPUTEVENT_CLASS_WHEEL False ie_scroll_by_page wheel_event w"

subsection \<open>Keyboard\<close>

text \<open>What the constructors of events with variables do after the checks of their arguments.\<close>

definition create_event ::
  "PP_Instance option \<Rightarrow> pp_input_event_s \<Rightarrow> 'a world_scheme \<Rightarrow> (PP_Resource \<times> 'a world_scheme) option" where
  "create_event instance ie w = do {
     (r, w) \<leftarrow> pp_resource_allocate PP_RESOURCE_INPUT_EVENT instance w;
     with_resource r PP_RESOURCE_INPUT_EVENT 0
       (\<lambda>_ w. Some (r, res_write r (PL_input_event ie)
          (ppb_var_add_ref (ie_code ie) (ppb_var_add_ref (ie_text ie) w)))) w
   }"

definition ppb_keyboard_input_event_create_1_2 ::
  "PP_Instance \<Rightarrow> int \<Rightarrow> PP_TimeTicks \<Rightarrow> u32 \<Rightarrow> u32 \<Rightarrow> PP_Var \<Rightarrow> PP_Var \<Rightarrow> 'a world_scheme \<Rightarrow>
   (PP_Resource \<times> 'a world_scheme) option" where
  "ppb_keyboard_input_event_create_1_2 instance type time_stamp modifiers key_code character_text code w =
     (case tables_get_pp_instance instance w of
        None \<Rightarrow> Some (0, w)
      | Some pp_i \<Rightarrow> create_event (Some (pi_id pp_i)) (zero_input_event
          \<lparr>ie_event_class := PP_INPUTEVENT_CLASS_KEYBOARD, ie_type := type, ie_time_stamp := time_stamp,
           ie_modifiers := modifiers, ie_key_code := key_code, ie_text := character_text, ie_code := code\<rparr>) w)"

definition ppb_keyboard_input_event_create_1_0 ::
  "PP_Instance \<Rightarrow> int \<Rightarrow> PP_TimeTicks \<Rightarrow> u32 \<Rightarrow> u32 \<Rightarrow> PP_Var \<Rightarrow> 'a world_scheme \<Rightarrow>
   (PP_Resource \<times> 'a world_scheme) option" where
  "ppb_keyboard_input_event_create_1_0 instance type time_stamp modifiers key_code character_text w =
     ppb_keyboard_input_event_create_1_2 instance type time_stamp modifiers key_code character_text VUndefined w"

definition ppb_keyboard_input_event_is_keyboard_input_event ::
  "PP_Resource \<Rightarrow> 'a res_state_scheme \<Rightarrow> (bool \<times> 'a res_state_scheme) option" where
  "ppb_keyboard_input_event_is_keyboard_input_event resource w =
     event_field False (\<lambda>ie. ie_event_class ie = PP_INPUTEVENT_CLASS_KEYBOARD) resource w"

definition ppb_keyboard_input_event_get_key_code ::
  "PP_Resource \<Rightarrow> 'a res_state_scheme \<Rightarrow> (u32 \<times> 'a res_state_scheme) option" where
  "ppb_keyboard_input_event_get_key_code key_event w =
     class_field PP_INPUTEVENT_CLASS_KEYBOARD 0 ie_key_code key_event w"

text \<open>The text of an event of a class, with a reference of its own for the caller.\<close>

definition class_text ::
  "u32 \<Rightarrow> PP_Resource \<Rightarrow> 'a res_state_scheme \<Rightarrow> (PP_Var \<times> 'a res_state_scheme) option" where
  "class_text cls event w =
     with_resource event PP_RESOURCE_INPUT_EVENT VUndefined
       (\<lambda>gr w. do {
          ie \<leftarrow> the_event (r_payload gr);
          Some (if ie_event_class ie \<noteq> cls then (VUndefined, w) else ppb_var_add_ref2 (ie_text ie) w)
        }) w"

definition ppb_keyboard_input_event_get_character_text ::
  "PP_Resource \<Rightarrow> 'a res_state_scheme \<Rightarrow> (PP_Var \<times> 'a res_state_scheme) option" where
  "ppb_keyboard_input_event_get_character_text character_event w =
     class_text PP_INPUTEVENT_CLASS_KEYBOARD character_event w"

definition ppb_keyboard_input_event_get_code :: "PP_Resource \<Rightarrow> PP_Var" where
  "ppb_keyboard_input_event_get_code key_event = VUndefined"

subsection \<open>Input methods\<close>

text \<open>
  The offsets are copied when there is a segment; their number is computed with 32 bits.
  Reading past what the caller gave is undefined.
\<close>

definition ppb_ime_input_event_create ::
  "PP_Instance \<Rightarrow> int \<Rightarrow> PP_TimeTicks \<Rightarrow> PP_Var \<Rightarrow> u32 \<Rightarrow> u32 list \<Rightarrow> int \<Rightarrow> u32 \<Rightarrow> u32 \<Rightarrow> 'a world_scheme \<Rightarrow>
   (PP_Resource \<times> 'a world_scheme) option" where
  "ppb_ime_input_event_create instance type time_stamp txt segment_number segment_offsets target_segment
       selection_start selection_end w =
     (case tables_get_pp_instance instance w of
        None \<Rightarrow> Some (0, w)
      | Some pp_i \<Rightarrow>
          if type \<noteq> PP_INPUTEVENT_TYPE_IME_COMPOSITION_START \<and>
             type \<noteq> PP_INPUTEVENT_TYPE_IME_COMPOSITION_UPDATE \<and>
             type \<noteq> PP_INPUTEVENT_TYPE_IME_COMPOSITION_END \<and>
             type \<noteq> PP_INPUTEVENT_TYPE_IME_TEXT
          then Some (0, w)
          else if 0 < segment_number \<and> length segment_offsets < unat (segment_number + 1) then None
          else create_event (Some (pi_id pp_i)) (zero_input_event
            \<lparr>ie_event_class := PP_INPUTEVENT_CLASS_IME, ie_type := type, ie_time_stamp := time_stamp,
             ie_text := txt, ie_segment_number := segment_number,
             ie_segment_offsets :=
               (if 0 < segment_number then Some (take (unat (segment_number + 1)) segment_offsets) else None),
             ie_target_segment := target_segment, ie_selection_start := selection_start,
             ie_selection_end := selection_end\<rparr>) w)"

definition ppb_ime_input_event_is_ime_input_event ::
  "PP_Resource \<Rightarrow> 'a res_state_scheme \<Rightarrow> (bool \<times> 'a res_state_scheme) option" where
  "ppb_ime_input_event_is_ime_input_event resource w =
     event_field False (\<lambda>ie. ie_event_class ie = PP_INPUTEVENT_CLASS_IME) resource w"

definition ppb_ime_input_event_get_text ::
  "PP_Resource \<Rightarrow> 'a res_state_scheme \<Rightarrow> (PP_Var \<times> 'a res_state_scheme) option" where
  "ppb_ime_input_event_get_text ime_event w = class_text PP_INPUTEVENT_CLASS_IME ime_event w"

definition ppb_ime_input_event_get_segment_number ::
  "PP_Resource \<Rightarrow> 'a res_state_scheme \<Rightarrow> (u32 \<times> 'a res_state_scheme) option" where
  "ppb_ime_input_event_get_segment_number ime_event w =
     class_field PP_INPUTEVENT_CLASS_IME 0 ie_segment_number ime_event w"

text \<open>No array, or an index past its end: undefined.\<close>

definition segment_offset_at :: "pp_input_event_s \<Rightarrow> u32 \<Rightarrow> u32 option" where
  "segment_offset_at ie index =
     (if index \<le> ie_segment_number ie then do {
        offsets \<leftarrow> ie_segment_offsets ie;
        (if unat index < length offsets then Some (offsets ! unat index) else None)
      }
      else Some 0)"

definition ppb_ime_input_event_get_segment_offset ::
  "PP_Resource \<Rightarrow> u32 \<Rightarrow> 'a res_state_scheme \<Rightarrow> (u32 \<times> 'a res_state_scheme) option" where
  "ppb_ime_input_event_get_segment_offset ime_event index w =
     res_read ime_event PP_RESOURCE_INPUT_EVENT 0
       (\<lambda>p. Option.bind (the_event p) (\<lambda>ie.
          if ie_event_class ie \<noteq> PP_INPUTEVENT_CLASS_IME then Some 0 else segment_offset_at ie index)) w"

definition ppb_ime_input_event_get_target_segment ::
  "PP_Resource \<Rightarrow> 'a res_state_scheme \<Rightarrow> (int \<times> 'a res_state_scheme) option" where
  "ppb_ime_input_event_get_target_segment ime_event w =
     class_field PP_INPUTEVENT_CLASS_IME 0 ie_target_segment ime_event w"

text \<open>What is written to the two results, if anything is.\<close>

definition ppb_ime_input_event_get_selection ::
  "PP_Resource \<Rightarrow> 'a res_state_scheme \<Rightarrow> ((u32 \<times> u32) option \<times> 'a res_state_scheme) option" where
  "ppb_ime_input_event_get_selection ime_event w =
     class_field PP_INPUTEVENT_CLASS_IME None (\<lambda>ie. Some (ie_selection_start ie, ie_selection_end ie)) ime_event w"

section \<open>Laws\<close>

lemma event_field_available:
  "available r PP_RESOURCE_INPUT_EVENT w e \<Longrightarrow> r_payload e = PL_input_event ie \<Longrightarrow>
    event_field bad f r w = Some (f ie, w)"
  by (simp add: event_field_def res_read_available)

lemma class_field_available:
  "available r PP_RESOURCE_INPUT_EVENT w e \<Longrightarrow> r_payload e = PL_input_event ie \<Longrightarrow>
    class_field cls bad f r w = Some (if ie_event_class ie \<noteq> cls then bad else f ie, w)"
  by (simp add: class_field_def event_field_available)

lemma create_event_ok:
  assumes inv: "world_inv extR extV w" and room: "0 < res_tbl_next w" "res_tbl_next w < INT_MAX"
    and type: "PP_RESOURCE_INPUT_EVENT \<in> set (destructors_ht w)"
    and vars: "valid_var (var_ht w) (ie_text ie)" "valid_var (var_ht w) (ie_code ie)"
  shows "\<exists>r w'. create_event i ie w = Some (r, w') \<and> ht_lookup (res_tbl w) r = None \<and> 0 < r \<and>
    world_inv (add_mset r extR) extV w' \<and>
    available r PP_RESOURCE_INPUT_EVENT w' \<lparr>r_resource_type = PP_RESOURCE_INPUT_EVENT, r_ref_cnt = 1,
      r_instance = i, r_self_id = r, r_locked = False, r_payload = PL_input_event ie\<rparr> \<and>
    var_ht w' = var_ht (ppb_var_add_ref (ie_code ie) (ppb_var_add_ref (ie_text ie) w))"
proof -
  let ?r = "res_tbl_next w" and ?t = PP_RESOURCE_INPUT_EVENT
  let ?e = "\<lambda>pl. \<lparr>r_resource_type = ?t, r_ref_cnt = 1, r_instance = i, r_self_id = ?r, r_locked = False, r_payload = pl\<rparr>"
  let ?v = "\<lambda>w. ppb_var_add_ref (ie_code ie) (ppb_var_add_ref (ie_text ie) w)"
  from pp_resource_allocate_inv [OF inv room type, of i] obtain w1 where
    w1: "pp_resource_allocate ?t i w = Some (?r, w1)" "ht_lookup (res_tbl w) ?r = None"
    "world_inv (add_mset ?r extR) extV w1" "var_ht w1 = var_ht w" "res_tbl w1 = ht_insert ?r (?e (zero_payload ?t)) (res_tbl w)"
    by blast
  have av: "available ?r ?t w1 (?e (zero_payload ?t))" using w1(5) by (simp add: available_def)
  let ?w2 = "w1\<lparr>res_tbl := ht_insert ?r (acquired (?e (zero_payload ?t))) (res_tbl w1)\<rparr>"
  have inv2: "world_inv (add_mset ?r (add_mset ?r extR)) extV ?w2" by (rule acquired_inv [OF w1(3) av])
  have inv2': "world_inv (add_mset ?r (add_mset ?r extR)) (extV + ref_of (ie_text ie)) (ppb_var_add_ref (ie_text ie) ?w2)"
    by (rule world_inv_add_var [OF inv2]) (use vars w1(4) in simp)
  have inv3: "world_inv (add_mset ?r (add_mset ?r extR)) (extV + ref_of (ie_text ie) + ref_of (ie_code ie)) (?v ?w2)"
    by (rule world_inv_add_var [OF inv2']) (use vars w1(4) in simp)
  have look: "ht_lookup (res_tbl (?v ?w2)) ?r = Some (acquired (?e (zero_payload ?t)))" by simp
  let ?w4 = "res_write ?r (PL_input_event ie) (?v ?w2)"
  have w4: "?w4 = (?v ?w2)\<lparr>res_tbl := ht_insert ?r ((acquired (?e (zero_payload ?t)))\<lparr>r_payload := PL_input_event ie\<rparr>)
      (res_tbl (?v ?w2))\<rparr>" using look by (simp add: res_write_def)
  have "world_inv (add_mset ?r (add_mset ?r extR)) extV ?w4"
    unfolding w4
  proof (rule world_inv_replace [OF inv3 look])
    show "\<forall>v\<in>set (payload_vars (PL_input_event ie)). handle_ok (var_ht (?v ?w2)) v"
      using vars w1(4) by (auto intro!: valid_var_handle_ok)
  qed (simp_all add: res_kids_def res_vars_def zero_input_event_def ref_of_def counted_ids_def ac_simps)
  moreover have l4: "ht_lookup (res_tbl ?w4) ?r = Some ((acquired (?e (zero_payload ?t)))\<lparr>r_payload := PL_input_event ie\<rparr>)"
    using w4 by simp
  ultimately obtain w5 where w5: "pp_resource_release ?r ?w4 = Some w5" "world_inv (add_mset ?r extR) extV w5"
    using release_inv by blast
  have "w5 = ?w4\<lparr>res_tbl := ht_insert ?r (?e (PL_input_event ie)) (res_tbl ?w4)\<rparr>"
    using release_counted [OF l4] w5(1) by simp
  moreover have "var_ht (?v ?w2) = var_ht (?v w)" by (intro var_ht_add_ref_cong) (simp add: w1(4))
  ultimately have "available ?r ?t w5 (?e (PL_input_event ie))" "var_ht w5 = var_ht (?v w)"
    by (simp_all add: available_def w4)
  moreover have "create_event i ie w = Some (?r, w5)"
    using w1(1) w5(1) by (simp add: create_event_def with_resource_def acquire_available [OF av])
  ultimately show ?thesis using w1(2) w5(2) room by blast
qed

lemma class_text_available:
  assumes inv: "world_inv extR extV w" and av: "available r PP_RESOURCE_INPUT_EVENT w e"
    and ie: "r_payload e = PL_input_event ie" "ie_event_class ie = cls" and v: "valid_var (var_ht w) (ie_text ie)"
  shows "\<exists>w'. class_text cls r w = Some (ie_text ie, w') \<and> world_inv extR (extV + ref_of (ie_text ie)) w'"
proof -
  let ?w1 = "w\<lparr>res_tbl := ht_insert r (acquired e) (res_tbl w)\<rparr>"
  have keep: "world_inv (add_mset r extR) (extV + ref_of (ie_text ie)) (ppb_var_add_ref (ie_text ie) ?w1)"
    by (rule world_inv_add_var [OF acquired_inv [OF inv av]]) (use v in simp)
  define body where "body = (\<lambda>(gr :: pp_resource_s) w. do {
      ie \<leftarrow> the_event (r_payload gr);
      Some (if ie_event_class ie \<noteq> cls then (VUndefined, w :: 'a res_state_scheme) else ppb_var_add_ref2 (ie_text ie) w)
    })"
  have "body (acquired e) ?w1 = Some (ie_text ie, ppb_var_add_ref (ie_text ie) ?w1)"
    using ie by (simp add: body_def ppb_var_add_ref2_def)
  from with_resource_rule [where body = body, OF inv av this keep] show ?thesis unfolding class_text_def body_def by blast
qed

section \<open>Properties\<close>

text \<open>A keyboard event keeps its text alive: it takes a reference of its own on it when it is made
  and hands out another with every look at the text; when the event goes, what it held is given back
  and all counts are exact.\<close>

theorem keyboard_event_holds_text:
  assumes inv: "world_inv extR extV w" and room: "0 < res_tbl_next w" "res_tbl_next w < INT_MAX"
    and type: "PP_RESOURCE_INPUT_EVENT \<in> set (destructors_ht w)"
    and i: "tables_get_pp_instance instance w = Some pp_i"
    and vars: "valid_var (var_ht w) txt" "valid_var (var_ht w) code"
  shows "\<exists>r w1 w2 w3. ppb_keyboard_input_event_create_1_2 instance t time modifiers key txt code w = Some (r, w1) \<and>
    world_inv (add_mset r extR) extV w1 \<and>
    ppb_keyboard_input_event_get_character_text r w1 = Some (txt, w2) \<and>
    world_inv (add_mset r extR) (extV + ref_of txt) w2 \<and>
    pp_resource_unref r w1 = Some w3 \<and> world_inv extR extV w3"
proof -
  let ?ie = "zero_input_event\<lparr>ie_event_class := PP_INPUTEVENT_CLASS_KEYBOARD, ie_type := t, ie_time_stamp := time,
           ie_modifiers := modifiers, ie_key_code := key, ie_text := txt, ie_code := code\<rparr>"
  from create_event_ok [OF inv room type, of ?ie "Some (pi_id pp_i)"] vars obtain r w1 where
    w1: "create_event (Some (pi_id pp_i)) ?ie w = Some (r, w1)" "0 < r" "world_inv (add_mset r extR) extV w1"
    "available r PP_RESOURCE_INPUT_EVENT w1 \<lparr>r_resource_type = PP_RESOURCE_INPUT_EVENT, r_ref_cnt = 1,
      r_instance = Some (pi_id pp_i), r_self_id = r, r_locked = False, r_payload = PL_input_event ?ie\<rparr>"
    "var_ht w1 = var_ht (ppb_var_add_ref code (ppb_var_add_ref txt w))" by auto
  have "ppb_keyboard_input_event_create_1_2 instance t time modifiers key txt code w = Some (r, w1)"
    using i w1(1) by (simp add: ppb_keyboard_input_event_create_1_2_def)
  moreover have "\<exists>w2. class_text PP_INPUTEVENT_CLASS_KEYBOARD r w1 = Some (ie_text ?ie, w2) \<and>
      world_inv (add_mset r extR) (extV + ref_of (ie_text ?ie)) w2"
    by (rule class_text_available [OF w1(3,4)]) (use vars w1(5) in simp_all)
  moreover have "r \<noteq> 0" using w1(2) by simp
  note pp_resource_unref_inv [OF w1(3) this]
  ultimately show ?thesis
    using w1(3) by (simp add: ppb_keyboard_input_event_get_character_text_def) blast
qed

theorem keyboard_event_holds_text_witness:
  "\<exists>w r v w1 w2 w3. ppb_var_var_from_utf8 (Some ''a'') 1 (started [PP_RESOURCE_INPUT_EVENT]) = Some (v, w) \<and>
    ppb_keyboard_input_event_create_1_2 10 9 0 0 65 v VUndefined w = Some (r, w1) \<and>
    ppb_keyboard_input_event_get_character_text r w1 = Some (v, w2) \<and> pp_resource_unref r w1 = Some w3"
proof -
  from world_inv_from_utf8 [OF started_inv, of "[PP_RESOURCE_INPUT_EVENT]" 1 "''a''"] obtain i w where
    w: "ppb_var_var_from_utf8 (Some ''a'') 1 (started [PP_RESOURCE_INPUT_EVENT]) = Some (VString i, w)"
    "valid_var (var_ht w) (VString i)" "world_inv {#} {#i#} w"
    "var_state.more w = var_state.more (started [PP_RESOURCE_INPUT_EVENT])" by auto
  have "res_tbl_next w = 1" "destructors_ht w = [PP_RESOURCE_INPUT_EVENT]"
    "tables_get_pp_instance 10 w = Some sample_instance"
    using res_state_of_more [OF w(4)] world_of_more(2) [OF res_state_of_more(8) [OF w(4)], of 10] by simp_all
  then show ?thesis
    using keyboard_event_holds_text [OF w(3), of 10 sample_instance "VString i" VUndefined 9 0 0 65] w(1,2) by auto
qed

text \<open>A mouse event tells what it was made of, a missing point being the origin, and nothing of the
  other classes: the getters of wheel events answer zero for it.\<close>

theorem mouse_event_fields:
  assumes inv: "world_inv extR extV w" and room: "0 < res_tbl_next w" "res_tbl_next w < INT_MAX"
    and type: "PP_RESOURCE_INPUT_EVENT \<in> set (destructors_ht w)"
    and i: "tables_get_pp_instance instance w = Some pp_i"
  shows "\<exists>r w'. ppb_mouse_input_event_create instance t time modifiers button position clicks movement w = Some (r, w') \<and>
    world_inv (add_mset r extR) extV w' \<and>
    ppb_input_event_get_type r w' = Some (t, w') \<and> ppb_input_event_get_time_stamp r w' = Some (time, w') \<and>
    ppb_input_event_get_modifiers r w' = Some (modifiers, w') \<and>
    ppb_mouse_input_event_get_button r w' = Some (button, w') \<and>
    ppb_mouse_input_event_get_position r w' = Some (point_or_zero position, w') \<and>
    ppb_mouse_input_event_get_click_count r w' = Some (clicks, w') \<and>
    ppb_mouse_input_event_get_movement r w' = Some (point_or_zero movement, w') \<and>
    ppb_wheel_input_event_get_delta r w' = Some (zero_float_point, w') \<and>
    ppb_keyboard_input_event_get_key_code r w' = Some (0, w')"
proof -
  let ?ie = "zero_input_event\<lparr>ie_event_class := PP_INPUTEVENT_CLASS_MOUSE, ie_type := t, ie_time_stamp := time,
        ie_modifiers := modifiers, ie_mouse_button := button, ie_mouse_position := point_or_zero position,
        ie_click_count := clicks, ie_mouse_movement := point_or_zero movement\<rparr>"
  from create_resource_ok [OF inv room type i, of "PL_input_event ?ie"] obtain r w' where
    w': "create_resource instance PP_RESOURCE_INPUT_EVENT (PL_input_event ?ie) w = Some (r, w')"
    "world_inv (add_mset r extR) extV w'"
    "available r PP_RESOURCE_INPUT_EVENT w' \<lparr>r_resource_type = PP_RESOURCE_INPUT_EVENT, r_ref_cnt = 1,
      r_instance = Some (pi_id pp_i), r_self_id = r, r_locked = False, r_payload = PL_input_event ?ie\<rparr>"
    by (auto simp: zero_input_event_def)
  note get = event_field_available [OF w'(3)] class_field_available [OF w'(3)]
  show ?thesis
    using w'(1,2)
    by (intro exI [of _ r] exI [of _ w'])
      (simp add: ppb_mouse_input_event_create_def ppb_input_event_get_type_def ppb_input_event_get_time_stamp_def
        ppb_input_event_get_modifiers_def ppb_mouse_input_event_get_button_def ppb_mouse_input_event_get_position_def
        ppb_mouse_input_event_get_click_count_def ppb_mouse_input_event_get_movement_def
        ppb_wheel_input_event_get_delta_def ppb_keyboard_input_event_get_key_code_def get)
qed

theorem mouse_event_fields_witness:
  "\<exists>r w'. ppb_mouse_input_event_create 10 0 0 64 2 (Some \<lparr>pt_x = 3, pt_y = 4\<rparr>) 1 None (started [PP_RESOURCE_INPUT_EVENT]) =
      Some (r, w') \<and>
    ppb_mouse_input_event_get_position r w' = Some (\<lparr>pt_x = 3, pt_y = 4\<rparr>, w') \<and>
    ppb_mouse_input_event_get_movement r w' = Some (zero_point, w')"
  using mouse_event_fields [OF started_inv, of "[PP_RESOURCE_INPUT_EVENT]" 10 sample_instance 0 0 64 2
      "Some \<lparr>pt_x = 3, pt_y = 4\<rparr>" 1 None]
  by (auto simp: point_or_zero_def)

text \<open>Asking for the first offset of an input method event that has no segments reads through a
  NULL pointer: the check against the number of segments lets index 0 through.\<close>

theorem ime_offset_without_segments:
  assumes "available r PP_RESOURCE_INPUT_EVENT w e" and "r_payload e = PL_input_event ie"
    and "ie_event_class ie = PP_INPUTEVENT_CLASS_IME" and "ie_segment_number ie = 0" and "ie_segment_offsets ie = None"
  shows "ppb_ime_input_event_get_segment_offset r 0 w = None"
  using assms by (simp add: ppb_ime_input_event_get_segment_offset_def res_read_available segment_offset_at_def)

definition ime_event :: pp_input_event_s where
  "ime_event = zero_input_event\<lparr>ie_event_class := PP_INPUTEVENT_CLASS_IME, ie_type := PP_INPUTEVENT_TYPE_IME_TEXT\<rparr>"

theorem ime_offset_without_segments_witness:
  "\<exists>r w. ppb_ime_input_event_create 10 PP_INPUTEVENT_TYPE_IME_TEXT 0 VUndefined 0 [] 0 0 0
      (started [PP_RESOURCE_INPUT_EVENT]) = Some (r, w) \<and> ppb_ime_input_event_get_segment_offset r 0 w = None"
proof -
  from create_event_ok [OF started_inv, of "[PP_RESOURCE_INPUT_EVENT]" ime_event "Some 10"] obtain r w where
    w: "create_event (Some 10) ime_event (started [PP_RESOURCE_INPUT_EVENT]) = Some (r, w)"
    "available r PP_RESOURCE_INPUT_EVENT w \<lparr>r_resource_type = PP_RESOURCE_INPUT_EVENT, r_ref_cnt = 1,
      r_instance = Some 10, r_self_id = r, r_locked = False, r_payload = PL_input_event ime_event\<rparr>"
    by (auto simp: ime_event_def zero_input_event_def)
  have "ppb_ime_input_event_get_segment_offset r 0 w = None"
    by (rule ime_offset_without_segments [OF w(2), of ime_event]) (simp_all add: ime_event_def zero_input_event_def)
  moreover have "ppb_ime_input_event_create 10 PP_INPUTEVENT_TYPE_IME_TEXT 0 VUndefined 0 [] 0 0 0
      (started [PP_RESOURCE_INPUT_EVENT]) = create_event (Some 10) ime_event (started [PP_RESOURCE_INPUT_EVENT])"
    by (simp add: ppb_ime_input_event_create_def ime_event_def zero_input_event_def sample_instance_def)
  ultimately show ?thesis using w(1) by auto
qed

end
