(* ===== verification/Plain_Resources.thy ===== *)
theory Plain_Resources
  imports World_Laws Message_Loop
begin

text \<open>
  The resources that only hold data: \<^verbatim>\<open>ppb_view.c\<close>, \<^verbatim>\<open>ppb_audio_config.c\<close>, \<^verbatim>\<open>ppb_buffer.c\<close>
  and \<^verbatim>\<open>ppb_image_data.c\<close>. Sizes are C's \<^verbatim>\<open>int\<close>: a product that does not fit is undefined
  (\<open>None\<close>). What \<^verbatim>\<open>calloc\<close> can give is the parameter \<open>can_alloc\<close> where the code asks.
\<close>

section \<open>Views\<close>

definition ppb_view_is_view :: "PP_Resource \<Rightarrow> 'a res_state_scheme \<Rightarrow> bool" where
  "ppb_view_is_view resource w \<longleftrightarrow> pp_resource_get_type resource w = PP_RESOURCE_VIEW"

fun the_view :: "payload \<Rightarrow> PP_Rect option" where
  "the_view (PL_view r) = Some r"
| "the_view _ = None"

text \<open>The rectangle written to the result, if the call succeeds.\<close>

definition ppb_view_get_rect :: "PP_Resource \<Rightarrow> 'a res_state_scheme \<Rightarrow> (PP_Rect option \<times> 'a res_state_scheme) option" where
  "ppb_view_get_rect resource w = res_read resource PP_RESOURCE_VIEW None (map_option Some \<circ> the_view) w"

definition ppb_view_get_clip_rect :: "PP_Resource \<Rightarrow> 'a res_state_scheme \<Rightarrow> (PP_Rect option \<times> 'a res_state_scheme) option" where
  "ppb_view_get_clip_rect resource w = res_read resource PP_RESOURCE_VIEW None (map_option Some \<circ> the_view) w"

definition ppb_view_is_fullscreen :: "PP_Resource \<Rightarrow> bool" where "ppb_view_is_fullscreen resource = False"
definition ppb_view_is_visible :: "PP_Resource \<Rightarrow> bool" where "ppb_view_is_visible resource = True"
definition ppb_view_is_page_visible :: "PP_Resource \<Rightarrow> bool" where "ppb_view_is_page_visible resource = True"
definition ppb_view_get_scroll_offset :: "PP_Resource \<Rightarrow> PP_Point" where "ppb_view_get_scroll_offset resource = zero_point"

section \<open>Audio configuration\<close>

abbreviation (input) PP_AUDIOMINSAMPLEFRAMECOUNT :: u32 where "PP_AUDIOMINSAMPLEFRAMECOUNT \<equiv> 64"
abbreviation (input) PP_AUDIOMAXSAMPLEFRAMECOUNT :: u32 where "PP_AUDIOMAXSAMPLEFRAMECOUNT \<equiv> 32768"

definition CLAMP :: "u32 \<Rightarrow> u32 \<Rightarrow> u32 \<Rightarrow> u32" where
  "CLAMP x low high = (if high < x then high else if x < low then low else x)"

fun the_audio_config :: "payload \<Rightarrow> pp_audio_config_s option" where
  "the_audio_config (PL_audio_config ac) = Some ac"
| "the_audio_config _ = None"

definition ppb_audio_config_create_stereo_16_bit ::
  "PP_Instance \<Rightarrow> int \<Rightarrow> u32 \<Rightarrow> 'a world_scheme \<Rightarrow> (PP_Resource \<times> 'a world_scheme) option" where
  "ppb_audio_config_create_stereo_16_bit instance sample_rate sample_frame_count w =
     create_resource instance PP_RESOURCE_AUDIO_CONFIG
       (PL_audio_config \<lparr>ac_sample_rate = sample_rate, ac_sample_frame_count =
          CLAMP sample_frame_count PP_AUDIOMINSAMPLEFRAMECOUNT PP_AUDIOMAXSAMPLEFRAMECOUNT\<rparr>) w"

definition ppb_audio_config_recommend_sample_frame_count :: "PP_Instance \<Rightarrow> int \<Rightarrow> u32 \<Rightarrow> u32" where
  "ppb_audio_config_recommend_sample_frame_count instance sample_rate requested_sample_frame_count =
     CLAMP requested_sample_frame_count PP_AUDIOMINSAMPLEFRAMECOUNT PP_AUDIOMAXSAMPLEFRAMECOUNT"

definition ppb_audio_config_is_audio_config :: "PP_Resource \<Rightarrow> 'a res_state_scheme \<Rightarrow> bool" where
  "ppb_audio_config_is_audio_config resource w \<longleftrightarrow> pp_resource_get_type resource w = PP_RESOURCE_AUDIO_CONFIG"

definition ppb_audio_config_get_sample_rate ::
  "PP_Resource \<Rightarrow> 'a res_state_scheme \<Rightarrow> (int \<times> 'a res_state_scheme) option" where
  "ppb_audio_config_get_sample_rate config w =
     res_read config PP_RESOURCE_AUDIO_CONFIG 0 (map_option ac_sample_rate \<circ> the_audio_config) w"

definition ppb_audio_config_get_sample_frame_count ::
  "PP_Resource \<Rightarrow> 'a res_state_scheme \<Rightarrow> (u32 \<times> 'a res_state_scheme) option" where
  "ppb_audio_config_get_sample_frame_count config w =
     res_read config PP_RESOURCE_AUDIO_CONFIG 0 (map_option ac_sample_frame_count \<circ> the_audio_config) w"

definition ppb_audio_config_recommend_sample_rate :: "PP_Instance \<Rightarrow> int" where
  "ppb_audio_config_recommend_sample_rate instance = 48000"

section \<open>Buffers\<close>

fun the_buffer :: "payload \<Rightarrow> pp_buffer_s option" where
  "the_buffer (PL_buffer b) = Some b"
| "the_buffer _ = None"

definition ppb_buffer_create ::
  "PP_Instance \<Rightarrow> u32 \<Rightarrow> 'a world_scheme \<Rightarrow> (PP_Resource \<times> 'a world_scheme) option" where
  "ppb_buffer_create instance size_in_bytes w =
     create_resource instance PP_RESOURCE_BUFFER
       (PL_buffer \<lparr>bf_data = replicate (unat size_in_bytes) NUL, bf_len = size_in_bytes\<rparr>) w"

definition ppb_buffer_is_buffer :: "PP_Resource \<Rightarrow> 'a res_state_scheme \<Rightarrow> bool" where
  "ppb_buffer_is_buffer resource w \<longleftrightarrow> pp_resource_get_type resource w = PP_RESOURCE_BUFFER"

definition ppb_buffer_describe :: "PP_Resource \<Rightarrow> 'a res_state_scheme \<Rightarrow> (u32 option \<times> 'a res_state_scheme) option" where
  "ppb_buffer_describe resource w = res_read resource PP_RESOURCE_BUFFER None (map_option (Some \<circ> bf_len) \<circ> the_buffer) w"

text \<open>The block a pointer is returned to (\<open>None\<close> for NULL). It stays valid while the buffer is in the table.\<close>

definition ppb_buffer_map ::
  "PP_Resource \<Rightarrow> 'a world_scheme \<Rightarrow> (char list option \<times> 'a world_scheme) option" where
  "ppb_buffer_map resource w =
     with_resource resource PP_RESOURCE_BUFFER None
       (\<lambda>gr w. do {
          let w = ppb_core_add_ref_resource resource w;
          b \<leftarrow> the_buffer (r_payload gr);
          Some (Some (bf_data b), w)
        }) w"

definition ppb_buffer_unmap :: "PP_Resource \<Rightarrow> 'a world_scheme \<Rightarrow> 'a world_scheme option" where
  "ppb_buffer_unmap resource w =
     (if ppb_buffer_is_buffer resource w then ppb_core_release_resource resource w else Some w)"

section \<open>Images\<close>

abbreviation (input) PP_IMAGEDATAFORMAT_BGRA_PREMUL :: int where "PP_IMAGEDATAFORMAT_BGRA_PREMUL \<equiv> 0"
abbreviation (input) PP_IMAGEDATAFORMAT_RGBA_PREMUL :: int where "PP_IMAGEDATAFORMAT_RGBA_PREMUL \<equiv> 1"

record PP_Size =
  sz_width :: int
  sz_height :: int

fun the_image :: "payload \<Rightarrow> pp_image_data_s option" where
  "the_image (PL_image_data i) = Some i"
| "the_image _ = None"

definition ppb_image_data_get_native_image_data_format :: int where
  "ppb_image_data_get_native_image_data_format = PP_IMAGEDATAFORMAT_BGRA_PREMUL"

definition ppb_image_data_is_image_data_format_supported :: "int \<Rightarrow> bool" where
  "ppb_image_data_is_image_data_format_supported format =
     (if format = PP_IMAGEDATAFORMAT_BGRA_PREMUL then True
      else if format = PP_IMAGEDATAFORMAT_RGBA_PREMUL then True
      else False)"

text \<open>The product of two \<^verbatim>\<open>int\<close>s; and a block of zeroes, its size converted to \<^verbatim>\<open>size_t\<close>.\<close>

definition int_mult :: "int \<Rightarrow> int \<Rightarrow> int option" where
  "int_mult a b = (if - 2147483648 \<le> a * b \<and> a * b \<le> INT_MAX then Some (a * b) else None)"

definition calloc :: "(nat \<Rightarrow> bool) \<Rightarrow> int \<Rightarrow> char list option" where
  "calloc can_alloc n =
     (let n' = unat (word_of_int n :: u64) in if can_alloc n' then Some (replicate n' NUL) else None)"

text \<open>The surface lies over the data, with the size the image has.\<close>

definition ppb_image_data_create ::
  "(nat \<Rightarrow> bool) \<Rightarrow> PP_Instance \<Rightarrow> int \<Rightarrow> PP_Size \<Rightarrow> bool \<Rightarrow> 'a world_scheme \<Rightarrow> (PP_Resource \<times> 'a world_scheme) option" where
  "ppb_image_data_create can_alloc instance format sz init_to_zero w =
     (case tables_get_pp_instance instance w of
        None \<Rightarrow> Some (0, w)
      | Some pp_i \<Rightarrow> do {
          (image_data, w) \<leftarrow> pp_resource_allocate PP_RESOURCE_IMAGE_DATA (Some (pi_id pp_i)) w;
          (ok, w) \<leftarrow> with_resource image_data PP_RESOURCE_IMAGE_DATA False
            (\<lambda>gr w. do {
               stride \<leftarrow> int_mult (sz_width sz) 4;
               n \<leftarrow> int_mult stride (sz_height sz);
               let data = calloc can_alloc n;
               Some (data \<noteq> None, res_write image_data (PL_image_data
                 \<lparr>id_width = sz_width sz, id_height = sz_height sz, id_stride = stride,
                  id_data = (case data of None \<Rightarrow> [] | Some d \<Rightarrow> d), id_format = format,
                  id_cairo_surf = (case data of None \<Rightarrow> None
                    | Some _ \<Rightarrow> Some \<lparr>sf_width = sz_width sz, sf_height = sz_height sz, sf_stride = stride\<rparr>)\<rparr>) w)
             }) w;
          (if ok then Some (image_data, w)
           else do { w \<leftarrow> ppb_core_release_resource image_data w; Some (0, w) })
        })"

definition ppb_image_data_is_image_data :: "PP_Resource \<Rightarrow> 'a res_state_scheme \<Rightarrow> bool" where
  "ppb_image_data_is_image_data image_data w \<longleftrightarrow> pp_resource_get_type image_data w = PP_RESOURCE_IMAGE_DATA"

record PP_ImageDataDesc =
  ds_format :: int
  ds_size :: PP_Size
  ds_stride :: int

definition ppb_image_data_describe ::
  "PP_Resource \<Rightarrow> 'a res_state_scheme \<Rightarrow> (PP_ImageDataDesc option \<times> 'a res_state_scheme) option" where
  "ppb_image_data_describe image_data w =
     res_read image_data PP_RESOURCE_IMAGE_DATA None
       (\<lambda>p. map_option (\<lambda>i. Some \<lparr>ds_format = id_format i,
          ds_size = \<lparr>sz_width = id_width i, sz_height = id_height i\<rparr>, ds_stride = id_stride i\<rparr>) (the_image p)) w"

definition ppb_image_data_map ::
  "PP_Resource \<Rightarrow> 'a res_state_scheme \<Rightarrow> (char list option \<times> 'a res_state_scheme) option" where
  "ppb_image_data_map image_data w =
     res_read image_data PP_RESOURCE_IMAGE_DATA None (map_option (Some \<circ> id_data) \<circ> the_image) w"

definition ppb_image_data_unmap :: "PP_Resource \<Rightarrow> 'a res_state_scheme \<Rightarrow> (unit \<times> 'a res_state_scheme) option" where
  "ppb_image_data_unmap image_data w = res_read image_data PP_RESOURCE_IMAGE_DATA () (\<lambda>_. Some ()) w"

section \<open>Properties\<close>

text \<open>A mapped buffer outlives its owner: mapping takes a reference, so that after the last other
  reference is given back the buffer is still there with its size and data, and unmapping it then
  removes it; all counts are exact throughout.\<close>

theorem buffer_map_unmap:
  assumes inv: "world_inv (add_mset r extR) extV w" and av: "available r PP_RESOURCE_BUFFER w e"
    and b: "r_payload e = PL_buffer b" and last: "r_ref_cnt e = 1"
  shows "\<exists>w1 w2 w3. ppb_buffer_map r w = Some (Some (bf_data b), w1) \<and>
    world_inv (add_mset r (add_mset r extR)) extV w1 \<and>
    ppb_core_release_resource r w1 = Some w2 \<and> ppb_buffer_describe r w2 = Some (Some (bf_len b), w2) \<and>
    ppb_buffer_unmap r w2 = Some w3 \<and> world_inv extR extV w3 \<and> ht_lookup (res_tbl w3) r = None"
proof -
  have look: "ht_lookup (res_tbl w) r = Some e" "r_resource_type e = PP_RESOURCE_BUFFER" "\<not> r_locked e"
    using av by (simp_all add: available_def)
  have nz: "r \<noteq> 0" using world_inv_entry [OF inv look(1)] by (simp add: res_entry_ok_def)
  let ?e2 = "e\<lparr>r_ref_cnt := 2\<rparr>"
  let ?w1 = "w\<lparr>res_tbl := ht_insert r ?e2 (res_tbl w)\<rparr>"
  have map: "ppb_buffer_map r w = Some (Some (bf_data b), ?w1)"
    using look last b
    by (simp add: ppb_buffer_map_def with_resource_def acquire_available [OF av] ppb_core_add_ref_resource_def
        pp_resource_ref_def release_counted r_relock)
  have inv1: "world_inv (add_mset r (add_mset r extR)) extV ?w1"
    using world_inv_add [OF inv look(1)] last by (simp add: res_set_rc_def)
  have rel1: "ppb_core_release_resource r ?w1 = Some w"
    using look last by (cases e) (simp add: ppb_core_release_resource_def pp_resource_unref_def ht_insert_same)
  have desc: "ppb_buffer_describe r w = Some (Some (bf_len b), w)"
    using b by (simp add: ppb_buffer_describe_def res_read_available [OF av])
  from pp_resource_unref_inv [OF inv nz] obtain w3 where
    w3: "pp_resource_unref r w = Some w3" "world_inv extR extV w3"
    "res_tbl w3 = rc_release r_ref_cnt res_set_rc res_kids [r] (res_tbl w)" by blast
  have "ht_lookup (res_tbl w3) r = None"
    using w3(3) look(1) last b by (simp add: res_kids_def)
  moreover have "ppb_buffer_unmap r w = Some w3"
    using w3(1) look by (simp add: ppb_buffer_unmap_def ppb_buffer_is_buffer_def pp_resource_get_type_def
      ppb_core_release_resource_def)
  ultimately show ?thesis using map inv1 rel1 desc w3(2) by blast
qed

theorem buffer_map_unmap_witness:
  "\<exists>r w w1 w2 w3. ppb_buffer_create 10 3 (started [PP_RESOURCE_BUFFER]) = Some (r, w) \<and>
    ppb_buffer_map r w = Some (Some (replicate 3 NUL), w1) \<and>
    ppb_core_release_resource r w1 = Some w2 \<and> ppb_buffer_describe r w2 = Some (Some 3, w2) \<and>
    ppb_buffer_unmap r w2 = Some w3 \<and> ht_lookup (res_tbl w3) r = None"
proof -
  let ?b = "\<lparr>bf_data = replicate 3 NUL, bf_len = 3\<rparr>"
  from create_resource_ok [OF started_inv, of "[PP_RESOURCE_BUFFER]" PP_RESOURCE_BUFFER 10 sample_instance "PL_buffer ?b"]
  obtain r w where w: "create_resource 10 PP_RESOURCE_BUFFER (PL_buffer ?b) (started [PP_RESOURCE_BUFFER]) = Some (r, w)"
    "world_inv (add_mset r {#}) {#} w"
    "available r PP_RESOURCE_BUFFER w \<lparr>r_resource_type = PP_RESOURCE_BUFFER, r_ref_cnt = 1,
      r_instance = Some (pi_id sample_instance), r_self_id = r, r_locked = False, r_payload = PL_buffer ?b\<rparr>" by auto
  have "ppb_buffer_create 10 3 (started [PP_RESOURCE_BUFFER]) = Some (r, w)"
    using w(1) by (simp add: ppb_buffer_create_def)
  with buffer_map_unmap [OF w(2,3), of ?b] show ?thesis by auto
qed

text \<open>An image of \<open>x\<close> by \<open>y\<close> pixels is \<open>4 * x * y\<close> zero bytes, and says so, as long as that
  number fits the C type; when there is no memory for it no resource is left behind.\<close>

theorem image_data_created:
  assumes inv: "world_inv extR extV w" and room: "0 < res_tbl_next w" "res_tbl_next w < INT_MAX"
    and type: "PP_RESOURCE_IMAGE_DATA \<in> set (destructors_ht w)"
    and i: "tables_get_pp_instance instance w = Some pp_i"
    and sz: "0 \<le> x" "0 \<le> y" "4 * x \<le> INT_MAX" "4 * x * y \<le> INT_MAX"
  shows "\<exists>r w'. ppb_image_data_create can_alloc instance format \<lparr>sz_width = x, sz_height = y\<rparr> zero w = Some (r, w') \<and>
    (if can_alloc (nat (4 * x * y)) then world_inv (add_mset r extR) extV w' \<and>
       ppb_image_data_describe r w' = Some (Some \<lparr>ds_format = format,
         ds_size = \<lparr>sz_width = x, sz_height = y\<rparr>, ds_stride = 4 * x\<rparr>, w') \<and>
       ppb_image_data_map r w' = Some (Some (replicate (nat (4 * x * y)) NUL), w')
     else r = 0 \<and> world_inv extR extV w' \<and> (\<forall>k. ht_lookup (res_tbl w') k = ht_lookup (res_tbl w) k))"
proof -
  let ?r = "res_tbl_next w" and ?t = PP_RESOURCE_IMAGE_DATA
  let ?e = "\<lambda>pl. \<lparr>r_resource_type = ?t, r_ref_cnt = 1, r_instance = Some (pi_id pp_i), r_self_id = ?r,
    r_locked = False, r_payload = pl\<rparr>"
  let ?n = "nat (4 * x * y)"
  let ?data = "if can_alloc ?n then Some (replicate ?n NUL) else None"
  let ?pl = "PL_image_data \<lparr>id_width = x, id_height = y, id_stride = 4 * x,
    id_data = (case ?data of None \<Rightarrow> [] | Some d \<Rightarrow> d), id_format = format,
    id_cairo_surf = (case ?data of None \<Rightarrow> None | Some _ \<Rightarrow> Some \<lparr>sf_width = x, sf_height = y, sf_stride = 4 * x\<rparr>)\<rparr>"
  have nn: "0 \<le> 4 * x * y" using sz by simp
  have low: "- 536870912 \<le> x * y" using mult_nonneg_nonneg [OF sz(1,2)] by linarith
  have mult: "int_mult x 4 = Some (4 * x)" "int_mult (4 * x) y = Some (4 * x * y)"
    using sz low by (simp_all add: int_mult_def)
  have "unat (word_of_int n :: u64) = nat n" if "0 \<le> n" "n \<le> INT_MAX" for n
    using that by (simp add: unsigned_of_int take_bit_int_eq_self)
  from this [OF nn sz(4)] have data: "calloc can_alloc (4 * x * y) = ?data"
    by (simp only: calloc_def Let_def)
  from pp_resource_allocate_inv [OF inv room type, of "Some (pi_id pp_i)"] obtain w1 where
    w1: "pp_resource_allocate ?t (Some (pi_id pp_i)) w = Some (?r, w1)" "ht_lookup (res_tbl w) ?r = None"
    "world_inv (add_mset ?r extR) extV w1" "res_tbl w1 = ht_insert ?r (?e (zero_payload ?t)) (res_tbl w)" by blast
  have look: "ht_lookup (res_tbl w1) ?r = Some (?e (zero_payload ?t))" using w1(4) by simp
  then have av: "available ?r ?t w1 (?e (zero_payload ?t))" by (simp add: available_def)
  let ?w2 = "w1\<lparr>res_tbl := ht_insert ?r (?e ?pl) (res_tbl w1)\<rparr>"
  have inv2: "world_inv (add_mset ?r extR) extV ?w2"
    using world_inv_write [OF w1(3) look, of ?pl] by simp
  have step: "ppb_image_data_create can_alloc instance format \<lparr>sz_width = x, sz_height = y\<rparr> zero w =
      (if ?data \<noteq> None then Some (?r, ?w2)
       else do { w \<leftarrow> ppb_core_release_resource ?r ?w2; Some (0, w) })"
    using i w1(1) with_resource_write [OF av, of False "?data \<noteq> None" ?pl]
    by (cases "can_alloc ?n") (simp_all add: ppb_image_data_create_def mult data Let_def)
  have av2: "available ?r ?t ?w2 (?e ?pl)" by (simp add: available_def)
  show ?thesis
  proof (cases "can_alloc ?n")
    case True
    have "ppb_image_data_describe ?r ?w2 = Some (Some \<lparr>ds_format = format,
        ds_size = \<lparr>sz_width = x, sz_height = y\<rparr>, ds_stride = 4 * x\<rparr>, ?w2)"
      by (simp add: ppb_image_data_describe_def res_read_available [OF av2])
    moreover have "ppb_image_data_map ?r ?w2 = Some (Some (replicate ?n NUL), ?w2)"
      unfolding ppb_image_data_map_def res_read_available [OF av2] using True by simp
    ultimately show ?thesis using step inv2 True by (intro exI [of _ ?r] exI [of _ ?w2]) simp
  next
    case False
    have "?r \<noteq> 0" using room by simp
    from pp_resource_unref_inv [OF inv2 this] obtain w3 where w3: "pp_resource_unref ?r ?w2 = Some w3"
      "world_inv extR extV w3" "res_tbl w3 = rc_release r_ref_cnt res_set_rc res_kids [?r] (res_tbl ?w2)" by blast
    have "ht_lookup (res_tbl w3) k = ht_lookup (res_tbl w) k" for k
      using w3(3) w1(2,4) by (cases "k = ?r") (auto simp: res_kids_def)
    then show ?thesis using step False w3(1,2) by (simp add: ppb_core_release_resource_def)
  qed
qed

theorem image_data_created_witness:
  "\<exists>r w'. ppb_image_data_create (\<lambda>n. n \<le> 1000) 10 0 \<lparr>sz_width = 5, sz_height = 4\<rparr> True
      (started [PP_RESOURCE_IMAGE_DATA]) = Some (r, w') \<and>
    ppb_image_data_map r w' = Some (Some (replicate 80 NUL), w')"
  using image_data_created [OF started_inv, of "[PP_RESOURCE_IMAGE_DATA]" 10 sample_instance 5 4 "\<lambda>n. n \<le> 1000" 0 True]
  by auto

end
