(* ===== verification/Async_Network.thy ===== *)
theory Async_Network
  imports Message_Loop_Laws World_Laws Net_Address
begin

text \<open>
  \<^verbatim>\<open>async_network.c\<close>: requests to sockets and to the name server. A request is a task. Its first
  stage runs on the thread that asks and registers the task with an event or with a name request;
  when that comes in, the network thread runs the next stage, which answers the caller by posting
  its callback and frees the task, or registers it again.

  The state is that of the program with what the library \<^verbatim>\<open>libevent\<close> keeps for it, the name requests
  under way, and the state \<open>'o\<close> of the operating system. The calls of the latter are the parameter
  \<open>os\<close>. A function is given the address of its task; \<open>None\<close> is the use of a task, or of a structure,
  that is no longer there. Addresses are laid out as on a little-endian machine.
\<close>

section \<open>The system\<close>

record 'o net_os =
  nos_socket :: "bool \<Rightarrow> 'o \<Rightarrow> int \<times> 'o" \<comment> \<open>a stream or a datagram socket\<close>
  nos_bind :: "int \<Rightarrow> u8 list \<Rightarrow> u32 \<Rightarrow> 'o \<Rightarrow> int \<times> 'o"
  nos_connect :: "int \<Rightarrow> u8 list \<Rightarrow> 'o \<Rightarrow> int \<times> 'o"
  nos_nonblock :: "int \<Rightarrow> 'o \<Rightarrow> 'o"
  nos_getsockname :: "int \<Rightarrow> u8 list \<Rightarrow> 'o \<Rightarrow> (int \<times> u8 list \<times> u32) \<times> 'o"
  nos_getpeername :: "int \<Rightarrow> u8 list \<Rightarrow> 'o \<Rightarrow> (int \<times> u8 list \<times> u32) \<times> 'o"
  nos_recv :: "int \<Rightarrow> ptr \<Rightarrow> int \<Rightarrow> 'o \<Rightarrow> int \<times> 'o"
  nos_send :: "int \<Rightarrow> ptr \<Rightarrow> int \<Rightarrow> 'o \<Rightarrow> int \<times> 'o"
  nos_recvfrom :: "int \<Rightarrow> ptr \<Rightarrow> int \<Rightarrow> u8 list \<Rightarrow> 'o \<Rightarrow> (int \<times> u8 list \<times> u32) \<times> 'o"
  nos_sendto :: "int \<Rightarrow> ptr \<Rightarrow> int \<Rightarrow> bool \<Rightarrow> PP_NetAddress_Private \<Rightarrow> 'o \<Rightarrow> int \<times> 'o" \<comment> \<open>whether it may wait\<close>
  nos_resolve_ipv4 :: "string \<Rightarrow> 'o \<Rightarrow> bool \<times> 'o" \<comment> \<open>whether the request was taken\<close>
  nos_errno :: "'o \<Rightarrow> int"

datatype dns_callback = Handle_tcp_connect_stage2 | Handle_host_resolve_stage2

record 'o net_world = world +
  dns_requests :: "(ptr \<times> dns_callback) list"
  sys :: 'o

text \<open>A call of the system.\<close>

definition sys_call :: "('o \<Rightarrow> 'b \<times> 'o) \<Rightarrow> 'o net_world \<Rightarrow> 'b \<times> 'o net_world" where
  "sys_call f w = (case f (sys w) of (x, s) \<Rightarrow> (x, w\<lparr>sys := s\<rparr>))"

definition get_pp_errno :: "int \<Rightarrow> int" where
  "get_pp_errno errno =
     (if errno = 13 \<or> errno = 1 then PP_ERROR_NOACCESS
      else if errno = 98 then PP_ERROR_ADDRESS_IN_USE
      else if errno = 111 then PP_ERROR_CONNECTION_REFUSED
      else if errno = 101 then PP_ERROR_ADDRESS_UNREACHABLE
      else if errno = 110 then PP_ERROR_CONNECTION_TIMEDOUT
      else if errno = 107 then PP_ERROR_CONNECTION_CLOSED
      else if errno = 104 then PP_ERROR_CONNECTION_RESET
      else PP_ERROR_FAILED)"

abbreviation (input) EINPROGRESS :: int where "EINPROGRESS \<equiv> 115"

section \<open>Tasks\<close>

definition task_destroy :: "ptr \<Rightarrow> 'a res_state_scheme \<Rightarrow> 'a res_state_scheme" where
  "task_destroy p w = w\<lparr>tasks_ht := removeAll p (tasks_ht w), net_tasks := ht_remove p (net_tasks w)\<rparr>"

text \<open>The callback of a task, with its result. What the posting answers is not looked at.\<close>

definition post_result :: "timespec \<Rightarrow> async_network_task_s \<Rightarrow> int \<Rightarrow> 'a world_scheme \<Rightarrow> 'a world_scheme option" where
  "post_result now task result w =
     map_option snd (ppb_message_loop_post_work_with_result now (at_callback_ml task) (at_callback task) 0 result 0 w)"

text \<open>The common end: answer and free.\<close>

definition finish :: "timespec \<Rightarrow> ptr \<Rightarrow> async_network_task_s \<Rightarrow> int \<Rightarrow> 'a world_scheme \<Rightarrow> 'a world_scheme option" where
  "finish now p task result w = map_option (task_destroy p) (post_result now task result w)"

fun the_tcp_socket :: "payload \<Rightarrow> pp_tcp_socket_s option" where
  "the_tcp_socket (PL_tcp_socket ts) = Some ts"
| "the_tcp_socket _ = None"

fun the_udp_socket :: "payload \<Rightarrow> pp_udp_socket_s option" where
  "the_udp_socket (PL_udp_socket us) = Some us"
| "the_udp_socket _ = None"

fun the_host_resolver :: "payload \<Rightarrow> pp_host_resolver_s option" where
  "the_host_resolver (PL_host_resolver hr) = Some hr"
| "the_host_resolver _ = None"

section \<open>Connecting\<close>

abbreviation (input) DNS_IPv4_A :: int where "DNS_IPv4_A \<equiv> 1"
abbreviation (input) DNS_IPv6_AAAA :: int where "DNS_IPv6_AAAA \<equiv> 3"
abbreviation (input) DNS_ERR_NONE :: int where "DNS_ERR_NONE \<equiv> 0"

definition sockaddr_in :: "u8 list \<Rightarrow> u16 \<Rightarrow> u8 list" where
  "sockaddr_in ip port = [2, 0] @ htons port @ ip @ replicate 8 0"

definition sockaddr_in6 :: "u8 list \<Rightarrow> u16 \<Rightarrow> u8 list" where
  "sockaddr_in6 ip port = [10, 0] @ htons port @ replicate 4 0 @ ip @ replicate 4 0"

text \<open>The socket address of the attempt that is due.\<close>

definition attempt_address :: "async_network_task_s \<Rightarrow> u8 list" where
  "attempt_address task =
     (if at_addr_type task = DNS_IPv4_A
      then sockaddr_in (bytes_at (4 * unat (at_addr_ptr task)) 4 (at_addr task)) (at_port task)
      else sockaddr_in6 (bytes_at (16 * unat (at_addr_ptr task)) 16 (at_addr task)) (at_port task))"

definition handle_tcp_connect_stage3 ::
  "'o net_os \<Rightarrow> timespec \<Rightarrow> ptr \<Rightarrow> 'o net_world \<Rightarrow> 'o net_world option" where
  "handle_tcp_connect_stage3 os now p w = do {
     task \<leftarrow> ht_lookup (net_tasks w) p;
     let (res, w) = (if at_addr_type task = DNS_IPv4_A \<or> at_addr_type task = DNS_IPv6_AAAA
                     then sys_call (nos_connect os (at_sock task) (attempt_address task)) w else (-1, w));
     if res \<noteq> 0 \<and> nos_errno os (sys w) \<noteq> EINPROGRESS
     then finish now p task (get_pp_errno (nos_errno os (sys w))) w
     else Some (add_event_mapping p (at_sock task) Handle_tcp_connect_stage4 w)
   }"

definition handle_tcp_connect_stage4 ::
  "'o net_os \<Rightarrow> timespec \<Rightarrow> bool \<Rightarrow> ptr \<Rightarrow> 'o net_world \<Rightarrow> 'o net_world option" where
  "handle_tcp_connect_stage4 os now timed_out p w = do {
     task \<leftarrow> ht_lookup (net_tasks w) p;
     (gr, w) \<leftarrow> pp_resource_acquire (at_resource task) PP_RESOURCE_TCP_SOCKET w;
     (case gr of
        None \<Rightarrow> Some (task_destroy p w)
      | Some gr \<Rightarrow> do {
          ts \<leftarrow> the_tcp_socket (r_payload gr);
          let (connected, w) = (if timed_out then (False, w)
            else (case sys_call (nos_getpeername os (ts_sock ts) (replicate 200 0)) w of
                    ((res, _, _), w) \<Rightarrow> (res = 0, w)));
          let w = res_write (at_resource task) (PL_tcp_socket (ts\<lparr>ts_is_connected := connected\<rparr>)) w;
          if connected then do {
            w \<leftarrow> post_result now task PP_OK w;
            w \<leftarrow> pp_resource_release (at_resource task) w;
            Some (task_destroy p w)
          } else do {
            let task = task\<lparr>at_addr_ptr := at_addr_ptr task + 1\<rparr>;
            let w = task_write p task w;
            if at_addr_ptr task < at_addr_count task then do {
              w \<leftarrow> pp_resource_release (at_resource task) w;
              handle_tcp_connect_stage3 os now p w
            } else do {
              w \<leftarrow> post_result now task (get_pp_errno (nos_errno os (sys w))) w;
              w \<leftarrow> pp_resource_release (at_resource task) w;
              Some (task_destroy p w)
            }
          }
        })
   }"

definition handle_tcp_connect_stage2 ::
  "'o net_os \<Rightarrow> timespec \<Rightarrow> int \<Rightarrow> int \<Rightarrow> int \<Rightarrow> u8 list \<Rightarrow> ptr \<Rightarrow> 'o net_world \<Rightarrow> 'o net_world option" where
  "handle_tcp_connect_stage2 os now result type n addresses p w = do {
     task \<leftarrow> ht_lookup (net_tasks w) p;
     if result \<noteq> DNS_ERR_NONE \<or> n < 1 then finish now p task PP_ERROR_NAME_NOT_RESOLVED w
     else do {
       let w = w\<lparr>sys := nos_nonblock os (at_sock task) (sys w)\<rparr>;
       let task = task\<lparr>at_addr_count := word_of_int n, at_addr_ptr := 0, at_addr_type := type\<rparr>;
       if type = DNS_IPv4_A then
         handle_tcp_connect_stage3 os now p
           (task_write p (task\<lparr>at_addr := take (nat (4 * n)) addresses\<rparr>) w)
       else if type = DNS_IPv6_AAAA then
         handle_tcp_connect_stage3 os now p
           (task_write p (task\<lparr>at_addr := take (nat (16 * n)) addresses\<rparr>) w)
       else finish now p task PP_ERROR_FAILED (task_write p task w)
     }
   }"

text \<open>\<^verbatim>\<open>inet_pton\<close> for \<^verbatim>\<open>AF_INET\<close>: four numbers below 256, without leading zeros, between dots.\<close>

definition is_octet :: "string \<Rightarrow> bool" where
  "is_octet s \<longleftrightarrow> s \<noteq> [] \<and> length s \<le> 3 \<and> (\<forall>c\<in>set s. isdigit c) \<and> digits_val s < 256 \<and>
     (hd s = CHR ''0'' \<longrightarrow> length s = 1)"

definition inet_pton :: "string \<Rightarrow> u8 list option" where
  "inet_pton s = (let parts = split_at (\<lambda>c. c = CHR ''.'') s in
     if length parts = 4 \<and> (\<forall>p\<in>set parts. is_octet p)
     then Some (map (\<lambda>p. word_of_int (digits_val p)) parts) else None)"

definition resolve_request ::
  "'o net_os \<Rightarrow> timespec \<Rightarrow> string \<Rightarrow> dns_callback \<Rightarrow> ptr \<Rightarrow> async_network_task_s \<Rightarrow> 'o net_world \<Rightarrow>
   'o net_world option" where
  "resolve_request os now host cb p task w =
     (case sys_call (nos_resolve_ipv4 os host) w of
        (True, w) \<Rightarrow> Some (w\<lparr>dns_requests := dns_requests w @ [(p, cb)]\<rparr>)
      | (False, w) \<Rightarrow> finish now p task PP_ERROR_NAME_NOT_RESOLVED w)"

definition handle_tcp_connect_stage1 ::
  "'o net_os \<Rightarrow> timespec \<Rightarrow> ptr \<Rightarrow> 'o net_world \<Rightarrow> 'o net_world option" where
  "handle_tcp_connect_stage1 os now p w = do {
     task \<leftarrow> ht_lookup (net_tasks w) p;
     host \<leftarrow> at_host task;
     (case inet_pton host of
        Some ip \<Rightarrow> handle_tcp_connect_stage2 os now DNS_ERR_NONE DNS_IPv4_A 1 ip p w
      | None \<Rightarrow> resolve_request os now host Handle_tcp_connect_stage2 p task w)
   }"

definition handle_tcp_connect_with_net_address ::
  "'o net_os \<Rightarrow> timespec \<Rightarrow> ptr \<Rightarrow> 'o net_world \<Rightarrow> 'o net_world option" where
  "handle_tcp_connect_with_net_address os now p w = do {
     task \<leftarrow> ht_lookup (net_tasks w) p;
     let d = na_data (at_netaddr task);
     let w' = task_write p (task\<lparr>at_port := ntohs (bytes_at 2 2 d)\<rparr>) w;
     if na_size (at_netaddr task) = SOCKADDR_IN
     then handle_tcp_connect_stage2 os now DNS_ERR_NONE DNS_IPv4_A 1 (bytes_at 4 4 d) p w'
     else if na_size (at_netaddr task) = SOCKADDR_IN6
     then handle_tcp_connect_stage2 os now DNS_ERR_NONE DNS_IPv6_AAAA 1 (bytes_at 8 16 d) p w'
     else finish now p task PP_ERROR_NAME_NOT_RESOLVED w
   }"

section \<open>Reading and writing\<close>

definition handle_tcp_read_stage2 ::
  "'o net_os \<Rightarrow> timespec \<Rightarrow> int \<Rightarrow> ptr \<Rightarrow> 'o net_world \<Rightarrow> 'o net_world option" where
  "handle_tcp_read_stage2 os now sock p w = do {
     task \<leftarrow> ht_lookup (net_tasks w) p;
     let (retval, w) = sys_call (nos_recv os sock (at_buffer task) (at_bufsize task)) w;
     w \<leftarrow> (if retval = 0 then
             map_option snd (res_update (at_resource task) PP_RESOURCE_TCP_SOCKET ()
               (\<lambda>pl. map_option (\<lambda>ts. ((), PL_tcp_socket (ts\<lparr>ts_seen_eof := True\<rparr>))) (the_tcp_socket pl)) w)
           else Some w);
     finish now p task (if retval < 0 then get_pp_errno (nos_errno os (sys w)) else retval) w
   }"

text \<open>The first stage of most requests: wait for the descriptor of the resource.\<close>

definition wait_for_socket ::
  "pp_resource_type_e \<Rightarrow> (payload \<Rightarrow> int option) \<Rightarrow> event_callback \<Rightarrow> ptr \<Rightarrow> 'a res_state_scheme \<Rightarrow>
   'a res_state_scheme option" where
  "wait_for_socket type sock_of cb p w = do {
     task \<leftarrow> ht_lookup (net_tasks w) p;
     (sock, w) \<leftarrow> res_read (at_resource task) type None (map_option Some \<circ> sock_of) w;
     (case sock of
        None \<Rightarrow> Some (task_destroy p w)
      | Some sock \<Rightarrow> Some (add_event_mapping p sock cb w))
   }"

definition handle_tcp_read_stage1 :: "ptr \<Rightarrow> 'a res_state_scheme \<Rightarrow> 'a res_state_scheme option" where
  "handle_tcp_read_stage1 =
     wait_for_socket PP_RESOURCE_TCP_SOCKET (map_option ts_sock \<circ> the_tcp_socket) Handle_tcp_read_stage2"

definition handle_tcp_write_stage2 ::
  "'o net_os \<Rightarrow> timespec \<Rightarrow> int \<Rightarrow> ptr \<Rightarrow> 'o net_world \<Rightarrow> 'o net_world option" where
  "handle_tcp_write_stage2 os now sock p w = do {
     task \<leftarrow> ht_lookup (net_tasks w) p;
     let (retval, w) = sys_call (nos_send os sock (at_buffer task) (at_bufsize task)) w;
     finish now p task (if retval < 0 then get_pp_errno (nos_errno os (sys w)) else retval) w
   }"

definition handle_tcp_write_stage1 :: "ptr \<Rightarrow> 'a res_state_scheme \<Rightarrow> 'a res_state_scheme option" where
  "handle_tcp_write_stage1 =
     wait_for_socket PP_RESOURCE_TCP_SOCKET (map_option ts_sock \<circ> the_tcp_socket) Handle_tcp_write_stage2"

section \<open>Disconnecting\<close>

text \<open>The loop over \<^verbatim>\<open>tasks_ht\<close>: every other task of the resource is taken out, answered and freed.\<close>

fun abort_tasks ::
  "timespec \<Rightarrow> ptr \<Rightarrow> PP_Resource \<Rightarrow> ptr list \<Rightarrow> 'a world_scheme \<Rightarrow> 'a world_scheme option" where
  "abort_tasks now p resource [] w = Some w"
| "abort_tasks now p resource (q # qs) w =
     (case ht_lookup (net_tasks w) q of
        None \<Rightarrow> None
      | Some cur \<Rightarrow>
          if q \<noteq> p \<and> at_resource cur = resource then
            (case finish now q cur PP_ERROR_ABORTED w of
               None \<Rightarrow> None
             | Some w \<Rightarrow> abort_tasks now p resource qs w)
          else abort_tasks now p resource qs w)"

definition handle_disconnect_stage2 :: "timespec \<Rightarrow> ptr \<Rightarrow> 'a world_scheme \<Rightarrow> 'a world_scheme option" where
  "handle_disconnect_stage2 now p w = do {
     task \<leftarrow> ht_lookup (net_tasks w) p;
     w \<leftarrow> abort_tasks now p (at_resource task) (tasks_ht w) w;
     Some (task_destroy p (w\<lparr>closed_fds := at_sock task # closed_fds w\<rparr>))
   }"

section \<open>Datagrams\<close>

text \<open>The address a task points to, read and written in the structure that holds it.\<close>

definition read_addr_from :: "addr_pointer \<Rightarrow> 'a res_state_scheme \<Rightarrow> PP_NetAddress_Private option" where
  "read_addr_from a w =
     (case a of
        To_null \<Rightarrow> None
      | To_udp_socket r \<Rightarrow> do { e \<leftarrow> ht_lookup (res_tbl w) r; us \<leftarrow> the_udp_socket (r_payload e); Some (us_addr_from us) }
      | To_net_address r \<Rightarrow> do { e \<leftarrow> ht_lookup (res_tbl w) r; the_addr (r_payload e) })"

definition write_addr_from ::
  "addr_pointer \<Rightarrow> PP_NetAddress_Private \<Rightarrow> 'a res_state_scheme \<Rightarrow> 'a res_state_scheme option" where
  "write_addr_from a na w =
     (case a of
        To_null \<Rightarrow> None
      | To_udp_socket r \<Rightarrow> do {
          e \<leftarrow> ht_lookup (res_tbl w) r;
          us \<leftarrow> the_udp_socket (r_payload e);
          Some (res_write r (PL_udp_socket (us\<lparr>us_addr_from := na\<rparr>)) w)
        }
      | To_net_address r \<Rightarrow> do {
          e \<leftarrow> ht_lookup (res_tbl w) r;
          _ \<leftarrow> the_addr (r_payload e);
          Some (res_write r (PL_net_address na) w)
        })"

definition handle_udp_recv_stage2 ::
  "'o net_os \<Rightarrow> timespec \<Rightarrow> int \<Rightarrow> ptr \<Rightarrow> 'o net_world \<Rightarrow> 'o net_world option" where
  "handle_udp_recv_stage2 os now sock p w = do {
     task \<leftarrow> ht_lookup (net_tasks w) p;
     (gr, w) \<leftarrow> pp_resource_acquire (at_resource task) PP_RESOURCE_UDP_SOCKET w;
     (case gr of
        None \<Rightarrow> Some (task_destroy p w)
      | Some gr \<Rightarrow> do {
          from \<leftarrow> read_addr_from (at_addr_from task) w;
          let ((retval, data, len), w) =
            sys_call (nos_recvfrom os sock (at_buffer task) (at_bufsize task) (na_data from)) w;
          w \<leftarrow> write_addr_from (at_addr_from task) \<lparr>na_size = len, na_data = data\<rparr> w;
          w \<leftarrow> (if at_addr_from_resource task \<noteq> 0 then pp_resource_unref (at_addr_from_resource task) w
                 else Some w);
          gr \<leftarrow> ht_lookup (res_tbl w) (at_resource task);
          us \<leftarrow> the_udp_socket (r_payload gr);
          let w = (if retval = 0
                   then res_write (at_resource task) (PL_udp_socket (us\<lparr>us_seen_eof := True\<rparr>)) w else w);
          w \<leftarrow> pp_resource_release (at_resource task) w;
          finish now p task (if retval < 0 then get_pp_errno (nos_errno os (sys w)) else retval) w
        })
   }"

definition handle_udp_recv_stage1 :: "ptr \<Rightarrow> 'a res_state_scheme \<Rightarrow> 'a res_state_scheme option" where
  "handle_udp_recv_stage1 p w = do {
     task \<leftarrow> ht_lookup (net_tasks w) p;
     (gr, w) \<leftarrow> pp_resource_acquire (at_resource task) PP_RESOURCE_UDP_SOCKET w;
     (case gr of
        None \<Rightarrow> Some (task_destroy p w)
      | Some gr \<Rightarrow> do {
          us \<leftarrow> the_udp_socket (r_payload gr);
          w \<leftarrow> write_addr_from (at_addr_from task) zero_net_address w;
          w \<leftarrow> pp_resource_release (at_resource task) w;
          Some (add_event_mapping p (us_sock us) Handle_udp_recv_stage2 w)
        })
   }"

definition handle_udp_send_stage2 ::
  "'o net_os \<Rightarrow> timespec \<Rightarrow> int \<Rightarrow> ptr \<Rightarrow> 'o net_world \<Rightarrow> 'o net_world option" where
  "handle_udp_send_stage2 os now sock p w = do {
     task \<leftarrow> ht_lookup (net_tasks w) p;
     let (retval, w) = sys_call (nos_sendto os sock (at_buffer task) (at_bufsize task) True (at_netaddr task)) w;
     finish now p task (if retval < 0 then get_pp_errno (nos_errno os (sys w)) else retval) w
   }"

definition handle_udp_send_stage1 ::
  "'o net_os \<Rightarrow> timespec \<Rightarrow> ptr \<Rightarrow> 'o net_world \<Rightarrow> 'o net_world option" where
  "handle_udp_send_stage1 os now p w = do {
     task \<leftarrow> ht_lookup (net_tasks w) p;
     (sent, w) \<leftarrow> with_resource (at_resource task) PP_RESOURCE_UDP_SOCKET None
       (\<lambda>gr w. do {
          us \<leftarrow> the_udp_socket (r_payload gr);
          let (retval, w) = sys_call (nos_sendto os (us_sock us) (at_buffer task) (at_bufsize task) False
            (at_netaddr task)) w;
          Some (Some (us_sock us, retval), w)
        }) w;
     (case sent of
        None \<Rightarrow> Some (task_destroy p w)
      | Some (sock, retval) \<Rightarrow>
          if 0 \<le> retval then finish now p task retval w
          else Some (add_event_mapping p sock Handle_udp_send_stage2 w))
   }"

section \<open>Names\<close>

definition handle_host_resolve_stage2 ::
  "timespec \<Rightarrow> int \<Rightarrow> int \<Rightarrow> int \<Rightarrow> u8 list \<Rightarrow> ptr \<Rightarrow> 'a world_scheme \<Rightarrow> 'a world_scheme option" where
  "handle_host_resolve_stage2 now result type n addresses p w = do {
     task \<leftarrow> ht_lookup (net_tasks w) p;
     if result \<noteq> DNS_ERR_NONE \<or> n < 1 then finish now p task PP_ERROR_NAME_NOT_RESOLVED w
     else do {
       (ok, w) \<leftarrow> with_resource (at_resource task) PP_RESOURCE_HOST_RESOLVER False
         (\<lambda>gr w. do {
            hr \<leftarrow> the_host_resolver (r_payload gr);
            let hr = hr\<lparr>hr_addr_count := word_of_int n\<rparr>;
            let (result, addrs) =
              (if type = DNS_IPv4_A then (PP_OK, map (\<lambda>k. \<lparr>na_size = SOCKADDR_IN, na_data = put_bytes 0
                 (sockaddr_in (bytes_at (4 * k) 4 addresses) (at_port task)) (replicate 128 0)\<rparr>) [0..<nat n])
               else if type = DNS_IPv6_AAAA then (PP_OK, map (\<lambda>k. \<lparr>na_size = SOCKADDR_IN6, na_data = put_bytes 0
                 (sockaddr_in6 (bytes_at (16 * k) 16 addresses) (at_port task)) (replicate 128 0)\<rparr>) [0..<nat n])
               else (PP_ERROR_FAILED, replicate (nat n) zero_net_address));
            let w = res_write (at_resource task) (PL_host_resolver (hr\<lparr>hr_addrs := addrs\<rparr>)) w;
            w \<leftarrow> post_result now task result w;
            Some (True, w)
          }) w;
       Some (task_destroy p w)
     }
   }"

definition handle_host_resolve_stage1 ::
  "'o net_os \<Rightarrow> timespec \<Rightarrow> ptr \<Rightarrow> 'o net_world \<Rightarrow> 'o net_world option" where
  "handle_host_resolve_stage1 os now p w = do {
     task \<leftarrow> ht_lookup (net_tasks w) p;
     host \<leftarrow> at_host task;
     resolve_request os now host Handle_host_resolve_stage2 p task w
   }"

section \<open>The dispatchers\<close>

text \<open>
  A request enters here; the first one also starts the network thread. \<^verbatim>\<open>run_event\<close> and
  \<^verbatim>\<open>run_answer\<close> are what the dispatch of \<^verbatim>\<open>libevent\<close> makes of a registered event, which fires
  once, and of a name request.
\<close>

definition async_network_task_push ::
  "'o net_os \<Rightarrow> timespec \<Rightarrow> ptr \<Rightarrow> 'o net_world \<Rightarrow> 'o net_world option" where
  "async_network_task_push os now p w = do {
     task \<leftarrow> ht_lookup (net_tasks w) p;
     (case at_type task of
        ASYNC_NETWORK_TCP_CONNECT \<Rightarrow> handle_tcp_connect_stage1 os now p w
      | ASYNC_NETWORK_TCP_CONNECT_WITH_NETADDRESS \<Rightarrow> handle_tcp_connect_with_net_address os now p w
      | ASYNC_NETWORK_DISCONNECT \<Rightarrow> Some (handle_disconnect_stage1 p w)
      | ASYNC_NETWORK_TCP_READ \<Rightarrow> handle_tcp_read_stage1 p w
      | ASYNC_NETWORK_TCP_WRITE \<Rightarrow> handle_tcp_write_stage1 p w
      | ASYNC_NETWORK_UDP_RECV \<Rightarrow> handle_udp_recv_stage1 p w
      | ASYNC_NETWORK_UDP_SEND \<Rightarrow> handle_udp_send_stage1 os now p w
      | ASYNC_NETWORK_HOST_RESOLVE \<Rightarrow> handle_host_resolve_stage1 os now p w)
   }"

definition run_event ::
  "'o net_os \<Rightarrow> timespec \<Rightarrow> bool \<Rightarrow> ptr \<Rightarrow> 'o net_world \<Rightarrow> 'o net_world option" where
  "run_event os now timed_out p w = do {
     task \<leftarrow> ht_lookup (net_tasks w) p;
     (sock, cb) \<leftarrow> at_event task;
     (case cb of
        Handle_tcp_connect_stage4 \<Rightarrow> handle_tcp_connect_stage4 os now timed_out p w
      | Handle_tcp_read_stage2 \<Rightarrow> handle_tcp_read_stage2 os now sock p w
      | Handle_tcp_write_stage2 \<Rightarrow> handle_tcp_write_stage2 os now sock p w
      | Handle_disconnect_stage2 \<Rightarrow> handle_disconnect_stage2 now p w
      | Handle_udp_recv_stage2 \<Rightarrow> handle_udp_recv_stage2 os now sock p w
      | Handle_udp_send_stage2 \<Rightarrow> handle_udp_send_stage2 os now sock p w)
   }"

definition run_answer ::
  "'o net_os \<Rightarrow> timespec \<Rightarrow> int \<Rightarrow> int \<Rightarrow> int \<Rightarrow> u8 list \<Rightarrow> ptr \<times> dns_callback \<Rightarrow> 'o net_world \<Rightarrow>
   'o net_world option" where
  "run_answer os now result type n addresses req w =
     (let w = w\<lparr>dns_requests := remove1 req (dns_requests w)\<rparr>
      in case req of
           (p, Handle_tcp_connect_stage2) \<Rightarrow> handle_tcp_connect_stage2 os now result type n addresses p w
         | (p, Handle_host_resolve_stage2) \<Rightarrow> handle_host_resolve_stage2 now result type n addresses p w)"

end
