(* ===== verification/Sockets.thy ===== *)
theory Sockets
  imports Async_Network
begin

text \<open>
  \<^verbatim>\<open>ppb_tcp_socket.c\<close>, \<^verbatim>\<open>ppb_udp_socket.c\<close> and \<^verbatim>\<open>ppb_host_resolver.c\<close>: the interfaces through which
  the plugin makes the requests of \<^verbatim>\<open>async_network.c\<close>, and reads what they left.
\<close>

section \<open>A request\<close>

text \<open>
  The frame of them all: acquire the resource, make a task of it or fail, release it, and push the
  task. \<open>mk\<close> is what the code does in between.
\<close>

definition network_request ::
  "'o net_os \<Rightarrow> timespec \<Rightarrow> PP_Resource \<Rightarrow> pp_resource_type_e \<Rightarrow>
   (payload \<Rightarrow> (int + async_network_task_s) option) \<Rightarrow> 'o net_world \<Rightarrow> (int \<times> 'o net_world) option" where
  "network_request os now resource type mk w = do {
     (x, w) \<leftarrow> with_resource resource type (Inl PP_ERROR_BADRESOURCE)
       (\<lambda>gr w. case mk (r_payload gr) of
          None \<Rightarrow> None
        | Some (Inl e) \<Rightarrow> Some (Inl e, w)
        | Some (Inr task) \<Rightarrow>
            (let (p, w) = async_network_task_create w in Some (Inr p, task_write p task w))) w;
     (case x of
        Inl e \<Rightarrow> Some (e, w)
      | Inr p \<Rightarrow> do { w \<leftarrow> async_network_task_push os now p w; Some (PP_OK_COMPLETIONPENDING, w) })
   }"

text \<open>The fields every request fills in.\<close>

definition request_task ::
  "async_network_task_type_e \<Rightarrow> PP_Resource \<Rightarrow> PP_CompletionCallback \<Rightarrow> 'a world_scheme \<Rightarrow> async_network_task_s" where
  "request_task type resource callback w =
     zero_task\<lparr>at_type := type, at_resource := resource, at_callback := callback,
       at_callback_ml := ppb_message_loop_get_current w\<rparr>"

section \<open>TCP sockets\<close>

definition ppb_tcp_socket_create ::
  "'o net_os \<Rightarrow> PP_Instance \<Rightarrow> 'o net_world \<Rightarrow> (PP_Resource \<times> 'o net_world) option" where
  "ppb_tcp_socket_create os instance w =
     (case tables_get_pp_instance instance w of
        None \<Rightarrow> Some (0, w)
      | Some pp_i \<Rightarrow> do {
          (tcp_socket, w) \<leftarrow> pp_resource_allocate PP_RESOURCE_TCP_SOCKET (Some (pi_id pp_i)) w;
          with_resource tcp_socket PP_RESOURCE_TCP_SOCKET 0
            (\<lambda>gr w. do {
               ts \<leftarrow> the_tcp_socket (r_payload gr);
               let (fd, w) = sys_call (nos_socket os True) w;
               Some (tcp_socket, res_write tcp_socket (PL_tcp_socket (ts\<lparr>ts_sock := fd\<rparr>)) w)
             }) w
        })"

text \<open>The destructor, called on a structure that is acquired.\<close>

definition ppb_tcp_socket_destroy ::
  "PP_Resource \<Rightarrow> pp_tcp_socket_s \<Rightarrow> 'a res_state_scheme \<Rightarrow> 'a res_state_scheme" where
  "ppb_tcp_socket_destroy self_id ts w =
     (if ts_destroyed ts then w
      else push_disconnect self_id (ts_sock ts)
        (res_write self_id (PL_tcp_socket (ts\<lparr>ts_destroyed := True, ts_is_connected := False\<rparr>)) w))"

definition ppb_tcp_socket_is_tcp_socket :: "PP_Resource \<Rightarrow> 'a res_state_scheme \<Rightarrow> bool" where
  "ppb_tcp_socket_is_tcp_socket resource w \<longleftrightarrow> pp_resource_get_type resource w = PP_RESOURCE_TCP_SOCKET"

definition ppb_tcp_socket_connect ::
  "'o net_os \<Rightarrow> timespec \<Rightarrow> PP_Resource \<Rightarrow> string option \<Rightarrow> u16 \<Rightarrow> PP_CompletionCallback \<Rightarrow> 'o net_world \<Rightarrow>
   (int \<times> 'o net_world) option" where
  "ppb_tcp_socket_connect os now tcp_socket host port callback w =
     network_request os now tcp_socket PP_RESOURCE_TCP_SOCKET
       (\<lambda>pl. case the_tcp_socket pl of
          None \<Rightarrow> None
        | Some ts \<Rightarrow> Some (Inr ((request_task ASYNC_NETWORK_TCP_CONNECT tcp_socket callback w)
            \<lparr>at_sock := ts_sock ts, at_host := host, at_port := port\<rparr>))) w"

definition ppb_tcp_socket_connect_with_net_address ::
  "'o net_os \<Rightarrow> timespec \<Rightarrow> PP_Resource \<Rightarrow> PP_NetAddress_Private \<Rightarrow> PP_CompletionCallback \<Rightarrow> 'o net_world \<Rightarrow>
   (int \<times> 'o net_world) option" where
  "ppb_tcp_socket_connect_with_net_address os now tcp_socket addr callback w =
     network_request os now tcp_socket PP_RESOURCE_TCP_SOCKET
       (\<lambda>pl. case the_tcp_socket pl of
          None \<Rightarrow> None
        | Some ts \<Rightarrow> Some (Inr ((request_task ASYNC_NETWORK_TCP_CONNECT_WITH_NETADDRESS tcp_socket callback w)
            \<lparr>at_sock := ts_sock ts, at_netaddr := addr\<rparr>))) w"

text \<open>The address of either end; the caller's structure is written only when the socket is connected.\<close>

definition socket_address ::
  "(int \<Rightarrow> u8 list \<Rightarrow> 'o \<Rightarrow> (int \<times> u8 list \<times> u32) \<times> 'o) \<Rightarrow> PP_Resource \<Rightarrow> PP_NetAddress_Private \<Rightarrow>
   'o net_world \<Rightarrow> ((bool \<times> PP_NetAddress_Private) \<times> 'o net_world) option" where
  "socket_address get tcp_socket addr w =
     with_resource tcp_socket PP_RESOURCE_TCP_SOCKET (False, addr)
       (\<lambda>gr w. do {
          ts \<leftarrow> the_tcp_socket (r_payload gr);
          if \<not> ts_is_connected ts then Some ((False, addr), w)
          else (case sys_call (get (ts_sock ts) (na_data addr)) w of
                  ((ret, data, len), w) \<Rightarrow> Some ((ret = 0, \<lparr>na_size = len, na_data = data\<rparr>), w))
        }) w"

definition ppb_tcp_socket_get_local_address ::
  "'o net_os \<Rightarrow> PP_Resource \<Rightarrow> PP_NetAddress_Private \<Rightarrow> 'o net_world \<Rightarrow>
   ((bool \<times> PP_NetAddress_Private) \<times> 'o net_world) option" where
  "ppb_tcp_socket_get_local_address os = socket_address (nos_getsockname os)"

definition ppb_tcp_socket_get_remote_address ::
  "'o net_os \<Rightarrow> PP_Resource \<Rightarrow> PP_NetAddress_Private \<Rightarrow> 'o net_world \<Rightarrow>
   ((bool \<times> PP_NetAddress_Private) \<times> 'o net_world) option" where
  "ppb_tcp_socket_get_remote_address os = socket_address (nos_getpeername os)"

abbreviation (input) MEBIBYTE :: int where "MEBIBYTE \<equiv> 1048576"

definition ppb_tcp_socket_read ::
  "'o net_os \<Rightarrow> timespec \<Rightarrow> PP_Resource \<Rightarrow> ptr \<Rightarrow> int \<Rightarrow> PP_CompletionCallback \<Rightarrow> 'o net_world \<Rightarrow>
   (int \<times> 'o net_world) option" where
  "ppb_tcp_socket_read os now tcp_socket buffer bytes_to_read callback w =
     (if bytes_to_read \<le> 0 then Some (PP_ERROR_BADARGUMENT, w)
      else network_request os now tcp_socket PP_RESOURCE_TCP_SOCKET
        (\<lambda>pl. case the_tcp_socket pl of
           None \<Rightarrow> None
         | Some ts \<Rightarrow>
             if \<not> ts_is_connected ts then Some (Inl PP_ERROR_FAILED)
             else if ts_seen_eof ts then Some (Inl PP_ERROR_FAILED)
             else Some (Inr ((request_task ASYNC_NETWORK_TCP_READ tcp_socket callback w)
               \<lparr>at_buffer := buffer, at_bufsize := min bytes_to_read MEBIBYTE\<rparr>))) w)"

definition ppb_tcp_socket_write ::
  "'o net_os \<Rightarrow> timespec \<Rightarrow> PP_Resource \<Rightarrow> ptr \<Rightarrow> int \<Rightarrow> PP_CompletionCallback \<Rightarrow> 'o net_world \<Rightarrow>
   (int \<times> 'o net_world) option" where
  "ppb_tcp_socket_write os now tcp_socket buffer bytes_to_write callback w =
     (if bytes_to_write \<le> 0 then Some (PP_ERROR_BADARGUMENT, w)
      else network_request os now tcp_socket PP_RESOURCE_TCP_SOCKET
        (\<lambda>pl. case the_tcp_socket pl of
           None \<Rightarrow> None
         | Some ts \<Rightarrow>
             if \<not> ts_is_connected ts then Some (Inl PP_ERROR_FAILED)
             else Some (Inr ((request_task ASYNC_NETWORK_TCP_WRITE tcp_socket callback w)
               \<lparr>at_buffer := buffer, at_bufsize := min bytes_to_write MEBIBYTE\<rparr>))) w)"

definition ppb_tcp_socket_disconnect :: "PP_Resource \<Rightarrow> 'a res_state_scheme \<Rightarrow> (unit \<times> 'a res_state_scheme) option" where
  "ppb_tcp_socket_disconnect tcp_socket w =
     with_resource tcp_socket PP_RESOURCE_TCP_SOCKET ()
       (\<lambda>gr w. do {
          ts \<leftarrow> the_tcp_socket (r_payload gr);
          Some ((), ppb_tcp_socket_destroy (r_self_id gr) ts w)
        }) w"

text \<open>Not implemented by the code: these answer a failure.\<close>

definition ppb_tcp_socket_ssl_handshake :: "PP_Resource \<Rightarrow> int" where
  "ppb_tcp_socket_ssl_handshake tcp_socket = - 1"

definition ppb_tcp_socket_set_option :: "PP_Resource \<Rightarrow> int" where
  "ppb_tcp_socket_set_option tcp_socket = - 1"

section \<open>UDP sockets\<close>

definition ppb_udp_socket_create ::
  "'o net_os \<Rightarrow> PP_Instance \<Rightarrow> 'o net_world \<Rightarrow> (PP_Resource \<times> 'o net_world) option" where
  "ppb_udp_socket_create os instance_id w =
     (case tables_get_pp_instance instance_id w of
        None \<Rightarrow> Some (0, w)
      | Some pp_i \<Rightarrow> do {
          (udp_socket, w) \<leftarrow> pp_resource_allocate PP_RESOURCE_UDP_SOCKET (Some (pi_id pp_i)) w;
          with_resource udp_socket PP_RESOURCE_UDP_SOCKET 0
            (\<lambda>gr w. do {
               us \<leftarrow> the_udp_socket (r_payload gr);
               let (fd, w) = sys_call (nos_socket os False) w;
               Some (udp_socket, res_write udp_socket (PL_udp_socket (us\<lparr>us_sock := fd\<rparr>)) w)
             }) w
        })"

definition ppb_udp_socket_destroy ::
  "PP_Resource \<Rightarrow> pp_udp_socket_s \<Rightarrow> 'a res_state_scheme \<Rightarrow> 'a res_state_scheme" where
  "ppb_udp_socket_destroy self_id us w =
     (if us_destroyed us then w
      else push_disconnect self_id (us_sock us) (res_write self_id (PL_udp_socket (us\<lparr>us_destroyed := True\<rparr>)) w))"

definition ppb_udp_socket_is_udp_socket :: "PP_Resource \<Rightarrow> 'a res_state_scheme \<Rightarrow> bool" where
  "ppb_udp_socket_is_udp_socket resource_id w \<longleftrightarrow> pp_resource_get_type resource_id w = PP_RESOURCE_UDP_SOCKET"

definition ppb_udp_socket_bind ::
  "'o net_os \<Rightarrow> timespec \<Rightarrow> PP_Resource \<Rightarrow> PP_NetAddress_Private \<Rightarrow> PP_CompletionCallback \<Rightarrow> 'o net_world \<Rightarrow>
   (int \<times> 'o net_world) option" where
  "ppb_udp_socket_bind os now udp_socket addr callback w = do {
     (ret, w) \<leftarrow> with_resource udp_socket PP_RESOURCE_UDP_SOCKET PP_ERROR_BADRESOURCE
       (\<lambda>gr w. do {
          us \<leftarrow> the_udp_socket (r_payload gr);
          let us = us\<lparr>us_addr := addr\<rparr>;
          let (res, w) = sys_call (nos_bind os (us_sock us) (na_data addr) (na_size addr)) w;
          Some (if res \<noteq> 0 then PP_ERROR_FAILED else PP_OK,
            res_write udp_socket (PL_udp_socket (if res \<noteq> 0 then us else us\<lparr>us_bound := True\<rparr>)) w)
        }) w;
     if ret \<noteq> PP_OK then Some (ret, w)
     else do {
       (_, w) \<leftarrow> ppb_message_loop_post_work_with_result now (ppb_message_loop_get_current w) callback 0 PP_OK 0 w;
       Some (PP_OK_COMPLETIONPENDING, w)
     }
   }"

text \<open>The forms that take an address resource keep it acquired while they use its address.\<close>

definition with_address ::
  "PP_Resource \<Rightarrow> (PP_NetAddress_Private \<Rightarrow> 'o net_world \<Rightarrow> (int \<times> 'o net_world) option) \<Rightarrow> 'o net_world \<Rightarrow>
   (int \<times> 'o net_world) option" where
  "with_address addr f w =
     with_resource addr PP_RESOURCE_NET_ADDRESS PP_ERROR_BADRESOURCE
       (\<lambda>gr w. case the_addr (r_payload gr) of None \<Rightarrow> None | Some na \<Rightarrow> f na w) w"

definition ppb_udp_socket_bind_1_0 ::
  "'o net_os \<Rightarrow> timespec \<Rightarrow> PP_Resource \<Rightarrow> PP_Resource \<Rightarrow> PP_CompletionCallback \<Rightarrow> 'o net_world \<Rightarrow>
   (int \<times> 'o net_world) option" where
  "ppb_udp_socket_bind_1_0 os now udp_socket addr callback =
     with_address addr (\<lambda>na. ppb_udp_socket_bind os now udp_socket na callback)"

definition ppb_udp_socket_get_bound_address ::
  "PP_Resource \<Rightarrow> 'a res_state_scheme \<Rightarrow> (PP_NetAddress_Private option \<times> 'a res_state_scheme) option" where
  "ppb_udp_socket_get_bound_address udp_socket w =
     res_read udp_socket PP_RESOURCE_UDP_SOCKET None
       (\<lambda>pl. map_option (\<lambda>us. if us_bound us then Some (us_addr us) else None) (the_udp_socket pl)) w"

definition ppb_udp_socket_get_bound_address_1_0 ::
  "PP_Resource \<Rightarrow> 'a res_state_scheme \<Rightarrow> (PP_Resource \<times> 'a res_state_scheme) option" where
  "ppb_udp_socket_get_bound_address_1_0 udp_socket w =
     with_resource udp_socket PP_RESOURCE_UDP_SOCKET 0
       (\<lambda>gr w. do {
          us \<leftarrow> the_udp_socket (r_payload gr);
          if \<not> us_bound us then Some (0, w)
          else do {
            (net_address, w) \<leftarrow> pp_resource_allocate PP_RESOURCE_NET_ADDRESS (r_instance gr) w;
            with_resource net_address PP_RESOURCE_NET_ADDRESS 0
              (\<lambda>_ w. Some (net_address, res_write net_address (PL_net_address (us_addr us)) w)) w
          }
        }) w"

definition ppb_udp_socket_recv_from ::
  "'o net_os \<Rightarrow> timespec \<Rightarrow> PP_Resource \<Rightarrow> ptr \<Rightarrow> int \<Rightarrow> PP_CompletionCallback \<Rightarrow> 'o net_world \<Rightarrow>
   (int \<times> 'o net_world) option" where
  "ppb_udp_socket_recv_from os now udp_socket buffer num_bytes callback w =
     network_request os now udp_socket PP_RESOURCE_UDP_SOCKET
       (\<lambda>pl. Some (Inr ((request_task ASYNC_NETWORK_UDP_RECV udp_socket callback w)
          \<lparr>at_buffer := buffer, at_bufsize := num_bytes, at_addr_from := To_udp_socket udp_socket\<rparr>))) w"

text \<open>This one makes an address resource, which it takes a second reference on for the task.\<close>

definition ppb_udp_socket_recv_from_1_0 ::
  "'o net_os \<Rightarrow> timespec \<Rightarrow> PP_Resource \<Rightarrow> ptr \<Rightarrow> int \<Rightarrow> PP_CompletionCallback \<Rightarrow> 'o net_world \<Rightarrow>
   ((int \<times> PP_Resource option) \<times> 'o net_world) option" where
  "ppb_udp_socket_recv_from_1_0 os now udp_socket buffer num_bytes callback w = do {
     (x, w) \<leftarrow> with_resource udp_socket PP_RESOURCE_UDP_SOCKET (Inl PP_ERROR_BADRESOURCE)
       (\<lambda>gr w. do {
          (net_address, w) \<leftarrow> pp_resource_allocate PP_RESOURCE_NET_ADDRESS (r_instance gr) w;
          with_resource net_address PP_RESOURCE_NET_ADDRESS (Inl PP_ERROR_NOMEMORY)
            (\<lambda>_ w. let (p, w) = async_network_task_create w;
                 w = task_write p ((request_task ASYNC_NETWORK_UDP_RECV udp_socket callback w)
                   \<lparr>at_buffer := buffer, at_bufsize := num_bytes, at_addr_from := To_net_address net_address,
                    at_addr_from_resource := net_address\<rparr>) w
               in Some (Inr (p, net_address), snd (pp_resource_ref net_address w))) w
        }) w;
     (case x of
        Inl e \<Rightarrow> Some ((e, None), w)
      | Inr (p, net_address) \<Rightarrow> do {
          w \<leftarrow> async_network_task_push os now p w;
          Some ((PP_OK_COMPLETIONPENDING, Some net_address), w)
        })
   }"

definition ppb_udp_socket_get_recv_from_address ::
  "PP_Resource \<Rightarrow> 'a res_state_scheme \<Rightarrow> (PP_NetAddress_Private option \<times> 'a res_state_scheme) option" where
  "ppb_udp_socket_get_recv_from_address udp_socket w =
     res_read udp_socket PP_RESOURCE_UDP_SOCKET None
       (\<lambda>pl. map_option (\<lambda>us. if na_size (us_addr_from us) = 0 then None else Some (us_addr_from us))
          (the_udp_socket pl)) w"

definition ppb_udp_socket_send_to ::
  "'o net_os \<Rightarrow> timespec \<Rightarrow> PP_Resource \<Rightarrow> ptr \<Rightarrow> int \<Rightarrow> PP_NetAddress_Private \<Rightarrow> PP_CompletionCallback \<Rightarrow>
   'o net_world \<Rightarrow> (int \<times> 'o net_world) option" where
  "ppb_udp_socket_send_to os now udp_socket buffer num_bytes addr callback w =
     network_request os now udp_socket PP_RESOURCE_UDP_SOCKET
       (\<lambda>pl. Some (Inr ((request_task ASYNC_NETWORK_UDP_SEND udp_socket callback w)
          \<lparr>at_buffer := buffer, at_bufsize := min num_bytes (128 * 1024), at_netaddr := addr\<rparr>))) w"

definition ppb_udp_socket_send_to_1_0 ::
  "'o net_os \<Rightarrow> timespec \<Rightarrow> PP_Resource \<Rightarrow> ptr \<Rightarrow> int \<Rightarrow> PP_Resource \<Rightarrow> PP_CompletionCallback \<Rightarrow>
   'o net_world \<Rightarrow> (int \<times> 'o net_world) option" where
  "ppb_udp_socket_send_to_1_0 os now udp_socket buffer num_bytes addr callback =
     with_address addr (\<lambda>na. ppb_udp_socket_send_to os now udp_socket buffer num_bytes na callback)"

definition ppb_udp_socket_close :: "PP_Resource \<Rightarrow> 'a res_state_scheme \<Rightarrow> (unit \<times> 'a res_state_scheme) option" where
  "ppb_udp_socket_close udp_socket w =
     with_resource udp_socket PP_RESOURCE_UDP_SOCKET ()
       (\<lambda>gr w. do {
          us \<leftarrow> the_udp_socket (r_payload gr);
          Some ((), ppb_udp_socket_destroy (r_self_id gr) us w)
        }) w"

text \<open>Not implemented by the code.\<close>

definition ppb_udp_socket_join_group :: "PP_Resource \<Rightarrow> PP_Resource \<Rightarrow> int" where
  "ppb_udp_socket_join_group udp_socket grp = PP_ERROR_FAILED"

definition ppb_udp_socket_leave_group :: "PP_Resource \<Rightarrow> PP_Resource \<Rightarrow> int" where
  "ppb_udp_socket_leave_group udp_socket grp = PP_ERROR_FAILED"

definition ppb_udp_socket_set_option :: "PP_Resource \<Rightarrow> int" where
  "ppb_udp_socket_set_option udp_socket = PP_ERROR_FAILED"

definition ppb_udp_socket_set_socket_feature :: "PP_Resource \<Rightarrow> int" where
  "ppb_udp_socket_set_socket_feature udp_socket = - 1"

section \<open>Host resolvers\<close>

definition ppb_host_resolver_create :: "PP_Instance \<Rightarrow> 'a world_scheme \<Rightarrow> (PP_Resource \<times> 'a world_scheme) option" where
  "ppb_host_resolver_create instance w =
     (case tables_get_pp_instance instance w of
        None \<Rightarrow> Some (0, w)
      | Some pp_i \<Rightarrow> pp_resource_allocate PP_RESOURCE_HOST_RESOLVER (Some (pi_id pp_i)) w)"

definition ppb_host_resolver_is_host_resolver :: "PP_Resource \<Rightarrow> 'a res_state_scheme \<Rightarrow> bool" where
  "ppb_host_resolver_is_host_resolver resource w \<longleftrightarrow> pp_resource_get_type resource w = PP_RESOURCE_HOST_RESOLVER"

definition ppb_host_resolver_resolve ::
  "'o net_os \<Rightarrow> timespec \<Rightarrow> PP_Resource \<Rightarrow> string option \<Rightarrow> u16 \<Rightarrow> PP_CompletionCallback \<Rightarrow> 'o net_world \<Rightarrow>
   (int \<times> 'o net_world) option" where
  "ppb_host_resolver_resolve os now host_resolver host port callback w = do {
     (x, w) \<leftarrow> with_resource host_resolver PP_RESOURCE_HOST_RESOLVER None
       (\<lambda>gr w. do {
          hr \<leftarrow> the_host_resolver (r_payload gr);
          let w = res_write host_resolver (PL_host_resolver (hr\<lparr>hr_host := host\<rparr>)) w;
          let (p, w) = async_network_task_create w;
          Some (Some p, task_write p ((request_task ASYNC_NETWORK_HOST_RESOLVE host_resolver callback w)
            \<lparr>at_host := host, at_port := port\<rparr>) w)
        }) w;
     (case x of
        None \<Rightarrow> Some (PP_ERROR_BADRESOURCE, w)
      | Some p \<Rightarrow> do { w \<leftarrow> async_network_task_push os now p w; Some (PP_OK_COMPLETIONPENDING, w) })
   }"

definition ppb_host_resolver_resolve_1_0 ::
  "'o net_os \<Rightarrow> timespec \<Rightarrow> PP_Resource \<Rightarrow> string option \<Rightarrow> u16 \<Rightarrow> PP_CompletionCallback \<Rightarrow> 'o net_world \<Rightarrow>
   (int \<times> 'o net_world) option" where
  "ppb_host_resolver_resolve_1_0 = ppb_host_resolver_resolve"

definition ppb_host_resolver_get_canonical_name ::
  "PP_Resource \<Rightarrow> 'a res_state_scheme \<Rightarrow> (PP_Var \<times> 'a res_state_scheme) option" where
  "ppb_host_resolver_get_canonical_name host_resolver w =
     with_resource host_resolver PP_RESOURCE_HOST_RESOLVER VUndefined
       (\<lambda>gr w. do {
          hr \<leftarrow> the_host_resolver (r_payload gr);
          ppb_var_var_from_utf8_z (map_option (\<lambda>h. h @ [NUL]) (hr_host hr)) w
        }) w"

definition ppb_host_resolver_get_size :: "PP_Resource \<Rightarrow> 'a res_state_scheme \<Rightarrow> (u32 \<times> 'a res_state_scheme) option" where
  "ppb_host_resolver_get_size host_resolver w =
     res_read host_resolver PP_RESOURCE_HOST_RESOLVER 0 (map_option hr_addr_count \<circ> the_host_resolver) w"

definition ppb_host_resolver_get_net_address_count ::
  "PP_Resource \<Rightarrow> 'a res_state_scheme \<Rightarrow> (u32 \<times> 'a res_state_scheme) option" where
  "ppb_host_resolver_get_net_address_count = ppb_host_resolver_get_size"

text \<open>An address beyond the array is not there to be read.\<close>

definition address_at :: "pp_host_resolver_s \<Rightarrow> u32 \<Rightarrow> PP_NetAddress_Private option" where
  "address_at hr index = (if unat index < length (hr_addrs hr) then Some (hr_addrs hr ! unat index) else None)"

definition ppb_host_resolver_get_net_address ::
  "PP_Resource \<Rightarrow> u32 \<Rightarrow> 'a res_state_scheme \<Rightarrow> (PP_NetAddress_Private option \<times> 'a res_state_scheme) option" where
  "ppb_host_resolver_get_net_address host_resolver index w =
     res_read host_resolver PP_RESOURCE_HOST_RESOLVER None
       (\<lambda>pl. case the_host_resolver pl of
          None \<Rightarrow> None
        | Some hr \<Rightarrow> if hr_addr_count hr \<le> index then Some None else map_option Some (address_at hr index)) w"

definition ppb_host_resolver_get_net_address_1_0 ::
  "PP_Resource \<Rightarrow> u32 \<Rightarrow> 'a res_state_scheme \<Rightarrow> (PP_Resource \<times> 'a res_state_scheme) option" where
  "ppb_host_resolver_get_net_address_1_0 host_resolver index w =
     with_resource host_resolver PP_RESOURCE_HOST_RESOLVER 0
       (\<lambda>gr w. do {
          hr \<leftarrow> the_host_resolver (r_payload gr);
          if hr_addr_count hr \<le> index then Some (0, w)
          else do {
            (net_address, w) \<leftarrow> pp_resource_allocate PP_RESOURCE_NET_ADDRESS (r_instance gr) w;
            with_resource net_address PP_RESOURCE_NET_ADDRESS 0
              (\<lambda>_ w. do {
                 na \<leftarrow> address_at hr index;
                 Some (net_address, res_write net_address (PL_net_address na) w)
               }) w
          }
        }) w"

end
