(* ===== verification/Network_Laws.thy ===== *)
theory Network_Laws
  imports Sockets Posting
begin

text \<open>
  The invariant of the requests: every task that is allocated is registered, with an event or with
  a name request, once; what is registered fits the type of the request; the addresses still to be
  tried are there; and a task that receives into an address resource holds a reference on it.
\<close>

section \<open>The invariant\<close>

definition task_ref :: "async_network_task_s \<Rightarrow> PP_Resource list" where
  "task_ref task = (if at_addr_from_resource task = 0 then [] else [at_addr_from_resource task])"

text \<open>
  \<open>C\<close> are the tasks some code holds at the moment: their references are that code's to give up.
\<close>

definition task_refs :: "ptr set \<Rightarrow> 'a res_state_scheme \<Rightarrow> PP_Resource multiset" where
  "task_refs C w = held task_ref (filter (\<lambda>x. fst x \<notin> C) (net_tasks w))"

fun callback_fits :: "async_network_task_type_e \<Rightarrow> event_callback \<Rightarrow> bool" where
  "callback_fits t Handle_tcp_connect_stage4 =
     (t = ASYNC_NETWORK_TCP_CONNECT \<or> t = ASYNC_NETWORK_TCP_CONNECT_WITH_NETADDRESS)"
| "callback_fits t Handle_tcp_read_stage2 = (t = ASYNC_NETWORK_TCP_READ)"
| "callback_fits t Handle_tcp_write_stage2 = (t = ASYNC_NETWORK_TCP_WRITE)"
| "callback_fits t Handle_disconnect_stage2 = (t = ASYNC_NETWORK_DISCONNECT)"
| "callback_fits t Handle_udp_recv_stage2 = (t = ASYNC_NETWORK_UDP_RECV)"
| "callback_fits t Handle_udp_send_stage2 = (t = ASYNC_NETWORK_UDP_SEND)"

fun answer_fits :: "async_network_task_type_e \<Rightarrow> dns_callback \<Rightarrow> bool" where
  "answer_fits t Handle_tcp_connect_stage2 = (t = ASYNC_NETWORK_TCP_CONNECT)"
| "answer_fits t Handle_host_resolve_stage2 = (t = ASYNC_NETWORK_HOST_RESOLVE)"

text \<open>The address that is tried next lies within the array of addresses.\<close>

definition attempts_ok :: "async_network_task_s \<Rightarrow> bool" where
  "attempts_ok task \<longleftrightarrow> at_addr_ptr task < at_addr_count task \<and>
     (at_addr_type task = DNS_IPv4_A \<and> 4 * unat (at_addr_count task) \<le> length (at_addr task) \<or>
      at_addr_type task = DNS_IPv6_AAAA \<and> 16 * unat (at_addr_count task) \<le> length (at_addr task))"

definition type_at :: "'a res_state_scheme \<Rightarrow> PP_Resource \<Rightarrow> pp_resource_type_e option" where
  "type_at w r = map_option r_resource_type (ht_lookup (res_tbl w) r)"

definition target_ok :: "'a res_state_scheme \<Rightarrow> async_network_task_s \<Rightarrow> bool" where
  "target_ok w task \<longleftrightarrow>
     (if at_addr_from_resource task = 0
      then at_type task = ASYNC_NETWORK_UDP_RECV \<longrightarrow> at_addr_from task = To_udp_socket (at_resource task)
      else at_type task = ASYNC_NETWORK_UDP_RECV \<and> at_addr_from task = To_net_address (at_addr_from_resource task) \<and>
        type_at w (at_addr_from_resource task) = Some PP_RESOURCE_NET_ADDRESS)"

definition event_ok :: "async_network_task_s \<Rightarrow> bool" where
  "event_ok task \<longleftrightarrow> (\<exists>sock cb. at_event task = Some (sock, cb) \<and> callback_fits (at_type task) cb \<and>
     (cb = Handle_tcp_connect_stage4 \<longrightarrow> attempts_ok task))"

definition net_ok :: "ptr set \<Rightarrow> 'o net_world \<Rightarrow> bool" where
  "net_ok C w \<longleftrightarrow> ht_ok (net_tasks w) \<and> distinct (tasks_ht w) \<and> distinct (map fst (dns_requests w)) \<and>
     (\<forall>p. ht_lookup (net_tasks w) p \<noteq> None \<longleftrightarrow> p \<in> set (tasks_ht w) \<union> fst ` set (dns_requests w) \<union> C) \<and>
     set (tasks_ht w) \<inter> fst ` set (dns_requests w) = {} \<and> C \<inter> fst ` set (dns_requests w) = {} \<and>
     (\<forall>p task. ht_lookup (net_tasks w) p = Some task \<longrightarrow> p < next_task w \<and> (p \<notin> C \<longrightarrow> target_ok w task) \<and>
        (p \<in> set (tasks_ht w) - C \<longrightarrow> event_ok task) \<and>
        (\<forall>cb. (p, cb) \<in> set (dns_requests w) \<longrightarrow> answer_fits (at_type task) cb))"

definition net_inv :: "ptr set \<Rightarrow> PP_Resource multiset \<Rightarrow> u32 multiset \<Rightarrow> 'o net_world \<Rightarrow> bool" where
  "net_inv C extR extV w \<longleftrightarrow> world_inv (extR + task_refs C w) extV w \<and> net_ok C w"

lemma net_invD:
  "net_inv C extR extV w \<Longrightarrow> world_inv (extR + task_refs C w) extV w" "net_inv C extR extV w \<Longrightarrow> net_ok C w"
  by (simp_all add: net_inv_def)

lemma net_okD:
  assumes "net_ok C w"
  shows "ht_ok (net_tasks w)" "distinct (tasks_ht w)" "distinct (map fst (dns_requests w))"
    "\<And>p. ht_lookup (net_tasks w) p \<noteq> None \<longleftrightarrow> p \<in> set (tasks_ht w) \<union> fst ` set (dns_requests w) \<union> C"
    "set (tasks_ht w) \<inter> fst ` set (dns_requests w) = {}" "C \<inter> fst ` set (dns_requests w) = {}"
    "\<And>p task. ht_lookup (net_tasks w) p = Some task \<Longrightarrow> p < next_task w"
    "\<And>p task. ht_lookup (net_tasks w) p = Some task \<Longrightarrow> p \<notin> C \<Longrightarrow> target_ok w task"
    "\<And>p task. ht_lookup (net_tasks w) p = Some task \<Longrightarrow> p \<in> set (tasks_ht w) \<Longrightarrow> p \<notin> C \<Longrightarrow> event_ok task"
    "\<And>p task cb. ht_lookup (net_tasks w) p = Some task \<Longrightarrow> (p, cb) \<in> set (dns_requests w) \<Longrightarrow> answer_fits (at_type task) cb"
  using assms by (auto simp: net_ok_def)

lemma task_there:
  assumes "net_ok C w" "p \<in> set (tasks_ht w) \<union> fst ` set (dns_requests w) \<union> C"
  obtains task where "ht_lookup (net_tasks w) p = Some task"
  using assms net_okD(4) [OF assms(1), of p] by blast

text \<open>What the invariant does not look at.\<close>

lemma world_inv_sys [simp]:
  "world_inv extR extV (w\<lparr>sys := s\<rparr>) = world_inv extR extV w"
  "world_inv extR extV (w\<lparr>dns_requests := d\<rparr>) = world_inv extR extV w"
  by (simp_all add: world_inv_def var_inv_def res_entries_ok_def res_entry_ok_def)

lemma target_ok_cong:
  "(\<And>k. type_at w' k = type_at w k) \<Longrightarrow> target_ok w' task = target_ok w task"
  by (simp add: target_ok_def)

lemma net_ok_cong:
  assumes "net_tasks w' = net_tasks w" "tasks_ht w' = tasks_ht w" "next_task w' = next_task w"
    "dns_requests w' = dns_requests w" "\<And>k. type_at w' k = type_at w k"
  shows "net_ok C w' = net_ok C w"
  using assms target_ok_cong [of w' w] by (simp add: net_ok_def)

lemma net_inv_sys [simp]: "net_inv C extR extV (w\<lparr>sys := s\<rparr>) = net_inv C extR extV w"
  unfolding net_inv_def using net_ok_cong [of "w\<lparr>sys := s\<rparr>" w C] by (simp add: task_refs_def type_at_def)

lemma quiet_sys [simp]:
  "quiet r (w\<lparr>sys := s\<rparr>) = quiet r w" "quiet r (w\<lparr>dns_requests := d\<rparr>) = quiet r w"
  by (simp_all add: quiet_def)

lemma loops_only_net:
  assumes "loops_only w' w" shows "net_inv C extR extV w \<Longrightarrow> net_inv C extR extV w'"
proof -
  note f = loops_only_frame [OF assms]
  have "dns_requests w' = dns_requests w" using f(5) by (cases w; cases w') simp
  then show "net_inv C extR extV w \<Longrightarrow> net_inv C extR extV w'"
    using net_ok_cong [of w' w C] f loops_only_inv [OF assms] by (simp add: net_inv_def task_refs_def type_at_def)
qed

section \<open>Freeing and registering\<close>

lemma target_ok_same: "res_tbl w' = res_tbl w \<Longrightarrow> target_ok w' = target_ok w"
  by (rule ext, rule target_ok_cong) (simp add: type_at_def)

lemma net_ok_destroy:
  assumes "net_ok C w" "p \<in> C \<or> p \<in> set (tasks_ht w)"
  shows "net_ok (C - {p}) (task_destroy p w)"
proof -
  have p: "p \<notin> fst ` set (dns_requests w)" using assms net_okD(5,6) [OF assms(1)] by blast
  have "target_ok (task_destroy p w) = target_ok w" by (rule target_ok_same) (simp add: task_destroy_def)
  then show ?thesis
    using net_okD [OF assms(1)] p
    by (auto simp: net_ok_def task_destroy_def distinct_removeAll split: if_splits)
qed

text \<open>A task that is changed, and registered with an event.\<close>

lemma net_ok_write:
  assumes ok: "net_ok C w" and p: "p \<in> C"
  shows "net_ok C (task_write p task w)"
proof -
  have "p \<notin> fst ` set (dns_requests w)" using p net_okD(6) [OF ok] by blast
  moreover from this have "\<And>cb. (p, cb) \<notin> set (dns_requests w)" by force
  moreover obtain old where "ht_lookup (net_tasks w) p = Some old" using task_there [OF ok, of p] p by blast
  then have "p < next_task w" by (rule net_okD(7) [OF ok])
  moreover have "target_ok (task_write p task w) = target_ok w" by (rule target_ok_same) (simp add: task_write_def)
  ultimately show ?thesis
    using net_okD [OF ok] p
    by (auto simp: net_ok_def task_write_def split: if_splits)
qed

lemma net_ok_register:
  assumes ok: "net_ok C w" and p: "p \<in> C" and look: "ht_lookup (net_tasks w) p = Some task"
    and fits: "callback_fits (at_type task) cb" "cb = Handle_tcp_connect_stage4 \<Longrightarrow> attempts_ok task"
    and target: "target_ok w task"
  shows "net_ok (C - {p}) (add_event_mapping p sock cb w)"
proof -
  have "p \<notin> fst ` set (dns_requests w)" using p net_okD(6) [OF ok] by blast
  then have np: "p \<notin> fst ` set (dns_requests w)" "\<And>cb. (p, cb) \<notin> set (dns_requests w)" by force+
  have tgt: "target_ok (add_event_mapping p sock cb w) = target_ok w"
    by (rule target_ok_same) (simp add: same_but_netD [OF same_but_net_add_event])
  have ev: "event_ok (task\<lparr>at_event := Some (sock, cb)\<rparr>)"
    using fits by (auto simp: event_ok_def attempts_ok_def)
  have tt: "target_ok w (task\<lparr>at_event := Some (sock, cb)\<rparr>) = target_ok w task"
    by (simp add: target_ok_def)
  show ?thesis
    unfolding net_ok_def tgt
    using net_okD [OF ok] np look p ev tt target
    by (auto simp: add_event_mapping_def task_write_def split: if_splits)
qed

lemma task_refs_simps [simp]:
  "task_refs C (w\<lparr>tasks_ht := t\<rparr>) = task_refs C w" "task_refs C (w\<lparr>closed_fds := fds\<rparr>) = task_refs C w"
  "task_refs C (w\<lparr>res_tbl := tbl\<rparr>) = task_refs C w"
  by (simp_all add: task_refs_def)

lemma ht_remove_filter: "ht_remove p t = filter (\<lambda>x. fst x \<noteq> p) t"
  by (induction t) auto

lemma task_refs_one: "task_refs {p} w = held task_ref (ht_remove p (net_tasks w))" "task_refs {} w = held task_ref (net_tasks w)"
  by (simp_all add: task_refs_def ht_remove_filter)

lemma lookup_filter: "p \<notin> C \<Longrightarrow> ht_lookup (filter (\<lambda>x. fst x \<notin> C) t) p = ht_lookup t p"
  by (induction t) auto

lemma task_refs_hold:
  assumes "net_ok C w" "p \<notin> C" "ht_lookup (net_tasks w) p = Some task"
  shows "task_refs C w = task_refs (insert p C) w + mset (task_ref task)"
proof -
  let ?t = "filter (\<lambda>x. fst x \<notin> C) (net_tasks w)"
  have "ht_remove p ?t = filter (\<lambda>x. fst x \<notin> insert p C) (net_tasks w)"
    by (auto simp: ht_remove_filter intro!: filter_cong)
  moreover have "ht_ok ?t" using net_okD(1) [OF assms(1)] by (simp add: ht_ok_def distinct_map_filter)
  moreover have "ht_lookup ?t p = Some task" using assms(2,3) by (simp only: lookup_filter simp_thms)
  ultimately show ?thesis using held_remove [of ?t p task task_ref] by (simp add: task_refs_def)
qed

lemma task_refs_destroy: "p \<in> C \<Longrightarrow> task_refs (C - {p}) (task_destroy p w) = task_refs C w"
  by (auto simp: task_refs_def task_destroy_def ht_remove_filter intro!: arg_cong [of _ _ "held task_ref"] filter_cong)

lemma task_refs_write: "task_refs {p} (task_write p task w) = task_refs {p} w"
  by (simp add: task_refs_one task_write_def)

lemma task_refs_register:
  assumes "net_ok {p} w" "ht_lookup (net_tasks w) p = Some task"
  shows "task_refs {} (add_event_mapping p sock cb w) = task_refs {p} w + mset (task_ref task)"
proof -
  have "task_refs {} (add_event_mapping p sock cb w) = task_refs {} w"
    using assms(2) by (simp add: add_event_mapping_def task_refs_one task_write_def held_insert_same task_ref_def)
  then show ?thesis
    using held_remove [of "net_tasks w" p task task_ref] assms net_okD(1) [OF assms(1)] by (simp add: task_refs_one)
qed

lemma same_but_net_task: "same_but_net (task_destroy p w) w" "same_but_net (task_write p task w) w"
  unfolding task_destroy_def task_write_def
  by (rule same_but_net_trans [OF same_but_net_update(2) same_but_net_update(3)]) simp

lemma quiet_same: "res_tbl w' = res_tbl w \<Longrightarrow> quiet r w' = quiet r w"
  by (simp add: quiet_def)

section \<open>Steps of the handlers\<close>

definition idle :: "'a res_state_scheme \<Rightarrow> bool" where
  "idle w \<longleftrightarrow> (\<forall>k e. ht_lookup (res_tbl w) k = Some e \<longrightarrow> \<not> r_locked e)"

lemma idle_quiet: "idle w \<Longrightarrow> world_inv extR extV w \<Longrightarrow> quiet 0 w"
  using world_inv_entry [of extR extV w 0] by (auto simp: idle_def quiet_def res_entry_ok_def)

lemma quiet_idle: "quiet r w \<Longrightarrow> ht_lookup (res_tbl w) r = None \<Longrightarrow> idle w"
  unfolding idle_def by (metis option.discI quiet_unlocked)

text \<open>The task an event or an answer is for is held by the code it calls.\<close>

lemma net_inv_hold:
  assumes inv: "net_inv C extR extV w" and p: "p \<in> set (tasks_ht w)" "p \<notin> C"
    and look: "ht_lookup (net_tasks w) p = Some task"
  shows "net_inv (insert p C) (extR + mset (task_ref task)) extV w" "target_ok w task" "event_ok task"
proof -
  note D = net_okD [OF net_invD(2) [OF inv]]
  have "p \<notin> fst ` set (dns_requests w)" using D(5) p by blast
  then have "net_ok (insert p C) w"
    using net_invD(2) [OF inv] p unfolding net_ok_def by auto
  then show "net_inv (insert p C) (extR + mset (task_ref task)) extV w"
    using net_invD(1) [OF inv] task_refs_hold [OF net_invD(2) [OF inv] p(2) look]
    by (simp add: net_inv_def ac_simps)
  show "target_ok w task" "event_ok task" using D(8) [OF look p(2)] D(9) [OF look p] by simp_all
qed

lemma net_ok_answer:
  assumes ok: "net_ok {} w" and p: "(p, cb) \<in> set (dns_requests w)"
  shows "net_ok {p} (w\<lparr>dns_requests := remove1 (p, cb) (dns_requests w)\<rparr>)"
proof -
  let ?w = "w\<lparr>dns_requests := remove1 (p, cb) (dns_requests w)\<rparr>"
  obtain xs ys where d: "dns_requests w = xs @ (p, cb) # ys" "(p, cb) \<notin> set xs"
    using split_list_first [OF p] by blast
  then have d': "dns_requests ?w = xs @ ys" by (simp add: remove1_append)
  have np: "p \<notin> fst ` set xs" "p \<notin> fst ` set ys" "distinct (map fst (xs @ ys))"
    using net_okD(3) [OF ok] by (auto simp: d(1))
  then have np': "(p, c) \<notin> set xs" "(p, c) \<notin> set ys" for c by force+
  have tgt: "target_ok ?w = target_ok w" by (rule target_ok_same) simp
  note D = net_okD [OF ok, unfolded d(1)]
  show ?thesis
    unfolding net_ok_def d' tgt
  proof (intro conjI allI impI)
    fix q
    show "(ht_lookup (net_tasks ?w) q \<noteq> None) = (q \<in> set (tasks_ht ?w) \<union> fst ` set (xs @ ys) \<union> {p})"
      using D(4) [of q] by auto
  next
    fix q task assume "ht_lookup (net_tasks ?w) q = Some task"
    then have q: "ht_lookup (net_tasks w) q = Some task" by simp
    show "q < next_task ?w" "target_ok w task" using D(7) [OF q] D(8) [OF q] by simp_all
    { assume "q \<in> set (tasks_ht ?w) - {p}" then show "event_ok task" using D(9) [OF q] by simp }
    fix c assume "(q, c) \<in> set (xs @ ys)" then show "answer_fits (at_type task) c" using D(10) [OF q, of c] by auto
  qed (use D(1-3,5) np in \<open>auto\<close>)
qed

lemma net_inv_answer:
  assumes inv: "net_inv {} extR extV w" and p: "(p, cb) \<in> set (dns_requests w)"
    and look: "ht_lookup (net_tasks w) p = Some task"
  shows "net_inv {p} (extR + mset (task_ref task)) extV (w\<lparr>dns_requests := remove1 (p, cb) (dns_requests w)\<rparr>)"
    "target_ok w task" "answer_fits (at_type task) cb"
  using net_invD [OF inv] task_refs_hold [OF net_invD(2) [OF inv] _ look] net_ok_answer [OF net_invD(2) [OF inv] p]
    net_okD(8,10) [OF net_invD(2) [OF inv] look] p
  by (auto simp: net_inv_def task_refs_def ac_simps)

text \<open>Writing fields of a structure that refers to nothing.\<close>

lemma type_at_insert:
  "ht_lookup (res_tbl w) r = Some e \<Longrightarrow> r_resource_type e' = r_resource_type e \<Longrightarrow>
    type_at (w\<lparr>res_tbl := ht_insert r e' (res_tbl w)\<rparr>) k = type_at w k"
  by (auto simp: type_at_def)

lemma net_inv_write:
  assumes inv: "net_inv C extR extV w" and look: "ht_lookup (res_tbl w) r = Some e"
    and fits: "payload_fits (r_resource_type e) pl"
    and same: "payload_kids pl = payload_kids (r_payload e)" "payload_vars pl = payload_vars (r_payload e)"
  shows "net_inv C extR extV (w\<lparr>res_tbl := ht_insert r (e\<lparr>r_payload := pl\<rparr>) (res_tbl w)\<rparr>)"
  using world_inv_write [OF net_invD(1) [OF inv] look fits same] net_invD(2) [OF inv]
    net_ok_cong [of "w\<lparr>res_tbl := ht_insert r (e\<lparr>r_payload := pl\<rparr>) (res_tbl w)\<rparr>" w C] type_at_insert [OF look]
  by (simp add: net_inv_def)

lemma net_inv_acquired:
  assumes inv: "net_inv C extR extV w" and av: "available r type w e"
  shows "net_inv C (add_mset r extR) extV (w\<lparr>res_tbl := ht_insert r (acquired e) (res_tbl w)\<rparr>)"
proof -
  have look: "ht_lookup (res_tbl w) r = Some e" using av by (simp add: available_def)
  show ?thesis
    using acquired_inv [OF net_invD(1) [OF inv] av] net_invD(2) [OF inv] type_at_insert [OF look]
      net_ok_cong [of "w\<lparr>res_tbl := ht_insert r (acquired e) (res_tbl w)\<rparr>" w C]
    by (simp add: net_inv_def)
qed

lemma quiet_acquired:
  "idle w \<Longrightarrow> r_resource_type e \<noteq> PP_RESOURCE_MESSAGE_LOOP \<Longrightarrow>
    quiet r (w\<lparr>res_tbl := ht_insert r (acquired e) (res_tbl w)\<rparr>)"
  by (auto simp: idle_def quiet_def)

lemma net_inv_release:
  assumes inv: "net_inv C (add_mset r extR) extV w" and look: "ht_lookup (res_tbl w) r = Some e"
    and n: "1 < r_ref_cnt e" and q: "quiet r w"
  shows "\<exists>w'. pp_resource_release r w = Some w' \<and> net_inv C extR extV w' \<and> idle w' \<and>
    w' = w\<lparr>res_tbl := ht_insert r (e\<lparr>r_locked := False, r_ref_cnt := r_ref_cnt e - 1\<rparr>) (res_tbl w)\<rparr>"
proof -
  let ?w = "w\<lparr>res_tbl := ht_insert r (e\<lparr>r_locked := False, r_ref_cnt := r_ref_cnt e - 1\<rparr>) (res_tbl w)\<rparr>"
  have rel: "pp_resource_release r w = Some ?w" by (rule release_counted [OF look n])
  have "world_inv (add_mset r (extR + task_refs C w)) extV w" using net_invD(1) [OF inv] by simp
  from release_inv [OF this look] rel have "world_inv (extR + task_refs C w) extV ?w" by simp
  then have "net_inv C extR extV ?w"
    using net_invD(2) [OF inv] net_ok_cong [of ?w w C] type_at_insert [OF look] by (simp add: net_inv_def)
  moreover have "idle ?w" using q by (auto simp: idle_def quiet_def)
  ultimately show ?thesis using rel by blast
qed

text \<open>Posting the answer, and the end of a task.\<close>

lemma post_result_ok:
  assumes inv: "net_inv C extR extV w" and q: "quiet r w"
  shows "\<exists>w'. post_result now task result w = Some w' \<and> loops_only w' w \<and> net_inv C extR extV w' \<and> quiet r w'"
proof -
  from post_loops_only [OF net_invD(1) [OF inv] q] obtain x w' where
    "ppb_message_loop_post_work_with_result now (at_callback_ml task) (at_callback task) 0 result 0 w = Some (x, w')"
    "loops_only w' w" by blast
  then show ?thesis
    using loops_only_net [OF _ inv] loops_only_quiet [OF _ q] by (auto simp: post_result_def)
qed

lemma net_inv_destroy:
  assumes inv: "net_inv C extR extV w" and p: "p \<in> C"
  shows "net_inv (C - {p}) extR extV (task_destroy p w)"
  using net_invD [OF inv] net_ok_destroy [OF net_invD(2) [OF inv], of p] task_refs_destroy [OF p, of w]
    world_inv_same_but_net [OF same_but_net_task(1) [of p w]] p
  by (simp add: net_inv_def)

lemma idle_same: "res_tbl w' = res_tbl w \<Longrightarrow> idle w' = idle w"
  by (simp add: idle_def)

lemma destroy_sel [simp]:
  "res_tbl (task_destroy p w) = res_tbl w" "net_tasks (task_destroy p w) = ht_remove p (net_tasks w)"
  "tasks_ht (task_destroy p w) = removeAll p (tasks_ht w)" "next_task (task_destroy p w) = next_task w"
  "closed_fds (task_destroy p w) = closed_fds w" "res_state.more (task_destroy p w) = res_state.more w"
  by (simp_all add: task_destroy_def)

lemma loops_only_idle:
  assumes "loops_only w' w" "idle w" shows "idle w'"
  using assms by (auto simp: loops_only_def put_res_def idle_def split: if_splits)

lemma finish_ok:
  assumes inv: "net_inv C extR extV w" and idle: "idle w" and p: "p \<in> C"
  shows "\<exists>w' w1. finish now p t result w = Some w' \<and> net_inv (C - {p}) extR extV w' \<and>
    idle w' \<and> post_result now t result w = Some w1 \<and> loops_only w1 w \<and> w' = task_destroy p w1"
proof -
  from post_result_ok [OF inv idle_quiet [OF idle net_invD(1) [OF inv]]] obtain w1 where
    w1: "post_result now t result w = Some w1" "loops_only w1 w" "net_inv C extR extV w1" by blast
  have "net_inv (C - {p}) extR extV (task_destroy p w1)" by (rule net_inv_destroy [OF w1(3) p])
  moreover have "idle (task_destroy p w1)" using loops_only_idle [OF w1(2) idle] by (simp add: idle_def)
  ultimately show ?thesis using w1 by (auto simp: finish_def)
qed

end
