(* ===== verification/Network_Correct.thy ===== *)
theory Network_Correct
  imports Network_Laws
begin

text \<open>
  No stage of a request fails: on a consistent state where nothing is locked each one comes to its
  end, neither a task nor a structure is used after it was freed, and the state is consistent again.
\<close>

section \<open>The stages keep the invariant\<close>

text \<open>The outcome of a stage; \<open>extR\<close> are the references held from outside afterwards.\<close>

definition settles :: "PP_Resource multiset \<Rightarrow> u32 multiset \<Rightarrow> 'o net_world option \<Rightarrow> bool" where
  "settles extR extV r \<longleftrightarrow> (\<exists>w'. r = Some w' \<and> net_inv {} extR extV w' \<and> idle w')"

lemma settlesI: "r = Some w' \<Longrightarrow> net_inv {} extR extV w' \<Longrightarrow> idle w' \<Longrightarrow> settles extR extV r"
  by (auto simp: settles_def)

lemma sys_call_eq: "sys_call f w = (fst (f (sys w)), w\<lparr>sys := snd (f (sys w))\<rparr>)"
  by (simp add: sys_call_def split: prod.split)

lemma idle_sys [simp]: "idle (w\<lparr>sys := s\<rparr>) = idle w" "idle (w\<lparr>dns_requests := d\<rparr>) = idle w"
  by (simp_all add: idle_def)

text \<open>Only receiving into an address resource holds a reference.\<close>

lemma no_ref: "target_ok w task \<Longrightarrow> at_type task \<noteq> ASYNC_NETWORK_UDP_RECV \<Longrightarrow> at_addr_from_resource task = 0"
  by (auto simp: target_ok_def split: if_splits)

lemma no_refD: "at_addr_from_resource task = 0 \<Longrightarrow> task_ref task = []"
  "at_addr_from_resource task = 0 \<Longrightarrow> at_type task \<noteq> ASYNC_NETWORK_UDP_RECV \<Longrightarrow> target_ok w task"
  by (simp_all add: task_ref_def target_ok_def)

lemma finish_settles: "net_inv {p} extR extV w \<Longrightarrow> idle w \<Longrightarrow> settles extR extV (finish now p t result w)"
  using finish_ok [of "{p}" extR extV w p now t result] by (auto simp: settles_def)

lemma destroy_settles: "net_inv {p} extR extV w \<Longrightarrow> idle w \<Longrightarrow> settles extR extV (Some (task_destroy p w))"
  using net_inv_destroy [of "{p}" extR extV w p] by (auto simp: settles_def idle_def)

lemma register_settles:
  assumes "net_inv {p} (extR + mset (task_ref task)) extV w" "idle w" "ht_lookup (net_tasks w) p = Some task"
    and "target_ok w task" "callback_fits (at_type task) cb" "cb = Handle_tcp_connect_stage4 \<Longrightarrow> attempts_ok task"
  shows "settles extR extV (Some (add_event_mapping p sock cb w))"
proof -
  let ?w = "add_event_mapping p sock cb w"
  have ok: "net_ok {p} w" by (rule net_invD(2) [OF assms(1)])
  have "net_ok {} ?w" using net_ok_register [OF ok _ assms(3,5,6,4), of sock] by simp
  moreover have "world_inv (extR + task_refs {} ?w) extV ?w"
    using net_invD(1) [OF assms(1)] world_inv_same_but_net [OF same_but_net_add_event [of p sock cb w]]
      task_refs_register [OF ok assms(3), of sock cb] by (simp add: ac_simps)
  moreover have "idle ?w"
    using idle_same [OF same_but_netD(1) [OF same_but_net_add_event [of p sock cb w]]] assms(2) by simp
  ultimately show ?thesis by (simp add: settles_def net_inv_def)
qed

lemma net_inv_task_write:
  assumes "net_inv {p} extR extV w"
  shows "net_inv {p} extR extV (task_write p task w)"
  using net_invD [OF assms] net_ok_write [OF net_invD(2) [OF assms], of p]
    task_refs_write [of p task w] world_inv_same_but_net [OF same_but_net_task(2) [of p task w]]
  by (simp add: net_inv_def)

lemma task_write_sel [simp]:
  "res_tbl (task_write p task w) = res_tbl w" "ht_lookup (net_tasks (task_write p task w)) q =
     (if p = q then Some task else ht_lookup (net_tasks w) q)" "tasks_ht (task_write p task w) = tasks_ht w"
  "idle (task_write p task w) = idle w" "dns_requests (task_write p task w') = dns_requests w'"
  "sys (task_write p task w') = sys w'"
  by (simp_all add: task_write_def idle_def)

definition connecting :: "async_network_task_s \<Rightarrow> bool" where
  "connecting task \<longleftrightarrow> callback_fits (at_type task) Handle_tcp_connect_stage4 \<and> at_addr_from_resource task = 0"

lemma connectingD:
  assumes "connecting task"
  shows "task_ref task = []" "target_ok w task" "callback_fits (at_type task) Handle_tcp_connect_stage4"
  using assms no_refD [of task] by (auto simp: connecting_def)

lemma connect_stage3_settles:
  assumes inv: "net_inv {p} extR extV w" "idle w" and look: "ht_lookup (net_tasks w) p = Some task"
    and task: "connecting task" "attempts_ok task"
  shows "settles extR extV (handle_tcp_connect_stage3 os now p w)"
proof -
  have type: "at_addr_type task = DNS_IPv4_A \<or> at_addr_type task = DNS_IPv6_AAAA"
    using task(2) by (auto simp: attempts_ok_def)
  let ?w = "w\<lparr>sys := snd (nos_connect os (at_sock task) (attempt_address task) (sys w))\<rparr>"
  have w: "net_inv {p} extR extV ?w" "idle ?w" "ht_lookup (net_tasks ?w) p = Some task"
    using inv look by simp_all
  have "settles extR extV (finish now p task res ?w)" for res by (rule finish_settles [OF w(1,2)])
  moreover have "settles extR extV (Some (add_event_mapping p (at_sock task) Handle_tcp_connect_stage4 ?w))"
    using connectingD [OF task(1)] task(2) w by (intro register_settles [OF _ _ w(3)]) simp_all
  ultimately show ?thesis
    using type look by (auto simp: handle_tcp_connect_stage3_def sys_call_eq)
qed

text \<open>What the documentation of \<^verbatim>\<open>libevent\<close> says of an answer: it comes with \<open>n\<close> addresses.\<close>

definition answer_ok :: "int \<Rightarrow> int \<Rightarrow> u8 list \<Rightarrow> bool" where
  "answer_ok type n addresses \<longleftrightarrow> n < 2 ^ 31 \<and> (type = DNS_IPv4_A \<longrightarrow> 4 * n \<le> int (length addresses)) \<and>
     (type = DNS_IPv6_AAAA \<longrightarrow> 16 * n \<le> int (length addresses))"

lemma unat_count: "0 \<le> n \<Longrightarrow> n < 2 ^ 31 \<Longrightarrow> unat (word_of_int n :: u32) = nat n"
  by (simp add: unat_eq_nat_uint uint_word_of_int)

lemma attempts_ok_new:
  assumes "1 \<le> n" "answer_ok type n addresses" "type = DNS_IPv4_A \<and> m = 4 \<or> type = DNS_IPv6_AAAA \<and> m = 16"
  shows "attempts_ok (task\<lparr>at_addr_count := word_of_int n, at_addr_ptr := 0, at_addr_type := type,
    at_addr := take (nat (m * n)) addresses\<rparr>)"
  using assms unat_count [of n] by (auto simp: attempts_ok_def answer_ok_def word_less_nat_alt)

lemma connect_stage2_settles:
  assumes inv: "net_inv {p} extR extV w" "idle w" and look: "ht_lookup (net_tasks w) p = Some task"
    and task: "connecting task" and ans: "answer_ok type n addresses"
  shows "settles extR extV (handle_tcp_connect_stage2 os now result type n addresses p w)"
proof -
  have fin: "settles extR extV (finish now p t res w)" for t res by (rule finish_settles [OF inv])
  let ?w = "w\<lparr>sys := nos_nonblock os (at_sock task) (sys w)\<rparr>"
  let ?t = "task\<lparr>at_addr_count := word_of_int n, at_addr_ptr := 0, at_addr_type := type\<rparr>"
  have wr: "net_inv {p} extR extV (task_write p t ?w)" for t using inv(1) by (intro net_inv_task_write) simp
  have s3: "settles extR extV (handle_tcp_connect_stage3 os now p (task_write p (?t\<lparr>at_addr := take (nat (m * n)) addresses\<rparr>) ?w))"
    if "type = DNS_IPv4_A \<and> m = 4 \<or> type = DNS_IPv6_AAAA \<and> m = 16" "1 \<le> n" for m
    using wr attempts_ok_new [OF that(2) ans that(1)] task inv(2)
    by (intro connect_stage3_settles [where task = "?t\<lparr>at_addr := take (nat (m * n)) addresses\<rparr>"])
      (simp_all add: connecting_def)
  have "settles extR extV (finish now p ?t res (task_write p ?t ?w))" for res
    using inv(2) by (intro finish_settles wr) simp
  then show ?thesis
    using fin s3 [of 4] s3 [of 16] look
    by (auto simp: handle_tcp_connect_stage2_def Let_def)
qed

section \<open>Stages that use the socket\<close>

text \<open>The resource of a task is there and of the type, or it is not.\<close>

lemma acquire_cases:
  assumes inv: "net_inv C extR extV w" and idle: "idle w"
  obtains (bad) "pp_resource_get_type r w \<noteq> type \<or> ht_lookup (res_tbl w) r = None"
  | (got) e where "available r type w e" "payload_fits type (r_payload e)"
proof (cases "\<exists>e. ht_lookup (res_tbl w) r = Some e \<and> r_resource_type e = type")
  case True
  then obtain e where e: "ht_lookup (res_tbl w) r = Some e" "r_resource_type e = type" by blast
  then have "\<not> r_locked e" using idle by (simp add: idle_def)
  from world_inv_available [OF net_invD(1) [OF inv] e(1) this] e(2) show ?thesis by (intro got) simp_all
next
  case False
  then show ?thesis by (intro bad) (auto simp: pp_resource_get_type_def split: option.splits)
qed

lemma fits_tcp: "payload_fits PP_RESOURCE_TCP_SOCKET pl \<Longrightarrow> \<exists>ts. pl = PL_tcp_socket ts"
  and fits_udp: "payload_fits PP_RESOURCE_UDP_SOCKET pl \<Longrightarrow> \<exists>us. pl = PL_udp_socket us"
  and fits_resolver: "payload_fits PP_RESOURCE_HOST_RESOLVER pl \<Longrightarrow> \<exists>hr. pl = PL_host_resolver hr"
  and fits_address: "payload_fits PP_RESOURCE_NET_ADDRESS pl \<Longrightarrow> \<exists>na. pl = PL_net_address na"
  by (cases pl; simp)+

text \<open>
  What is done between acquire and release: fields of the structure are written, the system is
  called, tasks change; then an answer is posted, and the structure released.
\<close>

lemma post_release_ok:
  assumes inv: "net_inv C (add_mset r extR) extV w" and q: "quiet r w"
    and look: "ht_lookup (res_tbl w) r = Some e" "1 < r_ref_cnt e" "r_resource_type e \<noteq> PP_RESOURCE_MESSAGE_LOOP"
  shows "\<exists>w1 w2. post_result now task result w = Some w1 \<and> pp_resource_release r w1 = Some w2 \<and>
    net_inv C extR extV w2 \<and> idle w2 \<and> net_tasks w2 = net_tasks w \<and> tasks_ht w2 = tasks_ht w"
proof -
  from post_result_ok [OF inv q, of now task result] obtain w1 where w1: "post_result now task result w = Some w1"
    "loops_only w1 w" "net_inv C (add_mset r extR) extV w1" "quiet r w1" by blast
  note f = loops_only_frame [OF w1(2)]
  from net_inv_release [OF w1(3) f(7) [OF look(1,3)] look(2) w1(4)] w1 f(1,2) show ?thesis by auto
qed

text \<open>The state between acquire and release with other fields in the structure.\<close>

lemma acquired_write_ok:
  assumes inv: "net_inv C extR extV w" and idle: "idle w" and av: "available r type w e"
    and type: "type \<noteq> PP_RESOURCE_MESSAGE_LOOP" and fits: "payload_fits type pl"
    and same: "payload_kids pl = payload_kids (r_payload e)" "payload_vars pl = payload_vars (r_payload e)"
  shows "\<exists>e'. res_write r pl (w\<lparr>res_tbl := ht_insert r (acquired e) (res_tbl w)\<rparr>) =
      w\<lparr>res_tbl := ht_insert r e' (res_tbl w)\<rparr> \<and> r_resource_type e' = type \<and> 1 < r_ref_cnt e' \<and> r_payload e' = pl \<and>
    net_inv C (add_mset r extR) extV (w\<lparr>res_tbl := ht_insert r e' (res_tbl w)\<rparr>) \<and>
    quiet r (w\<lparr>res_tbl := ht_insert r e' (res_tbl w)\<rparr>)"
proof -
  let ?w = "w\<lparr>res_tbl := ht_insert r (acquired e) (res_tbl w)\<rparr>"
  let ?e = "(acquired e)\<lparr>r_payload := pl\<rparr>"
  have e: "r_resource_type e = type" "0 < r_ref_cnt e" using av by (simp_all add: available_def)
  have eq: "res_write r pl ?w = w\<lparr>res_tbl := ht_insert r ?e (res_tbl w)\<rparr>" by (simp add: res_write_def)
  have "net_inv C (add_mset r extR) extV (?w\<lparr>res_tbl := ht_insert r ?e (res_tbl ?w)\<rparr>)"
    using fits same e(1) by (intro net_inv_write [OF net_inv_acquired [OF inv av]]) simp_all
  moreover have "quiet r (w\<lparr>res_tbl := ht_insert r ?e (res_tbl w)\<rparr>)"
    using idle e(1) type by (auto simp: quiet_def idle_def)
  ultimately show ?thesis using eq e by (intro exI [of _ ?e]) simp
qed

lemma sys_res_commute: "(w\<lparr>res_tbl := t\<rparr>)\<lparr>sys := s\<rparr> = (w\<lparr>sys := s\<rparr>)\<lparr>res_tbl := t\<rparr>"
  by (cases w) simp

lemma connect_stage4_settles:
  assumes inv: "net_inv {p} extR extV w" "idle w" and look: "ht_lookup (net_tasks w) p = Some task"
    and task: "connecting task" "attempts_ok task"
  shows "settles extR extV (handle_tcp_connect_stage4 os now timed_out p w)"
  using inv
proof (cases rule: acquire_cases [where r = "at_resource task" and type = PP_RESOURCE_TCP_SOCKET, case_names bad got])
  case bad
  then show ?thesis
    using acquire_bad [OF bad] destroy_settles [OF inv] look by (simp add: handle_tcp_connect_stage4_def)
next
  case (got e)
  obtain ts where ts: "r_payload e = PL_tcp_socket ts" using fits_tcp [OF got(2)] by blast
  let ?r = "at_resource task"
  let ?w1 = "w\<lparr>res_tbl := ht_insert ?r (acquired e) (res_tbl w)\<rparr>"
  define call where "call = sys_call (nos_getpeername os (ts_sock ts) (replicate 200 0)) ?w1"
  define c where "c = (\<not> timed_out \<and> fst (fst call) = 0)"
  define s where "s = (if timed_out then sys w else sys (snd call))"
  let ?ws = "w\<lparr>sys := s\<rparr>"
  let ?pl = "PL_tcp_socket (ts\<lparr>ts_is_connected := c\<rparr>)"
  have ws: "net_inv {p} extR extV ?ws" "idle ?ws" "available ?r PP_RESOURCE_TCP_SOCKET ?ws e"
    using inv got(1) by (simp_all add: available_def)
  from acquired_write_ok [OF ws, of ?pl] ts obtain e' where
    e': "res_write ?r ?pl (?ws\<lparr>res_tbl := ht_insert ?r (acquired e) (res_tbl ?ws)\<rparr>) =
      ?ws\<lparr>res_tbl := ht_insert ?r e' (res_tbl ?ws)\<rparr>" "r_resource_type e' = PP_RESOURCE_TCP_SOCKET" "1 < r_ref_cnt e'"
    "net_inv {p} (add_mset ?r extR) extV (?ws\<lparr>res_tbl := ht_insert ?r e' (res_tbl ?ws)\<rparr>)"
    "quiet ?r (?ws\<lparr>res_tbl := ht_insert ?r e' (res_tbl ?ws)\<rparr>)" by auto
  let ?w2 = "?ws\<lparr>res_tbl := ht_insert ?r e' (res_tbl ?ws)\<rparr>"
  have look2: "ht_lookup (net_tasks ?w2) p = Some task" "ht_lookup (res_tbl ?w2) ?r = Some e'" using look by simp_all
  have run: "handle_tcp_connect_stage4 os now timed_out p w =
    (if c then do {
       w \<leftarrow> post_result now task PP_OK ?w2; w \<leftarrow> pp_resource_release ?r w; Some (task_destroy p w) }
     else let task = task\<lparr>at_addr_ptr := at_addr_ptr task + 1\<rparr>; w = task_write p task ?w2 in
       if at_addr_ptr task < at_addr_count task
       then do { w \<leftarrow> pp_resource_release ?r w; handle_tcp_connect_stage3 os now p w }
       else do {
         w \<leftarrow> post_result now task (get_pp_errno (nos_errno os (sys w))) w;
         w \<leftarrow> pp_resource_release ?r w; Some (task_destroy p w) })"
  proof (cases timed_out)
    case True
    then have "?w2 = res_write ?r ?pl ?w1" "c = False" using e'(1) by (simp_all add: s_def c_def)
    then show ?thesis
      using look ts True by (simp add: handle_tcp_connect_stage4_def acquire_available [OF got(1)] Let_def)
  next
    case False
    have "snd call = ?w1\<lparr>sys := s\<rparr>" using False by (simp add: call_def s_def sys_call_eq)
    then have cc: "call = (fst call, ?ws\<lparr>res_tbl := ht_insert ?r (acquired e) (res_tbl w)\<rparr>)"
      by (simp add: sys_res_commute prod_eq_iff)
    obtain res d len where fc: "fst call = (res, d, len)" by (cases "fst call") auto
    have "c = (res = 0)" using False fc by (simp add: c_def)
    then show ?thesis
      using look ts False e'(1) fc cc
      by (cases "res = 0") (simp_all add: handle_tcp_connect_stage4_def acquire_available [OF got(1)] Let_def flip: call_def)
  qed
  show ?thesis
  proof (cases c)
    case True
    from post_release_ok [OF e'(4,5) look2(2) e'(3), of now task PP_OK] e'(2) obtain w3 w4 where
      "post_result now task PP_OK ?w2 = Some w3" "pp_resource_release ?r w3 = Some w4"
      "net_inv {p} extR extV w4" "idle w4" "net_tasks w4 = net_tasks ?w2" by auto
    then show ?thesis using destroy_settles [of p extR extV w4] look2(1) True run by simp
  next
    case False
    let ?t = "task\<lparr>at_addr_ptr := at_addr_ptr task + 1\<rparr>"
    let ?w3 = "task_write p ?t ?w2"
    have w3: "net_inv {p} (add_mset ?r extR) extV ?w3"
      by (rule net_inv_task_write [OF e'(4)])
    have q3: "quiet ?r ?w3" using e'(5) quiet_same [of ?w3 ?w2] by simp
    have look3: "ht_lookup (net_tasks ?w3) p = Some ?t" "ht_lookup (res_tbl ?w3) ?r = Some e'" by simp_all
    show ?thesis
    proof (cases "at_addr_ptr ?t < at_addr_count ?t")
      case True
      from net_inv_release [OF w3 look3(2) e'(3) q3] obtain w4 where
        w4: "pp_resource_release ?r ?w3 = Some w4" "net_inv {p} extR extV w4" "idle w4" "net_tasks w4 = net_tasks ?w3"
        by auto
      have "attempts_ok ?t" using True task(2) by (auto simp: attempts_ok_def)
      then show ?thesis
        using connect_stage3_settles [OF w4(2,3), of ?t os now] look3(1) w4(1,4) task(1) run False True
        by (simp add: Let_def connecting_def)
    next
      case no: False
      define res where "res = get_pp_errno (nos_errno os (sys ?w3))"
      from post_release_ok [OF w3 q3 look3(2) e'(3), of now ?t res] e'(2) obtain w4 w5 where
        "post_result now ?t res ?w3 = Some w4" "pp_resource_release ?r w4 = Some w5"
        "net_inv {p} extR extV w5" "idle w5" "net_tasks w5 = net_tasks ?w3" by auto
      then show ?thesis
        using destroy_settles [of p extR extV w5] look3(1) False no run
        by (simp add: Let_def res_def del: task_write_sel(6))
    qed
  qed
qed

text \<open>Fields of a structure are changed between acquire and release.\<close>

lemma res_update_ok:
  assumes inv: "net_inv C extR extV w" "idle w"
    and f: "\<And>pl. payload_fits type pl \<Longrightarrow> \<exists>pl'. f pl = Some (x, pl') \<and> payload_fits type pl' \<and>
      payload_kids pl' = payload_kids pl \<and> payload_vars pl' = payload_vars pl"
  shows "\<exists>y w'. res_update r type bad f w = Some (y, w') \<and> net_inv C extR extV w' \<and> idle w' \<and>
    net_tasks w' = net_tasks w \<and> tasks_ht w' = tasks_ht w \<and> sys w' = sys w"
  using inv
proof (cases rule: acquire_cases [where r = r and type = type, case_names bad got])
  case bad
  then show ?thesis using inv by (simp add: res_update_bad)
next
  case (got e)
  have e: "ht_lookup (res_tbl w) r = Some e" "r_resource_type e = type" "\<not> r_locked e"
    using got(1) by (simp_all add: available_def)
  from f [OF got(2)] obtain pl' where pl': "f (r_payload e) = Some (x, pl')" "payload_fits type pl'"
    "payload_kids pl' = payload_kids (r_payload e)" "payload_vars pl' = payload_vars (r_payload e)" by blast
  let ?w = "w\<lparr>res_tbl := ht_insert r (e\<lparr>r_payload := pl'\<rparr>) (res_tbl w)\<rparr>"
  have "net_inv C extR extV ?w" using pl' e by (intro net_inv_write [OF inv(1)]) simp_all
  moreover have "idle ?w" using inv(2) e by (auto simp: idle_def)
  ultimately show ?thesis using res_update_available [OF got(1), of bad f] pl'(1) by simp
qed

lemma tcp_read_stage2_settles:
  assumes inv: "net_inv {p} extR extV w" "idle w" and look: "ht_lookup (net_tasks w) p = Some task"
  shows "settles extR extV (handle_tcp_read_stage2 os now sock p w)"
proof -
  define c where "c = nos_recv os sock (at_buffer task) (at_bufsize task) (sys w)"
  let ?w = "w\<lparr>sys := snd c\<rparr>"
  let ?f = "\<lambda>pl. map_option (\<lambda>ts. ((), PL_tcp_socket (ts\<lparr>ts_seen_eof := True\<rparr>))) (the_tcp_socket pl)"
  have w: "net_inv {p} extR extV ?w" "idle ?w" using inv by simp_all
  have "\<exists>y w'. res_update (at_resource task) PP_RESOURCE_TCP_SOCKET () ?f ?w = Some (y, w') \<and>
      net_inv {p} extR extV w' \<and> idle w' \<and> net_tasks w' = net_tasks ?w \<and> tasks_ht w' = tasks_ht ?w \<and> sys w' = sys ?w"
    by (rule res_update_ok [OF w]) (auto dest!: fits_tcp)
  then obtain w' where "map_option snd (res_update (at_resource task) PP_RESOURCE_TCP_SOCKET () ?f ?w) = Some w'"
    "net_inv {p} extR extV w'" "idle w'" by auto
  then show ?thesis
    using finish_settles [OF w] finish_settles [of p extR extV w'] look
    by (simp add: handle_tcp_read_stage2_def sys_call_eq flip: c_def)
qed

lemma tcp_write_stage2_settles:
  assumes inv: "net_inv {p} extR extV w" "idle w" and look: "ht_lookup (net_tasks w) p = Some task"
  shows "settles extR extV (handle_tcp_write_stage2 os now sock p w)"
  using inv look by (auto simp: handle_tcp_write_stage2_def sys_call_eq intro!: finish_settles)

lemma udp_send_stage2_settles:
  assumes inv: "net_inv {p} extR extV w" "idle w" and look: "ht_lookup (net_tasks w) p = Some task"
  shows "settles extR extV (handle_udp_send_stage2 os now sock p w)"
  using inv look by (auto simp: handle_udp_send_stage2_def sys_call_eq intro!: finish_settles)

lemma wait_for_socket_settles:
  assumes inv: "net_inv {p} extR extV w" "idle w" and look: "ht_lookup (net_tasks w) p = Some task"
    and type: "at_addr_from_resource task = 0" "at_type task \<noteq> ASYNC_NETWORK_UDP_RECV"
    and cb: "callback_fits (at_type task) cb" "cb \<noteq> Handle_tcp_connect_stage4"
    and sock: "\<And>pl. payload_fits type pl \<Longrightarrow> \<exists>s. sock_of pl = Some s"
  shows "settles extR extV (wait_for_socket type sock_of cb p w)"
  using inv
proof (cases rule: acquire_cases [where r = "at_resource task" and type = type, case_names bad got])
  case bad
  then show ?thesis
    using look destroy_settles [OF inv] by (simp add: wait_for_socket_def res_read_bad)
next
  case (got e)
  from sock [OF got(2)] obtain s where s: "sock_of (r_payload e) = Some s" by blast
  have "settles extR extV (Some (add_event_mapping p s cb w))"
    using no_refD [OF type(1)] type(2) inv cb by (intro register_settles [OF _ _ look]) simp_all
  then show ?thesis using look s by (simp add: wait_for_socket_def res_read_available [OF got(1)])
qed

text \<open>Receiving: the address is written into the structure of the socket or of the address.\<close>

definition address_written :: "PP_Resource \<Rightarrow> 'a res_state_scheme \<Rightarrow> 'a res_state_scheme \<Rightarrow> bool" where
  "address_written r w' w \<longleftrightarrow> (\<exists>k e pl. w' = w\<lparr>res_tbl := ht_insert k (e\<lparr>r_payload := pl\<rparr>) (res_tbl w)\<rparr> \<and>
     ht_lookup (res_tbl w) k = Some e \<and> r_resource_type e \<noteq> PP_RESOURCE_MESSAGE_LOOP \<and>
     payload_fits (r_resource_type e) pl \<and> payload_kids pl = payload_kids (r_payload e) \<and>
     payload_vars pl = payload_vars (r_payload e) \<and> (k = r \<longrightarrow> (\<exists>us. pl = PL_udp_socket us)))"

lemma address_target:
  assumes inv: "world_inv extR extV w" and task: "target_ok w task" "at_type task = ASYNC_NETWORK_UDP_RECV"
    and us: "ht_lookup (res_tbl w) (at_resource task) = Some e" "r_payload e = PL_udp_socket us"
      "r_resource_type e = PP_RESOURCE_UDP_SOCKET"
  shows "(\<exists>from. read_addr_from (at_addr_from task) w = Some from) \<and>
    (\<exists>w'. write_addr_from (at_addr_from task) na w = Some w' \<and> address_written (at_resource task) w' w)"
proof (cases "at_addr_from_resource task = 0")
  case True
  then have "at_addr_from task = To_udp_socket (at_resource task)" using task by (simp add: target_ok_def)
  moreover have "address_written (at_resource task) (res_write (at_resource task)
      (PL_udp_socket (us\<lparr>us_addr_from := na\<rparr>)) w) w"
    unfolding address_written_def using us
    by (intro exI [of _ "at_resource task"] exI [of _ e] exI [of _ "PL_udp_socket (us\<lparr>us_addr_from := na\<rparr>)"])
      (simp add: res_write_def)
  ultimately show ?thesis using us by (simp add: read_addr_from_def write_addr_from_def)
next
  case False
  let ?n = "at_addr_from_resource task"
  have t: "at_addr_from task = To_net_address ?n" "type_at w ?n = Some PP_RESOURCE_NET_ADDRESS"
    using task False by (simp_all add: target_ok_def)
  then obtain en where en: "ht_lookup (res_tbl w) ?n = Some en" "r_resource_type en = PP_RESOURCE_NET_ADDRESS"
    by (auto simp: type_at_def)
  have "payload_fits PP_RESOURCE_NET_ADDRESS (r_payload en)"
    using world_inv_entry [OF inv en(1)] en(2) by (simp add: res_entry_ok_def)
  then obtain a where a: "r_payload en = PL_net_address a" using fits_address by blast
  have "?n \<noteq> at_resource task" using us en by auto
  then have "address_written (at_resource task) (res_write ?n (PL_net_address na) w) w"
    unfolding address_written_def using en a
    by (intro exI [of _ ?n] exI [of _ en] exI [of _ "PL_net_address na"]) (simp add: res_write_def)
  then show ?thesis using t(1) en(1) a by (simp add: read_addr_from_def write_addr_from_def)
qed

lemma address_written_ok:
  assumes w': "address_written r w' w" and inv: "net_inv C extR extV w" and q: "quiet r w"
    and r: "ht_lookup (res_tbl w) r = Some e" "r_payload e = PL_udp_socket us"
  shows "net_inv C extR extV w'" "quiet r w'" "net_tasks w' = net_tasks w" "tasks_ht w' = tasks_ht w"
    "\<And>k. type_at w' k = type_at w k" "sys w' = sys w"
    "\<exists>e' us'. ht_lookup (res_tbl w') r = Some e' \<and> r_payload e' = PL_udp_socket us' \<and>
       r_resource_type e' = r_resource_type e \<and> r_ref_cnt e' = r_ref_cnt e \<and> r_locked e' = r_locked e"
proof -
  from w' obtain k ek pl where k: "w' = w\<lparr>res_tbl := ht_insert k (ek\<lparr>r_payload := pl\<rparr>) (res_tbl w)\<rparr>"
    "ht_lookup (res_tbl w) k = Some ek" "r_resource_type ek \<noteq> PP_RESOURCE_MESSAGE_LOOP"
    "payload_fits (r_resource_type ek) pl" "payload_kids pl = payload_kids (r_payload ek)"
    "payload_vars pl = payload_vars (r_payload ek)" "k = r \<longrightarrow> (\<exists>us. pl = PL_udp_socket us)"
    unfolding address_written_def by blast
  show "net_inv C extR extV w'" unfolding k(1) by (rule net_inv_write [OF inv k(2,4,5,6)])
  show "quiet r w'" using q k(2,3) unfolding k(1) quiet_def by auto
  show "net_tasks w' = net_tasks w" "tasks_ht w' = tasks_ht w" "sys w' = sys w" by (simp_all add: k(1))
  show "type_at w' i = type_at w i" for i using k(2) unfolding k(1) by (intro type_at_insert) simp_all
  show "\<exists>e' us'. ht_lookup (res_tbl w') r = Some e' \<and> r_payload e' = PL_udp_socket us' \<and>
       r_resource_type e' = r_resource_type e \<and> r_ref_cnt e' = r_ref_cnt e \<and> r_locked e' = r_locked e"
    using k r by (cases "k = r") auto
qed

text \<open>Giving up a reference on an address resource frees at most the address.\<close>

lemma unref_address:
  assumes inv: "world_inv (add_mset n extR) extV w" and look: "ht_lookup (res_tbl w) n = Some en"
    and type: "r_resource_type en = PP_RESOURCE_NET_ADDRESS"
  shows "\<exists>t. pp_resource_unref n w = Some (w\<lparr>res_tbl := t\<rparr>) \<and> world_inv extR extV (w\<lparr>res_tbl := t\<rparr>) \<and>
    (\<forall>k. k \<noteq> n \<longrightarrow> ht_lookup t k = ht_lookup (res_tbl w) k) \<and>
    (ht_lookup t n = None \<or> (\<exists>c. ht_lookup t n = Some (en\<lparr>r_ref_cnt := c\<rparr>)))"
proof -
  have ok: "res_entry_ok w n en" by (rule world_inv_entry [OF inv look])
  then obtain a where a: "r_payload en = PL_net_address a"
    using fits_address [of "r_payload en"] type by (auto simp: res_entry_ok_def)
  have des: "PP_RESOURCE_NET_ADDRESS \<in> set (destructors_ht w)" and nz: "n \<noteq> 0"
    using ok type by (auto simp: res_entry_ok_def)
  let ?t = "if r_ref_cnt en - 1 \<le> 0 then ht_remove n (res_tbl w)
    else ht_insert n (en\<lparr>r_ref_cnt := r_ref_cnt en - 1\<rparr>) (res_tbl w)"
  have "close_payload n (PL_net_address a) v = v" for v :: "'a res_state_scheme"
    by (simp add: close_payload_def)
  then have "pp_resource_unref n w = Some (w\<lparr>res_tbl := ?t\<rparr>)"
    using look a des type by (simp add: pp_resource_unref_def Let_def)
  moreover from this have "world_inv extR extV (w\<lparr>res_tbl := ?t\<rparr>)"
    using pp_resource_unref_inv [OF inv nz] by auto
  ultimately show ?thesis by (intro exI [of _ ?t]) auto
qed

lemma unref_address_ok:
  assumes inv: "net_inv C (add_mset n extR) extV w" and look: "ht_lookup (res_tbl w) n = Some en"
    and type: "r_resource_type en = PP_RESOURCE_NET_ADDRESS" and q: "quiet r w" and rn: "r \<noteq> n"
  shows "\<exists>t. pp_resource_unref n w = Some (w\<lparr>res_tbl := t\<rparr>) \<and> net_inv C extR extV (w\<lparr>res_tbl := t\<rparr>) \<and>
    quiet r (w\<lparr>res_tbl := t\<rparr>) \<and> ht_lookup t r = ht_lookup (res_tbl w) r"
proof -
  have "world_inv (add_mset n (extR + task_refs C w)) extV w" using net_invD(1) [OF inv] by simp
  from unref_address [OF this look type] obtain t where t: "pp_resource_unref n w = Some (w\<lparr>res_tbl := t\<rparr>)"
    "world_inv (extR + task_refs C w) extV (w\<lparr>res_tbl := t\<rparr>)"
    "\<And>k. k \<noteq> n \<Longrightarrow> ht_lookup t k = ht_lookup (res_tbl w) k"
    "ht_lookup t n = None \<or> (\<exists>c. ht_lookup t n = Some (en\<lparr>r_ref_cnt := c\<rparr>))" by blast
  let ?w = "w\<lparr>res_tbl := t\<rparr>"
  note D = net_okD [OF net_invD(2) [OF inv]]
  have tgt: "target_ok ?w task" if l: "ht_lookup (net_tasks w) p = Some task" and "p \<notin> C" for p task
  proof (cases "at_addr_from_resource task = 0")
    case True
    then show ?thesis using D(8) [OF that] by (simp add: target_ok_def)
  next
    case False
    let ?m = "at_addr_from_resource task"
    have "(p, task) \<in> set (net_tasks w)" using l ht_lookup_ht_ok [OF D(1)] by simp
    then have "(p, task) \<in> set (filter (\<lambda>x. fst x \<notin> C) (net_tasks w))" using that(2) by simp
    moreover have "ht_ok (filter (\<lambda>x. fst x \<notin> C) (net_tasks w))" using D(1) by (simp add: ht_ok_def distinct_map_filter)
    ultimately have "ht_lookup (filter (\<lambda>x. fst x \<notin> C) (net_tasks w)) p = Some task" by (simp add: ht_lookup_ht_ok)
    from held_memI [OF this, of ?m task_ref] False have "?m \<in># task_refs C w" by (simp add: task_refs_def task_ref_def)
    then obtain e where "ht_lookup t ?m = Some e" using world_inv_live [OF t(2), of ?m] by auto
    then have "type_at ?w ?m = type_at w ?m"
      using t(3) [of ?m] t(4) look by (cases "?m = n") (auto simp: type_at_def)
    then show ?thesis using D(8) [OF that] False by (simp add: target_ok_def)
  qed
  have "net_ok C ?w" unfolding net_ok_def using D tgt by (intro conjI allI impI) simp_all
  moreover have "quiet r ?w"
    unfolding quiet_def
  proof (intro conjI allI impI)
    fix e assume "ht_lookup (res_tbl ?w) r = Some e"
    then show "r_resource_type e \<noteq> PP_RESOURCE_MESSAGE_LOOP" using t(3) [of r] rn q by (auto simp: quiet_def)
  next
    fix k e assume k: "k \<noteq> r" and e: "ht_lookup (res_tbl ?w) k = Some e"
    show "\<not> r_locked e"
      using t(3) [of k] t(4) e quiet_unlocked [OF q k] quiet_unlocked [OF q rn [symmetric] look]
      by (cases "k = n") auto
  qed
  ultimately show ?thesis using t(1,2) t(3) [of r] rn by (auto simp: net_inv_def)
qed

text \<open>
  A task that ends without an answer, because its resource is gone, keeps the reference it has on
  an address: \<open>L\<close> are references nobody will give up.
\<close>

definition settles_leaking :: "PP_Resource multiset \<Rightarrow> PP_Resource multiset \<Rightarrow> u32 multiset \<Rightarrow> 'o net_world option \<Rightarrow> bool" where
  "settles_leaking refs extR extV r \<longleftrightarrow> (\<exists>L. L \<subseteq># refs \<and> settles (extR + L) extV r)"

lemma settles_leakingI: "settles extR extV r \<Longrightarrow> settles_leaking refs extR extV r"
  unfolding settles_leaking_def by (intro exI [of _ "{#}"]) simp

lemma udp_acquired:
  assumes inv: "net_inv {p} extR extV w" "idle w" and av: "available r PP_RESOURCE_UDP_SOCKET w e"
    and us: "r_payload e = PL_udp_socket us"
  defines "w1 \<equiv> w\<lparr>res_tbl := ht_insert r (acquired e) (res_tbl w)\<rparr>"
  shows "net_inv {p} (add_mset r extR) extV w1" "quiet r w1" "ht_lookup (res_tbl w1) r = Some (acquired e)"
    "r_payload (acquired e) = PL_udp_socket us" "r_resource_type (acquired e) = PP_RESOURCE_UDP_SOCKET"
    "\<And>task. target_ok w task \<Longrightarrow> target_ok w1 task" "1 < r_ref_cnt (acquired e)"
proof -
  have e: "ht_lookup (res_tbl w) r = Some e" "r_resource_type e = PP_RESOURCE_UDP_SOCKET" "0 < r_ref_cnt e"
    using av by (simp_all add: available_def)
  show "net_inv {p} (add_mset r extR) extV w1" unfolding w1_def by (rule net_inv_acquired [OF inv(1) av])
  show "quiet r w1" unfolding w1_def using e(2) by (intro quiet_acquired [OF inv(2)]) simp
  show "target_ok w1 task" if "target_ok w task" for task
    using that target_ok_cong [of w1 w task] type_at_insert [OF e(1)] by (simp add: w1_def)
  show "ht_lookup (res_tbl w1) r = Some (acquired e)" "r_payload (acquired e) = PL_udp_socket us"
    "r_resource_type (acquired e) = PP_RESOURCE_UDP_SOCKET" "1 < r_ref_cnt (acquired e)"
    using e us by (simp_all add: w1_def)
qed

lemma udp_recv_stage1_settles:
  assumes inv: "net_inv {p} (extR + mset (task_ref task)) extV w" "idle w" and look: "ht_lookup (net_tasks w) p = Some task"
    and task: "target_ok w task" "at_type task = ASYNC_NETWORK_UDP_RECV"
  shows "settles_leaking (mset (task_ref task)) extR extV (handle_udp_recv_stage1 p w)"
  using inv
proof (cases rule: acquire_cases [where r = "at_resource task" and type = PP_RESOURCE_UDP_SOCKET, case_names bad got])
  case bad
  have "settles (extR + mset (task_ref task)) extV (handle_udp_recv_stage1 p w)"
    using look acquire_bad [OF bad] destroy_settles [OF inv] by (simp add: handle_udp_recv_stage1_def)
  then show ?thesis unfolding settles_leaking_def by blast
next
  case (got e)
  obtain us where us: "r_payload e = PL_udp_socket us" using fits_udp [OF got(2)] by blast
  let ?r = "at_resource task"
  let ?w1 = "w\<lparr>res_tbl := ht_insert ?r (acquired e) (res_tbl w)\<rparr>"
  note w1 = udp_acquired [OF inv got(1) us]
  from address_target [OF net_invD(1) [OF w1(1)] w1(6) [OF task(1)] task(2) w1(3-5), of zero_net_address] obtain w2 where
    w2: "write_addr_from (at_addr_from task) zero_net_address ?w1 = Some w2" "address_written ?r w2 ?w1" by blast
  note ok2 = address_written_ok [OF w2(2) w1(1,2,3,4)]
  obtain e' where e': "ht_lookup (res_tbl w2) ?r = Some e'" "1 < r_ref_cnt e'" using ok2(7) w1(7) by auto
  from net_inv_release [OF ok2(1) e' ok2(2)] obtain w3 where w3: "pp_resource_release ?r w2 = Some w3"
    "net_inv {p} (extR + mset (task_ref task)) extV w3" "idle w3"
    "w3 = w2\<lparr>res_tbl := ht_insert ?r (e'\<lparr>r_locked := False, r_ref_cnt := r_ref_cnt e' - 1\<rparr>) (res_tbl w2)\<rparr>" by blast
  have "type_at w3 k = type_at w2 k" for k
    unfolding w3(4) by (rule type_at_insert [OF e'(1)]) simp
  then have "target_ok w3 task" using w1(6) [OF task(1)] target_ok_cong [of w3 ?w1 task] ok2(5) by simp
  moreover have "ht_lookup (net_tasks w3) p = Some task" using look ok2(3) by (simp add: w3(4))
  ultimately have "settles extR extV (Some (add_event_mapping p (us_sock us) Handle_udp_recv_stage2 w3))"
    using w3(2,3) task(2) by (intro register_settles) simp_all
  then show ?thesis
    using look us w2(1) w3(1)
    by (intro settles_leakingI) (simp add: handle_udp_recv_stage1_def acquire_available [OF got(1)])
qed

lemma udp_recv_stage2_settles:
  assumes inv: "net_inv {p} (extR + mset (task_ref task)) extV w" "idle w" and look: "ht_lookup (net_tasks w) p = Some task"
    and task: "target_ok w task" "at_type task = ASYNC_NETWORK_UDP_RECV"
  shows "settles_leaking (mset (task_ref task)) extR extV (handle_udp_recv_stage2 os now sock p w)"
  using inv
proof (cases rule: acquire_cases [where r = "at_resource task" and type = PP_RESOURCE_UDP_SOCKET, case_names bad got])
  case bad
  have "settles (extR + mset (task_ref task)) extV (handle_udp_recv_stage2 os now sock p w)"
    using look acquire_bad [OF bad] destroy_settles [OF inv] by (simp add: handle_udp_recv_stage2_def)
  then show ?thesis unfolding settles_leaking_def by blast
next
  case (got e)
  obtain us where us: "r_payload e = PL_udp_socket us" using fits_udp [OF got(2)] by blast
  let ?r = "at_resource task" and ?n = "at_addr_from_resource task"
  let ?w1 = "w\<lparr>res_tbl := ht_insert ?r (acquired e) (res_tbl w)\<rparr>"
  note w1 = udp_acquired [OF inv got(1) us]
  from address_target [OF net_invD(1) [OF w1(1)] w1(6) [OF task(1)] task(2) w1(3-5)] obtain fa where
    fa: "read_addr_from (at_addr_from task) ?w1 = Some fa" by blast
  obtain retval data len s where call: "nos_recvfrom os sock (at_buffer task) (at_bufsize task) (na_data fa) (sys ?w1) =
    ((retval, data, len), s)" by (cases "nos_recvfrom os sock (at_buffer task) (at_bufsize task) (na_data fa) (sys ?w1)") auto
  let ?w1' = "?w1\<lparr>sys := s\<rparr>"
  have w1': "net_inv {p} (add_mset ?r (extR + mset (task_ref task))) extV ?w1'" "quiet ?r ?w1'"
    "target_ok ?w1' task" "ht_lookup (res_tbl ?w1') ?r = Some (acquired e)"
    using w1(1,2) w1(6) [OF task(1)] target_ok_same [of ?w1' ?w1] w1(3) by simp_all
  from address_target [OF net_invD(1) [OF w1'(1)] w1'(3) task(2) w1'(4) w1(4,5), of "\<lparr>na_size = len, na_data = data\<rparr>"]
  obtain w2 where w2: "write_addr_from (at_addr_from task) \<lparr>na_size = len, na_data = data\<rparr> ?w1' = Some w2"
    "address_written ?r w2 ?w1'" by blast
  note ok2 = address_written_ok [OF w2(2) w1'(1,2,4) w1(4)]
  obtain e2 us2 where e2: "ht_lookup (res_tbl w2) ?r = Some e2" "r_payload e2 = PL_udp_socket us2" "1 < r_ref_cnt e2"
    "r_resource_type e2 = PP_RESOURCE_UDP_SOCKET" using ok2(7) w1(5,7) by auto
  define unref where "unref = (if ?n \<noteq> 0 then pp_resource_unref ?n w2 else Some w2)"
  have "\<exists>t. unref = Some (w2\<lparr>res_tbl := t\<rparr>) \<and> net_inv {p} (add_mset ?r extR) extV (w2\<lparr>res_tbl := t\<rparr>) \<and>
    quiet ?r (w2\<lparr>res_tbl := t\<rparr>) \<and> ht_lookup t ?r = Some e2"
  proof (cases "?n = 0")
    case True
    then show ?thesis using ok2(1,2) e2(1) unfolding unref_def
      by (intro exI [of _ "res_tbl w2"]) (simp add: task_ref_def)
  next
    case False
    have "type_at w2 ?n = Some PP_RESOURCE_NET_ADDRESS"
      using task(1) False ok2(5) type_at_insert [of w ?r e "acquired e" ?n] got(1)
      by (simp add: target_ok_def available_def type_at_def)
    then obtain en where en: "ht_lookup (res_tbl w2) ?n = Some en" "r_resource_type en = PP_RESOURCE_NET_ADDRESS"
      by (auto simp: type_at_def)
    have ne: "?r \<noteq> ?n" using en e2(1,4) by auto
    have inv2: "net_inv {p} (add_mset ?n (add_mset ?r extR)) extV w2"
      using ok2(1) False by (simp add: task_ref_def add_mset_commute)
    show ?thesis using unref_address_ok [OF inv2 en ok2(2) ne] e2(1) False by (auto simp: unref_def)
  qed
  then obtain t where t: "unref = Some (w2\<lparr>res_tbl := t\<rparr>)" "net_inv {p} (add_mset ?r extR) extV (w2\<lparr>res_tbl := t\<rparr>)"
    "quiet ?r (w2\<lparr>res_tbl := t\<rparr>)" "ht_lookup t ?r = Some e2" by blast
  let ?w3 = "w2\<lparr>res_tbl := t\<rparr>"
  let ?e3 = "if retval = 0 then e2\<lparr>r_payload := PL_udp_socket (us2\<lparr>us_seen_eof := True\<rparr>)\<rparr> else e2"
  let ?w4 = "?w3\<lparr>res_tbl := ht_insert ?r ?e3 (res_tbl ?w3)\<rparr>"
  have inv4: "net_inv {p} (add_mset ?r extR) extV ?w4"
  proof (cases "retval = 0")
    case True
    have "net_inv {p} (add_mset ?r extR) extV
      (?w3\<lparr>res_tbl := ht_insert ?r (e2\<lparr>r_payload := PL_udp_socket (us2\<lparr>us_seen_eof := True\<rparr>)\<rparr>) (res_tbl ?w3)\<rparr>)"
      using t(4) e2 by (intro net_inv_write [OF t(2)]) simp_all
    with True show ?thesis by simp
  next
    case False
    then have "?w4 = ?w3" using t(4) by (simp add: ht_insert_same)
    with t(2) show ?thesis by simp
  qed
  have q4: "quiet ?r ?w4" using t(3) e2(4) by (auto simp: quiet_def)
  have e4: "ht_lookup (res_tbl ?w4) ?r = Some ?e3" "1 < r_ref_cnt ?e3" using e2(3) by simp_all
  have wr: "(if retval = 0 then res_write ?r (PL_udp_socket (us2\<lparr>us_seen_eof := True\<rparr>)) ?w3 else ?w3) = ?w4"
    using t(4) by (simp add: res_write_def ht_insert_same)
  from net_inv_release [OF inv4 e4 q4] obtain w5 where w5: "pp_resource_release ?r ?w4 = Some w5"
    "net_inv {p} extR extV w5" "idle w5" by blast
  have "handle_udp_recv_stage2 os now sock p w =
    finish now p task (if retval < 0 then get_pp_errno (nos_errno os (sys w5)) else retval) w5"
    using look fa call w2(1) t(1,4) e2(2) w5(1) wr
    by (simp add: handle_udp_recv_stage2_def acquire_available [OF got(1)] sys_call_eq flip: unref_def)
  then show ?thesis using finish_settles [OF w5(2,3)] by (intro settles_leakingI) simp
qed

end
