(* ===== verification/Network_Safe.thy ===== *)
theory Network_Safe
  imports Network_Correct
begin

text \<open>
  The remaining stages, the dispatchers, and what they give together: in every state the network
  thread and the plugin's requests can reach, the requests are consistent.
\<close>

section \<open>Disconnecting\<close>

text \<open>The tasks of a resource other than \<open>p\<close>, in the order of the table.\<close>

definition aborted :: "ptr \<Rightarrow> PP_Resource \<Rightarrow> ptr list \<Rightarrow> 'a res_state_scheme \<Rightarrow> ptr list" where
  "aborted p r qs w = filter (\<lambda>q. q \<noteq> p \<and> map_option at_resource (ht_lookup (net_tasks w) q) = Some r) qs"

definition refs_of :: "ptr list \<Rightarrow> 'a res_state_scheme \<Rightarrow> PP_Resource multiset" where
  "refs_of qs w = mset (concat (map (\<lambda>q. case ht_lookup (net_tasks w) q of None \<Rightarrow> [] | Some t \<Rightarrow> task_ref t) qs))"

lemma net_frame_finish:
  assumes "loops_only w1 w" "w' = task_destroy q w1"
  shows "net_tasks w' = ht_remove q (net_tasks w)" "tasks_ht w' = removeAll q (tasks_ht w)"
    "closed_fds w' = closed_fds w" "next_task w' = next_task w" "res_state.more w' = res_state.more w"
  using loops_only_frame [OF assms(1)] by (simp_all add: assms(2))

lemma abort_tasks_ok:
  assumes "net_inv {p} extR extV w" "idle w" "distinct qs" "set qs \<subseteq> set (tasks_ht w)"
  shows "\<exists>w'. abort_tasks now p r qs w = Some w' \<and> net_inv {p} (extR + refs_of (aborted p r qs w) w) extV w' \<and>
    idle w' \<and> closed_fds w' = closed_fds w \<and> res_state.more w' = res_state.more w \<and>
    tasks_ht w' = filter (\<lambda>q. q \<notin> set (aborted p r qs w)) (tasks_ht w) \<and>
    (\<forall>q. ht_lookup (net_tasks w') q = (if q \<in> set (aborted p r qs w) then None else ht_lookup (net_tasks w) q))"
  using assms
proof (induction qs arbitrary: extR w)
  case Nil
  then show ?case by (simp add: aborted_def refs_of_def)
next
  case (Cons q qs)
  note inv = Cons.prems(1)
  have q: "q \<in> set (tasks_ht w)" using Cons.prems(4) by simp
  obtain cur where cur: "ht_lookup (net_tasks w) q = Some cur"
    using task_there [OF net_invD(2) [OF inv], of q] q by blast
  show ?case
  proof (cases "q \<noteq> p \<and> at_resource cur = r")
    case False
    then have "aborted p r (q # qs) w = aborted p r qs w" using cur by (auto simp: aborted_def)
    then show ?thesis using Cons.IH [OF inv Cons.prems(2)] Cons.prems(3,4) cur False by auto
  next
    case True
    then have np: "q \<notin> {p}" by simp
    note hold = net_inv_hold(1) [OF inv q np cur]
    from finish_ok [OF hold Cons.prems(2), of q now cur PP_ERROR_ABORTED] obtain w1 w2 where
      w2: "finish now q cur PP_ERROR_ABORTED w = Some w2" "net_inv (insert q {p} - {q}) (extR + mset (task_ref cur)) extV w2"
      "idle w2" "loops_only w1 w" "w2 = task_destroy q w1" by auto
    note f = net_frame_finish [OF w2(4,5)]
    have inv2: "net_inv {p} (extR + mset (task_ref cur)) extV w2"
      using w2(2) True by (simp add: insert_Diff_if)
    have sub: "distinct qs" "set qs \<subseteq> set (tasks_ht w2)" "q \<notin> set qs" using Cons.prems(3,4) f(2) by auto
    have look: "ht_lookup (net_tasks w2) k = (if k = q then None else ht_lookup (net_tasks w) k)" for k
      by (simp add: f(1))
    have "q \<notin> set (aborted p r qs w)" using sub(3) by (simp add: aborted_def)
    then have "refs_of (aborted p r qs w) w2 = refs_of (aborted p r qs w) w"
      unfolding refs_of_def by (intro arg_cong [of _ _ mset] arg_cong [of _ _ concat] map_cong) (auto simp: look)
    moreover have "aborted p r qs w2 = aborted p r qs w"
      using sub(3) by (auto simp: aborted_def look intro!: filter_cong)
    ultimately have same: "aborted p r qs w2 = aborted p r qs w" "refs_of (aborted p r qs w) w2 = refs_of (aborted p r qs w) w"
      by simp_all
    have ab: "aborted p r (q # qs) w = q # aborted p r qs w" using True cur by (simp add: aborted_def)
    have refs: "refs_of (q # aborted p r qs w) w = mset (task_ref cur) + refs_of (aborted p r qs w) w"
      using cur by (simp add: refs_of_def)
    from Cons.IH [OF inv2 w2(3) sub(1,2)] obtain w3 where w3: "abort_tasks now p r qs w2 = Some w3"
      "net_inv {p} (extR + mset (task_ref cur) + refs_of (aborted p r qs w) w) extV w3" "idle w3"
      "closed_fds w3 = closed_fds w2" "res_state.more w3 = res_state.more w2"
      "tasks_ht w3 = filter (\<lambda>k. k \<notin> set (aborted p r qs w)) (tasks_ht w2)"
      "\<forall>k. ht_lookup (net_tasks w3) k = (if k \<in> set (aborted p r qs w) then None else ht_lookup (net_tasks w2) k)"
      unfolding same by blast
    have "tasks_ht w3 = filter (\<lambda>k. k \<notin> set (aborted p r (q # qs) w)) (tasks_ht w)"
      unfolding w3(6) f(2) ab by (auto simp: removeAll_filter_not_eq intro!: filter_cong)
    moreover have "abort_tasks now p r (q # qs) w = Some w3" using cur True w2(1) w3(1) by simp
    moreover have "net_inv {p} (extR + refs_of (aborted p r (q # qs) w) w) extV w3"
      using w3(2) unfolding ab refs by (simp only: add.assoc)
    moreover have "ht_lookup (net_tasks w3) k =
        (if k \<in> set (aborted p r (q # qs) w) then None else ht_lookup (net_tasks w) k)" for k
      using w3(7) look [of k] by (auto simp: ab)
    ultimately show ?thesis using w3(3-5) f(3,5) by simp
  qed
qed

lemma disconnect_stage2_settles:
  assumes inv: "net_inv {p} extR extV w" "idle w" and look: "ht_lookup (net_tasks w) p = Some task"
  shows "\<exists>w'. handle_disconnect_stage2 now p w = Some w' \<and> idle w' \<and>
    net_inv {} (extR + refs_of (aborted p (at_resource task) (tasks_ht w) w) w) extV w' \<and>
    closed_fds w' = at_sock task # closed_fds w \<and> res_state.more w' = res_state.more w \<and>
    tasks_ht w' = filter (\<lambda>q. q \<noteq> p \<and> q \<notin> set (aborted p (at_resource task) (tasks_ht w) w)) (tasks_ht w) \<and>
    (\<forall>q. ht_lookup (net_tasks w') q = (if q = p \<or> q \<in> set (aborted p (at_resource task) (tasks_ht w) w) then None
      else ht_lookup (net_tasks w) q))"
proof -
  let ?A = "aborted p (at_resource task) (tasks_ht w) w"
  from abort_tasks_ok [OF inv net_okD(2) [OF net_invD(2) [OF inv(1)]] subset_refl, of now "at_resource task"] obtain w1 where
    w1: "abort_tasks now p (at_resource task) (tasks_ht w) w = Some w1" "net_inv {p} (extR + refs_of ?A w) extV w1"
    "idle w1" "closed_fds w1 = closed_fds w" "res_state.more w1 = res_state.more w"
    "tasks_ht w1 = filter (\<lambda>q. q \<notin> set ?A) (tasks_ht w)"
    "\<forall>q. ht_lookup (net_tasks w1) q = (if q \<in> set ?A then None else ht_lookup (net_tasks w) q)" by blast
  let ?w2 = "w1\<lparr>closed_fds := at_sock task # closed_fds w1\<rparr>"
  have "net_inv {p} (extR + refs_of ?A w) extV ?w2"
    using w1(2) net_ok_cong [of ?w2 w1 "{p}"] by (simp add: net_inv_def type_at_def)
  from net_inv_destroy [OF this, of p] have "net_inv {} (extR + refs_of ?A w) extV (task_destroy p ?w2)" by simp
  moreover have "handle_disconnect_stage2 now p w = Some (task_destroy p ?w2)"
    using look w1(1) by (simp add: handle_disconnect_stage2_def)
  ultimately show ?thesis
    using w1(3-7) by (auto simp: idle_def removeAll_filter_not_eq intro!: filter_cong)
qed

section \<open>Sending and resolving\<close>

text \<open>A structure that is only read while the system is called.\<close>

lemma with_resource_sys:
  assumes av: "available r type w e" and body: "body (acquired e) (w\<lparr>res_tbl := ht_insert r (acquired e) (res_tbl w)\<rparr>) =
      Some (x, (w\<lparr>res_tbl := ht_insert r (acquired e) (res_tbl w)\<rparr>)\<lparr>sys := s\<rparr>)"
  shows "with_resource r type bad body w = Some (x, w\<lparr>sys := s\<rparr>)"
proof -
  have e: "ht_lookup (res_tbl w) r = Some e" "0 < r_ref_cnt e" "\<not> r_locked e" using av by (simp_all add: available_def)
  let ?w = "(w\<lparr>res_tbl := ht_insert r (acquired e) (res_tbl w)\<rparr>)\<lparr>sys := s\<rparr>"
  have "pp_resource_release r ?w = Some (w\<lparr>sys := s\<rparr>)"
    using release_counted [of ?w r "acquired e"] e
    by (simp add: r_relock sys_res_commute ht_insert_same)
  then show ?thesis using body by (simp add: with_resource_def acquire_available [OF av])
qed

lemma udp_send_stage1_settles:
  assumes inv: "net_inv {p} extR extV w" "idle w" and look: "ht_lookup (net_tasks w) p = Some task"
    and type: "at_addr_from_resource task = 0" "at_type task = ASYNC_NETWORK_UDP_SEND"
  shows "settles extR extV (handle_udp_send_stage1 os now p w)"
  using inv
proof (cases rule: acquire_cases [where r = "at_resource task" and type = PP_RESOURCE_UDP_SOCKET, case_names bad got])
  case bad
  then show ?thesis using look destroy_settles [OF inv] by (simp add: handle_udp_send_stage1_def with_resource_bad)
next
  case (got e)
  obtain us where us: "r_payload e = PL_udp_socket us" using fits_udp [OF got(2)] by blast
  obtain ret s where call: "nos_sendto os (us_sock us) (at_buffer task) (at_bufsize task) False (at_netaddr task) (sys w) = (ret, s)"
    by (cases "nos_sendto os (us_sock us) (at_buffer task) (at_bufsize task) False (at_netaddr task) (sys w)") auto
  let ?body = "\<lambda>gr w. do {
    us \<leftarrow> the_udp_socket (r_payload gr);
    let (retval, w) = sys_call (nos_sendto os (us_sock us) (at_buffer task) (at_bufsize task) False (at_netaddr task)) w;
    Some (Some (us_sock us, retval), w) }"
  have "with_resource (at_resource task) PP_RESOURCE_UDP_SOCKET None ?body w = Some (Some (us_sock us, ret), w\<lparr>sys := s\<rparr>)"
    by (rule with_resource_sys [OF got(1)]) (simp add: us sys_call_eq call)
  moreover have "settles extR extV (finish now p task ret (w\<lparr>sys := s\<rparr>))"
    using inv by (intro finish_settles) simp_all
  moreover have "settles extR extV (Some (add_event_mapping p (us_sock us) Handle_udp_send_stage2 (w\<lparr>sys := s\<rparr>)))"
    using inv look no_refD [OF type(1)] type(2) by (intro register_settles [where task = task]) simp_all
  ultimately show ?thesis using look by (simp add: handle_udp_send_stage1_def)
qed

lemma host_resolve_stage2_settles:
  assumes inv: "net_inv {p} extR extV w" "idle w" and look: "ht_lookup (net_tasks w) p = Some task"
  shows "settles extR extV (handle_host_resolve_stage2 now result type n addresses p w)"
proof (cases "result \<noteq> DNS_ERR_NONE \<or> n < 1")
  case True
  then show ?thesis using look finish_settles [OF inv] by (simp add: handle_host_resolve_stage2_def)
next
  case False
  show ?thesis
    using inv
  proof (cases rule: acquire_cases [where r = "at_resource task" and type = PP_RESOURCE_HOST_RESOLVER, case_names bad got])
    case bad
    then show ?thesis
      using look destroy_settles [OF inv] False by (simp add: handle_host_resolve_stage2_def with_resource_bad)
  next
    case (got e)
    obtain hr where hr: "r_payload e = PL_host_resolver hr" using fits_resolver [OF got(2)] by blast
    let ?r = "at_resource task"
    define ra where "ra = (if type = DNS_IPv4_A then (PP_OK, map (\<lambda>k. \<lparr>na_size = SOCKADDR_IN, na_data = put_bytes 0
                 (sockaddr_in (bytes_at (4 * k) 4 addresses) (at_port task)) (replicate 128 0)\<rparr>) [0..<nat n])
               else if type = DNS_IPv6_AAAA then (PP_OK, map (\<lambda>k. \<lparr>na_size = SOCKADDR_IN6, na_data = put_bytes 0
                 (sockaddr_in6 (bytes_at (16 * k) 16 addresses) (at_port task)) (replicate 128 0)\<rparr>) [0..<nat n])
               else (PP_ERROR_FAILED, replicate (nat n) zero_net_address))"
    let ?pl = "PL_host_resolver (hr\<lparr>hr_addr_count := word_of_int n, hr_addrs := snd ra\<rparr>)"
    from acquired_write_ok [OF inv got(1), of ?pl] hr obtain e' where
      e': "res_write ?r ?pl (w\<lparr>res_tbl := ht_insert ?r (acquired e) (res_tbl w)\<rparr>) = w\<lparr>res_tbl := ht_insert ?r e' (res_tbl w)\<rparr>"
      "r_resource_type e' = PP_RESOURCE_HOST_RESOLVER" "1 < r_ref_cnt e'"
      "net_inv {p} (add_mset ?r extR) extV (w\<lparr>res_tbl := ht_insert ?r e' (res_tbl w)\<rparr>)"
      "quiet ?r (w\<lparr>res_tbl := ht_insert ?r e' (res_tbl w)\<rparr>)" by auto
    let ?w2 = "w\<lparr>res_tbl := ht_insert ?r e' (res_tbl w)\<rparr>"
    have "ht_lookup (res_tbl ?w2) ?r = Some e'" by simp
    from post_release_ok [OF e'(4,5) this e'(3), of now task "fst ra"] e'(2) obtain w3 w4 where
      w4: "post_result now task (fst ra) ?w2 = Some w3" "pp_resource_release ?r w3 = Some w4"
      "net_inv {p} extR extV w4" "idle w4" by auto
    have "handle_host_resolve_stage2 now result type n addresses p w = Some (task_destroy p w4)"
      using look False hr e'(1) w4(1,2)
      by (simp add: handle_host_resolve_stage2_def with_resource_def acquire_available [OF got(1)] Let_def
        case_prod_beta flip: ra_def)
    then show ?thesis using destroy_settles [OF w4(3,4)] by simp
  qed
qed

section \<open>First stages\<close>

lemma net_ok_request:
  assumes ok: "net_ok {p} w" and p: "p \<notin> set (tasks_ht w)" and look: "ht_lookup (net_tasks w) p = Some task"
    and fits: "answer_fits (at_type task) cb" "target_ok w task"
  shows "net_ok {} (w\<lparr>dns_requests := dns_requests w @ [(p, cb)]\<rparr>)"
proof -
  let ?w = "w\<lparr>dns_requests := dns_requests w @ [(p, cb)]\<rparr>"
  have tgt: "target_ok ?w = target_ok w" by (rule target_ok_same) simp
  note D = net_okD [OF ok]
  have np: "p \<notin> fst ` set (dns_requests w)" using D(6) by simp
  show ?thesis
    unfolding net_ok_def tgt
  proof (intro conjI allI impI)
    fix q
    show "(ht_lookup (net_tasks ?w) q \<noteq> None) = (q \<in> set (tasks_ht ?w) \<union> fst ` set (dns_requests ?w) \<union> {})"
      using D(4) [of q] by auto
  next
    fix q t assume "ht_lookup (net_tasks ?w) q = Some t"
    then have q: "ht_lookup (net_tasks w) q = Some t" by simp
    show "q < next_task ?w" using D(7) [OF q] by simp
    show "target_ok w t" using D(8) [OF q] look fits(2) q by (cases "q = p") auto
    { assume "q \<in> set (tasks_ht ?w) - {}" then show "event_ok t" using D(9) [OF q] p by (cases "q = p") auto }
    fix c assume "(q, c) \<in> set (dns_requests ?w)"
    then show "answer_fits (at_type t) c" using D(10) [OF q, of c] look fits(1) q by auto
  qed (use D(1-3,5) np p in \<open>auto\<close>)
qed

lemma resolve_request_settles:
  assumes inv: "net_inv {p} extR extV w" "idle w" and look: "ht_lookup (net_tasks w) p = Some task"
    and p: "p \<notin> set (tasks_ht w)" and fits: "answer_fits (at_type task) cb" "at_addr_from_resource task = 0"
  shows "settles extR extV (resolve_request os now host cb p task w)"
proof -
  let ?c = "nos_resolve_ipv4 os host (sys w)"
  let ?w = "w\<lparr>sys := snd ?c\<rparr>"
  let ?w1 = "?w\<lparr>dns_requests := dns_requests ?w @ [(p, cb)]\<rparr>"
  have type: "at_type task \<noteq> ASYNC_NETWORK_UDP_RECV" using fits(1) by (cases cb) auto
  have w: "net_inv {p} extR extV ?w" "idle ?w" "ht_lookup (net_tasks ?w) p = Some task" "p \<notin> set (tasks_ht ?w)"
    using inv look p by simp_all
  have "net_ok {} ?w1"
    by (rule net_ok_request [OF net_invD(2) [OF w(1)] w(4,3) fits(1) no_refD(2) [OF fits(2) type]])
  moreover have "task_refs {} ?w1 = task_refs {p} ?w"
    using held_remove [of "net_tasks w" p task task_ref] look net_okD(1) [OF net_invD(2) [OF inv(1)]]
      no_refD(1) [OF fits(2)] by (simp add: task_refs_one)
  ultimately have "net_inv {} extR extV ?w1" using net_invD(1) [OF w(1)] by (simp add: net_inv_def)
  moreover have "idle ?w1" using inv(2) by (simp add: idle_def)
  ultimately have "settles extR extV (Some ?w1)" by (simp add: settles_def)
  moreover have "settles extR extV (finish now p task PP_ERROR_NAME_NOT_RESOLVED ?w)" by (rule finish_settles [OF w(1,2)])
  ultimately show ?thesis by (simp add: resolve_request_def sys_call_eq split: bool.split)
qed


lemma connect_stage1_settles:
  assumes inv: "net_inv {p} extR extV w" "idle w" and look: "ht_lookup (net_tasks w) p = Some task"
    and p: "p \<notin> set (tasks_ht w)" and type: "at_type task = ASYNC_NETWORK_TCP_CONNECT" "at_addr_from_resource task = 0"
    and host: "at_host task = Some host"
  shows "settles extR extV (handle_tcp_connect_stage1 os now p w)"
proof (cases "inet_pton host")
  case None
  have "settles extR extV (resolve_request os now host Handle_tcp_connect_stage2 p task w)"
    using type by (intro resolve_request_settles [OF inv look p]) simp_all
  then show ?thesis using look host None by (simp add: handle_tcp_connect_stage1_def)
next
  case (Some ip)
  then have "length ip = 4" by (auto simp: inet_pton_def Let_def split: if_splits)
  then have "settles extR extV (handle_tcp_connect_stage2 os now DNS_ERR_NONE DNS_IPv4_A 1 ip p w)"
    using type by (intro connect_stage2_settles [OF inv look]) (simp_all add: connecting_def answer_ok_def)
  then show ?thesis using look host Some by (simp add: handle_tcp_connect_stage1_def)
qed

lemma connect_with_net_address_settles:
  assumes inv: "net_inv {p} extR extV w" "idle w" and look: "ht_lookup (net_tasks w) p = Some task"
    and type: "at_type task = ASYNC_NETWORK_TCP_CONNECT_WITH_NETADDRESS" "at_addr_from_resource task = 0"
    and len: "length (na_data (at_netaddr task)) = 128"
  shows "settles extR extV (handle_tcp_connect_with_net_address os now p w)"
proof -
  let ?t = "task\<lparr>at_port := ntohs (bytes_at 2 2 (na_data (at_netaddr task)))\<rparr>"
  let ?w = "task_write p ?t w"
  have w: "net_inv {p} extR extV ?w" "idle ?w" "ht_lookup (net_tasks ?w) p = Some ?t"
    using inv by (simp_all add: net_inv_task_write)
  have "settles extR extV (handle_tcp_connect_stage2 os now DNS_ERR_NONE DNS_IPv4_A 1 (bytes_at 4 4 (na_data (at_netaddr task))) p ?w)"
    "settles extR extV (handle_tcp_connect_stage2 os now DNS_ERR_NONE DNS_IPv6_AAAA 1 (bytes_at 8 16 (na_data (at_netaddr task))) p ?w)"
    using type len by (intro connect_stage2_settles [OF w]; simp add: connecting_def answer_ok_def bytes_at_def)+
  moreover have "settles extR extV (finish now p task PP_ERROR_NAME_NOT_RESOLVED w)" by (rule finish_settles [OF inv])
  ultimately show ?thesis using look by (simp add: handle_tcp_connect_with_net_address_def Let_def)
qed

text \<open>
  A request as the interfaces make it: the arguments they pass on are whole (a host name is given,
  an address has its 128 bytes).
\<close>

definition request_ok :: "async_network_task_s \<Rightarrow> bool" where
  "request_ok task \<longleftrightarrow> (at_type task = ASYNC_NETWORK_TCP_CONNECT \<or> at_type task = ASYNC_NETWORK_HOST_RESOLVE \<longrightarrow>
       at_host task \<noteq> None) \<and>
     (at_type task = ASYNC_NETWORK_TCP_CONNECT_WITH_NETADDRESS \<longrightarrow> length (na_data (at_netaddr task)) = 128)"

lemma push_settles:
  assumes inv: "net_inv {p} (extR + mset (task_ref task)) extV w" "idle w"
    and look: "ht_lookup (net_tasks w) p = Some task" and p: "p \<notin> set (tasks_ht w)"
    and tgt: "target_ok w task" and req: "request_ok task"
  shows "settles_leaking (mset (task_ref task)) extR extV (async_network_task_push os now p w)"
proof (cases "at_type task = ASYNC_NETWORK_UDP_RECV")
  case True
  then show ?thesis
    using udp_recv_stage1_settles [OF inv look tgt True] look by (simp add: async_network_task_push_def)
next
  case False
  note ref = no_ref [OF tgt False]
  have inv0: "net_inv {p} extR extV w" using inv(1) no_refD(1) [OF ref] by simp
  have "settles extR extV (async_network_task_push os now p w)"
  proof (cases "at_type task")
    case ASYNC_NETWORK_TCP_CONNECT
    then obtain host where "at_host task = Some host" using req by (auto simp: request_ok_def)
    then show ?thesis using connect_stage1_settles [OF inv0 inv(2) look p _ ref] ASYNC_NETWORK_TCP_CONNECT look
      by (simp add: async_network_task_push_def)
  next
    case ASYNC_NETWORK_TCP_CONNECT_WITH_NETADDRESS
    then show ?thesis using connect_with_net_address_settles [OF inv0 inv(2) look _ ref] req look
      by (simp add: async_network_task_push_def request_ok_def)
  next
    case ASYNC_NETWORK_TCP_READ
    then have "settles extR extV (handle_tcp_read_stage1 p w)"
      unfolding handle_tcp_read_stage1_def
      by (intro wait_for_socket_settles [OF inv0 inv(2) look ref]) (auto dest: fits_tcp)
    then show ?thesis using ASYNC_NETWORK_TCP_READ look by (simp add: async_network_task_push_def)
  next
    case ASYNC_NETWORK_TCP_WRITE
    then have "settles extR extV (handle_tcp_write_stage1 p w)"
      unfolding handle_tcp_write_stage1_def
      by (intro wait_for_socket_settles [OF inv0 inv(2) look ref]) (auto dest: fits_tcp)
    then show ?thesis using ASYNC_NETWORK_TCP_WRITE look by (simp add: async_network_task_push_def)
  next
    case ASYNC_NETWORK_UDP_SEND
    then show ?thesis using udp_send_stage1_settles [OF inv0 inv(2) look ref] look
      by (simp add: async_network_task_push_def)
  next
    case ASYNC_NETWORK_DISCONNECT
    then have "settles extR extV (Some (handle_disconnect_stage1 p w))"
      unfolding handle_disconnect_stage1_def
      using inv tgt by (intro register_settles [OF inv look tgt]) simp_all
    then show ?thesis using ASYNC_NETWORK_DISCONNECT look by (simp add: async_network_task_push_def)
  next
    case ASYNC_NETWORK_HOST_RESOLVE
    then obtain host where h: "at_host task = Some host" using req by (auto simp: request_ok_def)
    have "settles extR extV (resolve_request os now host Handle_host_resolve_stage2 p task w)"
      using ASYNC_NETWORK_HOST_RESOLVE by (intro resolve_request_settles [OF inv0 inv(2) look p _ ref]) simp
    then show ?thesis using ASYNC_NETWORK_HOST_RESOLVE h look
      by (simp add: async_network_task_push_def handle_host_resolve_stage1_def)
  qed (use False in simp)
  then show ?thesis by (rule settles_leakingI)
qed

section \<open>Events\<close>

text \<open>
  The references that an event leaves without an owner: those of a receiving task whose socket is
  gone, and those of the receiving tasks that a disconnection aborts.
\<close>

lemma run_event_settles:
  assumes inv: "net_inv {} extR extV w" "idle w" and p: "p \<in> set (tasks_ht w)"
  shows "\<exists>L. settles (extR + L) extV (run_event os now timed_out p w)"
proof -
  obtain task where look: "ht_lookup (net_tasks w) p = Some task"
    using task_there [OF net_invD(2) [OF inv(1)], of p] p by blast
  have "net_inv {p} (extR + mset (task_ref task)) extV w" and tgt: "target_ok w task" and ev: "event_ok task"
    using net_inv_hold [OF inv(1) p _ look] by simp_all
  note hold = this(1)
  obtain sock cb where e: "at_event task = Some (sock, cb)" "callback_fits (at_type task) cb"
    "cb = Handle_tcp_connect_stage4 \<longrightarrow> attempts_ok task" using ev by (auto simp: event_ok_def)
  have run: "run_event os now timed_out p w = (case cb of
        Handle_tcp_connect_stage4 \<Rightarrow> handle_tcp_connect_stage4 os now timed_out p w
      | Handle_tcp_read_stage2 \<Rightarrow> handle_tcp_read_stage2 os now sock p w
      | Handle_tcp_write_stage2 \<Rightarrow> handle_tcp_write_stage2 os now sock p w
      | Handle_disconnect_stage2 \<Rightarrow> handle_disconnect_stage2 now p w
      | Handle_udp_recv_stage2 \<Rightarrow> handle_udp_recv_stage2 os now sock p w
      | Handle_udp_send_stage2 \<Rightarrow> handle_udp_send_stage2 os now sock p w)"
    using look e(1) by (simp add: run_event_def)
  show ?thesis
  proof (cases "cb = Handle_udp_recv_stage2")
    case True
    then have "at_type task = ASYNC_NETWORK_UDP_RECV" using e(2) by simp
    from udp_recv_stage2_settles [OF hold inv(2) look tgt this, of os now sock] show ?thesis
      using True run unfolding settles_leaking_def by auto
  next
    case False
    then have nr: "at_type task \<noteq> ASYNC_NETWORK_UDP_RECV" using e(2) by (cases cb) auto
    note ref = no_ref [OF tgt nr]
    have inv0: "net_inv {p} extR extV w" using hold no_refD(1) [OF ref] by simp
    have ex: "\<exists>L. settles (extR + L) extV r" if "settles extR extV r" for r :: "'a net_world option"
      using that by (intro exI [of _ "{#}"]) simp
    have dis: "\<exists>L. settles (extR + L) extV (handle_disconnect_stage2 now p w)"
      using disconnect_stage2_settles [OF inv0 inv(2) look, of now] unfolding settles_def by blast
    have con: "settles extR extV (handle_tcp_connect_stage4 os now timed_out p w)" if "cb = Handle_tcp_connect_stage4"
      using connect_stage4_settles [OF inv0 inv(2) look] e(2,3) ref that by (simp add: connecting_def)
    note rest = tcp_read_stage2_settles [OF inv0 inv(2) look] tcp_write_stage2_settles [OF inv0 inv(2) look]
      udp_send_stage2_settles [OF inv0 inv(2) look]
    show ?thesis
      unfolding run using False dis ex [OF con] ex [OF rest(1)] ex [OF rest(2)] ex [OF rest(3)]
      by (cases cb) simp_all
  qed
qed

lemma run_answer_settles:
  assumes inv: "net_inv {} extR extV w" "idle w" and req: "req \<in> set (dns_requests w)"
    and ans: "answer_ok type n addresses"
  shows "settles extR extV (run_answer os now result type n addresses req w)"
proof -
  obtain p cb where rq: "req = (p, cb)" by (cases req)
  then have p: "(p, cb) \<in> set (dns_requests w)" using req by simp
  then have "p \<in> fst ` set (dns_requests w)" by force
  then obtain task where look: "ht_lookup (net_tasks w) p = Some task"
    using task_there [OF net_invD(2) [OF inv(1)], of p] by blast
  let ?w = "w\<lparr>dns_requests := remove1 (p, cb) (dns_requests w)\<rparr>"
  note hold = net_inv_answer [OF inv(1) p look]
  have "at_type task \<noteq> ASYNC_NETWORK_UDP_RECV" using hold(3) by (cases cb) auto
  note ref = no_ref [OF hold(2) this]
  have w: "net_inv {p} extR extV ?w" "idle ?w" "ht_lookup (net_tasks ?w) p = Some task"
    using hold(1) no_refD(1) [OF ref] inv(2) look by simp_all
  show ?thesis
  proof (cases cb)
    case Handle_tcp_connect_stage2
    then have "connecting task" using hold(3) ref by (simp add: connecting_def)
    then show ?thesis using connect_stage2_settles [OF w _ ans] Handle_tcp_connect_stage2 rq by (simp add: run_answer_def)
  next
    case Handle_host_resolve_stage2
    then show ?thesis using host_resolve_stage2_settles [OF w] rq by (simp add: run_answer_def)
  qed
qed

end
