(* ===== verification/Network_Calls.thy ===== *)
theory Network_Calls
  imports Network_Safe
begin

text \<open>
  The calls of the plugin on its sockets keep the invariant of the requests, and with the events and
  answers of the network thread they make a transition system whose reachable states all have it.
\<close>

section \<open>A new task\<close>

definition new_task :: "async_network_task_s \<Rightarrow> 'a res_state_scheme \<Rightarrow> 'a res_state_scheme" where
  "new_task task w = task_write (next_task w) task (snd (async_network_task_create w))"

lemma new_task_sel [simp]:
  "res_tbl (new_task task w) = res_tbl w" "tasks_ht (new_task task w) = tasks_ht w"
  "ht_lookup (net_tasks (new_task task w)) q = (if q = next_task w then Some task else ht_lookup (net_tasks w) q)"
  "idle (new_task task w) = idle w" "quiet r (new_task task w) = quiet r w"
  "res_tbl_next (new_task task w) = res_tbl_next w" "destructors_ht (new_task task w) = destructors_ht w"
  by (auto simp: new_task_def async_network_task_create_def task_write_def idle_def quiet_def)

lemma new_task_more [simp]:
  "dns_requests (new_task task v) = dns_requests v" "sys (new_task task v) = sys v"
  by (simp_all add: new_task_def async_network_task_create_def task_write_def)

lemma same_but_net_new_task: "same_but_net (new_task task w) w"
  unfolding new_task_def async_network_task_create_def task_write_def snd_conv
  by (rule same_but_net_trans [OF same_but_net_update(2) same_but_net_trans [OF same_but_net_update(4) same_but_net_update(2)]])

lemma net_ok_fresh:
  assumes "net_ok C w" shows "ht_lookup (net_tasks w) (next_task w) = None"
  using net_okD(7) [OF assms, of "next_task w"] by (cases "ht_lookup (net_tasks w) (next_task w)") auto

lemma net_inv_new_task:
  assumes inv: "net_inv C extR extV w"
  shows "net_inv (insert (next_task w) C) extR extV (new_task task w)" "next_task w \<notin> set (tasks_ht w)"
proof -
  let ?p = "next_task w" and ?w = "new_task task w"
  have ok: "net_ok C w" by (rule net_invD(2) [OF inv])
  note D = net_okD [OF ok]
  have new: "ht_lookup (net_tasks w) ?p = None" by (rule net_ok_fresh [OF ok])
  then have np: "?p \<notin> set (tasks_ht w)" "?p \<notin> fst ` set (dns_requests w)" "?p \<notin> C" using D(4) [of ?p] by auto
  then show "?p \<notin> set (tasks_ht w)" by simp
  have np': "(?p, c) \<notin> set (dns_requests w)" for c using np(2) by force
  have nt: "net_tasks ?w = ht_insert ?p task (net_tasks w)" "next_task ?w = ?p + 1"
    by (simp_all add: new_task_def async_network_task_create_def task_write_def)
  have tgt: "target_ok ?w = target_ok w" by (rule target_ok_same) simp
  have "net_ok (insert ?p C) ?w"
    unfolding net_ok_def tgt
  proof (intro conjI allI impI)
    fix q
    show "(ht_lookup (net_tasks ?w) q \<noteq> None) = (q \<in> set (tasks_ht ?w) \<union> fst ` set (dns_requests ?w) \<union> insert ?p C)"
      using D(4) [of q] by auto
  next
    fix q t assume t: "ht_lookup (net_tasks ?w) q = Some t"
    show "q < next_task ?w" using t D(7) [of q t] unfolding nt(2) by (cases "q = ?p") auto
    { assume "q \<notin> insert ?p C" then show "target_ok w t" using t D(8) [of q t] by auto }
    { assume "q \<in> set (tasks_ht ?w) - insert ?p C" then show "event_ok t" using t D(9) [of q t] by auto }
    fix c assume "(q, c) \<in> set (dns_requests ?w)"
    then show "answer_fits (at_type t) c" using t D(10) [of q t c] np' by (cases "q = ?p") auto
  qed (use D(1-3,5,6) np nt in \<open>auto\<close>)
  moreover have "task_refs (insert ?p C) ?w = task_refs C w"
  proof -
    have absent: "?p \<notin> fst ` set (net_tasks w)" using new by (simp add: ht_lookup_def map_of_eq_None_iff)
    then have "(?p, b) \<notin> set (net_tasks w)" for b by force
    then show ?thesis
      unfolding task_refs_def nt(1) ht_insert_absent [OF new]
      by (auto intro!: arg_cong [of _ _ "held task_ref"] filter_cong)
  qed
  ultimately show "net_inv (insert ?p C) extR extV ?w"
    using net_invD(1) [OF inv] world_inv_same_but_net [OF same_but_net_new_task [of task w]]
    by (simp add: net_inv_def)
qed

section \<open>Requests\<close>

lemma net_inv_release_same:
  assumes inv: "net_inv C (add_mset r extR) extV w" and q: "quiet r w" and look: "ht_lookup (res_tbl w) r = Some (acquired e)"
    and n: "0 < r_ref_cnt e" "\<not> r_locked e"
  shows "\<exists>w'. pp_resource_release r w = Some w' \<and> net_inv C extR extV w' \<and> idle w' \<and>
    w' = w\<lparr>res_tbl := ht_insert r e (res_tbl w)\<rparr>"
proof -
  have "1 < r_ref_cnt (acquired e)" using n(1) by simp
  from net_inv_release [OF inv look this q] show ?thesis using n(2) by (simp add: r_relock)
qed

lemma target_ok_release:
  assumes "ht_lookup (res_tbl w) r = Some e" "r_resource_type e' = r_resource_type e" "target_ok w task"
  shows "target_ok (w\<lparr>res_tbl := ht_insert r e' (res_tbl w)\<rparr>) task"
  using assms(3) target_ok_cong [of "w\<lparr>res_tbl := ht_insert r e' (res_tbl w)\<rparr>" w task] type_at_insert [OF assms(1,2)]
  by simp

text \<open>A request whose task holds no reference.\<close>

definition plain_request :: "async_network_task_s \<Rightarrow> bool" where
  "plain_request task \<longleftrightarrow> request_ok task \<and> at_addr_from_resource task = 0 \<and>
     (at_type task = ASYNC_NETWORK_UDP_RECV \<longrightarrow> at_addr_from task = To_udp_socket (at_resource task))"

lemma network_request_ok:
  assumes inv: "net_inv {} extR extV w" "idle w" and type: "type \<noteq> PP_RESOURCE_MESSAGE_LOOP"
    and mk: "\<And>pl. payload_fits type pl \<Longrightarrow> (\<exists>e. mk pl = Some (Inl e)) \<or> (\<exists>task. mk pl = Some (Inr task) \<and> plain_request task)"
  shows "\<exists>x w'. network_request os now r type mk w = Some (x, w') \<and> net_inv {} extR extV w' \<and> idle w'"
  using inv
proof (cases rule: acquire_cases [where r = r and type = type, case_names bad got])
  case bad
  then show ?thesis using inv by (simp add: network_request_def with_resource_bad)
next
  case (got e)
  have e: "ht_lookup (res_tbl w) r = Some e" "r_resource_type e = type" "0 < r_ref_cnt e" "\<not> r_locked e"
    using got(1) by (simp_all add: available_def)
  let ?w1 = "w\<lparr>res_tbl := ht_insert r (acquired e) (res_tbl w)\<rparr>"
  have inv1: "net_inv {} (add_mset r extR) extV ?w1" by (rule net_inv_acquired [OF inv(1) got(1)])
  have q1: "quiet r ?w1" using e(2) type by (intro quiet_acquired [OF inv(2)]) simp
  from mk [OF got(2)] consider (err) x where "mk (r_payload e) = Some (Inl x)"
    | (task) task where "mk (r_payload e) = Some (Inr task)" "plain_request task" by blast
  then show ?thesis
  proof cases
    case err
    have "ht_lookup (res_tbl ?w1) r = Some (acquired e)" by simp
    from net_inv_release_same [OF inv1 q1 this e(3,4)] obtain w' where
      "pp_resource_release r ?w1 = Some w'" "net_inv {} extR extV w'" "idle w'" by blast
    then show ?thesis
      using err by (simp add: network_request_def with_resource_def acquire_available [OF got(1)])
  next
    case task
    let ?p = "next_task ?w1" and ?w2 = "new_task task ?w1"
    note new = net_inv_new_task(1) [OF inv1, of task] net_inv_new_task(2) [OF inv1]
    have "quiet r ?w2" "ht_lookup (res_tbl ?w2) r = Some (acquired e)" using q1 by simp_all
    from net_inv_release_same [OF new(1) this e(3,4)] obtain w3 where w3: "pp_resource_release r ?w2 = Some w3"
      "net_inv {?p} extR extV w3" "idle w3" "w3 = ?w2\<lparr>res_tbl := ht_insert r e (res_tbl ?w2)\<rparr>" by blast
    have ref: "task_ref task = []" using task(2) by (simp add: plain_request_def task_ref_def)
    have tgt: "target_ok w3 task" using task(2) by (auto simp: plain_request_def target_ok_def)
    have "settles_leaking (mset (task_ref task)) extR extV (async_network_task_push os now ?p w3)"
      using w3(2,3) ref tgt new(2) task(2) w3(4) by (intro push_settles) (simp_all add: plain_request_def)
    then have "settles extR extV (async_network_task_push os now ?p w3)"
      using ref by (simp add: settles_leaking_def)
    then show ?thesis
      using task w3(1)
      by (auto simp: network_request_def with_resource_def acquire_available [OF got(1)] async_network_task_create_def
        new_task_def Let_def settles_def)
  qed
qed

text \<open>Disconnecting a socket registers its task at once.\<close>

lemma net_inv_push_disconnect:
  assumes inv: "net_inv {} extR extV w" and idle: "idle w \<or> quiet r w"
  shows "net_inv {} extR extV (push_disconnect k sock w)" "res_tbl (push_disconnect k sock w) = res_tbl w"
proof -
  let ?t = "disconnect_task k sock" and ?p = "next_task w"
  let ?w = "new_task ?t w"
  have eq: "push_disconnect k sock w = add_event_mapping ?p (- 1) Handle_disconnect_stage2 ?w"
    by (simp add: push_disconnect_def new_task_def async_network_task_create_def handle_disconnect_stage1_def)
  have t: "at_addr_from_resource ?t = 0" "at_type ?t = ASYNC_NETWORK_DISCONNECT"
    by (simp_all add: disconnect_task_def zero_task_def)
  have new: "net_inv {?p} extR extV ?w" using net_inv_new_task(1) [OF inv] by simp
  have look: "ht_lookup (net_tasks ?w) ?p = Some ?t" by simp
  have "net_ok {} (push_disconnect k sock w)"
    using net_ok_register [OF net_invD(2) [OF new] _ look, of Handle_disconnect_stage2 "- 1"] t no_refD(2) [OF t(1), of ?w]
    unfolding eq by simp
  moreover have "task_refs {} (push_disconnect k sock w) = task_refs {?p} ?w"
    using task_refs_register [OF net_invD(2) [OF new] look] no_refD(1) [OF t(1)] unfolding eq by simp
  ultimately show "net_inv {} extR extV (push_disconnect k sock w)"
    using net_invD(1) [OF new] world_inv_same_but_net [OF same_but_net_push_disconnect [of k sock w]]
      world_inv_same_but_net [OF same_but_net_new_task [of ?t w]]
    by (simp add: net_inv_def)
  show "res_tbl (push_disconnect k sock w) = res_tbl w" by (rule same_but_netD [OF same_but_net_push_disconnect])
qed

text \<open>The body of \<^verbatim>\<open>disconnect\<close> and \<^verbatim>\<open>close\<close>: mark the structure, push the task.\<close>

lemma close_socket_ok:
  assumes inv: "net_inv {} extR extV w" "idle w" and type: "type \<noteq> PP_RESOURCE_MESSAGE_LOOP"
    and body: "\<And>gr w. payload_fits type (r_payload gr) \<Longrightarrow> r_self_id gr = r \<Longrightarrow> body gr w = Some ((), w) \<or>
      (\<exists>pl k sock. body gr w = Some ((), push_disconnect k sock (res_write r pl w)) \<and> payload_fits type pl \<and>
        payload_kids pl = payload_kids (r_payload gr) \<and> payload_vars pl = payload_vars (r_payload gr))"
  shows "\<exists>w'. with_resource r type () body w = Some ((), w') \<and> net_inv {} extR extV w' \<and> idle w'"
  using inv
proof (cases rule: acquire_cases [where r = r and type = type, case_names bad got])
  case bad
  then show ?thesis using inv by (simp add: with_resource_bad)
next
  case (got e)
  let ?w1 = "w\<lparr>res_tbl := ht_insert r (acquired e) (res_tbl w)\<rparr>"
  have e: "0 < r_ref_cnt e" "\<not> r_locked e" "r_resource_type e = type" using got(1) by (simp_all add: available_def)
  have "payload_fits type (r_payload (acquired e))" using got(2) by simp
  moreover have "r_self_id (acquired e) = r"
    using world_inv_entry [OF net_invD(1) [OF inv(1)], of r e] got(1) by (simp add: available_def res_entry_ok_def)
  ultimately have "body (acquired e) ?w1 = Some ((), ?w1) \<or>
      (\<exists>pl k sock. body (acquired e) ?w1 = Some ((), push_disconnect k sock (res_write r pl ?w1)) \<and> payload_fits type pl \<and>
        payload_kids pl = payload_kids (r_payload (acquired e)) \<and> payload_vars pl = payload_vars (r_payload (acquired e)))"
    by (rule body)
  then show ?thesis
  proof (elim disjE exE conjE)
    assume b: "body (acquired e) ?w1 = Some ((), ?w1)"
    have "ht_lookup (res_tbl ?w1) r = Some (acquired e)" by simp
    moreover have "quiet r ?w1" using e(3) type by (intro quiet_acquired [OF inv(2)]) simp
    ultimately obtain w' where "pp_resource_release r ?w1 = Some w'" "net_inv {} extR extV w'" "idle w'"
      using net_inv_release_same [OF net_inv_acquired [OF inv(1) got(1)] _ _ e(1,2)] by blast
    then show ?thesis using b by (simp add: with_resource_def acquire_available [OF got(1)])
  next
    fix pl k sock
    assume b: "body (acquired e) ?w1 = Some ((), push_disconnect k sock (res_write r pl ?w1))" "payload_fits type pl"
      "payload_kids pl = payload_kids (r_payload (acquired e))" "payload_vars pl = payload_vars (r_payload (acquired e))"
    then have s: "payload_kids pl = payload_kids (r_payload e)" "payload_vars pl = payload_vars (r_payload e)" by simp_all
    from acquired_write_ok [OF inv got(1) type b(2) s] obtain e' where
      e': "res_write r pl ?w1 = w\<lparr>res_tbl := ht_insert r e' (res_tbl w)\<rparr>" "1 < r_ref_cnt e'"
      "net_inv {} (add_mset r extR) extV (w\<lparr>res_tbl := ht_insert r e' (res_tbl w)\<rparr>)"
      "quiet r (w\<lparr>res_tbl := ht_insert r e' (res_tbl w)\<rparr>)" by blast
    let ?w2 = "w\<lparr>res_tbl := ht_insert r e' (res_tbl w)\<rparr>"
    note pd = net_inv_push_disconnect [OF e'(3) disjI2 [OF e'(4)], of k sock]
    have "ht_lookup (res_tbl (push_disconnect k sock ?w2)) r = Some e'" "quiet r (push_disconnect k sock ?w2)"
      using pd(2) e'(4) quiet_same [OF pd(2)] by simp_all
    from net_inv_release [OF pd(1) this(1) e'(2) this(2)] obtain w' where
      "pp_resource_release r (push_disconnect k sock ?w2) = Some w'" "net_inv {} extR extV w'" "idle w'" by blast
    then show ?thesis using b(1) e'(1) by (simp add: with_resource_def acquire_available [OF got(1)])
  qed
qed

section \<open>The transition system\<close>

datatype net_call =
    Call_tcp_connect PP_Resource string u16 PP_CompletionCallback
  | Call_tcp_connect_address PP_Resource PP_NetAddress_Private PP_CompletionCallback
  | Call_tcp_read PP_Resource ptr int PP_CompletionCallback
  | Call_tcp_write PP_Resource ptr int PP_CompletionCallback
  | Call_tcp_disconnect PP_Resource
  | Call_udp_recv_from PP_Resource ptr int PP_CompletionCallback
  | Call_udp_send_to PP_Resource ptr int PP_NetAddress_Private PP_CompletionCallback
  | Call_udp_close PP_Resource

fun call_ok :: "net_call \<Rightarrow> bool" where
  "call_ok (Call_tcp_connect_address _ addr _) = (length (na_data addr) = 128)"
| "call_ok _ = True"

fun network_call :: "'o net_os \<Rightarrow> timespec \<Rightarrow> net_call \<Rightarrow> 'o net_world \<Rightarrow> 'o net_world option" where
  "network_call os now (Call_tcp_connect r host port ccb) w = map_option snd (ppb_tcp_socket_connect os now r (Some host) port ccb w)"
| "network_call os now (Call_tcp_connect_address r addr ccb) w =
     map_option snd (ppb_tcp_socket_connect_with_net_address os now r addr ccb w)"
| "network_call os now (Call_tcp_read r buf n ccb) w = map_option snd (ppb_tcp_socket_read os now r buf n ccb w)"
| "network_call os now (Call_tcp_write r buf n ccb) w = map_option snd (ppb_tcp_socket_write os now r buf n ccb w)"
| "network_call os now (Call_tcp_disconnect r) w = map_option snd (ppb_tcp_socket_disconnect r w)"
| "network_call os now (Call_udp_recv_from r buf n ccb) w = map_option snd (ppb_udp_socket_recv_from os now r buf n ccb w)"
| "network_call os now (Call_udp_send_to r buf n addr ccb) w = map_option snd (ppb_udp_socket_send_to os now r buf n addr ccb w)"
| "network_call os now (Call_udp_close r) w = map_option snd (ppb_udp_socket_close r w)"

lemma request_task_sel [simp]:
  "at_type (request_task t r ccb w) = t" "at_resource (request_task t r ccb w) = r"
  "at_callback (request_task t r ccb w) = ccb" "at_callback_ml (request_task t r ccb w) = this_thread_message_loop w"
  "at_addr_from_resource (request_task t r ccb w) = 0"
  by (simp_all add: request_task_def zero_task_def ppb_message_loop_get_current_def)

lemma settles_snd:
  "\<exists>x w'. r = Some (x, w') \<and> net_inv {} extR extV w' \<and> idle w' \<Longrightarrow> settles extR extV (map_option snd r)"
  by (auto simp: settles_def)

lemma network_call_settles:
  assumes inv: "net_inv {} extR extV w" "idle w" and ok: "call_ok c"
  shows "settles extR extV (network_call os now c w)"
proof (cases c)
  case (Call_tcp_connect r host port ccb)
  show ?thesis unfolding Call_tcp_connect network_call.simps ppb_tcp_socket_connect_def
    by (intro settles_snd network_request_ok [OF inv])
      (auto dest!: fits_tcp simp: plain_request_def request_ok_def)
next
  case (Call_tcp_connect_address r addr ccb)
  show ?thesis unfolding Call_tcp_connect_address network_call.simps ppb_tcp_socket_connect_with_net_address_def
    using ok Call_tcp_connect_address
    by (intro settles_snd network_request_ok [OF inv])
      (auto dest!: fits_tcp simp: plain_request_def request_ok_def)
next
  case (Call_tcp_read r buf n ccb)
  show ?thesis unfolding Call_tcp_read network_call.simps ppb_tcp_socket_read_def
  proof (cases "n \<le> 0", goal_cases)
    case 2
    have "\<exists>x w'. network_request os now r PP_RESOURCE_TCP_SOCKET (\<lambda>pl. case the_tcp_socket pl of
           None \<Rightarrow> None
         | Some ts \<Rightarrow>
             if \<not> ts_is_connected ts then Some (Inl PP_ERROR_FAILED)
             else if ts_seen_eof ts then Some (Inl PP_ERROR_FAILED)
             else Some (Inr ((request_task ASYNC_NETWORK_TCP_READ r ccb w)
               \<lparr>at_buffer := buf, at_bufsize := min n MEBIBYTE\<rparr>))) w = Some (x, w') \<and> net_inv {} extR extV w' \<and> idle w'"
      by (intro network_request_ok [OF inv]) (auto dest!: fits_tcp simp: plain_request_def request_ok_def)
    then show ?case using 2 by (intro settles_snd) simp
  qed (use inv in \<open>auto simp: settles_def\<close>)
next
  case (Call_tcp_write r buf n ccb)
  show ?thesis unfolding Call_tcp_write network_call.simps ppb_tcp_socket_write_def
  proof (cases "n \<le> 0", goal_cases)
    case 2
    have "\<exists>x w'. network_request os now r PP_RESOURCE_TCP_SOCKET (\<lambda>pl. case the_tcp_socket pl of
           None \<Rightarrow> None
         | Some ts \<Rightarrow>
             if \<not> ts_is_connected ts then Some (Inl PP_ERROR_FAILED)
             else Some (Inr ((request_task ASYNC_NETWORK_TCP_WRITE r ccb w)
               \<lparr>at_buffer := buf, at_bufsize := min n MEBIBYTE\<rparr>))) w = Some (x, w') \<and> net_inv {} extR extV w' \<and> idle w'"
      by (intro network_request_ok [OF inv]) (auto dest!: fits_tcp simp: plain_request_def request_ok_def)
    then show ?case using 2 by (intro settles_snd) simp
  qed (use inv in \<open>auto simp: settles_def\<close>)
next
  case (Call_udp_recv_from r buf n ccb)
  show ?thesis unfolding Call_udp_recv_from network_call.simps ppb_udp_socket_recv_from_def
    by (intro settles_snd network_request_ok [OF inv]) (auto simp: plain_request_def request_ok_def)
next
  case (Call_udp_send_to r buf n addr ccb)
  show ?thesis unfolding Call_udp_send_to network_call.simps ppb_udp_socket_send_to_def
    by (intro settles_snd network_request_ok [OF inv]) (auto simp: plain_request_def request_ok_def)
next
  case (Call_tcp_disconnect r)
  have "\<exists>w'. ppb_tcp_socket_disconnect r w = Some ((), w') \<and> net_inv {} extR extV w' \<and> idle w'"
    unfolding ppb_tcp_socket_disconnect_def
  proof (rule close_socket_ok [OF inv])
    fix gr and v :: "'a net_world" assume "payload_fits PP_RESOURCE_TCP_SOCKET (r_payload gr)" "r_self_id gr = r"
    then obtain ts where ts: "r_payload gr = PL_tcp_socket ts" using fits_tcp by blast
    show "do { ts \<leftarrow> the_tcp_socket (r_payload gr); Some ((), ppb_tcp_socket_destroy (r_self_id gr) ts v) } = Some ((), v) \<or>
      (\<exists>pl k sock. do { ts \<leftarrow> the_tcp_socket (r_payload gr); Some ((), ppb_tcp_socket_destroy (r_self_id gr) ts v) } =
         Some ((), push_disconnect k sock (res_write r pl v)) \<and> payload_fits PP_RESOURCE_TCP_SOCKET pl \<and>
         payload_kids pl = payload_kids (r_payload gr) \<and> payload_vars pl = payload_vars (r_payload gr))"
      using ts \<open>r_self_id gr = r\<close>
      by (cases "ts_destroyed ts")
        (auto simp: ppb_tcp_socket_destroy_def intro!: exI [of _ "PL_tcp_socket (ts\<lparr>ts_destroyed := True, ts_is_connected := False\<rparr>)"])
  qed simp
  then show ?thesis unfolding Call_tcp_disconnect network_call.simps by (intro settles_snd) simp
next
  case (Call_udp_close r)
  have "\<exists>w'. ppb_udp_socket_close r w = Some ((), w') \<and> net_inv {} extR extV w' \<and> idle w'"
    unfolding ppb_udp_socket_close_def
  proof (rule close_socket_ok [OF inv])
    fix gr and v :: "'a net_world" assume "payload_fits PP_RESOURCE_UDP_SOCKET (r_payload gr)" "r_self_id gr = r"
    then obtain us where us: "r_payload gr = PL_udp_socket us" using fits_udp by blast
    show "do { us \<leftarrow> the_udp_socket (r_payload gr); Some ((), ppb_udp_socket_destroy (r_self_id gr) us v) } = Some ((), v) \<or>
      (\<exists>pl k sock. do { us \<leftarrow> the_udp_socket (r_payload gr); Some ((), ppb_udp_socket_destroy (r_self_id gr) us v) } =
         Some ((), push_disconnect k sock (res_write r pl v)) \<and> payload_fits PP_RESOURCE_UDP_SOCKET pl \<and>
         payload_kids pl = payload_kids (r_payload gr) \<and> payload_vars pl = payload_vars (r_payload gr))"
      using us \<open>r_self_id gr = r\<close>
      by (cases "us_destroyed us")
        (auto simp: ppb_udp_socket_destroy_def intro!: exI [of _ "PL_udp_socket (us\<lparr>us_destroyed := True\<rparr>)"])
  qed simp
  then show ?thesis unfolding Call_udp_close network_call.simps by (intro settles_snd) simp
qed

end
