(* ===== verification/Network_Theorems.thy ===== *)
theory Network_Theorems
  imports Network_Calls
begin

text \<open>
  The properties of the sockets: consistency of every reachable state, what a disconnection and the
  events do to the callbacks, the order of connection attempts, and resolving names.
\<close>

section \<open>Reachable states\<close>

inductive net_step :: "'o net_os \<Rightarrow> 'o net_world \<Rightarrow> 'o net_world \<Rightarrow> bool" for os where
  Step_call: "call_ok c \<Longrightarrow> network_call os now c w = Some w' \<Longrightarrow> net_step os w w'"
| Step_event: "p \<in> set (tasks_ht w) \<Longrightarrow> run_event os now timed_out p w = Some w' \<Longrightarrow> net_step os w w'"
| Step_answer: "req \<in> set (dns_requests w) \<Longrightarrow> answer_ok type n addresses \<Longrightarrow>
    run_answer os now result type n addresses req w = Some w' \<Longrightarrow> net_step os w w'"

inductive net_reach :: "'o net_os \<Rightarrow> 'o net_world \<Rightarrow> 'o net_world \<Rightarrow> bool" for os w0 where
  Reach_start: "net_reach os w0 w0"
| Reach_step: "net_reach os w0 w \<Longrightarrow> net_step os w w' \<Longrightarrow> net_reach os w0 w'"

lemma settlesD: "settles extR extV (Some w') \<Longrightarrow> net_inv {} extR extV w' \<and> idle w'"
  by (simp add: settles_def)

lemma settles_not_None: "settles extR extV r \<Longrightarrow> r \<noteq> None"
  by (auto simp: settles_def)

lemma net_step_inv:
  assumes "net_step os w w'" "net_inv {} extR extV w" "idle w"
  shows "\<exists>L. net_inv {} (extR + L) extV w' \<and> idle w'"
  using assms(1)
proof cases
  case (Step_call c now)
  then show ?thesis using network_call_settles [OF assms(2,3), of c os now] by (auto dest!: settlesD intro!: exI [of _ "{#}"])
next
  case (Step_event p now timed_out)
  then show ?thesis using run_event_settles [OF assms(2,3), of p os now timed_out] by (auto dest!: settlesD)
next
  case (Step_answer req type n addresses now result)
  then show ?thesis using run_answer_settles [OF assms(2,3) Step_answer(1,2), of os now result]
    by (auto dest!: settlesD intro!: exI [of _ "{#}"])
qed

lemma net_reach_inv:
  "net_reach os w0 w \<Longrightarrow> net_inv {} extR extV w0 \<Longrightarrow> idle w0 \<Longrightarrow> \<exists>L. net_inv {} (extR + L) extV w \<and> idle w"
proof (induction rule: net_reach.induct)
  case Reach_start
  then show ?case by (intro exI [of _ "{#}"]) simp
next
  case (Reach_step w w')
  from Reach_step.IH [OF Reach_step.prems] obtain L where "net_inv {} (extR + L) extV w" "idle w" by blast
  from net_step_inv [OF Reach_step.hyps(2) this] show ?case by (auto simp: add.assoc)
qed


section \<open>A sample\<close>

text \<open>
  A system for evaluation, whose state is the log of the addresses that were connected to and the
  bytes that arrive: connections are in progress at first, names are looked up elsewhere.
\<close>

record sample_net =
  sn_connects :: "(int \<times> u8 list) list"
  sn_answers :: "int list"

definition sample_os :: "sample_net net_os" where
  "sample_os = \<lparr>nos_socket = \<lambda>_ s. (7, s), nos_bind = \<lambda>_ _ _ s. (0, s),
     nos_connect = \<lambda>fd a s. (- 1, s\<lparr>sn_connects := sn_connects s @ [(fd, a)]\<rparr>), nos_nonblock = \<lambda>_ s. s,
     nos_getsockname = \<lambda>_ d s. ((0, d, 16), s), nos_getpeername = \<lambda>_ d s. ((0, d, 16), s),
     nos_recv = \<lambda>_ _ _ s. (case sn_answers s of [] \<Rightarrow> (0, s) | a # as \<Rightarrow> (a, s\<lparr>sn_answers := as\<rparr>)),
     nos_send = \<lambda>_ _ n s. (n, s), nos_recvfrom = \<lambda>_ _ _ d s. ((1, d, 16), s),
     nos_sendto = \<lambda>_ _ n _ _ s. (n, s), nos_resolve_ipv4 = \<lambda>_ s. (True, s), nos_errno = \<lambda>_. EINPROGRESS\<rparr>"

definition socket_entry :: "pp_tcp_socket_s \<Rightarrow> pp_resource_s" where
  "socket_entry ts = \<lparr>r_resource_type = PP_RESOURCE_TCP_SOCKET, r_ref_cnt = 1, r_instance = Some 10, r_self_id = 1,
     r_locked = False, r_payload = PL_tcp_socket ts\<rparr>"

definition loop_entry :: "message_loop_task_s list \<Rightarrow> pp_resource_s" where
  "loop_entry q = \<lparr>r_resource_type = PP_RESOURCE_MESSAGE_LOOP, r_ref_cnt = 1, r_instance = Some 10, r_self_id = 2,
     r_locked = False, r_payload = PL_message_loop \<lparr>ml_async_q = q, ml_int_q = [], ml_running = False,
       ml_teardown = False, ml_depth = 0\<rparr>\<rparr>"

definition sample_socket :: pp_tcp_socket_s where
  "sample_socket = \<lparr>ts_sock = 7, ts_is_connected = True, ts_destroyed = False, ts_seen_eof = False\<rparr>"

definition net_start :: "int list \<Rightarrow> sample_net net_world" where
  "net_start as = \<lparr>var_ht = [], var_id = 1, np_released = [], np_retained = [],
     res_tbl = [(1, socket_entry sample_socket), (2, loop_entry [])], res_tbl_next = 3,
     destructors_ht = [PP_RESOURCE_TCP_SOCKET, PP_RESOURCE_MESSAGE_LOOP, PP_RESOURCE_NET_ADDRESS, PP_RESOURCE_UDP_SOCKET],
     closed_fds = [], net_tasks = [], tasks_ht = [], next_task = 1,
     pp_to_np_ht = [(10, sample_instance)], npobj_to_npp_ht = [], next_instance_id = 11,
     main_thread_message_loop = 0, browser_thread_message_loop = 0, this_thread_message_loop = 2,
     thread_is_not_suitable_for_message_loop = False, dns_requests = [],
     sys = \<lparr>sn_connects = [], sn_answers = as\<rparr>\<rparr>"

lemma net_start_inv: "net_inv {} {#1, 2#} {#} (net_start as)" "idle (net_start as)"
proof -
  let ?w = "net_start as"
  have "balanced r_ref_cnt res_kids {#1, 2#} (res_tbl ?w)"
    by (rule balancedI) (auto simp: net_start_def socket_entry_def loop_entry_def ht_ok_def rc_at_def res_kids_def split: if_splits)
  moreover have "var_inv ({#} + held res_vars (res_tbl ?w)) ?w"
    by (simp add: var_inv_def net_start_def socket_entry_def loop_entry_def res_vars_def entries_ok_def)
      (rule balancedI; simp add: ht_ok_def rc_at_def)
  moreover have "res_entries_ok ?w"
    by (auto simp: res_entries_ok_def res_entry_ok_def net_start_def socket_entry_def loop_entry_def split: if_splits)
  moreover have "net_ok {} ?w" by (simp add: net_ok_def net_start_def ht_ok_def)
  ultimately show "net_inv {} {#1, 2#} {#} ?w"
    by (simp add: net_inv_def world_inv_def task_refs_def net_start_def)
  show "idle ?w" by (auto simp: idle_def net_start_def socket_entry_def loop_entry_def split: if_splits)
qed

abbreviation (input) sample_ccb :: "ptr \<Rightarrow> PP_CompletionCallback" where
  "sample_ccb f \<equiv> \<lparr>ccb_func = f, ccb_user_data = 0, ccb_flags = 0\<rparr>"

abbreviation (input) sample_now :: timespec where
  "sample_now \<equiv> \<lparr>tv_sec = 5, tv_nsec = 0\<rparr>"

lemmas net_run = network_call.simps ppb_tcp_socket_connect_def ppb_tcp_socket_disconnect_def ppb_tcp_socket_read_def
  ppb_tcp_socket_destroy_def network_request_def
  with_resource_def pp_resource_acquire_def acquire_attempt_def pp_resource_release_def pp_resource_unref_def
  pp_resource_unlock_def res_write_def async_network_task_create_def task_write_def async_network_task_push_def
  handle_tcp_connect_stage1_def resolve_request_def handle_tcp_read_stage1_def handle_tcp_write_stage1_def
  ppb_tcp_socket_write_def wait_for_socket_def res_read_def add_event_mapping_def push_disconnect_def disconnect_task_def
  handle_disconnect_stage1_def ppb_message_loop_get_current_def sys_call_def sample_os_def request_task_def zero_task_def
  net_start_def socket_entry_def loop_entry_def sample_socket_def Let_def


section \<open>Callbacks\<close>

lemma idle_calm: "world_inv extR extV w \<Longrightarrow> idle w \<Longrightarrow> calm 0 w"
  unfolding calm_def idle_def by (meson world_inv_available(2) world_inv_count)

lemma loop_destroy [simp]:
  "takes_tasks m (task_destroy p w) = takes_tasks m w" "queue_of m (task_destroy p w) = queue_of m w"
  by (simp_all add: takes_tasks_def queue_of_def loop_of_def task_destroy_def)

lemma finish_posts:
  assumes inv: "net_inv C extR extV w" "idle w" and m: "takes_tasks m w" "queue_of m w = Some q"
    and t: "at_callback_ml t = m" "ccb_func (at_callback t) \<noteq> 0"
    and fin: "finish now p t result w = Some w'"
  shows "takes_tasks m w' \<and> queue_of m w' = Some (q @ [posted now (at_callback t) result])"
proof -
  have "m \<noteq> 0" using m(1) world_inv_entry [OF net_invD(1) [OF inv(1)], of 0]
    by (auto simp: takes_tasks_def res_entry_ok_def)
  from post_calm [OF idle_calm [OF net_invD(1) [OF inv(1)] inv(2)] this m t(2), of now result] obtain w1 where
    "ppb_message_loop_post_work_with_result now m (at_callback t) 0 result 0 w = Some (PP_OK, w1)"
    "takes_tasks m w1" "queue_of m w1 = Some (q @ [posted now (at_callback t) result])" by blast
  then show ?thesis using fin t(1) by (auto simp: finish_def post_result_def)
qed

lemma abort_posts:
  assumes "net_inv {p} extR extV w" "idle w" "distinct qs" "set qs \<subseteq> set (tasks_ht w)"
    and "takes_tasks m w" "queue_of m w = Some q0" and "abort_tasks now p r qs w = Some w'"
    and "\<And>q t. q \<in> set (aborted p r qs w) \<Longrightarrow> ht_lookup (net_tasks w) q = Some t \<Longrightarrow>
      at_callback_ml t = m \<and> ccb_func (at_callback t) \<noteq> 0"
  shows "queue_of m w' = Some (q0 @ map (\<lambda>q. posted now (at_callback (the (ht_lookup (net_tasks w) q))) PP_ERROR_ABORTED)
    (aborted p r qs w))"
  using assms
proof (induction qs arbitrary: extR w q0)
  case Nil
  then show ?case by (simp add: aborted_def)
next
  case (Cons q qs)
  note inv = Cons.prems(1)
  obtain cur where cur: "ht_lookup (net_tasks w) q = Some cur"
    using task_there [OF net_invD(2) [OF inv], of q] Cons.prems(4) by auto
  show ?case
  proof (cases "q \<noteq> p \<and> at_resource cur = r")
    case False
    then have "aborted p r (q # qs) w = aborted p r qs w" using cur by (auto simp: aborted_def)
    then show ?thesis using Cons.IH [OF inv Cons.prems(2)] Cons.prems(3-) cur False by auto
  next
    case True
    have ab: "aborted p r (q # qs) w = q # aborted p r qs w" using True cur by (simp add: aborted_def)
    have q: "q \<in> set (tasks_ht w)" "q \<notin> {p}" using Cons.prems(4) True by simp_all
    note hold = net_inv_hold(1) [OF inv q cur]
    from finish_ok [OF hold Cons.prems(2), of q now cur PP_ERROR_ABORTED] obtain w1 w2 where
      w2: "finish now q cur PP_ERROR_ABORTED w = Some w2" "net_inv (insert q {p} - {q}) (extR + mset (task_ref cur)) extV w2"
      "idle w2" "loops_only w1 w" "w2 = task_destroy q w1" by auto
    note f = net_frame_finish [OF w2(4,5)]
    have inv2: "net_inv {p} (extR + mset (task_ref cur)) extV w2" using w2(2) True by (simp add: insert_Diff_if)
    have cc: "at_callback_ml cur = m" "ccb_func (at_callback cur) \<noteq> 0" using Cons.prems(8) [of q cur] cur ab by simp_all
    note fp = finish_posts [OF hold Cons.prems(2,5,6) cc w2(1)]
    have sub: "distinct qs" "set qs \<subseteq> set (tasks_ht w2)" "q \<notin> set qs" using Cons.prems(3,4) f(2) by auto
    have look: "ht_lookup (net_tasks w2) k = (if k = q then None else ht_lookup (net_tasks w) k)" for k by (simp add: f(1))
    have same: "aborted p r qs w2 = aborted p r qs w" using sub(3) by (auto simp: aborted_def look intro!: filter_cong)
    have run: "abort_tasks now p r qs w2 = Some w'" using Cons.prems(7) cur True w2(1) by simp
    have nq: "k \<noteq> q" if "k \<in> set (aborted p r qs w)" for k using that sub(3) by (auto simp: aborted_def)
    have "queue_of m w' = Some ((q0 @ [posted now (at_callback cur) PP_ERROR_ABORTED]) @
      map (\<lambda>q. posted now (at_callback (the (ht_lookup (net_tasks w2) q))) PP_ERROR_ABORTED) (aborted p r qs w2))"
    proof (rule Cons.IH [OF inv2 w2(3) sub(1,2) _ _ run])
      fix k t assume "k \<in> set (aborted p r qs w2)" "ht_lookup (net_tasks w2) k = Some t"
      then show "at_callback_ml t = m \<and> ccb_func (at_callback t) \<noteq> 0"
        using Cons.prems(8) [of k t] ab same look [of k] nq [of k] by auto
    qed (use fp in simp_all)
    then show ?thesis unfolding same ab using cur nq by (simp add: look cong: map_cong)
  qed
qed

text \<open>C8: A disconnection answers every other request on the socket that waits for an event exactly
  once with \<open>PP_ERROR_ABORTED\<close>, in the order in which the table of tasks is traversed, whatever it is;
  it closes the socket once and leaves the requests on other sockets, and those that wait for a name,
  as they are.\<close>

theorem disconnect_aborts_requests:
  assumes inv: "net_inv {} extR extV w" "idle w" and p: "p \<in> set (tasks_ht w)" "ht_lookup (net_tasks w) p = Some task"
    and ev: "at_event task = Some (s, Handle_disconnect_stage2)"
    and A: "A = aborted p (at_resource task) (tasks_ht w) w"
    and cbs: "\<And>q t. q \<in> set A \<Longrightarrow> ht_lookup (net_tasks w) q = Some t \<Longrightarrow>
      at_callback_ml t = m \<and> ccb_func (at_callback t) \<noteq> 0"
    and m: "takes_tasks m w" "queue_of m w = Some q0"
  shows "\<exists>w' qs. run_event os now timed_out p w = Some w' \<and> mset qs = mset A \<and>
    queue_of m w' = Some (q0 @ map (\<lambda>q. posted now (at_callback (the (ht_lookup (net_tasks w) q))) PP_ERROR_ABORTED) qs) \<and>
    closed_fds w' = at_sock task # closed_fds w \<and> dns_requests w' = dns_requests w \<and>
    (\<forall>q. ht_lookup (net_tasks w') q = (if q = p \<or> q \<in> set A then None else ht_lookup (net_tasks w) q))"
proof -
  note hold = net_inv_hold [OF inv(1) p(1) _ p(2)]
  have inv0: "net_inv {p} (extR + mset (task_ref task)) extV w" using hold(1) by simp
  from disconnect_stage2_settles [OF inv0 inv(2) p(2), of now] obtain w' where
    w': "handle_disconnect_stage2 now p w = Some w'" "closed_fds w' = at_sock task # closed_fds w"
    "res_state.more w' = res_state.more w"
    "\<forall>q. ht_lookup (net_tasks w') q = (if q = p \<or> q \<in> set A then None else ht_lookup (net_tasks w) q)"
    unfolding A by blast
  from w'(1) p(2) obtain w1 where w1: "abort_tasks now p (at_resource task) (tasks_ht w) w = Some w1"
    "w' = task_destroy p (w1\<lparr>closed_fds := at_sock task # closed_fds w1\<rparr>)"
    by (auto simp: handle_disconnect_stage2_def split: Option.bind_splits)
  have "queue_of m w1 = Some (q0 @ map (\<lambda>q. posted now (at_callback (the (ht_lookup (net_tasks w) q))) PP_ERROR_ABORTED) A)"
    unfolding A using cbs [unfolded A]
    by (intro abort_posts [OF inv0 inv(2) net_okD(2) [OF net_invD(2) [OF inv0]] subset_refl m w1(1)]) simp_all
  then have "queue_of m w' = Some (q0 @ map (\<lambda>q. posted now (at_callback (the (ht_lookup (net_tasks w) q))) PP_ERROR_ABORTED) A)"
    by (simp add: w1(2) queue_of_def loop_of_def task_destroy_def)
  moreover have "dns_requests w' = dns_requests w" using w'(3) by (cases w; cases w') simp
  moreover have "run_event os now timed_out p w = Some w'" using p(2) ev w'(1) by (simp add: run_event_def)
  ultimately show ?thesis using w'(2,4) by blast
qed

text \<open>Several calls in a row.\<close>

fun net_calls :: "'o net_os \<Rightarrow> timespec \<Rightarrow> net_call list \<Rightarrow> 'o net_world \<Rightarrow> 'o net_world option" where
  "net_calls os now [] w = Some w"
| "net_calls os now (c # cs) w = (case network_call os now c w of None \<Rightarrow> None | Some w \<Rightarrow> net_calls os now cs w)"

lemma net_calls_reach:
  "net_calls os now cs w = Some w' \<Longrightarrow> \<forall>c\<in>set cs. call_ok c \<Longrightarrow> net_reach os w0 w \<Longrightarrow> net_reach os w0 w'"
  by (induction os now cs w rule: net_calls.induct) (auto split: option.splits intro: Reach_step Step_call)

lemma net_calls_settle:
  "net_inv {} extR extV w \<Longrightarrow> idle w \<Longrightarrow> \<forall>c\<in>set cs. call_ok c \<Longrightarrow>
    \<exists>w'. net_calls os now cs w = Some w' \<and> net_inv {} extR extV w' \<and> idle w'"
proof (induction os now cs w rule: net_calls.induct)
  case (2 os now c cs w)
  from network_call_settles [OF 2(2,3), of c os now] 2(4) obtain w1 where
    "network_call os now c w = Some w1" "net_inv {} extR extV w1" "idle w1" by (auto simp: settles_def)
  with 2 show ?case by auto
qed simp

theorem disconnect_aborts_requests_witness:
  "\<exists>w w' qs. net_calls sample_os sample_now
     [Call_tcp_read 1 100 10 (sample_ccb 9), Call_tcp_write 1 200 10 (sample_ccb 11), Call_tcp_disconnect 1]
     (net_start []) = Some w \<and> mset qs = {#1, 2 :: ptr#} \<and>
   run_event sample_os sample_now False 3 w = Some w' \<and> closed_fds w' = [7] \<and>
   queue_of 2 w' = Some (map (\<lambda>q. posted sample_now (sample_ccb (if q = 1 then 9 else 11)) PP_ERROR_ABORTED) qs)"
proof -
  let ?cs = "[Call_tcp_read 1 100 10 (sample_ccb 9), Call_tcp_write 1 200 10 (sample_ccb 11), Call_tcp_disconnect 1]"
  from net_calls_settle [OF net_start_inv, of ?cs sample_os sample_now] obtain w where
    w: "net_calls sample_os sample_now ?cs (net_start []) = Some w" "net_inv {} {#1, 2#} {#} w" "idle w" by auto
  define task where "task = the (ht_lookup (net_tasks w) 3)"
  have eval: "3 \<in> set (tasks_ht w)" "ht_lookup (net_tasks w) 3 = Some task"
    "\<exists>s. at_event task = Some (s, Handle_disconnect_stage2)" "aborted 3 (at_resource task) (tasks_ht w) w = [1, 2]"
    "at_callback (the (ht_lookup (net_tasks w) 1)) = sample_ccb 9" "at_callback (the (ht_lookup (net_tasks w) 2)) = sample_ccb 11"
    "at_callback_ml (the (ht_lookup (net_tasks w) 1)) = 2" "at_callback_ml (the (ht_lookup (net_tasks w) 2)) = 2"
    "takes_tasks 2 w" "queue_of 2 w = Some []" "at_sock task = 7" "closed_fds w = []"
    using w(1) unfolding task_def by (auto simp: net_run queue_of_def takes_tasks_def loop_of_def aborted_def numeral_2_eq_2 numeral_3_eq_3)
  from eval(3) obtain s where ev: "at_event task = Some (s, Handle_disconnect_stage2)" by blast
  have cbs: "at_callback_ml t = 2 \<and> ccb_func (at_callback t) \<noteq> 0"
    if "q \<in> set [1, 2]" "ht_lookup (net_tasks w) q = Some t" for q t
    using that eval(5-8) by auto
  have "\<exists>w' qs. run_event sample_os sample_now False 3 w = Some w' \<and> mset qs = mset [1, 2] \<and>
    queue_of 2 w' = Some ([] @ map (\<lambda>q. posted sample_now (at_callback (the (ht_lookup (net_tasks w) q))) PP_ERROR_ABORTED) qs) \<and>
    closed_fds w' = at_sock task # closed_fds w \<and> dns_requests w' = dns_requests w \<and>
    (\<forall>q. ht_lookup (net_tasks w') q = (if q = 3 \<or> q \<in> set [1, 2] then None else ht_lookup (net_tasks w) q))"
    by (rule disconnect_aborts_requests [OF w(2,3) eval(1,2) ev eval(4) [symmetric] _ eval(9,10)]) (rule cbs)
  then obtain w' qs where r: "run_event sample_os sample_now False 3 w = Some w'" "mset qs = {#1, 2#}" "closed_fds w' = [7]"
    "queue_of 2 w' = Some (map (\<lambda>q. posted sample_now (at_callback (the (ht_lookup (net_tasks w) q))) PP_ERROR_ABORTED) qs)"
    unfolding eval(11,12) by auto
  have "set qs = {1, 2}" using r(2) by (metis set_mset_mset set_mset_add_mset_insert set_mset_empty)
  then have "map (\<lambda>q. posted sample_now (at_callback (the (ht_lookup (net_tasks w) q))) PP_ERROR_ABORTED) qs =
    map (\<lambda>q. posted sample_now (sample_ccb (if q = 1 then 9 else 11)) PP_ERROR_ABORTED) qs"
    using eval(5,6) by (intro map_cong) auto
  from r(4) [unfolded this] have "run_event sample_os sample_now False 3 w = Some w' \<and> closed_fds w' = [7] \<and>
    queue_of 2 w' = Some (map (\<lambda>q. posted sample_now (sample_ccb (if q = 1 then 9 else 11)) PP_ERROR_ABORTED) qs)"
    using r(1,3) by (intro conjI)
  with w(1) r(2) show ?thesis by blast
qed

end
