(* ===== verification/Small_Resources.thy ===== *)
theory Small_Resources
  imports Posting Flash_File Message_Loop_Laws
begin

text \<open>
  Resources with few operations: open files (\<^verbatim>\<open>ppb_file_io.c\<close>), references to devices
  (\<^verbatim>\<open>ppb_device_ref.c\<close>), the nested loops of Flash (\<^verbatim>\<open>ppb_flash_message_loop.c\<close>) and network
  monitors (\<^verbatim>\<open>ppb_network_monitor.c\<close>). Their destructors are those of \<^verbatim>\<open>Resource\<close>.
\<close>

section \<open>Files\<close>

fun the_file_io :: "payload \<Rightarrow> pp_file_io_s option" where
  "the_file_io (PL_file_io fio) = Some fio"
| "the_file_io _ = None"

fun the_file_ref :: "payload \<Rightarrow> pp_file_ref_s option" where
  "the_file_ref (PL_file_ref fr) = Some fr"
| "the_file_ref _ = None"

definition ppb_file_io_create :: "PP_Instance \<Rightarrow> 'a world_scheme \<Rightarrow> (PP_Resource \<times> 'a world_scheme) option" where
  "ppb_file_io_create instance w = create_resource instance PP_RESOURCE_FILE_IO (PL_file_io \<lparr>fio_fd = - 1\<rparr>) w"

definition ppb_file_io_is_file_io :: "PP_Resource \<Rightarrow> 'a res_state_scheme \<Rightarrow> bool" where
  "ppb_file_io_is_file_io resource w \<longleftrightarrow> pp_resource_get_type resource w = PP_RESOURCE_FILE_IO"

text \<open>The handle is written for the caller; the callback is posted and success answered as well.\<close>

definition ppb_file_io_request_os_file_handle ::
  "timespec \<Rightarrow> PP_Resource \<Rightarrow> PP_CompletionCallback \<Rightarrow> 'a world_scheme \<Rightarrow>
   ((int \<times> int option) \<times> 'a world_scheme) option" where
  "ppb_file_io_request_os_file_handle now file_io callback w =
     with_resource file_io PP_RESOURCE_FILE_IO (PP_ERROR_BADRESOURCE, None)
       (\<lambda>gr w. do {
          fio \<leftarrow> the_file_io (r_payload gr);
          (_, w) \<leftarrow> ppb_message_loop_post_work_with_result now (ppb_message_loop_get_current w) callback 0 PP_OK 0 w;
          Some ((PP_OK, Some (fio_fd fio)), w)
        }) w"

text \<open>Opening duplicates the descriptor of a file reference and goes to the start of the file.\<close>

record 'o dup_os = "'o os" +
  os_dup :: "int \<Rightarrow> 'o \<Rightarrow> int \<times> 'o"

definition ppb_file_io_open ::
  "'o dup_os \<Rightarrow> timespec \<Rightarrow> PP_Resource \<Rightarrow> PP_Resource \<Rightarrow> PP_CompletionCallback \<Rightarrow> 'a world_scheme \<Rightarrow> 'o \<Rightarrow>
   ((int \<times> 'o) \<times> 'a world_scheme) option" where
  "ppb_file_io_open os now file_io file_ref callback w s = do {
     (gr, w) \<leftarrow> pp_resource_acquire file_io PP_RESOURCE_FILE_IO w;
     (case gr of
        None \<Rightarrow> Some ((PP_ERROR_BADRESOURCE, s), w)
      | Some fio_r \<Rightarrow> do {
          (gr, w) \<leftarrow> pp_resource_acquire file_ref PP_RESOURCE_FILE_REF w;
          (case gr of
             None \<Rightarrow> do { w \<leftarrow> pp_resource_release file_io w; Some ((PP_ERROR_BADRESOURCE, s), w) }
           | Some fr_r \<Rightarrow> do {
               fr \<leftarrow> the_file_ref (r_payload fr_r);
               ((retval, s), w) \<leftarrow>
                 (if fr_type fr = PP_FILE_REF_TYPE_FD then
                    (case os_dup os (fr_fd fr) s of
                       (fd, s) \<Rightarrow>
                         let w = res_write file_io (PL_file_io \<lparr>fio_fd = fd\<rparr>) w in
                         if 0 \<le> fd then
                           (case os_lseek os fd 0 s of
                              (False, s) \<Rightarrow> Some ((PP_ERROR_FAILED, s), w)
                            | (True, s) \<Rightarrow> do {
                                (_, w) \<leftarrow> ppb_message_loop_post_work_with_result now
                                  (ppb_message_loop_get_current w) callback 0 PP_OK 0 w;
                                Some ((PP_OK_COMPLETIONPENDING, s), w)
                              })
                         else Some ((PP_ERROR_FAILED, s), w))
                  else Some ((PP_ERROR_FAILED, s), w));
               w \<leftarrow> pp_resource_release file_io w;
               w \<leftarrow> pp_resource_release file_ref w;
               Some ((retval, s), w)
             })
        })
   }"

text \<open>Not implemented by the code: these do nothing and answer success.\<close>

definition ppb_file_io_query :: "PP_Resource \<Rightarrow> int" where
  "ppb_file_io_query file_io = PP_OK"

definition ppb_file_io_touch :: "PP_Resource \<Rightarrow> int" where
  "ppb_file_io_touch file_io = PP_OK"

definition ppb_file_io_read :: "PP_Resource \<Rightarrow> int" where
  "ppb_file_io_read file_io = PP_OK"

definition ppb_file_io_write :: "PP_Resource \<Rightarrow> int" where
  "ppb_file_io_write file_io = PP_OK"

definition ppb_file_io_set_length :: "PP_Resource \<Rightarrow> int" where
  "ppb_file_io_set_length file_io = PP_OK"

definition ppb_file_io_flush :: "PP_Resource \<Rightarrow> int" where
  "ppb_file_io_flush file_io = PP_OK"

definition ppb_file_io_close :: "PP_Resource \<Rightarrow> 'a res_state_scheme \<Rightarrow> 'a res_state_scheme" where
  "ppb_file_io_close file_io w = w"

definition ppb_file_io_read_to_array :: "PP_Resource \<Rightarrow> int" where
  "ppb_file_io_read_to_array file_io = PP_OK"

section \<open>Devices\<close>

abbreviation (input) PP_DEVICETYPE_DEV_INVALID :: int where "PP_DEVICETYPE_DEV_INVALID \<equiv> 0"

fun the_device_ref :: "payload \<Rightarrow> pp_device_ref_s option" where
  "the_device_ref (PL_device_ref dr) = Some dr"
| "the_device_ref _ = None"

definition ppb_device_ref_create ::
  "PP_Instance \<Rightarrow> PP_Var \<Rightarrow> PP_Var \<Rightarrow> int \<Rightarrow> 'a world_scheme \<Rightarrow> (PP_Resource \<times> 'a world_scheme) option" where
  "ppb_device_ref_create instance name longname type w =
     (case tables_get_pp_instance instance w of
        None \<Rightarrow> Some (0, w)
      | Some pp_i \<Rightarrow> do {
          (device_ref, w) \<leftarrow> pp_resource_allocate PP_RESOURCE_DEVICE_REF (Some (pi_id pp_i)) w;
          with_resource device_ref PP_RESOURCE_DEVICE_REF 0
            (\<lambda>_ w. case ppb_var_add_ref2 name w of (name, w) \<Rightarrow>
               (case ppb_var_add_ref2 longname w of (longname, w) \<Rightarrow>
                  Some (device_ref, res_write device_ref
                    (PL_device_ref \<lparr>dr_name = name, dr_longname = longname, dr_type = type\<rparr>) w))) w
        })"

definition ppb_device_ref_is_device_ref :: "PP_Resource \<Rightarrow> 'a res_state_scheme \<Rightarrow> bool" where
  "ppb_device_ref_is_device_ref resource w \<longleftrightarrow> pp_resource_get_type resource w = PP_RESOURCE_DEVICE_REF"

definition ppb_device_ref_get_type :: "PP_Resource \<Rightarrow> 'a res_state_scheme \<Rightarrow> (int \<times> 'a res_state_scheme) option" where
  "ppb_device_ref_get_type device_ref w =
     res_read device_ref PP_RESOURCE_DEVICE_REF PP_DEVICETYPE_DEV_INVALID (map_option dr_type \<circ> the_device_ref) w"

text \<open>A variable of the structure, with a reference for the caller.\<close>

definition device_var ::
  "(pp_device_ref_s \<Rightarrow> PP_Var) \<Rightarrow> PP_Resource \<Rightarrow> 'a res_state_scheme \<Rightarrow> (PP_Var \<times> 'a res_state_scheme) option" where
  "device_var f device_ref w =
     with_resource device_ref PP_RESOURCE_DEVICE_REF VUndefined
       (\<lambda>gr w. do { dr \<leftarrow> the_device_ref (r_payload gr); Some (ppb_var_add_ref2 (f dr) w) }) w"

definition ppb_device_ref_get_name :: "PP_Resource \<Rightarrow> 'a res_state_scheme \<Rightarrow> (PP_Var \<times> 'a res_state_scheme) option" where
  "ppb_device_ref_get_name = device_var dr_name"

definition ppb_device_ref_get_longname :: "PP_Resource \<Rightarrow> 'a res_state_scheme \<Rightarrow> (PP_Var \<times> 'a res_state_scheme) option" where
  "ppb_device_ref_get_longname = device_var dr_longname"

section \<open>Nested loops\<close>

fun the_flash_loop :: "payload \<Rightarrow> pp_flash_message_loop_s option" where
  "the_flash_loop (PL_flash_message_loop fml) = Some fml"
| "the_flash_loop _ = None"

definition ppb_flash_message_loop_create ::
  "PP_Instance \<Rightarrow> 'a world_scheme \<Rightarrow> (PP_Resource \<times> 'a world_scheme) option" where
  "ppb_flash_message_loop_create instance w =
     (case tables_get_pp_instance instance w of
        None \<Rightarrow> Some (0, w)
      | Some pp_i \<Rightarrow> pp_resource_allocate PP_RESOURCE_FLASH_MESSAGE_LOOP (Some (pi_id pp_i)) w)"

definition ppb_flash_message_loop_is_flash_message_loop :: "PP_Resource \<Rightarrow> 'a res_state_scheme \<Rightarrow> bool" where
  "ppb_flash_message_loop_is_flash_message_loop resource w \<longleftrightarrow>
     pp_resource_get_type resource w = PP_RESOURCE_FLASH_MESSAGE_LOOP"

text \<open>
  The loop runs the tasks of all depths, so that those that wait already are not held up. A
  reference of its own keeps the structure alive meanwhile.
\<close>

definition ppb_flash_message_loop_begin ::
  "PP_Resource \<Rightarrow> 'a world_scheme \<Rightarrow> (PP_Resource option \<times> 'a world_scheme) option" where
  "ppb_flash_message_loop_begin flash_message_loop w =
     with_resource flash_message_loop PP_RESOURCE_FLASH_MESSAGE_LOOP None
       (\<lambda>gr w. do {
          _ \<leftarrow> the_flash_loop (r_payload gr);
          let message_loop = ppb_message_loop_get_current w;
          (depth, w) \<leftarrow> ppb_message_loop_get_depth message_loop w;
          let w = res_write flash_message_loop (PL_flash_message_loop
            \<lparr>fml_running = True, fml_message_loop = message_loop, fml_depth = depth + 1\<rparr>) w;
          Some (Some message_loop, snd (pp_resource_ref flash_message_loop w))
        }) w"

definition ppb_flash_message_loop_end :: "PP_Resource \<Rightarrow> 'a world_scheme \<Rightarrow> (int \<times> 'a world_scheme) option" where
  "ppb_flash_message_loop_end flash_message_loop w = do {
     (_, w) \<leftarrow> res_update flash_message_loop PP_RESOURCE_FLASH_MESSAGE_LOOP ()
       (\<lambda>p. map_option (\<lambda>fml. ((), PL_flash_message_loop (fml\<lparr>fml_running := False\<rparr>))) (the_flash_loop p)) w;
     w \<leftarrow> pp_resource_unref flash_message_loop w;
     Some (PP_OK, w)
   }"

definition ppb_flash_message_loop_run ::
  "'a world_scheme callbacks \<Rightarrow> 'a world_scheme tick list \<Rightarrow> PP_Resource \<Rightarrow> 'a world_scheme \<Rightarrow>
   'a world_scheme run_result option" where
  "ppb_flash_message_loop_run cb tks flash_message_loop w = do {
     (message_loop, w) \<leftarrow> ppb_flash_message_loop_begin flash_message_loop w;
     (case message_loop of
        None \<Rightarrow> Some (Returned PP_ERROR_BADRESOURCE w)
      | Some message_loop \<Rightarrow> do {
          x \<leftarrow> ppb_message_loop_run_int cb tks message_loop
            \<lparr>ML_NESTED = True, ML_INCREASE_DEPTH = False, ML_EXIT_ON_EMPTY = False\<rparr> w;
          (case x of
             Running w \<Rightarrow> Some (Running w)
           | Returned _ w \<Rightarrow> do {
               (r, w) \<leftarrow> ppb_flash_message_loop_end flash_message_loop w;
               Some (Returned r w)
             })
        })
   }"

definition ppb_flash_message_loop_quit ::
  "timespec \<Rightarrow> PP_Resource \<Rightarrow> 'a world_scheme \<Rightarrow> (unit \<times> 'a world_scheme) option" where
  "ppb_flash_message_loop_quit now flash_message_loop w =
     with_resource flash_message_loop PP_RESOURCE_FLASH_MESSAGE_LOOP ()
       (\<lambda>gr w. do {
          fml \<leftarrow> the_flash_loop (r_payload gr);
          if fml_running fml then do {
            (_, w) \<leftarrow> ppb_message_loop_post_quit_depth now (fml_message_loop fml) False (fml_depth fml) w;
            Some ((), w)
          }
          else Some ((), w)
        }) w"

section \<open>Network monitors\<close>

definition ppb_network_monitor_create ::
  "PP_Instance \<Rightarrow> 'a world_scheme \<Rightarrow> (PP_Resource \<times> 'a world_scheme) option" where
  "ppb_network_monitor_create instance w =
     (case tables_get_pp_instance instance w of
        None \<Rightarrow> Some (0, w)
      | Some pp_i \<Rightarrow> pp_resource_allocate PP_RESOURCE_NETWORK_MONITOR (Some (pi_id pp_i)) w)"

definition ppb_network_monitor_update_network_list :: "PP_Resource \<Rightarrow> int" where
  "ppb_network_monitor_update_network_list network_monitor = PP_ERROR_NOACCESS"

definition ppb_network_monitor_is_network_monitor :: "PP_Resource \<Rightarrow> 'a res_state_scheme \<Rightarrow> bool" where
  "ppb_network_monitor_is_network_monitor resource w \<longleftrightarrow> pp_resource_get_type resource w = PP_RESOURCE_NETWORK_MONITOR"

end
