(* ===== verification/Blocking_Call.thy ===== *)
theory Blocking_Call
  imports Posting Message_Loop_Laws
begin

text \<open>
  How a thread of the plugin calls into the browser, or the browser's thread into the plugin: a
  function is posted to the loop of the calling thread and a nested loop is run at once. The posted
  function hands the work to the other thread; when the work is done, that thread asks the nested
  loop to end. Several files of the program repeat this: \<^verbatim>\<open>n2p_proxy_class.c\<close>,
  \<^verbatim>\<open>p2n_proxy_class.c\<close>, \<^verbatim>\<open>ppb_instance.c\<close> and others.
\<close>

text \<open>
  What is common: the depth the nested loop will run at, the posting of the function, which is to
  run at that depth or at any (\<open>0\<close>), and the nested loop.
\<close>

definition nested_depth :: "PP_Resource \<Rightarrow> 'a world_scheme \<Rightarrow> (int \<times> 'a world_scheme) option" where
  "nested_depth m_loop w = do {
     (depth, w) \<leftarrow> ppb_message_loop_get_depth m_loop w;
     Some (depth + 1, w)
   }"

definition post_and_wait ::
  "'a world_scheme callbacks \<Rightarrow> 'a world_scheme tick list \<Rightarrow> timespec \<Rightarrow> PP_Resource \<Rightarrow> PP_CompletionCallback \<Rightarrow> int \<Rightarrow>
   'a world_scheme \<Rightarrow> 'a world_scheme run_result option" where
  "post_and_wait cb tks now m_loop callback depth w = do {
     (_, w) \<leftarrow> ppb_message_loop_post_work_with_result now m_loop callback 0 PP_OK depth w;
     ppb_message_loop_run_nested cb tks m_loop w
   }"

text \<open>The request that ends a nested loop.\<close>

definition quit_request :: "timespec \<Rightarrow> int \<Rightarrow> message_loop_task_s" where
  "quit_request now depth = \<lparr>mt_when = now, mt_terminate = True, mt_depth = depth, mt_ccb = zero_ccb,
     mt_result_to_pass = PP_OK, mt_should_destroy_ml = False\<rparr>"

text \<open>The loop while it runs nested, with tasks \<open>q\<close> posted to it.\<close>

definition waiting :: "pp_resource_s \<Rightarrow> pp_message_loop_s \<Rightarrow> message_loop_task_s list \<Rightarrow> message_loop_task_s list \<Rightarrow> pp_resource_s" where
  "waiting e ml q t = e\<lparr>r_ref_cnt := r_ref_cnt e + 1, r_payload := PL_message_loop (ml\<lparr>ml_running := True,
     ml_teardown := False, ml_depth := ml_depth ml + 1, ml_async_q := q, ml_int_q := t\<rparr>)\<rparr>"

lemma remove_only [simp]: "g_tree_remove t [t] = []"
  by (rule g_tree_remove_first) simp

lemma turn_moves:
  "ht_lookup (res_tbl w) m = Some (waiting e ml q []) \<Longrightarrow> tk_others tk w = w' \<Longrightarrow>
    ht_lookup (res_tbl w') m = Some (waiting e ml [t] []) \<Longrightarrow> \<not> ML_EXIT_ON_EMPTY flags \<Longrightarrow>
    loop_turn cb m flags d tk \<lparr>lc_teardown = False, lc_destroy_ml = b\<rparr> w =
      Some (Again \<lparr>lc_teardown = False, lc_destroy_ml = b\<rparr> (put_res m (waiting e ml [] [t]) w'))"
  by (auto simp: loop_turn_def loop_of_def waiting_def find_first_task_with_appropriate_depth_def wait_for_task_def
    set_loop_def res_write_def put_res_def)

lemma turn_runs:
  "ordinary d t \<Longrightarrow> task_timeout t (tk_now tk) \<le> 0 \<Longrightarrow> cb (mt_ccb t) (mt_result_to_pass t) (put_res m (waiting e ml [] []) w) = Some w' \<Longrightarrow>
    loop_turn cb m flags d tk l (put_res m (waiting e ml [] [t]) w) = Some (Again l w')"
  by (auto simp: loop_turn_def waiting_def find_first_task_with_appropriate_depth_def ordinary_def Let_def)

lemma turn_ends:
  "1 < d \<Longrightarrow> task_timeout (quit_request now d) (tk_now tk) \<le> 0 \<Longrightarrow>
    loop_turn cb m flags d tk l (put_res m (waiting e ml [] [quit_request now d]) w) =
      Some (Break l (put_res m (waiting e ml [] []) w))"
  by (auto simp: loop_turn_def waiting_def find_first_task_with_appropriate_depth_def quit_request_def
    task_tree_traverse_func_def Let_def)

section \<open>The call returns\<close>

text \<open>
  The thread is inside a loop, as plugin code always is, and nothing else is posted to it. Of the
  turns of the nested loop the first takes up the function, the second runs it, the third waits
  until the browser's thread is done, and the fourth finds the request to end.
\<close>

lemma nested_depth_available:
  "available m PP_RESOURCE_MESSAGE_LOOP w e \<Longrightarrow> r_payload e = PL_message_loop ml \<Longrightarrow>
    nested_depth m w = Some (ml_depth ml + 1, w)"
  by (simp add: nested_depth_def ppb_message_loop_get_depth_def res_read_available)

lemma post_and_wait_returns:
  assumes av: "available m PP_RESOURCE_MESSAGE_LOOP w e" "this_thread_message_loop w = m"
    and ml: "r_payload e = PL_message_loop ml" "ml_async_q ml = []" "ml_int_q ml = []" "\<not> ml_teardown ml" "1 \<le> ml_depth ml"
    and ccb: "ccb_func callback \<noteq> 0" and depth: "depth = 0 \<or> depth = ml_depth ml + 1"
    and tks: "tks = tk1 # tk2 # tk3 # tk4 # rest" "\<And>w. tk_others tk1 w = w"
      "task_timeout (posted now callback PP_OK) (tk_now tk2) \<le> 0" "task_timeout (quit_request later 0) (tk_now tk4) \<le> 0"
    and body: "cb callback PP_OK (put_res m (waiting e ml [] []) w) = Some w2"
      "ht_lookup (res_tbl w2) m = Some (waiting e ml [] [])"
    and other: "tk_others tk3 w2 = w3"
      "ht_lookup (res_tbl w3) m = Some (waiting e ml [quit_request later (ml_depth ml + 1)] [])"
  shows "post_and_wait cb tks now m callback depth w = Some (Returned PP_OK (put_res m e w3))"
proof -
  let ?d = "ml_depth ml + 1"
  let ?t = "(posted now callback PP_OK)\<lparr>mt_depth := depth\<rparr>"
  let ?l = "\<lparr>lc_teardown = False, lc_destroy_ml = False\<rparr>"
  let ?f = "\<lparr>ML_NESTED = True, ML_INCREASE_DEPTH = True, ML_EXIT_ON_EMPTY = False\<rparr>"
  let ?w1 = "put_res m (waiting e ml [?t] []) w"
  have e: "r_resource_type e = PP_RESOURCE_MESSAGE_LOOP" "\<not> r_locked e" "0 < r_ref_cnt e"
    using av(1) by (simp_all add: available_def)
  have post: "ppb_message_loop_post_work_with_result now m callback 0 PP_OK depth w =
      Some (PP_OK, put_res m (e\<lparr>r_payload := PL_message_loop (ml\<lparr>ml_async_q := [?t]\<rparr>)\<rparr>) w)"
    using ccb av ml by (simp add: ppb_message_loop_post_work_with_result_def res_update_available [OF av(1)] push_task_def
      posted_def put_res_def ppb_message_loop_get_for_browser_thread_def)
  have ord: "ordinary ?d ?t" using ccb depth by (auto simp: ordinary_def posted_def task_tree_traverse_func_def)
  have due: "task_timeout ?t (tk_now tk2) \<le> 0" "task_timeout (quit_request later ?d) (tk_now tk4) \<le> 0"
    using tks(3,4) by (simp_all add: task_timeout_def quit_request_def)
  have t1: "loop_turn cb m ?f ?d tk1 ?l ?w1 = Some (Again ?l (put_res m (waiting e ml [] [?t]) ?w1))"
    by (rule turn_moves) (simp_all add: tks(2))
  have t2: "loop_turn cb m ?f ?d tk2 ?l (put_res m (waiting e ml [] [?t]) ?w1) = Some (Again ?l w2)"
    by (rule turn_runs [OF ord due(1)]) (use body(1) in \<open>simp add: posted_def\<close>)
  have t3: "loop_turn cb m ?f ?d tk3 ?l w2 = Some (Again ?l (put_res m (waiting e ml [] [quit_request later ?d]) w3))"
    by (rule turn_moves [OF body(2) other]) simp
  have t4: "loop_turn cb m ?f ?d tk4 ?l (put_res m (waiting e ml [] [quit_request later ?d]) w3) =
      Some (Break ?l (put_res m (waiting e ml [] []) w3))"
    by (rule turn_ends) (use ml(5) due(2) in simp_all)
  have turns: "loop_turns cb m ?f ?d tks ?l ?w1 = Some (Finished ?l (put_res m (waiting e ml [] []) w3))"
    unfolding tks(1) by (simp only: loop_turns.simps t1 t2 t3 t4 option.case turn.case)
  have leave: "leave_loop m ?f (ml_running ml) (ml_teardown ml) ?l (put_res m (waiting e ml [] []) w3) =
      Some (PP_OK, put_res m e w3)"
    using e ml by (cases ml; cases e) (simp add: leave_loop_def waiting_def Let_def)
  have "ppb_message_loop_run_nested cb tks m (put_res m (e\<lparr>r_payload := PL_message_loop (ml\<lparr>ml_async_q := [?t]\<rparr>)\<rparr>) w) =
      do { x \<leftarrow> loop_turns cb m ?f ?d tks ?l ?w1;
        (case x of Still _ w \<Rightarrow> Some (Running w)
         | Finished l w \<Rightarrow> do { (r, w) \<leftarrow> leave_loop m ?f (ml_running ml) (ml_teardown ml) l w; Some (Returned r w) }) }"
    using e av(2) ml by (cases ml; cases e)
      (simp add: ppb_message_loop_run_nested_def ppb_message_loop_run_int_def waiting_def Let_def add.commute)
  then show ?thesis using post turns leave by (simp add: post_and_wait_def)
qed

section \<open>The other side\<close>

text \<open>The browser's thread takes up one task and leaves its loop again.\<close>

lemma activate_runs_one:
  assumes av: "available b PP_RESOURCE_MESSAGE_LOOP w e" "this_thread_message_loop w = b" "browser_thread_message_loop w = b"
    and ml: "r_payload e = PL_message_loop ml" "ml_async_q ml = [t]" "ml_int_q ml = []"
    and t: "ordinary (ml_depth ml + 1) t" and tks: "tks = tk1 # tk2 # rest" "task_timeout t (tk_now tk1) \<le> 0"
    and body: "cb (mt_ccb t) (mt_result_to_pass t) (put_res b (waiting e ml [] []) w) = Some w2"
      "ht_lookup (res_tbl w2) b = Some (waiting e ml [] [])"
  shows "activate_browser_thread_ml_ptac cb tks w =
    Some (Returned PP_OK (put_res b (e\<lparr>r_payload := PL_message_loop (ml\<lparr>ml_async_q := []\<rparr>)\<rparr>) w2))"
proof -
  let ?d = "ml_depth ml + 1"
  let ?l = "\<lparr>lc_teardown = False, lc_destroy_ml = False\<rparr>"
  let ?f = "\<lparr>ML_NESTED = True, ML_INCREASE_DEPTH = True, ML_EXIT_ON_EMPTY = True\<rparr>"
  have w: "w = put_res b e w" and e: "r_resource_type e = PP_RESOURCE_MESSAGE_LOOP" "\<not> r_locked e" "0 < r_ref_cnt e"
    using av(1) by (simp_all add: available_def put_res_same)
  have t1: "loop_turn cb b ?f ?d tk1 ?l (put_res b (waiting e ml [] [t]) w) = Some (Again ?l w2)"
    by (rule turn_runs) (use t tks(2) body(1) in simp_all)
  have t2: "loop_turn cb b ?f ?d tk2 ?l w2 = Some (Break ?l w2)"
    using body(2) by (simp add: loop_turn_def loop_of_def waiting_def find_first_task_with_appropriate_depth_def)
  have turns: "loop_turns cb b ?f ?d tks ?l (put_res b (waiting e ml [] [t]) w) = Some (Finished ?l w2)"
    unfolding tks(1) by (simp only: loop_turns.simps t1 t2 option.case turn.case)
  have w2: "w2 = put_res b (waiting e ml [] []) w2" using body(2) by (simp add: put_res_same)
  have leave: "leave_loop b ?f (ml_running ml) (ml_teardown ml) ?l (put_res b (waiting e ml [] []) w2) =
      Some (PP_OK, put_res b (e\<lparr>r_payload := PL_message_loop (ml\<lparr>ml_async_q := []\<rparr>)\<rparr>) w2)"
    using e ml by (cases ml; cases e) (simp add: leave_loop_def waiting_def Let_def)
  have "activate_browser_thread_ml_ptac cb tks (put_res b e w) =
      do { x \<leftarrow> loop_turns cb b ?f ?d tks ?l (put_res b (waiting e ml [] [t]) w);
        (case x of Still _ w \<Rightarrow> Some (Running w)
         | Finished l w \<Rightarrow> do { (r, w) \<leftarrow> leave_loop b ?f (ml_running ml) (ml_teardown ml) l w; Some (Returned r w) }) }"
    using e av(2,3) ml by (cases ml; cases e)
      (simp add: activate_browser_thread_ml_ptac_def ppb_message_loop_run_int_def ppb_message_loop_get_for_browser_thread_def
        waiting_def pump_def Let_def add.commute)
  then show ?thesis using turns leave w w2 by simp
qed

end
