(* ===== verification/Script_Objects.thy ===== *)
theory Script_Objects
  imports Blocking_Call
begin

text \<open>
  Objects the page and the plugin share. \<^verbatim>\<open>n2p_proxy_class.c\<close> lets the plugin call objects of
  the page: the thread of the plugin waits in a nested loop while the browser's thread does the
  work. \<^verbatim>\<open>p2n_proxy_class.c\<close> is the opposite direction. The parameter blocks the two threads pass
  to each other live in \<open>np_params\<close>, a heap of its own; what a block holds at first is garbage, so
  the results in it are options. \<^verbatim>\<open>ppb_instance.c\<close> and \<^verbatim>\<open>ppb_var.c\<close> do the same for the window
  object, for scripts, and for making and retaining objects of the browser.

  The functions of the browser are parameters (\<open>npn_s\<close>); they see the whole state, so that they may
  call the plugin back.
\<close>

section \<open>The blocks of parameters\<close>

record has_property_param_s =
  hp_name :: PP_Var
  hp_object :: ptr
  hp_result :: "bool option"
  hp_m_loop :: PP_Resource
  hp_depth :: int

record get_property_param_s =
  gp_object :: ptr
  gp_name :: PP_Var
  gp_result :: "PP_Var option"
  gp_m_loop :: PP_Resource
  gp_depth :: int

record call_param_s =
  ca_object :: ptr
  ca_method_name :: PP_Var
  ca_argv :: "PP_Var list" \<comment> \<open>with \<^verbatim>\<open>argc\<close>\<close>
  ca_result :: "PP_Var option"
  ca_m_loop :: PP_Resource
  ca_depth :: int

record construct_param_s =
  co_object :: ptr
  co_argv :: "PP_Var list"
  co_result :: "PP_Var option"
  co_m_loop :: PP_Resource
  co_depth :: int

record deallocate_param_s =
  de_object :: ptr
  de_m_loop :: PP_Resource
  de_depth :: int

record get_window_object_param_s =
  gw_instance :: PP_Instance
  gw_result :: "PP_Var option"
  gw_m_loop :: PP_Resource
  gw_depth :: int

record execute_script_param_s =
  es_script :: PP_Var
  es_result :: "PP_Var option"
  es_instance_id :: PP_Instance
  es_m_loop :: PP_Resource
  es_depth :: int

record create_np_object_param_s =
  cn_res :: ptr
  cn_m_loop :: PP_Resource
  cn_depth :: int

record retain_np_object_param_s =
  rn_np_object :: ptr
  rn_m_loop :: PP_Resource
  rn_depth :: int

text \<open>Those of the other direction; both files have structures of the same names.\<close>

record p2n_has_param_s =
  ph_npobj :: ptr
  ph_name :: "string option"
  ph_m_loop :: PP_Resource
  ph_depth :: int
  ph_result :: "bool option"

record p2n_invoke_param_s =
  pv_npobj :: ptr
  pv_name :: "string option"
  pv_args :: "NPVariant list"
  pv_want_result :: bool \<comment> \<open>whether the pointer \<^verbatim>\<open>np_result\<close> is not NULL, and what it points to\<close>
  pv_np_result :: "NPVariant option"
  pv_result :: "bool option"
  pv_m_loop :: PP_Resource
  pv_depth :: int

record p2n_get_property_param_s =
  pg_npobj :: ptr
  pg_name :: "string option"
  pg_np_result :: "NPVariant option"
  pg_result :: "bool option"
  pg_m_loop :: PP_Resource
  pg_depth :: int

record p2n_enumerate_param_s =
  pe_npobj :: ptr
  pe_values :: "PP_Var list option" \<comment> \<open>with \<^verbatim>\<open>count\<close>\<close>
  pe_result :: "bool option"
  pe_m_loop :: PP_Resource
  pe_depth :: int

text \<open>
  Those of an instance's birth and death (\<^verbatim>\<open>np_functions.c\<close>), with the instance's identifier for the
  pointer to it; \<open>di_left\<close> is the structure once it has left the table.
\<close>

record call_plugin_did_create_param_s =
  dc_m_loop :: PP_Resource
  dc_depth :: int
  dc_pp_i :: PP_Instance

record destroy_instance_param_s =
  di_pp_i :: PP_Instance
  di_left :: "pp_instance_s option"
  di_m_loop :: PP_Resource
  di_depth :: int

datatype np_param =
    P_has_property has_property_param_s | P_get_property get_property_param_s | P_call call_param_s
  | P_construct construct_param_s | P_deallocate deallocate_param_s
  | P_get_window_object get_window_object_param_s | P_execute_script execute_script_param_s
  | P_create_np_object create_np_object_param_s | P_retain_np_object retain_np_object_param_s
  | P_p2n_has p2n_has_param_s | P_p2n_invoke p2n_invoke_param_s
  | P_p2n_get_property p2n_get_property_param_s | P_p2n_enumerate p2n_enumerate_param_s
  | P_did_create call_plugin_did_create_param_s | P_destroy_instance destroy_instance_param_s

text \<open>The functions that are run on the browser's thread, and those that are posted to loops.\<close>

datatype ptac =
    N2p_has_property_ptac | N2p_get_property_ptac | N2p_call_ptac | N2p_construct_ptac | N2p_deallocate_ptac
  | Get_window_object_ptac | Execute_script_ptac | Create_np_object_ptac | Retain_np_object_ptac

datatype script_comt =
    Call_on_browser_thread_comt | Jump_comt ptac
  | P2n_has_method_comt | P2n_invoke_comt | P2n_has_property_comt | P2n_get_property_comt | P2n_enumerate_comt
  | Prepare_comt script_comt

text \<open>The addresses of the latter: any distinct numbers but 0 would do.\<close>

fun ptac_number :: "ptac \<Rightarrow> nat" where
  "ptac_number N2p_has_property_ptac = 0"
| "ptac_number N2p_get_property_ptac = 1"
| "ptac_number N2p_call_ptac = 2"
| "ptac_number N2p_construct_ptac = 3"
| "ptac_number N2p_deallocate_ptac = 4"
| "ptac_number Get_window_object_ptac = 5"
| "ptac_number Execute_script_ptac = 6"
| "ptac_number Create_np_object_ptac = 7"
| "ptac_number Retain_np_object_ptac = 8"

fun comt_address :: "script_comt \<Rightarrow> ptr" where
  "comt_address Call_on_browser_thread_comt = 101"
| "comt_address P2n_has_method_comt = 102"
| "comt_address P2n_invoke_comt = 103"
| "comt_address P2n_has_property_comt = 104"
| "comt_address P2n_get_property_comt = 105"
| "comt_address P2n_enumerate_comt = 106"
| "comt_address (Jump_comt t) = 201 + ptac_number t"
| "comt_address (Prepare_comt c) = 1000 + comt_address c"

definition p2n_comts :: "script_comt list" where
  "p2n_comts = [P2n_has_method_comt, P2n_invoke_comt, P2n_has_property_comt, P2n_get_property_comt, P2n_enumerate_comt]"

definition script_comts :: "script_comt list" where
  "script_comts = Call_on_browser_thread_comt # map Jump_comt
     [N2p_has_property_ptac, N2p_get_property_ptac, N2p_call_ptac, N2p_construct_ptac, N2p_deallocate_ptac,
      Get_window_object_ptac, Execute_script_ptac, Create_np_object_ptac, Retain_np_object_ptac] @
     p2n_comts @ map Prepare_comt p2n_comts"

definition comt_at :: "ptr \<Rightarrow> script_comt option" where
  "comt_at a = List.find (\<lambda>c. comt_address c = a) script_comts"

section \<open>The state\<close>

text \<open>
  \<^verbatim>\<open>struct np_proxy_object_s\<close>: an object the browser sees. Beside the proxies there are the
  allocated blocks and what the browser keeps of its own.
\<close>

record np_proxy_object_s =
  po_reference_count :: u32
  po_ppobj :: PP_Var

record call_on_browser_thread_task_s =
  bt_func :: ptac
  bt_user_data :: ptr

record 'b np_world = world +
  np_params :: "(ptr, np_param) hash_table"
  browser_tasks :: "(ptr, call_on_browser_thread_task_s) hash_table"
  next_block :: ptr
  np_proxies :: "(ptr, np_proxy_object_s) hash_table"
  np_sys :: 'b

text \<open>
  The functions of the browser. Identifiers are addresses; one that is no string has no text. The
  last five are the functions of the classes of other objects.
\<close>

record 'w npn_s =
  npn_getstringidentifier :: "string \<Rightarrow> ptr"
  npn_utf8fromidentifier :: "ptr \<Rightarrow> string option"
  npn_hasproperty :: "ptr \<Rightarrow> ptr \<Rightarrow> ptr \<Rightarrow> 'w \<Rightarrow> bool \<times> 'w"
  npn_getproperty :: "ptr \<Rightarrow> ptr \<Rightarrow> ptr \<Rightarrow> 'w \<Rightarrow> NPVariant option \<times> 'w"
  npn_invoke :: "ptr \<Rightarrow> ptr \<Rightarrow> ptr \<Rightarrow> NPVariant list \<Rightarrow> 'w \<Rightarrow> NPVariant option \<times> 'w"
  npn_construct :: "ptr \<Rightarrow> ptr \<Rightarrow> NPVariant list \<Rightarrow> 'w \<Rightarrow> NPVariant option \<times> 'w"
  npn_evaluate :: "ptr \<Rightarrow> ptr \<Rightarrow> char list \<Rightarrow> u32 \<Rightarrow> 'w \<Rightarrow> NPVariant option \<times> 'w"
  npn_releasevariantvalue :: "NPVariant \<Rightarrow> 'w \<Rightarrow> 'w"
  npn_retainobject :: "ptr \<Rightarrow> 'w \<Rightarrow> 'w"
  npn_releaseobject :: "ptr \<Rightarrow> 'w \<Rightarrow> 'w"
  npn_referenceCount :: "ptr \<Rightarrow> 'w \<Rightarrow> u32"
  npn_createobject :: "ptr \<Rightarrow> 'w \<Rightarrow> ptr \<times> 'w"
  npn_memalloc :: "nat \<Rightarrow> 'w \<Rightarrow> ptr \<times> 'w"
  cls_hasMethod :: "ptr \<Rightarrow> ptr \<Rightarrow> 'w \<Rightarrow> bool \<times> 'w"
  cls_invoke :: "ptr \<Rightarrow> ptr \<Rightarrow> NPVariant list \<Rightarrow> 'w \<Rightarrow> (bool \<times> NPVariant option) \<times> 'w"
  cls_hasProperty :: "ptr \<Rightarrow> ptr \<Rightarrow> 'w \<Rightarrow> bool \<times> 'w"
  cls_getProperty :: "ptr \<Rightarrow> ptr \<Rightarrow> 'w \<Rightarrow> (bool \<times> NPVariant option) \<times> 'w"
  cls_enumerate :: "ptr \<Rightarrow> ptr \<Rightarrow> 'w \<Rightarrow> (bool \<times> ptr \<times> u32) \<times> 'w"

type_synonym 'b npn = "'b np_world npn_s"

text \<open>\<^verbatim>\<open>g_slice_alloc\<close>, use and \<^verbatim>\<open>g_slice_free1\<close> of a block.\<close>

definition new_param :: "np_param \<Rightarrow> 'b np_world \<Rightarrow> ptr \<times> 'b np_world" where
  "new_param p w = (next_block w, w\<lparr>next_block := next_block w + 1, np_params := ht_insert (next_block w) p (np_params w)\<rparr>)"

definition set_param :: "ptr \<Rightarrow> np_param \<Rightarrow> 'b np_world \<Rightarrow> 'b np_world" where
  "set_param a p w = w\<lparr>np_params := ht_insert a p (np_params w)\<rparr>"

definition free_param :: "ptr \<Rightarrow> 'b np_world \<Rightarrow> 'b np_world" where
  "free_param a w = w\<lparr>np_params := ht_remove a (np_params w)\<rparr>"

text \<open>A call that waits in a nested loop has answered, or is still waiting.\<close>

datatype ('r, 'w) blocking = Answered 'r 'w | Waiting 'w

section \<open>Variables and variants on the browser's thread\<close>

text \<open>The class's \<^verbatim>\<open>allocate\<close>, which the browser calls to create an object of it.\<close>

definition p2n_allocate :: "ptr \<Rightarrow> 'b np_world \<Rightarrow> 'b np_world" where
  "p2n_allocate obj w = w\<lparr>np_proxies := ht_insert obj \<lparr>po_reference_count = 1, po_ppobj = VUndefined\<rparr> (np_proxies w)\<rparr>"

definition createobject :: "'b npn \<Rightarrow> ptr \<Rightarrow> 'b np_world \<Rightarrow> ptr \<times> 'b np_world" where
  "createobject npn npp w =
     (case npn_createobject npn npp w of (obj, w) \<Rightarrow> (obj, if obj = 0 then w else p2n_allocate obj w))"

text \<open>The branch of \<^verbatim>\<open>create_np_object\<close> for the browser's thread.\<close>

definition create_np_object_here :: "'b npn \<Rightarrow> 'b np_world \<Rightarrow> ptr \<times> 'b np_world" where
  "create_np_object_here npn w =
     (case tables_get_some_pp_instance w of
        Some pp_i \<Rightarrow> if pi_npp pp_i \<noteq> 0 then createobject npn (pi_npp pp_i) w else (0, w)
      | None \<Rightarrow> (0, w))"

text \<open>
  The proxy that was made for \<open>var\<close> keeps it. On another thread the conversion waits for the
  browser's thread to make or to retain the object: those two calls are parameters.
\<close>

definition set_ppobj :: "ptr \<Rightarrow> PP_Var option \<Rightarrow> 'b np_world \<Rightarrow> 'b np_world" where
  "set_ppobj obj v w =
     (case v of None \<Rightarrow> w
      | Some var \<Rightarrow> (case ht_lookup (np_proxies w) obj of
                      None \<Rightarrow> w
                    | Some po \<Rightarrow> w\<lparr>np_proxies := ht_insert obj (po\<lparr>po_ppobj := var\<rparr>) (np_proxies w)\<rparr>))"

definition is_foreign_object :: "PP_Var \<Rightarrow> 'a var_state_scheme \<Rightarrow> bool" where
  "is_foreign_object var w \<longleftrightarrow>
     (case var of VObject _ \<Rightarrow> (case object_of var w of Some (c, _) \<Rightarrow> c \<noteq> Class_n2p_proxy | None \<Rightarrow> False) | _ \<Rightarrow> False)"

definition pp_var_to_np_variant_with ::
  "('b np_world \<Rightarrow> ptr \<times> 'b np_world) \<Rightarrow> (ptr \<Rightarrow> 'b np_world \<Rightarrow> 'b np_world) \<Rightarrow> PP_Var \<Rightarrow> 'b np_world \<Rightarrow>
   (NPVariant \<times> 'b np_world) option" where
  "pp_var_to_np_variant_with create retain var w = do {
     let (created, w) = (if is_foreign_object var w then create w else (0, w));
     (np, kept, w) \<leftarrow> pp_var_to_np_variant created var w;
     let w = (case np of NPObject obj \<Rightarrow> if kept = None then retain obj w else w | _ \<Rightarrow> w);
     Some (np, set_ppobj created kept w)
   }"

definition pp_var_to_np_variant_here ::
  "'b npn \<Rightarrow> PP_Var \<Rightarrow> 'b np_world \<Rightarrow> (NPVariant \<times> 'b np_world) option" where
  "pp_var_to_np_variant_here npn = pp_var_to_np_variant_with (create_np_object_here npn) (npn_retainobject npn)"

fun np_args_of :: "'b npn \<Rightarrow> PP_Var list \<Rightarrow> 'b np_world \<Rightarrow> (NPVariant list \<times> 'b np_world) option" where
  "np_args_of npn [] w = Some ([], w)"
| "np_args_of npn (v # vs) w = do {
     (a, w) \<leftarrow> pp_var_to_np_variant_here npn v w;
     (as, w) \<leftarrow> np_args_of npn vs w;
     Some (a # as, w)
   }"

definition ppobj_of :: "'b np_world \<Rightarrow> ptr \<Rightarrow> PP_Var option" where
  "ppobj_of w obj = map_option po_ppobj (ht_lookup (np_proxies w) obj)"

text \<open>
  What four functions do with the variant the browser gave: an object is remembered with its
  instance and not released, anything else is released.
\<close>

definition take_np_result ::
  "'b npn \<Rightarrow> ptr \<Rightarrow> NPVariant \<Rightarrow> 'b np_world \<Rightarrow> (PP_Var \<times> 'b np_world) option" where
  "take_np_result npn npp np_result w = do {
     (var, w) \<leftarrow> np_variant_to_pp_var (ppobj_of w) np_result w;
     Some (var, (case np_result of
       NPObject obj \<Rightarrow> tables_add_npobj_npp_mapping obj npp w
     | _ \<Rightarrow> npn_releasevariantvalue npn np_result w))
   }"


section \<open>The page's objects, on the browser's thread\<close>

text \<open>The browser instance of an object, NULL when there is none.\<close>

definition npp_of :: "ptr \<Rightarrow> 'a world_scheme \<Rightarrow> ptr" where
  "npp_of object w = (case tables_get_npobj_npp_mapping object w of None \<Rightarrow> 0 | Some npp \<Rightarrow> npp)"

definition quit_depth :: "timespec \<Rightarrow> PP_Resource \<Rightarrow> int \<Rightarrow> 'b np_world \<Rightarrow> 'b np_world option" where
  "quit_depth now m_loop depth w = map_option snd (ppb_message_loop_post_quit_depth now m_loop False depth w)"

fun n2p_has_property_ptac ::
  "'b npn \<Rightarrow> timespec \<Rightarrow> ptr \<Rightarrow> has_property_param_s \<Rightarrow> 'b np_world \<Rightarrow> 'b np_world option" where
  "n2p_has_property_ptac npn now a p w = do {
     s_name \<leftarrow> var_text (hp_name p) w;
     let identifier = npn_getstringidentifier npn s_name;
     let npp = npp_of (hp_object p) w;
     let (result, w) = (if npp \<noteq> 0 then npn_hasproperty npn npp (hp_object p) identifier w else (False, w));
     let w = set_param a (P_has_property (p\<lparr>hp_result := Some result\<rparr>)) w;
     quit_depth now (hp_m_loop p) (hp_depth p) w
   }"

fun n2p_get_property_ptac ::
  "'b npn \<Rightarrow> timespec \<Rightarrow> ptr \<Rightarrow> get_property_param_s \<Rightarrow> 'b np_world \<Rightarrow> 'b np_world option" where
  "n2p_get_property_ptac npn now a p w = do {
     s_name \<leftarrow> var_text (gp_name p) w;
     let identifier = npn_getstringidentifier npn s_name;
     let npp = npp_of (gp_object p) w;
     let (np_value, w) = (if npp \<noteq> 0 then npn_getproperty npn npp (gp_object p) identifier w else (None, w));
     (var, w) \<leftarrow> (case np_value of
        Some v \<Rightarrow> take_np_result npn npp v w
      | None \<Rightarrow> Some (VUndefined, w));
     let w = set_param a (P_get_property (p\<lparr>gp_result := Some var\<rparr>)) w;
     quit_depth now (gp_m_loop p) (gp_depth p) w
   }"

text \<open>Calls: the arguments are made, and released whether the call succeeds or not.\<close>

fun n2p_call_ptac ::
  "'b npn \<Rightarrow> timespec \<Rightarrow> ptr \<Rightarrow> call_param_s \<Rightarrow> 'b np_world \<Rightarrow> 'b np_world option" where
  "n2p_call_ptac npn now a p w = do {
     s_method_name \<leftarrow> var_text (ca_method_name p) w;
     let np_method_name = npn_getstringidentifier npn s_method_name;
     let npp = npp_of (ca_object p) w;
     (np_args, w) \<leftarrow> np_args_of npn (ca_argv p) w;
     let (np_result, w) = (if npp \<noteq> 0 then npn_invoke npn npp (ca_object p) np_method_name np_args w else (None, w));
     let w = fold (npn_releasevariantvalue npn) np_args w;
     (var, w) \<leftarrow> (case np_result of
        Some v \<Rightarrow> take_np_result npn npp v w
      | None \<Rightarrow> Some (VUndefined, w));
     let w = set_param a (P_call (p\<lparr>ca_result := Some var\<rparr>)) w;
     quit_depth now (ca_m_loop p) (ca_depth p) w
   }"

fun n2p_construct_ptac ::
  "'b npn \<Rightarrow> timespec \<Rightarrow> ptr \<Rightarrow> construct_param_s \<Rightarrow> 'b np_world \<Rightarrow> 'b np_world option" where
  "n2p_construct_ptac npn now a p w = do {
     let npp = npp_of (co_object p) w;
     (np_args, w) \<leftarrow> np_args_of npn (co_argv p) w;
     let (np_result, w) = (if npp \<noteq> 0 then npn_construct npn npp (co_object p) np_args w else (None, w));
     let w = fold (npn_releasevariantvalue npn) np_args w;
     (var, w) \<leftarrow> (case np_result of
        Some v \<Rightarrow> take_np_result npn npp v w
      | None \<Rightarrow> Some (VUndefined, w));
     let w = set_param a (P_construct (p\<lparr>co_result := Some var\<rparr>)) w;
     quit_depth now (co_m_loop p) (co_depth p) w
   }"

text \<open>The count is read before the object is released; it may be gone afterwards.\<close>

fun n2p_deallocate_ptac ::
  "'b npn \<Rightarrow> timespec \<Rightarrow> ptr \<Rightarrow> deallocate_param_s \<Rightarrow> 'b np_world \<Rightarrow> 'b np_world option" where
  "n2p_deallocate_ptac npn now a p w = do {
     let ref_cnt = npn_referenceCount npn (de_object p) w;
     let w = npn_releaseobject npn (de_object p) w;
     let w = (if ref_cnt \<le> 1 then tables_remove_npobj_npp_mapping (de_object p) w else w);
     quit_depth now (de_m_loop p) (de_depth p) w
   }"

fun get_window_object_ptac ::
  "'b npn \<Rightarrow> timespec \<Rightarrow> ptr \<Rightarrow> get_window_object_param_s \<Rightarrow> 'b np_world \<Rightarrow> 'b np_world option" where
  "get_window_object_ptac npn now a p w = do {
     (var, w) \<leftarrow> (case tables_get_pp_instance (gw_instance p) w of
        None \<Rightarrow> Some (VUndefined, w)
      | Some pp_i \<Rightarrow>
          ppb_var_create_object Class_n2p_proxy (pi_np_window_obj pp_i) (npn_retainobject npn (pi_np_window_obj pp_i) w));
     let w = set_param a (P_get_window_object (p\<lparr>gw_result := Some var\<rparr>)) w;
     quit_depth now (gw_m_loop p) (gw_depth p) w
   }"

fun execute_script_ptac ::
  "'b npn \<Rightarrow> timespec \<Rightarrow> ptr \<Rightarrow> execute_script_param_s \<Rightarrow> 'b np_world \<Rightarrow> 'b np_world option" where
  "execute_script_ptac npn now a p w = do {
     (var, w) \<leftarrow> (case tables_get_pp_instance (es_instance_id p) w of
        None \<Rightarrow> Some (VUndefined, w)
      | Some pp_i \<Rightarrow>
          if pi_npp pp_i = 0 then Some (VUndefined, w)
          else do {
            (characters, len) \<leftarrow> ppb_var_var_to_utf8 (es_script p) w;
            (case npn_evaluate npn (pi_npp pp_i) (pi_np_window_obj pp_i) characters len w of
               (None, w) \<Rightarrow> Some (VUndefined, w)
             | (Some v, w) \<Rightarrow> take_np_result npn (pi_npp pp_i) v w)
          });
     let w = set_param a (P_execute_script (p\<lparr>es_result := Some var\<rparr>)) w;
     quit_depth now (es_m_loop p) (es_depth p) w
   }"

fun create_np_object_ptac ::
  "'b npn \<Rightarrow> timespec \<Rightarrow> ptr \<Rightarrow> create_np_object_param_s \<Rightarrow> 'b np_world \<Rightarrow> 'b np_world option" where
  "create_np_object_ptac npn now a p w = do {
     let (res, w) = create_np_object_here npn w;
     let w = set_param a (P_create_np_object (p\<lparr>cn_res := res\<rparr>)) w;
     quit_depth now (cn_m_loop p) (cn_depth p) w
   }"

fun retain_np_object_ptac ::
  "'b npn \<Rightarrow> timespec \<Rightarrow> ptr \<Rightarrow> retain_np_object_param_s \<Rightarrow> 'b np_world \<Rightarrow> 'b np_world option" where
  "retain_np_object_ptac npn now a p w =
     quit_depth now (rn_m_loop p) (rn_depth p) (npn_retainobject npn (rn_np_object p) w)"

text \<open>Calling one of them through its address; the block must hold its structure.\<close>

fun run_ptac :: "'b npn \<Rightarrow> timespec \<Rightarrow> ptac \<Rightarrow> ptr \<Rightarrow> 'b np_world \<Rightarrow> 'b np_world option" where
  "run_ptac npn now t a w =
     (case (t, ht_lookup (np_params w) a) of
        (N2p_has_property_ptac, Some (P_has_property p)) \<Rightarrow> n2p_has_property_ptac npn now a p w
      | (N2p_get_property_ptac, Some (P_get_property p)) \<Rightarrow> n2p_get_property_ptac npn now a p w
      | (N2p_call_ptac, Some (P_call p)) \<Rightarrow> n2p_call_ptac npn now a p w
      | (N2p_construct_ptac, Some (P_construct p)) \<Rightarrow> n2p_construct_ptac npn now a p w
      | (N2p_deallocate_ptac, Some (P_deallocate p)) \<Rightarrow> n2p_deallocate_ptac npn now a p w
      | (Get_window_object_ptac, Some (P_get_window_object p)) \<Rightarrow> get_window_object_ptac npn now a p w
      | (Execute_script_ptac, Some (P_execute_script p)) \<Rightarrow> execute_script_ptac npn now a p w
      | (Create_np_object_ptac, Some (P_create_np_object p)) \<Rightarrow> create_np_object_ptac npn now a p w
      | (Retain_np_object_ptac, Some (P_retain_np_object p)) \<Rightarrow> retain_np_object_ptac npn now a p w
      | _ \<Rightarrow> None)"

declare run_ptac.simps [simp del]

section \<open>Handing over to the browser's thread\<close>

definition call_on_browser_thread :: "timespec \<Rightarrow> ptac \<Rightarrow> ptr \<Rightarrow> 'b np_world \<Rightarrow> 'b np_world option" where
  "call_on_browser_thread now func user_data w = do {
     let task = next_block w;
     let w = w\<lparr>next_block := task + 1,
       browser_tasks := ht_insert task \<lparr>bt_func = func, bt_user_data = user_data\<rparr> (browser_tasks w)\<rparr>;
     map_option snd (ppb_core_call_on_browser_thread (comt_address Call_on_browser_thread_comt) now 0 task w)
   }"

definition call_on_browser_thread_comt :: "'b npn \<Rightarrow> timespec \<Rightarrow> ptr \<Rightarrow> 'b np_world \<Rightarrow> 'b np_world option" where
  "call_on_browser_thread_comt npn now user_data w = do {
     task \<leftarrow> ht_lookup (browser_tasks w) user_data;
     w \<leftarrow> run_ptac npn now (bt_func task) (bt_user_data task) w;
     Some (w\<lparr>browser_tasks := ht_remove user_data (browser_tasks w)\<rparr>)
   }"

text \<open>
  The nine functions \<^verbatim>\<open>*_comt\<close> that are posted to the waiting thread itself only hand their
  parameter on.
\<close>

definition jump_comt :: "timespec \<Rightarrow> ptac \<Rightarrow> ptr \<Rightarrow> 'b np_world \<Rightarrow> 'b np_world option" where
  "jump_comt now t user_data w = call_on_browser_thread now t user_data w"

text \<open>
  The whole of a blocking call: the block is made with the current loop and the depth the nested
  loop will have, the function is posted for that depth, and the nested loop is run.
\<close>

definition blocking_call ::
  "'b np_world callbacks \<Rightarrow> 'b np_world tick list \<Rightarrow> timespec \<Rightarrow> ptac \<Rightarrow> (PP_Resource \<Rightarrow> int \<Rightarrow> np_param) \<Rightarrow>
   'b np_world \<Rightarrow> (ptr \<times> 'b np_world run_result) option" where
  "blocking_call cb tks now t mk w = do {
     let m_loop = ppb_message_loop_get_current w;
     (depth, w) \<leftarrow> nested_depth m_loop w;
     let (p, w) = new_param (mk m_loop depth) w;
     r \<leftarrow> post_and_wait cb tks now m_loop
       \<lparr>ccb_func = comt_address (Jump_comt t), ccb_user_data = p, ccb_flags = 0\<rparr> depth w;
     Some (p, r)
   }"

text \<open>Reading the result out of the block and freeing it.\<close>

definition take_answer ::
  "(np_param \<Rightarrow> 'r option) \<Rightarrow> ptr \<times> 'b np_world run_result \<Rightarrow> ('r, 'b np_world) blocking option" where
  "take_answer sel x =
     (case x of
        (p, Running w) \<Rightarrow> Some (Waiting w)
      | (p, Returned _ w) \<Rightarrow> do {
          b \<leftarrow> ht_lookup (np_params w) p;
          r \<leftarrow> sel b;
          Some (Answered r (free_param p w))
        })"

fun hp_answer :: "np_param \<Rightarrow> bool option" where
  "hp_answer (P_has_property p) = hp_result p"
| "hp_answer _ = None"

fun var_answer :: "np_param \<Rightarrow> PP_Var option" where
  "var_answer (P_get_property p) = gp_result p"
| "var_answer (P_call p) = ca_result p"
| "var_answer (P_construct p) = co_result p"
| "var_answer (P_get_window_object p) = gw_result p"
| "var_answer (P_execute_script p) = es_result p"
| "var_answer _ = None"

fun object_answer :: "np_param \<Rightarrow> ptr option" where
  "object_answer (P_create_np_object p) = Some (cn_res p)"
| "object_answer _ = None"

section \<open>Operations of the plugin on objects of the page\<close>

definition n2p_has_property ::
  "'b np_world callbacks \<Rightarrow> 'b np_world tick list \<Rightarrow> timespec \<Rightarrow> ptr \<Rightarrow> PP_Var \<Rightarrow> 'b np_world \<Rightarrow>
   (bool, 'b np_world) blocking option" where
  "n2p_has_property cb tks now object name w =
     (case name of
        VString _ \<Rightarrow> do {
          x \<leftarrow> blocking_call cb tks now N2p_has_property_ptac
            (\<lambda>m_loop depth. P_has_property \<lparr>hp_name = name, hp_object = object, hp_result = None,
               hp_m_loop = m_loop, hp_depth = depth\<rparr>) w;
          take_answer hp_answer x
        }
      | _ \<Rightarrow> Some (Answered False w))"

definition n2p_has_method :: "ptr \<Rightarrow> PP_Var \<Rightarrow> bool" where
  "n2p_has_method object name = False"

definition n2p_get_property ::
  "'b np_world callbacks \<Rightarrow> 'b np_world tick list \<Rightarrow> timespec \<Rightarrow> ptr \<Rightarrow> PP_Var \<Rightarrow> 'b np_world \<Rightarrow>
   (PP_Var, 'b np_world) blocking option" where
  "n2p_get_property cb tks now object name w =
     (case name of
        VString _ \<Rightarrow> do {
          x \<leftarrow> blocking_call cb tks now N2p_get_property_ptac
            (\<lambda>m_loop depth. P_get_property \<lparr>gp_object = object, gp_name = name, gp_result = None,
               gp_m_loop = m_loop, gp_depth = depth\<rparr>) w;
          take_answer var_answer x
        }
      | _ \<Rightarrow> Some (Answered VUndefined w))"

text \<open>Not implemented by the code.\<close>

definition n2p_get_all_property_names :: "ptr \<Rightarrow> 'b np_world \<Rightarrow> 'b np_world" where
  "n2p_get_all_property_names object w = w"
definition n2p_set_property :: "ptr \<Rightarrow> PP_Var \<Rightarrow> PP_Var \<Rightarrow> 'b np_world \<Rightarrow> 'b np_world" where
  "n2p_set_property object name value w = w"
definition n2p_remove_property :: "ptr \<Rightarrow> PP_Var \<Rightarrow> 'b np_world \<Rightarrow> 'b np_world" where
  "n2p_remove_property object name w = w"

definition n2p_call ::
  "'b np_world callbacks \<Rightarrow> 'b np_world tick list \<Rightarrow> timespec \<Rightarrow> ptr \<Rightarrow> PP_Var \<Rightarrow> PP_Var list \<Rightarrow> 'b np_world \<Rightarrow>
   (PP_Var, 'b np_world) blocking option" where
  "n2p_call cb tks now object method_name argv w =
     (case method_name of
        VString _ \<Rightarrow> do {
          x \<leftarrow> blocking_call cb tks now N2p_call_ptac
            (\<lambda>m_loop depth. P_call \<lparr>ca_object = object, ca_method_name = method_name, ca_argv = argv,
               ca_result = None, ca_m_loop = m_loop, ca_depth = depth\<rparr>) w;
          take_answer var_answer x
        }
      | _ \<Rightarrow> Some (Answered VUndefined w))"

definition n2p_construct ::
  "'b np_world callbacks \<Rightarrow> 'b np_world tick list \<Rightarrow> timespec \<Rightarrow> ptr \<Rightarrow> PP_Var list \<Rightarrow> 'b np_world \<Rightarrow>
   (PP_Var, 'b np_world) blocking option" where
  "n2p_construct cb tks now object argv w = do {
     x \<leftarrow> blocking_call cb tks now N2p_construct_ptac
       (\<lambda>m_loop depth. P_construct \<lparr>co_object = object, co_argv = argv, co_result = None,
          co_m_loop = m_loop, co_depth = depth\<rparr>) w;
     take_answer var_answer x
   }"

definition n2p_deallocate ::
  "'b np_world callbacks \<Rightarrow> 'b np_world tick list \<Rightarrow> timespec \<Rightarrow> ptr \<Rightarrow> 'b np_world \<Rightarrow>
   (unit, 'b np_world) blocking option" where
  "n2p_deallocate cb tks now object w =
     (if object = 0 then Some (Answered () w)
      else do {
        x \<leftarrow> blocking_call cb tks now N2p_deallocate_ptac
          (\<lambda>m_loop depth. P_deallocate \<lparr>de_object = object, de_m_loop = m_loop, de_depth = depth\<rparr>) w;
        take_answer (\<lambda>_. Some ()) x
      })"

section \<open>The window, scripts and objects\<close>

definition ppb_instance_get_window_object ::
  "'b np_world callbacks \<Rightarrow> 'b np_world tick list \<Rightarrow> timespec \<Rightarrow> PP_Instance \<Rightarrow> 'b np_world \<Rightarrow>
   (PP_Var, 'b np_world) blocking option" where
  "ppb_instance_get_window_object cb tks now instance w = do {
     x \<leftarrow> blocking_call cb tks now Get_window_object_ptac
       (\<lambda>m_loop depth. P_get_window_object \<lparr>gw_instance = instance, gw_result = None,
          gw_m_loop = m_loop, gw_depth = depth\<rparr>) w;
     take_answer var_answer x
   }"

definition ppb_instance_get_owner_element_object :: "PP_Instance \<Rightarrow> PP_Var" where
  "ppb_instance_get_owner_element_object instance = VUndefined"

definition ppb_instance_execute_script ::
  "'b np_world callbacks \<Rightarrow> 'b np_world tick list \<Rightarrow> timespec \<Rightarrow> PP_Instance \<Rightarrow> PP_Var \<Rightarrow> 'b np_world \<Rightarrow>
   (PP_Var, 'b np_world) blocking option" where
  "ppb_instance_execute_script cb tks now instance script w =
     (case (script, tables_get_pp_instance instance w) of
        (VString _, Some pp_i) \<Rightarrow> do {
          let w = ppb_var_add_ref script w;
          (p, r) \<leftarrow> blocking_call cb tks now Execute_script_ptac
            (\<lambda>m_loop depth. P_execute_script \<lparr>es_script = script, es_result = None, es_instance_id = instance,
               es_m_loop = m_loop, es_depth = depth\<rparr>) w;
          (case r of
             Running w \<Rightarrow> Some (Waiting w)
           | Returned rc w \<Rightarrow> do {
               w \<leftarrow> ppb_var_release script w;
               take_answer var_answer (p, Returned rc w)
             })
        }
      | _ \<Rightarrow> Some (Answered VUndefined w))"

definition create_np_object ::
  "'b npn \<Rightarrow> 'b np_world callbacks \<Rightarrow> 'b np_world tick list \<Rightarrow> timespec \<Rightarrow> 'b np_world \<Rightarrow>
   (ptr, 'b np_world) blocking option" where
  "create_np_object npn cb tks now w =
     (if ppb_message_loop_get_current w = ppb_message_loop_get_for_browser_thread w
      then (case create_np_object_here npn w of (res, w) \<Rightarrow> Some (Answered res w))
      else do {
        x \<leftarrow> blocking_call cb tks now Create_np_object_ptac
          (\<lambda>m_loop depth. P_create_np_object \<lparr>cn_res = 0, cn_m_loop = m_loop, cn_depth = depth\<rparr>) w;
        take_answer object_answer x
      })"

definition retain_np_object ::
  "'b npn \<Rightarrow> 'b np_world callbacks \<Rightarrow> 'b np_world tick list \<Rightarrow> timespec \<Rightarrow> ptr \<Rightarrow> 'b np_world \<Rightarrow>
   (unit, 'b np_world) blocking option" where
  "retain_np_object npn cb tks now np_object w =
     (if ppb_message_loop_get_current w = ppb_message_loop_get_for_browser_thread w
      then Some (Answered () (npn_retainobject npn np_object w))
      else do {
        x \<leftarrow> blocking_call cb tks now Retain_np_object_ptac
          (\<lambda>m_loop depth. P_retain_np_object \<lparr>rn_np_object = np_object, rn_m_loop = m_loop, rn_depth = depth\<rparr>) w;
        take_answer (\<lambda>_. Some ()) x
      })"

end
