(* ===== verification/Proxy_Objects.thy ===== *)
theory Proxy_Objects
  imports Script_Objects
begin

text \<open>
  \<^verbatim>\<open>p2n_proxy_class.c\<close>: objects of the plugin as the page sees them. A call of the page arrives on
  the browser's thread, which posts a function to its own loop and waits in a nested loop; the
  function hands the work to the plugin's main thread. \<open>waits\<close> is what the main thread gets from
  \<^verbatim>\<open>create_np_object\<close> and \<^verbatim>\<open>retain_np_object\<close>, for which it waits in turn.
\<close>

section \<open>Life of a proxy\<close>

text \<open>The count is unsigned: it is tested against 0 alone.\<close>

definition p2n_deallocate :: "ptr \<Rightarrow> 'b np_world \<Rightarrow> 'b np_world option" where
  "p2n_deallocate npobj w = do {
     obj \<leftarrow> ht_lookup (np_proxies w) npobj;
     let n = po_reference_count obj - 1;
     if n \<le> 0 then do {
       w \<leftarrow> ppb_var_release (po_ppobj obj) w;
       Some (w\<lparr>np_proxies := ht_remove npobj (np_proxies w)\<rparr>)
     }
     else Some (w\<lparr>np_proxies := ht_insert npobj (obj\<lparr>po_reference_count := n\<rparr>) (np_proxies w)\<rparr>)
   }"

definition p2n_invalidate :: "ptr \<Rightarrow> 'b np_world \<Rightarrow> 'b np_world" where
  "p2n_invalidate npobj w = w"

section \<open>On the plugin's main thread\<close>

record 'w waits =
  wt_create_np_object :: "'w \<Rightarrow> ptr \<times> 'w"
  wt_retain_np_object :: "ptr \<Rightarrow> 'w \<Rightarrow> 'w"

type_synonym 'b classes = "obj_class \<Rightarrow> 'b np_world PPP_Class_Deprecated"

definition to_np_variant :: "'b np_world waits \<Rightarrow> PP_Var \<Rightarrow> 'b np_world \<Rightarrow> (NPVariant \<times> 'b np_world) option" where
  "to_np_variant waits = pp_var_to_np_variant_with (wt_create_np_object waits) (wt_retain_np_object waits)"

definition p2n_has_method_comt ::
  "'b classes \<Rightarrow> timespec \<Rightarrow> ptr \<Rightarrow> p2n_has_param_s \<Rightarrow> 'b np_world \<Rightarrow> 'b np_world option" where
  "p2n_has_method_comt classes now a p w = do {
     obj \<leftarrow> ht_lookup (np_proxies w) (ph_npobj p);
     (method_name, w) \<leftarrow> ppb_var_var_from_utf8_z (ph_name p) w;
     (result, w) \<leftarrow> ppb_var_has_method classes (po_ppobj obj) method_name w;
     let w = set_param a (P_p2n_has (p\<lparr>ph_result := Some result\<rparr>)) w;
     w \<leftarrow> ppb_var_release method_name w;
     quit_depth now (ph_m_loop p) (ph_depth p) w
   }"

definition p2n_has_property_comt ::
  "'b classes \<Rightarrow> timespec \<Rightarrow> ptr \<Rightarrow> p2n_has_param_s \<Rightarrow> 'b np_world \<Rightarrow> 'b np_world option" where
  "p2n_has_property_comt classes now a p w = do {
     obj \<leftarrow> ht_lookup (np_proxies w) (ph_npobj p);
     (property_name, w) \<leftarrow> ppb_var_var_from_utf8_z (ph_name p) w;
     (result, w) \<leftarrow> ppb_var_has_property classes (po_ppobj obj) property_name w;
     let w = set_param a (P_p2n_has (p\<lparr>ph_result := Some result\<rparr>)) w;
     w \<leftarrow> ppb_var_release property_name w;
     quit_depth now (ph_m_loop p) (ph_depth p) w
   }"

fun pp_args_of :: "NPVariant list \<Rightarrow> 'b np_world \<Rightarrow> (PP_Var list \<times> 'b np_world) option" where
  "pp_args_of [] w = Some ([], w)"
| "pp_args_of (a # as) w = do {
     (v, w) \<leftarrow> np_variant_to_pp_var (ppobj_of w) a w;
     (vs, w) \<leftarrow> pp_args_of as w;
     Some (v # vs, w)
   }"

definition p2n_invoke_comt ::
  "'b np_world waits \<Rightarrow> 'b classes \<Rightarrow> timespec \<Rightarrow> ptr \<Rightarrow> p2n_invoke_param_s \<Rightarrow> 'b np_world \<Rightarrow> 'b np_world option" where
  "p2n_invoke_comt waits classes now a p w = do {
     obj \<leftarrow> ht_lookup (np_proxies w) (pv_npobj p);
     (method_name, w) \<leftarrow> ppb_var_var_from_utf8_z (pv_name p) w;
     (pp_args, w) \<leftarrow> pp_args_of (pv_args p) w;
     (res, w) \<leftarrow> ppb_var_call classes (po_ppobj obj) method_name pp_args w;
     w \<leftarrow> release_vars pp_args w;
     (np_result, w) \<leftarrow>
       (if pv_want_result p then do {
          (np, w) \<leftarrow> to_np_variant waits res w;
          Some (Some np, (case np of
            NPObject obj \<Rightarrow> tables_add_npobj_npp_mapping obj (npp_of (pv_npobj p) w) w
          | _ \<Rightarrow> w))
        }
        else Some (pv_np_result p, w));
     let w = set_param a (P_p2n_invoke (p\<lparr>pv_result := Some True, pv_np_result := np_result\<rparr>)) w;
     w \<leftarrow> ppb_var_release res w;
     w \<leftarrow> ppb_var_release method_name w;
     quit_depth now (pv_m_loop p) (pv_depth p) w
   }"

text \<open>The name is not released here.\<close>

definition p2n_get_property_comt ::
  "'b np_world waits \<Rightarrow> 'b classes \<Rightarrow> timespec \<Rightarrow> ptr \<Rightarrow> p2n_get_property_param_s \<Rightarrow> 'b np_world \<Rightarrow> 'b np_world option" where
  "p2n_get_property_comt waits classes now a p w = do {
     obj \<leftarrow> ht_lookup (np_proxies w) (pg_npobj p);
     (property_name, w) \<leftarrow> ppb_var_var_from_utf8_z (pg_name p) w;
     (res, w) \<leftarrow> ppb_var_get_property classes (po_ppobj obj) property_name w;
     (np, w) \<leftarrow> to_np_variant waits res w;
     let w = set_param a (P_p2n_get_property (p\<lparr>pg_result := Some True, pg_np_result := Some np\<rparr>)) w;
     w \<leftarrow> ppb_var_release res w;
     quit_depth now (pg_m_loop p) (pg_depth p) w
   }"

definition p2n_enumerate_comt ::
  "'b classes \<Rightarrow> timespec \<Rightarrow> ptr \<Rightarrow> p2n_enumerate_param_s \<Rightarrow> 'b np_world \<Rightarrow> 'b np_world option" where
  "p2n_enumerate_comt classes now a p w = do {
     obj \<leftarrow> ht_lookup (np_proxies w) (pe_npobj p);
     (names, w) \<leftarrow> ppb_var_get_all_property_names classes (po_ppobj obj) w;
     let w = set_param a (P_p2n_enumerate (p\<lparr>pe_values := Some (case names of None \<Rightarrow> [] | Some vs \<Rightarrow> vs),
       pe_result := Some True\<rparr>)) w;
     quit_depth now (pe_m_loop p) (pe_depth p) w
   }"

text \<open>The five functions \<^verbatim>\<open>*_prepare_comt\<close>.\<close>

definition p2n_prepare_comt :: "timespec \<Rightarrow> script_comt \<Rightarrow> ptr \<Rightarrow> 'b np_world \<Rightarrow> 'b np_world option" where
  "p2n_prepare_comt now c user_data w =
     ppb_core_trampoline_to_main_thread now \<lparr>ccb_func = comt_address c, ccb_user_data = user_data, ccb_flags = 0\<rparr> PP_OK w"

section \<open>The functions as the loops call them\<close>

fun run_comt ::
  "'b npn \<Rightarrow> 'b np_world waits \<Rightarrow> 'b classes \<Rightarrow> timespec \<Rightarrow> script_comt \<Rightarrow> ptr \<Rightarrow> 'b np_world \<Rightarrow> 'b np_world option" where
  "run_comt npn waits classes now Call_on_browser_thread_comt a w = call_on_browser_thread_comt npn now a w"
| "run_comt npn waits classes now (Jump_comt t) a w = jump_comt now t a w"
| "run_comt npn waits classes now (Prepare_comt c) a w = p2n_prepare_comt now c a w"
| "run_comt npn waits classes now c a w =
     (case (c, ht_lookup (np_params w) a) of
        (P2n_has_method_comt, Some (P_p2n_has p)) \<Rightarrow> p2n_has_method_comt classes now a p w
      | (P2n_has_property_comt, Some (P_p2n_has p)) \<Rightarrow> p2n_has_property_comt classes now a p w
      | (P2n_invoke_comt, Some (P_p2n_invoke p)) \<Rightarrow> p2n_invoke_comt waits classes now a p w
      | (P2n_get_property_comt, Some (P_p2n_get_property p)) \<Rightarrow> p2n_get_property_comt waits classes now a p w
      | (P2n_enumerate_comt, Some (P_p2n_enumerate p)) \<Rightarrow> p2n_enumerate_comt classes now a p w
      | _ \<Rightarrow> None)"

text \<open>\<open>other\<close> runs the callbacks of the rest of the program.\<close>

definition script_callbacks ::
  "'b npn \<Rightarrow> 'b np_world waits \<Rightarrow> 'b classes \<Rightarrow> timespec \<Rightarrow> 'b np_world callbacks \<Rightarrow> 'b np_world callbacks" where
  "script_callbacks npn waits classes now other ccb result w =
     (case comt_at (ccb_func ccb) of
        Some c \<Rightarrow> run_comt npn waits classes now c (ccb_user_data ccb) w
      | None \<Rightarrow> other ccb result w)"

section \<open>What the browser calls\<close>

definition is_p2n_object :: "ptr \<Rightarrow> 'b np_world \<Rightarrow> bool" where
  "is_p2n_object npobj w \<longleftrightarrow> ht_lookup (np_proxies w) npobj \<noteq> None"

text \<open>The waiting is that of \<open>blocking_call\<close>, on the browser's loop, with any depth allowed.\<close>

definition plugin_call ::
  "'b np_world callbacks \<Rightarrow> 'b np_world tick list \<Rightarrow> timespec \<Rightarrow> script_comt \<Rightarrow> (PP_Resource \<Rightarrow> int \<Rightarrow> np_param) \<Rightarrow>
   'b np_world \<Rightarrow> (ptr \<times> 'b np_world run_result) option" where
  "plugin_call cb tks now c mk w = do {
     let m_loop = ppb_message_loop_get_for_browser_thread w;
     (depth, w) \<leftarrow> nested_depth m_loop w;
     let (p, w) = new_param (mk m_loop depth) w;
     r \<leftarrow> post_and_wait cb tks now m_loop
       \<lparr>ccb_func = comt_address (Prepare_comt c), ccb_user_data = p, ccb_flags = 0\<rparr> 0 w;
     Some (p, r)
   }"

fun ph_answer :: "np_param \<Rightarrow> bool option" where
  "ph_answer (P_p2n_has p) = ph_result p"
| "ph_answer _ = None"

fun pv_answer :: "np_param \<Rightarrow> (bool \<times> NPVariant option) option" where
  "pv_answer (P_p2n_invoke p) = map_option (\<lambda>b. (b, pv_np_result p)) (pv_result p)"
| "pv_answer _ = None"

fun pg_answer :: "np_param \<Rightarrow> (bool \<times> NPVariant option) option" where
  "pg_answer (P_p2n_get_property p) = map_option (\<lambda>b. (b, pg_np_result p)) (pg_result p)"
| "pg_answer _ = None"

fun pe_answer :: "np_param \<Rightarrow> (bool \<times> PP_Var list) option" where
  "pe_answer (P_p2n_enumerate p) = do { b \<leftarrow> pe_result p; vs \<leftarrow> pe_values p; Some (b, vs) }"
| "pe_answer _ = None"

definition p2n_has_method ::
  "'b npn \<Rightarrow> 'b np_world callbacks \<Rightarrow> 'b np_world tick list \<Rightarrow> timespec \<Rightarrow> ptr \<Rightarrow> ptr \<Rightarrow> 'b np_world \<Rightarrow>
   (bool, 'b np_world) blocking option" where
  "p2n_has_method npn cb tks now npobj name w =
     (if npn_utf8fromidentifier npn name = None then Some (Answered False w)
      else if is_p2n_object npobj w then do {
        x \<leftarrow> plugin_call cb tks now P2n_has_method_comt
          (\<lambda>m_loop depth. P_p2n_has \<lparr>ph_npobj = npobj, ph_name = npn_utf8fromidentifier npn name,
             ph_m_loop = m_loop, ph_depth = depth, ph_result = None\<rparr>) w;
        take_answer ph_answer x
      }
      else (case cls_hasMethod npn npobj name w of (r, w) \<Rightarrow> Some (Answered r w)))"

definition p2n_has_property ::
  "'b npn \<Rightarrow> 'b np_world callbacks \<Rightarrow> 'b np_world tick list \<Rightarrow> timespec \<Rightarrow> ptr \<Rightarrow> ptr \<Rightarrow> 'b np_world \<Rightarrow>
   (bool, 'b np_world) blocking option" where
  "p2n_has_property npn cb tks now npobj name w =
     (if npn_utf8fromidentifier npn name = None then Some (Answered False w)
      else if is_p2n_object npobj w then do {
        x \<leftarrow> plugin_call cb tks now P2n_has_property_comt
          (\<lambda>m_loop depth. P_p2n_has \<lparr>ph_npobj = npobj, ph_name = npn_utf8fromidentifier npn name,
             ph_m_loop = m_loop, ph_depth = depth, ph_result = None\<rparr>) w;
        take_answer ph_answer x
      }
      else (case cls_hasProperty npn npobj name w of (r, w) \<Rightarrow> Some (Answered r w)))"

text \<open>The answer and what is stored for the caller.\<close>

definition p2n_invoke ::
  "'b npn \<Rightarrow> 'b np_world callbacks \<Rightarrow> 'b np_world tick list \<Rightarrow> timespec \<Rightarrow> ptr \<Rightarrow> ptr \<Rightarrow> NPVariant list \<Rightarrow> bool \<Rightarrow>
   'b np_world \<Rightarrow> (bool \<times> NPVariant option, 'b np_world) blocking option" where
  "p2n_invoke npn cb tks now npobj name args want_result w =
     (if npn_utf8fromidentifier npn name = None then Some (Answered (False, None) w)
      else if is_p2n_object npobj w then do {
        x \<leftarrow> plugin_call cb tks now P2n_invoke_comt
          (\<lambda>m_loop depth. P_p2n_invoke \<lparr>pv_npobj = npobj, pv_name = npn_utf8fromidentifier npn name,
             pv_args = args, pv_want_result = want_result, pv_np_result = None, pv_result = None,
             pv_m_loop = m_loop, pv_depth = depth\<rparr>) w;
        take_answer pv_answer x
      }
      else (case cls_invoke npn npobj name args w of (r, w) \<Rightarrow> Some (Answered r w)))"

definition p2n_get_property ::
  "'b npn \<Rightarrow> 'b np_world callbacks \<Rightarrow> 'b np_world tick list \<Rightarrow> timespec \<Rightarrow> ptr \<Rightarrow> ptr \<Rightarrow>
   'b np_world \<Rightarrow> (bool \<times> NPVariant option, 'b np_world) blocking option" where
  "p2n_get_property npn cb tks now npobj name w =
     (if npn_utf8fromidentifier npn name = None then Some (Answered (False, None) w)
      else if is_p2n_object npobj w then do {
        x \<leftarrow> plugin_call cb tks now P2n_get_property_comt
          (\<lambda>m_loop depth. P_p2n_get_property \<lparr>pg_npobj = npobj, pg_name = npn_utf8fromidentifier npn name,
             pg_np_result = None, pg_result = None, pg_m_loop = m_loop, pg_depth = depth\<rparr>) w;
        take_answer pg_answer x
      }
      else (case cls_getProperty npn npobj name w of (r, w) \<Rightarrow> Some (Answered r w)))"

text \<open>
  The loop of \<^verbatim>\<open>p2n_enumerate\<close> writes to \<^verbatim>\<open>value[k]\<close>. There \<^verbatim>\<open>value\<close> is the address of the
  pointer the caller wants filled, so the first name overwrites that pointer, and any other is
  written past it (\<open>None\<close>). \<open>cell\<close> is what the caller's pointer holds.
\<close>

fun enumerate_names :: "'b npn \<Rightarrow> nat \<Rightarrow> PP_Var list \<Rightarrow> ptr \<Rightarrow> 'b np_world \<Rightarrow> ptr option" where
  "enumerate_names npn k [] cell w = Some cell"
| "enumerate_names npn k (v # vs) cell w = do {
     (s, len) \<leftarrow> ppb_var_var_to_utf8 v w;
     (if len + 1 = 0 then None
      else let ident = npn_getstringidentifier npn (c_str (take (unat len) s @ [NUL])) in
        if k = 0 then enumerate_names npn (k + 1) vs ident w else None)
   }"

definition sizeof_NPIdentifier :: nat where "sizeof_NPIdentifier = 8"

text \<open>The answer, the caller's pointer and the count.\<close>

definition p2n_enumerate ::
  "'b npn \<Rightarrow> 'b np_world callbacks \<Rightarrow> 'b np_world tick list \<Rightarrow> timespec \<Rightarrow> ptr \<Rightarrow> ptr \<Rightarrow>
   'b np_world \<Rightarrow> (bool \<times> ptr \<times> u32, 'b np_world) blocking option" where
  "p2n_enumerate npn cb tks now npobj cell w =
     (if is_p2n_object npobj w then do {
        x \<leftarrow> plugin_call cb tks now P2n_enumerate_comt
          (\<lambda>m_loop depth. P_p2n_enumerate \<lparr>pe_npobj = npobj, pe_values = None, pe_result = None,
             pe_m_loop = m_loop, pe_depth = depth\<rparr>) w;
        r \<leftarrow> take_answer pe_answer x;
        (case r of
           Waiting w \<Rightarrow> Some (Waiting w)
         | Answered (result, values) w \<Rightarrow>
             (case npn_memalloc npn (length values * sizeof_NPIdentifier) w of
                (cell, w) \<Rightarrow> do {
                  cell \<leftarrow> enumerate_names npn 0 values cell w;
                  Some (Answered (result, cell, word_of_nat (length values)) w)
                }))
      }
      else (case cls_enumerate npn npobj cell w of (r, w) \<Rightarrow> Some (Answered r w)))"

text \<open>Not implemented by the code.\<close>

definition p2n_invoke_default :: "ptr \<Rightarrow> NPVariant list \<Rightarrow> bool" where "p2n_invoke_default npobj args = True"
definition p2n_set_property :: "ptr \<Rightarrow> ptr \<Rightarrow> NPVariant \<Rightarrow> bool" where "p2n_set_property npobj name value' = True"
definition p2n_remove_property :: "ptr \<Rightarrow> ptr \<Rightarrow> bool" where "p2n_remove_property npobj name = True"
definition p2n_construct :: "ptr \<Rightarrow> NPVariant list \<Rightarrow> bool" where "p2n_construct npobj args = False"

end
