(* ===== verification/Script_Correct.thy ===== *)
theory Script_Correct
  imports Proxy_Objects
begin

text \<open>
  A thread of the plugin that calls an object of the page gets the browser's answer, and the call
  leaves the state of the plugin as it was.
\<close>

section \<open>The two threads\<close>

text \<open>
  The browser's thread, asked by \<^verbatim>\<open>npn.pluginthreadasynccall\<close>: the values that belong to a
  thread are those of that thread while it runs.
\<close>

definition browser_step :: "'b np_world callbacks \<Rightarrow> 'b np_world tick list \<Rightarrow> 'b np_world \<Rightarrow> 'b np_world" where
  "browser_step cb tks w =
     (case activate_browser_thread_ml_ptac cb tks (w\<lparr>this_thread_message_loop := browser_thread_message_loop w\<rparr>) of
        Some (Returned _ w') \<Rightarrow> w'\<lparr>this_thread_message_loop := this_thread_message_loop w\<rparr>
      | _ \<Rightarrow> w)"

text \<open>The state in which the browser's thread does the work.\<close>

definition at_work ::
  "PP_Resource \<Rightarrow> pp_resource_s \<Rightarrow> pp_message_loop_s \<Rightarrow> PP_Resource \<Rightarrow> pp_resource_s \<Rightarrow> pp_message_loop_s \<Rightarrow>
   ptac \<Rightarrow> np_param \<Rightarrow> 'b np_world \<Rightarrow> 'b np_world" where
  "at_work m e ml b eb mlb t x w = put_res b (waiting eb mlb [] []) (put_res m (waiting e ml [] [])
     (w\<lparr>next_block := next_block w + 2, np_params := ht_insert (next_block w) x (np_params w),
        browser_tasks := ht_insert (next_block w + 1) \<lparr>bt_func = t, bt_user_data = next_block w\<rparr> (browser_tasks w),
        this_thread_message_loop := b\<rparr>))"

lemma comt_at_address [simp]:
  "comt_at (comt_address Call_on_browser_thread_comt) = Some Call_on_browser_thread_comt"
  "comt_at (comt_address (Jump_comt t)) = Some (Jump_comt t)"
  by (cases t; simp add: comt_at_def script_comts_def p2n_comts_def)+

lemma comt_address_nonzero [simp]: "0 < comt_address c"
  by (induction c) auto

declare comt_address.simps [simp del]

lemma waiting_simps [simp]:
  "r_resource_type (waiting e ml q t) = r_resource_type e" "r_locked (waiting e ml q t) = r_locked e"
  "r_ref_cnt (waiting e ml q t) = r_ref_cnt e + 1"
  by (simp_all add: waiting_def)

lemma waiting_again [simp]: "waiting (e\<lparr>r_payload := pl\<rparr>) (ml\<lparr>ml_async_q := q\<rparr>) q' t = waiting e ml q' t"
  by (simp add: waiting_def)

lemma quit_depth_posts:
  assumes "ht_lookup (res_tbl w) m = Some (waiting e ml [] [])" "r_resource_type e = PP_RESOURCE_MESSAGE_LOOP"
    "\<not> r_locked e" "0 < r_ref_cnt e"
  shows "quit_depth now m d w = Some (put_res m (waiting e ml [quit_request now d] []) w)"
proof -
  have "quit_depth now m d (put_res m (waiting e ml [] []) w) = Some (put_res m (waiting e ml [quit_request now d] []) w)"
    using assms by (cases ml; cases e) (simp add: quit_depth_def ppb_message_loop_post_quit_depth_def push_task_def
      quit_request_def waiting_def)
  then show ?thesis using put_res_same [OF assms(1)] by simp
qed

lemma put_res_commute:
  "ht_lookup (res_tbl w) r \<noteq> None \<Longrightarrow> ht_lookup (res_tbl w) s \<noteq> None \<Longrightarrow> r \<noteq> s \<Longrightarrow>
    put_res r e (put_res s f w) = put_res s f (put_res r e w)"
  by (simp add: put_res_def ht_insert_commute)


section \<open>One call\<close>

lemma jump_comt_posts:
  assumes b: "browser_thread_message_loop w = b" "ht_lookup (res_tbl w) b = Some eb"
      "r_resource_type eb = PP_RESOURCE_MESSAGE_LOOP" "\<not> r_locked eb" "0 < r_ref_cnt eb"
      "r_payload eb = PL_message_loop mlb" "ml_async_q mlb = []"
  shows "jump_comt now t p w = Some (put_res b (eb\<lparr>r_payload := PL_message_loop (mlb\<lparr>ml_async_q :=
      [posted now \<lparr>ccb_func = comt_address Call_on_browser_thread_comt, ccb_user_data = next_block w, ccb_flags = 0\<rparr> PP_OK]\<rparr>)\<rparr>)
    (w\<lparr>next_block := next_block w + 1,
       browser_tasks := ht_insert (next_block w) \<lparr>bt_func = t, bt_user_data = p\<rparr> (browser_tasks w)\<rparr>))"
proof -
  let ?w = "w\<lparr>next_block := next_block w + 1,
    browser_tasks := ht_insert (next_block w) \<lparr>bt_func = t, bt_user_data = p\<rparr> (browser_tasks w)\<rparr>"
  let ?ccb = "\<lparr>ccb_func = comt_address Call_on_browser_thread_comt, ccb_user_data = next_block w, ccb_flags = 0\<rparr>"
  have av: "available b PP_RESOURCE_MESSAGE_LOOP ?w eb" using b by (simp add: available_def)
  have "ppb_message_loop_post_work_with_result now b ?ccb 0 PP_OK 0 ?w =
      Some (PP_OK, put_res b (eb\<lparr>r_payload := PL_message_loop (mlb\<lparr>ml_async_q := [posted now ?ccb PP_OK]\<rparr>)\<rparr>) ?w)"
    unfolding ppb_message_loop_post_work_with_result_def res_update_available [OF av] put_res_def
    using b by (simp add: ppb_message_loop_get_for_browser_thread_def push_task_def posted_def)
  then show ?thesis
    unfolding jump_comt_def call_on_browser_thread_def ppb_core_call_on_browser_thread_def Let_def
    using b(1) by (simp add: ppb_message_loop_get_for_browser_thread_def put_res_def split: option.splits)
qed

lemma blocking_call_answers:
  fixes w :: "'b np_world" and ml :: pp_message_loop_s
  defines "d \<equiv> ml_depth ml + 1"
  assumes m: "available m PP_RESOURCE_MESSAGE_LOOP w e" "this_thread_message_loop w = m" "r_payload e = PL_message_loop ml"
      "ml_async_q ml = []" "ml_int_q ml = []" "\<not> ml_teardown ml" "1 \<le> ml_depth ml"
    and b: "available b PP_RESOURCE_MESSAGE_LOOP w eb" "browser_thread_message_loop w = b" "b \<noteq> m"
      "r_payload eb = PL_message_loop mlb" "ml_async_q mlb = []" "ml_int_q mlb = []"
    and cb: "cb = script_callbacks npn waits classes now other"
    and tks: "tks = tk1 # tk2 # tk3 # tk4 # rest" "\<And>w. tk_others tk1 w = w" "\<And>ccb r. task_timeout (posted now ccb r) (tk_now tk2) \<le> 0"
      "\<And>w. tk_others tk3 w = browser_step cb (tk5 # tk6 # rest') w" "task_timeout (quit_request now 0) (tk_now tk4) \<le> 0"
      "\<And>ccb r. task_timeout (posted now ccb r) (tk_now tk5) \<le> 0"
    and work: "run_ptac npn now t (next_block w) (at_work m e ml b eb mlb t (mk m d) w) =
        Some (put_res m (waiting e ml [quit_request now d] []) wD)"
      "ht_lookup (res_tbl wD) m \<noteq> None" "ht_lookup (res_tbl wD) b = Some (waiting eb mlb [] [])"
  shows "blocking_call cb tks now t mk w = Some (next_block w, Returned PP_OK
    (put_res m e (put_res b eb (wD\<lparr>browser_tasks := ht_remove (next_block w + 1) (browser_tasks wD),
      this_thread_message_loop := m\<rparr>))))"
proof -
  let ?p = "next_block w" and ?t = "next_block w + 1"
  let ?ccb = "\<lparr>ccb_func = comt_address (Jump_comt t), ccb_user_data = ?p, ccb_flags = 0\<rparr>"
  let ?bccb = "\<lparr>ccb_func = comt_address Call_on_browser_thread_comt, ccb_user_data = ?t, ccb_flags = 0\<rparr>"
  let ?w1 = "w\<lparr>next_block := ?p + 1, np_params := ht_insert ?p (mk m d) (np_params w)\<rparr>"
  let ?eb' = "eb\<lparr>r_payload := PL_message_loop (mlb\<lparr>ml_async_q := [posted now ?bccb PP_OK]\<rparr>)\<rparr>"
  let ?task = "\<lparr>bt_func = t, bt_user_data = ?p\<rparr>"
  let ?w2 = "put_res b ?eb' (put_res m (waiting e ml [] []) (w\<lparr>next_block := ?p + 2, np_params := ht_insert ?p (mk m d) (np_params w),
    browser_tasks := ht_insert ?t ?task (browser_tasks w)\<rparr>))"
  have ne: "m \<noteq> b" using b(3) by simp
  have eb: "ht_lookup (res_tbl w) b = Some eb" "r_resource_type eb = PP_RESOURCE_MESSAGE_LOOP" "\<not> r_locked eb" "0 < r_ref_cnt eb"
    using b(1) by (simp_all add: available_def)
  have body: "cb ?ccb PP_OK (put_res m (waiting e ml [] []) ?w1) = Some ?w2"
  proof -
    have "jump_comt now t ?p (put_res m (waiting e ml [] []) ?w1) = Some ?w2"
      by (subst jump_comt_posts [where b = b and eb = eb and mlb = mlb]) (use b eb ne in \<open>simp_all add: put_res_def\<close>)
    then show ?thesis by (simp add: cb script_callbacks_def)
  qed
  let ?W = "?w2\<lparr>this_thread_message_loop := b\<rparr>"
  let ?WD = "(put_res m (waiting e ml [quit_request now d] []) wD)\<lparr>browser_tasks := ht_remove ?t (browser_tasks wD)\<rparr>"
  let ?w3 = "(put_res b eb ?WD)\<lparr>this_thread_message_loop := m\<rparr>"
  have work': "cb ?bccb PP_OK (put_res b (waiting eb mlb [] []) ?W) = Some ?WD"
  proof -
    have "put_res b (waiting eb mlb [] []) ?W = at_work m e ml b eb mlb t (mk m d) w"
      by (simp add: at_work_def put_res_def)
    then have "call_on_browser_thread_comt npn now ?t (put_res b (waiting eb mlb [] []) ?W) = Some ?WD"
      using work(1) by (simp add: call_on_browser_thread_comt_def) (simp add: at_work_def put_res_def)
    then show ?thesis by (simp add: cb script_callbacks_def)
  qed
  have act: "activate_browser_thread_ml_ptac cb (tk5 # tk6 # rest') ?W =
      Some (Returned PP_OK (put_res b (?eb'\<lparr>r_payload := PL_message_loop ((mlb\<lparr>ml_async_q := [posted now ?bccb PP_OK]\<rparr>)\<lparr>ml_async_q := []\<rparr>)\<rparr>) ?WD))"
    by (rule activate_runs_one [where t = "posted now ?bccb PP_OK" and ml = "mlb\<lparr>ml_async_q := [posted now ?bccb PP_OK]\<rparr>"])
      (use b eb ne tks(6) work' work(3) in
      \<open>simp_all add: available_def put_res_def ordinary_def task_tree_traverse_func_def posted_def\<close>)
  have other: "tk_others tk3 ?w2 = ?w3"
  proof -
    have "?eb'\<lparr>r_payload := PL_message_loop ((mlb\<lparr>ml_async_q := [posted now ?bccb PP_OK]\<rparr>)\<lparr>ml_async_q := []\<rparr>)\<rparr> = eb"
      using b(4,5) by (cases mlb; cases eb) simp
    then show ?thesis using act m(2) b(2) by (simp add: tks(4) browser_step_def put_res_def)
  qed
  have nd: "nested_depth m w = Some (d, w)"
    using nested_depth_available [OF m(1,3)] by (simp add: d_def)
  have pw: "post_and_wait cb tks now m ?ccb d ?w1 = Some (Returned PP_OK (put_res m e ?w3))"
    by (rule post_and_wait_returns [where w = ?w1 and ?w2.0 = ?w2 and later = now and e = e and ml = ml and
        ?tk1.0 = tk1 and ?tk2.0 = tk2 and ?tk3.0 = tk3 and ?tk4.0 = tk4 and rest = rest])
      (use m ne tks body other work(2) in \<open>simp_all add: available_def d_def put_res_def\<close>)
  then show ?thesis using nd m(2) ne work(2,3)
    by (simp add: blocking_call_def ppb_message_loop_get_current_def new_param_def put_res_def ht_insert_commute)
qed


section \<open>A call when both threads are idle\<close>

text \<open>The two threads are idle: the one that calls runs a loop, the browser's waits to be asked.\<close>

definition caller_ready :: "PP_Resource \<Rightarrow> pp_resource_s \<Rightarrow> pp_message_loop_s \<Rightarrow> 'a world_scheme \<Rightarrow> bool" where
  "caller_ready m e ml w \<longleftrightarrow> available m PP_RESOURCE_MESSAGE_LOOP w e \<and> this_thread_message_loop w = m \<and>
     r_payload e = PL_message_loop ml \<and> ml_async_q ml = [] \<and> ml_int_q ml = [] \<and> \<not> ml_teardown ml \<and> 1 \<le> ml_depth ml"

definition browser_ready :: "PP_Resource \<Rightarrow> pp_resource_s \<Rightarrow> pp_message_loop_s \<Rightarrow> 'a world_scheme \<Rightarrow> bool" where
  "browser_ready b eb mlb w \<longleftrightarrow> available b PP_RESOURCE_MESSAGE_LOOP w eb \<and> browser_thread_message_loop w = b \<and>
     r_payload eb = PL_message_loop mlb \<and> ml_async_q mlb = [] \<and> ml_int_q mlb = []"

text \<open>
  The turns of the two loops: the first two and the fourth are the caller's own, in the third it
  waits while the browser's thread runs. Every task is due when it is looked at.
\<close>

definition call_turns :: "'b np_world callbacks \<Rightarrow> timespec \<Rightarrow> 'b np_world tick list \<Rightarrow> bool" where
  "call_turns cb now tks \<longleftrightarrow> (\<exists>tk1 tk2 tk3 tk4 rest tk5 tk6 rest'. tks = tk1 # tk2 # tk3 # tk4 # rest \<and>
     (\<forall>w. tk_others tk1 w = w) \<and> (\<forall>w. tk_others tk3 w = browser_step cb (tk5 # tk6 # rest') w) \<and>
     (\<forall>ccb r. task_timeout (posted now ccb r) (tk_now tk2) \<le> 0) \<and> task_timeout (quit_request now 0) (tk_now tk4) \<le> 0 \<and>
     (\<forall>ccb r. task_timeout (posted now ccb r) (tk_now tk5) \<le> 0))"

definition fresh_blocks :: "'b np_world \<Rightarrow> bool" where
  "fresh_blocks w \<longleftrightarrow> ht_lookup (np_params w) (next_block w) = None \<and> ht_lookup (browser_tasks w) (next_block w + 1) = None"

lemma blocking_call_ready:
  assumes "caller_ready m e ml w" "browser_ready b eb mlb w" "b \<noteq> m" "cb = script_callbacks npn waits classes now other"
    and "call_turns cb now tks"
    and "run_ptac npn now t (next_block w) (at_work m e ml b eb mlb t (mk m (ml_depth ml + 1)) w) =
        Some (put_res m (waiting e ml [quit_request now (ml_depth ml + 1)] []) wD)"
      "ht_lookup (res_tbl wD) m \<noteq> None" "ht_lookup (res_tbl wD) b = Some (waiting eb mlb [] [])"
  shows "blocking_call cb tks now t mk w = Some (next_block w, Returned PP_OK
    (put_res m e (put_res b eb (wD\<lparr>browser_tasks := ht_remove (next_block w + 1) (browser_tasks wD),
      this_thread_message_loop := m\<rparr>))))"
proof -
  from assms(5) obtain tk1 tk2 tk3 tk4 rest tk5 tk6 rest' where tks: "tks = tk1 # tk2 # tk3 # tk4 # rest"
    "\<And>w. tk_others tk1 w = w" "\<And>w. tk_others tk3 w = browser_step cb (tk5 # tk6 # rest') w"
    "\<And>ccb r. task_timeout (posted now ccb r) (tk_now tk2) \<le> 0" "task_timeout (quit_request now 0) (tk_now tk4) \<le> 0"
    "\<And>ccb r. task_timeout (posted now ccb r) (tk_now tk5) \<le> 0"
    unfolding call_turns_def by blast
  show ?thesis
    by (rule blocking_call_answers [where npn = npn and waits = waits and classes = classes and other = other and
        ?tk1.0 = tk1 and ?tk2.0 = tk2 and ?tk3.0 = tk3 and ?tk4.0 = tk4 and ?tk5.0 = tk5 and ?tk6.0 = tk6 and
        rest = rest and rest' = rest' and e = e and ml = ml and mlb = mlb])
      (use assms tks in \<open>simp_all add: caller_ready_def browser_ready_def\<close>)
qed

lemma at_work_simps [simp]:
  "ht_lookup (np_params (at_work m e ml b eb mlb t x w)) (next_block w) = Some x"
  "ht_lookup (res_tbl (at_work m e ml b eb mlb t x w)) b = Some (waiting eb mlb [] [])"
  "b \<noteq> m \<Longrightarrow> ht_lookup (res_tbl (at_work m e ml b eb mlb t x w)) m = Some (waiting e ml [] [])"
  "var_ht (at_work m e ml b eb mlb t x w) = var_ht w" "npobj_to_npp_ht (at_work m e ml b eb mlb t x w) = npobj_to_npp_ht w"
  "var_id (at_work m e ml b eb mlb t x w) = var_id w" "pp_to_np_ht (at_work m e ml b eb mlb t x w) = pp_to_np_ht w"
  "np_proxies (at_work m e ml b eb mlb t x w) = np_proxies w" "np_sys (at_work m e ml b eb mlb t x w) = np_sys w"
  by (simp_all add: at_work_def put_res_def)

text \<open>
  What the work may change: variables, the table of objects, and the browser's own state. The rest of
  the state is as before when the call is over.
\<close>

definition worked ::
  "(u32, var_s) hash_table \<Rightarrow> u32 \<Rightarrow> (ptr, ptr) hash_table \<Rightarrow> 'b \<Rightarrow> 'b np_world \<Rightarrow> 'b np_world" where
  "worked vars i objs s w = w\<lparr>var_ht := vars, var_id := i, npobj_to_npp_ht := objs, np_sys := s\<rparr>"

lemma work_undone:
  assumes "caller_ready m e ml w" "browser_ready b eb mlb w" "b \<noteq> m" "fresh_blocks w" "cb = script_callbacks npn waits classes now other"
    and "call_turns cb now tks"
    and "run_ptac npn now t (next_block w) (at_work m e ml b eb mlb t (mk m (ml_depth ml + 1)) w) =
        quit_depth now m (ml_depth ml + 1) (set_param (next_block w) x'
          (worked vars i objs s (at_work m e ml b eb mlb t (mk m (ml_depth ml + 1)) w)))"
    and "sel x' = Some r"
  shows "do { x \<leftarrow> blocking_call cb tks now t mk w; take_answer sel x } =
    Some (Answered r (worked vars i objs s (w\<lparr>next_block := next_block w + 2\<rparr>)))"
proof -
  let ?W = "at_work m e ml b eb mlb t (mk m (ml_depth ml + 1)) w"
  let ?wD = "set_param (next_block w) x' (worked vars i objs s ?W)"
  have e: "r_resource_type e = PP_RESOURCE_MESSAGE_LOOP" "\<not> r_locked e" "0 < r_ref_cnt e"
    "ht_lookup (res_tbl w) m = Some e" "ht_lookup (res_tbl w) b = Some eb" "this_thread_message_loop w = m"
    using assms(1,2) by (simp_all add: caller_ready_def browser_ready_def available_def)
  have look: "ht_lookup (res_tbl ?wD) m = Some (waiting e ml [] [])" "ht_lookup (res_tbl ?wD) b = Some (waiting eb mlb [] [])"
    using assms(3) by (simp_all add: set_param_def worked_def)
  have "run_ptac npn now t (next_block w) ?W = Some (put_res m (waiting e ml [quit_request now (ml_depth ml + 1)] []) ?wD)"
    using assms(7) quit_depth_posts [OF look(1) e(1-3)] by simp
  from blocking_call_ready [where mk = mk and t = t and wD = ?wD, OF assms(1-3,5,6) this] look
  have call: "blocking_call cb tks now t mk w = Some (next_block w, Returned PP_OK
    (put_res m e (put_res b eb (?wD\<lparr>browser_tasks := ht_remove (next_block w + 1) (browser_tasks ?wD),
      this_thread_message_loop := m\<rparr>))))" by simp
  have "free_param (next_block w) (put_res m e (put_res b eb (?wD\<lparr>browser_tasks := ht_remove (next_block w + 1) (browser_tasks ?wD),
      this_thread_message_loop := m\<rparr>))) = worked vars i objs s (w\<lparr>next_block := next_block w + 2\<rparr>)"
    using e(4-6) assms(3,4) by (simp add: at_work_def free_param_def set_param_def put_res_def fresh_blocks_def
      ht_remove_absent ht_insert_commute ht_insert_same worked_def)
  moreover have "ht_lookup (np_params (put_res m e (put_res b eb (?wD\<lparr>browser_tasks := ht_remove (next_block w + 1) (browser_tasks ?wD),
      this_thread_message_loop := m\<rparr>)))) (next_block w) = Some x'"
    by (simp add: put_res_def set_param_def)
  ultimately show ?thesis using assms(8) by (simp add: call take_answer_def)
qed

lemma var_text_at_work [simp]: "var_text v (at_work m e ml b eb mlb t x w) = var_text v w"
  by (simp add: var_text_def ppb_var_var_to_utf8_def get_var_s_def split: PP_Var.splits)

lemma npp_of_at_work [simp]: "npp_of p (at_work m e ml b eb mlb t x w) = npp_of p w"
  by (simp add: npp_of_def tables_get_npobj_npp_mapping_def)

section \<open>A sample\<close>

definition page_now :: timespec where "page_now = \<lparr>tv_sec = 4, tv_nsec = 0\<rparr>"

definition own_turn :: "'w tick" where
  "own_turn = \<lparr>tk_now = \<lparr>tv_sec = 10, tv_nsec = 0\<rparr>, tk_others = \<lambda>w. w\<rparr>"

definition page_turns :: "'b np_world callbacks \<Rightarrow> 'b np_world tick list" where
  "page_turns cb = [own_turn, own_turn,
     \<lparr>tk_now = \<lparr>tv_sec = 10, tv_nsec = 0\<rparr>, tk_others = browser_step cb [own_turn, own_turn]\<rparr>, own_turn]"

lemma page_turns_ok: "call_turns cb page_now (page_turns cb)"
proof -
  have "due_time page_now 0 = page_now"
    by (simp add: due_time_def page_now_def carry_seconds.simps)
  then show ?thesis
    unfolding call_turns_def
    by (intro exI [of _ own_turn] exI [of _ "[]"] exI [of _ "\<lparr>tk_now = \<lparr>tv_sec = 10, tv_nsec = 0\<rparr>, tk_others = browser_step cb [own_turn, own_turn]\<rparr>"])
      (simp add: page_turns_def own_turn_def task_timeout_def posted_def quit_request_def page_now_def)
qed

text \<open>The browser's own state counts the calls.\<close>

definition page_npn :: "nat npn" where
  "page_npn = \<lparr>npn_getstringidentifier = length, npn_utf8fromidentifier = \<lambda>i. if i = 3 then Some ''abc'' else None,
     npn_hasproperty = \<lambda>_ _ i w. (i = 1, w\<lparr>np_sys := np_sys w + 1\<rparr>),
     npn_getproperty = \<lambda>_ _ _ w. (Some (NPString ''xy'' 2), w\<lparr>np_sys := np_sys w + 1\<rparr>),
     npn_invoke = \<lambda>_ _ _ _ w. (None, w), npn_construct = \<lambda>_ _ _ w. (None, w), npn_evaluate = \<lambda>_ _ _ _ w. (None, w),
     npn_releasevariantvalue = \<lambda>_ w. w\<lparr>np_sys := np_sys w + 10\<rparr>, npn_retainobject = \<lambda>_ w. w\<lparr>np_sys := np_sys w + 100\<rparr>,
     npn_releaseobject = \<lambda>_ w. w, npn_referenceCount = \<lambda>_ _. 1, npn_createobject = \<lambda>_ w. (0, w), npn_memalloc = \<lambda>_ w. (500, w),
     cls_hasMethod = \<lambda>_ _ w. (False, w), cls_invoke = \<lambda>_ _ _ w. ((False, None), w), cls_hasProperty = \<lambda>_ _ w. (False, w),
     cls_getProperty = \<lambda>_ _ w. ((False, None), w), cls_enumerate = \<lambda>_ c w. ((False, c, 0), w)\<rparr>"

definition page_cb :: "nat np_world callbacks" where
  "page_cb = script_callbacks page_npn \<lparr>wt_create_np_object = \<lambda>w. (0, w), wt_retain_np_object = \<lambda>_ w. w\<rparr>
     (\<lambda>_. \<lparr>HasProperty = None, HasMethod = None, GetProperty = None, GetAllPropertyNames = None, SetProperty = None,
        RemoveProperty = None, Call = None, Construct = None\<rparr>) page_now (\<lambda>_ _ w. Some w)"

text \<open>Loop 1 is the caller's, loop 2 the browser's.\<close>

definition a_loop :: "bool \<Rightarrow> int \<Rightarrow> pp_message_loop_s" where
  "a_loop running depth = \<lparr>ml_async_q = [], ml_int_q = [], ml_running = running, ml_teardown = False, ml_depth = depth\<rparr>"

definition a_loop_entry :: "PP_Resource \<Rightarrow> pp_message_loop_s \<Rightarrow> pp_resource_s" where
  "a_loop_entry r ml = \<lparr>r_resource_type = PP_RESOURCE_MESSAGE_LOOP, r_ref_cnt = 1, r_instance = Some 10,
     r_self_id = r, r_locked = False, r_payload = PL_message_loop ml\<rparr>"

definition page_world :: "nat np_world" where
  "page_world = \<lparr>var_ht = [(5, \<lparr>vs_var = VString 5, vs_ref_count = 1, vs_body = VB_Str 1 [CHR ''a'', NUL]\<rparr>)], var_id = 5,
     np_released = [], np_retained = [], res_tbl = [(1, a_loop_entry 1 (a_loop True 1)), (2, a_loop_entry 2 (a_loop False 0))],
     res_tbl_next = 3, destructors_ht = [], closed_fds = [], net_tasks = [], tasks_ht = [], next_task = 1,
     pp_to_np_ht = [(10, sample_instance)], npobj_to_npp_ht = [(77, 99)], next_instance_id = 11,
     main_thread_message_loop = 1, browser_thread_message_loop = 2, this_thread_message_loop = 1,
     thread_is_not_suitable_for_message_loop = False, np_params = [], browser_tasks = [], next_block = 1000,
     np_proxies = [(88, \<lparr>po_reference_count = 1, po_ppobj = VUndefined\<rparr>)], np_sys = 0\<rparr>"

lemma page_ready:
  "caller_ready 1 (a_loop_entry 1 (a_loop True 1)) (a_loop True 1) page_world"
  "browser_ready 2 (a_loop_entry 2 (a_loop False 0)) (a_loop False 0) page_world" "fresh_blocks page_world"
  by (simp_all add: caller_ready_def browser_ready_def fresh_blocks_def available_def page_world_def a_loop_entry_def a_loop_def)

lemma page_simps [simp]:
  "var_text (VString 5) page_world = Some ''a''" "npp_of 77 page_world = 99" "next_block page_world = 1000"
  "np_sys page_world = 0" "length (var_ht page_world) = 1" "tables_get_pp_instance 10 page_world = Some sample_instance"
  by (simp_all add: page_world_def var_text_def ppb_var_var_to_utf8_def get_var_s_def npp_of_def
    tables_get_npobj_npp_mapping_def tables_get_pp_instance_def c_str_def NUL_def)

section \<open>Calls to the page\<close>

text \<open>
  C16: A plugin thread that asks an object of the page for a property waits in a nested loop while the
  browser's thread asks the browser, and the call returns the browser's answer: nothing stays posted,
  no block stays allocated, and the state of the program is what it was but for the browser's own
  part. Both loops are back at their depth and their reference counts.
\<close>

theorem n2p_has_property_answers:
  assumes "caller_ready m e ml w" "browser_ready b eb mlb w" "b \<noteq> m" "fresh_blocks w"
    and "cb = script_callbacks npn waits classes now other" "call_turns cb now tks"
    and "name = VString i" "var_text name w = Some s" "npp_of object w = npp" "npp \<noteq> 0"
    and "\<And>w. npn_hasproperty npn npp object (npn_getstringidentifier npn s) w = (has (np_sys w), w\<lparr>np_sys := after (np_sys w)\<rparr>)"
  shows "n2p_has_property cb tks now object name w =
    Some (Answered (has (np_sys w)) (w\<lparr>next_block := next_block w + 2, np_sys := after (np_sys w)\<rparr>))"
proof -
  let ?mk = "\<lambda>m_loop depth. P_has_property \<lparr>hp_name = name, hp_object = object, hp_result = None,
    hp_m_loop = m_loop, hp_depth = depth\<rparr>"
  let ?W = "at_work m e ml b eb mlb N2p_has_property_ptac (?mk m (ml_depth ml + 1)) w"
  let ?x = "P_has_property \<lparr>hp_name = name, hp_object = object, hp_result = Some (has (np_sys w)),
    hp_m_loop = m, hp_depth = ml_depth ml + 1\<rparr>"
  have same: "worked (var_ht w) (var_id w) (npobj_to_npp_ht w) (after (np_sys w)) ?W = ?W\<lparr>np_sys := after (np_sys w)\<rparr>"
    by (simp add: worked_def at_work_def put_res_def)
  have "run_ptac npn now N2p_has_property_ptac (next_block w) ?W = quit_depth now m (ml_depth ml + 1)
      (set_param (next_block w) ?x (worked (var_ht w) (var_id w) (npobj_to_npp_ht w) (after (np_sys w)) ?W))"
    unfolding same using assms(8-11) by (simp add: run_ptac.simps)
  from work_undone [where mk = ?mk and x' = ?x and sel = hp_answer, OF assms(1-6) this] show ?thesis
    using assms(7) by (simp add: n2p_has_property_def worked_def)
qed


theorem n2p_has_property_answers_witness:
  "n2p_has_property page_cb (page_turns page_cb) page_now 77 (VString 5) page_world =
    Some (Answered True (page_world\<lparr>next_block := 1002, np_sys := 1\<rparr>))"
  using n2p_has_property_answers [OF page_ready(1,2) _ page_ready(3) page_cb_def page_turns_ok refl, where i = 5 and
    s = "''a''" and object = 77 and npp = 99 and has = "\<lambda>_. True" and after = Suc]
  by (simp add: page_npn_def)

text \<open>
  The value of a property that is a text becomes a new string variable of the plugin with the
  bytes the browser gave; the variant is released, and nothing else of the program's state differs.
\<close>

theorem n2p_get_property_text:
  assumes "caller_ready m e ml w" "browser_ready b eb mlb w" "b \<noteq> m" "fresh_blocks w"
    and "cb = script_callbacks npn waits classes now other" "call_turns cb now tks"
    and "name = VString i" "var_text name w = Some s" "npp_of object w = npp" "npp \<noteq> 0"
    and "\<And>w. npn_getproperty npn npp object (npn_getstringidentifier npn s) w =
        (Some (NPString d len), w\<lparr>np_sys := got (np_sys w)\<rparr>)"
    and "\<And>w. npn_releasevariantvalue npn (NPString d len) w = w\<lparr>np_sys := released (np_sys w)\<rparr>"
    and "length d = unat len" "len + 1 \<noteq> 0" "length (var_ht w) < 2 ^ 32"
  shows "\<exists>j. ht_lookup (var_ht w) j = None \<and> n2p_get_property cb tks now object name w =
    Some (Answered (VString j) (w\<lparr>next_block := next_block w + 2, np_sys := released (got (np_sys w)), var_id := j,
      var_ht := ht_insert j \<lparr>vs_var = VString j, vs_ref_count = 1, vs_body = VB_Str len (d @ [NUL])\<rparr> (var_ht w)\<rparr>))"
proof -
  obtain j where j: "get_new_var_id (var_ht w) (var_id w) = Some j" using get_new_var_id_total assms(15) by blast
  let ?s = "\<lparr>vs_var = VString j, vs_ref_count = 1, vs_body = VB_Str len (d @ [NUL])\<rparr>"
  let ?after = "released (got (np_sys w))"
  let ?mk = "\<lambda>m_loop depth. P_get_property \<lparr>gp_object = object, gp_name = name, gp_result = None,
    gp_m_loop = m_loop, gp_depth = depth\<rparr>"
  let ?W = "at_work m e ml b eb mlb N2p_get_property_ptac (?mk m (ml_depth ml + 1)) w"
  let ?x = "P_get_property \<lparr>gp_object = object, gp_name = name, gp_result = Some (VString j),
    gp_m_loop = m, gp_depth = ml_depth ml + 1\<rparr>"
  have same: "worked (ht_insert j ?s (var_ht w)) j (npobj_to_npp_ht w) ?after ?W =
      ?W\<lparr>var_id := j, var_ht := ht_insert j ?s (var_ht w), np_sys := ?after\<rparr>"
    by (simp add: worked_def at_work_def put_res_def)
  have "run_ptac npn now N2p_get_property_ptac (next_block w) ?W = quit_depth now m (ml_depth ml + 1)
      (set_param (next_block w) ?x (worked (ht_insert j ?s (var_ht w)) j (npobj_to_npp_ht w) ?after ?W))"
    unfolding same using assms(8-14) j
    by (simp add: run_ptac.simps take_np_result_def np_variant_to_pp_var_def ppb_var_var_from_utf8_def
      var_register_def Let_def)
  from work_undone [where mk = ?mk and x' = ?x and sel = var_answer, OF assms(1-6) this]
  have "n2p_get_property cb tks now object name w = Some (Answered (VString j) (w\<lparr>next_block := next_block w + 2,
      np_sys := ?after, var_id := j, var_ht := ht_insert j ?s (var_ht w)\<rparr>))"
    using assms(7) by (simp add: n2p_get_property_def worked_def)
  then show ?thesis using get_new_var_id_fresh [OF j] by blast
qed

theorem n2p_get_property_text_witness:
  "\<exists>j. ht_lookup (var_ht page_world) j = None \<and> n2p_get_property page_cb (page_turns page_cb) page_now 77 (VString 5) page_world =
    Some (Answered (VString j) (page_world\<lparr>next_block := 1002, np_sys := 11, var_id := j,
      var_ht := ht_insert j \<lparr>vs_var = VString j, vs_ref_count = 1, vs_body = VB_Str 2 (''xy'' @ [NUL])\<rparr> (var_ht page_world)\<rparr>))"
  using n2p_get_property_text [OF page_ready(1,2) _ page_ready(3) page_cb_def page_turns_ok refl, where i = 5 and
    s = "''a''" and object = 77 and npp = 99 and d = "''xy''" and len = 2 and got = Suc and released = "\<lambda>n. n + 10"]
  by (simp add: page_npn_def)

text \<open>
  The window of an instance: the browser's object is retained and a new variable of the class of
  browser objects stands for it.
\<close>

theorem window_object_is_wrapped:
  assumes "caller_ready m e ml w" "browser_ready b eb mlb w" "b \<noteq> m" "fresh_blocks w"
    and "cb = script_callbacks npn waits classes now other" "call_turns cb now tks"
    and "tables_get_pp_instance inst w = Some pp_i"
    and "\<And>w. npn_retainobject npn (pi_np_window_obj pp_i) w = w\<lparr>np_sys := retained (np_sys w)\<rparr>"
    and "length (var_ht w) < 2 ^ 32"
  shows "\<exists>j. ht_lookup (var_ht w) j = None \<and> ppb_instance_get_window_object cb tks now inst w =
    Some (Answered (VObject j) (w\<lparr>next_block := next_block w + 2, np_sys := retained (np_sys w), var_id := j,
      var_ht := ht_insert j \<lparr>vs_var = VObject j, vs_ref_count = 1,
        vs_body = VB_Obj Class_n2p_proxy (pi_np_window_obj pp_i)\<rparr> (var_ht w)\<rparr>))"
proof -
  obtain j where j: "get_new_var_id (var_ht w) (var_id w) = Some j" using get_new_var_id_total assms(9) by blast
  let ?s = "\<lparr>vs_var = VObject j, vs_ref_count = 1, vs_body = VB_Obj Class_n2p_proxy (pi_np_window_obj pp_i)\<rparr>"
  let ?mk = "\<lambda>m_loop depth. P_get_window_object \<lparr>gw_instance = inst, gw_result = None,
    gw_m_loop = m_loop, gw_depth = depth\<rparr>"
  let ?W = "at_work m e ml b eb mlb Get_window_object_ptac (?mk m (ml_depth ml + 1)) w"
  let ?x = "P_get_window_object \<lparr>gw_instance = inst, gw_result = Some (VObject j),
    gw_m_loop = m, gw_depth = ml_depth ml + 1\<rparr>"
  have same: "worked (ht_insert j ?s (var_ht w)) j (npobj_to_npp_ht w) (retained (np_sys w)) ?W =
      ?W\<lparr>np_sys := retained (np_sys w), var_id := j, var_ht := ht_insert j ?s (var_ht w)\<rparr>"
    by (simp add: worked_def at_work_def put_res_def)
  have inst: "tables_get_pp_instance inst ?W = Some pp_i" using assms(7) by (simp add: tables_get_pp_instance_def)
  have "run_ptac npn now Get_window_object_ptac (next_block w) ?W = quit_depth now m (ml_depth ml + 1)
      (set_param (next_block w) ?x (worked (ht_insert j ?s (var_ht w)) j (npobj_to_npp_ht w) (retained (np_sys w)) ?W))"
    unfolding same using assms(8) inst j by (simp add: run_ptac.simps ppb_var_create_object_def var_register_def Let_def)
  from work_undone [where mk = ?mk and x' = ?x and sel = var_answer, OF assms(1-6) this]
  have "ppb_instance_get_window_object cb tks now inst w = Some (Answered (VObject j) (w\<lparr>next_block := next_block w + 2,
      np_sys := retained (np_sys w), var_id := j, var_ht := ht_insert j ?s (var_ht w)\<rparr>))"
    by (simp add: ppb_instance_get_window_object_def worked_def)
  then show ?thesis using get_new_var_id_fresh [OF j] by blast
qed

theorem window_object_is_wrapped_witness:
  "\<exists>j. ht_lookup (var_ht page_world) j = None \<and> ppb_instance_get_window_object page_cb (page_turns page_cb) page_now 10 page_world =
    Some (Answered (VObject j) (page_world\<lparr>next_block := 1002, np_sys := 100, var_id := j,
      var_ht := ht_insert j \<lparr>vs_var = VObject j, vs_ref_count = 1,
        vs_body = VB_Obj Class_n2p_proxy (pi_np_window_obj sample_instance)\<rparr> (var_ht page_world)\<rparr>))"
  using window_object_is_wrapped [OF page_ready(1,2) _ page_ready(3) page_cb_def page_turns_ok, where inst = 10 and
    pp_i = sample_instance and retained = "\<lambda>n. n + 100"]
  by (simp add: page_npn_def)

section \<open>What goes wrong in the other direction\<close>

text \<open>
  Enumerating the properties of an object of the plugin never gives the page a list. With one
  name, the address of the new block is overwritten by the identifier itself; with two or more, the
  code writes past the caller's pointer.
\<close>

theorem p2n_enumerate_clobbers:
  assumes "is_p2n_object npobj w"
    and "plugin_call cb tks now P2n_enumerate_comt (\<lambda>m_loop depth. P_p2n_enumerate \<lparr>pe_npobj = npobj,
        pe_values = None, pe_result = None, pe_m_loop = m_loop, pe_depth = depth\<rparr>) w = Some (p, Returned rc w1)"
    and "ht_lookup (np_params w1) p = Some (P_p2n_enumerate q)" "pe_result q = Some True" "pe_values q = Some (v # vs)"
    and "npn_memalloc npn (length (v # vs) * sizeof_NPIdentifier) (free_param p w1) = (block, w2)"
    and "var_ht w2 = var_ht w1" "ppb_var_var_to_utf8 v w1 = Some (s, len)" "len + 1 \<noteq> 0"
  shows "p2n_enumerate npn cb tks now npobj cell w =
    (if vs = [] then Some (Answered (True, npn_getstringidentifier npn (c_str (take (unat len) s @ [NUL])), 1) w2)
     else None)"
proof -
  have "ppb_var_var_to_utf8 v w2 = Some (s, len)"
    using assms(7,8) by (simp add: ppb_var_var_to_utf8_def get_var_s_def split: PP_Var.splits)
  then show ?thesis
    using assms by (cases vs; cases "ppb_var_var_to_utf8 (hd vs) w2") (auto simp: p2n_enumerate_def take_answer_def)
qed


text \<open>The browser's thread waits, and the plugin's main thread answers with one name.\<close>

definition asked_world :: "nat np_world" where
  "asked_world = page_world\<lparr>this_thread_message_loop := 2, res_tbl := [(2, a_loop_entry 2 (a_loop True 1))]\<rparr>"

definition names_param :: "PP_Var list option \<Rightarrow> bool option \<Rightarrow> np_param" where
  "names_param vs r = P_p2n_enumerate \<lparr>pe_npobj = 88, pe_values = vs, pe_result = r, pe_m_loop = 2, pe_depth = 2\<rparr>"

definition names_turns :: "nat np_world tick list" where
  "names_turns = [own_turn, own_turn, \<lparr>tk_now = page_now, tk_others = \<lambda>w. the (quit_depth page_now 2 2
     (set_param 1000 (names_param (Some [VString 5]) (Some True)) w))\<rparr>, own_turn]"

lemma names_call:
  "plugin_call (\<lambda>_ _ w. Some w) names_turns page_now P2n_enumerate_comt (\<lambda>m_loop depth. P_p2n_enumerate
     \<lparr>pe_npobj = 88, pe_values = None, pe_result = None, pe_m_loop = m_loop, pe_depth = depth\<rparr>) asked_world =
   Some (1000, Returned PP_OK (asked_world\<lparr>next_block := 1001,
     np_params := [(1000, names_param (Some [VString 5]) (Some True))]\<rparr>))"
proof -
  let ?e = "a_loop_entry 2 (a_loop True 1)" and ?ml = "a_loop True 1"
  let ?w1 = "asked_world\<lparr>next_block := 1001, np_params := [(1000, names_param None None)]\<rparr>"
  let ?w2 = "put_res 2 (waiting ?e ?ml [] []) ?w1"
  let ?wD = "set_param 1000 (names_param (Some [VString 5]) (Some True)) ?w2"
  let ?ccb = "\<lparr>ccb_func = comt_address (Prepare_comt P2n_enumerate_comt), ccb_user_data = 1000, ccb_flags = 0\<rparr>"
  have now: "due_time page_now 0 = page_now" by (simp add: due_time_def page_now_def carry_seconds.simps)
  have av: "available 2 PP_RESOURCE_MESSAGE_LOOP ?w1 ?e"
    by (simp add: available_def asked_world_def a_loop_entry_def)
  have av0: "available 2 PP_RESOURCE_MESSAGE_LOOP asked_world ?e"
    by (simp add: available_def asked_world_def a_loop_entry_def)
  have q: "quit_depth page_now 2 2 ?wD = Some (put_res 2 (waiting ?e ?ml [quit_request page_now 2] []) ?wD)"
    by (rule quit_depth_posts) (simp_all add: set_param_def a_loop_entry_def)
  have "post_and_wait (\<lambda>_ _ w. Some w) names_turns page_now 2 ?ccb 0 ?w1 =
      Some (Returned PP_OK (put_res 2 ?e (put_res 2 (waiting ?e ?ml [quit_request page_now 2] []) ?wD)))"
    by (rule post_and_wait_returns [OF av, where ml = ?ml and ?w2.0 = ?w2 and later = page_now and ?tk1.0 = own_turn and ?tk2.0 = own_turn and
        ?tk3.0 = "names_turns ! 2" and ?tk4.0 = own_turn and rest = "[]"])
      (use q in \<open>simp_all add: asked_world_def a_loop_entry_def a_loop_def names_turns_def own_turn_def page_now_def task_timeout_def
        posted_def quit_request_def now [unfolded page_now_def]\<close>)
  then show ?thesis
    using nested_depth_available [OF av0, of ?ml]
    by (simp add: plugin_call_def new_param_def names_param_def ppb_message_loop_get_for_browser_thread_def Let_def
      put_res_def set_param_def) (simp add: asked_world_def page_world_def a_loop_entry_def a_loop_def)
qed

theorem p2n_enumerate_clobbers_witness:
  "p2n_enumerate page_npn (\<lambda>_ _ w. Some w) names_turns page_now 88 0 asked_world =
    Some (Answered (True, 1, 1) (asked_world\<lparr>next_block := 1001, np_params := []\<rparr>))"
  by (subst p2n_enumerate_clobbers [OF _ names_call, where v = "VString 5" and vs = "[]" and block = 500 and
      ?w2.0 = "asked_world\<lparr>next_block := 1001, np_params := []\<rparr>" and s = "[CHR ''a'', NUL]" and len = 1 and
      q = "\<lparr>pe_npobj = 88, pe_values = Some [VString 5], pe_result = Some True, pe_m_loop = 2, pe_depth = 2\<rparr>"])
    (simp_all add: asked_world_def page_world_def is_p2n_object_def names_param_def page_npn_def free_param_def
      ppb_var_var_to_utf8_def get_var_s_def c_str_def NUL_def)

text \<open>
  When the page reads a property of an object of the plugin, the name is made into a string
  variable that is never released; asking whether there is such a property releases it.
\<close>

theorem p2n_get_property_leaks_name:
  assumes "ht_lookup (np_proxies w) npobj = Some obj" "po_ppobj obj = VObject o'" "object_of (VObject o') w = Some (c, d)"
    and "GetProperty (classes c) = Some get" "\<And>name w. get d name w = (VInt32 n, w)"
    and "HasProperty (classes c) = Some has" "\<And>name w. has d name w = (True, w)"
    and "pg_npobj p = npobj" "pg_name p = Some s" "ph_npobj q = npobj" "ph_name q = Some s"
    and "length (c_str s) < 2 ^ 32 - 1" "length (var_ht w) < 2 ^ 32"
  shows "\<exists>j str. ht_lookup (var_ht w) j = None \<and> o' \<noteq> j \<and>
    p2n_has_property_comt classes now a q w = quit_depth now (ph_m_loop q) (ph_depth q)
      (set_param a (P_p2n_has (q\<lparr>ph_result := Some True\<rparr>)) (w\<lparr>var_id := j\<rparr>)) \<and>
    p2n_get_property_comt waits classes now a p w = quit_depth now (pg_m_loop p) (pg_depth p)
      (set_param a (P_p2n_get_property (p\<lparr>pg_result := Some True, pg_np_result := Some (NPInt32 n)\<rparr>))
        (w\<lparr>var_id := j, var_ht := ht_insert j \<lparr>vs_var = VString j, vs_ref_count = 1, vs_body = str\<rparr> (var_ht w)\<rparr>))"
proof -
  obtain j where j: "get_new_var_id (var_ht w) (var_id w) = Some j" using get_new_var_id_total assms(13) by blast
  have new: "ht_lookup (var_ht w) j = None" by (rule get_new_var_id_fresh [OF j])
  have o': "ht_lookup (var_ht w) o' \<noteq> None"
    using assms(3) by (auto simp: object_of_def get_var_s_def split: bind_splits)
  then have ne: "o' \<noteq> j" using new by auto
  let ?len = "word_of_nat (length (c_str s)) :: u32"
  let ?str = "VB_Str ?len (c_str s @ [NUL])"
  let ?w = "w\<lparr>var_id := j, var_ht := ht_insert j \<lparr>vs_var = VString j, vs_ref_count = 1, vs_body = ?str\<rparr> (var_ht w)\<rparr>"
  have len: "unat ?len = length (c_str s)" using assms(12) by (simp add: unsigned_of_nat take_bit_nat_eq_self)
  have "?len + 1 \<noteq> 0"
  proof
    assume "?len + 1 = 0"
    then have "unat (?len + 1) = 0" by simp
    then show False using assms(12) by (simp add: unat_word_ariths len)
  qed
  with len have mk: "ppb_var_var_from_utf8_z (Some s) w = Some (VString j, ?w)"
    using j len by (simp add: ppb_var_var_from_utf8_z_def ppb_var_var_from_utf8_def var_register_def Let_def)
  have obj: "object_of (VObject o') ?w = Some (c, d)"
    using assms(3) ne by (simp add: object_of_def get_var_s_def)
  have rel: "release_vars [VString j] (set_param a x ?w) = Some (set_param a x (w\<lparr>var_id := j\<rparr>))" for x
    using new by (simp add: get_var_s_def set_param_def ht_remove_absent)
  have has: "p2n_has_property_comt classes now a q w = quit_depth now (ph_m_loop q) (ph_depth q)
      (set_param a (P_p2n_has (q\<lparr>ph_result := Some True\<rparr>)) (w\<lparr>var_id := j\<rparr>))"
    using assms mk obj rel by (simp add: p2n_has_property_comt_def ppb_var_has_property_def ppb_var_release_def)
  have get: "p2n_get_property_comt waits classes now a p w = quit_depth now (pg_m_loop p) (pg_depth p)
      (set_param a (P_p2n_get_property (p\<lparr>pg_result := Some True, pg_np_result := Some (NPInt32 n)\<rparr>)) ?w)"
    using assms mk obj by (simp add: p2n_get_property_comt_def ppb_var_get_property_def ppb_var_release_def
      to_np_variant_def pp_var_to_np_variant_with_def is_foreign_object_def pp_var_to_np_variant_def set_ppobj_def)
  from new ne has get show ?thesis by blast
qed

definition object_world :: "nat np_world" where
  "object_world = page_world\<lparr>var_ht := [(6, \<lparr>vs_var = VObject 6, vs_ref_count = 1, vs_body = VB_Obj (Class_other 7) 70\<rparr>)],
    np_proxies := [(88, \<lparr>po_reference_count = 1, po_ppobj = VObject 6\<rparr>)]\<rparr>"

definition object_class :: "obj_class \<Rightarrow> nat np_world PPP_Class_Deprecated" where
  "object_class c = \<lparr>HasProperty = Some (\<lambda>_ _ w. (True, w)), HasMethod = None, GetProperty = Some (\<lambda>_ _ w. (VInt32 3, w)),
     GetAllPropertyNames = None, SetProperty = None, RemoveProperty = None, Call = None, Construct = None\<rparr>"

definition object_query :: p2n_get_property_param_s where
  "object_query = \<lparr>pg_npobj = 88, pg_name = Some ''abc'', pg_np_result = None, pg_result = None, pg_m_loop = 2, pg_depth = 1\<rparr>"

theorem p2n_get_property_leaks_name_witness:
  "\<exists>j str. ht_lookup (var_ht object_world) j = None \<and>
    p2n_get_property_comt \<lparr>wt_create_np_object = \<lambda>w. (0, w), wt_retain_np_object = \<lambda>_ w. w\<rparr> object_class page_now 1
      object_query object_world =
    quit_depth page_now 2 1 (set_param 1 (P_p2n_get_property (object_query\<lparr>pg_result := Some True, pg_np_result := Some (NPInt32 3)\<rparr>))
      (object_world\<lparr>var_id := j, var_ht := ht_insert j \<lparr>vs_var = VString j, vs_ref_count = 1, vs_body = str\<rparr> (var_ht object_world)\<rparr>))"
proof -
  let ?obj = "\<lparr>po_reference_count = 1, po_ppobj = VObject 6\<rparr>"
  let ?q = "\<lparr>ph_npobj = 88, ph_name = Some ''abc'', ph_m_loop = 2, ph_depth = 1, ph_result = None\<rparr>"
  have "ht_lookup (np_proxies object_world) 88 = Some ?obj" "object_of (VObject 6) object_world = Some (Class_other 7, 70)"
    "length (c_str ''abc'') < 2 ^ 32 - 1" "length (var_ht object_world) < 2 ^ 32"
    by (simp_all add: object_world_def object_of_def get_var_s_def c_str_def NUL_def)
  from p2n_get_property_leaks_name [where p = object_query and q = ?q and get = "\<lambda>_ _ w. (VInt32 3, w)" and classes = object_class and
      a = 1 and now = page_now and waits = "\<lparr>wt_create_np_object = \<lambda>w. (0, w), wt_retain_np_object = \<lambda>_ w. w\<rparr>",
      OF this(1) _ this(2) _ _ _ _ _ _ _ _ this(3,4)]
  show ?thesis by (fastforce simp: object_query_def object_class_def)
qed

end
