(* ===== verification/Graphics2d.thy ===== *)
theory Graphics2d
  imports Plain_Resources Blocking_Call
begin

text \<open>
  \<^verbatim>\<open>ppb_graphics2d.c\<close>: a device with a queue of paint tasks, which \<^verbatim>\<open>ppb_graphics2d_flush\<close> works
  off; the binding of a device to an instance (\<^verbatim>\<open>ppb_instance.c\<close>); and the part of
  \<^verbatim>\<open>np_functions.c\<close> that shows the result and calls the plugin back. Drawing, floating point and
  memory come from outside: \<open>g2d_env\<close>. The pixmaps of the X server that a transparent instance has are
  left out; no state of the program depends on them.
\<close>

section \<open>What comes from outside\<close>

text \<open>
  \<open>ge_scaled\<close> is \<^verbatim>\<open>n * scale + 0.5\<close> converted to \<^verbatim>\<open>int32_t\<close>. \<open>ge_paint\<close> gives the bytes of a surface
  after another was drawn over it at an offset, all of it or a rectangle; \<open>ge_resample\<close> those of a
  target after the source was drawn at a scale.
\<close>

record g2d_env =
  ge_device_scale :: double_bits
  ge_one :: double_bits
  ge_scaled :: "int \<Rightarrow> double_bits \<Rightarrow> int"
  ge_times :: "double_bits \<Rightarrow> double_bits \<Rightarrow> double_bits"
  ge_can_alloc :: "nat \<Rightarrow> bool"
  ge_paint :: "cairo_surface \<Rightarrow> char list \<Rightarrow> cairo_surface \<Rightarrow> char list \<Rightarrow> int \<times> int \<Rightarrow> (int \<times> int \<times> int \<times> int) option \<Rightarrow> char list"
  ge_resample :: "cairo_surface \<Rightarrow> char list \<Rightarrow> double_bits \<Rightarrow> cairo_surface \<Rightarrow> char list \<Rightarrow> char list"

definition int_plus :: "int \<Rightarrow> int \<Rightarrow> int option" where
  "int_plus a b = (if - 2147483648 \<le> a + b \<and> a + b \<le> INT_MAX then Some (a + b) else None)"

fun the_graphics2d :: "payload \<Rightarrow> pp_graphics2d_s option" where
  "the_graphics2d (PL_graphics2d g2d) = Some g2d"
| "the_graphics2d _ = None"

text \<open>Instances are shared by pointer; here by their identifier. A change of the one behind \<open>pp_i\<close>.\<close>

definition change_instance :: "PP_Instance \<Rightarrow> (pp_instance_s \<Rightarrow> pp_instance_s) \<Rightarrow> 'a world_scheme \<Rightarrow> 'a world_scheme" where
  "change_instance i f w =
     (case ht_lookup (pp_to_np_ht w) i of
        None \<Rightarrow> w
      | Some pp_i \<Rightarrow> w\<lparr>pp_to_np_ht := ht_insert i (f pp_i) (pp_to_np_ht w)\<rparr>)"

section \<open>Devices\<close>

text \<open>The scaled size; the products are of \<^verbatim>\<open>int\<close>s.\<close>

definition set_scaled :: "g2d_env \<Rightarrow> pp_graphics2d_s \<Rightarrow> (pp_graphics2d_s \<times> int) option" where
  "set_scaled env g2d = do {
     let sw = ge_scaled env (g2_width g2d) (g2_scale g2d);
     let sh = ge_scaled env (g2_height g2d) (g2_scale g2d);
     stride \<leftarrow> int_mult 4 sw;
     n \<leftarrow> int_mult stride sh;
     Some (g2d\<lparr>g2_scaled_width := sw, g2_scaled_height := sh, g2_scaled_stride := stride\<rparr>, n)
   }"

definition ppb_graphics2d_create ::
  "g2d_env \<Rightarrow> PP_Instance \<Rightarrow> PP_Size \<Rightarrow> bool \<Rightarrow> 'a world_scheme \<Rightarrow> (PP_Resource \<times> 'a world_scheme) option" where
  "ppb_graphics2d_create env instance sz is_always_opaque w =
     (case tables_get_pp_instance instance w of
        None \<Rightarrow> Some (0, w)
      | Some pp_i \<Rightarrow> do {
          (graphics_2d, w) \<leftarrow> pp_resource_allocate PP_RESOURCE_GRAPHICS2D (Some (pi_id pp_i)) w;
          (g, w) \<leftarrow> pp_resource_acquire graphics_2d PP_RESOURCE_GRAPHICS2D w;
          (case g of
             None \<Rightarrow> Some (0, w)
           | Some gr \<Rightarrow> do {
               g2d \<leftarrow> the_graphics2d (r_payload gr);
               stride \<leftarrow> int_mult 4 (sz_width sz);
               n \<leftarrow> int_mult stride (sz_height sz);
               let g2d = g2d\<lparr>g2_is_always_opaque := is_always_opaque, g2_scale := ge_device_scale env,
                 g2_external_scale := ge_one env, g2_width := sz_width sz, g2_height := sz_height sz,
                 g2_stride := stride\<rparr>;
               (g2d, sn) \<leftarrow> set_scaled env g2d;
               let data = calloc (ge_can_alloc env) n;
               let second_buffer = calloc (ge_can_alloc env) sn;
               (if data = None \<or> second_buffer = None then do {
                  let w = res_write graphics_2d (PL_graphics2d (g2d\<lparr>g2_data := None, g2_second_buffer := None\<rparr>)) w;
                  w \<leftarrow> pp_resource_release graphics_2d w;
                  w \<leftarrow> ppb_core_release_resource graphics_2d w;
                  Some (0, w)
                }
                else do {
                  let w = res_write graphics_2d (PL_graphics2d (g2d\<lparr>g2_data := data, g2_second_buffer := second_buffer,
                    g2_cairo_surf := Some \<lparr>sf_width = g2_width g2d, sf_height = g2_height g2d, sf_stride = g2_stride g2d\<rparr>,
                    g2_task_list := []\<rparr>)) w;
                  w \<leftarrow> pp_resource_release graphics_2d w;
                  Some (graphics_2d, w)
                })
             })
        })"

definition ppb_graphics2d_is_graphics2d :: "PP_Resource \<Rightarrow> 'a res_state_scheme \<Rightarrow> bool" where
  "ppb_graphics2d_is_graphics2d resource w \<longleftrightarrow> pp_resource_get_type resource w = PP_RESOURCE_GRAPHICS2D"

text \<open>Not implemented by the code: it answers yes and stores nothing.\<close>

definition ppb_graphics2d_describe :: "PP_Resource \<Rightarrow> bool" where
  "ppb_graphics2d_describe graphics_2d = True"
definition ppb_graphics2d_scroll :: "PP_Resource \<Rightarrow> PP_Rect option \<Rightarrow> PP_Point \<Rightarrow> 'a world_scheme \<Rightarrow> 'a world_scheme" where
  "ppb_graphics2d_scroll graphics_2d clip_rect amount w = w"

section \<open>Queueing\<close>

text \<open>A task keeps a reference to its image, which need not be one.\<close>

definition queue_task :: "PP_Resource \<Rightarrow> g2d_paint_task_s \<Rightarrow> 'a world_scheme \<Rightarrow> 'a world_scheme option" where
  "queue_task graphics_2d pt w = map_option snd (with_resource graphics_2d PP_RESOURCE_GRAPHICS2D ()
     (\<lambda>gr w. do {
        g2d \<leftarrow> the_graphics2d (r_payload gr);
        let w = snd (pp_resource_ref (gpt_image_data pt) w);
        Some ((), res_write graphics_2d (PL_graphics2d (g2d\<lparr>g2_task_list := g2_task_list g2d @ [pt]\<rparr>)) w)
      }) w)"

definition ppb_graphics2d_paint_image_data ::
  "PP_Resource \<Rightarrow> PP_Resource \<Rightarrow> PP_Point option \<Rightarrow> PP_Rect option \<Rightarrow> 'a world_scheme \<Rightarrow> 'a world_scheme option" where
  "ppb_graphics2d_paint_image_data graphics_2d image_data top_left src_rect w =
     queue_task graphics_2d \<lparr>gpt_type = Gpt_paint_id, gpt_image_data = image_data,
       gpt_ofs = (case top_left of None \<Rightarrow> zero_point | Some p \<Rightarrow> p), gpt_src = src_rect\<rparr> w"

definition ppb_graphics2d_replace_contents :: "PP_Resource \<Rightarrow> PP_Resource \<Rightarrow> 'a world_scheme \<Rightarrow> 'a world_scheme option" where
  "ppb_graphics2d_replace_contents graphics_2d image_data w =
     queue_task graphics_2d \<lparr>gpt_type = Gpt_replace_contents, gpt_image_data = image_data,
       gpt_ofs = zero_point, gpt_src = None\<rparr> w"

section \<open>Flushing\<close>

text \<open>The rectangle that is filled, moved by the offset; the sums are of \<^verbatim>\<open>int\<close>s.\<close>

definition moved_rect :: "g2d_paint_task_s \<Rightarrow> (int \<times> int \<times> int \<times> int) option option" where
  "moved_rect pt =
     (case gpt_src pt of
        None \<Rightarrow> Some None
      | Some src \<Rightarrow> do {
          x \<leftarrow> int_plus (pt_x (rc_point src)) (pt_x (gpt_ofs pt));
          y \<leftarrow> int_plus (pt_y (rc_point src)) (pt_y (gpt_ofs pt));
          Some (Some (x, y, rc_width src, rc_height src))
        })"

text \<open>What one task does to the device and to its image, which is acquired.\<close>

fun do_paint_task ::
  "g2d_env \<Rightarrow> g2d_paint_task_s \<Rightarrow> pp_graphics2d_s \<Rightarrow> pp_image_data_s \<Rightarrow> (pp_graphics2d_s \<times> pp_image_data_s) option" where
  "do_paint_task env pt g2d img =
     (case gpt_type pt of
        Gpt_paint_id \<Rightarrow> do {
          rect \<leftarrow> moved_rect pt;
          surf \<leftarrow> g2_cairo_surf g2d;
          data \<leftarrow> g2_data g2d;
          src \<leftarrow> id_cairo_surf img;
          Some (g2d\<lparr>g2_data := Some (ge_paint env surf data src (id_data img) (pt_x (gpt_ofs pt), pt_y (gpt_ofs pt)) rect)\<rparr>, img)
        }
      | Gpt_replace_contents \<Rightarrow>
          if id_width img = g2_width g2d \<or> id_height img = g2_height g2d
          then do {
            data \<leftarrow> g2_data g2d;
            Some (g2d\<lparr>g2_data := Some (id_data img), g2_cairo_surf := id_cairo_surf img\<rparr>,
                  img\<lparr>id_data := data, id_cairo_surf := g2_cairo_surf g2d\<rparr>)
          }
          else Some (g2d, img))"

text \<open>The loop. An image that cannot be acquired is skipped, with the reference the task holds.\<close>

fun run_paint_tasks ::
  "g2d_env \<Rightarrow> g2d_paint_task_s list \<Rightarrow> pp_graphics2d_s \<Rightarrow> 'a world_scheme \<Rightarrow> (pp_graphics2d_s \<times> 'a world_scheme) option" where
  "run_paint_tasks env [] g2d w = Some (g2d, w)"
| "run_paint_tasks env (pt # pts) g2d w = do {
     (gr, w) \<leftarrow> pp_resource_acquire (gpt_image_data pt) PP_RESOURCE_IMAGE_DATA w;
     (case gr of
        None \<Rightarrow> run_paint_tasks env pts g2d w
      | Some e \<Rightarrow> do {
          img \<leftarrow> the_image (r_payload e);
          (g2d, img) \<leftarrow> do_paint_task env pt g2d img;
          let w = res_write (gpt_image_data pt) (PL_image_data img) w;
          w \<leftarrow> pp_resource_release (gpt_image_data pt) w;
          w \<leftarrow> pp_resource_unref (gpt_image_data pt) w;
          run_paint_tasks env pts g2d w
        })
   }"

text \<open>
  The copy for the screen. \<^verbatim>\<open>memcpy\<close> reads as many bytes as the size of the device says, whatever
  the data are.
\<close>

definition copy_second_buffer :: "g2d_env \<Rightarrow> pp_graphics2d_s \<Rightarrow> pp_graphics2d_s option" where
  "copy_second_buffer env g2d =
     (if g2_scaled_width g2d = g2_width g2d \<and> g2_scaled_height g2d = g2_height g2d then do {
        n \<leftarrow> int_mult (g2_stride g2d) (g2_height g2d);
        data \<leftarrow> g2_data g2d;
        buf \<leftarrow> g2_second_buffer g2d;
        let k = unat (word_of_int n :: u64);
        (if length data < k \<or> length buf < k then None
         else Some (g2d\<lparr>g2_second_buffer := Some (take k data @ drop k buf)\<rparr>))
      }
      else do {
        surf \<leftarrow> g2_cairo_surf g2d;
        data \<leftarrow> g2_data g2d;
        buf \<leftarrow> g2_second_buffer g2d;
        Some (g2d\<lparr>g2_second_buffer := Some (ge_resample env surf data (g2_scale g2d)
          \<lparr>sf_width = g2_scaled_width g2d, sf_height = g2_scaled_height g2d, sf_stride = g2_scaled_stride g2d\<rparr> buf)\<rparr>)
      })"

text \<open>
  The structure of the instance is read through the device's pointer, which must not be dangling.
  \<open>comt\<close> and \<open>task\<close> are the addresses the call to the browser's thread uses; the result says, beside
  the code, whether that thread is asked to run.
\<close>

definition ppb_graphics2d_flush ::
  "g2d_env \<Rightarrow> timespec \<Rightarrow> ptr \<Rightarrow> ptr \<Rightarrow> PP_Resource \<Rightarrow> PP_CompletionCallback \<Rightarrow> 'a world_scheme \<Rightarrow>
   (int \<times> 'a world_scheme) option" where
  "ppb_graphics2d_flush env now comt task graphics_2d callback w = do {
     (g, w) \<leftarrow> pp_resource_acquire graphics_2d PP_RESOURCE_GRAPHICS2D w;
     (case g of
        None \<Rightarrow> Some (PP_ERROR_BADRESOURCE, w)
      | Some gr \<Rightarrow> do {
          i \<leftarrow> r_instance gr;
          pp_i \<leftarrow> tables_get_pp_instance i w;
          (if pi_graphics_in_progress pp_i then do {
             w \<leftarrow> pp_resource_release graphics_2d w;
             Some (PP_ERROR_INPROGRESS, w)
           }
           else do {
             let w = (if pi_graphics pp_i = graphics_2d
               then change_instance i (\<lambda>p. p\<lparr>pi_graphics_ccb := callback,
                      pi_graphics_ccb_ml := ppb_message_loop_get_current w, pi_graphics_in_progress := True\<rparr>) w
               else w);
             g2d \<leftarrow> the_graphics2d (r_payload gr);
             (g2d, w) \<leftarrow> run_paint_tasks env (g2_task_list g2d) (g2d\<lparr>g2_task_list := []\<rparr>) w;
             g2d \<leftarrow> copy_second_buffer env g2d;
             let w = res_write graphics_2d (PL_graphics2d g2d) w;
             w \<leftarrow> pp_resource_release graphics_2d w;
             (_, w) \<leftarrow> ppb_core_call_on_browser_thread comt now i task w;
             (if ccb_func callback \<noteq> 0 then do {
                w \<leftarrow> (if pi_graphics pp_i \<noteq> graphics_2d
                      then map_option snd (ppb_message_loop_post_work_with_result now (ppb_message_loop_get_current w) callback 0 PP_OK 0 w)
                      else Some w);
                Some (PP_OK_COMPLETIONPENDING, w)
              }
              else Some (PP_OK, w))
           })
        })
   }"

text \<open>Where the identifier is bad the code returns an error as a truth value: yes.\<close>

definition ppb_graphics2d_set_scale ::
  "g2d_env \<Rightarrow> PP_Resource \<Rightarrow> double_bits \<Rightarrow> 'a world_scheme \<Rightarrow> (bool \<times> 'a world_scheme) option" where
  "ppb_graphics2d_set_scale env resource scale w =
     with_resource resource PP_RESOURCE_GRAPHICS2D True
       (\<lambda>gr w. do {
          g2d \<leftarrow> the_graphics2d (r_payload gr);
          (g2d, sn) \<leftarrow> set_scaled env (g2d\<lparr>g2_external_scale := scale, g2_scale := ge_times env scale (ge_device_scale env)\<rparr>);
          let second_buffer = calloc (ge_can_alloc env) sn;
          Some (second_buffer \<noteq> None, res_write resource (PL_graphics2d (g2d\<lparr>g2_second_buffer := second_buffer\<rparr>)) w)
        }) w"

text \<open>\<open>bad\<close> is the error code as a floating point number.\<close>

definition ppb_graphics2d_get_scale ::
  "double_bits \<Rightarrow> PP_Resource \<Rightarrow> 'a world_scheme \<Rightarrow> (double_bits \<times> 'a world_scheme) option" where
  "ppb_graphics2d_get_scale bad resource w =
     with_resource resource PP_RESOURCE_GRAPHICS2D bad
       (\<lambda>gr w. do { g2d \<leftarrow> the_graphics2d (r_payload gr); Some (g2_external_scale g2d, w) }) w"

section \<open>Binding a device to an instance\<close>

text \<open>
  The device may be two- or three-dimensional; both branches of the code are the same. The branch
  for the device of another instance leaves the device as it was acquired.
\<close>

definition bind_device ::
  "timespec \<Rightarrow> ptr \<Rightarrow> ptr \<Rightarrow> PP_Instance \<Rightarrow> PP_Resource \<Rightarrow> pp_resource_s \<Rightarrow> pp_instance_s \<Rightarrow> 'a world_scheme \<Rightarrow>
   (bool \<times> 'a world_scheme) option" where
  "bind_device now comt task instance device gr pp_i w =
     (if r_instance gr \<noteq> Some (pi_id pp_i) then Some (False, w)
      else do {
        let previous_device = pi_graphics pp_i;
        let w = change_instance instance (\<lambda>p. p\<lparr>pi_graphics := device\<rparr>) w;
        w \<leftarrow> (if device \<noteq> previous_device
              then ppb_core_release_resource previous_device (ppb_core_add_ref_resource device w) else Some w);
        w \<leftarrow> pp_resource_release device w;
        (_, w) \<leftarrow> ppb_core_call_on_browser_thread comt now instance task w;
        Some (True, w)
      })"

definition ppb_instance_bind_graphics ::
  "timespec \<Rightarrow> ptr \<Rightarrow> ptr \<Rightarrow> PP_Instance \<Rightarrow> PP_Resource \<Rightarrow> 'a world_scheme \<Rightarrow> (bool \<times> 'a world_scheme) option" where
  "ppb_instance_bind_graphics now comt task instance device w =
     (case tables_get_pp_instance instance w of
        None \<Rightarrow> Some (False, w)
      | Some pp_i \<Rightarrow>
          if device = 0 then do {
            w \<leftarrow> ppb_core_release_resource (pi_graphics pp_i) w;
            Some (True, change_instance instance (\<lambda>p. p\<lparr>pi_graphics := 0\<rparr>) w)
          }
          else do {
            (g2d, w) \<leftarrow> pp_resource_acquire device PP_RESOURCE_GRAPHICS2D w;
            (g3d, w) \<leftarrow> pp_resource_acquire device PP_RESOURCE_GRAPHICS3D w;
            (case (g2d, g3d) of
               (Some gr, _) \<Rightarrow> bind_device now comt task instance device gr pp_i w
             | (None, Some gr) \<Rightarrow> bind_device now comt task instance device gr pp_i w
             | (None, None) \<Rightarrow> Some (False, w))
          })"

definition ppb_instance_is_full_frame :: "PP_Instance \<Rightarrow> 'a world_scheme \<Rightarrow> bool" where
  "ppb_instance_is_full_frame instance w =
     (case tables_get_pp_instance instance w of None \<Rightarrow> False | Some pp_i \<Rightarrow> pi_is_fullframe pp_i)"

section \<open>Showing a device\<close>

text \<open>
  Where a windowed instance lies in the browser's window: \<open>at\<close> is what the X server answers for the
  places of the two windows on the screen, numbers of 16 bits.
\<close>

definition placed :: "(int \<times> int) \<times> (int \<times> int) \<Rightarrow> pp_instance_s \<Rightarrow> pp_instance_s" where
  "placed at pp_i =
     (if pi_windowed_mode pp_i \<and> pi_browser_wnd pp_i \<noteq> 0
      then pp_i\<lparr>pi_offset_x := fst (fst at) - fst (snd at), pi_offset_y := snd (fst at) - snd (snd at)\<rparr> else pp_i)"

text \<open>
  What an exposure changes; drawing the second buffer changes nothing here. \<open>wrapper\<close> is the
  address of \<^verbatim>\<open>graphics_ccb_wrapper_comt\<close>, to which the identifier of the instance is passed.
\<close>

definition handle_graphics_expose_event ::
  "(int \<times> int) \<times> (int \<times> int) \<Rightarrow> timespec \<Rightarrow> ptr \<Rightarrow> PP_Instance \<Rightarrow> 'a world_scheme \<Rightarrow> (bool \<times> 'a world_scheme) option" where
  "handle_graphics_expose_event at now wrapper instance w = do {
     pp_i \<leftarrow> tables_get_pp_instance instance w;
     (g2d, w) \<leftarrow> pp_resource_acquire (pi_graphics pp_i) PP_RESOURCE_GRAPHICS2D w;
     (g3d, w) \<leftarrow> pp_resource_acquire (pi_graphics pp_i) PP_RESOURCE_GRAPHICS3D w;
     let w = change_instance instance (placed at) w;
     (if g2d = None \<and> g3d = None then Some (False, w)
      else do {
        w \<leftarrow> pp_resource_release (pi_graphics pp_i) w;
        w \<leftarrow> (if pi_graphics_in_progress pp_i \<and> ccb_func (pi_graphics_ccb pp_i) \<noteq> 0
              then map_option snd (ppb_message_loop_post_work_with_result now (pi_graphics_ccb_ml pp_i)
                \<lparr>ccb_func = wrapper, ccb_user_data = nat (pi_id pp_i), ccb_flags = 0\<rparr> 0 PP_OK 0 w)
              else Some w);
        Some (True, w)
      })
   }"

text \<open>\<open>call\<close> calls the plugin.\<close>

definition graphics_ccb_wrapper_comt ::
  "'a world_scheme callbacks \<Rightarrow> PP_Instance \<Rightarrow> int \<Rightarrow> 'a world_scheme \<Rightarrow> 'a world_scheme option" where
  "graphics_ccb_wrapper_comt call instance result w =
     (case tables_get_pp_instance instance w of
        None \<Rightarrow> Some w
      | Some pp_i \<Rightarrow> do {
          let ccb = pi_graphics_ccb pp_i;
          let w = change_instance instance (\<lambda>p. p\<lparr>pi_graphics_ccb := zero_ccb, pi_graphics_in_progress := False\<rparr>) w;
          (if ccb_func ccb \<noteq> 0 then call ccb result w else Some w)
        })"

end
