(* ===== verification/Graphics2d_Correct.thy ===== *)
theory Graphics2d_Correct
  imports Graphics2d
begin

text \<open>
  Painting is queued with references, and a flush gives every one of them back; the plugin is told
  once per flush, after the result is on the screen. Where the code deviates from that is shown too.
\<close>

section \<open>The queue\<close>

text \<open>An image that can be acquired, with at least \<open>n\<close> bytes; drawing does not change how many there are.\<close>

definition drawable :: "nat \<Rightarrow> 'a res_state_scheme \<Rightarrow> PP_Resource \<Rightarrow> bool" where
  "drawable n w r \<longleftrightarrow> (\<exists>e i. available r PP_RESOURCE_IMAGE_DATA w e \<and> r_payload e = PL_image_data i \<and>
     id_cairo_surf i \<noteq> None \<and> n \<le> length (id_data i))"

definition keeps_length :: "g2d_env \<Rightarrow> bool" where
  "keeps_length env \<longleftrightarrow> (\<forall>s d s' d' p r. length (ge_paint env s d s' d' p r) = length d)"

text \<open>The image a task draws, once it has been acquired and released again.\<close>

lemma run_one_task:
  assumes inv: "world_inv (add_mset r extR) extV w" and av: "available r PP_RESOURCE_IMAGE_DATA w e"
    and i: "r_payload e = PL_image_data i" and r: "r = gpt_image_data pt"
    and task: "do_paint_task env pt g2d i = Some (g2d', i')"
  shows "\<exists>w'. run_paint_tasks env (pt # pts) g2d w = run_paint_tasks env pts g2d' w' \<and> world_inv extR extV w' \<and>
    res_tbl w' = (if r_ref_cnt e - 1 \<le> 0 then ht_remove r (res_tbl w)
      else ht_insert r (e\<lparr>r_ref_cnt := r_ref_cnt e - 1, r_payload := PL_image_data i'\<rparr>) (res_tbl w)) \<and>
    res_state.more w' = res_state.more w"
proof -
  have e: "ht_lookup (res_tbl w) r = Some e" "r_resource_type e = PP_RESOURCE_IMAGE_DATA" "\<not> r_locked e" "0 < r_ref_cnt e"
    using av by (simp_all add: available_def)
  let ?e = "e\<lparr>r_payload := PL_image_data i'\<rparr>"
  let ?w1 = "w\<lparr>res_tbl := ht_insert r ?e (res_tbl w)\<rparr>"
  have inv1: "world_inv (add_mset r extR) extV ?w1"
    by (rule world_inv_write [OF inv e(1)]) (use e(2) i in simp_all)
  have r0: "r \<noteq> 0" using world_inv_entry [OF inv e(1)] by (simp add: res_entry_ok_def)
  from pp_resource_unref_inv [OF inv1 r0] obtain w' where w': "pp_resource_unref r ?w1 = Some w'" "world_inv extR extV w'"
    "res_tbl w' = rc_release r_ref_cnt res_set_rc res_kids [r] (res_tbl ?w1)" "res_state.more w' = res_state.more ?w1" by blast
  have rel: "pp_resource_release r (res_write r (PL_image_data i') (w\<lparr>res_tbl := ht_insert r (acquired e) (res_tbl w)\<rparr>)) = Some ?w1"
    using e by (cases e) (simp add: res_write_def release_counted)
  have "run_paint_tasks env (pt # pts) g2d w = run_paint_tasks env pts g2d' w'"
    using task w'(1) rel i unfolding r
    by (simp add: acquire_available [OF av [unfolded r]] del: do_paint_task.simps)
  moreover have "res_tbl w' = (if r_ref_cnt e - 1 \<le> 0 then ht_remove r (res_tbl w)
      else ht_insert r (e\<lparr>r_ref_cnt := r_ref_cnt e - 1, r_payload := PL_image_data i'\<rparr>) (res_tbl w))"
    using w'(3) by (cases e) (simp add: res_kids_def res_set_rc_def)
  ultimately show ?thesis using w'(2,4) by auto
qed

lemma do_paint_task_defined:
  assumes "moved_rect pt \<noteq> None" "g2_data g2d = Some d" "g2_cairo_surf g2d = Some s" "id_cairo_surf i \<noteq> None"
    and "keeps_length env" "n \<le> length d" "n \<le> length (id_data i)"
  obtains g2d' i' d' s' where "do_paint_task env pt g2d i = Some (g2d', i')" "g2d' = g2d\<lparr>g2_data := Some d', g2_cairo_surf := Some s'\<rparr>"
    "id_cairo_surf i' \<noteq> None" "n \<le> length d'" "n \<le> length (id_data i')"
proof -
  obtain src where src: "id_cairo_surf i = Some src" using assms(4) by blast
  obtain rect where rect: "moved_rect pt = Some rect" using assms(1) by blast
  show thesis
  proof (cases "gpt_type pt")
    case Gpt_paint_id
    let ?d = "ge_paint env s d src (id_data i) (pt_x (gpt_ofs pt), pt_y (gpt_ofs pt)) rect"
    have "do_paint_task env pt g2d i = Some (g2d\<lparr>g2_data := Some ?d\<rparr>, i)" using Gpt_paint_id assms src rect by simp
    moreover have "g2d\<lparr>g2_data := Some ?d\<rparr> = g2d\<lparr>g2_data := Some ?d, g2_cairo_surf := Some s\<rparr>" using assms(3) by (cases g2d) simp
    moreover have "n \<le> length ?d" using assms(5,6) by (simp add: keeps_length_def)
    ultimately show thesis using that assms(4,7) by blast
  next
    case Gpt_replace_contents
    show thesis
    proof (cases "id_width i = g2_width g2d \<or> id_height i = g2_height g2d")
      case True
      then have "do_paint_task env pt g2d i = Some (g2d\<lparr>g2_data := Some (id_data i), g2_cairo_surf := Some src\<rparr>,
          i\<lparr>id_data := d, id_cairo_surf := Some s\<rparr>)" using Gpt_replace_contents assms src by auto
      moreover have "id_cairo_surf (i\<lparr>id_data := d, id_cairo_surf := Some s\<rparr>) \<noteq> None" "id_data (i\<lparr>id_data := d, id_cairo_surf := Some s\<rparr>) = d"
        by simp_all
      ultimately show thesis using that assms(6,7) by metis
    next
      case False
      have "g2d = g2d\<lparr>g2_data := Some d, g2_cairo_surf := Some s\<rparr>" using assms(2,3) by (cases g2d) simp
      moreover have "do_paint_task env pt g2d i = Some (g2d, i)" using False Gpt_replace_contents by simp
      ultimately show thesis using that assms(4,6,7) by blast
    qed
  qed
qed

text \<open>Working the queue off gives back exactly the references the tasks held.\<close>

lemma run_paint_tasks_inv:
  assumes "world_inv (mset (map gpt_image_data pts) + extR) extV w"
    and "\<forall>pt\<in>set pts. drawable n w (gpt_image_data pt) \<and> moved_rect pt \<noteq> None"
    and "g2_data g2d = Some d" "g2_cairo_surf g2d = Some s" "keeps_length env" "n \<le> length d"
  shows "\<exists>d' s' w'. run_paint_tasks env pts g2d w = Some (g2d\<lparr>g2_data := Some d', g2_cairo_surf := Some s'\<rparr>, w') \<and>
    n \<le> length d' \<and> world_inv extR extV w' \<and> res_state.more w' = res_state.more w \<and>
    (\<forall>k e. ht_lookup (res_tbl w) k = Some e \<longrightarrow> r_resource_type e \<noteq> PP_RESOURCE_IMAGE_DATA \<longrightarrow> ht_lookup (res_tbl w') k = Some e) \<and>
    (\<forall>k e'. ht_lookup (res_tbl w') k = Some e' \<longrightarrow> (\<exists>e. ht_lookup (res_tbl w) k = Some e \<and> r_locked e' = r_locked e))"
  using assms
proof (induction pts arbitrary: w g2d d s)
  case Nil
  have "g2d = g2d\<lparr>g2_data := Some d, g2_cairo_surf := Some s\<rparr>" using Nil(3,4) by (cases g2d) simp
  then show ?case using Nil(1,6) by (intro exI [of _ d] exI [of _ s] exI [of _ w]) simp
next
  case (Cons pt pts)
  let ?r = "gpt_image_data pt"
  obtain e i where e: "available ?r PP_RESOURCE_IMAGE_DATA w e" "r_payload e = PL_image_data i" "id_cairo_surf i \<noteq> None" "n \<le> length (id_data i)"
    using Cons.prems(2) by (auto simp: drawable_def)
  have rect: "moved_rect pt \<noteq> None" using Cons.prems(2) by simp
  obtain g2d' i' d' s' where t: "do_paint_task env pt g2d i = Some (g2d', i')"
    "g2d' = g2d\<lparr>g2_data := Some d', g2_cairo_surf := Some s'\<rparr>" "id_cairo_surf i' \<noteq> None" "n \<le> length d'" "n \<le> length (id_data i')"
    using do_paint_task_defined [OF rect Cons.prems(3,4) e(3) Cons.prems(5,6) e(4)] by metis
  have inv: "world_inv (add_mset ?r (mset (map gpt_image_data pts) + extR)) extV w" using Cons.prems(1) by simp
  from run_one_task [OF inv e(1,2) refl t(1), of pts] obtain w' where
    w': "run_paint_tasks env (pt # pts) g2d w = run_paint_tasks env pts g2d' w'" "world_inv (mset (map gpt_image_data pts) + extR) extV w'"
    "res_tbl w' = (if r_ref_cnt e - 1 \<le> 0 then ht_remove ?r (res_tbl w)
      else ht_insert ?r (e\<lparr>r_ref_cnt := r_ref_cnt e - 1, r_payload := PL_image_data i'\<rparr>) (res_tbl w))"
    "res_state.more w' = res_state.more w" by blast
  have draw: "\<forall>pt\<in>set pts. drawable n w' (gpt_image_data pt) \<and> moved_rect pt \<noteq> None"
  proof
    fix pt' assume pt': "pt' \<in> set pts"
    then have "gpt_image_data pt' \<in># mset (map gpt_image_data pts) + extR" by simp
    with w'(2) obtain e' where e': "ht_lookup (res_tbl w') (gpt_image_data pt') = Some e'" "0 < r_ref_cnt e'"
      by (rule world_inv_live)
    have old: "drawable n w (gpt_image_data pt')" "moved_rect pt' \<noteq> None" using pt' Cons.prems(2) by auto
    have "drawable n w' (gpt_image_data pt')"
    proof (cases "gpt_image_data pt' = ?r")
      case True
      then have "e' = e\<lparr>r_ref_cnt := r_ref_cnt e - 1, r_payload := PL_image_data i'\<rparr>"
        using e'(1) w'(3) by (auto split: if_splits)
      then show ?thesis using e' e(1) t(3,5) by (auto simp: drawable_def available_def)
    next
      case False
      then have "ht_lookup (res_tbl w') (gpt_image_data pt') = ht_lookup (res_tbl w) (gpt_image_data pt')"
        using w'(3) by auto
      then show ?thesis using old(1) by (simp add: drawable_def available_def)
    qed
    with old show "drawable n w' (gpt_image_data pt') \<and> moved_rect pt' \<noteq> None" by simp
  qed
  have g: "g2_data g2d' = Some d'" "g2_cairo_surf g2d' = Some s'" using t(2) by simp_all
  from Cons.IH [OF w'(2) draw g Cons.prems(5) t(4)] obtain d'' s'' w'' where
    w'': "run_paint_tasks env pts g2d' w' = Some (g2d'\<lparr>g2_data := Some d'', g2_cairo_surf := Some s''\<rparr>, w'')"
    "n \<le> length d''" "world_inv extR extV w''" "res_state.more w'' = res_state.more w'"
    "\<And>k e. ht_lookup (res_tbl w') k = Some e \<Longrightarrow> r_resource_type e \<noteq> PP_RESOURCE_IMAGE_DATA \<Longrightarrow> ht_lookup (res_tbl w'') k = Some e"
    "\<And>k e'. ht_lookup (res_tbl w'') k = Some e' \<Longrightarrow> \<exists>e. ht_lookup (res_tbl w') k = Some e \<and> r_locked e' = r_locked e"
    by blast
  have "ht_lookup (res_tbl w'') k = Some f" if "ht_lookup (res_tbl w) k = Some f" "r_resource_type f \<noteq> PP_RESOURCE_IMAGE_DATA" for k f
    by (rule w''(5)) (use that e(1) w'(3) in \<open>auto simp: available_def\<close>)
  moreover have "\<exists>f. ht_lookup (res_tbl w) k = Some f \<and> r_locked f' = r_locked f" if "ht_lookup (res_tbl w'') k = Some f'" for k f'
    using w''(6) [OF that] e(1) w'(3) by (fastforce simp: available_def split: if_splits)
  moreover have "g2d'\<lparr>g2_data := Some d'', g2_cairo_surf := Some s''\<rparr> = g2d\<lparr>g2_data := Some d'', g2_cairo_surf := Some s''\<rparr>"
    using t(2) by simp
  ultimately show ?case using w'(1,4) w''(1-4) by (intro exI [of _ d''] exI [of _ s''] exI [of _ w'']) simp
qed


section \<open>Flushing\<close>

text \<open>The device can be copied to the screen buffer: where nothing is scaled, both have the bytes.\<close>

definition device_ok :: "nat \<Rightarrow> pp_graphics2d_s \<Rightarrow> bool" where
  "device_ok n g2d \<longleftrightarrow> (\<exists>d s b. g2_data g2d = Some d \<and> g2_cairo_surf g2d = Some s \<and> g2_second_buffer g2d = Some b \<and>
     n \<le> length d \<and> (g2_scaled_width g2d = g2_width g2d \<and> g2_scaled_height g2d = g2_height g2d \<longrightarrow>
       int_mult (g2_stride g2d) (g2_height g2d) = Some (int n) \<and> n \<le> length b))"

lemma copy_defined:
  assumes "device_ok n g2d" "n \<le> length d'"
  shows "\<exists>b'. copy_second_buffer env (g2d\<lparr>g2_task_list := [], g2_data := Some d', g2_cairo_surf := Some s'\<rparr>) =
    Some (g2d\<lparr>g2_task_list := [], g2_data := Some d', g2_cairo_surf := Some s', g2_second_buffer := Some b'\<rparr>)"
proof -
  have "unat (word_of_int (int n) :: u64) = n" if "int_mult (g2_stride g2d) (g2_height g2d) = Some (int n)"
  proof -
    have "int n \<le> INT_MAX" using that by (auto simp: int_mult_def split: if_splits)
    then show ?thesis by (simp add: unsigned_of_nat take_bit_nat_eq_self)
  qed
  then show ?thesis using assms by (auto simp: device_ok_def copy_second_buffer_def Let_def)
qed

lemma change_instance_frame [simp]:
  "res_tbl (change_instance i f w) = res_tbl w" "world_inv extR extV (change_instance i f w) = world_inv extR extV w"
  "this_thread_message_loop (change_instance i f w) = this_thread_message_loop w"
  "tables_get_pp_instance j (change_instance i f w) =
    (if i = j then map_option f (tables_get_pp_instance j w) else tables_get_pp_instance j w)"
  by (simp_all add: change_instance_def tables_get_pp_instance_def split: option.splits)

lemma drawable_cong: "ht_lookup (res_tbl w') r = ht_lookup (res_tbl w) r \<Longrightarrow> drawable n w' r = drawable n w r"
  by (simp add: drawable_def available_def)

text \<open>The instance of a device that is flushed: it notes the callback if the device is its own.\<close>

definition flushing :: "PP_Resource \<Rightarrow> PP_CompletionCallback \<Rightarrow> PP_Resource \<Rightarrow> pp_instance_s \<Rightarrow> pp_instance_s" where
  "flushing g callback m pp_i = (if pi_graphics pp_i = g then pp_i\<lparr>pi_graphics_ccb := callback,
     pi_graphics_ccb_ml := m, pi_graphics_in_progress := True\<rparr> else pp_i)"

definition all_unlocked :: "'a res_state_scheme \<Rightarrow> bool" where
  "all_unlocked w \<longleftrightarrow> (\<forall>k e. ht_lookup (res_tbl w) k = Some e \<longrightarrow> \<not> r_locked e)"

lemma flush_works:
  assumes inv: "world_inv (mset (map gpt_image_data (g2_task_list g2d)) + extR) extV w"
    and unlocked: "all_unlocked w"
    and e: "available g PP_RESOURCE_GRAPHICS2D w e" "r_payload e = PL_graphics2d g2d" "r_instance e = Some i"
    and pp_i: "tables_get_pp_instance i w = Some pp_i" "\<not> pi_graphics_in_progress pp_i"
    and ok: "device_ok n g2d" "keeps_length env"
    and tasks: "\<forall>pt\<in>set (g2_task_list g2d). drawable n w (gpt_image_data pt) \<and> moved_rect pt \<noteq> None"
  shows "\<exists>w' d' b' s'. ppb_graphics2d_flush env now comt task g callback w =
      Some (if ccb_func callback \<noteq> 0 then PP_OK_COMPLETIONPENDING else PP_OK, w') \<and> world_inv extR extV w' \<and>
    tables_get_pp_instance i w' = Some (flushing g callback (this_thread_message_loop w) pp_i) \<and>
    available g PP_RESOURCE_GRAPHICS2D w' (e\<lparr>r_payload := PL_graphics2d (g2d\<lparr>g2_task_list := [], g2_data := Some d',
      g2_cairo_surf := Some s', g2_second_buffer := Some b'\<rparr>)\<rparr>)"
proof -
  let ?tasks = "mset (map gpt_image_data (g2_task_list g2d))"
  let ?w1 = "w\<lparr>res_tbl := ht_insert g (acquired e) (res_tbl w)\<rparr>"
  let ?m = "this_thread_message_loop w"
  let ?w2 = "if pi_graphics pp_i = g then change_instance i (\<lambda>p. p\<lparr>pi_graphics_ccb := callback,
    pi_graphics_ccb_ml := ?m, pi_graphics_in_progress := True\<rparr>) ?w1 else ?w1"
  have look: "ht_lookup (res_tbl w) g = Some e" "r_resource_type e = PP_RESOURCE_GRAPHICS2D" "\<not> r_locked e" "0 < r_ref_cnt e"
    using e(1) by (simp_all add: available_def)
  obtain d s where g2d: "g2_data g2d = Some d" "g2_cairo_surf g2d = Some s" "n \<le> length d"
    using ok(1) by (auto simp: device_ok_def)
  have inv2: "world_inv (?tasks + add_mset g extR) extV ?w2"
    using acquired_inv [OF inv e(1)] by simp
  have tasks2: "\<forall>pt\<in>set (g2_task_list g2d). drawable n ?w2 (gpt_image_data pt) \<and> moved_rect pt \<noteq> None"
  proof
    fix pt assume pt: "pt \<in> set (g2_task_list g2d)"
    then have dr: "drawable n w (gpt_image_data pt)" "moved_rect pt \<noteq> None" using tasks by auto
    then have "gpt_image_data pt \<noteq> g" using look by (auto simp: drawable_def available_def)
    then have "ht_lookup (res_tbl ?w2) (gpt_image_data pt) = ht_lookup (res_tbl w) (gpt_image_data pt)" by simp
    from drawable_cong [of ?w2, OF this] dr show "drawable n ?w2 (gpt_image_data pt) \<and> moved_rect pt \<noteq> None" by simp
  qed
  from run_paint_tasks_inv [OF inv2 tasks2, of "g2d\<lparr>g2_task_list := []\<rparr>" d s env] g2d ok(2)
  obtain d' s' w3 where w3: "run_paint_tasks env (g2_task_list g2d) (g2d\<lparr>g2_task_list := []\<rparr>) ?w2 =
      Some (g2d\<lparr>g2_task_list := [], g2_data := Some d', g2_cairo_surf := Some s'\<rparr>, w3)"
    "n \<le> length d'" "world_inv (add_mset g extR) extV w3" "res_state.more w3 = res_state.more ?w2"
    "\<And>k e. ht_lookup (res_tbl ?w2) k = Some e \<Longrightarrow> r_resource_type e \<noteq> PP_RESOURCE_IMAGE_DATA \<Longrightarrow> ht_lookup (res_tbl w3) k = Some e"
    "\<And>k e'. ht_lookup (res_tbl w3) k = Some e' \<Longrightarrow> \<exists>e. ht_lookup (res_tbl ?w2) k = Some e \<and> r_locked e' = r_locked e"
    by auto
  from copy_defined [OF ok(1) w3(2), of env s'] obtain b' where
    copy: "copy_second_buffer env (g2d\<lparr>g2_task_list := [], g2_data := Some d', g2_cairo_surf := Some s'\<rparr>) =
      Some (g2d\<lparr>g2_task_list := [], g2_data := Some d', g2_cairo_surf := Some s', g2_second_buffer := Some b'\<rparr>)" by blast
  let ?g = "g2d\<lparr>g2_task_list := [], g2_data := Some d', g2_cairo_surf := Some s', g2_second_buffer := Some b'\<rparr>"
  let ?e = "e\<lparr>r_payload := PL_graphics2d ?g\<rparr>"
  have g3: "ht_lookup (res_tbl w3) g = Some (acquired e)" by (rule w3(5)) (use look in simp_all)
  let ?w4 = "res_write g (PL_graphics2d ?g) w3"
  let ?w5 = "w3\<lparr>res_tbl := ht_insert g ?e (res_tbl w3)\<rparr>"
  have w4: "?w4 = w3\<lparr>res_tbl := ht_insert g ((acquired e)\<lparr>r_payload := PL_graphics2d ?g\<rparr>) (res_tbl w3)\<rparr>"
    using g3 by (simp add: res_write_def)
  have rel: "pp_resource_release g ?w4 = Some ?w5"
    unfolding w4 using look by (cases e) (simp add: release_counted)
  have "world_inv (add_mset g extR) extV ?w4"
    unfolding w4 by (rule world_inv_write [OF w3(3) g3]) (use look e(2) in simp_all)
  from release_inv [OF this] have inv5: "world_inv extR extV ?w5" using rel w4 by auto
  have q5: "quiet g ?w5"
    using look unlocked w3(6) by (fastforce simp: quiet_def all_unlocked_def split: if_splits)
  have post: "\<exists>w6. ppb_core_call_on_browser_thread comt now i task ?w5 = Some w6 \<and> loops_only (snd w6) ?w5"
  proof -
    from post_loops_only [OF inv5 q5, of now "browser_thread_message_loop ?w5" "\<lparr>ccb_func = comt, ccb_user_data = task, ccb_flags = 0\<rparr>" 0 PP_OK 0]
    obtain x w6 where "ppb_message_loop_post_work_with_result now (browser_thread_message_loop ?w5)
        \<lparr>ccb_func = comt, ccb_user_data = task, ccb_flags = 0\<rparr> 0 PP_OK 0 ?w5 = Some (x, w6)" "loops_only w6 ?w5" by blast
    then show ?thesis by (auto simp: ppb_core_call_on_browser_thread_def ppb_message_loop_get_for_browser_thread_def
      Let_def split: option.splits)
  qed
  then obtain y w6 where w6: "ppb_core_call_on_browser_thread comt now i task ?w5 = Some (y, w6)" "loops_only w6 ?w5" by fastforce
  have inv6: "world_inv extR extV w6" and q6: "quiet g w6"
    using loops_only_inv [OF w6(2) inv5] loops_only_quiet [OF w6(2) q5] by simp_all
  have "\<exists>w7. (if ccb_func callback \<noteq> 0 \<and> pi_graphics pp_i \<noteq> g
      then map_option snd (ppb_message_loop_post_work_with_result now (ppb_message_loop_get_current w6) callback 0 PP_OK 0 w6)
      else Some w6) = Some w7 \<and> loops_only w7 w6"
    using post_loops_only [OF inv6 q6, of now "ppb_message_loop_get_current w6" callback 0 PP_OK 0] by auto
  then obtain w7 where w7: "(if ccb_func callback \<noteq> 0 \<and> pi_graphics pp_i \<noteq> g
      then map_option snd (ppb_message_loop_post_work_with_result now (ppb_message_loop_get_current w6) callback 0 PP_OK 0 w6)
      else Some w6) = Some w7" "loops_only w7 w6" by blast
  have flush: "ppb_graphics2d_flush env now comt task g callback w =
      Some (if ccb_func callback \<noteq> 0 then PP_OK_COMPLETIONPENDING else PP_OK, w7)"
  proof -
    have inst: "tables_get_pp_instance i ?w1 = Some pp_i" using pp_i(1) by (simp add: tables_get_pp_instance_def)
    have run: "run_paint_tasks env (g2_task_list g2d) (g2d\<lparr>g2_task_list := []\<rparr>)
        (if pi_graphics pp_i = g then change_instance i (\<lambda>p. p\<lparr>pi_graphics_ccb := callback,
          pi_graphics_ccb_ml := ppb_message_loop_get_current ?w1, pi_graphics_in_progress := True\<rparr>) ?w1 else ?w1) =
        Some (g2d\<lparr>g2_task_list := [], g2_data := Some d', g2_cairo_surf := Some s'\<rparr>, w3)"
      using w3(1) by (cases "pi_graphics pp_i = g") (simp_all add: ppb_message_loop_get_current_def)
    show ?thesis
      unfolding ppb_graphics2d_flush_def acquire_available [OF e(1)] Let_def
      using e(2,3) inst pp_i(2) run copy rel w6(1) w7(1) by (auto split: if_splits)
  qed
  have inv7: "world_inv extR extV w7" by (rule loops_only_inv [OF w7(2) inv6])
  have more: "res_state.more w7 = res_state.more ?w2"
    using loops_only_frame(5) [OF w7(2)] loops_only_frame(5) [OF w6(2)] w3(4) by simp
  have inst7: "tables_get_pp_instance i w7 = Some (flushing g callback ?m pp_i)"
    unfolding world_of_more(2) [OF more] using pp_i(1) by (simp add: flushing_def tables_get_pp_instance_def change_instance_def)
  have "ht_lookup (res_tbl w6) g = Some ?e" using loops_only_frame(7) [OF w6(2)] look by simp
  then have "ht_lookup (res_tbl w7) g = Some ?e" using loops_only_frame(7) [OF w7(2)] look by simp
  then have "available g PP_RESOURCE_GRAPHICS2D w7 ?e" using look by (simp add: available_def)
  with flush inv7 inst7 show ?thesis by blast
qed

end
