(* ===== verification/Graphics2d_Theorems.thy ===== *)
theory Graphics2d_Theorems
  imports Graphics2d_Correct
begin

text \<open>The properties of two-dimensional devices, each on a sample as well.\<close>

section \<open>A sample\<close>

definition g2d_sample :: "g2d_paint_task_s list \<Rightarrow> pp_graphics2d_s" where
  "g2d_sample ts = \<lparr>g2_is_always_opaque = True, g2_width = 2, g2_height = 1, g2_stride = 8, g2_scale = 1,
     g2_external_scale = 1, g2_scaled_width = 2, g2_scaled_height = 1, g2_scaled_stride = 8,
     g2_data = Some (replicate 8 CHR ''o''), g2_second_buffer = Some (replicate 8 CHR ''s''),
     g2_cairo_surf = Some \<lparr>sf_width = 2, sf_height = 1, sf_stride = 8\<rparr>, g2_task_list = ts\<rparr>"

definition image_sample :: "nat \<Rightarrow> pp_image_data_s" where
  "image_sample n = \<lparr>id_width = 2, id_height = int n, id_stride = 8, id_data = replicate (8 * n) CHR ''i'', id_format = 0,
     id_cairo_surf = Some \<lparr>sf_width = 2, sf_height = int n, sf_stride = 8\<rparr>\<rparr>"

definition res_sample :: "pp_resource_type_e \<Rightarrow> PP_Resource \<Rightarrow> int \<Rightarrow> payload \<Rightarrow> pp_resource_s" where
  "res_sample t r n pl = \<lparr>r_resource_type = t, r_ref_cnt = n, r_instance = Some 10, r_self_id = r, r_locked = False, r_payload = pl\<rparr>"

definition device_sample :: "g2d_paint_task_s list \<Rightarrow> pp_resource_s" where
  "device_sample ts = res_sample PP_RESOURCE_GRAPHICS2D 1 1 (PL_graphics2d (g2d_sample ts))"

definition loop_sample :: pp_message_loop_s where
  "loop_sample = \<lparr>ml_async_q = [], ml_int_q = [], ml_running = True, ml_teardown = False, ml_depth = 1\<rparr>"

text \<open>Device 1 is bound to instance 10; image 2, of \<open>n\<close> rows, has as many references as there are tasks; loop 3 is the thread's.\<close>

definition g2d_world :: "pp_instance_s \<Rightarrow> nat \<Rightarrow> g2d_paint_task_s list \<Rightarrow> world" where
  "g2d_world pp_i n ts = \<lparr>var_ht = [], var_id = 1, np_released = [], np_retained = [],
     res_tbl = [(1, device_sample ts), (2, res_sample PP_RESOURCE_IMAGE_DATA 2 (int (length ts) + 1) (PL_image_data (image_sample n))),
       (3, res_sample PP_RESOURCE_MESSAGE_LOOP 3 1 (PL_message_loop loop_sample))], res_tbl_next = 4,
     destructors_ht = [PP_RESOURCE_GRAPHICS2D, PP_RESOURCE_IMAGE_DATA, PP_RESOURCE_MESSAGE_LOOP],
     closed_fds = [], net_tasks = [], tasks_ht = [], next_task = 1, pp_to_np_ht = [(10, pp_i)], npobj_to_npp_ht = [],
     next_instance_id = 11, main_thread_message_loop = 3, browser_thread_message_loop = 0, this_thread_message_loop = 3,
     thread_is_not_suitable_for_message_loop = False\<rparr>"

definition bound_instance :: pp_instance_s where
  "bound_instance = sample_instance\<lparr>pi_graphics := 1\<rparr>"

definition env_sample :: g2d_env where
  "env_sample = \<lparr>ge_device_scale = 1, ge_one = 1, ge_scaled = \<lambda>n _. n, ge_times = \<lambda>_ x. x, ge_can_alloc = \<lambda>_. True,
     ge_paint = \<lambda>_ d _ d' _ _. take (length d) (d' @ d), ge_resample = \<lambda>_ _ _ _ b. b\<rparr>"

definition paint_sample :: g2d_paint_task_s where
  "paint_sample = \<lparr>gpt_type = Gpt_paint_id, gpt_image_data = 2, gpt_ofs = zero_point, gpt_src = None\<rparr>"

definition replace_sample :: g2d_paint_task_s where
  "replace_sample = \<lparr>gpt_type = Gpt_replace_contents, gpt_image_data = 2, gpt_ofs = zero_point, gpt_src = None\<rparr>"

abbreviation (input) ccb_sample :: "ptr \<Rightarrow> PP_CompletionCallback" where
  "ccb_sample f \<equiv> \<lparr>ccb_func = f, ccb_user_data = 0, ccb_flags = 0\<rparr>"

abbreviation (input) now_sample :: timespec where "now_sample \<equiv> \<lparr>tv_sec = 5, tv_nsec = 0\<rparr>"

lemmas g2d_sample_defs = g2d_world_def device_sample_def res_sample_def loop_sample_def g2d_sample_def image_sample_def
  bound_instance_def

lemma g2d_world_inv:
  assumes "\<forall>t\<in>set ts. gpt_image_data t = 2"
  shows "world_inv (mset (map gpt_image_data ts) + {#1, 2, 3#}) {#} (g2d_world pp_i n ts)"
proof -
  let ?w = "g2d_world pp_i n ts"
  have ts: "mset (map gpt_image_data ts) = replicate_mset (length ts) 2"
    using assms by (induction ts) auto
  have "balanced r_ref_cnt res_kids (mset (map gpt_image_data ts) + {#1, 2, 3#}) (res_tbl ?w)"
    unfolding ts by (rule balancedI) (auto simp: g2d_sample_defs ht_ok_def rc_at_def res_kids_def split: if_splits)
  moreover have "var_inv ({#} + held res_vars (res_tbl ?w)) ?w"
    by (simp add: var_inv_def g2d_sample_defs res_vars_def entries_ok_def) (rule balancedI; simp add: ht_ok_def rc_at_def)
  moreover have "res_entries_ok ?w"
    by (auto simp: res_entries_ok_def res_entry_ok_def g2d_sample_defs split: if_splits)
  ultimately show ?thesis by (simp add: world_inv_def)
qed

lemma g2d_world_sel [simp]:
  "available 1 PP_RESOURCE_GRAPHICS2D (g2d_world pp_i n ts) (device_sample ts)"
  "tables_get_pp_instance 10 (g2d_world pp_i n ts) = Some pp_i"
  "this_thread_message_loop (g2d_world pp_i n ts) = 3"
  "all_unlocked (g2d_world pp_i n ts)"
  by (auto simp: all_unlocked_def g2d_sample_defs available_def tables_get_pp_instance_def split: if_splits)

lemma device_sample_sel [simp]:
  "r_payload (device_sample ts) = PL_graphics2d (g2d_sample ts)" "r_instance (device_sample ts) = Some 10"
  "g2_task_list (g2d_sample ts) = ts"
  by (simp_all add: device_sample_def res_sample_def g2d_sample_def)

lemma bound_instance_sel [simp]:
  "pi_graphics bound_instance = 1" "\<not> pi_graphics_in_progress bound_instance" "pi_id bound_instance = 10"
  by (simp_all add: bound_instance_def sample_instance_def zero_instance_def)

lemma device_sample_ok: "device_ok 8 (g2d_sample ts)" "keeps_length env_sample"
  by (auto simp: device_ok_def g2d_sample_def int_mult_def keeps_length_def env_sample_def)

lemma paint_sample_ok: "drawable 8 (g2d_world pp_i (Suc n) ts) 2" "moved_rect paint_sample \<noteq> None"
  by (auto simp: drawable_def g2d_sample_defs available_def moved_rect_def paint_sample_def)

section \<open>Properties\<close>




text \<open>Acquiring as the other kind of device fails and changes nothing.\<close>

lemma acquire_other_kind:
  "ht_lookup (res_tbl w) g = Some e \<Longrightarrow> r_resource_type e \<noteq> t \<Longrightarrow> pp_resource_acquire g t w = Some (None, w)"
  by (simp add: pp_resource_acquire_def acquire_attempt_def)

lemma acquire_then_release:
  "available g t w e \<Longrightarrow> pp_resource_release g (w\<lparr>res_tbl := ht_insert g (acquired e) (res_tbl w)\<rparr>) = Some w"
  by (cases e) (simp add: available_def release_counted ht_insert_same)

text \<open>An exposure, once the device's locks are out of the way.\<close>

lemma expose_posts:
  assumes "tables_get_pp_instance i w = Some pp_i" "pi_graphics pp_i = g" "available g PP_RESOURCE_GRAPHICS2D w e"
  shows "handle_graphics_expose_event at now wrapper i w =
    (if pi_graphics_in_progress pp_i \<and> ccb_func (pi_graphics_ccb pp_i) \<noteq> 0
     then map_option (\<lambda>w. (True, w)) (map_option snd (ppb_message_loop_post_work_with_result now (pi_graphics_ccb_ml pp_i)
       \<lparr>ccb_func = wrapper, ccb_user_data = nat (pi_id pp_i), ccb_flags = 0\<rparr> 0 PP_OK 0 (change_instance i (placed at) w)))
     else Some (True, change_instance i (placed at) w))"
proof -
  have av: "available g PP_RESOURCE_GRAPHICS2D (change_instance i (placed at) w) e" using assms(3) by (simp add: available_def)
  have commute: "change_instance i (placed at) (w\<lparr>res_tbl := t\<rparr>) = (change_instance i (placed at) w)\<lparr>res_tbl := t\<rparr>" for t
    by (simp add: change_instance_def split: option.split)
  let ?w = "w\<lparr>res_tbl := ht_insert g (acquired e) (res_tbl w)\<rparr>"
  have "pp_resource_acquire g PP_RESOURCE_GRAPHICS3D ?w = Some (None, ?w)"
    by (rule acquire_other_kind [of _ _ "acquired e"]) (use assms(3) in \<open>simp_all add: available_def\<close>)
  then show ?thesis
    unfolding handle_graphics_expose_event_def assms(1) option.simps bind.simps assms(2) acquire_available [OF assms(3)]
    by (simp add: commute acquire_then_release [OF av, simplified] option.map_comp comp_def split: option.splits)
       (simp add: map_option_case bind_eq_None_conv split: option.splits)
qed




text \<open>
  A flush without a callback function succeeds and shows the device, but nothing ever ends it: an
  exposure queues nothing, and every later flush of the device is refused.
\<close>

theorem flush_without_callback_wedges:
  assumes "world_inv (mset (map gpt_image_data (g2_task_list g2d)) + extR) extV w" "all_unlocked w"
    and "available g PP_RESOURCE_GRAPHICS2D w e" "r_payload e = PL_graphics2d g2d" "r_instance e = Some i"
    and "tables_get_pp_instance i w = Some pp_i" "\<not> pi_graphics_in_progress pp_i" "pi_graphics pp_i = g"
    and "device_ok n g2d" "keeps_length env"
    and "\<forall>pt\<in>set (g2_task_list g2d). drawable n w (gpt_image_data pt) \<and> moved_rect pt \<noteq> None"
    and "ccb_func callback = 0"
  shows "\<exists>w'. ppb_graphics2d_flush env now comt task g callback w = Some (PP_OK, w') \<and>
    (\<forall>at now wrapper. handle_graphics_expose_event at now wrapper i w' = Some (True, change_instance i (placed at) w')) \<and>
    (\<forall>env now comt task again. ppb_graphics2d_flush env now comt task g again w' = Some (PP_ERROR_INPROGRESS, w'))"
proof -
  from flush_works [OF assms(1-7,9-11), where callback = callback and now = now and comt = comt and task = task]
  obtain w' e' where w': "ppb_graphics2d_flush env now comt task g callback w = Some (PP_OK, w')"
    "tables_get_pp_instance i w' = Some (flushing g callback (this_thread_message_loop w) pp_i)"
    "available g PP_RESOURCE_GRAPHICS2D w' e'" "r_instance e' = Some i"
    using assms(5,12) by auto
  have "ppb_graphics2d_flush env now comt task g again w' = Some (PP_ERROR_INPROGRESS, w')" for env now comt task again
    using w'(2,4) assms(8) acquire_then_release [OF w'(3)]
    by (simp add: ppb_graphics2d_flush_def acquire_available [OF w'(3)] tables_get_pp_instance_def flushing_def)
  moreover have "handle_graphics_expose_event at now wrapper i w' = Some (True, change_instance i (placed at) w')" for at now wrapper
    using expose_posts [OF w'(2) _ w'(3), of at now wrapper] assms(8,12) by (simp add: flushing_def)
  ultimately show ?thesis using w'(1) by blast
qed

theorem flush_without_callback_wedges_witness:
  "\<exists>w'. ppb_graphics2d_flush env_sample now_sample 7 8 1 zero_ccb (g2d_world bound_instance 1 []) = Some (PP_OK, w') \<and>
    fst (the (handle_graphics_expose_event ((0, 0), (0, 0)) now_sample 77 10 w')) \<and>
    ppb_graphics2d_flush env_sample now_sample 7 8 1 (ccb_sample 10) w' = Some (PP_ERROR_INPROGRESS, w')"
proof -
  have inv: "world_inv (mset (map gpt_image_data (g2_task_list (g2d_sample []))) + {#1, 2, 3#}) {#} (g2d_world bound_instance 1 [])"
    using g2d_world_inv [of "[]" bound_instance 1] by simp
  have "\<forall>pt\<in>set (g2_task_list (g2d_sample [])). drawable 8 (g2d_world bound_instance 1 []) (gpt_image_data pt) \<and> moved_rect pt \<noteq> None"
    by simp
  from flush_without_callback_wedges [OF inv g2d_world_sel(4,1) device_sample_sel(1,2) g2d_world_sel(2) bound_instance_sel(2,1)
      device_sample_ok this, of zero_ccb now_sample 7 8]
  show ?thesis by (auto simp: zero_ccb_def)
qed

text \<open>
  Binding a device of another instance is refused, but the device stays acquired: its count is one
  too high and whoever flushes it afterwards waits for ever.
\<close>

theorem bind_foreign_device_stays_locked:
  assumes "available g PP_RESOURCE_GRAPHICS2D w e" "g \<noteq> 0"
    and "tables_get_pp_instance i w = Some pp_i" "r_instance e \<noteq> Some (pi_id pp_i)"
  shows "\<exists>w'. ppb_instance_bind_graphics now comt task i g w = Some (False, w') \<and>
    ht_lookup (res_tbl w') g = Some (e\<lparr>r_locked := True, r_ref_cnt := r_ref_cnt e + 1\<rparr>) \<and>
    ppb_graphics2d_flush env now comt task g callback w' = None"
proof -
  let ?w = "w\<lparr>res_tbl := ht_insert g (acquired e) (res_tbl w)\<rparr>"
  have e: "r_resource_type e = PP_RESOURCE_GRAPHICS2D" using assms(1) by (simp add: available_def)
  have "pp_resource_acquire g PP_RESOURCE_GRAPHICS3D ?w = Some (None, ?w)"
    by (rule acquire_other_kind [of _ _ "acquired e"]) (use e in simp_all)
  then have "ppb_instance_bind_graphics now comt task i g w = Some (False, ?w)"
    using assms by (simp add: ppb_instance_bind_graphics_def acquire_available [OF assms(1)] bind_device_def)
  moreover have "ppb_graphics2d_flush env now comt task g callback ?w = None"
    using e by (simp add: ppb_graphics2d_flush_def pp_resource_acquire_def acquire_attempt_def)
  ultimately show ?thesis by (intro exI [of _ ?w]) simp
qed

theorem bind_foreign_device_stays_locked_witness:
  "\<exists>w'. ppb_instance_bind_graphics now_sample 7 8 10 1 (g2d_world (bound_instance\<lparr>pi_id := 11, pi_graphics := 0\<rparr>) 1 []) = Some (False, w') \<and>
    ppb_graphics2d_flush env_sample now_sample 7 8 1 (ccb_sample 9) w' = None"
proof -
  have "r_instance (device_sample []) \<noteq> Some (pi_id (bound_instance\<lparr>pi_id := 11, pi_graphics := 0\<rparr>))" by simp
  from bind_foreign_device_stays_locked [OF g2d_world_sel(1) _ g2d_world_sel(2) this, where now = now_sample and comt = 7 and task = 8 and
      env = env_sample and callback = "ccb_sample 9"]
  show ?thesis by auto
qed

text \<open>
  Replacing the contents takes an image when its width \<^emph>\<open>or\<close> its height is that of the device. With an
  image of the right width and too few rows the next flush reads past the image's bytes.
\<close>

theorem replace_by_short_image_overreads:
  assumes "available g PP_RESOURCE_GRAPHICS2D w e" "r_payload e = PL_graphics2d g2d" "r_instance e = Some i"
    and "tables_get_pp_instance i w = Some pp_i" "\<not> pi_graphics_in_progress pp_i"
    and "g2_task_list g2d = [pt]" "gpt_type pt = Gpt_replace_contents" "gpt_image_data pt = r"
    and "available r PP_RESOURCE_IMAGE_DATA w f" "r_payload f = PL_image_data img" "id_width img = g2_width g2d"
    and "g2_scaled_width g2d = g2_width g2d" "g2_scaled_height g2d = g2_height g2d"
    and "int_mult (g2_stride g2d) (g2_height g2d) = Some n" "int (length (id_data img)) < n"
  shows "ppb_graphics2d_flush env now comt task g callback w = None"
proof -
  let ?w1 = "w\<lparr>res_tbl := ht_insert g (acquired e) (res_tbl w)\<rparr>"
  have ne: "r \<noteq> g" using assms(1,9) by (auto simp: available_def)
  have n: "unat (word_of_int n :: u64) = nat n"
    using assms(14,15) by (auto simp: int_mult_def unsigned_of_int take_bit_int_eq_self split: if_splits)
  have over: "copy_second_buffer env (g2d'\<lparr>g2_data := Some (id_data img), g2_cairo_surf := s\<rparr>) = None"
    if "g2d' = g2d\<lparr>g2_task_list := []\<rparr>" for g2d' s
    using assms(12-15) n that by (auto simp: copy_second_buffer_def Let_def split: option.splits bind_splits)
  have short: "(do { (g2d, w) \<leftarrow> run_paint_tasks env [pt] (g2d\<lparr>g2_task_list := []\<rparr>) u;
      g2d \<leftarrow> copy_second_buffer env g2d; F g2d w }) = None" if "available r PP_RESOURCE_IMAGE_DATA u f" for u :: "'a world_scheme" and F
    using assms(7,8,10,11) over by (auto simp: acquire_available [OF that] split: bind_splits)
  have av: "available r PP_RESOURCE_IMAGE_DATA (change_instance i h ?w1) f" "available r PP_RESOURCE_IMAGE_DATA ?w1 f" for h
    using assms(9) ne by (simp_all add: available_def)
  have inst: "tables_get_pp_instance i ?w1 = Some pp_i" using assms(4) by (simp add: tables_get_pp_instance_def)
  show ?thesis
    unfolding ppb_graphics2d_flush_def acquire_available [OF assms(1)] Let_def
    using assms(2,3,5,6) inst by (simp add: short [OF av(1)] short [OF av(2)] del: run_paint_tasks.simps)
qed

theorem replace_by_short_image_overreads_witness:
  "ppb_graphics2d_flush env_sample now_sample 7 8 1 (ccb_sample 9) (g2d_world bound_instance 0 [replace_sample]) = None"
  by (rule replace_by_short_image_overreads [OF g2d_world_sel(1) device_sample_sel(1,2) g2d_world_sel(2) bound_instance_sel(2)
      device_sample_sel(3), where r = 2 and f = "res_sample PP_RESOURCE_IMAGE_DATA 2 2 (PL_image_data (image_sample 0))"])
    (auto simp: replace_sample_def g2d_sample_defs available_def int_mult_def)

end
