(* ===== verification/Keycodes.thy ===== *)
theory Keycodes
  imports Prelude
begin

text \<open>
  \<^verbatim>\<open>keycodeconvert.c\<close>: the key symbols of X and the virtual key codes of the plugin
  (\<^verbatim>\<open>keycodepp.h\<close>). The values of the symbols come from the headers of X, which are not part of the
  repository: \<open>XK\<close> gives the value of a name. The cases of each \<^verbatim>\<open>switch\<close> are in the order of the code,
  those of one \<^verbatim>\<open>return\<close> together.
\<close>

type_synonym keycode_table = "(string list \<times> int) list"

definition editing_keys :: keycode_table where
  "editing_keys = [
    ([''XK_Break''], 0x03), ([''XK_BackSpace''], 0x08), ([''XK_Tab'', ''XK_ISO_Left_Tab''], 0x09),
    ([''XK_Clear''], 0x0C), ([''XK_Return'', ''XK_KP_Enter'', ''XK_ISO_Enter'', ''XK_3270_Enter''], 0x0D),
    ([''XK_Pause''], 0x13), ([''XK_Caps_Lock''], 0x14), ([''XK_Kana_Lock'', ''XK_Kana_Shift''], 0x15),
    ([''XK_Hangul''], 0x15), ([''XK_Hangul_Hanja''], 0x19), ([''XK_Kanji''], 0x19), ([''XK_Escape''], 0x1B),
    ([''XK_space''], 0x20), ([''XK_Page_Up''], 0x21), ([''XK_Page_Down''], 0x22), ([''XK_End''], 0x23),
    ([''XK_Home''], 0x24), ([''XK_Left''], 0x25), ([''XK_Up''], 0x26), ([''XK_Right''], 0x27), ([''XK_Down''], 0x28),
    ([''XK_Select''], 0x29), ([''XK_Print''], 0x2A), ([''XK_Execute''], 0x2B), ([''XK_Sys_Req''], 0x2C),
    ([''XK_Insert''], 0x2D), ([''XK_Delete''], 0x2E), ([''XK_Help''], 0x2F)]"

definition digit_and_letter_keys :: keycode_table where
  "digit_and_letter_keys = [
    ([''XK_1'', ''XK_exclam''], 0x31), ([''XK_2'', ''XK_at''], 0x32), ([''XK_3'', ''XK_numbersign''], 0x33),
    ([''XK_4'', ''XK_dollar''], 0x34), ([''XK_5'', ''XK_percent''], 0x35), ([''XK_6'', ''XK_asciicircum''], 0x36),
    ([''XK_7'', ''XK_ampersand''], 0x37), ([''XK_8'', ''XK_asterisk''], 0x38), ([''XK_9'', ''XK_parenleft''], 0x39),
    ([''XK_0'', ''XK_parenright''], 0x30), ([''XK_a'', ''XK_A''], 0x41), ([''XK_b'', ''XK_B''], 0x42),
    ([''XK_c'', ''XK_C''], 0x43), ([''XK_d'', ''XK_D''], 0x44), ([''XK_e'', ''XK_E''], 0x45),
    ([''XK_f'', ''XK_F''], 0x46), ([''XK_g'', ''XK_G''], 0x47), ([''XK_h'', ''XK_H''], 0x48),
    ([''XK_i'', ''XK_I''], 0x49), ([''XK_j'', ''XK_J''], 0x4A), ([''XK_k'', ''XK_K''], 0x4B),
    ([''XK_l'', ''XK_L''], 0x4C), ([''XK_m'', ''XK_M''], 0x4D), ([''XK_n'', ''XK_N''], 0x4E),
    ([''XK_o'', ''XK_O''], 0x4F), ([''XK_p'', ''XK_P''], 0x50), ([''XK_q'', ''XK_Q''], 0x51),
    ([''XK_r'', ''XK_R''], 0x52), ([''XK_s'', ''XK_S''], 0x53), ([''XK_t'', ''XK_T''], 0x54),
    ([''XK_u'', ''XK_U''], 0x55), ([''XK_v'', ''XK_V''], 0x56), ([''XK_w'', ''XK_W''], 0x57),
    ([''XK_x'', ''XK_X''], 0x58), ([''XK_y'', ''XK_Y''], 0x59), ([''XK_z'', ''XK_Z''], 0x5A)]"

definition keypad_keys :: keycode_table where
  "keypad_keys = [
    ([''XK_Super_L''], 0x5B), ([''XK_Super_R''], 0x5C), ([''XK_Menu''], 0x5D), ([''XK_KP_0''], 0x60),
    ([''XK_KP_1''], 0x61), ([''XK_KP_2''], 0x62), ([''XK_KP_3''], 0x63), ([''XK_KP_4''], 0x64), ([''XK_KP_5''], 0x65),
    ([''XK_KP_6''], 0x66), ([''XK_KP_7''], 0x67), ([''XK_KP_8''], 0x68), ([''XK_KP_9''], 0x69),
    ([''XK_KP_Multiply''], 0x6A), ([''XK_KP_Add''], 0x6B), ([''XK_KP_Separator''], 0x6C),
    ([''XK_KP_Subtract''], 0x6D), ([''XK_KP_Decimal''], 0x6E), ([''XK_KP_Divide''], 0x6F)]"

definition function_keys :: keycode_table where
  "function_keys = [
    ([''XK_F1''], 0x70), ([''XK_F2''], 0x71), ([''XK_F3''], 0x72), ([''XK_F4''], 0x73), ([''XK_F5''], 0x74),
    ([''XK_F6''], 0x75), ([''XK_F7''], 0x76), ([''XK_F8''], 0x77), ([''XK_F9''], 0x78), ([''XK_F10''], 0x79),
    ([''XK_F11''], 0x7A), ([''XK_F12''], 0x7B), ([''XK_F13''], 0x7C), ([''XK_F14''], 0x7D), ([''XK_F15''], 0x7E),
    ([''XK_F16''], 0x7F), ([''XK_F17''], 0x80), ([''XK_F18''], 0x81), ([''XK_F19''], 0x82), ([''XK_F20''], 0x83),
    ([''XK_F21''], 0x84), ([''XK_F22''], 0x85), ([''XK_F23''], 0x86), ([''XK_F24''], 0x87), ([''XK_Num_Lock''], 0x90),
    ([''XK_Scroll_Lock''], 0x91), ([''XK_Shift_L'', ''XK_Shift_R''], 0x10),
    ([''XK_Control_L'', ''XK_Control_R''], 0x11), ([''XK_Meta_L'', ''XK_Meta_R'', ''XK_Alt_L'', ''XK_Alt_R''], 0x12)]"

definition browser_keys :: keycode_table where
  "browser_keys = [
    ([''XF86XK_Back''], 0xA6), ([''XF86XK_Forward''], 0xA7), ([''XF86XK_Refresh''], 0xA8), ([''XF86XK_Stop''], 0xA9),
    ([''XF86XK_Search''], 0xAA), ([''XF86XK_Favorites''], 0xAB), ([''XF86XK_HomePage''], 0xAC),
    ([''XF86XK_AudioMute''], 0xAD), ([''XF86XK_AudioLowerVolume''], 0xAE), ([''XF86XK_AudioRaiseVolume''], 0xAF),
    ([''XF86XK_AudioNext''], 0xB0), ([''XF86XK_AudioPrev''], 0xB1), ([''XF86XK_AudioStop''], 0xB2),
    ([''XF86XK_AudioPlay''], 0xB3), ([''XF86XK_Mail''], 0xB4), ([''XF86XK_LaunchA''], 0xB6),
    ([''XF86XK_LaunchB''], 0xB7)]"

definition punctuation_keys :: keycode_table where
  "punctuation_keys = [
    ([''XK_semicolon'', ''XK_colon''], 0xBA), ([''XK_plus'', ''XK_equal''], 0xBB),
    ([''XK_comma'', ''XK_less''], 0xBC), ([''XK_minus'', ''XK_underscore''], 0xBD),
    ([''XK_period'', ''XK_greater''], 0xBE), ([''XK_slash'', ''XK_question''], 0xBF),
    ([''XK_quoteleft'', ''XK_asciitilde''], 0xC0), ([''XK_bracketleft'', ''XK_braceleft''], 0xDB),
    ([''XK_backslash'', ''XK_bar''], 0xDC), ([''XK_bracketright'', ''XK_braceright''], 0xDD),
    ([''XK_quoteright'', ''XK_quotedbl''], 0xDE), ([''XK_3270_Attn''], 0xF6), ([''XK_3270_CursorSelect''], 0xF7),
    ([''XK_3270_ExSelect''], 0xF8), ([''XK_3270_EraseEOF''], 0xF9), ([''XK_3270_Play''], 0xFA),
    ([''XK_3270_PA1''], 0xFD)]"

definition keycode_cases :: keycode_table where
  "keycode_cases = editing_keys @ digit_and_letter_keys @ keypad_keys @ function_keys @ browser_keys @ punctuation_keys"

text \<open>A \<^verbatim>\<open>switch\<close> over such cases: the first with the value, or the default.\<close>

definition switch_cases :: "(string \<Rightarrow> int) \<Rightarrow> (string list \<times> int) list \<Rightarrow> int \<Rightarrow> int" where
  "switch_cases XK cases xkeycode =
     (case List.find (\<lambda>(names, code). xkeycode \<in> XK ` set names) cases of
        Some (names, code) \<Rightarrow> code
      | None \<Rightarrow> 0)"

definition xkeycode_to_pp_keycode :: "(string \<Rightarrow> int) \<Rightarrow> int \<Rightarrow> int" where
  "xkeycode_to_pp_keycode XK xkeycode = switch_cases XK keycode_cases xkeycode"

abbreviation (input) PP_INPUTEVENT_MODIFIER_ISLEFT :: u32 where "PP_INPUTEVENT_MODIFIER_ISLEFT \<equiv> 0x800"
abbreviation (input) PP_INPUTEVENT_MODIFIER_ISRIGHT :: u32 where "PP_INPUTEVENT_MODIFIER_ISRIGHT \<equiv> 0x1000"

definition left_keys :: "string list" where
  "left_keys = [''XK_Shift_L'', ''XK_Control_L'', ''XK_Meta_L'', ''XK_Alt_L'', ''XK_Super_L'']"
definition right_keys :: "string list" where
  "right_keys = [''XK_Shift_R'', ''XK_Control_R'', ''XK_Meta_R'', ''XK_Alt_R'', ''XK_Super_R'']"

definition get_left_right_pp_flag :: "(string \<Rightarrow> int) \<Rightarrow> int \<Rightarrow> u32" where
  "get_left_right_pp_flag XK xkeycode =
     (if xkeycode \<in> XK ` set left_keys then PP_INPUTEVENT_MODIFIER_ISLEFT
      else if xkeycode \<in> XK ` set right_keys then PP_INPUTEVENT_MODIFIER_ISRIGHT
      else 0)"

end
