(* ===== verification/Events.thy ===== *)
theory Events
  imports Keycodes Input_Event Posting
begin

text \<open>
  \<^verbatim>\<open>np_functions.c\<close>: X events the browser passes on become input events of the plugin. Each handler
  makes the event on the browser's thread and posts a function to the plugin's main thread, which
  passes the event on and gives it up. Focus changes take the same way.

  Parameters: the plugin's functions, floating point conversions, GTK's input methods and the X
  library (\<open>event_env\<close>). The blocks of parameters that wait for the main thread live in \<open>ev_params\<close>.
\<close>

section \<open>Events of X\<close>

text \<open>The bits are those of the X protocol.\<close>

datatype x_event_type = KeyPress | KeyRelease | ButtonPress | ButtonRelease | MotionNotify | EnterNotify
  | LeaveNotify | FocusIn | FocusOut | Expose | GraphicsExpose | Other_event

record x_event =
  xe_type :: x_event_type
  xe_window :: ptr
  xe_x :: int
  xe_y :: int
  xe_time :: u64
  xe_state :: u32
  xe_button :: u32
  xe_keycode :: u32
  xe_mode_normal :: bool \<comment> \<open>the mode is \<^verbatim>\<open>NotifyNormal\<close>\<close>

abbreviation (input) ShiftMask :: u32 where "ShiftMask \<equiv> 0x1"
abbreviation (input) LockMask :: u32 where "LockMask \<equiv> 0x2"
abbreviation (input) ControlMask :: u32 where "ControlMask \<equiv> 0x4"
abbreviation (input) Mod1Mask :: u32 where "Mod1Mask \<equiv> 0x8"
abbreviation (input) Mod2Mask :: u32 where "Mod2Mask \<equiv> 0x10"
abbreviation (input) Mod4Mask :: u32 where "Mod4Mask \<equiv> 0x40"
abbreviation (input) Button1Mask :: u32 where "Button1Mask \<equiv> 0x100"
abbreviation (input) Button2Mask :: u32 where "Button2Mask \<equiv> 0x200"
abbreviation (input) Button3Mask :: u32 where "Button3Mask \<equiv> 0x400"

abbreviation (input) PP_INPUTEVENT_MODIFIER_SHIFTKEY :: u32 where "PP_INPUTEVENT_MODIFIER_SHIFTKEY \<equiv> 0x1"
abbreviation (input) PP_INPUTEVENT_MODIFIER_CONTROLKEY :: u32 where "PP_INPUTEVENT_MODIFIER_CONTROLKEY \<equiv> 0x2"
abbreviation (input) PP_INPUTEVENT_MODIFIER_ALTKEY :: u32 where "PP_INPUTEVENT_MODIFIER_ALTKEY \<equiv> 0x4"
abbreviation (input) PP_INPUTEVENT_MODIFIER_METAKEY :: u32 where "PP_INPUTEVENT_MODIFIER_METAKEY \<equiv> 0x8"
abbreviation (input) PP_INPUTEVENT_MODIFIER_LEFTBUTTONDOWN :: u32 where "PP_INPUTEVENT_MODIFIER_LEFTBUTTONDOWN \<equiv> 0x40"
abbreviation (input) PP_INPUTEVENT_MODIFIER_MIDDLEBUTTONDOWN :: u32 where "PP_INPUTEVENT_MODIFIER_MIDDLEBUTTONDOWN \<equiv> 0x80"
abbreviation (input) PP_INPUTEVENT_MODIFIER_RIGHTBUTTONDOWN :: u32 where "PP_INPUTEVENT_MODIFIER_RIGHTBUTTONDOWN \<equiv> 0x100"
abbreviation (input) PP_INPUTEVENT_MODIFIER_CAPSLOCKKEY :: u32 where "PP_INPUTEVENT_MODIFIER_CAPSLOCKKEY \<equiv> 0x200"
abbreviation (input) PP_INPUTEVENT_MODIFIER_NUMLOCKKEY :: u32 where "PP_INPUTEVENT_MODIFIER_NUMLOCKKEY \<equiv> 0x400"

unbundle bit_operations_syntax

text \<open>One \<^verbatim>\<open>if\<close> of the conversion: the bits added to \<^verbatim>\<open>mod\<close> when one of the state's is set.\<close>

definition when_set :: "u32 \<Rightarrow> u32 \<Rightarrow> u32 \<Rightarrow> u32 \<Rightarrow> u32" where
  "when_set state msk bits m = (if state AND msk \<noteq> 0 then m OR bits else m)"

definition x_state_mask_to_pp_inputevent_modifier :: "u32 \<Rightarrow> u32" where
  "x_state_mask_to_pp_inputevent_modifier state =
     (let m = 0;
          m = when_set state ShiftMask (PP_INPUTEVENT_MODIFIER_SHIFTKEY OR PP_INPUTEVENT_MODIFIER_ISLEFT) m;
          m = when_set state LockMask PP_INPUTEVENT_MODIFIER_CAPSLOCKKEY m;
          m = when_set state ControlMask (PP_INPUTEVENT_MODIFIER_CONTROLKEY OR PP_INPUTEVENT_MODIFIER_ISLEFT) m;
          m = when_set state Mod1Mask (PP_INPUTEVENT_MODIFIER_ALTKEY OR PP_INPUTEVENT_MODIFIER_ISLEFT) m;
          m = when_set state Mod2Mask PP_INPUTEVENT_MODIFIER_NUMLOCKKEY m;
          m = when_set state Mod4Mask (PP_INPUTEVENT_MODIFIER_METAKEY OR PP_INPUTEVENT_MODIFIER_ISLEFT) m;
          m = when_set state Button1Mask PP_INPUTEVENT_MODIFIER_LEFTBUTTONDOWN m;
          m = when_set state Button2Mask PP_INPUTEVENT_MODIFIER_MIDDLEBUTTONDOWN m;
          m = when_set state Button3Mask PP_INPUTEVENT_MODIFIER_RIGHTBUTTONDOWN m
      in m)"

text \<open>The modifiers of a key: the left flag is dropped if there is a right one.\<close>

definition key_modifiers :: "u32 \<Rightarrow> u32 \<Rightarrow> u32" where
  "key_modifiers state flag =
     (let m = x_state_mask_to_pp_inputevent_modifier state OR flag
      in if m AND PP_INPUTEVENT_MODIFIER_ISRIGHT \<noteq> 0 then m AND NOT PP_INPUTEVENT_MODIFIER_ISLEFT else m)"

section \<open>What comes from outside\<close>

record call_plugin_handle_input_event_param_s =
  ie_instance :: PP_Instance
  ie_event_id :: PP_Resource

record 'b event_world = world +
  ev_params :: "(ptr, call_plugin_handle_input_event_param_s) hash_table"
  ev_next :: ptr
  ev_sys :: 'b

text \<open>
  \<open>ee_HandleInputEvent\<close> and \<open>ee_DidChangeFocus\<close> are the plugin's functions; a plugin need not have the
  latter. \<open>ee_filter_keypress\<close> offers a key to the input method and says whether that took it;
  \<open>ee_lookup\<close> is \<^verbatim>\<open>XLookupString\<close>, the bytes and the symbol. \<open>ee_seconds\<close> divides by \<^verbatim>\<open>1.0e3\<close>,
  \<open>ee_unscale\<close> by the device scale, rounding; \<open>ee_float\<close> converts an integer. \<open>ee_placeholder\<close> draws the
  text shown in place of a plugin that is missing.
\<close>

record 'w event_env =
  ee_HandleInputEvent :: "PP_Instance \<Rightarrow> PP_Resource \<Rightarrow> 'w \<Rightarrow> 'w option"
  ee_DidChangeFocus :: "(PP_Instance \<Rightarrow> bool \<Rightarrow> 'w \<Rightarrow> 'w option) option"
  ee_set_pointer_cursor :: "PP_Instance \<Rightarrow> 'w \<Rightarrow> 'w"
  ee_filter_keypress :: "PP_Instance \<Rightarrow> x_event \<Rightarrow> 'w \<Rightarrow> bool \<times> 'w"
  ee_focus_im :: "PP_Instance \<Rightarrow> bool \<Rightarrow> 'w \<Rightarrow> 'w"
  ee_lookup :: "x_event \<Rightarrow> char list \<times> int"
  ee_XK :: "string \<Rightarrow> int"
  ee_seconds :: "u64 \<Rightarrow> double_bits"
  ee_unscale :: "int \<Rightarrow> int"
  ee_float :: "int \<Rightarrow> float_bits"
  ee_double_click_delay_ms :: int
  ee_plugin_missing :: bool
  ee_placeholder :: "x_event \<Rightarrow> 'w \<Rightarrow> 'w"

text \<open>The functions posted to the main thread; any distinct addresses but 0 would do.\<close>

definition CALL_PPP_HANDLE_INPUT_EVENT_COMT :: ptr where "CALL_PPP_HANDLE_INPUT_EVENT_COMT = 301"
definition CALL_PPP_DID_CHANGE_FOCUS_COMT :: ptr where "CALL_PPP_DID_CHANGE_FOCUS_COMT = 302"

text \<open>A change of the instance, which the handlers reach by pointer.\<close>

definition set_instance :: "PP_Instance \<Rightarrow> pp_instance_s \<Rightarrow> 'a world_scheme \<Rightarrow> 'a world_scheme" where
  "set_instance i pp_i w = w\<lparr>pp_to_np_ht := ht_insert i pp_i (pp_to_np_ht w)\<rparr>"

section \<open>Passing events to the plugin\<close>

definition call_ppp_handle_input_event_comt ::
  "'b event_world event_env \<Rightarrow> ptr \<Rightarrow> 'b event_world \<Rightarrow> 'b event_world option" where
  "call_ppp_handle_input_event_comt env a w = do {
     p \<leftarrow> ht_lookup (ev_params w) a;
     w \<leftarrow> (case tables_get_pp_instance (ie_instance p) w of
        Some pp_i \<Rightarrow> if pi_ppp_input_event pp_i then ee_HandleInputEvent env (ie_instance p) (ie_event_id p) w else Some w
      | None \<Rightarrow> Some w);
     w \<leftarrow> ppb_core_release_resource (ie_event_id p) w;
     Some (w\<lparr>ev_params := ht_remove a (ev_params w)\<rparr>)
   }"

definition ppp_handle_input_event_helper ::
  "timespec \<Rightarrow> pp_instance_s \<Rightarrow> PP_Resource \<Rightarrow> 'b event_world \<Rightarrow> 'b event_world option" where
  "ppp_handle_input_event_helper now pp_i event_id w =
     ppb_core_call_on_main_thread2 now 0
       \<lparr>ccb_func = CALL_PPP_HANDLE_INPUT_EVENT_COMT, ccb_user_data = ev_next w, ccb_flags = 0\<rparr> PP_OK
       (w\<lparr>ev_next := ev_next w + 1,
          ev_params := ht_insert (ev_next w) \<lparr>ie_instance = pi_id pp_i, ie_event_id = event_id\<rparr> (ev_params w)\<rparr>)"

definition wants :: "u32 \<Rightarrow> pp_instance_s \<Rightarrow> bool" where
  "wants cls pp_i \<longleftrightarrow> cls AND (pi_event_mask pp_i OR pi_filtered_event_mask pp_i) \<noteq> 0"

definition mouse_position :: "'w event_env \<Rightarrow> x_event \<Rightarrow> PP_Point" where
  "mouse_position env ev = \<lparr>pt_x = ee_unscale env (xe_x ev), pt_y = ee_unscale env (xe_y ev)\<rparr>"

abbreviation (input) PP_INPUTEVENT_TYPE_MOUSEDOWN :: int where "PP_INPUTEVENT_TYPE_MOUSEDOWN \<equiv> 0"
abbreviation (input) PP_INPUTEVENT_TYPE_MOUSEUP :: int where "PP_INPUTEVENT_TYPE_MOUSEUP \<equiv> 1"
abbreviation (input) PP_INPUTEVENT_TYPE_MOUSEMOVE :: int where "PP_INPUTEVENT_TYPE_MOUSEMOVE \<equiv> 2"
abbreviation (input) PP_INPUTEVENT_TYPE_MOUSEENTER :: int where "PP_INPUTEVENT_TYPE_MOUSEENTER \<equiv> 3"
abbreviation (input) PP_INPUTEVENT_TYPE_MOUSELEAVE :: int where "PP_INPUTEVENT_TYPE_MOUSELEAVE \<equiv> 4"
abbreviation (input) PP_INPUTEVENT_TYPE_KEYDOWN :: int where "PP_INPUTEVENT_TYPE_KEYDOWN \<equiv> 7"
abbreviation (input) PP_INPUTEVENT_TYPE_KEYUP :: int where "PP_INPUTEVENT_TYPE_KEYUP \<equiv> 8"
abbreviation (input) PP_INPUTEVENT_TYPE_CHAR :: int where "PP_INPUTEVENT_TYPE_CHAR \<equiv> 9"
abbreviation (input) PP_INPUTEVENT_TYPE_CONTEXTMENU :: int where "PP_INPUTEVENT_TYPE_CONTEXTMENU \<equiv> 10"

text \<open>Making a mouse event of \<open>ev\<close> and passing it on.\<close>

definition send_mouse_event ::
  "'b event_world event_env \<Rightarrow> timespec \<Rightarrow> pp_instance_s \<Rightarrow> x_event \<Rightarrow> int \<Rightarrow> int \<Rightarrow> int \<Rightarrow> 'b event_world \<Rightarrow> 'b event_world option" where
  "send_mouse_event env now pp_i ev type button click_count w = do {
     (pp_event, w) \<leftarrow> ppb_mouse_input_event_create (pi_id pp_i) type (ee_seconds env (xe_time ev))
       (x_state_mask_to_pp_inputevent_modifier (xe_state ev)) button (Some (mouse_position env ev)) click_count
       (Some zero_point) w;
     ppp_handle_input_event_helper now pp_i pp_event w
   }"

text \<open>The handlers answer whether the event was used. \<open>i\<close> is the instance of the browser's handle.\<close>

definition handle_enter_leave_event ::
  "'b event_world event_env \<Rightarrow> timespec \<Rightarrow> PP_Instance \<Rightarrow> x_event \<Rightarrow> 'b event_world \<Rightarrow> (bool \<times> 'b event_world) option" where
  "handle_enter_leave_event env now i ev w = do {
     pp_i \<leftarrow> tables_get_pp_instance i w;
     let w = (if xe_type ev = LeaveNotify
       then ee_set_pointer_cursor env (pi_id pp_i) (set_instance i (pp_i\<lparr>pi_cursor_inside_instance := True\<rparr>) w) else w);
     let pp_i = pp_i\<lparr>pi_cursor_inside_instance := (xe_type ev = EnterNotify)\<rparr>;
     let w = set_instance i pp_i w;
     (if \<not> xe_mode_normal ev then Some (False, w)
      else if \<not> pi_ppp_input_event pp_i then Some (False, w)
      else if \<not> wants PP_INPUTEVENT_CLASS_MOUSE pp_i then Some (False, w)
      else do {
        w \<leftarrow> send_mouse_event env now pp_i ev
          (if xe_type ev = EnterNotify then PP_INPUTEVENT_TYPE_MOUSEENTER else PP_INPUTEVENT_TYPE_MOUSELEAVE)
          PP_INPUTEVENT_MOUSEBUTTON_NONE 0 w;
        Some (True, w)
      })
   }"

definition handle_motion_event ::
  "'b event_world event_env \<Rightarrow> timespec \<Rightarrow> PP_Instance \<Rightarrow> x_event \<Rightarrow> 'b event_world \<Rightarrow> (bool \<times> 'b event_world) option" where
  "handle_motion_event env now i ev w = do {
     pp_i \<leftarrow> tables_get_pp_instance i w;
     (if \<not> pi_ppp_input_event pp_i then Some (False, w)
      else if \<not> wants PP_INPUTEVENT_CLASS_MOUSE pp_i then Some (False, w)
      else do {
        w \<leftarrow> send_mouse_event env now pp_i ev PP_INPUTEVENT_TYPE_MOUSEMOVE PP_INPUTEVENT_MOUSEBUTTON_NONE 0 w;
        Some (True, w)
      })
   }"

text \<open>The \<^verbatim>\<open>switch\<close> over the number of a button: the plugin's button, the class, and the wheel's two ticks.\<close>

definition button_meaning :: "u32 \<Rightarrow> int \<times> u32 \<times> int \<times> int" where
  "button_meaning ev_button =
     (if ev_button = 1 then (0, PP_INPUTEVENT_CLASS_MOUSE, 0, 0)
      else if ev_button = 2 then (1, PP_INPUTEVENT_CLASS_MOUSE, 0, 0)
      else if ev_button = 3 then (2, PP_INPUTEVENT_CLASS_MOUSE, 0, 0)
      else if ev_button = 4 then (PP_INPUTEVENT_MOUSEBUTTON_NONE, PP_INPUTEVENT_CLASS_WHEEL, 0, 1)
      else if ev_button = 5 then (PP_INPUTEVENT_MOUSEBUTTON_NONE, PP_INPUTEVENT_CLASS_WHEEL, 0, - 1)
      else if ev_button = 6 then (PP_INPUTEVENT_MOUSEBUTTON_NONE, PP_INPUTEVENT_CLASS_WHEEL, - 1, 0)
      else if ev_button = 7 then (PP_INPUTEVENT_MOUSEBUTTON_NONE, PP_INPUTEVENT_CLASS_WHEEL, 1, 0)
      else (PP_INPUTEVENT_MOUSEBUTTON_NONE, 0, 0, 0))"

text \<open>The delay is converted to the type of the time, and the sum wraps.\<close>

definition is_double_click :: "'w event_env \<Rightarrow> pp_instance_s \<Rightarrow> x_event \<Rightarrow> bool" where
  "is_double_click env pp_i ev \<longleftrightarrow>
     xe_time ev < word_of_int (ee_double_click_delay_ms env) + pi_last_button_release_timestamp pp_i"

definition handle_button_press_release_event ::
  "'b event_world event_env \<Rightarrow> timespec \<Rightarrow> PP_Instance \<Rightarrow> x_event \<Rightarrow> 'b event_world \<Rightarrow> (bool \<times> 'b event_world) option" where
  "handle_button_press_release_event env now i ev w = do {
     pp_i \<leftarrow> tables_get_pp_instance i w;
     (if \<not> pi_ppp_input_event pp_i then Some (False, w)
      else (case button_meaning (xe_button ev) of
        (mouse_button, event_class, wheel_x, wheel_y) \<Rightarrow>
          if \<not> wants event_class pp_i then Some (False, w)
          else if event_class = PP_INPUTEVENT_CLASS_MOUSE then do {
            w \<leftarrow> send_mouse_event env now pp_i ev
              (if xe_type ev = ButtonPress then PP_INPUTEVENT_TYPE_MOUSEDOWN else PP_INPUTEVENT_TYPE_MOUSEUP) mouse_button
              (if is_double_click env pp_i ev then 2 else 1) w;
            let pp_i' = (if xe_type ev = ButtonRelease then pp_i\<lparr>pi_last_button_release_timestamp := xe_time ev\<rparr> else pp_i);
            let w = set_instance i pp_i' w;
            w \<leftarrow> (if xe_type ev = ButtonRelease \<and> xe_button ev = 3
                  then send_mouse_event env now pp_i' ev PP_INPUTEVENT_TYPE_CONTEXTMENU mouse_button 1 w
                  else Some w);
            Some (True, w)
          }
          else do {
            w \<leftarrow> (if xe_type ev = ButtonPress then do {
                (pp_event, w) \<leftarrow> ppb_wheel_input_event_create (pi_id pp_i) (ee_seconds env (xe_time ev))
                  (x_state_mask_to_pp_inputevent_modifier (xe_state ev))
                  (Some \<lparr>fp_x = ee_float env (wheel_x * 10), fp_y = ee_float env (wheel_y * 10)\<rparr>)
                  (Some \<lparr>fp_x = ee_float env wheel_x, fp_y = ee_float env wheel_y\<rparr>) False w;
                ppp_handle_input_event_helper now pp_i pp_event w
              }
              else Some w);
            Some (True, w)
          }))
   }"

section \<open>Keys\<close>

definition is_printable_sequence :: "char list \<Rightarrow> bool" where
  "is_printable_sequence s \<longleftrightarrow>
     (if length s = 1 \<and> 0x20 \<le> (of_char (hd s) :: nat) \<and> (of_char (hd s) :: nat) \<le> 0x7e then True
      else length s > 1)"

definition send_key_event ::
  "'b event_world event_env \<Rightarrow> timespec \<Rightarrow> pp_instance_s \<Rightarrow> x_event \<Rightarrow> int \<Rightarrow> u32 \<Rightarrow> u32 \<Rightarrow> PP_Var \<Rightarrow> 'b event_world \<Rightarrow>
   'b event_world option" where
  "send_key_event env now pp_i ev type m pp_keycode txt w = do {
     (pp_event, w) \<leftarrow> ppb_keyboard_input_event_create_1_0 (pi_id pp_i) type (ee_seconds env (xe_time ev)) m pp_keycode txt w;
     w \<leftarrow> (if reference_countable txt then ppb_var_release txt w else Some w);
     ppp_handle_input_event_helper now pp_i pp_event w
   }"

text \<open>A key that an input method takes is not passed on here; it may come back later.\<close>

definition handle_key_press_release_event ::
  "'b event_world event_env \<Rightarrow> timespec \<Rightarrow> PP_Instance \<Rightarrow> x_event \<Rightarrow> 'b event_world \<Rightarrow> (bool \<times> 'b event_world) option" where
  "handle_key_press_release_event env now i ev w = do {
     pp_i \<leftarrow> tables_get_pp_instance i w;
     (if \<not> pi_ppp_input_event pp_i then Some (False, w)
      else if \<not> wants PP_INPUTEVENT_CLASS_KEYBOARD pp_i then Some (False, w)
      else (case (if pi_im_context pp_i \<noteq> None \<and> xe_type ev = KeyPress then ee_filter_keypress env i ev w else (False, w)) of
        (True, w) \<Rightarrow> Some (True, w)
      | (False, w) \<Rightarrow> do {
          let (buffer, keysym) = ee_lookup env ev;
          let pp_keycode = word_of_int (xkeycode_to_pp_keycode (ee_XK env) keysym);
          let m = key_modifiers (xe_state ev) (get_left_right_pp_flag (ee_XK env) keysym);
          w \<leftarrow> send_key_event env now pp_i ev (if xe_type ev = KeyPress then PP_INPUTEVENT_TYPE_KEYDOWN else PP_INPUTEVENT_TYPE_KEYUP)
            m pp_keycode VUndefined w;
          w \<leftarrow> (if xe_type ev = KeyPress \<and> is_printable_sequence buffer then do {
              (character_text, w) \<leftarrow> ppb_var_var_from_utf8 (Some buffer) (word_of_nat (length buffer)) w;
              send_key_event env now pp_i ev PP_INPUTEVENT_TYPE_CHAR m pp_keycode character_text w
            }
            else Some w);
          Some (True, w)
        }))
   }"

section \<open>Focus\<close>

text \<open>A change of focus is swallowed as long as the instance counts some to be ignored.\<close>

definition call_ppp_did_change_focus_comt ::
  "'b event_world event_env \<Rightarrow> PP_Instance \<Rightarrow> bool \<Rightarrow> 'b event_world \<Rightarrow> 'b event_world option" where
  "call_ppp_did_change_focus_comt env instance has_focus w =
     (case tables_get_pp_instance instance w of
        None \<Rightarrow> Some w
      | Some pp_i \<Rightarrow>
          let muffle_event = 0 < pi_ignore_focus_events_cnt pp_i;
              w = (if 0 < pi_ignore_focus_events_cnt pp_i
                   then set_instance instance (pp_i\<lparr>pi_ignore_focus_events_cnt := pi_ignore_focus_events_cnt pp_i - 1\<rparr>) w else w)
          in (case ee_DidChangeFocus env of
                Some f \<Rightarrow> if pi_ppp_instance_1_1 pp_i \<and> \<not> muffle_event then f (pi_id pp_i) has_focus w else Some w
              | None \<Rightarrow> Some w))"

definition handle_focus_in_out_event ::
  "'b event_world event_env \<Rightarrow> timespec \<Rightarrow> PP_Instance \<Rightarrow> x_event \<Rightarrow> 'b event_world \<Rightarrow> (bool \<times> 'b event_world) option" where
  "handle_focus_in_out_event env now i ev w = do {
     pp_i \<leftarrow> tables_get_pp_instance i w;
     let has_focus = (xe_type ev = FocusIn);
     let w = (if pi_im_context pp_i \<noteq> None then ee_focus_im env i has_focus w else w);
     w \<leftarrow> ppb_core_call_on_main_thread2 now 0
       \<lparr>ccb_func = CALL_PPP_DID_CHANGE_FOCUS_COMT, ccb_user_data = nat (pi_id pp_i), ccb_flags = 0\<rparr>
       (if has_focus then 1 else 0) w;
     Some (True, w)
   }"

section \<open>The browser's entry\<close>

text \<open>\<open>expose\<close> is \<^verbatim>\<open>handle_graphics_expose_event\<close>; an instance that is fullscreen sees its own window's events only.\<close>

definition NPP_HandleEvent ::
  "'b event_world event_env \<Rightarrow> timespec \<Rightarrow> (x_event \<Rightarrow> 'b event_world \<Rightarrow> (bool \<times> 'b event_world) option) \<Rightarrow>
   PP_Instance \<Rightarrow> x_event \<Rightarrow> 'b event_world \<Rightarrow> (bool \<times> 'b event_world) option" where
  "NPP_HandleEvent env now expose i ev w =
     (if ee_plugin_missing env
      then Some (False, if xe_type ev = GraphicsExpose then ee_placeholder env ev w else w)
      else case tables_get_pp_instance i w of
        None \<Rightarrow> Some (False, w)
      | Some pp_i \<Rightarrow>
          if pi_is_fullscreen pp_i \<and> pi_fs_wnd pp_i \<noteq> xe_window ev then Some (False, w)
          else (case xe_type ev of
             Expose \<Rightarrow> expose ev w
           | GraphicsExpose \<Rightarrow> expose ev w
           | EnterNotify \<Rightarrow> handle_enter_leave_event env now i ev w
           | LeaveNotify \<Rightarrow> handle_enter_leave_event env now i ev w
           | MotionNotify \<Rightarrow> handle_motion_event env now i ev w
           | ButtonPress \<Rightarrow> handle_button_press_release_event env now i ev w
           | ButtonRelease \<Rightarrow> handle_button_press_release_event env now i ev w
           | KeyPress \<Rightarrow> handle_key_press_release_event env now i ev w
           | KeyRelease \<Rightarrow> handle_key_press_release_event env now i ev w
           | FocusIn \<Rightarrow> handle_focus_in_out_event env now i ev w
           | FocusOut \<Rightarrow> handle_focus_in_out_event env now i ev w
           | Other_event \<Rightarrow> Some (False, w)))"

section \<open>Input methods\<close>

definition send_ime_event ::
  "timespec \<Rightarrow> pp_instance_s \<Rightarrow> int \<Rightarrow> PP_Var \<Rightarrow> u32 \<Rightarrow> u32 list \<Rightarrow> int \<Rightarrow> u32 \<Rightarrow> u32 \<Rightarrow> 'b event_world \<Rightarrow> 'b event_world option" where
  "send_ime_event now pp_i type txt n offsets target selection_start selection_end w = do {
     (event, w) \<leftarrow> ppb_ime_input_event_create (pi_id pp_i) type 0 txt n offsets target selection_start selection_end w;
     ppp_handle_input_event_helper now pp_i event w
   }"

definition im_preedit_start :: "timespec \<Rightarrow> pp_instance_s \<Rightarrow> 'b event_world \<Rightarrow> 'b event_world option" where
  "im_preedit_start now pp_i w =
     send_ime_event now pp_i PP_INPUTEVENT_TYPE_IME_COMPOSITION_START VUndefined 0 [] 0 0 0 w"

text \<open>
  \<^verbatim>\<open>g_utf8_next_char\<close> skips as many bytes as the first one says: one, or the length of the
  sequence it starts.
\<close>

definition utf8_skip :: "char \<Rightarrow> nat" where
  "utf8_skip c = (let n = (of_char c :: nat) in
     if n < 0xC0 then 1 else if n < 0xE0 then 2 else if n < 0xF0 then 3 else if n < 0xF8 then 4
     else if n < 0xFC then 5 else if n < 0xFE then 6 else 1)"

text \<open>Moving by a number of characters, reading the byte at each place; \<open>None\<close> is past the terminator.\<close>

fun utf8_offset :: "nat \<Rightarrow> char list \<Rightarrow> nat \<Rightarrow> nat option" where
  "utf8_offset 0 s pos = Some pos"
| "utf8_offset (Suc k) s pos =
     (if length s < pos then None
      else utf8_offset k s (pos + utf8_skip (if pos < length s then s ! pos else NUL)))"

text \<open>\<open>preedit\<close> is the text GTK gives, without its terminator.\<close>

definition im_preedit_changed :: "timespec \<Rightarrow> pp_instance_s \<Rightarrow> char list \<Rightarrow> nat \<Rightarrow> 'b event_world \<Rightarrow> 'b event_world option" where
  "im_preedit_changed now pp_i preedit cursor_pos w = do {
     cursor_pos_bytes \<leftarrow> utf8_offset cursor_pos preedit 0;
     let len = word_of_nat (length preedit);
     (txt, w) \<leftarrow> ppb_var_var_from_utf8 (Some (preedit @ [NUL])) len w;
     w \<leftarrow> send_ime_event now pp_i PP_INPUTEVENT_TYPE_IME_COMPOSITION_UPDATE txt 1 [0, len] (- 1)
       (word_of_nat cursor_pos_bytes) (word_of_nat cursor_pos_bytes) w;
     ppb_var_release txt w
   }"

definition im_commit :: "timespec \<Rightarrow> pp_instance_s \<Rightarrow> char list option \<Rightarrow> 'b event_world \<Rightarrow> 'b event_world option" where
  "im_commit now pp_i str w = do {
     let len = (case str of None \<Rightarrow> 0 | Some s \<Rightarrow> word_of_nat (length s));
     (txt, w) \<leftarrow> ppb_var_var_from_utf8 (map_option (\<lambda>s. s @ [NUL]) str) len w;
     w \<leftarrow> send_ime_event now pp_i PP_INPUTEVENT_TYPE_IME_COMPOSITION_END txt 1 [0, len] 0 len len w;
     w \<leftarrow> send_ime_event now pp_i PP_INPUTEVENT_TYPE_IME_TEXT txt 1 [0, len] 0 len len w;
     ppb_var_release txt w
   }"

end
