(* ===== verification/Events_Correct.thy ===== *)
theory Events_Correct
  imports Events
begin

text \<open>
  An event reaches the plugin through a queue: it is made with one reference, which the function on
  the main thread gives up. A key has a side at most once, and focus changes are swallowed as many
  times as the instance asked for.
\<close>

section \<open>Posting to the main thread\<close>

lemma post_to_main:
  assumes "calm r w" "main_thread_message_loop w = m" "m \<noteq> r" "takes_tasks m w" "queue_of m w = Some q" "ccb_func ccb \<noteq> 0"
  shows "\<exists>w'. ppb_core_call_on_main_thread2 now 0 ccb result w = Some w' \<and> loops_only w' w \<and> world.more w' = world.more w \<and>
    queue_of m w' = Some (q @ [(posted now ccb result)\<lparr>mt_depth := 1\<rparr>])"
proof -
  obtain e ml where e: "ht_lookup (res_tbl w) m = Some e" "r_resource_type e = PP_RESOURCE_MESSAGE_LOOP"
    "r_payload e = PL_message_loop ml" "m = browser_thread_message_loop w \<or> \<not> (ml_running ml \<and> ml_teardown ml)"
    using assms(4) unfolding takes_tasks_def by blast
  have av: "available m PP_RESOURCE_MESSAGE_LOOP w e"
    using calm_available [OF assms(1,3) e(1)] e(2) by simp
  let ?t = "(posted now ccb result)\<lparr>mt_depth := 1\<rparr>"
  let ?w = "put_res m (e\<lparr>r_payload := push_task ?t ml\<rparr>) w"
  have "ppb_core_call_on_main_thread2 now 0 ccb result w = Some ?w"
    using assms(2,6) e(3,4)
    by (auto simp: ppb_core_call_on_main_thread2_def ppb_message_loop_get_for_main_thread_def Let_def
      ppb_message_loop_post_work_with_result_def res_update_available [OF av] ppb_message_loop_get_for_browser_thread_def
      posted_def put_res_def)
  moreover have "loops_only ?w w" using e unfolding loops_only_def by blast
  moreover have "queue_of m ?w = Some (q @ [?t])"
    using e assms(5) by (simp add: queue_of_def loop_of_def push_task_def)
  ultimately show ?thesis by (intro exI [of _ ?w]) (simp add: put_res_def)
qed

text \<open>The block of parameters is changed only outside the resources.\<close>

lemma ev_frame [simp]:
  "res_tbl (w\<lparr>ev_params := p\<rparr>) = res_tbl w" "res_tbl (w\<lparr>ev_next := n\<rparr>) = res_tbl w"
  "world_inv extR extV (w\<lparr>ev_params := p\<rparr>) = world_inv extR extV w"
  "world_inv extR extV (w\<lparr>ev_next := n\<rparr>) = world_inv extR extV w"
  "calm r (w\<lparr>ev_params := p\<rparr>) = calm r w" "calm r (w\<lparr>ev_next := n\<rparr>) = calm r w"
  "takes_tasks m (w\<lparr>ev_params := p\<rparr>) = takes_tasks m w" "takes_tasks m (w\<lparr>ev_next := n\<rparr>) = takes_tasks m w"
  "queue_of m (w\<lparr>ev_params := p\<rparr>) = queue_of m w" "queue_of m (w\<lparr>ev_next := n\<rparr>) = queue_of m w"
  for w :: "('b, 'c) event_world_scheme"
  by (simp_all add: world_inv_def var_inv_def entries_ok_def res_entries_ok_def res_entry_ok_def calm_def takes_tasks_def
    queue_of_def loop_of_def)

definition event_task :: "timespec \<Rightarrow> ptr \<Rightarrow> message_loop_task_s" where
  "event_task now a = (posted now \<lparr>ccb_func = CALL_PPP_HANDLE_INPUT_EVENT_COMT, ccb_user_data = a, ccb_flags = 0\<rparr> PP_OK)\<lparr>mt_depth := 1\<rparr>"

section \<open>Mouse events\<close>

lemma calm_created:
  assumes "calm 0 w" "\<forall>k. k \<noteq> r \<longrightarrow> ht_lookup (res_tbl w') k = ht_lookup (res_tbl w) k"
    and "available r t w' e" "payload_fits t (r_payload e)"
  shows "calm 0 w'"
  unfolding calm_def
proof (intro allI impI)
  fix k e' assume "k \<noteq> 0" "ht_lookup (res_tbl w') k = Some e'"
  then show "\<not> r_locked e' \<and> 0 < r_ref_cnt e' \<and> payload_fits (r_resource_type e') (r_payload e')"
    using assms by (cases "k = r") (auto simp: calm_def available_def)
qed

lemma loop_kept:
  fixes w w' :: "'a world_scheme"
  assumes "\<forall>k. k \<noteq> r \<longrightarrow> ht_lookup (res_tbl w') k = ht_lookup (res_tbl w) k" "res_state.more w' = res_state.more w" "m \<noteq> r"
  shows "takes_tasks m w' = takes_tasks m w" "queue_of m w' = queue_of m w"
  using assms world_of_more [OF assms(2)] by (simp_all add: takes_tasks_def queue_of_def loop_of_def)

text \<open>
  Moving the mouse over an instance that takes mouse events makes an event of the moment, the
  modifiers and the scaled position, and queues its delivery on the main thread as the last task: the
  queued task names the event, and the one reference it holds is the only one there is.
\<close>

theorem motion_event_queued:
  fixes w :: "'b event_world"
  assumes inv: "world_inv extR extV w" and room: "0 < res_tbl_next w" "res_tbl_next w < INT_MAX"
    and type: "PP_RESOURCE_INPUT_EVENT \<in> set (destructors_ht w)"
    and i: "tables_get_pp_instance i w = Some pp_i" "pi_id pp_i = i" "pi_ppp_input_event pp_i"
      "wants PP_INPUTEVENT_CLASS_MOUSE pp_i"
    and loop: "calm 0 w" "main_thread_message_loop w = m" "takes_tasks m w" "queue_of m w = Some q"
  shows "\<exists>r w'. handle_motion_event env now i ev w = Some (True, w') \<and> ht_lookup (res_tbl w) r = None \<and>
    queue_of m w' = Some (q @ [event_task now (ev_next w)]) \<and>
    ht_lookup (ev_params w') (ev_next w) = Some \<lparr>ie_instance = i, ie_event_id = r\<rparr> \<and>
    world_inv (add_mset r extR) extV w' \<and>
    ppb_input_event_get_type r w' = Some (PP_INPUTEVENT_TYPE_MOUSEMOVE, w') \<and>
    ppb_input_event_get_time_stamp r w' = Some (ee_seconds env (xe_time ev), w') \<and>
    ppb_input_event_get_modifiers r w' = Some (x_state_mask_to_pp_inputevent_modifier (xe_state ev), w') \<and>
    ppb_mouse_input_event_get_position r w' = Some (mouse_position env ev, w')"
proof -
  let ?ie = "zero_input_event\<lparr>ie_event_class := PP_INPUTEVENT_CLASS_MOUSE, ie_type := PP_INPUTEVENT_TYPE_MOUSEMOVE,
      ie_time_stamp := ee_seconds env (xe_time ev),
      ie_modifiers := x_state_mask_to_pp_inputevent_modifier (xe_state ev), ie_mouse_button := PP_INPUTEVENT_MOUSEBUTTON_NONE,
      ie_mouse_position := point_or_zero (Some (mouse_position env ev)), ie_click_count := 0,
      ie_mouse_movement := point_or_zero (Some zero_point)\<rparr>"
  from create_resource_ok [OF inv room type i(1), of "PL_input_event ?ie"] obtain r w1 where
    w1: "create_resource i PP_RESOURCE_INPUT_EVENT (PL_input_event ?ie) w = Some (r, w1)" "ht_lookup (res_tbl w) r = None"
    "world_inv (add_mset r extR) extV w1"
    "available r PP_RESOURCE_INPUT_EVENT w1 \<lparr>r_resource_type = PP_RESOURCE_INPUT_EVENT, r_ref_cnt = 1,
      r_instance = Some i, r_self_id = r, r_locked = False, r_payload = PL_input_event ?ie\<rparr>"
    "\<forall>k. k \<noteq> r \<longrightarrow> ht_lookup (res_tbl w1) k = ht_lookup (res_tbl w) k" "res_state.more w1 = res_state.more w"
    using i(2) by (auto simp: zero_input_event_def)
  let ?p = "\<lparr>ie_instance = i, ie_event_id = r\<rparr>"
  let ?w2 = "w1\<lparr>ev_next := ev_next w + 1, ev_params := ht_insert (ev_next w) ?p (ev_params w)\<rparr>"
  have ev1: "ev_next w1 = ev_next w" "ev_params w1 = ev_params w"
    using w1(6) by (cases w; cases w1; simp)+
  have m0: "m \<noteq> 0" "m \<noteq> r"
    using loop(3) world_inv_entry [OF inv] w1(2) by (auto simp: takes_tasks_def res_entry_ok_def)
  have "calm 0 w1" by (rule calm_created [OF loop(1) w1(5,4)]) simp
  then have calm: "calm 0 ?w2" by simp
  have tk: "takes_tasks m ?w2" "queue_of m ?w2 = Some q" using loop_kept [OF w1(5,6) m0(2)] loop(3,4) by simp_all
  have main: "main_thread_message_loop ?w2 = m" using world_of_more(4) [OF w1(6)] loop(2) by simp
  from post_to_main [OF calm main m0(1) tk, of "\<lparr>ccb_func = CALL_PPP_HANDLE_INPUT_EVENT_COMT, ccb_user_data = ev_next w, ccb_flags = 0\<rparr>" now PP_OK]
  obtain w' where w': "ppp_handle_input_event_helper now pp_i r w1 = Some w'" "loops_only w' ?w2"
    "world.more w' = world.more ?w2" "queue_of m w' = Some (q @ [event_task now (ev_next w)])"
    using i(2) ev1 by (auto simp: ppp_handle_input_event_helper_def event_task_def CALL_PPP_HANDLE_INPUT_EVENT_COMT_def)
  have "handle_motion_event env now i ev w = Some (True, w')"
    using i w1(1) w'(1) by (simp add: handle_motion_event_def send_mouse_event_def ppb_mouse_input_event_create_def)
  moreover have "ev_params w' = ht_insert (ev_next w) ?p (ev_params w)"
    using w'(3) by (cases w'; cases w1) simp
  moreover have "world_inv (add_mset r extR) extV w'"
    by (rule loops_only_inv [OF w'(2)]) (use w1(3) in simp)
  moreover have "available r PP_RESOURCE_INPUT_EVENT w' \<lparr>r_resource_type = PP_RESOURCE_INPUT_EVENT, r_ref_cnt = 1,
      r_instance = Some i, r_self_id = r, r_locked = False, r_payload = PL_input_event ?ie\<rparr>"
    using w1(4) loops_only_frame(7) [OF w'(2)] by (simp add: available_def)
  note get = event_field_available [OF this] class_field_available [OF this]
  ultimately show ?thesis
    using w1(2) w'(4)
    by (intro exI [of _ r] exI [of _ w'])
      (simp add: ppb_input_event_get_type_def ppb_input_event_get_time_stamp_def ppb_input_event_get_modifiers_def
        ppb_mouse_input_event_get_position_def get point_or_zero_def)
qed

text \<open>A sample: one instance, whose events go to loop 3, the main thread's.\<close>

definition event_instance :: pp_instance_s where
  "event_instance = sample_instance\<lparr>pi_event_mask := 1\<rparr>"

definition loop_entry :: pp_resource_s where
  "loop_entry = \<lparr>r_resource_type = PP_RESOURCE_MESSAGE_LOOP, r_ref_cnt = 1, r_instance = Some 10, r_self_id = 3, r_locked = False,
     r_payload = PL_message_loop \<lparr>ml_async_q = [], ml_int_q = [], ml_running = True, ml_teardown = False, ml_depth = 1\<rparr>\<rparr>"

definition event_sample :: "pp_instance_s \<Rightarrow> (ptr, call_plugin_handle_input_event_param_s) hash_table \<Rightarrow> 'b \<Rightarrow> 'b event_world" where
  "event_sample pp_i p b = \<lparr>var_ht = [], var_id = 1, np_released = [], np_retained = [], res_tbl = [(3, loop_entry)], res_tbl_next = 4,
     destructors_ht = [PP_RESOURCE_INPUT_EVENT, PP_RESOURCE_MESSAGE_LOOP], closed_fds = [], net_tasks = [], tasks_ht = [],
     next_task = 1, pp_to_np_ht = [(10, pp_i)], npobj_to_npp_ht = [], next_instance_id = 11, main_thread_message_loop = 3,
     browser_thread_message_loop = 0, this_thread_message_loop = 0, thread_is_not_suitable_for_message_loop = False,
     ev_params = p, ev_next = 1, ev_sys = b\<rparr>"

definition event_env_sample :: "'b list event_world event_env" where
  "event_env_sample = \<lparr>ee_HandleInputEvent = \<lambda>i r w. Some w,
     ee_DidChangeFocus = None, ee_set_pointer_cursor = \<lambda>_ w. w, ee_filter_keypress = \<lambda>_ _ w. (False, w),
     ee_focus_im = \<lambda>_ _ w. w, ee_lookup = \<lambda>_. ([], 0), ee_XK = \<lambda>_. 0, ee_seconds = \<lambda>_. 7, ee_unscale = \<lambda>n. n, ee_float = \<lambda>_. 0,
     ee_double_click_delay_ms = 400, ee_plugin_missing = False, ee_placeholder = \<lambda>_ w. w\<rparr>"

definition motion_sample :: x_event where
  "motion_sample = \<lparr>xe_type = MotionNotify, xe_window = 0, xe_x = 3, xe_y = 4, xe_time = 7000, xe_state = 1, xe_button = 0,
     xe_keycode = 0, xe_mode_normal = True\<rparr>"

lemma event_sample_inv: "world_inv {#3#} {#} (event_sample pp_i p b)"
proof -
  let ?w = "event_sample pp_i p b"
  have "balanced r_ref_cnt res_kids {#3#} (res_tbl ?w)"
    by (rule balancedI) (auto simp: event_sample_def loop_entry_def ht_ok_def rc_at_def res_kids_def split: if_splits)
  moreover have "var_inv ({#} + held res_vars (res_tbl ?w)) ?w"
    by (simp add: var_inv_def event_sample_def loop_entry_def res_vars_def entries_ok_def) (rule balancedI; simp add: ht_ok_def rc_at_def)
  moreover have "res_entries_ok ?w"
    by (auto simp: res_entries_ok_def res_entry_ok_def event_sample_def loop_entry_def split: if_splits)
  ultimately show ?thesis by (simp add: world_inv_def)
qed

lemma event_sample_sel [simp]:
  "calm 0 (event_sample pp_i p b)" "takes_tasks 3 (event_sample pp_i p b)" "queue_of 3 (event_sample pp_i p b) = Some []"
  "tables_get_pp_instance 10 (event_sample pp_i p b) = Some pp_i" "main_thread_message_loop (event_sample pp_i p b) = 3"
  "res_tbl_next (event_sample pp_i p b) = 4" "ev_next (event_sample pp_i p b) = 1" "ev_params (event_sample pp_i p b) = p"
  "ev_sys (event_sample pp_i p b) = b"
  "destructors_ht (event_sample pp_i p b) = [PP_RESOURCE_INPUT_EVENT, PP_RESOURCE_MESSAGE_LOOP]"
  by (simp_all add: event_sample_def loop_entry_def calm_def takes_tasks_def queue_of_def loop_of_def tables_get_pp_instance_def)

lemma event_instance_sel [simp]:
  "pi_id event_instance = 10" "pi_ppp_input_event event_instance" "wants PP_INPUTEVENT_CLASS_MOUSE event_instance"
  by (simp_all add: event_instance_def sample_instance_def zero_instance_def wants_def)

theorem motion_event_queued_witness:
  "\<exists>r w'. handle_motion_event event_env_sample \<lparr>tv_sec = 5, tv_nsec = 0\<rparr> 10 motion_sample (event_sample event_instance [] ([] :: nat list)) =
      Some (True, w') \<and> world_inv {#r, 3#} {#} w' \<and>
    ppb_mouse_input_event_get_position r w' = Some (\<lparr>pt_x = 3, pt_y = 4\<rparr>, w')"
  using motion_event_queued [where w = "event_sample event_instance [] ([] :: nat list)" and env = event_env_sample
      and now = "\<lparr>tv_sec = 5, tv_nsec = 0\<rparr>" and ev = motion_sample,
      OF event_sample_inv _ _ _ event_sample_sel(4) event_instance_sel event_sample_sel(1,5,2,3)]
  by (auto simp: event_env_sample_def motion_sample_def mouse_position_def)

text \<open>What the plugin does with the event: nothing if the instance has gone or takes no events.\<close>

definition handled :: "'b event_world event_env \<Rightarrow> PP_Instance \<Rightarrow> PP_Resource \<Rightarrow> 'b event_world \<Rightarrow> 'b event_world option" where
  "handled env i r w = (case tables_get_pp_instance i w of
     Some pp_i \<Rightarrow> if pi_ppp_input_event pp_i then ee_HandleInputEvent env i r w else Some w | None \<Rightarrow> Some w)"

text \<open>
  C21: The queued function hands the event over and gives up the reference the queue held, whatever the
  plugin did meanwhile: references the plugin took keep the event, without them it is gone, and the
  block of parameters is freed. An instance that was destroyed while the event waited gets nothing,
  and the event is freed all the same.
\<close>

theorem event_given_up:
  fixes w :: "'b event_world"
  assumes "ht_lookup (ev_params w) a = Some \<lparr>ie_instance = i, ie_event_id = r\<rparr>" and "r \<noteq> 0"
    and "handled env i r w = Some w1" and "world_inv (add_mset r extR) extV w1"
    and "ht_lookup (res_tbl w1) r = Some e" "r_payload e = PL_input_event ie"
  shows "\<exists>w'. call_ppp_handle_input_event_comt env a w = Some w' \<and> world_inv extR extV w' \<and>
    ht_lookup (ev_params w') a = None \<and>
    ht_lookup (res_tbl w') r = (if r_ref_cnt e = 1 then None else Some (e\<lparr>r_ref_cnt := r_ref_cnt e - 1\<rparr>))"
proof -
  from pp_resource_unref_inv [OF assms(4,2)] obtain w2 where w2: "pp_resource_unref r w1 = Some w2" "world_inv extR extV w2"
    "res_tbl w2 = rc_release r_ref_cnt res_set_rc res_kids [r] (res_tbl w1)" by blast
  have pos: "0 < r_ref_cnt e" by (rule world_inv_count [OF assms(4,5)])
  have "call_ppp_handle_input_event_comt env a w = Some (w2\<lparr>ev_params := ht_remove a (ev_params w2)\<rparr>)"
    using assms(1,3) w2(1)
    by (auto simp: call_ppp_handle_input_event_comt_def handled_def ppb_core_release_resource_def split: option.splits if_splits)
  moreover have "ht_lookup (res_tbl w2) r = (if r_ref_cnt e = 1 then None else Some (e\<lparr>r_ref_cnt := r_ref_cnt e - 1\<rparr>))"
    using w2(3) assms(5,6) pos by (simp add: res_kids_def res_set_rc_def)
  ultimately show ?thesis using w2(2) by simp
qed

definition event_entry :: pp_resource_s where
  "event_entry = \<lparr>r_resource_type = PP_RESOURCE_INPUT_EVENT, r_ref_cnt = 1, r_instance = Some 10, r_self_id = 2, r_locked = False,
     r_payload = PL_input_event zero_input_event\<rparr>"

definition event_waiting :: "nat list event_world" where
  "event_waiting = (event_sample event_instance [(1, \<lparr>ie_instance = 10, ie_event_id = 2\<rparr>)] [])\<lparr>res_tbl := [(2, event_entry), (3, loop_entry)]\<rparr>"

lemma event_waiting_inv: "world_inv {#2, 3#} {#} event_waiting"
proof -
  note defs = event_waiting_def event_entry_def loop_entry_def event_sample_def
  have "balanced r_ref_cnt res_kids {#2, 3#} (res_tbl event_waiting)"
    by (rule balancedI) (auto simp: defs ht_ok_def rc_at_def res_kids_def split: if_splits)
  moreover have "var_inv ({#} + held res_vars (res_tbl event_waiting)) event_waiting"
    by (simp add: var_inv_def defs res_vars_def entries_ok_def zero_input_event_def) (rule balancedI; simp add: ht_ok_def rc_at_def)
  moreover have "res_entries_ok event_waiting"
    by (auto simp: res_entries_ok_def res_entry_ok_def defs zero_input_event_def handle_ok_def split: if_splits)
  ultimately show ?thesis by (simp add: world_inv_def)
qed

theorem event_given_up_witness:
  "\<exists>w'. call_ppp_handle_input_event_comt event_env_sample 1 event_waiting = Some w' \<and> world_inv {#3#} {#} w' \<and>
    ht_lookup (res_tbl w') 2 = None"
proof -
  have "ht_lookup (ev_params event_waiting) 1 = Some \<lparr>ie_instance = 10, ie_event_id = 2\<rparr>"
    and "handled event_env_sample 10 2 event_waiting = Some event_waiting"
    and "ht_lookup (res_tbl event_waiting) 2 = Some event_entry" "r_payload event_entry = PL_input_event zero_input_event"
    by (simp_all add: event_waiting_def handled_def event_env_sample_def event_entry_def split: option.splits)
  from event_given_up [OF this(1) _ this(2) event_waiting_inv this(3,4)]
  show ?thesis by (auto simp: event_entry_def)
qed

section \<open>Focus\<close>

text \<open>A row of focus changes as the main thread runs them.\<close>

fun focus_changes :: "'b event_world event_env \<Rightarrow> PP_Instance \<Rightarrow> bool list \<Rightarrow> 'b event_world \<Rightarrow> 'b event_world option" where
  "focus_changes env i [] w = Some w"
| "focus_changes env i (b # bs) w = Option.bind (call_ppp_did_change_focus_comt env i b w) (focus_changes env i bs)"

definition notes_focus :: "(PP_Instance \<times> bool) list event_world event_env \<Rightarrow> bool" where
  "notes_focus env \<longleftrightarrow> ee_DidChangeFocus env = Some (\<lambda>i b w. Some (w\<lparr>ev_sys := ev_sys w @ [(i, b)]\<rparr>))"

lemma focus_change_step:
  assumes "notes_focus env" "tables_get_pp_instance i w = Some pp_i" "pi_ppp_instance_1_1 pp_i"
  shows "\<exists>w'. call_ppp_did_change_focus_comt env i b w = Some w' \<and>
    ev_sys w' = ev_sys w @ (if 0 < pi_ignore_focus_events_cnt pp_i then [] else [(pi_id pp_i, b)]) \<and>
    tables_get_pp_instance i w' = Some (if 0 < pi_ignore_focus_events_cnt pp_i
      then pp_i\<lparr>pi_ignore_focus_events_cnt := pi_ignore_focus_events_cnt pp_i - 1\<rparr> else pp_i)"
  using assms by (auto simp: call_ppp_did_change_focus_comt_def notes_focus_def Let_def set_instance_def tables_get_pp_instance_def)

text \<open>
  Of a row of focus changes exactly the first ones are swallowed, as many as the instance counts, and
  the plugin is told all the others, in order; the count goes down to zero and no further.
\<close>

theorem focus_changes_swallowed:
  assumes "notes_focus env" and "tables_get_pp_instance i w = Some pp_i" "pi_ppp_instance_1_1 pp_i"
  shows "\<exists>w'. focus_changes env i bs w = Some w' \<and>
    ev_sys w' = ev_sys w @ map (Pair (pi_id pp_i)) (drop (unat (pi_ignore_focus_events_cnt pp_i)) bs) \<and>
    tables_get_pp_instance i w' = Some (pp_i\<lparr>pi_ignore_focus_events_cnt :=
      word_of_nat (unat (pi_ignore_focus_events_cnt pp_i) - length bs)\<rparr>)"
  using assms(2-)
proof (induction bs arbitrary: w pp_i)
  case Nil
  then show ?case by (cases pp_i) simp
next
  case (Cons b bs)
  let ?n = "pi_ignore_focus_events_cnt pp_i"
  let ?p = "if 0 < ?n then pp_i\<lparr>pi_ignore_focus_events_cnt := ?n - 1\<rparr> else pp_i"
  from focus_change_step [OF assms(1) Cons.prems(1,2), of b] obtain w1 where
    w1: "call_ppp_did_change_focus_comt env i b w = Some w1" "tables_get_pp_instance i w1 = Some ?p"
    "ev_sys w1 = ev_sys w @ (if 0 < ?n then [] else [(pi_id pp_i, b)])" by blast
  have p: "pi_ppp_instance_1_1 ?p" using Cons.prems(2) by auto
  show ?case
  proof (cases "?n = 0")
    case True
    then show ?thesis using Cons.IH [OF w1(2) p] w1(1,3) by simp
  next
    case False
    then have "unat ?n = Suc (unat (?n - 1))" by (simp add: unat_minus_one) (simp add: unat_gt_0)
    then show ?thesis using Cons.IH [OF w1(2) p] w1(1,3) False by (auto simp: word_neq_0_conv)
  qed
qed

theorem focus_changes_swallowed_witness:
  "\<exists>w'. focus_changes (event_env_sample\<lparr>ee_DidChangeFocus := Some (\<lambda>i b w. Some (w\<lparr>ev_sys := ev_sys w @ [(i, b)]\<rparr>))\<rparr>) 10
      [True, False, True] (event_sample (event_instance\<lparr>pi_ignore_focus_events_cnt := 2\<rparr>) [] []) = Some w' \<and> ev_sys w' = [(10, True)]"
proof -
  let ?p = "event_instance\<lparr>pi_ignore_focus_events_cnt := 2\<rparr>"
  let ?env = "event_env_sample\<lparr>ee_DidChangeFocus := Some (\<lambda>i b w. Some (w\<lparr>ev_sys := ev_sys w @ [(i, b)]\<rparr>))\<rparr>"
  have p: "pi_ppp_instance_1_1 ?p" by (simp add: event_instance_def sample_instance_def zero_instance_def)
  have "notes_focus ?env" by (simp add: notes_focus_def)
  from focus_changes_swallowed [OF this event_sample_sel(4) p, of "[True, False, True]" "[]" "[]"]
  show ?thesis by auto
qed

section \<open>Modifiers\<close>

lemma when_set_and: "b AND c = 0 \<Longrightarrow> when_set state msk b m AND c = m AND c"
  by (simp add: when_set_def bit.conj_disj_distrib2)

lemma state_not_right: "x_state_mask_to_pp_inputevent_modifier state AND PP_INPUTEVENT_MODIFIER_ISRIGHT = 0"
  by (simp add: x_state_mask_to_pp_inputevent_modifier_def Let_def when_set_and bit.conj_disj_distrib2)

text \<open>
  A key is marked as one on the right exactly if its symbol is a right one, it is never on both
  sides, and all other modifiers are those of the state.
\<close>

theorem key_on_one_side:
  "(key_modifiers state (get_left_right_pp_flag XK keysym) AND PP_INPUTEVENT_MODIFIER_ISRIGHT \<noteq> 0 \<longleftrightarrow>
     get_left_right_pp_flag XK keysym = PP_INPUTEVENT_MODIFIER_ISRIGHT) \<and>
   \<not> (key_modifiers state (get_left_right_pp_flag XK keysym) AND PP_INPUTEVENT_MODIFIER_ISRIGHT \<noteq> 0 \<and>
      key_modifiers state (get_left_right_pp_flag XK keysym) AND PP_INPUTEVENT_MODIFIER_ISLEFT \<noteq> 0) \<and>
   key_modifiers state (get_left_right_pp_flag XK keysym) AND 0x7FF = x_state_mask_to_pp_inputevent_modifier state AND 0x7FF"
proof -
  let ?f = "get_left_right_pp_flag XK keysym" and ?x = "x_state_mask_to_pp_inputevent_modifier state"
  have f: "?f \<in> {0x800, 0x1000, 0}" by (simp add: get_left_right_pp_flag_def)
  have right: "(?x OR ?f) AND 0x1000 = ?f AND 0x1000" by (simp add: bit.conj_disj_distrib2 state_not_right)
  show ?thesis
  proof (cases "?f = 0x1000")
    case True
    then have "key_modifiers state ?f = (?x OR 0x1000) AND NOT 0x800" using right by (simp add: key_modifiers_def Let_def)
    then show ?thesis using True state_not_right [of state]
      by (simp add: and.assoc bit.conj_disj_distrib2 bit.conj_disj_distrib)
  next
    case False
    then have "key_modifiers state ?f = ?x OR ?f" using f right by (auto simp: key_modifiers_def Let_def)
    then show ?thesis using False f right state_not_right [of state] by (auto simp: bit.conj_disj_distrib2)
  qed
qed

end
