(* ===== verification/Instances.thy ===== *)
theory Instances
  imports Script_Objects Url_Loader
begin

text \<open>
  \<^verbatim>\<open>np_functions.c\<close>: the life of an instance. The browser makes one (\<^verbatim>\<open>NPP_New\<close>), gives it a window,
  asks for its scriptable object, and destroys it; the plugin is told of all this on its own main
  thread, while the browser's thread waits in a nested loop where the code does.

  The plugin's functions and the values of the browser are parameters (\<open>ppp_s\<close>, \<open>npn_values\<close>), as are
  the window system and the opening of a loader, which has its own theory. GTK's widgets and input
  contexts, which the code makes and drops here, are left out.
\<close>

section \<open>What comes from outside\<close>

text \<open>
  \<open>pp_GetInstanceObject\<close> is \<open>None\<close> if the plugin lacks the interface or the function. A value of the
  browser that is \<open>None\<close> could not be got.
\<close>

record 'w ppp_s =
  pp_has_instance_1_1 :: bool
  pp_has_input_event :: bool
  pp_has_instance_private :: bool
  pp_DidCreate :: "PP_Instance \<Rightarrow> (string \<times> string) list \<Rightarrow> 'w \<Rightarrow> 'w option"
  pp_DidDestroy :: "PP_Instance \<Rightarrow> 'w \<Rightarrow> 'w option"
  pp_DidChangeView :: "PP_Instance \<Rightarrow> PP_Resource \<Rightarrow> 'w \<Rightarrow> 'w option"
  pp_HandleDocumentLoad :: "PP_Instance \<Rightarrow> PP_Resource \<Rightarrow> 'w \<Rightarrow> 'w option"
  pp_GetInstanceObject :: "(PP_Instance \<Rightarrow> 'w \<Rightarrow> (PP_Var \<times> 'w) option) option"

datatype npp_variable = NPPVpluginWindowBool | NPPVpluginTransparentBool

record 'w npn_values =
  nv_setvalue :: "ptr \<Rightarrow> npp_variable \<Rightarrow> bool \<Rightarrow> 'w \<Rightarrow> 'w"
  nv_SupportsXEmbedBool :: "ptr \<Rightarrow> 'w \<Rightarrow> bool option"
  nv_privateModeBool :: "ptr \<Rightarrow> 'w \<Rightarrow> bool option"
  nv_has_private_mode :: bool \<comment> \<open>the version of the browser's interface is late enough\<close>
  nv_WindowNPObject :: "ptr \<Rightarrow> 'w \<Rightarrow> ptr option"
  nv_PluginElementNPObject :: "ptr \<Rightarrow> 'w \<Rightarrow> ptr option"
  nv_netscapeWindow :: "ptr \<Rightarrow> 'w \<Rightarrow> ptr option"

record instance_config =
  ic_plugin_missing :: bool
  ic_plugin_loaded :: bool \<comment> \<open>\<^verbatim>\<open>ppp_get_interface\<close> is not NULL\<close>
  ic_enable_windowed_mode :: bool
  ic_enable_xembed :: bool
  ic_unscale :: "u32 \<Rightarrow> int" \<comment> \<open>division by \<^verbatim>\<open>config.device_scale\<close>, rounding\<close>

text \<open>The opening of a loader, setting and clearing of fullscreen, and the windows of the X thread.\<close>

record 'w instance_env =
  en_open :: "PP_Resource \<Rightarrow> PP_Resource \<Rightarrow> 'w \<Rightarrow> 'w option"
  en_set_fullscreen :: "PP_Instance \<Rightarrow> bool \<Rightarrow> 'w \<Rightarrow> 'w option"
  en_register_window :: "PP_Instance \<Rightarrow> ptr \<Rightarrow> bool \<Rightarrow> 'w \<Rightarrow> ptr \<times> 'w"
  en_unregister_window :: "ptr \<Rightarrow> 'w \<Rightarrow> 'w"
  en_free_cursor :: "PP_Instance \<Rightarrow> 'w \<Rightarrow> 'w"

text \<open>The addresses of the functions posted here; any distinct ones but 0 would do.\<close>

definition SET_WINDOW_COMT :: ptr where "SET_WINDOW_COMT = 401"
definition CALL_PLUGIN_DID_CREATE_COMT :: ptr where "CALL_PLUGIN_DID_CREATE_COMT = 402"
definition CALL_PLUGIN_DID_CREATE_PREPARE_COMT :: ptr where "CALL_PLUGIN_DID_CREATE_PREPARE_COMT = 403"
definition DESTROY_INSTANCE_COMT :: ptr where "DESTROY_INSTANCE_COMT = 404"
definition DESTROY_INSTANCE_PREPARE_COMT :: ptr where "DESTROY_INSTANCE_PREPARE_COMT = 405"
definition DO_NOTHING :: ptr where "DO_NOTHING = 406"

definition do_nothing :: "'w \<Rightarrow> 'w option" where
  "do_nothing w = Some w"

text \<open>The fields of an instance, which the code reaches by pointer.\<close>

definition update_instance :: "PP_Instance \<Rightarrow> (pp_instance_s \<Rightarrow> pp_instance_s) \<Rightarrow> 'a world_scheme \<Rightarrow> 'a world_scheme" where
  "update_instance i f w =
     (case ht_lookup (pp_to_np_ht w) i of None \<Rightarrow> w | Some pp_i \<Rightarrow> w\<lparr>pp_to_np_ht := ht_insert i (f pp_i) (pp_to_np_ht w)\<rparr>)"

section \<open>Windows\<close>

text \<open>
  The new rectangle goes to the plugin in a view of its own, which is given up at once. (\<open>zero_payload\<close> of a
  view is its zero rectangle; the fields not set here are never read.)
\<close>

definition set_window_comt ::
  "instance_config \<Rightarrow> 'b np_world ppp_s \<Rightarrow> PP_Instance \<Rightarrow> 'b np_world \<Rightarrow> 'b np_world option" where
  "set_window_comt cfg ppp instance_id w =
     (case tables_get_pp_instance instance_id w of
        None \<Rightarrow> Some w
      | Some pp_i \<Rightarrow> do {
          (view, w) \<leftarrow> pp_resource_allocate PP_RESOURCE_VIEW (Some (pi_id pp_i)) w;
          (v, w) \<leftarrow> pp_resource_acquire view PP_RESOURCE_VIEW w;
          (case v of
             None \<Rightarrow> Some w
           | Some _ \<Rightarrow> do {
               let w = res_write view (PL_view \<lparr>rc_point = zero_point, rc_width = ic_unscale cfg (pi_width pp_i),
                 rc_height = ic_unscale cfg (pi_height pp_i)\<rparr>) w;
               w \<leftarrow> pp_resource_release view w;
               w \<leftarrow> pp_DidChangeView ppp (pi_id pp_i) view w;
               ppb_core_release_resource view w
             })
        })"

record NPWindow =
  nw_window :: ptr
  nw_x :: int
  nw_y :: int
  nw_width :: u32
  nw_height :: u32
  nw_clip_left :: int
  nw_clip_right :: int
  nw_clip_top :: int
  nw_clip_bottom :: int

text \<open>The browser's handle has an instance or, before one is made, \<open>None\<close>.\<close>

definition NPP_SetWindow ::
  "instance_config \<Rightarrow> 'b np_world npn_values \<Rightarrow> 'b np_world instance_env \<Rightarrow> timespec \<Rightarrow> PP_Instance option \<Rightarrow>
   NPWindow \<Rightarrow> 'b np_world \<Rightarrow> (NPError \<times> 'b np_world) option" where
  "NPP_SetWindow cfg nv env now npp window w =
     (if ic_plugin_missing cfg then Some (NPERR_NO_ERROR, w)
      else (case npp of
        None \<Rightarrow> Some (NPERR_NO_ERROR, w)
      | Some i \<Rightarrow> do {
          pp_i \<leftarrow> tables_get_pp_instance i w;
          let pp_i = pp_i\<lparr>pi_wnd := nw_window window, pi_x := nw_x window, pi_y := nw_y window,
            pi_width := nw_width window, pi_height := nw_height window, pi_clip_left := nw_clip_left window,
            pi_clip_right := nw_clip_right window, pi_clip_top := nw_clip_top window,
            pi_clip_bottom := nw_clip_bottom window,
            pi_browser_wnd := (case nv_netscapeWindow nv (pi_npp pp_i) w of Some wnd \<Rightarrow> wnd | None \<Rightarrow> 0)\<rparr>;
          let w = update_instance i (\<lambda>_. pp_i) w;
          let w = (if pi_windowed_mode pp_i
            then (case en_register_window env (pi_id pp_i) (nw_window window) (pi_use_xembed pp_i) w of
              (wnd, w) \<Rightarrow> update_instance i (\<lambda>p. p\<lparr>pi_wnd := wnd\<rparr>) w)
            else w);
          w \<leftarrow> (if \<not> pi_is_fullscreen pp_i \<and> pi_instance_loaded pp_i
            then ppb_core_call_on_main_thread2 now 0
              \<lparr>ccb_func = SET_WINDOW_COMT, ccb_user_data = nat (pi_id pp_i), ccb_flags = 0\<rparr> PP_OK w
            else Some w);
          Some (NPERR_NO_ERROR, w)
        }))"

section \<open>Where the page is\<close>

definition is_string_var :: "PP_Var \<Rightarrow> bool" where
  "is_string_var v \<longleftrightarrow> (case v of VString _ \<Rightarrow> True | _ \<Rightarrow> False)"

definition get_document_url :: "'b np_world npn_s \<Rightarrow> pp_instance_s \<Rightarrow> 'b np_world \<Rightarrow> (PP_Var \<times> 'b np_world) option" where
  "get_document_url npn pp_i w =
     (case npn_getproperty npn (pi_npp pp_i) (pi_np_window_obj pp_i) (npn_getstringidentifier npn ''location'') w of
        (None, w) \<Rightarrow> Some (VUndefined, w)
      | (Some location_var, w) \<Rightarrow> do {
          (document_url, w) \<leftarrow> (case location_var of
             NPObject np_location_obj \<Rightarrow>
               (case npn_getproperty npn (pi_npp pp_i) np_location_obj (npn_getstringidentifier npn ''href'') w of
                  (None, w) \<Rightarrow> Some (VUndefined, w)
                | (Some href_var, w) \<Rightarrow> do {
                    (var, w) \<leftarrow> np_variant_to_pp_var (ppobj_of w) href_var w;
                    (document_url, w) \<leftarrow> (if is_string_var var then Some (var, w)
                      else map_option (Pair VUndefined) (ppb_var_release var w));
                    Some (document_url, npn_releasevariantvalue npn href_var w)
                  })
           | _ \<Rightarrow> Some (VUndefined, w));
          Some (document_url, npn_releasevariantvalue npn location_var w)
        })"

definition get_document_base_url :: "'b np_world npn_s \<Rightarrow> pp_instance_s \<Rightarrow> 'b np_world \<Rightarrow> (PP_Var \<times> 'b np_world) option" where
  "get_document_base_url npn pp_i w =
     (case npn_getproperty npn (pi_npp pp_i) (pi_np_window_obj pp_i) (npn_getstringidentifier npn ''document'') w of
        (None, w) \<Rightarrow> Some (VUndefined, w)
      | (Some document_var, w) \<Rightarrow> do {
          (base_url, w) \<leftarrow> (case document_var of
             NPObject document_obj \<Rightarrow>
               (case npn_getproperty npn (pi_npp pp_i) document_obj (npn_getstringidentifier npn ''baseURI'') w of
                  (None, w) \<Rightarrow> Some (VUndefined, w)
                | (Some base_uri_var, w) \<Rightarrow> do {
                    (var, w) \<leftarrow> np_variant_to_pp_var (ppobj_of w) base_uri_var w;
                    let (base_url, w) = (if is_string_var var then ppb_var_add_ref2 var w else (VUndefined, w));
                    w \<leftarrow> ppb_var_release var w;
                    Some (base_url, npn_releasevariantvalue npn base_uri_var w)
                  })
           | _ \<Rightarrow> Some (VUndefined, w));
          Some (base_url, npn_releasevariantvalue npn document_var w)
        })"

section \<open>Birth\<close>

text \<open>
  The loop over the attributes of the page's element; a NULL one is empty. Every \<^verbatim>\<open>src\<close> makes a variable,
  and the last one stays.
\<close>

fun take_arguments ::
  "(string option \<times> string option) list \<Rightarrow> pp_instance_s \<Rightarrow> PP_Var \<Rightarrow> 'b np_world \<Rightarrow>
   (pp_instance_s \<times> PP_Var \<times> 'b np_world) option" where
  "take_arguments [] pp_i instance_relative_url w = Some (pp_i, instance_relative_url, w)"
| "take_arguments ((n, v) # rest) pp_i instance_relative_url w = do {
     let argn = case_option [] id n;
     let argv = case_option [] id v;
     let pp_i = pp_i\<lparr>pi_arguments := Some (case_option [] id (pi_arguments pp_i) @ [(argn, argv)])\<rparr>;
     (instance_relative_url, w) \<leftarrow> (if strcasecmp_eq argn ''src''
       then ppb_var_var_from_utf8_z (Some (argv @ [NUL])) w else Some (instance_relative_url, w));
     let pp_i = (if strcasecmp_eq argn ''wmode''
       then (if strcasecmp_eq argv ''transparent'' then pp_i\<lparr>pi_is_transparent := True, pi_windowed_mode := False\<rparr>
             else if strcasecmp_eq argv ''opaque'' then pp_i\<lparr>pi_windowed_mode := False\<rparr> else pp_i)
       else pp_i);
     take_arguments rest pp_i instance_relative_url w
   }"

text \<open>The first part, up to the entry in the table of instances; no other code knows the structure yet.\<close>

definition make_instance ::
  "instance_config \<Rightarrow> 'b np_world npn_values \<Rightarrow> ptr \<Rightarrow> bool \<Rightarrow> (string option \<times> string option) list \<Rightarrow> 'b np_world \<Rightarrow>
   (PP_Instance \<times> PP_Var \<times> 'b np_world) option" where
  "make_instance cfg nv npp full args w = do {
     (pp_i, instance_relative_url, w) \<leftarrow> take_arguments args
       (zero_instance\<lparr>pi_npp := npp, pi_windowed_mode := ic_enable_windowed_mode cfg, pi_arguments := Some []\<rparr>) VUndefined w;
     let w = nv_setvalue nv npp NPPVpluginWindowBool (pi_windowed_mode pp_i) w;
     let browser_supports_xembed = (nv_SupportsXEmbedBool nv npp w = Some True);
     let w = nv_setvalue nv npp NPPVpluginTransparentBool (pi_is_transparent pp_i) w;
     (i, w) \<leftarrow> tables_generate_new_pp_instance_id w;
     Some (i, instance_relative_url, tables_add_pp_instance i (pp_i\<lparr>pi_id := i, pi_is_fullframe := full,
       pi_use_xembed := (browser_supports_xembed \<and> ic_enable_xembed cfg)\<rparr>) w)
   }"

text \<open>The objects of the page, which the table remembers.\<close>

definition get_page_objects :: "'b np_world npn_values \<Rightarrow> ptr \<Rightarrow> PP_Instance \<Rightarrow> 'b np_world \<Rightarrow> 'b np_world" where
  "get_page_objects nv npp i w =
     (let w = update_instance i (\<lambda>p. p\<lparr>pi_incognito_mode := (nv_has_private_mode nv \<and> nv_privateModeBool nv npp w = Some True)\<rparr>) w;
          w = (case nv_WindowNPObject nv npp w of
             Some obj \<Rightarrow> tables_add_npobj_npp_mapping obj npp (update_instance i (\<lambda>p. p\<lparr>pi_np_window_obj := obj\<rparr>) w)
           | None \<Rightarrow> update_instance i (\<lambda>p. p\<lparr>pi_np_window_obj := 0\<rparr>) w)
      in (case nv_PluginElementNPObject nv npp w of
             Some obj \<Rightarrow> tables_add_npobj_npp_mapping obj npp (update_instance i (\<lambda>p. p\<lparr>pi_np_plugin_element_obj := obj\<rparr>) w)
           | None \<Rightarrow> update_instance i (\<lambda>p. p\<lparr>pi_np_plugin_element_obj := 0\<rparr>) w))"

definition get_urls ::
  "(string \<Rightarrow> PP_URLComponents_Dev) \<Rightarrow> 'b np_world npn_s \<Rightarrow> PP_Instance \<Rightarrow> PP_Var \<Rightarrow> 'b np_world \<Rightarrow> 'b np_world option" where
  "get_urls parse npn i instance_relative_url w = do {
     pp_i \<leftarrow> tables_get_pp_instance i w;
     (document_url, w) \<leftarrow> get_document_url npn pp_i w;
     let w = update_instance i (\<lambda>p. p\<lparr>pi_document_url := document_url\<rparr>) w;
     pp_i \<leftarrow> tables_get_pp_instance i w;
     (base_url, w) \<leftarrow> get_document_base_url npn pp_i w;
     let w = update_instance i (\<lambda>p. p\<lparr>pi_document_base_url := base_url\<rparr>) w;
     (if instance_relative_url = VUndefined then do {
        let (url, w) = ppb_var_add_ref2 base_url w;
        Some (update_instance i (\<lambda>p. p\<lparr>pi_instance_url := url\<rparr>) w)
      }
      else do {
        (url, _, w) \<leftarrow> ppb_url_util_resolve_relative_to_url parse base_url instance_relative_url False w;
        ppb_var_release instance_relative_url (update_instance i (\<lambda>p. p\<lparr>pi_instance_url := url\<rparr>) w)
      })
   }"

text \<open>
  The plugin's side, on its main thread. The arguments are freed after the plugin has seen them. An
  instance that fills the page gets a loader of its document.
\<close>

definition load_document ::
  "'b np_world ppp_s \<Rightarrow> 'b np_world instance_env \<Rightarrow> PP_Instance \<Rightarrow> 'b np_world \<Rightarrow> 'b np_world option" where
  "load_document ppp env i w = do {
     pp_i \<leftarrow> tables_get_pp_instance i w;
     (request_info, w) \<leftarrow> ppb_url_request_info_create (pi_id pp_i) w;
     (url_loader, w) \<leftarrow> ppb_url_loader_create (pi_id pp_i) w;
     (s_method, w) \<leftarrow> ppb_var_var_from_utf8_z (Some (''GET'' @ [NUL])) w;
     (_, w) \<leftarrow> ppb_url_request_info_set_property request_info PP_URLREQUESTPROPERTY_URL (pi_instance_url pp_i) w;
     (_, w) \<leftarrow> ppb_url_request_info_set_property request_info PP_URLREQUESTPROPERTY_METHOD s_method w;
     w \<leftarrow> en_open env url_loader request_info w;
     w \<leftarrow> ppb_var_release s_method w;
     w \<leftarrow> ppb_core_release_resource request_info w;
     pp_HandleDocumentLoad ppp (pi_id pp_i) url_loader w
   }"

definition tell_plugin ::
  "'b np_world ppp_s \<Rightarrow> 'b np_world instance_env \<Rightarrow> PP_Instance \<Rightarrow> 'b np_world \<Rightarrow> 'b np_world option" where
  "tell_plugin ppp env i w = do {
     let w = update_instance i (\<lambda>p. p\<lparr>pi_ppp_instance_1_1 := pp_has_instance_1_1 ppp\<rparr>) w;
     (if \<not> pp_has_instance_1_1 ppp then Some w
      else do {
        let w = update_instance i (\<lambda>p. p\<lparr>pi_ppp_input_event := pp_has_input_event ppp\<rparr>) w;
        (if \<not> pp_has_input_event ppp then Some w
         else do {
           pp_i \<leftarrow> tables_get_pp_instance i w;
           w \<leftarrow> pp_DidCreate ppp (pi_id pp_i) (case_option [] id (pi_arguments pp_i)) w;
           let w = update_instance i (\<lambda>p. p\<lparr>pi_arguments := None, pi_ppp_instance_private := pp_has_instance_private ppp\<rparr>) w;
           (obj, w) \<leftarrow> (case pp_GetInstanceObject ppp of
              Some f \<Rightarrow> if pp_has_instance_private ppp then f (pi_id pp_i) w else Some (VUndefined, w)
            | None \<Rightarrow> Some (VUndefined, w));
           let w = update_instance i (\<lambda>p. p\<lparr>pi_scriptable_pp_obj := obj\<rparr>) w;
           (if pi_is_fullframe pp_i then load_document ppp env i w else Some w)
         })
      })
   }"

definition call_plugin_did_create_comt ::
  "'b np_world ppp_s \<Rightarrow> 'b np_world instance_env \<Rightarrow> timespec \<Rightarrow> ptr \<Rightarrow> 'b np_world \<Rightarrow> 'b np_world option" where
  "call_plugin_did_create_comt ppp env now user_data w =
     (case ht_lookup (np_params w) user_data of
        Some (P_did_create p) \<Rightarrow> do {
          w \<leftarrow> tell_plugin ppp env (dc_pp_i p) w;
          quit_depth now (dc_m_loop p) (dc_depth p) w
        }
      | _ \<Rightarrow> None)"

definition call_plugin_did_create_prepare_comt :: "timespec \<Rightarrow> ptr \<Rightarrow> 'b np_world \<Rightarrow> 'b np_world option" where
  "call_plugin_did_create_prepare_comt now user_data w =
     ppb_core_trampoline_to_main_thread now
       \<lparr>ccb_func = CALL_PLUGIN_DID_CREATE_COMT, ccb_user_data = user_data, ccb_flags = 0\<rparr> PP_OK w"

abbreviation (input) NPERR_GENERIC_ERROR :: NPError where "NPERR_GENERIC_ERROR \<equiv> 1"
abbreviation (input) NPERR_MODULE_LOAD_FAILED_ERROR :: NPError where "NPERR_MODULE_LOAD_FAILED_ERROR \<equiv> 4"
abbreviation (input) NPERR_INVALID_PARAM :: NPError where "NPERR_INVALID_PARAM \<equiv> 9"

text \<open>
  The result is the error and what the browser's handle has afterwards. There is always memory for
  the structure here.
\<close>

definition NPP_New ::
  "(string \<Rightarrow> PP_URLComponents_Dev) \<Rightarrow> 'b np_world callbacks \<Rightarrow> 'b np_world tick list \<Rightarrow> timespec \<Rightarrow> instance_config \<Rightarrow>
   'b np_world npn_s \<Rightarrow> 'b np_world npn_values \<Rightarrow> ptr \<Rightarrow> bool \<Rightarrow> (string option \<times> string option) list \<Rightarrow> 'b np_world \<Rightarrow>
   (NPError \<times> PP_Instance option, 'b np_world) blocking option" where
  "NPP_New parse cb tks now cfg npn nv npp full args w =
     (if ic_plugin_missing cfg then Some (Answered (NPERR_NO_ERROR, None) (nv_setvalue nv npp NPPVpluginWindowBool False w))
      else if \<not> ic_plugin_loaded cfg then Some (Answered (NPERR_MODULE_LOAD_FAILED_ERROR, None) w)
      else do {
        (i, instance_relative_url, w) \<leftarrow> make_instance cfg nv npp full args w;
        let w = get_page_objects nv npp i w;
        w \<leftarrow> get_urls parse npn i instance_relative_url w;
        let w = update_instance i (\<lambda>p. p\<lparr>pi_textinput_type := 0, pi_im_context := None\<rparr>) w;
        (if ppb_message_loop_get_current w = 0 then Some (Answered (NPERR_GENERIC_ERROR, Some i) w)
         else if ppb_message_loop_get_for_main_thread w = 0 then Some (Answered (NPERR_GENERIC_ERROR, Some i) w)
         else do {
           let m_loop = ppb_message_loop_get_for_browser_thread w;
           (depth, w) \<leftarrow> nested_depth m_loop w;
           let (p, w) = new_param (P_did_create \<lparr>dc_m_loop = m_loop, dc_depth = depth, dc_pp_i = i\<rparr>) w;
           r \<leftarrow> post_and_wait cb tks now m_loop
             \<lparr>ccb_func = CALL_PLUGIN_DID_CREATE_PREPARE_COMT, ccb_user_data = p, ccb_flags = 0\<rparr> depth w;
           (case r of
              Running w \<Rightarrow> Some (Waiting w)
            | Returned _ w \<Rightarrow> do {
                let w = free_param p w;
                pp_i \<leftarrow> tables_get_pp_instance i w;
                (if \<not> pi_ppp_instance_1_1 pp_i \<or> \<not> pi_ppp_input_event pp_i
                 then Some (Answered (NPERR_GENERIC_ERROR, Some i) w)
                 else Some (Answered (NPERR_NO_ERROR, Some i) (update_instance i (\<lambda>p. p\<lparr>pi_instance_loaded := True\<rparr>) w)))
              })
         })
      })"

section \<open>Death\<close>

text \<open>
  The structure outlives its entry in the table: the block keeps it until the browser's thread frees it.
  It has no handle of the browser any more.
\<close>

definition destroy_instance_comt ::
  "'b np_world ppp_s \<Rightarrow> 'b np_world instance_env \<Rightarrow> timespec \<Rightarrow> ptr \<Rightarrow> 'b np_world \<Rightarrow> 'b np_world option" where
  "destroy_instance_comt ppp env now user_data w =
     (case ht_lookup (np_params w) user_data of
        Some (P_destroy_instance p) \<Rightarrow> do {
          let i = di_pp_i p;
          w \<leftarrow> en_set_fullscreen env i False w;
          w \<leftarrow> pp_DidDestroy ppp i w;
          pp_i \<leftarrow> tables_get_pp_instance i w;
          let pp_i = pp_i\<lparr>pi_npp := 0\<rparr>;
          let w = set_param user_data (P_destroy_instance (p\<lparr>di_left := Some pp_i\<rparr>)) (tables_remove_pp_instance i w);
          w \<leftarrow> ppb_var_release (pi_instance_url pp_i) w;
          w \<leftarrow> ppb_var_release (pi_document_url pp_i) w;
          quit_depth now (di_m_loop p) (di_depth p) w
        }
      | _ \<Rightarrow> None)"

definition destroy_instance_prepare_comt :: "timespec \<Rightarrow> ptr \<Rightarrow> 'b np_world \<Rightarrow> 'b np_world option" where
  "destroy_instance_prepare_comt now user_data w =
     ppb_core_trampoline_to_main_thread now
       \<lparr>ccb_func = DESTROY_INSTANCE_COMT, ccb_user_data = user_data, ccb_flags = 0\<rparr> PP_OK w"

text \<open>Giving back what the instance holds, once it has left the table.\<close>

definition free_instance :: "'b np_world npn_s \<Rightarrow> pp_instance_s \<Rightarrow> 'b np_world \<Rightarrow> 'b np_world option" where
  "free_instance npn pp_i w = do {
     let w = npn_releaseobject npn (pi_np_window_obj pp_i) w;
     let w = npn_releaseobject npn (pi_np_plugin_element_obj pp_i) w;
     let w = tables_remove_npobj_npp_mapping (pi_np_window_obj pp_i) w;
     let w = tables_remove_npobj_npp_mapping (pi_np_plugin_element_obj pp_i) w;
     ppb_var_release (pi_scriptable_pp_obj pp_i) w
   }"

definition NPP_Destroy ::
  "'b np_world callbacks \<Rightarrow> 'b np_world tick list \<Rightarrow> timespec \<Rightarrow> instance_config \<Rightarrow> 'b np_world npn_s \<Rightarrow>
   'b np_world instance_env \<Rightarrow> PP_Instance option \<Rightarrow> 'b np_world \<Rightarrow> (NPError, 'b np_world) blocking option" where
  "NPP_Destroy cb tks now cfg npn env npp w =
     (if ic_plugin_missing cfg then Some (Answered NPERR_NO_ERROR w)
      else (case npp of
        None \<Rightarrow> Some (Answered NPERR_NO_ERROR w)
      | Some i \<Rightarrow> do {
          pp_i \<leftarrow> tables_get_pp_instance i w;
          let w = (if pi_windowed_mode pp_i then en_unregister_window env (pi_wnd pp_i) w else w);
          let w = (if pi_have_prev_cursor pp_i then en_free_cursor env i w else w);
          let w = update_instance i (\<lambda>p. p\<lparr>pi_im_context := None\<rparr>) w;
          let m_loop = ppb_message_loop_get_current w;
          (depth, w) \<leftarrow> nested_depth m_loop w;
          let (p, w) = new_param (P_destroy_instance \<lparr>di_pp_i = i, di_left = None, di_m_loop = m_loop, di_depth = depth\<rparr>) w;
          r \<leftarrow> post_and_wait cb tks now m_loop
            \<lparr>ccb_func = DESTROY_INSTANCE_PREPARE_COMT, ccb_user_data = p, ccb_flags = 0\<rparr> depth w;
          (case r of
             Running w \<Rightarrow> Some (Waiting w)
           | Returned _ w \<Rightarrow>
               (case ht_lookup (np_params w) p of
                  Some (P_destroy_instance q) \<Rightarrow> do {
                    pp_i \<leftarrow> di_left q;
                    w \<leftarrow> free_instance npn pp_i (free_param p w);
                    Some (Answered NPERR_NO_ERROR w)
                  }
                | _ \<Rightarrow> None))
        }))"

section \<open>Values\<close>

text \<open>The values the code knows; every other one is an invalid parameter.\<close>

datatype NPPVariable = NPPVpluginNeedsXEmbed | NPPVpluginScriptableNPObject | NPPVpluginWantsAllNetworkStreams | NPPV_other

datatype npp_value = GV_bool bool | GV_object ptr | GV_int int

text \<open>
  \<^verbatim>\<open>np_var.value.objectValue\<close>: a variant without a value has NULL there; in any other that is no object the
  bytes are not a pointer to one (\<open>None\<close>).
\<close>

fun object_value :: "NPVariant \<Rightarrow> ptr option" where
  "object_value (NPObject obj) = Some obj"
| "object_value NPVoid = Some 0"
| "object_value NPNull = Some 0"
| "object_value _ = None"

definition NPP_GetValue ::
  "instance_config \<Rightarrow> 'b np_world npn_s \<Rightarrow> ptr \<Rightarrow> PP_Instance \<Rightarrow> NPPVariable \<Rightarrow> 'b np_world \<Rightarrow>
   ((NPError \<times> npp_value option) \<times> 'b np_world) option" where
  "NPP_GetValue cfg npn npp i variable w =
     (if ic_plugin_missing cfg then Some ((NPERR_INVALID_PARAM, None), w)
      else (case variable of
        NPPVpluginNeedsXEmbed \<Rightarrow> do {
          pp_i \<leftarrow> tables_get_pp_instance i w;
          Some ((NPERR_NO_ERROR, Some (GV_bool (pi_use_xembed pp_i))), w)
        }
      | NPPVpluginScriptableNPObject \<Rightarrow> do {
          pp_i \<leftarrow> tables_get_pp_instance i w;
          (np_var, w) \<leftarrow> pp_var_to_np_variant_here npn (pi_scriptable_pp_obj pp_i) w;
          obj \<leftarrow> object_value np_var;
          Some ((NPERR_NO_ERROR, Some (GV_object obj)), tables_add_npobj_npp_mapping obj npp w)
        }
      | NPPVpluginWantsAllNetworkStreams \<Rightarrow> Some ((NPERR_NO_ERROR, Some (GV_int 1)), w)
      | NPPV_other \<Rightarrow> Some ((NPERR_INVALID_PARAM, None), w)))"

datatype NPNVariable = NPNVmuteAudioBool | NPNV_other

text \<open>\<open>val\<close> is what the pointer, if it is not NULL, points to.\<close>

definition NPP_SetValue :: "PP_Instance option \<Rightarrow> NPNVariable \<Rightarrow> bool option \<Rightarrow> 'a world_scheme \<Rightarrow> NPError \<times> 'a world_scheme" where
  "NPP_SetValue npp variable val w =
     (case variable of
        NPNVmuteAudioBool \<Rightarrow> (NPERR_NO_ERROR, (case npp of
          Some i \<Rightarrow> update_instance i (\<lambda>p. p\<lparr>pi_is_muted := (val = Some True)\<rparr>) w | None \<Rightarrow> w))
      | NPNV_other \<Rightarrow> (NPERR_NO_ERROR, w))"

text \<open>Not implemented by the code.\<close>

definition NPP_GotFocus :: bool where "NPP_GotFocus = True"
definition NPP_LostFocus :: "'w \<Rightarrow> 'w" where "NPP_LostFocus w = w"
definition NPP_ClearSiteData :: NPError where "NPP_ClearSiteData = NPERR_NO_ERROR"
definition NPP_DidComposite :: "'w \<Rightarrow> 'w" where "NPP_DidComposite w = w"

end
