(* ===== verification/Instances_Correct.thy ===== *)
theory Instances_Correct
  imports Instances Plain_Resources
begin

text \<open>
  What the life of an instance does to the counts: a change of the window costs nothing, the
  attributes of the page's element keep more than they need, and destroying an instance gives back
  everything but one URL.
\<close>

section \<open>Windows\<close>

lemma set_window_creates:
  assumes "tables_get_pp_instance i w = Some pp_i"
    and "create_resource i PP_RESOURCE_VIEW (PL_view \<lparr>rc_point = zero_point, rc_width = ic_unscale cfg (pi_width pp_i),
      rc_height = ic_unscale cfg (pi_height pp_i)\<rparr>) w = Some (r, w1)" "r \<noteq> 0"
  shows "set_window_comt cfg ppp i w = Option.bind (pp_DidChangeView ppp (pi_id pp_i) r w1) (ppb_core_release_resource r)"
  using assms
  by (auto simp: set_window_comt_def create_resource_def with_resource_def Let_def split: option.splits Option.bind_splits)


text \<open>A sample plugin: it has the interfaces and does nothing.\<close>

definition idle_plugin :: "'b np_world ppp_s" where
  "idle_plugin = \<lparr>pp_has_instance_1_1 = True, pp_has_input_event = True, pp_has_instance_private = False,
     pp_DidCreate = \<lambda>_ _ w. Some w, pp_DidDestroy = \<lambda>_ w. Some w, pp_DidChangeView = \<lambda>_ _ w. Some w,
     pp_HandleDocumentLoad = \<lambda>_ _ w. Some w, pp_GetInstanceObject = None\<rparr>"

definition np_started :: "pp_resource_type_e list \<Rightarrow> unit np_world" where
  "np_started types = world.extend (started types)
     \<lparr>np_params = [], browser_tasks = [], next_block = 1, np_proxies = [], np_sys = ()\<rparr>"

lemma np_started_sel [simp]:
  "res_tbl_next (np_started types) = 1" "destructors_ht (np_started types) = types" "res_tbl (np_started types) = []"
  "tables_get_pp_instance 10 (np_started types) = Some sample_instance" "var_ht (np_started types) = []"
  by (simp_all add: np_started_def started_def constructors_def tables_add_pp_instance_def tables_get_pp_instance_def world.defs)

lemma np_started_inv: "world_inv {#} {#} (np_started types)"
proof -
  have "world_inv {#} {#} (np_started types) = world_inv {#} {#} (started types)"
    by (simp add: np_started_def world_inv_def var_inv_def entries_ok_def res_entries_ok_def res_entry_ok_def started_def
      constructors_def tables_add_pp_instance_def world.defs)
  then show ?thesis using started_inv by simp
qed

definition config_sample :: instance_config where
  "config_sample = \<lparr>ic_plugin_missing = False, ic_plugin_loaded = True, ic_enable_windowed_mode = True, ic_enable_xembed = False,
     ic_unscale = \<lambda>n. 2 * uint n\<rparr>"


section \<open>The attributes of the element\<close>

text \<open>A pointer that is NULL stands for the empty string.\<close>

definition text_of :: "string option \<Rightarrow> string" where
  "text_of s = (case s of None \<Rightarrow> [] | Some s \<Rightarrow> s)"

lemma text_of_id: "case_option [] id s = text_of s"
  by (cases s) (simp_all add: text_of_def)

definition named :: "string \<Rightarrow> string option \<times> string option \<Rightarrow> bool" where
  "named n a \<longleftrightarrow> strcasecmp_eq (text_of (fst a)) n"

definition wmode :: "string \<Rightarrow> string option \<times> string option \<Rightarrow> bool" where
  "wmode m a \<longleftrightarrow> named ''wmode'' a \<and> strcasecmp_eq (text_of (snd a)) m"

definition fits_u32 :: "(string option \<times> string option) list \<Rightarrow> bool" where
  "fits_u32 args \<longleftrightarrow> (\<forall>(n, v)\<in>set args. length (text_of v) < 2 ^ 32 - 1)"

lemma from_utf8_z_new:
  assumes "world_inv extR extV w" "length (var_ht w) < 2 ^ 32" "length s < 2 ^ 32 - 1"
  shows "\<exists>i w'. ppb_var_var_from_utf8_z (Some (s @ [NUL])) w = Some (VString i, w') \<and>
    world_inv extR (add_mset i extV) w' \<and> length (var_ht w') = Suc (length (var_ht w))"
proof -
  let ?s = "c_str (s @ [NUL])"
  have le: "length ?s \<le> length s"
    by (induction s) (simp_all add: c_str_def)
  let ?n = "word_of_nat (length ?s) :: u32"
  have n: "unat ?n = length ?s" using le assms(3) by (simp add: unsigned_of_nat take_bit_nat_eq_self)
  have n1: "?n + 1 \<noteq> 0"
  proof
    assume "?n + 1 = 0"
    then have "?n = - 1" by (simp add: eq_neg_iff_add_eq_0)
    moreover have "unat (- 1 :: u32) = 2 ^ 32 - 1" by (simp add: unsigned_minus_1_eq_mask mask_eq_exp_minus_1)
    ultimately have "unat ?n = 2 ^ 32 - 1" by simp
    then show False using n le assms(3) by simp
  qed
  let ?b = "VB_Str ?n (take (unat ?n) (?s @ [NUL]) @ [NUL])"
  obtain i w' where "var_register VString ?b w = Some (VString i, w')" "ht_lookup (var_ht w) i = None"
    "var_ht w' = ht_insert i \<lparr>vs_var = VString i, vs_ref_count = 1, vs_body = ?b\<rparr> (var_ht w)"
    "world_inv extR (add_mset i extV) w'"
    using world_inv_register [OF assms(1,2), of VString ?b] n by auto
  moreover from this have "length (var_ht w') = Suc (length (var_ht w))" by (simp add: ht_insert_absent)
  ultimately show ?thesis
    using n n1 by (simp add: ppb_var_var_from_utf8_z_def ppb_var_var_from_utf8_def)
qed

text \<open>
  The attributes of the page's element decide what is asked of the browser: transparency if some
  \<open>wmode\<close> says so, a window of its own unless some \<open>wmode\<close> is transparent or opaque. Each attribute
  \<open>src\<close> makes a variable of its own, but only the last one is kept: an element with the attribute twice
  leaves a variable that nobody gives back.
\<close>

theorem take_arguments_result:
  assumes "world_inv extR extV w" and "length (var_ht w) + length args < 2 ^ 32" and "fits_u32 args"
  shows "\<exists>p' url' w' ids. take_arguments args pp_i url w = Some (p', url', w') \<and>
    pi_is_transparent p' = (pi_is_transparent pp_i \<or> list_ex (wmode ''transparent'') args) \<and>
    pi_windowed_mode p' = (pi_windowed_mode pp_i \<and> \<not> list_ex (\<lambda>a. wmode ''transparent'' a \<or> wmode ''opaque'' a) args) \<and>
    length ids = length (filter (named ''src'') args) \<and> world_inv extR (mset ids + extV) w' \<and>
    url' = (if ids = [] then url else VString (last ids))"
  using assms
proof (induction args arbitrary: pp_i url w extV)
  case Nil
  then show ?case by auto
next
  case (Cons a args)
  obtain n v where a: "a = (n, v)" by (cases a)
  define p1 where "p1 = pp_i\<lparr>pi_arguments := Some (case_option [] id (pi_arguments pp_i) @ [(text_of n, text_of v)])\<rparr>"
  define p2 where "p2 = (if strcasecmp_eq (text_of n) ''wmode''
       then (if strcasecmp_eq (text_of v) ''transparent'' then p1\<lparr>pi_is_transparent := True, pi_windowed_mode := False\<rparr>
             else if strcasecmp_eq (text_of v) ''opaque'' then p1\<lparr>pi_windowed_mode := False\<rparr> else p1)
       else p1)"
  have room: "length (var_ht w) + length args < 2 ^ 32" "fits_u32 args" "length (text_of v) < 2 ^ 32 - 1" "length (var_ht w) < 2 ^ 32"
    using Cons.prems(2,3) a by (auto simp: fits_u32_def)
  have p2: "pi_is_transparent p2 = (pi_is_transparent pp_i \<or> wmode ''transparent'' a)"
    "pi_windowed_mode p2 = (pi_windowed_mode pp_i \<and> \<not> (wmode ''transparent'' a \<or> wmode ''opaque'' a))"
    by (auto simp: p2_def p1_def wmode_def named_def a)
  show ?case
  proof (cases "named ''src'' a")
    case True
    from from_utf8_z_new [OF Cons.prems(1) room(4,3)] obtain i w1 where
      w1: "ppb_var_var_from_utf8_z (Some (text_of v @ [NUL])) w = Some (VString i, w1)"
      "world_inv extR (add_mset i extV) w1" "length (var_ht w1) = Suc (length (var_ht w))" by blast
    have step: "take_arguments (a # args) pp_i url w = take_arguments args p2 (VString i) w1"
      using True w1(1) by (simp add: a text_of_id named_def p1_def [symmetric] p2_def [symmetric])
    have "length (var_ht w1) + length args < 2 ^ 32" using w1(3) Cons.prems(2) by simp
    from Cons.IH [OF w1(2) this room(2), of p2 "VString i"] obtain p' url' w' ids where
      ih: "take_arguments args p2 (VString i) w1 = Some (p', url', w')"
      "pi_is_transparent p' = (pi_is_transparent p2 \<or> list_ex (wmode ''transparent'') args)"
      "pi_windowed_mode p' = (pi_windowed_mode p2 \<and> \<not> list_ex (\<lambda>a. wmode ''transparent'' a \<or> wmode ''opaque'' a) args)"
      "length ids = length (filter (named ''src'') args)" "world_inv extR (mset ids + add_mset i extV) w'"
      "url' = (if ids = [] then VString i else VString (last ids))" by auto
    show ?thesis
      by (intro exI [of _ p'] exI [of _ url'] exI [of _ w'] exI [of _ "i # ids"])
        (use ih p2 step True in auto)
  next
    case False
    have step: "take_arguments (a # args) pp_i url w = take_arguments args p2 url w"
      using False by (simp add: a text_of_id named_def p1_def [symmetric] p2_def [symmetric])
    from Cons.IH [OF Cons.prems(1) room(1,2), of p2 url] obtain p' url' w' ids where
      ih: "take_arguments args p2 url w = Some (p', url', w')"
      "pi_is_transparent p' = (pi_is_transparent p2 \<or> list_ex (wmode ''transparent'') args)"
      "pi_windowed_mode p' = (pi_windowed_mode p2 \<and> \<not> list_ex (\<lambda>a. wmode ''transparent'' a \<or> wmode ''opaque'' a) args)"
      "length ids = length (filter (named ''src'') args)" "world_inv extR (mset ids + extV) w'"
      "url' = (if ids = [] then url else VString (last ids))" by auto
    show ?thesis
      by (intro exI [of _ p'] exI [of _ url'] exI [of _ w'] exI [of _ ids]) (use ih p2 step False in auto)
  qed
qed

theorem take_arguments_result_witness:
  "\<exists>p' i j w'. take_arguments [(Some ''SRC'', Some ''a.swf''), (Some ''wmode'', Some ''Opaque''), (Some ''src'', None)]
      (zero_instance\<lparr>pi_windowed_mode := True\<rparr>) VUndefined (np_started []) = Some (p', VString j, w') \<and>
    \<not> pi_windowed_mode p' \<and> \<not> pi_is_transparent p' \<and> world_inv {#} {#i, j#} w'"
proof -
  let ?args = "[(Some ''SRC'', Some ''a.swf''), (Some ''wmode'', Some ''Opaque''), (Some ''src'', None)]"
  have "length (var_ht (np_started [])) + length ?args < 2 ^ 32" "fits_u32 ?args" by (simp_all add: fits_u32_def text_of_def)
  from take_arguments_result [OF np_started_inv this, of "zero_instance\<lparr>pi_windowed_mode := True\<rparr>" VUndefined]
  obtain p' url' w' ids where w': "take_arguments ?args (zero_instance\<lparr>pi_windowed_mode := True\<rparr>) VUndefined (np_started []) =
      Some (p', url', w')" "length ids = length (filter (named ''src'') ?args)" "world_inv {#} (mset ids + {#}) w'"
    "url' = (if ids = [] then VUndefined else VString (last ids))"
    "pi_is_transparent p' = (pi_is_transparent (zero_instance\<lparr>pi_windowed_mode := True\<rparr>) \<or> list_ex (wmode ''transparent'') ?args)"
    "pi_windowed_mode p' = (pi_windowed_mode (zero_instance\<lparr>pi_windowed_mode := True\<rparr>) \<and>
      \<not> list_ex (\<lambda>a. wmode ''transparent'' a \<or> wmode ''opaque'' a) ?args)" by blast
  have "length (filter (named ''src'') ?args) = 2" by code_simp
  then have "length ids = 2" using w'(2) by simp
  then obtain i j where ids: "ids = [i, j]" by (auto simp: length_Suc_conv numeral_2_eq_2)
  have "\<not> list_ex (wmode ''transparent'') ?args" "list_ex (\<lambda>a. wmode ''transparent'' a \<or> wmode ''opaque'' a) ?args" by code_simp+
  then have "\<not> pi_is_transparent p'" "\<not> pi_windowed_mode p'" unfolding w'(5,6) by (simp_all only: zero_instance_def pp_instance_s.simps simp_thms)
  then show ?thesis using w'(1,3,4) ids by (auto simp: add_mset_commute)
qed

end
