(* ===== verification/Destroy_Correct.thy ===== *)
theory Destroy_Correct
  imports Instances_Correct Script_Correct
begin

text \<open>Destroying an instance: what it gives back, and what it does not.\<close>

section \<open>Asking a loop to end\<close>

lemma quit_depth_inv:
  assumes "world_inv extR extV w" and "ht_lookup (res_tbl w) m = Some e" "r_resource_type e = PP_RESOURCE_MESSAGE_LOOP" "\<not> r_locked e"
  shows "\<exists>w'. quit_depth now m d w = Some w' \<and> world_inv extR extV w' \<and> world.more w' = world.more w \<and>
    pp_to_np_ht w' = pp_to_np_ht w \<and> var_ht w' = var_ht w"
proof -
  from world_inv_available [OF assms(1,2,4)] assms(3) obtain ml where
    av: "available m PP_RESOURCE_MESSAGE_LOOP w e" "r_payload e = PL_message_loop ml"
    using fits_loop by auto
  let ?t = "\<lparr>mt_when = now, mt_terminate = True, mt_depth = d, mt_ccb = zero_ccb, mt_result_to_pass = PP_OK, mt_should_destroy_ml = False\<rparr>"
  let ?w = "w\<lparr>res_tbl := ht_insert m (e\<lparr>r_payload := push_task ?t ml\<rparr>) (res_tbl w)\<rparr>"
  have "quit_depth now m d w = Some ?w"
    using av(2) by (simp add: quit_depth_def ppb_message_loop_post_quit_depth_def res_update_available [OF av(1)])
  moreover have "world_inv extR extV ?w"
    by (rule world_inv_write [OF assms(1,2)]) (use assms(3) av(2) in \<open>simp_all add: push_task_def\<close>)
  ultimately show ?thesis by simp
qed

lemma np_frame [simp]:
  "world_inv extR extV (w\<lparr>np_params := p\<rparr>) = world_inv extR extV w"
  "res_tbl (w\<lparr>np_params := p\<rparr>) = res_tbl w" "var_ht (w\<lparr>np_params := p\<rparr>) = var_ht w"
  for w :: "('b, 'c) np_world_scheme"
  by (simp_all add: world_inv_def var_inv_def entries_ok_def res_entries_ok_def res_entry_ok_def)

lemma tables_frame [simp]:
  "world_inv extR extV (tables_remove_pp_instance i w) = world_inv extR extV w"
  "world_inv extR extV (tables_remove_npobj_npp_mapping o1 w) = world_inv extR extV w"
  "res_tbl (tables_remove_pp_instance i w) = res_tbl w" "var_ht (tables_remove_pp_instance i w) = var_ht w"
  by (simp_all add: tables_remove_pp_instance_def tables_remove_npobj_npp_mapping_def world_inv_def var_inv_def entries_ok_def
    res_entries_ok_def res_entry_ok_def)

lemma handle_ok_kept:
  assumes "var_ht w' = rc_release vs_ref_count var_set_rc var_kids ks (var_ht w)" "handle_ok (var_ht w) v"
  shows "handle_ok (var_ht w') v"
  using assms handle_ok_release by simp

section \<open>Two URLs of three\<close>

text \<open>
  Destroying an instance tells the plugin, takes the instance out of the table, and gives back the
  references to its own URL and to that of the document; the waiting thread then gives back the
  scriptable object. The reference to the base URL is given back by neither: it stays counted, so its
  variable is never freed.
\<close>

theorem destroy_keeps_base_url:
  fixes w :: "'b np_world"
  assumes p: "ht_lookup (np_params w) a = Some (P_destroy_instance p)" "di_pp_i p = i"
    and plugin: "en_set_fullscreen env i False w = Some w1" "pp_DidDestroy ppp i w1 = Some w2"
    and i: "tables_get_pp_instance i w2 = Some pp_i"
    and inv: "world_inv extR (extV + ref_of (pi_document_base_url pp_i) + ref_of (pi_scriptable_pp_obj pp_i) +
      ref_of (pi_document_url pp_i) + ref_of (pi_instance_url pp_i)) w2"
    and ok: "\<forall>v\<in>{pi_scriptable_pp_obj pp_i, pi_document_url pp_i, pi_instance_url pp_i}. handle_ok (var_ht w2) v"
    and loop: "ht_lookup (res_tbl w2) (di_m_loop p) = Some e" "r_resource_type e = PP_RESOURCE_MESSAGE_LOOP" "\<not> r_locked e"
    and browser: "\<And>obj w. npn_releaseobject npn obj w = w"
  shows "\<exists>w3 w4. destroy_instance_comt ppp env now a w = Some w3 \<and> tables_get_pp_instance i w3 = None \<and>
    ht_lookup (np_params w3) a = Some (P_destroy_instance (p\<lparr>di_left := Some (pp_i\<lparr>pi_npp := 0\<rparr>)\<rparr>)) \<and>
    free_instance npn (pp_i\<lparr>pi_npp := 0\<rparr>) w3 = Some w4 \<and> world_inv extR (extV + ref_of (pi_document_base_url pp_i)) w4"
proof -
  let ?p = "pp_i\<lparr>pi_npp := 0\<rparr>"
  let ?V = "extV + ref_of (pi_document_base_url pp_i)"
  let ?wa = "set_param a (P_destroy_instance (p\<lparr>di_left := Some ?p\<rparr>)) (tables_remove_pp_instance i w2)"
  have inv_a: "world_inv extR (?V + ref_of (pi_scriptable_pp_obj pp_i) + ref_of (pi_document_url pp_i) + ref_of (pi_instance_url pp_i)) ?wa"
    using inv by (simp add: set_param_def)
  have ok_a: "handle_ok (var_ht ?wa) (pi_instance_url pp_i)" "handle_ok (var_ht ?wa) (pi_document_url pp_i)"
    "handle_ok (var_ht ?wa) (pi_scriptable_pp_obj pp_i)" using ok by (simp_all add: set_param_def)
  from world_inv_release_var [OF inv_a ok_a(1)] obtain wb where
    wb: "ppb_var_release (pi_instance_url pp_i) ?wa = Some wb"
    "world_inv extR (?V + ref_of (pi_scriptable_pp_obj pp_i) + ref_of (pi_document_url pp_i)) wb"
    "var_state.more wb = var_state.more ?wa"
    "var_ht wb = rc_release vs_ref_count var_set_rc var_kids (counted_ids [pi_instance_url pp_i]) (var_ht ?wa)" by blast
  note ok_b = handle_ok_kept [OF wb(4) ok_a(2)] handle_ok_kept [OF wb(4) ok_a(3)]
  from world_inv_release_var [OF wb(2) ok_b(1)] obtain wc where
    wc: "ppb_var_release (pi_document_url pp_i) wb = Some wc"
    "world_inv extR (?V + ref_of (pi_scriptable_pp_obj pp_i)) wc" "var_state.more wc = var_state.more wb"
    "var_ht wc = rc_release vs_ref_count var_set_rc var_kids (counted_ids [pi_document_url pp_i]) (var_ht wb)" by blast
  note ok_c = handle_ok_kept [OF wc(4) ok_b(2)]
  have same: "var_state.more wc = var_state.more ?wa" using wc(3) wb(3) by simp
  have sel: "res_tbl wc = res_tbl w2" "np_params wc = np_params ?wa" "pp_to_np_ht wc = pp_to_np_ht ?wa"
    using same by (cases wc; cases w2; simp add: set_param_def tables_remove_pp_instance_def)+
  from quit_depth_inv [OF wc(2), of "di_m_loop p" e now "di_depth p"] loop sel(1) obtain w3 where
    w3: "quit_depth now (di_m_loop p) (di_depth p) wc = Some w3" "world_inv extR (?V + ref_of (pi_scriptable_pp_obj pp_i)) w3"
    "world.more w3 = world.more wc" "pp_to_np_ht w3 = pp_to_np_ht wc" "var_ht w3 = var_ht wc" by auto
  have params: "np_params w3 = np_params ?wa" using w3(3) sel(2) by (cases w3; cases wc) simp
  let ?w = "tables_remove_npobj_npp_mapping (pi_np_plugin_element_obj pp_i) (tables_remove_npobj_npp_mapping (pi_np_window_obj pp_i) w3)"
  have "world_inv extR (?V + ref_of (pi_scriptable_pp_obj pp_i)) ?w" "handle_ok (var_ht ?w) (pi_scriptable_pp_obj pp_i)"
    using w3(2,5) ok_c by (simp_all add: tables_remove_npobj_npp_mapping_def [of _ "_ :: 'b np_world"])
  from world_inv_release_var [OF this] obtain w4 where
    w4: "ppb_var_release (pi_scriptable_pp_obj pp_i) ?w = Some w4" "world_inv extR ?V w4" by blast
  have "destroy_instance_comt ppp env now a w = Some w3"
    using p plugin i wb(1) wc(1) w3(1) by (simp add: destroy_instance_comt_def Let_def)
  moreover have "free_instance npn ?p w3 = Some w4"
    using w4(1) by (simp add: free_instance_def browser Let_def)
  moreover have "tables_get_pp_instance i w3 = None"
    using w3(4) sel(3) by (simp add: tables_get_pp_instance_def set_param_def tables_remove_pp_instance_def)
  moreover have "ht_lookup (np_params w3) a = Some (P_destroy_instance (p\<lparr>di_left := Some ?p\<rparr>))"
    using params by (simp add: set_param_def)
  ultimately show ?thesis using w4(2) by blast
qed

definition doomed :: pp_instance_s where
  "doomed = sample_instance\<lparr>pi_instance_url := VString 5, pi_document_url := VString 6, pi_document_base_url := VString 7\<rparr>"

definition a_string :: "u32 \<Rightarrow> u32 \<times> var_s" where
  "a_string i = (i, \<lparr>vs_var = VString i, vs_ref_count = 1, vs_body = VB_Str 1 [CHR ''a'', NUL]\<rparr>)"

definition doomed_world :: "nat np_world" where
  "doomed_world = page_world\<lparr>destructors_ht := [PP_RESOURCE_MESSAGE_LOOP], var_ht := [a_string 5, a_string 6, a_string 7], pp_to_np_ht := [(10, doomed)],
     np_params := [(9, P_destroy_instance \<lparr>di_pp_i = 10, di_left = None, di_m_loop = 2, di_depth = 2\<rparr>)]\<rparr>"

definition calm_env :: "'b np_world instance_env" where
  "calm_env = \<lparr>en_open = \<lambda>_ _ w. Some w, en_set_fullscreen = \<lambda>_ _ w. Some w, en_register_window = \<lambda>_ x _ w. (x, w),
     en_unregister_window = \<lambda>_ w. w, en_free_cursor = \<lambda>_ w. w\<rparr>"

lemma doomed_world_inv: "world_inv {#1, 2#} {#7, 6, 5#} doomed_world"
proof -
  note defs = doomed_world_def page_world_def a_string_def a_loop_entry_def a_loop_def
  have "balanced r_ref_cnt res_kids {#1, 2#} (res_tbl doomed_world)"
    by (rule balancedI) (auto simp: defs ht_ok_def rc_at_def res_kids_def split: if_splits)
  moreover have "balanced vs_ref_count var_kids {#7, 6, 5#} (var_ht doomed_world)"
    by (rule balancedI) (auto simp: defs var_kids_def rc_at_def ht_ok_def split: if_splits)
  moreover have "entries_ok (var_ht doomed_world)"
    by (auto simp: defs entries_ok_def entry_ok_def handle_ok_def ht_ok_def split: if_splits)
  moreover have "held res_vars (res_tbl doomed_world) = {#}" by (simp add: defs res_vars_def)
  moreover have "res_entries_ok doomed_world"
    by (auto simp: res_entries_ok_def res_entry_ok_def defs split: if_splits)
  ultimately show ?thesis by (simp add: world_inv_def var_inv_def)
qed

theorem destroy_keeps_base_url_witness:
  "\<exists>w3 w4. destroy_instance_comt idle_plugin calm_env page_now 9 doomed_world = Some w3 \<and> tables_get_pp_instance 10 w3 = None \<and>
    free_instance page_npn (doomed\<lparr>pi_npp := 0\<rparr>) w3 = Some w4 \<and> world_inv {#1, 2#} {#7#} w4"
proof -
  let ?p = "\<lparr>di_pp_i = 10, di_left = None, di_m_loop = 2, di_depth = 2\<rparr>"
  have sel: "pi_scriptable_pp_obj doomed = VUndefined" "pi_instance_url doomed = VString 5" "pi_document_url doomed = VString 6"
    "pi_document_base_url doomed = VString 7" by (simp_all add: doomed_def sample_instance_def zero_instance_def)
  have "ht_lookup (np_params doomed_world) 9 = Some (P_destroy_instance ?p)" "tables_get_pp_instance 10 doomed_world = Some doomed"
    "ht_lookup (res_tbl doomed_world) (di_m_loop ?p) = Some (a_loop_entry 2 (a_loop False 0))"
    by (simp_all add: doomed_world_def page_world_def tables_get_pp_instance_def)
  moreover have "en_set_fullscreen calm_env 10 False doomed_world = Some doomed_world"
    "pp_DidDestroy idle_plugin 10 doomed_world = Some doomed_world" by (simp_all add: calm_env_def idle_plugin_def)
  moreover have "world_inv {#1, 2#} ({#} + ref_of (pi_document_base_url doomed) + ref_of (pi_scriptable_pp_obj doomed) +
      ref_of (pi_document_url doomed) + ref_of (pi_instance_url doomed)) doomed_world"
    using doomed_world_inv by (simp add: sel add_mset_commute)
  moreover have "\<forall>v\<in>{pi_scriptable_pp_obj doomed, pi_document_url doomed, pi_instance_url doomed}. handle_ok (var_ht doomed_world) v"
    by (simp add: sel handle_ok_def doomed_world_def a_string_def)
  moreover have "r_resource_type (a_loop_entry 2 (a_loop False 0)) = PP_RESOURCE_MESSAGE_LOOP" "\<not> r_locked (a_loop_entry 2 (a_loop False 0))"
    by (simp_all add: a_loop_entry_def)
  moreover have "npn_releaseobject page_npn obj w = w" for obj w by (simp add: page_npn_def)
  ultimately show ?thesis
    using destroy_keeps_base_url [of doomed_world 9 ?p 10 calm_env doomed_world idle_plugin doomed_world doomed "{#1, 2#}" "{#}"
        "a_loop_entry 2 (a_loop False 0)" page_npn page_now]
    by (auto simp: sel)
qed

end
