(* ===== verification/Graphics3d.thy ===== *)
theory Graphics3d
  imports Plain_Resources Posting
begin

text \<open>
  \<^verbatim>\<open>ppb_graphics3d.c\<close>: contexts of OpenGL, each with two pixmaps of the X server. What the program asks
  of the X server, of GLX, of OpenGL and of the browser is a trace, \<open>x_log\<close>; the answers come from
  outside (\<open>gl_env\<close>) and may depend on all that was asked before. The lock of the display is not
  modelled: each operation is one step.

  The destructor of a context (\<open>ppb_graphics3d_destroy\<close>) is a function of the structure; the table of
  resources only drops the structure.
\<close>

section \<open>Requests\<close>

text \<open>
  An OpenGL function with its arguments: enumerators and unsigned integers, integers, floats, booleans,
  pointers.
\<close>

datatype gl_arg = GE u32 | GI int | GF float_bits | GB "8 word" | GP ptr

record gl_command =
  gl_name :: string
  gl_args :: "gl_arg list"

text \<open>Making nothing current is \<open>GlXMakeCurrent 0 0\<close>.\<close>

datatype x_request =
    GlXMakeCurrent ptr ptr
  | GlXChooseFBConfig "int list"
  | GlXCreateContextAttribs ptr ptr
  | GlXCreateNewContext ptr ptr
  | GlXDestroyContext ptr
  | XCreatePixmap int int int
  | XFreePixmap ptr
  | GlXCreatePixmap ptr ptr
  | GlXDestroyPixmap ptr
  | XRenderCreatePicture ptr ptr
  | XRenderFreePicture ptr
  | XRenderComposite ptr ptr int int
  | XCopyArea ptr ptr int int
  | XFlush
  | XSync
  | XSendExpose ptr u32 u32
  | NpnInvalidateRect ptr u32 u32
  | NpnForceRedraw ptr
  | Gl gl_command
  | GlShaderSource u32 "char list"
  | Malloc int
  | Free ptr

text \<open>The two hash tables are the static variables of \<^verbatim>\<open>ppb_opengles2.c\<close>.\<close>

record gl_world = world +
  x_log :: "(x_request \<times> int) list"
  shader_type_ht :: "(u32, u32) hash_table"
  shader_source_ht :: "(u32, char list) hash_table"

text \<open>
  \<open>ga_translate\<close> is the shader translator. \<open>ga_have_gles2\<close> tells how the program was built,
  \<open>ga_es2_extensions\<close> whether the display has the three extensions that build needs.
\<close>

record gl_env =
  ga_answer :: "(x_request \<times> int) list \<Rightarrow> x_request \<Rightarrow> int"
  ga_have_gles2 :: bool
  ga_es2_extensions :: bool
  ga_create_context_attribs :: bool
  ga_have_xrender :: bool
  ga_default_depth :: int
  ga_pictfmt_rgb24 :: ptr
  ga_pictfmt_argb32 :: ptr
  ga_translate :: "u32 \<Rightarrow> char list \<Rightarrow> char list"

definition ask :: "gl_env \<Rightarrow> x_request \<Rightarrow> gl_world \<Rightarrow> int \<times> gl_world" where
  "ask env r w = (let a = ga_answer env (x_log w) r in (a, w\<lparr>x_log := x_log w @ [(r, a)]\<rparr>))"

definition ask_ptr :: "gl_env \<Rightarrow> x_request \<Rightarrow> gl_world \<Rightarrow> ptr \<times> gl_world" where
  "ask_ptr env r w = (case ask env r w of (a, w) \<Rightarrow> (nat a, w))"

definition tell :: "gl_env \<Rightarrow> x_request \<Rightarrow> gl_world \<Rightarrow> gl_world" where
  "tell env r w = snd (ask env r w)"

fun tell_all :: "gl_env \<Rightarrow> x_request list \<Rightarrow> gl_world \<Rightarrow> gl_world" where
  "tell_all env [] w = w"
| "tell_all env (r # rs) w = tell_all env rs (tell env r w)"

fun the_graphics3d :: "payload \<Rightarrow> pp_graphics3d_s option" where
  "the_graphics3d (PL_graphics3d g3d) = Some g3d"
| "the_graphics3d _ = None"

section \<open>Attributes\<close>

abbreviation (input) PP_GRAPHICS3DATTRIB_ALPHA_SIZE :: int where "PP_GRAPHICS3DATTRIB_ALPHA_SIZE \<equiv> 0x3021"
abbreviation (input) PP_GRAPHICS3DATTRIB_BLUE_SIZE :: int where "PP_GRAPHICS3DATTRIB_BLUE_SIZE \<equiv> 0x3022"
abbreviation (input) PP_GRAPHICS3DATTRIB_GREEN_SIZE :: int where "PP_GRAPHICS3DATTRIB_GREEN_SIZE \<equiv> 0x3023"
abbreviation (input) PP_GRAPHICS3DATTRIB_RED_SIZE :: int where "PP_GRAPHICS3DATTRIB_RED_SIZE \<equiv> 0x3024"
abbreviation (input) PP_GRAPHICS3DATTRIB_DEPTH_SIZE :: int where "PP_GRAPHICS3DATTRIB_DEPTH_SIZE \<equiv> 0x3025"
abbreviation (input) PP_GRAPHICS3DATTRIB_STENCIL_SIZE :: int where "PP_GRAPHICS3DATTRIB_STENCIL_SIZE \<equiv> 0x3026"
abbreviation (input) PP_GRAPHICS3DATTRIB_SAMPLES :: int where "PP_GRAPHICS3DATTRIB_SAMPLES \<equiv> 0x3031"
abbreviation (input) PP_GRAPHICS3DATTRIB_SAMPLE_BUFFERS :: int where "PP_GRAPHICS3DATTRIB_SAMPLE_BUFFERS \<equiv> 0x3032"
abbreviation (input) PP_GRAPHICS3DATTRIB_NONE :: int where "PP_GRAPHICS3DATTRIB_NONE \<equiv> 0x3038"
abbreviation (input) PP_GRAPHICS3DATTRIB_HEIGHT :: int where "PP_GRAPHICS3DATTRIB_HEIGHT \<equiv> 0x3056"
abbreviation (input) PP_GRAPHICS3DATTRIB_WIDTH :: int where "PP_GRAPHICS3DATTRIB_WIDTH \<equiv> 0x3057"
abbreviation (input) PP_GRAPHICS3DATTRIB_SWAP_BEHAVIOR :: int where "PP_GRAPHICS3DATTRIB_SWAP_BEHAVIOR \<equiv> 0x3093"
abbreviation (input) PP_GRAPHICS3DATTRIB_GPU_PREFERENCE :: int where "PP_GRAPHICS3DATTRIB_GPU_PREFERENCE \<equiv> 0x11000"
abbreviation (input) GLX_Y_INVERTED_EXT :: int where "GLX_Y_INVERTED_EXT \<equiv> 0x20D4"
abbreviation (input) GLX_BIND_TO_TEXTURE_RGBA_EXT :: int where "GLX_BIND_TO_TEXTURE_RGBA_EXT \<equiv> 0x20D1"

text \<open>The attributes that are passed on to GLX, with GLX's number for each.\<close>

definition glx_attribute :: "int \<Rightarrow> int option" where
  "glx_attribute a =
     (if a = PP_GRAPHICS3DATTRIB_ALPHA_SIZE then Some 11
      else if a = PP_GRAPHICS3DATTRIB_BLUE_SIZE then Some 10
      else if a = PP_GRAPHICS3DATTRIB_GREEN_SIZE then Some 9
      else if a = PP_GRAPHICS3DATTRIB_RED_SIZE then Some 8
      else if a = PP_GRAPHICS3DATTRIB_DEPTH_SIZE then Some 12
      else if a = PP_GRAPHICS3DATTRIB_STENCIL_SIZE then Some 13
      else if a = PP_GRAPHICS3DATTRIB_SAMPLES then Some 100001
      else if a = PP_GRAPHICS3DATTRIB_SAMPLE_BUFFERS then Some 100000
      else if a = GLX_Y_INVERTED_EXT then Some GLX_Y_INVERTED_EXT
      else if a = GLX_BIND_TO_TEXTURE_RGBA_EXT then Some GLX_BIND_TO_TEXTURE_RGBA_EXT
      else None)"

text \<open>The first loop: the length of the list, in steps of two. \<open>None\<close> is reading past its end.\<close>

fun attrib_length :: "int list \<Rightarrow> nat option" where
  "attrib_length [] = None"
| "attrib_length [a] = (if a = PP_GRAPHICS3DATTRIB_NONE then Some 1 else None)"
| "attrib_length (a # v # rest) =
     (if a = PP_GRAPHICS3DATTRIB_NONE then Some 1 else map_option (\<lambda>n. n + 2) (attrib_length rest))"

text \<open>
  The second loop, which skips an unknown attribute alone. The first result is the size, the second
  what is appended to the list for GLX.
\<close>

fun read_attribs :: "int list \<Rightarrow> int \<times> int \<Rightarrow> ((int \<times> int) \<times> int list) option" where
  "read_attribs [] sz = None"
| "read_attribs (a # rest) sz =
     (if a = PP_GRAPHICS3DATTRIB_HEIGHT \<or> a = PP_GRAPHICS3DATTRIB_WIDTH then (case rest of
        [] \<Rightarrow> None
      | v # rest \<Rightarrow> read_attribs rest (if a = PP_GRAPHICS3DATTRIB_HEIGHT then (fst sz, v) else (v, snd sz)))
      else if a = PP_GRAPHICS3DATTRIB_GPU_PREFERENCE \<or> a = PP_GRAPHICS3DATTRIB_SWAP_BEHAVIOR then (case rest of
        [] \<Rightarrow> None
      | v # rest \<Rightarrow> read_attribs rest sz)
      else if a = PP_GRAPHICS3DATTRIB_NONE then Some (sz, [0])
      else (case glx_attribute a of
        Some x \<Rightarrow> (case rest of
          [] \<Rightarrow> None
        | v # rest \<Rightarrow> map_option (\<lambda>(sz, cfg). (sz, x # v # cfg)) (read_attribs rest sz))
      | None \<Rightarrow> read_attribs rest sz))"

text \<open>The list for GLX with its two leading pairs; writing past the block allocated for it is undefined.\<close>

definition glx_config :: "int list \<Rightarrow> int \<times> int \<Rightarrow> ((int \<times> int) \<times> int list) option" where
  "glx_config attrib_list sz = do {
     attrib_len \<leftarrow> attrib_length attrib_list;
     (sz, cfg) \<leftarrow> read_attribs attrib_list sz;
     (if length cfg + 4 \<le> attrib_len + 6 then Some (sz, [0x8012, 1, 0x8010, 3] @ cfg) else None)
   }"

section \<open>Contexts\<close>

definition ppb_graphics3d_get_attrib_max_value :: "PP_Resource \<Rightarrow> int \<Rightarrow> int" where
  "ppb_graphics3d_get_attrib_max_value instance attribute = 0"

definition peek_gl_context :: "PP_Resource \<Rightarrow> gl_world \<Rightarrow> (ptr \<times> gl_world) option" where
  "peek_gl_context graphics3d w = res_read graphics3d PP_RESOURCE_GRAPHICS3D 0 (map_option g3_glc \<circ> the_graphics3d) w"

definition clear_surface :: "x_request list" where
  "clear_surface = [Gl \<lparr>gl_name = ''glClearColor'', gl_args = [GF 0, GF 0, GF 0, GF 0x3F800000]\<rparr>,
     Gl \<lparr>gl_name = ''glClear'', gl_args = [GE 0x4000]\<rparr>]"

text \<open>The two pixmaps of a size, and the first one's GLX pixmap.\<close>

definition make_pixmaps :: "gl_env \<Rightarrow> pp_graphics3d_s \<Rightarrow> gl_world \<Rightarrow> pp_graphics3d_s \<times> gl_world" where
  "make_pixmaps env g3d w =
     (let (p0, w) = ask_ptr env (XCreatePixmap (g3_width g3d) (g3_height g3d) (g3_depth g3d)) w;
          (p1, w) = ask_ptr env (XCreatePixmap (g3_width g3d) (g3_height g3d) (g3_depth g3d)) w;
          (gp, w) = ask_ptr env (GlXCreatePixmap (g3_fb_config g3d) p0) w
      in (g3d\<lparr>g3_pixmap := (p0, p1), g3_glx_pixmap := gp\<rparr>, w))"

definition make_pictures :: "gl_env \<Rightarrow> pp_graphics3d_s \<Rightarrow> gl_world \<Rightarrow> pp_graphics3d_s \<times> gl_world" where
  "make_pictures env g3d w =
     (let w = tell env XFlush w
      in if ga_have_xrender env then
           (let (x0, w) = ask_ptr env (XRenderCreatePicture (fst (g3_pixmap g3d)) (g3_xr_pictfmt g3d)) w;
                (x1, w) = ask_ptr env (XRenderCreatePicture (snd (g3_pixmap g3d)) (g3_xr_pictfmt g3d)) w
            in (g3d\<lparr>g3_xr_pict := (x0, x1)\<rparr>, w))
         else (g3d, w))"

text \<open>A context of the wanted version, or any at all.\<close>

definition make_glc :: "gl_env \<Rightarrow> ptr \<Rightarrow> ptr \<Rightarrow> gl_world \<Rightarrow> ptr \<times> gl_world" where
  "make_glc env fb_config share_glc w =
     (case (if ga_create_context_attribs env then ask_ptr env (GlXCreateContextAttribs fb_config share_glc) w else (0, w)) of
        (glc, w) \<Rightarrow> if glc = 0 then ask_ptr env (GlXCreateNewContext fb_config share_glc) w else (glc, w))"

text \<open>What is done with the display locked; \<open>None\<close> is the jump to \<^verbatim>\<open>err\<close>.\<close>

definition make_context ::
  "gl_env \<Rightarrow> bool \<Rightarrow> ptr \<Rightarrow> int list \<Rightarrow> pp_graphics3d_s \<Rightarrow> gl_world \<Rightarrow> pp_graphics3d_s option \<times> gl_world" where
  "make_context env is_transparent share_glc cfg_attrs g3d w =
     (let (fb_cfg, w) = ask_ptr env (GlXChooseFBConfig cfg_attrs) w
      in if fb_cfg = 0 then (None, w)
      else let (glc, w) = make_glc env fb_cfg share_glc w
      in if glc = 0 then (None, w)
      else let depth = (if is_transparent then 32 else ga_default_depth env)
      in if depth \<noteq> 24 \<and> depth \<noteq> 32 then (None, w)
      else let (g3d, w) = make_pixmaps env (g3d\<lparr>g3_fb_config := fb_cfg, g3_glc := glc, g3_depth := depth,
             g3_xr_pictfmt := (if depth = 24 then ga_pictfmt_rgb24 env else ga_pictfmt_argb32 env)\<rparr>) w
      in if g3_glx_pixmap g3d = 0 then (None, w)
      else let (g3d, w) = make_pictures env g3d w;
               (ret, w) = ask env (GlXMakeCurrent (g3_glx_pixmap g3d) (g3_glc g3d)) w
      in if ret = 0 then (None, w)
      else (Some (g3d\<lparr>g3_sub_maps := Some []\<rparr>), tell_all env (clear_surface @ [GlXMakeCurrent 0 0]) w))"

definition ppb_graphics3d_create ::
  "gl_env \<Rightarrow> PP_Instance \<Rightarrow> PP_Resource \<Rightarrow> int list \<Rightarrow> gl_world \<Rightarrow> (PP_Resource \<times> gl_world) option" where
  "ppb_graphics3d_create env instance share_context attrib_list w =
     (case tables_get_pp_instance instance w of
        None \<Rightarrow> Some (0, w)
      | Some pp_i \<Rightarrow> do {
          (share_glc, w) \<leftarrow> (if share_context = 0 then Some (0, w) else peek_gl_context share_context w);
          (if ga_have_gles2 env \<and> \<not> (ga_es2_extensions env \<and> ga_create_context_attribs env) then Some (0, w)
           else do {
             (context, w) \<leftarrow> pp_resource_allocate PP_RESOURCE_GRAPHICS3D (Some (pi_id pp_i)) w;
             (g3d, w) \<leftarrow> pp_resource_acquire context PP_RESOURCE_GRAPHICS3D w;
             (case g3d of
                None \<Rightarrow> Some (0, w)
              | Some gr \<Rightarrow> do {
                  g3d \<leftarrow> the_graphics3d (r_payload gr);
                  ((width, height), cfg_attrs) \<leftarrow> glx_config attrib_list (g3_width g3d, g3_height g3d);
                  (case make_context env (pi_is_transparent pp_i) share_glc cfg_attrs
                      (g3d\<lparr>g3_width := width, g3_height := height\<rparr>) w of
                     (Some g3d, w) \<Rightarrow> do {
                       w \<leftarrow> pp_resource_release context (res_write context (PL_graphics3d g3d) w);
                       Some (context, w)
                     }
                   | (None, w) \<Rightarrow> do {
                       w \<leftarrow> pp_resource_release context w;
                       Some (0, pp_resource_expunge context w)
                     })
                })
           })
        })"

text \<open>Freeing what a structure has of the server.\<close>

definition free_pictures :: "gl_env \<Rightarrow> ptr \<times> ptr \<Rightarrow> x_request list" where
  "free_pictures env p = (if ga_have_xrender env then [XRenderFreePicture (fst p), XRenderFreePicture (snd p)] else [])"

definition ppb_graphics3d_destroy :: "gl_env \<Rightarrow> pp_graphics3d_s \<Rightarrow> gl_world \<Rightarrow> gl_world" where
  "ppb_graphics3d_destroy env g3d w = tell_all env
     ([GlXMakeCurrent (g3_glx_pixmap g3d) (g3_glc g3d), GlXMakeCurrent 0 0, GlXDestroyPixmap (g3_glx_pixmap g3d)] @
      free_pictures env (g3_xr_pict g3d) @
      [XFreePixmap (fst (g3_pixmap g3d)), XFreePixmap (snd (g3_pixmap g3d)), GlXDestroyContext (g3_glc g3d)]) w"

definition ppb_graphics3d_is_graphics3d :: "PP_Resource \<Rightarrow> 'a res_state_scheme \<Rightarrow> bool" where
  "ppb_graphics3d_is_graphics3d resource w \<longleftrightarrow> pp_resource_get_type resource w = PP_RESOURCE_GRAPHICS3D"

definition ppb_graphics3d_get_attribs :: "PP_Resource \<Rightarrow> int" where "ppb_graphics3d_get_attribs context = 0"
definition ppb_graphics3d_set_attribs :: "PP_Resource \<Rightarrow> int" where "ppb_graphics3d_set_attribs context = 0"
definition ppb_graphics3d_get_error :: "PP_Resource \<Rightarrow> int" where "ppb_graphics3d_get_error context = 0"

text \<open>The new pixmaps are made and made current before the old ones go.\<close>

definition resize_context :: "gl_env \<Rightarrow> int \<Rightarrow> int \<Rightarrow> pp_graphics3d_s \<Rightarrow> gl_world \<Rightarrow> pp_graphics3d_s \<times> gl_world" where
  "resize_context env width height g3d w =
     (let old = g3d;
          w = tell env (GlXMakeCurrent (g3_glx_pixmap g3d) (g3_glc g3d)) w;
          (g3d, w) = make_pixmaps env (g3d\<lparr>g3_width := width, g3_height := height\<rparr>) w;
          (g3d, w) = make_pictures env g3d w
      in (g3d, tell_all env
           ([GlXMakeCurrent (g3_glx_pixmap g3d) (g3_glc g3d)] @ clear_surface @ [GlXDestroyPixmap (g3_glx_pixmap old)] @
            free_pictures env (g3_xr_pict old) @
            [XFreePixmap (fst (g3_pixmap old)), XFreePixmap (snd (g3_pixmap old))]) w))"

definition ppb_graphics3d_resize_buffers ::
  "gl_env \<Rightarrow> PP_Resource \<Rightarrow> int \<Rightarrow> int \<Rightarrow> gl_world \<Rightarrow> (int \<times> gl_world) option" where
  "ppb_graphics3d_resize_buffers env context width height w =
     (if width < 0 \<or> height < 0 then Some (PP_ERROR_BADARGUMENT, w)
      else with_resource context PP_RESOURCE_GRAPHICS3D PP_ERROR_BADRESOURCE
        (\<lambda>gr w. do {
           g3d \<leftarrow> the_graphics3d (r_payload gr);
           let (g3d, w) = resize_context env width height g3d w;
           Some (PP_OK, res_write context (PL_graphics3d g3d) w)
         }) w)"

section \<open>Showing\<close>

text \<open>
  On the browser's thread: an instance with a window of its own is sent an exposure, any other is
  redrawn by the browser.
\<close>

definition call_forceredraw_ptac :: "gl_env \<Rightarrow> PP_Instance \<Rightarrow> gl_world \<Rightarrow> gl_world" where
  "call_forceredraw_ptac env i w =
     (case tables_get_pp_instance i w of
        None \<Rightarrow> w
      | Some pp_i \<Rightarrow>
          if pi_is_fullscreen pp_i then tell_all env [XSendExpose (pi_fs_wnd pp_i) (pi_fs_width pp_i) (pi_fs_height pp_i), XFlush] w
          else if pi_windowed_mode pp_i then tell_all env [XSendExpose (pi_wnd pp_i) (pi_width pp_i) (pi_height pp_i), XFlush] w
          else tell_all env [NpnInvalidateRect (pi_npp pp_i) (pi_width pp_i) (pi_height pp_i), NpnForceRedraw (pi_npp pp_i)] w)"

text \<open>Copying what was drawn, between two round trips to the server.\<close>

definition copy_drawn :: "gl_env \<Rightarrow> pp_graphics3d_s \<Rightarrow> x_request list" where
  "copy_drawn env g3d =
     [GlXMakeCurrent (g3_glx_pixmap g3d) (g3_glc g3d), Gl \<lparr>gl_name = ''glFinish'', gl_args = []\<rparr>, GlXMakeCurrent 0 0, XSync,
      (if ga_have_xrender env
       then XRenderComposite (fst (g3_xr_pict g3d)) (snd (g3_xr_pict g3d)) (g3_width g3d) (g3_height g3d)
       else XCopyArea (fst (g3_pixmap g3d)) (snd (g3_pixmap g3d)) (g3_width g3d) (g3_height g3d)),
      XSync]"

definition ppb_graphics3d_swap_buffers ::
  "gl_env \<Rightarrow> timespec \<Rightarrow> ptr \<Rightarrow> PP_Resource \<Rightarrow> PP_CompletionCallback \<Rightarrow> gl_world \<Rightarrow> (int \<times> gl_world) option" where
  "ppb_graphics3d_swap_buffers env now comt context callback w = do {
     (g, w) \<leftarrow> pp_resource_acquire context PP_RESOURCE_GRAPHICS3D w;
     (case g of
        None \<Rightarrow> Some (PP_ERROR_BADRESOURCE, w)
      | Some gr \<Rightarrow> do {
          i \<leftarrow> r_instance gr;
          pp_i \<leftarrow> tables_get_pp_instance i w;
          g3d \<leftarrow> the_graphics3d (r_payload gr);
          (if pi_graphics pp_i \<noteq> context then do {
             w \<leftarrow> pp_resource_release context w;
             Some (PP_ERROR_FAILED, w)
           }
           else if pi_graphics_in_progress pp_i then do {
             w \<leftarrow> pp_resource_release context w;
             Some (PP_ERROR_INPROGRESS, w)
           }
           else do {
             w \<leftarrow> pp_resource_release context (tell_all env (copy_drawn env g3d) w);
             let w = w\<lparr>pp_to_np_ht := ht_insert i (pp_i\<lparr>pi_graphics_ccb := callback,
               pi_graphics_ccb_ml := ppb_message_loop_get_current w, pi_graphics_in_progress := True\<rparr>) (pp_to_np_ht w)\<rparr>;
             (_, w) \<leftarrow> ppb_core_call_on_browser_thread comt now (pi_id pp_i) (nat (pi_id pp_i)) w;
             Some (if ccb_func callback \<noteq> 0 then PP_OK_COMPLETIONPENDING else PP_OK, w)
           })
        })
   }"

end
