(* ===== verification/Opengles2.thy ===== *)
theory Opengles2
  imports Graphics3d
begin

text \<open>
  \<^verbatim>\<open>ppb_opengles2.c\<close>: every function makes the plugin's context current, calls the function of the same
  name, and makes nothing current (\<open>with_context\<close>). Built without OpenGL ES 2 the program translates the
  shaders and keeps their types and sources in two tables of its own.

  What OpenGL writes through the plugin's pointers is not modelled; a value it returns is a number. The
  wrappers that print a trace and call these functions are left out.
\<close>

section \<open>The common part\<close>

definition with_context ::
  "gl_env \<Rightarrow> PP_Resource \<Rightarrow> 'r \<Rightarrow> (pp_graphics3d_s \<Rightarrow> gl_world \<Rightarrow> ('r \<times> gl_world) option) \<Rightarrow> gl_world \<Rightarrow> ('r \<times> gl_world) option" where
  "with_context env context bad body w =
     with_resource context PP_RESOURCE_GRAPHICS3D bad
       (\<lambda>gr w. do {
          g3d \<leftarrow> the_graphics3d (r_payload gr);
          (r, w) \<leftarrow> body g3d (tell env (GlXMakeCurrent (g3_glx_pixmap g3d) (g3_glc g3d)) w);
          Some (r, tell env (GlXMakeCurrent 0 0) w)
        }) w"

definition gl_value :: "gl_env \<Rightarrow> PP_Resource \<Rightarrow> int \<Rightarrow> string \<Rightarrow> gl_arg list \<Rightarrow> gl_world \<Rightarrow> (int \<times> gl_world) option" where
  "gl_value env context bad name args w =
     with_context env context bad (\<lambda>_ w. Some (ask env (Gl \<lparr>gl_name = name, gl_args = args\<rparr>) w)) w"

definition gl_void :: "gl_env \<Rightarrow> PP_Resource \<Rightarrow> string \<Rightarrow> gl_arg list \<Rightarrow> gl_world \<Rightarrow> gl_world option" where
  "gl_void env context name args w =
     map_option snd (with_context env context () (\<lambda>_ w. Some ((), tell env (Gl \<lparr>gl_name = name, gl_args = args\<rparr>) w)) w)"

text \<open>The address of the string literal that is returned for a bad context.\<close>

definition EMPTY_STRING :: int where "EMPTY_STRING = 7"

section \<open>The functions that only pass on\<close>

definition ppb_opengles2_ActiveTexture :: "gl_env \<Rightarrow> PP_Resource \<Rightarrow> u32 \<Rightarrow> gl_world \<Rightarrow> gl_world option" where
  "ppb_opengles2_ActiveTexture env context texture = gl_void env context ''glActiveTexture'' [GE texture]"

definition ppb_opengles2_AttachShader :: "gl_env \<Rightarrow> PP_Resource \<Rightarrow> u32 \<Rightarrow> u32 \<Rightarrow> gl_world \<Rightarrow> gl_world option" where
  "ppb_opengles2_AttachShader env context program shader = gl_void env context ''glAttachShader'' [GE program, GE shader]"

definition ppb_opengles2_BindAttribLocation :: "gl_env \<Rightarrow> PP_Resource \<Rightarrow> u32 \<Rightarrow> u32 \<Rightarrow> ptr \<Rightarrow> gl_world \<Rightarrow> gl_world option" where
  "ppb_opengles2_BindAttribLocation env context program idx nam = gl_void env context ''glBindAttribLocation'' [GE program, GE idx, GP nam]"

definition ppb_opengles2_BindBuffer :: "gl_env \<Rightarrow> PP_Resource \<Rightarrow> u32 \<Rightarrow> u32 \<Rightarrow> gl_world \<Rightarrow> gl_world option" where
  "ppb_opengles2_BindBuffer env context target buffer = gl_void env context ''glBindBuffer'' [GE target, GE buffer]"

definition ppb_opengles2_BindFramebuffer :: "gl_env \<Rightarrow> PP_Resource \<Rightarrow> u32 \<Rightarrow> u32 \<Rightarrow> gl_world \<Rightarrow> gl_world option" where
  "ppb_opengles2_BindFramebuffer env context target framebuffer = gl_void env context ''glBindFramebuffer'' [GE target, GE framebuffer]"

definition ppb_opengles2_BindRenderbuffer :: "gl_env \<Rightarrow> PP_Resource \<Rightarrow> u32 \<Rightarrow> u32 \<Rightarrow> gl_world \<Rightarrow> gl_world option" where
  "ppb_opengles2_BindRenderbuffer env context target renderbuffer = gl_void env context ''glBindRenderbuffer'' [GE target, GE renderbuffer]"

definition ppb_opengles2_BindTexture :: "gl_env \<Rightarrow> PP_Resource \<Rightarrow> u32 \<Rightarrow> u32 \<Rightarrow> gl_world \<Rightarrow> gl_world option" where
  "ppb_opengles2_BindTexture env context target texture = gl_void env context ''glBindTexture'' [GE target, GE texture]"

definition ppb_opengles2_BlendColor :: "gl_env \<Rightarrow> PP_Resource \<Rightarrow> float_bits \<Rightarrow> float_bits \<Rightarrow> float_bits \<Rightarrow> float_bits \<Rightarrow> gl_world \<Rightarrow> gl_world option" where
  "ppb_opengles2_BlendColor env context red green blue alpha = gl_void env context ''glBlendColor'' [GF red, GF green, GF blue, GF alpha]"

definition ppb_opengles2_BlendEquation :: "gl_env \<Rightarrow> PP_Resource \<Rightarrow> u32 \<Rightarrow> gl_world \<Rightarrow> gl_world option" where
  "ppb_opengles2_BlendEquation env context mode = gl_void env context ''glBlendEquation'' [GE mode]"

definition ppb_opengles2_BlendEquationSeparate :: "gl_env \<Rightarrow> PP_Resource \<Rightarrow> u32 \<Rightarrow> u32 \<Rightarrow> gl_world \<Rightarrow> gl_world option" where
  "ppb_opengles2_BlendEquationSeparate env context modeRGB modeAlpha = gl_void env context ''glBlendEquationSeparate'' [GE modeRGB, GE modeAlpha]"

definition ppb_opengles2_BlendFunc :: "gl_env \<Rightarrow> PP_Resource \<Rightarrow> u32 \<Rightarrow> u32 \<Rightarrow> gl_world \<Rightarrow> gl_world option" where
  "ppb_opengles2_BlendFunc env context sfactor dfactor = gl_void env context ''glBlendFunc'' [GE sfactor, GE dfactor]"

definition ppb_opengles2_BlendFuncSeparate :: "gl_env \<Rightarrow> PP_Resource \<Rightarrow> u32 \<Rightarrow> u32 \<Rightarrow> u32 \<Rightarrow> u32 \<Rightarrow> gl_world \<Rightarrow> gl_world option" where
  "ppb_opengles2_BlendFuncSeparate env context srcRGB dstRGB srcAlpha dstAlpha = gl_void env context ''glBlendFuncSeparate'' [GE srcRGB, GE dstRGB, GE srcAlpha, GE dstAlpha]"

definition ppb_opengles2_BufferData :: "gl_env \<Rightarrow> PP_Resource \<Rightarrow> u32 \<Rightarrow> int \<Rightarrow> ptr \<Rightarrow> u32 \<Rightarrow> gl_world \<Rightarrow> gl_world option" where
  "ppb_opengles2_BufferData env context target sz data usage = gl_void env context ''glBufferData'' [GE target, GI sz, GP data, GE usage]"

definition ppb_opengles2_BufferSubData :: "gl_env \<Rightarrow> PP_Resource \<Rightarrow> u32 \<Rightarrow> int \<Rightarrow> int \<Rightarrow> ptr \<Rightarrow> gl_world \<Rightarrow> gl_world option" where
  "ppb_opengles2_BufferSubData env context target offset sz data = gl_void env context ''glBufferSubData'' [GE target, GI offset, GI sz, GP data]"

definition ppb_opengles2_CheckFramebufferStatus :: "gl_env \<Rightarrow> PP_Resource \<Rightarrow> u32 \<Rightarrow> gl_world \<Rightarrow> (int \<times> gl_world) option" where
  "ppb_opengles2_CheckFramebufferStatus env context target = gl_value env context 0x8CDD ''glCheckFramebufferStatus'' [GE target]"

definition ppb_opengles2_Clear :: "gl_env \<Rightarrow> PP_Resource \<Rightarrow> u32 \<Rightarrow> gl_world \<Rightarrow> gl_world option" where
  "ppb_opengles2_Clear env context msk = gl_void env context ''glClear'' [GE msk]"

definition ppb_opengles2_ClearColor :: "gl_env \<Rightarrow> PP_Resource \<Rightarrow> float_bits \<Rightarrow> float_bits \<Rightarrow> float_bits \<Rightarrow> float_bits \<Rightarrow> gl_world \<Rightarrow> gl_world option" where
  "ppb_opengles2_ClearColor env context red green blue alpha = gl_void env context ''glClearColor'' [GF red, GF green, GF blue, GF alpha]"

definition ppb_opengles2_ClearDepthf :: "gl_env \<Rightarrow> PP_Resource \<Rightarrow> float_bits \<Rightarrow> gl_world \<Rightarrow> gl_world option" where
  "ppb_opengles2_ClearDepthf env context depth = gl_void env context ''glClearDepthf'' [GF depth]"

definition ppb_opengles2_ClearStencil :: "gl_env \<Rightarrow> PP_Resource \<Rightarrow> int \<Rightarrow> gl_world \<Rightarrow> gl_world option" where
  "ppb_opengles2_ClearStencil env context s = gl_void env context ''glClearStencil'' [GI s]"

definition ppb_opengles2_ColorMask :: "gl_env \<Rightarrow> PP_Resource \<Rightarrow> 8 word \<Rightarrow> 8 word \<Rightarrow> 8 word \<Rightarrow> 8 word \<Rightarrow> gl_world \<Rightarrow> gl_world option" where
  "ppb_opengles2_ColorMask env context red green blue alpha = gl_void env context ''glColorMask'' [GB red, GB green, GB blue, GB alpha]"

definition ppb_opengles2_CompileShader :: "gl_env \<Rightarrow> PP_Resource \<Rightarrow> u32 \<Rightarrow> gl_world \<Rightarrow> gl_world option" where
  "ppb_opengles2_CompileShader env context shader = gl_void env context ''glCompileShader'' [GE shader]"

definition ppb_opengles2_CompressedTexImage2D :: "gl_env \<Rightarrow> PP_Resource \<Rightarrow> u32 \<Rightarrow> int \<Rightarrow> u32 \<Rightarrow> int \<Rightarrow> int \<Rightarrow> int \<Rightarrow> int \<Rightarrow> ptr \<Rightarrow> gl_world \<Rightarrow> gl_world option" where
  "ppb_opengles2_CompressedTexImage2D env context target level internalformat width height border imageSize data = gl_void env context ''glCompressedTexImage2D'' [GE target, GI level, GE internalformat, GI width, GI height, GI border, GI imageSize, GP data]"

definition ppb_opengles2_CompressedTexSubImage2D :: "gl_env \<Rightarrow> PP_Resource \<Rightarrow> u32 \<Rightarrow> int \<Rightarrow> int \<Rightarrow> int \<Rightarrow> int \<Rightarrow> int \<Rightarrow> u32 \<Rightarrow> int \<Rightarrow> ptr \<Rightarrow> gl_world \<Rightarrow> gl_world option" where
  "ppb_opengles2_CompressedTexSubImage2D env context target level xoffset yoffset width height fmt imageSize data = gl_void env context ''glCompressedTexSubImage2D'' [GE target, GI level, GI xoffset, GI yoffset, GI width, GI height, GE fmt, GI imageSize, GP data]"

definition ppb_opengles2_CopyTexImage2D :: "gl_env \<Rightarrow> PP_Resource \<Rightarrow> u32 \<Rightarrow> int \<Rightarrow> u32 \<Rightarrow> int \<Rightarrow> int \<Rightarrow> int \<Rightarrow> int \<Rightarrow> int \<Rightarrow> gl_world \<Rightarrow> gl_world option" where
  "ppb_opengles2_CopyTexImage2D env context target level internalformat x y width height border = gl_void env context ''glCopyTexImage2D'' [GE target, GI level, GE internalformat, GI x, GI y, GI width, GI height, GI border]"

definition ppb_opengles2_CopyTexSubImage2D :: "gl_env \<Rightarrow> PP_Resource \<Rightarrow> u32 \<Rightarrow> int \<Rightarrow> int \<Rightarrow> int \<Rightarrow> int \<Rightarrow> int \<Rightarrow> int \<Rightarrow> int \<Rightarrow> gl_world \<Rightarrow> gl_world option" where
  "ppb_opengles2_CopyTexSubImage2D env context target level xoffset yoffset x y width height = gl_void env context ''glCopyTexSubImage2D'' [GE target, GI level, GI xoffset, GI yoffset, GI x, GI y, GI width, GI height]"

definition ppb_opengles2_CreateProgram :: "gl_env \<Rightarrow> PP_Resource \<Rightarrow> gl_world \<Rightarrow> (int \<times> gl_world) option" where
  "ppb_opengles2_CreateProgram env context = gl_value env context 0 ''glCreateProgram'' []"

definition ppb_opengles2_CullFace :: "gl_env \<Rightarrow> PP_Resource \<Rightarrow> u32 \<Rightarrow> gl_world \<Rightarrow> gl_world option" where
  "ppb_opengles2_CullFace env context mode = gl_void env context ''glCullFace'' [GE mode]"

definition ppb_opengles2_DeleteBuffers :: "gl_env \<Rightarrow> PP_Resource \<Rightarrow> int \<Rightarrow> ptr \<Rightarrow> gl_world \<Rightarrow> gl_world option" where
  "ppb_opengles2_DeleteBuffers env context n buffers = gl_void env context ''glDeleteBuffers'' [GI n, GP buffers]"

definition ppb_opengles2_DeleteFramebuffers :: "gl_env \<Rightarrow> PP_Resource \<Rightarrow> int \<Rightarrow> ptr \<Rightarrow> gl_world \<Rightarrow> gl_world option" where
  "ppb_opengles2_DeleteFramebuffers env context n framebuffers = gl_void env context ''glDeleteFramebuffers'' [GI n, GP framebuffers]"

definition ppb_opengles2_DeleteProgram :: "gl_env \<Rightarrow> PP_Resource \<Rightarrow> u32 \<Rightarrow> gl_world \<Rightarrow> gl_world option" where
  "ppb_opengles2_DeleteProgram env context program = gl_void env context ''glDeleteProgram'' [GE program]"

definition ppb_opengles2_DeleteRenderbuffers :: "gl_env \<Rightarrow> PP_Resource \<Rightarrow> int \<Rightarrow> ptr \<Rightarrow> gl_world \<Rightarrow> gl_world option" where
  "ppb_opengles2_DeleteRenderbuffers env context n renderbuffers = gl_void env context ''glDeleteRenderbuffers'' [GI n, GP renderbuffers]"

definition ppb_opengles2_DeleteTextures :: "gl_env \<Rightarrow> PP_Resource \<Rightarrow> int \<Rightarrow> ptr \<Rightarrow> gl_world \<Rightarrow> gl_world option" where
  "ppb_opengles2_DeleteTextures env context n textures = gl_void env context ''glDeleteTextures'' [GI n, GP textures]"

definition ppb_opengles2_DepthFunc :: "gl_env \<Rightarrow> PP_Resource \<Rightarrow> u32 \<Rightarrow> gl_world \<Rightarrow> gl_world option" where
  "ppb_opengles2_DepthFunc env context fn = gl_void env context ''glDepthFunc'' [GE fn]"

definition ppb_opengles2_DepthMask :: "gl_env \<Rightarrow> PP_Resource \<Rightarrow> 8 word \<Rightarrow> gl_world \<Rightarrow> gl_world option" where
  "ppb_opengles2_DepthMask env context flag = gl_void env context ''glDepthMask'' [GB flag]"

definition ppb_opengles2_DepthRangef :: "gl_env \<Rightarrow> PP_Resource \<Rightarrow> float_bits \<Rightarrow> float_bits \<Rightarrow> gl_world \<Rightarrow> gl_world option" where
  "ppb_opengles2_DepthRangef env context zNear zFar = gl_void env context ''glDepthRangef'' [GF zNear, GF zFar]"

definition ppb_opengles2_DetachShader :: "gl_env \<Rightarrow> PP_Resource \<Rightarrow> u32 \<Rightarrow> u32 \<Rightarrow> gl_world \<Rightarrow> gl_world option" where
  "ppb_opengles2_DetachShader env context program shader = gl_void env context ''glDetachShader'' [GE program, GE shader]"

definition ppb_opengles2_Disable :: "gl_env \<Rightarrow> PP_Resource \<Rightarrow> u32 \<Rightarrow> gl_world \<Rightarrow> gl_world option" where
  "ppb_opengles2_Disable env context cap = gl_void env context ''glDisable'' [GE cap]"

definition ppb_opengles2_DisableVertexAttribArray :: "gl_env \<Rightarrow> PP_Resource \<Rightarrow> u32 \<Rightarrow> gl_world \<Rightarrow> gl_world option" where
  "ppb_opengles2_DisableVertexAttribArray env context idx = gl_void env context ''glDisableVertexAttribArray'' [GE idx]"

definition ppb_opengles2_DrawArrays :: "gl_env \<Rightarrow> PP_Resource \<Rightarrow> u32 \<Rightarrow> int \<Rightarrow> int \<Rightarrow> gl_world \<Rightarrow> gl_world option" where
  "ppb_opengles2_DrawArrays env context mode first cnt = gl_void env context ''glDrawArrays'' [GE mode, GI first, GI cnt]"

definition ppb_opengles2_DrawElements :: "gl_env \<Rightarrow> PP_Resource \<Rightarrow> u32 \<Rightarrow> int \<Rightarrow> u32 \<Rightarrow> ptr \<Rightarrow> gl_world \<Rightarrow> gl_world option" where
  "ppb_opengles2_DrawElements env context mode cnt type indices = gl_void env context ''glDrawElements'' [GE mode, GI cnt, GE type, GP indices]"

definition ppb_opengles2_Enable :: "gl_env \<Rightarrow> PP_Resource \<Rightarrow> u32 \<Rightarrow> gl_world \<Rightarrow> gl_world option" where
  "ppb_opengles2_Enable env context cap = gl_void env context ''glEnable'' [GE cap]"

definition ppb_opengles2_EnableVertexAttribArray :: "gl_env \<Rightarrow> PP_Resource \<Rightarrow> u32 \<Rightarrow> gl_world \<Rightarrow> gl_world option" where
  "ppb_opengles2_EnableVertexAttribArray env context idx = gl_void env context ''glEnableVertexAttribArray'' [GE idx]"

definition ppb_opengles2_Finish :: "gl_env \<Rightarrow> PP_Resource \<Rightarrow> gl_world \<Rightarrow> gl_world option" where
  "ppb_opengles2_Finish env context = gl_void env context ''glFinish'' []"

definition ppb_opengles2_Flush :: "gl_env \<Rightarrow> PP_Resource \<Rightarrow> gl_world \<Rightarrow> gl_world option" where
  "ppb_opengles2_Flush env context = gl_void env context ''glFlush'' []"

definition ppb_opengles2_FramebufferRenderbuffer :: "gl_env \<Rightarrow> PP_Resource \<Rightarrow> u32 \<Rightarrow> u32 \<Rightarrow> u32 \<Rightarrow> u32 \<Rightarrow> gl_world \<Rightarrow> gl_world option" where
  "ppb_opengles2_FramebufferRenderbuffer env context target attachment renderbuffertarget renderbuffer = gl_void env context ''glFramebufferRenderbuffer'' [GE target, GE attachment, GE renderbuffertarget, GE renderbuffer]"

definition ppb_opengles2_FramebufferTexture2D :: "gl_env \<Rightarrow> PP_Resource \<Rightarrow> u32 \<Rightarrow> u32 \<Rightarrow> u32 \<Rightarrow> u32 \<Rightarrow> int \<Rightarrow> gl_world \<Rightarrow> gl_world option" where
  "ppb_opengles2_FramebufferTexture2D env context target attachment textarget texture level = gl_void env context ''glFramebufferTexture2D'' [GE target, GE attachment, GE textarget, GE texture, GI level]"

definition ppb_opengles2_FrontFace :: "gl_env \<Rightarrow> PP_Resource \<Rightarrow> u32 \<Rightarrow> gl_world \<Rightarrow> gl_world option" where
  "ppb_opengles2_FrontFace env context mode = gl_void env context ''glFrontFace'' [GE mode]"

definition ppb_opengles2_GenBuffers :: "gl_env \<Rightarrow> PP_Resource \<Rightarrow> int \<Rightarrow> ptr \<Rightarrow> gl_world \<Rightarrow> gl_world option" where
  "ppb_opengles2_GenBuffers env context n buffers = gl_void env context ''glGenBuffers'' [GI n, GP buffers]"

definition ppb_opengles2_GenerateMipmap :: "gl_env \<Rightarrow> PP_Resource \<Rightarrow> u32 \<Rightarrow> gl_world \<Rightarrow> gl_world option" where
  "ppb_opengles2_GenerateMipmap env context target = gl_void env context ''glGenerateMipmap'' [GE target]"

definition ppb_opengles2_GenFramebuffers :: "gl_env \<Rightarrow> PP_Resource \<Rightarrow> int \<Rightarrow> ptr \<Rightarrow> gl_world \<Rightarrow> gl_world option" where
  "ppb_opengles2_GenFramebuffers env context n framebuffers = gl_void env context ''glGenFramebuffers'' [GI n, GP framebuffers]"

definition ppb_opengles2_GenRenderbuffers :: "gl_env \<Rightarrow> PP_Resource \<Rightarrow> int \<Rightarrow> ptr \<Rightarrow> gl_world \<Rightarrow> gl_world option" where
  "ppb_opengles2_GenRenderbuffers env context n renderbuffers = gl_void env context ''glGenRenderbuffers'' [GI n, GP renderbuffers]"

definition ppb_opengles2_GenTextures :: "gl_env \<Rightarrow> PP_Resource \<Rightarrow> int \<Rightarrow> ptr \<Rightarrow> gl_world \<Rightarrow> gl_world option" where
  "ppb_opengles2_GenTextures env context n textures = gl_void env context ''glGenTextures'' [GI n, GP textures]"

definition ppb_opengles2_GetActiveAttrib :: "gl_env \<Rightarrow> PP_Resource \<Rightarrow> u32 \<Rightarrow> u32 \<Rightarrow> int \<Rightarrow> ptr \<Rightarrow> ptr \<Rightarrow> ptr \<Rightarrow> ptr \<Rightarrow> gl_world \<Rightarrow> gl_world option" where
  "ppb_opengles2_GetActiveAttrib env context program idx bufsize len sz type nam = gl_void env context ''glGetActiveAttrib'' [GE program, GE idx, GI bufsize, GP len, GP sz, GP type, GP nam]"

definition ppb_opengles2_GetActiveUniform :: "gl_env \<Rightarrow> PP_Resource \<Rightarrow> u32 \<Rightarrow> u32 \<Rightarrow> int \<Rightarrow> ptr \<Rightarrow> ptr \<Rightarrow> ptr \<Rightarrow> ptr \<Rightarrow> gl_world \<Rightarrow> gl_world option" where
  "ppb_opengles2_GetActiveUniform env context program idx bufsize len sz type nam = gl_void env context ''glGetActiveUniform'' [GE program, GE idx, GI bufsize, GP len, GP sz, GP type, GP nam]"

definition ppb_opengles2_GetAttachedShaders :: "gl_env \<Rightarrow> PP_Resource \<Rightarrow> u32 \<Rightarrow> int \<Rightarrow> ptr \<Rightarrow> ptr \<Rightarrow> gl_world \<Rightarrow> gl_world option" where
  "ppb_opengles2_GetAttachedShaders env context program maxcount cnt shaders = gl_void env context ''glGetAttachedShaders'' [GE program, GI maxcount, GP cnt, GP shaders]"

definition ppb_opengles2_GetAttribLocation :: "gl_env \<Rightarrow> PP_Resource \<Rightarrow> u32 \<Rightarrow> ptr \<Rightarrow> gl_world \<Rightarrow> (int \<times> gl_world) option" where
  "ppb_opengles2_GetAttribLocation env context program nam = gl_value env context 0 ''glGetAttribLocation'' [GE program, GP nam]"

definition ppb_opengles2_GetBooleanv :: "gl_env \<Rightarrow> PP_Resource \<Rightarrow> u32 \<Rightarrow> ptr \<Rightarrow> gl_world \<Rightarrow> gl_world option" where
  "ppb_opengles2_GetBooleanv env context pname params = gl_void env context ''glGetBooleanv'' [GE pname, GP params]"

definition ppb_opengles2_GetBufferParameteriv :: "gl_env \<Rightarrow> PP_Resource \<Rightarrow> u32 \<Rightarrow> u32 \<Rightarrow> ptr \<Rightarrow> gl_world \<Rightarrow> gl_world option" where
  "ppb_opengles2_GetBufferParameteriv env context target pname params = gl_void env context ''glGetBufferParameteriv'' [GE target, GE pname, GP params]"

definition ppb_opengles2_GetError :: "gl_env \<Rightarrow> PP_Resource \<Rightarrow> gl_world \<Rightarrow> (int \<times> gl_world) option" where
  "ppb_opengles2_GetError env context = gl_value env context 0 ''glGetError'' []"

definition ppb_opengles2_GetFloatv :: "gl_env \<Rightarrow> PP_Resource \<Rightarrow> u32 \<Rightarrow> ptr \<Rightarrow> gl_world \<Rightarrow> gl_world option" where
  "ppb_opengles2_GetFloatv env context pname params = gl_void env context ''glGetFloatv'' [GE pname, GP params]"

definition ppb_opengles2_GetFramebufferAttachmentParameteriv :: "gl_env \<Rightarrow> PP_Resource \<Rightarrow> u32 \<Rightarrow> u32 \<Rightarrow> u32 \<Rightarrow> ptr \<Rightarrow> gl_world \<Rightarrow> gl_world option" where
  "ppb_opengles2_GetFramebufferAttachmentParameteriv env context target attachment pname params = gl_void env context ''glGetFramebufferAttachmentParameteriv'' [GE target, GE attachment, GE pname, GP params]"

definition ppb_opengles2_GetIntegerv :: "gl_env \<Rightarrow> PP_Resource \<Rightarrow> u32 \<Rightarrow> ptr \<Rightarrow> gl_world \<Rightarrow> gl_world option" where
  "ppb_opengles2_GetIntegerv env context pname params = gl_void env context ''glGetIntegerv'' [GE pname, GP params]"

definition ppb_opengles2_GetProgramiv :: "gl_env \<Rightarrow> PP_Resource \<Rightarrow> u32 \<Rightarrow> u32 \<Rightarrow> ptr \<Rightarrow> gl_world \<Rightarrow> gl_world option" where
  "ppb_opengles2_GetProgramiv env context program pname params = gl_void env context ''glGetProgramiv'' [GE program, GE pname, GP params]"

definition ppb_opengles2_GetProgramInfoLog :: "gl_env \<Rightarrow> PP_Resource \<Rightarrow> u32 \<Rightarrow> int \<Rightarrow> ptr \<Rightarrow> ptr \<Rightarrow> gl_world \<Rightarrow> gl_world option" where
  "ppb_opengles2_GetProgramInfoLog env context program bufsize len infolog = gl_void env context ''glGetProgramInfoLog'' [GE program, GI bufsize, GP len, GP infolog]"

definition ppb_opengles2_GetRenderbufferParameteriv :: "gl_env \<Rightarrow> PP_Resource \<Rightarrow> u32 \<Rightarrow> u32 \<Rightarrow> ptr \<Rightarrow> gl_world \<Rightarrow> gl_world option" where
  "ppb_opengles2_GetRenderbufferParameteriv env context target pname params = gl_void env context ''glGetRenderbufferParameteriv'' [GE target, GE pname, GP params]"

definition ppb_opengles2_GetShaderInfoLog :: "gl_env \<Rightarrow> PP_Resource \<Rightarrow> u32 \<Rightarrow> int \<Rightarrow> ptr \<Rightarrow> ptr \<Rightarrow> gl_world \<Rightarrow> gl_world option" where
  "ppb_opengles2_GetShaderInfoLog env context shader bufsize len infolog = gl_void env context ''glGetShaderInfoLog'' [GE shader, GI bufsize, GP len, GP infolog]"

definition ppb_opengles2_GetShaderPrecisionFormat :: "gl_env \<Rightarrow> PP_Resource \<Rightarrow> u32 \<Rightarrow> u32 \<Rightarrow> ptr \<Rightarrow> ptr \<Rightarrow> gl_world \<Rightarrow> gl_world option" where
  "ppb_opengles2_GetShaderPrecisionFormat env context shadertype precisiontype rng precision = gl_void env context ''glGetShaderPrecisionFormat'' [GE shadertype, GE precisiontype, GP rng, GP precision]"

definition ppb_opengles2_GetString :: "gl_env \<Rightarrow> PP_Resource \<Rightarrow> u32 \<Rightarrow> gl_world \<Rightarrow> (int \<times> gl_world) option" where
  "ppb_opengles2_GetString env context nam = gl_value env context EMPTY_STRING ''glGetString'' [GE nam]"

definition ppb_opengles2_GetTexParameterfv :: "gl_env \<Rightarrow> PP_Resource \<Rightarrow> u32 \<Rightarrow> u32 \<Rightarrow> ptr \<Rightarrow> gl_world \<Rightarrow> gl_world option" where
  "ppb_opengles2_GetTexParameterfv env context target pname params = gl_void env context ''glGetTexParameterfv'' [GE target, GE pname, GP params]"

definition ppb_opengles2_GetTexParameteriv :: "gl_env \<Rightarrow> PP_Resource \<Rightarrow> u32 \<Rightarrow> u32 \<Rightarrow> ptr \<Rightarrow> gl_world \<Rightarrow> gl_world option" where
  "ppb_opengles2_GetTexParameteriv env context target pname params = gl_void env context ''glGetTexParameteriv'' [GE target, GE pname, GP params]"

definition ppb_opengles2_GetUniformfv :: "gl_env \<Rightarrow> PP_Resource \<Rightarrow> u32 \<Rightarrow> int \<Rightarrow> ptr \<Rightarrow> gl_world \<Rightarrow> gl_world option" where
  "ppb_opengles2_GetUniformfv env context program location params = gl_void env context ''glGetUniformfv'' [GE program, GI location, GP params]"

definition ppb_opengles2_GetUniformiv :: "gl_env \<Rightarrow> PP_Resource \<Rightarrow> u32 \<Rightarrow> int \<Rightarrow> ptr \<Rightarrow> gl_world \<Rightarrow> gl_world option" where
  "ppb_opengles2_GetUniformiv env context program location params = gl_void env context ''glGetUniformiv'' [GE program, GI location, GP params]"

definition ppb_opengles2_GetUniformLocation :: "gl_env \<Rightarrow> PP_Resource \<Rightarrow> u32 \<Rightarrow> ptr \<Rightarrow> gl_world \<Rightarrow> (int \<times> gl_world) option" where
  "ppb_opengles2_GetUniformLocation env context program nam = gl_value env context 0 ''glGetUniformLocation'' [GE program, GP nam]"

definition ppb_opengles2_GetVertexAttribfv :: "gl_env \<Rightarrow> PP_Resource \<Rightarrow> u32 \<Rightarrow> u32 \<Rightarrow> ptr \<Rightarrow> gl_world \<Rightarrow> gl_world option" where
  "ppb_opengles2_GetVertexAttribfv env context idx pname params = gl_void env context ''glGetVertexAttribfv'' [GE idx, GE pname, GP params]"

definition ppb_opengles2_GetVertexAttribiv :: "gl_env \<Rightarrow> PP_Resource \<Rightarrow> u32 \<Rightarrow> u32 \<Rightarrow> ptr \<Rightarrow> gl_world \<Rightarrow> gl_world option" where
  "ppb_opengles2_GetVertexAttribiv env context idx pname params = gl_void env context ''glGetVertexAttribiv'' [GE idx, GE pname, GP params]"

definition ppb_opengles2_GetVertexAttribPointerv :: "gl_env \<Rightarrow> PP_Resource \<Rightarrow> u32 \<Rightarrow> u32 \<Rightarrow> ptr \<Rightarrow> gl_world \<Rightarrow> gl_world option" where
  "ppb_opengles2_GetVertexAttribPointerv env context idx pname pointer = gl_void env context ''glGetVertexAttribPointerv'' [GE idx, GE pname, GP pointer]"

definition ppb_opengles2_Hint :: "gl_env \<Rightarrow> PP_Resource \<Rightarrow> u32 \<Rightarrow> u32 \<Rightarrow> gl_world \<Rightarrow> gl_world option" where
  "ppb_opengles2_Hint env context target mode = gl_void env context ''glHint'' [GE target, GE mode]"

definition ppb_opengles2_IsBuffer :: "gl_env \<Rightarrow> PP_Resource \<Rightarrow> u32 \<Rightarrow> gl_world \<Rightarrow> (int \<times> gl_world) option" where
  "ppb_opengles2_IsBuffer env context buffer = gl_value env context 0 ''glIsBuffer'' [GE buffer]"

definition ppb_opengles2_IsEnabled :: "gl_env \<Rightarrow> PP_Resource \<Rightarrow> u32 \<Rightarrow> gl_world \<Rightarrow> (int \<times> gl_world) option" where
  "ppb_opengles2_IsEnabled env context cap = gl_value env context 0 ''glIsEnabled'' [GE cap]"

definition ppb_opengles2_IsFramebuffer :: "gl_env \<Rightarrow> PP_Resource \<Rightarrow> u32 \<Rightarrow> gl_world \<Rightarrow> (int \<times> gl_world) option" where
  "ppb_opengles2_IsFramebuffer env context framebuffer = gl_value env context 0 ''glIsFramebuffer'' [GE framebuffer]"

definition ppb_opengles2_IsProgram :: "gl_env \<Rightarrow> PP_Resource \<Rightarrow> u32 \<Rightarrow> gl_world \<Rightarrow> (int \<times> gl_world) option" where
  "ppb_opengles2_IsProgram env context program = gl_value env context 0 ''glIsProgram'' [GE program]"

definition ppb_opengles2_IsRenderbuffer :: "gl_env \<Rightarrow> PP_Resource \<Rightarrow> u32 \<Rightarrow> gl_world \<Rightarrow> (int \<times> gl_world) option" where
  "ppb_opengles2_IsRenderbuffer env context renderbuffer = gl_value env context 0 ''glIsRenderbuffer'' [GE renderbuffer]"

definition ppb_opengles2_IsShader :: "gl_env \<Rightarrow> PP_Resource \<Rightarrow> u32 \<Rightarrow> gl_world \<Rightarrow> (int \<times> gl_world) option" where
  "ppb_opengles2_IsShader env context shader = gl_value env context 0 ''glIsShader'' [GE shader]"

definition ppb_opengles2_IsTexture :: "gl_env \<Rightarrow> PP_Resource \<Rightarrow> u32 \<Rightarrow> gl_world \<Rightarrow> (int \<times> gl_world) option" where
  "ppb_opengles2_IsTexture env context texture = gl_value env context 0 ''glIsTexture'' [GE texture]"

definition ppb_opengles2_LineWidth :: "gl_env \<Rightarrow> PP_Resource \<Rightarrow> float_bits \<Rightarrow> gl_world \<Rightarrow> gl_world option" where
  "ppb_opengles2_LineWidth env context width = gl_void env context ''glLineWidth'' [GF width]"

definition ppb_opengles2_LinkProgram :: "gl_env \<Rightarrow> PP_Resource \<Rightarrow> u32 \<Rightarrow> gl_world \<Rightarrow> gl_world option" where
  "ppb_opengles2_LinkProgram env context program = gl_void env context ''glLinkProgram'' [GE program]"

definition ppb_opengles2_PixelStorei :: "gl_env \<Rightarrow> PP_Resource \<Rightarrow> u32 \<Rightarrow> int \<Rightarrow> gl_world \<Rightarrow> gl_world option" where
  "ppb_opengles2_PixelStorei env context pname param = gl_void env context ''glPixelStorei'' [GE pname, GI param]"

definition ppb_opengles2_PolygonOffset :: "gl_env \<Rightarrow> PP_Resource \<Rightarrow> float_bits \<Rightarrow> float_bits \<Rightarrow> gl_world \<Rightarrow> gl_world option" where
  "ppb_opengles2_PolygonOffset env context factor units = gl_void env context ''glPolygonOffset'' [GF factor, GF units]"

definition ppb_opengles2_ReadPixels :: "gl_env \<Rightarrow> PP_Resource \<Rightarrow> int \<Rightarrow> int \<Rightarrow> int \<Rightarrow> int \<Rightarrow> u32 \<Rightarrow> u32 \<Rightarrow> ptr \<Rightarrow> gl_world \<Rightarrow> gl_world option" where
  "ppb_opengles2_ReadPixels env context x y width height fmt type pixels = gl_void env context ''glReadPixels'' [GI x, GI y, GI width, GI height, GE fmt, GE type, GP pixels]"

definition ppb_opengles2_ReleaseShaderCompiler :: "gl_env \<Rightarrow> PP_Resource \<Rightarrow> gl_world \<Rightarrow> gl_world option" where
  "ppb_opengles2_ReleaseShaderCompiler env context = gl_void env context ''glReleaseShaderCompiler'' []"

definition ppb_opengles2_RenderbufferStorage :: "gl_env \<Rightarrow> PP_Resource \<Rightarrow> u32 \<Rightarrow> u32 \<Rightarrow> int \<Rightarrow> int \<Rightarrow> gl_world \<Rightarrow> gl_world option" where
  "ppb_opengles2_RenderbufferStorage env context target internalformat width height = gl_void env context ''glRenderbufferStorage'' [GE target, GE internalformat, GI width, GI height]"

definition ppb_opengles2_SampleCoverage :: "gl_env \<Rightarrow> PP_Resource \<Rightarrow> float_bits \<Rightarrow> 8 word \<Rightarrow> gl_world \<Rightarrow> gl_world option" where
  "ppb_opengles2_SampleCoverage env context val invert = gl_void env context ''glSampleCoverage'' [GF val, GB invert]"

definition ppb_opengles2_Scissor :: "gl_env \<Rightarrow> PP_Resource \<Rightarrow> int \<Rightarrow> int \<Rightarrow> int \<Rightarrow> int \<Rightarrow> gl_world \<Rightarrow> gl_world option" where
  "ppb_opengles2_Scissor env context x y width height = gl_void env context ''glScissor'' [GI x, GI y, GI width, GI height]"

definition ppb_opengles2_ShaderBinary :: "gl_env \<Rightarrow> PP_Resource \<Rightarrow> int \<Rightarrow> ptr \<Rightarrow> u32 \<Rightarrow> ptr \<Rightarrow> int \<Rightarrow> gl_world \<Rightarrow> gl_world option" where
  "ppb_opengles2_ShaderBinary env context n shaders binaryformat bin len = gl_void env context ''glShaderBinary'' [GI n, GP shaders, GE binaryformat, GP bin, GI len]"

definition ppb_opengles2_StencilFunc :: "gl_env \<Rightarrow> PP_Resource \<Rightarrow> u32 \<Rightarrow> int \<Rightarrow> u32 \<Rightarrow> gl_world \<Rightarrow> gl_world option" where
  "ppb_opengles2_StencilFunc env context fn rf msk = gl_void env context ''glStencilFunc'' [GE fn, GI rf, GE msk]"

definition ppb_opengles2_StencilFuncSeparate :: "gl_env \<Rightarrow> PP_Resource \<Rightarrow> u32 \<Rightarrow> u32 \<Rightarrow> int \<Rightarrow> u32 \<Rightarrow> gl_world \<Rightarrow> gl_world option" where
  "ppb_opengles2_StencilFuncSeparate env context face fn rf msk = gl_void env context ''glStencilFuncSeparate'' [GE face, GE fn, GI rf, GE msk]"

definition ppb_opengles2_StencilMask :: "gl_env \<Rightarrow> PP_Resource \<Rightarrow> u32 \<Rightarrow> gl_world \<Rightarrow> gl_world option" where
  "ppb_opengles2_StencilMask env context msk = gl_void env context ''glStencilMask'' [GE msk]"

definition ppb_opengles2_StencilMaskSeparate :: "gl_env \<Rightarrow> PP_Resource \<Rightarrow> u32 \<Rightarrow> u32 \<Rightarrow> gl_world \<Rightarrow> gl_world option" where
  "ppb_opengles2_StencilMaskSeparate env context face msk = gl_void env context ''glStencilMaskSeparate'' [GE face, GE msk]"

definition ppb_opengles2_StencilOp :: "gl_env \<Rightarrow> PP_Resource \<Rightarrow> u32 \<Rightarrow> u32 \<Rightarrow> u32 \<Rightarrow> gl_world \<Rightarrow> gl_world option" where
  "ppb_opengles2_StencilOp env context fail_op zfail zpass = gl_void env context ''glStencilOp'' [GE fail_op, GE zfail, GE zpass]"

definition ppb_opengles2_StencilOpSeparate :: "gl_env \<Rightarrow> PP_Resource \<Rightarrow> u32 \<Rightarrow> u32 \<Rightarrow> u32 \<Rightarrow> u32 \<Rightarrow> gl_world \<Rightarrow> gl_world option" where
  "ppb_opengles2_StencilOpSeparate env context face fail_op zfail zpass = gl_void env context ''glStencilOpSeparate'' [GE face, GE fail_op, GE zfail, GE zpass]"

definition ppb_opengles2_TexImage2D :: "gl_env \<Rightarrow> PP_Resource \<Rightarrow> u32 \<Rightarrow> int \<Rightarrow> int \<Rightarrow> int \<Rightarrow> int \<Rightarrow> int \<Rightarrow> u32 \<Rightarrow> u32 \<Rightarrow> ptr \<Rightarrow> gl_world \<Rightarrow> gl_world option" where
  "ppb_opengles2_TexImage2D env context target level internalformat width height border fmt type pixels = gl_void env context ''glTexImage2D'' [GE target, GI level, GI internalformat, GI width, GI height, GI border, GE fmt, GE type, GP pixels]"

definition ppb_opengles2_TexParameterf :: "gl_env \<Rightarrow> PP_Resource \<Rightarrow> u32 \<Rightarrow> u32 \<Rightarrow> float_bits \<Rightarrow> gl_world \<Rightarrow> gl_world option" where
  "ppb_opengles2_TexParameterf env context target pname param = gl_void env context ''glTexParameterf'' [GE target, GE pname, GF param]"

definition ppb_opengles2_TexParameterfv :: "gl_env \<Rightarrow> PP_Resource \<Rightarrow> u32 \<Rightarrow> u32 \<Rightarrow> ptr \<Rightarrow> gl_world \<Rightarrow> gl_world option" where
  "ppb_opengles2_TexParameterfv env context target pname params = gl_void env context ''glTexParameterfv'' [GE target, GE pname, GP params]"

definition ppb_opengles2_TexParameteri :: "gl_env \<Rightarrow> PP_Resource \<Rightarrow> u32 \<Rightarrow> u32 \<Rightarrow> int \<Rightarrow> gl_world \<Rightarrow> gl_world option" where
  "ppb_opengles2_TexParameteri env context target pname param = gl_void env context ''glTexParameteri'' [GE target, GE pname, GI param]"

definition ppb_opengles2_TexParameteriv :: "gl_env \<Rightarrow> PP_Resource \<Rightarrow> u32 \<Rightarrow> u32 \<Rightarrow> ptr \<Rightarrow> gl_world \<Rightarrow> gl_world option" where
  "ppb_opengles2_TexParameteriv env context target pname params = gl_void env context ''glTexParameteriv'' [GE target, GE pname, GP params]"

definition ppb_opengles2_TexSubImage2D :: "gl_env \<Rightarrow> PP_Resource \<Rightarrow> u32 \<Rightarrow> int \<Rightarrow> int \<Rightarrow> int \<Rightarrow> int \<Rightarrow> int \<Rightarrow> u32 \<Rightarrow> u32 \<Rightarrow> ptr \<Rightarrow> gl_world \<Rightarrow> gl_world option" where
  "ppb_opengles2_TexSubImage2D env context target level xoffset yoffset width height fmt type pixels = gl_void env context ''glTexSubImage2D'' [GE target, GI level, GI xoffset, GI yoffset, GI width, GI height, GE fmt, GE type, GP pixels]"

definition ppb_opengles2_Uniform1f :: "gl_env \<Rightarrow> PP_Resource \<Rightarrow> int \<Rightarrow> float_bits \<Rightarrow> gl_world \<Rightarrow> gl_world option" where
  "ppb_opengles2_Uniform1f env context location x = gl_void env context ''glUniform1f'' [GI location, GF x]"

definition ppb_opengles2_Uniform1fv :: "gl_env \<Rightarrow> PP_Resource \<Rightarrow> int \<Rightarrow> int \<Rightarrow> ptr \<Rightarrow> gl_world \<Rightarrow> gl_world option" where
  "ppb_opengles2_Uniform1fv env context location cnt v = gl_void env context ''glUniform1fv'' [GI location, GI cnt, GP v]"

definition ppb_opengles2_Uniform1i :: "gl_env \<Rightarrow> PP_Resource \<Rightarrow> int \<Rightarrow> int \<Rightarrow> gl_world \<Rightarrow> gl_world option" where
  "ppb_opengles2_Uniform1i env context location x = gl_void env context ''glUniform1i'' [GI location, GI x]"

definition ppb_opengles2_Uniform1iv :: "gl_env \<Rightarrow> PP_Resource \<Rightarrow> int \<Rightarrow> int \<Rightarrow> ptr \<Rightarrow> gl_world \<Rightarrow> gl_world option" where
  "ppb_opengles2_Uniform1iv env context location cnt v = gl_void env context ''glUniform1iv'' [GI location, GI cnt, GP v]"

definition ppb_opengles2_Uniform2f :: "gl_env \<Rightarrow> PP_Resource \<Rightarrow> int \<Rightarrow> float_bits \<Rightarrow> float_bits \<Rightarrow> gl_world \<Rightarrow> gl_world option" where
  "ppb_opengles2_Uniform2f env context location x y = gl_void env context ''glUniform2f'' [GI location, GF x, GF y]"

definition ppb_opengles2_Uniform2fv :: "gl_env \<Rightarrow> PP_Resource \<Rightarrow> int \<Rightarrow> int \<Rightarrow> ptr \<Rightarrow> gl_world \<Rightarrow> gl_world option" where
  "ppb_opengles2_Uniform2fv env context location cnt v = gl_void env context ''glUniform2fv'' [GI location, GI cnt, GP v]"

definition ppb_opengles2_Uniform2i :: "gl_env \<Rightarrow> PP_Resource \<Rightarrow> int \<Rightarrow> int \<Rightarrow> int \<Rightarrow> gl_world \<Rightarrow> gl_world option" where
  "ppb_opengles2_Uniform2i env context location x y = gl_void env context ''glUniform2i'' [GI location, GI x, GI y]"

definition ppb_opengles2_Uniform2iv :: "gl_env \<Rightarrow> PP_Resource \<Rightarrow> int \<Rightarrow> int \<Rightarrow> ptr \<Rightarrow> gl_world \<Rightarrow> gl_world option" where
  "ppb_opengles2_Uniform2iv env context location cnt v = gl_void env context ''glUniform2iv'' [GI location, GI cnt, GP v]"

definition ppb_opengles2_Uniform3f :: "gl_env \<Rightarrow> PP_Resource \<Rightarrow> int \<Rightarrow> float_bits \<Rightarrow> float_bits \<Rightarrow> float_bits \<Rightarrow> gl_world \<Rightarrow> gl_world option" where
  "ppb_opengles2_Uniform3f env context location x y z = gl_void env context ''glUniform3f'' [GI location, GF x, GF y, GF z]"

definition ppb_opengles2_Uniform3fv :: "gl_env \<Rightarrow> PP_Resource \<Rightarrow> int \<Rightarrow> int \<Rightarrow> ptr \<Rightarrow> gl_world \<Rightarrow> gl_world option" where
  "ppb_opengles2_Uniform3fv env context location cnt v = gl_void env context ''glUniform3fv'' [GI location, GI cnt, GP v]"

definition ppb_opengles2_Uniform3i :: "gl_env \<Rightarrow> PP_Resource \<Rightarrow> int \<Rightarrow> int \<Rightarrow> int \<Rightarrow> int \<Rightarrow> gl_world \<Rightarrow> gl_world option" where
  "ppb_opengles2_Uniform3i env context location x y z = gl_void env context ''glUniform3i'' [GI location, GI x, GI y, GI z]"

definition ppb_opengles2_Uniform3iv :: "gl_env \<Rightarrow> PP_Resource \<Rightarrow> int \<Rightarrow> int \<Rightarrow> ptr \<Rightarrow> gl_world \<Rightarrow> gl_world option" where
  "ppb_opengles2_Uniform3iv env context location cnt v = gl_void env context ''glUniform3iv'' [GI location, GI cnt, GP v]"

definition ppb_opengles2_Uniform4f :: "gl_env \<Rightarrow> PP_Resource \<Rightarrow> int \<Rightarrow> float_bits \<Rightarrow> float_bits \<Rightarrow> float_bits \<Rightarrow> float_bits \<Rightarrow> gl_world \<Rightarrow> gl_world option" where
  "ppb_opengles2_Uniform4f env context location x y z w = gl_void env context ''glUniform4f'' [GI location, GF x, GF y, GF z, GF w]"

definition ppb_opengles2_Uniform4fv :: "gl_env \<Rightarrow> PP_Resource \<Rightarrow> int \<Rightarrow> int \<Rightarrow> ptr \<Rightarrow> gl_world \<Rightarrow> gl_world option" where
  "ppb_opengles2_Uniform4fv env context location cnt v = gl_void env context ''glUniform4fv'' [GI location, GI cnt, GP v]"

definition ppb_opengles2_Uniform4i :: "gl_env \<Rightarrow> PP_Resource \<Rightarrow> int \<Rightarrow> int \<Rightarrow> int \<Rightarrow> int \<Rightarrow> int \<Rightarrow> gl_world \<Rightarrow> gl_world option" where
  "ppb_opengles2_Uniform4i env context location x y z w = gl_void env context ''glUniform4i'' [GI location, GI x, GI y, GI z, GI w]"

definition ppb_opengles2_Uniform4iv :: "gl_env \<Rightarrow> PP_Resource \<Rightarrow> int \<Rightarrow> int \<Rightarrow> ptr \<Rightarrow> gl_world \<Rightarrow> gl_world option" where
  "ppb_opengles2_Uniform4iv env context location cnt v = gl_void env context ''glUniform4iv'' [GI location, GI cnt, GP v]"

definition ppb_opengles2_UniformMatrix2fv :: "gl_env \<Rightarrow> PP_Resource \<Rightarrow> int \<Rightarrow> int \<Rightarrow> 8 word \<Rightarrow> ptr \<Rightarrow> gl_world \<Rightarrow> gl_world option" where
  "ppb_opengles2_UniformMatrix2fv env context location cnt transposed val = gl_void env context ''glUniformMatrix2fv'' [GI location, GI cnt, GB transposed, GP val]"

definition ppb_opengles2_UniformMatrix3fv :: "gl_env \<Rightarrow> PP_Resource \<Rightarrow> int \<Rightarrow> int \<Rightarrow> 8 word \<Rightarrow> ptr \<Rightarrow> gl_world \<Rightarrow> gl_world option" where
  "ppb_opengles2_UniformMatrix3fv env context location cnt transposed val = gl_void env context ''glUniformMatrix3fv'' [GI location, GI cnt, GB transposed, GP val]"

definition ppb_opengles2_UniformMatrix4fv :: "gl_env \<Rightarrow> PP_Resource \<Rightarrow> int \<Rightarrow> int \<Rightarrow> 8 word \<Rightarrow> ptr \<Rightarrow> gl_world \<Rightarrow> gl_world option" where
  "ppb_opengles2_UniformMatrix4fv env context location cnt transposed val = gl_void env context ''glUniformMatrix4fv'' [GI location, GI cnt, GB transposed, GP val]"

definition ppb_opengles2_UseProgram :: "gl_env \<Rightarrow> PP_Resource \<Rightarrow> u32 \<Rightarrow> gl_world \<Rightarrow> gl_world option" where
  "ppb_opengles2_UseProgram env context program = gl_void env context ''glUseProgram'' [GE program]"

definition ppb_opengles2_ValidateProgram :: "gl_env \<Rightarrow> PP_Resource \<Rightarrow> u32 \<Rightarrow> gl_world \<Rightarrow> gl_world option" where
  "ppb_opengles2_ValidateProgram env context program = gl_void env context ''glValidateProgram'' [GE program]"

definition ppb_opengles2_VertexAttrib1f :: "gl_env \<Rightarrow> PP_Resource \<Rightarrow> u32 \<Rightarrow> float_bits \<Rightarrow> gl_world \<Rightarrow> gl_world option" where
  "ppb_opengles2_VertexAttrib1f env context indx x = gl_void env context ''glVertexAttrib1f'' [GE indx, GF x]"

definition ppb_opengles2_VertexAttrib1fv :: "gl_env \<Rightarrow> PP_Resource \<Rightarrow> u32 \<Rightarrow> ptr \<Rightarrow> gl_world \<Rightarrow> gl_world option" where
  "ppb_opengles2_VertexAttrib1fv env context indx values = gl_void env context ''glVertexAttrib1fv'' [GE indx, GP values]"

definition ppb_opengles2_VertexAttrib2f :: "gl_env \<Rightarrow> PP_Resource \<Rightarrow> u32 \<Rightarrow> float_bits \<Rightarrow> float_bits \<Rightarrow> gl_world \<Rightarrow> gl_world option" where
  "ppb_opengles2_VertexAttrib2f env context indx x y = gl_void env context ''glVertexAttrib2f'' [GE indx, GF x, GF y]"

definition ppb_opengles2_VertexAttrib2fv :: "gl_env \<Rightarrow> PP_Resource \<Rightarrow> u32 \<Rightarrow> ptr \<Rightarrow> gl_world \<Rightarrow> gl_world option" where
  "ppb_opengles2_VertexAttrib2fv env context indx values = gl_void env context ''glVertexAttrib2fv'' [GE indx, GP values]"

definition ppb_opengles2_VertexAttrib3f :: "gl_env \<Rightarrow> PP_Resource \<Rightarrow> u32 \<Rightarrow> float_bits \<Rightarrow> float_bits \<Rightarrow> float_bits \<Rightarrow> gl_world \<Rightarrow> gl_world option" where
  "ppb_opengles2_VertexAttrib3f env context indx x y z = gl_void env context ''glVertexAttrib3f'' [GE indx, GF x, GF y, GF z]"

definition ppb_opengles2_VertexAttrib3fv :: "gl_env \<Rightarrow> PP_Resource \<Rightarrow> u32 \<Rightarrow> ptr \<Rightarrow> gl_world \<Rightarrow> gl_world option" where
  "ppb_opengles2_VertexAttrib3fv env context indx values = gl_void env context ''glVertexAttrib3fv'' [GE indx, GP values]"

definition ppb_opengles2_VertexAttrib4f :: "gl_env \<Rightarrow> PP_Resource \<Rightarrow> u32 \<Rightarrow> float_bits \<Rightarrow> float_bits \<Rightarrow> float_bits \<Rightarrow> float_bits \<Rightarrow> gl_world \<Rightarrow> gl_world option" where
  "ppb_opengles2_VertexAttrib4f env context indx x y z w = gl_void env context ''glVertexAttrib4f'' [GE indx, GF x, GF y, GF z, GF w]"

definition ppb_opengles2_VertexAttrib4fv :: "gl_env \<Rightarrow> PP_Resource \<Rightarrow> u32 \<Rightarrow> ptr \<Rightarrow> gl_world \<Rightarrow> gl_world option" where
  "ppb_opengles2_VertexAttrib4fv env context indx values = gl_void env context ''glVertexAttrib4fv'' [GE indx, GP values]"

definition ppb_opengles2_VertexAttribPointer :: "gl_env \<Rightarrow> PP_Resource \<Rightarrow> u32 \<Rightarrow> int \<Rightarrow> u32 \<Rightarrow> 8 word \<Rightarrow> int \<Rightarrow> ptr \<Rightarrow> gl_world \<Rightarrow> gl_world option" where
  "ppb_opengles2_VertexAttribPointer env context indx sz type normalized stride p = gl_void env context ''glVertexAttribPointer'' [GE indx, GI sz, GE type, GB normalized, GI stride, GP p]"

definition ppb_opengles2_Viewport :: "gl_env \<Rightarrow> PP_Resource \<Rightarrow> int \<Rightarrow> int \<Rightarrow> int \<Rightarrow> int \<Rightarrow> gl_world \<Rightarrow> gl_world option" where
  "ppb_opengles2_Viewport env context x y width height = gl_void env context ''glViewport'' [GI x, GI y, GI width, GI height]"


section \<open>Shaders\<close>

text \<open>Both tables are keyed by OpenGL's number of the shader, whatever the context.\<close>

definition ppb_opengles2_CreateShader :: "gl_env \<Rightarrow> PP_Resource \<Rightarrow> u32 \<Rightarrow> gl_world \<Rightarrow> (u32 \<times> gl_world) option" where
  "ppb_opengles2_CreateShader env context type w =
     with_context env context 0
       (\<lambda>_ w. let (a, w) = ask env (Gl \<lparr>gl_name = ''glCreateShader'', gl_args = [GE type]\<rparr>) w; res = word_of_int a
          in Some (res, if ga_have_gles2 env then w else w\<lparr>shader_type_ht := ht_insert res type (shader_type_ht w)\<rparr>)) w"

definition ppb_opengles2_DeleteShader :: "gl_env \<Rightarrow> PP_Resource \<Rightarrow> u32 \<Rightarrow> gl_world \<Rightarrow> gl_world option" where
  "ppb_opengles2_DeleteShader env context shader w =
     map_option snd (with_context env context ()
       (\<lambda>_ w. let w = tell env (Gl \<lparr>gl_name = ''glDeleteShader'', gl_args = [GE shader]\<rparr>) w
          in Some ((), if ga_have_gles2 env then w
               else w\<lparr>shader_source_ht := ht_remove shader (shader_source_ht w),
                      shader_type_ht := ht_remove shader (shader_type_ht w)\<rparr>)) w)"

text \<open>The first result is what the function itself writes to \<^verbatim>\<open>params[0]\<close>, if it does.\<close>

definition ppb_opengles2_GetShaderiv :: "gl_env \<Rightarrow> PP_Resource \<Rightarrow> u32 \<Rightarrow> u32 \<Rightarrow> ptr \<Rightarrow> gl_world \<Rightarrow> (int option \<times> gl_world) option" where
  "ppb_opengles2_GetShaderiv env context shader pname params w =
     with_context env context None
       (\<lambda>_ w. if \<not> ga_have_gles2 env \<and> pname = 0x8B88
          then Some (if params = 0 then None
                     else Some (case ht_lookup (shader_source_ht w) shader of None \<Rightarrow> 0 | Some s \<Rightarrow> int (length (c_str s))), w)
          else Some (None, tell env (Gl \<lparr>gl_name = ''glGetShaderiv'', gl_args = [GE shader, GE pname, GP params]\<rparr>) w)) w"

text \<open>
  What is written to \<^verbatim>\<open>length\<close> and to \<^verbatim>\<open>source\<close>, if anything is. Copying a negative number of bytes is
  undefined.
\<close>

definition copy_source :: "char list option \<Rightarrow> int \<Rightarrow> (int \<times> char list option) option" where
  "copy_source src bufsize =
     (case src of
        None \<Rightarrow> Some (0, None)
      | Some s \<Rightarrow>
          let len = int (length (c_str s)); len = (if len + 1 > bufsize then bufsize - 1 else len)
          in if len < 0 then None else Some (len, Some (take (nat len) (c_str s) @ [NUL])))"

definition ppb_opengles2_GetShaderSource ::
  "gl_env \<Rightarrow> PP_Resource \<Rightarrow> u32 \<Rightarrow> int \<Rightarrow> ptr \<Rightarrow> ptr \<Rightarrow> gl_world \<Rightarrow> ((int option \<times> char list option) \<times> gl_world) option" where
  "ppb_opengles2_GetShaderSource env context shader bufsize len source w =
     with_context env context (None, None)
       (\<lambda>_ w. if ga_have_gles2 env
          then Some ((None, None), tell env (Gl \<lparr>gl_name = ''glGetShaderSource'', gl_args = [GE shader, GI bufsize, GP len, GP source]\<rparr>) w)
          else do {
            (l, bytes) \<leftarrow> copy_source (ht_lookup (shader_source_ht w) shader) bufsize;
            Some ((if len = 0 then None else Some l, bytes), w)
          }) w"

text \<open>
  The parts of a source: a part without a length, or with a negative one, ends at its terminator.
  \<open>None\<close> is a part shorter than its length.
\<close>

fun combine_shader_source_parts :: "char list list \<Rightarrow> int list option \<Rightarrow> char list option" where
  "combine_shader_source_parts [] ls = Some []"
| "combine_shader_source_parts (s # ss) None = map_option (\<lambda>r. c_str s @ r) (combine_shader_source_parts ss None)"
| "combine_shader_source_parts (s # ss) (Some []) = None"
| "combine_shader_source_parts (s # ss) (Some (l # ls)) =
     (if l < 0 then map_option (\<lambda>r. c_str s @ r) (combine_shader_source_parts ss (Some ls))
      else if nat l \<le> length s then map_option (\<lambda>r. take (nat l) s @ r) (combine_shader_source_parts ss (Some ls))
      else None)"

text \<open>\<open>parts\<close> and \<open>lengths\<close> are what the pointers \<open>str\<close> and \<open>len\<close> point to, for the build that reads them.\<close>

definition ppb_opengles2_ShaderSource ::
  "gl_env \<Rightarrow> PP_Resource \<Rightarrow> u32 \<Rightarrow> ptr \<times> char list list \<Rightarrow> ptr \<times> int list option \<Rightarrow> gl_world \<Rightarrow> gl_world option" where
  "ppb_opengles2_ShaderSource env context shader str len w =
     map_option snd (with_context env context ()
       (\<lambda>_ w. if ga_have_gles2 env
          then Some ((), tell env (Gl \<lparr>gl_name = ''glShaderSource'',
                 gl_args = [GE shader, GI (int (length (snd str))), GP (fst str), GP (fst len)]\<rparr>) w)
          else do {
            let type = (case ht_lookup (shader_type_ht w) shader of None \<Rightarrow> 0 | Some t \<Rightarrow> t);
            body \<leftarrow> combine_shader_source_parts (snd str) (snd len);
            let w = w\<lparr>shader_source_ht := ht_insert shader body (shader_source_ht w)\<rparr>;
            Some ((), tell env (GlShaderSource shader (ga_translate env type (c_str body))) w)
          }) w)"

section \<open>Mapped textures\<close>

definition ppb_opengles2_chromium_map_sub_map_tex_sub_image_2d_chromium ::
  "gl_env \<Rightarrow> PP_Resource \<Rightarrow> u32 \<Rightarrow> tex_sub_mapping_param_s \<Rightarrow> gl_world \<Rightarrow> (ptr \<times> gl_world) option" where
  "ppb_opengles2_chromium_map_sub_map_tex_sub_image_2d_chromium env context target p w =
     (if target \<noteq> 0x0DE1 \<or> tm_level p \<noteq> 0 \<or> tm_access p \<noteq> 0x88B9 then Some (0, w)
      else with_resource context PP_RESOURCE_GRAPHICS3D 0
        (\<lambda>gr w. do {
           g3d \<leftarrow> the_graphics3d (r_payload gr);
           sub_maps \<leftarrow> g3_sub_maps g3d;
           pixels \<leftarrow> int_mult (tm_width p) (tm_height p);
           n \<leftarrow> int_mult pixels (if tm_format p = 0x1907 then 3 else 4);
           let (res, w) = ask_ptr env (Malloc n) w;
           Some (res, res_write context (PL_graphics3d (g3d\<lparr>g3_sub_maps := Some (ht_insert res p sub_maps)\<rparr>)) w)
         }) w)"

definition ppb_opengles2_chromium_map_sub_unmap_tex_sub_image_2d_chromium ::
  "gl_env \<Rightarrow> PP_Resource \<Rightarrow> ptr \<Rightarrow> gl_world \<Rightarrow> gl_world option" where
  "ppb_opengles2_chromium_map_sub_unmap_tex_sub_image_2d_chromium env context mem w =
     map_option snd (with_context env context ()
       (\<lambda>g3d w. do {
          sub_maps \<leftarrow> g3_sub_maps g3d;
          (case ht_lookup sub_maps mem of
             None \<Rightarrow> Some ((), w)
           | Some mp \<Rightarrow>
               let w = res_write context (PL_graphics3d (g3d\<lparr>g3_sub_maps := Some (ht_remove mem sub_maps)\<rparr>)) w;
                   w = tell env (Gl \<lparr>gl_name = ''glTexSubImage2D'', gl_args = [GE 0x0DE1, GI (tm_level mp), GI (tm_xoffset mp),
                     GI (tm_yoffset mp), GI (tm_width mp), GI (tm_height mp), GE (tm_format mp), GE (tm_type mp), GP mem]\<rparr>) w
               in Some ((), tell env (Free mem) w))
        }) w)"

section \<open>Not implemented by the code\<close>

definition ppb_opengles2_chromium_enable_feature_enable_feature_chromium :: bool where
  "ppb_opengles2_chromium_enable_feature_enable_feature_chromium = False"
definition ppb_opengles2_chromium_map_sub_map_buffer_sub_data_chromium :: ptr where
  "ppb_opengles2_chromium_map_sub_map_buffer_sub_data_chromium = 0"
definition ppb_opengles2_query_is_query_ext :: bool where "ppb_opengles2_query_is_query_ext = True"

text \<open>These do nothing; each stands for one function without a result.\<close>

definition ppb_opengles2_chromium_map_sub_unmap_buffer_sub_data_chromium :: "gl_world \<Rightarrow> gl_world" where
  "ppb_opengles2_chromium_map_sub_unmap_buffer_sub_data_chromium w = w"
definition ppb_opengles2_framebuffer_blit_blit_framebuffer_ext :: "gl_world \<Rightarrow> gl_world" where
  "ppb_opengles2_framebuffer_blit_blit_framebuffer_ext w = w"
definition ppb_opengles2_framebuffer_multisample_renderbuffer_storage_multisample_ext :: "gl_world \<Rightarrow> gl_world" where
  "ppb_opengles2_framebuffer_multisample_renderbuffer_storage_multisample_ext w = w"
definition ppb_opengles2_instanced_arrays_draw_arrays_instanced_angle :: "gl_world \<Rightarrow> gl_world" where
  "ppb_opengles2_instanced_arrays_draw_arrays_instanced_angle w = w"
definition ppb_opengles2_instanced_arrays_draw_elements_instanced_angle :: "gl_world \<Rightarrow> gl_world" where
  "ppb_opengles2_instanced_arrays_draw_elements_instanced_angle w = w"
definition ppb_opengles2_instanced_arrays_vertex_attrib_divisor_angle :: "gl_world \<Rightarrow> gl_world" where
  "ppb_opengles2_instanced_arrays_vertex_attrib_divisor_angle w = w"
definition ppb_opengles2_query_gen_queries_ext :: "gl_world \<Rightarrow> gl_world" where "ppb_opengles2_query_gen_queries_ext w = w"
definition ppb_opengles2_query_delete_queries_ext :: "gl_world \<Rightarrow> gl_world" where "ppb_opengles2_query_delete_queries_ext w = w"
definition ppb_opengles2_query_begin_query_ext :: "gl_world \<Rightarrow> gl_world" where "ppb_opengles2_query_begin_query_ext w = w"
definition ppb_opengles2_query_end_query_ext :: "gl_world \<Rightarrow> gl_world" where "ppb_opengles2_query_end_query_ext w = w"
definition ppb_opengles2_query_get_queryiv_ext :: "gl_world \<Rightarrow> gl_world" where "ppb_opengles2_query_get_queryiv_ext w = w"
definition ppb_opengles2_query_get_query_objectuiv_ext :: "gl_world \<Rightarrow> gl_world" where
  "ppb_opengles2_query_get_query_objectuiv_ext w = w"

end
