(* ===== verification/Gl_Correct.thy ===== *)
theory Gl_Correct
  imports Opengles2
begin

text \<open>
  What the X server, GLX and OpenGL see: contexts do not get each other's commands, and the server's
  objects are given back. Where the code fails to do so is shown too.
\<close>

section \<open>Reading the trace\<close>

text \<open>
  Which context is current after a trace, 0 for none: a request that is refused changes nothing. Then the
  commands a context gets.
\<close>

fun current_after :: "ptr \<Rightarrow> (x_request \<times> int) list \<Rightarrow> ptr" where
  "current_after c [] = c"
| "current_after c ((GlXMakeCurrent p g, a) # l) = current_after (if a = 0 then c else g) l"
| "current_after c (_ # l) = current_after c l"

fun commands_of :: "ptr \<Rightarrow> ptr \<Rightarrow> (x_request \<times> int) list \<Rightarrow> gl_command list" where
  "commands_of g c [] = []"
| "commands_of g c ((GlXMakeCurrent p g', a) # l) = commands_of g (if a = 0 then c else g') l"
| "commands_of g c ((Gl cmd, a) # l) = (if c = g then cmd # commands_of g c l else commands_of g c l)"
| "commands_of g c (_ # l) = commands_of g c l"

lemma current_after_append [simp]: "current_after c (l @ l') = current_after (current_after c l) l'"
  by (induction c l rule: current_after.induct) auto

lemma commands_of_append [simp]: "commands_of g c (l @ l') = commands_of g c l @ commands_of g (current_after c l) l'"
  by (induction g c l rule: commands_of.induct) auto

text \<open>The objects of the server: of what kind, and their identifier.\<close>

datatype x_kind = Pixmap | GLXPixmap | Picture | GLXContext

fun created :: "x_request \<Rightarrow> int \<Rightarrow> (x_kind \<times> ptr) list" where
  "created (XCreatePixmap _ _ _) a = [(Pixmap, nat a)]"
| "created (GlXCreatePixmap _ _) a = [(GLXPixmap, nat a)]"
| "created (XRenderCreatePicture _ _) a = [(Picture, nat a)]"
| "created (GlXCreateContextAttribs _ _) a = [(GLXContext, nat a)]"
| "created (GlXCreateNewContext _ _) a = [(GLXContext, nat a)]"
| "created _ _ = []"

fun freed :: "x_request \<Rightarrow> (x_kind \<times> ptr) list" where
  "freed (XFreePixmap p) = [(Pixmap, p)]"
| "freed (GlXDestroyPixmap p) = [(GLXPixmap, p)]"
| "freed (XRenderFreePicture p) = [(Picture, p)]"
| "freed (GlXDestroyContext g) = [(GLXContext, g)]"
| "freed _ = []"

definition real :: "(x_kind \<times> ptr) list \<Rightarrow> (x_kind \<times> ptr) multiset" where
  "real os = mset (filter (\<lambda>(k, i). i \<noteq> 0) os)"

fun live :: "(x_request \<times> int) list \<Rightarrow> (x_kind \<times> ptr) multiset \<Rightarrow> (x_kind \<times> ptr) multiset" where
  "live [] m = m"
| "live ((r, a) # l) m = live l (m - real (freed r) + real (created r a))"

lemma live_append [simp]: "live (l @ l') m = live l' (live l m)"
  by (induction l m rule: live.induct) auto

section \<open>Steps\<close>

lemma tell_sel [simp]:
  "x_log (tell env r w) = x_log w @ [(r, ga_answer env (x_log w) r)]"
  "x_log (w\<lparr>res_tbl := t\<rparr>) = x_log w" "res_tbl (tell env r w) = res_tbl w"
  "shader_type_ht (tell env r w) = shader_type_ht w" "shader_source_ht (tell env r w) = shader_source_ht w"
  "tell env r (w\<lparr>res_tbl := t\<rparr>) = (tell env r w)\<lparr>res_tbl := t\<rparr>"
  by (simp_all add: tell_def ask_def Let_def)

lemma ask_sel [simp]:
  "fst (ask env r w) = ga_answer env (x_log w) r" "snd (ask env r w) = tell env r w"
  by (simp_all add: tell_def ask_def Let_def)

text \<open>A body that leaves the table alone, run with a context.\<close>

definition beside_table :: "(gl_world \<Rightarrow> ('r \<times> gl_world) option) \<Rightarrow> bool" where
  "beside_table f \<longleftrightarrow> (\<forall>w t. f (w\<lparr>res_tbl := t\<rparr>) = map_option (\<lambda>(r, w). (r, w\<lparr>res_tbl := t\<rparr>)) (f w)) \<and>
     (\<forall>w r w'. f w = Some (r, w') \<longrightarrow> res_tbl w' = res_tbl w)"

lemma with_context_available:
  assumes av: "available context PP_RESOURCE_GRAPHICS3D w e" "r_payload e = PL_graphics3d g3d"
    and body: "beside_table (body g3d)" "body g3d (tell env (GlXMakeCurrent (g3_glx_pixmap g3d) (g3_glc g3d)) w) = Some (x, w1)"
  shows "with_context env context bad body w = Some (x, tell env (GlXMakeCurrent 0 0) w1)"
proof -
  let ?mc = "tell env (GlXMakeCurrent (g3_glx_pixmap g3d) (g3_glc g3d))"
  let ?t = "ht_insert context (acquired e) (res_tbl w)"
  have e: "ht_lookup (res_tbl w) context = Some e" "\<not> r_locked e" "0 < r_ref_cnt e" using av(1) by (simp_all add: available_def)
  have b: "body g3d (?mc (w\<lparr>res_tbl := ?t\<rparr>)) = Some (x, w1\<lparr>res_tbl := ?t\<rparr>)"
    using body by (simp add: beside_table_def)
  have w1: "res_tbl w1 = res_tbl w" using body by (auto simp: beside_table_def)
  let ?w2 = "tell env (GlXMakeCurrent 0 0) w1"
  have rel: "pp_resource_release context (?w2\<lparr>res_tbl := ?t\<rparr>) = Some ?w2"
  proof -
    have "pp_resource_release context (?w2\<lparr>res_tbl := ?t\<rparr>) = Some (?w2\<lparr>res_tbl := ht_insert context e (res_tbl w)\<rparr>)"
      using e by (cases e) (simp add: release_counted)
    also have "ht_insert context e (res_tbl w) = res_tbl ?w2" using e(1) w1 by (simp add: ht_insert_same)
    finally show ?thesis by simp
  qed
  show ?thesis
    using b rel av(2) by (simp add: with_context_def with_resource_def acquire_available [OF av(1)])
qed

lemma beside_table_tell: "beside_table (\<lambda>w. Some ((), tell env r w))"
  by (simp add: beside_table_def)

definition is_context :: "gl_world \<Rightarrow> PP_Resource \<Rightarrow> bool" where
  "is_context w c \<longleftrightarrow> (\<exists>e g3d. available c PP_RESOURCE_GRAPHICS3D w e \<and> r_payload e = PL_graphics3d g3d)"

definition glc_of :: "gl_world \<Rightarrow> PP_Resource \<Rightarrow> ptr" where
  "glc_of w c = (case ht_lookup (res_tbl w) c of
     Some e \<Rightarrow> (case the_graphics3d (r_payload e) of Some g3d \<Rightarrow> g3_glc g3d | None \<Rightarrow> 0) | None \<Rightarrow> 0)"

text \<open>The display makes every context current that is asked for.\<close>

definition makes_current :: "gl_env \<Rightarrow> bool" where
  "makes_current env \<longleftrightarrow> (\<forall>log p g. ga_answer env log (GlXMakeCurrent p g) \<noteq> 0)"

lemma gl_void_available:
  assumes "is_context w c" "makes_current env" "current_after 0 (x_log w) = 0"
  shows "\<exists>w'. gl_void env c name args w = Some w' \<and> res_tbl w' = res_tbl w \<and> current_after 0 (x_log w') = 0 \<and>
    commands_of g 0 (x_log w') = commands_of g 0 (x_log w) @ (if glc_of w c = g then [\<lparr>gl_name = name, gl_args = args\<rparr>] else [])"
proof -
  obtain e g3d where e: "available c PP_RESOURCE_GRAPHICS3D w e" "r_payload e = PL_graphics3d g3d"
    using assms(1) by (auto simp: is_context_def)
  have "glc_of w c = g3_glc g3d" using e by (simp add: glc_of_def available_def)
  then show ?thesis
    using assms(2,3) by (simp add: gl_void_def with_context_available [OF e beside_table_tell] makes_current_def)
qed

section \<open>Contexts apart\<close>

fun gl_calls :: "gl_env \<Rightarrow> (PP_Resource \<times> gl_command) list \<Rightarrow> gl_world \<Rightarrow> gl_world option" where
  "gl_calls env [] w = Some w"
| "gl_calls env ((c, cmd) # cs) w = Option.bind (gl_void env c (gl_name cmd) (gl_args cmd) w) (gl_calls env cs)"


text \<open>A sample: two contexts, 1 and 2, and a display that answers every request with the number of the requests before it plus 100.\<close>

definition gl_env_sample :: gl_env where
  "gl_env_sample = \<lparr>ga_answer = \<lambda>log r. int (length log) + 100, ga_have_gles2 = False, ga_es2_extensions = False,
     ga_create_context_attribs = True, ga_have_xrender = True, ga_default_depth = 24, ga_pictfmt_rgb24 = 5, ga_pictfmt_argb32 = 6,
     ga_translate = \<lambda>t s. s\<rparr>"

definition context_sample :: "nat \<Rightarrow> pp_graphics3d_s" where
  "context_sample n = \<lparr>g3_glc = n, g3_fb_config = n + 1, g3_depth = 24, g3_glx_pixmap = n + 2, g3_pixmap = (n + 3, n + 4),
     g3_xr_pict = (n + 5, n + 6), g3_xr_pictfmt = 5, g3_width = 4, g3_height = 3, g3_sub_maps = Some []\<rparr>"

definition context_entry :: "PP_Resource \<Rightarrow> nat \<Rightarrow> pp_resource_s" where
  "context_entry r n = \<lparr>r_resource_type = PP_RESOURCE_GRAPHICS3D, r_ref_cnt = 1, r_instance = Some 10, r_self_id = r, r_locked = False,
     r_payload = PL_graphics3d (context_sample n)\<rparr>"

definition gl_sample :: gl_world where
  "gl_sample = world.extend ((started [PP_RESOURCE_GRAPHICS3D])\<lparr>res_tbl := [(1, context_entry 1 20), (2, context_entry 2 40)], res_tbl_next := 3\<rparr>)
     \<lparr>x_log = [], shader_type_ht = [], shader_source_ht = []\<rparr>"

lemma gl_sample_sel [simp]:
  "x_log gl_sample = []" "shader_source_ht gl_sample = []" "shader_type_ht gl_sample = []"
  "res_tbl gl_sample = [(1, context_entry 1 20), (2, context_entry 2 40)]" "res_tbl_next gl_sample = 3"
  "destructors_ht gl_sample = [PP_RESOURCE_GRAPHICS3D]" "tables_get_pp_instance 10 gl_sample = Some sample_instance"
  by (simp_all add: gl_sample_def started_def constructors_def tables_add_pp_instance_def tables_get_pp_instance_def world.defs)

lemma gl_sample_contexts [simp]:
  "available 1 PP_RESOURCE_GRAPHICS3D gl_sample (context_entry 1 20)" "available 2 PP_RESOURCE_GRAPHICS3D gl_sample (context_entry 2 40)"
  "r_payload (context_entry r n) = PL_graphics3d (context_sample n)" "is_context gl_sample 1" "is_context gl_sample 2"
  "glc_of gl_sample 1 = 20" "glc_of gl_sample 2 = 40"
  by (auto simp: is_context_def available_def context_entry_def glc_of_def context_sample_def)

lemma env_sample_makes_current: "makes_current gl_env_sample"
  by (auto simp: makes_current_def gl_env_sample_def)

definition a_command :: "u32 \<Rightarrow> gl_command" where
  "a_command n = \<lparr>gl_name = ''glUseProgram'', gl_args = [GE n]\<rparr>"


section \<open>Objects of the server\<close>

text \<open>What a structure has of the server.\<close>

definition owns :: "gl_env \<Rightarrow> pp_graphics3d_s \<Rightarrow> (x_kind \<times> ptr) list" where
  "owns env g3d = [(GLXContext, g3_glc g3d), (Pixmap, fst (g3_pixmap g3d)), (Pixmap, snd (g3_pixmap g3d)),
     (GLXPixmap, g3_glx_pixmap g3d)] @
     (if ga_have_xrender env then [(Picture, fst (g3_xr_pict g3d)), (Picture, snd (g3_xr_pict g3d))] else [])"

definition objects :: "gl_world \<Rightarrow> (x_kind \<times> ptr) multiset" where
  "objects w = live (x_log w) {#}"

lemma objects_tell [simp]:
  "objects (tell env r w) = objects w - real (freed r) + real (created r (ga_answer env (x_log w) r))"
  "objects (w\<lparr>res_tbl := t\<rparr>) = objects w"
  by (simp_all add: objects_def)

lemma real_simps [simp]: "real [] = {#}" "real (o1 # os) = (if snd o1 = 0 then real os else add_mset o1 (real os))"
  by (simp_all add: real_def split: prod.split)

lemma real_append [simp]: "real (a @ b) = real a + real b"
  by (simp add: real_def)

lemma ask_ptr_eq: "ask_ptr env r w = (nat (ga_answer env (x_log w) r), tell env r w)"
  by (simp add: ask_ptr_def ask_def tell_def Let_def)

lemma objects_tell_all_plain:
  "\<forall>r\<in>set rs. freed r = [] \<and> (\<forall>a. created r a = []) \<Longrightarrow> objects (tell_all env rs w) = objects w"
  by (induction rs arbitrary: w) auto

lemma objects_make_glc:
  assumes "make_glc env cfg share w = (glc, w')"
  shows "objects w' = objects w + real [(GLXContext, glc)]"
  using assms by (auto simp: make_glc_def ask_ptr_eq split: if_splits prod.splits)

lemma objects_make_pixmaps:
  assumes "make_pixmaps env g3d w = (g3d', w')"
  shows "objects w' = objects w + real [(Pixmap, fst (g3_pixmap g3d')), (Pixmap, snd (g3_pixmap g3d')), (GLXPixmap, g3_glx_pixmap g3d')]"
    "g3_glc g3d' = g3_glc g3d"
  using assms by (auto simp: make_pixmaps_def ask_ptr_eq Let_def)

lemma objects_make_pictures:
  assumes "make_pictures env g3d w = (g3d', w')"
  shows "objects w' = objects w + (if ga_have_xrender env then real [(Picture, fst (g3_xr_pict g3d')), (Picture, snd (g3_xr_pict g3d'))] else {#})"
    "g3_glc g3d' = g3_glc g3d" "g3_pixmap g3d' = g3_pixmap g3d" "g3_glx_pixmap g3d' = g3_glx_pixmap g3d"
  using assms by (auto simp: make_pictures_def ask_ptr_eq Let_def split: if_splits)

lemma objects_make_context:
  assumes "make_context env tr share cfg g3d w = (Some g3d', w')"
  shows "objects w' = objects w + real (owns env g3d')"
proof -
  obtain glc w1 where 1: "make_glc env (nat (ga_answer env (x_log w) (GlXChooseFBConfig cfg))) share
      (tell env (GlXChooseFBConfig cfg) w) = (glc, w1)" by fastforce
  let ?d = "if tr then 32 else ga_default_depth env"
  let ?g1 = "g3d\<lparr>g3_fb_config := nat (ga_answer env (x_log w) (GlXChooseFBConfig cfg)), g3_glc := glc, g3_depth := ?d,
    g3_xr_pictfmt := (if ?d = 24 then ga_pictfmt_rgb24 env else ga_pictfmt_argb32 env)\<rparr>"
  obtain g2 w2 where 2: "make_pixmaps env ?g1 w1 = (g2, w2)" by fastforce
  obtain g3 w3 where 3: "make_pictures env g2 w2 = (g3, w3)" by fastforce
  have g': "g3d' = g3\<lparr>g3_sub_maps := Some []\<rparr>"
    "w' = tell_all env (clear_surface @ [GlXMakeCurrent 0 0]) (tell env (GlXMakeCurrent (g3_glx_pixmap g3) (g3_glc g3)) w3)"
    using assms 1 2 3 by (auto simp: make_context_def ask_ptr_eq ask_def tell_def Let_def split: if_splits)
  have "objects w' = objects w3"
    unfolding g'(2) by (subst objects_tell_all_plain) (auto simp: clear_surface_def)
  then show ?thesis
    using objects_make_glc [OF 1] objects_make_pixmaps [OF 2] objects_make_pictures [OF 3]
    by (simp add: g'(1) owns_def)
qed

lemma objects_tell_frees:
  "\<forall>r\<in>set rs. \<forall>a. created r a = [] \<Longrightarrow> objects (tell_all env rs w) = objects w - real (concat (map freed rs))"
  by (induction rs arbitrary: w) (auto simp: diff_diff_add)

lemma free_pictures_simps [simp]:
  "concat (map freed (free_pictures env p)) = (if ga_have_xrender env then [(Picture, fst p), (Picture, snd p)] else [])"
  "r \<in> set (free_pictures env p) \<Longrightarrow> created r a = []"
  by (auto simp: free_pictures_def split: if_splits)

lemma objects_destroy:
  "objects (ppb_graphics3d_destroy env g3d w) = objects w - real (owns env g3d)"
  unfolding ppb_graphics3d_destroy_def
  by (subst objects_tell_frees) (auto simp: owns_def add_mset_commute)

text \<open>What a structure has but the context, which a resize keeps.\<close>

definition drawables :: "gl_env \<Rightarrow> pp_graphics3d_s \<Rightarrow> (x_kind \<times> ptr) list" where
  "drawables env g3d = tl (owns env g3d)"

definition keeps_current :: "x_request \<Rightarrow> bool" where
  "keeps_current r \<longleftrightarrow> (\<forall>c a. current_after c [(r, a)] = c)"

lemma current_tell_all:
  "\<forall>r\<in>set rs. keeps_current r \<Longrightarrow> current_after c (x_log (tell_all env rs w)) = current_after c (x_log w)"
  by (induction rs arbitrary: w) (auto simp: keeps_current_def)

lemma objects_resize:
  assumes "resize_context env width height g3d w = (g3d', w')"
  shows "objects w' = objects w + real (drawables env g3d') - real (drawables env g3d)" "g3_glc g3d' = g3_glc g3d"
    "makes_current env \<Longrightarrow> current_after c (x_log w') = g3_glc g3d"
proof -
  let ?w0 = "tell env (GlXMakeCurrent (g3_glx_pixmap g3d) (g3_glc g3d)) w"
  obtain g1 w1 where 1: "make_pixmaps env (g3d\<lparr>g3_width := width, g3_height := height\<rparr>) ?w0 = (g1, w1)" by fastforce
  obtain g2 w2 where 2: "make_pictures env g1 w1 = (g2, w2)" by fastforce
  let ?rs = "clear_surface @ [GlXDestroyPixmap (g3_glx_pixmap g3d)] @ free_pictures env (g3_xr_pict g3d) @
    [XFreePixmap (fst (g3_pixmap g3d)), XFreePixmap (snd (g3_pixmap g3d))]"
  let ?w3 = "tell env (GlXMakeCurrent (g3_glx_pixmap g2) (g3_glc g2)) w2"
  have res: "g3d' = g2" "w' = tell_all env ?rs ?w3"
    using assms 1 2 by (auto simp: resize_context_def Let_def)
  have glc: "g3_glc g2 = g3_glc g3d" using objects_make_pixmaps(2) [OF 1] objects_make_pictures(2) [OF 2] by simp
  have "objects w' = objects w2 - real (concat (map freed ?rs))"
    unfolding res(2) by (subst objects_tell_frees) (auto simp: clear_surface_def)
  also have "real (concat (map freed ?rs)) = real (drawables env g3d)"
    by (auto simp: clear_surface_def drawables_def owns_def add_mset_commute)
  also have "objects w2 = objects w + real (drawables env g3d')"
    using objects_make_pixmaps(1) [OF 1] objects_make_pictures [OF 2] by (simp add: res(1) drawables_def owns_def)
  finally show "objects w' = objects w + real (drawables env g3d') - real (drawables env g3d)" .
  show "g3_glc g3d' = g3_glc g3d" using glc res(1) by simp
  assume "makes_current env"
  then have "current_after c (x_log ?w3) = g3_glc g3d" by (simp add: makes_current_def glc)
  then show "current_after c (x_log w') = g3_glc g3d"
    unfolding res(2) by (subst current_tell_all) (auto simp: keeps_current_def clear_surface_def free_pictures_def)
qed

text \<open>Nothing but the trace differs.\<close>

definition log_only :: "gl_world \<Rightarrow> gl_world \<Rightarrow> bool" where
  "log_only w' w \<longleftrightarrow> (\<exists>l. w' = w\<lparr>x_log := l\<rparr>)"

lemma log_only_tell: "log_only w' w \<Longrightarrow> log_only (tell env r w') w"
  by (auto simp: log_only_def tell_def ask_def Let_def)

lemma log_only_refl [simp]: "log_only w w"
  unfolding log_only_def by (rule exI [of _ "x_log w"]) simp

lemma log_only_tell_all: "log_only w' w \<Longrightarrow> log_only (tell_all env rs w') w"
  by (induction rs arbitrary: w') (auto intro: log_only_tell)

lemma log_only_make:
  assumes "log_only w v"
  shows "make_glc env cfg share w = (g, w') \<Longrightarrow> log_only w' v"
    "make_pixmaps env g3d w = (g3d', w') \<Longrightarrow> log_only w' v"
    "make_pictures env g3d w = (g3d', w') \<Longrightarrow> log_only w' v"
  using assms by (auto simp: make_glc_def make_pixmaps_def make_pictures_def ask_ptr_eq Let_def log_only_tell split: if_splits)

lemma log_only_make_context:
  assumes "make_context env tr share cfg g3d w = (x, w')"
  shows "log_only w' w"
proof -
  let ?c = "nat (ga_answer env (x_log w) (GlXChooseFBConfig cfg))" and ?w0 = "tell env (GlXChooseFBConfig cfg) w"
  obtain glc w1 where 1: "make_glc env ?c share ?w0 = (glc, w1)" by fastforce
  let ?d = "if tr then 32 else ga_default_depth env"
  let ?g1 = "g3d\<lparr>g3_fb_config := ?c, g3_glc := glc, g3_depth := ?d,
    g3_xr_pictfmt := (if ?d = 24 then ga_pictfmt_rgb24 env else ga_pictfmt_argb32 env)\<rparr>"
  obtain g2 w2 where 2: "make_pixmaps env ?g1 w1 = (g2, w2)" by fastforce
  obtain g3 w3 where 3: "make_pictures env g2 w2 = (g3, w3)" by fastforce
  let ?w4 = "tell env (GlXMakeCurrent (g3_glx_pixmap g3) (g3_glc g3)) w3"
  have l0: "log_only ?w0 w" by (simp add: log_only_tell)
  note l1 = log_only_make(1) [OF l0 1]
  note l2 = log_only_make(2) [OF l1 2]
  note l3 = log_only_make(3) [OF l2 3]
  have l4: "log_only ?w4 w" "log_only (tell_all env (clear_surface @ [GlXMakeCurrent 0 0]) ?w4) w"
    using l3 by (simp_all add: log_only_tell log_only_tell_all)
  have "w' \<in> {?w0, w1, w2, ?w4, tell_all env (clear_surface @ [GlXMakeCurrent 0 0]) ?w4}"
    using assms 1 2 3 by (auto simp: make_context_def ask_ptr_eq ask_def tell_def Let_def split: if_splits)
  then show ?thesis using l0 l1 l2 l4 by blast
qed

lemma log_only_frame:
  assumes "log_only w' w"
  shows "res_tbl w' = res_tbl w" "world_inv extR extV w' = world_inv extR extV w"
  using assms by (auto simp: log_only_def world_inv_def var_inv_def entries_ok_def res_entries_ok_def res_entry_ok_def)

end
