(* ===== verification/Gl_Theorems.thy ===== *)
theory Gl_Theorems
  imports Gl_Correct
begin

text \<open>
  The life of a context as the X server sees it, and what shaders, textures and attribute lists do.
\<close>

section \<open>Making, resizing and destroying\<close>

definition has_context :: "gl_world \<Rightarrow> PP_Resource \<Rightarrow> gl_env \<Rightarrow> (x_kind \<times> ptr) multiset \<Rightarrow> bool" where
  "has_context w c env others \<longleftrightarrow> (\<exists>e g3d. available c PP_RESOURCE_GRAPHICS3D w e \<and> r_payload e = PL_graphics3d g3d \<and>
     objects w = others + real (owns env g3d))"

fun resizes :: "gl_env \<Rightarrow> PP_Resource \<Rightarrow> (int \<times> int) list \<Rightarrow> gl_world \<Rightarrow> gl_world option" where
  "resizes env c [] w = Some w"
| "resizes env c ((x, y) # l) w = Option.bind (ppb_graphics3d_resize_buffers env c x y w) (\<lambda>(_, w). resizes env c l w)"

lemma log_only_table: "log_only w' w \<Longrightarrow> w'\<lparr>res_tbl := t\<rparr> = w\<lparr>res_tbl := t, x_log := x_log w'\<rparr>"
  by (auto simp: log_only_def)

lemma log_only_resize:
  assumes "resize_context env width height g3d w = (g3d', w')"
  shows "log_only w' w"
proof -
  let ?w0 = "tell env (GlXMakeCurrent (g3_glx_pixmap g3d) (g3_glc g3d)) w"
  obtain g1 w1 where 1: "make_pixmaps env (g3d\<lparr>g3_width := width, g3_height := height\<rparr>) ?w0 = (g1, w1)" by fastforce
  obtain g2 w2 where 2: "make_pictures env g1 w1 = (g2, w2)" by fastforce
  have "log_only ?w0 w" by (simp add: log_only_tell)
  from log_only_make(3) [OF log_only_make(2) [OF this 1] 2] have "log_only w2 w" .
  moreover have "w' = tell_all env (clear_surface @ [GlXDestroyPixmap (g3_glx_pixmap g3d)] @ free_pictures env (g3_xr_pict g3d) @
      [XFreePixmap (fst (g3_pixmap g3d)), XFreePixmap (snd (g3_pixmap g3d))]) (tell env (GlXMakeCurrent (g3_glx_pixmap g2) (g3_glc g2)) w2)"
    using assms 1 2 by (auto simp: resize_context_def Let_def)
  ultimately show ?thesis by (simp only: log_only_tell_all log_only_tell)
qed

text \<open>What a resize does to a context of the table.\<close>

lemma resize_available:
  assumes e: "available c PP_RESOURCE_GRAPHICS3D w e" "r_payload e = PL_graphics3d g3d" and sz: "0 \<le> x" "0 \<le> y"
    and res: "resize_context env x y g3d (w\<lparr>res_tbl := ht_insert c (acquired e) (res_tbl w)\<rparr>) = (g3d', w1)"
  shows "ppb_graphics3d_resize_buffers env c x y w =
    Some (PP_OK, w1\<lparr>res_tbl := ht_insert c (e\<lparr>r_payload := PL_graphics3d g3d'\<rparr>) (res_tbl w)\<rparr>)"
proof -
  have look: "ht_lookup (res_tbl w) c = Some e" "\<not> r_locked e" "0 < r_ref_cnt e" using e(1) by (simp_all add: available_def)
  have t: "res_tbl w1 = ht_insert c (acquired e) (res_tbl w)" using log_only_frame(1) [OF log_only_resize [OF res]] by simp
  let ?w2 = "res_write c (PL_graphics3d g3d') w1"
  have w2: "?w2 = w1\<lparr>res_tbl := ht_insert c ((acquired e)\<lparr>r_payload := PL_graphics3d g3d'\<rparr>) (res_tbl w)\<rparr>"
    by (simp add: res_write_def t)
  have "pp_resource_release c ?w2 = Some (w1\<lparr>res_tbl := ht_insert c (e\<lparr>r_payload := PL_graphics3d g3d'\<rparr>) (res_tbl w)\<rparr>)"
    unfolding w2 using look by (cases e) (simp add: release_counted)
  then show ?thesis
    using sz e(2) res by (simp add: ppb_graphics3d_resize_buffers_def with_resource_def acquire_available [OF e(1)])
qed

lemma resize_has_context:
  assumes "has_context w c env others" "0 \<le> x" "0 \<le> y"
  shows "\<exists>w'. ppb_graphics3d_resize_buffers env c x y w = Some (PP_OK, w') \<and> has_context w' c env others"
proof -
  obtain e g3d where e: "available c PP_RESOURCE_GRAPHICS3D w e" "r_payload e = PL_graphics3d g3d"
    "objects w = others + real (owns env g3d)" using assms(1) by (auto simp: has_context_def)
  obtain g3d' w1 where res: "resize_context env x y g3d (w\<lparr>res_tbl := ht_insert c (acquired e) (res_tbl w)\<rparr>) = (g3d', w1)" by fastforce
  let ?e = "e\<lparr>r_payload := PL_graphics3d g3d'\<rparr>"
  let ?w = "w1\<lparr>res_tbl := ht_insert c ?e (res_tbl w)\<rparr>"
  have split: "real (owns env g) = real [(GLXContext, g3_glc g)] + real (drawables env g)" for g
    by (simp add: owns_def drawables_def)
  have "objects ?w = others + real (owns env g3d')"
    using objects_resize(1,2) [OF res] e(3) by (simp add: split)
  moreover have "available c PP_RESOURCE_GRAPHICS3D ?w ?e" using e(1) by (simp add: available_def)
  ultimately show ?thesis
    using resize_available [OF e(1,2) assms(2,3) res] by (auto simp: has_context_def)
qed

lemma resizes_has_context:
  "has_context w c env others \<Longrightarrow> \<forall>(x, y)\<in>set sizes. 0 \<le> x \<and> 0 \<le> y \<Longrightarrow>
    \<exists>w'. resizes env c sizes w = Some w' \<and> has_context w' c env others"
proof (induction sizes arbitrary: w)
  case (Cons s sizes)
  obtain x y where s: "s = (x, y)" by (cases s)
  from resize_has_context [OF Cons.prems(1), of x y] Cons.prems(2) s obtain w1 where
    w1: "ppb_graphics3d_resize_buffers env c x y w = Some (PP_OK, w1)" "has_context w1 c env others" by auto
  from Cons.IH [OF w1(2)] Cons.prems(2) obtain w2 where "resizes env c sizes w1 = Some w2" "has_context w2 c env others" by auto
  with w1(1) show ?case by (auto simp: s)
qed simp

text \<open>What a creation does, the display's answers being what they are.\<close>

definition new_context :: "PP_Instance \<Rightarrow> PP_Resource \<Rightarrow> pp_resource_s" where
  "new_context i r = \<lparr>r_resource_type = PP_RESOURCE_GRAPHICS3D, r_ref_cnt = 1, r_instance = Some i, r_self_id = r, r_locked = False,
     r_payload = zero_payload PP_RESOURCE_GRAPHICS3D\<rparr>"

definition sized_context :: "int \<times> int \<Rightarrow> pp_graphics3d_s" where
  "sized_context sz = \<lparr>g3_glc = 0, g3_fb_config = 0, g3_depth = 0, g3_glx_pixmap = 0, g3_pixmap = (0, 0), g3_xr_pict = (0, 0),
     g3_xr_pictfmt = 0, g3_width = fst sz, g3_height = snd sz, g3_sub_maps = None\<rparr>"

text \<open>The world in which the display is asked.\<close>

definition before_display :: "PP_Instance \<Rightarrow> gl_world \<Rightarrow> gl_world" where
  "before_display i w = w\<lparr>res_tbl_next := res_tbl_next w + 1,
     res_tbl := ht_insert (res_tbl_next w) (acquired (new_context i (res_tbl_next w))) (res_tbl w)\<rparr>"

lemma create_steps:
  assumes inv: "world_inv extR extV w" and room: "0 < res_tbl_next w" "res_tbl_next w < INT_MAX"
    and type: "PP_RESOURCE_GRAPHICS3D \<in> set (destructors_ht w)" and i: "tables_get_pp_instance instance w = Some pp_i"
    and built: "\<not> ga_have_gles2 env" and cfg: "glx_config attrib_list (0, 0) = Some (sz, cfg)"
    and mk: "make_context env (pi_is_transparent pp_i) 0 cfg (sized_context sz) (before_display (pi_id pp_i) w) = (x, w1)"
  shows "ppb_graphics3d_create env instance 0 attrib_list w = Some (case x of
      None \<Rightarrow> (0, w1\<lparr>res_tbl := ht_remove (res_tbl_next w) (ht_insert (res_tbl_next w) (new_context (pi_id pp_i) (res_tbl_next w)) (res_tbl w))\<rparr>)
    | Some g3d \<Rightarrow> (res_tbl_next w, w1\<lparr>res_tbl := ht_insert (res_tbl_next w)
        ((new_context (pi_id pp_i) (res_tbl_next w))\<lparr>r_payload := PL_graphics3d g3d\<rparr>) (res_tbl w)\<rparr>))"
proof -
  let ?r = "res_tbl_next w" and ?i = "pi_id pp_i"
  let ?e = "new_context ?i ?r"
  obtain w0 where w0: "pp_resource_allocate PP_RESOURCE_GRAPHICS3D (Some ?i) w = Some (?r, w0)"
    using pp_resource_allocate_inv [OF inv room type, of "Some ?i"] by blast
  have w0': "w0 = w\<lparr>res_tbl_next := ?r + 1, res_tbl := ht_insert ?r ?e (res_tbl w)\<rparr>"
    using w0 room by (simp add: pp_resource_allocate_def Let_def new_context_def split: if_splits)
  have av: "available ?r PP_RESOURCE_GRAPHICS3D w0 ?e" by (simp add: w0' available_def new_context_def)
  have before: "w0\<lparr>res_tbl := ht_insert ?r (acquired ?e) (res_tbl w0)\<rparr> = before_display ?i w"
    by (simp add: w0' before_display_def new_context_def)
  have t1: "res_tbl w1 = ht_insert ?r (acquired ?e) (res_tbl w)"
    using log_only_frame(1) [OF log_only_make_context [OF mk]] by (simp add: before_display_def new_context_def)
  have rel: "pp_resource_release ?r w1 = Some (w1\<lparr>res_tbl := ht_insert ?r ?e (res_tbl w)\<rparr>)"
    using t1 by (simp add: release_counted new_context_def)
  let ?w2 = "\<lambda>g. res_write ?r (PL_graphics3d g) w1"
  have rel': "pp_resource_release ?r (?w2 g) = Some (w1\<lparr>res_tbl := ht_insert ?r (?e\<lparr>r_payload := PL_graphics3d g\<rparr>) (res_tbl w)\<rparr>)" for g
    using t1 by (simp add: res_write_def release_counted new_context_def)
  have payload: "r_payload (acquired ?e) = PL_graphics3d (sized_context (0, 0))" by (simp add: new_context_def sized_context_def)
  have sizing: "(sized_context (0, 0))\<lparr>g3_width := fst sz, g3_height := snd sz\<rparr> = sized_context sz"
    "g3_width (sized_context (0, 0)) = 0" "g3_height (sized_context (0, 0)) = 0" by (simp_all add: sized_context_def)
  note created = acquire_available [OF av, unfolded before]
  show ?thesis
    using i built w0 created payload cfg mk sizing rel rel'
    by (cases x; cases sz) (simp_all add: ppb_graphics3d_create_def pp_resource_expunge_def)
qed

text \<open>
  C10: A context that could be made, resized any number of times to sizes that are not negative, and then
  destroyed leaves the X server with the objects it had: the context of OpenGL, the two pixmaps, the pixmap
  of GLX and the two pictures are all freed, those of every size on the way too. A creation that answers 0
  leaves the table of resources as it was.
\<close>

theorem gl_objects_given_back:
  assumes inv: "world_inv extR extV w" and room: "0 < res_tbl_next w" "res_tbl_next w < INT_MAX"
    and type: "PP_RESOURCE_GRAPHICS3D \<in> set (destructors_ht w)" and i: "tables_get_pp_instance instance w = Some pp_i"
    and built: "\<not> ga_have_gles2 env" and cfg: "glx_config attrib_list (0, 0) = Some (sz, cfg)"
    and sizes: "\<forall>(x, y)\<in>set sizes. 0 \<le> x \<and> 0 \<le> y"
  shows "\<exists>c w1. ppb_graphics3d_create env instance 0 attrib_list w = Some (c, w1) \<and>
    (c = 0 \<longrightarrow> (\<forall>k. ht_lookup (res_tbl w1) k = ht_lookup (res_tbl w) k)) \<and>
    (c \<noteq> 0 \<longrightarrow> (\<exists>w2 e g3d. resizes env c sizes w1 = Some w2 \<and> ht_lookup (res_tbl w2) c = Some e \<and>
      r_payload e = PL_graphics3d g3d \<and> objects (ppb_graphics3d_destroy env g3d w2) = objects w))"
proof -
  let ?b = "before_display (pi_id pp_i) w" and ?r = "res_tbl_next w"
  obtain x w1 where mk: "make_context env (pi_is_transparent pp_i) 0 cfg (sized_context sz) ?b = (x, w1)" by fastforce
  note steps = create_steps [OF inv room type i built cfg mk]
  have new: "ht_lookup (res_tbl w) ?r = None" using pp_resource_allocate_inv [OF inv room type] by blast
  have b: "objects ?b = objects w" by (simp add: before_display_def objects_def)
  show ?thesis
  proof (cases x)
    case None
    then show ?thesis using steps new by (auto simp: fun_eq_iff)
  next
    case (Some g3d)
    let ?e = "(new_context (pi_id pp_i) ?r)\<lparr>r_payload := PL_graphics3d g3d\<rparr>"
    let ?w = "w1\<lparr>res_tbl := ht_insert ?r ?e (res_tbl w)\<rparr>"
    have "has_context ?w ?r env (objects w)"
      using objects_make_context [OF mk [unfolded Some]] b
      by (simp add: has_context_def available_def new_context_def)
    from resizes_has_context [OF this sizes] obtain w2 where w2: "resizes env ?r sizes ?w = Some w2" "has_context w2 ?r env (objects w)"
      by blast
    from w2(2) obtain e g where "ht_lookup (res_tbl w2) ?r = Some e" "r_payload e = PL_graphics3d g"
      "objects w2 = objects w + real (owns env g)" by (auto simp: has_context_def available_def)
    then have "\<exists>w2 e g3d. resizes env ?r sizes ?w = Some w2 \<and> ht_lookup (res_tbl w2) ?r = Some e \<and>
        r_payload e = PL_graphics3d g3d \<and> objects (ppb_graphics3d_destroy env g3d w2) = objects w"
      using w2(1) by (intro exI [of _ w2] exI [of _ e] exI [of _ g]) (simp add: objects_destroy)
    then show ?thesis using steps Some room by auto
  qed
qed

definition attribs_sample :: "int list" where
  "attribs_sample = [PP_GRAPHICS3DATTRIB_DEPTH_SIZE, 24, PP_GRAPHICS3DATTRIB_WIDTH, 300, PP_GRAPHICS3DATTRIB_HEIGHT, 200, PP_GRAPHICS3DATTRIB_NONE]"

lemma attribs_sample_config: "glx_config attribs_sample (0, 0) = Some ((300, 200), [0x8012, 1, 0x8010, 3, 12, 24, 0])"
  by (simp add: glx_config_def attribs_sample_def glx_attribute_def)

definition gl_started :: gl_world where
  "gl_started = world.extend (started [PP_RESOURCE_GRAPHICS3D]) \<lparr>x_log = [], shader_type_ht = [], shader_source_ht = []\<rparr>"

lemma gl_started_facts [simp]:
  "world_inv {#} {#} gl_started" "res_tbl_next gl_started = 1" "PP_RESOURCE_GRAPHICS3D \<in> set (destructors_ht gl_started)"
  "tables_get_pp_instance 10 gl_started = Some sample_instance" "x_log gl_started = []" "res_tbl gl_started = []"
  "objects gl_started = {#}"
  using started_inv [of "[PP_RESOURCE_GRAPHICS3D]"]
  by (simp_all add: gl_started_def started_def constructors_def tables_add_pp_instance_def tables_get_pp_instance_def world.defs
    world_inv_def var_inv_def res_entries_ok_def entries_ok_def res_entry_ok_def objects_def)

theorem gl_objects_given_back_witness:
  "\<exists>c w1. ppb_graphics3d_create gl_env_sample 10 0 attribs_sample gl_started = Some (c, w1) \<and>
    (c \<noteq> 0 \<longrightarrow> (\<exists>w2 e g3d. resizes gl_env_sample c [(20, 10), (0, 5)] w1 = Some w2 \<and> ht_lookup (res_tbl w2) c = Some e \<and>
      r_payload e = PL_graphics3d g3d \<and> objects (ppb_graphics3d_destroy gl_env_sample g3d w2) = {#}))"
  using gl_objects_given_back [of "{#}" "{#}" gl_started 10 sample_instance gl_env_sample attribs_sample _ _ "[(20, 10), (0, 5)]",
    OF _ _ _ _ _ _ attribs_sample_config]
  by (auto simp: gl_env_sample_def)

text \<open>
  Where GLX cannot make a pixmap, the creation answers 0 and takes the resource out of the table, but
  the context of OpenGL and both pixmaps it has made by then stay on the server: no structure refers to
  them any more.
\<close>

definition refuses_glx_pixmaps :: "gl_env \<Rightarrow> bool" where
  "refuses_glx_pixmaps env \<longleftrightarrow> (\<forall>log cfg p. ga_answer env log (GlXCreatePixmap cfg p) = 0) \<and>
     (\<forall>log l. 0 < ga_answer env log (GlXChooseFBConfig l)) \<and> (\<forall>log c s. 0 < ga_answer env log (GlXCreateNewContext c s)) \<and>
     (\<forall>log x y d. 0 < ga_answer env log (XCreatePixmap x y d)) \<and> ga_default_depth env \<in> {24, 32}"

theorem gl_failed_creation_leaks:
  assumes inv: "world_inv extR extV w" and room: "0 < res_tbl_next w" "res_tbl_next w < INT_MAX"
    and type: "PP_RESOURCE_GRAPHICS3D \<in> set (destructors_ht w)" and i: "tables_get_pp_instance instance w = Some pp_i"
    and built: "\<not> ga_have_gles2 env" and cfg: "glx_config attrib_list (0, 0) = Some (sz, cfg)"
    and refused: "refuses_glx_pixmaps env"
  shows "\<exists>w1 glc p0 p1. ppb_graphics3d_create env instance 0 attrib_list w = Some (0, w1) \<and> glc \<noteq> 0 \<and> p0 \<noteq> 0 \<and> p1 \<noteq> 0 \<and>
    (\<forall>k. ht_lookup (res_tbl w1) k = ht_lookup (res_tbl w) k) \<and>
    objects w1 = objects w + {#(GLXContext, glc), (Pixmap, p0), (Pixmap, p1)#}"
proof -
  let ?b = "before_display (pi_id pp_i) w" and ?r = "res_tbl_next w" and ?tr = "pi_is_transparent pp_i"
  let ?c = "nat (ga_answer env (x_log ?b) (GlXChooseFBConfig cfg))"
  let ?d = "if ?tr then 32 else ga_default_depth env"
  have new: "ht_lookup (res_tbl w) ?r = None" using pp_resource_allocate_inv [OF inv room type] by blast
  obtain glc w1 where 1: "make_glc env ?c 0 (tell env (GlXChooseFBConfig cfg) ?b) = (glc, w1)" by fastforce
  let ?g1 = "(sized_context sz)\<lparr>g3_fb_config := ?c, g3_glc := glc, g3_depth := ?d,
    g3_xr_pictfmt := (if ?d = 24 then ga_pictfmt_rgb24 env else ga_pictfmt_argb32 env)\<rparr>"
  obtain g2 w2 where 2: "make_pixmaps env ?g1 w1 = (g2, w2)" by fastforce
  have glc: "glc \<noteq> 0" using 1 refused by (auto simp: make_glc_def ask_ptr_eq refuses_glx_pixmaps_def split: if_splits prod.splits)
  have pix: "g3_glx_pixmap g2 = 0" "fst (g3_pixmap g2) \<noteq> 0" "snd (g3_pixmap g2) \<noteq> 0"
    using 2 refused by (auto simp: make_pixmaps_def ask_ptr_eq Let_def refuses_glx_pixmaps_def)
  have cfg_ok: "0 < ?c" "?d = 24 \<or> ?d = 32" using refused by (auto simp: refuses_glx_pixmaps_def)
  have mk: "make_context env ?tr 0 cfg (sized_context sz) ?b = (None, w2)"
    using 1 2 glc pix(1) cfg_ok by (auto simp: make_context_def ask_ptr_eq Let_def)
  have "objects w2 = objects w + {#(GLXContext, glc), (Pixmap, fst (g3_pixmap g2)), (Pixmap, snd (g3_pixmap g2))#}"
    using objects_make_glc [OF 1] objects_make_pixmaps(1) [OF 2] glc pix by (simp add: before_display_def objects_def)
  then show ?thesis
    using create_steps [OF inv room type i built cfg mk] glc pix(2,3) new
    by (intro exI [of _ "w2\<lparr>res_tbl := ht_remove ?r (ht_insert ?r (new_context (pi_id pp_i) ?r) (res_tbl w))\<rparr>"]
      exI [of _ glc] exI [of _ "fst (g3_pixmap g2)"] exI [of _ "snd (g3_pixmap g2)"]) simp
qed

definition refusing_env :: gl_env where
  "refusing_env = gl_env_sample\<lparr>ga_answer := \<lambda>log r. case r of GlXCreatePixmap c p \<Rightarrow> 0 | _ \<Rightarrow> int (length log) + 100\<rparr>"

theorem gl_failed_creation_leaks_witness:
  "\<exists>w1 glc p0 p1. ppb_graphics3d_create refusing_env 10 0 attribs_sample gl_started = Some (0, w1) \<and> glc \<noteq> 0 \<and>
    objects w1 = {#(GLXContext, glc), (Pixmap, p0), (Pixmap, p1)#}"
proof -
  have "refuses_glx_pixmaps refusing_env" by (auto simp: refuses_glx_pixmaps_def refusing_env_def gl_env_sample_def)
  from gl_failed_creation_leaks [of "{#}" "{#}" gl_started 10 sample_instance refusing_env attribs_sample, OF _ _ _ _ _ _ attribs_sample_config this]
  show ?thesis by (auto simp: refusing_env_def gl_env_sample_def)
qed

text \<open>
  A resize does not make nothing current again: when it returns, OpenGL's context of that resource is
  still current on the thread (every function of \<^verbatim>\<open>ppb_opengles2.c\<close> leaves none).
\<close>

theorem gl_resize_stays_current:
  assumes "available c PP_RESOURCE_GRAPHICS3D w e" "r_payload e = PL_graphics3d g3d" and "makes_current env" and "0 \<le> x" "0 \<le> y"
  shows "\<exists>w'. ppb_graphics3d_resize_buffers env c x y w = Some (PP_OK, w') \<and> current_after 0 (x_log w') = g3_glc g3d"
proof -
  obtain g3d' w1 where res: "resize_context env x y g3d (w\<lparr>res_tbl := ht_insert c (acquired e) (res_tbl w)\<rparr>) = (g3d', w1)" by fastforce
  show ?thesis
    using resize_available [OF assms(1,2,4,5) res] objects_resize(3) [OF res assms(3)] by auto
qed

theorem gl_resize_stays_current_witness:
  "\<exists>w'. ppb_graphics3d_resize_buffers gl_env_sample 1 30 20 gl_sample = Some (PP_OK, w') \<and> current_after 0 (x_log w') = 20"
  using gl_resize_stays_current [OF gl_sample_contexts(1,3) env_sample_makes_current, of 30 20]
  by (simp add: context_sample_def)

section \<open>Attributes\<close>

definition known_attribute :: "int \<Rightarrow> bool" where
  "known_attribute a \<longleftrightarrow> a \<in> {PP_GRAPHICS3DATTRIB_HEIGHT, PP_GRAPHICS3DATTRIB_WIDTH, PP_GRAPHICS3DATTRIB_GPU_PREFERENCE,
     PP_GRAPHICS3DATTRIB_SWAP_BEHAVIOR} \<or> glx_attribute a \<noteq> None"

definition flat :: "(int \<times> int) list \<Rightarrow> int list" where
  "flat ps = concat (map (\<lambda>(a, v). [a, v]) ps)"

fun size_after :: "int \<times> int \<Rightarrow> (int \<times> int) list \<Rightarrow> int \<times> int" where
  "size_after sz [] = sz"
| "size_after sz ((a, v) # ps) = size_after (if a = PP_GRAPHICS3DATTRIB_HEIGHT then (fst sz, v)
     else if a = PP_GRAPHICS3DATTRIB_WIDTH then (v, snd sz) else sz) ps"

definition for_glx :: "(int \<times> int) list \<Rightarrow> (int \<times> int) list" where
  "for_glx ps = List.map_filter (\<lambda>(a, v). map_option (\<lambda>x. (x, v)) (glx_attribute a)) ps"

lemma glx_attribute_others [simp]:
  "glx_attribute PP_GRAPHICS3DATTRIB_NONE = None" "glx_attribute PP_GRAPHICS3DATTRIB_HEIGHT = None"
  "glx_attribute PP_GRAPHICS3DATTRIB_WIDTH = None" "glx_attribute PP_GRAPHICS3DATTRIB_GPU_PREFERENCE = None"
  "glx_attribute PP_GRAPHICS3DATTRIB_SWAP_BEHAVIOR = None"
  by (simp_all add: glx_attribute_def)

lemma attrib_length_flat:
  "\<forall>(a, v)\<in>set ps. a \<noteq> PP_GRAPHICS3DATTRIB_NONE \<Longrightarrow>
    attrib_length (flat ps @ [PP_GRAPHICS3DATTRIB_NONE]) = Some (2 * length ps + 1)"
  by (induction ps) (auto simp: flat_def)

lemma read_attribs_flat:
  "\<forall>(a, v)\<in>set ps. known_attribute a \<Longrightarrow>
    read_attribs (flat ps @ [PP_GRAPHICS3DATTRIB_NONE]) sz = Some (size_after sz ps, flat (for_glx ps) @ [0])"
proof (induction ps arbitrary: sz)
  case (Cons p ps)
  obtain a v where p: "p = (a, v)" by (cases p)
  have "known_attribute a" using Cons.prems p by simp
  moreover have "\<And>sz. read_attribs (flat ps @ [PP_GRAPHICS3DATTRIB_NONE]) sz = Some (size_after sz ps, flat (for_glx ps) @ [0])"
    using Cons by simp
  ultimately show ?case
    by (cases sz) (auto simp: p flat_def for_glx_def List.map_filter_simps known_attribute_def)
qed (simp add: flat_def for_glx_def List.map_filter_simps)

text \<open>
  A list of attributes the program knows is read to its end and no further: the size is that of the
  last width and the last height, and GLX is given, after its two leading pairs and in the same order, the
  attributes it has a number for, in a list that fits the block allocated for it.
\<close>

theorem gl_attributes_read:
  assumes "\<forall>(a, v)\<in>set ps. known_attribute a"
  shows "glx_config (flat ps @ [PP_GRAPHICS3DATTRIB_NONE]) sz =
    Some (size_after sz ps, [0x8012, 1, 0x8010, 3] @ flat (for_glx ps) @ [0])"
proof -
  have "\<forall>(a, v)\<in>set ps. a \<noteq> PP_GRAPHICS3DATTRIB_NONE" using assms by (auto simp: known_attribute_def)
  note len = attrib_length_flat [OF this]
  have "length (flat (for_glx qs)) \<le> 2 * length qs" for qs
    by (induction qs) (auto simp: flat_def for_glx_def List.map_filter_simps split: option.split)
  from this [of ps] show ?thesis by (simp add: glx_config_def len read_attribs_flat [OF assms])
qed

theorem gl_attributes_read_witness:
  "glx_config (flat [(PP_GRAPHICS3DATTRIB_WIDTH, 300), (PP_GRAPHICS3DATTRIB_RED_SIZE, 8), (PP_GRAPHICS3DATTRIB_HEIGHT, 200)] @
      [PP_GRAPHICS3DATTRIB_NONE]) (0, 0) = Some ((300, 200), [0x8012, 1, 0x8010, 3, 8, 8, 0])"
  using gl_attributes_read [of "[(PP_GRAPHICS3DATTRIB_WIDTH, 300), (PP_GRAPHICS3DATTRIB_RED_SIZE, 8), (PP_GRAPHICS3DATTRIB_HEIGHT, 200)]" "(0, 0)"]
  by (simp add: known_attribute_def glx_attribute_def for_glx_def List.map_filter_simps flat_def)

text \<open>
  An attribute the program does not know is skipped without its value, so the value is taken for an
  attribute: where it has the number of a known one, the terminator of the list is read as that one's value
  and reading goes on past the end of the list.
\<close>

theorem gl_unknown_attribute_overreads:
  assumes "\<forall>(a, v)\<in>set ps. known_attribute a" and "\<not> known_attribute a" "a \<noteq> PP_GRAPHICS3DATTRIB_NONE" and "known_attribute v"
  shows "glx_config (flat (ps @ [(a, v)]) @ [PP_GRAPHICS3DATTRIB_NONE]) sz = None"
proof -
  have end_: "read_attribs [a, v, PP_GRAPHICS3DATTRIB_NONE] sz = None" for sz
    using assms(2-4) by (auto simp: known_attribute_def)
  have "read_attribs (flat qs @ [a, v, PP_GRAPHICS3DATTRIB_NONE]) sz = None" if "\<forall>(a, v)\<in>set qs. known_attribute a" for qs sz
    using that
  proof (induction qs arbitrary: sz)
    case Nil
    then show ?case using end_ by (simp add: flat_def del: read_attribs.simps)
  next
    case (Cons q qs)
    obtain b u where q: "q = (b, u)" by (cases q)
    have "known_attribute b" using Cons.prems q by simp
    moreover have "\<And>sz. read_attribs (flat qs @ [a, v, PP_GRAPHICS3DATTRIB_NONE]) sz = None" using Cons by simp
    ultimately show ?case by (cases sz) (auto simp: q flat_def known_attribute_def)
  qed
  from this [OF assms(1)] show ?thesis by (cases "attrib_length (flat (ps @ [(a, v)]) @ [PP_GRAPHICS3DATTRIB_NONE])") (simp_all add: glx_config_def flat_def)
qed

theorem gl_unknown_attribute_overreads_witness:
  "glx_config [PP_GRAPHICS3DATTRIB_WIDTH, 300, 0x3099, PP_GRAPHICS3DATTRIB_DEPTH_SIZE, PP_GRAPHICS3DATTRIB_NONE] (0, 0) = None"
  using gl_unknown_attribute_overreads [where ps = "[(PP_GRAPHICS3DATTRIB_WIDTH, 300)]" and a = "0x3099" and v = PP_GRAPHICS3DATTRIB_DEPTH_SIZE and sz = "(0, 0)"]
  by (simp add: known_attribute_def glx_attribute_def flat_def)

section \<open>Shaders\<close>

lemma beside_table_I:
  assumes "\<And>w t. f (w\<lparr>res_tbl := t\<rparr>) = map_option (\<lambda>(r, w). (r, w\<lparr>res_tbl := t\<rparr>)) (f w)"
    and "\<And>w r w'. f w = Some (r, w') \<Longrightarrow> res_tbl w' = res_tbl w"
  shows "beside_table f"
  using assms by (simp add: beside_table_def)

lemma is_context_same: "res_tbl w' = res_tbl w \<Longrightarrow> is_context w' = is_context w"
  by (simp add: fun_eq_iff is_context_def available_def)

text \<open>What each of the three functions does with a context, built with the translator.\<close>

lemma ShaderSource_available:
  assumes "is_context w c" "\<not> ga_have_gles2 env" "combine_shader_source_parts parts lens = Some body"
  shows "\<exists>w'. ppb_opengles2_ShaderSource env c shader (p, parts) (q, lens) w = Some w' \<and> res_tbl w' = res_tbl w \<and>
    shader_source_ht w' = ht_insert shader body (shader_source_ht w) \<and> shader_type_ht w' = shader_type_ht w"
proof -
  obtain e g3d where e: "available c PP_RESOURCE_GRAPHICS3D w e" "r_payload e = PL_graphics3d g3d"
    using assms(1) by (auto simp: is_context_def)
  let ?f = "\<lambda>(_ :: pp_graphics3d_s) w. if ga_have_gles2 env
      then Some ((), tell env (Gl \<lparr>gl_name = ''glShaderSource'', gl_args = [GE shader, GI (int (length parts)), GP p, GP q]\<rparr>) w)
      else do {
        let type = (case ht_lookup (shader_type_ht w) shader of None \<Rightarrow> 0 | Some t \<Rightarrow> t);
        body \<leftarrow> combine_shader_source_parts parts lens;
        let w = w\<lparr>shader_source_ht := ht_insert shader body (shader_source_ht w)\<rparr>;
        Some ((), tell env (GlShaderSource shader (ga_translate env type (c_str body))) w)
      }"
  have "beside_table (?f g3d)"
    using assms(2,3) by (intro beside_table_I) (auto simp: Let_def tell_def ask_def)
  note step = with_context_available [where body = ?f, OF e this]
  show ?thesis
    using assms(2,3) step by (auto simp: ppb_opengles2_ShaderSource_def Let_def)
qed

lemma GetShader_available:
  assumes "is_context w d" "\<not> ga_have_gles2 env" "params \<noteq> 0" "len \<noteq> 0"
  shows "\<exists>w'. ppb_opengles2_GetShaderiv env d shader 0x8B88 params w =
      Some (Some (case ht_lookup (shader_source_ht w) shader of None \<Rightarrow> 0 | Some s \<Rightarrow> int (length (c_str s))), w')"
    "copy_source (ht_lookup (shader_source_ht w) shader) bufsize = Some (l, bytes) \<Longrightarrow>
     \<exists>w'. ppb_opengles2_GetShaderSource env d shader bufsize len source w = Some ((Some l, bytes), w')"
proof -
  obtain e g3d where e: "available d PP_RESOURCE_GRAPHICS3D w e" "r_payload e = PL_graphics3d g3d"
    using assms(1) by (auto simp: is_context_def)
  let ?f = "\<lambda>(_ :: pp_graphics3d_s) w. if \<not> ga_have_gles2 env \<and> (0x8B88 :: u32) = 0x8B88
      then Some (if params = 0 then None
                 else Some (case ht_lookup (shader_source_ht w) shader of None \<Rightarrow> 0 | Some s \<Rightarrow> int (length (c_str s))), w)
      else Some (None, tell env (Gl \<lparr>gl_name = ''glGetShaderiv'', gl_args = [GE shader, GE 0x8B88, GP params]\<rparr>) w)"
  have "beside_table (?f g3d)" using assms(2) by (intro beside_table_I) auto
  note step = with_context_available [where body = ?f, OF e this]
  show "\<exists>w'. ppb_opengles2_GetShaderiv env d shader 0x8B88 params w =
      Some (Some (case ht_lookup (shader_source_ht w) shader of None \<Rightarrow> 0 | Some s \<Rightarrow> int (length (c_str s))), w')"
    using assms(2,3) step by (simp add: ppb_opengles2_GetShaderiv_def)
  assume copied: "copy_source (ht_lookup (shader_source_ht w) shader) bufsize = Some (l, bytes)"
  let ?g = "\<lambda>(_ :: pp_graphics3d_s) w. if ga_have_gles2 env
      then Some ((None, None), tell env (Gl \<lparr>gl_name = ''glGetShaderSource'', gl_args = [GE shader, GI bufsize, GP len, GP source]\<rparr>) w)
      else do {
        (l, bytes) \<leftarrow> copy_source (ht_lookup (shader_source_ht w) shader) bufsize;
        Some ((if len = 0 then None else Some l, bytes), w)
      }"
  have "beside_table (?g g3d)"
    using assms(2) by (intro beside_table_I) (auto split: bind_splits option.splits)
  note step = with_context_available [where body = ?g, OF e this]
  show "\<exists>w'. ppb_opengles2_GetShaderSource env d shader bufsize len source w = Some ((Some l, bytes), w')"
    using assms(2,4) copied step by (simp add: ppb_opengles2_GetShaderSource_def)
qed

text \<open>
  C20: The source given to a shader is read back from its table: its length is the source's without a
  terminator, and a buffer of \<open>n\<close> bytes gets its first \<open>n - 1\<close> characters and a terminator, so a program that
  asks for the length and gives a buffer of that size loses the last character. The context does not matter:
  another context that has a shader of that number gets this source.
\<close>

theorem shader_source_roundtrip:
  assumes "is_context w c" "is_context w d" "\<not> ga_have_gles2 env"
    and "combine_shader_source_parts parts lens = Some body" and "params \<noteq> 0" "len \<noteq> 0" "1 \<le> n"
  shows "\<exists>w' w1 w2. ppb_opengles2_ShaderSource env c shader (p, parts) (q, lens) w = Some w' \<and>
    ppb_opengles2_GetShaderiv env d shader 0x8B88 params w' = Some (Some (int (length (c_str body))), w1) \<and>
    ppb_opengles2_GetShaderSource env d shader n len source w' =
      Some ((Some (min (int (length (c_str body))) (n - 1)), Some (take (nat (n - 1)) (c_str body) @ [NUL])), w2)"
proof -
  obtain w' where w': "ppb_opengles2_ShaderSource env c shader (p, parts) (q, lens) w = Some w'" "res_tbl w' = res_tbl w"
    "shader_source_ht w' = ht_insert shader body (shader_source_ht w)"
    using ShaderSource_available [OF assms(1,3,4)] by blast
  have d: "is_context w' d" using assms(2) is_context_same [OF w'(2)] by simp
  have "copy_source (ht_lookup (shader_source_ht w') shader) n =
      Some (min (int (length (c_str body))) (n - 1), Some (take (nat (n - 1)) (c_str body) @ [NUL]))"
    using assms(7) by (simp add: copy_source_def w'(3) Let_def)
  from GetShader_available(2) [OF d assms(3,5,6) this] GetShader_available(1) [OF d assms(3,5,6), of shader]
  show ?thesis using w'(1) by (auto simp: w'(3))
qed

theorem shader_source_roundtrip_witness:
  "\<exists>w' w1 w2. ppb_opengles2_ShaderSource gl_env_sample 1 3 (9, [''ab'', ''cde'']) (8, Some [- 1, 2]) gl_sample = Some w' \<and>
    ppb_opengles2_GetShaderiv gl_env_sample 2 3 0x8B88 5 w' = Some (Some 4, w1) \<and>
    ppb_opengles2_GetShaderSource gl_env_sample 2 3 4 6 7 w' = Some ((Some 3, Some ([CHR ''a'', CHR ''b'', CHR ''c'', NUL])), w2)"
  using shader_source_roundtrip [of gl_sample 1 2 gl_env_sample "[''ab'', ''cde'']" "Some [- 1, 2]" "''abcd''" 5 6 4 3 9 8 7]
  by (simp add: gl_env_sample_def c_str_def NUL_def)

section \<open>Mapped textures\<close>

definition upload :: "tex_sub_mapping_param_s \<Rightarrow> ptr \<Rightarrow> gl_command" where
  "upload p m = \<lparr>gl_name = ''glTexSubImage2D'', gl_args = [GE 0x0DE1, GI (tm_level p), GI (tm_xoffset p), GI (tm_yoffset p),
     GI (tm_width p), GI (tm_height p), GE (tm_format p), GE (tm_type p), GP m]\<rparr>"

definition map_size :: "tex_sub_mapping_param_s \<Rightarrow> int" where
  "map_size p = tm_width p * tm_height p * (if tm_format p = 0x1907 then 3 else 4)"

text \<open>
  C19: A texture that is mapped and unmapped is uploaded once, from the block the plugin was given and with
  the rectangle, format and type it was mapped with, then the block is freed, no context is current, and the
  table of resources is what it was.
\<close>

theorem texture_map_unmap:
  assumes e: "available c PP_RESOURCE_GRAPHICS3D w e" "r_payload e = PL_graphics3d g3d" "g3_sub_maps g3d = Some maps"
    and p: "tm_level p = 0" "tm_access p = 0x88B9" "0 \<le> tm_width p" "0 \<le> tm_height p" "map_size p \<le> INT_MAX"
    and m: "ga_answer env (x_log w) (Malloc (map_size p)) = int m" "ht_lookup maps m = None"
  shows "\<exists>w1 w2. ppb_opengles2_chromium_map_sub_map_tex_sub_image_2d_chromium env c 0x0DE1 p w = Some (m, w1) \<and>
    ppb_opengles2_chromium_map_sub_unmap_tex_sub_image_2d_chromium env c m w1 = Some w2 \<and> res_tbl w2 = res_tbl w \<and>
    map fst (x_log w2) = map fst (x_log w) @ [Malloc (map_size p), GlXMakeCurrent (g3_glx_pixmap g3d) (g3_glc g3d),
      Gl (upload p m), Free m, GlXMakeCurrent 0 0]"
proof -
  have look: "ht_lookup (res_tbl w) c = Some e" "\<not> r_locked e" "0 < r_ref_cnt e" using e(1) by (simp_all add: available_def)
  let ?b = "if tm_format p = 0x1907 then 3 else 4 :: int"
  have nn: "0 \<le> tm_width p * tm_height p" using p(3,4) by simp
  have small: "tm_width p * tm_height p \<le> INT_MAX" using p(5) nn by (auto simp: map_size_def split: if_splits)
  have eq: "tm_width p * tm_height p * ?b = map_size p" by (simp only: map_size_def)
  have "0 \<le> map_size p" using nn by (simp add: map_size_def)
  then have mult: "int_mult (tm_width p) (tm_height p) = Some (tm_width p * tm_height p)" "int_mult (tm_width p * tm_height p) ?b = Some (map_size p)"
    using nn small p(5) unfolding int_mult_def eq by simp_all
  let ?g = "g3d\<lparr>g3_sub_maps := Some (ht_insert m p maps)\<rparr>"
  let ?e1 = "e\<lparr>r_payload := PL_graphics3d ?g\<rparr>"
  let ?w1 = "(tell env (Malloc (map_size p)) w)\<lparr>res_tbl := ht_insert c ?e1 (res_tbl w)\<rparr>"
  have map: "ppb_opengles2_chromium_map_sub_map_tex_sub_image_2d_chromium env c 0x0DE1 p w = Some (m, ?w1)"
    using look e(2,3) p(1,2) m(1) mult
    by (cases e) (simp add: ppb_opengles2_chromium_map_sub_map_tex_sub_image_2d_chromium_def with_resource_def acquire_available [OF e(1)]
      ask_ptr_eq res_write_def release_counted Let_def)
  have av1: "available c PP_RESOURCE_GRAPHICS3D ?w1 ?e1" using e(1) by (simp add: available_def)
  have unmapped: "ht_remove m (ht_insert m p maps) = maps" using m(2) by (simp add: ht_remove_absent)
  have g: "g3d\<lparr>g3_sub_maps := Some maps\<rparr> = g3d" using e(3) by (cases g3d) simp
  have e1: "e\<lparr>r_payload := PL_graphics3d g3d\<rparr> = e" using e(2) by (cases e) simp
  let ?w2 = "tell_all env [GlXMakeCurrent (g3_glx_pixmap g3d) (g3_glc g3d), Gl (upload p m), Free m, GlXMakeCurrent 0 0]
    (tell env (Malloc (map_size p)) w)"
  have "ppb_opengles2_chromium_map_sub_unmap_tex_sub_image_2d_chromium env c m ?w1 = Some (?w2\<lparr>res_tbl := ht_insert c e (res_tbl w)\<rparr>)"
    using look e(2,3) unmapped
    by (simp add: g e1 ppb_opengles2_chromium_map_sub_unmap_tex_sub_image_2d_chromium_def with_context_def with_resource_def
      acquire_available [OF av1] res_write_def release_counted Let_def upload_def)
  moreover have "ht_insert c e (res_tbl w) = res_tbl w" using look(1) by (simp add: ht_insert_same)
  ultimately show ?thesis using map by (intro exI [of _ ?w1] exI [of _ "?w2\<lparr>res_tbl := res_tbl w\<rparr>"]) simp
qed

definition mapping_sample :: tex_sub_mapping_param_s where
  "mapping_sample = \<lparr>tm_level = 0, tm_xoffset = 1, tm_yoffset = 2, tm_width = 3, tm_height = 2, tm_format = 0x1908, tm_type = 0x1401, tm_access = 0x88B9\<rparr>"

theorem texture_map_unmap_witness:
  "\<exists>w1 w2. ppb_opengles2_chromium_map_sub_map_tex_sub_image_2d_chromium gl_env_sample 1 0x0DE1 mapping_sample gl_sample = Some (100, w1) \<and>
    ppb_opengles2_chromium_map_sub_unmap_tex_sub_image_2d_chromium gl_env_sample 1 100 w1 = Some w2 \<and>
    Gl (upload mapping_sample 100) \<in> set (map fst (x_log w2))"
  using texture_map_unmap [OF gl_sample_contexts(1,3), of "[]" mapping_sample gl_env_sample 100]
  by (fastforce simp: context_sample_def mapping_sample_def map_size_def gl_env_sample_def)

end
