(* ===== verification/Video_Capture.thy ===== *)
theory Video_Capture
  imports Plain_Resources Small_Resources Posting
begin

text \<open>
  \<^verbatim>\<open>ppb_video_capture.c\<close>: cameras. A thread of its own reads frames into buffers and tells the plugin
  which buffer holds one; the plugin gives the buffer back with \<^verbatim>\<open>ppb_video_capture_reuse_buffer\<close>. Between two
  of the places where the thread waits it runs with the resource acquired: each such stretch is a step
  (\<open>thread_step\<close>), and other threads act in between.

  Video4Linux is outside: what it answers is a parameter. The calls of the plugin's own interface are
  recorded.
\<close>

section \<open>State\<close>

record PP_VideoCaptureDeviceInfo_Dev =
  di_width :: u32
  di_height :: u32
  di_frames_per_second :: u32

datatype vc_plugin_call =
    OnDeviceInfo PP_Instance PP_Resource PP_VideoCaptureDeviceInfo_Dev u32 "PP_Resource list"
  | OnStatus PP_Instance PP_Resource int
  | OnBufferReady PP_Instance PP_Resource u32

record on_buffer_ready_param_s =
  br_instance :: PP_Instance
  br_video_capture :: PP_Resource
  br_buf_idx :: u32

text \<open>
  Where the thread is: started; about to acquire the resource, perhaps with a buffer it has just
  filled; reading a frame from a descriptor, of a size, into a buffer; or gone.
\<close>

datatype capture_thread = Created | Acquiring int nat "u32 option" | Reading int nat u32 PP_Resource | Gone

text \<open>\<open>vc_opened\<close> are the descriptors opened here, latest first.\<close>

record vc_world = world +
  vc_opened :: "int list"
  vc_calls :: "vc_plugin_call list"
  vc_params :: "(ptr, on_buffer_ready_param_s) hash_table"
  vc_next_param :: ptr
  vc_thread :: "(PP_Resource, capture_thread) hash_table"

text \<open>
  \<open>ve_open\<close> gives the descriptor or a negative number, \<open>ve_querycap\<close> the capabilities, those of the
  device and its name, \<open>ve_set_format\<close> what becomes of a size, and the bytes of an image;
  \<open>ve_entries\<close> are the names in \<^verbatim>\<open>/dev\<close>.
\<close>

record vc_env =
  ve_has_interface :: bool
  ve_probe_devices :: bool
  ve_entries :: "string list option"
  ve_open :: "string \<Rightarrow> vc_world \<Rightarrow> int"
  ve_querycap :: "int \<Rightarrow> (u32 \<times> u32 \<times> string) option"
  ve_set_format :: "int \<Rightarrow> u32 \<times> u32 \<Rightarrow> (u32 \<times> u32 \<times> u32) option"
  ve_can_alloc :: "nat \<Rightarrow> bool"

fun the_video_capture :: "payload \<Rightarrow> pp_video_capture_s option" where
  "the_video_capture (PL_video_capture vc) = Some vc"
| "the_video_capture _ = None"

definition v4l2_open :: "vc_env \<Rightarrow> string \<Rightarrow> vc_world \<Rightarrow> int \<times> vc_world" where
  "v4l2_open env dev w =
     (let fd = ve_open env dev w in (fd, if fd < 0 then w else w\<lparr>vc_opened := fd # vc_opened w\<rparr>))"

definition v4l2_close :: "int \<Rightarrow> vc_world \<Rightarrow> vc_world" where
  "v4l2_close fd w = w\<lparr>closed_fds := fd # closed_fds w\<rparr>"

definition call_plugin :: "vc_plugin_call \<Rightarrow> vc_world \<Rightarrow> vc_world" where
  "call_plugin c w = w\<lparr>vc_calls := vc_calls w @ [c]\<rparr>"

section \<open>Creation and destruction\<close>

definition ppb_video_capture_create :: "vc_env \<Rightarrow> PP_Instance \<Rightarrow> vc_world \<Rightarrow> (PP_Resource \<times> vc_world) option" where
  "ppb_video_capture_create env instance w =
     (case tables_get_pp_instance instance w of
        None \<Rightarrow> Some (0, w)
      | Some pp_i \<Rightarrow>
          if \<not> ve_has_interface env then Some (0, w)
          else do {
            (video_capture, w) \<leftarrow> pp_resource_allocate PP_RESOURCE_VIDEO_CAPTURE (Some (pi_id pp_i)) w;
            with_resource video_capture PP_RESOURCE_VIDEO_CAPTURE 0
              (\<lambda>gr w. do {
                 vc \<leftarrow> the_video_capture (r_payload gr);
                 Some (video_capture, res_write video_capture (PL_video_capture (vc\<lparr>vc_fd := - 1\<rparr>)) w)
               }) w
          })"

fun release_buffers :: "PP_Resource list \<Rightarrow> 'a world_scheme \<Rightarrow> 'a world_scheme option" where
  "release_buffers [] w = Some w"
| "release_buffers (b # bs) w = Option.bind (ppb_core_release_resource b w) (release_buffers bs)"

text \<open>What the destructor does to a structure; the loop runs over \<^verbatim>\<open>buffer_count\<close> buffers.\<close>

definition ppb_video_capture_destroy :: "pp_video_capture_s \<Rightarrow> vc_world \<Rightarrow> (pp_video_capture_s \<times> vc_world) option" where
  "ppb_video_capture_destroy vc w = do {
     let w = (if vc_fd vc \<noteq> - 1 then v4l2_close (vc_fd vc) w else w);
     w \<leftarrow> (case vc_buffers vc of
        None \<Rightarrow> Some w
      | Some bs \<Rightarrow> if unat (vc_buffer_count vc) \<le> length bs then release_buffers (take (unat (vc_buffer_count vc)) bs) w else None);
     Some (vc\<lparr>vc_fd := - 1, vc_buffers := None, vc_buffer_is_free := None\<rparr>, w)
   }"

definition ppb_video_capture_is_video_capture :: "PP_Resource \<Rightarrow> 'a res_state_scheme \<Rightarrow> bool" where
  "ppb_video_capture_is_video_capture video_capture w \<longleftrightarrow> pp_resource_get_type video_capture w = PP_RESOURCE_VIDEO_CAPTURE"

section \<open>Devices\<close>

abbreviation (input) V4L2_CAP_VIDEO_CAPTURE :: u32 where "V4L2_CAP_VIDEO_CAPTURE \<equiv> 0x1"
abbreviation (input) V4L2_CAP_READWRITE :: u32 where "V4L2_CAP_READWRITE \<equiv> 0x01000000"
abbreviation (input) V4L2_CAP_DEVICE_CAPS :: u32 where "V4L2_CAP_DEVICE_CAPS \<equiv> 0x80000000"
abbreviation (input) PP_DEVICETYPE_DEV_VIDEOCAPTURE :: int where "PP_DEVICETYPE_DEV_VIDEOCAPTURE \<equiv> 2"

definition default_capture_device :: string where "default_capture_device = ''/dev/video0''"

unbundle bit_operations_syntax

text \<open>Devices that can capture and be read; a device may tell its own capabilities.\<close>

definition can_capture :: "u32 \<Rightarrow> u32 \<Rightarrow> bool" where
  "can_capture capabilities device_caps =
     (let caps = (if capabilities AND V4L2_CAP_DEVICE_CAPS \<noteq> 0 then device_caps else capabilities)
      in caps AND V4L2_CAP_VIDEO_CAPTURE \<noteq> 0 \<and> caps AND V4L2_CAP_READWRITE \<noteq> 0)"

definition video_device_is_usable :: "vc_env \<Rightarrow> string \<Rightarrow> vc_world \<Rightarrow> string option \<times> vc_world" where
  "video_device_is_usable env dev w =
     (if \<not> ve_probe_devices env then (Some ''Unknown'', w)
      else case v4l2_open env dev w of (fd, w) \<Rightarrow>
        if fd < 0 then (None, w)
        else ((case ve_querycap env fd of
           None \<Rightarrow> None
         | Some (caps, device_caps, nam) \<Rightarrow> if can_capture caps device_caps then Some nam else None), v4l2_close fd w))"

fun find_devices :: "vc_env \<Rightarrow> PP_Instance \<Rightarrow> string list \<Rightarrow> vc_world \<Rightarrow> (PP_Resource list \<times> vc_world) option" where
  "find_devices env instance [] w = Some ([], w)"
| "find_devices env instance (d_name # names) w =
     (if take 5 d_name \<noteq> ''video'' then find_devices env instance names w
      else let fullpath = ''/dev/'' @ d_name in
        (case video_device_is_usable env fullpath w of
           (None, w) \<Rightarrow> find_devices env instance names w
         | (Some shortname, w) \<Rightarrow> do {
             (v_shortname, w) \<leftarrow> ppb_var_var_from_utf8_z (Some shortname) w;
             (v_fullpath, w) \<leftarrow> ppb_var_var_from_utf8_z (Some fullpath) w;
             (device, w) \<leftarrow> ppb_device_ref_create instance v_shortname v_fullpath PP_DEVICETYPE_DEV_VIDEOCAPTURE w;
             w \<leftarrow> ppb_var_release v_shortname w;
             w \<leftarrow> ppb_var_release v_fullpath w;
             (devices, w) \<leftarrow> find_devices env instance names w;
             Some (device # devices, w)
           }))"

text \<open>\<open>GetDataBuffer\<close> tells whether the plugin has room for so many; beside the code, what is written there.\<close>

definition ppb_video_capture_enumerate_devices ::
  "vc_env \<Rightarrow> timespec \<Rightarrow> PP_Resource \<Rightarrow> (nat \<Rightarrow> bool) \<Rightarrow> PP_CompletionCallback \<Rightarrow> vc_world \<Rightarrow>
   ((int \<times> PP_Resource list option) \<times> vc_world) option" where
  "ppb_video_capture_enumerate_devices env now video_capture GetDataBuffer callback w =
     with_resource video_capture PP_RESOURCE_VIDEO_CAPTURE (PP_ERROR_BADRESOURCE, None)
       (\<lambda>gr w. do {
          i \<leftarrow> r_instance gr;
          (vc_devices, w) \<leftarrow> (case ve_entries env of None \<Rightarrow> Some ([], w) | Some namelist \<Rightarrow> find_devices env i namelist w);
          (if \<not> GetDataBuffer (length vc_devices) then do {
             w \<leftarrow> release_buffers vc_devices w;
             Some ((PP_ERROR_FAILED, None), w)
           }
           else do {
             (_, w) \<leftarrow> ppb_message_loop_post_work_with_result now (ppb_message_loop_get_current w) callback 0 PP_OK 0 w;
             Some ((PP_OK_COMPLETIONPENDING, Some vc_devices), w)
           })
        }) w"

definition ppb_video_capture_monitor_device_change :: "PP_Resource \<Rightarrow> int" where
  "ppb_video_capture_monitor_device_change video_capture = 0"

section \<open>Opening\<close>

text \<open>One buffer after the other; where one cannot be made the rest of the array stays zero.\<close>

fun make_buffers :: "PP_Instance \<Rightarrow> u32 \<Rightarrow> nat \<Rightarrow> 'a world_scheme \<Rightarrow> ((bool \<times> PP_Resource list) \<times> 'a world_scheme) option" where
  "make_buffers instance sz 0 w = Some ((True, []), w)"
| "make_buffers instance sz (Suc n) w = do {
     (b, w) \<leftarrow> ppb_buffer_create instance sz w;
     (if b = 0 then Some ((False, replicate (Suc n) 0), w)
      else do {
        ((ok, bs), w) \<leftarrow> make_buffers instance sz n w;
        Some ((ok, b # bs), w)
      })
   }"

text \<open>The exit at \<^verbatim>\<open>point_2\<close>.\<close>

definition give_up_device :: "pp_video_capture_s \<Rightarrow> vc_world \<Rightarrow> int \<times> pp_video_capture_s \<times> vc_world" where
  "give_up_device vc w = (PP_ERROR_FAILED, vc\<lparr>vc_fd := - 1\<rparr>, v4l2_close (vc_fd vc) w)"

text \<open>The buffers, once the format is agreed upon; what was in the structure before is overwritten.\<close>

definition open_buffers ::
  "vc_env \<Rightarrow> PP_Instance \<Rightarrow> PP_Resource \<Rightarrow> u32 \<Rightarrow> pp_video_capture_s \<Rightarrow> vc_world \<Rightarrow> (int \<times> pp_video_capture_s \<times> vc_world) option" where
  "open_buffers env instance video_capture sizeimage vc w =
     (let n = unat (vc_buffer_count vc)
      in if \<not> ve_can_alloc env (4 * n) then Some (give_up_device (vc\<lparr>vc_buffers := None\<rparr>) w)
      else if \<not> ve_can_alloc env n then Some (give_up_device (vc\<lparr>vc_buffers := None, vc_buffer_is_free := None\<rparr>) w)
      else do {
        ((ok, bs), w) \<leftarrow> make_buffers instance sizeimage n w;
        (if \<not> ok then do {
           w \<leftarrow> release_buffers bs w;
           Some (give_up_device (vc\<lparr>vc_buffers := None, vc_buffer_is_free := None\<rparr>) w)
         }
         else Some (PP_OK, vc\<lparr>vc_buffers := Some bs, vc_buffer_is_free := Some (replicate n True)\<rparr>,
           call_plugin (OnDeviceInfo instance video_capture
             \<lparr>di_width = vc_width vc, di_height = vc_height vc, di_frames_per_second = vc_fps vc\<rparr> (vc_buffer_count vc) bs) w))
      })"

definition open_device ::
  "vc_env \<Rightarrow> PP_Instance \<Rightarrow> PP_Resource \<Rightarrow> PP_VideoCaptureDeviceInfo_Dev option \<Rightarrow> u32 \<Rightarrow> pp_video_capture_s \<Rightarrow> vc_world \<Rightarrow>
   (int \<times> pp_video_capture_s \<times> vc_world) option" where
  "open_device env instance video_capture requested_info buffer_count vc w =
     (case ve_querycap env (vc_fd vc) of
        None \<Rightarrow> Some (give_up_device vc w)
      | Some (caps, device_caps, _) \<Rightarrow>
          if \<not> can_capture caps device_caps then Some (give_up_device vc w)
          else let vc = (case requested_info of
                 Some info \<Rightarrow> vc\<lparr>vc_width := di_width info, vc_height := di_height info, vc_fps := di_frames_per_second info\<rparr>
               | None \<Rightarrow> vc\<lparr>vc_width := 640, vc_height := 480, vc_fps := 15\<rparr>)
          in (case ve_set_format env (vc_fd vc) (vc_width vc, vc_height vc) of
                None \<Rightarrow> Some (give_up_device vc w)
              | Some (width, height, sizeimage) \<Rightarrow>
                  open_buffers env instance video_capture sizeimage
                    (vc\<lparr>vc_width := width, vc_height := height, vc_buffer_size := unat sizeimage,
                        vc_buffer_count := max buffer_count 5\<rparr>) w))"

definition ppb_video_capture_open ::
  "vc_env \<Rightarrow> timespec \<Rightarrow> PP_Resource \<Rightarrow> PP_Resource \<Rightarrow> PP_VideoCaptureDeviceInfo_Dev option \<Rightarrow> u32 \<Rightarrow> PP_CompletionCallback \<Rightarrow>
   vc_world \<Rightarrow> (int \<times> vc_world) option" where
  "ppb_video_capture_open env now video_capture device_ref requested_info buffer_count callback w = do {
     (p, w) \<leftarrow> pp_resource_acquire video_capture PP_RESOURCE_VIDEO_CAPTURE w;
     (case p of
        None \<Rightarrow> Some (PP_ERROR_BADRESOURCE, w)
      | Some gr \<Rightarrow> do {
          vc \<leftarrow> the_video_capture (r_payload gr);
          i \<leftarrow> r_instance gr;
          (longname, w) \<leftarrow> ppb_device_ref_get_longname device_ref w;
          capture_device \<leftarrow> (case longname of VString _ \<Rightarrow> var_text longname w | _ \<Rightarrow> Some default_capture_device);
          let (fd, w) = v4l2_open env capture_device w;
          w \<leftarrow> ppb_var_release longname w;
          (r, vc, w) \<leftarrow> (if fd < 0 then Some (PP_ERROR_NOACCESS, vc\<lparr>vc_fd := fd\<rparr>, w)
             else open_device env i video_capture requested_info buffer_count (vc\<lparr>vc_fd := fd\<rparr>) w);
          w \<leftarrow> pp_resource_release video_capture (res_write video_capture (PL_video_capture vc) w);
          (_, w) \<leftarrow> ppb_message_loop_post_work_with_result now (ppb_message_loop_get_current w) callback 0 r 0 w;
          Some (PP_OK_COMPLETIONPENDING, w)
        })
   }"

section \<open>The thread\<close>

definition ON_BUFFER_READY_COMT :: ptr where "ON_BUFFER_READY_COMT = 401"

definition on_buffer_ready_comt :: "ptr \<Rightarrow> vc_world \<Rightarrow> vc_world option" where
  "on_buffer_ready_comt user_data w = do {
     p \<leftarrow> ht_lookup (vc_params w) user_data;
     (case tables_get_pp_instance (br_instance p) w of
        None \<Rightarrow> Some w
      | Some pp_i \<Rightarrow> Some (call_plugin (OnBufferReady (br_instance p) (br_video_capture p) (br_buf_idx p)) w
          \<lparr>vc_params := ht_remove user_data (vc_params w)\<rparr>))
   }"

text \<open>The search for a free buffer among the first \<open>n\<close>; the array must reach that far.\<close>

fun find_free :: "nat \<Rightarrow> bool list \<Rightarrow> nat option option" where
  "find_free 0 fs = Some None"
| "find_free (Suc n) [] = None"
| "find_free (Suc n) (f # fs) = (if f then Some (Some 0) else map_option (map_option Suc) (find_free n fs))"

definition pick_buffer :: "pp_video_capture_s \<Rightarrow> ((nat \<times> PP_Resource \<times> pp_video_capture_s) option) option" where
  "pick_buffer vc = do {
     k \<leftarrow> (if vc_buffer_count vc = 0 then Some None else Option.bind (vc_buffer_is_free vc) (find_free (unat (vc_buffer_count vc))));
     (case k of
        None \<Rightarrow> Some None
      | Some k \<Rightarrow> do {
          fs \<leftarrow> vc_buffer_is_free vc;
          bs \<leftarrow> vc_buffers vc;
          (if k < length bs then Some (Some (k, bs ! k, vc\<lparr>vc_buffer_is_free := Some (fs[k := False])\<rparr>)) else None)
        })
   }"

text \<open>Posting that a buffer is full.\<close>

definition announce :: "timespec \<Rightarrow> PP_Instance \<Rightarrow> PP_Resource \<Rightarrow> PP_Resource \<Rightarrow> u32 \<Rightarrow> vc_world \<Rightarrow> vc_world option" where
  "announce now instance video_capture message_loop buf_idx w = do {
     let p = vc_next_param w;
     let w = w\<lparr>vc_next_param := p + 1, vc_params := ht_insert p
       \<lparr>br_instance = instance, br_video_capture = video_capture, br_buf_idx = buf_idx\<rparr> (vc_params w)\<rparr>;
     map_option snd (ppb_message_loop_post_work_with_result now message_loop
       \<lparr>ccb_func = ON_BUFFER_READY_COMT, ccb_user_data = p, ccb_flags = 0\<rparr> 0 PP_OK 0 w)
   }"

text \<open>
  From acquiring the resource to releasing it: the buffer that was filled is announced, then a free
  one is looked for. Without one the thread sleeps and comes back.
\<close>

definition acquired_stretch ::
  "timespec \<Rightarrow> PP_Resource \<Rightarrow> int \<Rightarrow> nat \<Rightarrow> u32 option \<Rightarrow> vc_world \<Rightarrow> (capture_thread \<times> vc_world) option" where
  "acquired_stretch now video_capture fd buffer_size filled w =
     with_resource video_capture PP_RESOURCE_VIDEO_CAPTURE Gone
       (\<lambda>gr w. do {
          vc \<leftarrow> the_video_capture (r_payload gr);
          i \<leftarrow> r_instance gr;
          w \<leftarrow> (case filled of None \<Rightarrow> Some w | Some k \<Rightarrow> announce now i video_capture (vc_message_loop vc) k w);
          (if vc_terminate_thread vc then Some (Gone, w)
           else do {
             x \<leftarrow> pick_buffer vc;
             (case x of
                None \<Rightarrow> Some (Acquiring fd buffer_size None, w)
              | Some (k, buffer, vc) \<Rightarrow>
                  Some (Reading fd buffer_size (word_of_nat k) buffer, res_write video_capture (PL_video_capture vc) w))
           })
        }) w"

text \<open>
  Reading a frame, with nothing acquired. \<open>frame\<close> is what the device gives, if it gives anything; more
  bytes than the block has are written past its end.
\<close>

definition fill_buffer :: "PP_Resource \<Rightarrow> char list \<Rightarrow> 'a world_scheme \<Rightarrow> 'a world_scheme option" where
  "fill_buffer buffer frame w =
     (case ht_lookup (res_tbl w) buffer of
        None \<Rightarrow> None
      | Some gr \<Rightarrow> do {
          b \<leftarrow> the_buffer (r_payload gr);
          (if length frame \<le> length (bf_data b)
           then Some (res_write buffer (PL_buffer (b\<lparr>bf_data := frame @ drop (length frame) (bf_data b)\<rparr>)) w)
           else None)
        })"

definition read_stretch :: "PP_Resource \<Rightarrow> char list option \<Rightarrow> 'a world_scheme \<Rightarrow> 'a world_scheme option" where
  "read_stretch buffer frame w = do {
     (p, w) \<leftarrow> ppb_buffer_map buffer w;
     w \<leftarrow> (case (p, frame) of (Some _, Some bytes) \<Rightarrow> fill_buffer buffer bytes w | _ \<Rightarrow> Some w);
     ppb_buffer_unmap buffer w
   }"

text \<open>One step of the thread of a resource; \<open>frame\<close> is looked at in the reading step alone.\<close>

fun thread_step :: "timespec \<Rightarrow> char list option \<Rightarrow> PP_Resource \<Rightarrow> capture_thread \<Rightarrow> vc_world \<Rightarrow> (capture_thread \<times> vc_world) option" where
  "thread_step now frame video_capture Created w = do {
     gr \<leftarrow> ht_lookup (res_tbl w) video_capture;
     vc \<leftarrow> the_video_capture (r_payload gr);
     Some (Acquiring (vc_fd vc) (vc_buffer_size vc) None, w)
   }"
| "thread_step now frame video_capture (Acquiring fd n filled) w = acquired_stretch now video_capture fd n filled w"
| "thread_step now frame video_capture (Reading fd n k buffer) w =
     map_option (\<lambda>w. (Acquiring fd n (Some k), w)) (read_stretch buffer (map_option (take n) frame) w)"
| "thread_step now frame video_capture Gone w = Some (Gone, w)"

section \<open>Starting and stopping\<close>

abbreviation (input) PP_VIDEO_CAPTURE_STATUS_STOPPED :: int where "PP_VIDEO_CAPTURE_STATUS_STOPPED \<equiv> 0"
abbreviation (input) PP_VIDEO_CAPTURE_STATUS_STARTING :: int where "PP_VIDEO_CAPTURE_STATUS_STARTING \<equiv> 1"
abbreviation (input) PP_VIDEO_CAPTURE_STATUS_STARTED :: int where "PP_VIDEO_CAPTURE_STATUS_STARTED \<equiv> 2"
abbreviation (input) PP_VIDEO_CAPTURE_STATUS_STOPPING :: int where "PP_VIDEO_CAPTURE_STATUS_STOPPING \<equiv> 4"

definition ppb_video_capture_start_capture :: "PP_Resource \<Rightarrow> vc_world \<Rightarrow> (int \<times> vc_world) option" where
  "ppb_video_capture_start_capture video_capture w =
     with_resource video_capture PP_RESOURCE_VIDEO_CAPTURE PP_ERROR_BADRESOURCE
       (\<lambda>gr w. do {
          vc \<leftarrow> the_video_capture (r_payload gr);
          i \<leftarrow> r_instance gr;
          (if vc_thread_started vc then Some (PP_OK, w)
           else if vc_fd vc < 0 then Some (PP_ERROR_FAILED, w)
           else let vc = vc\<lparr>vc_message_loop := ppb_message_loop_get_current w, vc_thread_started := True\<rparr>;
                    w = call_plugin (OnStatus i video_capture PP_VIDEO_CAPTURE_STATUS_STARTING) w;
                    w = snd (pp_resource_ref video_capture w);
                    w = w\<lparr>vc_thread := ht_insert video_capture Created (vc_thread w)\<rparr>;
                    w = call_plugin (OnStatus i video_capture PP_VIDEO_CAPTURE_STATUS_STARTED) w
                in Some (PP_OK, res_write video_capture (PL_video_capture vc) w))
        }) w"

definition ppb_video_capture_reuse_buffer :: "PP_Resource \<Rightarrow> u32 \<Rightarrow> 'a res_state_scheme \<Rightarrow> (int \<times> 'a res_state_scheme) option" where
  "ppb_video_capture_reuse_buffer video_capture buffer w =
     res_update video_capture PP_RESOURCE_VIDEO_CAPTURE PP_ERROR_BADRESOURCE
       (\<lambda>p. do {
          vc \<leftarrow> the_video_capture p;
          (if buffer < vc_buffer_count vc then do {
             fs \<leftarrow> vc_buffer_is_free vc;
             (if unat buffer < length fs then Some (PP_OK, PL_video_capture (vc\<lparr>vc_buffer_is_free := Some (fs[unat buffer := True])\<rparr>))
              else None)
           }
           else Some (PP_OK, p))
        }) w"

text \<open>
  Stopping, up to the wait for the thread and after it. The first part answers a code when there is
  nothing to wait for.
\<close>

definition ppb_video_capture_stop_capture_begin :: "PP_Resource \<Rightarrow> vc_world \<Rightarrow> (int option \<times> vc_world) option" where
  "ppb_video_capture_stop_capture_begin video_capture w =
     with_resource video_capture PP_RESOURCE_VIDEO_CAPTURE (Some PP_ERROR_BADRESOURCE)
       (\<lambda>gr w. do {
          vc \<leftarrow> the_video_capture (r_payload gr);
          i \<leftarrow> r_instance gr;
          (if \<not> vc_thread_started vc then Some (Some PP_OK, w)
           else Some (None, res_write video_capture (PL_video_capture (vc\<lparr>vc_terminate_thread := True\<rparr>))
             (call_plugin (OnStatus i video_capture PP_VIDEO_CAPTURE_STATUS_STOPPING) w)))
        }) w"

definition ppb_video_capture_stop_capture_end :: "PP_Resource \<Rightarrow> vc_world \<Rightarrow> (int \<times> vc_world) option" where
  "ppb_video_capture_stop_capture_end video_capture w =
     with_resource video_capture PP_RESOURCE_VIDEO_CAPTURE PP_ERROR_BADRESOURCE
       (\<lambda>gr w. do {
          vc \<leftarrow> the_video_capture (r_payload gr);
          i \<leftarrow> r_instance gr;
          let w = res_write video_capture (PL_video_capture (vc\<lparr>vc_thread_started := False, vc_terminate_thread := False\<rparr>)) w;
          let w = call_plugin (OnStatus i video_capture PP_VIDEO_CAPTURE_STATUS_STOPPED) w;
          w \<leftarrow> pp_resource_unref video_capture w;
          Some (PP_OK, w)
        }) w"

text \<open>What \<^verbatim>\<open>ppb_video_capture_close\<close> does once capturing has stopped.\<close>

definition ppb_video_capture_close_end :: "PP_Resource \<Rightarrow> vc_world \<Rightarrow> vc_world option" where
  "ppb_video_capture_close_end video_capture w =
     map_option snd (with_resource video_capture PP_RESOURCE_VIDEO_CAPTURE ()
       (\<lambda>gr w. do {
          vc \<leftarrow> the_video_capture (r_payload gr);
          (vc, w) \<leftarrow> ppb_video_capture_destroy vc w;
          Some ((), res_write video_capture (PL_video_capture vc) w)
        }) w)"

end
