(* ===== verification/Capture_Correct.thy ===== *)
theory Capture_Correct
  imports Video_Capture Graphics2d_Correct
begin

text \<open>
  A frame is read into a buffer that was free, announced once, and stays as it is until the plugin gives
  the buffer back, however the thread goes on and whatever other buffers are given back.
\<close>

section \<open>Frames of the state\<close>

lemma vc_frame [simp]:
  "res_tbl (w\<lparr>vc_params := p\<rparr>) = res_tbl w" "res_tbl (w\<lparr>vc_next_param := a\<rparr>) = res_tbl w" "res_tbl (w\<lparr>vc_calls := l\<rparr>) = res_tbl w"
  "world_inv extR extV (w\<lparr>vc_params := p\<rparr>) = world_inv extR extV w"
  "world_inv extR extV (w\<lparr>vc_next_param := a\<rparr>) = world_inv extR extV w"
  "world_inv extR extV (w\<lparr>vc_calls := l\<rparr>) = world_inv extR extV w"
  "all_unlocked (w\<lparr>vc_params := p\<rparr>) = all_unlocked w" "all_unlocked (w\<lparr>vc_next_param := a\<rparr>) = all_unlocked w"
  "all_unlocked (w\<lparr>vc_calls := l\<rparr>) = all_unlocked w"
  "quiet c (w\<lparr>vc_params := p\<rparr>) = quiet c w" "quiet c (w\<lparr>vc_next_param := a\<rparr>) = quiet c w"
  for w :: vc_world
  by (simp_all add: world_inv_def var_inv_def entries_ok_def res_entries_ok_def res_entry_ok_def all_unlocked_def quiet_def)

lemma find_free_total: "\<exists>x. find_free (length fs) fs = Some x \<and> (\<forall>j. x = Some j \<longrightarrow> j < length fs \<and> fs ! j)"
  by (induction fs) force+

definition arrays :: "pp_video_capture_s \<Rightarrow> PP_Resource list \<Rightarrow> bool list \<Rightarrow> bool" where
  "arrays vc bs fs \<longleftrightarrow> vc_buffers vc = Some bs \<and> vc_buffer_is_free vc = Some fs \<and>
     length bs = unat (vc_buffer_count vc) \<and> length fs = unat (vc_buffer_count vc)"

definition free_at :: "bool list \<Rightarrow> nat option" where
  "free_at fs = the (find_free (length fs) fs)"

lemma free_at_ok: "find_free (length fs) fs = Some (free_at fs)" "free_at fs = Some j \<Longrightarrow> j < length fs \<and> fs ! j"
  using find_free_total [of fs] by (auto simp: free_at_def)

lemma pick_buffer_arrays:
  assumes "arrays vc bs fs"
  shows "pick_buffer vc = Some (case free_at fs of None \<Rightarrow> None
    | Some j \<Rightarrow> Some (j, bs ! j, vc\<lparr>vc_buffer_is_free := Some (fs[j := False])\<rparr>))"
proof -
  have n: "length fs = unat (vc_buffer_count vc)" "length bs = length fs" using assms by (simp_all add: arrays_def)
  have k: "(if vc_buffer_count vc = 0 then Some None else Option.bind (vc_buffer_is_free vc) (find_free (unat (vc_buffer_count vc)))) =
      Some (free_at fs)"
    using assms free_at_ok(1) [of fs] n by (cases "vc_buffer_count vc = 0") (simp_all add: arrays_def)
  show ?thesis
    unfolding pick_buffer_def k using assms free_at_ok(2) [of fs] n by (auto simp: arrays_def split: option.split)
qed

section \<open>A stretch with the resource acquired\<close>

definition camera :: "PP_Resource \<Rightarrow> vc_world \<Rightarrow> pp_resource_s \<Rightarrow> pp_video_capture_s \<Rightarrow> bool" where
  "camera c w e vc \<longleftrightarrow> ht_lookup (res_tbl w) c = Some e \<and> r_resource_type e = PP_RESOURCE_VIDEO_CAPTURE \<and>
     r_payload e = PL_video_capture vc \<and> r_instance e \<noteq> None"

text \<open>Where the thread gets to, and the structure then.\<close>

definition next_stretch :: "int \<Rightarrow> nat \<Rightarrow> pp_video_capture_s \<Rightarrow> PP_Resource list \<Rightarrow> bool list \<Rightarrow> capture_thread \<times> pp_video_capture_s" where
  "next_stretch fd n vc bs fs =
     (if vc_terminate_thread vc then (Gone, vc)
      else case free_at fs of
        None \<Rightarrow> (Acquiring fd n None, vc)
      | Some j \<Rightarrow> (Reading fd n (word_of_nat j) (bs ! j), vc\<lparr>vc_buffer_is_free := Some (fs[j := False])\<rparr>))"

definition announced :: "timespec \<Rightarrow> PP_Instance \<Rightarrow> PP_Resource \<Rightarrow> PP_Resource \<Rightarrow> u32 option \<Rightarrow> vc_world \<Rightarrow> vc_world option" where
  "announced now i c m filled w = (case filled of None \<Rightarrow> Some w | Some k \<Rightarrow> announce now i c m k w)"

lemma announced_frame:
  assumes inv: "world_inv extR extV w" and q: "quiet c w"
  shows "\<exists>w'. announced now i c m filled w = Some w' \<and> world_inv extR extV w' \<and> quiet c w' \<and>
    (\<forall>r e. ht_lookup (res_tbl w) r = Some e \<longrightarrow> r_resource_type e \<noteq> PP_RESOURCE_MESSAGE_LOOP \<longrightarrow> ht_lookup (res_tbl w') r = Some e)"
proof (cases filled)
  case None
  then show ?thesis using assms by (simp add: announced_def)
next
  case (Some k)
  let ?w = "w\<lparr>vc_next_param := vc_next_param w + 1, vc_params := ht_insert (vc_next_param w)
    \<lparr>br_instance = i, br_video_capture = c, br_buf_idx = k\<rparr> (vc_params w)\<rparr>"
  have "world_inv extR extV ?w" "quiet c ?w" using assms by simp_all
  from post_loops_only [OF this] obtain x w' where
    w': "ppb_message_loop_post_work_with_result now m \<lparr>ccb_func = ON_BUFFER_READY_COMT, ccb_user_data = vc_next_param w, ccb_flags = 0\<rparr>
      0 PP_OK 0 ?w = Some (x, w')" "loops_only w' ?w" by blast
  have "world_inv extR extV w'" "quiet c w'"
    using loops_only_inv [OF w'(2)] loops_only_quiet [OF w'(2), of c] assms by simp_all
  moreover have "ht_lookup (res_tbl w') r = Some e"
    if "ht_lookup (res_tbl w) r = Some e" "r_resource_type e \<noteq> PP_RESOURCE_MESSAGE_LOOP" for r e
    using loops_only_frame(7) [OF w'(2)] that by simp
  ultimately show ?thesis
    using w'(1) by (auto simp: announced_def Some announce_def Let_def)
qed

lemma stretch_steps:
  assumes inv: "world_inv extR extV w" and un: "all_unlocked w" and cam: "camera c w e vc" "arrays vc bs fs" "r_instance e = Some i"
  shows "\<exists>w1 w'. announced now i c (vc_message_loop vc) filled (w\<lparr>res_tbl := ht_insert c (acquired e) (res_tbl w)\<rparr>) = Some w1 \<and>
    acquired_stretch now c fd n filled w = Some (fst (next_stretch fd n vc bs fs), w') \<and>
    w' = w1\<lparr>res_tbl := ht_insert c (e\<lparr>r_payload := PL_video_capture (snd (next_stretch fd n vc bs fs))\<rparr>) (res_tbl w1)\<rparr> \<and>
    world_inv extR extV w' \<and> all_unlocked w' \<and>
    (\<forall>r e. r \<noteq> c \<longrightarrow> ht_lookup (res_tbl w) r = Some e \<longrightarrow> r_resource_type e \<noteq> PP_RESOURCE_MESSAGE_LOOP \<longrightarrow> ht_lookup (res_tbl w') r = Some e)"
proof -
  have look: "ht_lookup (res_tbl w) c = Some e" "r_resource_type e = PP_RESOURCE_VIDEO_CAPTURE" "r_payload e = PL_video_capture vc"
    using cam(1) by (simp_all add: camera_def)
  have ul: "\<not> r_locked e" using un look(1) by (simp add: all_unlocked_def)
  have pos: "0 < r_ref_cnt e" using world_inv_count [OF inv look(1)] .
  have av: "available c PP_RESOURCE_VIDEO_CAPTURE w e" using look ul pos by (simp add: available_def)
  let ?w0 = "w\<lparr>res_tbl := ht_insert c (acquired e) (res_tbl w)\<rparr>"
  have "quiet c ?w0" using un look by (auto simp: quiet_def all_unlocked_def)
  from announced_frame [OF acquired_inv [OF inv av] this, of now i "vc_message_loop vc" filled] obtain w1 where
    w1: "announced now i c (vc_message_loop vc) filled ?w0 = Some w1" "world_inv (add_mset c extR) extV w1" "quiet c w1"
    "\<And>r e. ht_lookup (res_tbl ?w0) r = Some e \<Longrightarrow> r_resource_type e \<noteq> PP_RESOURCE_MESSAGE_LOOP \<Longrightarrow> ht_lookup (res_tbl w1) r = Some e" by blast
  have c1: "ht_lookup (res_tbl w1) c = Some (acquired e)" by (rule w1(4)) (simp_all add: look(2))
  let ?vc = "snd (next_stretch fd n vc bs fs)"
  let ?e = "e\<lparr>r_payload := PL_video_capture ?vc\<rparr>"
  let ?w2 = "res_write c (PL_video_capture ?vc) w1"
  let ?w' = "w1\<lparr>res_tbl := ht_insert c ?e (res_tbl w1)\<rparr>"
  have same: "payload_kids (PL_video_capture ?vc) = payload_kids (r_payload (acquired e))"
    using cam(2) look(3) by (auto simp: next_stretch_def arrays_def split: option.split)
  have w2: "?w2 = w1\<lparr>res_tbl := ht_insert c ((acquired e)\<lparr>r_payload := PL_video_capture ?vc\<rparr>) (res_tbl w1)\<rparr>"
    by (simp add: res_write_def c1)
  have inv2: "world_inv (add_mset c extR) extV ?w2"
    unfolding w2 by (rule world_inv_write [OF w1(2) c1]) (use look same in simp_all)
  have rel: "pp_resource_release c ?w2 = Some ?w'"
    unfolding w2 using ul pos by (cases e) (simp add: release_counted)
  have "\<exists>e2. ht_lookup (res_tbl ?w2) c = Some e2" by (simp add: w2)
  then have inv': "world_inv extR extV ?w'" using release_inv [OF inv2] rel by auto
  have keep: "res_write c (PL_video_capture vc) w1 = w1"
    using c1 look(3) by (cases w1; cases e) (simp add: res_write_def ht_insert_same)
  have "acquired_stretch now c fd n filled w = Some (fst (next_stretch fd n vc bs fs), ?w')"
  proof -
    have "acquired_stretch now c fd n filled w =
        do { w \<leftarrow> pp_resource_release c ?w2; Some (fst (next_stretch fd n vc bs fs), w) }"
      using w1(1) look(3) cam(3) keep
      by (cases "free_at fs") (simp_all add: acquired_stretch_def with_resource_def acquire_available [OF av] announced_def [symmetric]
        pick_buffer_arrays [OF cam(2)] next_stretch_def)
    then show ?thesis using rel by simp
  qed
  moreover have "all_unlocked ?w'" using w1(3) ul by (auto simp: all_unlocked_def quiet_def)
  moreover have "ht_lookup (res_tbl ?w') r = Some e'"
    if "r \<noteq> c" "ht_lookup (res_tbl w) r = Some e'" "r_resource_type e' \<noteq> PP_RESOURCE_MESSAGE_LOOP" for r e'
    using w1(4) [of r e'] that by simp
  ultimately show ?thesis using w1(1) inv' by blast
qed

section \<open>Reading a frame\<close>

definition filled_with :: "char list option \<Rightarrow> pp_buffer_s \<Rightarrow> pp_buffer_s" where
  "filled_with frame b = (case frame of None \<Rightarrow> b | Some f \<Rightarrow> b\<lparr>bf_data := f @ drop (length f) (bf_data b)\<rparr>)"

definition frame_fits :: "char list option \<Rightarrow> pp_buffer_s \<Rightarrow> bool" where
  "frame_fits frame b \<longleftrightarrow> (\<forall>f. frame = Some f \<longrightarrow> length f \<le> length (bf_data b))"

lemma read_stretch_buffer:
  assumes av: "available r PP_RESOURCE_BUFFER w e" and b: "r_payload e = PL_buffer b"
  shows "read_stretch r frame w = (if frame_fits frame b
    then Some (w\<lparr>res_tbl := ht_insert r (e\<lparr>r_payload := PL_buffer (filled_with frame b)\<rparr>) (res_tbl w)\<rparr>) else None)"
proof -
  have look: "ht_lookup (res_tbl w) r = Some e" "r_resource_type e = PP_RESOURCE_BUFFER" "\<not> r_locked e" "0 < r_ref_cnt e"
    using av by (simp_all add: available_def)
  let ?e1 = "e\<lparr>r_ref_cnt := r_ref_cnt e + 1\<rparr>"
  have map: "ppb_buffer_map r w = Some (Some (bf_data b), w\<lparr>res_tbl := ht_insert r ?e1 (res_tbl w)\<rparr>)"
    using look b
    by (cases e) (simp add: ppb_buffer_map_def with_resource_def acquire_available [OF av] ppb_core_add_ref_resource_def
        pp_resource_ref_def release_counted add.commute)
  have unmap: "ppb_buffer_unmap r (w\<lparr>res_tbl := ht_insert r (?e1\<lparr>r_payload := PL_buffer b'\<rparr>) (res_tbl w)\<rparr>) =
      Some (w\<lparr>res_tbl := ht_insert r (e\<lparr>r_payload := PL_buffer b'\<rparr>) (res_tbl w)\<rparr>)" for b'
    using look by (cases e) (simp add: ppb_buffer_unmap_def ppb_buffer_is_buffer_def pp_resource_get_type_def
      ppb_core_release_resource_def pp_resource_unref_def)
  have same: "?e1 = ?e1\<lparr>r_payload := PL_buffer b\<rparr>" using b by (cases e) simp
  show ?thesis
  proof (cases frame)
    case None
    then show ?thesis using map unmap [of b] same by (simp add: read_stretch_def filled_with_def frame_fits_def)
  next
    case (Some f)
    then show ?thesis
      using map unmap b by (simp add: read_stretch_def fill_buffer_def res_write_def filled_with_def frame_fits_def)
  qed
qed

lemma read_stretch_other:
  assumes "\<not> (\<exists>e. ht_lookup (res_tbl w) r = Some e \<and> r_resource_type e = PP_RESOURCE_BUFFER)"
  shows "read_stretch r frame w = Some w"
proof -
  have t: "pp_resource_get_type r w \<noteq> PP_RESOURCE_BUFFER \<or> ht_lookup (res_tbl w) r = None"
    using assms by (auto simp: pp_resource_get_type_def split: option.splits)
  have "\<not> ppb_buffer_is_buffer r w"
    using assms by (auto simp: ppb_buffer_is_buffer_def pp_resource_get_type_def split: option.splits)
  then show ?thesis
    by (simp add: read_stretch_def ppb_buffer_map_def ppb_buffer_unmap_def with_resource_bad [OF t])
qed

lemma read_stretch_frame:
  assumes inv: "world_inv extR extV w" and un: "all_unlocked w" and res: "read_stretch r frame w = Some w'"
  shows "world_inv extR extV w'" "all_unlocked w'" "k \<noteq> r \<Longrightarrow> ht_lookup (res_tbl w') k = ht_lookup (res_tbl w) k"
    "ht_lookup (res_tbl w) k = Some e \<Longrightarrow> r_resource_type e \<noteq> PP_RESOURCE_BUFFER \<Longrightarrow> ht_lookup (res_tbl w') k = Some e"
proof -
  have "world_inv extR extV w' \<and> all_unlocked w' \<and> (k \<noteq> r \<longrightarrow> ht_lookup (res_tbl w') k = ht_lookup (res_tbl w) k) \<and>
    (\<forall>e. ht_lookup (res_tbl w) k = Some e \<longrightarrow> r_resource_type e \<noteq> PP_RESOURCE_BUFFER \<longrightarrow> ht_lookup (res_tbl w') k = Some e)"
  proof (cases "\<exists>e. ht_lookup (res_tbl w) r = Some e \<and> r_resource_type e = PP_RESOURCE_BUFFER")
    case False
    then show ?thesis using read_stretch_other [OF False] res inv un by simp
  next
    case True
    then obtain e where e: "ht_lookup (res_tbl w) r = Some e" "r_resource_type e = PP_RESOURCE_BUFFER" by blast
    have ul: "\<not> r_locked e" using un e(1) by (simp add: all_unlocked_def)
    from world_inv_available [OF inv e(1) ul] e(2) obtain b where b: "available r PP_RESOURCE_BUFFER w e" "r_payload e = PL_buffer b"
      by (cases "r_payload e") simp_all
    have w': "w' = w\<lparr>res_tbl := ht_insert r (e\<lparr>r_payload := PL_buffer (filled_with frame b)\<rparr>) (res_tbl w)\<rparr>"
      using res read_stretch_buffer [OF b] by (simp split: if_splits)
    have "world_inv extR extV w'" unfolding w' by (rule world_inv_write [OF inv e(1)]) (use e(2) b(2) in simp_all)
    then show ?thesis using un e ul by (auto simp: w' all_unlocked_def)
  qed
  then show "world_inv extR extV w'" "all_unlocked w'" "k \<noteq> r \<Longrightarrow> ht_lookup (res_tbl w') k = ht_lookup (res_tbl w) k"
    "ht_lookup (res_tbl w) k = Some e \<Longrightarrow> r_resource_type e \<noteq> PP_RESOURCE_BUFFER \<Longrightarrow> ht_lookup (res_tbl w') k = Some e" by auto
qed

section \<open>Runs\<close>

text \<open>
  What may happen while the plugin has buffer \<open>k\<close>: the thread goes on, whatever the device gives; other
  buffers are given back; what was announced is told to the plugin.
\<close>

inductive camera_step :: "PP_Resource \<Rightarrow> nat \<Rightarrow> capture_thread \<times> vc_world \<Rightarrow> capture_thread \<times> vc_world \<Rightarrow> bool" for c k where
  thread: "thread_step now frame c t w = Some (t', w') \<Longrightarrow> camera_step c k (t, w) (t', w')"
| reuse: "unat j \<noteq> k \<Longrightarrow> ppb_video_capture_reuse_buffer c j w = Some (x, w') \<Longrightarrow> camera_step c k (t, w) (t, w')"
| deliver: "on_buffer_ready_comt a w = Some w' \<Longrightarrow> camera_step c k (t, w) (t, w')"

text \<open>Buffer \<open>k\<close>, which is \<open>b\<close>, is not free, holds these bytes, and is not what the thread reads into.\<close>

definition with_plugin :: "PP_Resource \<Rightarrow> nat \<Rightarrow> PP_Resource \<Rightarrow> char list \<Rightarrow> capture_thread \<times> vc_world \<Rightarrow> bool" where
  "with_plugin c k b d s \<longleftrightarrow> (\<exists>e vc bs fs eb bf. camera c (snd s) e vc \<and> arrays vc bs fs \<and> distinct bs \<and> k < length bs \<and>
     bs ! k = b \<and> \<not> fs ! k \<and> ht_lookup (res_tbl (snd s)) b = Some eb \<and> r_resource_type eb = PP_RESOURCE_BUFFER \<and>
     r_payload eb = PL_buffer bf \<and> bf_data bf = d \<and>
     (\<forall>fd n j r. fst s = Reading fd n j r \<longrightarrow> (\<exists>i<length bs. i \<noteq> k \<and> r = bs ! i)))"

lemma with_pluginI:
  assumes "camera c w e vc" "arrays vc bs fs" "distinct bs" "k < length bs" "bs ! k = b" "\<not> fs ! k"
    and "ht_lookup (res_tbl w) b = Some eb" "r_resource_type eb = PP_RESOURCE_BUFFER" "r_payload eb = PL_buffer bf" "bf_data bf = d"
    and "\<And>fd n j r. t = Reading fd n j r \<Longrightarrow> \<exists>i<length bs. i \<noteq> k \<and> r = bs ! i"
  shows "with_plugin c k b d (t, w)"
  unfolding with_plugin_def
  by (intro exI [of _ e] exI [of _ vc] exI [of _ bs] exI [of _ fs] exI [of _ eb] exI [of _ bf]) (use assms in simp)

lemma thread_keeps:
  assumes inv: "world_inv extR extV w" and un: "all_unlocked w" and wp: "with_plugin c k b d (t, w)"
    and step: "thread_step now frame c t w = Some (t', w')"
  shows "world_inv extR extV w' \<and> all_unlocked w' \<and> with_plugin c k b d (t', w')"
proof -
  obtain e vc bs fs eb bf where cam: "camera c w e vc" "arrays vc bs fs" and bs: "distinct bs" "k < length bs" "bs ! k = b" "\<not> fs ! k"
    and b: "ht_lookup (res_tbl w) b = Some eb" "r_resource_type eb = PP_RESOURCE_BUFFER" "r_payload eb = PL_buffer bf" "bf_data bf = d"
    and reading: "\<And>fd n j r. t = Reading fd n j r \<Longrightarrow> \<exists>i<length bs. i \<noteq> k \<and> r = bs ! i"
    using wp unfolding with_plugin_def by auto
  have c: "ht_lookup (res_tbl w) c = Some e" "r_resource_type e = PP_RESOURCE_VIDEO_CAPTURE" "r_payload e = PL_video_capture vc"
    using cam(1) by (simp_all add: camera_def)
  show ?thesis
  proof (cases t)
    case Created
    then have "w' = w" "\<exists>fd n. t' = Acquiring fd n None" using step c by auto
    then show ?thesis using inv un with_pluginI [OF cam bs b, of t'] by auto
  next
    case (Acquiring fd n filled)
    obtain i where i: "r_instance e = Some i" using cam(1) by (auto simp: camera_def)
    let ?next = "next_stretch fd n vc bs fs"
    obtain w1 where st: "t' = fst ?next" "w' = w1\<lparr>res_tbl := ht_insert c (e\<lparr>r_payload := PL_video_capture (snd ?next)\<rparr>) (res_tbl w1)\<rparr>"
      "world_inv extR extV w'" "all_unlocked w'"
      "\<And>r e. r \<noteq> c \<Longrightarrow> ht_lookup (res_tbl w) r = Some e \<Longrightarrow> r_resource_type e \<noteq> PP_RESOURCE_MESSAGE_LOOP \<Longrightarrow> ht_lookup (res_tbl w') r = Some e"
      using stretch_steps [OF inv un cam i, of now filled fd n] step Acquiring by auto
    have cam': "camera c w' (e\<lparr>r_payload := PL_video_capture (snd ?next)\<rparr>) (snd ?next)"
      using cam(1) by (simp add: camera_def st(2))
    have b': "ht_lookup (res_tbl w') b = Some eb" by (rule st(5)) (use b c in auto)
    have free: "j < length fs" "fs ! j" "j \<noteq> k" if "free_at fs = Some j" for j
      using free_at_ok(2) [OF that] bs(4) by auto
    have len: "length bs = length fs" using cam(2) by (simp add: arrays_def)
    define fs' where "fs' = (if vc_terminate_thread vc then fs else case free_at fs of None \<Rightarrow> fs | Some j \<Rightarrow> fs[j := False])"
    have fs': "arrays (snd ?next) bs fs'" "\<not> fs' ! k"
      using cam(2) bs(4) free(3)
      by (auto simp: next_stretch_def arrays_def fs'_def split: option.split)
    have "\<exists>i<length bs. i \<noteq> k \<and> r = bs ! i" if "t' = Reading fd' n' j r" for fd' n' j r
      using that free len by (auto simp: st(1) next_stretch_def split: if_splits option.splits)
    with with_pluginI [OF cam' fs'(1) bs(1-3) fs'(2) b' b(2-4), of t'] show ?thesis using st(3,4) by blast
  next
    case (Reading fd n j r)
    obtain i where i: "i < length bs" "i \<noteq> k" "r = bs ! i" using reading [OF Reading] by blast
    have r: "r \<noteq> b" using i bs(1-3) by (auto simp: nth_eq_iff_index_eq)
    have w': "read_stretch r (map_option (take n) frame) w = Some w'" "t' = Acquiring fd n (Some j)"
      using step Reading by (auto split: option.splits)
    note f = read_stretch_frame [OF inv un w'(1)]
    have "camera c w' e vc" using cam(1) f(4) [of c e] c by (simp add: camera_def)
    then show ?thesis
      using with_pluginI [of c w' e vc bs fs k b eb bf d t'] cam(2) bs b f(1,2) f(3) [of b] r w'(2) by simp
  next
    case Gone
    then show ?thesis using step inv un with_pluginI [OF cam bs b, of t'] by auto
  qed
qed

lemma reuse_keeps:
  assumes inv: "world_inv extR extV w" and un: "all_unlocked w" and wp: "with_plugin c k b d (t, w)"
    and step: "ppb_video_capture_reuse_buffer c j w = Some (x, w')" and other: "unat j \<noteq> k"
  shows "world_inv extR extV w' \<and> all_unlocked w' \<and> with_plugin c k b d (t, w')"
proof -
  obtain e vc bs fs eb bf where cam: "camera c w e vc" "arrays vc bs fs" and bs: "distinct bs" "k < length bs" "bs ! k = b" "\<not> fs ! k"
    and b: "ht_lookup (res_tbl w) b = Some eb" "r_resource_type eb = PP_RESOURCE_BUFFER" "r_payload eb = PL_buffer bf" "bf_data bf = d"
    and reading: "\<And>fd n j r. t = Reading fd n j r \<Longrightarrow> \<exists>i<length bs. i \<noteq> k \<and> r = bs ! i"
    using wp unfolding with_plugin_def by auto
  have c: "ht_lookup (res_tbl w) c = Some e" "r_resource_type e = PP_RESOURCE_VIDEO_CAPTURE" "r_payload e = PL_video_capture vc"
    using cam(1) by (simp_all add: camera_def)
  have ul: "\<not> r_locked e" using un c(1) by (simp add: all_unlocked_def)
  have av: "available c PP_RESOURCE_VIDEO_CAPTURE w e" using world_inv_available [OF inv c(1) ul] c(2) by simp
  define fs' where "fs' = (if j < vc_buffer_count vc then fs[unat j := True] else fs)"
  let ?vc = "vc\<lparr>vc_buffer_is_free := Some fs'\<rparr>"
  let ?w = "w\<lparr>res_tbl := ht_insert c (e\<lparr>r_payload := PL_video_capture ?vc\<rparr>) (res_tbl w)\<rparr>"
  have a: "arrays ?vc bs fs'" "\<not> fs' ! k" using cam(2) bs(4) other by (simp_all add: arrays_def fs'_def)
  have same: "vc\<lparr>vc_buffer_is_free := Some fs\<rparr> = vc" using cam(2) by (cases vc) (simp add: arrays_def)
  have w': "w' = ?w"
    using step cam(2) c(3)
    by (auto simp: same ppb_video_capture_reuse_buffer_def res_update_available [OF av] arrays_def fs'_def word_less_nat_alt split: if_splits)
  have "world_inv extR extV w'"
    unfolding w' by (rule world_inv_write [OF inv c(1)]) (use c cam(2) in \<open>simp_all add: arrays_def\<close>)
  moreover have "all_unlocked w'" using un ul by (auto simp: w' all_unlocked_def)
  moreover have "camera c w' (e\<lparr>r_payload := PL_video_capture ?vc\<rparr>) ?vc" using cam(1) by (simp add: camera_def w')
  moreover have "ht_lookup (res_tbl w') b = Some eb" using b c by (auto simp: w')
  ultimately show ?thesis
    using with_pluginI [of c w' _ ?vc bs fs' k b eb bf d t] a bs(1-3) b(2-4) reading by blast
qed

lemma step_keeps:
  assumes step: "camera_step c k (t, w) (t', w')"
    and now: "world_inv extR extV w" "all_unlocked w" "with_plugin c k b d (t, w)"
  shows "world_inv extR extV w' \<and> all_unlocked w' \<and> with_plugin c k b d (t', w')"
  using step
proof (cases rule: camera_step.cases)
  case thread
  from thread_keeps [OF now thread] show ?thesis .
next
  case reuse
  from reuse_keeps [OF now reuse(3,2)] show ?thesis using reuse(1) by simp
next
  case deliver
  then have "w' = w \<or> (\<exists>l p. w' = w\<lparr>vc_calls := l, vc_params := p\<rparr>)"
    by (auto simp: on_buffer_ready_comt_def call_plugin_def split: option.splits bind_splits)
  moreover have "with_plugin c k b d (t, w\<lparr>vc_calls := l, vc_params := p\<rparr>) = with_plugin c k b d (t, w)" for l p
    by (simp add: with_plugin_def camera_def)
  ultimately show ?thesis using now deliver(1) by auto
qed


section \<open>From the device to the plugin\<close>

lemma world_inv_calm: "world_inv extR extV w \<Longrightarrow> all_unlocked w \<Longrightarrow> calm r w"
  using world_inv_available by (fastforce simp: calm_def all_unlocked_def available_def)

lemma announced_queues:
  assumes "calm c w" "m \<noteq> c" "takes_tasks m w" "queue_of m w = Some q"
  shows "\<exists>w'. announced now i c m (Some k) w = Some w' \<and>
    queue_of m w' = Some (q @ [posted now \<lparr>ccb_func = ON_BUFFER_READY_COMT, ccb_user_data = vc_next_param w, ccb_flags = 0\<rparr> PP_OK]) \<and>
    vc_params w' = ht_insert (vc_next_param w) \<lparr>br_instance = i, br_video_capture = c, br_buf_idx = k\<rparr> (vc_params w)"
proof -
  let ?w = "w\<lparr>vc_next_param := vc_next_param w + 1, vc_params := ht_insert (vc_next_param w)
    \<lparr>br_instance = i, br_video_capture = c, br_buf_idx = k\<rparr> (vc_params w)\<rparr>"
  let ?ccb = "\<lparr>ccb_func = ON_BUFFER_READY_COMT, ccb_user_data = vc_next_param w, ccb_flags = 0\<rparr>"
  have same: "calm c ?w" "takes_tasks m ?w" "queue_of m ?w = Some q"
    using assms(1,3,4) by (simp_all add: calm_def takes_tasks_def queue_of_def loop_of_def)
  have "ccb_func ?ccb \<noteq> 0" by (simp add: ON_BUFFER_READY_COMT_def)
  from post_calm [OF same(1) assms(2) same(2,3) this, of now PP_OK] obtain w' where
    w': "ppb_message_loop_post_work_with_result now m ?ccb 0 PP_OK 0 ?w = Some (PP_OK, w')"
    "queue_of m w' = Some (q @ [posted now ?ccb PP_OK])" by blast
  obtain e where e: "ht_lookup (res_tbl ?w) m = Some e" "r_resource_type e = PP_RESOURCE_MESSAGE_LOOP"
    using same(2) unfolding takes_tasks_def by blast
  have av: "available m PP_RESOURCE_MESSAGE_LOOP ?w e" using calm_available [OF same(1) assms(2) e(1)] e(2) by simp
  have "vc_params w' = vc_params ?w"
    using w'(1) unfolding ppb_message_loop_post_work_with_result_def res_update_available [OF av]
    by (auto split: option.splits if_splits)
  then show ?thesis using w' by (auto simp: announced_def announce_def Let_def)
qed

text \<open>
  C13: A frame is delivered: with a free buffer the thread marks the first such buffer as taken, reads the
  frame into it, and queues one task that tells the plugin this buffer's index; from then on the plugin has
  the buffer, with the frame's bytes.
\<close>

theorem frame_delivered:
  assumes inv: "world_inv extR extV w" and un: "all_unlocked w" and cam: "camera c w e vc" "arrays vc bs fs" "r_instance e = Some i"
    and go: "\<not> vc_terminate_thread vc" "free_at fs = Some k" "distinct bs"
    and b: "ht_lookup (res_tbl w) (bs ! k) = Some eb" "r_resource_type eb = PP_RESOURCE_BUFFER" "r_payload eb = PL_buffer bf"
    and frame: "length frame \<le> length (bf_data bf)" "length frame \<le> n"
    and loop: "vc_message_loop vc = m" "takes_tasks m w" "queue_of m w = Some q"
  shows "\<exists>w1 w2 t3 w3. thread_step now any c (Acquiring fd n None) w = Some (Reading fd n (word_of_nat k) (bs ! k), w1) \<and>
    thread_step now (Some frame) c (Reading fd n (word_of_nat k) (bs ! k)) w1 = Some (Acquiring fd n (Some (word_of_nat k)), w2) \<and>
    thread_step now any c (Acquiring fd n (Some (word_of_nat k))) w2 = Some (t3, w3) \<and>
    with_plugin c k (bs ! k) (frame @ drop (length frame) (bf_data bf)) (t3, w3) \<and>
    queue_of m w3 = Some (q @ [posted now \<lparr>ccb_func = ON_BUFFER_READY_COMT, ccb_user_data = vc_next_param w, ccb_flags = 0\<rparr> PP_OK]) \<and>
    ht_lookup (vc_params w3) (vc_next_param w) = Some \<lparr>br_instance = i, br_video_capture = c, br_buf_idx = word_of_nat k\<rparr>"
proof -
  have c: "ht_lookup (res_tbl w) c = Some e" "r_resource_type e = PP_RESOURCE_VIDEO_CAPTURE" "r_payload e = PL_video_capture vc"
    using cam(1) by (simp_all add: camera_def)
  let ?vc = "vc\<lparr>vc_buffer_is_free := Some (fs[k := False])\<rparr>"
  let ?e = "e\<lparr>r_payload := PL_video_capture ?vc\<rparr>" and ?b = "bs ! k" and ?j = "word_of_nat k :: u32"
  let ?eb = "eb\<lparr>r_payload := PL_buffer (filled_with (Some frame) bf)\<rparr>"
  have k: "k < length bs" "k < length fs" using free_at_ok(2) [OF go(2)] cam(2) by (simp_all add: arrays_def)
  have next1: "next_stretch fd n vc bs fs = (Reading fd n ?j ?b, ?vc)" using go(1,2) by (simp add: next_stretch_def)
  let ?w1 = "w\<lparr>res_tbl := ht_insert c ?e (res_tbl w)\<rparr>"
  have s1: "acquired_stretch now c fd n None w = Some (Reading fd n ?j ?b, ?w1)" "world_inv extR extV ?w1" "all_unlocked ?w1"
    using stretch_steps [OF inv un cam, of now None fd n] by (auto simp: announced_def next1)
  have cb: "c \<noteq> ?b" using b c by auto
  have b1: "ht_lookup (res_tbl ?w1) ?b = Some eb" using b(1) cb by simp
  have av: "available ?b PP_RESOURCE_BUFFER ?w1 eb"
    using world_inv_available [OF s1(2) b1] s1(3) b1 b(2) by (simp add: all_unlocked_def)
  let ?w2 = "?w1\<lparr>res_tbl := ht_insert ?b ?eb (res_tbl ?w1)\<rparr>"
  have s2: "read_stretch ?b (Some frame) ?w1 = Some ?w2"
    using read_stretch_buffer [OF av b(3), of "Some frame"] frame(1) by (simp add: frame_fits_def)
  have kept2: "world_inv extR extV ?w2" "all_unlocked ?w2" using read_stretch_frame(1,2) [OF s1(2,3) s2] by simp_all
  have cam2: "camera c ?w2 ?e ?vc" "arrays ?vc bs (fs[k := False])" "r_instance ?e = Some i"
    using cam cb by (simp_all add: camera_def arrays_def)
  have wp2: "with_plugin c k ?b (frame @ drop (length frame) (bf_data bf)) (Acquiring fd n (Some ?j), ?w2)"
    by (rule with_pluginI [OF cam2(1,2) go(3) k(1) refl, where eb = ?eb and bf = "filled_with (Some frame) bf"])
      (use k(2) b(2) in \<open>simp_all add: filled_with_def\<close>)
  obtain em ml where em: "ht_lookup (res_tbl w) m = Some em" "r_resource_type em = PP_RESOURCE_MESSAGE_LOOP"
    "r_payload em = PL_message_loop ml" using loop(2) unfolding takes_tasks_def by blast
  have m: "m \<noteq> c" "m \<noteq> ?b" using em c b by auto
  let ?a = "?w2\<lparr>res_tbl := ht_insert c (acquired ?e) (res_tbl ?w2)\<rparr>"
  have tq: "takes_tasks m ?a" "queue_of m ?a = Some q"
    using loop(2,3) m by (auto simp: takes_tasks_def queue_of_def loop_of_def)
  have "calm c ?a" unfolding calm_put by (rule world_inv_calm [OF kept2])
  from announced_queues [OF this m(1) tq, of now i ?j] obtain w3 where
    w3: "announced now i c m (Some ?j) ?a = Some w3"
    "queue_of m w3 = Some (q @ [posted now \<lparr>ccb_func = ON_BUFFER_READY_COMT, ccb_user_data = vc_next_param w, ccb_flags = 0\<rparr> PP_OK])"
    "vc_params w3 = ht_insert (vc_next_param w) \<lparr>br_instance = i, br_video_capture = c, br_buf_idx = ?j\<rparr> (vc_params w)" by auto
  let ?next = "next_stretch fd n ?vc bs (fs[k := False])"
  let ?w3 = "w3\<lparr>res_tbl := ht_insert c (?e\<lparr>r_payload := PL_video_capture (snd ?next)\<rparr>) (res_tbl w3)\<rparr>"
  have s3: "acquired_stretch now c fd n (Some ?j) ?w2 = Some (fst ?next, ?w3)"
    using stretch_steps [OF kept2 cam2, of now "Some ?j" fd n] w3(1) loop(1) by auto
  have step3: "thread_step now any c (Acquiring fd n (Some ?j)) ?w2 = Some (fst ?next, ?w3)" using s3 by simp
  have "queue_of m ?w3 = queue_of m w3" using m(1) by (simp add: queue_of_def loop_of_def)
  then show ?thesis
    using s1(1) s2 frame(2) step3 thread_keeps [OF kept2 wp2 step3] w3(2,3)
    by (intro exI [of _ ?w1] exI [of _ ?w2] exI [of _ "fst ?next"] exI [of _ ?w3]) simp
qed

section \<open>A sample\<close>

text \<open>Camera 1 with buffers 2 to 6 of four bytes; loop 7 takes its tasks.\<close>

definition camera_sample :: pp_video_capture_s where
  "camera_sample = \<lparr>vc_fd = 4, vc_width = 2, vc_height = 1, vc_fps = 15, vc_buffer_size = 4, vc_buffer_count = 5,
     vc_buffers = Some [2, 3, 4, 5, 6], vc_buffer_is_free = Some [False, True, True, True, True], vc_thread_started = True,
     vc_terminate_thread = False, vc_message_loop = 7\<rparr>"

definition vc_entry :: "pp_resource_type_e \<Rightarrow> PP_Resource \<Rightarrow> payload \<Rightarrow> pp_resource_s" where
  "vc_entry t r pl = \<lparr>r_resource_type = t, r_ref_cnt = 1, r_instance = Some 10, r_self_id = r, r_locked = False, r_payload = pl\<rparr>"

definition frame_sample :: pp_buffer_s where
  "frame_sample = \<lparr>bf_data = ''abcd'', bf_len = 4\<rparr>"

definition vc_types :: "pp_resource_type_e list" where
  "vc_types = [PP_RESOURCE_VIDEO_CAPTURE, PP_RESOURCE_BUFFER, PP_RESOURCE_MESSAGE_LOOP, PP_RESOURCE_DEVICE_REF]"

definition vc_sample :: vc_world where
  "vc_sample = world.extend ((started vc_types)\<lparr>
     res_tbl := (1, vc_entry PP_RESOURCE_VIDEO_CAPTURE 1 (PL_video_capture camera_sample)) #
       map (\<lambda>r. (r, vc_entry PP_RESOURCE_BUFFER r (PL_buffer frame_sample))) [2, 3, 4, 5, 6] @
       [(7, vc_entry PP_RESOURCE_MESSAGE_LOOP 7 (zero_payload PP_RESOURCE_MESSAGE_LOOP))],
     res_tbl_next := 8\<rparr>)
     \<lparr>vc_opened = [4], vc_calls = [], vc_params = [], vc_next_param = 0, vc_thread = []\<rparr>"

lemmas vc_sample_defs = vc_sample_def camera_sample_def vc_entry_def frame_sample_def vc_types_def started_def constructors_def
  tables_add_pp_instance_def tables_get_pp_instance_def world.defs

lemma vc_sample_inv: "world_inv {#1, 7#} {#} vc_sample"
proof -
  have "balanced r_ref_cnt res_kids {#1, 7#} (res_tbl vc_sample)"
    by (rule balancedI) (auto simp: vc_sample_defs ht_ok_def rc_at_def res_kids_def split: if_splits)
  moreover have "var_inv ({#} + held res_vars (res_tbl vc_sample)) vc_sample"
    by (simp add: var_inv_def vc_sample_defs res_vars_def entries_ok_def) (rule balancedI; simp add: ht_ok_def rc_at_def)
  moreover have "res_entries_ok vc_sample"
    by (auto simp: res_entries_ok_def res_entry_ok_def vc_sample_defs split: if_splits)
  ultimately show ?thesis by (simp add: world_inv_def)
qed

lemma vc_sample_facts:
  "all_unlocked vc_sample" "camera 1 vc_sample (vc_entry PP_RESOURCE_VIDEO_CAPTURE 1 (PL_video_capture camera_sample)) camera_sample"
  "arrays camera_sample [2, 3, 4, 5, 6] [False, True, True, True, True]"
  "free_at [False, True, True, True, True] = Some 1" "takes_tasks 7 vc_sample" "queue_of 7 vc_sample = Some []"
  by (auto simp: all_unlocked_def camera_def arrays_def free_at_def takes_tasks_def queue_of_def loop_of_def vc_sample_defs
    split: if_splits)

theorem frame_delivered_witness:
  "\<exists>w1 w2 t3 w3. thread_step \<lparr>tv_sec = 0, tv_nsec = 0\<rparr> None 1 (Acquiring 4 4 None) vc_sample = Some (Reading 4 4 1 3, w1) \<and>
    thread_step \<lparr>tv_sec = 0, tv_nsec = 0\<rparr> (Some ''xyz'') 1 (Reading 4 4 1 3) w1 = Some (Acquiring 4 4 (Some 1), w2) \<and>
    thread_step \<lparr>tv_sec = 0, tv_nsec = 0\<rparr> None 1 (Acquiring 4 4 (Some 1)) w2 = Some (t3, w3) \<and> with_plugin 1 1 3 ''xyzd'' (t3, w3)"
proof -
  have b: "ht_lookup (res_tbl vc_sample) ([2, 3, 4, 5, 6] ! 1) = Some (vc_entry PP_RESOURCE_BUFFER 3 (PL_buffer frame_sample))"
    by (simp add: vc_sample_defs)
  from frame_delivered [OF vc_sample_inv vc_sample_facts(1-3) _ _ vc_sample_facts(4) _ b, of 10 frame_sample "''xyz''" 4 7 "[]" "\<lparr>tv_sec = 0, tv_nsec = 0\<rparr>" None 4]
    vc_sample_facts(5,6)
  show ?thesis by (auto simp: vc_entry_def camera_sample_def frame_sample_def)
qed


section \<open>Opening twice and closing\<close>

definition vc_env_sample :: vc_env where
  "vc_env_sample = \<lparr>ve_has_interface = True, ve_probe_devices = True, ve_entries = None, ve_open = \<lambda>dev w. 9,
     ve_querycap = \<lambda>fd. Some (0x01000001, 0, ''camera''), ve_set_format = \<lambda>fd sz. Some (2, 1, 4), ve_can_alloc = \<lambda>n. True\<rparr>"

text \<open>
  A camera that is opened again takes a new descriptor and new buffers, but neither closes the old
  descriptor nor gives back the old buffers: they stay, and nothing refers to them.
\<close>

theorem camera_reopened_leaks:
  "case ppb_video_capture_open vc_env_sample \<lparr>tv_sec = 0, tv_nsec = 0\<rparr> 1 0 None 5 zero_ccb vc_sample of
     None \<Rightarrow> False
   | Some (r, w) \<Rightarrow> vc_opened w = [9, 4] \<and> closed_fds w = [] \<and>
       map_option (\<lambda>e. payload_fds (r_payload e)) (ht_lookup (res_tbl w) 1) = Some [9] \<and>
       map_option (\<lambda>e. payload_kids (r_payload e)) (ht_lookup (res_tbl w) 1) = Some [8, 9, 10, 11, 12] \<and>
       map (\<lambda>b. map_option r_ref_cnt (ht_lookup (res_tbl w) b)) [2, 3, 4, 5, 6] = [Some 1, Some 1, Some 1, Some 1, Some 1]"
  by code_simp

text \<open>
  Closing a camera closes its descriptor and removes its buffers, but keeps their number: giving a
  buffer back afterwards writes through a null pointer.
\<close>

theorem camera_closed_reuse_crashes:
  "case ppb_video_capture_close_end 1 vc_sample of
     None \<Rightarrow> False
   | Some w \<Rightarrow> closed_fds w = [4] \<and> map fst (res_tbl w) = [1, 7] \<and> ppb_video_capture_reuse_buffer 1 0 w = None"
  by code_simp

end
