(* ===== verification/Audio.thy ===== *)
theory Audio
  imports Plain_Resources Posting Graphics2d
begin

text \<open>
  \<^verbatim>\<open>ppb_audio.c\<close>, over whatever library makes the sound (\<open>audio_ops\<close>), and \<^verbatim>\<open>audio_thread_noaudio.c\<close>, the
  implementation that is used where there is none: a thread that asks the plugin for samples as fast as
  they would be played, and drops them. Its thread is a step (\<open>audio_turn\<close>) for each of its turns.
\<close>

section \<open>The interface of the libraries\<close>

text \<open>
  \<^verbatim>\<open>struct audio_stream_ops\<close>, what \<^verbatim>\<open>ppb_audio.c\<close> uses of it. A stream is given the resource it plays for;
  NULL is 0.
\<close>

record 'w audio_ops =
  ao_create_playback_stream :: "u32 \<Rightarrow> u32 \<Rightarrow> PP_Resource \<Rightarrow> 'w \<Rightarrow> ptr \<times> 'w"
  ao_pause :: "ptr \<Rightarrow> bool \<Rightarrow> 'w \<Rightarrow> 'w"
  ao_destroy :: "ptr \<Rightarrow> 'w \<Rightarrow> 'w"

fun the_audio :: "payload \<Rightarrow> pp_audio_s option" where
  "the_audio (PL_audio a) = Some a"
| "the_audio _ = None"

section \<open>Audio resources\<close>

text \<open>
  The bytes a plugin's callback leaves in the buffer come from outside (\<open>sound\<close>); those of a muted
  instance are dropped. The structure is reached through a pointer the resource's count does not know of.
\<close>

definition playback_cb ::
  "(ptr \<Rightarrow> nat \<Rightarrow> char list) \<Rightarrow> char list \<Rightarrow> nat \<Rightarrow> PP_Resource \<Rightarrow> 'a world_scheme \<Rightarrow> char list option" where
  "playback_cb sound buf sz user_data w = do {
     gr \<leftarrow> ht_lookup (res_tbl w) user_data;
     a \<leftarrow> the_audio (r_payload gr);
     i \<leftarrow> r_instance gr;
     pp_i \<leftarrow> tables_get_pp_instance i w;
     let buf = (if au_callback_1_0 a \<noteq> 0 then take sz (sound (au_callback_1_0 a) sz) @ drop sz buf
                else if au_callback_1_1 a \<noteq> 0 then take sz (sound (au_callback_1_1 a) sz) @ drop sz buf else buf);
     Some (if pi_is_muted pp_i then replicate sz NUL @ drop sz buf else buf)
   }"

definition give_up_audio :: "PP_Resource \<Rightarrow> 'a world_scheme \<Rightarrow> (PP_Resource \<times> 'a world_scheme) option" where
  "give_up_audio audio w = do {
     w \<leftarrow> pp_resource_release audio w;
     Some (0, pp_resource_expunge audio w)
   }"

text \<open>\<open>ops\<close> is what \<^verbatim>\<open>audio_select_implementation\<close> returned, if anything.\<close>

definition do_ppb_audio_create ::
  "'a world_scheme audio_ops option \<Rightarrow> PP_Instance \<Rightarrow> PP_Resource \<Rightarrow> ptr \<Rightarrow> ptr \<Rightarrow> ptr \<Rightarrow> 'a world_scheme \<Rightarrow>
   (PP_Resource \<times> 'a world_scheme) option" where
  "do_ppb_audio_create ops instance audio_config audio_callback_1_0 audio_callback_1_1 user_data w =
     (case tables_get_pp_instance instance w of
        None \<Rightarrow> Some (0, w)
      | Some pp_i \<Rightarrow>
          if audio_callback_1_0 = 0 \<and> audio_callback_1_1 = 0 then Some (PP_ERROR_BADARGUMENT, w)
          else do {
            (audio, w) \<leftarrow> pp_resource_allocate PP_RESOURCE_AUDIO (Some (pi_id pp_i)) w;
            (a, w) \<leftarrow> pp_resource_acquire audio PP_RESOURCE_AUDIO w;
            (case a of
               None \<Rightarrow> Some (0, w)
             | Some gr \<Rightarrow> do {
                 a \<leftarrow> the_audio (r_payload gr);
                 (ac, w) \<leftarrow> pp_resource_acquire audio_config PP_RESOURCE_AUDIO_CONFIG w;
                 (case ac of
                    None \<Rightarrow> give_up_audio audio w
                  | Some gc \<Rightarrow> do {
                      ac \<leftarrow> the_audio_config (r_payload gc);
                      w \<leftarrow> pp_resource_release audio_config w;
                      let a = a\<lparr>au_sample_rate := word_of_int (ac_sample_rate ac), au_sample_frame_count := ac_sample_frame_count ac,
                        au_callback_1_0 := audio_callback_1_0, au_callback_1_1 := audio_callback_1_1, au_user_data := user_data\<rparr>;
                      (case ops of
                         None \<Rightarrow> give_up_audio audio (res_write audio (PL_audio a) w)
                       | Some ops \<Rightarrow>
                           (case ao_create_playback_stream ops (au_sample_rate a) (au_sample_frame_count a) audio w of
                              (stream, w) \<Rightarrow>
                                if stream = 0 then give_up_audio audio (res_write audio (PL_audio a) w)
                                else do {
                                  w \<leftarrow> pp_resource_release audio (res_write audio (PL_audio (a\<lparr>au_stream := stream\<rparr>)) w);
                                  Some (audio, w)
                                }))
                    })
               })
          })"

definition ppb_audio_create_1_0 ::
  "'a world_scheme audio_ops option \<Rightarrow> PP_Instance \<Rightarrow> PP_Resource \<Rightarrow> ptr \<Rightarrow> ptr \<Rightarrow> 'a world_scheme \<Rightarrow> (PP_Resource \<times> 'a world_scheme) option" where
  "ppb_audio_create_1_0 ops instance audio_config audio_callback_1_0 user_data =
     do_ppb_audio_create ops instance audio_config audio_callback_1_0 0 user_data"

definition ppb_audio_create_1_1 ::
  "'a world_scheme audio_ops option \<Rightarrow> PP_Instance \<Rightarrow> PP_Resource \<Rightarrow> ptr \<Rightarrow> ptr \<Rightarrow> 'a world_scheme \<Rightarrow> (PP_Resource \<times> 'a world_scheme) option" where
  "ppb_audio_create_1_1 ops instance audio_config audio_callback_1_1 user_data =
     do_ppb_audio_create ops instance audio_config 0 audio_callback_1_1 user_data"

definition count_source :: "int \<Rightarrow> PP_Instance \<Rightarrow> 'a world_scheme \<Rightarrow> 'a world_scheme" where
  "count_source n i = change_instance i (\<lambda>p. p\<lparr>pi_audio_source_count := pi_audio_source_count p + n\<rparr>)"

text \<open>The destructor, on a structure of instance \<open>i\<close>.\<close>

definition ppb_audio_destroy :: "'a world_scheme audio_ops \<Rightarrow> PP_Instance \<Rightarrow> pp_audio_s \<Rightarrow> 'a world_scheme \<Rightarrow> 'a world_scheme" where
  "ppb_audio_destroy ops i a w =
     ao_destroy ops (au_stream a) (if au_is_playing a then count_source (- 1) i w else w)"

definition ppb_audio_is_audio :: "PP_Resource \<Rightarrow> 'a res_state_scheme \<Rightarrow> bool" where
  "ppb_audio_is_audio resource w \<longleftrightarrow> pp_resource_get_type resource w = PP_RESOURCE_AUDIO"

definition ppb_audio_get_current_config :: "PP_Resource \<Rightarrow> 'a world_scheme \<Rightarrow> (PP_Resource \<times> 'a world_scheme) option" where
  "ppb_audio_get_current_config audio w =
     with_resource audio PP_RESOURCE_AUDIO 0
       (\<lambda>gr w. do {
          a \<leftarrow> the_audio (r_payload gr);
          (audio_config, w) \<leftarrow> pp_resource_allocate PP_RESOURCE_AUDIO_CONFIG (r_instance gr) w;
          with_resource audio_config PP_RESOURCE_AUDIO_CONFIG 0
            (\<lambda>_ w. Some (audio_config, res_write audio_config
               (PL_audio_config \<lparr>ac_sample_rate = sint (au_sample_rate a), ac_sample_frame_count = au_sample_frame_count a\<rparr>) w)) w
        }) w"

text \<open>What the browser is told, on its thread: the address of its instance and the answer.\<close>

definition update_instance_playing_audio_status_ptac :: "PP_Instance \<Rightarrow> 'a world_scheme \<Rightarrow> (ptr \<times> bool) option" where
  "update_instance_playing_audio_status_ptac instance w =
     map_option (\<lambda>pp_i. (pi_npp pp_i, 0 < pi_audio_source_count pp_i)) (tables_get_pp_instance instance w)"

text \<open>Starting and stopping differ in the flag alone.\<close>

definition set_playing ::
  "'a world_scheme audio_ops \<Rightarrow> timespec \<Rightarrow> ptr \<Rightarrow> ptr \<Rightarrow> bool \<Rightarrow> PP_Resource \<Rightarrow> 'a world_scheme \<Rightarrow> (bool \<times> 'a world_scheme) option" where
  "set_playing ops now comt task play audio w = do {
     (p, w) \<leftarrow> pp_resource_acquire audio PP_RESOURCE_AUDIO w;
     (case p of
        None \<Rightarrow> Some (False, w)
      | Some gr \<Rightarrow> do {
          a \<leftarrow> the_audio (r_payload gr);
          i \<leftarrow> r_instance gr;
          pp_i \<leftarrow> tables_get_pp_instance i w;
          let w = ao_pause ops (au_stream a) (\<not> play) w;
          let w = (if au_is_playing a \<noteq> play
            then res_write audio (PL_audio (a\<lparr>au_is_playing := play\<rparr>)) (count_source (if play then 1 else - 1) i w) else w);
          w \<leftarrow> pp_resource_release audio w;
          (_, w) \<leftarrow> ppb_core_call_on_browser_thread comt now i task w;
          Some (True, w)
        })
   }"

definition ppb_audio_start_playback ::
  "'a world_scheme audio_ops \<Rightarrow> timespec \<Rightarrow> ptr \<Rightarrow> ptr \<Rightarrow> PP_Resource \<Rightarrow> 'a world_scheme \<Rightarrow> (bool \<times> 'a world_scheme) option" where
  "ppb_audio_start_playback ops now comt task audio w = set_playing ops now comt task True audio w"

definition ppb_audio_stop_playback ::
  "'a world_scheme audio_ops \<Rightarrow> timespec \<Rightarrow> ptr \<Rightarrow> ptr \<Rightarrow> PP_Resource \<Rightarrow> 'a world_scheme \<Rightarrow> (bool \<times> 'a world_scheme) option" where
  "ppb_audio_stop_playback ops now comt task audio w = set_playing ops now comt task False audio w"

section \<open>No sound at all\<close>

record audio_stream_s =
  as_sample_frame_count :: u64
  as_sample_rate :: u64
  as_samples_wanted :: u64
  as_cb_user_data :: PP_Resource
  as_paused :: bool
  as_alive :: bool

text \<open>\<open>audio_buf\<close> is the thread's static buffer; \<open>played\<close> records whom it asked for how many bytes.\<close>

record audio_world = world +
  active_streams_ht :: "(ptr, audio_stream_s) hash_table"
  next_stream :: ptr
  audio_thread_started :: bool
  audio_buf :: "char list"
  played :: "(PP_Resource \<times> nat) list"

definition noaudio_create_stream :: "(ptr \<Rightarrow> bool) \<Rightarrow> u32 \<Rightarrow> u32 \<Rightarrow> PP_Resource \<Rightarrow> audio_world \<Rightarrow> ptr \<times> audio_world" where
  "noaudio_create_stream can_alloc sample_rate sample_frame_count cb_user_data w =
     (let w = w\<lparr>audio_thread_started := True\<rparr>; as = next_stream w
      in if \<not> can_alloc as then (0, w)
      else (as, w\<lparr>next_stream := as + 1, active_streams_ht := ht_insert as
        \<lparr>as_sample_frame_count = ucast sample_frame_count, as_sample_rate = ucast sample_rate, as_samples_wanted = 0,
         as_cb_user_data = cb_user_data, as_paused = True, as_alive = True\<rparr> (active_streams_ht w)\<rparr>))"

definition noaudio_create_playback_stream :: "(ptr \<Rightarrow> bool) \<Rightarrow> u32 \<Rightarrow> u32 \<Rightarrow> PP_Resource \<Rightarrow> audio_world \<Rightarrow> ptr \<times> audio_world" where
  "noaudio_create_playback_stream can_alloc sample_rate sample_frame_count cb_user_data w =
     noaudio_create_stream can_alloc sample_rate sample_frame_count cb_user_data w"

definition noaudio_create_capture_stream :: "u32 \<Rightarrow> u32 \<Rightarrow> ptr" where
  "noaudio_create_capture_stream sample_rate sample_frame_count = 0"

definition noaudio_enumerate_capture_devices :: "(string \<times> string) list" where
  "noaudio_enumerate_capture_devices = []"

definition change_stream :: "ptr \<Rightarrow> (audio_stream_s \<Rightarrow> audio_stream_s) \<Rightarrow> audio_world \<Rightarrow> audio_world" where
  "change_stream as f w =
     (case ht_lookup (active_streams_ht w) as of
        None \<Rightarrow> w
      | Some s \<Rightarrow> w\<lparr>active_streams_ht := ht_insert as (f s) (active_streams_ht w)\<rparr>)"

definition noaudio_pause_stream :: "ptr \<Rightarrow> bool \<Rightarrow> audio_world \<Rightarrow> audio_world" where
  "noaudio_pause_stream as enabled = change_stream as (\<lambda>s. s\<lparr>as_paused := enabled\<rparr>)"

definition noaudio_destroy_stream :: "ptr \<Rightarrow> audio_world \<Rightarrow> audio_world" where
  "noaudio_destroy_stream as = change_stream as (\<lambda>s. s\<lparr>as_alive := False\<rparr>)"

definition noaudio_available :: bool where "noaudio_available = True"

definition audio_noaudio :: "(ptr \<Rightarrow> bool) \<Rightarrow> audio_world audio_ops" where
  "audio_noaudio can_alloc = \<lparr>ao_create_playback_stream = noaudio_create_playback_stream can_alloc,
     ao_pause = noaudio_pause_stream, ao_destroy = noaudio_destroy_stream\<rparr>"

section \<open>The thread\<close>

abbreviation (input) delay_ms :: u64 where "delay_ms \<equiv> 20"
abbreviation (input) sample_size :: u64 where "sample_size \<equiv> 4"

definition buf_size :: "audio_stream_s \<Rightarrow> u64" where
  "buf_size as = min (as_sample_frame_count as * sample_size) (16 * 1024)"

text \<open>
  The inner loop: a full buffer at a time while more than one is wanted. It needs not end. The callback is
  given the structure of the stream's resource, which must be there. The first result is what is still
  wanted.
\<close>

partial_function (option) serve ::
  "(ptr \<Rightarrow> nat \<Rightarrow> char list) \<Rightarrow> PP_Resource \<Rightarrow> u64 \<Rightarrow> u64 \<Rightarrow> audio_world \<Rightarrow> (u64 \<times> audio_world) option" where
  [code]: "serve sound user_data sz wanted w =
     (if wanted * sample_size > sz then
        (case playback_cb sound (audio_buf w) (unat sz) user_data w of
           None \<Rightarrow> None
         | Some buf \<Rightarrow> serve sound user_data sz (wanted - sz div sample_size)
             (w\<lparr>audio_buf := buf, played := played w @ [(user_data, unat sz)]\<rparr>))
      else Some (wanted, w))"

definition stream_turn :: "(ptr \<Rightarrow> nat \<Rightarrow> char list) \<Rightarrow> ptr \<Rightarrow> audio_stream_s \<Rightarrow> audio_world \<Rightarrow> audio_world option" where
  "stream_turn sound p as w =
     (if as_alive as then do {
        (wanted, w) \<leftarrow> serve sound (as_cb_user_data as) (buf_size as)
          (as_samples_wanted as + as_sample_rate as * delay_ms div 1000) w;
        Some (change_stream p (\<lambda>s. s\<lparr>as_samples_wanted := wanted\<rparr>) w)
      }
      else Some (w\<lparr>active_streams_ht := ht_remove p (active_streams_ht w)\<rparr>))"

fun turn_of :: "(ptr \<Rightarrow> nat \<Rightarrow> char list) \<Rightarrow> ptr list \<Rightarrow> audio_world \<Rightarrow> audio_world option" where
  "turn_of sound [] w = Some w"
| "turn_of sound (p # ps) w = do {
     as \<leftarrow> ht_lookup (active_streams_ht w) p;
     w \<leftarrow> stream_turn sound p as w;
     turn_of sound ps w
   }"

definition audio_turn :: "(ptr \<Rightarrow> nat \<Rightarrow> char list) \<Rightarrow> audio_world \<Rightarrow> audio_world option" where
  "audio_turn sound w = turn_of sound (map fst (active_streams_ht w)) w"

text \<open>The thread's loop, for as many turns as it makes before the program ends.\<close>

primrec audio_turns :: "(ptr \<Rightarrow> nat \<Rightarrow> char list) \<Rightarrow> nat \<Rightarrow> audio_world \<Rightarrow> audio_world option" where
  "audio_turns sound 0 w = Some w"
| "audio_turns sound (Suc m) w = Option.bind (audio_turn sound w) (audio_turns sound m)"

end
