(* ===== verification/Audio_Correct.thy ===== *)
theory Audio_Correct
  imports Audio Graphics2d_Correct
begin

text \<open>
  An instance counts the resources that play for it, whatever library makes the sound; without one the
  thread asks for as many samples as would have been played.
\<close>

section \<open>Counting the sources\<close>

definition is_playing :: "PP_Instance \<Rightarrow> pp_resource_s \<Rightarrow> bool" where
  "is_playing i e \<longleftrightarrow> r_instance e = Some i \<and> (case the_audio (r_payload e) of Some a \<Rightarrow> au_is_playing a | None \<Rightarrow> False)"

definition playing :: "PP_Instance \<Rightarrow> (PP_Resource, pp_resource_s) hash_table \<Rightarrow> nat" where
  "playing i t = size (held (\<lambda>e. if is_playing i e then [()] else []) t)"

definition sources_counted :: "'a world_scheme \<Rightarrow> bool" where
  "sources_counted w \<longleftrightarrow>
     (\<forall>i pp_i. tables_get_pp_instance i w = Some pp_i \<longrightarrow> pi_audio_source_count pp_i = int (playing i (res_tbl w)))"

lemma playing_update:
  assumes "ht_lookup t r = Some e" "ht_ok t"
  shows "playing i (ht_insert r e' t) + (if is_playing i e then 1 else 0) = playing i t + (if is_playing i e' then 1 else 0)"
proof -
  let ?f = "\<lambda>e. if is_playing i e then [()] else []"
  have "size (held ?f (ht_insert r e' t) + mset (?f e)) = size (held ?f t + mset (?f e'))"
    using held_insert_update [OF assms, of ?f e'] by simp
  then show ?thesis by (simp add: playing_def split: if_splits)
qed

lemma playing_same:
  assumes "ht_lookup t r = Some e" "ht_ok t" "\<And>i. is_playing i e' = is_playing i e"
  shows "playing i (ht_insert r e' t) = playing i t"
  using playing_update [OF assms(1,2), of i e'] assms(3) by simp

text \<open>
  What the interface asks of a library: pausing, starting and ending a stream concern its own state, not
  the program's tables.
\<close>

locale audio_backend =
  fixes ops :: "'a world_scheme audio_ops"
  assumes pause: "\<exists>x. ao_pause ops s p w = w\<lparr>world.more := x\<rparr>"
    and destroy: "\<exists>x. ao_destroy ops s w = w\<lparr>world.more := x\<rparr>"
begin

lemma set_playing_counts:
  assumes inv: "world_inv extR extV w" and un: "all_unlocked w" and cnt: "sources_counted w"
    and e: "ht_lookup (res_tbl w) r = Some e" "r_payload e = PL_audio a" "r_instance e = Some i"
    and i: "tables_get_pp_instance i w = Some pp_i"
  shows "\<exists>w'. set_playing ops now comt task play r w = Some (True, w') \<and> world_inv extR extV w' \<and> all_unlocked w' \<and>
    sources_counted w' \<and> ht_lookup (res_tbl w') r = Some (e\<lparr>r_payload := PL_audio (a\<lparr>au_is_playing := play\<rparr>)\<rparr>)"
proof -
  have ul: "\<not> r_locked e" using un e(1) by (simp add: all_unlocked_def)
  have fits: "payload_fits (r_resource_type e) (r_payload e)" by (rule world_inv_available(2) [OF inv e(1) ul])
  have t: "r_resource_type e = PP_RESOURCE_AUDIO" using fits e(2) by simp
  have av: "available r PP_RESOURCE_AUDIO w e" using world_inv_available(1) [OF inv e(1) ul] t by simp
  have pos: "0 < r_ref_cnt e" using av by (simp add: available_def)
  let ?n = "if au_is_playing a = play then 0 else if play then 1 else - 1"
  let ?e = "e\<lparr>r_payload := PL_audio (a\<lparr>au_is_playing := play\<rparr>)\<rparr>"
  let ?w1 = "w\<lparr>res_tbl := ht_insert r (acquired e) (res_tbl w)\<rparr>"
  obtain x where x: "ao_pause ops (au_stream a) (\<not> play) ?w1 = ?w1\<lparr>world.more := x\<rparr>" using pause by blast
  let ?w2 = "?w1\<lparr>world.more := x\<rparr>"
  let ?w3 = "if au_is_playing a \<noteq> play
      then res_write r (PL_audio (a\<lparr>au_is_playing := play\<rparr>)) (count_source (if play then 1 else - 1) i ?w2) else ?w2"
  let ?w4 = "(count_source ?n i w)\<lparr>world.more := x, res_tbl := ht_insert r ?e (res_tbl w)\<rparr>"
  have same: "a\<lparr>au_is_playing := play\<rparr> = a" if "au_is_playing a = play" using that by (cases a) simp
  have pl: "e\<lparr>r_payload := PL_audio a\<rparr> = e" using e(2) by (cases e) simp
  have zero: "count_source 0 i w = w"
    using i by (cases w) (simp add: count_source_def change_instance_def tables_get_pp_instance_def ht_insert_same)
  have rel: "pp_resource_release r ?w3 = Some ?w4"
  proof (cases "au_is_playing a = play")
    case True
    have "?e = e" unfolding same [OF True] by (rule pl)
    with True show ?thesis using zero ul pos by (cases e; cases w) (simp add: release_counted)
  next
    case False
    then show ?thesis
      using ul pos i
      by (cases e; cases w) (simp add: release_counted res_write_def count_source_def change_instance_def tables_get_pp_instance_def)
  qed
  have frame: "world_inv extR extV (u\<lparr>world.more := y\<rparr>) = world_inv extR extV u" for u y
    by (simp add: world_inv_def var_inv_def entries_ok_def res_entries_ok_def res_entry_ok_def)
  have "world_inv extR extV (w\<lparr>res_tbl := ht_insert r ?e (res_tbl w)\<rparr>)"
    by (rule world_inv_write [OF inv e(1)]) (use e(2) t in simp_all)
  then have "world_inv extR extV (count_source ?n i (w\<lparr>res_tbl := ht_insert r ?e (res_tbl w)\<rparr>))"
    by (simp add: count_source_def)
  moreover have "count_source ?n i (w\<lparr>res_tbl := ht_insert r ?e (res_tbl w)\<rparr>)\<lparr>world.more := x\<rparr> = ?w4"
    using i by (simp add: count_source_def change_instance_def tables_get_pp_instance_def)
  ultimately have inv4: "world_inv extR extV ?w4" using frame by metis
  have t4: "res_tbl ?w4 = ht_insert r ?e (res_tbl w)" by simp
  have un4: "all_unlocked ?w4" using un ul by (auto simp: all_unlocked_def)
  have cnt4: "sources_counted ?w4"
    unfolding sources_counted_def
  proof (intro allI impI)
    fix j pj assume j: "tables_get_pp_instance j ?w4 = Some pj"
    have ok: "ht_ok (res_tbl w)" using balancedD_ok [OF world_invD(1) [OF inv]] .
    have "is_playing j e = (j = i \<and> au_is_playing a)" "is_playing j ?e = (j = i \<and> play)"
      using e(2,3) by (auto simp: is_playing_def)
    with playing_update [OF e(1) ok, of j ?e]
    have p: "int (playing j (res_tbl ?w4)) = int (playing j (res_tbl w)) + (if j = i then ?n else 0)" by auto
    have g: "tables_get_pp_instance j ?w4 = tables_get_pp_instance j (count_source ?n i w)" by (simp add: tables_get_pp_instance_def)
    show "pi_audio_source_count pj = int (playing j (res_tbl ?w4))"
    proof (cases "j = i")
      case True
      then have "pj = pp_i\<lparr>pi_audio_source_count := pi_audio_source_count pp_i + ?n\<rparr>" using j i unfolding g by (simp add: count_source_def)
      then show ?thesis using cnt i True unfolding p by (simp add: sources_counted_def)
    next
      case False
      then have "tables_get_pp_instance j w = Some pj" using j unfolding g by (simp add: count_source_def)
      then show ?thesis using cnt False unfolding p by (simp add: sources_counted_def)
    qed
  qed
  have "quiet r ?w4" using un t by (auto simp: quiet_def all_unlocked_def)
  from post_loops_only [OF inv4 this] obtain y w5 where
    w5: "ppb_message_loop_post_work_with_result now (ppb_message_loop_get_for_browser_thread ?w4)
      \<lparr>ccb_func = comt, ccb_user_data = task, ccb_flags = 0\<rparr> 0 PP_OK 0 ?w4 = Some (y, w5)" "loops_only w5 ?w4" by blast
  have set: "set_playing ops now comt task play r w = Some (True, w5)"
  proof -
    have "the_audio (r_payload (acquired e)) = Some a" "r_instance (acquired e) = Some i" "tables_get_pp_instance i ?w1 = Some pp_i"
      using e(2,3) i by (simp_all add: tables_get_pp_instance_def)
    then have "set_playing ops now comt task play r w = do {
        w \<leftarrow> pp_resource_release r ?w3;
        (_, w) \<leftarrow> ppb_core_call_on_browser_thread comt now i task w;
        Some (True, w) }"
      unfolding set_playing_def acquire_available [OF av] by (simp add: x)
    then show ?thesis unfolding rel using w5(1) by (simp add: ppb_core_call_on_browser_thread_def split: option.split)
  qed
  have "sources_counted w5"
    using w5(2) unfolding loops_only_def
  proof (elim disjE exE conjE)
    assume "w5 = ?w4" then show ?thesis using cnt4 by simp
  next
    fix m em ml tk
    assume m: "ht_lookup (res_tbl ?w4) m = Some em" "r_payload em = PL_message_loop ml" "w5 = put_res m (em\<lparr>r_payload := push_task tk ml\<rparr>) ?w4"
    have "playing j (res_tbl w5) = playing j (res_tbl ?w4)" for j
      unfolding m(3) put_res_def using playing_same [OF m(1), of "em\<lparr>r_payload := push_task tk ml\<rparr>" j] m(2)
        balancedD_ok [OF world_invD(1) [OF inv4]] by (simp add: is_playing_def push_task_def)
    moreover have "tables_get_pp_instance j w5 = tables_get_pp_instance j ?w4" for j
      by (simp add: m(3) put_res_def tables_get_pp_instance_def)
    ultimately show ?thesis using cnt4 by (simp add: sources_counted_def)
  qed
  moreover have "all_unlocked w5"
  proof -
    have "ht_lookup (res_tbl ?w4) 0 = None"
      using world_inv_entry [OF inv4, of 0] by (cases "ht_lookup (res_tbl ?w4) 0") (simp_all add: res_entry_ok_def)
    then have "quiet 0 ?w4" using un4 unfolding quiet_def all_unlocked_def by (metis option.distinct(1))
    from loops_only_quiet [OF w5(2) this] have "quiet 0 w5" .
    moreover have "ht_lookup (res_tbl w5) 0 = None"
      using world_inv_entry [OF loops_only_inv [OF w5(2) inv4], of 0] by (cases "ht_lookup (res_tbl w5) 0") (simp_all add: res_entry_ok_def)
    ultimately show ?thesis unfolding quiet_def all_unlocked_def by (metis option.distinct(1))
  qed
  moreover have "ht_lookup (res_tbl w5) r = Some ?e" by (rule loops_only_frame(7) [OF w5(2)]) (simp_all add: t)
  ultimately show ?thesis using set loops_only_inv [OF w5(2) inv4] by blast
qed

lemma destroyed_counts:
  assumes "ht_lookup (res_tbl w) r = Some e" "r_payload e = PL_audio a" "r_instance e = Some i" "ht_ok (res_tbl w)" "sources_counted w"
  shows "sources_counted (ppb_audio_destroy ops i a (w\<lparr>res_tbl := ht_remove r (res_tbl w)\<rparr>))"
proof -
  let ?w = "w\<lparr>res_tbl := ht_remove r (res_tbl w)\<rparr>"
  let ?v = "if au_is_playing a then count_source (- 1) i ?w else ?w"
  have p: "playing j (ht_remove r (res_tbl w)) + (if is_playing j e then 1 else 0) = playing j (res_tbl w)" for j
  proof -
    have "held (\<lambda>e. if is_playing j e then [()] else []) (ht_remove r (res_tbl w)) + mset (if is_playing j e then [()] else []) =
        held (\<lambda>e. if is_playing j e then [()] else []) (res_tbl w)"
      by (rule held_remove [OF assms(1,4), symmetric])
    from arg_cong [OF this, of size] show ?thesis by (simp add: playing_def split: if_splits)
  qed
  have "sources_counted ?v"
    unfolding sources_counted_def
  proof (intro allI impI)
    fix j pj assume j: "tables_get_pp_instance j ?v = Some pj"
    have pe: "is_playing j e = (j = i \<and> au_is_playing a)" using assms(2,3) by (auto simp: is_playing_def)
    have c: "\<And>pj. tables_get_pp_instance j w = Some pj \<Longrightarrow> pi_audio_source_count pj = int (playing j (res_tbl w))"
      using assms(5) by (simp add: sources_counted_def)
    have g: "tables_get_pp_instance j ?w = tables_get_pp_instance j w" by (simp add: tables_get_pp_instance_def)
    have v: "res_tbl ?v = ht_remove r (res_tbl w)" by (simp add: count_source_def)
    show "pi_audio_source_count pj = int (playing j (res_tbl ?v))"
      using j c p [of j] pe g unfolding v by (auto simp: count_source_def split: if_splits)
  qed
  moreover obtain x where "ao_destroy ops (au_stream a) ?v = ?v\<lparr>world.more := x\<rparr>" using destroy by blast
  ultimately show ?thesis by (simp add: ppb_audio_destroy_def sources_counted_def tables_get_pp_instance_def)
qed

lemma set_playing_keeps:
  assumes inv: "world_inv extR extV w" "all_unlocked w" "sources_counted w"
    and s: "set_playing ops now comt task play r w = Some (x, w')"
  shows "world_inv extR extV w' \<and> all_unlocked w' \<and> sources_counted w'"
proof (cases "pp_resource_get_type r w \<noteq> PP_RESOURCE_AUDIO \<or> ht_lookup (res_tbl w) r = None")
  case True
  then show ?thesis using s inv by (auto simp: set_playing_def acquire_bad)
next
  case False
  then obtain e where e: "ht_lookup (res_tbl w) r = Some e" "r_resource_type e = PP_RESOURCE_AUDIO"
    by (auto simp: pp_resource_get_type_def)
  have ul: "\<not> r_locked e" using inv(2) e(1) by (simp add: all_unlocked_def)
  note av = world_inv_available [OF inv(1) e(1) ul, unfolded e(2)]
  from av(2) obtain a where a: "r_payload e = PL_audio a" by (cases "r_payload e") auto
  from s obtain i pp_i where i: "r_instance e = Some i" "tables_get_pp_instance i w = Some pp_i"
    by (auto simp: set_playing_def acquire_available [OF av(1)] a tables_get_pp_instance_def bind_eq_Some_conv)
  from set_playing_counts [OF inv e(1) a i, of now comt task play] s show ?thesis by auto
qed

end

text \<open>The library that makes no sound keeps to that.\<close>

interpretation noaudio: audio_backend "audio_noaudio can_alloc"
proof
  show "\<exists>x. ao_pause (audio_noaudio can_alloc) s p w = w\<lparr>world.more := x\<rparr>" for s p w
    by (cases w) (auto simp: audio_noaudio_def noaudio_pause_stream_def change_stream_def split: option.split)
  show "\<exists>x. ao_destroy (audio_noaudio can_alloc) s w = w\<lparr>world.more := x\<rparr>" for s w
    by (cases w) (auto simp: audio_noaudio_def noaudio_destroy_stream_def change_stream_def split: option.split)
qed

section \<open>Samples\<close>

text \<open>One turn of the inner loop at a time, on natural numbers.\<close>

definition can_play :: "audio_world \<Rightarrow> PP_Resource \<Rightarrow> bool" where
  "can_play w r \<longleftrightarrow> (\<exists>e a i pp_i. ht_lookup (res_tbl w) r = Some e \<and> r_payload e = PL_audio a \<and> r_instance e = Some i \<and>
     tables_get_pp_instance i w = Some pp_i)"

lemma can_play_cb: "can_play w r \<Longrightarrow> \<exists>b. playback_cb sound buf sz r w = Some b"
  by (auto simp: can_play_def playback_cb_def Let_def)

lemma serve_asks:
  assumes "can_play w r" "sz = 4 * b" "0 < b" "b \<le> 4096" "wanted < 2 ^ 61"
  shows "\<exists>k buf. serve sound r (word_of_nat sz) (word_of_nat wanted) w =
      Some (word_of_nat (wanted - k * b), w\<lparr>audio_buf := buf, played := played w @ replicate k (r, sz)\<rparr>) \<and>
    k * b \<le> wanted \<and> wanted - k * b \<le> b"
  using assms
proof (induction wanted arbitrary: w rule: less_induct)
  case (less wanted)
  have small: "unat (word_of_nat sz :: u64) = sz" "unat (word_of_nat wanted * 4 :: u64) = wanted * 4" "unat (word_of_nat sz div 4 :: u64) = b"
    using less.prems by (simp_all add: unat_word_ariths unsigned_of_nat take_bit_nat_eq_self)
  show ?case
  proof (cases "wanted \<le> b")
    case True
    then have "\<not> (word_of_nat sz :: u64) < word_of_nat wanted * 4" using small less.prems(2) by (simp add: word_less_nat_alt)
    then show ?thesis
      using True by (intro exI [of _ 0] exI [of _ "audio_buf w"]) (simp add: serve.simps)
  next
    case False
    then have more: "(word_of_nat sz :: u64) < word_of_nat wanted * 4" using small less.prems(2) by (simp add: word_less_nat_alt)
    obtain buf where buf: "playback_cb sound (audio_buf w) sz r w = Some buf" using can_play_cb [OF less.prems(1)] by blast
    let ?w = "w\<lparr>audio_buf := buf, played := played w @ [(r, sz)]\<rparr>"
    have "(word_of_nat sz :: u64) div 4 = word_of_nat b"
      using small(3) less.prems(4) by (simp add: word_unat_eq_iff unsigned_of_nat take_bit_nat_eq_self)
    then have sub: "word_of_nat wanted - word_of_nat sz div (4 :: u64) = word_of_nat (wanted - b)"
      using False by (simp add: of_nat_diff)
    have "serve sound r (word_of_nat sz) (word_of_nat wanted) w = serve sound r (word_of_nat sz) (word_of_nat (wanted - b)) ?w"
      using more buf small(1) sub by (subst serve.simps) simp
    moreover have "can_play ?w r" using less.prems(1) by (simp add: can_play_def tables_get_pp_instance_def)
    moreover have "wanted - b < wanted" "wanted - b < 2 ^ 61" using False less.prems(3,5) by simp_all
    ultimately obtain k buf' where k: "serve sound r (word_of_nat sz) (word_of_nat wanted) w =
        Some (word_of_nat (wanted - b - k * b), ?w\<lparr>audio_buf := buf', played := played ?w @ replicate k (r, sz)\<rparr>)"
      "k * b \<le> wanted - b" "wanted - b - k * b \<le> b"
      using less.IH [of "wanted - b" ?w] less.prems(2-4) by auto
    have "Suc k * b \<le> wanted" "wanted - Suc k * b = wanted - b - k * b" using k(2) False by simp_all
    then show ?thesis using k(1,3) by (intro exI [of _ "Suc k"] exI [of _ buf']) simp
  qed
qed

section \<open>Any sequence of calls and turns\<close>

text \<open>What a turn of the thread changes is its own state.\<close>

lemma more_trans: "\<exists>x. u = v\<lparr>world.more := x\<rparr> \<Longrightarrow> \<exists>x. v = w\<lparr>world.more := x\<rparr> \<Longrightarrow> \<exists>x. u = w\<lparr>world.more := x\<rparr>"
  by (cases w) auto

lemma more_buffers: "\<exists>x. w\<lparr>audio_buf := b, played := p\<rparr> = w\<lparr>world.more := x\<rparr>"
  by (cases w) auto

lemma serve_frame:
  assumes "serve sound r sz wanted w = Some y"
  shows "\<exists>x. snd y = w\<lparr>world.more := x\<rparr>"
proof (rule serve.raw_induct [where P = "\<lambda>_ _ _ _ w y. \<exists>x. snd y = w\<lparr>world.more := x\<rparr>", OF _ assms])
  fix f sound r sz wanted w y
  assume IH: "\<And>sound r sz wanted w y. f sound r sz wanted w = Some y \<Longrightarrow> \<exists>x. snd y = w\<lparr>world.more := x\<rparr>"
    and body: "(if sz < wanted * sample_size then
        case playback_cb sound (audio_buf w) (unat sz) r w of None \<Rightarrow> None
        | Some buf \<Rightarrow> f sound r sz (wanted - sz div sample_size)
            (w\<lparr>audio_buf := buf, played := played w @ [(r, unat sz)]\<rparr>)
      else Some (wanted, w)) = Some y"
  show "\<exists>x. snd y = w\<lparr>world.more := x\<rparr>"
  proof (cases "sz < wanted * sample_size")
    case True
    with body obtain buf where "f sound r sz (wanted - sz div sample_size)
        (w\<lparr>audio_buf := buf, played := played w @ [(r, unat sz)]\<rparr>) = Some y" by (auto split: option.splits)
    from more_trans [OF IH [OF this] more_buffers] show ?thesis .
  next
    case False
    then show ?thesis using body by (cases w) auto
  qed
qed

lemma change_stream_frame: "\<exists>x. change_stream p f w = w\<lparr>world.more := x\<rparr>"
  by (cases w) (auto simp: change_stream_def split: option.split)

lemma stream_turn_frame: "stream_turn sound p as w = Some w' \<Longrightarrow> \<exists>x. w' = w\<lparr>world.more := x\<rparr>"
proof (cases "as_alive as")
  case True
  assume "stream_turn sound p as w = Some w'"
  with True obtain n v where v: "serve sound (as_cb_user_data as) (buf_size as)
      (as_samples_wanted as + as_sample_rate as * delay_ms div 1000) w = Some (n, v)"
    "w' = change_stream p (\<lambda>s. s\<lparr>as_samples_wanted := n\<rparr>) v" by (auto simp: stream_turn_def bind_eq_Some_conv)
  show ?thesis unfolding v(2) by (rule more_trans [OF change_stream_frame]) (use serve_frame [OF v(1)] in simp)
qed (cases w; auto simp: stream_turn_def)

lemma turn_frame: "turn_of sound ps w = Some w' \<Longrightarrow> \<exists>x. w' = w\<lparr>world.more := x\<rparr>"
proof (induction ps arbitrary: w)
  case Nil
  then show ?case by (cases w) auto
next
  case (Cons p ps)
  then obtain as v where "stream_turn sound p as w = Some v" "turn_of sound ps v = Some w'" by (auto simp: bind_eq_Some_conv)
  from more_trans [OF Cons.IH [OF this(2)] stream_turn_frame [OF this(1)]] show ?case .
qed

text \<open>Whatever the plugin starts and stops, and whenever the thread takes its turn.\<close>

inductive audio_step :: "(ptr \<Rightarrow> bool) \<Rightarrow> audio_world \<Rightarrow> audio_world \<Rightarrow> bool" for can_alloc where
  start: "ppb_audio_start_playback (audio_noaudio can_alloc) now comt task r w = Some (x, w') \<Longrightarrow> audio_step can_alloc w w'"
| stop: "ppb_audio_stop_playback (audio_noaudio can_alloc) now comt task r w = Some (x, w') \<Longrightarrow> audio_step can_alloc w w'"
| turn: "audio_turn sound w = Some w' \<Longrightarrow> audio_step can_alloc w w'"

lemma audio_step_keeps:
  assumes "audio_step can_alloc w w'" "world_inv extR extV w" "all_unlocked w" "sources_counted w"
  shows "world_inv extR extV w' \<and> all_unlocked w' \<and> sources_counted w'"
  using assms(1)
proof cases
  case start
  then show ?thesis using noaudio.set_playing_keeps [OF assms(2-4)] unfolding ppb_audio_start_playback_def by blast
next
  case stop
  then show ?thesis using noaudio.set_playing_keeps [OF assms(2-4)] unfolding ppb_audio_stop_playback_def by blast
next
  case (turn sound)
  then obtain x where "w' = w\<lparr>world.more := x\<rparr>" unfolding audio_turn_def using turn_frame by blast
  then show ?thesis
    using assms(2-4) by (simp add: world_inv_def var_inv_def entries_ok_def res_entries_ok_def res_entry_ok_def all_unlocked_def
      sources_counted_def tables_get_pp_instance_def)
qed

text \<open>
  C17: Whatever sequence of starts, stops and turns of the thread happens, the number an instance shows to
  the browser is that of the audio resources that play for it, and every count stays exact.
\<close>

theorem audio_sources_counted:
  assumes "(audio_step can_alloc)\<^sup>*\<^sup>* w w'" "world_inv extR extV w" "all_unlocked w" "sources_counted w"
  shows "world_inv extR extV w' \<and> all_unlocked w' \<and>
    (\<forall>i pp_i. tables_get_pp_instance i w' = Some pp_i \<longrightarrow> pi_audio_source_count pp_i = int (playing i (res_tbl w')))"
proof -
  from assms(1) have "world_inv extR extV w' \<and> all_unlocked w' \<and> sources_counted w'"
    by (induction rule: rtranclp_induct) (use assms(2-4) audio_step_keeps in blast)+
  then show ?thesis by (simp add: sources_counted_def)
qed

section \<open>Turns of a stream that is alone\<close>

text \<open>The samples of one buffer, and of the time between two turns.\<close>

definition buffer_samples :: "nat \<Rightarrow> nat" where "buffer_samples n = min n 4096"
definition turn_samples :: "nat \<Rightarrow> nat" where "turn_samples rate = rate * 20 div 1000"

lemma stream_turn_asks:
  assumes can: "can_play w (as_cb_user_data as)" and as: "as_alive as" "as_sample_frame_count as = word_of_nat n" "0 < n" "n < 2 ^ 32"
    "as_sample_rate as = word_of_nat rate" "rate < 2 ^ 32" "as_samples_wanted as = word_of_nat wanted" "wanted \<le> 4096"
  shows "\<exists>k buf. stream_turn sound p as w = Some (change_stream p
      (\<lambda>s. s\<lparr>as_samples_wanted := word_of_nat (wanted + turn_samples rate - k * buffer_samples n)\<rparr>)
      (w\<lparr>audio_buf := buf, played := played w @ replicate k (as_cb_user_data as, 4 * buffer_samples n)\<rparr>)) \<and>
    k * buffer_samples n \<le> wanted + turn_samples rate \<and> wanted + turn_samples rate - k * buffer_samples n \<le> buffer_samples n"
proof -
  have small: "unat (word_of_nat n * 4 :: u64) = n * 4" "unat (4 * word_of_nat n :: u64) = n * 4"
    "unat (word_of_nat rate * 20 :: u64) = rate * 20"
    using as(4,6) by (simp_all add: unat_word_ariths unsigned_of_nat take_bit_nat_eq_self)
  have "unat (buf_size as) = unat (word_of_nat (4 * buffer_samples n) :: u64)"
    using small(1,2) as(2) by (simp add: buf_size_def buffer_samples_def min_def word_le_nat_alt unsigned_of_nat take_bit_nat_eq_self)
  then have sz: "buf_size as = word_of_nat (4 * buffer_samples n)" by (simp only: word_unat_eq_iff)
  have "unat (as_sample_rate as * delay_ms div 1000) = unat (word_of_nat (turn_samples rate) :: u64)"
    using small(3) as(5,6) by (simp add: turn_samples_def unat_div unsigned_of_nat take_bit_nat_eq_self)
  then have rt: "as_sample_rate as * delay_ms div 1000 = word_of_nat (turn_samples rate)" by (simp only: word_unat_eq_iff)
  have b: "0 < buffer_samples n" "buffer_samples n \<le> 4096" using as(3) by (simp_all add: buffer_samples_def)
  have "wanted + turn_samples rate < 2 ^ 61" using as(6,8) by (simp add: turn_samples_def)
  from serve_asks [OF can refl b this, of sound] obtain k buf where
    "serve sound (as_cb_user_data as) (word_of_nat (4 * buffer_samples n)) (word_of_nat (wanted + turn_samples rate)) w =
      Some (word_of_nat (wanted + turn_samples rate - k * buffer_samples n),
        w\<lparr>audio_buf := buf, played := played w @ replicate k (as_cb_user_data as, 4 * buffer_samples n)\<rparr>)"
    "k * buffer_samples n \<le> wanted + turn_samples rate" "wanted + turn_samples rate - k * buffer_samples n \<le> buffer_samples n" by blast
  moreover from this(1) have "stream_turn sound p as w = Some (change_stream p
      (\<lambda>s. s\<lparr>as_samples_wanted := word_of_nat (wanted + turn_samples rate - k * buffer_samples n)\<rparr>)
      (w\<lparr>audio_buf := buf, played := played w @ replicate k (as_cb_user_data as, 4 * buffer_samples n)\<rparr>))"
    using as(1,7) unfolding stream_turn_def rt sz by (simp add: of_nat_add [symmetric] del: of_nat_add of_nat_mult of_nat_diff)
  ultimately show ?thesis by blast
qed

lemma turns_ask:
  assumes "can_play w (as_cb_user_data as)" "active_streams_ht w = [(p, as)]" "as_alive as"
    "as_sample_frame_count as = word_of_nat n" "0 < n" "n < 2 ^ 32" "as_sample_rate as = word_of_nat rate" "rate < 2 ^ 32"
    "as_samples_wanted as = word_of_nat wanted" "wanted \<le> buffer_samples n"
  shows "\<exists>k w'. audio_turns sound m w = Some w' \<and> played w' = played w @ replicate k (as_cb_user_data as, 4 * buffer_samples n) \<and>
    k * buffer_samples n \<le> wanted + m * turn_samples rate \<and> wanted + m * turn_samples rate - k * buffer_samples n \<le> buffer_samples n"
  using assms
proof (induction m arbitrary: w as wanted)
  case 0
  then show ?case by (intro exI [of _ 0] exI [of _ w]) simp
next
  case (Suc m)
  have wl: "wanted \<le> 4096" using Suc.prems(10) by (simp add: buffer_samples_def)
  from stream_turn_asks [OF Suc.prems(1,3-9) wl, of sound p] obtain k buf where
    k: "stream_turn sound p as w = Some (change_stream p
        (\<lambda>s. s\<lparr>as_samples_wanted := word_of_nat (wanted + turn_samples rate - k * buffer_samples n)\<rparr>)
        (w\<lparr>audio_buf := buf, played := played w @ replicate k (as_cb_user_data as, 4 * buffer_samples n)\<rparr>))"
      "k * buffer_samples n \<le> wanted + turn_samples rate" "wanted + turn_samples rate - k * buffer_samples n \<le> buffer_samples n" by blast
  let ?w = "wanted + turn_samples rate - k * buffer_samples n"
  let ?as = "as\<lparr>as_samples_wanted := word_of_nat ?w\<rparr>"
  let ?v = "change_stream p (\<lambda>s. s\<lparr>as_samples_wanted := word_of_nat ?w\<rparr>)
    (w\<lparr>audio_buf := buf, played := played w @ replicate k (as_cb_user_data as, 4 * buffer_samples n)\<rparr>)"
  have t: "audio_turn sound w = Some ?v" using k(1) Suc.prems(2) by (simp add: audio_turn_def)
  have v: "active_streams_ht ?v = [(p, ?as)]" "played ?v = played w @ replicate k (as_cb_user_data as, 4 * buffer_samples n)"
    using Suc.prems(2) by (simp_all add: change_stream_def)
  have "can_play ?v (as_cb_user_data ?as)"
    using Suc.prems(1,2) by (simp add: can_play_def tables_get_pp_instance_def change_stream_def)
  from Suc.IH [OF this v(1) _ _ Suc.prems(5,6) _ Suc.prems(8) _ k(3)] Suc.prems(3,4,7) obtain k' w' where
    w': "audio_turns sound m ?v = Some w'" "played w' = played ?v @ replicate k' (as_cb_user_data as, 4 * buffer_samples n)" and
    bounds: "k' * buffer_samples n \<le> ?w + m * turn_samples rate" "?w + m * turn_samples rate - k' * buffer_samples n \<le> buffer_samples n"
    by (auto simp del: of_nat_diff)
  have "(k + k') * buffer_samples n \<le> wanted + Suc m * turn_samples rate"
    "wanted + Suc m * turn_samples rate - (k + k') * buffer_samples n \<le> buffer_samples n"
    using k(2) bounds unfolding add_mult_distrib mult_Suc by linarith+
  moreover have "audio_turns sound (Suc m) w = Some w'" using t w'(1) by (simp only: audio_turns.simps bind.bind_lunit)
  moreover have "played w' = played w @ replicate (k + k') (as_cb_user_data as, 4 * buffer_samples n)"
    using w'(2) unfolding v(2) by (simp add: replicate_add)
  ultimately show ?case by blast
qed

text \<open>
  C18: However many turns the thread without a sound library makes, it has asked a new stream for whole
  buffers only, and for as many samples as that time plays, less at most one buffer; every turn returns.
\<close>

theorem noaudio_asks_for_what_is_played:
  assumes "can_play w (as_cb_user_data as)" "active_streams_ht w = [(p, as)]" "as_alive as" "as_samples_wanted as = 0"
    "as_sample_frame_count as = word_of_nat n" "0 < n" "n < 2 ^ 32" "as_sample_rate as = word_of_nat rate" "rate < 2 ^ 32"
  shows "\<exists>k w'. audio_turns sound m w = Some w' \<and> played w' = played w @ replicate k (as_cb_user_data as, 4 * min n 4096) \<and>
    k * min n 4096 \<le> m * (rate * 20 div 1000) \<and> m * (rate * 20 div 1000) - k * min n 4096 \<le> min n 4096"
  using turns_ask [OF assms(1-3,5-9), of 0 sound m] assms(4) by (simp add: buffer_samples_def turn_samples_def)

section \<open>A sample\<close>

text \<open>Audio resource 1 of instance 10, stopped, with stream 5.\<close>

definition au_sample :: audio_world where
  "au_sample = world.extend ((started [PP_RESOURCE_AUDIO])\<lparr>
     res_tbl := [(1, \<lparr>r_resource_type = PP_RESOURCE_AUDIO, r_ref_cnt = 1, r_instance = Some 10, r_self_id = 1, r_locked = False,
       r_payload = PL_audio \<lparr>au_sample_rate = 44100, au_sample_frame_count = 1024, au_callback_1_0 = 3, au_callback_1_1 = 0,
         au_user_data = 0, au_stream = 5, au_is_playing = False\<rparr>\<rparr>)],
     res_tbl_next := 2\<rparr>)
     \<lparr>active_streams_ht = [(5, \<lparr>as_sample_frame_count = 1024, as_sample_rate = 44100, as_samples_wanted = 0, as_cb_user_data = 1,
         as_paused = True, as_alive = True\<rparr>)],
       next_stream = 6, audio_thread_started = True, audio_buf = replicate 16384 NUL, played = []\<rparr>"

lemmas au_sample_defs = au_sample_def started_def constructors_def sample_instance_def tables_add_pp_instance_def tables_get_pp_instance_def
  world.defs

lemma au_sample_inv: "world_inv {#1#} {#} au_sample"
proof -
  have "balanced r_ref_cnt res_kids {#1#} (res_tbl au_sample)"
    by (rule balancedI) (auto simp: au_sample_defs ht_ok_def rc_at_def res_kids_def split: if_splits)
  moreover have "var_inv ({#} + held res_vars (res_tbl au_sample)) au_sample"
    by (simp add: var_inv_def au_sample_defs res_vars_def entries_ok_def) (rule balancedI; simp add: ht_ok_def rc_at_def)
  moreover have "res_entries_ok au_sample"
    by (auto simp: res_entries_ok_def res_entry_ok_def au_sample_defs split: if_splits)
  ultimately show ?thesis by (simp add: world_inv_def)
qed

lemma au_sample_facts: "all_unlocked au_sample" "sources_counted au_sample" "can_play au_sample 1"
  by (auto simp: all_unlocked_def sources_counted_def playing_def is_playing_def can_play_def au_sample_defs zero_instance_def
    split: if_splits)

theorem audio_sources_counted_witness:
  "\<exists>w'. ppb_audio_start_playback (audio_noaudio (\<lambda>_. True)) \<lparr>tv_sec = 0, tv_nsec = 0\<rparr> 7 10 1 au_sample = Some (True, w') \<and>
    (\<forall>i pp_i. tables_get_pp_instance i w' = Some pp_i \<longrightarrow> pi_audio_source_count pp_i = int (playing i (res_tbl w')))"
proof -
  obtain e a pp_i where e: "ht_lookup (res_tbl au_sample) 1 = Some e" "r_payload e = PL_audio a" "r_instance e = Some 10"
    "tables_get_pp_instance 10 au_sample = Some pp_i" by (auto simp: au_sample_defs)
  from noaudio.set_playing_counts [OF au_sample_inv au_sample_facts(1,2) e, of "\<lambda>_. True" "\<lparr>tv_sec = 0, tv_nsec = 0\<rparr>" 7 10 True] obtain w' where
    s: "ppb_audio_start_playback (audio_noaudio (\<lambda>_. True)) \<lparr>tv_sec = 0, tv_nsec = 0\<rparr> 7 10 1 au_sample = Some (True, w')"
    unfolding ppb_audio_start_playback_def by blast
  then have "(audio_step (\<lambda>_. True))\<^sup>*\<^sup>* au_sample w'" by (intro r_into_rtranclp audio_step.start)
  from audio_sources_counted [OF this au_sample_inv au_sample_facts(1,2)] s show ?thesis by blast
qed

theorem noaudio_asks_for_what_is_played_witness:
  "\<exists>k w'. audio_turns (\<lambda>_ n. replicate n NUL) 50 au_sample = Some w' \<and> played w' = replicate k (1, 4096) \<and> k * 1024 \<le> 44100 \<and> 44100 - k * 1024 \<le> 1024"
proof -
  let ?as = "\<lparr>as_sample_frame_count = 1024, as_sample_rate = 44100, as_samples_wanted = 0, as_cb_user_data = 1,
         as_paused = True, as_alive = True\<rparr>"
  have "active_streams_ht au_sample = [(5, ?as)]" "played au_sample = []" by (simp_all add: au_sample_def world.defs)
  then show ?thesis
    using noaudio_asks_for_what_is_played [of au_sample ?as 5 1024 44100 "\<lambda>_ n. replicate n NUL" 50] au_sample_facts(3) by simp
qed

end
