(* ===== verification/Desktop.thy ===== *)
theory Desktop
  imports Graphics2d Blocking_Call
begin

text \<open>
  What the plugin asks of the desktop: the shape of the cursor (\<^verbatim>\<open>ppb_cursor_control.c\<close>), an input method
  (\<^verbatim>\<open>ppb_text_input.c\<close>) and a menu (\<^verbatim>\<open>ppb_flash_menu.c\<close>). Each call makes a block of parameters and has a
  function called with it on the browser's thread, which talks to X and to GTK.

  The answers of X are a parameter; what X and GTK are told is recorded.
\<close>

section \<open>Requests and state\<close>

text \<open>Items of a menu, as the plugin gives them and as GTK widgets. The number of a widget is what its
  handlers are given.\<close>

datatype PP_Flash_MenuItem =
  Menu_item (mi_type: int) (mi_name: "string option") (mi_id: int) (mi_enabled: bool) (mi_checked: bool)
    (mi_submenu: "PP_Flash_MenuItem list option")

datatype gtk_item =
    Gtk_menu_item "string option" bool int
  | Gtk_check_menu_item "string option" bool bool int
  | Gtk_separator bool int
  | Gtk_submenu "string option" bool "gtk_item list"
  | Gtk_rule
  | Gtk_notice string

datatype desk_request =
    XCreateFontCursor int
  | XcursorImageLoadCursor int int int int "char list"
  | XDefineCursor ptr ptr
  | XFreeCursor ptr
  | Im_focus_out im_context_e
  | Im_focus_in im_context_e
  | Im_set_cursor_location im_context_e PP_Rect
  | Im_reset im_context_e
  | Im_set_surrounding im_context_e "char list option" nat u32
  | Gtk_new_menu "gtk_item list"
  | Gtk_popup ptr
  | Gtk_unref ptr

record comt_param_s =
  cp_instance_id :: PP_Instance
  cp_xtype :: int
  cp_hide_cursor :: bool
  cp_custom_image :: PP_Resource
  cp_hotspot_x :: int
  cp_hotspot_y :: int

record set_text_input_type_param_s =
  tt_instance :: PP_Instance
  tt_type :: int

record update_caret_position_param_s =
  uc_instance :: PP_Instance
  uc_caret :: PP_Rect

record update_surrounding_text_param_s =
  us_instance :: PP_Instance
  us_text :: "char list option"
  us_caret :: u32

record flash_menu_create_param_s =
  mc_flash_menu :: PP_Resource
  mc_menu_data :: "PP_Flash_MenuItem list"
  mc_m_loop :: PP_Resource
  mc_depth :: int

datatype desk_param = P_cursor comt_param_s | P_text_type set_text_input_type_param_s
  | P_caret update_caret_position_param_s | P_surrounding update_surrounding_text_param_s
  | P_menu flash_menu_create_param_s

datatype desk_ptac = Set_cursor_ptac | Set_text_input_type_ptac | Update_caret_position_ptac
  | Cancel_composition_text_ptac | Update_surrounding_text_ptac | Flash_menu_create_ptac | Menu_popup_ptac
  | Destroy_flash_menu_ptac

text \<open>
  \<open>desk_params\<close> are the blocks of parameters, \<open>desk_tasks\<close> the functions posted to the browser's thread.
  The last five are the static variables of \<^verbatim>\<open>ppb_flash_menu.c\<close>; \<open>desk_cells\<close> are the integers of the
  plugin they point to.
\<close>

record desk_world = world +
  desk_log :: "(desk_request \<times> ptr) list"
  desk_params :: "(ptr, desk_param) hash_table"
  desk_tasks :: "(ptr, desk_ptac \<times> ptr) hash_table"
  desk_next :: ptr
  desk_cells :: "(ptr, int) hash_table"
  popup_menu_result :: ptr
  popup_menu_ccb :: PP_CompletionCallback
  popup_menu_ccb_ml :: PP_Resource
  popup_menu_sentinel :: bool
  popup_menu_canceled :: bool

text \<open>
  \<open>de_XC\<close> gives the numbers of X's cursors, \<open>de_netscape_window\<close> the browser's window of an instance.
\<close>

record desk_env =
  de_answer :: "(desk_request \<times> ptr) list \<Rightarrow> desk_request \<Rightarrow> ptr"
  de_XC :: "string \<Rightarrow> int"
  de_transparent_cursor :: ptr
  de_netscape_window :: "ptr \<Rightarrow> ptr option"
  de_show_version_info :: bool
  de_version_info :: string
  de_has_text_input_dev :: bool
  de_RequestSurroundingText :: "PP_Instance \<Rightarrow> u32 \<Rightarrow> desk_world \<Rightarrow> desk_world option"

definition desk_ask :: "desk_env \<Rightarrow> desk_request \<Rightarrow> desk_world \<Rightarrow> ptr \<times> desk_world" where
  "desk_ask env r w = (let a = de_answer env (desk_log w) r in (a, w\<lparr>desk_log := desk_log w @ [(r, a)]\<rparr>))"

definition desk_tell :: "desk_env \<Rightarrow> desk_request \<Rightarrow> desk_world \<Rightarrow> desk_world" where
  "desk_tell env r w = snd (desk_ask env r w)"

definition new_desk_param :: "desk_param \<Rightarrow> desk_world \<Rightarrow> ptr \<times> desk_world" where
  "new_desk_param p w = (desk_next w, w\<lparr>desk_next := desk_next w + 1, desk_params := ht_insert (desk_next w) p (desk_params w)\<rparr>)"

definition free_desk_param :: "ptr \<Rightarrow> desk_world \<Rightarrow> desk_world" where
  "free_desk_param a w = w\<lparr>desk_params := ht_remove a (desk_params w)\<rparr>"

definition DESK_TASK_COMT :: ptr where "DESK_TASK_COMT = 501"
definition FLASH_MENU_CREATE_COMT :: ptr where "FLASH_MENU_CREATE_COMT = 502"
definition SELECTION_CHANGED_COMT :: ptr where "SELECTION_CHANGED_COMT = 503"

text \<open>\<^verbatim>\<open>ppb_core_call_on_browser_thread\<close> with the block it makes.\<close>

definition desk_call :: "timespec \<Rightarrow> PP_Instance \<Rightarrow> desk_ptac \<Rightarrow> ptr \<Rightarrow> desk_world \<Rightarrow> desk_world option" where
  "desk_call now instance func user_data w = do {
     let task = desk_next w;
     let w = w\<lparr>desk_next := task + 1, desk_tasks := ht_insert task (func, user_data) (desk_tasks w)\<rparr>;
     map_option snd (ppb_core_call_on_browser_thread DESK_TASK_COMT now instance task w)
   }"

section \<open>The cursor\<close>

text \<open>The window the cursor is for; 0 is none.\<close>

definition cursor_window :: "desk_env \<Rightarrow> pp_instance_s \<Rightarrow> ptr" where
  "cursor_window env pp_i =
     (if pi_is_fullscreen pp_i then pi_fs_wnd pp_i
      else if pi_windowed_mode pp_i then pi_wnd pp_i
      else case de_netscape_window env (pi_npp pp_i) of Some wnd \<Rightarrow> wnd | None \<Rightarrow> 0)"

definition create_cursor_from_image_data_resource ::
  "desk_env \<Rightarrow> PP_Resource \<Rightarrow> int \<Rightarrow> int \<Rightarrow> desk_world \<Rightarrow> (ptr \<times> desk_world) option" where
  "create_cursor_from_image_data_resource env image_data hotspot_x hotspot_y w =
     with_resource image_data PP_RESOURCE_IMAGE_DATA 0
       (\<lambda>gr w. do {
          img \<leftarrow> the_image (r_payload gr);
          n \<leftarrow> int_mult (id_stride img) (id_height img);
          (if n < 0 \<or> int (length (id_data img)) < n then None
           else Some (desk_ask env (XcursorImageLoadCursor (id_width img) (id_height img) hotspot_x hotspot_y
             (take (nat n) (id_data img))) w))
        }) w"

definition make_cursor :: "desk_env \<Rightarrow> comt_param_s \<Rightarrow> desk_world \<Rightarrow> (ptr \<times> desk_world) option" where
  "make_cursor env p w =
     (if cp_hide_cursor p then Some (de_transparent_cursor env, w)
      else if cp_custom_image p \<noteq> 0
      then create_cursor_from_image_data_resource env (cp_custom_image p) (cp_hotspot_x p) (cp_hotspot_y p) w
      else Some (desk_ask env (XCreateFontCursor (cp_xtype p)) w))"

definition set_cursor_ptac :: "desk_env \<Rightarrow> ptr \<Rightarrow> comt_param_s \<Rightarrow> desk_world \<Rightarrow> desk_world option" where
  "set_cursor_ptac env a p w =
     (case tables_get_pp_instance (cp_instance_id p) w of
        None \<Rightarrow> Some (free_desk_param a w)
      | Some pp_i \<Rightarrow> do {
          let wnd = cursor_window env pp_i;
          (cursor, w) \<leftarrow> make_cursor env p w;
          let w = (if wnd \<noteq> 0 \<and> cursor \<noteq> 0
            then change_instance (cp_instance_id p) (\<lambda>q. q\<lparr>pi_have_prev_cursor := \<not> cp_hide_cursor p, pi_prev_cursor := cursor\<rparr>)
              (desk_tell env (XDefineCursor wnd cursor) w)
            else w);
          Some (free_desk_param a w)
        })"

text \<open>The types of PPAPI and the names of X's cursors; any other type is an arrow.\<close>

definition cursor_cases :: "(int \<times> string) list" where
  "cursor_cases = [
    (- 1, ''XC_arrow''), (0, ''XC_left_ptr''), (1, ''XC_crosshair''), (2, ''XC_hand2''), (3, ''XC_xterm''), (4, ''XC_watch''),
    (5, ''XC_question_arrow''), (6, ''XC_right_side''), (7, ''XC_top_side''), (8, ''XC_top_right_corner''),
    (9, ''XC_top_left_corner''), (10, ''XC_bottom_side''), (11, ''XC_bottom_right_corner''), (12, ''XC_bottom_left_corner''),
    (13, ''XC_left_side''), (14, ''XC_sb_v_double_arrow''), (15, ''XC_sb_h_double_arrow''), (16, ''XC_left_ptr''),
    (17, ''XC_left_ptr''), (18, ''XC_sb_h_double_arrow''), (19, ''XC_sb_v_double_arrow''), (20, ''XC_fleur''),
    (21, ''XC_sb_right_arrow''), (22, ''XC_sb_up_arrow''), (23, ''XC_top_right_corner''), (24, ''XC_top_left_corner''),
    (25, ''XC_sb_down_arrow''), (26, ''XC_bottom_right_corner''), (27, ''XC_bottom_left_corner''), (28, ''XC_sb_left_arrow''),
    (29, ''XC_fleur''), (30, ''XC_left_ptr''), (31, ''XC_left_ptr''), (32, ''XC_left_ptr''), (33, ''XC_left_ptr''),
    (34, ''XC_watch''), (35, ''XC_left_ptr''), (36, ''XC_left_ptr''), (37, ''XC_left_ptr''), (38, ''XC_left_ptr''),
    (39, ''XC_left_ptr''), (40, ''XC_left_ptr''), (41, ''XC_left_ptr''), (42, ''XC_left_ptr'')]"

abbreviation (input) PP_CURSORTYPE_CUSTOM :: int where "PP_CURSORTYPE_CUSTOM \<equiv> - 1"
abbreviation (input) PP_CURSORTYPE_NONE :: int where "PP_CURSORTYPE_NONE \<equiv> 37"

definition ppb_cursor_control_set_cursor ::
  "desk_env \<Rightarrow> timespec \<Rightarrow> PP_Instance \<Rightarrow> int \<Rightarrow> PP_Resource \<Rightarrow> PP_Point option \<Rightarrow> desk_world \<Rightarrow> (bool \<times> desk_world) option" where
  "ppb_cursor_control_set_cursor env now instance type custom_image hot_spot w =
     (case tables_get_pp_instance instance w of
        None \<Rightarrow> Some (False, w)
      | Some pp_i \<Rightarrow>
          if \<not> pi_cursor_inside_instance pp_i then Some (True, w)
          else do {
            let xtype = de_XC env (case map_of cursor_cases type of Some name \<Rightarrow> name | None \<Rightarrow> ''XC_arrow'');
            let (a, w) = new_desk_param (P_cursor \<lparr>cp_instance_id = instance, cp_xtype = xtype,
              cp_hide_cursor = (type = PP_CURSORTYPE_NONE),
              cp_custom_image = (if type = PP_CURSORTYPE_CUSTOM then custom_image else 0),
              cp_hotspot_x = (case hot_spot of Some p \<Rightarrow> pt_x p | None \<Rightarrow> 0),
              cp_hotspot_y = (case hot_spot of Some p \<Rightarrow> pt_y p | None \<Rightarrow> 0)\<rparr>) w;
            w \<leftarrow> desk_call now instance Set_cursor_ptac a w;
            Some (True, w)
          })"

definition ppb_cursor_control_lock_cursor :: "PP_Instance \<Rightarrow> bool" where "ppb_cursor_control_lock_cursor instance = True"
definition ppb_cursor_control_unlock_cursor :: "PP_Instance \<Rightarrow> bool" where "ppb_cursor_control_unlock_cursor instance = True"
definition ppb_cursor_control_has_cursor_lock :: "PP_Instance \<Rightarrow> bool" where "ppb_cursor_control_has_cursor_lock instance = True"
definition ppb_cursor_control_can_lock_cursor :: "PP_Instance \<Rightarrow> bool" where "ppb_cursor_control_can_lock_cursor instance = True"

section \<open>Input methods\<close>

text \<open>Where the instance is gone the first two do not free their block.\<close>

abbreviation (input) PP_TEXTINPUT_TYPE_DEV_NONE :: int where "PP_TEXTINPUT_TYPE_DEV_NONE \<equiv> 0"
abbreviation (input) PP_TEXTINPUT_TYPE_DEV_TEXT :: int where "PP_TEXTINPUT_TYPE_DEV_TEXT \<equiv> 1"
abbreviation (input) PP_TEXTINPUT_TYPE_DEV_PASSWORD :: int where "PP_TEXTINPUT_TYPE_DEV_PASSWORD \<equiv> 2"

definition context_of_type :: "int \<Rightarrow> im_context_e option" where
  "context_of_type type =
     (if type = PP_TEXTINPUT_TYPE_DEV_NONE \<or> type = PP_TEXTINPUT_TYPE_DEV_PASSWORD then None
      else if type = PP_TEXTINPUT_TYPE_DEV_TEXT then Some Im_context_multi else Some Im_context_simple)"

definition tell_im :: "desk_env \<Rightarrow> (im_context_e \<Rightarrow> desk_request) \<Rightarrow> im_context_e option \<Rightarrow> desk_world \<Rightarrow> desk_world" where
  "tell_im env r c w = (case c of None \<Rightarrow> w | Some im \<Rightarrow> desk_tell env (r im) w)"

definition set_text_input_type_ptac :: "desk_env \<Rightarrow> ptr \<Rightarrow> set_text_input_type_param_s \<Rightarrow> desk_world \<Rightarrow> desk_world option" where
  "set_text_input_type_ptac env a p w =
     (case tables_get_pp_instance (tt_instance p) w of
        None \<Rightarrow> Some w
      | Some pp_i \<Rightarrow>
          let w = tell_im env Im_focus_out (pi_im_context pp_i) w;
              im = context_of_type (tt_type p);
              w = change_instance (tt_instance p) (\<lambda>q. q\<lparr>pi_im_context := im, pi_textinput_type := tt_type p\<rparr>) w
          in Some (free_desk_param a (tell_im env Im_focus_in im w)))"

definition ppb_text_input_interface_set_text_input_type :: "timespec \<Rightarrow> PP_Instance \<Rightarrow> int \<Rightarrow> desk_world \<Rightarrow> desk_world option" where
  "ppb_text_input_interface_set_text_input_type now instance type w =
     (case new_desk_param (P_text_type \<lparr>tt_instance = instance, tt_type = type\<rparr>) w of
        (a, w) \<Rightarrow> desk_call now instance Set_text_input_type_ptac a w)"

definition update_caret_position_ptac :: "desk_env \<Rightarrow> ptr \<Rightarrow> update_caret_position_param_s \<Rightarrow> desk_world \<Rightarrow> desk_world option" where
  "update_caret_position_ptac env a p w =
     (case tables_get_pp_instance (uc_instance p) w of
        None \<Rightarrow> Some w
      | Some pp_i \<Rightarrow> do {
          x \<leftarrow> int_plus (pt_x (rc_point (uc_caret p))) (pi_offset_x pp_i);
          y \<leftarrow> int_plus (pt_y (rc_point (uc_caret p))) (pi_offset_y pp_i);
          let caret = (uc_caret p)\<lparr>rc_point := \<lparr>pt_x = x, pt_y = y\<rparr>\<rparr>;
          Some (free_desk_param a (tell_im env (\<lambda>im. Im_set_cursor_location im caret) (pi_im_context pp_i) w))
        })"

definition ppb_text_input_interface_update_caret_position ::
  "timespec \<Rightarrow> PP_Instance \<Rightarrow> PP_Rect option \<Rightarrow> desk_world \<Rightarrow> desk_world option" where
  "ppb_text_input_interface_update_caret_position now instance caret w =
     (case caret of
        None \<Rightarrow> Some w
      | Some caret \<Rightarrow> (case new_desk_param (P_caret \<lparr>uc_instance = instance, uc_caret = caret\<rparr>) w of
          (a, w) \<Rightarrow> desk_call now instance Update_caret_position_ptac a w))"

definition cancel_composition_text_ptac :: "desk_env \<Rightarrow> PP_Instance \<Rightarrow> desk_world \<Rightarrow> desk_world option" where
  "cancel_composition_text_ptac env instance w =
     (case tables_get_pp_instance instance w of
        None \<Rightarrow> Some w
      | Some pp_i \<Rightarrow> Some (tell_im env Im_reset (pi_im_context pp_i) w))"

definition ppb_text_input_interface_cancel_composition_text :: "timespec \<Rightarrow> PP_Instance \<Rightarrow> desk_world \<Rightarrow> desk_world option" where
  "ppb_text_input_interface_cancel_composition_text now instance w = desk_call now instance Cancel_composition_text_ptac (nat instance) w"

definition update_surrounding_text_ptac :: "desk_env \<Rightarrow> ptr \<Rightarrow> update_surrounding_text_param_s \<Rightarrow> desk_world \<Rightarrow> desk_world option" where
  "update_surrounding_text_ptac env a p w =
     Some (free_desk_param a (case tables_get_pp_instance (us_instance p) w of
        None \<Rightarrow> w
      | Some pp_i \<Rightarrow> tell_im env
          (\<lambda>im. Im_set_surrounding im (us_text p) (case us_text p of None \<Rightarrow> 0 | Some s \<Rightarrow> length s) (us_caret p)) (pi_im_context pp_i) w))"

definition ppb_text_input_interface_update_surrounding_text ::
  "timespec \<Rightarrow> PP_Instance \<Rightarrow> char list option \<Rightarrow> u32 \<Rightarrow> u32 \<Rightarrow> desk_world \<Rightarrow> desk_world option" where
  "ppb_text_input_interface_update_surrounding_text now instance s caret anchor w =
     (case new_desk_param (P_surrounding \<lparr>us_instance = instance, us_text = map_option c_str s, us_caret = caret\<rparr>) w of
        (a, w) \<Rightarrow> desk_call now instance Update_surrounding_text_ptac a w)"

definition selection_changed_comt :: "desk_env \<Rightarrow> PP_Instance \<Rightarrow> desk_world \<Rightarrow> desk_world option" where
  "selection_changed_comt env instance w =
     (case tables_get_pp_instance instance w of
        None \<Rightarrow> Some w
      | Some pp_i \<Rightarrow>
          let has = pi_ppp_text_input_dev pp_i \<or> de_has_text_input_dev env;
              w = change_instance instance (\<lambda>q. q\<lparr>pi_ppp_text_input_dev := has\<rparr>) w
          in if has then de_RequestSurroundingText env (pi_id pp_i) 100 w else Some w)"

definition ppb_text_input_interface_selection_changed :: "timespec \<Rightarrow> PP_Instance \<Rightarrow> desk_world \<Rightarrow> desk_world option" where
  "ppb_text_input_interface_selection_changed now instance w =
     ppb_core_call_on_main_thread2 now 0 \<lparr>ccb_func = SELECTION_CHANGED_COMT, ccb_user_data = nat instance, ccb_flags = 0\<rparr> PP_OK w"

text \<open>The other interface for input methods is empty in the code.\<close>

definition ppb_text_input_controller_set_text_input_type :: "'w \<Rightarrow> 'w" where
  "ppb_text_input_controller_set_text_input_type w = w"
definition ppb_text_input_controller_update_caret_position :: "'w \<Rightarrow> 'w" where
  "ppb_text_input_controller_update_caret_position w = w"
definition ppb_text_input_controller_cancel_composition_text :: "'w \<Rightarrow> 'w" where
  "ppb_text_input_controller_cancel_composition_text w = w"
definition ppb_text_input_controller_update_surrounding_text :: "'w \<Rightarrow> 'w" where
  "ppb_text_input_controller_update_surrounding_text w = w"

section \<open>Menus\<close>

text \<open>\<open>None\<close>: an item that is a submenu has none.\<close>

fun convert_menu :: "PP_Flash_MenuItem list \<Rightarrow> gtk_item list option"
and convert_item :: "PP_Flash_MenuItem \<Rightarrow> gtk_item list option" where
  "convert_menu [] = Some []"
| "convert_menu (mi # items) = do {
     m \<leftarrow> convert_item mi;
     ms \<leftarrow> convert_menu items;
     Some (m @ ms)
   }"
| "convert_item (Menu_item type name i enabled checked submenu) =
     (if type = 0 then Some [Gtk_menu_item name enabled i]
      else if type = 1 then Some [Gtk_check_menu_item name checked enabled i]
      else if type = 2 then Some [Gtk_separator enabled i]
      else if type = 3 then (case submenu of
        None \<Rightarrow> None
      | Some items \<Rightarrow> map_option (\<lambda>m. [Gtk_submenu name enabled m]) (convert_menu items))
      else Some [])"

definition append_version_information :: "desk_env \<Rightarrow> gtk_item list \<Rightarrow> gtk_item list" where
  "append_version_information env m = m @ [Gtk_rule, Gtk_notice (''freshwrapper, '' @ de_version_info env)]"

fun the_flash_menu :: "payload \<Rightarrow> pp_flash_menu_s option" where
  "the_flash_menu (PL_flash_menu fm) = Some fm"
| "the_flash_menu _ = None"

definition flash_menu_create_ptac :: "desk_env \<Rightarrow> timespec \<Rightarrow> flash_menu_create_param_s \<Rightarrow> desk_world \<Rightarrow> desk_world option" where
  "flash_menu_create_ptac env now p w = do {
     (_, w) \<leftarrow> with_resource (mc_flash_menu p) PP_RESOURCE_FLASH_MENU ()
       (\<lambda>gr w. do {
          m \<leftarrow> convert_menu (mc_menu_data p);
          let m = (if de_show_version_info env then append_version_information env m else m);
          let (menu, w) = desk_ask env (Gtk_new_menu m) w;
          Some ((), res_write (mc_flash_menu p) (PL_flash_menu \<lparr>fm_menu = menu\<rparr>) w)
        }) w;
     map_option snd (ppb_message_loop_post_quit_depth now (mc_m_loop p) False (mc_depth p) w)
   }"

definition flash_menu_create_comt :: "timespec \<Rightarrow> ptr \<Rightarrow> desk_world \<Rightarrow> desk_world option" where
  "flash_menu_create_comt now user_data w = desk_call now 0 Flash_menu_create_ptac user_data w"

text \<open>The new menu, or 0; the call waits for the browser's thread in a nested loop.\<close>

definition ppb_flash_menu_create ::
  "desk_world callbacks \<Rightarrow> desk_world tick list \<Rightarrow> timespec \<Rightarrow> PP_Instance \<Rightarrow> PP_Flash_MenuItem list \<Rightarrow> desk_world \<Rightarrow>
   desk_world run_result option" where
  "ppb_flash_menu_create cb tks now instance_id menu_data w =
     (case tables_get_pp_instance instance_id w of
        None \<Rightarrow> Some (Returned 0 w)
      | Some pp_i \<Rightarrow> do {
          (flash_menu, w) \<leftarrow> pp_resource_allocate PP_RESOURCE_FLASH_MENU (Some (pi_id pp_i)) w;
          (if pp_resource_get_type flash_menu w \<noteq> PP_RESOURCE_FLASH_MENU then Some (Returned 0 w)
           else do {
             let m_loop = ppb_message_loop_get_current w;
             (depth, w) \<leftarrow> nested_depth m_loop w;
             let (a, w) = new_desk_param (P_menu \<lparr>mc_flash_menu = flash_menu, mc_menu_data = menu_data, mc_m_loop = m_loop,
               mc_depth = depth\<rparr>) w;
             r \<leftarrow> post_and_wait cb tks now m_loop \<lparr>ccb_func = FLASH_MENU_CREATE_COMT, ccb_user_data = a, ccb_flags = 0\<rparr> depth w;
             Some (case r of Running w \<Rightarrow> Running w | Returned _ w \<Rightarrow> Returned flash_menu (free_desk_param a w))
           })
        })"

text \<open>The destructor, on a structure of instance \<open>i\<close>.\<close>

definition ppb_flash_menu_destroy :: "timespec \<Rightarrow> PP_Instance \<Rightarrow> pp_flash_menu_s \<Rightarrow> desk_world \<Rightarrow> desk_world option" where
  "ppb_flash_menu_destroy now i fm w = desk_call now i Destroy_flash_menu_ptac (fm_menu fm) w"

definition ppb_flash_menu_is_flash_menu :: "PP_Resource \<Rightarrow> 'a res_state_scheme \<Rightarrow> bool" where
  "ppb_flash_menu_is_flash_menu resource_id w \<longleftrightarrow> pp_resource_get_type resource_id w = PP_RESOURCE_FLASH_MENU"

text \<open>The address of the plugin's integer may be NULL. The place to show the menu at is not looked at.\<close>

definition ppb_flash_menu_show ::
  "timespec \<Rightarrow> PP_Resource \<Rightarrow> ptr \<Rightarrow> PP_CompletionCallback \<Rightarrow> desk_world \<Rightarrow> (int \<times> desk_world) option" where
  "ppb_flash_menu_show now menu_id selected_id callback w =
     with_resource menu_id PP_RESOURCE_FLASH_MENU PP_ERROR_BADRESOURCE
       (\<lambda>gr w. do {
          fm \<leftarrow> the_flash_menu (r_payload gr);
          i \<leftarrow> r_instance gr;
          pp_i \<leftarrow> tables_get_pp_instance i w;
          let w = w\<lparr>popup_menu_sentinel := True, popup_menu_canceled := True, popup_menu_ccb := callback,
            popup_menu_ccb_ml := ppb_message_loop_get_current w, popup_menu_result := selected_id\<rparr>;
          let w = change_instance i (\<lambda>q. q\<lparr>pi_ignore_focus_events_cnt := 2\<rparr>) w;
          w \<leftarrow> desk_call now (pi_id pp_i) Menu_popup_ptac (fm_menu fm) w;
          Some (PP_OK_COMPLETIONPENDING, w)
        }) w"

text \<open>What GTK calls: the two handlers of an item do the same.\<close>

definition menu_item_activated :: "int \<Rightarrow> desk_world \<Rightarrow> desk_world" where
  "menu_item_activated user_data w =
     (if popup_menu_result w \<noteq> 0 then w\<lparr>desk_cells := ht_insert (popup_menu_result w) user_data (desk_cells w)\<rparr> else w)
       \<lparr>popup_menu_canceled := False\<rparr>"

definition menu_item_button_press :: "int \<Rightarrow> desk_world \<Rightarrow> desk_world" where
  "menu_item_button_press user_data w =
     (if popup_menu_result w \<noteq> 0 then w\<lparr>desk_cells := ht_insert (popup_menu_result w) user_data (desk_cells w)\<rparr> else w)
       \<lparr>popup_menu_canceled := False\<rparr>"

abbreviation (input) PP_ERROR_USERCANCEL :: int where "PP_ERROR_USERCANCEL \<equiv> - 40"

definition menu_selection_done :: "timespec \<Rightarrow> desk_world \<Rightarrow> desk_world option" where
  "menu_selection_done now w = do {
     let code = (if popup_menu_canceled w then PP_ERROR_USERCANCEL else PP_OK);
     (_, w) \<leftarrow> ppb_message_loop_post_work_with_result now (popup_menu_ccb_ml w) (popup_menu_ccb w) 0 code 0 w;
     Some (w\<lparr>popup_menu_sentinel := False, popup_menu_result := 0\<rparr>)
   }"

section \<open>On the browser's thread\<close>

definition menu_popup_ptac :: "desk_env \<Rightarrow> ptr \<Rightarrow> desk_world \<Rightarrow> desk_world" where
  "menu_popup_ptac env menu = desk_tell env (Gtk_popup menu)"

definition destroy_flash_menu_ptac :: "desk_env \<Rightarrow> ptr \<Rightarrow> desk_world \<Rightarrow> desk_world" where
  "destroy_flash_menu_ptac env menu = desk_tell env (Gtk_unref menu)"

fun run_desk_ptac :: "desk_env \<Rightarrow> timespec \<Rightarrow> desk_ptac \<Rightarrow> ptr \<Rightarrow> desk_world \<Rightarrow> desk_world option" where
  "run_desk_ptac env now Menu_popup_ptac a w = Some (menu_popup_ptac env a w)"
| "run_desk_ptac env now Destroy_flash_menu_ptac a w = Some (destroy_flash_menu_ptac env a w)"
| "run_desk_ptac env now Cancel_composition_text_ptac a w = cancel_composition_text_ptac env (int a) w"
| "run_desk_ptac env now f a w =
     (case (f, ht_lookup (desk_params w) a) of
        (Set_cursor_ptac, Some (P_cursor p)) \<Rightarrow> set_cursor_ptac env a p w
      | (Set_text_input_type_ptac, Some (P_text_type p)) \<Rightarrow> set_text_input_type_ptac env a p w
      | (Update_caret_position_ptac, Some (P_caret p)) \<Rightarrow> update_caret_position_ptac env a p w
      | (Update_surrounding_text_ptac, Some (P_surrounding p)) \<Rightarrow> update_surrounding_text_ptac env a p w
      | (Flash_menu_create_ptac, Some (P_menu p)) \<Rightarrow> flash_menu_create_ptac env now p w
      | _ \<Rightarrow> None)"

declare run_desk_ptac.simps(4-8) [simp del]

definition desk_task_comt :: "desk_env \<Rightarrow> timespec \<Rightarrow> ptr \<Rightarrow> desk_world \<Rightarrow> desk_world option" where
  "desk_task_comt env now task w = do {
     (f, a) \<leftarrow> ht_lookup (desk_tasks w) task;
     w \<leftarrow> run_desk_ptac env now f a w;
     Some (w\<lparr>desk_tasks := ht_remove task (desk_tasks w)\<rparr>)
   }"

end
