(* ===== verification/Desktop_Correct.thy ===== *)
theory Desktop_Correct
  imports Desktop Graphics2d_Correct
begin

text \<open>
  A menu that is shown answers the plugin once, with what was picked last; a second menu takes the answer
  of the first away.
\<close>

section \<open>Calls on the browser's thread\<close>

lemma desk_frame [simp]:
  "world_inv extR extV (w\<lparr>desk_log := l\<rparr>) = world_inv extR extV w"
  "world_inv extR extV (w\<lparr>desk_next := a\<rparr>) = world_inv extR extV w"
  "world_inv extR extV (w\<lparr>desk_tasks := t\<rparr>) = world_inv extR extV w"
  "world_inv extR extV (w\<lparr>desk_params := p\<rparr>) = world_inv extR extV w"
  "world_inv extR extV (w\<lparr>desk_cells := c\<rparr>) = world_inv extR extV w"
  "world_inv extR extV (w\<lparr>popup_menu_result := sel\<rparr>) = world_inv extR extV w"
  "world_inv extR extV (w\<lparr>popup_menu_ccb := cb\<rparr>) = world_inv extR extV w"
  "world_inv extR extV (w\<lparr>popup_menu_ccb_ml := m\<rparr>) = world_inv extR extV w"
  "world_inv extR extV (w\<lparr>popup_menu_sentinel := b\<rparr>) = world_inv extR extV w"
  "world_inv extR extV (w\<lparr>popup_menu_canceled := b\<rparr>) = world_inv extR extV w"
  "world_inv extR extV (change_instance i f w) = world_inv extR extV w"
  "res_tbl (change_instance i f w) = res_tbl w"
  for w :: desk_world
  by (simp_all add: world_inv_def var_inv_def entries_ok_def res_entries_ok_def res_entry_ok_def change_instance_def
    split: option.split)

lemma desk_of_more:
  fixes w v :: desk_world
  assumes "res_state.more w = res_state.more v"
  shows "desk_cells w = desk_cells v" "desk_tasks w = desk_tasks v" "desk_log w = desk_log v" "desk_params w = desk_params v"
    "popup_menu_result w = popup_menu_result v" "popup_menu_ccb w = popup_menu_ccb v" "popup_menu_ccb_ml w = popup_menu_ccb_ml v"
    "popup_menu_sentinel w = popup_menu_sentinel v" "popup_menu_canceled w = popup_menu_canceled v"
  using assms by (cases w; cases v; simp)+

lemma loops_only_takes: "loops_only w' w \<Longrightarrow> takes_tasks m w \<Longrightarrow> takes_tasks m w'"
  by (auto simp: loops_only_def takes_tasks_def put_res_def push_task_def)

lemma takes_tasks_queue: "takes_tasks m w \<Longrightarrow> \<exists>q. queue_of m w = Some q"
  by (auto simp: takes_tasks_def queue_of_def loop_of_def)

lemma desk_call_ok:
  assumes "world_inv extR extV w" "quiet r w"
  shows "\<exists>w'. desk_call now i f a w = Some w' \<and>
    loops_only w' (w\<lparr>desk_next := desk_next w + 1, desk_tasks := ht_insert (desk_next w) (f, a) (desk_tasks w)\<rparr>)"
proof -
  let ?w = "w\<lparr>desk_next := desk_next w + 1, desk_tasks := ht_insert (desk_next w) (f, a) (desk_tasks w)\<rparr>"
  have "world_inv extR extV ?w" "quiet r ?w" using assms by (simp_all add: quiet_def)
  from post_loops_only [OF this, of now "browser_thread_message_loop w" "\<lparr>ccb_func = DESK_TASK_COMT, ccb_user_data = desk_next w, ccb_flags = 0\<rparr>" 0 PP_OK 0]
  show ?thesis
    by (auto simp: desk_call_def ppb_core_call_on_browser_thread_def ppb_message_loop_get_for_browser_thread_def Let_def split: option.split)
qed

section \<open>A menu\<close>

lemma fits_flash_menu: "payload_fits t (PL_flash_menu fm) \<Longrightarrow> t = PP_RESOURCE_FLASH_MENU"
  by simp

definition shown :: "PP_Resource \<Rightarrow> ptr \<Rightarrow> PP_CompletionCallback \<Rightarrow> desk_world \<Rightarrow> bool" where
  "shown m sel callback w \<longleftrightarrow> popup_menu_sentinel w \<and> popup_menu_canceled w \<and> popup_menu_ccb w = callback \<and>
     popup_menu_ccb_ml w = m \<and> popup_menu_result w = sel"

lemma show_menu:
  assumes inv: "world_inv extR extV w" and un: "all_unlocked w"
    and e: "ht_lookup (res_tbl w) menu = Some e" "r_payload e = PL_flash_menu fm" "r_instance e = Some i"
      "tables_get_pp_instance i w = Some pp_i"
    and tk: "takes_tasks (ppb_message_loop_get_current w) w"
  shows "\<exists>w'. ppb_flash_menu_show now menu sel callback w = Some (PP_OK_COMPLETIONPENDING, w') \<and>
    world_inv extR extV w' \<and> all_unlocked w' \<and> takes_tasks (ppb_message_loop_get_current w) w' \<and>
    shown (ppb_message_loop_get_current w) sel callback w' \<and> desk_cells w' = desk_cells w \<and>
    ht_lookup (desk_tasks w') (desk_next w) = Some (Menu_popup_ptac, fm_menu fm)"
proof -
  let ?m = "ppb_message_loop_get_current w"
  have ul: "\<not> r_locked e" using un e(1) by (simp add: all_unlocked_def)
  note av0 = world_inv_available [OF inv e(1) ul]
  have t: "r_resource_type e = PP_RESOURCE_FLASH_MENU" using av0(2) e(2) fits_flash_menu by simp
  have av: "available menu PP_RESOURCE_FLASH_MENU w e" using av0(1) t by simp
  let ?w1 = "w\<lparr>res_tbl := ht_insert menu (acquired e) (res_tbl w)\<rparr>"
  let ?w2 = "change_instance i (\<lambda>q. q\<lparr>pi_ignore_focus_events_cnt := 2\<rparr>)
    (?w1\<lparr>popup_menu_sentinel := True, popup_menu_canceled := True, popup_menu_ccb := callback,
            popup_menu_ccb_ml := ?m, popup_menu_result := sel\<rparr>)"
  let ?w3 = "?w2\<lparr>desk_next := desk_next w + 1, desk_tasks := ht_insert (desk_next w) (Menu_popup_ptac, fm_menu fm) (desk_tasks w)\<rparr>"
  have inv1: "world_inv (add_mset menu extR) extV ?w1" by (rule acquired_inv [OF inv av])
  have inv2: "world_inv (add_mset menu extR) extV ?w2" using inv1 by simp
  have q2: "quiet menu ?w2" using un t by (auto simp: quiet_def all_unlocked_def)
  have nx: "desk_next ?w2 = desk_next w" "desk_tasks ?w2 = desk_tasks w" by (simp_all add: change_instance_def split: option.split)
  from desk_call_ok [OF inv2 q2, of now "pi_id pp_i" Menu_popup_ptac "fm_menu fm"] obtain w4 where
    w4: "desk_call now (pi_id pp_i) Menu_popup_ptac (fm_menu fm) ?w2 = Some w4" "loops_only w4 ?w3" by (auto simp: nx)
  have inv4: "world_inv (add_mset menu extR) extV w4" by (rule loops_only_inv [OF w4(2)]) (use inv2 in simp)
  have q4: "quiet menu w4" by (rule loops_only_quiet [OF w4(2)]) (use q2 in \<open>simp add: quiet_def\<close>)
  have e4: "ht_lookup (res_tbl w4) menu = Some (acquired e)" by (rule loops_only_frame(7) [OF w4(2)]) (use t in simp_all)
  let ?w5 = "w4\<lparr>res_tbl := ht_insert menu e (res_tbl w4)\<rparr>"
  have rel: "pp_resource_release menu w4 = Some ?w5"
    using e4 ul av by (cases e) (simp add: release_counted available_def)
  have inv5: "world_inv extR extV ?w5" using release_inv [OF inv4 e4] rel by auto
  have un5: "all_unlocked ?w5" using q4 ul by (auto simp: all_unlocked_def quiet_def)
  have "takes_tasks ?m ?w1" using tk e(1) t by (auto simp: takes_tasks_def)
  then have "takes_tasks ?m ?w3" by (auto simp: takes_tasks_def change_instance_def split: option.split)
  then have "takes_tasks ?m w4" by (rule loops_only_takes [OF w4(2)])
  then have tk5: "takes_tasks ?m ?w5" using e4 t by (auto simp: takes_tasks_def)
  have more: "res_state.more ?w5 = res_state.more ?w3" using loops_only_frame(5) [OF w4(2)] by simp
  note same = desk_of_more [OF more]
  have "shown ?m sel callback ?w5" "desk_cells ?w5 = desk_cells w"
    "ht_lookup (desk_tasks ?w5) (desk_next w) = Some (Menu_popup_ptac, fm_menu fm)"
    unfolding shown_def same by (simp_all add: change_instance_def split: option.split)
  moreover have "ppb_flash_menu_show now menu sel callback w = Some (PP_OK_COMPLETIONPENDING, ?w5)"
    using e(2-4) w4(1) rel
    by (simp add: ppb_flash_menu_show_def with_resource_def acquire_available [OF av] Let_def ppb_message_loop_get_current_def
      tables_get_pp_instance_def)
  ultimately show ?thesis using inv5 un5 tk5 by blast
qed

text \<open>What is picked goes to the plugin's integer, the last pick at the end.\<close>

lemma picks_written:
  "fold menu_item_activated picks w = w\<lparr>desk_cells := (if popup_menu_result w = 0 \<or> picks = [] then desk_cells w
     else ht_insert (popup_menu_result w) (last picks) (desk_cells w)), popup_menu_canceled := popup_menu_canceled w \<and> picks = []\<rparr>"
  by (induction picks arbitrary: w) (auto simp: menu_item_activated_def)

text \<open>When GTK says the menu is closed.\<close>

lemma menu_done:
  assumes "world_inv extR extV w" "all_unlocked w" "takes_tasks (popup_menu_ccb_ml w) w" "queue_of (popup_menu_ccb_ml w) w = Some q"
    "ccb_func (popup_menu_ccb w) \<noteq> 0"
  shows "\<exists>w'. menu_selection_done now w = Some w' \<and> \<not> popup_menu_sentinel w' \<and> popup_menu_result w' = 0 \<and>
    desk_cells w' = desk_cells w \<and> popup_menu_ccb_ml w' = popup_menu_ccb_ml w \<and> popup_menu_ccb w' = popup_menu_ccb w \<and>
    popup_menu_canceled w' = popup_menu_canceled w \<and> world_inv extR extV w' \<and> all_unlocked w' \<and>
    takes_tasks (popup_menu_ccb_ml w) w' \<and> (\<forall>k. k \<noteq> popup_menu_ccb_ml w \<longrightarrow> queue_of k w' = queue_of k w) \<and>
    queue_of (popup_menu_ccb_ml w) w' =
      Some (q @ [posted now (popup_menu_ccb w) (if popup_menu_canceled w then PP_ERROR_USERCANCEL else PP_OK)])"
proof -
  let ?code = "if popup_menu_canceled w then PP_ERROR_USERCANCEL else PP_OK :: int"
  let ?m = "popup_menu_ccb_ml w"
  have "0 \<noteq> ?m" using assms(1,3) by (auto simp: takes_tasks_def dest!: world_inv_entry simp: res_entry_ok_def)
  then have "?m \<noteq> 0" by simp
  have "calm 0 w" using assms(1,2) world_inv_available by (fastforce simp: calm_def all_unlocked_def available_def)
  from post_calm [OF this \<open>?m \<noteq> 0\<close> assms(3-5), of now ?code] obtain w1 where
    w1: "ppb_message_loop_post_work_with_result now ?m (popup_menu_ccb w) 0 ?code 0 w = Some (PP_OK, w1)"
    "queue_of ?m w1 = Some (q @ [posted now (popup_menu_ccb w) ?code])" "takes_tasks ?m w1"
    "\<forall>k. k \<noteq> ?m \<longrightarrow> ht_lookup (res_tbl w1) k = ht_lookup (res_tbl w) k" by blast
  have "\<And>r. ht_lookup (res_tbl w) r \<noteq> None \<Longrightarrow> r \<noteq> 0" using assms(1) by (auto dest!: world_inv_entry simp: res_entry_ok_def)
  then have q0: "quiet 0 w" using assms(2) by (auto simp: quiet_def all_unlocked_def)
  from post_loops_only [OF assms(1) q0, of now ?m "popup_menu_ccb w" 0 ?code 0] w1(1) have lo: "loops_only w1 w" by auto
  note same = desk_of_more [OF loops_only_frame(5) [OF lo]]
  let ?w2 = "w1\<lparr>popup_menu_sentinel := False, popup_menu_result := 0\<rparr>"
  have "world_inv extR extV w1" by (rule loops_only_inv [OF lo assms(1)])
  moreover have "all_unlocked w1" using assms(2) lo by (fastforce simp: all_unlocked_def loops_only_def put_res_def split: if_splits)
  moreover have "queue_of k ?w2 = queue_of k w" if "k \<noteq> ?m" for k using w1(4) that by (simp add: queue_of_def loop_of_def)
  moreover have "menu_selection_done now w = Some ?w2" using w1(1) by (simp add: menu_selection_done_def Let_def)
  ultimately show ?thesis
    using w1(2,3) same by (intro exI [of _ ?w2]) (simp add: queue_of_def loop_of_def takes_tasks_def all_unlocked_def)
qed

section \<open>What the plugin is told\<close>


text \<open>
  A menu shown while another is open takes the answer away: the loop and the callback of the first
  are forgotten, so that when both are closed the second's callback is called twice and nothing is put on
  any other loop.
\<close>

theorem second_menu_takes_the_answer:
  assumes "world_inv extR extV w" "all_unlocked w"
    and "ht_lookup (res_tbl w) menu = Some e" "r_payload e = PL_flash_menu fm" "r_instance e = Some i"
      "tables_get_pp_instance i w = Some pp_i"
    and "takes_tasks (ppb_message_loop_get_current w) w" "ccb_func callback \<noteq> 0"
    and "popup_menu_sentinel w"
  shows "\<exists>w1 w2 w3 q. ppb_flash_menu_show now menu sel callback w = Some (PP_OK_COMPLETIONPENDING, w1) \<and>
    queue_of (ppb_message_loop_get_current w) w1 = Some q \<and> menu_selection_done now w1 = Some w2 \<and>
    menu_selection_done now w2 = Some w3 \<and> desk_cells w3 = desk_cells w \<and>
    queue_of (ppb_message_loop_get_current w) w3 =
      Some (q @ [posted now callback PP_ERROR_USERCANCEL, posted now callback PP_ERROR_USERCANCEL]) \<and>
    (\<forall>k. k \<noteq> ppb_message_loop_get_current w \<longrightarrow> queue_of k w3 = queue_of k w1)"
proof -
  let ?m = "ppb_message_loop_get_current w"
  from show_menu [OF assms(1-7)] obtain w1 where
    w1: "ppb_flash_menu_show now menu sel callback w = Some (PP_OK_COMPLETIONPENDING, w1)" "world_inv extR extV w1"
      "all_unlocked w1" "takes_tasks ?m w1" "shown ?m sel callback w1" "desk_cells w1 = desk_cells w" by blast
  have f: "popup_menu_ccb_ml w1 = ?m" "popup_menu_ccb w1 = callback" "popup_menu_canceled w1" using w1(5) by (simp_all add: shown_def)
  obtain q where q: "queue_of ?m w1 = Some q" using takes_tasks_queue [OF w1(4)] by blast
  from menu_done [OF w1(2,3), unfolded f(1,2), OF w1(4) q assms(8), of now] f(3) obtain w2 where
    w2: "menu_selection_done now w1 = Some w2" "desk_cells w2 = desk_cells w1" "popup_menu_ccb_ml w2 = ?m" "popup_menu_ccb w2 = callback"
      "popup_menu_canceled w2" "world_inv extR extV w2" "all_unlocked w2" "takes_tasks ?m w2"
      "\<forall>k. k \<noteq> ?m \<longrightarrow> queue_of k w2 = queue_of k w1"
      "queue_of ?m w2 = Some (q @ [posted now callback PP_ERROR_USERCANCEL])" by auto
  from menu_done [OF w2(6,7), unfolded w2(3,4), OF w2(8,10) assms(8), of now] w2(5) obtain w3 where
    w3: "menu_selection_done now w2 = Some w3" "desk_cells w3 = desk_cells w2" "\<forall>k. k \<noteq> ?m \<longrightarrow> queue_of k w3 = queue_of k w2"
      "queue_of ?m w3 = Some (q @ [posted now callback PP_ERROR_USERCANCEL, posted now callback PP_ERROR_USERCANCEL])" by auto
  show ?thesis
    by (rule exI [of _ w1], rule exI [of _ w2], rule exI [of _ w3], rule exI [of _ q]) (use w1(1,6) q w2(1,2,9) w3 in auto)
qed

section \<open>Identifiers of a menu\<close>

text \<open>What can be picked: the items that are shown, enabled and not submenus, and those of enabled submenus.\<close>

fun pickable :: "gtk_item list \<Rightarrow> int list" and pickable_item :: "gtk_item \<Rightarrow> int list" where
  "pickable [] = []"
| "pickable (m # ms) = pickable_item m @ pickable ms"
| "pickable_item (Gtk_menu_item n en i) = (if en then [i] else [])"
| "pickable_item (Gtk_check_menu_item n c en i) = (if en then [i] else [])"
| "pickable_item (Gtk_separator en i) = []"
| "pickable_item (Gtk_submenu n en ms) = (if en then pickable ms else [])"
| "pickable_item Gtk_rule = []"
| "pickable_item (Gtk_notice s) = []"

fun offered :: "PP_Flash_MenuItem list \<Rightarrow> int list" and offered_item :: "PP_Flash_MenuItem \<Rightarrow> int list" where
  "offered [] = []"
| "offered (mi # ms) = offered_item mi @ offered ms"
| "offered_item (Menu_item type n i en ch sub) =
     (if \<not> en then [] else if type = 0 \<or> type = 1 then [i]
      else if type = 3 then (case sub of None \<Rightarrow> [] | Some ms \<Rightarrow> offered ms) else [])"

lemma pickable_append: "pickable (a @ b) = pickable a @ pickable b"
  by (induction a) simp_all

text \<open>
  The user can pick the items the plugin offers and no others, in the plugin's order, whether or not
  the menu ends with the version of the wrapper.
\<close>

theorem menu_offers_what_the_plugin_does:
  assumes "convert_menu items = Some m"
  shows "pickable m = offered items \<and> pickable (append_version_information env m) = offered items"
proof -
  have "convert_menu ms = Some m \<Longrightarrow> pickable m = offered ms"
    and "convert_item mi = Some m' \<Longrightarrow> pickable m' = offered_item mi" for ms m mi m'
    by (induction ms and mi arbitrary: m and m' rule: convert_menu_convert_item.induct)
      (auto simp: pickable_append bind_eq_Some_conv split: if_splits option.splits)
  with assms show ?thesis by (auto simp: append_version_information_def pickable_append)
qed

theorem menu_offers_what_the_plugin_does_witness:
  "\<exists>m. convert_menu [Menu_item 0 (Some ''Copy'') 7 True False None, Menu_item 2 None 0 True False None,
     Menu_item 3 (Some ''Zoom'') 0 True False (Some [Menu_item 1 (Some ''Fit'') 9 True True None, Menu_item 0 None 4 False False None])] = Some m \<and>
   pickable m = [7, 9]"
  using menu_offers_what_the_plugin_does [of "[Menu_item 0 (Some ''Copy'') 7 True False None, Menu_item 2 None 0 True False None,
     Menu_item 3 (Some ''Zoom'') 0 True False (Some [Menu_item 1 (Some ''Fit'') 9 True True None, Menu_item 0 None 4 False False None])]"]
  by simp

section \<open>Input methods\<close>

text \<open>The input context that has the focus, from what GTK was told.\<close>

fun focus_after :: "(desk_request \<times> ptr) \<Rightarrow> im_context_e option \<Rightarrow> im_context_e option" where
  "focus_after (Im_focus_in im, a) f = Some im"
| "focus_after (Im_focus_out im, a) f = (if f = Some im then None else f)"
| "focus_after (r, a) f = f"

definition focused :: "desk_world \<Rightarrow> im_context_e option" where
  "focused w = fold focus_after (desk_log w) None"

lemma focused_tell [simp]: "focused (desk_tell env r w) = focus_after (r, de_answer env (desk_log w) r) (focused w)"
  by (simp add: focused_def desk_tell_def desk_ask_def Let_def)

lemma focused_frame [simp]:
  "focused (change_instance i f w) = focused w" "focused (free_desk_param a w) = focused w"
  by (simp_all add: focused_def free_desk_param_def change_instance_def split: option.split)

lemma instances_frame [simp]:
  "pp_to_np_ht (desk_tell env r w) = pp_to_np_ht w" "pp_to_np_ht (free_desk_param a w) = pp_to_np_ht w"
  "pp_to_np_ht (tell_im env g c w) = pp_to_np_ht w"
  by (simp_all add: desk_tell_def desk_ask_def Let_def free_desk_param_def tell_im_def split: option.split)

text \<open>What instance \<open>i\<close> has done to its input method on the browser's thread.\<close>

inductive im_step :: "desk_env \<Rightarrow> PP_Instance \<Rightarrow> desk_world \<Rightarrow> desk_world \<Rightarrow> bool" for env i where
  type: "set_text_input_type_ptac env a \<lparr>tt_instance = i, tt_type = t\<rparr> w = Some w' \<Longrightarrow> im_step env i w w'"
| caret: "update_caret_position_ptac env a \<lparr>uc_instance = i, uc_caret = c\<rparr> w = Some w' \<Longrightarrow> im_step env i w w'"
| cancel: "cancel_composition_text_ptac env i w = Some w' \<Longrightarrow> im_step env i w w'"
| surrounding: "update_surrounding_text_ptac env a \<lparr>us_instance = i, us_text = s, us_caret = k\<rparr> w = Some w' \<Longrightarrow> im_step env i w w'"

definition im_inv :: "PP_Instance \<Rightarrow> desk_world \<Rightarrow> bool" where
  "im_inv i w \<longleftrightarrow> (case tables_get_pp_instance i w of None \<Rightarrow> True
     | Some p \<Rightarrow> focused w = pi_im_context p \<and> pi_im_context p = context_of_type (pi_textinput_type p))"

lemma im_step_inv: "im_step env i w w' \<Longrightarrow> im_inv i w \<Longrightarrow> im_inv i w'"
proof (induction rule: im_step.induct)
  case (type a t w w')
  then show ?case
    by (auto simp: set_text_input_type_ptac_def im_inv_def tables_get_pp_instance_def Let_def change_instance_def tell_im_def
      focused_def desk_tell_def desk_ask_def free_desk_param_def split: option.splits)
next
  case (caret a c w w')
  then show ?case
    by (auto simp: update_caret_position_ptac_def im_inv_def tables_get_pp_instance_def Let_def tell_im_def bind_eq_Some_conv
      split: option.splits)
next
  case (cancel w w')
  then show ?case
    by (auto simp: cancel_composition_text_ptac_def im_inv_def tables_get_pp_instance_def tell_im_def split: option.splits)
next
  case (surrounding a s k w w')
  then show ?case
    by (auto simp: update_surrounding_text_ptac_def im_inv_def tables_get_pp_instance_def tell_im_def split: option.splits)
qed

text \<open>
  Whatever an instance asks of its input method, the context that has GTK's focus is the one the
  instance has, and that is the one for the type of text set last: none for a password.
\<close>

theorem focus_follows_the_type:
  assumes "(im_step env i)\<^sup>*\<^sup>* w w'" "tables_get_pp_instance i w = Some p" "focused w = pi_im_context p"
    "pi_im_context p = context_of_type (pi_textinput_type p)" "tables_get_pp_instance i w' = Some p'"
  shows "focused w' = pi_im_context p' \<and> pi_im_context p' = context_of_type (pi_textinput_type p')"
proof -
  have "im_inv i w'" using assms(1)
    by (induction rule: rtranclp_induct) (use assms(2-4) im_step_inv in \<open>auto simp: im_inv_def\<close>)
  then show ?thesis using assms(5) by (simp add: im_inv_def)
qed

section \<open>Cursors\<close>

text \<open>Cursors X has made for the plugin, and those given back.\<close>

definition cursors_made :: "desk_world \<Rightarrow> ptr list" where
  "cursors_made w = [a. (r, a) \<leftarrow> desk_log w, case r of XCreateFontCursor _ \<Rightarrow> True | XcursorImageLoadCursor _ _ _ _ _ \<Rightarrow> True | _ \<Rightarrow> False]"

definition cursors_freed :: "desk_world \<Rightarrow> ptr list" where
  "cursors_freed w = [a. (XFreeCursor a, _) \<leftarrow> desk_log w]"

definition font_cursor :: "PP_Instance \<Rightarrow> int \<Rightarrow> comt_param_s" where
  "font_cursor i x = \<lparr>cp_instance_id = i, cp_xtype = x, cp_hide_cursor = False, cp_custom_image = 0, cp_hotspot_x = 0, cp_hotspot_y = 0\<rparr>"

fun set_cursors :: "desk_env \<Rightarrow> PP_Instance \<Rightarrow> (ptr \<times> int) list \<Rightarrow> desk_world \<Rightarrow> desk_world option" where
  "set_cursors env i [] w = Some w"
| "set_cursors env i ((a, x) # xs) w = do { w \<leftarrow> set_cursor_ptac env a (font_cursor i x) w; set_cursors env i xs w }"

text \<open>
  Every cursor the plugin sets is made anew and none is ever freed while the instance lives: after
  \<open>n\<close> of them the instance remembers the last one only, which is all that can be freed at the end.
\<close>

theorem cursors_pile_up:
  assumes "tables_get_pp_instance i w = Some p" "cursor_window env p \<noteq> 0" "\<And>l r. de_answer env l r \<noteq> 0"
  shows "\<exists>w' p' cs. set_cursors env i xs w = Some w' \<and> tables_get_pp_instance i w' = Some p' \<and>
    cursors_made w' = cursors_made w @ cs \<and> length cs = length xs \<and> cursors_freed w' = cursors_freed w \<and>
    (xs \<noteq> [] \<longrightarrow> pi_have_prev_cursor p' \<and> pi_prev_cursor p' = last cs)"
  using assms(1,2)
proof (induction xs arbitrary: w p)
  case Nil
  then show ?case by simp
next
  case (Cons ax xs)
  obtain a x where ax: "ax = (a, x)" by (cases ax)
  let ?c = "de_answer env (desk_log w) (XCreateFontCursor x)"
  let ?p = "p\<lparr>pi_have_prev_cursor := True, pi_prev_cursor := ?c\<rparr>"
  obtain w1 where w1: "set_cursor_ptac env a (font_cursor i x) w = Some w1" "tables_get_pp_instance i w1 = Some ?p"
    "cursors_made w1 = cursors_made w @ [?c]" "cursors_freed w1 = cursors_freed w"
    using Cons.prems assms(3)
    by (auto simp: set_cursor_ptac_def font_cursor_def make_cursor_def tables_get_pp_instance_def Let_def change_instance_def
      desk_tell_def desk_ask_def free_desk_param_def cursors_made_def cursors_freed_def)
  have "cursor_window env ?p = cursor_window env p" by (simp add: cursor_window_def)
  then have "cursor_window env ?p \<noteq> 0" using Cons.prems(2) by simp
  from Cons.IH [OF w1(2) this] obtain w' p' cs where
    w': "set_cursors env i xs w1 = Some w'" "tables_get_pp_instance i w' = Some p'" "cursors_made w' = cursors_made w1 @ cs"
      "length cs = length xs" "cursors_freed w' = cursors_freed w1" "xs \<noteq> [] \<longrightarrow> pi_have_prev_cursor p' \<and> pi_prev_cursor p' = last cs" by blast
  have "xs = [] \<Longrightarrow> p' = ?p" using w'(1,2) w1(2) by simp
  then show ?case
    using w' w1 by (intro exI [of _ w'] exI [of _ p'] exI [of _ "?c # cs"]) (auto simp: ax)
qed

section \<open>A sample\<close>

text \<open>Menu 1 of instance 10, which has a window, and loop 2 on the current thread.\<close>

definition desk_entry :: "pp_resource_type_e \<Rightarrow> PP_Resource \<Rightarrow> payload \<Rightarrow> pp_resource_s" where
  "desk_entry t r pl = \<lparr>r_resource_type = t, r_ref_cnt = 1, r_instance = Some 10, r_self_id = r, r_locked = False, r_payload = pl\<rparr>"

definition desk_types :: "pp_resource_type_e list" where
  "desk_types = [PP_RESOURCE_FLASH_MENU, PP_RESOURCE_MESSAGE_LOOP]"

definition desk_sample :: desk_world where
  "desk_sample = world.extend (tables_add_pp_instance 10 (sample_instance\<lparr>pi_windowed_mode := True, pi_wnd := 77\<rparr>)
     (started desk_types)\<lparr>
     res_tbl := [(1, desk_entry PP_RESOURCE_FLASH_MENU 1 (PL_flash_menu \<lparr>fm_menu = 90\<rparr>)),
       (2, desk_entry PP_RESOURCE_MESSAGE_LOOP 2 (zero_payload PP_RESOURCE_MESSAGE_LOOP))],
     res_tbl_next := 3, this_thread_message_loop := 2, browser_thread_message_loop := 2\<rparr>)
     \<lparr>desk_log = [], desk_params = [], desk_tasks = [], desk_next = 500, desk_cells = [(40, 0)], popup_menu_result = 0,
       popup_menu_ccb = zero_ccb, popup_menu_ccb_ml = 0, popup_menu_sentinel = False, popup_menu_canceled = False\<rparr>"

definition desk_env_sample :: desk_env where
  "desk_env_sample = \<lparr>de_answer = \<lambda>l r. 600, de_XC = \<lambda>s. 2, de_transparent_cursor = 5, de_netscape_window = \<lambda>n. None,
     de_show_version_info = True, de_version_info = ''1'', de_has_text_input_dev = True, de_RequestSurroundingText = \<lambda>i n w. Some w\<rparr>"

lemmas desk_sample_defs = desk_sample_def desk_entry_def desk_types_def started_def constructors_def sample_instance_def
  zero_instance_def tables_add_pp_instance_def tables_get_pp_instance_def world.defs

lemma desk_sample_inv: "world_inv {#1, 2#} {#} desk_sample"
proof -
  have "balanced r_ref_cnt res_kids {#1, 2#} (res_tbl desk_sample)"
    by (rule balancedI) (auto simp: desk_sample_defs ht_ok_def rc_at_def res_kids_def split: if_splits)
  moreover have "var_inv ({#} + held res_vars (res_tbl desk_sample)) desk_sample"
    by (simp add: var_inv_def desk_sample_defs res_vars_def entries_ok_def) (rule balancedI; simp add: ht_ok_def rc_at_def)
  moreover have "res_entries_ok desk_sample"
    by (auto simp: res_entries_ok_def res_entry_ok_def desk_sample_defs split: if_splits)
  ultimately show ?thesis by (simp add: world_inv_def)
qed

lemma desk_sample_facts:
  "all_unlocked desk_sample" "takes_tasks (ppb_message_loop_get_current desk_sample) desk_sample"
  "ht_lookup (res_tbl desk_sample) 1 = Some (desk_entry PP_RESOURCE_FLASH_MENU 1 (PL_flash_menu \<lparr>fm_menu = 90\<rparr>))"
  "r_payload (desk_entry PP_RESOURCE_FLASH_MENU 1 (PL_flash_menu \<lparr>fm_menu = 90\<rparr>)) = PL_flash_menu \<lparr>fm_menu = 90\<rparr>"
  "r_instance (desk_entry PP_RESOURCE_FLASH_MENU 1 (PL_flash_menu \<lparr>fm_menu = 90\<rparr>)) = Some 10"
  "\<exists>p. tables_get_pp_instance 10 desk_sample = Some p" "desk_cells desk_sample = [(40, 0)]"
  by (auto simp: all_unlocked_def takes_tasks_def ppb_message_loop_get_current_def desk_sample_defs split: if_splits)

lemma desk_sample_loop: "this_thread_message_loop desk_sample = 2"
  by (simp add: desk_sample_def world.defs)

abbreviation (input) plugin_ccb :: PP_CompletionCallback where
  "plugin_ccb \<equiv> \<lparr>ccb_func = 3, ccb_user_data = 4, ccb_flags = 0\<rparr>"


theorem second_menu_takes_the_answer_witness:
  "\<exists>w1 w2 w3 q. ppb_flash_menu_show \<lparr>tv_sec = 0, tv_nsec = 0\<rparr> 1 40 plugin_ccb
      (desk_sample\<lparr>popup_menu_sentinel := True, popup_menu_ccb := plugin_ccb\<lparr>ccb_user_data := 6\<rparr>, popup_menu_ccb_ml := 9\<rparr>) =
        Some (PP_OK_COMPLETIONPENDING, w1) \<and>
    menu_selection_done \<lparr>tv_sec = 0, tv_nsec = 0\<rparr> w1 = Some w2 \<and> menu_selection_done \<lparr>tv_sec = 0, tv_nsec = 0\<rparr> w2 = Some w3 \<and>
    queue_of 2 w3 = Some (q @ [posted \<lparr>tv_sec = 0, tv_nsec = 0\<rparr> plugin_ccb PP_ERROR_USERCANCEL,
      posted \<lparr>tv_sec = 0, tv_nsec = 0\<rparr> plugin_ccb PP_ERROR_USERCANCEL])"
proof -
  let ?w = "desk_sample\<lparr>popup_menu_sentinel := True, popup_menu_ccb := plugin_ccb\<lparr>ccb_user_data := 6\<rparr>, popup_menu_ccb_ml := 9\<rparr>"
  obtain p where p: "tables_get_pp_instance 10 ?w = Some p" using desk_sample_facts(6) by (auto simp: tables_get_pp_instance_def)
  have f: "world_inv {#1, 2#} {#} ?w" "all_unlocked ?w" "takes_tasks (ppb_message_loop_get_current ?w) ?w"
    "ht_lookup (res_tbl ?w) 1 = Some (desk_entry PP_RESOURCE_FLASH_MENU 1 (PL_flash_menu \<lparr>fm_menu = 90\<rparr>))"
    "ppb_message_loop_get_current ?w = 2"
    using desk_sample_inv desk_sample_facts(1-3)
    by (simp_all add: all_unlocked_def takes_tasks_def ppb_message_loop_get_current_def desk_sample_loop)
  from second_menu_takes_the_answer [OF f(1,2,4) desk_sample_facts(4,5) p f(3), of plugin_ccb "\<lparr>tv_sec = 0, tv_nsec = 0\<rparr>" 40] f(5)
  show ?thesis by auto
qed

theorem focus_follows_the_type_witness:
  "\<exists>w p. set_text_input_type_ptac desk_env_sample 500 \<lparr>tt_instance = 10, tt_type = 1\<rparr> desk_sample = Some w \<and>
    tables_get_pp_instance 10 w = Some p \<and> pi_textinput_type p = 1 \<and> focused w = Some Im_context_multi"
proof -
  obtain p where p: "tables_get_pp_instance 10 desk_sample = Some p" "pi_im_context p = None" "pi_textinput_type p = 0"
    by (simp add: desk_sample_defs)
  have f: "focused desk_sample = None" by (simp add: focused_def desk_sample_def world.defs)
  obtain w p' where w: "set_text_input_type_ptac desk_env_sample 500 \<lparr>tt_instance = 10, tt_type = 1\<rparr> desk_sample = Some w"
    "tables_get_pp_instance 10 w = Some p'" "pi_textinput_type p' = 1"
    using p by (auto simp: set_text_input_type_ptac_def Let_def tables_get_pp_instance_def change_instance_def tell_im_def
      context_of_type_def desk_tell_def desk_ask_def free_desk_param_def)
  then have "(im_step desk_env_sample 10)\<^sup>*\<^sup>* desk_sample w" by (intro r_into_rtranclp im_step.type)
  from focus_follows_the_type [OF this p(1) _ _ w(2)] p f w show ?thesis by (auto simp: context_of_type_def)
qed

theorem cursors_pile_up_witness:
  "\<exists>w p. set_cursors desk_env_sample 10 [(500, 2), (501, 60)] desk_sample = Some w \<and> tables_get_pp_instance 10 w = Some p \<and>
    length (cursors_made w) = 2 \<and> cursors_freed w = [] \<and> pi_have_prev_cursor p"
proof -
  obtain p where p: "tables_get_pp_instance 10 desk_sample = Some p" "cursor_window desk_env_sample p \<noteq> 0"
    by (simp add: desk_sample_defs cursor_window_def)
  have l: "cursors_made desk_sample = []" "cursors_freed desk_sample = []" "\<And>l r. de_answer desk_env_sample l r \<noteq> 0"
    by (simp_all add: cursors_made_def cursors_freed_def desk_sample_def world.defs desk_env_sample_def)
  from cursors_pile_up [OF p l(3), of "[(500, 2), (501, 60)]"] l(1,2) show ?thesis by auto
qed

end
