(* ===== verification/Video_Decoder.thy ===== *)
theory Video_Decoder
  imports Graphics3d
begin

text \<open>
  \<^verbatim>\<open>ppb_video_decoder.c\<close>: decoding of H.264 with the help of the graphics card. FFmpeg parses and decodes;
  it calls back for the kind of memory to decode into (\<^verbatim>\<open>get_format\<close>) and for every picture
  (\<^verbatim>\<open>get_buffer2\<close>, \<^verbatim>\<open>release_buffer2\<close>). VA-API or VDPAU hold the pictures, and what is decoded is put
  into pixmaps bound to textures of the plugin.

  FFmpeg, VA-API, VDPAU, GLX and the plugin's own functions are parameters. A call of FFmpeg is a script: what
  it calls back, each step depending on the answers so far, and then its result.
\<close>

section \<open>Requests and state\<close>

abbreviation (input) INVALID_ID :: u32 where "INVALID_ID \<equiv> 0xFFFFFFFF"
abbreviation (input) MAX_VA_SURFACES :: nat where "MAX_VA_SURFACES \<equiv> 18"
abbreviation (input) MAX_VDP_SURFACES :: nat where "MAX_VDP_SURFACES \<equiv> 16"

datatype hw_request =
    VaCreateConfig
  | VaCreateSurfaces int int
  | VaCreateContext u32 int int "u32 list"
  | VaDestroyContext u32
  | VaDestroyConfig u32
  | VaDestroySurfaces "u32 list"
  | VaPutSurface u32 ptr int int
  | Vdp_decoder_create int int
  | Vdp_decoder_destroy u32
  | Vdp_video_surface_create int int
  | Vdp_video_surface_destroy u32
  | Vdp_video_mixer_create int int
  | Vdp_video_mixer_destroy u32
  | Vdp_output_surface_create int int
  | Vdp_output_surface_destroy u32
  | Vdp_video_mixer_render u32 u32 u32
  | Vdp_presentation_queue_display u32 u32 u32 u32
  | Vdp_target_create_x11 ptr
  | Vdp_target_destroy u32
  | Vdp_presentation_queue_create u32
  | Vdp_presentation_queue_destroy u32

text \<open>The status, and what the variables the call may write to hold afterwards.\<close>

record hw_answer =
  ha_status :: int
  ha_handle :: u32
  ha_surfaces :: "u32 list"

datatype av_request =
    Avcodec_find_decoder int
  | Av_parser_init int
  | Avcodec_alloc_context3
  | Avcodec_open2 ptr
  | Av_frame_alloc
  | Av_parser_close ptr
  | Avcodec_close ptr
  | Avcodec_free_context ptr
  | Av_frame_free ptr
  | Av_parser_parse2 ptr ptr "char list"
  | Avcodec_decode_video2 ptr ptr "char list" int
  | Avcodec_flush_buffers ptr

text \<open>A result: a pointer, a number, the bytes of a whole picture, whether there is a frame, and the frame.\<close>

record av_frame_s =
  fr_pkt_pts :: int
  fr_data3 :: u32
  fr_width :: int
  fr_height :: int

record av_answer =
  aa_ptr :: ptr
  aa_int :: int
  aa_outbuf :: "char list"
  aa_got_frame :: bool
  aa_frame :: av_frame_s
  aa_ctx_size :: "int \<times> int"

datatype av_script =
    Av_return av_answer
  | Av_get_format "int list" int int "int \<Rightarrow> av_script"
  | Av_get_buffer "int \<times> u32 \<Rightarrow> av_script"
  | Av_release_buffer u32 av_script

datatype decoder_call =
    ProvidePictureBuffers PP_Instance PP_Resource int "int \<times> int"
  | PictureReady PP_Instance PP_Resource int int
  | NotifyError PP_Instance PP_Resource int
  | DismissPictureBuffer PP_Instance PP_Resource int

record dec_world = gl_world +
  hw_log :: "(hw_request \<times> hw_answer) list"
  av_log :: "(av_request \<times> av_answer) list"
  dec_calls :: "decoder_call list"

record decoder_env =
  dv_gl :: gl_env
  dv_hw :: "(hw_request \<times> hw_answer) list \<Rightarrow> hw_request \<Rightarrow> hw_answer"
  dv_av :: "(av_request \<times> av_answer) list \<Rightarrow> av_request \<Rightarrow> av_script"
  dv_plugin :: "decoder_call \<Rightarrow> dec_world \<Rightarrow> dec_world option"
  dv_can_alloc :: "nat \<Rightarrow> bool"
  dv_enable_hwdec :: bool
  dv_va_available :: bool
  dv_vdpau_available :: bool
  dv_bind_tex_image :: bool
  dv_release_tex_image :: bool
  dv_has_interface :: bool
  dv_CODEC_ID_H264 :: int
  dv_PIX_FMT_VAAPI_VLD :: int
  dv_PIX_FMT_VDPAU :: int

abbreviation (input) AV_PIX_FMT_NONE :: int where "AV_PIX_FMT_NONE \<equiv> - 1"
abbreviation (input) PP_VIDEODECODERERROR_UNREADABLE_INPUT :: int where "PP_VIDEODECODERERROR_UNREADABLE_INPUT \<equiv> 3"
abbreviation (input) PP_VIDEODECODERERROR_PLATFORM_FAILURE :: int where "PP_VIDEODECODERERROR_PLATFORM_FAILURE \<equiv> 4"

text \<open>Functions of \<^verbatim>\<open>ppb_graphics3d.c\<close> and requests to GLX on the larger state.\<close>

definition on_gl :: "(gl_world \<Rightarrow> ('b \<times> gl_world) option) \<Rightarrow> dec_world \<Rightarrow> ('b \<times> dec_world) option" where
  "on_gl f w = map_option (\<lambda>(x, g). (x, gl_world.extend g (gl_world.more w))) (f (gl_world.truncate w))"

definition glx_tell :: "decoder_env \<Rightarrow> x_request list \<Rightarrow> dec_world \<Rightarrow> dec_world" where
  "glx_tell env rs w = gl_world.extend (tell_all (dv_gl env) rs (gl_world.truncate w)) (gl_world.more w)"

definition glx_ask :: "decoder_env \<Rightarrow> x_request \<Rightarrow> dec_world \<Rightarrow> ptr \<times> dec_world" where
  "glx_ask env r w = (case ask_ptr (dv_gl env) r (gl_world.truncate w) of (p, g) \<Rightarrow> (p, gl_world.extend g (gl_world.more w)))"

definition hw_ask :: "decoder_env \<Rightarrow> hw_request \<Rightarrow> dec_world \<Rightarrow> hw_answer \<times> dec_world" where
  "hw_ask env r w = (let a = dv_hw env (hw_log w) r in (a, w\<lparr>hw_log := hw_log w @ [(r, a)]\<rparr>))"

definition hw_tell :: "decoder_env \<Rightarrow> hw_request \<Rightarrow> dec_world \<Rightarrow> dec_world" where
  "hw_tell env r w = snd (hw_ask env r w)"

definition call_decoder :: "decoder_env \<Rightarrow> decoder_call \<Rightarrow> dec_world \<Rightarrow> dec_world option" where
  "call_decoder env c w = dv_plugin env c (w\<lparr>dec_calls := dec_calls w @ [c]\<rparr>)"

text \<open>
  The code keeps a pointer to the structure of resource \<open>r\<close>, also while the resource is released for a call
  of the plugin; when the resource is gone by then, using the pointer is undefined.
\<close>

fun the_video_decoder :: "payload \<Rightarrow> pp_video_decoder_s option" where
  "the_video_decoder (PL_video_decoder vd) = Some vd"
| "the_video_decoder _ = None"

definition vd_of :: "PP_Resource \<Rightarrow> dec_world \<Rightarrow> pp_video_decoder_s option" where
  "vd_of r w = do { e \<leftarrow> ht_lookup (res_tbl w) r; the_video_decoder (r_payload e) }"

definition vd_instance :: "PP_Resource \<Rightarrow> dec_world \<Rightarrow> PP_Instance option" where
  "vd_instance r w = do { e \<leftarrow> ht_lookup (res_tbl w) r; r_instance e }"

definition vd_upd :: "PP_Resource \<Rightarrow> (pp_video_decoder_s \<Rightarrow> pp_video_decoder_s) \<Rightarrow> dec_world \<Rightarrow> dec_world option" where
  "vd_upd r f w = do { vd \<leftarrow> vd_of r w; Some (res_write r (PL_video_decoder (f vd)) w) }"

section \<open>What FFmpeg calls\<close>

text \<open>The jumps to \<^verbatim>\<open>err\<close> of the next two functions.\<close>

definition preparation_failed :: "decoder_env \<Rightarrow> PP_Resource \<Rightarrow> dec_world \<Rightarrow> (int \<times> dec_world) option" where
  "preparation_failed env r w = do {
     w \<leftarrow> vd_upd r (\<lambda>vd. vd\<lparr>vd_failed_state := True\<rparr>) w;
     i \<leftarrow> vd_instance r w;
     w \<leftarrow> call_decoder env (NotifyError i r PP_VIDEODECODERERROR_UNREADABLE_INPUT) w;
     Some (AV_PIX_FMT_NONE, w)
   }"

definition prepare_vaapi_context :: "decoder_env \<Rightarrow> PP_Resource \<Rightarrow> int \<Rightarrow> int \<Rightarrow> dec_world \<Rightarrow> (int \<times> dec_world) option" where
  "prepare_vaapi_context env r width height w = do {
     let (a, w) = hw_ask env VaCreateConfig w;
     w \<leftarrow> vd_upd r (\<lambda>vd. vd\<lparr>vd_va_context_id := INVALID_ID, vd_va_config_id := ha_handle a\<rparr>) w;
     (if ha_status a \<noteq> 0 then preparation_failed env r w
      else do {
        let (a, w) = hw_ask env (VaCreateSurfaces width height) w;
        w \<leftarrow> vd_upd r (\<lambda>vd. vd\<lparr>vd_surfaces := ha_surfaces a\<rparr>) w;
        (if ha_status a \<noteq> 0 then preparation_failed env r w
         else do {
           vd \<leftarrow> vd_of r w;
           let (a, w) = hw_ask env (VaCreateContext (vd_va_config_id vd) width height (vd_surfaces vd)) w;
           w \<leftarrow> vd_upd r (\<lambda>vd. vd\<lparr>vd_va_context_id := ha_handle a\<rparr>) w;
           (if ha_status a \<noteq> 0 then preparation_failed env r w
            else do {
              w \<leftarrow> vd_upd r (\<lambda>vd. vd\<lparr>vd_hwdec_api := HWDEC_VAAPI\<rparr>) w;
              Some (dv_PIX_FMT_VAAPI_VLD env, w)
            })
         })
      })
   }"

text \<open>The surfaces from \<open>k\<close> on, as long as they can be made; the first result tells whether all could.\<close>

fun create_vdp_surfaces :: "decoder_env \<Rightarrow> PP_Resource \<Rightarrow> int \<Rightarrow> int \<Rightarrow> nat list \<Rightarrow> dec_world \<Rightarrow> (bool \<times> dec_world) option" where
  "create_vdp_surfaces env r width height [] w = Some (True, w)"
| "create_vdp_surfaces env r width height (k # ks) w = do {
     let (a, w) = hw_ask env (Vdp_video_surface_create width height) w;
     w \<leftarrow> vd_upd r (\<lambda>vd. vd\<lparr>vd_vdp_video_surfaces := (vd_vdp_video_surfaces vd)[k := ha_handle a]\<rparr>) w;
     (if ha_status a \<noteq> 0 then Some (False, w) else create_vdp_surfaces env r width height ks w)
   }"

definition prepare_vdpau_context :: "decoder_env \<Rightarrow> PP_Resource \<Rightarrow> int \<Rightarrow> int \<Rightarrow> dec_world \<Rightarrow> (int \<times> dec_world) option" where
  "prepare_vdpau_context env r width height w = do {
     w \<leftarrow> vd_upd r (\<lambda>vd. vd\<lparr>vd_hwdec_api := HWDEC_VDPAU, vd_vdp_decoder := INVALID_ID, vd_vdp_video_mixer := INVALID_ID,
       vd_vdp_output_surface := INVALID_ID, vd_vdp_video_surfaces := replicate MAX_VDP_SURFACES INVALID_ID\<rparr>) w;
     let (a, w) = hw_ask env (Vdp_decoder_create width height) w;
     w \<leftarrow> vd_upd r (\<lambda>vd. vd\<lparr>vd_vdp_decoder := ha_handle a\<rparr>) w;
     (if ha_status a \<noteq> 0 then preparation_failed env r w
      else do {
        (ok, w) \<leftarrow> create_vdp_surfaces env r width height [0..<MAX_VDP_SURFACES] w;
        (if \<not> ok then preparation_failed env r w
         else do {
           let (a, w) = hw_ask env (Vdp_video_mixer_create width height) w;
           w \<leftarrow> vd_upd r (\<lambda>vd. vd\<lparr>vd_vdp_video_mixer := ha_handle a\<rparr>) w;
           (if ha_status a \<noteq> 0 then preparation_failed env r w
            else do {
              let (a, w) = hw_ask env (Vdp_output_surface_create width height) w;
              w \<leftarrow> vd_upd r (\<lambda>vd. vd\<lparr>vd_vdp_output_surface := ha_handle a\<rparr>) w;
              (if ha_status a \<noteq> 0 then preparation_failed env r w else Some (dv_PIX_FMT_VDPAU env, w))
            })
         })
      })
   }"

text \<open>The list of formats is given without its end mark.\<close>

definition get_format :: "decoder_env \<Rightarrow> PP_Resource \<Rightarrow> int list \<Rightarrow> int \<Rightarrow> int \<Rightarrow> dec_world \<Rightarrow> (int \<times> dec_world) option" where
  "get_format env r fmt width height w =
     (if dv_PIX_FMT_VAAPI_VLD env \<in> set fmt \<and> dv_va_available env then prepare_vaapi_context env r width height w
      else if dv_PIX_FMT_VDPAU env \<in> set fmt \<and> dv_vdpau_available env then prepare_vdpau_context env r width height w
      else do {
        i \<leftarrow> vd_instance r w;
        w \<leftarrow> call_decoder env (NotifyError i r PP_VIDEODECODERERROR_UNREADABLE_INPUT) w;
        Some (AV_PIX_FMT_NONE, w)
      })"

text \<open>Clearing the flag of the first surface with this number among the first \<open>n\<close>.\<close>

definition clear_used :: "nat \<Rightarrow> u32 \<Rightarrow> u32 list \<Rightarrow> bool list \<Rightarrow> bool list" where
  "clear_used n surface surfaces used =
     (case find (\<lambda>k. surfaces ! k = surface) [0..<n] of None \<Rightarrow> used | Some k \<Rightarrow> used[k := False])"

definition release_buffer2 :: "PP_Resource \<Rightarrow> u32 \<Rightarrow> dec_world \<Rightarrow> dec_world option" where
  "release_buffer2 r data w = vd_upd r (\<lambda>vd. case vd_hwdec_api vd of
       HWDEC_VAAPI \<Rightarrow> vd\<lparr>vd_surface_used := clear_used MAX_VA_SURFACES data (vd_surfaces vd) (vd_surface_used vd)\<rparr>
     | HWDEC_VDPAU \<Rightarrow> vd\<lparr>vd_surface_used := clear_used MAX_VDP_SURFACES data (vd_vdp_video_surfaces vd) (vd_surface_used vd)\<rparr>
     | HWDEC_NONE \<Rightarrow> vd) w"

text \<open>Taking the first surface whose flag is clear; the invalid number when there is none.\<close>

definition take_surface :: "nat \<Rightarrow> u32 list \<Rightarrow> bool list \<Rightarrow> u32 \<times> bool list" where
  "take_surface n surfaces used =
     (case find (\<lambda>k. \<not> used ! k) [0..<n] of None \<Rightarrow> (INVALID_ID, used) | Some k \<Rightarrow> (surfaces ! k, used[k := True]))"

text \<open>
  The result is 0 or -1, with the number put into the picture. The picture is registered with
  \<^verbatim>\<open>av_buffer_create\<close>; no memory for that is an answer of -1 too, and it keeps the surface.
\<close>

definition get_buffer2 :: "decoder_env \<Rightarrow> PP_Resource \<Rightarrow> dec_world \<Rightarrow> ((int \<times> u32) \<times> dec_world) option" where
  "get_buffer2 env r w = do {
     vd \<leftarrow> vd_of r w;
     (case vd_hwdec_api vd of
        HWDEC_NONE \<Rightarrow> Some ((if dv_can_alloc env 0 then 0 else - 1, 0), w)
      | api \<Rightarrow> do {
          let (surface, used) = (if api = HWDEC_VAAPI
            then take_surface MAX_VA_SURFACES (vd_surfaces vd) (vd_surface_used vd)
            else take_surface MAX_VDP_SURFACES (vd_vdp_video_surfaces vd) (vd_surface_used vd));
          w \<leftarrow> vd_upd r (\<lambda>vd. vd\<lparr>vd_surface_used := used\<rparr>) w;
          Some ((if surface = INVALID_ID \<or> \<not> dv_can_alloc env 0 then - 1 else 0, surface), w)
        })
   }"

text \<open>A call of FFmpeg.\<close>

primrec run_script :: "decoder_env \<Rightarrow> PP_Resource \<Rightarrow> av_script \<Rightarrow> dec_world \<Rightarrow> (av_answer \<times> dec_world) option" where
  "run_script env r (Av_return a) w = Some (a, w)"
| "run_script env r (Av_get_format fmt width height k) w =
     (case get_format env r fmt width height w of None \<Rightarrow> None | Some (f, w) \<Rightarrow> run_script env r (k f) w)"
| "run_script env r (Av_get_buffer k) w =
     (case get_buffer2 env r w of None \<Rightarrow> None | Some (a, w) \<Rightarrow> run_script env r (k a) w)"
| "run_script env r (Av_release_buffer data s) w =
     (case release_buffer2 r data w of None \<Rightarrow> None | Some w \<Rightarrow> run_script env r s w)"

definition av_call :: "decoder_env \<Rightarrow> PP_Resource \<Rightarrow> av_request \<Rightarrow> dec_world \<Rightarrow> (av_answer \<times> dec_world) option" where
  "av_call env r q w = do {
     (a, w) \<leftarrow> run_script env r (dv_av env (av_log w) q) w;
     Some (a, w\<lparr>av_log := av_log w @ [(q, a)]\<rparr>)
   }"

definition av_tell :: "decoder_env \<Rightarrow> PP_Resource \<Rightarrow> av_request \<Rightarrow> dec_world \<Rightarrow> dec_world option" where
  "av_tell env r q w = map_option snd (av_call env r q w)"

section \<open>Beginning and end\<close>

text \<open>What is freed for each of the two interfaces.\<close>

definition destroy_vaapi :: "decoder_env \<Rightarrow> PP_Resource \<Rightarrow> dec_world \<Rightarrow> dec_world option" where
  "destroy_vaapi env r w = do {
     vd \<leftarrow> vd_of r w;
     let w = (if vd_va_context_id vd \<noteq> 0 then hw_tell env (VaDestroyContext (vd_va_context_id vd)) w else w);
     let w = (if vd_va_config_id vd \<noteq> 0 then hw_tell env (VaDestroyConfig (vd_va_config_id vd)) w else w);
     let w = hw_tell env (VaDestroySurfaces (vd_surfaces vd)) w;
     vd_upd r (\<lambda>vd. vd\<lparr>vd_va_context_id := 0, vd_va_config_id := 0, vd_surfaces := replicate MAX_VA_SURFACES INVALID_ID,
       vd_surface_used := replicate MAX_VA_SURFACES False\<rparr>) w
   }"

text \<open>A handle that is valid is destroyed.\<close>

definition vdp_destroy :: "decoder_env \<Rightarrow> (u32 \<Rightarrow> hw_request) \<Rightarrow> u32 \<Rightarrow> dec_world \<Rightarrow> dec_world" where
  "vdp_destroy env req h w = (if h \<noteq> INVALID_ID then hw_tell env (req h) w else w)"

fun vdp_destroy_surfaces :: "decoder_env \<Rightarrow> PP_Resource \<Rightarrow> nat list \<Rightarrow> dec_world \<Rightarrow> dec_world option" where
  "vdp_destroy_surfaces env r [] w = Some w"
| "vdp_destroy_surfaces env r (k # ks) w = do {
     vd \<leftarrow> vd_of r w;
     w \<leftarrow> (if vd_vdp_video_surfaces vd ! k = INVALID_ID then Some w
       else vd_upd r (\<lambda>vd. vd\<lparr>vd_vdp_video_surfaces := (vd_vdp_video_surfaces vd)[k := INVALID_ID],
              vd_surface_used := (vd_surface_used vd)[k := False]\<rparr>)
              (hw_tell env (Vdp_video_surface_destroy (vd_vdp_video_surfaces vd ! k)) w));
     vdp_destroy_surfaces env r ks w
   }"

definition set_buffer :: "nat \<Rightarrow> (decoder_buffer_s \<Rightarrow> decoder_buffer_s) \<Rightarrow> pp_video_decoder_s \<Rightarrow> pp_video_decoder_s" where
  "set_buffer k f vd = vd\<lparr>vd_buffers := map_option (\<lambda>bs. bs[k := f (bs ! k)]) (vd_buffers vd)\<rparr>"

text \<open>A buffer read past those that were written is undefined.\<close>

definition buffer_at :: "nat \<Rightarrow> pp_video_decoder_s \<Rightarrow> decoder_buffer_s option" where
  "buffer_at k vd = do { bs \<leftarrow> vd_buffers vd; (if k < length bs then Some (bs ! k) else None) }"

fun vdp_destroy_queues :: "decoder_env \<Rightarrow> PP_Resource \<Rightarrow> nat list \<Rightarrow> dec_world \<Rightarrow> dec_world option" where
  "vdp_destroy_queues env r [] w = Some w"
| "vdp_destroy_queues env r (k # ks) w = do {
     vd \<leftarrow> vd_of r w;
     b \<leftarrow> buffer_at k vd;
     q \<leftarrow> db_queue b;
     t \<leftarrow> db_target b;
     w \<leftarrow> vd_upd r (set_buffer k (\<lambda>b. b\<lparr>db_queue := Some INVALID_ID, db_target := Some INVALID_ID\<rparr>))
       (vdp_destroy env Vdp_target_destroy t (vdp_destroy env Vdp_presentation_queue_destroy q w));
     vdp_destroy_queues env r ks w
   }"

definition destroy_vdpau :: "decoder_env \<Rightarrow> PP_Resource \<Rightarrow> dec_world \<Rightarrow> dec_world option" where
  "destroy_vdpau env r w = do {
     vd \<leftarrow> vd_of r w;
     let w = vdp_destroy env Vdp_decoder_destroy (vd_vdp_decoder vd) w;
     let w = vdp_destroy env Vdp_video_mixer_destroy (vd_vdp_video_mixer vd) w;
     let w = vdp_destroy env Vdp_output_surface_destroy (vd_vdp_output_surface vd) w;
     w \<leftarrow> vd_upd r (\<lambda>vd. vd\<lparr>vd_vdp_decoder := INVALID_ID, vd_vdp_video_mixer := INVALID_ID, vd_vdp_output_surface := INVALID_ID\<rparr>) w;
     w \<leftarrow> vdp_destroy_surfaces env r [0..<MAX_VDP_SURFACES] w;
     vdp_destroy_queues env r [0..<vd_buffer_count vd] w
   }"

text \<open>The plugin is told of every buffer before its pixmaps go.\<close>

fun dismiss_buffers :: "decoder_env \<Rightarrow> PP_Resource \<Rightarrow> nat list \<Rightarrow> dec_world \<Rightarrow> dec_world option" where
  "dismiss_buffers env r [] w = Some w"
| "dismiss_buffers env r (k # ks) w = do {
     vd \<leftarrow> vd_of r w;
     b \<leftarrow> buffer_at k vd;
     i \<leftarrow> vd_instance r w;
     w \<leftarrow> call_decoder env (DismissPictureBuffer i r (db_id b)) w;
     vd \<leftarrow> vd_of r w;
     b \<leftarrow> buffer_at k vd;
     let w = (if db_glx_pixmap b \<noteq> 0 then glx_tell env [GlXDestroyPixmap (db_glx_pixmap b)] w else w);
     let w = (if db_pixmap b \<noteq> 0 then glx_tell env [XFreePixmap (db_pixmap b)] w else w);
     w \<leftarrow> vd_upd r (set_buffer k (\<lambda>b. b\<lparr>db_glx_pixmap := 0, db_pixmap := 0\<rparr>)) w;
     dismiss_buffers env r ks w
   }"

definition close_ffmpeg :: "decoder_env \<Rightarrow> PP_Resource \<Rightarrow> dec_world \<Rightarrow> dec_world option" where
  "close_ffmpeg env r w = do {
     vd \<leftarrow> vd_of r w;
     w \<leftarrow> (if vd_avparser vd = 0 then Some w else do {
       w \<leftarrow> av_tell env r (Av_parser_close (vd_avparser vd)) w;
       vd_upd r (\<lambda>vd. vd\<lparr>vd_avparser := 0\<rparr>) w });
     w \<leftarrow> (if vd_avctx vd = 0 then Some w else do {
       w \<leftarrow> av_tell env r (Avcodec_close (vd_avctx vd)) w;
       w \<leftarrow> av_tell env r (Avcodec_free_context (vd_avctx vd)) w;
       vd_upd r (\<lambda>vd. vd\<lparr>vd_avctx := 0\<rparr>) w });
     (if vd_avframe vd = 0 then Some w else do {
       w \<leftarrow> av_tell env r (Av_frame_free (vd_avframe vd)) w;
       vd_upd r (\<lambda>vd. vd\<lparr>vd_avframe := 0\<rparr>) w })
   }"

definition deinitialize_decoder :: "decoder_env \<Rightarrow> PP_Resource \<Rightarrow> dec_world \<Rightarrow> dec_world option" where
  "deinitialize_decoder env r w = do {
     vd \<leftarrow> vd_of r w;
     w \<leftarrow> (if vd_graphics3d vd = 0 then Some w else do {
       w \<leftarrow> pp_resource_unref (vd_graphics3d vd) w;
       vd_upd r (\<lambda>vd. vd\<lparr>vd_graphics3d := 0\<rparr>) w });
     w \<leftarrow> close_ffmpeg env r w;
     vd \<leftarrow> vd_of r w;
     w \<leftarrow> (case vd_hwdec_api vd of HWDEC_VAAPI \<Rightarrow> destroy_vaapi env r w | HWDEC_VDPAU \<Rightarrow> destroy_vdpau env r w | HWDEC_NONE \<Rightarrow> Some w);
     w \<leftarrow> dismiss_buffers env r [0..<vd_buffer_count vd] w;
     vd_upd r (\<lambda>vd. vd\<lparr>vd_buffer_count := 0, vd_buffers_were_requested := False, vd_initialized := False, vd_buffers := None\<rparr>) w
   }"

definition ppb_video_decoder_destroy_priv :: "decoder_env \<Rightarrow> PP_Resource \<Rightarrow> dec_world \<Rightarrow> dec_world option" where
  "ppb_video_decoder_destroy_priv env r w = do {
     vd \<leftarrow> vd_of r w;
     w \<leftarrow> (if vd_orig_graphics3d vd = 0 then Some w else do {
       w \<leftarrow> pp_resource_unref (vd_orig_graphics3d vd) w;
       vd_upd r (\<lambda>vd. vd\<lparr>vd_orig_graphics3d := 0\<rparr>) w });
     deinitialize_decoder env r w
   }"

text \<open>The context of its own that the decoder draws with; the size can be any.\<close>

definition auxiliary_attribs :: "int list" where
  "auxiliary_attribs = [PP_GRAPHICS3DATTRIB_WIDTH, 32, PP_GRAPHICS3DATTRIB_HEIGHT, 32, PP_GRAPHICS3DATTRIB_RED_SIZE, 8,
     PP_GRAPHICS3DATTRIB_GREEN_SIZE, 8, PP_GRAPHICS3DATTRIB_BLUE_SIZE, 8, PP_GRAPHICS3DATTRIB_ALPHA_SIZE, 8,
     PP_GRAPHICS3DATTRIB_DEPTH_SIZE, 16, GLX_Y_INVERTED_EXT, 1, GLX_BIND_TO_TEXTURE_RGBA_EXT, 1, PP_GRAPHICS3DATTRIB_NONE]"

text \<open>The steps up to the frame; \<open>False\<close> is the jump to \<^verbatim>\<open>err\<close>.\<close>

definition open_ffmpeg :: "decoder_env \<Rightarrow> PP_Resource \<Rightarrow> dec_world \<Rightarrow> (bool \<times> dec_world) option" where
  "open_ffmpeg env r w = do {
     vd \<leftarrow> vd_of r w;
     (a, w) \<leftarrow> av_call env r (Avcodec_find_decoder (vd_codec_id vd)) w;
     (if aa_ptr a = 0 then Some (False, w)
      else do {
        (a, w) \<leftarrow> av_call env r (Av_parser_init (vd_codec_id vd)) w;
        w \<leftarrow> vd_upd r (\<lambda>vd. vd\<lparr>vd_avparser := aa_ptr a\<rparr>) w;
        (if aa_ptr a = 0 then Some (False, w)
         else do {
           (a, w) \<leftarrow> av_call env r Avcodec_alloc_context3 w;
           w \<leftarrow> vd_upd r (\<lambda>vd. vd\<lparr>vd_avctx := aa_ptr a\<rparr>) w;
           (if aa_ptr a = 0 then Some (False, w)
            else do {
              (b, w) \<leftarrow> av_call env r (Avcodec_open2 (aa_ptr a)) w;
              (if aa_int b < 0 then Some (False, w)
               else do {
                 (a, w) \<leftarrow> av_call env r Av_frame_alloc w;
                 w \<leftarrow> vd_upd r (\<lambda>vd. vd\<lparr>vd_avframe := aa_ptr a\<rparr>) w;
                 Some (aa_ptr a \<noteq> 0, w)
               })
            })
         })
      })
   }"

definition initialize_decoder :: "decoder_env \<Rightarrow> PP_Resource \<Rightarrow> dec_world \<Rightarrow> (int \<times> dec_world) option" where
  "initialize_decoder env r w = do {
     vd \<leftarrow> vd_of r w;
     i \<leftarrow> vd_instance r w;
     (g, w) \<leftarrow> on_gl (ppb_graphics3d_create (dv_gl env) i (vd_orig_graphics3d vd) auxiliary_attribs) w;
     w \<leftarrow> vd_upd r (\<lambda>vd. vd\<lparr>vd_graphics3d := g\<rparr>) w;
     (ok, w) \<leftarrow> (if g = 0 then Some (False, w) else do {
       w \<leftarrow> vd_upd r (\<lambda>vd. vd\<lparr>vd_hwdec_api := HWDEC_NONE\<rparr>) w;
       open_ffmpeg env r w });
     (if ok then do {
        w \<leftarrow> vd_upd r (\<lambda>vd. vd\<lparr>vd_initialized := True\<rparr>) w;
        Some (0, w)
      }
      else do {
        w \<leftarrow> deinitialize_decoder env r w;
        Some (- 1, w)
      })
   }"

definition ppb_video_decoder_create ::
  "decoder_env \<Rightarrow> PP_Instance \<Rightarrow> PP_Resource \<Rightarrow> int \<Rightarrow> dec_world \<Rightarrow> (PP_Resource \<times> dec_world) option" where
  "ppb_video_decoder_create env instance context profile w =
     (if \<not> dv_enable_hwdec env \<or> (\<not> dv_va_available env \<and> \<not> dv_vdpau_available env) \<or>
         \<not> dv_bind_tex_image env \<or> \<not> dv_release_tex_image env \<or> profile \<notin> {1, 2, 3, 4} then Some (0, w)
      else case tables_get_pp_instance instance w of
        None \<Rightarrow> Some (0, w)
      | Some pp_i \<Rightarrow>
          if \<not> dv_has_interface env \<or> pp_resource_get_type context w \<noteq> PP_RESOURCE_GRAPHICS3D then Some (0, w)
          else do {
            (video_decoder, w) \<leftarrow> pp_resource_allocate PP_RESOURCE_VIDEO_DECODER (Some (pi_id pp_i)) w;
            with_resource video_decoder PP_RESOURCE_VIDEO_DECODER 0
              (\<lambda>gr w. do {
                 let (orig, w) = pp_resource_ref context w;
                 w \<leftarrow> vd_upd video_decoder (\<lambda>vd. vd\<lparr>vd_orig_graphics3d := orig, vd_codec_id := dv_CODEC_ID_H264 env,
                   vd_hwdec_api := HWDEC_NONE\<rparr>) w;
                 Some (video_decoder, w)
               }) w
          })"

definition ppb_video_decoder_is_video_decoder :: "PP_Resource \<Rightarrow> 'a res_state_scheme \<Rightarrow> bool" where
  "ppb_video_decoder_is_video_decoder resource w \<longleftrightarrow> pp_resource_get_type resource w = PP_RESOURCE_VIDEO_DECODER"

section \<open>Pictures\<close>

text \<open>The resource is free while the plugin makes its textures.\<close>

definition request_buffers :: "decoder_env \<Rightarrow> PP_Resource \<Rightarrow> int \<times> int \<Rightarrow> dec_world \<Rightarrow> dec_world option" where
  "request_buffers env r dimensions w = do {
     vd \<leftarrow> vd_of r w;
     i \<leftarrow> vd_instance r w;
     let requested_buffer_count = (case vd_hwdec_api vd of
       HWDEC_VAAPI \<Rightarrow> int MAX_VA_SURFACES | HWDEC_VDPAU \<Rightarrow> int MAX_VDP_SURFACES | HWDEC_NONE \<Rightarrow> 5);
     w \<leftarrow> pp_resource_release r w;
     w \<leftarrow> call_decoder env (ProvidePictureBuffers i r requested_buffer_count dimensions) w;
     map_option snd (pp_resource_acquire r PP_RESOURCE_VIDEO_DECODER w)
   }"

text \<open>The first buffer that is not in use, among \<open>n\<close>.\<close>

fun find_free_buffer :: "nat \<Rightarrow> decoder_buffer_s list \<Rightarrow> nat option option" where
  "find_free_buffer 0 bs = Some None"
| "find_free_buffer (Suc n) [] = None"
| "find_free_buffer (Suc n) (b # bs) =
     (if \<not> db_used b then Some (Some 0) else map_option (map_option Suc) (find_free_buffer n bs))"

definition free_buffer :: "pp_video_decoder_s \<Rightarrow> nat option option" where
  "free_buffer vd = find_free_buffer (vd_buffer_count vd) (case vd_buffers vd of None \<Rightarrow> [] | Some bs \<Rightarrow> bs)"

definition draw_frame :: "decoder_env \<Rightarrow> pp_video_decoder_s \<Rightarrow> decoder_buffer_s \<Rightarrow> av_frame_s \<Rightarrow> dec_world \<Rightarrow> dec_world option" where
  "draw_frame env vd b frame w =
     (case vd_hwdec_api vd of
        HWDEC_VAAPI \<Rightarrow> Some (hw_tell env (VaPutSurface (fr_data3 frame) (db_pixmap b) (fr_width frame) (fr_height frame)) w)
      | HWDEC_VDPAU \<Rightarrow> do {
          q \<leftarrow> db_queue b;
          let w = hw_tell env (Vdp_video_mixer_render (vd_vdp_video_mixer vd) (fr_data3 frame) (vd_vdp_output_surface vd)) w;
          Some (hw_tell env (Vdp_presentation_queue_display q (vd_vdp_output_surface vd) (db_width b) (db_height b)) w)
        }
      | HWDEC_NONE \<Rightarrow> Some w)"

definition bind_texture :: "pp_graphics3d_s \<Rightarrow> u32 \<Rightarrow> x_request list" where
  "bind_texture g3d texture = [GlXMakeCurrent (g3_glx_pixmap g3d) (g3_glc g3d),
     Gl \<lparr>gl_name = ''glBindTexture'', gl_args = [GE 0x0DE1, GE texture]\<rparr>]"

text \<open>The buffer stays taken when the context of the decoder is gone.\<close>

definition issue_frame :: "decoder_env \<Rightarrow> PP_Resource \<Rightarrow> av_frame_s \<Rightarrow> dec_world \<Rightarrow> dec_world option" where
  "issue_frame env r frame w = do {
     vd \<leftarrow> vd_of r w;
     idx \<leftarrow> free_buffer vd;
     (case idx of
        None \<Rightarrow> Some w
      | Some idx \<Rightarrow> do {
          w \<leftarrow> vd_upd r (set_buffer idx (\<lambda>b. b\<lparr>db_used := True\<rparr>)) w;
          b \<leftarrow> buffer_at idx vd;
          (g3d, w) \<leftarrow> pp_resource_acquire (vd_graphics3d vd) PP_RESOURCE_GRAPHICS3D w;
          (case g3d of
             None \<Rightarrow> Some w
           | Some gr \<Rightarrow> do {
               g3d \<leftarrow> the_graphics3d (r_payload gr);
               let w = glx_tell env (bind_texture g3d (db_texture_id b) @
                 [Gl \<lparr>gl_name = ''glXBindTexImageEXT'', gl_args = [GP (db_glx_pixmap b)]\<rparr>, XFlush]) w;
               w \<leftarrow> draw_frame env vd b frame w;
               let w = glx_tell env [XFlush, GlXMakeCurrent 0 0] w;
               w \<leftarrow> pp_resource_release (vd_graphics3d vd) w;
               i \<leftarrow> vd_instance r w;
               w \<leftarrow> pp_resource_release r w;
               w \<leftarrow> call_decoder env (PictureReady i r (db_id b) (sint (word_of_int (fr_pkt_pts frame) :: 32 word))) w;
               map_option snd (pp_resource_acquire r PP_RESOURCE_VIDEO_DECODER w)
             })
        })
   }"

definition decode_frame :: "decoder_env \<Rightarrow> PP_Resource \<Rightarrow> char list \<Rightarrow> int \<Rightarrow> dec_world \<Rightarrow> dec_world option" where
  "decode_frame env r data bitstream_buffer_id w = do {
     vd \<leftarrow> vd_of r w;
     (a, w) \<leftarrow> av_call env r (Avcodec_decode_video2 (vd_avctx vd) (vd_avframe vd) data bitstream_buffer_id) w;
     (if aa_int a < 0 \<or> \<not> aa_got_frame a then Some w
      else do {
        vd \<leftarrow> vd_of r w;
        w \<leftarrow> (if vd_buffers_were_requested vd then Some w else do {
          w \<leftarrow> request_buffers env r (aa_ctx_size a) w;
          vd_upd r (\<lambda>vd. vd\<lparr>vd_buffers_were_requested := True\<rparr>) w });
        issue_frame env r (aa_frame a) w
      })
   }"

text \<open>
  The loop over the bytes of the plugin. It does not end when the parser takes nothing; a parser that takes
  more than there is, or gives some back, is outside FFmpeg's contract, and so is a length that is negative
  as an \<^verbatim>\<open>int\<close>.
\<close>

partial_function (option) parse_bitstream :: "decoder_env \<Rightarrow> PP_Resource \<Rightarrow> char list \<Rightarrow> dec_world \<Rightarrow> dec_world option" where
  "parse_bitstream env r inbuf w =
     (if inbuf = [] then Some w
      else if INT_MAX < int (length inbuf) then None
      else do {
        vd \<leftarrow> vd_of r w;
        (a, w) \<leftarrow> av_call env r (Av_parser_parse2 (vd_avparser vd) (vd_avctx vd) inbuf) w;
        w \<leftarrow> (if aa_outbuf a = [] then Some w
              else decode_frame env r (aa_outbuf a) (vd_last_consumed_bitstream_buffer_id vd) w);
        (if aa_int a < 0 \<or> int (length inbuf) < aa_int a then None
         else parse_bitstream env r (drop (nat (aa_int a)) inbuf) w)
      })"

record PP_VideoBitstreamBuffer_Dev =
  bb_id :: int
  bb_data :: PP_Resource
  bb_size :: u32

text \<open>The block of the buffer is read up to the size the plugin gives, which nobody compares with its own.\<close>

definition ppb_video_decoder_decode ::
  "decoder_env \<Rightarrow> timespec \<Rightarrow> PP_Resource \<Rightarrow> PP_VideoBitstreamBuffer_Dev \<Rightarrow> PP_CompletionCallback \<Rightarrow> dec_world \<Rightarrow>
   (int \<times> dec_world) option" where
  "ppb_video_decoder_decode env now video_decoder buf callback w = do {
     (gr, w) \<leftarrow> pp_resource_acquire video_decoder PP_RESOURCE_VIDEO_DECODER w;
     (case gr of
        None \<Rightarrow> Some (PP_ERROR_BADRESOURCE, w)
      | Some gr \<Rightarrow> do {
          vd \<leftarrow> the_video_decoder (r_payload gr);
          (if vd_failed_state vd then do {
             w \<leftarrow> pp_resource_release video_decoder w;
             Some (PP_ERROR_FAILED, w)
           }
           else do {
             (err, w) \<leftarrow> (if vd_initialized vd then Some (0, w) else initialize_decoder env video_decoder w);
             (if err \<noteq> 0 then do {
                w \<leftarrow> vd_upd video_decoder (\<lambda>vd. vd\<lparr>vd_failed_state := True\<rparr>) w;
                i \<leftarrow> vd_instance video_decoder w;
                w \<leftarrow> call_decoder env (NotifyError i video_decoder PP_VIDEODECODERERROR_PLATFORM_FAILURE) w;
                w \<leftarrow> pp_resource_release video_decoder w;
                Some (PP_ERROR_FAILED, w)
              }
              else do {
                (rawdata, w) \<leftarrow> ppb_buffer_map (bb_data buf) w;
                (case rawdata of
                   None \<Rightarrow> do {
                     w \<leftarrow> pp_resource_release video_decoder w;
                     Some (PP_ERROR_FAILED, w)
                   }
                 | Some rawdata \<Rightarrow>
                     if length rawdata < unat (bb_size buf) then None
                     else do {
                       w \<leftarrow> parse_bitstream env video_decoder (take (unat (bb_size buf)) rawdata) w;
                       w \<leftarrow> vd_upd video_decoder (\<lambda>vd. vd\<lparr>vd_last_consumed_bitstream_buffer_id := bb_id buf\<rparr>) w;
                       w \<leftarrow> ppb_buffer_unmap (bb_data buf) w;
                       w \<leftarrow> pp_resource_release video_decoder w;
                       (_, w) \<leftarrow> ppb_message_loop_post_work_with_result now (ppb_message_loop_get_current w) callback 0 PP_OK 0 w;
                       Some (PP_OK_COMPLETIONPENDING, w)
                     })
              })
           })
        })
   }"

section \<open>Buffers of the plugin\<close>

record PP_PictureBuffer_Dev =
  pb_id :: int
  pb_width :: int
  pb_height :: int
  pb_texture_id :: u32

text \<open>A buffer with its pixmaps; 0 for the pixmap of GLX ends the loop.\<close>

definition make_picture_buffer :: "decoder_env \<Rightarrow> pp_graphics3d_s \<Rightarrow> hwdec_api_e \<Rightarrow> PP_PictureBuffer_Dev \<Rightarrow> dec_world \<Rightarrow> decoder_buffer_s \<times> dec_world" where
  "make_picture_buffer env g3d api pb w =
     (let (pixmap, w) = glx_ask env (XCreatePixmap (pb_width pb) (pb_height pb) (g3_depth g3d)) w;
          (glx_pixmap, w) = glx_ask env (GlXCreatePixmap (g3_fb_config g3d) pixmap) w;
          b = \<lparr>db_id = pb_id pb, db_width = word_of_int (pb_width pb), db_height = word_of_int (pb_height pb),
            db_texture_id = pb_texture_id pb, db_used = False, db_pixmap = pixmap, db_glx_pixmap = glx_pixmap,
            db_target = None, db_queue = None\<rparr>
      in if glx_pixmap = 0 \<or> api \<noteq> HWDEC_VDPAU then (b, w)
         else (let w = glx_tell env [XSync] w;
                   (t, w) = hw_ask env (Vdp_target_create_x11 pixmap) w;
                   (q, w) = hw_ask env (Vdp_presentation_queue_create (ha_handle t)) w
               in (b\<lparr>db_target := Some (ha_handle t), db_queue := Some (ha_handle q)\<rparr>, w)))"

fun make_picture_buffers ::
  "decoder_env \<Rightarrow> pp_graphics3d_s \<Rightarrow> hwdec_api_e \<Rightarrow> PP_PictureBuffer_Dev list \<Rightarrow> dec_world \<Rightarrow> decoder_buffer_s list \<times> dec_world" where
  "make_picture_buffers env g3d api [] w = ([], w)"
| "make_picture_buffers env g3d api (pb # pbs) w =
     (let (b, w) = make_picture_buffer env g3d api pb w
      in if db_glx_pixmap b = 0 then ([b], w)
         else (let (bs, w) = make_picture_buffers env g3d api pbs w in (b # bs, w)))"

definition ppb_video_decoder_assign_picture_buffers ::
  "decoder_env \<Rightarrow> PP_Resource \<Rightarrow> PP_PictureBuffer_Dev list \<Rightarrow> dec_world \<Rightarrow> dec_world option" where
  "ppb_video_decoder_assign_picture_buffers env video_decoder buffers w =
     map_option snd (with_resource video_decoder PP_RESOURCE_VIDEO_DECODER ()
       (\<lambda>gr w. do {
          vd \<leftarrow> the_video_decoder (r_payload gr);
          with_resource (vd_graphics3d vd) PP_RESOURCE_GRAPHICS3D ()
            (\<lambda>ge w. do {
               g3d \<leftarrow> the_graphics3d (r_payload ge);
               (if \<not> dv_can_alloc env (length buffers) then do {
                  w \<leftarrow> vd_upd video_decoder (\<lambda>vd. vd\<lparr>vd_buffers := None\<rparr>) w;
                  Some ((), w)
                }
                else do {
                  let (bs, w) = make_picture_buffers env g3d (vd_hwdec_api vd) buffers w;
                  w \<leftarrow> vd_upd video_decoder (\<lambda>vd. vd\<lparr>vd_buffers := Some bs, vd_buffer_count := length buffers\<rparr>) w;
                  Some ((), w)
                })
             }) w
        }) w)"

text \<open>Every buffer in use with the number is given back.\<close>

fun reuse_buffers :: "decoder_env \<Rightarrow> PP_Resource \<Rightarrow> int \<Rightarrow> nat list \<Rightarrow> dec_world \<Rightarrow> dec_world option" where
  "reuse_buffers env r picture_buffer_id [] w = Some w"
| "reuse_buffers env r picture_buffer_id (k # ks) w = do {
     vd \<leftarrow> vd_of r w;
     b \<leftarrow> buffer_at k vd;
     w \<leftarrow> (if db_id b = picture_buffer_id \<and> db_used b then do {
         w \<leftarrow> vd_upd r (set_buffer k (\<lambda>b. b\<lparr>db_used := False\<rparr>)) w;
         map_option snd (with_resource (vd_graphics3d vd) PP_RESOURCE_GRAPHICS3D ()
           (\<lambda>ge w. do {
              g3d \<leftarrow> the_graphics3d (r_payload ge);
              Some ((), glx_tell env (bind_texture g3d (db_texture_id b) @
                [Gl \<lparr>gl_name = ''glXReleaseTexImageEXT'', gl_args = [GP (db_glx_pixmap b)]\<rparr>, GlXMakeCurrent 0 0, XFlush]) w)
            }) w)
       }
       else Some w);
     reuse_buffers env r picture_buffer_id ks w
   }"

definition ppb_video_decoder_reuse_picture_buffer :: "decoder_env \<Rightarrow> PP_Resource \<Rightarrow> int \<Rightarrow> dec_world \<Rightarrow> dec_world option" where
  "ppb_video_decoder_reuse_picture_buffer env video_decoder picture_buffer_id w =
     map_option snd (with_resource video_decoder PP_RESOURCE_VIDEO_DECODER ()
       (\<lambda>gr w. do {
          vd \<leftarrow> the_video_decoder (r_payload gr);
          w \<leftarrow> reuse_buffers env video_decoder picture_buffer_id [0..<vd_buffer_count vd] w;
          Some ((), w)
        }) w)"

text \<open>Flushing a decoder that has no context of FFmpeg yet is a call with a NULL pointer.\<close>

definition ppb_video_decoder_flush ::
  "decoder_env \<Rightarrow> timespec \<Rightarrow> PP_Resource \<Rightarrow> PP_CompletionCallback \<Rightarrow> dec_world \<Rightarrow> (int \<times> dec_world) option" where
  "ppb_video_decoder_flush env now video_decoder callback w = do {
     (gr, w) \<leftarrow> pp_resource_acquire video_decoder PP_RESOURCE_VIDEO_DECODER w;
     (case gr of
        None \<Rightarrow> Some (PP_ERROR_BADRESOURCE, w)
      | Some gr \<Rightarrow> do {
          vd \<leftarrow> the_video_decoder (r_payload gr);
          w \<leftarrow> (if vd_avctx vd = 0 then None else av_tell env video_decoder (Avcodec_flush_buffers (vd_avctx vd)) w);
          w \<leftarrow> pp_resource_release video_decoder w;
          (_, w) \<leftarrow> ppb_message_loop_post_work_with_result now (ppb_message_loop_get_current w) callback 0 PP_OK 0 w;
          Some (PP_OK_COMPLETIONPENDING, w)
        })
   }"

definition ppb_video_decoder_reset ::
  "decoder_env \<Rightarrow> timespec \<Rightarrow> PP_Resource \<Rightarrow> PP_CompletionCallback \<Rightarrow> dec_world \<Rightarrow> (int \<times> dec_world) option" where
  "ppb_video_decoder_reset env now video_decoder callback w = do {
     (gr, w) \<leftarrow> pp_resource_acquire video_decoder PP_RESOURCE_VIDEO_DECODER w;
     (case gr of
        None \<Rightarrow> Some (PP_ERROR_BADRESOURCE, w)
      | Some gr \<Rightarrow> do {
          w \<leftarrow> deinitialize_decoder env video_decoder w;
          w \<leftarrow> pp_resource_release video_decoder w;
          (_, w) \<leftarrow> ppb_message_loop_post_work_with_result now (ppb_message_loop_get_current w) callback 0 PP_OK 0 w;
          Some (PP_OK_COMPLETIONPENDING, w)
        })
   }"

definition ppb_video_decoder_destroy :: "PP_Resource \<Rightarrow> 'w \<Rightarrow> 'w" where
  "ppb_video_decoder_destroy video_decoder w = w"

end
