(* ===== verification/Decoder_Correct.thy ===== *)
theory Decoder_Correct
  imports Video_Decoder
begin

text \<open>
  Surfaces are lent to FFmpeg one at a time; what VDPAU made is destroyed, however far the preparation got;
  FFmpeg gets every byte of the plugin once, and its decoder every byte its parser puts out.
\<close>

section \<open>Surfaces\<close>

text \<open>The surfaces lent out, among the first \<open>n\<close>.\<close>

definition lent :: "nat \<Rightarrow> u32 list \<Rightarrow> bool list \<Rightarrow> u32 set" where
  "lent n surfaces used = {surfaces ! k | k. k < n \<and> used ! k}"

definition surfaces_ok :: "nat \<Rightarrow> u32 list \<Rightarrow> bool list \<Rightarrow> bool" where
  "surfaces_ok n surfaces used \<longleftrightarrow> length surfaces = n \<and> n \<le> length used \<and> distinct surfaces \<and> INVALID_ID \<notin> set surfaces"

lemma take_surface_lends:
  assumes "surfaces_ok n surfaces used" "take_surface n surfaces used = (s, used')"
  shows "s = INVALID_ID \<and> used' = used \<and> lent n surfaces used = set surfaces \<or>
    s \<in> set surfaces \<and> s \<notin> lent n surfaces used \<and> lent n surfaces used' = insert s (lent n surfaces used) \<and> length used' = length used"
proof (cases "find (\<lambda>k. \<not> used ! k) [0..<n]")
  case None
  then have "\<forall>k<n. used ! k" by (auto simp: find_None_iff)
  then have "lent n surfaces used = set surfaces"
    using assms(1) unfolding lent_def surfaces_ok_def set_conv_nth by blast
  then show ?thesis using None assms(2) by (simp add: take_surface_def)
next
  case (Some k)
  then have k: "k < n" "\<not> used ! k" by (auto simp: find_Some_iff)
  have s: "s = surfaces ! k" "used' = used[k := True]" using Some assms(2) by (simp_all add: take_surface_def)
  have n: "length surfaces = n" "n \<le> length used" "distinct surfaces" using assms(1) by (simp_all add: surfaces_ok_def)
  have "s \<notin> lent n surfaces used" using k n by (auto simp: lent_def s(1) nth_eq_iff_index_eq)
  moreover have "lent n surfaces used' = insert s (lent n surfaces used)"
    using k n by (auto simp: lent_def s nth_list_update)
  ultimately show ?thesis using k n s by auto
qed

lemma clear_used_returns:
  assumes "surfaces_ok n surfaces used"
  shows "lent n surfaces (clear_used n s surfaces used) = lent n surfaces used - {s} \<and> length (clear_used n s surfaces used) = length used"
proof (cases "find (\<lambda>k. surfaces ! k = s) [0..<n]")
  case None
  then have "\<forall>k<n. surfaces ! k \<noteq> s" by (auto simp: find_None_iff)
  then show ?thesis using None by (auto simp: clear_used_def lent_def)
next
  case (Some k)
  then have k: "k < n" "surfaces ! k = s" by (auto simp: find_Some_iff)
  have n: "length surfaces = n" "n \<le> length used" "distinct surfaces" using assms by (simp_all add: surfaces_ok_def)
  have "clear_used n s surfaces used = used[k := False]" using Some by (simp add: clear_used_def)
  then show ?thesis using k n by (auto simp: lent_def nth_list_update nth_eq_iff_index_eq)
qed

text \<open>Reading and writing the structure.\<close>

lemma vd_upd_some: "vd_of r w = Some vd \<Longrightarrow> vd_upd r f w = Some (res_write r (PL_video_decoder (f vd)) w)"
  by (simp add: vd_upd_def)

lemma vd_of_write [simp]:
  "vd_of r w = Some vd \<Longrightarrow> vd_of r (res_write r (PL_video_decoder vd') w) = Some vd'"
  "vd_instance r (res_write r pl w) = vd_instance r w"
  by (auto simp: vd_of_def vd_instance_def res_write_def bind_eq_Some_conv split: option.splits)

lemma write_frame [simp]:
  "hw_log (res_write r pl w) = hw_log w" "av_log (res_write r pl w) = av_log w" "dec_calls (res_write r pl w) = dec_calls w"
  by (simp_all add: res_write_def split: option.split)

lemma vd_of_frame [simp]:
  "vd_of r (w\<lparr>hw_log := h\<rparr>) = vd_of r w" "vd_of r (w\<lparr>av_log := l\<rparr>) = vd_of r w" "vd_of r (w\<lparr>dec_calls := c\<rparr>) = vd_of r w"
  "vd_instance r (w\<lparr>hw_log := h\<rparr>) = vd_instance r w"
  by (simp_all add: vd_of_def vd_instance_def)

text \<open>The surfaces of the interface in use.\<close>

definition pool :: "pp_video_decoder_s \<Rightarrow> (nat \<times> u32 list) option" where
  "pool vd = (case vd_hwdec_api vd of HWDEC_NONE \<Rightarrow> None | HWDEC_VAAPI \<Rightarrow> Some (MAX_VA_SURFACES, vd_surfaces vd)
     | HWDEC_VDPAU \<Rightarrow> Some (MAX_VDP_SURFACES, vd_vdp_video_surfaces vd))"

definition lent_by :: "pp_video_decoder_s \<Rightarrow> u32 set" where
  "lent_by vd = (case pool vd of None \<Rightarrow> {} | Some (n, ss) \<Rightarrow> lent n ss (vd_surface_used vd))"

definition pool_ok :: "pp_video_decoder_s \<Rightarrow> bool" where
  "pool_ok vd \<longleftrightarrow> (\<exists>n ss. pool vd = Some (n, ss) \<and> surfaces_ok n ss (vd_surface_used vd))"

definition pool_surfaces :: "pp_video_decoder_s \<Rightarrow> u32 set" where
  "pool_surfaces vd = (case pool vd of None \<Rightarrow> {} | Some (n, ss) \<Rightarrow> set ss)"

lemma pool_used [simp]: "pool (vd\<lparr>vd_surface_used := u\<rparr>) = pool vd"
  by (simp add: pool_def split: hwdec_api_e.split)

lemma get_buffer2_lends:
  assumes vd: "vd_of r w = Some vd" "pool_ok vd" and mem: "dv_can_alloc env 0"
  shows "\<exists>c s vd' w'. get_buffer2 env r w = Some ((c, s), w') \<and> vd_of r w' = Some vd' \<and> pool vd' = pool vd \<and> pool_ok vd' \<and>
    (c = - 1 \<and> lent_by vd = pool_surfaces vd \<and> lent_by vd' = lent_by vd \<or>
     c = 0 \<and> s \<in> pool_surfaces vd - lent_by vd \<and> lent_by vd' = insert s (lent_by vd))"
proof -
  obtain n ss where p: "pool vd = Some (n, ss)" "surfaces_ok n ss (vd_surface_used vd)" using vd(2) by (auto simp: pool_ok_def)
  obtain s used where t: "take_surface n ss (vd_surface_used vd) = (s, used)" by fastforce
  let ?vd = "vd\<lparr>vd_surface_used := used\<rparr>"
  have len: "length used = length (vd_surface_used vd)" using take_surface_lends [OF p(2) t] by auto
  have ok: "pool_ok ?vd" using p len by (simp add: pool_ok_def surfaces_ok_def)
  have valid: "s \<in> set ss \<Longrightarrow> s \<noteq> INVALID_ID" using p(2) by (auto simp: surfaces_ok_def)
  have "get_buffer2 env r w = Some ((if s = INVALID_ID then - 1 else 0, s), res_write r (PL_video_decoder ?vd) w)"
    using vd(1) p(1) t mem by (auto simp: get_buffer2_def pool_def vd_upd_some split: hwdec_api_e.splits)
  moreover have "vd_of r (res_write r (PL_video_decoder ?vd) w) = Some ?vd" using vd(1) by simp
  moreover have "lent_by vd = lent n ss (vd_surface_used vd)" "lent_by ?vd = lent n ss used" "pool_surfaces vd = set ss"
    using p(1) by (simp_all add: lent_by_def pool_surfaces_def)
  ultimately show ?thesis
    using take_surface_lends [OF p(2) t] valid ok by (intro exI [of _ "if s = INVALID_ID then - 1 else 0"] exI [of _ s] exI [of _ ?vd]
      exI [of _ "res_write r (PL_video_decoder ?vd) w"]) auto
qed

lemma release_buffer2_returns:
  assumes vd: "vd_of r w = Some vd" "pool_ok vd"
  shows "\<exists>vd' w'. release_buffer2 r s w = Some w' \<and> vd_of r w' = Some vd' \<and> pool vd' = pool vd \<and> pool_ok vd' \<and>
    lent_by vd' = lent_by vd - {s}"
proof -
  obtain n ss where p: "pool vd = Some (n, ss)" "surfaces_ok n ss (vd_surface_used vd)" using vd(2) by (auto simp: pool_ok_def)
  let ?vd = "vd\<lparr>vd_surface_used := clear_used n s ss (vd_surface_used vd)\<rparr>"
  note c = clear_used_returns [OF p(2), of s]
  have "release_buffer2 r s w = Some (res_write r (PL_video_decoder ?vd) w)"
    using vd(1) p(1) by (auto simp: release_buffer2_def pool_def vd_upd_some split: hwdec_api_e.splits)
  moreover have "pool_ok ?vd" "lent_by ?vd = lent_by vd - {s}" using p c by (simp_all add: pool_ok_def surfaces_ok_def lent_by_def)
  ultimately show ?thesis using vd(1) by (intro exI [of _ ?vd] exI [of _ "res_write r (PL_video_decoder ?vd) w"]) simp
qed

text \<open>What FFmpeg holds after a call that asks for surfaces and gives some back, without changing the format.\<close>

primrec lending :: "av_script \<Rightarrow> bool" where
  "lending (Av_return a) = True"
| "lending (Av_get_format f wd ht k) = False"
| "lending (Av_get_buffer k) = (\<forall>x. lending (k x))"
| "lending (Av_release_buffer s k) = lending k"

text \<open>The run of a call with the surfaces FFmpeg has, by its own account; \<open>None\<close>: it is given one it has already.\<close>

primrec account :: "decoder_env \<Rightarrow> PP_Resource \<Rightarrow> av_script \<Rightarrow> u32 set \<Rightarrow> dec_world \<Rightarrow> (u32 set \<times> dec_world) option" where
  "account env r (Av_return a) has w = Some (has, w)"
| "account env r (Av_get_format f wd ht k) has w = None"
| "account env r (Av_get_buffer k) has w = (case get_buffer2 env r w of None \<Rightarrow> None
     | Some ((c, s), w) \<Rightarrow> if c \<noteq> 0 then account env r (k (c, s)) has w
         else if s \<in> has then None else account env r (k (c, s)) (insert s has) w)"
| "account env r (Av_release_buffer s k) has w = (case release_buffer2 r s w of None \<Rightarrow> None | Some w \<Rightarrow> account env r k (has - {s}) w)"


section \<open>What VDPAU made\<close>

text \<open>The objects a request makes, if it succeeds, and those it frees.\<close>

fun hw_made :: "hw_request \<times> hw_answer \<Rightarrow> (string \<times> u32) multiset" where
  "hw_made (r, a) = (if ha_status a \<noteq> 0 then {#} else case r of
       VaCreateConfig \<Rightarrow> {#(''config'', ha_handle a)#}
     | VaCreateSurfaces _ _ \<Rightarrow> mset (map (Pair ''va surface'') (ha_surfaces a))
     | VaCreateContext _ _ _ _ \<Rightarrow> {#(''context'', ha_handle a)#}
     | Vdp_decoder_create _ _ \<Rightarrow> {#(''decoder'', ha_handle a)#}
     | Vdp_video_surface_create _ _ \<Rightarrow> {#(''surface'', ha_handle a)#}
     | Vdp_video_mixer_create _ _ \<Rightarrow> {#(''mixer'', ha_handle a)#}
     | Vdp_output_surface_create _ _ \<Rightarrow> {#(''output'', ha_handle a)#}
     | _ \<Rightarrow> {#})"

fun hw_freed :: "hw_request \<times> hw_answer \<Rightarrow> (string \<times> u32) multiset" where
  "hw_freed (r, a) = (case r of
       VaDestroyConfig h \<Rightarrow> {#(''config'', h)#}
     | VaDestroySurfaces ss \<Rightarrow> mset (map (Pair ''va surface'') ss)
     | VaDestroyContext h \<Rightarrow> {#(''context'', h)#}
     | Vdp_decoder_destroy h \<Rightarrow> {#(''decoder'', h)#}
     | Vdp_video_surface_destroy h \<Rightarrow> {#(''surface'', h)#}
     | Vdp_video_mixer_destroy h \<Rightarrow> {#(''mixer'', h)#}
     | Vdp_output_surface_destroy h \<Rightarrow> {#(''output'', h)#}
     | _ \<Rightarrow> {#})"

definition live :: "(hw_request \<times> hw_answer) list \<Rightarrow> string \<times> u32 \<Rightarrow> int" where
  "live l x = (\<Sum>e\<leftarrow>l. int (count (hw_made e) x) - int (count (hw_freed e) x))"

lemma live_snoc: "live (l @ [e]) = (\<lambda>x. live l x + int (count (hw_made e) x) - int (count (hw_freed e) x))"
  by (simp add: live_def fun_eq_iff)

definition valid_handle :: "string \<Rightarrow> u32 \<Rightarrow> (string \<times> u32) multiset" where
  "valid_handle kind h = (if h = INVALID_ID then {#} else {#(kind, h)#})"

definition valid_surfaces :: "u32 list \<Rightarrow> (string \<times> u32) multiset" where
  "valid_surfaces ss = (\<Sum>h\<leftarrow>ss. valid_handle ''surface'' h)"

definition vdp_owned :: "pp_video_decoder_s \<Rightarrow> (string \<times> u32) multiset" where
  "vdp_owned vd = valid_handle ''decoder'' (vd_vdp_decoder vd) + valid_handle ''mixer'' (vd_vdp_video_mixer vd) +
     valid_handle ''output'' (vd_vdp_output_surface vd) + valid_surfaces (vd_vdp_video_surfaces vd)"

lemma valid_surfaces_update:
  "k < length ss \<Longrightarrow> valid_surfaces (ss[k := h]) + valid_handle ''surface'' (ss ! k) = valid_surfaces ss + valid_handle ''surface'' h"
  by (induction ss arbitrary: k) (auto simp: valid_surfaces_def nth_Cons' split: nat.split)

lemma valid_handle_invalid [simp]: "valid_handle kind INVALID_ID = {#}"
  by (simp add: valid_handle_def)

lemma valid_surfaces_invalid [simp]: "valid_surfaces (replicate n INVALID_ID) = {#}"
  by (induction n) (simp_all add: valid_surfaces_def)

text \<open>VDPAU: a call that fails leaves the variable as it is, one that succeeds writes a valid handle.\<close>

definition vdp_answers :: "decoder_env \<Rightarrow> bool" where
  "vdp_answers env \<longleftrightarrow> (\<forall>l r. ha_status (dv_hw env l r) = 0 \<longleftrightarrow> ha_handle (dv_hw env l r) \<noteq> INVALID_ID)"

text \<open>What the plugin does when it is told of a failure does not touch the decoder, which it cannot acquire.\<close>

definition plugin_leaves :: "decoder_env \<Rightarrow> PP_Resource \<Rightarrow> bool" where
  "plugin_leaves env r \<longleftrightarrow> (\<forall>c u. \<exists>v. dv_plugin env c u = Some v \<and> vd_of r v = vd_of r u \<and> hw_log v = hw_log u)"

definition vdp_counted :: "(string \<times> u32 \<Rightarrow> int) \<Rightarrow> PP_Resource \<Rightarrow> dec_world \<Rightarrow> bool" where
  "vdp_counted base r w \<longleftrightarrow> (\<exists>vd. vd_of r w = Some vd \<and> length (vd_vdp_video_surfaces vd) = MAX_VDP_SURFACES \<and>
     vd_buffer_count vd = 0 \<and> live (hw_log w) = (\<lambda>x. base x + int (count (vdp_owned vd) x)))"

lemma hw_ask_step:
  "hw_ask env q w = (dv_hw env (hw_log w) q, w\<lparr>hw_log := hw_log w @ [(q, dv_hw env (hw_log w) q)]\<rparr>)"
  by (simp add: hw_ask_def Let_def)

text \<open>Making one object and writing its handle where an invalid one was.\<close>

lemma make_counted:
  assumes c: "vdp_counted base r w" and vd: "vd_of r w = Some vd" and env: "vdp_answers env"
    and q: "hw_made (q, a) = (if ha_status a \<noteq> 0 then {#} else {#(kind, ha_handle a)#})" "hw_freed (q, a) = {#}"
    and a: "a = dv_hw env (hw_log w) q"
    and f: "vdp_owned (f vd) = vdp_owned vd + valid_handle kind (ha_handle a)" "length (vd_vdp_video_surfaces (f vd)) = MAX_VDP_SURFACES"
      "vd_buffer_count (f vd) = vd_buffer_count vd"
  shows "\<exists>w'. vd_upd r f (snd (hw_ask env q w)) = Some w' \<and> vd_of r w' = Some (f vd) \<and> vdp_counted base r w'"
proof -
  let ?w1 = "w\<lparr>hw_log := hw_log w @ [(q, a)]\<rparr>"
  have vd1: "vd_of r ?w1 = Some vd" using vd by simp
  have h: "ha_status a = 0 \<longleftrightarrow> ha_handle a \<noteq> INVALID_ID" using env a by (simp add: vdp_answers_def)
  have l: "live (hw_log w) = (\<lambda>x. base x + int (count (vdp_owned vd) x))" "vd_buffer_count vd = 0" using c vd by (auto simp: vdp_counted_def)
  have "live (hw_log ?w1) = (\<lambda>x. base x + int (count (vdp_owned (f vd)) x))"
    using q h by (auto simp: live_snoc l(1) f(1) valid_handle_def fun_eq_iff)
  then have "vdp_counted base r (res_write r (PL_video_decoder (f vd)) ?w1)" using vd1 f(2,3) l(2) by (auto simp: vdp_counted_def)
  then show ?thesis
    using vd_upd_some [OF vd1, of f] vd1 a by (simp add: hw_ask_step)
qed

definition same_handles :: "pp_video_decoder_s \<Rightarrow> pp_video_decoder_s \<Rightarrow> bool" where
  "same_handles vd' vd \<longleftrightarrow> vd_vdp_decoder vd' = vd_vdp_decoder vd \<and> vd_vdp_video_mixer vd' = vd_vdp_video_mixer vd \<and>
     vd_vdp_output_surface vd' = vd_vdp_output_surface vd"

lemma create_surfaces_counted:
  assumes env: "vdp_answers env"
  shows "vdp_counted base r w \<Longrightarrow> vd_of r w = Some vd \<Longrightarrow> vd_instance r w = Some i \<Longrightarrow> distinct ks \<Longrightarrow>
    \<forall>k\<in>set ks. k < MAX_VDP_SURFACES \<and> vd_vdp_video_surfaces vd ! k = INVALID_ID \<Longrightarrow>
    \<exists>ok w' vd'. create_vdp_surfaces env r width height ks w = Some (ok, w') \<and> vdp_counted base r w' \<and> vd_of r w' = Some vd' \<and>
      same_handles vd' vd \<and> vd_instance r w' = Some i"
proof (induction ks arbitrary: w vd)
  case Nil
  then show ?case by (auto simp: same_handles_def)
next
  case (Cons k ks)
  let ?q = "Vdp_video_surface_create width height"
  let ?a = "dv_hw env (hw_log w) ?q"
  let ?f = "\<lambda>vd. vd\<lparr>vd_vdp_video_surfaces := (vd_vdp_video_surfaces vd)[k := ha_handle ?a]\<rparr>"
  have len: "length (vd_vdp_video_surfaces vd) = MAX_VDP_SURFACES" using Cons.prems(1,2) by (auto simp: vdp_counted_def)
  have k: "k < length (vd_vdp_video_surfaces vd)" "vd_vdp_video_surfaces vd ! k = INVALID_ID" using Cons.prems(5) len by simp_all
  have own: "vdp_owned (?f vd) = vdp_owned vd + valid_handle ''surface'' (ha_handle ?a)"
    using valid_surfaces_update [OF k(1), of "ha_handle ?a"] k(2) by (simp add: vdp_owned_def)
  have "\<exists>w'. vd_upd r ?f (snd (hw_ask env ?q w)) = Some w' \<and> vd_of r w' = Some (?f vd) \<and> vdp_counted base r w'"
    by (rule make_counted [OF Cons.prems(1,2) env, of ?q ?a "''surface''"]) (use own len in simp_all)
  then obtain w1 where w1: "vd_upd r ?f (snd (hw_ask env ?q w)) = Some w1" "vd_of r w1 = Some (?f vd)" "vdp_counted base r w1" by blast
  have i: "vd_instance r w1 = Some i"
    using w1(1) Cons.prems(2,3) by (auto simp: vd_upd_def hw_ask_step bind_eq_Some_conv)
  show ?case
  proof (cases "ha_status ?a = 0")
    case False
    then show ?thesis using w1 i by (simp add: hw_ask_step same_handles_def) blast
  next
    case True
    have rest: "\<forall>j\<in>set ks. j < MAX_VDP_SURFACES \<and> vd_vdp_video_surfaces (?f vd) ! j = INVALID_ID"
      using Cons.prems(4,5) by auto (metis nth_list_update_neq)
    have "distinct ks" using Cons.prems(4) by simp
    from Cons.IH [OF w1(3,2) i this rest] show ?thesis using True w1(1) by (simp add: hw_ask_step same_handles_def)
  qed
qed

lemma failed_counted:
  assumes "vdp_counted base r w" "vd_instance r w = Some i" "plugin_leaves env r"
  shows "\<exists>w'. preparation_failed env r w = Some (AV_PIX_FMT_NONE, w') \<and> vdp_counted base r w'"
proof -
  obtain vd where vd: "vd_of r w = Some vd" "length (vd_vdp_video_surfaces vd) = MAX_VDP_SURFACES" "vd_buffer_count vd = 0"
    "live (hw_log w) = (\<lambda>x. base x + int (count (vdp_owned vd) x))" using assms(1) by (auto simp: vdp_counted_def)
  let ?vd = "vd\<lparr>vd_failed_state := True\<rparr>"
  let ?w1 = "res_write r (PL_video_decoder ?vd) w"
  let ?w2 = "?w1\<lparr>dec_calls := dec_calls ?w1 @ [NotifyError i r PP_VIDEODECODERERROR_UNREADABLE_INPUT]\<rparr>"
  from assms(3) obtain w3 where w3: "dv_plugin env (NotifyError i r PP_VIDEODECODERERROR_UNREADABLE_INPUT) ?w2 = Some w3"
    "vd_of r w3 = vd_of r ?w2" "hw_log w3 = hw_log ?w2" unfolding plugin_leaves_def by blast
  have "vdp_counted base r w3" using w3(2,3) vd by (simp add: vdp_counted_def vdp_owned_def)
  then show ?thesis using w3(1) vd(1) assms(2) by (simp add: preparation_failed_def vd_upd_some call_decoder_def)
qed

lemma vd_instance_kept: "vd_upd r f (snd (hw_ask env q w)) = Some w' \<Longrightarrow> vd_instance r w' = vd_instance r w"
  by (auto simp: vd_upd_def hw_ask_step bind_eq_Some_conv)

text \<open>However far the preparation gets, what it made is in the structure.\<close>

lemma prepare_counted:
  assumes vd: "vd_of r w = Some vd" "vd_buffer_count vd = 0" and i: "vd_instance r w = Some i"
    and env: "vdp_answers env" "plugin_leaves env r"
  shows "\<exists>f w'. prepare_vdpau_context env r width height w = Some (f, w') \<and> vdp_counted (live (hw_log w)) r w'"
proof -
  let ?b = "live (hw_log w)"
  let ?vd0 = "vd\<lparr>vd_hwdec_api := HWDEC_VDPAU, vd_vdp_decoder := INVALID_ID, vd_vdp_video_mixer := INVALID_ID,
       vd_vdp_output_surface := INVALID_ID, vd_vdp_video_surfaces := replicate MAX_VDP_SURFACES INVALID_ID\<rparr>"
  let ?w0 = "res_write r (PL_video_decoder ?vd0) w"
  have c0: "vdp_counted ?b r ?w0" using vd by (simp add: vdp_counted_def vdp_owned_def)
  have v0: "vd_of r ?w0 = Some ?vd0" using vd by simp
  let ?q1 = "Vdp_decoder_create width height" let ?a1 = "dv_hw env (hw_log ?w0) ?q1"
  let ?f1 = "\<lambda>vd. vd\<lparr>vd_vdp_decoder := ha_handle ?a1\<rparr>"
  have "\<exists>w'. vd_upd r ?f1 (snd (hw_ask env ?q1 ?w0)) = Some w' \<and> vd_of r w' = Some (?f1 ?vd0) \<and> vdp_counted ?b r w'"
    by (rule make_counted [OF c0 v0 env(1), of ?q1 ?a1 "''decoder''"]) (simp_all add: vdp_owned_def)
  then obtain w1 where w1: "vd_upd r ?f1 (snd (hw_ask env ?q1 ?w0)) = Some w1" "vd_of r w1 = Some (?f1 ?vd0)" "vdp_counted ?b r w1" by blast
  have i1: "vd_instance r w1 = Some i" using vd_instance_kept [OF w1(1)] i by simp
  obtain ok w2 vd2 where w2: "create_vdp_surfaces env r width height [0..<MAX_VDP_SURFACES] w1 = Some (ok, w2)" "vdp_counted ?b r w2"
    "vd_of r w2 = Some vd2" "same_handles vd2 (?f1 ?vd0)" "vd_instance r w2 = Some i"
    using create_surfaces_counted [OF env(1) w1(3,2) i1, of "[0..<MAX_VDP_SURFACES]" width height] by auto
  have inv2: "vd_vdp_video_mixer vd2 = INVALID_ID" "vd_vdp_output_surface vd2 = INVALID_ID" "length (vd_vdp_video_surfaces vd2) = MAX_VDP_SURFACES"
    using w2(2-4) by (auto simp: same_handles_def vdp_counted_def)
  let ?q3 = "Vdp_video_mixer_create width height" let ?a3 = "dv_hw env (hw_log w2) ?q3"
  let ?f3 = "\<lambda>vd. vd\<lparr>vd_vdp_video_mixer := ha_handle ?a3\<rparr>"
  have "\<exists>w'. vd_upd r ?f3 (snd (hw_ask env ?q3 w2)) = Some w' \<and> vd_of r w' = Some (?f3 vd2) \<and> vdp_counted ?b r w'"
    by (rule make_counted [OF w2(2,3) env(1), of ?q3 ?a3 "''mixer''"]) (use inv2 in \<open>simp_all add: vdp_owned_def\<close>)
  then obtain w3 where w3: "vd_upd r ?f3 (snd (hw_ask env ?q3 w2)) = Some w3" "vd_of r w3 = Some (?f3 vd2)" "vdp_counted ?b r w3" by blast
  have i3: "vd_instance r w3 = Some i" using vd_instance_kept [OF w3(1)] w2(5) by simp
  let ?q4 = "Vdp_output_surface_create width height" let ?a4 = "dv_hw env (hw_log w3) ?q4"
  let ?f4 = "\<lambda>vd. vd\<lparr>vd_vdp_output_surface := ha_handle ?a4\<rparr>"
  have "\<exists>w'. vd_upd r ?f4 (snd (hw_ask env ?q4 w3)) = Some w' \<and> vd_of r w' = Some (?f4 (?f3 vd2)) \<and> vdp_counted ?b r w'"
    by (rule make_counted [OF w3(3,2) env(1), of ?q4 ?a4 "''output''"]) (use inv2 in \<open>simp_all add: vdp_owned_def\<close>)
  then obtain w4 where w4: "vd_upd r ?f4 (snd (hw_ask env ?q4 w3)) = Some w4" "vdp_counted ?b r w4" by blast
  have i4: "vd_instance r w4 = Some i" using vd_instance_kept [OF w4(1)] i3 by simp
  note fail = failed_counted [OF _ _ env(2)]
  note steps = prepare_vdpau_context_def vd_upd_some [OF vd(1)] Let_def case_prod_beta hw_ask_step
  show ?thesis
    using w1(1) w2(1) w3(1) w4(1) fail [OF w1(3) i1] fail [OF w2(2,5)] fail [OF w3(3) i3] fail [OF w4(2) i4] w4(2)
    by (auto simp: steps)
qed

text \<open>Giving a handle back and writing an invalid one in its place.\<close>

lemma live_destroy:
  assumes "hw_made (q h, a) = {#}" "hw_freed (q h, a) = {#(kind, h)#}" "a = dv_hw env (hw_log w) (q h)" "h \<noteq> INVALID_ID"
  shows "live (hw_log (hw_tell env (q h) w)) = (\<lambda>x. live (hw_log w) x - int (count (valid_handle kind h) x))"
  using assms by (auto simp: hw_tell_def hw_ask_step live_snoc valid_handle_def fun_eq_iff)

lemma live_vdp_destroy:
  assumes "\<And>a. hw_made (q h, a) = {#}" "\<And>a. hw_freed (q h, a) = {#(kind, h)#}"
  shows "live (hw_log (vdp_destroy env q h w)) = (\<lambda>x. live (hw_log w) x - int (count (valid_handle kind h) x))"
  using live_destroy [of q h _ kind env w] assms by (auto simp: vdp_destroy_def)

lemma vdp_destroy_frame [simp]:
  "vd_of r (vdp_destroy env q h w) = vd_of r w" "vd_of r (hw_tell env q' w) = vd_of r w"
  by (simp_all add: vdp_destroy_def hw_tell_def hw_ask_step)

lemma destroy_surfaces_counted:
  assumes "vd_of r w = Some vd" "length (vd_vdp_video_surfaces vd) = n" "\<forall>k\<in>set ks. k < n"
    "live (hw_log w) = (\<lambda>x. base x + int (count (valid_surfaces (vd_vdp_video_surfaces vd)) x))"
    "\<forall>k<n. k \<notin> set ks \<longrightarrow> vd_vdp_video_surfaces vd ! k = INVALID_ID" "vd_buffer_count vd = 0"
  shows "\<exists>w' vd'. vdp_destroy_surfaces env r ks w = Some w' \<and> vd_of r w' = Some vd' \<and> live (hw_log w') = base \<and> vd_buffer_count vd' = 0"
  using assms
proof (induction ks arbitrary: w vd)
  case Nil
  then have "vd_vdp_video_surfaces vd = replicate n INVALID_ID" by (simp add: list_eq_iff_nth_eq)
  then show ?case using Nil by auto
next
  case (Cons k ks)
  let ?h = "vd_vdp_video_surfaces vd ! k"
  have k: "k < length (vd_vdp_video_surfaces vd)" using Cons.prems(2,3) by simp
  show ?case
  proof (cases "?h = INVALID_ID")
    case True
    have rest: "\<forall>j<n. j \<notin> set ks \<longrightarrow> vd_vdp_video_surfaces vd ! j = INVALID_ID"
      using Cons.prems(5) True by (metis set_ConsD)
    show ?thesis
      using Cons.IH [OF Cons.prems(1,2) _ Cons.prems(4) rest Cons.prems(6)] Cons.prems(1,3) True by simp
  next
    case False
    let ?f = "\<lambda>vd. vd\<lparr>vd_vdp_video_surfaces := (vd_vdp_video_surfaces vd)[k := INVALID_ID],
              vd_surface_used := (vd_surface_used vd)[k := False]\<rparr>"
    let ?w1 = "hw_tell env (Vdp_video_surface_destroy ?h) w"
    let ?w2 = "res_write r (PL_video_decoder (?f vd)) ?w1"
    have v1: "vd_of r ?w1 = Some vd" using Cons.prems(1) by simp
    have upd: "vd_upd r ?f ?w1 = Some ?w2" by (rule vd_upd_some [OF v1])
    have v2: "vd_of r ?w2 = Some (?f vd)" using v1 by simp
    have l: "live (hw_log ?w2) = (\<lambda>x. live (hw_log w) x - int (count (valid_handle ''surface'' ?h) x))"
      using live_destroy [of Vdp_video_surface_destroy ?h "dv_hw env (hw_log w) (Vdp_video_surface_destroy ?h)" "''surface''" env w] False by simp
    have s: "valid_surfaces (vd_vdp_video_surfaces vd) = valid_surfaces (vd_vdp_video_surfaces (?f vd)) + valid_handle ''surface'' ?h"
      using valid_surfaces_update [OF k, of INVALID_ID] by simp
    have l2: "live (hw_log ?w2) = (\<lambda>x. base x + int (count (valid_surfaces (vd_vdp_video_surfaces (?f vd))) x))"
      unfolding l Cons.prems(4) s by (simp add: fun_eq_iff)
    have rest: "\<forall>j<n. j \<notin> set ks \<longrightarrow> vd_vdp_video_surfaces (?f vd) ! j = INVALID_ID"
    proof (intro allI impI)
      fix j assume j: "j < n" "j \<notin> set ks"
      show "vd_vdp_video_surfaces (?f vd) ! j = INVALID_ID"
        using Cons.prems(2,5) j by (cases "j = k") auto
    qed
    have len: "length (vd_vdp_video_surfaces (?f vd)) = n" "\<forall>j\<in>set ks. j < n" "vd_buffer_count (?f vd) = 0"
      using Cons.prems(2,3,6) by simp_all
    from Cons.IH [OF v2 len(1,2) l2 rest len(3)] show ?thesis using Cons.prems(1) False upd by simp
  qed
qed

lemma destroy_counted:
  assumes "vdp_counted base r w"
  shows "\<exists>w'. destroy_vdpau env r w = Some w' \<and> live (hw_log w') = base"
proof -
  obtain vd where vd: "vd_of r w = Some vd" "length (vd_vdp_video_surfaces vd) = MAX_VDP_SURFACES" "vd_buffer_count vd = 0"
    "live (hw_log w) = (\<lambda>x. base x + int (count (vdp_owned vd) x))" using assms by (auto simp: vdp_counted_def)
  let ?w1 = "vdp_destroy env Vdp_output_surface_destroy (vd_vdp_output_surface vd)
    (vdp_destroy env Vdp_video_mixer_destroy (vd_vdp_video_mixer vd) (vdp_destroy env Vdp_decoder_destroy (vd_vdp_decoder vd) w))"
  let ?f = "\<lambda>vd. vd\<lparr>vd_vdp_decoder := INVALID_ID, vd_vdp_video_mixer := INVALID_ID, vd_vdp_output_surface := INVALID_ID\<rparr>"
  let ?w2 = "res_write r (PL_video_decoder (?f vd)) ?w1"
  have l: "live (hw_log ?w1) = (\<lambda>x. base x + int (count (valid_surfaces (vd_vdp_video_surfaces vd)) x))"
    using live_vdp_destroy [of Vdp_output_surface_destroy _ "''output''" env] live_vdp_destroy [of Vdp_video_mixer_destroy _ "''mixer''" env]
      live_vdp_destroy [of Vdp_decoder_destroy _ "''decoder''" env w]
    by (simp add: vd(4) vdp_owned_def fun_eq_iff)
  have v2: "vd_of r ?w2 = Some (?f vd)" using vd(1) by simp
  have "\<exists>w' vd'. vdp_destroy_surfaces env r [0..<MAX_VDP_SURFACES] ?w2 = Some w' \<and> vd_of r w' = Some vd' \<and> live (hw_log w') = base \<and> vd_buffer_count vd' = 0"
    by (rule destroy_surfaces_counted [OF v2, of MAX_VDP_SURFACES]) (use vd(2,3) l in \<open>simp_all\<close>)
  then show ?thesis
    using vd(1,3) vd_upd_some [of r ?w1 vd ?f] by (auto simp: destroy_vdpau_def)
qed

text \<open>
  What VDPAU makes is given back: whether the preparation gets through or fails anywhere on its way,
  the destruction that follows frees exactly the decoder, the mixer, the surfaces and the output surface that
  were made, and nothing else.
\<close>

theorem vdpau_given_back:
  assumes "vd_of r w = Some vd" "vd_buffer_count vd = 0" "vd_instance r w = Some i" "vdp_answers env" "plugin_leaves env r"
  shows "\<exists>f w1 w2. prepare_vdpau_context env r width height w = Some (f, w1) \<and> destroy_vdpau env r w1 = Some w2 \<and>
    live (hw_log w2) = live (hw_log w)"
  using prepare_counted [OF assms] destroy_counted by blast

text \<open>
  VA-API is not treated so: when its context cannot be made, the decoder is not marked as using VA-API,
  and the configuration and the surfaces that were made stay for ever.
\<close>

theorem vaapi_failure_leaks:
  assumes vd: "vd_of r w = Some vd" "vd_hwdec_api vd = HWDEC_NONE" and i: "vd_instance r w = Some i" and env: "plugin_leaves env r"
    and a: "dv_hw env (hw_log w) VaCreateConfig = a1" "ha_status a1 = 0"
      "dv_hw env (hw_log w @ [(VaCreateConfig, a1)]) (VaCreateSurfaces width height) = a2" "ha_status a2 = 0"
      "ha_status (dv_hw env (hw_log w @ [(VaCreateConfig, a1), (VaCreateSurfaces width height, a2)])
         (VaCreateContext (ha_handle a1) width height (ha_surfaces a2))) \<noteq> 0"
  shows "\<exists>w' vd'. prepare_vaapi_context env r width height w = Some (AV_PIX_FMT_NONE, w') \<and> vd_of r w' = Some vd' \<and>
    vd_hwdec_api vd' = HWDEC_NONE \<and> live (hw_log w') = (\<lambda>x. live (hw_log w) x +
      int (count ({#(''config'', ha_handle a1)#} + mset (map (Pair ''va surface'') (ha_surfaces a2))) x))"
proof -
  let ?l = "hw_log w @ [(VaCreateConfig, a1), (VaCreateSurfaces width height, a2)]"
  let ?q = "VaCreateContext (ha_handle a1) width height (ha_surfaces a2)"
  let ?a3 = "dv_hw env ?l ?q"
  let ?vd = "vd\<lparr>vd_va_config_id := ha_handle a1, vd_surfaces := ha_surfaces a2, vd_va_context_id := ha_handle ?a3\<rparr>"
  define w1 where "w1 = (w\<lparr>hw_log := hw_log w @ [(VaCreateConfig, a1)]\<rparr>)"
  define w2 where "w2 = res_write r (PL_video_decoder (vd\<lparr>vd_va_context_id := INVALID_ID, vd_va_config_id := ha_handle a1\<rparr>)) w1"
  define w3 where "w3 = w2\<lparr>hw_log := ?l\<rparr>"
  define w4 where "w4 = res_write r (PL_video_decoder (vd\<lparr>vd_va_context_id := INVALID_ID, vd_va_config_id := ha_handle a1,
    vd_surfaces := ha_surfaces a2\<rparr>)) w3"
  define w5 where "w5 = w4\<lparr>hw_log := ?l @ [(?q, ?a3)]\<rparr>"
  define w6 where "w6 = res_write r (PL_video_decoder ?vd) w5"
  have v1: "vd_of r w1 = Some vd" using vd(1) by (simp add: w1_def)
  have v2: "vd_of r w2 = Some (vd\<lparr>vd_va_context_id := INVALID_ID, vd_va_config_id := ha_handle a1\<rparr>)" "hw_log w2 = hw_log w @ [(VaCreateConfig, a1)]"
    using v1 by (simp_all add: w2_def w1_def)
  have v3: "vd_of r w3 = Some (vd\<lparr>vd_va_context_id := INVALID_ID, vd_va_config_id := ha_handle a1\<rparr>)" using v2 by (simp add: w3_def)
  have v4: "vd_of r w4 = Some (vd\<lparr>vd_va_context_id := INVALID_ID, vd_va_config_id := ha_handle a1, vd_surfaces := ha_surfaces a2\<rparr>)" "hw_log w4 = ?l"
    using v3 by (simp_all add: w4_def w3_def)
  have v5: "vd_of r w5 = vd_of r w4" by (simp add: w5_def)
  have v6: "vd_of r w6 = Some ?vd" "vd_instance r w6 = Some i" "hw_log w6 = ?l @ [(?q, ?a3)]"
    using v4 v5 i by (simp_all add: w6_def w5_def w4_def w3_def w2_def w1_def)
  let ?w7 = "res_write r (PL_video_decoder (?vd\<lparr>vd_failed_state := True\<rparr>)) w6"
  let ?w8 = "?w7\<lparr>dec_calls := dec_calls ?w7 @ [NotifyError i r PP_VIDEODECODERERROR_UNREADABLE_INPUT]\<rparr>"
  from env obtain w9 where w9: "dv_plugin env (NotifyError i r PP_VIDEODECODERERROR_UNREADABLE_INPUT) ?w8 = Some w9"
    "vd_of r w9 = vd_of r ?w8" "hw_log w9 = hw_log ?w8" unfolding plugin_leaves_def by blast
  have "preparation_failed env r w6 = Some (AV_PIX_FMT_NONE, w9)"
    using w9(1) v6 by (simp add: preparation_failed_def vd_upd_some call_decoder_def)
  moreover have "hw_ask env VaCreateConfig w = (a1, w1)" "hw_ask env (VaCreateSurfaces width height) w2 = (a2, w3)"
    "hw_ask env ?q w4 = (?a3, w5)"
    using a v2 v4 by (simp_all add: hw_ask_step w1_def w3_def w5_def)
  moreover have "vd_upd r (\<lambda>vd. vd\<lparr>vd_va_context_id := INVALID_ID, vd_va_config_id := ha_handle a1\<rparr>) w1 = Some w2"
    "vd_upd r (\<lambda>vd. vd\<lparr>vd_surfaces := ha_surfaces a2\<rparr>) w3 = Some w4"
    "vd_upd r (\<lambda>vd. vd\<lparr>vd_va_context_id := ha_handle ?a3\<rparr>) w5 = Some w6"
    using v1 v3 v4 v5 by (simp_all add: vd_upd_some w2_def w4_def w6_def)
  ultimately have "prepare_vaapi_context env r width height w = Some (AV_PIX_FMT_NONE, w9)"
    using a(2,4,5) v4(1) by (simp add: prepare_vaapi_context_def Let_def)
  moreover have "vd_of r w9 = Some (?vd\<lparr>vd_failed_state := True\<rparr>)" using w9(2) v6(1) by simp
  moreover have "live (hw_log w9) = (\<lambda>x. live (hw_log w) x +
      int (count ({#(''config'', ha_handle a1)#} + mset (map (Pair ''va surface'') (ha_surfaces a2))) x))"
    using a w9(3) v6(3) by (simp add: live_def fun_eq_iff)
  ultimately show ?thesis using vd(2) by (intro exI [of _ w9] exI [of _ "?vd\<lparr>vd_failed_state := True\<rparr>"]) simp
qed

end
