(* ===== verification/Decoder_Feed.thy ===== *)
theory Decoder_Feed
  imports Decoder_Correct
begin

text \<open>
  FFmpeg's parser gets every byte of the plugin once, and FFmpeg's decoder every byte the parser puts out.
\<close>

section \<open>The bytes of the plugin\<close>

text \<open>
  A decoder in use: its resource, with \<open>n\<close> references at least, its context \<open>g\<close>, and buffers that are all
  written.
\<close>

definition buffers_written :: "pp_video_decoder_s \<Rightarrow> bool" where
  "buffers_written vd \<longleftrightarrow> (case vd_buffers vd of None \<Rightarrow> vd_buffer_count vd = 0 | Some bs \<Rightarrow> length bs = vd_buffer_count vd \<and>
     (vd_hwdec_api vd = HWDEC_VDPAU \<longrightarrow> (\<forall>b\<in>set bs. db_queue b \<noteq> None)))"

definition decoder_at :: "bool \<Rightarrow> int \<Rightarrow> PP_Resource \<Rightarrow> PP_Resource \<Rightarrow> pp_video_decoder_s \<Rightarrow> dec_world \<Rightarrow> bool" where
  "decoder_at b n r g vd w \<longleftrightarrow> (\<exists>e. ht_lookup (res_tbl w) r = Some e \<and> r_resource_type e = PP_RESOURCE_VIDEO_DECODER \<and>
     r_locked e = b \<and> n \<le> r_ref_cnt e \<and> r_instance e \<noteq> None \<and> r_payload e = PL_video_decoder vd) \<and> vd_graphics3d vd = g \<and> buffers_written vd"

definition context_at :: "PP_Resource \<Rightarrow> dec_world \<Rightarrow> bool" where
  "context_at g w \<longleftrightarrow> (\<exists>e g3d. available g PP_RESOURCE_GRAPHICS3D w e \<and> r_payload e = PL_graphics3d g3d)"

definition in_use :: "bool \<Rightarrow> int \<Rightarrow> PP_Resource \<Rightarrow> PP_Resource \<Rightarrow> dec_world \<Rightarrow> bool" where
  "in_use b n r g w \<longleftrightarrow> g \<noteq> r \<and> context_at g w \<and> (\<exists>vd. decoder_at b n r g vd w)"

text \<open>
  The plugin may do what it likes when it is called, as long as the decoder stays in use. FFmpeg may ask for
  surfaces and give them back; its parser takes something whenever there is something.
\<close>

definition decent_plugin :: "decoder_env \<Rightarrow> PP_Resource \<Rightarrow> PP_Resource \<Rightarrow> bool" where
  "decent_plugin env r g \<longleftrightarrow> (\<forall>c u. in_use False 1 r g u \<longrightarrow> (\<exists>v. dv_plugin env c u = Some v \<and> in_use False 1 r g v \<and> av_log v = av_log u))"

definition decent_ffmpeg :: "decoder_env \<Rightarrow> bool" where
  "decent_ffmpeg env \<longleftrightarrow> (\<forall>l q. lending (dv_av env l q)) \<and>
     (\<forall>l p c inbuf. inbuf \<noteq> [] \<longrightarrow> (\<exists>a. dv_av env l (Av_parser_parse2 p c inbuf) = Av_return a \<and> 0 < aa_int a \<and> aa_int a \<le> int (length inbuf)))"

lemma res_tbl_glx_tell [simp]: "res_tbl (glx_tell env rs w) = res_tbl w" "av_log (glx_tell env rs w) = av_log w"
proof -
  have "res_tbl (tell_all genv rs u) = res_tbl u" for genv u
    by (induction rs arbitrary: u) (simp_all add: tell_def ask_def Let_def)
  then show "res_tbl (glx_tell env rs w) = res_tbl w" by (simp add: glx_tell_def gl_world.defs)
  show "av_log (glx_tell env rs w) = av_log w" by (cases w) (simp add: glx_tell_def gl_world.defs)
qed

lemma hw_tell_frame [simp]: "res_tbl (hw_tell env q w) = res_tbl w" "av_log (hw_tell env q w) = av_log w"
  by (simp_all add: hw_tell_def hw_ask_step)

lemma in_use_cong: "res_tbl v = res_tbl u \<Longrightarrow> in_use b n r g v = in_use b n r g u"
  by (simp add: in_use_def context_at_def decoder_at_def available_def)

lemma decoder_at_of: "decoder_at b n r g vd w \<Longrightarrow> vd_of r w = Some vd"
  by (auto simp: decoder_at_def vd_of_def)

lemma decoder_at_upd:
  assumes "decoder_at b n r g vd w" "g \<noteq> r" "context_at g w" "buffers_written (f vd)" "vd_graphics3d (f vd) = g"
  shows "\<exists>w'. vd_upd r f w = Some w' \<and> decoder_at b n r g (f vd) w' \<and> context_at g w' \<and> av_log w' = av_log w"
proof -
  have "decoder_at b n r g (f vd) (res_write r (PL_video_decoder (f vd)) w)"
    using assms(1,4,5) by (auto simp: decoder_at_def res_write_def)
  moreover have "context_at g (res_write r (PL_video_decoder (f vd)) w)"
    using assms(2,3) by (auto simp: context_at_def available_def res_write_def split: option.split)
  ultimately show ?thesis using vd_upd_some [OF decoder_at_of [OF assms(1)], of f] by simp
qed

lemma script_in_use:
  assumes "lending s" "in_use b n r g w"
  shows "\<exists>a w'. run_script env r s w = Some (a, w') \<and> in_use b n r g w' \<and> av_log w' = av_log w"
  using assms
proof (induction s arbitrary: w)
  case (Av_return a)
  then show ?case by simp
next
  case (Av_get_format f wd ht k)
  then show ?case by simp
next
  case (Av_get_buffer k)
  then obtain vd where vd: "decoder_at b n r g vd w" "g \<noteq> r" "context_at g w" by (auto simp: in_use_def)
  have kept: "\<exists>w'. vd_upd r (\<lambda>vd. vd\<lparr>vd_surface_used := u\<rparr>) w = Some w' \<and> in_use b n r g w' \<and> av_log w' = av_log w" for u
    using decoder_at_upd [OF vd, of "\<lambda>vd. vd\<lparr>vd_surface_used := u\<rparr>"] vd(1,2) by (fastforce simp: decoder_at_def buffers_written_def in_use_def split: option.splits)
  obtain x w1 where w1: "get_buffer2 env r w = Some (x, w1)" "in_use b n r g w1" "av_log w1 = av_log w"
  proof (cases "vd_hwdec_api vd = HWDEC_NONE")
    case True
    then show ?thesis using that decoder_at_of [OF vd(1)] Av_get_buffer.prems(2) by (simp add: get_buffer2_def)
  next
    case False
    obtain s u where su: "(if vd_hwdec_api vd = HWDEC_VAAPI then take_surface MAX_VA_SURFACES (vd_surfaces vd) (vd_surface_used vd)
      else take_surface MAX_VDP_SURFACES (vd_vdp_video_surfaces vd) (vd_surface_used vd)) = (s, u)" by fastforce
    from kept [of u] obtain w' where "vd_upd r (\<lambda>vd. vd\<lparr>vd_surface_used := u\<rparr>) w = Some w'" "in_use b n r g w'" "av_log w' = av_log w" by blast
    then show ?thesis using that decoder_at_of [OF vd(1)] False su by (cases "vd_hwdec_api vd") (auto simp: get_buffer2_def)
  qed
  have "lending (k x)" using Av_get_buffer.prems(1) by (cases x) simp
  from Av_get_buffer.IH [OF rangeI this w1(2)] w1 show ?case by simp
next
  case (Av_release_buffer s k)
  then obtain vd where vd: "decoder_at b n r g vd w" "g \<noteq> r" "context_at g w" by (auto simp: in_use_def)
  obtain w1 where w1: "release_buffer2 r s w = Some w1" "in_use b n r g w1" "av_log w1 = av_log w"
    using decoder_at_upd [OF vd, of "\<lambda>vd. case vd_hwdec_api vd of
       HWDEC_VAAPI \<Rightarrow> vd\<lparr>vd_surface_used := clear_used MAX_VA_SURFACES s (vd_surfaces vd) (vd_surface_used vd)\<rparr>
     | HWDEC_VDPAU \<Rightarrow> vd\<lparr>vd_surface_used := clear_used MAX_VDP_SURFACES s (vd_vdp_video_surfaces vd) (vd_surface_used vd)\<rparr>
     | HWDEC_NONE \<Rightarrow> vd"] vd(1,2)
    unfolding release_buffer2_def by (fastforce simp: decoder_at_def buffers_written_def in_use_def split: option.splits hwdec_api_e.splits)
  have "lending k" using Av_release_buffer.prems(1) by simp
  from Av_release_buffer.IH [OF this w1(2)] w1 show ?case by simp
qed

text \<open>Giving the resource free for the plugin and taking it again.\<close>

lemma plugin_called:
  assumes use: "in_use True 2 r g w" and plugin: "decent_plugin env r g"
  shows "\<exists>w1 w2 x w3. pp_resource_release r w = Some w1 \<and> call_decoder env c w1 = Some w2 \<and>
    pp_resource_acquire r PP_RESOURCE_VIDEO_DECODER w2 = Some (x, w3) \<and> in_use True 2 r g w3 \<and> av_log w3 = av_log w"
proof -
  obtain vd e where e: "ht_lookup (res_tbl w) r = Some e" "r_resource_type e = PP_RESOURCE_VIDEO_DECODER" "2 \<le> r_ref_cnt e"
    "r_instance e \<noteq> None" "r_payload e = PL_video_decoder vd" "vd_graphics3d vd = g" "buffers_written vd" and g: "g \<noteq> r" "context_at g w"
    using use by (auto simp: in_use_def decoder_at_def)
  let ?w1 = "w\<lparr>res_tbl := ht_insert r (e\<lparr>r_locked := False, r_ref_cnt := r_ref_cnt e - 1\<rparr>) (res_tbl w)\<rparr>"
  let ?w1' = "?w1\<lparr>dec_calls := dec_calls ?w1 @ [c]\<rparr>"
  have rel: "pp_resource_release r w = Some ?w1" using e(1,3) by (simp add: release_counted)
  have "in_use False 1 r g ?w1'"
    using e g by (auto simp: in_use_def decoder_at_def context_at_def available_def)
  then obtain w2 where w2: "dv_plugin env c ?w1' = Some w2" "in_use False 1 r g w2" "av_log w2 = av_log ?w1'"
    using plugin unfolding decent_plugin_def by blast
  then obtain vd2 e2 where e2: "ht_lookup (res_tbl w2) r = Some e2" "r_resource_type e2 = PP_RESOURCE_VIDEO_DECODER" "\<not> r_locked e2" "1 \<le> r_ref_cnt e2"
    "r_instance e2 \<noteq> None" "r_payload e2 = PL_video_decoder vd2" "vd_graphics3d vd2 = g" "buffers_written vd2" and g2: "context_at g w2"
    by (auto simp: in_use_def decoder_at_def)
  let ?w3 = "w2\<lparr>res_tbl := ht_insert r (acquired e2) (res_tbl w2)\<rparr>"
  have av: "available r PP_RESOURCE_VIDEO_DECODER w2 e2" using e2 by (simp add: available_def)
  have "in_use True 2 r g ?w3" using e2 g g2 by (auto simp: in_use_def decoder_at_def context_at_def available_def)
  then show ?thesis using rel w2 acquire_available [OF av] by (auto simp: call_decoder_def)
qed

lemma find_free_written:
  "\<exists>x. find_free_buffer (length bs) bs = Some x \<and> (\<forall>k. x = Some k \<longrightarrow> k < length bs)"
  by (induction bs) force+

lemma free_buffer_written:
  assumes "buffers_written vd"
  shows "\<exists>x. free_buffer vd = Some x \<and> (\<forall>k. x = Some k \<longrightarrow> (\<exists>b. buffer_at k vd = Some b \<and> (vd_hwdec_api vd = HWDEC_VDPAU \<longrightarrow> db_queue b \<noteq> None)))"
proof (cases "vd_buffers vd")
  case None
  then show ?thesis using assms by (simp add: free_buffer_def buffers_written_def)
next
  case (Some bs)
  then have n: "vd_buffer_count vd = length bs" "vd_hwdec_api vd = HWDEC_VDPAU \<longrightarrow> (\<forall>b\<in>set bs. db_queue b \<noteq> None)"
    using assms by (simp_all add: buffers_written_def)
  from find_free_written [of bs] obtain x where "find_free_buffer (length bs) bs = Some x" "\<forall>k. x = Some k \<longrightarrow> k < length bs" by blast
  then show ?thesis using Some n by (auto simp: free_buffer_def buffer_at_def)
qed

lemma buffers_written_set:
  "buffers_written vd \<Longrightarrow> (\<And>b. db_queue (f b) = db_queue b) \<Longrightarrow> buffers_written (set_buffer k f vd)"
proof (cases "vd_buffers vd")
  case (Some bs)
  assume w: "buffers_written vd" and f: "\<And>b. db_queue (f b) = db_queue b"
  have "db_queue b \<noteq> None" if "b \<in> set (bs[k := f (bs ! k)])" "\<forall>b\<in>set bs. db_queue b \<noteq> None" for b
  proof (cases "k < length bs")
    case True
    then show ?thesis using that f set_update_subset_insert [of bs k "f (bs ! k)"] nth_mem [OF True] by fastforce
  qed (use that in \<open>simp add: list_update_beyond\<close>)
  then show ?thesis using w Some by (auto simp: buffers_written_def set_buffer_def)
qed (auto simp: buffers_written_def set_buffer_def)

lemma draw_frame_frame:
  assumes "vd_hwdec_api vd = HWDEC_VDPAU \<longrightarrow> db_queue b \<noteq> None"
  shows "\<exists>w'. draw_frame env vd b frame w = Some w' \<and> res_tbl w' = res_tbl w \<and> av_log w' = av_log w"
  using assms by (cases "vd_hwdec_api vd") (auto simp: draw_frame_def)

lemma issue_frame_in_use:
  assumes use: "in_use True 2 r g w" and plugin: "decent_plugin env r g"
  shows "\<exists>w'. issue_frame env r frame w = Some w' \<and> in_use True 2 r g w' \<and> av_log w' = av_log w"
proof -
  obtain vd where vd: "decoder_at True 2 r g vd w" and g: "g \<noteq> r" "context_at g w" using use by (auto simp: in_use_def)
  have of_vd: "vd_of r w = Some vd" and vg: "vd_graphics3d vd = g" and wr: "buffers_written vd"
    using vd decoder_at_of by (auto simp: decoder_at_def)
  from free_buffer_written [OF wr] obtain x where x: "free_buffer vd = Some x"
    "\<forall>k. x = Some k \<longrightarrow> (\<exists>b. buffer_at k vd = Some b \<and> (vd_hwdec_api vd = HWDEC_VDPAU \<longrightarrow> db_queue b \<noteq> None))" by blast
  show ?thesis
  proof (cases x)
    case None
    then show ?thesis using use of_vd x(1) by (simp add: issue_frame_def)
  next
    case (Some k)
    with x(2) obtain b where b: "buffer_at k vd = Some b" "vd_hwdec_api vd = HWDEC_VDPAU \<longrightarrow> db_queue b \<noteq> None" by blast
    let ?f = "set_buffer k (\<lambda>b. b\<lparr>db_used := True\<rparr>)"
    have "vd_graphics3d (?f vd) = g" using vg by (simp add: set_buffer_def)
    from decoder_at_upd [OF vd g, of ?f, OF buffers_written_set [OF wr] this] obtain w1 where
      w1: "vd_upd r ?f w = Some w1" "decoder_at True 2 r g (?f vd) w1" "context_at g w1" "av_log w1 = av_log w" by auto
    obtain eg g3d where eg: "available g PP_RESOURCE_GRAPHICS3D w1 eg" "r_payload eg = PL_graphics3d g3d"
      using w1(3) by (auto simp: context_at_def)
    let ?w2 = "w1\<lparr>res_tbl := ht_insert g (acquired eg) (res_tbl w1)\<rparr>"
    let ?reqs = "bind_texture g3d (db_texture_id b) @ [Gl \<lparr>gl_name = ''glXBindTexImageEXT'', gl_args = [GP (db_glx_pixmap b)]\<rparr>, XFlush]"
    obtain w3 where w3: "draw_frame env vd b frame (glx_tell env ?reqs ?w2) = Some w3" "res_tbl w3 = res_tbl ?w2" "av_log w3 = av_log w1"
      using draw_frame_frame [OF b(2), of env frame "glx_tell env ?reqs ?w2"] by auto
    let ?w4 = "glx_tell env [XFlush, GlXMakeCurrent 0 0] w3"
    let ?w5 = "?w4\<lparr>res_tbl := res_tbl w1\<rparr>"
    have lg: "ht_lookup (res_tbl w1) g = Some eg" "\<not> r_locked eg" "0 < r_ref_cnt eg" using eg(1) by (simp_all add: available_def)
    have "ht_insert g eg (res_tbl w1) = res_tbl w1" using lg(1) by (rule ht_insert_same)
    then have rel: "pp_resource_release g ?w4 = Some ?w5"
      using lg w3(2) by (cases eg) (simp add: release_counted)
    have "in_use True 2 r g w1" using w1(2,3) g(1) by (auto simp: in_use_def)
    then have use5: "in_use True 2 r g ?w5" by (subst in_use_cong [of ?w5 w1]) simp_all
    obtain i where i: "vd_instance r ?w5 = Some i" using w1(2) by (auto simp: decoder_at_def vd_instance_def)
    from plugin_called [OF use5 plugin] obtain w6 w7 y w8 where w8: "pp_resource_release r ?w5 = Some w6"
      "call_decoder env (PictureReady i r (db_id b) (sint (word_of_int (fr_pkt_pts frame) :: 32 word))) w6 = Some w7"
      "pp_resource_acquire r PP_RESOURCE_VIDEO_DECODER w7 = Some (y, w8)" "in_use True 2 r g w8" "av_log w8 = av_log ?w5" by blast
    have "issue_frame env r frame w = Some w8"
      using of_vd x(1) Some w1(1) b(1) vg acquire_available [OF eg(1)] eg(2) w3(1) rel i w8(1-3)
      by (simp add: issue_frame_def)
    then show ?thesis using w8(4,5) w3(3) w1(4) by simp
  qed
qed

section \<open>The loop\<close>

text \<open>The bytes the parser took, those it put out, and those that were decoded.\<close>

definition parsed :: "(av_request \<times> av_answer) list \<Rightarrow> char list" where
  "parsed l = concat (map (\<lambda>(q, a). case q of Av_parser_parse2 p c inbuf \<Rightarrow> take (nat (aa_int a)) inbuf | _ \<Rightarrow> []) l)"

definition put_out :: "(av_request \<times> av_answer) list \<Rightarrow> char list" where
  "put_out l = concat (map (\<lambda>(q, a). case q of Av_parser_parse2 p c inbuf \<Rightarrow> aa_outbuf a | _ \<Rightarrow> []) l)"

definition decoded :: "(av_request \<times> av_answer) list \<Rightarrow> char list" where
  "decoded l = concat (map (\<lambda>(q, a). case q of Avcodec_decode_video2 c f data i \<Rightarrow> data | _ \<Rightarrow> []) l)"

lemmas fed_defs = parsed_def put_out_def decoded_def

lemma fed_parts:
  "parsed (x # l) = parsed [x] @ parsed l" "put_out (x # l) = put_out [x] @ put_out l" "decoded (x # l) = decoded [x] @ decoded l"
  "parsed (l @ m) = parsed l @ parsed m" "put_out (l @ m) = put_out l @ put_out m" "decoded (l @ m) = decoded l @ decoded m"
  by (simp_all add: fed_defs)

lemma av_call_in_use:
  assumes "in_use b n r g w" "lending (dv_av env (av_log w) q)"
  shows "\<exists>a w'. av_call env r q w = Some (a, w') \<and> in_use b n r g w' \<and> av_log w' = av_log w @ [(q, a)]"
proof -
  from script_in_use [OF assms(2,1)] obtain a w1 where w1: "run_script env r (dv_av env (av_log w) q) w = Some (a, w1)"
    "in_use b n r g w1" "av_log w1 = av_log w" by blast
  have "in_use b n r g (w1\<lparr>av_log := av_log w1 @ [(q, a)]\<rparr>)" by (subst in_use_cong [of _ w1]) (simp_all add: w1(2))
  then show ?thesis using w1 by (auto simp: av_call_def)
qed

lemma decode_frame_in_use:
  assumes use: "in_use True 2 r g w" and plugin: "decent_plugin env r g" and ffmpeg: "decent_ffmpeg env"
  shows "\<exists>c f a w'. decode_frame env r data i w = Some w' \<and> in_use True 2 r g w' \<and>
    av_log w' = av_log w @ [(Avcodec_decode_video2 c f data i, a)]"
proof -
  obtain vd where vd: "vd_of r w = Some vd" using use decoder_at_of by (auto simp: in_use_def)
  let ?q = "Avcodec_decode_video2 (vd_avctx vd) (vd_avframe vd) data i"
  have "lending (dv_av env (av_log w) ?q)" using ffmpeg by (simp add: decent_ffmpeg_def)
  from av_call_in_use [OF use this] obtain a w1 where w1: "av_call env r ?q w = Some (a, w1)" "in_use True 2 r g w1" "av_log w1 = av_log w @ [(?q, a)]" by blast
  show ?thesis
  proof (cases "aa_int a < 0 \<or> \<not> aa_got_frame a")
    case True
    then show ?thesis using vd w1 by (auto simp: decode_frame_def)
  next
    case False
    obtain vd1 where vd1: "decoder_at True 2 r g vd1 w1" "vd_of r w1 = Some vd1" using w1(2) decoder_at_of by (auto simp: in_use_def)
    obtain w2 where w2: "(if vd_buffers_were_requested vd1 then Some w1 else do {
        w \<leftarrow> request_buffers env r (aa_ctx_size a) w1;
        vd_upd r (\<lambda>vd. vd\<lparr>vd_buffers_were_requested := True\<rparr>) w }) = Some w2" "in_use True 2 r g w2" "av_log w2 = av_log w1"
    proof (cases "vd_buffers_were_requested vd1")
      case True
      then show ?thesis using that w1(2) by simp
    next
      case False
      obtain j where j: "vd_instance r w1 = Some j" using vd1(1) by (auto simp: decoder_at_def vd_instance_def)
      let ?n = "case vd_hwdec_api vd1 of HWDEC_VAAPI \<Rightarrow> int MAX_VA_SURFACES | HWDEC_VDPAU \<Rightarrow> int MAX_VDP_SURFACES | HWDEC_NONE \<Rightarrow> 5"
      from plugin_called [OF w1(2) plugin, of "ProvidePictureBuffers j r ?n (aa_ctx_size a)"] obtain u1 u2 x w3 where
        u: "pp_resource_release r w1 = Some u1" "call_decoder env (ProvidePictureBuffers j r ?n (aa_ctx_size a)) u1 = Some u2"
        "pp_resource_acquire r PP_RESOURCE_VIDEO_DECODER u2 = Some (x, w3)" and w3: "in_use True 2 r g w3" "av_log w3 = av_log w1" by blast
      have req: "request_buffers env r (aa_ctx_size a) w1 = Some w3"
        using vd1(2) j u by (simp add: request_buffers_def Let_def)
      obtain vd3 where vd3: "decoder_at True 2 r g vd3 w3" "g \<noteq> r" "context_at g w3" using w3(1) by (auto simp: in_use_def)
      let ?f = "\<lambda>vd. vd\<lparr>vd_buffers_were_requested := True\<rparr>"
      have bw: "buffers_written (?f vd3)" "vd_graphics3d (?f vd3) = g"
        using vd3(1) by (cases "vd_buffers vd3"; auto simp: decoder_at_def buffers_written_def)+
      from decoder_at_upd [OF vd3, of ?f, OF bw] obtain w4 where "vd_upd r ?f w3 = Some w4"
        "decoder_at True 2 r g (?f vd3) w4" "context_at g w4" "av_log w4 = av_log w3" by blast
      then show ?thesis using that [of w4] False req w3(2) vd3(2) by (auto simp: in_use_def)
    qed
    from issue_frame_in_use [OF w2(2) plugin] obtain w3 where "issue_frame env r (aa_frame a) w2 = Some w3" "in_use True 2 r g w3" "av_log w3 = av_log w2" by blast
    moreover have "decode_frame env r data i w = issue_frame env r (aa_frame a) w2"
      using vd w1(1) False vd1(2) w2(1) by (auto simp: decode_frame_def)
    ultimately show ?thesis using w1(3) w2(3) by auto
  qed
qed


section \<open>A sample\<close>

text \<open>Decoder 1 of instance 10, acquired, with context 2 and one picture buffer; it decodes with VA-API.\<close>

definition decoder_sample :: pp_video_decoder_s where
  "decoder_sample = \<lparr>vd_orig_graphics3d = 0, vd_graphics3d = 2, vd_codec_id = 28, vd_avparser = 5, vd_avctx = 6, vd_avframe = 7,
     vd_last_consumed_bitstream_buffer_id = 3, vd_buffer_count = 1,
     vd_buffers = Some [\<lparr>db_id = 4, db_width = 32, db_height = 32, db_texture_id = 9, db_used = False, db_pixmap = 10,
       db_glx_pixmap = 11, db_target = None, db_queue = None\<rparr>],
     vd_va_config_id = 1, vd_va_context_id = 1, vd_vdp_decoder = 0, vd_surfaces = map word_of_nat [1..<19],
     vd_vdp_video_surfaces = replicate 16 0, vd_surface_used = replicate 18 False, vd_vdp_video_mixer = 0, vd_vdp_output_surface = 0,
     vd_initialized = True, vd_buffers_were_requested = True, vd_failed_state = False, vd_hwdec_api = HWDEC_VAAPI\<rparr>"

definition dec_sample :: "pp_video_decoder_s \<Rightarrow> dec_world" where
  "dec_sample vd = world.extend ((started [PP_RESOURCE_VIDEO_DECODER, PP_RESOURCE_GRAPHICS3D])\<lparr>
     res_tbl := [(1, \<lparr>r_resource_type = PP_RESOURCE_VIDEO_DECODER, r_ref_cnt = 2, r_instance = Some 10, r_self_id = 1, r_locked = True,
         r_payload = PL_video_decoder vd\<rparr>),
       (2, \<lparr>r_resource_type = PP_RESOURCE_GRAPHICS3D, r_ref_cnt = 1, r_instance = Some 10, r_self_id = 2, r_locked = False,
         r_payload = PL_graphics3d \<lparr>g3_glc = 1, g3_fb_config = 1, g3_depth = 24, g3_glx_pixmap = 1, g3_pixmap = (1, 2), g3_xr_pict = (1, 2),
           g3_xr_pictfmt = 1, g3_width = 32, g3_height = 32, g3_sub_maps = Some []\<rparr>\<rparr>)],
     res_tbl_next := 3\<rparr>)
     \<lparr>x_log = [], shader_type_ht = [], shader_source_ht = [], hw_log = [], av_log = [], dec_calls = []\<rparr>"

text \<open>FFmpeg's parser takes and puts out two bytes at a time; the graphics card fails for the requests in \<open>bad\<close>.\<close>

definition av_result :: "int \<Rightarrow> char list \<Rightarrow> av_answer" where
  "av_result n out = \<lparr>aa_ptr = 1, aa_int = n, aa_outbuf = out, aa_got_frame = True,
     aa_frame = \<lparr>fr_pkt_pts = 3, fr_data3 = 1, fr_width = 32, fr_height = 32\<rparr>, aa_ctx_size = (32, 32)\<rparr>"

definition dec_env_sample :: "hw_request set \<Rightarrow> decoder_env" where
  "dec_env_sample bad = \<lparr>
     dv_gl = \<lparr>ga_answer = \<lambda>l r. 1, ga_have_gles2 = False, ga_es2_extensions = False, ga_create_context_attribs = True,
       ga_have_xrender = True, ga_default_depth = 24, ga_pictfmt_rgb24 = 1, ga_pictfmt_argb32 = 2, ga_translate = \<lambda>t s. s\<rparr>,
     dv_hw = \<lambda>l r. if r \<in> bad then \<lparr>ha_status = 1, ha_handle = INVALID_ID, ha_surfaces = []\<rparr>
       else \<lparr>ha_status = 0, ha_handle = 7, ha_surfaces = map word_of_nat [1..<19]\<rparr>,
     dv_av = \<lambda>l q. case q of
         Av_parser_parse2 p c inbuf \<Rightarrow> Av_return (av_result (int (min 2 (length inbuf))) (take 2 inbuf))
       | Avcodec_decode_video2 c f data i \<Rightarrow> Av_get_buffer (\<lambda>x. Av_return (av_result 2 []))
       | _ \<Rightarrow> Av_return (av_result 0 []),
     dv_plugin = \<lambda>c u. Some u, dv_can_alloc = \<lambda>n. True, dv_enable_hwdec = True, dv_va_available = True, dv_vdpau_available = True,
     dv_bind_tex_image = True, dv_release_tex_image = True, dv_has_interface = True, dv_CODEC_ID_H264 = 28,
     dv_PIX_FMT_VAAPI_VLD = 53, dv_PIX_FMT_VDPAU = 100\<rparr>"

lemma dec_sample_of: "vd_of 1 (dec_sample vd) = Some vd" "vd_instance 1 (dec_sample vd) = Some 10"
  by (simp_all add: vd_of_def vd_instance_def dec_sample_def world.defs)

lemma live_nil: "live [] = (\<lambda>x. 0)"
  by (simp add: live_def fun_eq_iff)

lemma dec_sample_plugin: "plugin_leaves (dec_env_sample bad) r" "decent_plugin (dec_env_sample bad) r g"
  by (simp_all add: plugin_leaves_def decent_plugin_def dec_env_sample_def)


theorem vdpau_given_back_witness:
  "\<exists>f w1 w2. prepare_vdpau_context (dec_env_sample {Vdp_video_mixer_create 32 32}) 1 32 32 (dec_sample (decoder_sample\<lparr>vd_buffer_count := 0\<rparr>)) = Some (f, w1) \<and>
    destroy_vdpau (dec_env_sample {Vdp_video_mixer_create 32 32}) 1 w1 = Some w2 \<and> live (hw_log w2) = (\<lambda>x. 0)"
proof -
  have "vdp_answers (dec_env_sample {Vdp_video_mixer_create 32 32})" by (simp add: vdp_answers_def dec_env_sample_def)
  moreover have "live (hw_log (dec_sample (decoder_sample\<lparr>vd_buffer_count := 0\<rparr>))) = (\<lambda>x. 0)"
    by (simp add: live_nil dec_sample_def world.defs)
  ultimately show ?thesis
    using vdpau_given_back [OF dec_sample_of(1) [of "decoder_sample\<lparr>vd_buffer_count := 0\<rparr>"] _ dec_sample_of(2) _ dec_sample_plugin(1), of _ 32 32] by simp
qed

theorem vaapi_failure_leaks_witness:
  "\<exists>w' vd'. prepare_vaapi_context (dec_env_sample {VaCreateContext 7 32 32 (map word_of_nat [1..<19])}) 1 32 32
      (dec_sample (decoder_sample\<lparr>vd_hwdec_api := HWDEC_NONE\<rparr>)) = Some (AV_PIX_FMT_NONE, w') \<and>
    vd_of 1 w' = Some vd' \<and> vd_hwdec_api vd' = HWDEC_NONE \<and> live (hw_log w') (''config'', 7) = 1 \<and> live (hw_log w') (''va surface'', 3) = 1"
proof -
  let ?vd = "decoder_sample\<lparr>vd_hwdec_api := HWDEC_NONE\<rparr>" and ?env = "dec_env_sample {VaCreateContext 7 32 32 (map word_of_nat [1..<19])}"
  have l: "hw_log (dec_sample ?vd) = []" by (simp add: dec_sample_def world.defs)
  have "\<exists>w' vd'. prepare_vaapi_context ?env 1 32 32 (dec_sample ?vd) = Some (AV_PIX_FMT_NONE, w') \<and> vd_of 1 w' = Some vd' \<and>
    vd_hwdec_api vd' = HWDEC_NONE \<and> live (hw_log w') = (\<lambda>x. live (hw_log (dec_sample ?vd)) x +
      int (count ({#(''config'', ha_handle \<lparr>ha_status = 0, ha_handle = 7, ha_surfaces = map word_of_nat [1..<19]\<rparr>)#} +
        mset (map (Pair ''va surface'') (ha_surfaces \<lparr>ha_status = 0, ha_handle = 7, ha_surfaces = map word_of_nat [1..<19]\<rparr>))) x))"
    by (rule vaapi_failure_leaks [OF dec_sample_of(1) _ dec_sample_of(2) dec_sample_plugin(1)]) (simp_all add: dec_env_sample_def)
  then show ?thesis by (auto simp: l live_nil upt_conv_Cons)
qed


end
