(* ===== verification/X509.thy ===== *)
theory X509
  imports Posting Print_Numbers Message_Loop_Laws
begin

text \<open>
  Certificates: \<^verbatim>\<open>ppb_x509_certificate.c\<close>. OpenSSL is a parameter (\<^verbatim>\<open>x509_lib\<close>): decoding makes
  a certificate, the other functions look a part of it up. The reading of ASN.1 times is the code's
  own and is modelled in full, with \<^verbatim>\<open>timegm\<close> of the C library over the Gregorian calendar. The
  sum of the seconds and of the three decimals as a \<^verbatim>\<open>double\<close> is the parameter \<open>xl_dbl\<close>.
\<close>

section \<open>Seconds of a date\<close>

record tm =
  tm_year :: int
  tm_mon :: int
  tm_mday :: int
  tm_hour :: int
  tm_min :: int
  tm_sec :: int

definition leap_year :: "int \<Rightarrow> bool" where
  "leap_year y \<longleftrightarrow> y mod 4 = 0 \<and> (y mod 100 \<noteq> 0 \<or> y mod 400 = 0)"

definition month_length :: "int \<Rightarrow> int \<Rightarrow> int" where
  "month_length y m =
     (if m = 2 then (if leap_year y then 29 else 28)
      else if m = 4 \<or> m = 6 \<or> m = 9 \<or> m = 11 then 30 else 31)"

definition days_before_year :: "int \<Rightarrow> int" where
  "days_before_year y = 365 * (y - 1970) + (y - 1) div 4 - (y - 1) div 100 + (y - 1) div 400 - 477"

definition days_before_month :: "int \<Rightarrow> int \<Rightarrow> int" where
  "days_before_month y m =
     [0, 31, 59, 90, 120, 151, 181, 212, 243, 273, 304, 334] ! nat (m - 1) +
     (if 2 < m \<and> leap_year y then 1 else 0)"

text \<open>\<^verbatim>\<open>timegm\<close> takes years from 1900 and months from 0, and carries what is out of range.\<close>

definition timegm :: "tm \<Rightarrow> int" where
  "timegm t =
     (let y = 1900 + tm_year t + tm_mon t div 12; m = tm_mon t mod 12 + 1 in
      (days_before_year y + days_before_month y m + tm_mday t - 1) * 86400 +
      tm_hour t * 3600 + tm_min t * 60 + tm_sec t)"

section \<open>ASN.1 times\<close>

definition digit_value :: "char \<Rightarrow> int" where
  "digit_value c = int (of_char c) - 48"

text \<open>The next \<open>n\<close> characters as a decimal number, where all are there and are digits.\<close>

definition asn1_number :: "nat \<Rightarrow> string \<Rightarrow> (int \<times> string) option" where
  "asn1_number n s =
     (if length s < n \<or> \<not> list_all isdigit (take n s) then None
      else Some (digits_val (take n s), drop n s))"

text \<open>\<open>+hhmm\<close> or \<open>-hhmm\<close>: the hours have the sign, the minutes have none.\<close>

definition asn1_offset :: "string \<Rightarrow> (int \<times> int) option" where
  "asn1_offset s =
     (if s = [] \<or> (s ! 0 \<noteq> CHR ''+'' \<and> s ! 0 \<noteq> CHR ''-'') then None
      else do {
        let tz_sign = (if s ! 0 = CHR ''+'' then 1 else - 1);
        (tz_hours, s) \<leftarrow> asn1_number 2 (drop 1 s);
        (tz_minutes, s) \<leftarrow> asn1_number 2 s;
        Some (tz_sign * tz_hours, tz_minutes)
      })"

definition convert_tm :: "tm \<Rightarrow> int \<times> int \<times> int \<Rightarrow> int \<Rightarrow> int \<Rightarrow> int \<times> int \<times> int \<times> int" where
  "convert_tm t subsec hofs mofs = (timegm t - hofs * 3600 - mofs * 60, subsec)"

definition asn1_subsec :: "string \<Rightarrow> (int \<times> int \<times> int) \<times> string" where
  "asn1_subsec s =
     (if 4 \<le> length s \<and> s ! 0 = CHR ''.'' \<and> isdigit (s ! 1) \<and> isdigit (s ! 2) \<and> isdigit (s ! 3) then
        ((digit_value (s ! 1), digit_value (s ! 2), digit_value (s ! 3)), drop 4 s)
      else ((0, 0, 0), s))"

text \<open>\<open>YYYYMMDDHH[MM[SS[.fff]]]\<close>, alone, with a \<open>Z\<close> or with an offset.\<close>

definition generalized_time :: "string \<Rightarrow> (int \<times> int \<times> int \<times> int) option" where
  "generalized_time s = do {
     (year, s) \<leftarrow> asn1_number 4 s;
     (mon, s) \<leftarrow> asn1_number 2 s;
     (mday, s) \<leftarrow> asn1_number 2 s;
     (hour, s) \<leftarrow> asn1_number 2 s;
     (mins, sec, subsec, s) \<leftarrow>
       (if 2 \<le> length s \<and> isdigit (s ! 0) then do {
          (mins, s) \<leftarrow> asn1_number 2 s;
          (if 2 \<le> length s \<and> isdigit (s ! 0) then do {
             (sec, s) \<leftarrow> asn1_number 2 s;
             (case asn1_subsec s of (subsec, s) \<Rightarrow> Some (mins, sec, subsec, s))
           }
           else Some (mins, 0, (0, 0, 0), s))
        }
        else Some (0, 0, (0, 0, 0), s));
     let t = \<lparr>tm_year = year - 1900, tm_mon = mon - 1, tm_mday = mday, tm_hour = hour, tm_min = mins, tm_sec = sec\<rparr>;
     (if s = [] then Some (convert_tm t subsec 0 0)
      else if length s = 1 then
        (if s ! 0 = CHR ''Z'' then Some (convert_tm t subsec 0 0) else None)
      else do {
        (hofs, mofs) \<leftarrow> asn1_offset s;
        Some (convert_tm t subsec hofs mofs)
      })
   }"

text \<open>\<open>YYMMDDhhmm[ss]\<close> with a \<open>Z\<close> or with an offset; years below 70 are of the next century.\<close>

definition utc_time :: "string \<Rightarrow> (int \<times> int \<times> int \<times> int) option" where
  "utc_time s = do {
     (year, s) \<leftarrow> asn1_number 2 s;
     (mon, s) \<leftarrow> asn1_number 2 s;
     (mday, s) \<leftarrow> asn1_number 2 s;
     (hour, s) \<leftarrow> asn1_number 2 s;
     (mins, s) \<leftarrow> asn1_number 2 s;
     (sec, s) \<leftarrow> (if 2 \<le> length s \<and> isdigit (s ! 0) then asn1_number 2 s else Some (0, s));
     let t = \<lparr>tm_year = year + (if year < 70 then 100 else 0), tm_mon = mon - 1, tm_mday = mday,
              tm_hour = hour, tm_min = mins, tm_sec = sec\<rparr>;
     (if s = ''Z'' then Some (convert_tm t (0, 0, 0) 0 0)
      else do {
        (hofs, mofs) \<leftarrow> asn1_offset s;
        Some (convert_tm t (0, 0, 0) hofs mofs)
      })
   }"

definition V_ASN1_UTCTIME :: int where "V_ASN1_UTCTIME = 23"
definition V_ASN1_GENERALIZEDTIME :: int where "V_ASN1_GENERALIZEDTIME = 24"

record asn1_time =
  at_type :: int
  at_data :: string

text \<open>\<open>None\<close> is the null variable of a parse error.\<close>

definition convert_asn1_time :: "asn1_time \<Rightarrow> (int \<times> int \<times> int \<times> int) option" where
  "convert_asn1_time t =
     (if at_type t = V_ASN1_GENERALIZEDTIME then generalized_time (at_data t)
      else if at_type t = V_ASN1_UTCTIME then utc_time (at_data t)
      else None)"

section \<open>The resource\<close>

text \<open>
  \<open>'s\<close> is the memory of OpenSSL. \<open>xl_d2i\<close> is given the certificate to reuse (0 for none) and gives
  the one it leaves there with its verdict. Looking a part up of no certificate is undefined.
\<close>

record 's x509_lib =
  xl_d2i :: "ptr \<Rightarrow> char list \<Rightarrow> 's \<Rightarrow> (ptr \<times> bool) \<times> 's"
  xl_free :: "ptr \<Rightarrow> 's \<Rightarrow> 's"
  xl_issuer :: "ptr \<Rightarrow> 's \<Rightarrow> ptr"
  xl_subject :: "ptr \<Rightarrow> 's \<Rightarrow> ptr"
  xl_index_by_nid :: "ptr \<Rightarrow> int \<Rightarrow> 's \<Rightarrow> int"
  xl_entry_data :: "ptr \<Rightarrow> int \<Rightarrow> 's \<Rightarrow> char list"
  xl_serial :: "ptr \<Rightarrow> 's \<Rightarrow> char list option"
  xl_not_before :: "ptr \<Rightarrow> 's \<Rightarrow> asn1_time option"
  xl_not_after :: "ptr \<Rightarrow> 's \<Rightarrow> asn1_time option"
  xl_dbl :: "int \<times> int \<times> int \<times> int \<Rightarrow> double_bits"

fun the_x509 :: "payload \<Rightarrow> pp_x509_certificate_s option" where
  "the_x509 (PL_x509_certificate xc) = Some xc"
| "the_x509 _ = None"

definition ppb_x509_certificate_create :: "PP_Instance \<Rightarrow> 'a world_scheme \<Rightarrow> (PP_Resource \<times> 'a world_scheme) option" where
  "ppb_x509_certificate_create instance w =
     (case tables_get_pp_instance instance w of
        None \<Rightarrow> Some (0, w)
      | Some pp_i \<Rightarrow> pp_resource_allocate PP_RESOURCE_X509_CERTIFICATE (Some (pi_id pp_i)) w)"

text \<open>What the destructor gives back to OpenSSL; the bytes go with the structure.\<close>

definition ppb_x509_certificate_destroy :: "'s x509_lib \<Rightarrow> pp_x509_certificate_s \<Rightarrow> 's \<Rightarrow> pp_x509_certificate_s \<times> 's" where
  "ppb_x509_certificate_destroy xl xc s =
     (if xc_cert xc \<noteq> 0 then (xc\<lparr>xc_cert := 0, xc_raw_data := None\<rparr>, xl_free xl (xc_cert xc) s)
      else (xc\<lparr>xc_raw_data := None\<rparr>, s))"

definition ppb_x509_certificate_is_x509_certificate :: "PP_Resource \<Rightarrow> 'a res_state_scheme \<Rightarrow> bool" where
  "ppb_x509_certificate_is_x509_certificate resource w \<longleftrightarrow>
     pp_resource_get_type resource w = PP_RESOURCE_X509_CERTIFICATE"

text \<open>\<open>bytes\<close> are the bytes at the address, \<open>length\<close> of them are read.\<close>

definition ppb_x509_certificate_initialize ::
  "'s x509_lib \<Rightarrow> PP_Resource \<Rightarrow> char list \<Rightarrow> u32 \<Rightarrow> 'a res_state_scheme \<Rightarrow> 's \<Rightarrow>
   ((bool \<times> 's) \<times> 'a res_state_scheme) option" where
  "ppb_x509_certificate_initialize xl resource bytes len w s =
     with_resource resource PP_RESOURCE_X509_CERTIFICATE (False, s)
       (\<lambda>gr w. do {
          xc \<leftarrow> the_x509 (r_payload gr);
          let data = take (unat len) bytes;
          (if length data < unat len then None
           else case xl_d2i xl (xc_cert xc) data s of
             ((cert, False), s) \<Rightarrow>
               Some ((False, s), res_write resource (PL_x509_certificate (xc\<lparr>xc_cert := cert\<rparr>)) w)
           | ((cert, True), s) \<Rightarrow>
               Some ((True, s), res_write resource (PL_x509_certificate
                 (xc\<lparr>xc_cert := cert, xc_raw_data := Some data, xc_raw_data_length := len\<rparr>)) w))
        }) w"

section \<open>Fields\<close>

definition get_xname_field_value ::
  "'s x509_lib \<Rightarrow> ptr \<Rightarrow> int \<Rightarrow> 's \<Rightarrow> 'a var_state_scheme \<Rightarrow> (PP_Var \<times> 'a var_state_scheme) option" where
  "get_xname_field_value xl xname nid s w =
     (let loc = xl_index_by_nid xl xname nid s in
      if loc = - 1 then Some (VNull, w)
      else let d = xl_entry_data xl xname loc s in
           ppb_var_var_from_utf8 (Some d) (word_of_nat (length d)) w)"

definition get_cert_issuer_field_value ::
  "'s x509_lib \<Rightarrow> ptr \<Rightarrow> int \<Rightarrow> 's \<Rightarrow> 'a var_state_scheme \<Rightarrow> (PP_Var \<times> 'a var_state_scheme) option" where
  "get_cert_issuer_field_value xl cert nid s w =
     (if cert = 0 then None
      else let xname = xl_issuer xl cert s in
           if xname = 0 then Some (VNull, w) else get_xname_field_value xl xname nid s w)"

definition get_cert_subject_field_value ::
  "'s x509_lib \<Rightarrow> ptr \<Rightarrow> int \<Rightarrow> 's \<Rightarrow> 'a var_state_scheme \<Rightarrow> (PP_Var \<times> 'a var_state_scheme) option" where
  "get_cert_subject_field_value xl cert nid s w =
     (if cert = 0 then None
      else let xname = xl_subject xl cert s in
           if xname = 0 then Some (VNull, w) else get_xname_field_value xl xname nid s w)"

text \<open>An array buffer with these bytes: made, mapped, copied to and unmapped.\<close>

fun copy_mapped :: "PP_Var \<Rightarrow> nat \<Rightarrow> char list \<Rightarrow> 'a var_state_scheme \<Rightarrow> 'a var_state_scheme" where
  "copy_mapped v i [] w = w"
| "copy_mapped v i (c # cs) w = copy_mapped v (Suc i) cs (mapped_write v i c w)"

definition buffer_of_bytes ::
  "char list \<Rightarrow> u32 \<Rightarrow> 'a var_state_scheme \<Rightarrow> (PP_Var \<times> 'a var_state_scheme) option" where
  "buffer_of_bytes d len w = do {
     (var, w) \<leftarrow> ppb_var_array_buffer_create len w;
     (m, w) \<leftarrow> ppb_var_array_buffer_map var w;
     _ \<leftarrow> m;
     w \<leftarrow> ppb_var_array_buffer_unmap var (copy_mapped var 0 (take (unat len) d) w);
     Some (var, w)
   }"

definition NID_commonName :: int where "NID_commonName = 13"
definition NID_countryName :: int where "NID_countryName = 14"
definition NID_localityName :: int where "NID_localityName = 15"
definition NID_stateOrProvinceName :: int where "NID_stateOrProvinceName = 16"
definition NID_organizationName :: int where "NID_organizationName = 17"
definition NID_organizationalUnitName :: int where "NID_organizationalUnitName = 18"
definition NID_distinguishedName :: int where "NID_distinguishedName = 887"

text \<open>
  \<open>Inl\<close> is a return from the middle of the function, which leaves the resource locked, \<open>Inr\<close> the
  way through \<^verbatim>\<open>done\<close>.
\<close>

definition cert_time :: "'s x509_lib \<Rightarrow> asn1_time option \<Rightarrow> 'a \<Rightarrow> (PP_Var + PP_Var) \<times> 'a" where
  "cert_time xl asn1 w =
     (case asn1 of
        None \<Rightarrow> (Inl VNull, w)
      | Some t \<Rightarrow>
          (Inr (case convert_asn1_time t of None \<Rightarrow> VNull | Some r \<Rightarrow> VDouble (xl_dbl xl r)), w))"

definition cert_field ::
  "'s x509_lib \<Rightarrow> pp_x509_certificate_s \<Rightarrow> u32 \<Rightarrow> 's \<Rightarrow> 'a var_state_scheme \<Rightarrow>
   ((PP_Var + PP_Var) \<times> 'a var_state_scheme) option" where
  "cert_field xl xc field s w =
     (let cert = xc_cert xc;
          through = map_option (\<lambda>(v, w). (Inr v, w));
          issuer = (\<lambda>nid. through (get_cert_issuer_field_value xl cert nid s w));
          subject = (\<lambda>nid. through (get_cert_subject_field_value xl cert nid s w))
      in
      if field = 0 then issuer NID_commonName
      else if field = 1 then issuer NID_localityName
      else if field = 2 then issuer NID_stateOrProvinceName
      else if field = 3 then issuer NID_countryName
      else if field = 4 then issuer NID_organizationName
      else if field = 5 then issuer NID_organizationalUnitName
      else if field = 7 then subject NID_commonName
      else if field = 8 then subject NID_localityName
      else if field = 9 then subject NID_stateOrProvinceName
      else if field = 10 then subject NID_countryName
      else if field = 11 then subject NID_organizationName
      else if field = 12 then subject NID_organizationalUnitName
      else if field = 15 then
        (if cert = 0 then None
         else case xl_serial xl cert s of
                None \<Rightarrow> Some (Inl VNull, w)
              | Some d \<Rightarrow> through (buffer_of_bytes d (word_of_nat (length d)) w))
      else if field = 18 then (if cert = 0 then None else Some (cert_time xl (xl_not_before xl cert s) w))
      else if field = 19 then (if cert = 0 then None else Some (cert_time xl (xl_not_after xl cert s) w))
      else if field = 22 then
        (case xc_raw_data xc of
           None \<Rightarrow> Some (Inr VNull, w)
         | Some d \<Rightarrow> through (buffer_of_bytes d (xc_raw_data_length xc) w))
      else if field = 23 then issuer NID_distinguishedName
      else if field = 24 then subject NID_distinguishedName
      else Some (Inr VNull, w))"

definition ppb_x509_certificate_get_field ::
  "'s x509_lib \<Rightarrow> PP_Resource \<Rightarrow> u32 \<Rightarrow> 's \<Rightarrow> 'a res_state_scheme \<Rightarrow> (PP_Var \<times> 'a res_state_scheme) option" where
  "ppb_x509_certificate_get_field xl resource field s w = do {
     (gr, w) \<leftarrow> pp_resource_acquire resource PP_RESOURCE_X509_CERTIFICATE w;
     (case gr of
        None \<Rightarrow> Some (VNull, w)
      | Some gr \<Rightarrow> do {
          xc \<leftarrow> the_x509 (r_payload gr);
          (r, w) \<leftarrow> cert_field xl xc field s w;
          (case r of
             Inl v \<Rightarrow> Some (v, w)
           | Inr v \<Rightarrow> do { w \<leftarrow> pp_resource_release resource w; Some (v, w) })
        })
   }"

end
