(* ===== verification/X509_Correct.thy ===== *)
theory X509_Correct
  imports X509
begin

text \<open>
  Certificate dates read back as the seconds they were printed from, with the calendar of
  \<^verbatim>\<open>timegm\<close> checked day by day; what a negative offset gives; the bytes a certificate was made of
  are given back; what a certificate without a serial number leaves behind.
\<close>

section \<open>The calendar\<close>

definition valid_date :: "int \<Rightarrow> int \<Rightarrow> int \<Rightarrow> bool" where
  "valid_date y m d \<longleftrightarrow> 1 \<le> m \<and> m \<le> 12 \<and> 1 \<le> d \<and> d \<le> month_length y m"

definition date_tm :: "int \<Rightarrow> int \<Rightarrow> int \<Rightarrow> int \<Rightarrow> int \<Rightarrow> int \<Rightarrow> tm" where
  "date_tm y m d h mi s =
     \<lparr>tm_year = y - 1900, tm_mon = m - 1, tm_mday = d, tm_hour = h, tm_min = mi, tm_sec = s\<rparr>"

fun next_day :: "int \<times> int \<times> int \<Rightarrow> int \<times> int \<times> int" where
  "next_day (y, m, d) =
     (if d < month_length y m then (y, m, d + 1)
      else if m < 12 then (y, m + 1, 1)
      else (y + 1, 1, 1))"

definition days_of :: "int \<times> int \<times> int \<Rightarrow> int" where
  "days_of = (\<lambda>(y, m, d). days_before_year y + days_before_month y m + d - 1)"

lemma timegm_date:
  assumes "1 \<le> m" "m \<le> 12"
  shows "timegm (date_tm y m d h mi s) = days_of (y, m, d) * 86400 + h * 3600 + mi * 60 + s"
  using assms by (simp add: timegm_def date_tm_def days_of_def)

lemma month_cases:
  "1 \<le> m \<Longrightarrow> m \<le> (12 :: int) \<Longrightarrow>
    m = 1 \<or> m = 2 \<or> m = 3 \<or> m = 4 \<or> m = 5 \<or> m = 6 \<or> m = 7 \<or> m = 8 \<or> m = 9 \<or>
    m = 10 \<or> m = 11 \<or> m = 12"
  by presburger

lemma div_step: "0 < k \<Longrightarrow> y div k = (y - 1) div k + (if y mod k = 0 then 1 else 0)" for y :: int
proof -
  assume k: "0 < k"
  let ?q = "(y - 1) div k" and ?r = "(y - 1) mod k"
  have y: "y = k * ?q + (?r + 1)" using mult_div_mod_eq [of k "y - 1"] by simp
  have r: "0 \<le> ?r" "?r < k" using k by simp_all
  show ?thesis
  proof (cases "?r + 1 = k")
    case True
    then have e: "y = k * (?q + 1) + 0" using y by (simp add: algebra_simps)
    have "y div k = ?q + 1" using k by (intro int_div_pos_eq [OF e]) simp_all
    moreover have "y mod k = 0" using k by (intro int_mod_pos_eq [OF e]) simp_all
    ultimately show ?thesis by simp
  next
    case False
    have "y div k = ?q" using r False by (intro int_div_pos_eq [OF y]) simp_all
    moreover have "y mod k = ?r + 1" using r False by (intro int_mod_pos_eq [OF y]) simp_all
    ultimately show ?thesis using r(1) by simp
  qed
qed

lemma year_sum:
  fixes a :: int
  shows "a' = a + x \<Longrightarrow> b' = b + u \<Longrightarrow> c' = c + z \<Longrightarrow>
    365 * (y + 1 - 1970) + a' - b' + c' - 477 = 365 * (y - 1970) + a - b + c - 477 + (365 + x - u + z)"
  by simp

lemma leap_days:
  "(q \<longrightarrow> r) \<Longrightarrow> (t \<longrightarrow> q) \<Longrightarrow>
    365 + (if r then 1 else 0) - (if q then 1 else 0) + (if t then 1 else 0) =
      (if r \<and> (\<not> q \<or> t) then 366 else (365 :: int))"
  by (cases q; cases r; cases t) simp_all

lemma year_step: "days_before_year (y + 1) = days_before_year y + (if leap_year y then 366 else 365)"
proof -
  let ?one = "\<lambda>k. if y mod k = 0 then 1 else 0 :: int"
  have "4 dvd (100 :: int)" "100 dvd (400 :: int)" by simp_all
  then have m: "y mod 100 = 0 \<longrightarrow> y mod 4 = 0" "y mod 400 = 0 \<longrightarrow> y mod 100 = 0"
    unfolding mod_eq_0_iff_dvd by (blast intro: dvd_trans)+
  have d: "y div 4 = (y - 1) div 4 + ?one 4" "y div 100 = (y - 1) div 100 + ?one 100"
    "y div 400 = (y - 1) div 400 + ?one 400"
    by (rule div_step, rule zero_less_numeral)+
  have "days_before_year (y + 1) = 365 * (y + 1 - 1970) + y div 4 - y div 100 + y div 400 - 477"
    by (simp only: days_before_year_def add_diff_cancel_right')
  also have "\<dots> = days_before_year y + (365 + ?one 4 - ?one 100 + ?one 400)"
    unfolding days_before_year_def by (rule year_sum [OF d])
  also have "365 + ?one 4 - ?one 100 + ?one 400 = (if leap_year y then 366 else 365)"
    unfolding leap_year_def by (rule leap_days [OF m])
  finally show ?thesis .
qed

lemma month_step:
  assumes "1 \<le> m" "m < 12"
  shows "days_before_month y (m + 1) = days_before_month y m + month_length y m"
proof -
  have "m \<le> 12" using assms by simp
  then have "m = 1 \<or> m = 2 \<or> m = 3 \<or> m = 4 \<or> m = 5 \<or> m = 6 \<or> m = 7 \<or> m = 8 \<or> m = 9 \<or>
    m = 10 \<or> m = 11" using month_cases [OF assms(1)] assms(2) by simp
  then show ?thesis
    by (elim disjE) (simp_all add: days_before_month_def month_length_def)
qed

lemma next_day_days:
  assumes "valid_date y m d"
  shows "days_of (next_day (y, m, d)) = days_of (y, m, d) + 1"
    "case next_day (y, m, d) of (y', m', d') \<Rightarrow> valid_date y' m' d'"
  using assms month_step [of m y] year_step [of y]
  by (auto simp: days_of_def valid_date_def days_before_month_def month_length_def)

text \<open>The date so many days after the first of January 1970.\<close>

fun date_after :: "nat \<Rightarrow> int \<times> int \<times> int" where
  "date_after 0 = (1970, 1, 1)"
| "date_after (Suc n) = next_day (date_after n)"

lemma date_after_days:
  "days_of (date_after n) = int n \<and> (case date_after n of (y, m, d) \<Rightarrow> valid_date y m d)"
proof (induction n)
  case 0 then show ?case
    by (simp add: days_of_def days_before_year_def days_before_month_def valid_date_def month_length_def)
next
  case (Suc n)
  then show ?case
    using next_day_days [of "fst (date_after n)" "fst (snd (date_after n))" "snd (snd (date_after n))"]
    by (cases "date_after n") (simp split: prod.splits del: next_day.simps)
qed

section \<open>Printed times\<close>

primrec dec_digits :: "nat \<Rightarrow> nat \<Rightarrow> string" where
  "dec_digits 0 k = []"
| "dec_digits (Suc n) k = dec_digits n (k div 10) @ [digit_char (k mod 10)]"

lemma length_dec_digits [simp]: "length (dec_digits n k) = n"
  by (induction n arbitrary: k) simp_all

lemma dec_digits_isdigit [simp]: "list_all isdigit (dec_digits n k)"
  by (induction n arbitrary: k) (simp_all add: digit_char_digit)

lemma digit_value_char [simp]: "k < 10 \<Longrightarrow> digit_value (digit_char k) = int k"
  by (simp add: digit_value_def digit_char_def)

lemma digits_val_dec_digits: "k < 10 ^ n \<Longrightarrow> digits_val (dec_digits n k) = int k"
proof (induction n arbitrary: k)
  case 0 then show ?case by (simp add: digits_val_def)
next
  case (Suc n)
  have "k div 10 < 10 ^ n" using Suc.prems by (simp add: less_mult_imp_div_less mult.commute)
  moreover have "int (of_char (digit_char (k mod 10))) - 48 = int (k mod 10)"
    using digit_value_char [of "k mod 10"] by (simp add: digit_value_def)
  ultimately show ?case
    using Suc.IH [of "k div 10"] by (simp only: dec_digits.simps digits_val_snoc) presburger
qed

lemma asn1_number_digits [simp]:
  "k < 10 ^ n \<Longrightarrow> asn1_number n (dec_digits n k @ s) = Some (int k, s)"
  by (simp add: asn1_number_def digits_val_dec_digits)

lemma dec_digits_nth [simp]:
  "i < n \<Longrightarrow> isdigit ((dec_digits n k @ s) ! i)"
  using dec_digits_isdigit [of n k] by (simp add: nth_append list_all_length del: dec_digits_isdigit)

definition generalized_text :: "nat \<Rightarrow> nat \<Rightarrow> nat \<Rightarrow> nat \<Rightarrow> nat \<Rightarrow> nat \<Rightarrow> string" where
  "generalized_text y m d h mi s =
     dec_digits 4 y @ dec_digits 2 m @ dec_digits 2 d @ dec_digits 2 h @ dec_digits 2 mi @ dec_digits 2 s"

definition offset_text :: "char \<Rightarrow> nat \<Rightarrow> nat \<Rightarrow> string" where
  "offset_text c h m = c # dec_digits 2 h @ dec_digits 2 m"

lemma offset_text_read:
  assumes "c = CHR ''+'' \<or> c = CHR ''-''" "h < 100" "m < 100"
  shows "asn1_offset (offset_text c h m) = Some ((if c = CHR ''+'' then 1 else - 1) * int h, int m)"
  using assms asn1_number_digits [of m 2 "[]"]
  by (auto simp: asn1_offset_def offset_text_def)

lemma generalized_fields:
  assumes "y < 10000" "m < 100" "d < 100" "h < 100" "mi < 100" "s < 100"
  shows "generalized_time (generalized_text y m d h mi s @ rest) =
    (case asn1_subsec rest of (f, rest) \<Rightarrow>
       let t = date_tm (int y) (int m) (int d) (int h) (int mi) (int s) in
       (if rest = [] then Some (convert_tm t f 0 0)
        else if length rest = 1 then (if rest ! 0 = CHR ''Z'' then Some (convert_tm t f 0 0) else None)
        else map_option (\<lambda>(hofs, mofs). convert_tm t f hofs mofs) (asn1_offset rest)))"
proof -
  have "y < 10 ^ 4" using assms(1) by simp
  moreover have "m < 10 ^ 2" "d < 10 ^ 2" "h < 10 ^ 2" "mi < 10 ^ 2" "s < 10 ^ 2"
    using assms by simp_all
  ultimately show ?thesis
    by (simp add: generalized_time_def generalized_text_def date_tm_def Let_def map_option_case case_prod_unfold
      cong: option.case_cong split: option.splits)
qed

section \<open>Dates read back\<close>

text \<open>The seconds at this time of the day, so many days after the first of January 1970.\<close>

definition seconds_at :: "nat \<Rightarrow> nat \<Rightarrow> nat \<Rightarrow> nat \<Rightarrow> int" where
  "seconds_at n h mi s = 86400 * int n + 3600 * int h + 60 * int mi + int s"

lemma convert_tm_date:
  assumes "date_after n = (int y, int m, int d)"
  shows "convert_tm (date_tm (int y) (int m) (int d) (int h) (int mi) (int s)) f oh om =
      (seconds_at n h mi s - oh * 3600 - om * 60, f)"
    "m < 100" "d < 100"
proof -
  have v: "days_of (int y, int m, int d) = int n" "valid_date (int y) (int m) (int d)"
    using date_after_days [of n] by (simp_all add: assms)
  from v(2) have m: "1 \<le> int m" "int m \<le> 12" and d: "int d \<le> month_length (int y) (int m)"
    by (simp_all add: valid_date_def)
  then show "convert_tm (date_tm (int y) (int m) (int d) (int h) (int mi) (int s)) f oh om =
      (seconds_at n h mi s - oh * 3600 - om * 60, f)"
    using v(1) by (simp add: convert_tm_def timegm_date seconds_at_def)
  have "month_length (int y) (int m) \<le> 31" by (simp add: month_length_def)
  with m d show "m < 100" "d < 100" by simp_all
qed

lemma asn1_subsec_none: "s = [] \<or> s ! 0 \<noteq> CHR ''.'' \<Longrightarrow> asn1_subsec s = ((0, 0, 0), s)"
  by (auto simp: asn1_subsec_def)

lemma convert_generalized:
  "convert_asn1_time \<lparr>at_type = V_ASN1_GENERALIZEDTIME, at_data = x\<rparr> = generalized_time x"
  by (simp add: convert_asn1_time_def)

lemma generalized_offset:
  assumes "date_after n = (int y, int m, int d)" "y < 10000" "h < 100" "mi < 100" "s < 100"
    and c: "c = CHR ''+'' \<or> c = CHR ''-''" and off: "oh < 100" "om < 100"
  shows "generalized_time (generalized_text y m d h mi s @ offset_text c oh om) =
    Some (seconds_at n h mi s - (if c = CHR ''+'' then 1 else - 1) * (3600 * int oh) - 60 * int om, 0, 0, 0)"
proof -
  have "asn1_subsec (offset_text c oh om) = ((0, 0, 0), offset_text c oh om)"
    using c by (intro asn1_subsec_none) (auto simp: offset_text_def)
  moreover have "length (offset_text c oh om) = 5" by (simp add: offset_text_def)
  moreover have "offset_text c oh om \<noteq> []" by (simp add: offset_text_def)
  ultimately show ?thesis
    using c by (subst generalized_fields)
      (simp_all add: assms convert_tm_date [OF assms(1)] Let_def offset_text_read [OF c off])
qed

text \<open>
  C38: A validity date of a certificate reads as the seconds since the first of January 1970 in the
  Gregorian calendar: printed as \<open>YYYYMMDDhhmmss\<close> and \<open>Z\<close>, the time \<open>h:mi:s\<close> of the day that is \<open>n\<close>
  days later gives \<open>86400 n + 3600 h + 60 mi + s\<close>, with the three decimals of a fraction where one
  follows, and less the offset where one east of Greenwich follows.
\<close>

theorem generalized_time_reads_back:
  assumes day: "date_after n = (int y, int m, int d)" "y < 10000"
    and time: "h < 24" "mi < 60" "s < 60" and fraction: "f1 < 10" "f2 < 10" "f3 < 10"
    and offset: "oh < 24" "om < 60"
  shows "convert_asn1_time \<lparr>at_type = V_ASN1_GENERALIZEDTIME, at_data = generalized_text y m d h mi s @ ''Z''\<rparr> =
      Some (seconds_at n h mi s, 0, 0, 0) \<and>
    convert_asn1_time \<lparr>at_type = V_ASN1_GENERALIZEDTIME,
        at_data = generalized_text y m d h mi s @ ''.'' @ [digit_char f1, digit_char f2, digit_char f3] @ ''Z''\<rparr> =
      Some (seconds_at n h mi s, int f1, int f2, int f3) \<and>
    convert_asn1_time \<lparr>at_type = V_ASN1_GENERALIZEDTIME,
        at_data = generalized_text y m d h mi s @ offset_text CHR ''+'' oh om\<rparr> =
      Some (seconds_at n h mi s - (3600 * int oh + 60 * int om), 0, 0, 0)"
proof -
  have lt: "m < 100" "d < 100" "h < 100" "mi < 100" "s < 100" "oh < 100" "om < 100"
    using convert_tm_date(2,3) [OF day(1)] time offset by simp_all
  note g = generalized_fields [OF day(2) lt(1-5)] and c = convert_tm_date(1) [OF day(1)]
  have "generalized_time (generalized_text y m d h mi s @ ''Z'') = Some (seconds_at n h mi s, 0, 0, 0)"
    unfolding g by (simp add: asn1_subsec_def c)
  moreover have "generalized_time (generalized_text y m d h mi s @ ''.'' @
      [digit_char f1, digit_char f2, digit_char f3] @ ''Z'') = Some (seconds_at n h mi s, int f1, int f2, int f3)"
    unfolding g using fraction by (simp add: asn1_subsec_def c digit_char_digit)
  ultimately show ?thesis
    using generalized_offset [OF day lt(3-5) _ lt(6,7), of "CHR ''+''"]
    by (simp add: convert_generalized)
qed

lemma generalized_time_reads_back_witness:
  "convert_asn1_time \<lparr>at_type = V_ASN1_GENERALIZEDTIME, at_data = ''19700301120500.250Z''\<rparr> =
    Some (5141100, 2, 5, 0)"
proof -
  have "date_after 59 = (1970, 3, 1)" by code_simp
  then have "date_after 59 = (int 1970, int 3, int 1)" by simp
  from generalized_time_reads_back [OF this, of 12 5 0 2 5 0 0 0]
  have "convert_asn1_time \<lparr>at_type = V_ASN1_GENERALIZEDTIME,
        at_data = generalized_text 1970 3 1 12 5 0 @ ''.'' @ [digit_char 2, digit_char 5, digit_char 0] @ ''Z''\<rparr> =
      Some (seconds_at 59 12 5 0, int 2, int 5, int 0)"
    by simp
  moreover have "generalized_text 1970 3 1 12 5 0 @ ''.'' @ [digit_char 2, digit_char 5, digit_char 0] @ ''Z'' =
      ''19700301120500.250Z''" by code_simp
  ultimately show ?thesis by (simp add: seconds_at_def)
qed

text \<open>
  An offset west of Greenwich has its hours added but its minutes subtracted, so that the time read
  is behind the right one by twice the minutes.
\<close>

theorem west_offset_wrong:
  assumes "date_after n = (int y, int m, int d)" "y < 10000" "h < 24" "mi < 60" "s < 60" "oh < 24" "om < 60"
  shows "convert_asn1_time \<lparr>at_type = V_ASN1_GENERALIZEDTIME,
        at_data = generalized_text y m d h mi s @ offset_text CHR ''-'' oh om\<rparr> =
      Some (seconds_at n h mi s + (3600 * int oh + 60 * int om) - 120 * int om, 0, 0, 0)"
  using assms by (simp add: convert_generalized generalized_offset)

lemma west_offset_wrong_witness:
  "convert_asn1_time \<lparr>at_type = V_ASN1_GENERALIZEDTIME, at_data = ''19700101000000-0330''\<rparr> =
    Some (9000, 0, 0, 0)"
proof -
  have "date_after 0 = (int 1970, int 1, int 1)" by simp
  from west_offset_wrong [OF this, of 0 0 0 3 30]
  have "convert_asn1_time \<lparr>at_type = V_ASN1_GENERALIZEDTIME,
      at_data = generalized_text 1970 1 1 0 0 0 @ offset_text CHR ''-'' 3 30\<rparr> = Some (9000, 0, 0, 0)"
    by (simp add: seconds_at_def)
  moreover have "generalized_text 1970 1 1 0 0 0 @ offset_text CHR ''-'' 3 30 = ''19700101000000-0330''"
    by code_simp
  ultimately show ?thesis by simp
qed

section \<open>The bytes of a certificate\<close>

lemma copy_mapped_writes:
  "ht_lookup (var_ht w) i = Some u \<Longrightarrow> vs_body u = VB_Abuf len d (Some m) \<Longrightarrow> k + length cs = length m \<Longrightarrow>
    copy_mapped (VArrayBuffer i) k cs w =
      w\<lparr>var_ht := ht_insert i (u\<lparr>vs_body := VB_Abuf len d (Some (take k m @ cs))\<rparr>) (var_ht w)\<rparr>"
proof (induction cs arbitrary: k w u m)
  case Nil
  then have "u\<lparr>vs_body := VB_Abuf len d (Some m)\<rparr> = u" by (cases u) simp
  with Nil show ?case by (simp add: ht_insert_same)
next
  case (Cons c cs)
  let ?m = "m[k := c]"
  let ?u = "u\<lparr>vs_body := VB_Abuf len d (Some ?m)\<rparr>"
  let ?w = "w\<lparr>var_ht := ht_insert i ?u (var_ht w)\<rparr>"
  have "mapped_write (VArrayBuffer i) k c w = ?w"
    using Cons.prems by (simp add: mapped_write_def get_var_s_def)
  moreover have "take (Suc k) ?m = take k m @ [c]"
    using Cons.prems(3) by (simp add: take_Suc_conv_app_nth)
  ultimately show ?case
    using Cons.IH [of ?w ?u ?m "Suc k"] Cons.prems(3) by simp
qed

lemma buffer_of_bytes_ok:
  assumes len: "length d = unat len" and new: "get_new_var_id (var_ht w) (var_id w) = Some i"
  shows "buffer_of_bytes d len w = Some (VArrayBuffer i, w\<lparr>var_id := i, var_ht := ht_insert i
    \<lparr>vs_var = VArrayBuffer i, vs_ref_count = 1, vs_body = VB_Abuf len d None\<rparr> (var_ht w)\<rparr>)"
proof -
  let ?z = "replicate (unat len) NUL"
  let ?e = "\<lambda>b m. \<lparr>vs_var = VArrayBuffer i, vs_ref_count = 1, vs_body = VB_Abuf len b m\<rparr>"
  let ?w = "\<lambda>e. w\<lparr>var_id := i, var_ht := ht_insert i e (var_ht w)\<rparr>"
  have "copy_mapped (VArrayBuffer i) 0 d (?w (?e ?z (Some ?z))) = ?w (?e ?z (Some d))"
    using copy_mapped_writes [of "?w (?e ?z (Some ?z))" i "?e ?z (Some ?z)" len ?z ?z 0 d] len by simp
  with len new show ?thesis
    by (simp add: buffer_of_bytes_def ppb_var_array_buffer_create_def var_register_def Let_def
      ppb_var_array_buffer_map_def ppb_var_array_buffer_unmap_def get_var_s_def)
qed

lemma initialize_accepted:
  assumes av: "available r PP_RESOURCE_X509_CERTIFICATE w e" and xc: "r_payload e = PL_x509_certificate xc"
    and d2i: "xl_d2i xl (xc_cert xc) bytes s = ((cert, True), s')" and len: "unat len = length bytes"
  shows "ppb_x509_certificate_initialize xl r bytes len w s =
    Some ((True, s'), w\<lparr>res_tbl := ht_insert r (e\<lparr>r_payload := PL_x509_certificate
      (xc\<lparr>xc_cert := cert, xc_raw_data := Some bytes, xc_raw_data_length := len\<rparr>)\<rparr>) (res_tbl w)\<rparr>)"
proof -
  have "0 < r_ref_cnt e" "\<not> r_locked e" using av by (simp_all add: available_def)
  then show ?thesis
    by (simp add: ppb_x509_certificate_initialize_def with_resource_def acquire_available [OF av] xc len Let_def d2i
      res_write_def release_counted)
qed

lemma raw_field:
  assumes av: "available r PP_RESOURCE_X509_CERTIFICATE w e" and xc: "r_payload e = PL_x509_certificate xc"
    and raw: "xc_raw_data xc = Some d" "length d = unat (xc_raw_data_length xc)"
    and new: "get_new_var_id (var_ht w) (var_id w) = Some i"
  shows "ppb_x509_certificate_get_field xl r 22 s w = Some (VArrayBuffer i, w\<lparr>var_id := i, var_ht := ht_insert i
    \<lparr>vs_var = VArrayBuffer i, vs_ref_count = 1, vs_body = VB_Abuf (xc_raw_data_length xc) d None\<rparr> (var_ht w)\<rparr>)"
proof -
  let ?w = "w\<lparr>res_tbl := ht_insert r (e\<lparr>r_locked := True, r_ref_cnt := r_ref_cnt e + 1\<rparr>) (res_tbl w)\<rparr>"
  have "get_new_var_id (var_ht ?w) (var_id ?w) = Some i" using new by simp
  from buffer_of_bytes_ok [OF raw(2) this] av show ?thesis
    by (simp add: ppb_x509_certificate_get_field_def acquire_available xc cert_field_def raw(1),
        simp add: available_def release_counted r_relock ht_insert_same)
qed

text \<open>
  A certificate that OpenSSL accepts gives back, as its raw field, an array buffer with the very
  bytes it was made of, new and with one reference for the caller; the resource is free again.
\<close>

theorem certificate_bytes_back:
  assumes av: "available r PP_RESOURCE_X509_CERTIFICATE w e" and xc: "r_payload e = PL_x509_certificate xc"
    and d2i: "xl_d2i xl (xc_cert xc) bytes s = ((cert, True), s')" and len: "unat len = length bytes"
    and room: "length (var_ht w) < 2 ^ 32"
  shows "\<exists>w1 w2 i e2. ppb_x509_certificate_initialize xl r bytes len w s = Some ((True, s'), w1) \<and>
    ppb_x509_certificate_get_field xl r 22 s' w1 = Some (VArrayBuffer i, w2) \<and>
    ht_lookup (var_ht w) i = None \<and>
    ht_lookup (var_ht w2) i =
      Some \<lparr>vs_var = VArrayBuffer i, vs_ref_count = 1, vs_body = VB_Abuf len bytes None\<rparr> \<and>
    available r PP_RESOURCE_X509_CERTIFICATE w2 e2 \<and> r_ref_cnt e2 = r_ref_cnt e"
proof -
  let ?e = "e\<lparr>r_payload := PL_x509_certificate
      (xc\<lparr>xc_cert := cert, xc_raw_data := Some bytes, xc_raw_data_length := len\<rparr>)\<rparr>"
  let ?w = "w\<lparr>res_tbl := ht_insert r ?e (res_tbl w)\<rparr>"
  obtain i where i: "get_new_var_id (var_ht w) (var_id w) = Some i"
    using get_new_var_id_total [OF room] by blast
  have "available r PP_RESOURCE_X509_CERTIFICATE ?w ?e" using av by (simp add: available_def)
  from raw_field [OF this, of _ bytes i xl s'] initialize_accepted [OF av xc d2i len]
    get_new_var_id_fresh [OF i] i len av
  show ?thesis by (simp add: available_def)
qed

section \<open>What is missing\<close>

text \<open>
  Asked for the serial number or a validity date of a certificate that has none, the function answers
  the null variable and goes without releasing the resource: it stays locked, with a reference too
  many, and the next use of it by anyone waits for ever.
\<close>

theorem missing_field_stays_locked:
  assumes av: "available r PP_RESOURCE_X509_CERTIFICATE w e" and xc: "r_payload e = PL_x509_certificate xc"
    and cert: "xc_cert xc \<noteq> 0"
    and missing: "field = 15 \<and> xl_serial xl (xc_cert xc) s = None \<or>
      field = 18 \<and> xl_not_before xl (xc_cert xc) s = None \<or>
      field = 19 \<and> xl_not_after xl (xc_cert xc) s = None"
  shows "\<exists>w1. ppb_x509_certificate_get_field xl r field s w = Some (VNull, w1) \<and>
    (\<exists>e1. ht_lookup (res_tbl w1) r = Some e1 \<and> r_locked e1 \<and> r_ref_cnt e1 = r_ref_cnt e + 1) \<and>
    ppb_x509_certificate_get_field xl r f s w1 = None"
proof -
  let ?e = "e\<lparr>r_locked := True, r_ref_cnt := r_ref_cnt e + 1\<rparr>"
  let ?w = "w\<lparr>res_tbl := ht_insert r ?e (res_tbl w)\<rparr>"
  have "ppb_x509_certificate_get_field xl r field s w = Some (VNull, ?w)"
    using missing
    by (auto simp: ppb_x509_certificate_get_field_def acquire_available [OF av] xc cert_field_def cert cert_time_def)
  moreover have "pp_resource_acquire r PP_RESOURCE_X509_CERTIFICATE ?w = None"
    using av by (simp add: available_def pp_resource_acquire_def acquire_attempt_def)
  then have "ppb_x509_certificate_get_field xl r f s ?w = None"
    by (simp add: ppb_x509_certificate_get_field_def)
  ultimately show ?thesis by simp
qed

section \<open>Values\<close>

text \<open>A library that takes any bytes as a certificate, of a name and a first day and no serial number.\<close>

definition sample_x509_lib :: "char list x509_lib" where
  "sample_x509_lib = \<lparr>xl_d2i = (\<lambda>cert d s. ((7, d \<noteq> []), d)), xl_free = (\<lambda>cert s. []),
     xl_issuer = (\<lambda>cert s. 8), xl_subject = (\<lambda>cert s. 9),
     xl_index_by_nid = (\<lambda>name nid s. if nid = NID_commonName then 0 else - 1),
     xl_entry_data = (\<lambda>name loc s. ''example''), xl_serial = (\<lambda>cert s. None),
     xl_not_before = (\<lambda>cert s. Some \<lparr>at_type = V_ASN1_UTCTIME, at_data = ''700102000000Z''\<rparr>),
     xl_not_after = (\<lambda>cert s. None), xl_dbl = (\<lambda>(secs, f1, f2, f3). word_of_int secs)\<rparr>"

definition x509_entry :: "ptr \<Rightarrow> pp_resource_s" where
  "x509_entry cert = \<lparr>r_resource_type = PP_RESOURCE_X509_CERTIFICATE, r_ref_cnt = 1, r_instance = Some 10,
     r_self_id = 1, r_locked = False,
     r_payload = PL_x509_certificate \<lparr>xc_cert = cert, xc_raw_data = None, xc_raw_data_length = 0\<rparr>\<rparr>"

definition x509_world :: "ptr \<Rightarrow> world" where
  "x509_world cert = (started [PP_RESOURCE_X509_CERTIFICATE])\<lparr>res_tbl_next := 2, res_tbl := [(1, x509_entry cert)]\<rparr>"

lemma x509_world_available:
  "available 1 PP_RESOURCE_X509_CERTIFICATE (x509_world cert) (x509_entry cert)" "var_ht (x509_world cert) = []"
  by (simp_all add: available_def x509_world_def x509_entry_def)

lemma certificate_bytes_back_witness:
  "\<exists>w1 w2 i. ppb_x509_certificate_initialize sample_x509_lib 1 ''DER'' 3 (x509_world 0) [] = Some ((True, ''DER''), w1) \<and>
    ppb_x509_certificate_get_field sample_x509_lib 1 22 ''DER'' w1 = Some (VArrayBuffer i, w2) \<and>
    map_option vs_body (ht_lookup (var_ht w2) i) = Some (VB_Abuf 3 ''DER'' None)"
  using certificate_bytes_back [OF x509_world_available(1) [of 0], of _ sample_x509_lib "''DER''" "[]" 7 "''DER''" 3]
  by (fastforce simp: x509_world_available x509_entry_def sample_x509_lib_def)

lemma missing_field_stays_locked_witness:
  "\<exists>w1 e1. ppb_x509_certificate_get_field sample_x509_lib 1 15 [] (x509_world 7) = Some (VNull, w1) \<and>
    ht_lookup (res_tbl w1) 1 = Some e1 \<and> r_locked e1 \<and> r_ref_cnt e1 = 2 \<and>
    ppb_x509_certificate_get_field sample_x509_lib 1 15 [] w1 = None"
  using missing_field_stays_locked [OF x509_world_available(1) [of 7], of _ 15 sample_x509_lib "[]" 15]
  by (auto simp: x509_entry_def sample_x509_lib_def)

lemma a_field_read:
  "map_option fst (ppb_x509_certificate_get_field sample_x509_lib 1 18 [] (x509_world 7)) = Some (VDouble 86400)"
  "convert_asn1_time \<lparr>at_type = V_ASN1_UTCTIME, at_data = ''5001010000Z''\<rparr> = Some (2524608000, 0, 0, 0)"
  by code_simp+

end
