(* ===== verification/Spec2Isabelle.thy ===== *)
theory Spec2Isabelle
  imports Var_Correct Resource_Correct Message_Loop_Correct Encoding_Alias Config_Parser
    Net_Address Url_Correct Url_Open_Correct Input_Event Plain_Resources Network_Theorems
    Small_Resources Script_Correct Graphics2d_Theorems Events_Correct Destroy_Correct Gl_Theorems
    Capture_Correct Audio_Correct Desktop_Correct Decoder_Feed X509_Correct
begin

text \<open>
  FreshPlayerPlugin lets a browser that speaks NPAPI run a plugin that speaks PPAPI, such as Pepper Flash.
  The browser calls the functions of \<^verbatim>\<open>np_functions.c\<close>; the plugin calls the functions of the files
  \<^verbatim>\<open>ppb_*.c\<close>. Between the two stand tables that both sides share, message loops that carry calls from
  one thread to another, and threads for the network, sound and cameras. The theories model the C code of
  \<^verbatim>\<open>src/src\<close>, one group of definitions for a file, with the names of the functions of that file.

  \<^bold>\<open>How to read a definition.\<close> A C function is a function from the state to the state, with its result.
  The state is the record \<open>world\<close> of \<open>Data_Model\<close> (extended by a component that has static variables of
  its own); a structure is a record, an enumeration a datatype, a block of memory its list of bytes, a
  pointer to a shared structure the key under which a table of the state holds it. Integers have their
  width (\<open>u32\<close>, \<open>u64\<close>) where the code computes with them; C's \<^verbatim>\<open>int\<close> is \<open>int\<close> where no operation of the
  code can leave its range. A result \<open>None\<close> means that the code does something undefined (a NULL or freed
  pointer, a read or write past the end of a block, an overflow of a signed integer), or does not return.
  So \<open>f x w = Some (r, w')\<close> says that the call returns and is defined, and theorems that end in such an
  equation say that. A refusal of the code, such as \<^verbatim>\<open>PP_ERROR_BADRESOURCE\<close>, is an ordinary result.

  \<^bold>\<open>The common ground.\<close>
  \<^item> \<open>Prelude\<close>: widths, result codes, C strings, and \<^verbatim>\<open>GHashTable\<close> as an association list with the locale
    \<open>g_hash_table\<close> of what a table promises.
  \<^item> \<open>Refcount\<close>: releasing references in general (locale \<open>refcounted\<close>); a table is \<open>balanced\<close> when every
    count is the number of references held inside and outside. Interpreted for variables (\<open>Var_Laws\<close>) and
    for resources (\<open>Resource_Laws\<close>).
  \<^item> \<open>Data_Model\<close>: the structures of all resources (\<open>payload\<close>), of variables, instances and network tasks.
  \<^item> \<open>Var\<close>, \<open>Var_Laws\<close>, \<open>Var_Correct\<close>: \<^verbatim>\<open>ppb_var.c\<close>. \<open>Resource\<close>, \<open>Resource_Laws\<close>, \<open>Resource_Correct\<close>:
    \<^verbatim>\<open>pp_resource.c\<close> with what each destructor releases; \<open>Resource_Threads\<close>: its critical sections as steps of
    several threads. The invariant of the whole state is \<open>world_inv extR extV w\<close>: all counts are exact when
    the references \<open>extR\<close> and \<open>extV\<close> are held outside the tables, and every structure is what its type says.
  \<^item> \<open>Tables\<close>: \<^verbatim>\<open>tables.c\<close>. \<open>World_Laws\<close>, \<open>Posting\<close>: operations on variables and the posting of a callback as
    the other components see them.

  \<^bold>\<open>Threads and waiting.\<close> \<open>Message_Loop\<close> is \<^verbatim>\<open>ppb_message_loop.c\<close> and \<^verbatim>\<open>ppb_core.c\<close>: posting, the queues, nested
  runs, teardown. A run is fed a list of ticks, each the time and what other threads have posted when the
  loop looks (\<open>Running w\<close> is a run whose ticks are used up, so every theorem that a run returns gives the
  ticks it needs); callbacks are a parameter. \<open>Blocking_Call\<close> is the pattern by which a thread waits for
  another in a nested loop; \<open>Script_Objects\<close> and \<open>Proxy_Objects\<close> (\<^verbatim>\<open>n2p_proxy_class.c\<close>,
  \<^verbatim>\<open>p2n_proxy_class.c\<close>, the script part of \<^verbatim>\<open>ppb_instance.c\<close>) use it for objects of the page and of the plugin.

  \<^bold>\<open>The browser's side.\<close> \<open>Instances\<close> (\<^verbatim>\<open>NPP_New\<close>, \<^verbatim>\<open>NPP_Destroy\<close>, \<^verbatim>\<open>NPP_SetWindow\<close>, values), \<open>Events\<close> with
  \<open>Keycodes\<close> (X events to input events, \<^verbatim>\<open>keycodeconvert.c\<close>), \<open>Input_Event\<close> (\<^verbatim>\<open>ppb_input_event.c\<close>), \<open>Url_Stream\<close>
  (the streams of \<^verbatim>\<open>np_functions.c\<close>).

  \<^bold>\<open>The plugin's side.\<close> \<open>Url_Request\<close>, \<open>Url_Loader\<close> (requests, posted data, loaders, responses), \<open>Uri\<close>
  (\<^verbatim>\<open>uri_parser.c\<close>, \<^verbatim>\<open>ppb_url_util.c\<close>), \<open>Flash_File\<close> and \<open>Small_Resources\<close> (files, devices, loops of Flash, network
  monitor), \<open>Plain_Resources\<close> (views, buffers, images, audio configurations), \<open>Net_Address\<close>, \<open>Async_Network\<close> and
  \<open>Sockets\<close> (\<^verbatim>\<open>async_network.c\<close>, TCP, UDP, host names), \<open>Graphics2d\<close>, \<open>Graphics3d\<close> and \<open>Opengles2\<close>,
  \<open>Video_Capture\<close>, \<open>Audio\<close> (\<^verbatim>\<open>ppb_audio.c\<close> over any sound library, locale \<open>audio_backend\<close>, and
  \<^verbatim>\<open>audio_thread_noaudio.c\<close>, its interpretation), \<open>Desktop\<close> (cursor, input methods, menus),
  \<open>Video_Decoder\<close>, \<open>X509\<close> (certificates and their dates, against a calendar that goes from day to day).
  \<^bold>\<open>Text.\<close> \<open>Header_Parser\<close>, \<open>Encoding_Alias\<close>, \<open>Config_Parser\<close>, \<open>Paths\<close> (the two functions that resolve dot
  segments, against one specification), \<open>Print_Numbers\<close>.

  \<^bold>\<open>What is shown.\<close> The theories \<open>*_Laws\<close> hold the rules other proofs rest on, \<open>*_Correct\<close>, \<open>*_Theorems\<close> and
  \<open>*_Safe\<close> the properties. Safety: no operation on references frees what is in use or keeps what is not, also
  with several threads and for every order of network events; contexts of OpenGL are never mixed; what a
  context made is freed. Function: what a loop runs and in which order; what a reader of a response gets,
  however the browser cuts it; which bytes are posted; what a flush paints and when it calls back; what a
  camera delivers. Round trips: responses, shader sources, textures, strings. Refinement: dot segments.
  Termination: loops that need not end have theorems on when they do (\<open>copy_file\<close>, \<open>serve\<close>) or do not.
  Error theorems state where the code does not do what it means to, with a state that shows it.

  \<^bold>\<open>Bounds and fuel.\<close> Only runs of a message loop are bounded by what they are fed, as said above. Loops over
  memory are \<open>fun\<close>s on the lists; the search for a free identifier and the two loops named above are
  \<open>partial_function\<close>s whose value \<open>None\<close> is not returning.

  \<^bold>\<open>From outside.\<close> The operating system, the browser (\<open>npn_s\<close>), the plugin's functions, Cairo, OpenGL and the X
  server, Video4Linux, OpenSSL, FFmpeg, VA-API, VDPAU, the sound of the plugin, the automata that Ragel generates and the tables of X key
  symbols are parameters. What they are asked is recorded in the state where a theorem speaks of it.

  \<^bold>\<open>Not modelled.\<close> The functions \<^verbatim>\<open>trace_*\<close> print a line and call the function of the same name; no state
  depends on them. Left out as glue to a library, with no state of their own that other parts read: the
  threads of ALSA, JACK and PulseAudio, GTK dialogs, fonts, the
  window of fullscreen mode, the screen saver, loading of the plugin. The mixing of pixels when an exposure
  is answered is floating point and X requests only; the protocol around it is modelled. \<^verbatim>\<open>PROJECT.json\<close> lists
  every file.
\<close>

end
